(* ===== verification/Station_Prelude.thy ===== *)
theory Station_Prelude
  imports Main "HOL-Library.AList" "HOL-Library.Word"
begin

text \<open>
  Shared vocabulary of the development: Go's scalar types as they are used by
  Station Core, association lists standing for Go maps, the ``seen set'' loop the
  validators use, character classes of the regular expressions, the result of a
  database transaction, and the generic invariant locale for event handlers.
\<close>

section \<open>Scalars\<close>

text \<open>
  A \<open>time.Time\<close> is the number of nanoseconds since Go's zero time (1 January of
  year 1, UTC), so that \<open>IsZero\<close> is equality with \<open>0\<close>; \<open>Before\<close>, \<open>After\<close> and
  \<open>Add\<close> are \<open><\<close>, \<open>>\<close> and \<open>+\<close>. A Go string is a sequence of bytes: a \<open>string\<close>.
\<close>

type_synonym gotime = int
type_synonym duration = int
type_synonym uint64 = "64 word"

definition Second :: duration where
  "Second = 1000000000"

definition Minute :: duration where
  "Minute = 60 * Second"

definition Hour :: duration where
  "Hour = 60 * Minute"

lemma duration_values [simp]:
  "Second = 1000000000" "Minute = 60000000000" "Hour = 3600000000000"
  by (simp_all add: Second_def Minute_def Hour_def)

text \<open>
  UUIDs come from a third-party package: its parser is a parameter of the model, a
  function from a string to what the code reads of the parsed value.
\<close>

record uuid =
  uuid_String :: string
  uuid_Version :: nat
  uuid_RFC4122 :: bool
  uuid_Nil :: bool

type_synonym uuid_parser = "string \<Rightarrow> uuid option"

section \<open>Collections of rewrite rules\<close>

named_theorems mem_simps "accessor and frame equations of the observation memory"
named_theorems tx_simps "equations of transactional handlers"
named_theorems inv_intros "preservation lemmas of component invariants"

section \<open>Go maps as association lists\<close>

text \<open>
  A Go map that the code iterates over is an association list with distinct keys:
  lookup is \<open>map_of\<close>, assignment \<open>AList.update\<close>, \<open>delete\<close> is \<open>AList.delete\<close>.
\<close>

definition distinct_keys :: "('k \<times> 'v) list \<Rightarrow> bool" where
  "distinct_keys al \<longleftrightarrow> distinct (map fst al)"

definition map_vals :: "('v \<Rightarrow> 'w) \<Rightarrow> ('k \<times> 'v) list \<Rightarrow> ('k \<times> 'w) list" where
  "map_vals f al = map (\<lambda>(k, v). (k, f v)) al"

lemma map_vals_simps [simp]:
  "map_vals f [] = []"
  "map_vals f ((k, v) # al) = (k, f v) # map_vals f al"
  by (simp_all add: map_vals_def)

lemma fst_map_vals [simp]: "map fst (map_vals f al) = map fst al"
  by (induction al) (auto simp: map_vals_def)

lemma length_map_vals [simp]: "length (map_vals f al) = length al"
  by (simp add: map_vals_def)

lemma map_of_map_vals [simp]: "map_of (map_vals f al) k = map_option f (map_of al k)"
  by (induction al) auto

lemma set_map_vals: "(k, w) \<in> set (map_vals f al) \<longleftrightarrow> (\<exists>v. (k, v) \<in> set al \<and> w = f v)"
  by (auto simp: map_vals_def)

lemma distinct_keys_Nil [simp]: "distinct_keys []"
  by (simp add: distinct_keys_def)

lemma distinct_keys_Cons [simp]:
  "distinct_keys ((k, v) # al) \<longleftrightarrow> k \<notin> fst ` set al \<and> distinct_keys al"
  by (simp add: distinct_keys_def)

lemma distinct_keys_map_vals [simp]: "distinct_keys (map_vals f al) = distinct_keys al"
  by (simp add: distinct_keys_def)

lemma distinct_keys_update [simp]: "distinct_keys al \<Longrightarrow> distinct_keys (AList.update k v al)"
  by (simp add: distinct_keys_def distinct_update)

lemma distinct_keys_delete [simp]: "distinct_keys al \<Longrightarrow> distinct_keys (AList.delete k al)"
  by (simp add: distinct_keys_def distinct_delete)

lemma map_fst_filter: "map fst (filter (\<lambda>e. P (fst e)) al) = filter P (map fst al)"
  by (induction al) auto

lemma distinct_keys_filter [simp]: "distinct_keys al \<Longrightarrow> distinct_keys (filter P al)"
  by (simp add: distinct_keys_def distinct_map_filter)

lemma in_set_update:
  "(k', v') \<in> set (AList.update k v al) \<Longrightarrow> (k', v') = (k, v) \<or> (k', v') \<in> set al"
  by (induction al) (auto split: if_splits)

lemma in_set_delete: "(k', v') \<in> set (AList.delete k al) \<Longrightarrow> (k', v') \<in> set al \<and> k' \<noteq> k"
  by (auto simp: AList.delete_eq)

lemma in_set_iff_map_of:
  "distinct_keys al \<Longrightarrow> (k, v) \<in> set al \<longleftrightarrow> map_of al k = Some v"
  by (auto simp: distinct_keys_def map_of_eq_Some_iff)

lemma update_same: "map_of al k = Some v \<Longrightarrow> AList.update k v al = al"
  by (induction al) auto

lemma length_update_present:
  "map_of al k \<noteq> None \<Longrightarrow> length (AList.update k v al) = length al"
  by (induction al) auto

lemma length_update_absent:
  "map_of al k = None \<Longrightarrow> length (AList.update k v al) = Suc (length al)"
  by (induction al) auto

lemma length_update_le: "length (AList.update k v al) \<le> Suc (length al)"
  by (cases "map_of al k = None") (auto simp: length_update_present length_update_absent)

lemma length_delete_le [simp]: "length (AList.delete k al) \<le> length al"
  by (simp add: AList.delete_eq)

text \<open>The zero value a Go map returns for a missing key.\<close>

definition lookup_default :: "'v \<Rightarrow> ('k \<times> 'v) list \<Rightarrow> 'k \<Rightarrow> 'v" where
  "lookup_default d al k = (case map_of al k of None \<Rightarrow> d | Some v \<Rightarrow> v)"

lemma lookup_default_update [simp]:
  "lookup_default d (AList.update k v al) k' = (if k' = k then v else lookup_default d al k')"
  by (simp add: lookup_default_def update_conv)

lemma lookup_default_Nil [simp]: "lookup_default d [] k = d"
  by (simp add: lookup_default_def)

section \<open>Limited reads\<close>

text \<open>The bytes a read through \<open>io.LimitReader\<close> passes on.\<close>

fun limited :: "int \<Rightarrow> string \<Rightarrow> string" where
  "limited n [] = []"
| "limited n (c # cs) = (if n \<le> 0 then [] else c # limited (n - 1) cs)"

lemma limited_take: "limited n s = take (nat n) s"
proof (induction s arbitrary: n)
  case (Cons c cs)
  show ?case
  proof (cases "n \<le> 0")
    case False
    then have "nat n = Suc (nat (n - 1))" by simp
    with False Cons.IH [of "n - 1"] show ?thesis by simp
  qed simp
qed simp

section \<open>Validation loops\<close>

text \<open>
  \<open>for _, v := range xs { if !P(v) || seen[v] { fail }; seen[v] = true }\<close>: the loop
  every duplicate check of the code has, over the key each element is registered under.
\<close>

fun seen_loop :: "('a \<Rightarrow> bool) \<Rightarrow> ('a \<Rightarrow> 'k) \<Rightarrow> 'k list \<Rightarrow> 'a list \<Rightarrow> bool" where
  "seen_loop P key seen [] = True"
| "seen_loop P key seen (v # vs) =
     (if \<not> P v \<or> key v \<in> set seen then False else seen_loop P key (key v # seen) vs)"

lemma seen_loop_gen:
  "seen_loop P key seen vs \<longleftrightarrow>
     list_all P vs \<and> distinct (map key vs) \<and> key ` set vs \<inter> set seen = {}"
  by (induction vs arbitrary: seen) auto

lemma seen_loop_iff [simp]:
  "seen_loop P key [] vs \<longleftrightarrow> list_all P vs \<and> distinct (map key vs)"
  by (simp add: seen_loop_gen)

section \<open>Character classes\<close>

definition char_between :: "char \<Rightarrow> char \<Rightarrow> char \<Rightarrow> bool" where
  "char_between lo hi c \<longleftrightarrow>
     (of_char lo :: nat) \<le> of_char c \<and> (of_char c :: nat) \<le> of_char hi"

lemma char_between_int [code]:
  "char_between lo hi c \<longleftrightarrow> (of_char lo :: int) \<le> of_char c \<and> (of_char c :: int) \<le> of_char hi"
proof -
  have "(of_char x :: int) = int (of_char x)" for x :: char by (rule of_nat_of_char [symmetric])
  then show ?thesis by (simp only: char_between_def of_nat_le_iff)
qed

definition is_lower :: "char \<Rightarrow> bool" where
  "is_lower c \<longleftrightarrow> char_between CHR ''a'' CHR ''z'' c"

definition is_upper :: "char \<Rightarrow> bool" where
  "is_upper c \<longleftrightarrow> char_between CHR ''A'' CHR ''Z'' c"

definition is_digit :: "char \<Rightarrow> bool" where
  "is_digit c \<longleftrightarrow> char_between CHR ''0'' CHR ''9'' c"

definition is_lower_digit :: "char \<Rightarrow> bool" where
  "is_lower_digit c \<longleftrightarrow> is_lower c \<or> is_digit c"

definition is_hex_lower :: "char \<Rightarrow> bool" where
  "is_hex_lower c \<longleftrightarrow> is_digit c \<or> char_between CHR ''a'' CHR ''f'' c"

lemmas char_class_defs =
  char_between_def is_lower_def is_upper_def is_digit_def is_lower_digit_def is_hex_lower_def

section \<open>First rows of an ordered query\<close>

text \<open>\<open>ORDER BY key LIMIT 1\<close>: the first element with the least key.\<close>

fun min_by :: "('a \<Rightarrow> 'k :: linorder) \<Rightarrow> 'a list \<Rightarrow> 'a option" where
  "min_by key [] = None"
| "min_by key (x # xs) =
     (case min_by key xs of None \<Rightarrow> Some x | Some y \<Rightarrow> if key x \<le> key y then Some x else Some y)"

lemma min_by_None [simp]: "min_by key xs = None \<longleftrightarrow> xs = []"
  by (cases xs) (auto split: option.splits)

lemma min_by_in: "min_by key xs = Some x \<Longrightarrow> x \<in> set xs"
  by (induction xs arbitrary: x) (auto split: option.splits if_splits)

lemma min_by_least: "min_by key xs = Some x \<Longrightarrow> y \<in> set xs \<Longrightarrow> key x \<le> key y"
  by (induction xs arbitrary: x) (force split: option.splits if_splits)+

text \<open>\<open>UPDATE ... WHERE\<close>: the rows that satisfy the condition are changed.\<close>

definition update_rows :: "('a \<Rightarrow> bool) \<Rightarrow> ('a \<Rightarrow> 'a) \<Rightarrow> 'a list \<Rightarrow> 'a list" where
  "update_rows P f rows = map (\<lambda>r. if P r then f r else r) rows"

lemma update_rows_simps [simp]:
  "update_rows P f [] = []"
  "update_rows P f (r # rs) = (if P r then f r else r) # update_rows P f rs"
  by (simp_all add: update_rows_def)

lemma length_update_rows [simp]: "length (update_rows P f rows) = length rows"
  by (simp add: update_rows_def)

lemma map_update_rows: "(\<And>r. P r \<Longrightarrow> g (f r) = g r) \<Longrightarrow> map g (update_rows P f rows) = map g rows"
  by (simp add: update_rows_def)

lemma set_update_rows: "set (update_rows P f rows) = (\<lambda>r. if P r then f r else r) ` set rows"
  by (simp add: update_rows_def)

lemma find_update_rows:
  assumes "\<And>r. P r \<Longrightarrow> Q (f r) = Q r"
  shows "find Q (update_rows P f rows) = map_option (\<lambda>r. if P r then f r else r) (find Q rows)"
  using assms by (induction rows) auto

lemma find_Some_iff_set: "find P xs = Some x \<Longrightarrow> x \<in> set xs \<and> P x"
  by (induction xs) (auto split: if_splits)

lemma find_None_set: "find P xs = None \<longleftrightarrow> (\<forall>x \<in> set xs. \<not> P x)"
  by (induction xs) auto

text \<open>A lookup by a unique key finds the row that has it.\<close>

lemma find_unique:
  assumes "distinct (map k xs)" and "x \<in> set xs"
  shows "find (\<lambda>y. k y = k x) xs = Some x"
  using assms by (induction xs) (auto simp: rev_image_eqI)

text \<open>\<open>timestamptz\<close> columns hold whole microseconds.\<close>

definition pg_time :: "gotime \<Rightarrow> gotime" where
  "pg_time t = t - t mod 1000"

lemma pg_time_le: "pg_time t \<le> t"
  by (simp add: pg_time_def)

lemma pg_time_whole: "t mod 1000000000 = 0 \<Longrightarrow> pg_time t = t"
  using dvd_trans [of "1000 :: int" 1000000000 t] by (simp add: pg_time_def mod_eq_0_iff_dvd)

lemma pg_time_close: "t - 1000 < pg_time t"
  by (simp add: pg_time_def)

section \<open>Transactions\<close>

text \<open>
  The body of a database transaction ends in a commit, with the value or the fault the
  handler then returns, or in the deferred rollback, with the fault it returns. A
  database error at any call of the body also ends in the rollback: \<open>transact\<close> takes
  it as the flag \<open>db_fault\<close>, with the error value \<open>e\<close> the handler passes on.
\<close>

datatype ('e, 'a, 's) tx = Commit "'e + 'a" 's | Rollback 'e

fun transact :: "bool \<Rightarrow> 'e \<Rightarrow> ('s \<Rightarrow> ('e, 'a, 's) tx) \<Rightarrow> 's \<Rightarrow> ('e + 'a) \<times> 's" where
  "transact db_fault e body s =
     (if db_fault then (Inl e, s)
      else case body s of Commit r s' \<Rightarrow> (r, s') | Rollback e' \<Rightarrow> (Inl e', s))"

lemma transact_fault [tx_simps]: "transact True e body s = (Inl e, s)"
  by simp

lemma transact_state:
  "snd (transact f e body s) = s \<or> (\<exists>r. body s = Commit r (snd (transact f e body s)))"
  by (auto split: tx.splits)

lemma transact_preserves:
  assumes "Inv s" and "\<And>r s'. body s = Commit r s' \<Longrightarrow> Inv s'"
  shows "Inv (snd (transact f e body s))"
  using assms by (auto split: tx.splits)

section \<open>Event handlers and their invariants\<close>

text \<open>
  A component is a set of initial states and a handler \<open>step\<close> over its events. A state
  is reachable when a finite sequence of handled events leads to it.
\<close>

locale handler =
  fixes init :: "'s \<Rightarrow> bool"
    and step :: "'e \<Rightarrow> 's \<Rightarrow> 's"
begin

inductive reach :: "'s \<Rightarrow> bool" where
  reach_init: "init s \<Longrightarrow> reach s"
| reach_step: "reach s \<Longrightarrow> reach (step e s)"

definition run :: "'e list \<Rightarrow> 's \<Rightarrow> 's" where
  "run es s = fold step es s"

lemma run_reach: "reach s \<Longrightarrow> reach (run es s)"
  unfolding run_def by (induction es arbitrary: s) (auto intro: reach_step)

lemma run_append: "run (es @ fs) s = run fs (run es s)"
  by (simp add: run_def)

end

locale invariant_handler = handler init step
  for init :: "'s \<Rightarrow> bool" and step :: "'e \<Rightarrow> 's \<Rightarrow> 's" +
  fixes inv :: "'s \<Rightarrow> bool"
  assumes inv_init: "init s \<Longrightarrow> inv s"
    and inv_step: "inv s \<Longrightarrow> inv (step e s)"
begin

lemma reach_inv: "reach s \<Longrightarrow> inv s"
  by (induction rule: reach.induct) (auto intro: inv_init inv_step)

lemma run_inv: "inv s \<Longrightarrow> inv (run es s)"
  unfolding run_def by (induction es arbitrary: s) (auto intro: inv_step)

end

text \<open>
  Concurrent handlers over shared state: every step keeps the invariant and gives the
  others the guarantee \<open>G\<close>, which is what they rely on. Both then hold of every sequence
  of steps, however the handlers interleave.
\<close>

locale rely_guarantee =
  fixes inv :: "'s \<Rightarrow> bool"
    and G :: "'s \<Rightarrow> 's \<Rightarrow> bool"
    and step :: "'s \<Rightarrow> 's \<Rightarrow> bool"
  assumes G_refl: "G s s"
    and G_trans: "G s s' \<Longrightarrow> G s' s'' \<Longrightarrow> G s s''"
    and step_ok: "inv s \<Longrightarrow> step s s' \<Longrightarrow> inv s' \<and> G s s'"
begin

lemma steps_ok: "step\<^sup>*\<^sup>* s s' \<Longrightarrow> inv s \<Longrightarrow> inv s' \<and> G s s'"
  by (induction rule: rtranclp_induct) (use G_refl G_trans step_ok in blast)+

end

end
