(* ===== verification/AppState_Eval.thy ===== *)
theory AppState_Eval
  imports Station_Prelude
begin

text \<open>
  The pure part of \<^verbatim>\<open>internal/appstate\<close>: the wire types of the collector protocol,
  the runtime view of one observation (\<^verbatim>\<open>state.go\<close>), the collector configuration
  and the evaluation of a workload observation (\<^verbatim>\<open>collector_protocol.go\<close>), and the
  validation of stream frames (\<^verbatim>\<open>memory_validation.go\<close>).
\<close>

section \<open>Wire types\<close>

record ResourceImage =
  ri_Component :: string
  ri_Image :: string

record ResourceDiscovery =
  rd_Enabled :: bool
  rd_AppID :: string
  rd_GroupID :: string
  rd_Brand :: string
  rd_Version :: string
  rd_DisplayName :: string
  rd_Models :: string
  rd_Source :: string

text \<open>A nil slice of images is \<open>None\<close>.\<close>

record ResourceMetadata =
  rm_OwnershipMarked :: bool
  rm_TemplateHash :: string
  rm_ImagesComplete :: bool
  rm_Images :: "ResourceImage list option"
  rm_Discovery :: ResourceDiscovery

record ResourceObservation =
  ro_Namespace :: string
  ro_Name :: string
  ro_UID :: string
  ro_ResourceVersion :: string
  ro_StationID :: string
  ro_OrganizationID :: string
  ro_InstallationID :: string
  ro_AppID :: string
  ro_Generation :: int
  ro_ObservedGeneration :: int
  ro_Desired :: int
  ro_Replicas :: int
  ro_Ready :: int
  ro_Updated :: int
  ro_Available :: int
  ro_ProgressFailed :: bool
  ro_ReplicaFailed :: bool
  ro_Terminating :: bool
  ro_Deleted :: bool
  ro_Health :: string
  ro_InstanceID :: string
  ro_Metadata :: "ResourceMetadata option"

text \<open>The frame of an HTTP health probe result.\<close>

record HealthFrame =
  hf_Namespace :: string
  hf_Name :: string
  hf_UID :: string
  hf_ResourceVersion :: string
  hf_Health :: string

section \<open>Runtime views\<close>

record Runtime =
  rt_State :: string
  rt_Quality :: string
  rt_ReasonCode :: string
  rt_ObservedAt :: "gotime option"
  rt_ExpiresAt :: "gotime option"
  rt_LastKnownState :: "string option"

definition RuntimeView ::
  "gotime \<Rightarrow> string option \<Rightarrow> string option \<Rightarrow> gotime option \<Rightarrow> gotime option \<Rightarrow> bool \<Rightarrow> Runtime" where
  "RuntimeView now state reason received expires expired =
     (let out = \<lparr>rt_State = ''unknown'', rt_Quality = ''unknown'', rt_ReasonCode = ''NOT_OBSERVED'',
                 rt_ObservedAt = received, rt_ExpiresAt = expires, rt_LastKnownState = None\<rparr>
      in case (state, reason, received, expires) of
           (Some s, Some r, Some rec, Some ex) \<Rightarrow>
             (if \<not> ex > rec \<or> rec > now then out\<lparr>rt_ReasonCode := ''INVALID_OBSERVATION''\<rparr>
              else let out = (if s \<noteq> ''unknown'' then out\<lparr>rt_LastKnownState := Some s\<rparr> else out)
                   in if expired \<or> \<not> now < ex then out\<lparr>rt_ReasonCode := ''OBSERVATION_EXPIRED''\<rparr>
                      else let out = out\<lparr>rt_State := s, rt_ReasonCode := r\<rparr>
                           in if s \<noteq> ''unknown'' then out\<lparr>rt_Quality := ''known''\<rparr> else out)
         | _ \<Rightarrow> out)"

section \<open>Collector configuration\<close>

record Collector =
  col_ID :: string
  col_Namespaces :: "string list"
  col_HealthRequiredApps :: "string list"

text \<open>\<open>appIDPattern\<close>: \<^verbatim>\<open>^[a-z0-9]([-a-z0-9]*[a-z0-9])?$\<close>.\<close>

definition appIDPattern :: "string \<Rightarrow> bool" where
  "appIDPattern v \<longleftrightarrow> v \<noteq> [] \<and> is_lower_digit (hd v) \<and> is_lower_digit (last v)
     \<and> list_all (\<lambda>c. is_lower_digit c \<or> c = CHR ''-'') v"

definition dns :: "string \<Rightarrow> bool" where
  "dns v \<longleftrightarrow> 0 < length v \<and> length v \<le> 63 \<and> appIDPattern v"

text \<open>\<open>appIdentifier\<close>: \<^verbatim>\<open>^[a-z0-9][a-z0-9._-]{0,127}$\<close>.\<close>

definition appIdentifier :: "string \<Rightarrow> bool" where
  "appIdentifier v \<longleftrightarrow> v \<noteq> [] \<and> length v \<le> 128 \<and> is_lower_digit (hd v)
     \<and> list_all (\<lambda>c. is_lower_digit c \<or> c \<in> {CHR ''.'', CHR ''_'', CHR ''-''}) (tl v)"

definition Collector_valid :: "Collector \<Rightarrow> bool" where
  "Collector_valid c =
     (if \<not> dns (col_ID c) \<or> length (col_Namespaces c) = 0 \<or> length (col_Namespaces c) > 128
         \<or> length (col_HealthRequiredApps c) > 1000
      then False
      else if \<not> seen_loop dns (\<lambda>v. v) [] (col_Namespaces c) then False
      else seen_loop appIdentifier (\<lambda>v. v) [] (col_HealthRequiredApps c))"

section \<open>Evaluation of a workload\<close>

definition evaluate :: "ResourceObservation \<Rightarrow> bool \<Rightarrow> string \<times> string" where
  "evaluate ob healthRequired =
     (if ro_Deleted ob then (''absent'', ''RESOURCE_ABSENT'')
      else if ro_Terminating ob then (''stopping'', ''RESOURCE_TERMINATING'')
      else if ro_ObservedGeneration ob > ro_Generation ob then (''unknown'', ''INVALID_OBSERVATION'')
      else if ro_Desired ob = 0 then
        (if ro_Replicas ob = 0 then (''stopped'', ''SCALED_TO_ZERO'')
         else (''stopping'', ''REPLICAS_TERMINATING''))
      else if ro_ProgressFailed ob then (''degraded'', ''PROGRESS_DEADLINE_EXCEEDED'')
      else if ro_ReplicaFailed ob then (''degraded'', ''REPLICA_FAILURE'')
      else if ro_Health ob = ''failed'' then (''degraded'', ''HEALTH_CHECK_FAILED'')
      else if ro_Generation ob < 1 \<or> ro_ObservedGeneration ob < ro_Generation ob
              \<or> ro_Replicas ob \<noteq> ro_Desired ob \<or> ro_Ready ob \<noteq> ro_Desired ob
              \<or> ro_Updated ob \<noteq> ro_Desired ob \<or> ro_Available ob \<noteq> ro_Desired ob
           then (''starting'', ''REPLICAS_NOT_READY'')
      else if healthRequired \<and> ro_Health ob \<noteq> ''ready'' then (''unknown'', ''HEALTH_NOT_OBSERVED'')
      else (''ready'', ''READY''))"

section \<open>Validation of stream frames\<close>

text \<open>
  \<open>dns1123\<close> stands for \<^verbatim>\<open>len(validation.IsDNS1123Subdomain(name)) == 0\<close> of the
  Kubernetes library, which is not part of this repository.
\<close>

definition validStreamLocation ::
  "(string \<Rightarrow> bool) \<Rightarrow> string \<Rightarrow> string \<Rightarrow> string \<Rightarrow> Collector \<Rightarrow> bool" where
  "validStreamLocation dns1123 ns name uid c \<longleftrightarrow>
     dns ns \<and> ns \<in> set (col_Namespaces c) \<and> dns1123 name \<and> length uid > 0 \<and> length uid \<le> 128"

definition validStreamMetadata :: "ResourceMetadata \<Rightarrow> bool" where
  "validStreamMetadata m =
     (case rm_Images m of
        None \<Rightarrow> False
      | Some images \<Rightarrow>
          (if length (rm_TemplateHash m) > 128 \<or> length images > 64
              \<or> (\<not> rm_ImagesComplete m \<and> length images \<noteq> 0) \<or> (rm_ImagesComplete m \<and> length images = 0)
           then False
           else if \<not> seen_loop (\<lambda>i. dns (ri_Component i) \<and> length (ri_Image i) \<noteq> 0 \<and> length (ri_Image i) \<le> 2048)
                     ri_Component [] images
           then False
           else let d = rm_Discovery m
                in \<not> (length (rd_AppID d) > 128 \<or> length (rd_GroupID d) > 128 \<or> length (rd_Brand d) > 128
                      \<or> length (rd_Version d) > 128 \<or> length (rd_DisplayName d) > 512
                      \<or> length (rd_Models d) > 4096 \<or> length (rd_Source d) > 1024)))"

definition validStreamResource :: "(string \<Rightarrow> bool) \<Rightarrow> ResourceObservation \<Rightarrow> Collector \<Rightarrow> bool" where
  "validStreamResource dns1123 ob c =
     (if \<not> validStreamLocation dns1123 (ro_Namespace ob) (ro_Name ob) (ro_UID ob) c
         \<or> length (ro_ResourceVersion ob) = 0 \<or> length (ro_ResourceVersion ob) > 256
         \<or> ro_Generation ob < 0 \<or> ro_ObservedGeneration ob < 0 \<or> ro_Desired ob < 0 \<or> ro_Replicas ob < 0
         \<or> ro_Ready ob < 0 \<or> ro_Updated ob < 0 \<or> ro_Available ob < 0
         \<or> ro_Health ob \<notin> {''not_checked'', ''ready'', ''failed''}
      then False
      else if \<exists>i \<in> set [ro_StationID ob, ro_OrganizationID ob, ro_InstallationID ob, ro_AppID ob, ro_InstanceID ob].
                 length i > 128
      then False
      else case ro_Metadata ob of None \<Rightarrow> True | Some m \<Rightarrow> validStreamMetadata m)"

section \<open>Facts the memory relies on\<close>

lemma Collector_valid_iff:
  "Collector_valid c \<longleftrightarrow>
     dns (col_ID c) \<and> col_Namespaces c \<noteq> [] \<and> length (col_Namespaces c) \<le> 128
     \<and> length (col_HealthRequiredApps c) \<le> 1000
     \<and> list_all dns (col_Namespaces c) \<and> distinct (col_Namespaces c)
     \<and> list_all appIdentifier (col_HealthRequiredApps c) \<and> distinct (col_HealthRequiredApps c)"
  by (auto simp: Collector_valid_def)

lemma validStreamResource_location:
  "validStreamResource d ob c \<Longrightarrow> validStreamLocation d (ro_Namespace ob) (ro_Name ob) (ro_UID ob) c"
  by (auto simp: validStreamResource_def split: if_splits)

lemma validStreamResource_namespace:
  "validStreamResource d ob c \<Longrightarrow> ro_Namespace ob \<in> set (col_Namespaces c)"
  by (drule validStreamResource_location) (simp add: validStreamLocation_def)

lemma evaluate_known_reason:
  "evaluate ob h = (''unknown'', r) \<Longrightarrow> r = ''INVALID_OBSERVATION'' \<or> r = ''HEALTH_NOT_OBSERVED''"
  by (auto simp: evaluate_def split: if_splits)

text \<open>Components do not contain a slash, so the key \<open>namespace/name\<close> determines both parts.\<close>

definition resource_key :: "string \<Rightarrow> string \<Rightarrow> string" where
  "resource_key ns name = ns @ ''/'' @ name"

lemma dns_no_slash: "dns v \<Longrightarrow> CHR ''/'' \<notin> set v"
  by (auto simp: dns_def appIDPattern_def list_all_iff char_class_defs)

lemma slash_split:
  assumes "CHR ''/'' \<notin> set a" and "CHR ''/'' \<notin> set b" and "resource_key a x = resource_key b y"
  shows "a = b \<and> x = y"
proof -
  have hd_part: "takeWhile (\<lambda>c. c \<noteq> CHR ''/'') (resource_key u v) = u" if "CHR ''/'' \<notin> set u" for u v
    using that by (induction u) (auto simp: resource_key_def)
  from assms have "a = b" by (metis hd_part)
  with assms(3) show ?thesis by (simp add: resource_key_def)
qed

lemma resource_key_inj:
  "dns a \<Longrightarrow> dns b \<Longrightarrow> resource_key a x = resource_key b y \<longleftrightarrow> a = b \<and> x = y"
  by (auto dest: slash_split [OF dns_no_slash dns_no_slash])

end
