(* ===== verification/Memory.thy ===== *)
theory Memory
  imports AppState_Eval
begin

text \<open>
  The observation memory of \<^verbatim>\<open>internal/appstate/memory.go\<close>: collectors and their
  inventories, stream sessions, installation bindings, and the projection of observed
  workloads onto bindings. Pointers to sessions are addresses into the list
  \<open>m_sessions\<close>, which only grows; a pointer to a collector is its configured ID.
  The clock \<open>m.now()\<close> is the argument \<open>now\<close> of every operation.
\<close>

section \<open>State\<close>

definition observationTTL :: duration where
  "observationTTL = 30 * Second"

definition fullSyncInterval :: duration where
  "fullSyncInterval = 60 * Second"

definition maxInventory :: nat where
  "maxInventory = 10000"

definition maxBindings :: nat where
  "maxBindings = 1000"

datatype stream_error = ErrCollectorBusy | ErrStreamClosed | ErrStreamFrame | ErrLimit

text \<open>
  Code outside the repository: the UUID parser, the Kubernetes name check, and the hex
  SHA-256 digest of a JSON encoding (of the metadata, and of a list of strings).
\<close>

record memory_ext =
  me_uuid :: uuid_parser
  me_dns1123 :: "string \<Rightarrow> bool"
  me_metadata_digest :: "ResourceMetadata option \<Rightarrow> string"
  me_digest :: "string list \<Rightarrow> string"

definition validID :: "uuid_parser \<Rightarrow> string \<Rightarrow> bool" where
  "validID parse v = (case parse v of None \<Rightarrow> False | Some u \<Rightarrow> \<not> uuid_Nil u \<and> uuid_String u = v)"

record memoryResource =
  mr_obs :: ResourceObservation
  mr_received :: gotime
  mr_expires :: gotime
  mr_healthExpires :: gotime
  mr_metadataDigest :: string

type_synonym inventory = "(string \<times> memoryResource) list"

record memoryCollector =
  mc_config :: Collector
  mc_active :: "nat option"
  mc_objects :: inventory
  mc_lastFull :: gotime
  mc_inventoryAt :: gotime
  mc_inventoryExpires :: gotime

record Binding =
  b_InstallationID :: string
  b_OrganizationID :: string
  b_AppID :: string

record memoryBinding =
  mb_Binding :: Binding
  mb_collector :: string
  mb_namespace :: string
  mb_name :: string
  mb_uid :: string
  mb_absentAt :: gotime
  mb_absentExpires :: gotime
  mb_view :: Runtime
  mb_revision :: uint64
  mb_semantic :: string

record MemoryView =
  mv_Runtime :: Runtime
  mv_Revision :: string
  mv_Resource :: "ResourceObservation option"

record StreamSession =
  ss_collector :: string
  ss_id :: string
  ss_lastFrame :: gotime
  ss_synced :: bool
  ss_closed :: bool
  ss_syncID :: string
  ss_started :: gotime
  ss_staging :: "inventory option"

record legacyBinding =
  lb_BindingID :: string
  lb_AppID :: string
  lb_OrganizationID :: string
  lb_StationID :: string
  lb_ObservationKey :: string
  lb_WorkloadUID :: string
  lb_namespace :: string
  lb_name :: string

record Memory =
  m_station :: string
  m_boot :: string
  m_collectors :: "(string \<times> memoryCollector) list"
  m_bindings :: "(string \<times> memoryBinding) list"
  m_scopeRevision :: "(string \<times> uint64) list"
  m_legacy :: "legacyBinding list"
  m_sessions :: "StreamSession list"

definition empty_Runtime :: Runtime where
  "empty_Runtime = \<lparr>rt_State = [], rt_Quality = [], rt_ReasonCode = [], rt_ObservedAt = None,
     rt_ExpiresAt = None, rt_LastKnownState = None\<rparr>"

text \<open>Dereferencing a session and its collector.\<close>

definition session_at :: "Memory \<Rightarrow> nat \<Rightarrow> StreamSession" where
  "session_at m p = m_sessions m ! p"

definition collector_of :: "Memory \<Rightarrow> nat \<Rightarrow> memoryCollector" where
  "collector_of m p = the (map_of (m_collectors m) (ss_collector (session_at m p)))"

definition set_session :: "nat \<Rightarrow> StreamSession \<Rightarrow> Memory \<Rightarrow> Memory" where
  "set_session p s m = m\<lparr>m_sessions := (m_sessions m)[p := s]\<rparr>"

definition set_collector :: "string \<Rightarrow> memoryCollector \<Rightarrow> Memory \<Rightarrow> Memory" where
  "set_collector cid c m = m\<lparr>m_collectors := AList.update cid c (m_collectors m)\<rparr>"

section \<open>Construction\<close>

fun add_collectors ::
  "Collector list \<Rightarrow> string list \<Rightarrow> (string \<times> memoryCollector) list
     \<Rightarrow> stream_error + (string \<times> memoryCollector) list" where
  "add_collectors [] seen acc = Inr acc"
| "add_collectors (c # cs) seen acc =
     (if \<not> Collector_valid c \<or> map_of acc (col_ID c) \<noteq> None then Inl ErrStreamFrame
      else if \<not> seen_loop (\<lambda>_. True) (\<lambda>ns. ns) seen (col_Namespaces c) then Inl ErrStreamFrame
      else add_collectors cs (rev (col_Namespaces c) @ seen)
             (AList.update (col_ID c)
                \<lparr>mc_config = c, mc_active = None, mc_objects = [], mc_lastFull = 0,
                 mc_inventoryAt = 0, mc_inventoryExpires = 0\<rparr> acc))"

text \<open>\<open>boot\<close> is the fresh UUID of the process.\<close>

definition NewMemory :: "memory_ext \<Rightarrow> string \<Rightarrow> string \<Rightarrow> Collector list \<Rightarrow> stream_error + Memory" where
  "NewMemory E station boot collectors =
     (if \<not> validID (me_uuid E) station \<or> length collectors > 128 then Inl ErrStreamFrame
      else case add_collectors collectors [] [] of
             Inl e \<Rightarrow> Inl e
           | Inr cs \<Rightarrow> Inr \<lparr>m_station = station, m_boot = boot, m_collectors = cs, m_bindings = [],
                           m_scopeRevision = [], m_legacy = [], m_sessions = []\<rparr>)"

section \<open>Sessions\<close>

definition StreamSession_live :: "Memory \<Rightarrow> nat \<Rightarrow> gotime \<Rightarrow> bool" where
  "StreamSession_live m p now =
     (let s = session_at m p
      in \<not> ss_closed s \<and> mc_active (collector_of m p) = Some p \<and> now < ss_lastFrame s + observationTTL
         \<and> (ss_staging s = None \<or> now < ss_started s + observationTTL))"

definition closeLocked :: "nat \<Rightarrow> Memory \<Rightarrow> Memory" where
  "closeLocked p m =
     (let s = session_at m p;
          c = collector_of m p;
          m = set_session p (s\<lparr>ss_closed := True, ss_staging := None, ss_syncID := []\<rparr>) m
      in if mc_active c = Some p then set_collector (ss_collector s) (c\<lparr>mc_active := None\<rparr>) m else m)"

text \<open>\<open>sid\<close> is the fresh session UUID; the result is the address of the new session.\<close>

definition Memory_Open :: "string \<Rightarrow> string \<Rightarrow> gotime \<Rightarrow> Memory \<Rightarrow> (stream_error + nat) \<times> Memory" where
  "Memory_Open sid collector now m =
     (case map_of (m_collectors m) collector of
        None \<Rightarrow> (Inl ErrStreamFrame, m)
      | Some c \<Rightarrow>
          (let old = mc_active c
           in if (case old of None \<Rightarrow> False | Some p \<Rightarrow> StreamSession_live m p now)
              then (Inl ErrCollectorBusy, m)
              else let m = (case old of None \<Rightarrow> m | Some p \<Rightarrow> closeLocked p m);
                       p = length (m_sessions m);
                       s = \<lparr>ss_collector = collector, ss_id = sid, ss_lastFrame = now, ss_synced = False,
                            ss_closed = False, ss_syncID = [], ss_started = 0, ss_staging = None\<rparr>;
                       c = the (map_of (m_collectors m) collector);
                       m = m\<lparr>m_sessions := m_sessions m @ [s]\<rparr>
                   in (Inr p, set_collector collector (c\<lparr>mc_active := Some p\<rparr>) m)))"

definition StreamSession_Close :: "nat \<Rightarrow> Memory \<Rightarrow> Memory" where
  "StreamSession_Close p m = closeLocked p m"

definition StreamSession_Deadline :: "Memory \<Rightarrow> nat \<Rightarrow> gotime" where
  "StreamSession_Deadline m p =
     (let s = session_at m p; deadline = ss_lastFrame s + observationTTL
      in if ss_staging s \<noteq> None \<and> ss_started s + observationTTL < deadline
         then ss_started s + observationTTL else deadline)"

section \<open>Projection\<close>

type_synonym memoryCandidate = "memoryCollector \<times> memoryResource"

text \<open>The candidates of an installation: the \<open>index\<close> of \<open>projectAll\<close> at its ID.\<close>

definition candidates_for :: "string \<Rightarrow> (string \<times> memoryCollector) list \<Rightarrow> string \<Rightarrow> memoryCandidate list" where
  "candidates_for station cs inst =
     concat (map (\<lambda>(_, c). map (\<lambda>(_, r). (c, r))
       (filter (\<lambda>(_, r). ro_StationID (mr_obs r) = station \<and> ro_InstanceID (mr_obs r) = []
                  \<and> ro_InstallationID (mr_obs r) \<noteq> [] \<and> ro_InstallationID (mr_obs r) = inst)
          (mc_objects c))) cs)"

definition unknown_Runtime :: "string \<Rightarrow> Runtime" where
  "unknown_Runtime reason = \<lparr>rt_State = ''unknown'', rt_Quality = ''unknown'', rt_ReasonCode = reason,
     rt_ObservedAt = None, rt_ExpiresAt = None, rt_LastKnownState = None\<rparr>"

text \<open>A health sample whose own deadline passed counts as not checked.\<close>

definition effective_fact :: "memoryResource \<Rightarrow> gotime \<Rightarrow> ResourceObservation" where
  "effective_fact r now =
     (if now < mr_expires r \<and> \<not> now < mr_healthExpires r
      then (mr_obs r)\<lparr>ro_Health := ''not_checked''\<rparr> else mr_obs r)"

text \<open>The candidates that also carry the binding's organization and app.\<close>

definition matching :: "Binding \<Rightarrow> memoryCandidate list \<Rightarrow> memoryCandidate list" where
  "matching b resources =
     filter (\<lambda>(_, r). ro_OrganizationID (mr_obs r) = b_OrganizationID b \<and> ro_AppID (mr_obs r) = b_AppID b) resources"

text \<open>
  A candidate at another place conflicts with the recorded location while an object is
  still present there.
\<close>

definition moved_conflict :: "(string \<times> memoryCollector) list \<Rightarrow> memoryBinding \<Rightarrow> memoryCandidate \<Rightarrow> bool" where
  "moved_conflict cs b cand =
     (case cand of (c, r) \<Rightarrow>
        mb_collector b \<noteq> []
        \<and> (mb_collector b \<noteq> col_ID (mc_config c) \<or> mb_namespace b \<noteq> ro_Namespace (mr_obs r) \<or> mb_name b \<noteq> ro_Name (mr_obs r))
        \<and> (case map_of cs (mb_collector b) of
             None \<Rightarrow> False
           | Some oldc \<Rightarrow> map_of (mc_objects oldc) (resource_key (mb_namespace b) (mb_name b)) \<noteq> None))"

text \<open>\<open>project\<close> returns the view and the binding with the location it recorded.\<close>

definition project ::
  "(string \<times> memoryCollector) list \<Rightarrow> memoryBinding \<Rightarrow> gotime \<Rightarrow> memoryCandidate list
     \<Rightarrow> Runtime \<times> memoryBinding" where
  "project cs b now resources =
     (case matching (mb_Binding b) resources of
           _ # _ # _ \<Rightarrow> (unknown_Runtime ''IDENTITY_CONFLICT'', b)
         | [(c, r)] \<Rightarrow>
             (let ob = mr_obs r
              in if moved_conflict cs b (c, r) then (unknown_Runtime ''IDENTITY_CONFLICT'', b)
                 else let b = b\<lparr>mb_collector := col_ID (mc_config c), mb_namespace := ro_Namespace ob,
                                mb_name := ro_Name ob, mb_uid := ro_UID ob,
                                mb_absentAt := 0, mb_absentExpires := 0\<rparr>;
                          required = b_AppID (mb_Binding b) \<in> set (col_HealthRequiredApps (mc_config c));
                          (state, reason) = evaluate (effective_fact r now) required
                      in (RuntimeView now (Some state) (Some reason) (Some (mr_received r)) (Some (mr_expires r)) False, b))
         | [] \<Rightarrow>
             (if mb_collector b = [] then (unknown_Runtime ''NOT_SYNCED'', b)
              else case map_of cs (mb_collector b) of
                     None \<Rightarrow> (unknown_Runtime ''COLLECTOR_SCOPE_CHANGED'', b)
                   | Some c \<Rightarrow>
                       if mb_namespace b \<notin> set (col_Namespaces (mc_config c))
                       then (unknown_Runtime ''COLLECTOR_SCOPE_CHANGED'', b)
                       else case map_of (mc_objects c) (resource_key (mb_namespace b) (mb_name b)) of
                              Some r \<Rightarrow> (RuntimeView now (Some ''unknown'') (Some ''IDENTITY_CONFLICT'')
                                            (Some (mr_received r)) (Some (mr_expires r)) False, b)
                            | None \<Rightarrow>
                                if mb_absentAt b \<noteq> 0
                                then (RuntimeView now (Some ''absent'') (Some ''RESOURCE_ABSENT'')
                                        (Some (mb_absentAt b)) (Some (mb_absentExpires b)) False, b)
                                else (unknown_Runtime ''NOT_SYNCED'', b)))"

text \<open>The exact resource a binding is located at: the shared guard of views and revisions.\<close>

definition bound_resource ::
  "string \<Rightarrow> (string \<times> memoryCollector) list \<Rightarrow> memoryBinding \<Rightarrow> memoryResource option" where
  "bound_resource station cs b =
     (case map_of cs (mb_collector b) of
        None \<Rightarrow> None
      | Some c \<Rightarrow>
          (case map_of (mc_objects c) (resource_key (mb_namespace b) (mb_name b)) of
             None \<Rightarrow> None
           | Some r \<Rightarrow>
               (let ob = mr_obs r
                in if ro_UID ob = mb_uid b \<and> ro_StationID ob = station
                      \<and> ro_OrganizationID ob = b_OrganizationID (mb_Binding b)
                      \<and> ro_AppID ob = b_AppID (mb_Binding b)
                      \<and> ro_InstallationID ob = b_InstallationID (mb_Binding b) \<and> ro_InstanceID ob = []
                   then Some r else None)))"

definition semantic_of :: "memoryBinding \<Rightarrow> Runtime \<Rightarrow> memoryResource option \<Rightarrow> string" where
  "semantic_of b v r =
     mb_uid b @ ''/'' @ rt_State v @ ''/'' @ rt_Quality v @ ''/'' @ rt_ReasonCode v @ ''/''
     @ (case rt_LastKnownState v of None \<Rightarrow> [] | Some x \<Rightarrow> x)
     @ (case r of None \<Rightarrow> [] | Some r \<Rightarrow> ''/'' @ mr_metadataDigest r)"

text \<open>The body of \<open>projectAll\<close>'s loop for one binding.\<close>

definition project_binding ::
  "string \<Rightarrow> (string \<times> memoryCollector) list \<Rightarrow> gotime
     \<Rightarrow> memoryBinding \<Rightarrow> (string \<times> uint64) list \<Rightarrow> memoryBinding \<times> (string \<times> uint64) list" where
  "project_binding station cs now b scopes =
     (let prev = mb_view b;
          (v, b) = project cs b now (candidates_for station cs (b_InstallationID (mb_Binding b)));
          v = (if rt_ReasonCode v = ''HEALTH_NOT_OBSERVED'' \<and> rt_LastKnownState prev \<noteq> None
               then v\<lparr>rt_LastKnownState := rt_LastKnownState prev\<rparr> else v);
          semantic = semantic_of b v (bound_resource station cs b);
          org = b_OrganizationID (mb_Binding b)
      in if semantic \<noteq> mb_semantic b
         then (b\<lparr>mb_semantic := semantic, mb_revision := mb_revision b + 1, mb_view := v\<rparr>,
               AList.update org (lookup_default 0 scopes org + 1) scopes)
         else (b\<lparr>mb_view := v\<rparr>, scopes))"

fun project_bindings ::
  "string \<Rightarrow> (string \<times> memoryCollector) list \<Rightarrow> gotime
     \<Rightarrow> (string \<times> memoryBinding) list \<Rightarrow> (string \<times> uint64) list
     \<Rightarrow> (string \<times> memoryBinding) list \<times> (string \<times> uint64) list" where
  "project_bindings station cs now [] scopes = ([], scopes)"
| "project_bindings station cs now ((k, b) # bs) scopes =
     (let (b', scopes') = project_binding station cs now b scopes;
          (bs', scopes'') = project_bindings station cs now bs scopes'
      in ((k, b') # bs', scopes''))"

definition projectAll :: "gotime \<Rightarrow> Memory \<Rightarrow> Memory" where
  "projectAll now m =
     (let (bs, scopes) = project_bindings (m_station m) (m_collectors m) now (m_bindings m) (m_scopeRevision m)
      in m\<lparr>m_bindings := bs, m_scopeRevision := scopes\<rparr>)"

section \<open>Frames\<close>

text \<open>
  \<open>apply\<close> runs the frame body \<open>fn\<close> on a live session; an error of the body is returned
  before the body changed anything, so it carries no state.
\<close>

definition StreamSession_apply ::
  "(gotime \<Rightarrow> Memory \<Rightarrow> stream_error + Memory) \<Rightarrow> nat \<Rightarrow> gotime \<Rightarrow> Memory \<Rightarrow> stream_error option \<times> Memory" where
  "StreamSession_apply fn p now m =
     (if \<not> StreamSession_live m p now then (Some ErrStreamClosed, closeLocked p m)
      else case fn now m of
             Inl e \<Rightarrow> (Some e, closeLocked p m)
           | Inr m' \<Rightarrow> (None, projectAll now (set_session p ((session_at m' p)\<lparr>ss_lastFrame := now\<rparr>) m')))"

definition Begin_body :: "memory_ext \<Rightarrow> nat \<Rightarrow> string \<Rightarrow> gotime \<Rightarrow> Memory \<Rightarrow> stream_error + Memory" where
  "Begin_body E p syncID now m =
     (let s = session_at m p
      in if \<not> validID (me_uuid E) syncID \<or> ss_staging s \<noteq> None then Inl ErrStreamFrame
         else Inr (set_session p (s\<lparr>ss_syncID := syncID, ss_started := now, ss_staging := Some []\<rparr>) m))"

definition sampled :: "memory_ext \<Rightarrow> ResourceObservation \<Rightarrow> gotime \<Rightarrow> memoryResource" where
  "sampled E ob now =
     \<lparr>mr_obs = ob, mr_received = now, mr_expires = now + observationTTL,
      mr_healthExpires = now + observationTTL, mr_metadataDigest = me_metadata_digest E (ro_Metadata ob)\<rparr>"

definition StreamSession_sample ::
  "memory_ext \<Rightarrow> Memory \<Rightarrow> nat \<Rightarrow> ResourceObservation \<Rightarrow> gotime \<Rightarrow> memoryResource" where
  "StreamSession_sample E m p ob now =
     (let nxt = sampled E ob now
      in if ss_synced (session_at m p) \<and> ro_Health ob = ''not_checked''
         then case map_of (mc_objects (collector_of m p)) (resource_key (ro_Namespace ob) (ro_Name ob)) of
                None \<Rightarrow> nxt
              | Some old \<Rightarrow>
                  (if (mr_obs old)\<lparr>ro_Health := ''not_checked''\<rparr> = ob
                   then nxt\<lparr>mr_obs := ob\<lparr>ro_Health := ro_Health (mr_obs old)\<rparr>, mr_healthExpires := mr_healthExpires old\<rparr>
                   else nxt)
         else nxt)"

definition obs_key :: "ResourceObservation \<Rightarrow> string" where
  "obs_key ob = resource_key (ro_Namespace ob) (ro_Name ob)"

definition Objects_body ::
  "memory_ext \<Rightarrow> nat \<Rightarrow> string \<Rightarrow> ResourceObservation list \<Rightarrow> gotime \<Rightarrow> Memory \<Rightarrow> stream_error + Memory" where
  "Objects_body E p syncID objects now m =
     (let s = session_at m p; c = collector_of m p
      in case ss_staging s of
           None \<Rightarrow> Inl ErrStreamFrame
         | Some staging \<Rightarrow>
             if syncID \<noteq> ss_syncID s \<or> length objects = 0 \<or> length objects > 500 then Inl ErrStreamFrame
             else if length staging + length objects > maxInventory then Inl ErrLimit
             else if \<not> seen_loop (\<lambda>ob. validStreamResource (me_dns1123 E) ob (mc_config c) \<and> \<not> ro_Deleted ob
                                    \<and> map_of staging (obs_key ob) = None) obs_key [] objects
             then Inl ErrStreamFrame
             else Inr (set_session p (s\<lparr>ss_staging :=
                    Some (fold (\<lambda>ob st. AList.update (obs_key ob) (StreamSession_sample E m p ob now) st) objects staging)\<rparr>) m))"

definition Health_body :: "memory_ext \<Rightarrow> nat \<Rightarrow> HealthFrame \<Rightarrow> gotime \<Rightarrow> Memory \<Rightarrow> stream_error + Memory" where
  "Health_body E p f now m =
     (let s = session_at m p; c = collector_of m p
      in if \<not> ss_synced s \<or> ss_staging s \<noteq> None
            \<or> \<not> validStreamLocation (me_dns1123 E) (hf_Namespace f) (hf_Name f) (hf_UID f) (mc_config c)
            \<or> length (hf_ResourceVersion f) = 0 \<or> length (hf_ResourceVersion f) > 256
            \<or> (hf_Health f \<noteq> ''ready'' \<and> hf_Health f \<noteq> ''failed'')
         then Inl ErrStreamFrame
         else let key = resource_key (hf_Namespace f) (hf_Name f)
              in case map_of (mc_objects c) key of
                   None \<Rightarrow> Inr m
                 | Some r \<Rightarrow>
                     (let ob = mr_obs r
                      in if ro_Deleted ob \<or> ro_UID ob \<noteq> hf_UID f \<or> ro_ResourceVersion ob \<noteq> hf_ResourceVersion f
                            \<or> ro_InstanceID ob \<noteq> [] \<or> ro_Terminating ob \<or> ro_Desired ob = 0
                         then Inr m
                         else Inr (set_collector (ss_collector s)
                                (c\<lparr>mc_objects := AList.update key
                                     (r\<lparr>mr_obs := ob\<lparr>ro_Health := hf_Health f\<rparr>, mr_healthExpires := now + observationTTL\<rparr>)
                                     (mc_objects c)\<rparr>) m)))"

text \<open>Marking the bindings that satisfy \<open>P\<close> as absent since \<open>now\<close>.\<close>

definition mark_absent :: "(memoryBinding \<Rightarrow> bool) \<Rightarrow> gotime \<Rightarrow> Memory \<Rightarrow> Memory" where
  "mark_absent P now m =
     m\<lparr>m_bindings := map_vals (\<lambda>b. if P b then b\<lparr>mb_absentAt := now, mb_absentExpires := now + observationTTL\<rparr> else b)
                      (m_bindings m)\<rparr>"

definition End_body :: "nat \<Rightarrow> string \<Rightarrow> int \<Rightarrow> gotime \<Rightarrow> Memory \<Rightarrow> stream_error + Memory" where
  "End_body p syncID count now m =
     (let s = session_at m p; c = collector_of m p
      in case ss_staging s of
           None \<Rightarrow> Inl ErrStreamFrame
         | Some staging \<Rightarrow>
             if ss_syncID s \<noteq> syncID \<or> count \<noteq> int (length staging) then Inl ErrStreamFrame
             else let m = mark_absent (\<lambda>b. mb_collector b = col_ID (mc_config c) \<and> mb_namespace b \<noteq> []
                                        \<and> map_of staging (resource_key (mb_namespace b) (mb_name b)) = None) now m;
                      m = set_collector (ss_collector s)
                            (c\<lparr>mc_objects := staging, mc_lastFull := ss_started s, mc_inventoryAt := ss_started s,
                               mc_inventoryExpires := ss_started s + observationTTL\<rparr>) m
                  in Inr (set_session p (s\<lparr>ss_staging := None, ss_syncID := [], ss_synced := True\<rparr>) m))"

definition Upsert_body :: "memory_ext \<Rightarrow> nat \<Rightarrow> ResourceObservation \<Rightarrow> gotime \<Rightarrow> Memory \<Rightarrow> stream_error + Memory" where
  "Upsert_body E p ob now m =
     (let s = session_at m p; c = collector_of m p
      in if \<not> ss_synced s \<or> ss_staging s \<noteq> None \<or> ro_Deleted ob
            \<or> \<not> validStreamResource (me_dns1123 E) ob (mc_config c)
         then Inl ErrStreamFrame
         else if map_of (mc_objects c) (obs_key ob) = None \<and> length (mc_objects c) \<ge> maxInventory then Inl ErrLimit
         else Inr (set_collector (ss_collector s)
                (c\<lparr>mc_objects := AList.update (obs_key ob) (StreamSession_sample E m p ob now) (mc_objects c)\<rparr>) m))"

definition Delete_body :: "memory_ext \<Rightarrow> nat \<Rightarrow> string \<Rightarrow> string \<Rightarrow> string \<Rightarrow> gotime \<Rightarrow> Memory \<Rightarrow> stream_error + Memory" where
  "Delete_body E p ns name uid now m =
     (let s = session_at m p; c = collector_of m p
      in if \<not> ss_synced s \<or> ss_staging s \<noteq> None \<or> \<not> validStreamLocation (me_dns1123 E) ns name uid (mc_config c)
         then Inl ErrStreamFrame
         else let key = resource_key ns name
              in case map_of (mc_objects c) key of
                   None \<Rightarrow> Inr m
                 | Some r \<Rightarrow>
                     if ro_UID (mr_obs r) \<noteq> uid then Inr m
                     else Inr (mark_absent (\<lambda>b. mb_collector b = col_ID (mc_config c) \<and> mb_namespace b = ns
                                               \<and> mb_name b = name \<and> mb_uid b = uid) now
                             (set_collector (ss_collector s) (c\<lparr>mc_objects := AList.delete key (mc_objects c)\<rparr>) m)))"

definition Heartbeat_body :: "nat \<Rightarrow> gotime \<Rightarrow> Memory \<Rightarrow> stream_error + Memory" where
  "Heartbeat_body p now m =
     (let s = session_at m p; c = collector_of m p
      in if \<not> ss_synced s \<or> ss_staging s \<noteq> None \<or> \<not> now < mc_lastFull c + fullSyncInterval
         then Inl ErrStreamFrame
         else Inr (mark_absent (\<lambda>b. mb_collector b = col_ID (mc_config c) \<and> mb_absentAt b \<noteq> 0) now
                (set_collector (ss_collector s)
                   (c\<lparr>mc_objects := map_vals (\<lambda>r. r\<lparr>mr_received := now, mr_expires := now + observationTTL\<rparr>) (mc_objects c),
                      mc_inventoryAt := now, mc_inventoryExpires := now + observationTTL\<rparr>) m)))"

text \<open>The decoded frames of one connection and their dispatch.\<close>

datatype frame =
    SnapshotBegin string
  | SnapshotObjects string "ResourceObservation list"
  | SnapshotEnd string int
  | UpsertFrame ResourceObservation
  | DeleteFrame string string string
  | HeartbeatFrame
  | HealthReport HealthFrame

fun frame_body :: "memory_ext \<Rightarrow> nat \<Rightarrow> frame \<Rightarrow> gotime \<Rightarrow> Memory \<Rightarrow> stream_error + Memory" where
  "frame_body E p (SnapshotBegin syncID) = Begin_body E p syncID"
| "frame_body E p (SnapshotObjects syncID objects) = Objects_body E p syncID objects"
| "frame_body E p (SnapshotEnd syncID count) = End_body p syncID count"
| "frame_body E p (UpsertFrame ob) = Upsert_body E p ob"
| "frame_body E p (DeleteFrame ns name uid) = Delete_body E p ns name uid"
| "frame_body E p HeartbeatFrame = Heartbeat_body p"
| "frame_body E p (HealthReport f) = Health_body E p f"

text \<open>
  \<open>Receive\<close>: the discriminator and the strict decoding of the raw line are the
  argument, \<open>None\<close> where either fails (\<open>strictjson.ErrInvalid\<close>).
\<close>

datatype receive_error = ErrInvalid | Stream stream_error

definition StreamSession_Receive ::
  "memory_ext \<Rightarrow> nat \<Rightarrow> frame option \<Rightarrow> gotime \<Rightarrow> Memory \<Rightarrow> receive_error option \<times> Memory" where
  "StreamSession_Receive E p decoded now m =
     (case decoded of
        None \<Rightarrow> (Some ErrInvalid, StreamSession_Close p m)
      | Some f \<Rightarrow> (case StreamSession_apply (frame_body E p f) p now m of
                     (e, m') \<Rightarrow> (map_option Stream e, m')))"

section \<open>Views\<close>

fun digits_of :: "nat \<Rightarrow> string" where
  "digits_of n = (if n < 10 then [char_of (48 + n)] else digits_of (n div 10) @ [char_of (48 + n mod 10)])"

declare digits_of.simps [simp del]

definition FormatUint :: "uint64 \<Rightarrow> string" where
  "FormatUint w = digits_of (unat w)"

definition Memory_token :: "Memory \<Rightarrow> uint64 \<Rightarrow> string" where
  "Memory_token m revision = m_boot m @ '':'' @ FormatUint revision"

text \<open>The first loop of \<open>viewsLocked\<close>: the bindings to add and the wanted IDs.\<close>

fun views_admit ::
  "memory_ext \<Rightarrow> (string \<times> memoryBinding) list \<Rightarrow> Binding list \<Rightarrow> (string \<times> Binding) list \<Rightarrow> string list
     \<Rightarrow> ((string \<times> Binding) list \<times> string list) option" where
  "views_admit E old [] add wanted = Some (add, wanted)"
| "views_admit E old (b # bs) add wanted =
     (let wanted = List.insert (b_InstallationID b) wanted
      in if \<not> validID (me_uuid E) (b_InstallationID b) \<or> \<not> validID (me_uuid E) (b_OrganizationID b)
            \<or> \<not> appIdentifier (b_AppID b) then None
         else if (case map_of add (b_InstallationID b) of None \<Rightarrow> False | Some b' \<Rightarrow> b' \<noteq> b) then None
         else case map_of old (b_InstallationID b) of
                Some ob \<Rightarrow> if mb_Binding ob \<noteq> b then None else views_admit E old bs add wanted
              | None \<Rightarrow> views_admit E old bs (AList.update (b_InstallationID b) b add) wanted)"

definition new_binding :: "Binding \<Rightarrow> memoryBinding" where
  "new_binding b = \<lparr>mb_Binding = b, mb_collector = [], mb_namespace = [], mb_name = [], mb_uid = [],
     mb_absentAt = 0, mb_absentExpires = 0, mb_view = empty_Runtime, mb_revision = 0, mb_semantic = []\<rparr>"

text \<open>Reclaiming history outside the caller's registry.\<close>

fun reclaim ::
  "string list \<Rightarrow> (string \<times> memoryBinding) list \<Rightarrow> (string \<times> uint64) list
     \<Rightarrow> (string \<times> memoryBinding) list \<times> (string \<times> uint64) list" where
  "reclaim wanted [] scopes = ([], scopes)"
| "reclaim wanted ((k, b) # bs) scopes =
     (if k \<in> set wanted
      then let (bs', scopes') = reclaim wanted bs scopes in ((k, b) # bs', scopes')
      else let org = b_OrganizationID (mb_Binding b)
           in reclaim wanted bs (AList.update org (lookup_default 0 scopes org + 1) scopes))"

definition view_of :: "Memory \<Rightarrow> memoryBinding \<Rightarrow> MemoryView" where
  "view_of m stored =
     \<lparr>mv_Runtime = mb_view stored, mv_Revision = Memory_token m (mb_revision stored),
      mv_Resource = (if rt_ReasonCode (mb_view stored) = ''IDENTITY_CONFLICT'' then None
                     else map_option mr_obs (bound_resource (m_station m) (m_collectors m) stored))\<rparr>"

definition views_register :: "(string \<times> Binding) list \<Rightarrow> string list \<Rightarrow> Memory \<Rightarrow> Memory" where
  "views_register add wanted m =
     (let (bs, scopes) = (if length (m_bindings m) + length add > maxBindings
                          then reclaim wanted (m_bindings m) (m_scopeRevision m)
                          else (m_bindings m, m_scopeRevision m))
      in m\<lparr>m_bindings := fold (\<lambda>(k, b) bs. AList.update k (new_binding b) bs) add bs, m_scopeRevision := scopes\<rparr>)"

definition viewsLocked ::
  "memory_ext \<Rightarrow> Binding list \<Rightarrow> gotime \<Rightarrow> Memory
     \<Rightarrow> (stream_error + (string \<times> MemoryView) list \<times> (string \<times> string) list) \<times> Memory" where
  "viewsLocked E bindings now m =
     (case views_admit E (m_bindings m) bindings [] [] of
        None \<Rightarrow> (Inl ErrStreamFrame, m)
      | Some (add, wanted) \<Rightarrow>
          if length wanted > maxBindings then (Inl ErrLimit, m)
          else let m' = projectAll now (views_register add wanted m)
               in (Inr (fold (\<lambda>b. AList.update (b_InstallationID b)
                                  (view_of m' (the (map_of (m_bindings m') (b_InstallationID b))))) bindings [],
                        fold (\<lambda>b. AList.update (b_OrganizationID b)
                                  (Memory_token m' (lookup_default 0 (m_scopeRevision m') (b_OrganizationID b)))) bindings []),
                   m'))"

section \<open>Expiry and reset\<close>

definition expire_sessions :: "gotime \<Rightarrow> Memory \<Rightarrow> Memory" where
  "expire_sessions now m =
     fold (\<lambda>(_, c) m. case mc_active c of
                        None \<Rightarrow> m
                      | Some p \<Rightarrow> if StreamSession_live m p now then m else closeLocked p m)
       (m_collectors m) m"

definition Memory_Expire :: "gotime \<Rightarrow> Memory \<Rightarrow> Memory" where
  "Memory_Expire now m = projectAll now (expire_sessions now m)"

definition ResetAppBindings :: "string \<Rightarrow> string \<Rightarrow> gotime \<Rightarrow> Memory \<Rightarrow> Memory" where
  "ResetAppBindings appID targetNamespace now m =
     (if appID = [] then m
      else let outside = (\<lambda>ns. targetNamespace = [] \<or> ns \<noteq> targetNamespace);
               cs = map_vals (\<lambda>c. c\<lparr>mc_objects := filter (\<lambda>(_, r). \<not> (ro_AppID (mr_obs r) = appID
                                                   \<and> outside (ro_Namespace (mr_obs r)))) (mc_objects c)\<rparr>) (m_collectors m);
               bs = map_vals (\<lambda>b. if b_AppID (mb_Binding b) = appID \<and> outside (mb_namespace b)
                                  then b\<lparr>mb_collector := [], mb_namespace := [], mb_name := [], mb_uid := [],
                                         mb_absentAt := 0, mb_absentExpires := 0\<rparr> else b) (m_bindings m);
               lg = map (\<lambda>l. if lb_AppID l = appID \<and> targetNamespace \<noteq> [] \<and> lb_namespace l \<noteq> targetNamespace
                             then l\<lparr>lb_namespace := targetNamespace\<rparr> else l) (m_legacy m)
           in projectAll now (m\<lparr>m_collectors := cs, m_bindings := bs, m_legacy := lg\<rparr>))"

end
