(* ===== verification/Memory_Invariants.thy ===== *)
theory Memory_Invariants
  imports Memory
begin

text \<open>
  The representation invariant of the observation memory, its preservation by every
  operation, and the facts about sessions and inventories that follow from it.
\<close>

section \<open>The invariant\<close>

definition inventory_ok :: "memory_ext \<Rightarrow> Collector \<Rightarrow> inventory \<Rightarrow> bool" where
  "inventory_ok E cfg al \<longleftrightarrow>
     distinct_keys al \<and> length al \<le> maxInventory
     \<and> (\<forall>k r. (k, r) \<in> set al \<longrightarrow>
          k = obs_key (mr_obs r) \<and> validStreamResource (me_dns1123 E) (mr_obs r) cfg \<and> \<not> ro_Deleted (mr_obs r)
          \<and> mr_expires r = mr_received r + observationTTL)"

definition collector_ok :: "memory_ext \<Rightarrow> StreamSession list \<Rightarrow> string \<Rightarrow> memoryCollector \<Rightarrow> bool" where
  "collector_ok E ss cid c \<longleftrightarrow>
     col_ID (mc_config c) = cid \<and> Collector_valid (mc_config c) \<and> inventory_ok E (mc_config c) (mc_objects c)
     \<and> (\<forall>p. mc_active c = Some p \<longrightarrow> p < length ss \<and> ss_collector (ss ! p) = cid \<and> \<not> ss_closed (ss ! p))"

definition session_ok :: "memory_ext \<Rightarrow> (string \<times> memoryCollector) list \<Rightarrow> nat \<Rightarrow> StreamSession \<Rightarrow> bool" where
  "session_ok E cs p s \<longleftrightarrow>
     (\<exists>c. map_of cs (ss_collector s) = Some c
        \<and> (\<not> ss_closed s \<longrightarrow> mc_active c = Some p)
        \<and> (\<forall>st. ss_staging s = Some st \<longrightarrow> \<not> ss_closed s \<and> inventory_ok E (mc_config c) st))"

definition bindings_ok :: "(string \<times> memoryBinding) list \<Rightarrow> bool" where
  "bindings_ok bs \<longleftrightarrow>
     distinct_keys bs \<and> length bs \<le> maxBindings \<and> (\<forall>k b. (k, b) \<in> set bs \<longrightarrow> b_InstallationID (mb_Binding b) = k)"

definition scopes_disjoint :: "(string \<times> memoryCollector) list \<Rightarrow> bool" where
  "scopes_disjoint cs \<longleftrightarrow>
     (\<forall>i j c d ns. map_option mc_config (map_of cs i) = Some c \<and> map_option mc_config (map_of cs j) = Some d
        \<and> ns \<in> set (col_Namespaces c) \<and> ns \<in> set (col_Namespaces d) \<longrightarrow> i = j)"

definition mem_inv :: "memory_ext \<Rightarrow> Memory \<Rightarrow> bool" where
  "mem_inv E m \<longleftrightarrow>
     distinct_keys (m_collectors m)
     \<and> (\<forall>cid c. map_of (m_collectors m) cid = Some c \<longrightarrow> collector_ok E (m_sessions m) cid c)
     \<and> (\<forall>p < length (m_sessions m). session_ok E (m_collectors m) p (m_sessions m ! p))
     \<and> bindings_ok (m_bindings m) \<and> scopes_disjoint (m_collectors m)"

section \<open>Frames of the state\<close>

lemma set_session_simps [simp]:
  "m_collectors (set_session p s m) = m_collectors m"
  "m_bindings (set_session p s m) = m_bindings m"
  "m_scopeRevision (set_session p s m) = m_scopeRevision m"
  "m_station (set_session p s m) = m_station m"
  "m_boot (set_session p s m) = m_boot m"
  "m_legacy (set_session p s m) = m_legacy m"
  "m_sessions (set_session p s m) = (m_sessions m)[p := s]"
  by (simp_all add: set_session_def)

lemma set_collector_simps [simp]:
  "m_collectors (set_collector cid c m) = AList.update cid c (m_collectors m)"
  "m_bindings (set_collector cid c m) = m_bindings m"
  "m_scopeRevision (set_collector cid c m) = m_scopeRevision m"
  "m_station (set_collector cid c m) = m_station m"
  "m_boot (set_collector cid c m) = m_boot m"
  "m_legacy (set_collector cid c m) = m_legacy m"
  "m_sessions (set_collector cid c m) = m_sessions m"
  by (simp_all add: set_collector_def)

lemma mark_absent_simps [simp]:
  "m_collectors (mark_absent P now m) = m_collectors m"
  "m_scopeRevision (mark_absent P now m) = m_scopeRevision m"
  "m_station (mark_absent P now m) = m_station m"
  "m_boot (mark_absent P now m) = m_boot m"
  "m_legacy (mark_absent P now m) = m_legacy m"
  "m_sessions (mark_absent P now m) = m_sessions m"
  by (simp_all add: mark_absent_def)

lemma projectAll_simps [simp]:
  "m_collectors (projectAll now m) = m_collectors m"
  "m_station (projectAll now m) = m_station m"
  "m_boot (projectAll now m) = m_boot m"
  "m_legacy (projectAll now m) = m_legacy m"
  "m_sessions (projectAll now m) = m_sessions m"
  by (simp_all add: projectAll_def split: prod.splits)

lemma project_Binding [simp]: "mb_Binding (snd (project cs b now rs)) = mb_Binding b"
  by (auto simp: project_def Let_def split: list.splits option.splits prod.splits if_splits)

lemma project_binding_Binding [simp]:
  "mb_Binding (fst (project_binding st cs now b sc)) = mb_Binding b"
proof -
  obtain v b' where p: "project cs b now (candidates_for st cs (b_InstallationID (mb_Binding b))) = (v, b')"
    by fastforce
  then have "mb_Binding b' = mb_Binding b" by (metis project_Binding snd_conv)
  with p show ?thesis by (simp add: project_binding_def Let_def)
qed

lemma project_bindings_fst:
  "map fst (fst (project_bindings st cs now bs sc)) = map fst bs"
  by (induction bs arbitrary: sc) (auto split: prod.splits simp: Let_def, metis fst_conv)

lemma project_bindings_set:
  "(k, b') \<in> set (fst (project_bindings st cs now bs sc)) \<Longrightarrow>
     \<exists>b. (k, b) \<in> set bs \<and> mb_Binding b' = mb_Binding b"
proof (induction bs arbitrary: sc)
  case (Cons e bs)
  obtain k0 b0 where e: "e = (k0, b0)" by fastforce
  obtain b1 sc1 where p: "project_binding st cs now b0 sc = (b1, sc1)" by fastforce
  then have b1: "mb_Binding b1 = mb_Binding b0" by (metis fst_conv project_binding_Binding)
  obtain bs2 sc2 where q: "project_bindings st cs now bs sc1 = (bs2, sc2)" by fastforce
  from Cons.prems e p q have "(k, b') = (k0, b1) \<or> (k, b') \<in> set bs2" by simp
  then show ?case using Cons.IH [of sc1] b1 e q by auto
qed simp

lemma bindings_ok_project:
  assumes "bindings_ok bs" shows "bindings_ok (fst (project_bindings st cs now bs sc))"
proof -
  have "length (fst (project_bindings st cs now bs sc)) = length bs"
    using project_bindings_fst by (metis length_map)
  with assms show ?thesis
    by (force simp: bindings_ok_def distinct_keys_def project_bindings_fst dest: project_bindings_set)
qed

lemma m_bindings_projectAll:
  "m_bindings (projectAll now m) =
     fst (project_bindings (m_station m) (m_collectors m) now (m_bindings m) (m_scopeRevision m))"
  by (simp add: projectAll_def split: prod.splits)

section \<open>Preservation by the building blocks\<close>

lemma mem_inv_projectAll [inv_intros]: "mem_inv E m \<Longrightarrow> mem_inv E (projectAll now m)"
  by (simp add: mem_inv_def m_bindings_projectAll bindings_ok_project)

lemma mem_inv_mark_absent [inv_intros]: "mem_inv E m \<Longrightarrow> mem_inv E (mark_absent P now m)"
  by (auto simp: mem_inv_def mark_absent_def bindings_ok_def set_map_vals split: if_splits)

lemma mem_inv_set_session [inv_intros]:
  assumes inv: "mem_inv E m" and p: "p < length (m_sessions m)"
    and coll: "ss_collector s = ss_collector (session_at m p)"
    and closed: "ss_closed s = ss_closed (session_at m p)"
    and stg: "\<And>st. ss_staging s = Some st \<Longrightarrow>
                \<not> ss_closed s \<and> inventory_ok E (mc_config (collector_of m p)) st"
  shows "mem_inv E (set_session p s m)"
proof -
  let ?ss = "(m_sessions m)[p := s]"
  from inv p have old: "session_ok E (m_collectors m) p (m_sessions m ! p)" by (simp add: mem_inv_def)
  have "session_ok E (m_collectors m) q (?ss ! q)" if "q < length (m_sessions m)" for q
  proof (cases "q = p")
    case True
    with old p coll closed stg show ?thesis
      by (auto simp: session_ok_def session_at_def collector_of_def)
  next
    case False
    with inv that show ?thesis by (simp add: mem_inv_def)
  qed
  moreover have "collector_ok E ?ss cid c" if "map_of (m_collectors m) cid = Some c" for cid c
  proof -
    from inv that have "collector_ok E (m_sessions m) cid c" by (simp add: mem_inv_def)
    with p coll closed show ?thesis
      by (auto simp: collector_ok_def session_at_def nth_list_update)
  qed
  ultimately show ?thesis using inv by (simp add: mem_inv_def)
qed

lemma session_ok_update:
  assumes "session_ok E cs p s" and "map_of cs cid = Some c" and "mc_config c' = mc_config c"
    and "mc_active c' = mc_active c"
  shows "session_ok E (AList.update cid c' cs) p s"
  using assms by (auto simp: session_ok_def update_conv)

lemma scopes_disjoint_cong:
  assumes "\<And>k. map_option mc_config (map_of cs' k) = map_option mc_config (map_of cs k)"
    and "scopes_disjoint cs"
  shows "scopes_disjoint cs'"
  using assms(2) unfolding scopes_disjoint_def assms(1) .

lemma scopes_disjoint_update:
  assumes "scopes_disjoint cs" and "map_of cs cid = Some c" and "mc_config c' = mc_config c"
  shows "scopes_disjoint (AList.update cid c' cs)"
  by (rule scopes_disjoint_cong [OF _ assms(1)]) (simp add: update_conv assms)

lemma mem_inv_set_collector [inv_intros]:
  assumes inv: "mem_inv E m" and c: "map_of (m_collectors m) cid = Some c"
    and cfg: "mc_config c' = mc_config c" and act: "mc_active c' = mc_active c"
    and inven: "inventory_ok E (mc_config c) (mc_objects c')"
  shows "mem_inv E (set_collector cid c' m)"
proof -
  from inv c have "collector_ok E (m_sessions m) cid c" by (simp add: mem_inv_def)
  then have "collector_ok E (m_sessions m) cid c'" using cfg act inven by (simp add: collector_ok_def)
  with inv c cfg act show ?thesis
    by (auto simp: mem_inv_def update_conv session_ok_update scopes_disjoint_update split: if_splits)
qed

lemma collector_of_Some:
  assumes "mem_inv E m" and "p < length (m_sessions m)"
  shows "map_of (m_collectors m) (ss_collector (session_at m p)) = Some (collector_of m p)"
  using assms by (auto simp: mem_inv_def session_ok_def collector_of_def session_at_def)

lemma inventory_of_collector:
  assumes "mem_inv E m" and "p < length (m_sessions m)"
  shows "inventory_ok E (mc_config (collector_of m p)) (mc_objects (collector_of m p))"
  using assms collector_of_Some [OF assms] by (auto simp: mem_inv_def collector_ok_def)

section \<open>Closing and opening sessions\<close>

lemma active_unique:
  assumes inv: "mem_inv E m" and p: "p < length (m_sessions m)" and open_p: "\<not> ss_closed (session_at m p)"
  shows "mc_active (collector_of m p) = Some p"
  using assms by (auto simp: mem_inv_def session_ok_def collector_of_def session_at_def)

lemma closeLocked_simps [simp]:
  "m_bindings (closeLocked p m) = m_bindings m"
  "m_station (closeLocked p m) = m_station m"
  "m_scopeRevision (closeLocked p m) = m_scopeRevision m"
  "m_boot (closeLocked p m) = m_boot m"
  "m_legacy (closeLocked p m) = m_legacy m"
  "length (m_sessions (closeLocked p m)) = length (m_sessions m)"
  by (simp_all add: closeLocked_def Let_def)

text \<open>
  Opening and closing write one session and the \<open>active\<close> field of its collector: the
  invariant survives when the new field names the open session of that collector, if any.
\<close>

lemma mem_inv_retarget:
  assumes inv: "mem_inv E m" and c: "map_of (m_collectors m) cid = Some c"
    and p: "p < length ss" and len: "length (m_sessions m) \<le> length ss"
    and rest: "\<And>q. q < length ss \<Longrightarrow> q \<noteq> p \<Longrightarrow> q < length (m_sessions m) \<and> ss ! q = m_sessions m ! q"
    and own: "ss_collector (ss ! p) = cid" "ss_staging (ss ! p) = None"
    and was: "p < length (m_sessions m) \<Longrightarrow> ss_collector (m_sessions m ! p) = cid"
    and act: "\<And>q. q < length ss \<Longrightarrow> ss_collector (ss ! q) = cid \<Longrightarrow> \<not> ss_closed (ss ! q) \<longleftrightarrow> a = Some q"
    and fits: "\<And>q. a = Some q \<Longrightarrow> q < length ss \<and> ss_collector (ss ! q) = cid"
  shows "mem_inv E (m\<lparr>m_sessions := ss, m_collectors := AList.update cid (c\<lparr>mc_active := a\<rparr>) (m_collectors m)\<rparr>)"
    (is "mem_inv E ?m")
proof -
  let ?cs = "AList.update cid (c\<lparr>mc_active := a\<rparr>) (m_collectors m)"
  have cok: "collector_ok E (m_sessions m) cid c" using inv c by (simp add: mem_inv_def)
  have "collector_ok E ss k d" if kd: "map_of ?cs k = Some d" for k d
  proof (cases "k = cid")
    case True
    with kd have "d = c\<lparr>mc_active := a\<rparr>" by (simp add: update_conv)
    with cok True act fits show ?thesis by (auto simp: collector_ok_def)
  next
    case False
    with kd inv have dok: "collector_ok E (m_sessions m) k d" by (simp add: update_conv mem_inv_def)
    with False was have np: "mc_active d \<noteq> Some p" by (auto simp: collector_ok_def)
    have "q < length ss \<and> ss_collector (ss ! q) = k \<and> \<not> ss_closed (ss ! q)" if q: "mc_active d = Some q" for q
    proof -
      from dok q have "q < length (m_sessions m)" by (simp add: collector_ok_def)
      with np q len rest have "q < length ss" "ss ! q = m_sessions m ! q" by auto
      with dok q show ?thesis by (simp add: collector_ok_def)
    qed
    with dok show ?thesis by (simp add: collector_ok_def)
  qed
  moreover have "session_ok E ?cs q (ss ! q)" if q: "q < length ss" for q
  proof (cases "q = p")
    case True
    with act [OF p] own show ?thesis by (auto simp: session_ok_def update_conv)
  next
    case False
    with rest q inv have "session_ok E (m_collectors m) q (ss ! q)" by (simp add: mem_inv_def)
    with act [OF q] c show ?thesis by (auto simp: session_ok_def update_conv)
  qed
  ultimately show ?thesis using inv scopes_disjoint_update [OF _ c, of "c\<lparr>mc_active := a\<rparr>"]
    by (simp add: mem_inv_def)
qed

lemma closeLocked_eq:
  assumes "map_of (m_collectors m) (ss_collector (session_at m p)) = Some (collector_of m p)"
  shows "closeLocked p m =
    m\<lparr>m_sessions := (m_sessions m)[p := (session_at m p)\<lparr>ss_closed := True, ss_staging := None, ss_syncID := []\<rparr>],
      m_collectors := AList.update (ss_collector (session_at m p))
        ((collector_of m p)\<lparr>mc_active := (if mc_active (collector_of m p) = Some p then None
                                         else mc_active (collector_of m p))\<rparr>) (m_collectors m)\<rparr>"
  using assms update_same [of "m_collectors m" "ss_collector (session_at m p)" "collector_of m p"]
  by (simp add: closeLocked_def Let_def set_session_def set_collector_def)

lemma open_session_iff_active:
  assumes inv: "mem_inv E m" and c: "map_of (m_collectors m) cid = Some c"
    and q: "q < length (m_sessions m)" and own: "ss_collector (m_sessions m ! q) = cid"
  shows "\<not> ss_closed (m_sessions m ! q) \<longleftrightarrow> mc_active c = Some q"
proof -
  have "collector_ok E (m_sessions m) cid c" and "session_ok E (m_collectors m) q (m_sessions m ! q)"
    using inv c q by (simp_all add: mem_inv_def)
  with c own show ?thesis by (auto simp: collector_ok_def session_ok_def)
qed

lemma active_session:
  assumes "mem_inv E m" and "map_of (m_collectors m) cid = Some c" and "mc_active c = Some p"
  shows "p < length (m_sessions m) \<and> ss_collector (m_sessions m ! p) = cid \<and> \<not> ss_closed (m_sessions m ! p)"
  using assms by (auto simp: mem_inv_def collector_ok_def)

lemma mem_inv_closeLocked [inv_intros]:
  assumes inv: "mem_inv E m" and p: "p < length (m_sessions m)"
  shows "mem_inv E (closeLocked p m)"
proof -
  have c: "map_of (m_collectors m) (ss_collector (session_at m p)) = Some (collector_of m p)"
    by (rule collector_of_Some [OF inv p])
  show ?thesis
    unfolding closeLocked_eq [OF c]
  proof (rule mem_inv_retarget [OF inv c, where p = p], goal_cases)
    case (7 q)
    with open_session_iff_active [OF inv c] p show ?case
      by (cases "q = p") (auto simp: session_at_def)
  next
    case (8 q)
    with active_session [OF inv c] p show ?case
      by (auto simp: session_at_def nth_list_update split: if_splits)
  qed (use p in \<open>auto simp: session_at_def\<close>)
qed

lemma mem_inv_add_session:
  assumes inv: "mem_inv E m" and c: "map_of (m_collectors m) cid = Some c" and idle: "mc_active c = None"
    and s: "ss_collector s = cid" "ss_staging s = None" "\<not> ss_closed s"
  shows "mem_inv E (m\<lparr>m_sessions := m_sessions m @ [s],
           m_collectors := AList.update cid (c\<lparr>mc_active := Some (length (m_sessions m))\<rparr>) (m_collectors m)\<rparr>)"
proof (rule mem_inv_retarget [OF inv c, where p = "length (m_sessions m)"], goal_cases)
  case (7 q)
  with open_session_iff_active [OF inv c] idle s show ?case
    by (cases "q = length (m_sessions m)") (auto simp: nth_append)
qed (use s in \<open>auto simp: nth_append\<close>)

lemma closeLocked_idle:
  assumes inv: "mem_inv E m" and c: "map_of (m_collectors m) cid = Some c" and p: "mc_active c = Some p"
  shows "map_of (m_collectors (closeLocked p m)) cid = Some (c\<lparr>mc_active := None\<rparr>)"
proof -
  from active_session [OF inv c p] have "p < length (m_sessions m)" and own: "ss_collector (session_at m p) = cid"
    by (simp_all add: session_at_def)
  then have "collector_of m p = c" using c by (simp add: collector_of_def)
  with own c p show ?thesis by (simp add: closeLocked_eq update_conv)
qed

lemma mem_inv_Open [inv_intros]:
  assumes inv: "mem_inv E m" shows "mem_inv E (snd (Memory_Open sid cid now m))"
proof (cases "map_of (m_collectors m) cid")
  case (Some c)
  define m1 where "m1 = (case mc_active c of None \<Rightarrow> m | Some p \<Rightarrow> closeLocked p m)"
  have inv1: "mem_inv E m1"
    using inv active_session [OF inv Some]
    by (auto simp: m1_def mem_inv_closeLocked split: option.splits)
  obtain c1 where c1: "map_of (m_collectors m1) cid = Some c1" "mc_active c1 = None"
    using Some closeLocked_idle [OF inv Some] by (cases "mc_active c") (auto simp: m1_def)
  show ?thesis
    using mem_inv_add_session [OF inv1 c1] inv Some c1
    by (simp add: Memory_Open_def Let_def m1_def [symmetric] set_collector_def)
qed (use inv in \<open>simp add: Memory_Open_def\<close>)

end
