(* ===== verification/Memory_Steps.thy ===== *)
theory Memory_Steps
  imports Memory_Invariants
begin

text \<open>
  Every operation of the observation memory preserves its invariant; the memory as an
  event handler over opens, frames, closes, views, expiry scans and resets.
\<close>

section \<open>Inventories\<close>

lemma inventory_ok_Nil [simp]: "inventory_ok E cfg []"
  by (simp add: inventory_ok_def)

lemma inventory_ok_update:
  assumes "inventory_ok E cfg al" and "k = obs_key (mr_obs r)"
    and "validStreamResource (me_dns1123 E) (mr_obs r) cfg" and "\<not> ro_Deleted (mr_obs r)"
    and "mr_expires r = mr_received r + observationTTL"
    and "map_of al k \<noteq> None \<or> length al < maxInventory"
  shows "inventory_ok E cfg (AList.update k r al)"
proof -
  have "length (AList.update k r al) \<le> maxInventory"
    using assms(1,6) by (cases "map_of al k = None")
      (auto simp: inventory_ok_def length_update_present length_update_absent)
  with assms show ?thesis by (auto simp: inventory_ok_def dest: in_set_update)
qed

lemma inventory_ok_delete: "inventory_ok E cfg al \<Longrightarrow> inventory_ok E cfg (AList.delete k al)"
  by (auto simp: inventory_ok_def dest: in_set_delete intro: order_trans [OF length_delete_le])

lemma inventory_ok_filter: "inventory_ok E cfg al \<Longrightarrow> inventory_ok E cfg (filter P al)"
  by (auto simp: inventory_ok_def intro: order_trans [OF length_filter_le])

lemma inventory_ok_touch:
  "inventory_ok E cfg al \<Longrightarrow>
     inventory_ok E cfg (map_vals (\<lambda>r. r\<lparr>mr_received := now, mr_expires := now + observationTTL\<rparr>) al)"
  by (auto simp: inventory_ok_def set_map_vals)

lemma inventory_ok_lookup:
  "inventory_ok E cfg al \<Longrightarrow> map_of al k = Some r \<Longrightarrow>
     k = obs_key (mr_obs r) \<and> validStreamResource (me_dns1123 E) (mr_obs r) cfg \<and> \<not> ro_Deleted (mr_obs r)
     \<and> mr_expires r = mr_received r + observationTTL"
  by (auto simp: inventory_ok_def dest: map_of_SomeD)

lemma validStreamResource_health:
  "validStreamResource d ob cfg \<Longrightarrow> ro_Health ob \<in> {''not_checked'', ''ready'', ''failed''}"
  by (auto simp: validStreamResource_def split: if_splits)

lemma validStreamResource_set_health:
  "validStreamResource d ob cfg \<Longrightarrow> h \<in> {''not_checked'', ''ready'', ''failed''} \<Longrightarrow>
     validStreamResource d (ob\<lparr>ro_Health := h\<rparr>) cfg"
  by (simp add: validStreamResource_def split: if_splits)

lemma obs_key_set_health [simp]: "obs_key (ob\<lparr>ro_Health := h\<rparr>) = obs_key ob"
  by (simp add: obs_key_def)

text \<open>A sample is the observation up to its health, received now.\<close>

lemma sample_cases:
  obtains (fresh) "StreamSession_sample E m p ob now = sampled E ob now"
    | (carried) old where "ss_synced (session_at m p)" "ro_Health ob = ''not_checked''"
        "map_of (mc_objects (collector_of m p)) (obs_key ob) = Some old"
        "(mr_obs old)\<lparr>ro_Health := ''not_checked''\<rparr> = ob"
        "StreamSession_sample E m p ob now =
           (sampled E ob now)\<lparr>mr_obs := mr_obs old, mr_healthExpires := mr_healthExpires old\<rparr>"
proof (cases "StreamSession_sample E m p ob now = sampled E ob now")
  case False
  then obtain old where old: "ss_synced (session_at m p)" "ro_Health ob = ''not_checked''"
      "map_of (mc_objects (collector_of m p)) (obs_key ob) = Some old"
      "(mr_obs old)\<lparr>ro_Health := ''not_checked''\<rparr> = ob"
    by (auto simp: StreamSession_sample_def Let_def obs_key_def split: option.splits if_splits)
  then have "ob\<lparr>ro_Health := ro_Health (mr_obs old)\<rparr> = mr_obs old" by (cases "mr_obs old") auto
  with old have "StreamSession_sample E m p ob now =
      (sampled E ob now)\<lparr>mr_obs := mr_obs old, mr_healthExpires := mr_healthExpires old\<rparr>"
    by (simp add: StreamSession_sample_def obs_key_def)
  with old show ?thesis by (rule carried)
qed

lemma sample_props:
  assumes inv: "mem_inv E m" and p: "p < length (m_sessions m)"
    and valid: "validStreamResource (me_dns1123 E) ob (mc_config (collector_of m p))" and del: "\<not> ro_Deleted ob"
  shows "obs_key (mr_obs (StreamSession_sample E m p ob now)) = obs_key ob
     \<and> validStreamResource (me_dns1123 E) (mr_obs (StreamSession_sample E m p ob now)) (mc_config (collector_of m p))
     \<and> \<not> ro_Deleted (mr_obs (StreamSession_sample E m p ob now))
     \<and> mr_received (StreamSession_sample E m p ob now) = now
     \<and> mr_expires (StreamSession_sample E m p ob now) = now + observationTTL"
proof (rule sample_cases [of E m p ob now])
  fix old assume "map_of (mc_objects (collector_of m p)) (obs_key ob) = Some old"
      "StreamSession_sample E m p ob now =
         (sampled E ob now)\<lparr>mr_obs := mr_obs old, mr_healthExpires := mr_healthExpires old\<rparr>"
  with inventory_ok_lookup [OF inventory_of_collector [OF inv p]] show ?thesis by (simp add: sampled_def)
qed (use valid del in \<open>simp add: sampled_def\<close>)

section \<open>Frame bodies\<close>

lemma live_open:
  "StreamSession_live m p now \<Longrightarrow> \<not> ss_closed (session_at m p) \<and> mc_active (collector_of m p) = Some p"
  by (auto simp: StreamSession_live_def Let_def)

lemma Begin_body_inv:
  assumes "mem_inv E m" "p < length (m_sessions m)" "\<not> ss_closed (session_at m p)" "Begin_body E p sid now m = Inr m'"
  shows "mem_inv E m'"
  using assms by (auto simp: Begin_body_def Let_def split: if_splits intro!: mem_inv_set_session)

lemma Objects_fold_ok:
  assumes "inventory_ok E cfg st" and "length st + length obs \<le> maxInventory"
    and "\<And>ob. ob \<in> set obs \<Longrightarrow> obs_key (mr_obs (f ob)) = obs_key ob \<and> validStreamResource (me_dns1123 E) (mr_obs (f ob)) cfg
            \<and> \<not> ro_Deleted (mr_obs (f ob)) \<and> mr_expires (f ob) = mr_received (f ob) + observationTTL"
  shows "inventory_ok E cfg (fold (\<lambda>ob st. AList.update (obs_key ob) (f ob) st) obs st)"
  using assms
proof (induction obs arbitrary: st)
  case (Cons ob obs)
  have "inventory_ok E cfg (AList.update (obs_key ob) (f ob) st)"
    using Cons.prems by (intro inventory_ok_update) auto
  moreover have "length (AList.update (obs_key ob) (f ob) st) + length obs \<le> maxInventory"
    using Cons.prems(2) length_update_le [of "obs_key ob" "f ob" st] by simp
  ultimately show ?case using Cons.IH Cons.prems(3) by simp
qed simp

lemma session_staging_ok:
  assumes "mem_inv E m" and "p < length (m_sessions m)" and "ss_staging (session_at m p) = Some st"
  shows "inventory_ok E (mc_config (collector_of m p)) st" and "\<not> ss_closed (session_at m p)"
  using assms by (auto simp: mem_inv_def session_ok_def collector_of_def session_at_def)

lemma Objects_body_inv:
  assumes inv: "mem_inv E m" and p: "p < length (m_sessions m)"
    and body: "Objects_body E p sid obs now m = Inr m'"
  shows "mem_inv E m'"
proof -
  obtain st where st: "ss_staging (session_at m p) = Some st" "length st + length obs \<le> maxInventory"
      "list_all (\<lambda>ob. validStreamResource (me_dns1123 E) ob (mc_config (collector_of m p)) \<and> \<not> ro_Deleted ob) obs"
      "m' = set_session p ((session_at m p)\<lparr>ss_staging :=
         Some (fold (\<lambda>ob st. AList.update (obs_key ob) (StreamSession_sample E m p ob now) st) obs st)\<rparr>) m"
    using body by (auto simp: Objects_body_def Let_def list_all_iff split: option.splits if_splits)
  have "inventory_ok E (mc_config (collector_of m p))
      (fold (\<lambda>ob st. AList.update (obs_key ob) (StreamSession_sample E m p ob now) st) obs st)"
    by (rule Objects_fold_ok [OF session_staging_ok(1) [OF inv p st(1)] st(2)])
      (use sample_props [OF inv p] st(3) in \<open>auto simp: list_all_iff\<close>)
  with st session_staging_ok(2) [OF inv p st(1)] show ?thesis
    by (auto intro!: mem_inv_set_session [OF inv p])
qed

lemma Health_body_inv:
  assumes inv: "mem_inv E m" and p: "p < length (m_sessions m)" and body: "Health_body E p f now m = Inr m'"
  shows "mem_inv E m'"
proof (cases "m' = m")
  case False
  let ?key = "resource_key (hf_Namespace f) (hf_Name f)" and ?c = "collector_of m p"
  obtain r where r: "map_of (mc_objects ?c) ?key = Some r" "hf_Health f \<in> {''not_checked'', ''ready'', ''failed''}"
      "m' = set_collector (ss_collector (session_at m p)) (?c\<lparr>mc_objects := AList.update ?key
         (r\<lparr>mr_obs := (mr_obs r)\<lparr>ro_Health := hf_Health f\<rparr>, mr_healthExpires := now + observationTTL\<rparr>) (mc_objects ?c)\<rparr>) m"
    using body False by (auto simp: Health_body_def Let_def split: option.splits if_splits)
  note ok = inventory_of_collector [OF inv p]
  show ?thesis
    unfolding r(3)
    by (rule mem_inv_set_collector [OF inv collector_of_Some [OF inv p]])
      (use inventory_ok_lookup [OF ok r(1)] r ok in \<open>auto intro!: inventory_ok_update simp: validStreamResource_set_health\<close>)
qed (use inv in simp)

lemma End_body_inv:
  assumes inv: "mem_inv E m" and p: "p < length (m_sessions m)" and body: "End_body p sid n now m = Inr m'"
  shows "mem_inv E m'"
proof -
  obtain st P where st: "ss_staging (session_at m p) = Some st"
      "m' = set_session p ((session_at m p)\<lparr>ss_staging := None, ss_syncID := [], ss_synced := True\<rparr>)
         (set_collector (ss_collector (session_at m p))
            ((collector_of m p)\<lparr>mc_objects := st, mc_lastFull := ss_started (session_at m p),
               mc_inventoryAt := ss_started (session_at m p),
               mc_inventoryExpires := ss_started (session_at m p) + observationTTL\<rparr>) (mark_absent P now m))"
    using body by (auto simp: End_body_def Let_def split: option.splits if_splits)
  have "mem_inv E (set_collector (ss_collector (session_at m p))
            ((collector_of m p)\<lparr>mc_objects := st, mc_lastFull := ss_started (session_at m p),
               mc_inventoryAt := ss_started (session_at m p),
               mc_inventoryExpires := ss_started (session_at m p) + observationTTL\<rparr>) (mark_absent P now m))"
    by (rule mem_inv_set_collector [OF mem_inv_mark_absent [OF inv], where c = "collector_of m p"])
      (use collector_of_Some [OF inv p] session_staging_ok [OF inv p st(1)] in auto)
  then show ?thesis
    unfolding st(2) by (rule mem_inv_set_session) (use p in \<open>auto simp: session_at_def\<close>)
qed

lemma Upsert_body_inv:
  assumes inv: "mem_inv E m" and p: "p < length (m_sessions m)" and body: "Upsert_body E p ob now m = Inr m'"
  shows "mem_inv E m'"
proof -
  let ?c = "collector_of m p"
  have ob: "validStreamResource (me_dns1123 E) ob (mc_config ?c)" "\<not> ro_Deleted ob"
      "map_of (mc_objects ?c) (obs_key ob) \<noteq> None \<or> length (mc_objects ?c) < maxInventory"
      "m' = set_collector (ss_collector (session_at m p))
         (?c\<lparr>mc_objects := AList.update (obs_key ob) (StreamSession_sample E m p ob now) (mc_objects ?c)\<rparr>) m"
    using body by (auto simp: Upsert_body_def Let_def split: if_splits)
  show ?thesis
    unfolding ob(4)
    by (rule mem_inv_set_collector [OF inv collector_of_Some [OF inv p]])
      (use sample_props [OF inv p ob(1,2)] ob inventory_of_collector [OF inv p] in \<open>auto intro!: inventory_ok_update\<close>)
qed

lemma Delete_body_inv:
  assumes inv: "mem_inv E m" and p: "p < length (m_sessions m)" and body: "Delete_body E p ns nm uid now m = Inr m'"
  shows "mem_inv E m'"
  using body inv collector_of_Some [OF inv p] inventory_of_collector [OF inv p]
  by (auto simp: Delete_body_def Let_def split: option.splits if_splits
      intro!: mem_inv_mark_absent mem_inv_set_collector inventory_ok_delete)

lemma Heartbeat_body_inv:
  assumes inv: "mem_inv E m" and p: "p < length (m_sessions m)" and body: "Heartbeat_body p now m = Inr m'"
  shows "mem_inv E m'"
  using body inv collector_of_Some [OF inv p] inventory_of_collector [OF inv p]
  by (auto simp: Heartbeat_body_def Let_def split: if_splits
      intro!: mem_inv_mark_absent mem_inv_set_collector inventory_ok_touch)

lemmas frame_body_defs =
  Begin_body_def Objects_body_def End_body_def Upsert_body_def Delete_body_def Heartbeat_body_def Health_body_def

text \<open>What every frame body keeps: the sessions other than its own, and identities.\<close>

lemma frame_body_frame:
  assumes "frame_body E p f now m = Inr m'"
  shows "length (m_sessions m') = length (m_sessions m)"
    and "q \<noteq> p \<Longrightarrow> session_at m' q = session_at m q"
    and "m_station m' = m_station m" and "m_boot m' = m_boot m" and "m_scopeRevision m' = m_scopeRevision m"
  using assms by (cases f; auto simp: frame_body_defs session_at_def Let_def split: option.splits if_splits)+

lemma frame_body_inv:
  assumes "mem_inv E m" and "p < length (m_sessions m)" and "\<not> ss_closed (session_at m p)"
    and "frame_body E p f now m = Inr m'"
  shows "mem_inv E m'"
  using assms
  by (cases f) (auto intro: Begin_body_inv Objects_body_inv End_body_inv Upsert_body_inv Delete_body_inv
      Heartbeat_body_inv Health_body_inv)

lemma apply_inv [inv_intros]:
  assumes inv: "mem_inv E m" and p: "p < length (m_sessions m)"
  shows "mem_inv E (snd (StreamSession_apply (frame_body E p f) p now m))"
proof (cases "StreamSession_live m p now \<and> (\<exists>m'. frame_body E p f now m = Inr m')")
  case True
  then obtain m' where m': "frame_body E p f now m = Inr m'" by blast
  have inv': "mem_inv E m'" using frame_body_inv [OF inv p _ m'] live_open True by blast
  have p': "p < length (m_sessions m')" using frame_body_frame(1) [OF m'] p by simp
  have "mem_inv E (set_session p ((session_at m' p)\<lparr>ss_lastFrame := now\<rparr>) m')"
    by (rule mem_inv_set_session [OF inv' p']) (use session_staging_ok [OF inv' p'] in auto)
  with True m' show ?thesis by (auto simp: StreamSession_apply_def intro: mem_inv_projectAll)
next
  case False
  then show ?thesis using mem_inv_closeLocked [OF inv p]
    by (auto simp: StreamSession_apply_def split: sum.splits)
qed

lemma Receive_inv [inv_intros]:
  assumes "mem_inv E m" and "p < length (m_sessions m)"
  shows "mem_inv E (snd (StreamSession_Receive E p f now m))"
  using apply_inv [OF assms] mem_inv_closeLocked [OF assms]
  by (auto simp: StreamSession_Receive_def StreamSession_Close_def split: option.splits prod.splits)
    (metis snd_conv)

section \<open>Views\<close>

lemma views_admit_props:
  assumes "views_admit E old bs add wanted = Some (add', wanted')"
    and "distinct_keys add" and "fst ` set add \<inter> fst ` set old = {}" and "distinct wanted"
    and "fst ` set add \<subseteq> set wanted" and "\<forall>(k, b) \<in> set add. b_InstallationID b = k"
  shows "distinct_keys add' \<and> fst ` set add' \<inter> fst ` set old = {} \<and> distinct wanted'
     \<and> fst ` set add' \<subseteq> set wanted' \<and> (\<forall>(k, b) \<in> set add'. b_InstallationID b = k)"
  using assms
proof (induction bs arbitrary: add wanted)
  case (Cons b bs)
  define w where "w = List.insert (b_InstallationID b) wanted"
  have w: "distinct w" "fst ` set add \<subseteq> set w" "b_InstallationID b \<in> set w"
    using Cons.prems by (auto simp: w_def)
  show ?case
  proof (cases "map_of old (b_InstallationID b)")
    case None
    let ?add = "AList.update (b_InstallationID b) b add"
    have "views_admit E old bs ?add w = Some (add', wanted')"
      using Cons.prems(1) None by (auto simp: w_def Let_def split: if_splits)
    moreover have "fst ` set ?add = insert (b_InstallationID b) (fst ` set add)"
      using dom_update [of "b_InstallationID b" b add] by (simp add: dom_map_of_conv_image_fst)
    moreover have "\<forall>(k, b) \<in> set ?add. b_InstallationID b = k"
      using Cons.prems(6) by (auto dest: in_set_update)
    moreover have "b_InstallationID b \<notin> fst ` set old" using None by (simp add: map_of_eq_None_iff)
    ultimately show ?thesis using Cons.prems w by (intro Cons.IH [of ?add w]) auto
  next
    case (Some ob)
    then have "views_admit E old bs add w = Some (add', wanted')"
      using Cons.prems(1) by (auto simp: w_def Let_def split: if_splits)
    then show ?thesis using Cons.prems w by (intro Cons.IH [of add w]) auto
  qed
qed simp

lemma reclaim_eq: "fst (reclaim wanted bs sc) = filter (\<lambda>(k, _). k \<in> set wanted) bs"
  by (induction wanted bs sc rule: reclaim.induct) (auto split: prod.splits simp: Let_def)

lemma fold_update_keys:
  "fst ` set (fold (\<lambda>(k, b) bs. AList.update k (g b) bs) add bs) = fst ` set add \<union> fst ` set bs"
proof (induction add arbitrary: bs)
  case (Cons e add)
  have "fst ` set (AList.update k v bs) = insert k (fst ` set bs)" for k v
    using dom_update [of k v bs] by (simp add: dom_map_of_conv_image_fst)
  then show ?case using Cons.IH by (cases e) auto
qed simp

lemma fold_update_distinct:
  "distinct_keys bs \<Longrightarrow> distinct_keys (fold (\<lambda>(k, b) bs. AList.update k (g b) bs) add bs)"
  by (induction add arbitrary: bs) auto

lemma fold_update_set:
  "(k, v) \<in> set (fold (\<lambda>(k, b) bs. AList.update k (g b) bs) add bs) \<Longrightarrow>
     (k, v) \<in> set bs \<or> (\<exists>b. (k, b) \<in> set add \<and> v = g b)"
proof (induction add arbitrary: bs)
  case (Cons e add)
  obtain k0 b0 where e: "e = (k0, b0)" by fastforce
  from Cons e have "(k, v) \<in> set (AList.update k0 (g b0) bs) \<or> (\<exists>b. (k, b) \<in> set add \<and> v = g b)" by auto
  with e show ?case by (auto dest!: in_set_update)
qed simp

lemma distinct_keys_length: "distinct_keys al \<Longrightarrow> length al = card (fst ` set al)"
  by (metis distinct_card distinct_keys_def length_map set_map)

definition kept_bindings :: "(string \<times> Binding) list \<Rightarrow> string list \<Rightarrow> Memory \<Rightarrow> (string \<times> memoryBinding) list" where
  "kept_bindings add wanted m =
     (if length (m_bindings m) + length add > maxBindings
      then filter (\<lambda>(k, _). k \<in> set wanted) (m_bindings m) else m_bindings m)"

lemma m_bindings_register:
  "m_bindings (views_register add wanted m) =
     fold (\<lambda>(k, b) bs. AList.update k (new_binding b) bs) add (kept_bindings add wanted m)"
  by (simp add: views_register_def kept_bindings_def Let_def case_prod_beta' if_distrib [of fst] reclaim_eq)

lemma views_register_ok:
  assumes ok: "bindings_ok (m_bindings m)" and adm: "views_admit E (m_bindings m) bs [] [] = Some (add, wanted)"
    and w: "length wanted \<le> maxBindings"
  shows "bindings_ok (m_bindings (views_register add wanted m))"
proof -
  define base where "base = kept_bindings add wanted m"
  note base_def = base_def kept_bindings_def
  have a: "distinct_keys add" "distinct wanted" "fst ` set add \<subseteq> set wanted"
      "\<forall>(k, b) \<in> set add. b_InstallationID b = k"
    using views_admit_props [OF adm] by auto
  have base: "distinct_keys base" "set base \<subseteq> set (m_bindings m)"
    using ok by (auto simp: base_def bindings_ok_def)
  let ?new = "fold (\<lambda>(k, b) bs. AList.update k (new_binding b) bs) add base"
  have keys: "fst ` set ?new = fst ` set add \<union> fst ` set base" by (rule fold_update_keys)
  have dist: "distinct_keys ?new" by (rule fold_update_distinct [OF base(1)])
  have "length ?new \<le> maxBindings"
  proof (cases "length (m_bindings m) + length add > maxBindings")
    case True
    then have "fst ` set ?new \<subseteq> set wanted" using keys a by (auto simp: base_def)
    then have "card (fst ` set ?new) \<le> card (set wanted)" by (rule card_mono [OF finite_set])
    also have "\<dots> \<le> length wanted" by (rule card_length)
    finally have "card (fst ` set ?new) \<le> length wanted" .
    with w dist show ?thesis by (simp add: distinct_keys_length)
  next
    case False
    have "card (fst ` set ?new) \<le> card (fst ` set add) + card (fst ` set base)"
      unfolding keys by (rule card_Un_le)
    with False a base dist show ?thesis by (simp add: distinct_keys_length base_def)
  qed
  moreover have "b_InstallationID (mb_Binding b) = k" if "(k, b) \<in> set ?new" for k b
    using fold_update_set [OF that] ok a base by (auto simp: bindings_ok_def new_binding_def)
  ultimately show ?thesis using dist by (simp add: m_bindings_register bindings_ok_def base_def(1) [symmetric])
qed

lemma views_register_simps [simp]:
  "m_collectors (views_register add w m) = m_collectors m"
  "m_sessions (views_register add w m) = m_sessions m"
  "m_station (views_register add w m) = m_station m"
  "m_boot (views_register add w m) = m_boot m"
  by (simp_all add: views_register_def Let_def split: prod.splits)

lemma mem_inv_views [inv_intros]:
  assumes inv: "mem_inv E m" shows "mem_inv E (snd (viewsLocked E bs now m))"
proof (cases "views_admit E (m_bindings m) bs [] []")
  case (Some aw)
  obtain add wanted where aw: "aw = (add, wanted)" by fastforce
  show ?thesis
  proof (cases "length wanted > maxBindings")
    case False
    then have "bindings_ok (m_bindings (views_register add wanted m))"
      using inv Some aw by (intro views_register_ok) (auto simp: mem_inv_def)
    then have "mem_inv E (views_register add wanted m)" using inv by (simp add: mem_inv_def)
    with False Some aw show ?thesis
      by (simp add: viewsLocked_def Let_def mem_inv_projectAll)
  qed (use inv Some aw in \<open>simp add: viewsLocked_def\<close>)
qed (use inv in \<open>simp add: viewsLocked_def\<close>)

section \<open>Expiry, reset, construction\<close>

lemma expire_fold:
  assumes "mem_inv E m" and "\<And>cid c p. (cid, c) \<in> set cs \<Longrightarrow> mc_active c = Some p \<Longrightarrow> p < length (m_sessions m)"
  shows "mem_inv E (fold (\<lambda>(_, c) m. case mc_active c of None \<Rightarrow> m
            | Some p \<Rightarrow> if StreamSession_live m p now then m else closeLocked p m) cs m)"
  using assms
proof (induction cs arbitrary: m)
  case (Cons e cs)
  obtain cid c where e: "e = (cid, c)" by fastforce
  let ?m = "case mc_active c of None \<Rightarrow> m | Some p \<Rightarrow> if StreamSession_live m p now then m else closeLocked p m"
  have "mem_inv E ?m" and "length (m_sessions ?m) = length (m_sessions m)"
    using Cons.prems(1) Cons.prems(2) [of cid c] e by (auto simp: mem_inv_closeLocked split: option.splits)
  with Cons.IH [of ?m] Cons.prems(2) e show ?case by auto
qed simp

lemma mem_inv_Expire [inv_intros]: assumes "mem_inv E m" shows "mem_inv E (Memory_Expire now m)"
  using expire_fold [OF assms, of "m_collectors m"] active_session [OF assms] assms
  by (force simp: Memory_Expire_def expire_sessions_def in_set_iff_map_of mem_inv_def [of E m] intro!: mem_inv_projectAll)

lemma map_vals_update_commute:
  "map_of (map_vals f cs) k = Some d \<Longrightarrow> \<exists>c. map_of cs k = Some c \<and> d = f c"
  by auto

lemma mem_inv_filter_objects:
  assumes inv: "mem_inv E m"
  shows "mem_inv E (m\<lparr>m_collectors := map_vals (\<lambda>c. c\<lparr>mc_objects := filter P (mc_objects c)\<rparr>) (m_collectors m)\<rparr>)"
proof -
  let ?f = "\<lambda>c. c\<lparr>mc_objects := filter P (mc_objects c)\<rparr>"
  have "collector_ok E ss cid (?f c)" if "collector_ok E ss cid c" for ss cid c
    using that by (auto simp: collector_ok_def inventory_ok_filter)
  moreover have "session_ok E (map_vals ?f cs) p s" if "session_ok E cs p s" for cs p s
    using that by (auto simp: session_ok_def)
  moreover have "scopes_disjoint (map_vals ?f cs)" if "scopes_disjoint cs" for cs
    by (rule scopes_disjoint_cong [OF _ that]) (simp add: option.map_comp o_def)
  ultimately show ?thesis using inv by (auto simp: mem_inv_def)
qed

lemma mem_inv_Reset [inv_intros]: assumes "mem_inv E m" shows "mem_inv E (ResetAppBindings app ns now m)"
proof (cases "app = []")
  case False
  have bs: "bindings_ok (map_vals f bs)" if "bindings_ok bs" "\<And>b. mb_Binding (f b) = mb_Binding b" for f bs
    using that by (auto simp: bindings_ok_def set_map_vals)
  show ?thesis
    using False mem_inv_filter_objects [OF assms] bs [of "m_bindings m"]
    by (auto simp: ResetAppBindings_def Let_def mem_inv_def m_bindings_projectAll split: if_splits
        intro!: bindings_ok_project)
qed (use assms in \<open>simp add: ResetAppBindings_def\<close>)

text \<open>The collectors a fresh memory starts with: idle, empty, with pairwise disjoint scopes.\<close>

definition fresh_collectors :: "string list \<Rightarrow> (string \<times> memoryCollector) list \<Rightarrow> bool" where
  "fresh_collectors seen cs \<longleftrightarrow>
     distinct_keys cs \<and> scopes_disjoint cs
     \<and> (\<forall>k c. map_of cs k = Some c \<longrightarrow> col_ID (mc_config c) = k \<and> Collector_valid (mc_config c)
          \<and> mc_objects c = [] \<and> mc_active c = None \<and> set (col_Namespaces (mc_config c)) \<subseteq> set seen)"

lemma scopes_disjointD:
  assumes "scopes_disjoint cs" and "map_of cs i = Some c" and "map_of cs j = Some d"
    and "ns \<in> set (col_Namespaces (mc_config c))" and "ns \<in> set (col_Namespaces (mc_config d))"
  shows "i = j"
proof -
  have "map_option mc_config (map_of cs i) = Some (mc_config c)"
    and "map_option mc_config (map_of cs j) = Some (mc_config d)" using assms by simp_all
  with assms show ?thesis unfolding scopes_disjoint_def by blast
qed

lemma scopes_disjoint_add:
  assumes disj: "scopes_disjoint acc" and new: "map_of acc cid = None"
    and sep: "\<And>k d ns. map_of acc k = Some d \<Longrightarrow> ns \<in> set (col_Namespaces (mc_config mc)) \<Longrightarrow>
                 ns \<notin> set (col_Namespaces (mc_config d))"
  shows "scopes_disjoint (AList.update cid mc acc)"
  unfolding scopes_disjoint_def
proof (intro allI impI, elim conjE)
  fix i j x y ns
  assume i: "map_option mc_config (map_of (AList.update cid mc acc) i) = Some x" and x: "ns \<in> set (col_Namespaces x)"
    and j: "map_option mc_config (map_of (AList.update cid mc acc) j) = Some y" and y: "ns \<in> set (col_Namespaces y)"
  consider "i = cid" "j = cid" | "i = cid" "j \<noteq> cid" | "i \<noteq> cid" "j = cid" | "i \<noteq> cid" "j \<noteq> cid" by blast
  then show "i = j"
  proof cases
    case 2
    with i j x y sep show ?thesis by (auto simp: update_conv)
  next
    case 3
    with i j x y sep show ?thesis by (auto simp: update_conv)
  next
    case 4
    with i j obtain c d where "map_of acc i = Some c" "x = mc_config c" "map_of acc j = Some d" "y = mc_config d"
      by (auto simp: update_conv)
    with x y show ?thesis by (metis scopes_disjointD [OF disj])
  qed simp
qed

lemma add_collectors_fresh:
  "add_collectors cs seen acc = Inr cs' \<Longrightarrow> fresh_collectors seen acc \<Longrightarrow> \<exists>seen'. fresh_collectors seen' cs'"
proof (induction cs arbitrary: seen acc)
  case (Cons c cs)
  let ?mc = "\<lparr>mc_config = c, mc_active = None, mc_objects = [], mc_lastFull = 0,
                 mc_inventoryAt = 0, mc_inventoryExpires = 0\<rparr>"
  from Cons.prems(1) have c: "Collector_valid c" "map_of acc (col_ID c) = None"
      "set (col_Namespaces c) \<inter> set seen = {}"
      and rest: "add_collectors cs (rev (col_Namespaces c) @ seen) (AList.update (col_ID c) ?mc acc) = Inr cs'"
    by (auto simp: seen_loop_gen split: if_splits)
  have sep: "ns \<notin> set (col_Namespaces (mc_config d))" if "map_of acc k = Some d" "ns \<in> set (col_Namespaces c)" for k d ns
    using that c Cons.prems(2) by (auto simp: fresh_collectors_def)
  have "scopes_disjoint (AList.update (col_ID c) ?mc acc)"
    by (rule scopes_disjoint_add) (use sep c Cons.prems(2) in \<open>auto simp: fresh_collectors_def\<close>)
  moreover have "distinct_keys (AList.update (col_ID c) ?mc acc)"
    using Cons.prems(2) by (simp add: fresh_collectors_def)
  ultimately have "fresh_collectors (rev (col_Namespaces c) @ seen) (AList.update (col_ID c) ?mc acc)"
    using Cons.prems(2) c by (auto simp: fresh_collectors_def update_conv)
  with rest show ?case by (rule Cons.IH)
qed auto

lemma mem_inv_New [inv_intros]:
  assumes "NewMemory E station boot cfgs = Inr m" shows "mem_inv E m"
proof -
  obtain cs where cs: "add_collectors cfgs [] [] = Inr cs"
      "m = \<lparr>m_station = station, m_boot = boot, m_collectors = cs, m_bindings = [],
            m_scopeRevision = [], m_legacy = [], m_sessions = []\<rparr>"
    using assms by (auto simp: NewMemory_def split: if_splits sum.splits)
  have "fresh_collectors [] []" by (simp add: fresh_collectors_def scopes_disjoint_def)
  with add_collectors_fresh [OF cs(1)] obtain seen where "fresh_collectors seen cs" by blast
  with cs(2) show ?thesis
    by (simp add: mem_inv_def fresh_collectors_def collector_ok_def bindings_ok_def)
qed

section \<open>The memory as an event handler\<close>

text \<open>
  The calls other components make on one memory. A session is a capability: only an
  address that \<open>Open\<close> returned exists, so an event on another address does nothing.
\<close>

datatype mem_event =
    EvOpen string string gotime
  | EvReceive nat "frame option" gotime
  | EvClose nat
  | EvViews "Binding list" gotime
  | EvExpire gotime
  | EvReset string string gotime

fun mem_step :: "memory_ext \<Rightarrow> mem_event \<Rightarrow> Memory \<Rightarrow> Memory" where
  "mem_step E (EvOpen sid cid now) m = snd (Memory_Open sid cid now m)"
| "mem_step E (EvReceive p f now) m =
     (if p < length (m_sessions m) then snd (StreamSession_Receive E p f now m) else m)"
| "mem_step E (EvClose p) m = (if p < length (m_sessions m) then StreamSession_Close p m else m)"
| "mem_step E (EvViews bs now) m = snd (viewsLocked E bs now m)"
| "mem_step E (EvExpire now) m = Memory_Expire now m"
| "mem_step E (EvReset app ns now) m = ResetAppBindings app ns now m"

lemma mem_step_inv: "mem_inv E m \<Longrightarrow> mem_inv E (mem_step E ev m)"
  by (cases ev) (auto intro: inv_intros simp: StreamSession_Close_def)

interpretation mem: invariant_handler "\<lambda>m. \<exists>station boot cfgs. NewMemory E station boot cfgs = Inr m"
  "mem_step E" "mem_inv E" for E
  by unfold_locales (auto intro: mem_inv_New mem_step_inv)

end
