(* ===== verification/Memory_Properties.thy ===== *)
theory Memory_Properties
  imports Memory_Steps
begin

text \<open>
  What the observation memory promises: capabilities, atomic inventories, fresh
  evidence, stable revisions and identity isolation, with the concrete inputs the
  witnesses evaluate.
\<close>

section \<open>Supporting facts\<close>

lemma closeLocked_objects:
  assumes "mem_inv E m" and "p < length (m_sessions m)"
  shows "map_option mc_objects (map_of (m_collectors (closeLocked p m)) cid)
       = map_option mc_objects (map_of (m_collectors m) cid)"
  using collector_of_Some [OF assms] by (simp add: closeLocked_eq update_conv)

lemma closeLocked_session [simp]:
  assumes "p < length (m_sessions m)"
  shows "ss_closed (session_at (closeLocked p m) p)" "ss_staging (session_at (closeLocked p m) p) = None"
  using assms by (simp_all add: closeLocked_def Let_def session_at_def)

lemma closeLocked_other [simp]: "q \<noteq> p \<Longrightarrow> session_at (closeLocked p m) q = session_at m q"
  by (simp add: closeLocked_def Let_def session_at_def)

lemma RuntimeView_known_iff:
  "rt_Quality (RuntimeView now st rs rec ex expired) = ''known'' \<longleftrightarrow>
     (\<exists>s r a b. st = Some s \<and> rs = Some r \<and> rec = Some a \<and> ex = Some b \<and> \<not> expired
        \<and> a \<le> now \<and> now < b \<and> s \<noteq> ''unknown'')"
  by (auto simp: RuntimeView_def Let_def split: option.splits)

lemma RuntimeView_times [simp]:
  "rt_ObservedAt (RuntimeView now st rs rec ex expired) = rec"
  "rt_ExpiresAt (RuntimeView now st rs rec ex expired) = ex"
  by (auto simp: RuntimeView_def Let_def split: option.splits)

definition fresh_view :: "gotime \<Rightarrow> Runtime \<Rightarrow> bool" where
  "fresh_view now v \<longleftrightarrow>
     (rt_Quality v = ''known'' \<longrightarrow>
        (\<exists>a b. rt_ObservedAt v = Some a \<and> rt_ExpiresAt v = Some b \<and> a \<le> now \<and> now < b))"

lemma fresh_RuntimeView: "fresh_view now (RuntimeView now st rs rec ex expired)"
  by (auto simp: fresh_view_def RuntimeView_known_iff)

lemma fresh_unknown: "fresh_view now (unknown_Runtime r)"
  by (simp add: fresh_view_def unknown_Runtime_def)

lemma fresh_project: "fresh_view now (fst (project cs b now rs))"
  by (auto simp: project_def Let_def fresh_RuntimeView fresh_unknown split: list.splits option.splits prod.splits if_splits)

lemma fresh_project_binding: "fresh_view now (mb_view (fst (project_binding st cs now b sc)))"
proof -
  obtain v b' where p: "project cs b now (candidates_for st cs (b_InstallationID (mb_Binding b))) = (v, b')"
    by fastforce
  then have "fresh_view now v" by (metis fresh_project fst_conv)
  then have "fresh_view now (v\<lparr>rt_LastKnownState := x\<rparr>)" for x by (simp add: fresh_view_def)
  with \<open>fresh_view now v\<close> p show ?thesis by (simp add: project_binding_def Let_def)
qed

lemma project_bindings_view:
  "(k, b) \<in> set (fst (project_bindings st cs now bs sc)) \<Longrightarrow> fresh_view now (mb_view b)"
proof (induction bs arbitrary: sc)
  case (Cons e bs)
  obtain k0 b0 where e: "e = (k0, b0)" by fastforce
  obtain b1 sc1 where p: "project_binding st cs now b0 sc = (b1, sc1)" by fastforce
  obtain bs2 sc2 where q: "project_bindings st cs now bs sc1 = (bs2, sc2)" by fastforce
  have "fresh_view now (mb_view b1)" using fresh_project_binding [of now st cs b0 sc] p by simp
  moreover have "fresh_view now (mb_view b)" if "(k, b) \<in> set bs2" using Cons.IH [of sc1] q that by simp
  ultimately show ?case using Cons.prems e p q by auto
qed simp

lemma projectAll_fresh: "map_of (m_bindings (projectAll now m)) k = Some b \<Longrightarrow> fresh_view now (mb_view b)"
  unfolding m_bindings_projectAll by (drule map_of_SomeD) (rule project_bindings_view)

text \<open>Every requested installation is registered after \<open>viewsLocked\<close>.\<close>

lemma views_admit_covers:
  "views_admit E old bs add wanted = Some (add', wanted') \<Longrightarrow>
     fst ` set add \<subseteq> fst ` set add' \<and> (\<forall>b \<in> set bs. b_InstallationID b \<in> fst ` set old \<union> fst ` set add')
     \<and> set wanted \<subseteq> set wanted' \<and> (\<forall>b \<in> set bs. b_InstallationID b \<in> set wanted')"
proof (induction bs arbitrary: add wanted)
  case (Cons b bs)
  define w where "w = List.insert (b_InstallationID b) wanted"
  have keys: "fst ` set (AList.update k v add) = insert k (fst ` set add)" for k and v :: Binding
    using dom_update [of k v add] by (simp add: dom_map_of_conv_image_fst)
  show ?case
  proof (cases "map_of old (b_InstallationID b)")
    case None
    then have "views_admit E old bs (AList.update (b_InstallationID b) b add) w = Some (add', wanted')"
      using Cons.prems by (auto simp: w_def Let_def split: if_splits)
    from Cons.IH [OF this] show ?thesis by (auto simp: keys w_def)
  next
    case (Some ob)
    then have "b_InstallationID b \<in> fst ` set old" by (force dest: map_of_SomeD)
    moreover have "views_admit E old bs add w = Some (add', wanted')"
      using Cons.prems Some by (auto simp: w_def Let_def split: if_splits)
    ultimately show ?thesis using Cons.IH [of add w] by (auto simp: w_def)
  qed
qed auto

lemma views_register_keys:
  assumes adm: "views_admit E (m_bindings m) bs [] [] = Some (add, wanted)" and b: "b \<in> set bs"
  shows "b_InstallationID b \<in> fst ` set (m_bindings (views_register add wanted m))"
proof -
  from views_admit_covers [OF adm] b
  have "b_InstallationID b \<in> fst ` set (m_bindings m) \<union> fst ` set add" and "b_InstallationID b \<in> set wanted"
    by auto
  then show ?thesis
    unfolding m_bindings_register fold_update_keys kept_bindings_def by force
qed

lemma fold_update_lookup:
  "map_of (fold (\<lambda>b. AList.update (key b) (f b)) bs al) i = Some v \<Longrightarrow>
     map_of al i = Some v \<or> (\<exists>b \<in> set bs. key b = i \<and> v = f b)"
proof (induction bs arbitrary: al)
  case (Cons a bs)
  from Cons.IH [of "AList.update (key a) (f a) al"] Cons.prems
  consider "map_of (AList.update (key a) (f a) al) i = Some v" | "\<exists>b \<in> set bs. key b = i \<and> v = f b"
    by auto
  then show ?case by cases (auto simp: update_conv split: if_splits)
qed simp

lemma fold_update_some:
  "b \<in> set bs \<Longrightarrow> \<exists>v. map_of (fold (\<lambda>b. AList.update (key b) (f b)) bs al) (key b) = Some v"
proof (induction bs arbitrary: al)
  case (Cons a bs)
  have keep: "\<exists>v. map_of (fold (\<lambda>b. AList.update (key b) (f b)) bs al) k = Some v" if "map_of al k \<noteq> None" for al k
    using that by (induction bs arbitrary: al) (auto simp: update_conv)
  show ?case using Cons by (auto simp: keep update_conv)
qed simp

text \<open>The views and the state a successful \<open>viewsLocked\<close> returns.\<close>

lemma viewsLocked_ok:
  assumes "viewsLocked E bs now m = (Inr (views, revs), m')"
  obtains add wanted where "views_admit E (m_bindings m) bs [] [] = Some (add, wanted)"
    "length wanted \<le> maxBindings" "m' = projectAll now (views_register add wanted m)"
    "views = fold (\<lambda>b. AList.update (b_InstallationID b)
       (view_of m' (the (map_of (m_bindings m') (b_InstallationID b))))) bs []"
  using assms by (auto simp: viewsLocked_def Let_def split: option.splits prod.splits if_splits)

lemma views_lookup:
  assumes ok: "viewsLocked E bs now m = (Inr (views, revs), m')" and v: "map_of views i = Some v"
  obtains b stored where "b \<in> set bs" "b_InstallationID b = i" "map_of (m_bindings m') i = Some stored" "v = view_of m' stored"
proof -
  from ok obtain add wanted where adm: "views_admit E (m_bindings m) bs [] [] = Some (add, wanted)"
    and m': "m' = projectAll now (views_register add wanted m)"
    and views: "views = fold (\<lambda>b. AList.update (b_InstallationID b)
       (view_of m' (the (map_of (m_bindings m') (b_InstallationID b))))) bs []" by (rule viewsLocked_ok)
  from fold_update_lookup [OF v [unfolded views]] obtain b where b: "b \<in> set bs" "b_InstallationID b = i"
      "v = view_of m' (the (map_of (m_bindings m') i))" by auto
  have "map fst (m_bindings m') = map fst (m_bindings (views_register add wanted m))"
    by (simp add: m' m_bindings_projectAll project_bindings_fst)
  then have "fst ` set (m_bindings m') = fst ` set (m_bindings (views_register add wanted m))"
    by (metis image_set)
  with views_register_keys [OF adm b(1)] b(2) have "map_of (m_bindings m') i \<noteq> None"
    by (simp add: map_of_eq_None_iff)
  then obtain stored where "map_of (m_bindings m') i = Some stored" by blast
  with b that show ?thesis by simp
qed

section \<open>Idempotence of the projection\<close>

lemma project_many: "matching (mb_Binding b) rs = x # y # zs \<Longrightarrow> project cs b now rs = (unknown_Runtime ''IDENTITY_CONFLICT'', b)"
  by (simp add: project_def)

definition located :: "memoryCollector \<Rightarrow> memoryResource \<Rightarrow> memoryBinding \<Rightarrow> memoryBinding" where
  "located c r b = b\<lparr>mb_collector := col_ID (mc_config c), mb_namespace := ro_Namespace (mr_obs r),
     mb_name := ro_Name (mr_obs r), mb_uid := ro_UID (mr_obs r), mb_absentAt := 0, mb_absentExpires := 0\<rparr>"

lemma project_one_stays:
  assumes "matching (mb_Binding b) rs = [(c, r)]" and "mb_collector b = col_ID (mc_config c)"
    and "mb_namespace b = ro_Namespace (mr_obs r)" and "mb_name b = ro_Name (mr_obs r)"
  shows "project cs b now rs =
     (case evaluate (effective_fact r now) (b_AppID (mb_Binding b) \<in> set (col_HealthRequiredApps (mc_config c))) of
        (state, reason) \<Rightarrow> (RuntimeView now (Some state) (Some reason) (Some (mr_received r)) (Some (mr_expires r)) False,
                            located c r b))"
  using assms by (simp add: project_def Let_def located_def moved_conflict_def split: prod.splits)

lemma project_one:
  assumes "matching (mb_Binding b) rs = [(c, r)]" and "project cs b now rs = (v, b')"
  obtains (conflict) "v = unknown_Runtime ''IDENTITY_CONFLICT''" "b' = b"
    | (found) "b' = located c r b"
        "(v, b') = (case evaluate (effective_fact r now) (b_AppID (mb_Binding b) \<in> set (col_HealthRequiredApps (mc_config c))) of
          (state, reason) \<Rightarrow> (RuntimeView now (Some state) (Some reason) (Some (mr_received r)) (Some (mr_expires r)) False,
                              located c r b))"
  using assms by (auto simp: project_def Let_def located_def split: prod.splits if_splits)

lemma project_none:
  assumes "matching (mb_Binding b) rs = []"
  shows "snd (project cs b now rs) = b"
  using assms by (simp add: project_def split: option.splits)

text \<open>The fields \<open>project\<close> does not read.\<close>

lemma project_cong:
  "project cs (b\<lparr>mb_view := w, mb_semantic := s, mb_revision := n\<rparr>) now rs =
     map_prod id (\<lambda>b. b\<lparr>mb_view := w, mb_semantic := s, mb_revision := n\<rparr>) (project cs b now rs)"
proof (cases "matching (mb_Binding b) rs")
  case Nil
  then show ?thesis by (simp add: project_def split: option.split)
next
  case (Cons x xs)
  have "moved_conflict cs (b\<lparr>mb_view := w, mb_semantic := s, mb_revision := n\<rparr>) x = moved_conflict cs b x"
    by (simp add: moved_conflict_def split: prod.split option.split)
  with Cons show ?thesis
    by (cases b; cases xs; cases x) (simp_all add: project_def Let_def split_beta)
qed

lemma project_idem:
  assumes p: "project cs b now rs = (v, b')"
  shows "project cs b' now rs = (v, b')"
proof (cases "matching (mb_Binding b) rs" rule: list.exhaust [case_names Nil Cons])
  case Nil
  with p have "b' = b" by (metis project_none snd_conv)
  with p show ?thesis by simp
next
  case (Cons x xs)
  show ?thesis
  proof (cases xs)
    case Nil
    obtain c r where x: "x = (c, r)" by fastforce
    have m: "matching (mb_Binding b) rs = [(c, r)]" using Cons Nil x by simp
    from m p show ?thesis
    proof (cases rule: project_one)
      case conflict
      with p show ?thesis by simp
    next
      case found
      then have "project cs b' now rs = (case evaluate (effective_fact r now)
          (b_AppID (mb_Binding b) \<in> set (col_HealthRequiredApps (mc_config c))) of
          (state, reason) \<Rightarrow> (RuntimeView now (Some state) (Some reason) (Some (mr_received r)) (Some (mr_expires r)) False,
                              located c r b'))"
        using m by (subst project_one_stays) (auto simp: located_def)
      moreover have "located c r b' = b'" using found(1) by (simp add: located_def)
      ultimately show ?thesis using found(2) by (auto split: prod.splits)
    qed
  next
    case (Cons y zs)
    with \<open>matching (mb_Binding b) rs = x # xs\<close> p show ?thesis by (auto simp: project_many)
  qed
qed

lemma bound_resource_cong [simp]:
  "bound_resource st cs (b\<lparr>mb_view := w\<rparr>) = bound_resource st cs b"
  "bound_resource st cs (b\<lparr>mb_semantic := s\<rparr>) = bound_resource st cs b"
  "bound_resource st cs (b\<lparr>mb_revision := n\<rparr>) = bound_resource st cs b"
  by (simp_all add: bound_resource_def split: option.split)

lemma semantic_of_cong [simp]:
  "semantic_of (b\<lparr>mb_view := w\<rparr>) v r = semantic_of b v r"
  "semantic_of (b\<lparr>mb_semantic := s\<rparr>) v r = semantic_of b v r"
  "semantic_of (b\<lparr>mb_revision := n\<rparr>) v r = semantic_of b v r"
  by (simp_all add: semantic_of_def)

text \<open>The view of one pass: the projected one, with the last known state carried over.\<close>

definition carried :: "Runtime \<Rightarrow> Runtime \<Rightarrow> Runtime" where
  "carried prev v =
     (if rt_ReasonCode v = ''HEALTH_NOT_OBSERVED'' \<and> rt_LastKnownState prev \<noteq> None
      then v\<lparr>rt_LastKnownState := rt_LastKnownState prev\<rparr> else v)"

lemma carried_idem: "carried (carried prev v) v = carried prev v"
  by (simp add: carried_def)

lemma project_binding_eq:
  assumes "project cs b now (candidates_for st cs (b_InstallationID (mb_Binding b))) = (v, b')"
  shows "project_binding st cs now b sc =
    (let w = carried (mb_view b) v; s = semantic_of b' w (bound_resource st cs b'); org = b_OrganizationID (mb_Binding b')
     in if s \<noteq> mb_semantic b' then (b'\<lparr>mb_semantic := s, mb_revision := mb_revision b' + 1, mb_view := w\<rparr>,
                                     AList.update org (lookup_default 0 sc org + 1) sc)
        else (b'\<lparr>mb_view := w\<rparr>, sc))"
  using assms by (simp add: project_binding_def carried_def Let_def)

lemma project_binding_idem:
  assumes p: "project_binding st cs now b sc = (b1, sc1)"
  shows "project_binding st cs now b1 sc' = (b1, sc')"
proof -
  obtain v b' where q: "project cs b now (candidates_for st cs (b_InstallationID (mb_Binding b))) = (v, b')"
    by fastforce
  have Bind: "mb_Binding b' = mb_Binding b" using q by (metis project_Binding snd_conv)
  let ?w = "carried (mb_view b) v"
  let ?s = "semantic_of b' ?w (bound_resource st cs b')"
  have b1: "\<exists>n. b1 = b'\<lparr>mb_view := ?w, mb_semantic := ?s, mb_revision := n\<rparr>"
    using p unfolding project_binding_eq [OF q] Let_def
    by (cases b') (auto split: if_splits)
  then obtain n where b1: "b1 = b'\<lparr>mb_view := ?w, mb_semantic := ?s, mb_revision := n\<rparr>" ..
  have "project cs b1 now (candidates_for st cs (b_InstallationID (mb_Binding b1))) = (v, b1)"
    using project_idem [OF q] by (simp add: b1 project_cong Bind)
  from project_binding_eq [OF this] show ?thesis
    by (simp add: b1 carried_idem Let_def)
qed

lemma project_bindings_idem:
  "project_bindings st cs now bs sc = (bs1, sc1) \<Longrightarrow> project_bindings st cs now bs1 sc' = (bs1, sc')"
proof (induction bs arbitrary: sc bs1 sc1 sc')
  case (Cons e bs)
  obtain k b where e: "e = (k, b)" by fastforce
  obtain b1 s1 where p: "project_binding st cs now b sc = (b1, s1)" by fastforce
  obtain bs2 s2 where q: "project_bindings st cs now bs s1 = (bs2, s2)" by fastforce
  from Cons.prems e p q have "bs1 = (k, b1) # bs2" by simp
  then show ?case using project_binding_idem [OF p] Cons.IH [OF q] by simp
qed simp

section \<open>Capabilities and inventories\<close>

text \<open>
  C34. Every state the memory can reach from construction, by any sequence of opens,
  frames (valid or not), closes, views, expiry scans and resets, satisfies the
  representation invariant: inventories hold at most 10000 valid, undeleted objects of
  the collector's own namespaces under their own key, at most one session per collector
  is open and it is the active one, only an open session has staged objects, collector
  scopes are disjoint, and at most 1000 bindings are kept.
\<close>

theorem memory_reachable_inv:
  assumes "NewMemory E station boot cfgs = Inr m0"
  shows "mem_inv E (fold (mem_step E) evs m0)"
  using mem.run_inv [OF mem_inv_New [OF assms], of evs] by (simp add: mem.run_def)

text \<open>
  C5. A session is a capability of one live connection. Once another session is active
  for its collector, or none is, every frame it sends is refused as closed, and neither
  an inventory, a binding, a revision nor another session changes.
\<close>

theorem stale_session_powerless:
  assumes "mem_inv E m" and "p < length (m_sessions m)" and "mc_active (collector_of m p) \<noteq> Some p"
  shows "fst (StreamSession_Receive E p (Some f) now m) = Some (Stream ErrStreamClosed)
     \<and> m_collectors (snd (StreamSession_Receive E p (Some f) now m)) = m_collectors m
     \<and> m_bindings (snd (StreamSession_Receive E p (Some f) now m)) = m_bindings m
     \<and> m_scopeRevision (snd (StreamSession_Receive E p (Some f) now m)) = m_scopeRevision m
     \<and> (\<forall>q. session_at (snd (StreamSession_Receive E p (Some f) now m)) q =
             (if q = p then (session_at m p)\<lparr>ss_closed := True, ss_staging := None, ss_syncID := []\<rparr> else session_at m q))"
  using assms
  by (auto simp: StreamSession_Receive_def StreamSession_apply_def StreamSession_live_def Let_def closeLocked_def session_at_def)

text \<open>
  Opening a stream never shares a collector: while its session is live a second open
  is refused as busy and changes nothing; otherwise the new session is the only open one
  of that collector, and every earlier session of it is closed.
\<close>

theorem open_is_exclusive:
  assumes "mem_inv E m" and "map_of (m_collectors m) cid = Some c"
  shows "case Memory_Open sid cid now m of
     (Inl e, m') \<Rightarrow> e = ErrCollectorBusy \<and> m' = m \<and> (\<exists>p. mc_active c = Some p \<and> StreamSession_live m p now)
   | (Inr p, m') \<Rightarrow> p = length (m_sessions m) \<and> StreamSession_live m' p now
       \<and> (\<forall>q < length (m_sessions m'). ss_collector (session_at m' q) = cid \<and> \<not> ss_closed (session_at m' q) \<longrightarrow> q = p)"
proof (cases "\<exists>p. mc_active c = Some p \<and> StreamSession_live m p now")
  case True
  with assms show ?thesis by (auto simp: Memory_Open_def)
next
  case False
  define m1 where "m1 = (case mc_active c of None \<Rightarrow> m | Some p \<Rightarrow> closeLocked p m)"
  have len: "length (m_sessions m1) = length (m_sessions m)" by (simp add: m1_def split: option.splits)
  obtain c1 where c1: "map_of (m_collectors m1) cid = Some c1"
    using assms closeLocked_idle [OF assms] by (cases "mc_active c") (auto simp: m1_def)
  define m' where "m' = snd (Memory_Open sid cid now m)"
  have op: "Memory_Open sid cid now m = (Inr (length (m_sessions m)), m')"
    using False assms(2) len
    by (auto simp: Memory_Open_def Let_def m1_def [symmetric] m'_def split: option.splits)
  have shape: "m_sessions m' = m_sessions m1 @ [\<lparr>ss_collector = cid, ss_id = sid, ss_lastFrame = now, ss_synced = False,
        ss_closed = False, ss_syncID = [], ss_started = 0, ss_staging = None\<rparr>]"
      "map_of (m_collectors m') cid = Some (c1\<lparr>mc_active := Some (length (m_sessions m))\<rparr>)"
    using False assms(2) c1 len
    by (auto simp: m'_def Memory_Open_def Let_def m1_def [symmetric] update_conv split: option.splits)
  have inv': "mem_inv E m'" using mem_inv_Open [OF assms(1)] by (simp add: m'_def)
  have "q = length (m_sessions m)" if "q < length (m_sessions m')" "ss_collector (session_at m' q) = cid"
      "\<not> ss_closed (session_at m' q)" for q
    using open_session_iff_active [OF inv' shape(2) that(1)] that by (simp add: session_at_def)
  moreover have "StreamSession_live m' (length (m_sessions m)) now"
    using shape len by (simp add: StreamSession_live_def session_at_def collector_of_def nth_append observationTTL_def)
  ultimately show ?thesis using op by simp
qed

text \<open>
  A frame that is refused, whatever the reason, publishes nothing: the session is
  closed, its staged objects are gone, and every inventory, every binding and every
  revision is as before.
\<close>

theorem refused_frame_publishes_nothing:
  assumes "mem_inv E m" and "p < length (m_sessions m)" and "StreamSession_Receive E p f now m = (Some e, m')"
  shows "ss_closed (session_at m' p) \<and> ss_staging (session_at m' p) = None
     \<and> m_bindings m' = m_bindings m \<and> m_scopeRevision m' = m_scopeRevision m
     \<and> (\<forall>cid. map_option mc_objects (map_of (m_collectors m') cid) = map_option mc_objects (map_of (m_collectors m) cid))"
proof -
  have "m' = closeLocked p m"
    using assms(3) by (auto simp: StreamSession_Receive_def StreamSession_Close_def StreamSession_apply_def
        split: option.splits if_splits sum.splits)
  then show ?thesis using closeLocked_objects [OF assms(1,2)] assms(2) by simp
qed

text \<open>
  A full synchronisation is private until it is complete: beginning one and staging
  objects leave every published inventory unchanged.
\<close>

theorem staging_is_private:
  assumes "mem_inv E m" and "p < length (m_sessions m)" and "f = SnapshotBegin sid \<or> f = SnapshotObjects sid objects"
  shows "map_option mc_objects (map_of (m_collectors (snd (StreamSession_Receive E p (Some f) now m))) cid)
       = map_option mc_objects (map_of (m_collectors m) cid)"
proof (cases "StreamSession_live m p now \<and> (\<exists>m'. frame_body E p f now m = Inr m')")
  case True
  then obtain m' where m': "frame_body E p f now m = Inr m'" by blast
  have "m_collectors m' = m_collectors m"
    using assms(3) m' by (auto simp: Begin_body_def Objects_body_def Let_def split: option.splits if_splits)
  with True m' show ?thesis by (simp add: StreamSession_Receive_def StreamSession_apply_def)
next
  case False
  then have "snd (StreamSession_Receive E p (Some f) now m) = closeLocked p m"
    by (auto simp: StreamSession_Receive_def StreamSession_apply_def split: sum.splits)
  then show ?thesis using closeLocked_objects [OF assms(1,2)] by simp
qed

text \<open>
  C6. An accepted end of synchronisation publishes exactly the staged objects, in one
  step: the announced count is the number staged, the collector's inventory becomes the
  staged one, dated by the start of the synchronisation, and the session is synced.
\<close>

theorem end_publishes_staging:
  assumes "mem_inv E m" and "p < length (m_sessions m)"
    and "StreamSession_Receive E p (Some (SnapshotEnd sid n)) now m = (None, m')"
  shows "\<exists>st. ss_staging (session_at m p) = Some st \<and> ss_syncID (session_at m p) = sid \<and> n = int (length st)
     \<and> mc_objects (collector_of m' p) = st \<and> mc_inventoryAt (collector_of m' p) = ss_started (session_at m p)
     \<and> ss_synced (session_at m' p) \<and> ss_staging (session_at m' p) = None
     \<and> (\<forall>cid. cid \<noteq> ss_collector (session_at m p) \<longrightarrow> map_of (m_collectors m') cid = map_of (m_collectors m) cid)"
  using assms(2,3)
  by (auto simp: StreamSession_Receive_def StreamSession_apply_def End_body_def Let_def session_at_def collector_of_def
      update_conv split: if_splits sum.splits option.splits)

section \<open>Evidence\<close>

text \<open>
  Evidence is reported as known exactly when it is complete, unexpired and conclusive:
  missing, expired, future-dated or inverted evidence never yields a known state, so an
  absent workload is never inferred from missing evidence.
\<close>

theorem RuntimeView_known:
  "(rt_Quality (RuntimeView now st rs rec ex expired) = ''known'') =
     (\<exists>s r a b. st = Some s \<and> rs = Some r \<and> rec = Some a \<and> ex = Some b \<and> \<not> expired
        \<and> a \<le> now \<and> now < b \<and> s \<noteq> ''unknown''
        \<and> rt_State (RuntimeView now st rs rec ex expired) = s
        \<and> rt_ReasonCode (RuntimeView now st rs rec ex expired) = r)"
  unfolding RuntimeView_known_iff by (auto simp: RuntimeView_def Let_def)

text \<open>
  C7. A view that claims a known state rests on evidence received no later than the
  clock of the read and not yet expired at it, even when no expiry scan ran before.
\<close>

theorem views_serve_fresh_evidence:
  assumes "viewsLocked E bs now m = (Inr (views, revs), m')" and "map_of views i = Some v"
    and "rt_Quality (mv_Runtime v) = ''known''"
  shows "\<exists>received expires. rt_ObservedAt (mv_Runtime v) = Some received \<and> rt_ExpiresAt (mv_Runtime v) = Some expires
     \<and> received \<le> now \<and> now < expires"
proof -
  from assms(1,2) obtain b stored where s: "map_of (m_bindings m') i = Some stored" "v = view_of m' stored"
    by (rule views_lookup)
  from assms(1) obtain add wanted where "m' = projectAll now (views_register add wanted m)"
    by (rule viewsLocked_ok)
  with s(1) have "fresh_view now (mb_view stored)" by (metis projectAll_fresh)
  with assms(3) s(2) show ?thesis by (auto simp: fresh_view_def view_of_def)
qed

text \<open>
  A view answers for its own installation only: a returned resource carries this
  station's identity and the binding's organization, app and installation, and is not an
  instance workload; every requested installation gets exactly one view.
\<close>

theorem views_are_isolated:
  assumes "mem_inv E m" and "viewsLocked E bs now m = (Inr (views, revs), m')"
  shows "fst ` set views = b_InstallationID ` set bs
     \<and> (\<forall>i v ob. map_of views i = Some v \<and> mv_Resource v = Some ob \<longrightarrow>
          (\<exists>b \<in> set bs. b_InstallationID b = i \<and> ro_StationID ob = m_station m' \<and> ro_InstanceID ob = []
             \<and> (\<exists>stored. map_of (m_bindings m') i = Some stored \<and> ro_InstallationID ob = i
                  \<and> ro_OrganizationID ob = b_OrganizationID (mb_Binding stored) \<and> ro_AppID ob = b_AppID (mb_Binding stored))))"
proof (intro conjI allI impI)
  obtain add wanted where views: "views = fold (\<lambda>b. AList.update (b_InstallationID b)
       (view_of m' (the (map_of (m_bindings m') (b_InstallationID b))))) bs []"
    using assms(2) by (rule viewsLocked_ok)
  have keys: "fst ` set (fold (\<lambda>b. AList.update (b_InstallationID b) (f b)) bs al) =
      b_InstallationID ` set bs \<union> fst ` set al" for f and al :: "(string \<times> MemoryView) list"
  proof (induction bs arbitrary: al)
    case (Cons b bs)
    then show ?case
      using dom_update [of "b_InstallationID b" "f b" al] by (auto simp: dom_map_of_conv_image_fst)
  qed simp
  show "fst ` set views = b_InstallationID ` set bs" using keys by (simp add: views)
next
  fix i v ob assume v: "map_of views i = Some v \<and> mv_Resource v = Some ob"
  from assms(2) v obtain b stored where b: "b \<in> set bs" "b_InstallationID b = i"
      "map_of (m_bindings m') i = Some stored" "v = view_of m' stored"
    by (metis views_lookup)
  have "mem_inv E m'" using mem_inv_views [OF assms(1), of bs now] assms(2) by simp
  with b(3) have "b_InstallationID (mb_Binding stored) = i"
    by (auto simp: mem_inv_def bindings_ok_def dest: map_of_SomeD)
  with b v show "\<exists>b \<in> set bs. b_InstallationID b = i \<and> ro_StationID ob = m_station m' \<and> ro_InstanceID ob = []
             \<and> (\<exists>stored. map_of (m_bindings m') i = Some stored \<and> ro_InstallationID ob = i
                  \<and> ro_OrganizationID ob = b_OrganizationID (mb_Binding stored) \<and> ro_AppID ob = b_AppID (mb_Binding stored))"
    by (auto simp: view_of_def bound_resource_def Let_def split: if_splits option.splits)
qed

text \<open>
  Projection is idempotent at one clock value: repeating it (as every read does)
  changes no view, no location and no revision, so revisions count changes of meaning
  and not reads.
\<close>

theorem projectAll_idempotent: "projectAll now (projectAll now m) = projectAll now m"
proof -
  obtain bs sc where p: "project_bindings (m_station m) (m_collectors m) now (m_bindings m) (m_scopeRevision m) = (bs, sc)"
    by fastforce
  from project_bindings_idem [OF p, of sc] p show ?thesis by (simp add: projectAll_def)
qed

text \<open>
  Two observed workloads that claim the same installation, organization and app
  never decide its state: the view is unknown with an identity conflict and no recorded
  location changes.
\<close>

theorem ambiguous_identity_is_unknown:
  assumes "2 \<le> length (matching (mb_Binding b) rs)"
  shows "project cs b now rs = (unknown_Runtime ''IDENTITY_CONFLICT'', b)"
  using assms by (cases "matching (mb_Binding b) rs"; cases "tl (matching (mb_Binding b) rs)") (auto simp: project_many)

text \<open>
  A workload is ready exactly when it is present, not terminating, wanted, not
  failed, fully reconciled at its current generation with all replicas ready, updated
  and available, and, where a probe is required, probed ready.
\<close>

theorem evaluate_ready:
  "(fst (evaluate ob required) = ''ready'') =
     (\<not> ro_Deleted ob \<and> \<not> ro_Terminating ob \<and> ro_Desired ob \<noteq> 0 \<and> \<not> ro_ProgressFailed ob \<and> \<not> ro_ReplicaFailed ob
      \<and> ro_Health ob \<noteq> ''failed'' \<and> 1 \<le> ro_Generation ob \<and> ro_ObservedGeneration ob = ro_Generation ob
      \<and> ro_Replicas ob = ro_Desired ob \<and> ro_Ready ob = ro_Desired ob \<and> ro_Updated ob = ro_Desired ob
      \<and> ro_Available ob = ro_Desired ob \<and> (if required then ro_Health ob = ''ready'' else True))"
  by (auto simp: evaluate_def)

text \<open>
  The read deadline armed on the connection is exactly the instant its session
  stops being live.
\<close>

theorem deadline_is_liveness:
  "StreamSession_live m p now =
     (\<not> ss_closed (session_at m p) \<and> mc_active (collector_of m p) = Some p \<and> now < StreamSession_Deadline m p)"
  by (auto simp: StreamSession_live_def StreamSession_Deadline_def Let_def)

text \<open>
  A relisted object is not a new health probe: a sample whose health differs from
  the one reported keeps the health and the probe deadline of the published object of
  the same key and otherwise equal facts, and only in a session that is already synced.
\<close>

theorem relist_keeps_probe_deadline:
  assumes "ro_Health (mr_obs (StreamSession_sample E m p ob now)) \<noteq> ro_Health ob"
  shows "ss_synced (session_at m p) \<and> ro_Health ob = ''not_checked''
     \<and> (\<exists>old. map_of (mc_objects (collector_of m p)) (obs_key ob) = Some old
          \<and> (mr_obs old)\<lparr>ro_Health := ''not_checked''\<rparr> = ob
          \<and> ro_Health (mr_obs (StreamSession_sample E m p ob now)) = ro_Health (mr_obs old)
          \<and> mr_healthExpires (StreamSession_sample E m p ob now) = mr_healthExpires old)"
  by (rule sample_cases [of E m p ob now]) (use assms in \<open>auto simp: sampled_def\<close>)

text \<open>
  A namespace migration reset removes from every inventory exactly the objects of
  the app outside the target namespace (all of them when no target is given): objects of
  other apps, objects already in the target, live connections and scopes stay.
\<close>

theorem reset_clears_other_namespaces:
  assumes "app \<noteq> []" and "map_of (m_collectors (ResetAppBindings app ns now m)) cid = Some c"
  shows "\<exists>c0. map_of (m_collectors m) cid = Some c0
     \<and> mc_objects c = filter (\<lambda>(_, r). \<not> (ro_AppID (mr_obs r) = app \<and> (ns = [] \<or> ro_Namespace (mr_obs r) \<noteq> ns))) (mc_objects c0)
     \<and> mc_active c = mc_active c0 \<and> mc_config c = mc_config c0"
  using assms by (auto simp: ResetAppBindings_def Let_def)

section \<open>Concrete inputs\<close>

text \<open>
  A station with one collector of one namespace, one workload of one installation. The
  UUID parser accepts every string as its own canonical form.
\<close>

definition demo_ext :: memory_ext where
  "demo_ext = \<lparr>me_uuid = (\<lambda>v. Some \<lparr>uuid_String = v, uuid_Version = 7, uuid_RFC4122 = True, uuid_Nil = False\<rparr>),
     me_dns1123 = (\<lambda>v. v \<noteq> []), me_metadata_digest = (\<lambda>_. ''d''), me_digest = (\<lambda>_. ''sha256:0'')\<rparr>"

definition demo_collector :: Collector where
  "demo_collector = \<lparr>col_ID = ''c'', col_Namespaces = [''n''], col_HealthRequiredApps = []\<rparr>"

definition demo_obs :: ResourceObservation where
  "demo_obs = \<lparr>ro_Namespace = ''n'', ro_Name = ''w'', ro_UID = ''u'', ro_ResourceVersion = ''1'', ro_StationID = ''s'',
     ro_OrganizationID = ''o'', ro_InstallationID = ''i'', ro_AppID = ''a'', ro_Generation = 1, ro_ObservedGeneration = 1,
     ro_Desired = 1, ro_Replicas = 1, ro_Ready = 1, ro_Updated = 1, ro_Available = 1, ro_ProgressFailed = False,
     ro_ReplicaFailed = False, ro_Terminating = False, ro_Deleted = False, ro_Health = ''not_checked'', ro_InstanceID = [],
     ro_Metadata = None\<rparr>"

definition demo_binding :: Binding where
  "demo_binding = \<lparr>b_InstallationID = ''i'', b_OrganizationID = ''o'', b_AppID = ''a''\<rparr>"

definition demo_start :: Memory where
  "demo_start = (case NewMemory demo_ext ''s'' ''b'' [demo_collector] of Inr m \<Rightarrow> m
     | Inl _ \<Rightarrow> \<lparr>m_station = [], m_boot = [], m_collectors = [], m_bindings = [], m_scopeRevision = [], m_legacy = [], m_sessions = []\<rparr>)"

text \<open>A connection that synchronised one object; one that staged it; one that was replaced.\<close>

definition demo_staged :: Memory where
  "demo_staged = fold (mem_step demo_ext)
     [EvOpen ''x'' ''c'' 1, EvReceive 0 (Some (SnapshotBegin ''y'')) 2, EvReceive 0 (Some (SnapshotObjects ''y'' [demo_obs])) 3]
     demo_start"

definition demo_synced :: Memory where
  "demo_synced = mem_step demo_ext (EvReceive 0 (Some (SnapshotEnd ''y'' 1)) 4) demo_staged"

definition demo_replaced :: Memory where
  "demo_replaced = fold (mem_step demo_ext) [EvClose 0, EvOpen ''z'' ''c'' 5] demo_synced"

lemma demo_start_New: "NewMemory demo_ext ''s'' ''b'' [demo_collector] = Inr demo_start"
  by code_simp

lemma demo_inv: "mem_inv demo_ext demo_start" "mem_inv demo_ext demo_staged" "mem_inv demo_ext demo_synced"
    "mem_inv demo_ext demo_replaced"
  using mem_inv_New [OF demo_start_New]
  by (auto simp: demo_staged_def demo_synced_def demo_replaced_def intro!: mem_step_inv simp del: mem_step.simps)

lemma demo_memories:
  "length (m_sessions demo_staged) = 1 \<and> length (m_sessions demo_synced) = 1 \<and> length (m_sessions demo_replaced) = 2 \<and>
   mc_active (collector_of demo_replaced 0) \<noteq> Some 0 \<and>
   fst (StreamSession_Receive demo_ext 0 (Some (SnapshotEnd ''y'' 1)) 4 demo_staged) = None \<and>
   (case viewsLocked demo_ext [demo_binding] 5 demo_synced of
      (Inr (views, revs), m') \<Rightarrow> map_option (\<lambda>v. rt_Quality (mv_Runtime v)) (map_of views ''i'') = Some ''known''
    | _ \<Rightarrow> False)"
  by code_simp

lemma demo_sessions: "length (m_sessions demo_staged) = 1" "length (m_sessions demo_synced) = 1" "length (m_sessions demo_replaced) = 2"
  using demo_memories by blast+

theorem memory_reachable_inv_witness:
  "NewMemory demo_ext ''s'' ''b'' [demo_collector] = Inr demo_start
   \<and> mem_inv demo_ext (fold (mem_step demo_ext) [EvOpen ''x'' ''c'' 1, EvExpire 2] demo_start)"
  by (rule conjI [OF demo_start_New memory_reachable_inv [OF demo_start_New]])

theorem stale_session_powerless_witness:
  "fst (StreamSession_Receive demo_ext 0 (Some HeartbeatFrame) 6 demo_replaced) = Some (Stream ErrStreamClosed)
   \<and> m_collectors (snd (StreamSession_Receive demo_ext 0 (Some HeartbeatFrame) 6 demo_replaced)) = m_collectors demo_replaced"
proof -
  have "mc_active (collector_of demo_replaced 0) \<noteq> Some 0" using demo_memories by blast
  from stale_session_powerless [OF demo_inv(4) _ this, of HeartbeatFrame 6] show ?thesis
    by (simp add: demo_sessions)
qed

theorem end_publishes_staging_witness:
  "\<exists>m'. StreamSession_Receive demo_ext 0 (Some (SnapshotEnd ''y'' 1)) 4 demo_staged = (None, m')
     \<and> ss_synced (session_at m' 0)"
proof -
  have "fst (StreamSession_Receive demo_ext 0 (Some (SnapshotEnd ''y'' 1)) 4 demo_staged) = None" using demo_memories by blast
  then obtain m' where m': "StreamSession_Receive demo_ext 0 (Some (SnapshotEnd ''y'' 1)) 4 demo_staged = (None, m')"
    by (metis prod.collapse)
  with end_publishes_staging [OF demo_inv(2) _ m'] show ?thesis by (auto simp: demo_sessions)
qed

lemma demo_views:
  obtains views revs m' v where "viewsLocked demo_ext [demo_binding] 5 demo_synced = (Inr (views, revs), m')"
    "map_of views ''i'' = Some v" "rt_Quality (mv_Runtime v) = ''known''"
proof -
  have "(case viewsLocked demo_ext [demo_binding] 5 demo_synced of
           (Inr (views, revs), m') \<Rightarrow> map_option (\<lambda>v. rt_Quality (mv_Runtime v)) (map_of views ''i'') = Some ''known''
         | _ \<Rightarrow> False)" using demo_memories by (elim conjE)
  then show ?thesis using that by (auto split: prod.splits sum.splits)
qed

theorem views_serve_fresh_evidence_witness:
  "\<exists>views revs m' v received expires. viewsLocked demo_ext [demo_binding] 5 demo_synced = (Inr (views, revs), m')
     \<and> map_of views ''i'' = Some v \<and> rt_ObservedAt (mv_Runtime v) = Some received
     \<and> rt_ExpiresAt (mv_Runtime v) = Some expires \<and> received \<le> 5 \<and> 5 < expires"
  by (rule demo_views) (metis views_serve_fresh_evidence)

theorem views_are_isolated_witness:
  "\<exists>views revs m'. viewsLocked demo_ext [demo_binding] 5 demo_synced = (Inr (views, revs), m')
     \<and> fst ` set views = {''i''}"
proof (rule demo_views)
  fix views revs m' v assume v: "viewsLocked demo_ext [demo_binding] 5 demo_synced = (Inr (views, revs), m')"
  from views_are_isolated [OF demo_inv(3) v] v show ?thesis by (simp add: demo_binding_def)
qed

theorem ambiguous_identity_is_unknown_witness:
  "project [] (new_binding demo_binding) 5
     [(collector_of demo_synced 0, sampled demo_ext demo_obs 4), (collector_of demo_synced 0, sampled demo_ext demo_obs 4)]
   = (unknown_Runtime ''IDENTITY_CONFLICT'', new_binding demo_binding)"
proof -
  have "2 \<le> length (matching (mb_Binding (new_binding demo_binding))
     [(collector_of demo_synced 0, sampled demo_ext demo_obs 4), (collector_of demo_synced 0, sampled demo_ext demo_obs 4)])"
    by (simp add: matching_def new_binding_def demo_binding_def sampled_def demo_obs_def)
  from ambiguous_identity_is_unknown [OF this] show ?thesis .
qed

end
