(* ===== verification/Go_Strings.thy ===== *)
theory Go_Strings
  imports Station_Prelude "HOL-Library.List_Lexorder" "HOL-Library.Char_ord" "HOL-Library.Product_Lexorder"
begin

text \<open>
  The parts of Go's standard library on strings that the components use: splitting and
  trimming (\<^verbatim>\<open>strings\<close>), decimal numerals (\<^verbatim>\<open>strconv\<close>), counting runes, lower case
  of ASCII names and the unpadded URL alphabet of \<^verbatim>\<open>encoding/base64\<close>, with the regular
  expressions several packages share.
\<close>

section \<open>Splitting, trimming and numerals\<close>

text \<open>\<open>strings.Split\<close> at a one-byte separator.\<close>

fun split_on :: "char \<Rightarrow> string \<Rightarrow> string list" where
  "split_on sep [] = [[]]"
| "split_on sep (c # cs) =
     (if c = sep then [] # split_on sep cs
      else case split_on sep cs of [] \<Rightarrow> [[c]] | w # ws \<Rightarrow> (c # w) # ws)"

text \<open>\<open>strings.Cut\<close>: the parts before and after the first separator.\<close>

fun cut_on :: "char \<Rightarrow> string \<Rightarrow> string \<times> string" where
  "cut_on sep [] = ([], [])"
| "cut_on sep (c # cs) = (if c = sep then ([], cs) else let (a, b) = cut_on sep cs in (c # a, b))"

text \<open>
  The UTF-8 encodings of the white space of \<open>unicode.IsSpace\<close>, and \<open>strings.TrimSpace\<close>.
\<close>

definition bytes :: "int list \<Rightarrow> string" where
  "bytes ns = map char_of ns"

definition go_spaces :: "string list" where
  "go_spaces = map bytes ([[9], [10], [11], [12], [13], [32], [194, 133], [194, 160], [225, 154, 128],
     [226, 128, 168], [226, 128, 169], [226, 128, 175], [226, 129, 159], [227, 128, 128]]
     @ map (\<lambda>n. [226, 128, n]) [128..138])"

fun strip_prefix :: "string \<Rightarrow> string \<Rightarrow> string option" where
  "strip_prefix [] s = Some s"
| "strip_prefix (p # ps) [] = None"
| "strip_prefix (p # ps) (c # cs) = (if p = c then strip_prefix ps cs else None)"

fun strip_any :: "string list \<Rightarrow> string \<Rightarrow> string option" where
  "strip_any [] s = None"
| "strip_any (p # ps) s = (case strip_prefix p s of Some r \<Rightarrow> Some r | None \<Rightarrow> strip_any ps s)"

lemma strip_prefix_length: "strip_prefix p s = Some r \<Longrightarrow> length s = length p + length r"
  by (induction p s rule: strip_prefix.induct) (auto split: if_splits)

lemma strip_any_length:
  "strip_any ps s = Some r \<Longrightarrow> \<exists>p \<in> set ps. length s = length p + length r"
  by (induction ps) (auto split: option.splits dest: strip_prefix_length)

text \<open>One unit of fuel per byte is enough: every stripped encoding has at least one byte.\<close>

fun strip_spaces :: "nat \<Rightarrow> string list \<Rightarrow> string \<Rightarrow> string" where
  "strip_spaces 0 ps s = s"
| "strip_spaces (Suc n) ps s = (case strip_any ps s of None \<Rightarrow> s | Some r \<Rightarrow> strip_spaces n ps r)"

definition TrimSpace :: "string \<Rightarrow> string" where
  "TrimSpace s =
     (let l = strip_spaces (length s) go_spaces s
      in rev (strip_spaces (length l) (map rev go_spaces) (rev l)))"

definition TrimPrefix :: "string \<Rightarrow> string \<Rightarrow> string" where
  "TrimPrefix s p = (case strip_prefix p s of Some r \<Rightarrow> r | None \<Rightarrow> s)"

text \<open>\<open>strconv.Atoi\<close> on a 64-bit platform: an optional sign, digits, and the range of \<open>int\<close>.\<close>

fun digits_value :: "string \<Rightarrow> int \<Rightarrow> int option" where
  "digits_value [] acc = Some acc"
| "digits_value (c # cs) acc =
     (if is_digit c then digits_value cs (10 * acc + (of_char c - 48)) else None)"

definition Atoi :: "string \<Rightarrow> int option" where
  "Atoi s =
     (let (neg, ds) = (case s of [] \<Rightarrow> (False, [])
                       | c # cs \<Rightarrow> if c = CHR ''-'' then (True, cs) else if c = CHR ''+'' then (False, cs) else (False, s))
      in if ds = [] then None
         else case digits_value ds 0 of
                None \<Rightarrow> None
              | Some n \<Rightarrow> let v = (if neg then - n else n)
                          in if v < - (2 ^ 63) \<or> v > 2 ^ 63 - 1 then None else Some v)"

section \<open>Runes\<close>

text \<open>
  The length of the encoding of the first rune of a byte string, as \<open>utf8.DecodeRune\<close>
  consumes it: an invalid byte is a rune of its own.
\<close>

definition in_range :: "int \<Rightarrow> int \<Rightarrow> char \<Rightarrow> bool" where
  "in_range lo hi c \<longleftrightarrow> lo \<le> of_char c \<and> of_char c \<le> hi"

fun rune_len :: "string \<Rightarrow> nat" where
  "rune_len (a # b # c # d # rest) =
     (if in_range 194 223 a \<and> in_range 128 191 b then 2
      else if (in_range 224 224 a \<and> in_range 160 191 b \<or> in_range 225 236 a \<and> in_range 128 191 b \<or>
               in_range 237 237 a \<and> in_range 128 159 b \<or> in_range 238 239 a \<and> in_range 128 191 b)
              \<and> in_range 128 191 c then 3
      else if (in_range 240 240 a \<and> in_range 144 191 b \<or> in_range 241 243 a \<and> in_range 128 191 b \<or>
               in_range 244 244 a \<and> in_range 128 143 b)
              \<and> in_range 128 191 c \<and> in_range 128 191 d then 4
      else 1)"
| "rune_len [a, b, c] =
     (if in_range 194 223 a \<and> in_range 128 191 b then 2
      else if (in_range 224 224 a \<and> in_range 160 191 b \<or> in_range 225 236 a \<and> in_range 128 191 b \<or>
               in_range 237 237 a \<and> in_range 128 159 b \<or> in_range 238 239 a \<and> in_range 128 191 b)
              \<and> in_range 128 191 c then 3
      else 1)"
| "rune_len [a, b] = (if in_range 194 223 a \<and> in_range 128 191 b then 2 else 1)"
| "rune_len _ = 1"

lemma rune_len_pos [simp]: "0 < rune_len s"
  by (induction s rule: rune_len.induct) auto

function rune_count :: "string \<Rightarrow> nat" where
  "rune_count s = (if s = [] then 0 else Suc (rune_count (drop (rune_len s) s)))"
  by auto
termination by (relation "measure length") auto

declare rune_count.simps [simp del]

lemma rune_count_le: "rune_count s \<le> length s"
proof (induction s rule: rune_count.induct)
  case (1 s)
  show ?case
  proof (cases "s = []")
    case False
    have "rune_count (drop (rune_len s) s) \<le> length s - rune_len s" using 1 [OF False] by simp
    moreover have "0 < length s" "0 < rune_len s" using False by auto
    moreover have "rune_count s = Suc (rune_count (drop (rune_len s) s))"
      using False by (subst rune_count.simps) simp
    ultimately show ?thesis by linarith
  qed (simp add: rune_count.simps)
qed

text \<open>\<open>utf8.ValidString\<close>: every rune is ASCII or a well-formed sequence of two to four bytes.\<close>

function utf8_Valid :: "string \<Rightarrow> bool" where
  "utf8_Valid s = (if s = [] then True
     else (in_range 0 127 (hd s) \<or> rune_len s > 1) \<and> utf8_Valid (drop (rune_len s) s))"
  by auto
termination by (relation "measure length") auto

declare utf8_Valid.simps [simp del]

section \<open>ASCII case and patterns\<close>

text \<open>\<open>strings.ToLower\<close> on ASCII strings.\<close>

definition lower_char :: "char \<Rightarrow> char" where
  "lower_char c = (if is_upper c then char_of (of_char c + 32 :: nat) else c)"

definition ToLower :: "string \<Rightarrow> string" where
  "ToLower s = map lower_char s"

text \<open>\<open>strings.Contains(s, "..")\<close>.\<close>

fun has_dot_dot :: "string \<Rightarrow> bool" where
  "has_dot_dot (a # b # cs) \<longleftrightarrow> a = CHR ''.'' \<and> b = CHR ''.'' \<or> has_dot_dot (b # cs)"
| "has_dot_dot _ \<longleftrightarrow> False"

definition is_alnum :: "char \<Rightarrow> bool" where
  "is_alnum c \<longleftrightarrow> is_lower c \<or> is_upper c \<or> is_digit c"

text \<open>\<^verbatim>\<open>^sha256:[a-f0-9]{64}$\<close>, the digest pattern of several packages.\<close>

definition sha256_pattern :: "string \<Rightarrow> bool" where
  "sha256_pattern s = (case strip_prefix ''sha256:'' s of None \<Rightarrow> False
     | Some h \<Rightarrow> length h = 64 \<and> list_all is_hex_lower h)"

text \<open>\<^verbatim>\<open>^[a-z0-9][a-z0-9._-]{0,n}$\<close>, the identifier patterns.\<close>

definition is_name_char :: "char \<Rightarrow> bool" where
  "is_name_char c \<longleftrightarrow> is_lower_digit c \<or> c = CHR ''.'' \<or> c = CHR ''_'' \<or> c = CHR ''-''"

definition name_pattern :: "nat \<Rightarrow> string \<Rightarrow> bool" where
  "name_pattern n s = (case s of [] \<Rightarrow> False
     | c # cs \<Rightarrow> is_lower_digit c \<and> length cs \<le> n \<and> list_all is_name_char cs)"

section \<open>Unpadded URL base64\<close>

definition base64url_alphabet :: string where
  "base64url_alphabet = ''ABCDEFGHIJKLMNOPQRSTUVWXYZabcdefghijklmnopqrstuvwxyz0123456789-_''"

definition b64 :: "int \<Rightarrow> char" where
  "b64 n = base64url_alphabet ! nat (n mod 64)"

fun RawURLEncoding :: "string \<Rightarrow> string" where
  "RawURLEncoding (a # b # c # rest) =
     (let n = of_char a * 65536 + of_char b * 256 + of_char c
      in b64 (n div 262144) # b64 (n div 4096) # b64 (n div 64) # b64 n # RawURLEncoding rest)"
| "RawURLEncoding [a, b] =
     (let n = of_char a * 65536 + of_char b * 256
      in [b64 (n div 262144), b64 (n div 4096), b64 (n div 64)])"
| "RawURLEncoding [a] = (let n = of_char a * 65536 in [b64 (n div 262144), b64 (n div 4096)])"
| "RawURLEncoding [] = []"

lemma RawURLEncoding_length: "length (RawURLEncoding s) = (4 * length s + 2) div 3"
  by (induction s rule: RawURLEncoding.induct) (auto simp: Let_def)

lemma alphabet_chars: "list_all (\<lambda>c. is_alnum c \<or> c = CHR ''-'' \<or> c = CHR ''_'') base64url_alphabet"
  by code_simp

lemma b64_char: "is_alnum (b64 n) \<or> b64 n = CHR ''-'' \<or> b64 n = CHR ''_''"
proof -
  have "length base64url_alphabet = 64" by code_simp
  moreover have "nat (n mod 64) < 64" by (simp add: nat_less_iff)
  ultimately have "b64 n \<in> set base64url_alphabet" unfolding b64_def by simp
  with alphabet_chars show ?thesis by (simp add: list_all_iff)
qed

lemma RawURLEncoding_chars:
  "list_all (\<lambda>c. is_alnum c \<or> c = CHR ''-'' \<or> c = CHR ''_'') (RawURLEncoding s)"
  by (induction s rule: RawURLEncoding.induct) (auto simp: Let_def b64_char)

end
