(* ===== verification/Versions.thy ===== *)
theory Versions
  imports Go_Strings
begin

text \<open>
  Version strings: the SemVer comparison that decides whether an upgrade is offered
  (\<^verbatim>\<open>internal/appcenter/version.go\<close>) and the comparison of transition versions
  (\<^verbatim>\<open>internal/operations/transitions.go\<close>). Go
  compares strings bytewise, which is the lexicographic order on lists of characters.
\<close>

section \<open>SemVer\<close>

definition semver_part :: "string \<Rightarrow> int option" where
  "semver_part part =
     (case Atoi part of
        None \<Rightarrow> None
      | Some n \<Rightarrow> if n < 0 \<or> part = [] \<or> (length part > 1 \<and> hd part = CHR ''0'') then None else Some n)"

definition parseSemVer :: "string \<Rightarrow> ((int \<times> int \<times> int) \<times> string) option" where
  "parseSemVer value =
     (let value = TrimPrefix (TrimSpace value) ''v'';
          value = fst (cut_on CHR ''+'' value);
          (base, pre) = cut_on CHR ''-'' value
      in case split_on CHR ''.'' base of
           [a, b, c] \<Rightarrow>
             (case (semver_part a, semver_part b, semver_part c) of
                (Some x, Some y, Some z) \<Rightarrow> Some ((x, y, z), pre)
              | _ \<Rightarrow> None)
         | _ \<Rightarrow> None)"

text \<open>The loop of \<open>comparePreRelease\<close>; the final \<open>len(as) - len(bs)\<close> is the base case.\<close>

fun comparePre :: "string list \<Rightarrow> string list \<Rightarrow> int" where
  "comparePre (a # as) (b # bs) =
     (case (Atoi a, Atoi b) of
        (Some an, Some bn) \<Rightarrow> if an \<noteq> bn then (if an > bn then 1 else -1) else comparePre as bs
      | (Some _, None) \<Rightarrow> -1
      | (None, Some _) \<Rightarrow> 1
      | (None, None) \<Rightarrow> if a \<noteq> b then (if a < b then -1 else 1) else comparePre as bs)"
| "comparePre as bs = int (length as) - int (length bs)"

definition comparePreRelease :: "string \<Rightarrow> string \<Rightarrow> int" where
  "comparePreRelease a b = comparePre (split_on CHR ''.'' a) (split_on CHR ''.'' b)"

definition VersionNewer :: "string \<Rightarrow> string \<Rightarrow> bool" where
  "VersionNewer target installed =
     (case parseSemVer target of
        None \<Rightarrow> False
      | Some ((t0, t1, t2), tPre) \<Rightarrow>
          (case parseSemVer installed of
             None \<Rightarrow> False
           | Some ((i0, i1, i2), iPre) \<Rightarrow>
               if t0 \<noteq> i0 then t0 > i0
               else if t1 \<noteq> i1 then t1 > i1
               else if t2 \<noteq> i2 then t2 > i2
               else if tPre = iPre then False
               else if tPre = [] then True
               else if iPre = [] then False
               else comparePreRelease tPre iPre > 0))"

section \<open>Transition versions\<close>

text \<open>\<open>transitionVersion\<close>: \<^verbatim>\<open>^(0|[1-9][0-9]*)\.(0|[1-9][0-9]*)\.(0|[1-9][0-9]*)$\<close>.\<close>

definition canonical_number :: "string \<Rightarrow> bool" where
  "canonical_number s \<longleftrightarrow> s \<noteq> [] \<and> list_all is_digit s \<and> (hd s = CHR ''0'' \<longrightarrow> length s = 1)"

definition transitionVersion :: "string \<Rightarrow> bool" where
  "transitionVersion v =
     (case split_on CHR ''.'' v of
        [a, b, c] \<Rightarrow> canonical_number a \<and> canonical_number b \<and> canonical_number c
      | _ \<Rightarrow> False)"

definition validTransitionVersion :: "string \<Rightarrow> bool" where
  "validTransitionVersion v \<longleftrightarrow> length v \<le> 64 \<and> transitionVersion v"

text \<open>The loop indexes \<open>y[i]\<close> for every part of \<open>x\<close>: \<open>None\<close> is its index-out-of-range panic.\<close>

fun compare_parts :: "string list \<Rightarrow> string list \<Rightarrow> int option" where
  "compare_parts [] ys = Some 0"
| "compare_parts (x # xs) [] = None"
| "compare_parts (x # xs) (y # ys) =
     (if length x < length y then Some (-1)
      else if length x > length y then Some 1
      else if x < y then Some (-1)
      else if x > y then Some 1
      else compare_parts xs ys)"

definition compareTransitionVersions :: "string \<Rightarrow> string \<Rightarrow> int option" where
  "compareTransitionVersions a b = compare_parts (split_on CHR ''.'' a) (split_on CHR ''.'' b)"

section \<open>The order of pre-release keys\<close>

text \<open>
  A dot-separated identifier is a number or a text; numbers come before texts. The
  library's list order on these keys is the order \<open>comparePreRelease\<close> computes.
\<close>

datatype prekey = PNum int | PText string

instantiation prekey :: linorder
begin

fun less_prekey :: "prekey \<Rightarrow> prekey \<Rightarrow> bool" where
  "less_prekey (PNum a) (PNum b) = (a < b)"
| "less_prekey (PNum a) (PText b) = True"
| "less_prekey (PText a) (PNum b) = False"
| "less_prekey (PText a) (PText b) = (a < b)"

definition less_eq_prekey :: "prekey \<Rightarrow> prekey \<Rightarrow> bool" where
  "less_eq_prekey x y = (x < y \<or> x = y)"

instance
proof
  fix x y z :: prekey
  show "(x < y) = (x \<le> y \<and> \<not> y \<le> x)" by (cases x; cases y) (auto simp: less_eq_prekey_def)
  show "x \<le> x" by (simp add: less_eq_prekey_def)
  show "x \<le> y \<Longrightarrow> y \<le> z \<Longrightarrow> x \<le> z" by (cases x; cases y; cases z) (auto simp: less_eq_prekey_def)
  show "x \<le> y \<Longrightarrow> y \<le> x \<Longrightarrow> x = y" by (cases x; cases y) (auto simp: less_eq_prekey_def)
  show "x \<le> y \<or> y \<le> x" by (cases x; cases y) (auto simp: less_eq_prekey_def)
qed

end

definition prekey_of :: "string \<Rightarrow> prekey" where
  "prekey_of s = (case Atoi s of Some n \<Rightarrow> PNum n | None \<Rightarrow> PText s)"

definition prekeys :: "string \<Rightarrow> prekey list" where
  "prekeys s = map prekey_of (split_on CHR ''.'' s)"

lemma Nil_less_iff: "[] < (xs :: prekey list) \<longleftrightarrow> xs \<noteq> []"
  by (cases xs) auto

lemma comparePre_pos: "comparePre as bs > 0 \<longleftrightarrow> map prekey_of bs < map prekey_of as"
  by (induction as bs rule: comparePre.induct) (auto simp: prekey_of_def Nil_less_iff split: option.splits)

text \<open>The key of a parsed version: the core, whether it is a release, and the pre-release keys.\<close>

definition version_key :: "string \<Rightarrow> (int list \<times> bool \<times> prekey list) option" where
  "version_key v = (case parseSemVer v of None \<Rightarrow> None
     | Some ((x, y, z), pre) \<Rightarrow> Some ([x, y, z], pre = [], prekeys pre))"

definition key_less :: "int list \<times> bool \<times> prekey list \<Rightarrow> int list \<times> bool \<times> prekey list \<Rightarrow> bool" where
  "key_less a b \<longleftrightarrow> fst a < fst b \<or> (fst a = fst b \<and>
     (\<not> fst (snd a) \<and> fst (snd b) \<or> (\<not> fst (snd a) \<and> \<not> fst (snd b) \<and> snd (snd a) < snd (snd b))))"

lemma VersionNewer_key:
  "VersionNewer t i \<longleftrightarrow> (\<exists>kt ki. version_key t = Some kt \<and> version_key i = Some ki \<and> key_less ki kt)"
  by (auto simp: VersionNewer_def version_key_def key_less_def comparePreRelease_def comparePre_pos prekeys_def
      split: option.splits prod.splits)

lemma key_less_trans: "key_less a b \<Longrightarrow> key_less b c \<Longrightarrow> key_less a c"
  by (auto simp: key_less_def)

lemma key_less_irrefl: "\<not> key_less a a"
  by (auto simp: key_less_def)

text \<open>
  Being newer is a strict order on version strings: no version is newer than itself,
  two versions are never newer than each other, and the relation is transitive, so a
  chain of offered upgrades never returns to an earlier version.
\<close>

theorem VersionNewer_strict_order:
  "irreflp VersionNewer \<and> asymp VersionNewer \<and> transp VersionNewer"
proof (intro conjI)
  have tr: "VersionNewer a c" if "VersionNewer a b" "VersionNewer b c" for a b c
    using that by (auto simp: VersionNewer_key intro: key_less_trans)
  have ir: "\<not> VersionNewer a a" for a by (auto simp: VersionNewer_key key_less_irrefl)
  show "irreflp VersionNewer" by (rule irreflpI) (rule ir)
  show "transp VersionNewer" by (rule transpI) (rule tr)
  show "asymp VersionNewer" by (rule asympI) (use tr ir in blast)
qed

section \<open>Transition versions as numbers\<close>

definition num :: "string \<Rightarrow> nat" where
  "num s = foldl (\<lambda>n c. 10 * n + (of_char c - 48)) 0 s"

lemma foldl_num: "foldl (\<lambda>n c. 10 * n + (of_char c - 48)) k s = k * 10 ^ length s + num s"
proof (induction s arbitrary: k)
  case Nil
  then show ?case by (simp add: num_def)
next
  case (Cons c s)
  from Cons [of "10 * k + (of_char c - 48)"] Cons [of "of_char c - 48"] show ?case
    by (simp add: num_def algebra_simps)
qed

lemma num_Cons: "num (c # s) = (of_char c - 48) * 10 ^ length s + num s"
  using foldl_num [of "of_char c - 48" s] by (simp add: num_def)

lemma digit_range: "is_digit c \<Longrightarrow> 48 \<le> (of_char c :: nat) \<and> (of_char c :: nat) \<le> 57"
  by (simp add: is_digit_def char_between_def)

lemma num_bound: "list_all is_digit s \<Longrightarrow> num s < 10 ^ length s"
proof (induction s)
  case (Cons c s)
  then have "of_char c - 48 \<le> (9 :: nat)" using digit_range [of c] by auto
  then have "(of_char c - 48) * 10 ^ length s \<le> 9 * (10 ^ length s :: nat)" by (rule mult_le_mono1)
  moreover have "num s < 10 ^ length s" using Cons by simp
  ultimately have "num (c # s) < 10 * 10 ^ length s" unfolding num_Cons by linarith
  then show ?case by simp
qed (simp add: num_def)

lemma num_less_same_length:
  assumes "length x = length y" and "list_all is_digit x" and "list_all is_digit y"
  shows "x < y \<longleftrightarrow> num x < num y"
  using assms
proof (induction x y rule: list_induct2)
  case (Cons a x b y)
  from Cons.prems have xa: "num x < 10 ^ length y" "num y < 10 ^ length y"
    using num_bound [of x] num_bound [of y] Cons.hyps by auto
  let ?a = "of_char a - 48 :: nat" and ?b = "of_char b - 48 :: nat"
  have ab: "a < b \<longleftrightarrow> ?a < ?b" and eq: "a = b \<longleftrightarrow> ?a = ?b"
    using digit_range [of a] digit_range [of b] Cons.prems of_char_eq_iff [of a b, where ?'a = nat]
    by (auto simp: less_char_def simp del: of_char_eq_iff)
  consider "?a < ?b" | "?a = ?b" | "?b < ?a" by linarith
  then show ?case
  proof cases
    case 1
    then have "Suc ?a * 10 ^ length y \<le> ?b * 10 ^ length y" by (intro mult_le_mono1) simp
    with 1 ab xa Cons.hyps show ?thesis by (simp add: num_Cons)
  next
    case 2
    with eq Cons show ?thesis by (simp add: num_Cons)
  next
    case 3
    then have "Suc ?b * 10 ^ length y \<le> ?a * 10 ^ length y" by (intro mult_le_mono1) simp
    moreover have "\<not> a < b \<and> a \<noteq> b" using 3 ab eq by auto
    ultimately show ?thesis using xa Cons.hyps by (simp add: num_Cons)
  qed
qed simp

lemma num_less_longer:
  assumes "canonical_number x" and "canonical_number y" and "length x < length y"
  shows "num x < num y"
proof -
  obtain c s where y: "y = c # s" using assms(3) by (cases y) auto
  have len: "length x \<le> length s" using assms(3) y by simp
  have "s \<noteq> []" using assms(1) len by (auto simp: canonical_number_def)
  then have "c \<noteq> CHR ''0''" using assms(2) y by (auto simp: canonical_number_def)
  then have "of_char c \<noteq> (48 :: nat)" using of_char_eq_iff [of c "CHR ''0''", where ?'a = nat]
    by (simp del: of_char_eq_iff)
  then have "1 \<le> (of_char c - 48 :: nat)" using digit_range [of c] assms(2) y by (auto simp: canonical_number_def)
  then have "10 ^ length s \<le> num y" by (simp add: y num_Cons trans_le_add1)
  moreover have "num x < 10 ^ length x" using assms(1) by (intro num_bound) (simp add: canonical_number_def)
  moreover have "(10 :: nat) ^ length x \<le> 10 ^ length s" using len by simp
  ultimately show ?thesis by linarith
qed


lemma num_eq_same_length:
  assumes "length x = length y" and "list_all is_digit x" and "list_all is_digit y"
  shows "x = y \<longleftrightarrow> num x = num y"
  using num_less_same_length [OF assms] num_less_same_length [of y x] assms
  by (metis less_irrefl linorder_less_linear)

lemma num_less_iff:
  assumes "canonical_number x" and "canonical_number y"
  shows "num x < num y \<longleftrightarrow> length x < length y \<or> (length x = length y \<and> x < y)"
    and "num x = num y \<longleftrightarrow> x = y"
proof -
  have d: "list_all is_digit x" "list_all is_digit y" using assms by (auto simp: canonical_number_def)
  note longer = num_less_longer [OF assms] num_less_longer [OF assms(2,1)]
  consider "length x < length y" | "length x = length y" | "length y < length x" by linarith
  then have "(num x < num y \<longleftrightarrow> length x < length y \<or> (length x = length y \<and> x < y)) \<and> (num x = num y \<longleftrightarrow> x = y)"
    using num_less_same_length num_eq_same_length d longer by cases auto
  then show "num x < num y \<longleftrightarrow> length x < length y \<or> (length x = length y \<and> x < y)" "num x = num y \<longleftrightarrow> x = y"
    by auto
qed

text \<open>The numeric reading of a version, and the sign of a lexicographic comparison.\<close>

definition version_nums :: "string \<Rightarrow> nat list" where
  "version_nums v = map num (split_on CHR ''.'' v)"

definition sign_less :: "nat list \<Rightarrow> nat list \<Rightarrow> int" where
  "sign_less a b = (if a < b then -1 else if b < a then 1 else 0)"

lemma compare_parts_sign:
  assumes "length xs = length ys" and "list_all canonical_number xs" and "list_all canonical_number ys"
  shows "compare_parts xs ys = Some (sign_less (map num xs) (map num ys))"
  using assms
proof (induction xs ys rule: list_induct2)
  case (Cons x xs y ys)
  then have c: "canonical_number x" "canonical_number y" by auto
  show ?case using Cons num_less_iff [OF c] num_less_iff [OF c(2,1)]
    by (auto simp: sign_less_def)
qed (simp add: sign_less_def)

lemma validTransitionVersion_parts:
  assumes "validTransitionVersion v"
  shows "length (split_on CHR ''.'' v) = 3 \<and> list_all canonical_number (split_on CHR ''.'' v)"
  using assms by (auto simp: validTransitionVersion_def transitionVersion_def split: list.splits)

text \<open>
  On valid versions the comparison of a transition's source and target never leaves
  the bounds of the compared parts, and it is the comparison of the three version
  numbers: the length-then-bytes comparison of the code agrees with the numeric order,
  whatever the number of digits.
\<close>

theorem compareTransitionVersions_numeric:
  assumes "validTransitionVersion a" and "validTransitionVersion b"
  shows "compareTransitionVersions a b = Some (sign_less (version_nums a) (version_nums b))"
  using validTransitionVersion_parts [OF assms(1)] validTransitionVersion_parts [OF assms(2)]
  by (simp add: compareTransitionVersions_def version_nums_def compare_parts_sign)

end
