(* ===== verification/Identity.thy ===== *)
theory Identity
  imports Go_Strings
begin

text \<open>
  Identity of Station Core (\<^verbatim>\<open>internal/identity\<close>): the tables of users, organizations,
  memberships, sessions and audit events, and the handlers \<open>Bootstrap\<close>, \<open>Login\<close>,
  \<open>Me\<close>, \<open>Refresh\<close>, \<open>Logout\<close> (\<^verbatim>\<open>service.go\<close>), \<open>BindMCPToken\<close>
  (\<^verbatim>\<open>mcp_token.go\<close>) and \<open>WithManager\<close>/\<open>WithMember\<close> (\<^verbatim>\<open>delegation.go\<close>).

  Each handler is a transaction over the tables. What the handlers draw from outside is an
  argument: the clock, fresh identifiers, random bytes, and whether the database fails.
  SHA-256, bcrypt and the UUID parser are parameters. Insertions fail on the keys, the
  uniqueness and the CHECK constraints of \<^verbatim>\<open>migrations/0001_identity.sql\<close>, and
  timestamps are stored in whole microseconds.
\<close>

section \<open>Faults and contexts\<close>

text \<open>The six fault codes of the package, and any error of the database.\<close>

datatype fault = Invalid | Unauthenticated | Revoked | Denied | Locked | Conflict | Database

record IdentityContext =
  ic_RequestID :: string
  ic_StationID :: string
  ic_SessionID :: string
  ic_UserID :: string
  ic_Username :: string
  ic_OrganizationID :: string
  ic_OrganizationName :: string
  ic_Roles :: "string list"
  ic_Scopes :: "string list"
  ic_IssuedAt :: gotime
  ic_ExpiresAt :: gotime
  ic_RevocationVersion :: int
  ic_PolicyVersion :: int

record Session = IdentityContext +
  s_AccessToken :: string

record LoginRequest =
  lr_Username :: string
  lr_Password :: string
  lr_OrganizationID :: string

record BootstrapRequest =
  br_Username :: string
  br_Password :: string
  br_OrganizationName :: string

section \<open>Tables\<close>

record user_row =
  u_ID :: string
  u_username :: string
  u_hash :: string
  u_status :: string
  u_failed :: int
  u_locked :: "gotime option"
  u_version :: int

record org_row =
  o_ID :: string
  o_name :: string
  o_status :: string
  o_policy :: int
  o_created :: gotime

record member_row =
  mb_user :: string
  mb_org :: string
  mb_role :: string
  mb_active :: bool

record session_row =
  se_ID :: string
  se_user :: string
  se_org :: string
  se_hash :: string
  se_issued :: gotime
  se_expires :: gotime
  se_version :: int
  se_revoked :: "gotime option"
  se_kind :: string

record audit_row =
  au_request :: string
  au_user :: "string option"
  au_org :: "string option"
  au_session :: "string option"
  au_action :: string
  au_outcome :: string

record identity_db =
  db_users :: "user_row list"
  db_orgs :: "org_row list"
  db_members :: "member_row list"
  db_sessions :: "session_row list"
  db_audit :: "audit_row list"

text \<open>The service, with the third-party functions it calls.\<close>

record identity_service =
  is_StationID :: string
  is_SessionTTL :: duration
  is_uuid :: uuid_parser
  is_sha256 :: "string \<Rightarrow> string"
  is_compare :: "string \<Rightarrow> string \<Rightarrow> bool"

section \<open>Validation\<close>

definition adminScopes :: "string list" where
  "adminScopes = [''identity:read'', ''station:read'', ''app:read'', ''app:manage'', ''model:read'', ''model:manage'']"

text \<open>\<^verbatim>\<open>^[a-zA-Z0-9][a-zA-Z0-9_.@-]{2,63}$\<close>\<close>

definition usernamePattern :: "string \<Rightarrow> bool" where
  "usernamePattern s = (case s of [] \<Rightarrow> False
     | c # cs \<Rightarrow> is_alnum c \<and> 2 \<le> length cs \<and> length cs \<le> 63 \<and>
         list_all (\<lambda>d. is_alnum d \<or> d = CHR ''_'' \<or> d = CHR ''.'' \<or> d = CHR ''@'' \<or> d = CHR ''-'') cs)"

definition validUUIDv7 :: "uuid_parser \<Rightarrow> string \<Rightarrow> bool" where
  "validUUIDv7 parse v = (case parse v of None \<Rightarrow> False | Some i \<Rightarrow> uuid_Version i = 7 \<and> uuid_String i = v)"

definition validLogin :: "uuid_parser \<Rightarrow> string \<Rightarrow> string \<Rightarrow> string \<Rightarrow> bool" where
  "validLogin parse username password org \<longleftrightarrow>
     usernamePattern username \<and> 1 \<le> length password \<and> length password \<le> 72 \<and>
     (org \<noteq> [] \<longrightarrow> validUUIDv7 parse org)"

definition is_token_char :: "char \<Rightarrow> bool" where
  "is_token_char c \<longleftrightarrow> is_alnum c \<or> c = CHR ''.'' \<or> c = CHR ''_'' \<or> c = CHR ''~'' \<or> c = CHR ''+'' \<or> c = CHR ''/'' \<or> c = CHR ''-''"

text \<open>\<^verbatim>\<open>^[A-Za-z0-9._~+/-]{32,512}={0,2}$\<close>, and at most 512 bytes.\<close>

definition bearerTokenPattern :: "string \<Rightarrow> bool" where
  "bearerTokenPattern t =
     (let body = takeWhile is_token_char t; pad = dropWhile is_token_char t
      in 32 \<le> length body \<and> length body \<le> 512 \<and> pad \<in> {[], ''='', ''==''})"

definition validBearerToken :: "string \<Rightarrow> bool" where
  "validBearerToken token \<longleftrightarrow> length token \<le> 512 \<and> bearerTokenPattern token"

section \<open>Statements\<close>

text \<open>\<open>newToken\<close> on the 32 random bytes it draws.\<close>

definition newToken :: "identity_service \<Rightarrow> string \<Rightarrow> string \<times> string" where
  "newToken s raw = (let value = RawURLEncoding raw in (value, is_sha256 s value))"

definition audit :: "string \<Rightarrow> string \<Rightarrow> string \<Rightarrow> string option \<Rightarrow> string option \<Rightarrow> string option \<Rightarrow> identity_db \<Rightarrow> identity_db" where
  "audit requestID action outcome user org session db =
     db\<lparr>db_audit := db_audit db @ [\<lparr>au_request = requestID, au_user = user, au_org = org, au_session = session,
                                     au_action = action, au_outcome = outcome\<rparr>]\<rparr>"

definition has_member :: "identity_db \<Rightarrow> string \<Rightarrow> string \<Rightarrow> bool" where
  "has_member db user org = list_ex (\<lambda>m. mb_user m = user \<and> mb_org m = org) (db_members db)"

text \<open>\<open>INSERT INTO station.sessions\<close> under the constraints of the table.\<close>

definition insert_session :: "session_row \<Rightarrow> identity_db \<Rightarrow> identity_db option" where
  "insert_session row db =
     (if list_ex (\<lambda>x. se_ID x = se_ID row \<or> se_hash x = se_hash row) (db_sessions db)
         \<or> \<not> has_member db (se_user row) (se_org row) \<or> \<not> se_issued row < se_expires row
         \<or> se_version row < 0
      then None else Some (db\<lparr>db_sessions := db_sessions db @ [row]\<rparr>))"

text \<open>\<open>UPDATE station.users SET failed_logins, locked_until WHERE user_id\<close>\<close>

definition set_login :: "string \<Rightarrow> int \<Rightarrow> gotime option \<Rightarrow> identity_db \<Rightarrow> identity_db" where
  "set_login user failed lock db =
     db\<lparr>db_users := update_rows (\<lambda>u. u_ID u = user) (\<lambda>u. u\<lparr>u_failed := failed, u_locked := lock\<rparr>) (db_users db)\<rparr>"

definition IdentityService_session ::
  "identity_service \<Rightarrow> gotime \<Rightarrow> string \<Rightarrow> string \<Rightarrow> string \<Rightarrow> string \<Rightarrow> string \<Rightarrow> string \<Rightarrow> string \<Rightarrow> int \<Rightarrow> int
     \<Rightarrow> identity_db \<Rightarrow> (Session \<times> identity_db) option" where
  "IdentityService_session s now newID raw requestID userID username org orgName version policy db =
     (let (token, hash) = newToken s raw;
          out = \<lparr>ic_RequestID = requestID, ic_StationID = is_StationID s, ic_SessionID = newID, ic_UserID = userID,
                 ic_Username = username, ic_OrganizationID = org, ic_OrganizationName = orgName, ic_Roles = [''admin''],
                 ic_Scopes = adminScopes, ic_IssuedAt = now, ic_ExpiresAt = now + is_SessionTTL s,
                 ic_RevocationVersion = version, ic_PolicyVersion = policy, s_AccessToken = token\<rparr>;
          row = \<lparr>se_ID = newID, se_user = userID, se_org = org, se_hash = hash, se_issued = pg_time now,
                 se_expires = pg_time (now + is_SessionTTL s), se_version = version, se_revoked = None,
                 se_kind = ''session''\<rparr>
      in map_option (\<lambda>db'. (out, db')) (insert_session row db))"

section \<open>Bootstrap\<close>

text \<open>\<open>hash\<close> is what bcrypt generates, \<open>None\<close> its error; \<open>ids\<close> are the user, organization and session identifiers.\<close>

definition Bootstrap_body ::
  "identity_service \<Rightarrow> gotime \<Rightarrow> string \<Rightarrow> string \<Rightarrow> string \<Rightarrow> string \<Rightarrow> string \<Rightarrow> string \<Rightarrow> BootstrapRequest
     \<Rightarrow> identity_db \<Rightarrow> (fault, Session, identity_db) tx" where
  "Bootstrap_body s now user org sid raw hash requestID inp db =
     (if db_users db \<noteq> [] then Rollback Conflict
      else
        let username = ToLower (br_Username inp);
            orgName = TrimSpace (br_OrganizationName inp);
            u = \<lparr>u_ID = user, u_username = username, u_hash = hash, u_status = ''active'', u_failed = 0,
                 u_locked = None, u_version = 0\<rparr>;
            og = \<lparr>o_ID = org, o_name = orgName, o_status = ''active'', o_policy = 1, o_created = pg_time now\<rparr>;
            m = \<lparr>mb_user = user, mb_org = org, mb_role = ''admin'', mb_active = True\<rparr>
        in if list_ex (\<lambda>x. o_ID x = org) (db_orgs db) \<or> has_member db user org then Rollback Database
           else
             let db1 = db\<lparr>db_users := [u], db_orgs := db_orgs db @ [og], db_members := db_members db @ [m]\<rparr>
             in case IdentityService_session s now sid raw requestID user username org orgName 0 1 db1 of
                  None \<Rightarrow> Rollback Database
                | Some (out, db2) \<Rightarrow>
                    Commit (Inr out) (audit requestID ''identity.bootstrap'' ''succeeded'' (Some user) (Some org) (Some sid) db2))"

definition Bootstrap ::
  "identity_service \<Rightarrow> bool \<Rightarrow> gotime \<Rightarrow> string \<Rightarrow> string \<Rightarrow> string \<Rightarrow> string \<Rightarrow> string option \<Rightarrow> string
     \<Rightarrow> BootstrapRequest \<Rightarrow> identity_db \<Rightarrow> (fault + Session) \<times> identity_db" where
  "Bootstrap s db_fault now user org sid raw hash requestID inp db =
     (if \<not> validLogin (is_uuid s) (br_Username inp) (br_Password inp) [] \<or> length (br_Password inp) < 12
         \<or> TrimSpace (br_OrganizationName inp) = [] \<or> rune_count (br_OrganizationName inp) > 128
      then (Inl Invalid, db)
      else case hash of
             None \<Rightarrow> (Inl Database, db)
           | Some h \<Rightarrow> transact db_fault Database (Bootstrap_body s now user org sid raw h requestID inp) db)"

section \<open>Login\<close>

definition Login_deny :: "string \<Rightarrow> string \<Rightarrow> fault \<Rightarrow> identity_db \<Rightarrow> (fault, Session, identity_db) tx" where
  "Login_deny requestID user code db =
     Commit (Inl code) (audit requestID ''identity.login'' ''denied'' (Some user) None None db)"

text \<open>The active administrator organization of a user, the oldest first.\<close>

definition login_org :: "identity_db \<Rightarrow> string \<Rightarrow> string \<Rightarrow> org_row option" where
  "login_org db user want =
     min_by (\<lambda>o'. (o_created o', o_ID o'))
       (filter (\<lambda>o'. o_status o' = ''active'' \<and> (want = [] \<or> o_ID o' = want) \<and>
          list_ex (\<lambda>m. mb_user m = user \<and> mb_org m = o_ID o' \<and> mb_active m \<and> mb_role m = ''admin'') (db_members db))
        (db_orgs db))"

text \<open>The password check and what follows it, with the failures counted so far.\<close>

definition Login_password ::
  "identity_service \<Rightarrow> gotime \<Rightarrow> string \<Rightarrow> string \<Rightarrow> string \<Rightarrow> LoginRequest \<Rightarrow> user_row \<Rightarrow> int
     \<Rightarrow> identity_db \<Rightarrow> (fault, Session, identity_db) tx" where
  "Login_password s now sid raw requestID inp u failed db =
     (let user = u_ID u; deny = Login_deny requestID user in
      if \<not> is_compare s (u_hash u) (lr_Password inp) then
        let failed = failed + 1 in
        if failed \<ge> 5 then
          deny Locked (set_login user failed (Some (pg_time (now + 15 * Minute)))
            (audit requestID ''identity.lock'' ''succeeded'' (Some user) None None db))
        else deny Unauthenticated (set_login user failed None db)
      else
        case login_org db user (lr_OrganizationID inp) of
          None \<Rightarrow> deny Denied db
        | Some org \<Rightarrow>
            (case IdentityService_session s now sid raw requestID user (ToLower (lr_Username inp)) (o_ID org) (o_name org)
                    (u_version u) (o_policy org) (set_login user 0 None db) of
               None \<Rightarrow> Rollback Database
             | Some (out, db2) \<Rightarrow>
                 Commit (Inr out) (audit requestID ''identity.login'' ''succeeded'' (Some user) (Some (o_ID org)) (Some sid) db2)))"

definition locked_at :: "gotime \<Rightarrow> user_row \<Rightarrow> bool" where
  "locked_at now u = (case u_locked u of None \<Rightarrow> False | Some until \<Rightarrow> until > now)"

definition Login_body ::
  "identity_service \<Rightarrow> gotime \<Rightarrow> string \<Rightarrow> string \<Rightarrow> string \<Rightarrow> LoginRequest
     \<Rightarrow> identity_db \<Rightarrow> (fault, Session, identity_db) tx" where
  "Login_body s now sid raw requestID inp db =
     (case find (\<lambda>u. u_username u = ToLower (lr_Username inp)) (db_users db) of
        None \<Rightarrow> Commit (Inl Unauthenticated) (audit requestID ''identity.login'' ''denied'' None None None db)
      | Some u \<Rightarrow>
          if u_status u \<noteq> ''active'' then Login_deny requestID (u_ID u) Unauthenticated db
          else if locked_at now u then Login_deny requestID (u_ID u) Locked db
          else if u_locked u \<noteq> None then
            Login_password s now sid raw requestID inp u 0
              (set_login (u_ID u) 0 None (audit requestID ''identity.unlock'' ''succeeded'' (Some (u_ID u)) None None db))
          else Login_password s now sid raw requestID inp u (u_failed u) db)"

definition Login ::
  "identity_service \<Rightarrow> bool \<Rightarrow> gotime \<Rightarrow> string \<Rightarrow> string \<Rightarrow> string \<Rightarrow> LoginRequest
     \<Rightarrow> identity_db \<Rightarrow> (fault + Session) \<times> identity_db" where
  "Login s db_fault now sid raw requestID inp db =
     (if \<not> validLogin (is_uuid s) (lr_Username inp) (lr_Password inp) (lr_OrganizationID inp) then (Inl Invalid, db)
      else transact db_fault Database (Login_body s now sid raw requestID inp) db)"

section \<open>Sessions\<close>

text \<open>The join of \<open>withSession\<close>: session, user, organization and membership of a token hash.\<close>

definition session_join ::
  "identity_db \<Rightarrow> string \<Rightarrow> (session_row \<times> user_row \<times> org_row \<times> member_row) option" where
  "session_join db hash =
     (case find (\<lambda>se. se_hash se = hash) (db_sessions db) of
        None \<Rightarrow> None
      | Some se \<Rightarrow>
          (case (find (\<lambda>u. u_ID u = se_user se) (db_users db), find (\<lambda>o'. o_ID o' = se_org se) (db_orgs db),
                 find (\<lambda>m. mb_user m = se_user se \<and> mb_org m = se_org se) (db_members db)) of
             (Some u, Some og, Some m) \<Rightarrow> Some (se, u, og, m)
           | _ \<Rightarrow> None))"

definition update_session :: "string \<Rightarrow> (session_row \<Rightarrow> session_row) \<Rightarrow> identity_db \<Rightarrow> identity_db" where
  "update_session sid f db = db\<lparr>db_sessions := update_rows (\<lambda>se. se_ID se = sid) f (db_sessions db)\<rparr>"

definition session_context ::
  "identity_service \<Rightarrow> string \<Rightarrow> session_row \<Rightarrow> user_row \<Rightarrow> org_row \<Rightarrow> string list \<Rightarrow> string list \<Rightarrow> Session" where
  "session_context s requestID se u og roles scopes =
     \<lparr>ic_RequestID = requestID, ic_StationID = is_StationID s, ic_SessionID = se_ID se, ic_UserID = se_user se,
      ic_Username = u_username u, ic_OrganizationID = se_org se, ic_OrganizationName = o_name og, ic_Roles = roles,
      ic_Scopes = scopes, ic_IssuedAt = se_issued se, ic_ExpiresAt = se_expires se,
      ic_RevocationVersion = se_version se, ic_PolicyVersion = o_policy og, s_AccessToken = []\<rparr>"

text \<open>The checks of every authorization, in the order the code makes them.\<close>

definition session_fault :: "gotime \<Rightarrow> session_row \<Rightarrow> user_row \<Rightarrow> org_row \<Rightarrow> member_row \<Rightarrow> fault option" where
  "session_fault now se u og m =
     (if se_revoked se \<noteq> None \<or> se_version se \<noteq> u_version u then Some Revoked
      else if \<not> se_expires se > now then Some Unauthenticated
      else if u_status u \<noteq> ''active'' \<or> o_status og \<noteq> ''active'' \<or> \<not> mb_active m \<or> mb_role m \<noteq> ''admin'' then Some Denied
      else if locked_at now u then Some Locked
      else None)"

definition session_audit :: "string \<Rightarrow> string \<Rightarrow> string \<Rightarrow> session_row \<Rightarrow> identity_db \<Rightarrow> identity_db" where
  "session_audit requestID action outcome se db =
     audit requestID (''identity.'' @ action) outcome (Some (se_user se)) (Some (se_org se)) (Some (se_ID se)) db"

text \<open>\<open>UPDATE station.sessions SET token_hash, issued_at, expires_at\<close> under its constraints.\<close>

definition rotate_session :: "string \<Rightarrow> string \<Rightarrow> gotime \<Rightarrow> gotime \<Rightarrow> identity_db \<Rightarrow> identity_db option" where
  "rotate_session sid hash issued expires db =
     (if list_ex (\<lambda>x. se_ID x \<noteq> sid \<and> se_hash x = hash) (db_sessions db) \<or> \<not> issued < expires then None
      else Some (update_session sid (\<lambda>x. x\<lparr>se_hash := hash, se_issued := issued, se_expires := expires\<rparr>) db))"

definition session_action ::
  "identity_service \<Rightarrow> gotime \<Rightarrow> string \<Rightarrow> string \<Rightarrow> string \<Rightarrow> session_row \<Rightarrow> user_row \<Rightarrow> org_row
     \<Rightarrow> identity_db \<Rightarrow> (fault, Session, identity_db) tx" where
  "session_action s now raw requestID action se u og db =
     (let out = session_context s requestID se u og [''admin''] adminScopes in
      if action = ''refresh'' then
        if se_kind se = ''mcp'' then Commit (Inl Denied) (session_audit requestID action ''denied'' se db)
        else
          let (value, hash) = newToken s raw;
              expires = now + is_SessionTTL s
          in case rotate_session (se_ID se) hash (pg_time now) (pg_time expires) db of
               None \<Rightarrow> Rollback Database
             | Some db' \<Rightarrow>
                 Commit (Inr (out\<lparr>s_AccessToken := value, ic_IssuedAt := now, ic_ExpiresAt := expires\<rparr>))
                   (session_audit requestID action ''succeeded'' se db')
      else if action = ''logout'' then
        Commit (Inr out) (session_audit requestID action ''succeeded'' se
          (update_session (se_ID se) (\<lambda>x. x\<lparr>se_revoked := Some (pg_time now)\<rparr>) db))
      else Commit (Inr out) db)"

definition withSession_body ::
  "identity_service \<Rightarrow> gotime \<Rightarrow> string \<Rightarrow> string \<Rightarrow> string \<Rightarrow> string
     \<Rightarrow> identity_db \<Rightarrow> (fault, Session, identity_db) tx" where
  "withSession_body s now raw requestID token action db =
     (case session_join db (is_sha256 s token) of
        None \<Rightarrow> Rollback Unauthenticated
      | Some (se, u, og, m) \<Rightarrow>
          if se_revoked se \<noteq> None \<and> action = ''logout'' then Commit (Inr (session_context s requestID se u og [] [])) db
          else case session_fault now se u og m of
                 Some code \<Rightarrow> Commit (Inl code) (session_audit requestID action ''denied'' se db)
               | None \<Rightarrow> session_action s now raw requestID action se u og db)"

definition withSession ::
  "identity_service \<Rightarrow> bool \<Rightarrow> gotime \<Rightarrow> string \<Rightarrow> string \<Rightarrow> string \<Rightarrow> string
     \<Rightarrow> identity_db \<Rightarrow> (fault + Session) \<times> identity_db" where
  "withSession s db_fault now raw requestID token action db =
     (if \<not> validBearerToken token then (Inl Unauthenticated, db)
      else transact db_fault Database (withSession_body s now raw requestID token action) db)"

definition Me :: "identity_service \<Rightarrow> bool \<Rightarrow> gotime \<Rightarrow> string \<Rightarrow> string \<Rightarrow> identity_db \<Rightarrow> (fault + IdentityContext) \<times> identity_db" where
  "Me s db_fault now requestID token db =
     (let (r, db') = withSession s db_fault now [] requestID token ''me'' db
      in (map_sum id IdentityContext.truncate r, db'))"

definition Refresh :: "identity_service \<Rightarrow> bool \<Rightarrow> gotime \<Rightarrow> string \<Rightarrow> string \<Rightarrow> string \<Rightarrow> identity_db \<Rightarrow> (fault + Session) \<times> identity_db" where
  "Refresh s db_fault now raw requestID token db = withSession s db_fault now raw requestID token ''refresh'' db"

definition Logout :: "identity_service \<Rightarrow> bool \<Rightarrow> gotime \<Rightarrow> string \<Rightarrow> string \<Rightarrow> identity_db \<Rightarrow> (fault + unit) \<times> identity_db" where
  "Logout s db_fault now requestID token db =
     (let (r, db') = withSession s db_fault now [] requestID token ''logout'' db
      in (map_sum id (\<lambda>_. ()) r, db'))"

section \<open>MCP credentials\<close>

definition member_join :: "identity_db \<Rightarrow> string \<Rightarrow> string \<Rightarrow> (user_row \<times> org_row \<times> member_row) option" where
  "member_join db user org =
     (case (find (\<lambda>u. u_ID u = user) (db_users db), find (\<lambda>o'. o_ID o' = org) (db_orgs db),
            find (\<lambda>m. mb_user m = user \<and> mb_org m = org) (db_members db)) of
        (Some u, Some og, Some m) \<Rightarrow> Some (u, og, m)
      | _ \<Rightarrow> None)"

definition BindMCPToken_body ::
  "identity_service \<Rightarrow> gotime \<Rightarrow> string \<Rightarrow> string \<Rightarrow> string \<Rightarrow> string \<Rightarrow> string \<Rightarrow> gotime
     \<Rightarrow> identity_db \<Rightarrow> (fault, IdentityContext, identity_db) tx" where
  "BindMCPToken_body s now newID requestID token userID orgID expires db =
     (let hash = is_sha256 s token;
          old = find (\<lambda>se. se_hash se = hash) (db_sessions db)
      in if (case old of None \<Rightarrow> False
             | Some se \<Rightarrow> se_kind se \<noteq> ''mcp'' \<or> se_user se \<noteq> userID \<or> se_org se \<noteq> orgID \<or> se_expires se \<noteq> expires
                 \<or> se_revoked se \<noteq> None \<or> \<not> se_expires se > now)
         then Rollback Conflict
         else
           case member_join db userID orgID of
             None \<Rightarrow> Rollback Denied
           | Some (u, og, m) \<Rightarrow>
               if u_status u \<noteq> ''active'' \<or> o_status og \<noteq> ''active'' \<or> mb_role m \<noteq> ''admin'' \<or> \<not> mb_active m
                  \<or> locked_at now u
               then Rollback Denied
               else
                 let out = (\<lambda>sid issued. \<lparr>ic_RequestID = requestID, ic_StationID = is_StationID s, ic_SessionID = sid,
                      ic_UserID = userID, ic_Username = u_username u, ic_OrganizationID = orgID,
                      ic_OrganizationName = o_name og, ic_Roles = [''admin''], ic_Scopes = adminScopes,
                      ic_IssuedAt = issued, ic_ExpiresAt = expires, ic_RevocationVersion = u_version u,
                      ic_PolicyVersion = o_policy og\<rparr>)
                 in case old of
                      Some se \<Rightarrow> if se_version se \<noteq> u_version u then Rollback Conflict
                                  else Commit (Inr (out (se_ID se) (se_issued se))) db
                    | None \<Rightarrow>
                        (case insert_session \<lparr>se_ID = newID, se_user = userID, se_org = orgID, se_hash = hash,
                                 se_issued = pg_time now, se_expires = pg_time expires, se_version = u_version u,
                                 se_revoked = None, se_kind = ''mcp''\<rparr> db of
                           None \<Rightarrow> Rollback Database
                         | Some db' \<Rightarrow> Commit (Inr (out newID now))
                             (audit requestID ''identity.bind_mcp_token'' ''succeeded'' (Some userID) (Some orgID) (Some newID) db')))"

definition BindMCPToken ::
  "identity_service \<Rightarrow> bool \<Rightarrow> gotime \<Rightarrow> string \<Rightarrow> string \<Rightarrow> string \<Rightarrow> string \<Rightarrow> string \<Rightarrow> gotime
     \<Rightarrow> identity_db \<Rightarrow> (fault + IdentityContext) \<times> identity_db" where
  "BindMCPToken s db_fault now newID requestID token userID orgID expires db =
     (if \<not> validBearerToken token \<or> \<not> validUUIDv7 (is_uuid s) userID \<or> \<not> validUUIDv7 (is_uuid s) orgID
         \<or> \<not> expires > now \<or> expires mod Second \<noteq> 0
      then (Inl Invalid, db)
      else transact db_fault Database (BindMCPToken_body s now newID requestID token userID orgID expires) db)"

section \<open>Delegation\<close>

definition delegation_id :: "uuid_parser \<Rightarrow> string \<Rightarrow> bool" where
  "delegation_id parse v = (case parse v of None \<Rightarrow> False | Some i \<Rightarrow> \<not> uuid_Nil i \<and> uuid_String i = v)"

text \<open>
  The effect acts on a world of its own while the share locks are held. \<open>now\<close> is the
  database's clock; \<open>commit_fault\<close> is an error of the final commit, after the effect.
\<close>

definition withDelegatedMember ::
  "identity_service \<Rightarrow> bool \<Rightarrow> bool \<Rightarrow> gotime \<Rightarrow> string \<Rightarrow> string \<Rightarrow> bool \<Rightarrow> ('w \<Rightarrow> fault option \<times> 'w)
     \<Rightarrow> identity_db \<Rightarrow> 'w \<Rightarrow> fault option \<times> 'w" where
  "withDelegatedMember s db_fault commit_fault now user org manager effect db w =
     (if \<not> delegation_id (is_uuid s) user \<or> \<not> delegation_id (is_uuid s) org then (Some Invalid, w)
      else if db_fault then (Some Database, w)
      else case member_join db user org of
             None \<Rightarrow> (Some Denied, w)
           | Some (u, og, m) \<Rightarrow>
               if \<not> (u_status u = ''active'' \<and> o_status og = ''active'' \<and> mb_active m \<and> (\<not> manager \<or> mb_role m = ''admin'')
                     \<and> \<not> locked_at now u)
               then (Some Denied, w)
               else case effect w of
                      (Some e, w') \<Rightarrow> (Some e, w')
                    | (None, w') \<Rightarrow> (if commit_fault then Some Database else None, w'))"

definition WithManager where
  "WithManager s db_fault commit_fault now user org effect db w =
     withDelegatedMember s db_fault commit_fault now user org True effect db w"

definition WithMember where
  "WithMember s db_fault commit_fault now user org effect db w =
     withDelegatedMember s db_fault commit_fault now user org False effect db w"

end
