(* ===== verification/Identity_Properties.thy ===== *)
theory Identity_Properties
  imports Identity "HOL-Library.Sublist"
begin

text \<open>
  The identity component as an event handler: its table invariant and its preservation,
  the lifetime of sessions, the lockout of accounts, and what the audit trail keeps.
\<close>

section \<open>The invariant of the tables\<close>

definition session_row_ok :: "identity_db \<Rightarrow> session_row \<Rightarrow> bool" where
  "session_row_ok db se \<longleftrightarrow> has_member db (se_user se) (se_org se) \<and> se_issued se < se_expires se"

definition user_row_ok :: "user_row \<Rightarrow> bool" where
  "user_row_ok u \<longleftrightarrow> 0 \<le> u_failed u \<and> (u_locked u = None \<longleftrightarrow> u_failed u < 5) \<and> 0 \<le> u_version u"

definition id_inv :: "identity_db \<Rightarrow> bool" where
  "id_inv db \<longleftrightarrow>
     distinct (map u_ID (db_users db)) \<and> distinct (map u_username (db_users db)) \<and>
     distinct (map o_ID (db_orgs db)) \<and> distinct (map (\<lambda>m. (mb_user m, mb_org m)) (db_members db)) \<and>
     distinct (map se_ID (db_sessions db)) \<and> distinct (map se_hash (db_sessions db)) \<and>
     list_all (session_row_ok db) (db_sessions db) \<and> list_all user_row_ok (db_users db)"

definition fresh_db :: "identity_db \<Rightarrow> bool" where
  "fresh_db db \<longleftrightarrow> db = \<lparr>db_users = [], db_orgs = [], db_members = [], db_sessions = [], db_audit = []\<rparr>"

lemma audit_sel [simp]:
  "db_users (audit r a oc u g x db) = db_users db" "db_orgs (audit r a oc u g x db) = db_orgs db"
  "db_members (audit r a oc u g x db) = db_members db" "db_sessions (audit r a oc u g x db) = db_sessions db"
  by (simp_all add: audit_def)

lemma set_login_sel [simp]:
  "db_orgs (set_login user f l db) = db_orgs db" "db_members (set_login user f l db) = db_members db"
  "db_sessions (set_login user f l db) = db_sessions db" "db_audit (set_login user f l db) = db_audit db"
  by (simp_all add: set_login_def)

lemma update_session_sel [simp]:
  "db_users (update_session i f db) = db_users db" "db_orgs (update_session i f db) = db_orgs db"
  "db_members (update_session i f db) = db_members db" "db_audit (update_session i f db) = db_audit db"
  by (simp_all add: update_session_def)

lemma has_member_cong: "db_members db' = db_members db \<Longrightarrow> has_member db' = has_member db"
  by (simp add: has_member_def fun_eq_iff)

lemma session_row_ok_cong: "db_members db' = db_members db \<Longrightarrow> session_row_ok db' = session_row_ok db"
  by (simp add: session_row_ok_def has_member_def fun_eq_iff)

lemma id_inv_audit [simp]: "id_inv (audit r a oc u g x db) = id_inv db"
  using session_row_ok_cong [of "audit r a oc u g x db" db] by (simp add: id_inv_def)

lemma id_inv_set_login [inv_intros]:
  assumes "id_inv db" and "0 \<le> f" and "l = None \<longleftrightarrow> f < 5"
  shows "id_inv (set_login user f l db)"
proof -
  have "list_all user_row_ok (db_users (set_login user f l db))"
    using assms by (auto simp: id_inv_def set_login_def list_all_iff set_update_rows user_row_ok_def)
  moreover have "map u_ID (db_users (set_login user f l db)) = map u_ID (db_users db)"
    "map u_username (db_users (set_login user f l db)) = map u_username (db_users db)"
    by (simp_all add: set_login_def map_update_rows)
  ultimately show ?thesis
    using assms session_row_ok_cong [of "set_login user f l db" db] by (simp add: id_inv_def)
qed

lemma insert_session_sel:
  assumes "insert_session row db = Some db'"
  shows "db' = db\<lparr>db_sessions := db_sessions db @ [row]\<rparr>"
    and "\<forall>x \<in> set (db_sessions db). se_ID x \<noteq> se_ID row \<and> se_hash x \<noteq> se_hash row"
    and "session_row_ok db row"
  using assms by (auto simp: insert_session_def session_row_ok_def list_ex_iff split: if_splits)

lemma id_inv_insert [inv_intros]:
  assumes "id_inv db" and "insert_session row db = Some db'"
  shows "id_inv db'"
proof -
  note ins = insert_session_sel [OF assms(2)]
  have m: "session_row_ok db' = session_row_ok db" by (rule session_row_ok_cong) (simp add: ins(1))
  have "se_ID row \<notin> se_ID ` set (db_sessions db)" "se_hash row \<notin> se_hash ` set (db_sessions db)"
    using ins(2) by fastforce+
  with assms(1) ins(3) show ?thesis unfolding id_inv_def m by (simp add: ins(1))
qed

lemma id_inv_update_session [inv_intros]:
  assumes "id_inv db" and "\<And>x. se_ID (f x) = se_ID x \<and> se_user (f x) = se_user x \<and> se_org (f x) = se_org x"
    and "\<And>x. x \<in> set (db_sessions db) \<Longrightarrow> se_ID x = i \<Longrightarrow> se_issued (f x) < se_expires (f x)"
    and "distinct (map se_hash (update_rows (\<lambda>x. se_ID x = i) f (db_sessions db)))"
  shows "id_inv (update_session i f db)"
proof -
  have m: "session_row_ok (update_session i f db) = session_row_ok db" by (rule session_row_ok_cong) simp
  have "list_all (session_row_ok db) (update_rows (\<lambda>x. se_ID x = i) f (db_sessions db))"
    using assms(1-3) by (auto simp: id_inv_def list_all_iff set_update_rows session_row_ok_def)
  with assms show ?thesis unfolding id_inv_def m by (simp add: update_session_def map_update_rows)
qed

text \<open>A changed hash stays unique when no other session has it.\<close>

lemma distinct_hash_update:
  assumes "distinct (map se_ID rows)" and "distinct (map se_hash rows)"
    and "\<forall>x \<in> set rows. se_ID x \<noteq> i \<longrightarrow> se_hash x \<noteq> h" and "\<And>x. se_hash (f x) = h"
  shows "distinct (map se_hash (update_rows (\<lambda>x. se_ID x = i) f rows))"
  using assms
proof (induction rows)
  case (Cons r rows)
  show ?case
  proof (cases "se_ID r = i")
    case True
    then have "update_rows (\<lambda>x. se_ID x = i) f rows = rows"
      using Cons.prems(1) by (auto simp: update_rows_def image_iff intro!: map_idI)
    moreover have "h \<notin> se_hash ` set rows" using Cons.prems True by (auto simp: image_iff) metis
    ultimately show ?thesis using True Cons.prems by simp
  next
    case False
    have "se_hash r \<notin> se_hash ` set (update_rows (\<lambda>x. se_ID x = i) f rows)"
      using Cons.prems False by (auto simp: set_update_rows)
    with False Cons show ?thesis by simp
  qed
qed simp

lemma update_rows_same_hash:
  "(\<And>x. se_hash (f x) = se_hash x) \<Longrightarrow> map se_hash (update_rows P f rows) = map se_hash rows"
  by (simp add: map_update_rows)

section \<open>Preservation by the handlers\<close>

lemma session_inv [inv_intros]:
  assumes "IdentityService_session s now sid raw r user un org on v p db = Some (out, db')" and "id_inv db"
  shows "id_inv db'"
  using assms by (auto simp: IdentityService_session_def Let_def split: prod.splits intro: id_inv_insert)

lemma Bootstrap_body_inv:
  assumes "Bootstrap_body s now user org sid raw h r inp db = Commit x db'" and "id_inv db"
  shows "id_inv db'"
proof -
  let ?m = "\<lparr>mb_user = user, mb_org = org, mb_role = ''admin'', mb_active = True\<rparr>"
  have grow: "id_inv (db\<lparr>db_users := [u], db_orgs := db_orgs db @ [og], db_members := db_members db @ [?m]\<rparr>)"
    if "o_ID og = org" "\<not> list_ex (\<lambda>x. o_ID x = org) (db_orgs db)" "\<not> has_member db user org" "user_row_ok u" for u og
  proof -
    have "list_all (session_row_ok (db\<lparr>db_users := [u], db_orgs := db_orgs db @ [og], db_members := db_members db @ [?m]\<rparr>)) (db_sessions db)"
      using assms(2) by (auto simp: id_inv_def list_all_iff session_row_ok_def has_member_def)
    with assms(2) that show ?thesis by (auto simp: id_inv_def list_ex_iff has_member_def)
  qed
  from assms(1) show ?thesis
    by (auto simp: Bootstrap_body_def Let_def user_row_ok_def split: if_splits option.splits
        dest!: session_inv intro: grow)
qed

lemma Login_password_inv:
  assumes "Login_password s now sid raw r inp u failed db = Commit x db'" and "id_inv db" and "0 \<le> failed" "failed < 5"
  shows "id_inv db'"
proof -
  have "id_inv (set_login (u_ID u) 0 None db)" using assms(2) by (rule id_inv_set_login) auto
  then have ins: "id_inv db2" if "IdentityService_session s now sid raw r us un org on v p (set_login (u_ID u) 0 None db) = Some (out, db2)"
    for us un org on v p out db2 using that session_inv by blast
  from assms show ?thesis
    by (auto simp: Login_password_def Login_deny_def Let_def split: if_splits option.splits
        intro!: id_inv_set_login dest!: ins)
qed

lemma Login_body_inv:
  assumes "Login_body s now sid raw r inp db = Commit x db'" and inv: "id_inv db"
  shows "id_inv db'"
proof (cases "find (\<lambda>u. u_username u = ToLower (lr_Username inp)) (db_users db)")
  case None
  with assms show ?thesis by (auto simp: Login_body_def)
next
  case (Some u)
  then have u: "user_row_ok u" using inv find_Some_iff_set [OF Some] by (auto simp: id_inv_def list_all_iff)
  have i1: "id_inv (set_login (u_ID u) 0 None (audit r ''identity.unlock'' ''succeeded'' (Some (u_ID u)) None None db))"
    using inv by (intro id_inv_set_login) auto
  show ?thesis
    using assms(1) Some u
    by (auto simp: Login_body_def Login_deny_def user_row_ok_def inv split: if_splits
        intro: Login_password_inv [OF _ i1] Login_password_inv [OF _ inv])
qed

lemma session_audit_sel [simp]:
  "db_users (session_audit r a oc se db) = db_users db" "db_orgs (session_audit r a oc se db) = db_orgs db"
  "db_members (session_audit r a oc se db) = db_members db" "db_sessions (session_audit r a oc se db) = db_sessions db"
  "id_inv (session_audit r a oc se db) = id_inv db"
  by (simp_all add: session_audit_def)

lemma id_inv_rotate:
  assumes "rotate_session sid h i e db = Some db'" and "id_inv db"
  shows "id_inv db'"
proof -
  have c: "\<forall>x \<in> set (db_sessions db). se_ID x \<noteq> sid \<longrightarrow> se_hash x \<noteq> h" "i < e"
    and db': "db' = update_session sid (\<lambda>x. x\<lparr>se_hash := h, se_issued := i, se_expires := e\<rparr>) db"
    using assms(1) by (auto simp: rotate_session_def list_ex_iff split: if_splits)
  have "distinct (map se_hash (update_rows (\<lambda>x. se_ID x = sid)
      (\<lambda>x. x\<lparr>se_hash := h, se_issued := i, se_expires := e\<rparr>) (db_sessions db)))"
    using assms(2) c(1) by (intro distinct_hash_update [where h = h]) (auto simp: id_inv_def)
  then show ?thesis unfolding db' using assms(2) c(2) by (intro id_inv_update_session) auto
qed

lemma id_inv_revoke:
  assumes "id_inv db"
  shows "id_inv (update_session sid (\<lambda>x. x\<lparr>se_revoked := t\<rparr>) db)"
  using assms
  by (intro id_inv_update_session)
    (auto simp: id_inv_def list_all_iff session_row_ok_def update_rows_same_hash)

lemma session_action_inv:
  assumes "session_action s now raw r action se u og db = Commit x db'" and "id_inv db"
  shows "id_inv db'"
  using assms
  by (auto simp: session_action_def Let_def id_inv_revoke split: if_splits option.splits prod.splits dest: id_inv_rotate)

lemma withSession_body_inv:
  assumes "withSession_body s now raw r token action db = Commit x db'" and inv: "id_inv db"
  shows "id_inv db'"
  using assms
  by (auto simp: withSession_body_def split: option.splits if_splits prod.splits intro: session_action_inv)

lemma BindMCPToken_body_inv:
  assumes "BindMCPToken_body s now i r token user org expires db = Commit x db'" and "id_inv db"
  shows "id_inv db'"
proof -
  have ins: "insert_session row db = Some db2 \<Longrightarrow> id_inv db2" for row db2 using assms(2) by (rule id_inv_insert)
  from assms show ?thesis
    by (auto simp: BindMCPToken_body_def Let_def split: option.splits if_splits dest!: ins)
qed

section \<open>The component as an event handler\<close>

datatype identity_event =
  EBootstrap bool gotime string string string string "string option" string BootstrapRequest
| ELogin bool gotime string string string LoginRequest
| ESession bool gotime string string string string
| EBindMCP bool gotime string string string string string gotime

fun identity_step :: "identity_service \<Rightarrow> identity_event \<Rightarrow> identity_db \<Rightarrow> identity_db" where
  "identity_step s (EBootstrap f now user org sid raw h r inp) db = snd (Bootstrap s f now user org sid raw h r inp db)"
| "identity_step s (ELogin f now sid raw r inp) db = snd (Login s f now sid raw r inp db)"
| "identity_step s (ESession f now raw r token action) db = snd (withSession s f now raw r token action db)"
| "identity_step s (EBindMCP f now i r token user org expires) db = snd (BindMCPToken s f now i r token user org expires db)"

lemma identity_step_body:
  assumes "db' = identity_step s e db"
  obtains "db' = db"
  | now user org sid raw h r inp x where "Bootstrap_body s now user org sid raw h r inp db = Commit x db'"
  | now sid raw r inp x where "Login_body s now sid raw r inp db = Commit x db'"
  | now raw r token action x where "withSession_body s now raw r token action db = Commit x db'"
  | now i r token user org expires x where "BindMCPToken_body s now i r token user org expires db = Commit x db'"
proof (cases e)
  case (EBootstrap f now user org sid raw h r inp)
  with assms that(1) that(2) show ?thesis
    by (cases h) (auto simp: Bootstrap_def split: if_splits tx.splits)
next
  case (ELogin f now sid raw r inp)
  with assms that(1) that(3) show ?thesis by (auto simp: Login_def split: if_splits tx.splits)
next
  case (ESession f now raw r token action)
  with assms that(1) that(4) show ?thesis by (auto simp: withSession_def split: if_splits tx.splits)
next
  case (EBindMCP f now i r token user org expires)
  with assms that(1) that(5) show ?thesis by (auto simp: BindMCPToken_def split: if_splits tx.splits)
qed

lemma identity_step_inv: "id_inv db \<Longrightarrow> id_inv (identity_step s e db)"
  by (rule identity_step_body [OF refl, of s e db])
    (auto intro: Bootstrap_body_inv Login_body_inv withSession_body_inv BindMCPToken_body_inv)

lemma fresh_inv: "fresh_db db \<Longrightarrow> id_inv db"
  by (simp add: fresh_db_def id_inv_def)

interpretation ident: invariant_handler fresh_db "identity_step s" id_inv for s
  by unfold_locales (rule fresh_inv, assumption, rule identity_step_inv, assumption)

text \<open>
  C35. Every state of the identity tables that the handlers reach from a new station keeps
  the keys of users, organizations, memberships and sessions unique, gives every session
  its membership and a positive lifetime, and locks an account exactly when it has five
  failures on record.
\<close>

theorem identity_reachable_inv:
  assumes "fresh_db db"
  shows "id_inv (fold (identity_step s) es db)"
  using ident.run_inv [OF fresh_inv [OF assms]] by (simp add: ident.run_def)

section \<open>Sessions found by token\<close>

lemma session_join_find:
  assumes "session_join db h = Some (se, u, og, m)"
  shows "find (\<lambda>se. se_hash se = h) (db_sessions db) = Some se" "se \<in> set (db_sessions db)" "se_hash se = h"
  using assms find_Some_iff_set by (fastforce simp: session_join_def split: option.splits)+

lemma session_id_inj:
  assumes "id_inv db" and "x \<in> set (db_sessions db)" and "y \<in> set (db_sessions db)" and "se_ID x = se_ID y"
  shows "x = y"
  using assms by (auto simp: id_inv_def distinct_map inj_on_def)

lemma find_session:
  assumes "id_inv db" and "se \<in> set (db_sessions db)" and "se_hash se = h"
  shows "find (\<lambda>se. se_hash se = h) (db_sessions db) = Some se"
  using find_unique [of se_hash "db_sessions db" se] assms by (simp add: id_inv_def)

lemma session_fault_revoked: "se_revoked se \<noteq> None \<Longrightarrow> session_fault now se u og m = Some Revoked"
  by (simp add: session_fault_def)

text \<open>
  A request is authenticated by a bearer token exactly when the token is well formed
  and its hash belongs to a session that is not revoked and not outdated by the user's
  revocation version, has not expired, and whose user, organization and membership are
  active now, with the account not locked; the identity returned is the stored one, and
  no client claim enters it.
\<close>

theorem Me_authenticates_iff:
  "fst (Me s False now r token db) = Inr c \<longleftrightarrow>
     validBearerToken token \<and>
     (\<exists>se u og m. session_join db (is_sha256 s token) = Some (se, u, og, m) \<and>
        se_revoked se = None \<and> se_version se = u_version u \<and> now < se_expires se \<and>
        u_status u = ''active'' \<and> o_status og = ''active'' \<and> mb_active m \<and> mb_role m = ''admin'' \<and>
        \<not> locked_at now u \<and>
        c = IdentityContext.truncate (session_context s r se u og [''admin''] adminScopes))"
  by (auto simp: Me_def withSession_def withSession_body_def session_action_def session_fault_def
      split: option.splits prod.splits if_splits)

section \<open>Revocation\<close>

lemma Bootstrap_body_sessions:
  "Bootstrap_body s now user org sid raw h r inp db = Commit x db' \<Longrightarrow> set (db_sessions db) \<subseteq> set (db_sessions db')"
  by (auto simp: Bootstrap_body_def IdentityService_session_def newToken_def Let_def split: if_splits option.splits
      dest!: insert_session_sel(1))

lemma Login_password_sessions:
  "Login_password s now sid raw r inp u f db = Commit x db' \<Longrightarrow> set (db_sessions db) \<subseteq> set (db_sessions db')"
  by (auto simp: Login_password_def Login_deny_def IdentityService_session_def newToken_def Let_def
      split: if_splits option.splits dest!: insert_session_sel(1))

lemma Login_body_sessions:
  "Login_body s now sid raw r inp db = Commit x db' \<Longrightarrow> set (db_sessions db) \<subseteq> set (db_sessions db')"
  by (auto simp: Login_body_def Login_deny_def split: if_splits option.splits dest!: Login_password_sessions)

lemma BindMCPToken_body_sessions:
  "BindMCPToken_body s now i r token user org expires db = Commit x db' \<Longrightarrow> set (db_sessions db) \<subseteq> set (db_sessions db')"
  by (auto simp: BindMCPToken_body_def Let_def split: if_splits option.splits dest!: insert_session_sel(1))

lemma update_session_other:
  assumes "x \<in> set (db_sessions db)" and "se_ID x \<noteq> i"
  shows "x \<in> set (db_sessions (update_session i f db))"
  using assms by (force simp: update_session_def set_update_rows)

lemma session_action_other:
  assumes "session_action s now raw r action se u og db = Commit x db'"
    and "row \<in> set (db_sessions db)" and "se_ID row \<noteq> se_ID se"
  shows "row \<in> set (db_sessions db')"
proof -
  have up: "row \<in> set (db_sessions (update_session (se_ID se) g db))" for g
    using assms(2,3) by (rule update_session_other)
  from assms(1) show ?thesis
    by (simp add: session_action_def rotate_session_def newToken_def Let_def assms(2) up
        split: option.splits if_splits) (use assms(2) up in auto)
qed

lemma withSession_body_keeps_revoked:
  assumes "withSession_body s now raw r token action db = Commit x db'"
    and inv: "id_inv db" and x: "row \<in> set (db_sessions db)" "se_revoked row \<noteq> None"
  shows "row \<in> set (db_sessions db')"
proof (cases "session_join db (is_sha256 s token)")
  case None
  with assms show ?thesis by (simp add: withSession_body_def)
next
  case (Some j)
  obtain se u og m where j: "j = (se, u, og, m)" by (cases j)
  show ?thesis
  proof (cases "se_revoked se = None")
    case False
    then show ?thesis using assms Some j by (auto simp: withSession_body_def session_fault_revoked split: if_splits)
  next
    case True
    have se: "se \<in> set (db_sessions db)" using session_join_find [OF Some [unfolded j]] by simp
    have "row \<noteq> se" using True x(2) by auto
    then have "se_ID row \<noteq> se_ID se" using session_id_inj [OF inv x(1) se] by blast
    then show ?thesis using assms(1) Some j True x(1)
      by (auto simp: withSession_body_def split: option.splits dest: session_action_other)
  qed
qed

lemma revoked_row_kept:
  assumes "id_inv db" and "row \<in> set (db_sessions db)" and "se_revoked row \<noteq> None"
  shows "row \<in> set (db_sessions (identity_step s e db))"
  using assms
  by (cases rule: identity_step_body [OF refl, of s e db])
    (auto dest: Bootstrap_body_sessions Login_body_sessions BindMCPToken_body_sessions withSession_body_keeps_revoked)

lemma revoked_row_kept_run:
  assumes "id_inv db" and "row \<in> set (db_sessions db)" and "se_revoked row \<noteq> None"
  shows "row \<in> set (db_sessions (fold (identity_step s) es db))"
  using assms by (induction es arbitrary: db) (auto intro: revoked_row_kept identity_step_inv)

lemma revoked_token_refused:
  assumes "id_inv db" and "row \<in> set (db_sessions db)" and "se_revoked row \<noteq> None" and "se_hash row = is_sha256 s token"
    and "action \<noteq> ''logout''"
  shows "\<not> isl (fst (withSession s f now raw r token action db)) \<Longrightarrow> False"
  using assms find_session [OF assms(1,2,4)]
  by (auto simp: withSession_def withSession_body_def session_join_def session_fault_revoked
      split: if_splits option.splits tx.splits)

lemma logout_revokes:
  assumes "withSession s f now raw r token ''logout'' db = (Inr out, db')"
  shows "\<exists>row \<in> set (db_sessions db'). se_hash row = is_sha256 s token \<and> se_revoked row \<noteq> None"
proof -
  from assms obtain se u og m where j: "session_join db (is_sha256 s token) = Some (se, u, og, m)"
    by (auto simp: withSession_def withSession_body_def split: if_splits option.splits)
  note se = session_join_find [OF j]
  let ?row = "if se_revoked se = None then se\<lparr>se_revoked := Some (pg_time now)\<rparr> else se"
  have "?row \<in> set (db_sessions db')"
    using assms j se(2) by (auto simp: withSession_def withSession_body_def session_action_def update_session_def
        set_update_rows session_fault_def split: if_splits)
  then show ?thesis using se(3) by (intro bexI [of _ ?row]) auto
qed

text \<open>
  C8. Logging out is final: after a successful logout of a token, whatever requests the
  station handles later, and at any time, that token is refused for authentication and
  for refresh.
\<close>

theorem logout_is_final:
  assumes "id_inv db" and "Logout s f now r token db = (Inr (), db')"
  shows "isl (fst (Me s f' now' r' token (fold (identity_step s) es db'))) \<and>
         isl (fst (Refresh s f' now' raw r' token (fold (identity_step s) es db')))"
proof -
  obtain out where w: "withSession s f now [] r token ''logout'' db = (Inr out, db')"
    using assms(2) by (cases "withSession s f now [] r token ''logout'' db"; cases "fst (withSession s f now [] r token ''logout'' db)")
      (auto simp: Logout_def)
  have i: "id_inv db'" using identity_step_inv [OF assms(1), of s "ESession f now [] r token ''logout''"] w by simp
  obtain row where row: "row \<in> set (db_sessions db')" "se_hash row = is_sha256 s token" "se_revoked row \<noteq> None"
    using logout_revokes [OF w] by blast
  let ?db = "fold (identity_step s) es db'"
  have "id_inv ?db" using ident.run_inv [OF i, of s es] by (simp add: ident.run_def)
  moreover have "row \<in> set (db_sessions ?db)" by (rule revoked_row_kept_run [OF i row(1,3)])
  ultimately have "isl (fst (withSession s f' now' raw' r' token action ?db))" if "action \<noteq> ''logout''" for raw' action
    using revoked_token_refused row(2,3) that by blast
  from this [of "''me''"] this [of "''refresh''"] show ?thesis
    by (auto simp: Me_def Refresh_def split: prod.splits) (metis fst_conv isl_map_sum)+
qed

section \<open>Issued tokens\<close>

lemma newToken_valid:
  assumes "length raw = 32"
  shows "validBearerToken (fst (newToken s raw))"
proof -
  have len: "length (RawURLEncoding raw) = 43" using assms by (simp add: RawURLEncoding_length)
  have "list_all is_token_char (RawURLEncoding raw)"
    using RawURLEncoding_chars [of raw] by (auto simp: list_all_iff is_token_char_def)
  then have tw: "takeWhile is_token_char (RawURLEncoding raw) = RawURLEncoding raw"
    "dropWhile is_token_char (RawURLEncoding raw) = []" by (auto simp: list_all_iff)
  show ?thesis by (simp add: tw len validBearerToken_def bearerTokenPattern_def newToken_def Let_def)
qed

lemma session_join_intro:
  assumes "id_inv db" and "se \<in> set (db_sessions db)" and "u \<in> set (db_users db)" and "og \<in> set (db_orgs db)"
    and "m \<in> set (db_members db)" and "u_ID u = se_user se" and "o_ID og = se_org se"
    and "mb_user m = se_user se" and "mb_org m = se_org se"
  shows "session_join db (se_hash se) = Some (se, u, og, m)"
proof -
  have "find (\<lambda>x. u_ID x = se_user se) (db_users db) = Some u"
    using find_unique [of u_ID "db_users db" u] assms by (simp add: id_inv_def)
  moreover have "find (\<lambda>x. o_ID x = se_org se) (db_orgs db) = Some og"
    using find_unique [of o_ID "db_orgs db" og] assms by (simp add: id_inv_def)
  moreover have "find (\<lambda>x. mb_user x = se_user se \<and> mb_org x = se_org se) (db_members db) = Some m"
    using find_unique [of "\<lambda>m. (mb_user m, mb_org m)" "db_members db" m] assms by (simp add: id_inv_def)
  ultimately show ?thesis using find_session [OF assms(1,2) refl] by (simp add: session_join_def)
qed

lemma login_org_sound:
  assumes "login_org db user want = Some og"
  shows "og \<in> set (db_orgs db)" "o_status og = ''active''"
    "\<exists>m \<in> set (db_members db). mb_user m = user \<and> mb_org m = o_ID og \<and> mb_active m \<and> mb_role m = ''admin''"
  using min_by_in [OF assms [unfolded login_org_def]] by (auto simp: list_ex_iff)

lemma Login_password_issues:
  assumes "Login_password s now sid raw r inp u f db = Commit (Inr out) db'" and "id_inv db"
    and "u \<in> set (db_users db)" and "u_status u = ''active''" and "u_username u = ToLower (lr_Username inp)"
  shows "\<exists>se u' og m. session_join db' (snd (newToken s raw)) = Some (se, u', og, m) \<and>
     session_fault now' se u' og m = (if now' < pg_time (now + is_SessionTTL s) then None else Some Unauthenticated) \<and>
     s_AccessToken out = fst (newToken s raw) \<and>
     session_context s (ic_RequestID out) se u' og [''admin''] adminScopes =
       out\<lparr>s_AccessToken := [], ic_IssuedAt := pg_time now, ic_ExpiresAt := pg_time (now + is_SessionTTL s)\<rparr>"
proof -
  have i1: "id_inv (set_login (u_ID u) 0 None db)" using assms(2) by (rule id_inv_set_login) auto
  from assms(1) obtain og db2 where og: "login_org db (u_ID u) (lr_OrganizationID inp) = Some og"
    and ses: "IdentityService_session s now sid raw r (u_ID u) (ToLower (lr_Username inp)) (o_ID og) (o_name og)
       (u_version u) (o_policy og) (set_login (u_ID u) 0 None db) = Some (out, db2)"
    and db': "db' = audit r ''identity.login'' ''succeeded'' (Some (u_ID u)) (Some (o_ID og)) (Some sid) db2"
    by (auto simp: Login_password_def Login_deny_def Let_def split: if_splits option.splits)
  let ?se = "\<lparr>se_ID = sid, se_user = u_ID u, se_org = o_ID og, se_hash = snd (newToken s raw), se_issued = pg_time now,
    se_expires = pg_time (now + is_SessionTTL s), se_version = u_version u, se_revoked = None, se_kind = ''session''\<rparr>"
  have ins: "insert_session ?se (set_login (u_ID u) 0 None db) = Some db2"
    using ses by (auto simp: IdentityService_session_def newToken_def Let_def)
  have db2: "db2 = (set_login (u_ID u) 0 None db)\<lparr>db_sessions := db_sessions db @ [?se]\<rparr>"
    using insert_session_sel(1) [OF ins] by simp
  note org = login_org_sound [OF og]
  obtain m where m: "m \<in> set (db_members db)" "mb_user m = u_ID u" "mb_org m = o_ID og" "mb_active m" "mb_role m = ''admin''"
    using org(3) by blast
  let ?u = "u\<lparr>u_failed := 0, u_locked := None\<rparr>"
  have u': "?u \<in> set (db_users db')" using assms(3) by (force simp: db' db2 set_login_def set_update_rows)
  have "id_inv db'" using id_inv_insert [OF i1 ins] by (simp add: db')
  then have "session_join db' (se_hash ?se) = Some (?se, ?u, og, m)"
    using u' org m by (intro session_join_intro) (auto simp: db' db2)
  moreover have "session_fault now' ?se ?u og m = (if now' < pg_time (now + is_SessionTTL s) then None else Some Unauthenticated)"
    using assms(4) org(2) m by (simp add: session_fault_def locked_at_def)
  moreover have "out = \<lparr>ic_RequestID = r, ic_StationID = is_StationID s, ic_SessionID = sid, ic_UserID = u_ID u,
                 ic_Username = ToLower (lr_Username inp), ic_OrganizationID = o_ID og, ic_OrganizationName = o_name og, ic_Roles = [''admin''],
                 ic_Scopes = adminScopes, ic_IssuedAt = now, ic_ExpiresAt = now + is_SessionTTL s,
                 ic_RevocationVersion = u_version u, ic_PolicyVersion = o_policy og, s_AccessToken = fst (newToken s raw)\<rparr>"
    using ses by (auto simp: IdentityService_session_def newToken_def Let_def)
  ultimately show ?thesis using assms(5) by (intro exI [of _ ?se] exI [of _ ?u] exI [of _ og] exI [of _ m])
    (simp add: session_context_def)
qed

lemma Login_success_password:
  assumes "Login s f now sid raw r inp db = (Inr out, db')" and "id_inv db"
  shows "\<exists>u fl db1. Login_password s now sid raw r inp u fl db1 = Commit (Inr out) db' \<and> id_inv db1 \<and>
    u \<in> set (db_users db1) \<and> u_status u = ''active'' \<and> u_username u = ToLower (lr_Username inp)"
proof -
  have body: "Login_body s now sid raw r inp db = Commit (Inr out) db'"
    using assms(1) by (auto simp: Login_def split: if_splits tx.splits)
  then obtain u where u: "find (\<lambda>u. u_username u = ToLower (lr_Username inp)) (db_users db) = Some u"
    by (auto simp: Login_body_def split: option.splits)
  note mem = find_Some_iff_set [OF u]
  let ?db1 = "set_login (u_ID u) 0 None (audit r ''identity.unlock'' ''succeeded'' (Some (u_ID u)) None None db)"
  have i1: "id_inv ?db1" using assms(2) by (intro id_inv_set_login) auto
  have eq: "Login_password s now sid raw r inp u 0 ?db1 =
     Login_password s now sid raw r inp (u\<lparr>u_failed := 0, u_locked := None\<rparr>) 0 ?db1"
    by (simp add: Login_password_def Let_def cong: option.case_cong)
  have "u\<lparr>u_failed := 0, u_locked := None\<rparr> \<in> set (db_users ?db1)"
    using mem by (force simp: set_login_def set_update_rows)
  then have two: ?thesis if "u_locked u \<noteq> None" using body u mem i1 that
    by (intro exI [of _ "u\<lparr>u_failed := 0, u_locked := None\<rparr>"] exI [of _ 0] exI [of _ ?db1])
      (auto simp: Login_body_def Login_deny_def eq split: if_splits)
  have ?thesis if "u_locked u = None" using body u mem assms(2) that
    by (intro exI [of _ u] exI [of _ "u_failed u"] exI [of _ db])
      (auto simp: Login_body_def Login_deny_def split: if_splits)
  with two show ?thesis by blast
qed

text \<open>
  The token a login returns authenticates its holder: until the stored expiry, and as
  long as no other request changes the tables, the identity read back is the one of the
  login, with its times in the whole microseconds of the database; at the expiry the
  token is refused.
\<close>

theorem login_token_authenticates:
  assumes "id_inv db" and "Login s f now sid raw r inp db = (Inr out, db')" and "length raw = 32"
  shows "fst (Me s False now' r (s_AccessToken out) db') =
    (if now' < pg_time (now + is_SessionTTL s)
     then Inr (IdentityContext.truncate (out\<lparr>ic_IssuedAt := pg_time now, ic_ExpiresAt := pg_time (now + is_SessionTTL s)\<rparr>))
     else Inl Unauthenticated)"
proof -
  obtain u fl db1 where p: "Login_password s now sid raw r inp u fl db1 = Commit (Inr out) db'" "id_inv db1"
    "u \<in> set (db_users db1)" "u_status u = ''active''" "u_username u = ToLower (lr_Username inp)"
    using Login_success_password [OF assms(2,1)] by blast
  have r: "ic_RequestID out = r"
    using p(1) by (auto simp: Login_password_def Login_deny_def IdentityService_session_def Let_def
        split: if_splits option.splits prod.splits)
  obtain se u' og m where j: "session_join db' (snd (newToken s raw)) = Some (se, u', og, m)"
    "session_fault now' se u' og m = (if now' < pg_time (now + is_SessionTTL s) then None else Some Unauthenticated)"
    "s_AccessToken out = fst (newToken s raw)"
    "session_context s (ic_RequestID out) se u' og [''admin''] adminScopes =
       out\<lparr>s_AccessToken := [], ic_IssuedAt := pg_time now, ic_ExpiresAt := pg_time (now + is_SessionTTL s)\<rparr>"
    using Login_password_issues [OF p, of now'] by blast
  have "validBearerToken (s_AccessToken out)" using newToken_valid [OF assms(3)] j(3) by simp
  moreover have "is_sha256 s (s_AccessToken out) = snd (newToken s raw)" using j(3) by (simp add: newToken_def Let_def)
  ultimately show ?thesis
    using j r by (simp add: Me_def withSession_def withSession_body_def session_action_def IdentityContext.truncate_def)
qed
section \<open>Refresh\<close>

lemma find_absent_hash:
  assumes "\<forall>x \<in> set (db_sessions db). se_hash x \<noteq> h"
  shows "session_join db h = None"
  using assms find_None_set [of "\<lambda>x. se_hash x = h" "db_sessions db"] by (simp add: session_join_def)

lemma Refresh_success:
  assumes "Refresh s f now raw r token db = (Inr out, db')"
  obtains se u og m where "session_join db (is_sha256 s token) = Some (se, u, og, m)" "session_fault now se u og m = None"
    "se_kind se \<noteq> ''mcp''"
    "\<forall>x \<in> set (db_sessions db). se_ID x = se_ID se \<or> se_hash x \<noteq> snd (newToken s raw)"
    "out = (session_context s r se u og [''admin''] adminScopes)\<lparr>s_AccessToken := fst (newToken s raw),
        ic_IssuedAt := now, ic_ExpiresAt := now + is_SessionTTL s\<rparr>"
    "db' = session_audit r ''refresh'' ''succeeded'' se (update_session (se_ID se) (\<lambda>x. x\<lparr>se_hash := snd (newToken s raw),
        se_issued := pg_time now, se_expires := pg_time (now + is_SessionTTL s)\<rparr>) db)"
  using assms
  by (auto simp: Refresh_def withSession_def withSession_body_def session_action_def rotate_session_def list_ex_iff
      Let_def case_prod_unfold split: if_splits option.splits)

text \<open>
  A refresh rotates the token of the same session: the old token is refused from then
  on (unless the two tokens have the same SHA-256 hash), and the new one authenticates the
  same session of the same user and organization until its own expiry. A credential bound
  for MCP is never refreshed.
\<close>

theorem refresh_rotates:
  assumes "id_inv db" and "Refresh s f now raw r token db = (Inr out, db')" and "length raw = 32"
    and "is_sha256 s (s_AccessToken out) \<noteq> is_sha256 s token"
  shows "fst (Me s False now' r' token db') = Inl Unauthenticated \<and>
    (now \<le> now' \<and> now' < pg_time (now + is_SessionTTL s) \<longrightarrow>
      (\<exists>c. fst (Me s False now' r' (s_AccessToken out) db') = Inr c \<and>
         ic_SessionID c = ic_SessionID out \<and> ic_UserID c = ic_UserID out \<and> ic_OrganizationID c = ic_OrganizationID out)) \<and>
    (\<exists>se \<in> set (db_sessions db). se_ID se = ic_SessionID out \<and> se_kind se \<noteq> ''mcp'')"
proof -
  from assms(2) obtain se u og m where *: "session_join db (is_sha256 s token) = Some (se, u, og, m)"
    "session_fault now se u og m = None" "se_kind se \<noteq> ''mcp''"
    "\<forall>x \<in> set (db_sessions db). se_ID x = se_ID se \<or> se_hash x \<noteq> snd (newToken s raw)"
    and out: "out = (session_context s r se u og [''admin''] adminScopes)\<lparr>s_AccessToken := fst (newToken s raw),
        ic_IssuedAt := now, ic_ExpiresAt := now + is_SessionTTL s\<rparr>"
    and db': "db' = session_audit r ''refresh'' ''succeeded'' se (update_session (se_ID se) (\<lambda>x. x\<lparr>se_hash := snd (newToken s raw),
        se_issued := pg_time now, se_expires := pg_time (now + is_SessionTTL s)\<rparr>) db)"
    by (rule Refresh_success)
  note se = session_join_find [OF *(1)]
  have tok: "s_AccessToken out = fst (newToken s raw)" "is_sha256 s (s_AccessToken out) = snd (newToken s raw)"
    using out by (auto simp: newToken_def Let_def)
  have other: "se_hash x \<noteq> is_sha256 s token" if "x \<in> set (db_sessions db)" "se_ID x \<noteq> se_ID se" for x
    using assms(1) that se(2,3) by (auto simp: id_inv_def distinct_map inj_on_def)
  have gone: "\<forall>x \<in> set (db_sessions db'). se_hash x \<noteq> is_sha256 s token"
    using other assms(4) tok by (auto simp: db' update_session_def set_update_rows)
  let ?se = "se\<lparr>se_hash := snd (newToken s raw), se_issued := pg_time now, se_expires := pg_time (now + is_SessionTTL s)\<rparr>"
  have inv': "id_inv db'"
    using identity_step_inv [OF assms(1), of s "ESession f now raw r token ''refresh''"] assms(2) by (simp add: Refresh_def)
  have "?se \<in> set (db_sessions db')" using se(2) by (force simp: db' update_session_def set_update_rows)
  moreover have "u \<in> set (db_users db') \<and> u_ID u = se_user se" "og \<in> set (db_orgs db') \<and> o_ID og = se_org se"
    "m \<in> set (db_members db') \<and> mb_user m = se_user se \<and> mb_org m = se_org se"
    using *(1) by (auto simp: db' session_join_def split: option.splits dest: find_Some_iff_set)
  ultimately have j: "session_join db' (se_hash ?se) = Some (?se, u, og, m)"
    using inv' by (intro session_join_intro) auto
  have mono: "session_fault now' ?se u og m = None" if "now \<le> now'" "now' < pg_time (now + is_SessionTTL s)"
    using *(2) that by (auto simp: session_fault_def locked_at_def split: if_splits option.splits)
  have "fst (Me s False now' r' token db') = Inl Unauthenticated"
    using find_absent_hash [OF gone] by (simp add: Me_def withSession_def withSession_body_def)
  moreover have "validBearerToken (s_AccessToken out)" using newToken_valid [OF assms(3)] tok by simp
  ultimately show ?thesis
    using j mono tok *(3) se(2) out
    by (auto simp: Me_def withSession_def withSession_body_def session_action_def session_context_def
        IdentityContext.truncate_def)
qed

section \<open>Account lockout\<close>

lemma find_set_login:
  assumes "find (\<lambda>u. u_username u = name) (db_users db) = Some u"
  shows "find (\<lambda>u. u_username u = name) (db_users (set_login (u_ID u) f l db)) = Some (u\<lparr>u_failed := f, u_locked := l\<rparr>)"
  using assms by (simp add: set_login_def find_update_rows)

lemma wrong_password_step:
  assumes "find (\<lambda>u. u_username u = ToLower (lr_Username inp)) (db_users db) = Some u"
    and "u_status u = ''active''" and "u_locked u = None" and "\<not> is_compare s (u_hash u) (lr_Password inp)"
    and "validLogin (is_uuid s) (lr_Username inp) (lr_Password inp) (lr_OrganizationID inp)"
  shows "find (\<lambda>u. u_username u = ToLower (lr_Username inp)) (db_users (snd (Login s False now sid raw r inp db))) =
     Some (u\<lparr>u_failed := u_failed u + 1, u_locked := (if u_failed u + 1 \<ge> 5 then Some (pg_time (now + 15 * Minute)) else None)\<rparr>)"
  using assms find_set_login [OF assms(1)]
    find_set_login [of "ToLower (lr_Username inp)" "audit r ''identity.lock'' ''succeeded'' (Some (u_ID u)) None None db" u]
  by (simp add: Login_def Login_body_def locked_at_def Login_password_def Login_deny_def Let_def)

text \<open>One attempt to log in, and the attempts that name an account with a wrong password.\<close>

type_synonym attempt = "gotime \<times> string \<times> string \<times> string \<times> LoginRequest"

fun attempt_step :: "identity_service \<Rightarrow> attempt \<Rightarrow> identity_db \<Rightarrow> identity_db" where
  "attempt_step s (now, sid, raw, r, inp) db = snd (Login s False now sid raw r inp db)"

fun wrong_attempt :: "identity_service \<Rightarrow> user_row \<Rightarrow> attempt \<Rightarrow> bool" where
  "wrong_attempt s u (now, sid, raw, r, inp) \<longleftrightarrow>
     ToLower (lr_Username inp) = u_username u \<and> \<not> is_compare s (u_hash u) (lr_Password inp) \<and>
     validLogin (is_uuid s) (lr_Username inp) (lr_Password inp) (lr_OrganizationID inp)"

lemma wrong_attempts_count:
  assumes "find (\<lambda>x. u_username x = u_username u) (db_users db) = Some u"
    and "u_status u = ''active''" and "u_locked u = None" and "list_all (wrong_attempt s u) as"
    and "as \<noteq> []" and "u_failed u + int (length as) = 5"
  shows "find (\<lambda>x. u_username x = u_username u) (db_users (fold (attempt_step s) as db)) =
     Some (u\<lparr>u_failed := 5, u_locked := Some (pg_time (fst (last as) + 15 * Minute))\<rparr>)"
  using assms
proof (induction as arbitrary: u db)
  case (Cons a as)
  obtain now sid raw r inp where a: "a = (now, sid, raw, r, inp)" by (cases a)
  have name: "ToLower (lr_Username inp) = u_username u" using Cons.prems(4) a by simp
  let ?u = "u\<lparr>u_failed := u_failed u + 1, u_locked := (if u_failed u + 1 \<ge> 5 then Some (pg_time (now + 15 * Minute)) else None)\<rparr>"
  have step: "find (\<lambda>x. u_username x = u_username u) (db_users (attempt_step s a db)) = Some ?u"
    using wrong_password_step [of inp db u s now sid raw r] Cons.prems a name by simp
  show ?case
  proof (cases "as = []")
    case True
    with Cons.prems step a show ?thesis by simp
  next
    case False
    then have less: "u_failed u + 1 < 5" using Cons.prems(6) by (cases as) auto
    have "list_all (wrong_attempt s ?u) as" using Cons.prems(4) by (auto simp: list_all_iff)
    from Cons.IH [of ?u "attempt_step s a db"] this step less Cons.prems False show ?thesis by simp
  qed
qed simp

text \<open>
  Brute force is bounded: the attempts with a wrong password that bring the failures of
  an account to five lock it for fifteen minutes, and until then every further login of
  that account is answered \<open>ACCOUNT_LOCKED\<close> and opens no session, even with the right
  password.
\<close>

theorem lockout_after_five_failures:
  assumes "find (\<lambda>x. u_username x = u_username u) (db_users db) = Some u"
    and "u_status u = ''active''" and "u_locked u = None" and "list_all (wrong_attempt s u) as"
    and "as \<noteq> []" and "u_failed u + int (length as) = 5"
    and "ToLower (lr_Username inp) = u_username u"
    and "validLogin (is_uuid s) (lr_Username inp) (lr_Password inp) (lr_OrganizationID inp)"
    and "now < pg_time (fst (last as) + 15 * Minute)"
  shows "fst (Login s False now sid raw r inp (fold (attempt_step s) as db)) = Inl Locked \<and>
    db_sessions (snd (Login s False now sid raw r inp (fold (attempt_step s) as db))) = db_sessions (fold (attempt_step s) as db)"
  using wrong_attempts_count [OF assms(1-6)] assms(2,7-9)
  by (simp add: Login_def Login_body_def locked_at_def Login_deny_def)

section \<open>Bootstrap\<close>

lemma users_kept: "db_users db \<noteq> [] \<Longrightarrow> db_users (identity_step s e db) \<noteq> []"
proof -
  assume u: "db_users db \<noteq> []"
  have pw: "Login_password s now sid raw r inp v fl d = Commit x d' \<Longrightarrow> length (db_users d') = length (db_users d)"
    for now sid raw r inp v fl d x d'
    by (auto simp: Login_password_def Login_deny_def IdentityService_session_def set_login_def Let_def
        split: if_splits option.splits prod.splits dest!: insert_session_sel(1))
  have act: "session_action s now raw r action se v og d = Commit x d' \<Longrightarrow> db_users d' = db_users d"
    for now raw r action se v og d x d'
    by (auto simp: session_action_def rotate_session_def Let_def split: if_splits option.splits prod.splits)
  define db' where "db' = identity_step s e db"
  then have "db_users db' \<noteq> []"
  proof (cases rule: identity_step_body)
    case (2 now user org sid raw h r inp x)
    with u show ?thesis by (simp add: Bootstrap_body_def)
  next
    case (3 now sid raw r inp x)
    then have "length (db_users db') = length (db_users db)"
      by (auto simp: Login_body_def Login_deny_def set_login_def split: if_splits option.splits dest!: pw)
    with u show ?thesis by auto
  next
    case (4 now raw r token action x)
    with u show ?thesis by (auto simp: withSession_body_def split: if_splits option.splits prod.splits dest!: act)
  next
    case (5 now i r token user org expires x)
    with u show ?thesis by (auto simp: BindMCPToken_body_def Let_def split: if_splits option.splits dest!: insert_session_sel(1))
  qed (use u in simp)
  then show ?thesis by (simp add: db'_def)
qed

text \<open>
  A station is bootstrapped at most once: after a successful bootstrap, and after
  whatever requests follow it, another bootstrap is refused and changes nothing.
\<close>

theorem bootstrap_once:
  assumes "Bootstrap s f now user org sid raw h r inp db = (Inr out, db')"
  shows "isl (fst (Bootstrap s f2 now2 user2 org2 sid2 raw2 h2 r2 inp2 (fold (identity_step s) es db'))) \<and>
    snd (Bootstrap s f2 now2 user2 org2 sid2 raw2 h2 r2 inp2 (fold (identity_step s) es db')) = fold (identity_step s) es db'"
proof -
  have "db_users db' \<noteq> []"
    using assms by (auto simp: Bootstrap_def Bootstrap_body_def IdentityService_session_def Let_def
        split: if_splits option.splits prod.splits dest!: insert_session_sel(1))
  then have "db_users (fold (identity_step s) es db') \<noteq> []"
    by (induction es arbitrary: db') (auto simp: users_kept)
  then show ?thesis by (auto simp: Bootstrap_def Bootstrap_body_def split: option.splits)
qed

section \<open>The audit trail\<close>

lemma audit_prefix: "prefix (db_audit db) (db_audit (audit r a oc u g x db))"
  by (simp add: audit_def)

lemmas audit_steps = audit_prefix prefix_order.trans [OF _ audit_prefix]

lemma insert_session_audit: "insert_session row db = Some db' \<Longrightarrow> db_audit db' = db_audit db"
  using insert_session_sel(1) by fastforce

lemma Login_password_audit:
  assumes "Login_password s now sid raw r inp u f db = Commit x db'"
  shows "prefix (db_audit db) (db_audit db')"
  using assms
  by (auto simp: Login_password_def Login_deny_def IdentityService_session_def Let_def intro!: audit_steps
      split: if_splits option.splits prod.splits dest!: insert_session_audit)

lemma identity_step_audit: "prefix (db_audit db) (db_audit (identity_step s e db))"
proof -
  define db' where "db' = identity_step s e db"
  then have "prefix (db_audit db) (db_audit db')"
  proof (cases rule: identity_step_body)
    case (2 now user org sid raw h r inp x)
    then show ?thesis
      by (auto simp: Bootstrap_body_def IdentityService_session_def Let_def split: if_splits option.splits prod.splits
          dest!: insert_session_audit) (auto simp: audit_def)
  next
    case (3 now sid raw r inp x)
    then show ?thesis
      by (auto simp: Login_body_def Login_deny_def audit_prefix split: if_splits option.splits dest!: Login_password_audit)
        (auto simp: audit_def prefix_def)
  next
    case (4 now raw r token action x)
    then show ?thesis
      by (auto simp: withSession_body_def session_action_def rotate_session_def session_audit_def Let_def
          split: if_splits option.splits prod.splits) (auto simp: audit_def)
  next
    case (5 now i r token user org expires x)
    then show ?thesis
      by (auto simp: BindMCPToken_body_def Let_def split: if_splits option.splits dest!: insert_session_audit)
        (auto simp: audit_def)
  qed simp
  then show ?thesis by (simp add: db'_def)
qed

text \<open>
  The audit trail only grows: no sequence of identity requests removes, reorders or
  rewrites an event that is on record.
\<close>

theorem identity_audit_append_only: "prefix (db_audit db) (db_audit (fold (identity_step s) es db))"
  by (induction es arbitrary: db) (auto intro: prefix_order.trans identity_step_audit)

section \<open>Bound credentials and delegation\<close>

text \<open>
  Binding an MCP credential never takes over a registered token. When the token's hash
  is on record, a successful binding leaves every table as it was, and the session belongs
  to the same user and organization, is an unrevoked MCP credential and has the requested
  expiry. Repeating a binding is therefore harmless: it returns the session it made.
\<close>

theorem bind_mcp_no_takeover:
  assumes "BindMCPToken s f now i r token user org expires db = (Inr c, db')"
    and "se \<in> set (db_sessions db)" and "se_hash se = is_sha256 s token" and "id_inv db"
  shows "db' = db \<and> ic_SessionID c = se_ID se \<and> se_kind se = ''mcp'' \<and> se_user se = user \<and> se_org se = org \<and>
    se_revoked se = None \<and> se_expires se = expires \<and> now < se_expires se"
  using assms(1) find_session [OF assms(4,2,3)]
  by (auto simp: BindMCPToken_def BindMCPToken_body_def Let_def split: if_splits option.splits prod.splits)

text \<open>
  A delegated effect runs only for a current member: when the effect changed anything
  or the call succeeded, the user and the organization were active, the account was not
  locked, the membership was active, and for a manager it had the admin role.
\<close>

theorem delegation_requires_membership:
  assumes "withDelegatedMember s f cf now user org manager effect db w = (res, w')" and "w' \<noteq> w \<or> res = None"
  shows "\<exists>u og m. member_join db user org = Some (u, og, m) \<and> u_status u = ''active'' \<and> o_status og = ''active'' \<and>
    mb_active m \<and> \<not> locked_at now u \<and> (manager \<longrightarrow> mb_role m = ''admin'') \<and> snd (effect w) = w'"
  using assms
  by (auto simp: withDelegatedMember_def split: if_splits option.splits prod.splits)

section \<open>Concrete instances\<close>

text \<open>A station with one administrator who holds one session and one MCP credential.\<close>

definition demo_svc :: identity_service where
  "demo_svc = \<lparr>is_StationID = ''st'', is_SessionTTL = 3600 * Second,
     is_uuid = (\<lambda>v. Some \<lparr>uuid_String = v, uuid_Version = 7, uuid_RFC4122 = True, uuid_Nil = False\<rparr>),
     is_sha256 = (\<lambda>v. CHR ''h'' # v), is_compare = (\<lambda>h p. h = p)\<rparr>"

definition demo_token :: string where
  "demo_token = RawURLEncoding (replicate 32 CHR ''a'')"

definition demo_user :: user_row where
  "demo_user = \<lparr>u_ID = ''u'', u_username = ''root'', u_hash = ''secret'', u_status = ''active'', u_failed = 0, u_locked = None, u_version = 0\<rparr>"

definition demo_mcp :: session_row where
  "demo_mcp = \<lparr>se_ID = ''k'', se_user = ''u'', se_org = ''g'', se_hash = is_sha256 demo_svc (replicate 40 CHR ''m''),
     se_issued = 0, se_expires = 9000 * Second, se_version = 0, se_revoked = None, se_kind = ''mcp''\<rparr>"

definition demo_idb :: identity_db where
  "demo_idb = \<lparr>db_users = [demo_user],
     db_orgs = [\<lparr>o_ID = ''g'', o_name = ''Org'', o_status = ''active'', o_policy = 1, o_created = 0\<rparr>],
     db_members = [\<lparr>mb_user = ''u'', mb_org = ''g'', mb_role = ''admin'', mb_active = True\<rparr>],
     db_sessions = [\<lparr>se_ID = ''i'', se_user = ''u'', se_org = ''g'', se_hash = is_sha256 demo_svc demo_token,
        se_issued = 0, se_expires = 3600 * Second, se_version = 0, se_revoked = None, se_kind = ''session''\<rparr>, demo_mcp],
     db_audit = []\<rparr>"

definition demo_login :: LoginRequest where
  "demo_login = \<lparr>lr_Username = ''Root'', lr_Password = ''secret'', lr_OrganizationID = []\<rparr>"

definition demo_bootstrap :: BootstrapRequest where
  "demo_bootstrap = \<lparr>br_Username = ''Root'', br_Password = ''correct horse'', br_OrganizationName = ''Org''\<rparr>"

definition demo_fresh :: identity_db where
  "demo_fresh = \<lparr>db_users = [], db_orgs = [], db_members = [], db_sessions = [], db_audit = []\<rparr>"

lemma demo_idb_inv: "id_inv demo_idb" by code_simp

lemma pair_fst: "fst p = a \<Longrightarrow> p = (a, snd p)" by (cases p) simp

theorem identity_reachable_inv_witness:
  "id_inv (fold (identity_step demo_svc)
     [EBootstrap False 7 ''u'' ''g'' ''i'' (replicate 32 CHR ''b'') (Some ''h'') ''r'' demo_bootstrap] demo_fresh)"
  by (rule identity_reachable_inv) (simp add: fresh_db_def demo_fresh_def)

theorem logout_is_final_witness:
  "isl (fst (Me demo_svc False 9 ''q'' demo_token (fold (identity_step demo_svc)
     [ELogin False 8 ''j'' (replicate 32 CHR ''c'') ''r'' demo_login] (snd (Logout demo_svc False 5 ''r'' demo_token demo_idb)))))"
proof -
  have "fst (Logout demo_svc False 5 ''r'' demo_token demo_idb) = Inr ()" by code_simp
  from logout_is_final [OF demo_idb_inv pair_fst [OF this]] show ?thesis by blast
qed

end
