(* ===== verification/Ops_Types.thy ===== *)
theory Ops_Types
  imports Identity Versions
begin

text \<open>
  The data of \<^verbatim>\<open>internal/operations\<close>: installations, application operations, version
  transitions and forward recoveries with the commands that create them, their validation,
  and the database they live in. A row of a table extends the Go struct that is read from
  it by the columns only the SQL statements use. A nullable text column is the empty string
  where the code reads it with \<open>COALESCE(..., '')\<close>.

  The digests of the code are SHA-256 sums of the JSON text of a struct. The pair of
  \<open>json.Marshal\<close> and \<open>sha256.Sum256\<close> is one parameter, a function from the struct that is
  encoded, a \<open>payload\<close>, to 32 bytes.
\<close>

section \<open>Errors\<close>

datatype op_error =
  Fault fault
| NoRows
| TransitionProgressUnavailable
| TransitionBusy
| TransitionAdmissionDisabled
| TransitionRelease
| TransitionReaderUnavailable
| InvalidSavedSnapshots
| AppCenterBinding
| AppCenterRelease
| AppCenterDispatch
| AppCenterUnsupported
| AppCenterUnavailable
| Untrusted
| InvalidStoredBinding
| HistoryLimit
| ListingLimit
| InvalidOperationBinding
| InvalidRuntimeProgress
| RuntimeFailure
| DbError

section \<open>Installations and releases\<close>

record Installation =
  in_InstallationID :: string
  in_AppID :: string
  in_AppVersion :: string
  in_StationID :: string
  in_OrganizationID :: string
  in_State :: string
  in_Revision :: int
  in_LastOperationID :: string
  in_CreatedAt :: gotime
  in_UpdatedAt :: gotime

record Binding =
  bd_ReleaseRef :: string
  bd_AppID :: string
  bd_AppVersion :: string
  bd_PackageDigest :: string
  bd_ChartDigest :: string
  bd_TemplateDigest :: string

definition Binding_Valid :: "Binding \<Rightarrow> bool" where
  "Binding_Valid b \<longleftrightarrow> name_pattern 62 (bd_ReleaseRef b) \<and> name_pattern 62 (bd_AppID b) \<and>
     transitionVersion (bd_AppVersion b) \<and> sha256_pattern (bd_PackageDigest b) \<and>
     sha256_pattern (bd_ChartDigest b) \<and> sha256_pattern (bd_TemplateDigest b)"

text \<open>A nil slice of worker versions is \<open>None\<close>.\<close>

record TransitionSnapshot =
  ts_AppID :: string
  ts_AppVersion :: string
  ts_ReleaseRef :: string
  ts_ReleaseDigest :: string
  ts_ManifestDigest :: string
  ts_TemplateDigest :: string
  ts_DashboardDigest :: string
  ts_DataContract :: string
  ts_DefaultWorkerVersion :: string
  ts_CompatibleWorkerVersions :: "string list option"
  ts_ReleaseKind :: string
  ts_AppImageDigest :: string

definition worker_versions :: "TransitionSnapshot \<Rightarrow> string list" where
  "worker_versions s = (case ts_CompatibleWorkerVersions s of None \<Rightarrow> [] | Some vs \<Rightarrow> vs)"

definition transitionName :: "string \<Rightarrow> bool" where
  "transitionName s = name_pattern 127 s"

definition transitionDigest :: "string \<Rightarrow> bool" where
  "transitionDigest s = sha256_pattern s"

definition TransitionSnapshot_valid :: "TransitionSnapshot \<Rightarrow> bool" where
  "TransitionSnapshot_valid s =
     (if \<not> transitionName (ts_AppID s) \<or> \<not> validTransitionVersion (ts_AppVersion s) \<or> \<not> transitionName (ts_ReleaseRef s)
         \<or> \<not> transitionDigest (ts_ReleaseDigest s) \<or> \<not> transitionDigest (ts_ManifestDigest s)
         \<or> \<not> transitionDigest (ts_TemplateDigest s) \<or> \<not> transitionDigest (ts_DashboardDigest s)
      then False
      else if ts_ReleaseKind s = ''dashboard-release'' then
        ts_DataContract s = [] \<and> ts_DefaultWorkerVersion s = [] \<and> ts_CompatibleWorkerVersions s = Some [] \<and>
        transitionDigest (ts_AppImageDigest s)
      else if ts_ReleaseKind s \<noteq> [] \<or> ts_AppImageDigest s \<noteq> [] \<or> \<not> transitionName (ts_DataContract s)
         \<or> worker_versions s = [] \<or> length (worker_versions s) > 128
         \<or> ts_DefaultWorkerVersion s \<notin> set (worker_versions s)
      then False
      else seen_loop validTransitionVersion id [] (worker_versions s))"

section \<open>Transition commands\<close>

record TransitionCommand =
  tc_RequestID :: string
  tc_IdempotencyKey :: string
  tc_InstallationID :: string
  tc_ExpectedRevision :: int
  tc_SourceVersion :: string
  tc_TargetReleaseRef :: string
  tc_Action :: string

definition canonicalInstallation :: "uuid_parser \<Rightarrow> string \<Rightarrow> bool" where
  "canonicalInstallation parse i =
     (case parse i of None \<Rightarrow> False | Some v \<Rightarrow> uuid_Version v = 7 \<and> uuid_RFC4122 v \<and> uuid_String v = i)"

definition TransitionCommand_valid :: "uuid_parser \<Rightarrow> TransitionCommand \<Rightarrow> bool" where
  "TransitionCommand_valid parse c \<longleftrightarrow>
     length (tc_RequestID c) > 0 \<and> length (tc_RequestID c) \<le> 128 \<and> length (tc_IdempotencyKey c) \<ge> 8 \<and>
     length (tc_IdempotencyKey c) \<le> 128 \<and> canonicalInstallation parse (tc_InstallationID c) \<and>
     tc_ExpectedRevision c > 0 \<and> validTransitionVersion (tc_SourceVersion c) \<and>
     transitionName (tc_TargetReleaseRef c) \<and> (tc_Action c = ''upgrade'' \<or> tc_Action c = ''rollback'')"

text \<open>
  The comparison of valid versions never leaves its bounds; \<open>None\<close> does not occur after the
  validity checks that precede it.
\<close>

definition compatibleTransition ::
  "TransitionCommand \<Rightarrow> Installation \<Rightarrow> TransitionSnapshot \<Rightarrow> TransitionSnapshot \<Rightarrow> bool" where
  "compatibleTransition c installed source target =
     (if \<not> TransitionSnapshot_valid source \<or> \<not> TransitionSnapshot_valid target
         \<or> ts_AppID source \<noteq> in_AppID installed \<or> ts_AppID target \<noteq> in_AppID installed
         \<or> ts_AppVersion source \<noteq> in_AppVersion installed \<or> ts_AppVersion source \<noteq> tc_SourceVersion c
         \<or> ts_ReleaseRef target \<noteq> tc_TargetReleaseRef c \<or> ts_DataContract source \<noteq> ts_DataContract target
         \<or> ts_ReleaseKind source \<noteq> ts_ReleaseKind target \<or> ts_ReleaseRef source = ts_ReleaseRef target
      then False
      else case compareTransitionVersions (ts_AppVersion target) (ts_AppVersion source) of
             None \<Rightarrow> False
           | Some direction \<Rightarrow>
               if (tc_Action c = ''upgrade'' \<and> direction \<le> 0) \<or> (tc_Action c = ''rollback'' \<and> direction \<ge> 0) then False
               else list_all (\<lambda>v. v \<in> set (worker_versions target)) (worker_versions source))"

record Transition =
  tr_OperationID :: string
  tr_InstallationID :: string
  tr_RequestID :: string
  tr_Action :: string
  tr_ExpectedRevision :: int
  tr_Source :: TransitionSnapshot
  tr_Target :: TransitionSnapshot
  tr_Status :: string
  tr_Phase :: string
  tr_CreatedAt :: gotime
  tr_UpdatedAt :: gotime

record transition_row = Transition +
  tw_user :: string
  tw_org :: string
  tw_station :: string
  tw_app :: string
  tw_key :: string
  tw_hash :: string
  tw_source_version :: string
  tw_target_version :: string

record dispatchTransition = Transition +
  dt_UserID :: string
  dt_OrganizationID :: string
  dt_Installed :: Installation

record TransitionStep =
  st_OperationID :: string
  st_RequestID :: string
  st_InputDigest :: string
  st_Mode :: string

record TransitionProgress = TransitionStep +
  tp_Phase :: string

section \<open>Forward recoveries\<close>

record ForwardRecoveryCommand =
  fc_RequestID :: string
  fc_IdempotencyKey :: string
  fc_OperationID :: string
  fc_ExpectedRevision :: int
  fc_TargetReleaseRef :: string

record ForwardRecovery =
  fr_RecoveryID :: string
  fr_OperationID :: string
  fr_ExpectedRevision :: int
  fr_InstalledVersion :: string
  fr_ParentInputDigest :: string
  fr_Target :: TransitionSnapshot
  fr_InputDigest :: string
  fr_State :: string
  fr_Proof :: "string option"

text \<open>A stored recovery has no proof of its own: the proof is a row the Runtime writes.\<close>

record forward_row = ForwardRecovery +
  fw_user :: string
  fw_org :: string
  fw_station :: string
  fw_request :: string
  fw_key :: string
  fw_hash :: string

section \<open>Application commands\<close>

record Command =
  cm_ExpectedWorkloadUID :: string
  cm_RequestID :: string
  cm_IdempotencyKey :: string
  cm_OrganizationID :: string
  cm_StationID :: string
  cm_AppID :: string
  cm_AppVersion :: string
  cm_Action :: string

record PreinstalledCommand =
  pc_Command :: Command
  pc_Release :: Binding
  pc_InventoryRevision :: string
  pc_ReinstallRemovedID :: string

record InstallationHistory =
  ih_Installation :: Installation
  ih_Release :: "Binding option"
  ih_Confirmed :: bool

record AppCenterExpected =
  ae_InstallationID :: "string option"
  ae_InstallationRevision :: "int option"
  ae_AppVersion :: string
  ae_ReleaseDigest :: "string option"
  ae_WorkloadUID :: "string option"
  ae_PolicyRevision :: string

record AppCenterCommand =
  ac_SchemaVersion :: int
  ac_Command :: Command
  ac_Expected :: AppCenterExpected

text \<open>The unexported field \<open>marketRelease\<close> is not stored and not compared; it is left out.\<close>

record AppCenterExecution =
  ax_AppID :: string
  ax_AppVersion :: string
  ax_Action :: string
  ax_SchemaVersion :: int
  ax_ReleaseDigest :: string
  ax_TemplateDigest :: string
  ax_PolicyRevision :: string
  ax_WorkloadUID :: string

record op_row =
  op_ID :: string
  op_RequestID :: string
  op_user :: string
  op_org :: string
  op_station :: string
  op_app :: string
  op_version :: string
  op_action :: string
  op_status :: string
  op_phase :: string
  op_downloaded :: int
  op_total :: "int option"
  op_error_code :: "string option"
  op_error_message :: "string option"
  op_key :: string
  op_hash :: string
  op_updated :: gotime
  op_expected_uid :: string
  op_installation :: string

section \<open>Digests\<close>

record transitionBinding =
  tb_OperationID :: string
  tb_InstallationID :: string
  tb_StationID :: string
  tb_OrganizationID :: string
  tb_UserID :: string
  tb_ExpectedRevision :: int
  tb_Source :: TransitionSnapshot
  tb_Target :: TransitionSnapshot

record forwardBinding =
  fb_RecoveryID :: string
  fb_ParentInputDigest :: string
  fb_ExpectedRevision :: int
  fb_InstalledVersion :: string
  fb_Target :: TransitionSnapshot

datatype payload =
  JTransitionCommand TransitionCommand
| JTransitionBinding transitionBinding
| JForwardCommand ForwardRecoveryCommand
| JForwardBinding forwardBinding
| JCommand Command
| JPreinstalled PreinstalledCommand
| JAppCenter AppCenterCommand
| JHistory "InstallationHistory list"

definition hex_digit :: "nat \<Rightarrow> char" where
  "hex_digit n = ''0123456789abcdef'' ! (n mod 16)"

definition hex_EncodeToString :: "string \<Rightarrow> string" where
  "hex_EncodeToString s = concat (map (\<lambda>c. [hex_digit (of_char c div 16), hex_digit (of_char c)]) s)"

text \<open>The digits of a byte from its bits, for evaluation.\<close>

fun nibble :: "bool \<Rightarrow> bool \<Rightarrow> bool \<Rightarrow> bool \<Rightarrow> char" where
  "nibble b0 b1 b2 b3 =
     (if b3 then if b2 then if b1 then if b0 then CHR ''f'' else CHR ''e'' else if b0 then CHR ''d'' else CHR ''c''
                 else if b1 then if b0 then CHR ''b'' else CHR ''a'' else if b0 then CHR ''9'' else CHR ''8''
      else if b2 then if b1 then if b0 then CHR ''7'' else CHR ''6'' else if b0 then CHR ''5'' else CHR ''4''
           else if b1 then if b0 then CHR ''3'' else CHR ''2'' else if b0 then CHR ''1'' else CHR ''0'')"

fun hex_byte :: "char \<Rightarrow> string" where
  "hex_byte (Char b0 b1 b2 b3 b4 b5 b6 b7) = [nibble b4 b5 b6 b7, nibble b0 b1 b2 b3]"

lemma hex_digit_nibble:
  "hex_digit (of_bool b0 + 2 * (of_bool b1 + 2 * (of_bool b2 + 2 * (of_bool b3 + 2 * k)))) = nibble b0 b1 b2 b3"
proof -
  have "(of_bool b0 + 2 * (of_bool b1 + 2 * (of_bool b2 + 2 * (of_bool b3 + 2 * k)))) mod 16 =
      (of_bool b0 + 2 * (of_bool b1 + 2 * (of_bool b2 + 2 * of_bool b3)) :: nat)"
    by (cases b0; cases b1; cases b2; cases b3; simp) presburger+
  then show ?thesis by (cases b0; cases b1; cases b2; cases b3; simp add: hex_digit_def)
qed

lemma hex_byte: "[hex_digit (of_char c div 16), hex_digit (of_char c)] = hex_byte c"
proof (cases c)
  case (Char b0 b1 b2 b3 b4 b5 b6 b7)
  let ?h = "of_bool b4 + 2 * (of_bool b5 + 2 * (of_bool b6 + 2 * (of_bool b7 + 2 * 0))) :: nat"
  have v: "of_char c = of_bool b0 + 2 * (of_bool b1 + 2 * (of_bool b2 + 2 * (of_bool b3 + 2 * ?h)))"
    unfolding Char by simp
  have "of_char c div 16 = ?h" unfolding v by (cases b0; cases b1; cases b2; cases b3; simp)
  then show ?thesis unfolding Char [symmetric] using hex_digit_nibble [of b4 b5 b6 b7 0] hex_digit_nibble [of b0 b1 b2 b3 ?h] v Char by simp
qed

lemma hex_EncodeToString_code [code]: "hex_EncodeToString s = concat (map hex_byte s)"
  unfolding hex_EncodeToString_def hex_byte [symmetric] by (simp add: comp_def)

definition sha256_digest :: "(payload \<Rightarrow> string) \<Rightarrow> payload \<Rightarrow> string" where
  "sha256_digest h p = ''sha256:'' @ hex_EncodeToString (h p)"

lemma hex_digit_lower: "is_hex_lower (hex_digit n)"
proof -
  have "\<forall>c \<in> set ''0123456789abcdef''. is_hex_lower c" by code_simp
  moreover have "hex_digit n \<in> set ''0123456789abcdef''"
    unfolding hex_digit_def by (rule nth_mem) simp
  ultimately show ?thesis by blast
qed

lemma hex_length: "length (hex_EncodeToString s) = 2 * length s"
  by (induction s) (auto simp: hex_EncodeToString_def)

text \<open>The digest of 32 bytes always has the form the validators of both sides require.\<close>

lemma sha256_digest_pattern:
  assumes "length (h p) = 32"
  shows "transitionDigest (sha256_digest h p)"
proof -
  have "list_all is_hex_lower (hex_EncodeToString (h p))"
    by (auto simp: list_all_iff hex_EncodeToString_def hex_digit_lower)
  with assms show ?thesis
    by (simp add: transitionDigest_def sha256_pattern_def sha256_digest_def hex_length)
qed

section \<open>The database and the service\<close>

record station_db =
  d_installations :: "Installation list"
  d_operations :: "op_row list"
  d_transitions :: "transition_row list"
  d_forwards :: "forward_row list"
  d_proofs :: "(string \<times> string \<times> string) list"
  d_inst_bindings :: "(string \<times> Binding) list"
  d_op_bindings :: "(string \<times> Binding) list"
  d_inputs :: "(string \<times> AppCenterCommand \<times> AppCenterExecution) list"
  d_audit :: "audit_row list"

type_synonym transition_reader =
  "IdentityContext \<Rightarrow> Installation \<Rightarrow> string \<Rightarrow> op_error + (TransitionSnapshot \<times> TransitionSnapshot)"

text \<open>
  The service as the operations read it: the catalog's answer to \<open>Entry\<close> (the version of an
  application), the release registries, the acceptance of a command by the generated
  AppCenter schema (\<open>DecodeAppCenterCommand\<close>), and the functions of other packages.
\<close>

record ops_service =
  os_StationID :: string
  os_uuid :: uuid_parser
  os_sum :: "payload \<Rightarrow> string"
  os_Catalog :: "(string \<Rightarrow> string option) option"
  os_Releases :: "(Binding \<Rightarrow> bool) option"
  os_TransitionReleases :: "transition_reader option"
  os_hasTransitionReleases :: bool
  os_releaseReader :: transition_reader
  os_transitionAdmissionEnabled :: bool
  os_schema :: "AppCenterCommand \<Rightarrow> bool"

definition MaxInt64 :: int where
  "MaxInt64 = 2 ^ 63 - 1"

text \<open>\<open>revision = revision + 1\<close> on a \<open>bigint\<close> column: PostgreSQL refuses to leave its range.\<close>

definition bump :: "int \<Rightarrow> int option" where
  "bump r = (if r \<ge> MaxInt64 then None else Some (r + 1))"

definition active_row :: "transition_row \<Rightarrow> bool" where
  "active_row t \<longleftrightarrow> tr_Status t \<noteq> ''succeeded'' \<and> tr_Status t \<noteq> ''failed''"

definition active_op :: "op_row \<Rightarrow> bool" where
  "active_op x \<longleftrightarrow> op_status x = ''accepted'' \<or> op_status x = ''running''"

definition ops_audit :: "string \<Rightarrow> string \<Rightarrow> string \<Rightarrow> string option \<Rightarrow> string \<Rightarrow> station_db \<Rightarrow> station_db" where
  "ops_audit requestID user org session action db =
     db\<lparr>d_audit := d_audit db @ [\<lparr>au_request = requestID, au_user = Some user, au_org = Some org, au_session = session,
                                   au_action = action, au_outcome = ''succeeded''\<rparr>]\<rparr>"

definition find_installation :: "station_db \<Rightarrow> string \<Rightarrow> string \<Rightarrow> string \<Rightarrow> Installation option" where
  "find_installation db i station org =
     find (\<lambda>x. in_InstallationID x = i \<and> in_StationID x = station \<and> in_OrganizationID x = org) (d_installations db)"

definition canReadInstallations :: "ops_service \<Rightarrow> IdentityContext \<Rightarrow> bool" where
  "canReadInstallations s user \<longleftrightarrow>
     ic_StationID user = os_StationID s \<and> ''admin'' \<in> set (ic_Roles user) \<and> ''app:read'' \<in> set (ic_Scopes user)"

end
