(* ===== verification/Transitions.thy ===== *)
theory Transitions
  imports Ops_Types
begin

text \<open>
  Version transitions of an installed application: acceptance (\<^verbatim>\<open>transitions.go\<close>,
  \<^verbatim>\<open>transition_admission.go\<close>), the dispatch of one durable barrier
  (\<^verbatim>\<open>transition_dispatch.go\<close>), the scheduling cursor (\<^verbatim>\<open>transition_worker.go\<close>), the
  checks of the transport to the Runtime (\<^verbatim>\<open>transition_transport.go\<close>) and forward
  recovery (\<^verbatim>\<open>forward_recovery.go\<close>).

  A transaction is atomic: the advisory and row locks of the code serialise the transactions
  of one application. What other sessions commit between the reads of a dispatch and its
  commit is an explicit function on the database.
\<close>

section \<open>Acceptance\<close>

definition transitionHash :: "ops_service \<Rightarrow> TransitionCommand \<Rightarrow> string" where
  "transitionHash s c = os_sum s (JTransitionCommand (c\<lparr>tc_RequestID := []\<rparr>))"

definition readTransition ::
  "station_db \<Rightarrow> string \<Rightarrow> string \<Rightarrow> string \<Rightarrow> string \<Rightarrow> op_error + Transition" where
  "readTransition db user org station i =
     (case find (\<lambda>t. tr_OperationID t = i \<and> tw_user t = user \<and> tw_org t = org \<and> tw_station t = station) (d_transitions db) of
        None \<Rightarrow> Inl NoRows
      | Some t \<Rightarrow>
          if \<not> TransitionSnapshot_valid (tr_Source t) \<or> \<not> TransitionSnapshot_valid (tr_Target t)
          then Inl InvalidSavedSnapshots else Inr (Transition.truncate t))"

definition GetTransition :: "ops_service \<Rightarrow> IdentityContext \<Rightarrow> string \<Rightarrow> station_db \<Rightarrow> op_error + Transition" where
  "GetTransition s actor i db =
     (if \<not> canReadInstallations s actor then Inl (Fault Denied)
      else if \<not> canonicalInstallation (os_uuid s) i then Inl NoRows
      else readTransition db (ic_UserID actor) (ic_OrganizationID actor) (os_StationID s) i)"

text \<open>
  \<open>retainTransitionReferences\<close>: a release reference that any transition has ever named
  stays bound to the snapshot it was accepted with.
\<close>

definition reference_changed :: "station_db \<Rightarrow> TransitionSnapshot \<Rightarrow> bool" where
  "reference_changed db snapshot =
     list_ex (\<lambda>t. (ts_ReleaseRef (tr_Source t) = ts_ReleaseRef snapshot \<and> tr_Source t \<noteq> snapshot) \<or>
                  (ts_ReleaseRef (tr_Target t) = ts_ReleaseRef snapshot \<and> tr_Target t \<noteq> snapshot)) (d_transitions db)"

definition retainTransitionReferences ::
  "station_db \<Rightarrow> TransitionSnapshot \<Rightarrow> TransitionSnapshot \<Rightarrow> op_error option" where
  "retainTransitionReferences db source target =
     (if list_ex (reference_changed db) (if ts_ReleaseRef target < ts_ReleaseRef source then [target, source] else [source, target])
      then Some (Fault Conflict) else None)"

definition transition_busy :: "station_db \<Rightarrow> string \<Rightarrow> string \<Rightarrow> string \<Rightarrow> bool" where
  "transition_busy db station app i \<longleftrightarrow>
     list_ex (\<lambda>x. op_station x = station \<and> op_app x = app \<and> active_op x) (d_operations db) \<or>
     list_ex (\<lambda>t. tr_InstallationID t = i \<and> active_row t) (d_transitions db)"

definition accepted_row ::
  "ops_service \<Rightarrow> gotime \<Rightarrow> string \<Rightarrow> IdentityContext \<Rightarrow> TransitionCommand \<Rightarrow> string
     \<Rightarrow> TransitionSnapshot \<Rightarrow> TransitionSnapshot \<Rightarrow> transition_row" where
  "accepted_row s now newID actor c app source target =
     \<lparr>tr_OperationID = newID, tr_InstallationID = tc_InstallationID c, tr_RequestID = tc_RequestID c,
      tr_Action = tc_Action c, tr_ExpectedRevision = tc_ExpectedRevision c, tr_Source = source, tr_Target = target,
      tr_Status = ''accepted'', tr_Phase = ''accepted'', tr_CreatedAt = pg_time now, tr_UpdatedAt = pg_time now,
      tw_user = ic_UserID actor, tw_org = ic_OrganizationID actor, tw_station = os_StationID s, tw_app = app,
      tw_key = tc_IdempotencyKey c, tw_hash = transitionHash s c, tw_source_version = ts_AppVersion source,
      tw_target_version = ts_AppVersion target\<rparr>"

definition accept_transition ::
  "ops_service \<Rightarrow> gotime \<Rightarrow> string \<Rightarrow> IdentityContext \<Rightarrow> TransitionCommand \<Rightarrow> transition_reader option
     \<Rightarrow> station_db \<Rightarrow> (op_error, Transition, station_db) tx" where
  "accept_transition s now newID actor c reader db =
     (case find_installation db (tc_InstallationID c) (os_StationID s) (ic_OrganizationID actor) of
        None \<Rightarrow> Rollback NoRows
      | Some installed \<Rightarrow>
          if in_State installed \<noteq> ''installed'' \<or> in_Revision installed \<noteq> tc_ExpectedRevision c
             \<or> in_AppVersion installed \<noteq> tc_SourceVersion c
          then Rollback (Fault Conflict)
          else if transition_busy db (os_StationID s) (in_AppID installed) (tc_InstallationID c) then Rollback (Fault Conflict)
          else
            case (if reader = None then os_TransitionReleases s else reader) of
              None \<Rightarrow> Rollback TransitionReaderUnavailable
            | Some rd \<Rightarrow>
                (case rd actor installed (tc_TargetReleaseRef c) of
                   Inl e \<Rightarrow> Rollback e
                 | Inr (source, target) \<Rightarrow>
                     if \<not> compatibleTransition c installed source target then Rollback (Fault Invalid)
                     else
                       (case retainTransitionReferences db source target of
                          Some e \<Rightarrow> Rollback e
                        | None \<Rightarrow>
                            if list_ex (\<lambda>t. tr_OperationID t = newID) (d_transitions db) then Rollback DbError
                            else
                              let row = accepted_row s now newID actor c (in_AppID installed) source target;
                                  db1 = ops_audit (tc_RequestID c) (ic_UserID actor) (ic_OrganizationID actor)
                                          (Some (ic_SessionID actor)) (''app.'' @ tc_Action c @ ''.accepted'')
                                          (db\<lparr>d_transitions := d_transitions db @ [row]\<rparr>)
                              in case readTransition db1 (ic_UserID actor) (ic_OrganizationID actor) (os_StationID s) newID of
                                   Inl e \<Rightarrow> Rollback e
                                 | Inr out \<Rightarrow> Commit (Inr out) db1)))"

definition find_by_key :: "station_db \<Rightarrow> string \<Rightarrow> string \<Rightarrow> string \<Rightarrow> string \<Rightarrow> transition_row option" where
  "find_by_key db user org station key =
     find (\<lambda>t. tw_user t = user \<and> tw_org t = org \<and> tw_station t = station \<and> tw_key t = key) (d_transitions db)"

definition SubmitTransition_body ::
  "ops_service \<Rightarrow> gotime \<Rightarrow> string \<Rightarrow> IdentityContext \<Rightarrow> TransitionCommand \<Rightarrow> transition_reader option
     \<Rightarrow> station_db \<Rightarrow> (op_error, Transition, station_db) tx" where
  "SubmitTransition_body s now newID actor c reader db =
     (case find_by_key db (ic_UserID actor) (ic_OrganizationID actor) (os_StationID s) (tc_IdempotencyKey c) of
        Some t \<Rightarrow>
          if tw_hash t \<noteq> transitionHash s c then Rollback (Fault Conflict)
          else (case readTransition db (ic_UserID actor) (ic_OrganizationID actor) (os_StationID s) (tr_OperationID t) of
                  Inl e \<Rightarrow> Rollback e
                | Inr out \<Rightarrow> Commit (Inr out) db)
      | None \<Rightarrow> accept_transition s now newID actor c reader db)"

definition SubmitTransition ::
  "ops_service \<Rightarrow> bool \<Rightarrow> gotime \<Rightarrow> string \<Rightarrow> IdentityContext \<Rightarrow> TransitionCommand \<Rightarrow> transition_reader option
     \<Rightarrow> station_db \<Rightarrow> (op_error + Transition) \<times> station_db" where
  "SubmitTransition s db_fault now newID actor c reader db =
     (if ic_StationID actor \<noteq> os_StationID s \<or> ''admin'' \<notin> set (ic_Roles actor) \<or> ''app:manage'' \<notin> set (ic_Scopes actor)
      then (Inl (Fault Denied), db)
      else if \<not> TransitionCommand_valid (os_uuid s) c then (Inl (Fault Invalid), db)
      else transact db_fault DbError (SubmitTransition_body s now newID actor c reader) db)"

definition managed_reader :: "ops_service \<Rightarrow> transition_reader" where
  "managed_reader s actor installed ref =
     (if \<not> os_transitionAdmissionEnabled s then Inl TransitionAdmissionDisabled
      else os_releaseReader s actor installed ref)"

definition SubmitManagedTransition ::
  "ops_service \<Rightarrow> bool \<Rightarrow> gotime \<Rightarrow> string \<Rightarrow> IdentityContext \<Rightarrow> TransitionCommand
     \<Rightarrow> station_db \<Rightarrow> (op_error + Transition) \<times> station_db" where
  "SubmitManagedTransition s db_fault now newID actor c db =
     SubmitTransition s db_fault now newID actor c (Some (managed_reader s)) db"

text \<open>
  \<open>ConfigureTransitionAdmission\<close> at startup: the new value of the gate and the error.
  \<open>runtime\<close> tells whether a complete transport (client, endpoint and token) is configured.
\<close>

definition ConfigureTransitionAdmission :: "ops_service \<Rightarrow> string \<Rightarrow> bool \<Rightarrow> bool \<times> bool" where
  "ConfigureTransitionAdmission s value runtime =
     (if value = [] \<or> value = ''false'' then (False, True)
      else if value \<noteq> ''true'' \<or> \<not> runtime \<or> \<not> os_hasTransitionReleases s then (False, False)
      else (True, True))"

section \<open>Dispatch\<close>

definition inputDigest :: "ops_service \<Rightarrow> dispatchTransition \<Rightarrow> string" where
  "inputDigest s r = sha256_digest (os_sum s) (JTransitionBinding
     \<lparr>tb_OperationID = tr_OperationID r, tb_InstallationID = tr_InstallationID r,
      tb_StationID = in_StationID (dt_Installed r), tb_OrganizationID = dt_OrganizationID r, tb_UserID = dt_UserID r,
      tb_ExpectedRevision = tr_ExpectedRevision r, tb_Source = tr_Source r, tb_Target = tr_Target r\<rparr>)"

definition dispatch_command :: "Transition \<Rightarrow> TransitionCommand" where
  "dispatch_command t = \<lparr>tc_RequestID = [], tc_IdempotencyKey = [], tc_InstallationID = [], tc_ExpectedRevision = 0,
     tc_SourceVersion = ts_AppVersion (tr_Source t), tc_TargetReleaseRef = ts_ReleaseRef (tr_Target t), tc_Action = tr_Action t\<rparr>"

definition with_installed :: "Transition \<Rightarrow> string \<Rightarrow> string \<Rightarrow> Installation \<Rightarrow> dispatchTransition" where
  "with_installed t user org i = Transition.extend t \<lparr>dt_UserID = user, dt_OrganizationID = org, dt_Installed = i\<rparr>"

definition readDispatchTransition ::
  "station_db \<Rightarrow> string \<Rightarrow> string \<Rightarrow> op_error + dispatchTransition" where
  "readDispatchTransition db station operation =
     (case find (\<lambda>t. tr_OperationID t = operation \<and> tw_station t = station) (d_transitions db) of
        None \<Rightarrow> Inl NoRows
      | Some row \<Rightarrow>
          (case readTransition db (tw_user row) (tw_org row) station operation of
             Inl e \<Rightarrow> Inl e
           | Inr t \<Rightarrow>
               (case find_installation db (tr_InstallationID t) station (tw_org row) of
                  None \<Rightarrow> Inl NoRows
                | Some i \<Rightarrow>
                    if tr_ExpectedRevision t > MaxInt64 - 2
                       \<or> \<not> compatibleTransition (dispatch_command t) (i\<lparr>in_AppVersion := ts_AppVersion (tr_Source t)\<rparr>)
                            (tr_Source t) (tr_Target t)
                    then Inl TransitionProgressUnavailable
                    else Inr (with_installed t (tw_user row) (tw_org row) i))))"

datatype installed_state = Unrelated | Original | AtTarget | Restored

definition dispatch_installationState :: "dispatchTransition \<Rightarrow> installed_state" where
  "dispatch_installationState r =
     (let i = dt_Installed r in
      if in_State i \<noteq> ''installed'' \<or> in_AppID i \<noteq> ts_AppID (tr_Source r) \<or> in_Revision i < 1 then Unrelated
      else if in_AppVersion i = ts_AppVersion (tr_Source r) \<and> in_Revision i = tr_ExpectedRevision r then Original
      else if in_AppVersion i = ts_AppVersion (tr_Target r) \<and> in_Revision i = tr_ExpectedRevision r + 1 then AtTarget
      else if in_AppVersion i = ts_AppVersion (tr_Source r) \<and> in_Revision i = tr_ExpectedRevision r + 2 then Restored
      else Unrelated)"

definition early_phases :: "string list" where
  "early_phases = [''accepted'', ''checking'', ''sealing'', ''applying'', ''verifying'', ''publishing'']"

definition stages :: "string list" where
  "stages = [''checking'', ''sealing'', ''applying'', ''verifying'', ''publishing'']"

text \<open>\<open>slices.Index\<close>\<close>

fun index_of :: "string list \<Rightarrow> string \<Rightarrow> int" where
  "index_of [] x = -1"
| "index_of (y # ys) x = (if x = y then 0 else let i = index_of ys x in if i < 0 then -1 else i + 1)"

definition dispatch_mode :: "string \<Rightarrow> installed_state \<Rightarrow> string" where
  "dispatch_mode phase installed =
     (if phase = ''restoring'' then ''restore''
      else if phase = ''releasing'' then (if installed = AtTarget then ''release_target'' else ''release_source'')
      else ''prepare'')"

text \<open>
  The decision table: the status, phase and version to commit for the phase the Runtime
  reports, or an error. An empty version leaves the installation alone.
\<close>

definition transition_decision ::
  "Transition \<Rightarrow> installed_state \<Rightarrow> string \<Rightarrow> string \<Rightarrow> (string \<times> string \<times> string) option" where
  "transition_decision r installed mode progress =
     (if mode = ''release_source'' \<or> mode = ''release_target'' then
        if progress = ''releasing'' then Some (''running'', tr_Phase r, [])
        else if progress \<noteq> ''released'' then None
        else Some (if mode = ''release_target'' then ''succeeded'' else ''failed'', ''completed'', [])
      else if mode = ''restore'' then
        if progress = ''restored'' then
          Some (''running'', ''releasing'', if installed = AtTarget then ts_AppVersion (tr_Source r) else [])
        else if progress = ''restoring'' then Some (''running'', tr_Phase r, [])
        else if progress = ''recovery_required'' then Some (''recovery_required'', ''recovery_required'', [])
        else None
      else if mode = ''prepare'' then
        if progress = ''recovery_required'' then Some (''recovery_required'', ''recovery_required'', [])
        else if progress = ''rejected'' then
          if tr_Phase r \<noteq> ''checking'' \<and> tr_Phase r \<noteq> ''sealing'' then None else Some (''failed'', ''completed'', [])
        else if progress = ''prepared'' then
          if tr_Phase r = ''publishing'' then Some (''running'', ''releasing'', ts_AppVersion (tr_Target r))
          else Some (''running'', ''publishing'', [])
        else
          let current = index_of stages (tr_Phase r); next = index_of (take 4 stages) progress in
          if current < 0 \<or> next < current then None else Some (''running'', progress, [])
      else None)"

definition transitionAudit :: "dispatchTransition \<Rightarrow> string \<Rightarrow> station_db \<Rightarrow> station_db" where
  "transitionAudit r result db =
     ops_audit (tr_RequestID r) (dt_UserID r) (dt_OrganizationID r) None (''app.'' @ tr_Action r @ ''.'' @ result) db"

text \<open>
  The conditional version update: the row must still have the version and revision that
  were read and be installed. \<open>None\<close> is an update of no row.
\<close>

definition publish_version ::
  "gotime \<Rightarrow> string \<Rightarrow> string \<Rightarrow> string \<Rightarrow> int \<Rightarrow> station_db \<Rightarrow> op_error + station_db" where
  "publish_version now i version old_version old_revision db =
     (let P = (\<lambda>x. in_InstallationID x = i \<and> in_AppVersion x = old_version \<and> in_Revision x = old_revision \<and> in_State x = ''installed'')
      in if \<not> list_ex P (d_installations db) then Inl (Fault Conflict)
         else case bump old_revision of
                None \<Rightarrow> Inl DbError
              | Some revision \<Rightarrow>
                  Inr (db\<lparr>d_installations := update_rows P
                     (\<lambda>x. x\<lparr>in_AppVersion := version, in_Revision := revision, in_UpdatedAt := pg_time now\<rparr>) (d_installations db)\<rparr>))"

definition set_transition :: "gotime \<Rightarrow> string \<Rightarrow> string \<Rightarrow> string \<Rightarrow> station_db \<Rightarrow> station_db" where
  "set_transition now operation status phase db =
     db\<lparr>d_transitions := update_rows (\<lambda>t. tr_OperationID t = operation)
          (\<lambda>t. t\<lparr>tr_Status := status, tr_Phase := phase, tr_UpdatedAt := pg_time now\<rparr>) (d_transitions db)\<rparr>"

definition commit_body ::
  "ops_service \<Rightarrow> gotime \<Rightarrow> dispatchTransition \<Rightarrow> string \<Rightarrow> string \<Rightarrow> string
     \<Rightarrow> station_db \<Rightarrow> (op_error, Transition, station_db) tx" where
  "commit_body s now prior status phase version db =
     (case readDispatchTransition db (os_StationID s) (tr_OperationID prior) of
        Inl e \<Rightarrow> Rollback e
      | Inr current \<Rightarrow>
          if tr_Status current \<noteq> tr_Status prior \<or> tr_Phase current \<noteq> tr_Phase prior
             \<or> inputDigest s current \<noteq> inputDigest s prior \<or> dt_Installed current \<noteq> dt_Installed prior
          then Rollback (Fault Conflict)
          else
            case (if version = [] then Inr db
                  else map_sum id (transitionAudit current
                         (if version = ts_AppVersion (tr_Source current) then ''restored'' else ''published''))
                       (publish_version now (tr_InstallationID current) version
                         (in_AppVersion (dt_Installed current)) (in_Revision (dt_Installed current)) db)) of
              Inl e \<Rightarrow> Rollback e
            | Inr db1 \<Rightarrow>
                let db2 = (if phase = ''completed'' then transitionAudit current status db1 else db1);
                    db3 = set_transition now (tr_OperationID current) status phase db2
                in case readTransition db3 (dt_UserID current) (dt_OrganizationID current) (os_StationID s) (tr_OperationID current) of
                     Inl e \<Rightarrow> Rollback e
                   | Inr out \<Rightarrow> Commit (Inr out) db3)"

definition commitTransition ::
  "ops_service \<Rightarrow> bool \<Rightarrow> gotime \<Rightarrow> dispatchTransition \<Rightarrow> string \<Rightarrow> string \<Rightarrow> string
     \<Rightarrow> station_db \<Rightarrow> (op_error + Transition) \<times> station_db" where
  "commitTransition s db_fault now prior status phase version db =
     transact db_fault DbError (commit_body s now prior status phase version) db"

definition forward_pending :: "station_db \<Rightarrow> string \<Rightarrow> bool" where
  "forward_pending db operation =
     list_ex (\<lambda>f. fr_OperationID f = operation \<and> fr_State f = ''pending'') (d_forwards db)"

type_synonym transition_runtime = "TransitionStep \<Rightarrow> op_error + TransitionProgress"

text \<open>What happens around one dispatch: the outcome of the lock and of the database, fresh request
  identifier, clock, and what other sessions commit before its own transaction.\<close>

record dispatch_env =
  de_locked :: bool
  de_read_fault :: bool
  de_commit_fault :: bool
  de_request :: string
  de_now :: gotime
  de_mid :: "station_db \<Rightarrow> station_db"

definition dispatch_running ::
  "ops_service \<Rightarrow> dispatch_env \<Rightarrow> transition_runtime \<Rightarrow> dispatchTransition \<Rightarrow> installed_state \<Rightarrow> string
     \<Rightarrow> station_db \<Rightarrow> (op_error + Transition) \<times> station_db" where
  "dispatch_running s v runtime r installed operation db =
     (let mode = dispatch_mode (tr_Phase r) installed;
          step = \<lparr>st_OperationID = operation, st_RequestID = de_request v, st_InputDigest = inputDigest s r, st_Mode = mode\<rparr>
      in case runtime step of
           Inl e \<Rightarrow> (Inl e, de_mid v db)
         | Inr progress \<Rightarrow>
             if TransitionStep.truncate progress \<noteq> step then (Inl TransitionProgressUnavailable, de_mid v db)
             else case transition_decision (Transition.truncate r) installed mode (tp_Phase progress) of
                    None \<Rightarrow> (Inl TransitionProgressUnavailable, de_mid v db)
                  | Some (status, phase, version) \<Rightarrow>
                      commitTransition s (de_commit_fault v) (de_now v) r status phase version (de_mid v db))"

definition DispatchTransition ::
  "ops_service \<Rightarrow> dispatch_env \<Rightarrow> string \<Rightarrow> transition_runtime \<Rightarrow> station_db \<Rightarrow> (op_error + Transition) \<times> station_db" where
  "DispatchTransition s v operation runtime db =
     (if \<not> canonicalInstallation (os_uuid s) operation \<or> \<not> canonicalInstallation (os_uuid s) (os_StationID s)
      then (Inl TransitionProgressUnavailable, db)
      else if de_read_fault v then (Inl DbError, db)
      else if \<not> de_locked v then (Inl TransitionBusy, db)
      else case readDispatchTransition db (os_StationID s) operation of
             Inl e \<Rightarrow> (Inl e, db)
           | Inr r \<Rightarrow>
               if tr_Status r = ''succeeded'' \<or> tr_Status r = ''failed'' then (Inr (Transition.truncate r), db)
               else if forward_pending db operation then (Inl TransitionBusy, db)
               else
                 let installed = dispatch_installationState r in
                 if installed = Unrelated \<or> (tr_Phase r \<in> set early_phases \<and> installed \<noteq> Original)
                 then (Inl TransitionProgressUnavailable, db)
                 else if tr_Phase r = ''accepted'' then
                   commitTransition s (de_commit_fault v) (de_now v) r ''running'' ''checking'' [] (de_mid v db)
                 else if tr_Phase r = ''recovery_required'' then
                   commitTransition s (de_commit_fault v) (de_now v) r ''running'' ''restoring'' [] (de_mid v db)
                 else dispatch_running s v runtime r installed operation db)"

section \<open>Scheduling\<close>

text \<open>
  The next active transition after the cursor in operation order, wrapping around. The
  result is the new cursor.
\<close>

definition next_transition :: "station_db \<Rightarrow> string \<Rightarrow> string \<Rightarrow> string option" where
  "next_transition db station after =
     map_option tr_OperationID (min_by (\<lambda>t. (if after = [] \<or> tr_OperationID t > after then 0 :: nat else 1, tr_OperationID t))
       (filter (\<lambda>t. tw_station t = station \<and> active_row t) (d_transitions db)))"

definition DispatchNextTransition ::
  "ops_service \<Rightarrow> dispatch_env \<Rightarrow> transition_runtime \<Rightarrow> string \<Rightarrow> station_db \<Rightarrow> string \<times> op_error option \<times> station_db" where
  "DispatchNextTransition s v runtime after db =
     (if \<not> canonicalInstallation (os_uuid s) (os_StationID s) \<or> (after \<noteq> [] \<and> \<not> canonicalInstallation (os_uuid s) after)
      then (after, Some TransitionProgressUnavailable, db)
      else case next_transition db (os_StationID s) after of
             None \<Rightarrow> ([], None, db)
           | Some operation \<Rightarrow>
               (case DispatchTransition s v operation runtime db of
                  (Inl e, db') \<Rightarrow> (operation, Some e, db')
                | (Inr _, db') \<Rightarrow> (operation, None, db')))"

section \<open>The transport to the Runtime\<close>

definition validTransitionStep :: "uuid_parser \<Rightarrow> TransitionStep \<Rightarrow> bool" where
  "validTransitionStep parse step \<longleftrightarrow>
     canonicalInstallation parse (st_OperationID step) \<and>
     (case parse (st_RequestID step) of None \<Rightarrow> False
      | Some i \<Rightarrow> uuid_Version i = 4 \<and> uuid_RFC4122 i \<and> uuid_String i = st_RequestID step) \<and>
     transitionDigest (st_InputDigest step) \<and>
     st_Mode step \<in> set [''prepare'', ''restore'', ''release_source'', ''release_target'', ''verify_forward'']"

definition transport_allowed :: "string \<Rightarrow> string list" where
  "transport_allowed mode =
     (if mode = ''verify_forward'' then [''verified'', ''rejected'']
      else if mode = ''restore'' then [''restoring'', ''restored'', ''recovery_required'']
      else if take 8 mode = ''release_'' then [''releasing'', ''released'']
      else [''checking'', ''sealing'', ''applying'', ''verifying'', ''prepared'', ''recovery_required'', ''rejected''])"

text \<open>\<open>exchange\<close> is the HTTP exchange with its decoding: \<open>None\<close> for every failure of it.\<close>

definition ReconcileTransition ::
  "uuid_parser \<Rightarrow> (TransitionStep \<Rightarrow> TransitionProgress option) \<Rightarrow> transition_runtime" where
  "ReconcileTransition parse exchange step =
     (if \<not> validTransitionStep parse step then Inl TransitionProgressUnavailable
      else case exchange step of
             None \<Rightarrow> Inl TransitionProgressUnavailable
           | Some out \<Rightarrow>
               if TransitionStep.truncate out \<noteq> step \<or> tp_Phase out \<notin> set (transport_allowed (st_Mode step))
               then Inl TransitionProgressUnavailable else Inr out)"

end
