(* ===== verification/App_Operations.thy ===== *)
theory App_Operations
  imports Transitions Complex_Main
begin

text \<open>
  Application operations: submission (\<^verbatim>\<open>service.go\<close>), the installation they reserve
  (\<^verbatim>\<open>installations.go\<close>), preinstalled releases (\<^verbatim>\<open>preinstalled.go\<close>,
  \<^verbatim>\<open>video_source_recovery.go\<close>), bound AppCenter commands (\<^verbatim>\<open>appcenter_commands.go\<close>,
  \<^verbatim>\<open>appcenter_dispatch.go\<close>) and the dispatch worker (\<^verbatim>\<open>worker.go\<close>).
\<close>

section \<open>Historical sources of the Video application\<close>

definition videoOriginalSource :: Binding where
  "videoOriginalSource = \<lparr>bd_ReleaseRef = ''video-mcp-v0.17.28'', bd_AppID = ''video-mcp'', bd_AppVersion = ''0.17.28'',
     bd_PackageDigest = ''sha256:a40746cc6d6b8870c9351fe7607524cd83d0d3f3036ddbf810aa5b550db6e5e9'',
     bd_ChartDigest = ''sha256:cd27e2099c8bb07d878c51e8d07674505b4c0bcc96bf8f3b52881b3150ce7f8a'',
     bd_TemplateDigest = ''sha256:b078c549f50e88b521842556f9dd92c728d0e430973429f623d0d1d84c9696f7''\<rparr>"

definition videoObservedSource :: Binding where
  "videoObservedSource = \<lparr>bd_ReleaseRef = ''video-mcp-v0.17.30'', bd_AppID = ''video-mcp'', bd_AppVersion = ''0.17.30'',
     bd_PackageDigest = ''sha256:54668c7b6e57e57fb811240110550330fc931df80d3782fecf6d67e0d8f45a32'',
     bd_ChartDigest = ''sha256:bacdc4bfa638217075cec55097d86aac7fca374c7cd8733c9698ba0c65149113'',
     bd_TemplateDigest = ''sha256:2fb074bf0cdaead891827f59869974c23db3c93375e626e864c656b9bfe8cfd0''\<rparr>"

definition videoParallelObservedSource :: Binding where
  "videoParallelObservedSource = \<lparr>bd_ReleaseRef = ''video-mcp-v0.17.35'', bd_AppID = ''video-mcp'', bd_AppVersion = ''0.17.35'',
     bd_PackageDigest = ''sha256:badeae0ce0ca1d1abeab20ffda1d15f98c28dafefc16e982d993459fa7a91340'',
     bd_ChartDigest = ''sha256:3bb879062371a320e890a69f92e3df5b8cae8ad07eb253aab9af6fa765f1db64'',
     bd_TemplateDigest = ''sha256:6735cadfa908acb422fae9a04ff8a1e096f95487113bf69545bf4c8ce2650cd4''\<rparr>"

definition videoFalEgressObservedSource :: Binding where
  "videoFalEgressObservedSource = \<lparr>bd_ReleaseRef = ''video-mcp-v0.17.38'', bd_AppID = ''video-mcp'', bd_AppVersion = ''0.17.38'',
     bd_PackageDigest = ''sha256:e18c6689d681b6acade528aaa1b7fd382164ce0cfa9dff1884ecf41bd876858d'',
     bd_ChartDigest = ''sha256:71113d2193ba3e2722b6ce0149094881cf6f599e99f0c5ccded46b36e017b7ff'',
     bd_TemplateDigest = ''sha256:edb4a393467e52dbfef30d8ceb2c5b0c09fca824c8f9c6d441ca5cbc7d469f56''\<rparr>"

text \<open>The four registered snapshots differ from each other in these seven fields only.\<close>

definition video_snapshot :: "string \<Rightarrow> string \<Rightarrow> string \<Rightarrow> string \<Rightarrow> string \<Rightarrow> string \<Rightarrow> string \<Rightarrow> TransitionSnapshot" where
  "video_snapshot version ref release manifest template dashboard img =
     \<lparr>ts_AppID = ''video-mcp'', ts_AppVersion = version, ts_ReleaseRef = ref, ts_ReleaseDigest = release,
      ts_ManifestDigest = manifest, ts_TemplateDigest = template, ts_DashboardDigest = dashboard, ts_DataContract = [],
      ts_DefaultWorkerVersion = [], ts_CompatibleWorkerVersions = Some [], ts_ReleaseKind = ''dashboard-release'',
      ts_AppImageDigest = img\<rparr>"

definition videoCredentialSourceSnapshot :: TransitionSnapshot where
  "videoCredentialSourceSnapshot = video_snapshot ''0.17.30'' ''video-mcp-v0.17.30''
     ''sha256:62a455b0ac5dea6048f42dc1b7babd1d2b67d337ed9e09d8035ad7d9aeb93cb5''
     ''sha256:c9c4f4e266a93a937997845f412735e202d7ea494a117f0625721ec42259f593''
     ''sha256:2fb074bf0cdaead891827f59869974c23db3c93375e626e864c656b9bfe8cfd0''
     ''sha256:08cb9f65c7733ab1ba43e3917aacda7a92a07934e3fc654fe9bfc354dfc5235c''
     ''sha256:4ad792a4756648008ecd479384d0f2c70c0ef20f437a15e1a030dc56fa9dba44''"

definition videoCredentialTargetSnapshot :: TransitionSnapshot where
  "videoCredentialTargetSnapshot = video_snapshot ''0.17.31'' ''video-mcp-v0.17.31''
     ''sha256:d8f6d5876fdf396a94d4b0168180c0c3c1d96acc3463d2bb66f4761c3c2dc5b8''
     ''sha256:426cd81e411e2c7c34e6d0346ee09b9b53ae5b9aecc1db02c41a48145b84a1c6''
     ''sha256:56a832f56000efa1b0185f56187293a221aa151f0afd17a5e2baffc72253c991''
     ''sha256:08cb9f65c7733ab1ba43e3917aacda7a92a07934e3fc654fe9bfc354dfc5235c''
     ''sha256:67ebb4aa1901ac5d4ef83206c301c68c7922a91e617408fdb51c9e4d098cbe33''"

definition videoProjectLabelsSourceSnapshot :: TransitionSnapshot where
  "videoProjectLabelsSourceSnapshot = video_snapshot ''0.17.35'' ''video-mcp-v0.17.35''
     ''sha256:da5cd14120338ba9f887f197aabac1cfa2c758fa1d88a917da7ae0b3fe96df64''
     ''sha256:56ac1cbfef890455b6c74098aeb2d48edb462f3bf94b3021a6f383688f9c7e18''
     ''sha256:6735cadfa908acb422fae9a04ff8a1e096f95487113bf69545bf4c8ce2650cd4''
     ''sha256:e9c481418fcde62d8d10197ed12fa6f5949289a59beaed4b55ff1a580351d51d''
     ''sha256:8d053baf4ecc415c7468c73d84c2721ed5f20ea9076c9f9ad81543b14bb365b4''"

definition videoProjectLabelsTargetSnapshot :: TransitionSnapshot where
  "videoProjectLabelsTargetSnapshot = video_snapshot ''0.17.37'' ''video-mcp-v0.17.37''
     ''sha256:d24c6ab68831fb1c1c0ae31ab2407220eb5b331cf5c323662021238d4904199c''
     ''sha256:91ebf160aad2a827bad7a92b98371dde66fdf2b72f38b749672c6bfaf8474c85''
     ''sha256:9cfb65261291dfc9d12038acf4bd7e08b9aa16494a33249b5c884e4b8da90856''
     ''sha256:09a8423ebae9c4cd9535bf4b76f901b18f7180c5a38af518d0c0ae22e3d18fc6''
     ''sha256:20a58cea21e5a1742bc4843eab7995848a03ad7c05f6f805611f7c8e1f5bc9c2''"

definition videoSourceRecovery :: "Binding \<Rightarrow> Binding \<Rightarrow> string \<Rightarrow> string \<Rightarrow> bool" where
  "videoSourceRecovery from to action state \<longleftrightarrow>
     action = ''adopt'' \<and> state = ''installed'' \<and> from = videoOriginalSource \<and> to = videoObservedSource"

definition video_proven :: "station_db \<Rightarrow> string \<Rightarrow> TransitionSnapshot \<Rightarrow> TransitionSnapshot \<Rightarrow> bool" where
  "video_proven db installation source target =
     list_ex (\<lambda>t. tr_InstallationID t = installation \<and> tw_app t = ''video-mcp'' \<and> tr_Action t = ''upgrade'' \<and>
        tr_Status t = ''succeeded'' \<and> tr_Phase t = ''completed'' \<and> tr_Source t = source \<and> tr_Target t = target) (d_transitions db)"

definition videoInstalledSourceRecovery ::
  "station_db \<Rightarrow> string \<Rightarrow> string \<Rightarrow> Binding \<Rightarrow> Binding \<Rightarrow> string \<Rightarrow> string \<Rightarrow> bool" where
  "videoInstalledSourceRecovery db installation installed from to action state =
     (if bd_AppVersion from = installed \<and> videoSourceRecovery from to action state then True
      else if action \<noteq> ''adopt'' \<or> state \<noteq> ''installed'' then False
      else if installed = ''0.17.31'' \<and> from = videoObservedSource \<and> to = videoParallelObservedSource then
        video_proven db installation videoCredentialSourceSnapshot videoCredentialTargetSnapshot
      else if installed = ''0.17.37'' \<and> from = videoParallelObservedSource \<and> to = videoFalEgressObservedSource then
        video_proven db installation videoProjectLabelsSourceSnapshot videoProjectLabelsTargetSnapshot
      else False)"

section \<open>Installations\<close>

definition legacyVersionAdoption :: "bool \<Rightarrow> string \<Rightarrow> string \<Rightarrow> bool \<Rightarrow> bool" where
  "legacyVersionAdoption trusted action state bound \<longleftrightarrow> trusted \<and> action = ''adopt'' \<and> state = ''installed'' \<and> \<not> bound"

text \<open>The current installation of an application: the one that is not removed.\<close>

definition current_installation :: "station_db \<Rightarrow> string \<Rightarrow> string \<Rightarrow> Installation option" where
  "current_installation db station app =
     find (\<lambda>i. in_StationID i = station \<and> in_AppID i = app \<and> in_State i \<noteq> ''removed'') (d_installations db)"

definition version_change_allowed ::
  "station_db \<Rightarrow> Installation \<Rightarrow> Command \<Rightarrow> PreinstalledCommand option \<Rightarrow> bool" where
  "version_change_allowed db i c preinstalled =
     (let bound = map_of (d_inst_bindings db) (in_InstallationID i) in
      case preinstalled of
        Some p \<Rightarrow>
          (case bound of
             Some prior \<Rightarrow>
               if in_AppVersion i \<noteq> cm_AppVersion c
               then videoInstalledSourceRecovery db (in_InstallationID i) (in_AppVersion i) prior (pc_Release p) (cm_Action c) (in_State i)
               else legacyVersionAdoption True (cm_Action c) (in_State i) True
           | None \<Rightarrow> legacyVersionAdoption True (cm_Action c) (in_State i) False)
      | None \<Rightarrow> cm_Action c = ''upgrade'' \<and> in_State i = ''installed'')"

text \<open>The identifier of the reserved installation; the empty string when there is none to reserve.\<close>

definition reserveInstallation ::
  "gotime \<Rightarrow> string \<Rightarrow> IdentityContext \<Rightarrow> Command \<Rightarrow> PreinstalledCommand option \<Rightarrow> station_db
     \<Rightarrow> op_error + (string \<times> station_db)" where
  "reserveInstallation now newID user c preinstalled db =
     (case current_installation db (cm_StationID c) (cm_AppID c) of
        Some i \<Rightarrow>
          if in_OrganizationID i \<noteq> ic_OrganizationID user
             \<or> (in_AppVersion i \<noteq> cm_AppVersion c \<and> \<not> version_change_allowed db i c preinstalled)
          then Inl (Fault Conflict) else Inr (in_InstallationID i, db)
      | None \<Rightarrow>
          if cm_Action c \<notin> set [''install'', ''start'', ''adopt''] then Inr ([], db)
          else if newID = [] \<or> list_ex (\<lambda>i. in_InstallationID i = newID) (d_installations db)
             \<or> \<not> transitionVersion (cm_AppVersion c) \<or> cm_AppID c = [] \<or> length (cm_AppID c) > 128
          then Inl DbError
          else Inr (newID, db\<lparr>d_installations := d_installations db @
             [\<lparr>in_InstallationID = newID, in_AppID = cm_AppID c, in_AppVersion = cm_AppVersion c, in_StationID = cm_StationID c,
               in_OrganizationID = ic_OrganizationID user, in_State = ''pending'', in_Revision = 1, in_LastOperationID = [],
               in_CreatedAt = pg_time now, in_UpdatedAt = pg_time now\<rparr>]\<rparr>))"

text \<open>An update of one installation that also counts its revision up.\<close>

definition revise_installation ::
  "gotime \<Rightarrow> string \<Rightarrow> (Installation \<Rightarrow> Installation) \<Rightarrow> station_db \<Rightarrow> op_error + station_db" where
  "revise_installation now i f db =
     (if list_ex (\<lambda>x. in_InstallationID x = i \<and> bump (in_Revision x) = None) (d_installations db) then Inl DbError
      else Inr (db\<lparr>d_installations := update_rows (\<lambda>x. in_InstallationID x = i)
             (\<lambda>x. (f x)\<lparr>in_Revision := in_Revision x + 1, in_UpdatedAt := pg_time now\<rparr>) (d_installations db)\<rparr>))"

definition bindInstallationOperation :: "gotime \<Rightarrow> string \<Rightarrow> string \<Rightarrow> station_db \<Rightarrow> op_error + station_db" where
  "bindInstallationOperation now installation operation db =
     (if installation = [] then Inr db
      else revise_installation now installation (\<lambda>x. x\<lparr>in_LastOperationID := operation\<rparr>)
             (db\<lparr>d_operations := update_rows (\<lambda>x. op_ID x = operation) (\<lambda>x. x\<lparr>op_installation := installation\<rparr>) (d_operations db)\<rparr>))"

definition installationState :: "string \<Rightarrow> string \<Rightarrow> string \<Rightarrow> string" where
  "installationState current action result =
     (if current = ''removed'' then current
      else if result = ''succeeded'' \<and> action = ''delete'' then ''removed''
      else if result = ''succeeded'' \<and> action \<in> set [''install'', ''upgrade'', ''start'', ''restart'', ''adopt'', ''stop''] then ''installed''
      else if result = ''failed'' \<and> current \<noteq> ''installed'' then ''failed''
      else current)"

text \<open>The binding of an adoption that changes the version, in the transaction of its result.\<close>

definition bind_adoption ::
  "string \<Rightarrow> Installation \<Rightarrow> string \<Rightarrow> string \<Rightarrow> station_db \<Rightarrow> op_error + station_db" where
  "bind_adoption operation i action observed db =
     (case map_of (d_op_bindings db) operation of
        None \<Rightarrow> Inl NoRows
      | Some next \<Rightarrow>
          (case map_of (d_inst_bindings db) (in_InstallationID i) of
             Some prior \<Rightarrow>
               if bd_AppVersion next \<noteq> observed
                  \<or> \<not> videoInstalledSourceRecovery db (in_InstallationID i) (in_AppVersion i) prior next action (in_State i)
               then Inl (Fault Conflict)
               else Inr (db\<lparr>d_inst_bindings := AList.update (in_InstallationID i) next (d_inst_bindings db)\<rparr>)
           | None \<Rightarrow> Inr (db\<lparr>d_inst_bindings := AList.update (in_InstallationID i) next (d_inst_bindings db)\<rparr>)))"

definition bound_installation :: "station_db \<Rightarrow> op_row \<Rightarrow> Installation option" where
  "bound_installation db x =
     find (\<lambda>i. in_InstallationID i = op_installation x \<and> in_LastOperationID i = op_ID x) (d_installations db)"

definition recordInstallationProgress ::
  "gotime \<Rightarrow> string \<Rightarrow> string \<Rightarrow> string \<Rightarrow> station_db \<Rightarrow> op_error + station_db" where
  "recordInstallationProgress now operation action result db =
     (case find (\<lambda>x. op_ID x = operation) (d_operations db) of
        None \<Rightarrow> Inr db
      | Some x \<Rightarrow>
          (case bound_installation db x of
             None \<Rightarrow> Inr db
           | Some i \<Rightarrow>
               let adoption = (map_of (d_op_bindings db) operation \<noteq> None) in
               if in_AppVersion i \<noteq> op_version x \<and> result = ''succeeded'' then
                 if action = ''upgrade'' \<and> in_State i = ''installed'' \<and> \<not> adoption then
                   revise_installation now (in_InstallationID i) (\<lambda>y. y\<lparr>in_AppVersion := op_version x, in_State := ''installed''\<rparr>) db
                 else if \<not> legacyVersionAdoption adoption action (in_State i) False then Inl (Fault Conflict)
                 else (case bind_adoption operation i action (op_version x) db of
                         Inl e \<Rightarrow> Inl e
                       | Inr db1 \<Rightarrow> revise_installation now (in_InstallationID i) (\<lambda>y. y\<lparr>in_AppVersion := op_version x\<rparr>) db1)
               else
                 let next = installationState (in_State i) action result in
                 if next = in_State i then Inr db
                 else revise_installation now (in_InstallationID i) (\<lambda>y. y\<lparr>in_State := next\<rparr>) db))"

definition ListInstallations :: "ops_service \<Rightarrow> IdentityContext \<Rightarrow> station_db \<Rightarrow> op_error + Installation list" where
  "ListInstallations s user db =
     (if \<not> canReadInstallations s user then Inl (Fault Denied)
      else
        let items = take 1001 (sort_key (\<lambda>i. (in_CreatedAt i, in_InstallationID i))
              (filter (\<lambda>i. in_StationID i = os_StationID s \<and> in_OrganizationID i = ic_OrganizationID user \<and> in_State i \<noteq> ''removed'')
                 (d_installations db)))
        in if length items > 1000 then Inl ListingLimit else Inr items)"

definition GetInstallation :: "ops_service \<Rightarrow> IdentityContext \<Rightarrow> string \<Rightarrow> station_db \<Rightarrow> op_error + Installation" where
  "GetInstallation s user i db =
     (if \<not> canReadInstallations s user then Inl (Fault Denied)
      else if \<not> validUUIDv7 (os_uuid s) i then Inl NoRows
      else case find_installation db i (os_StationID s) (ic_OrganizationID user) of None \<Rightarrow> Inl NoRows | Some x \<Rightarrow> Inr x)"

section \<open>Preinstalled releases\<close>

definition history_confirmed :: "station_db \<Rightarrow> Installation \<Rightarrow> bool" where
  "history_confirmed db i =
     list_ex (\<lambda>x. op_installation x = in_InstallationID i \<and> op_status x = ''succeeded'' \<and>
        map_of (d_op_bindings db) (op_ID x) \<noteq> None \<and>
        map_of (d_op_bindings db) (op_ID x) = map_of (d_inst_bindings db) (in_InstallationID i)) (d_operations db)"

fun history_items :: "station_db \<Rightarrow> Installation list \<Rightarrow> op_error + InstallationHistory list" where
  "history_items db [] = Inr []"
| "history_items db (i # rest) =
     (let release = map_of (d_inst_bindings db) (in_InstallationID i) in
      if (case release of None \<Rightarrow> False | Some b \<Rightarrow> \<not> Binding_Valid b) then Inl InvalidStoredBinding
      else map_sum id (\<lambda>out. \<lparr>ih_Installation = i, ih_Release = release, ih_Confirmed = history_confirmed db i\<rparr> # out)
             (history_items db rest))"

definition readPreinstalledHistory ::
  "station_db \<Rightarrow> string \<Rightarrow> string \<Rightarrow> string \<Rightarrow> op_error + InstallationHistory list" where
  "readPreinstalledHistory db station org app =
     (case history_items db (take 1001 (sort_key (\<lambda>i. (in_CreatedAt i, in_InstallationID i))
              (filter (\<lambda>i. in_StationID i = station \<and> in_OrganizationID i = org \<and> in_AppID i = app) (d_installations db)))) of
        Inl e \<Rightarrow> Inl e
      | Inr items \<Rightarrow> if length items > 1000 then Inl HistoryLimit else Inr items)"

definition inventoryRevision :: "ops_service \<Rightarrow> InstallationHistory list \<Rightarrow> string" where
  "inventoryRevision s items = sha256_digest (os_sum s) (JHistory items)"

text \<open>The loop over the history: whether there is a current installation, and the last removed one.\<close>

fun history_scan ::
  "ops_service \<Rightarrow> station_db \<Rightarrow> PreinstalledCommand \<Rightarrow> InstallationHistory list \<Rightarrow> bool \<times> string \<Rightarrow> op_error + (bool \<times> string)" where
  "history_scan s db inp [] acc = Inr acc"
| "history_scan s db inp (item # rest) (current, removed) =
     (let i = ih_Installation item in
      if in_State i = ''removed'' then history_scan s db inp rest (current, in_InstallationID i)
      else case ih_Release item of
             Some b \<Rightarrow>
               if b \<noteq> pc_Release inp then
                 if \<not> ih_Confirmed item \<or> \<not> videoInstalledSourceRecovery db (in_InstallationID i) (in_AppVersion i) b
                      (pc_Release inp) (cm_Action (pc_Command inp)) (in_State i)
                 then Inl (Fault Conflict)
                 else if (case os_Releases s of None \<Rightarrow> True | Some verify \<Rightarrow> \<not> verify b) then Inl Untrusted
                 else history_scan s db inp rest (True, removed)
               else history_scan s db inp rest (True, removed)
           | None \<Rightarrow> history_scan s db inp rest (True, removed))"

definition validatePreinstalled ::
  "ops_service \<Rightarrow> station_db \<Rightarrow> IdentityContext \<Rightarrow> PreinstalledCommand \<Rightarrow> op_error option" where
  "validatePreinstalled s db u inp =
     (if (case os_Releases s of None \<Rightarrow> True | Some verify \<Rightarrow> \<not> verify (pc_Release inp)) then Some Untrusted
      else case readPreinstalledHistory db (os_StationID s) (ic_OrganizationID u) (cm_AppID (pc_Command inp)) of
             Inl e \<Rightarrow> Some e
           | Inr items \<Rightarrow>
               if inventoryRevision s items \<noteq> pc_InventoryRevision inp then Some (Fault Conflict)
               else case history_scan s db inp items (False, []) of
                      Inl e \<Rightarrow> Some e
                    | Inr (current, removed) \<Rightarrow>
                        if \<not> current \<and> removed \<noteq> [] \<and> pc_ReinstallRemovedID inp \<noteq> removed then Some (Fault Conflict)
                        else if pc_ReinstallRemovedID inp \<noteq> [] \<and> (current \<or> pc_ReinstallRemovedID inp \<noteq> removed)
                        then Some (Fault Invalid) else None)"

definition bindPreinstalled :: "string \<Rightarrow> string \<Rightarrow> Binding \<Rightarrow> station_db \<Rightarrow> op_error + station_db" where
  "bindPreinstalled operation installation binding db =
     (if map_of (d_op_bindings db) operation \<noteq> None then Inl DbError
      else
        let db1 = db\<lparr>d_op_bindings := AList.update operation binding (d_op_bindings db)\<rparr> in
        case find (\<lambda>i. in_InstallationID i = installation) (d_installations db1) of
          None \<Rightarrow> Inl NoRows
        | Some i \<Rightarrow>
            if in_AppVersion i \<noteq> bd_AppVersion binding then Inr db1
            else if (case map_of (d_inst_bindings db1) installation of None \<Rightarrow> False | Some b \<Rightarrow> b \<noteq> binding)
            then Inl (Fault Conflict)
            else Inr (db1\<lparr>d_inst_bindings := AList.update installation binding (d_inst_bindings db1)\<rparr>))"

section \<open>AppCenter commands\<close>

definition appCenterHash :: "ops_service \<Rightarrow> AppCenterCommand \<Rightarrow> string" where
  "appCenterHash s inp = os_sum s (JAppCenter (inp\<lparr>ac_Command := (ac_Command inp)\<lparr>cm_RequestID := []\<rparr>\<rparr>))"

definition validateAppCenterInstallation ::
  "station_db \<Rightarrow> IdentityContext \<Rightarrow> AppCenterCommand \<Rightarrow> op_error + Installation option" where
  "validateAppCenterInstallation db actor inp =
     (let c = ac_Command inp; e = ac_Expected inp; found = current_installation db (cm_StationID c) (cm_AppID c) in
      if ae_AppVersion e \<noteq> cm_AppVersion c \<or> (ae_InstallationID e = None) \<noteq> (ae_InstallationRevision e = None)
      then Inl (Fault Invalid)
      else if cm_Action c = ''install'' then
        if found \<noteq> None \<or> ae_InstallationID e \<noteq> None \<or> ae_InstallationRevision e \<noteq> None \<or> ae_WorkloadUID e \<noteq> None
        then Inl AppCenterBinding else Inr None
      else
        case found of
          None \<Rightarrow> Inl AppCenterBinding
        | Some i \<Rightarrow>
            if ae_InstallationID e \<noteq> Some (in_InstallationID i) \<or> ae_InstallationRevision e \<noteq> Some (in_Revision i)
               \<or> (if cm_Action c = ''upgrade'' then in_AppVersion i = ae_AppVersion e else in_AppVersion i \<noteq> ae_AppVersion e)
               \<or> in_OrganizationID i \<noteq> ic_OrganizationID actor \<or> in_State i \<noteq> ''installed''
            then Inl AppCenterBinding else Inr (Some i))"

definition validateAppCenterExecution :: "AppCenterCommand \<Rightarrow> AppCenterExecution \<Rightarrow> op_error option" where
  "validateAppCenterExecution inp x =
     (let c = ac_Command inp; e = ac_Expected inp in
      if ax_AppID x \<noteq> cm_AppID c \<or> ax_AppVersion x \<noteq> cm_AppVersion c \<or> ax_Action x \<noteq> cm_Action c
         \<or> ax_SchemaVersion x \<noteq> 1 \<or> \<not> transitionDigest (ax_ReleaseDigest x) \<or> \<not> transitionDigest (ax_TemplateDigest x)
         \<or> \<not> transitionDigest (ax_PolicyRevision x) \<or> ae_ReleaseDigest e = None
      then Some AppCenterRelease
      else if Some (ax_ReleaseDigest x) \<noteq> ae_ReleaseDigest e \<or> ax_PolicyRevision x \<noteq> ae_PolicyRevision e
         \<or> ax_WorkloadUID x \<noteq> (case ae_WorkloadUID e of None \<Rightarrow> [] | Some u \<Rightarrow> u)
      then Some AppCenterBinding else None)"

definition bindAppCenterInput ::
  "string \<Rightarrow> AppCenterCommand \<Rightarrow> AppCenterExecution \<Rightarrow> station_db \<Rightarrow> op_error + station_db" where
  "bindAppCenterInput operation inp x db =
     (if map_of (d_inputs db) operation \<noteq> None then Inl DbError
      else Inr (db\<lparr>d_inputs := AList.update operation (inp, x) (d_inputs db)\<rparr>))"

type_synonym AppCenterAdmission =
  "IdentityContext \<Rightarrow> Command \<Rightarrow> Installation option \<Rightarrow> op_error + AppCenterExecution"

section \<open>Submission\<close>

text \<open>An operation as the API returns it; the percentage is the exact quotient.\<close>

record Operation =
  ao_RequestID :: string
  ao_OperationID :: string
  ao_OrganizationID :: string
  ao_StationID :: string
  ao_AppID :: string
  ao_AppVersion :: string
  ao_Action :: string
  ao_Status :: string
  ao_Phase :: string
  ao_DownloadedBytes :: int
  ao_TotalBytes :: "int option"
  ao_Percent :: "rat option"
  ao_Error :: "(string \<times> string \<times> string) option"
  ao_UpdatedAt :: gotime

definition read_operation :: "station_db \<Rightarrow> string \<Rightarrow> string \<Rightarrow> string \<Rightarrow> string \<Rightarrow> op_error + Operation" where
  "read_operation db user org station i =
     (case find (\<lambda>x. op_ID x = i \<and> op_user x = user \<and> op_org x = org \<and> op_station x = station) (d_operations db) of
        None \<Rightarrow> Inl NoRows
      | Some x \<Rightarrow> Inr
          \<lparr>ao_RequestID = op_RequestID x, ao_OperationID = op_ID x, ao_OrganizationID = op_org x, ao_StationID = op_station x,
           ao_AppID = op_app x, ao_AppVersion = op_version x, ao_Action = op_action x, ao_Status = op_status x,
           ao_Phase = op_phase x, ao_DownloadedBytes = op_downloaded x, ao_TotalBytes = op_total x,
           ao_Percent = map_option (\<lambda>t. if t > 0 then min 100 (100 * of_int (op_downloaded x) / of_int t) else 0) (op_total x),
           ao_Error = (if op_status x = ''failed'' then
                Some (case op_error_code x of None \<Rightarrow> ''INTERNAL'' | Some c \<Rightarrow> c,
                      case op_error_message x of None \<Rightarrow> ''Operation failed'' | Some m \<Rightarrow> m, op_RequestID x)
              else None),
           ao_UpdatedAt = op_updated x\<rparr>)"

definition ops_Get :: "ops_service \<Rightarrow> IdentityContext \<Rightarrow> string \<Rightarrow> station_db \<Rightarrow> op_error + Operation" where
  "ops_Get s u i db =
     (if ''admin'' \<notin> set (ic_Roles u) \<or> ''app:read'' \<notin> set (ic_Scopes u) then Inl (Fault Denied)
      else case os_uuid s i of
             None \<Rightarrow> Inl (Fault Invalid)
           | Some v \<Rightarrow> read_operation db (ic_UserID u) (ic_OrganizationID u) (os_StationID s) (uuid_String v))"

definition find_operation_key :: "station_db \<Rightarrow> string \<Rightarrow> string \<Rightarrow> string \<Rightarrow> string \<Rightarrow> op_row option" where
  "find_operation_key db user org station key =
     find (\<lambda>x. op_user x = user \<and> op_org x = org \<and> op_station x = station \<and> op_key x = key) (d_operations db)"

definition GetByIdempotencyKey :: "ops_service \<Rightarrow> IdentityContext \<Rightarrow> string \<Rightarrow> station_db \<Rightarrow> op_error + Operation" where
  "GetByIdempotencyKey s u key db =
     (if ''admin'' \<notin> set (ic_Roles u) \<or> ''app:read'' \<notin> set (ic_Scopes u) then Inl (Fault Denied)
      else if length key < 8 \<or> length key > 128 then Inl (Fault Invalid)
      else case find_operation_key db (ic_UserID u) (ic_OrganizationID u) (os_StationID s) key of
             None \<Rightarrow> Inl NoRows
           | Some x \<Rightarrow> read_operation db (ic_UserID u) (ic_OrganizationID u) (os_StationID s) (op_ID x))"

definition commandHash :: "ops_service \<Rightarrow> Command \<Rightarrow> PreinstalledCommand option \<Rightarrow> string" where
  "commandHash s c preinstalled =
     (let c = c\<lparr>cm_RequestID := []\<rparr> in
      case preinstalled of None \<Rightarrow> os_sum s (JCommand c) | Some p \<Rightarrow> os_sum s (JPreinstalled (p\<lparr>pc_Command := c\<rparr>)))"

text \<open>What submit needs beside the command: the verified forms of it, clock and fresh identifiers.\<close>

record submit_env =
  sb_preinstalled :: "PreinstalledCommand option"
  sb_constrained :: "AppCenterCommand option"
  sb_admission :: "AppCenterAdmission option"
  sb_now :: gotime
  sb_installation :: string
  sb_operation :: string

definition submit_hash :: "ops_service \<Rightarrow> submit_env \<Rightarrow> Command \<Rightarrow> string" where
  "submit_hash s v c = (case sb_constrained v of None \<Rightarrow> commandHash s c (sb_preinstalled v) | Some inp \<Rightarrow> appCenterHash s inp)"

text \<open>The release check of a new operation: the bound execution, or the catalog's version.\<close>

definition submit_release ::
  "ops_service \<Rightarrow> submit_env \<Rightarrow> IdentityContext \<Rightarrow> Command \<Rightarrow> station_db \<Rightarrow> op_error + AppCenterExecution option" where
  "submit_release s v u c db =
     (case sb_constrained v of
        Some inp \<Rightarrow>
          (case validateAppCenterInstallation db u inp of
             Inl e \<Rightarrow> Inl e
           | Inr installed \<Rightarrow>
               (case sb_admission v of
                  None \<Rightarrow> Inl AppCenterRelease
                | Some admit \<Rightarrow>
                    (case admit u c installed of
                       Inl e \<Rightarrow> Inl e
                     | Inr x \<Rightarrow> (case validateAppCenterExecution inp x of Some e \<Rightarrow> Inl e | None \<Rightarrow> Inr (Some x)))))
      | None \<Rightarrow>
          (case os_Catalog s of
             None \<Rightarrow> Inl (Fault Invalid)
           | Some entry \<Rightarrow> if entry (cm_AppID c) \<noteq> Some (cm_AppVersion c) then Inl (Fault Invalid) else Inr None))"

definition submit_busy :: "station_db \<Rightarrow> string \<Rightarrow> string \<Rightarrow> bool" where
  "submit_busy db station app \<longleftrightarrow>
     list_ex (\<lambda>x. op_station x = station \<and> op_app x = app \<and> active_op x) (d_operations db) \<or>
     list_ex (\<lambda>t. tw_station t = station \<and> tw_app t = app \<and> active_row t) (d_transitions db)"

definition first_phase :: "string \<Rightarrow> string" where
  "first_phase action =
     (if action = ''stop'' \<or> action = ''delete'' then ''stopping'' else if action = ''restart'' then ''starting'' else ''checking'')"

definition new_op_row :: "ops_service \<Rightarrow> submit_env \<Rightarrow> IdentityContext \<Rightarrow> Command \<Rightarrow> op_row" where
  "new_op_row s v u c =
     \<lparr>op_ID = sb_operation v, op_RequestID = cm_RequestID c, op_user = ic_UserID u, op_org = ic_OrganizationID u,
      op_station = os_StationID s, op_app = cm_AppID c, op_version = cm_AppVersion c, op_action = cm_Action c,
      op_status = ''accepted'', op_phase = first_phase (cm_Action c), op_downloaded = 0, op_total = None,
      op_error_code = None, op_error_message = None, op_key = cm_IdempotencyKey c, op_hash = submit_hash s v c,
      op_updated = pg_time (sb_now v), op_expected_uid = cm_ExpectedWorkloadUID c, op_installation = []\<rparr>"

text \<open>The statements of an accepted submission, after its installation is reserved.\<close>

definition record_submission ::
  "ops_service \<Rightarrow> submit_env \<Rightarrow> IdentityContext \<Rightarrow> Command \<Rightarrow> AppCenterExecution option \<Rightarrow> string \<Rightarrow> station_db
     \<Rightarrow> op_error + station_db" where
  "record_submission s v u c execution installation db =
     (if list_ex (\<lambda>x. op_ID x = sb_operation v) (d_operations db) then Inl DbError
      else case bindInstallationOperation (sb_now v) installation (sb_operation v)
                  (db\<lparr>d_operations := d_operations db @ [new_op_row s v u c]\<rparr>) of
             Inl e \<Rightarrow> Inl e
           | Inr db1 \<Rightarrow>
               (case (case (sb_constrained v, execution) of
                        (Some inp, Some x) \<Rightarrow> bindAppCenterInput (sb_operation v) inp x db1
                      | _ \<Rightarrow> Inr db1) of
                  Inl e \<Rightarrow> Inl e
                | Inr db2 \<Rightarrow>
                    (case (case sb_preinstalled v of
                             Some p \<Rightarrow> bindPreinstalled (sb_operation v) installation (pc_Release p) db2
                           | None \<Rightarrow> Inr db2) of
                       Inl e \<Rightarrow> Inl e
                     | Inr db3 \<Rightarrow>
                         Inr (ops_audit (cm_RequestID c) (ic_UserID u) (ic_OrganizationID u) (Some (ic_SessionID u))
                                (''app.'' @ cm_Action c @ ''.accepted'') db3))))"

definition accepted_operation :: "ops_service \<Rightarrow> submit_env \<Rightarrow> IdentityContext \<Rightarrow> Command \<Rightarrow> Operation" where
  "accepted_operation s v u c =
     \<lparr>ao_RequestID = cm_RequestID c, ao_OperationID = sb_operation v, ao_OrganizationID = ic_OrganizationID u,
      ao_StationID = os_StationID s, ao_AppID = cm_AppID c, ao_AppVersion = cm_AppVersion c, ao_Action = cm_Action c,
      ao_Status = ''accepted'', ao_Phase = first_phase (cm_Action c), ao_DownloadedBytes = 0, ao_TotalBytes = None,
      ao_Percent = None, ao_Error = None, ao_UpdatedAt = sb_now v\<rparr>"

definition submit_new ::
  "ops_service \<Rightarrow> submit_env \<Rightarrow> IdentityContext \<Rightarrow> Command \<Rightarrow> station_db \<Rightarrow> (op_error, Operation, station_db) tx" where
  "submit_new s v u c db =
     (case submit_release s v u c db of
        Inl e \<Rightarrow> Rollback e
      | Inr execution \<Rightarrow>
          (case (case sb_preinstalled v of None \<Rightarrow> None | Some p \<Rightarrow> validatePreinstalled s db u p) of
             Some e \<Rightarrow> Rollback e
           | None \<Rightarrow>
               if submit_busy db (os_StationID s) (cm_AppID c) then Rollback (Fault Conflict)
               else case reserveInstallation (sb_now v) (sb_installation v) u c (sb_preinstalled v) db of
                      Inl e \<Rightarrow> Rollback e
                    | Inr (installation, db1) \<Rightarrow>
                        (case record_submission s v u c execution installation db1 of
                           Inl e \<Rightarrow> Rollback e
                         | Inr db2 \<Rightarrow> Commit (Inr (accepted_operation s v u c)) db2)))"

definition submit_body ::
  "ops_service \<Rightarrow> submit_env \<Rightarrow> IdentityContext \<Rightarrow> Command \<Rightarrow> station_db \<Rightarrow> (op_error, Operation, station_db) tx" where
  "submit_body s v u c db =
     (case find_operation_key db (ic_UserID u) (ic_OrganizationID u) (os_StationID s) (cm_IdempotencyKey c) of
        Some x \<Rightarrow>
          let legacy = os_sum s (JCommand (c\<lparr>cm_RequestID := op_RequestID x\<rparr>)) in
          if op_hash x \<noteq> submit_hash s v c \<and>
             (sb_preinstalled v \<noteq> None \<or> sb_constrained v \<noteq> None \<or> op_hash x \<noteq> legacy)
          then Rollback (Fault Conflict)
          else (case read_operation db (ic_UserID u) (ic_OrganizationID u) (os_StationID s) (op_ID x) of
                  Inl e \<Rightarrow> Rollback e
                | Inr out \<Rightarrow> Commit (Inr out) db)
      | None \<Rightarrow> submit_new s v u c db)"

text \<open>The checks of a command before any transaction.\<close>

definition submit_guard :: "ops_service \<Rightarrow> IdentityContext \<Rightarrow> Command \<Rightarrow> op_error option" where
  "submit_guard s u c =
     (if ''admin'' \<notin> set (ic_Roles u) \<or> ''app:manage'' \<notin> set (ic_Scopes u) then Some (Fault Denied)
      else if length (cm_RequestID c) = 0 \<or> length (cm_RequestID c) > 128 then Some (Fault Invalid)
      else if cm_StationID c \<noteq> os_StationID s \<or> cm_OrganizationID c \<noteq> ic_OrganizationID u
         \<or> length (cm_IdempotencyKey c) < 8 \<or> length (cm_IdempotencyKey c) > 128 then Some (Fault Invalid)
      else if cm_Action c \<notin> set [''install'', ''upgrade'', ''start'', ''stop'', ''restart'', ''delete'', ''adopt''] then Some (Fault Invalid)
      else if (if cm_Action c = ''adopt'' then os_uuid s (cm_ExpectedWorkloadUID c) = None else cm_ExpectedWorkloadUID c \<noteq> [])
      then Some (Fault Invalid) else None)"

definition submit ::
  "ops_service \<Rightarrow> bool \<Rightarrow> submit_env \<Rightarrow> IdentityContext \<Rightarrow> Command \<Rightarrow> station_db \<Rightarrow> (op_error + Operation) \<times> station_db" where
  "submit s db_fault v u c db =
     (case submit_guard s u c of
        Some e \<Rightarrow> (Inl e, db)
      | None \<Rightarrow> transact db_fault DbError (submit_body s v u c) db)"

definition ops_Submit where
  "ops_Submit s db_fault now inst oper u c db =
     submit s db_fault \<lparr>sb_preinstalled = None, sb_constrained = None, sb_admission = None, sb_now = now,
        sb_installation = inst, sb_operation = oper\<rparr> u c db"

definition SubmitPreinstalled where
  "SubmitPreinstalled s db_fault now inst oper u inp db =
     (if \<not> canReadInstallations s u \<or> ''app:manage'' \<notin> set (ic_Scopes u) then (Inl (Fault Denied), db)
      else if \<not> Binding_Valid (pc_Release inp) \<or> bd_AppID (pc_Release inp) \<noteq> cm_AppID (pc_Command inp)
         \<or> bd_AppVersion (pc_Release inp) \<noteq> cm_AppVersion (pc_Command inp) \<or> \<not> sha256_pattern (pc_InventoryRevision inp)
         \<or> cm_Action (pc_Command inp) \<notin> set [''install'', ''adopt'']
      then (Inl (Fault Invalid), db)
      else submit s db_fault \<lparr>sb_preinstalled = Some inp, sb_constrained = None, sb_admission = None, sb_now = now,
             sb_installation = inst, sb_operation = oper\<rparr> u (pc_Command inp) db)"

definition SubmitAppCenter where
  "SubmitAppCenter s db_fault now inst oper u inp admission db =
     (if \<not> canReadInstallations s u \<or> ''app:manage'' \<notin> set (ic_Scopes u) then (Inl (Fault Denied), db)
      else if \<not> os_schema s inp then (Inl (Fault Invalid), db)
      else submit s db_fault \<lparr>sb_preinstalled = None, sb_constrained = Some inp, sb_admission = admission, sb_now = now,
             sb_installation = inst, sb_operation = oper\<rparr> u (ac_Command inp) db)"

end
