(* ===== verification/App_Dispatch.thy ===== *)
theory App_Dispatch
  imports App_Operations
begin

text \<open>
  The dispatch worker of application operations (\<^verbatim>\<open>worker.go\<close>): one transaction that
  takes the operation waiting longest, calls the Runtime with the durable input of the
  operation and records the observed progress with its effect on the installation.
\<close>

record PreinstalledRelease =
  pr_ReleaseRef :: string
  pr_PackageDigest :: string
  pr_ChartDigest :: string
  pr_TemplateDigest :: string

record AppRequest =
  ar_OperationId :: string
  ar_RequestId :: string
  ar_UserId :: string
  ar_OrganizationId :: string
  ar_StationId :: string
  ar_AppId :: string
  ar_AppVersion :: string
  ar_Action :: string
  ar_ExpectedWorkloadUid :: string
  ar_InstallationId :: string
  ar_PreinstalledRelease :: "PreinstalledRelease option"

record AppCenterGuard =
  ag_SchemaVersion :: int
  ag_ReleaseDigest :: string
  ag_TemplateDigest :: string
  ag_PolicyRevision :: string
  ag_WorkloadUid :: string

record AppProgress =
  ap_OperationId :: string
  ap_Status :: string
  ap_Phase :: string
  ap_DownloadedBytes :: int
  ap_TotalBytes :: "int option"
  ap_ErrorCode :: string
  ap_ErrorMessage :: string

datatype grpc_code = InvalidArgument | PermissionDenied | AlreadyExists | FailedPrecondition | OtherCode

text \<open>A call of the Runtime ends in a status code or in a progress, which may be nil.\<close>

type_synonym app_client = "AppRequest \<Rightarrow> grpc_code + AppProgress option"
type_synonym bound_client = "AppRequest \<Rightarrow> AppCenterGuard \<Rightarrow> grpc_code + AppProgress option"

definition appCenterDispatchInput ::
  "ops_service \<Rightarrow> AppRequest \<Rightarrow> AppCenterCommand \<Rightarrow> AppCenterExecution \<Rightarrow> string \<Rightarrow> string \<Rightarrow> AppCenterGuard option" where
  "appCenterDispatchInput s row inp fixed savedHash key =
     (let c = ac_Command inp; e = ac_Expected inp in
      if \<not> os_schema s inp then None
      else if appCenterHash s inp \<noteq> savedHash \<or> cm_IdempotencyKey c \<noteq> key \<or> cm_RequestID c \<noteq> ar_RequestId row
         \<or> cm_OrganizationID c \<noteq> ar_OrganizationId row \<or> cm_StationID c \<noteq> ar_StationId row \<or> cm_AppID c \<noteq> ar_AppId row
         \<or> cm_AppVersion c \<noteq> ar_AppVersion row \<or> cm_Action c \<noteq> ar_Action row
         \<or> cm_ExpectedWorkloadUID c \<noteq> ar_ExpectedWorkloadUid row \<or> ar_PreinstalledRelease row \<noteq> None
         \<or> \<not> validUUIDv7 (os_uuid s) (ar_InstallationId row)
      then None
      else if ae_AppVersion e \<noteq> ar_AppVersion row \<or> (ae_InstallationID e = None) \<noteq> (ae_InstallationRevision e = None) then None
      else if (if cm_Action c = ''install'' then ae_InstallationID e \<noteq> None \<or> ae_WorkloadUID e \<noteq> None
               else ae_InstallationID e \<noteq> Some (ar_InstallationId row)) then None
      else if validateAppCenterExecution inp fixed \<noteq> None then None
      else Some \<lparr>ag_SchemaVersion = ax_SchemaVersion fixed, ag_ReleaseDigest = ax_ReleaseDigest fixed,
                 ag_TemplateDigest = ax_TemplateDigest fixed, ag_PolicyRevision = ax_PolicyRevision fixed,
                 ag_WorkloadUid = ax_WorkloadUID fixed\<rparr>)"

definition request_of :: "op_row \<Rightarrow> AppRequest" where
  "request_of x =
     \<lparr>ar_OperationId = op_ID x, ar_RequestId = op_RequestID x, ar_UserId = op_user x, ar_OrganizationId = op_org x,
      ar_StationId = op_station x, ar_AppId = op_app x, ar_AppVersion = op_version x, ar_Action = op_action x,
      ar_ExpectedWorkloadUid = op_expected_uid x, ar_InstallationId = op_installation x, ar_PreinstalledRelease = None\<rparr>"

definition postponeDispatch :: "gotime \<Rightarrow> string \<Rightarrow> op_error \<Rightarrow> station_db \<Rightarrow> (op_error, bool, station_db) tx" where
  "postponeDispatch now i pending db =
     Commit (Inl pending)
       (db\<lparr>d_operations := update_rows (\<lambda>x. op_ID x = i) (\<lambda>x. x\<lparr>op_updated := pg_time now\<rparr>) (d_operations db)\<rparr>)"

definition normalizeRuntimeProgress :: "AppProgress option \<Rightarrow> AppProgress option" where
  "normalizeRuntimeProgress p =
     map_option (\<lambda>p. if ap_Status p = ''failed'' \<and> ap_ErrorCode p = ''CHART_EXECUTION_FAILED''
                      then p\<lparr>ap_ErrorCode := ''SERVICE_UNAVAILABLE''\<rparr> else p) p"

definition progress_phases :: "string list" where
  "progress_phases = [''checking'', ''downloading'', ''verifying'', ''installing'', ''starting'', ''warming'', ''stopping'', ''deleting'', ''completed'']"

definition failure_codes :: "string list" where
  "failure_codes = [''INVALID_ARGUMENT'', ''NOT_FOUND'', ''CONFLICT'', ''SERVICE_UNAVAILABLE'', ''INTERNAL'', ''PERMISSION_DENIED'']"

definition validProgress :: "AppProgress \<Rightarrow> bool" where
  "validProgress p =
     (if ap_DownloadedBytes p < 0 \<or> (case ap_TotalBytes p of None \<Rightarrow> False | Some t \<Rightarrow> t < 0 \<or> ap_DownloadedBytes p > t) then False
      else if ap_Phase p \<notin> set progress_phases then False
      else if ap_Status p = ''succeeded'' then ap_Phase p = ''completed'' \<and> ap_ErrorCode p = [] \<and> ap_ErrorMessage p = []
      else if ap_Status p = ''failed'' then ap_Phase p \<noteq> ''completed'' \<and> ap_ErrorMessage p \<noteq> [] \<and> ap_ErrorCode p \<in> set failure_codes
      else if ap_Status p = ''running'' then ap_Phase p \<noteq> ''completed'' \<and> ap_ErrorCode p = [] \<and> ap_ErrorMessage p = []
      else False)"

text \<open>The progress a definite refusal of the Runtime stands for.\<close>

definition rejection_message :: string where
  "rejection_message = ''Runtime rejected the command or execution template; check registered application version''"

definition rejection :: "string \<Rightarrow> grpc_code \<Rightarrow> AppProgress" where
  "rejection i code =
     \<lparr>ap_OperationId = i, ap_Status = ''failed'', ap_Phase = ''checking'', ap_DownloadedBytes = 0, ap_TotalBytes = None,
      ap_ErrorCode = (if code = AlreadyExists then ''CONFLICT'' else if code = PermissionDenied then ''PERMISSION_DENIED''
                      else ''INVALID_ARGUMENT''),
      ap_ErrorMessage = rejection_message\<rparr>"

definition NULLIF :: "string \<Rightarrow> string option" where
  "NULLIF v = (if v = [] then None else Some v)"

definition record_progress :: "gotime \<Rightarrow> AppProgress \<Rightarrow> string \<Rightarrow> station_db \<Rightarrow> station_db" where
  "record_progress now p i db =
     db\<lparr>d_operations := update_rows (\<lambda>x. op_ID x = i)
          (\<lambda>x. x\<lparr>op_status := ap_Status p, op_phase := ap_Phase p, op_downloaded := ap_DownloadedBytes p,
                 op_total := ap_TotalBytes p, op_error_code := NULLIF (ap_ErrorCode p),
                 op_error_message := NULLIF (ap_ErrorMessage p), op_updated := pg_time now\<rparr>) (d_operations db)\<rparr>"

definition settle_progress ::
  "gotime \<Rightarrow> op_row \<Rightarrow> AppProgress option \<Rightarrow> station_db \<Rightarrow> (op_error, bool, station_db) tx" where
  "settle_progress now x progress db =
     (case normalizeRuntimeProgress progress of
        None \<Rightarrow> Rollback InvalidRuntimeProgress
      | Some p \<Rightarrow>
          if ap_OperationId p \<noteq> op_ID x \<or> \<not> validProgress p then Rollback InvalidRuntimeProgress
          else case recordInstallationProgress now (op_ID x) (op_action x) (ap_Status p) (record_progress now p (op_ID x) db) of
                 Inl e \<Rightarrow> Rollback e
               | Inr db' \<Rightarrow> Commit (Inr True) db')"

definition settle_call ::
  "gotime \<Rightarrow> op_row \<Rightarrow> grpc_code + AppProgress option \<Rightarrow> station_db \<Rightarrow> (op_error, bool, station_db) tx" where
  "settle_call now x result db =
     (case result of
        Inl OtherCode \<Rightarrow> postponeDispatch now (op_ID x) RuntimeFailure db
      | Inl code \<Rightarrow> settle_progress now x (Some (rejection (op_ID x) code)) db
      | Inr progress \<Rightarrow> settle_progress now x progress db)"

text \<open>
  The operation waiting longest; \<open>locked\<close> are the rows other sessions hold, which
  \<open>SKIP LOCKED\<close> passes over.
\<close>

definition next_operation :: "station_db \<Rightarrow> string \<Rightarrow> string list \<Rightarrow> op_row option" where
  "next_operation db station locked =
     min_by (\<lambda>x. (op_updated x, op_ID x))
       (filter (\<lambda>x. op_station x = station \<and> active_op x \<and> op_ID x \<notin> set locked) (d_operations db))"

definition DispatchOne_body ::
  "ops_service \<Rightarrow> gotime \<Rightarrow> string list \<Rightarrow> app_client \<Rightarrow> bound_client option \<Rightarrow> station_db \<Rightarrow> (op_error, bool, station_db) tx" where
  "DispatchOne_body s now locked client bound db =
     (case next_operation db (os_StationID s) locked of
        None \<Rightarrow> Commit (Inr False) db
      | Some x \<Rightarrow>
          let req = request_of x; binding = map_of (d_op_bindings db) (op_ID x) in
          case map_of (d_inputs db) (op_ID x) of
            Some (inp, fixed) \<Rightarrow>
              (case bound of
                 None \<Rightarrow> postponeDispatch now (op_ID x) AppCenterDispatch db
               | Some rt \<Rightarrow>
                   if binding \<noteq> None then postponeDispatch now (op_ID x) AppCenterBinding db
                   else case appCenterDispatchInput s req inp fixed (op_hash x) (op_key x) of
                          None \<Rightarrow> postponeDispatch now (op_ID x) AppCenterBinding db
                        | Some g \<Rightarrow> settle_call now x (rt req g) db)
          | None \<Rightarrow>
              (case binding of
                 None \<Rightarrow> settle_call now x (client req) db
               | Some b \<Rightarrow>
                   if \<not> Binding_Valid b \<or> bd_AppID b \<noteq> op_app x \<or> bd_AppVersion b \<noteq> op_version x then Rollback InvalidOperationBinding
                   else settle_call now x (client (req\<lparr>ar_PreinstalledRelease := Some
                          \<lparr>pr_ReleaseRef = bd_ReleaseRef b, pr_PackageDigest = bd_PackageDigest b,
                           pr_ChartDigest = bd_ChartDigest b, pr_TemplateDigest = bd_TemplateDigest b\<rparr>\<rparr>)) db))"

definition DispatchOne ::
  "ops_service \<Rightarrow> bool \<Rightarrow> gotime \<Rightarrow> string list \<Rightarrow> app_client \<Rightarrow> bound_client option \<Rightarrow> station_db
     \<Rightarrow> (op_error + bool) \<times> station_db" where
  "DispatchOne s db_fault now locked client bound db =
     transact db_fault DbError (DispatchOne_body s now locked client bound) db"

end
