(* ===== verification/Forward_Recovery.thy ===== *)
theory Forward_Recovery
  imports Transitions
begin

text \<open>
  Forward recovery (\<^verbatim>\<open>forward_recovery.go\<close>): an accepted recovery of a transition that
  is restoring or needs recovery moves the installation to a newer verified release instead
  of the source, in two transactions around one call of the Runtime.
\<close>

definition ForwardRecovery_digest :: "ops_service \<Rightarrow> ForwardRecovery \<Rightarrow> string" where
  "ForwardRecovery_digest s r = sha256_digest (os_sum s) (JForwardBinding
     \<lparr>fb_RecoveryID = fr_RecoveryID r, fb_ParentInputDigest = fr_ParentInputDigest r,
      fb_ExpectedRevision = fr_ExpectedRevision r, fb_InstalledVersion = fr_InstalledVersion r, fb_Target = fr_Target r\<rparr>)"

definition ForwardRecoveryCommand_valid :: "uuid_parser \<Rightarrow> ForwardRecoveryCommand \<Rightarrow> bool" where
  "ForwardRecoveryCommand_valid parse c \<longleftrightarrow>
     (case parse (fc_RequestID c) of None \<Rightarrow> False
      | Some i \<Rightarrow> uuid_Version i = 4 \<and> uuid_RFC4122 i \<and> uuid_String i = fc_RequestID c) \<and>
     canonicalInstallation parse (fc_OperationID c) \<and> fc_ExpectedRevision c > 0 \<and>
     length (fc_IdempotencyKey c) \<ge> 8 \<and> length (fc_IdempotencyKey c) \<le> 128 \<and> transitionName (fc_TargetReleaseRef c)"

definition forwardRequestHash :: "ops_service \<Rightarrow> ForwardRecoveryCommand \<Rightarrow> string" where
  "forwardRequestHash s c = os_sum s (JForwardCommand (c\<lparr>fc_RequestID := []\<rparr>))"

definition canRecover :: "ops_service \<Rightarrow> IdentityContext \<Rightarrow> bool" where
  "canRecover s actor \<longleftrightarrow> ic_StationID actor = os_StationID s \<and> ''admin'' \<in> set (ic_Roles actor) \<and>
     ''app:read'' \<in> set (ic_Scopes actor) \<and> ''app:manage'' \<in> set (ic_Scopes actor)"

definition find_proof :: "station_db \<Rightarrow> string \<Rightarrow> string \<Rightarrow> string option" where
  "find_proof db recovery digest =
     map_option (\<lambda>(_, _, proof). proof) (find (\<lambda>(i, d, _). i = recovery \<and> d = digest) (d_proofs db))"

definition readForward ::
  "ops_service \<Rightarrow> station_db \<Rightarrow> string \<Rightarrow> string \<Rightarrow> string \<Rightarrow> op_error + ForwardRecovery" where
  "readForward s db user org i =
     (case find (\<lambda>f. fr_RecoveryID f = i \<and> fw_user f = user \<and> fw_org f = org \<and> fw_station f = os_StationID s) (d_forwards db) of
        None \<Rightarrow> Inl NoRows
      | Some row \<Rightarrow>
          let r = (ForwardRecovery.truncate row)\<lparr>fr_Proof := None\<rparr> in
          if \<not> TransitionSnapshot_valid (fr_Target r) \<or> ForwardRecovery_digest s r \<noteq> fr_InputDigest r
          then Inl TransitionProgressUnavailable
          else if fr_State r = ''succeeded'' then
            (case find_proof db (fr_RecoveryID r) (fr_InputDigest r) of
               None \<Rightarrow> Inl NoRows
             | Some p \<Rightarrow> Inr (r\<lparr>fr_Proof := Some p\<rparr>))
          else Inr r)"

definition GetForwardRecovery ::
  "ops_service \<Rightarrow> IdentityContext \<Rightarrow> string \<Rightarrow> station_db \<Rightarrow> op_error + ForwardRecovery" where
  "GetForwardRecovery s a i db =
     (if \<not> canRecover s a then Inl (Fault Denied)
      else if \<not> canonicalInstallation (os_uuid s) i then Inl NoRows
      else readForward s db (ic_UserID a) (ic_OrganizationID a) i)"

definition allowedWorldForward :: "dispatchTransition \<Rightarrow> TransitionSnapshot \<Rightarrow> bool" where
  "allowedWorldForward parent target \<longleftrightarrow>
     ts_AppID (tr_Source parent) = ''world'' \<and> ts_AppVersion (tr_Source parent) = ''0.1.4'' \<and>
     ts_AppVersion (tr_Target parent) = ''0.1.5'' \<and> ts_AppID target = ''world'' \<and> ts_AppVersion target = ''0.1.6'' \<and>
     ts_ReleaseKind (tr_Source parent) = ''dashboard-release'' \<and> ts_ReleaseKind (tr_Target parent) = ''dashboard-release'' \<and>
     ts_ReleaseKind target = ''dashboard-release'' \<and> TransitionSnapshot_valid target \<and>
     dispatch_installationState parent = Original \<and> tr_Phase parent \<in> set [''restoring'', ''recovery_required''] \<and>
     tr_Status parent \<in> set [''running'', ''recovery_required'']"

definition forward_busy :: "station_db \<Rightarrow> string \<Rightarrow> string \<Rightarrow> string \<Rightarrow> bool" where
  "forward_busy db station app operation \<longleftrightarrow>
     list_ex (\<lambda>x. op_station x = station \<and> op_app x = app \<and> active_op x) (d_operations db) \<or> forward_pending db operation"

definition new_forward ::
  "ops_service \<Rightarrow> string \<Rightarrow> ForwardRecoveryCommand \<Rightarrow> dispatchTransition \<Rightarrow> TransitionSnapshot \<Rightarrow> ForwardRecovery" where
  "new_forward s newID c parent target =
     (let r = \<lparr>fr_RecoveryID = newID, fr_OperationID = fc_OperationID c, fr_ExpectedRevision = fc_ExpectedRevision c,
               fr_InstalledVersion = in_AppVersion (dt_Installed parent), fr_ParentInputDigest = inputDigest s parent,
               fr_Target = target, fr_InputDigest = [], fr_State = ''pending'', fr_Proof = None\<rparr>
      in r\<lparr>fr_InputDigest := ForwardRecovery_digest s r\<rparr>)"

definition forward_row_of ::
  "ops_service \<Rightarrow> IdentityContext \<Rightarrow> ForwardRecoveryCommand \<Rightarrow> ForwardRecovery \<Rightarrow> forward_row" where
  "forward_row_of s a c r = ForwardRecovery.extend r
     \<lparr>fw_user = ic_UserID a, fw_org = ic_OrganizationID a, fw_station = os_StationID s, fw_request = fc_RequestID c,
      fw_key = fc_IdempotencyKey c, fw_hash = forwardRequestHash s c\<rparr>"

definition admit_forward ::
  "ops_service \<Rightarrow> string \<Rightarrow> IdentityContext \<Rightarrow> ForwardRecoveryCommand \<Rightarrow> station_db
     \<Rightarrow> (op_error, ForwardRecovery, station_db) tx" where
  "admit_forward s newID a c db =
     (case readDispatchTransition db (os_StationID s) (fc_OperationID c) of
        Inl e \<Rightarrow> Rollback e
      | Inr parent \<Rightarrow>
          if dt_UserID parent \<noteq> ic_UserID a \<or> dt_OrganizationID parent \<noteq> ic_OrganizationID a then Rollback NoRows
          else if in_Revision (dt_Installed parent) \<noteq> fc_ExpectedRevision c \<or> \<not> os_hasTransitionReleases s
          then Rollback (Fault Conflict)
          else
            case os_releaseReader s a (dt_Installed parent) (fc_TargetReleaseRef c) of
              Inl _ \<Rightarrow> Rollback TransitionRelease
            | Inr (source, target) \<Rightarrow>
                if source \<noteq> tr_Source parent \<or> \<not> allowedWorldForward parent target then Rollback (Fault Conflict)
                else if forward_busy db (os_StationID s) (ts_AppID (tr_Source parent)) (tr_OperationID parent)
                then Rollback (Fault Conflict)
                else
                  (case retainTransitionReferences db source target of
                     Some e \<Rightarrow> Rollback e
                   | None \<Rightarrow>
                       if list_ex (\<lambda>f. fr_RecoveryID f = newID) (d_forwards db) then Rollback DbError
                       else
                         let r = new_forward s newID c parent target
                         in Commit (Inr r) (transitionAudit parent ''forward_recovery.accepted''
                              (db\<lparr>d_forwards := d_forwards db @ [forward_row_of s a c r]\<rparr>))))"

definition find_forward_key :: "station_db \<Rightarrow> string \<Rightarrow> string \<Rightarrow> string \<Rightarrow> string \<Rightarrow> forward_row option" where
  "find_forward_key db user org station key =
     find (\<lambda>f. fw_user f = user \<and> fw_org f = org \<and> fw_station f = station \<and> fw_key f = key) (d_forwards db)"

definition acceptForward_body ::
  "ops_service \<Rightarrow> string \<Rightarrow> IdentityContext \<Rightarrow> ForwardRecoveryCommand \<Rightarrow> station_db
     \<Rightarrow> (op_error, ForwardRecovery, station_db) tx" where
  "acceptForward_body s newID a c db =
     (case find_forward_key db (ic_UserID a) (ic_OrganizationID a) (os_StationID s) (fc_IdempotencyKey c) of
        Some f \<Rightarrow>
          if fw_hash f \<noteq> forwardRequestHash s c then Rollback (Fault Conflict)
          else (case readForward s db (ic_UserID a) (ic_OrganizationID a) (fr_RecoveryID f) of
                  Inl e \<Rightarrow> Rollback e
                | Inr r \<Rightarrow> Commit (Inr r) db)
      | None \<Rightarrow> admit_forward s newID a c db)"

definition set_forward :: "string \<Rightarrow> string \<Rightarrow> station_db \<Rightarrow> station_db" where
  "set_forward recovery state db =
     db\<lparr>d_forwards := update_rows (\<lambda>f. fr_RecoveryID f = recovery) (\<lambda>f. f\<lparr>fr_State := state\<rparr>) (d_forwards db)\<rparr>"

text \<open>The verified branch: proof, conditional version update, and the parent's terminal failure.\<close>

definition forward_publish ::
  "gotime \<Rightarrow> dispatchTransition \<Rightarrow> ForwardRecovery \<Rightarrow> station_db \<Rightarrow> op_error + station_db" where
  "forward_publish now parent r db =
     (case find_proof db (fr_RecoveryID r) (fr_InputDigest r) of
        None \<Rightarrow> Inl TransitionProgressUnavailable
      | Some _ \<Rightarrow>
          map_sum id (set_transition now (fr_OperationID r) ''failed'' ''completed'')
            (publish_version now (tr_InstallationID parent) (ts_AppVersion (fr_Target r))
              (fr_InstalledVersion r) (fr_ExpectedRevision r) db))"

definition finishForward_body ::
  "ops_service \<Rightarrow> gotime \<Rightarrow> IdentityContext \<Rightarrow> ForwardRecovery \<Rightarrow> bool \<Rightarrow> station_db
     \<Rightarrow> (op_error, ForwardRecovery, station_db) tx" where
  "finishForward_body s now a r verified db =
     (case readDispatchTransition db (os_StationID s) (fr_OperationID r) of
        Inl e \<Rightarrow> Rollback e
      | Inr parent \<Rightarrow>
          (case readForward s db (ic_UserID a) (ic_OrganizationID a) (fr_RecoveryID r) of
             Inl e \<Rightarrow> Rollback e
           | Inr current \<Rightarrow>
               if fr_State current \<noteq> ''pending'' \<or> fr_InputDigest current \<noteq> fr_InputDigest r
                  \<or> inputDigest s parent \<noteq> fr_ParentInputDigest r
                  \<or> in_Revision (dt_Installed parent) \<noteq> fr_ExpectedRevision r \<or> \<not> allowedWorldForward parent (fr_Target r)
               then Rollback (Fault Conflict)
               else
                 case (if verified then forward_publish now parent r db else Inr db) of
                   Inl e \<Rightarrow> Rollback e
                 | Inr db1 \<Rightarrow>
                     let state = (if verified then ''succeeded'' else ''failed'');
                         db2 = transitionAudit parent (''forward_recovery.'' @ state) (set_forward (fr_RecoveryID r) state db1)
                     in case readForward s db2 (ic_UserID a) (ic_OrganizationID a) (fr_RecoveryID r) of
                          Inl e \<Rightarrow> Rollback e
                        | Inr out \<Rightarrow> Commit (Inr out) db2))"

text \<open>
  \<open>SubmitForwardRecovery\<close>; \<open>de_mid\<close> is what other sessions commit during the call of the
  Runtime, its own proof row included. A nil Runtime is \<open>None\<close>.
\<close>

definition SubmitForwardRecovery ::
  "ops_service \<Rightarrow> dispatch_env \<Rightarrow> string \<Rightarrow> IdentityContext \<Rightarrow> ForwardRecoveryCommand \<Rightarrow> transition_runtime option
     \<Rightarrow> station_db \<Rightarrow> (op_error + ForwardRecovery) \<times> station_db" where
  "SubmitForwardRecovery s v newID a c runtime db =
     (if \<not> canRecover s a then (Inl (Fault Denied), db)
      else if \<not> ForwardRecoveryCommand_valid (os_uuid s) c then (Inl (Fault Invalid), db)
      else if \<not> de_locked v then (Inl TransitionBusy, db)
      else
        case transact (de_read_fault v) DbError (acceptForward_body s newID a c) db of
          (Inl e, db1) \<Rightarrow> (Inl e, db1)
        | (Inr r, db1) \<Rightarrow>
            if fr_State r \<noteq> ''pending'' then (Inr r, db1)
            else
              (case runtime of
                 None \<Rightarrow> (Inl TransitionProgressUnavailable, db1)
               | Some rt \<Rightarrow>
                   let step = \<lparr>st_OperationID = fr_RecoveryID r, st_RequestID = de_request v,
                               st_InputDigest = fr_InputDigest r, st_Mode = ''verify_forward''\<rparr>
                   in case rt step of
                        Inl e \<Rightarrow> (Inl e, de_mid v db1)
                      | Inr out \<Rightarrow>
                          if TransitionStep.truncate out \<noteq> step \<or> tp_Phase out \<notin> set [''verified'', ''rejected'']
                          then (Inl TransitionProgressUnavailable, de_mid v db1)
                          else transact (de_commit_fault v) DbError
                                 (finishForward_body s (de_now v) a r (tp_Phase out = ''verified'')) (de_mid v db1)))"

end
