(* ===== verification/Ops_Invariants.thy ===== *)
theory Ops_Invariants
  imports App_Dispatch Forward_Recovery "HOL-Library.Sublist"
begin

text \<open>
  The invariant of the operations database and the guarantee every handler gives to the
  others. The invariant says that an application is claimed by at most one active operation
  or transition, and that an active transition finds its installation where its phase says
  it is. The guarantee says how a database may evolve: identities and finished work never
  change, every change of an installation increments its revision, the audit trail grows.
\<close>

section \<open>Invariant\<close>

definition status_phase_ok :: "string \<Rightarrow> string \<Rightarrow> bool" where
  "status_phase_ok status phase \<longleftrightarrow>
     ((status = ''succeeded'' \<or> status = ''failed'') = (phase = ''completed'')) \<and>
     ((status = ''accepted'') = (phase = ''accepted'')) \<and>
     ((status = ''recovery_required'') = (phase = ''recovery_required'')) \<and>
     status \<in> set [''accepted'', ''running'', ''succeeded'', ''failed'', ''recovery_required''] \<and>
     phase \<in> set [''accepted'', ''checking'', ''sealing'', ''applying'', ''verifying'', ''publishing'', ''releasing'',
                    ''restoring'', ''recovery_required'', ''completed'']"

definition row_ok :: "transition_row \<Rightarrow> bool" where
  "row_ok t \<longleftrightarrow> status_phase_ok (tr_Status t) (tr_Phase t) \<and> ts_AppID (tr_Source t) = tw_app t \<and>
     ts_AppID (tr_Target t) = tw_app t \<and> ts_AppVersion (tr_Source t) \<noteq> ts_AppVersion (tr_Target t) \<and>
     tr_ExpectedRevision t \<ge> 1 \<and> tw_source_version t = ts_AppVersion (tr_Source t) \<and>
     tw_target_version t = ts_AppVersion (tr_Target t)"

definition matches :: "transition_row \<Rightarrow> Installation \<Rightarrow> bool" where
  "matches t i \<longleftrightarrow> in_InstallationID i = tr_InstallationID t \<and> in_StationID i = tw_station t \<and>
     in_OrganizationID i = tw_org t \<and> in_AppID i = tw_app t"

definition at_source :: "transition_row \<Rightarrow> Installation \<Rightarrow> bool" where
  "at_source t i \<longleftrightarrow> in_AppVersion i = ts_AppVersion (tr_Source t) \<and> in_Revision i = tr_ExpectedRevision t"

definition at_target :: "transition_row \<Rightarrow> Installation \<Rightarrow> bool" where
  "at_target t i \<longleftrightarrow> in_AppVersion i = ts_AppVersion (tr_Target t) \<and> in_Revision i = tr_ExpectedRevision t + 1"

definition position_ok :: "transition_row \<Rightarrow> Installation \<Rightarrow> bool" where
  "position_ok t i \<longleftrightarrow> in_State i = ''installed'' \<and>
     (if tr_Phase t = ''releasing'' then at_source t i \<or> at_target t i else at_source t i)"

definition trans_ok :: "Installation list \<Rightarrow> transition_row \<Rightarrow> bool" where
  "trans_ok insts t \<longleftrightarrow> row_ok t \<and> (\<exists>i \<in> set insts. matches t i \<and> (active_row t \<longrightarrow> position_ok t i))"

definition op_ok :: "Installation list \<Rightarrow> op_row \<Rightarrow> bool" where
  "op_ok insts x \<longleftrightarrow> op_installation x = [] \<or>
     (\<exists>i \<in> set insts. in_InstallationID i = op_installation x \<and> in_StationID i = op_station x \<and> in_AppID i = op_app x)"

definition inst_key :: "Installation \<Rightarrow> string \<times> string" where
  "inst_key i = (in_StationID i, in_AppID i)"

definition insts_ok :: "Installation list \<Rightarrow> bool" where
  "insts_ok insts \<longleftrightarrow> distinct (map in_InstallationID insts) \<and>
     distinct (map inst_key (filter (\<lambda>i. in_State i \<noteq> ''removed'') insts)) \<and>
     list_all (\<lambda>i. in_Revision i \<ge> 1 \<and> in_InstallationID i \<noteq> []) insts"

text \<open>The applications that active work claims.\<close>

definition op_claims :: "op_row list \<Rightarrow> (string \<times> string) list" where
  "op_claims ops = map (\<lambda>x. (op_station x, op_app x)) (filter active_op ops)"

definition transition_claims :: "transition_row list \<Rightarrow> (string \<times> string) list" where
  "transition_claims ts = map (\<lambda>t. (tw_station t, tw_app t)) (filter active_row ts)"

definition op_key4 :: "op_row \<Rightarrow> string \<times> string \<times> string \<times> string" where
  "op_key4 x = (op_user x, op_org x, op_station x, op_key x)"

definition tr_key4 :: "transition_row \<Rightarrow> string \<times> string \<times> string \<times> string" where
  "tr_key4 t = (tw_user t, tw_org t, tw_station t, tw_key t)"

definition ops_inv :: "station_db \<Rightarrow> bool" where
  "ops_inv db \<longleftrightarrow>
     insts_ok (d_installations db) \<and>
     list_all (trans_ok (d_installations db)) (d_transitions db) \<and>
     list_all (op_ok (d_installations db)) (d_operations db) \<and>
     distinct (op_claims (d_operations db) @ transition_claims (d_transitions db)) \<and>
     distinct (map op_ID (d_operations db)) \<and> distinct (map op_key4 (d_operations db)) \<and>
     distinct (map tr_OperationID (d_transitions db)) \<and> distinct (map tr_key4 (d_transitions db))"

section \<open>Guarantee\<close>

definition same_identity :: "Installation \<Rightarrow> Installation \<Rightarrow> bool" where
  "same_identity i i' \<longleftrightarrow> in_InstallationID i' = in_InstallationID i \<and> in_StationID i' = in_StationID i \<and>
     in_OrganizationID i' = in_OrganizationID i \<and> in_AppID i' = in_AppID i \<and> in_CreatedAt i' = in_CreatedAt i"

definition inst_evolves :: "Installation \<Rightarrow> Installation \<Rightarrow> bool" where
  "inst_evolves i i' \<longleftrightarrow> i' = i \<or> (same_identity i i' \<and> in_Revision i < in_Revision i' \<and>
     (in_State i = ''removed'' \<longrightarrow> in_State i' = ''removed''))"

definition trans_evolves :: "transition_row \<Rightarrow> transition_row \<Rightarrow> bool" where
  "trans_evolves t t' \<longleftrightarrow> t' = t \<or> (active_row t \<and>
     (\<exists>status phase u. t' = t\<lparr>tr_Status := status, tr_Phase := phase, tr_UpdatedAt := u\<rparr>))"

definition op_immutable where
  "op_immutable x = (op_ID x, op_RequestID x, op_user x, op_org x, op_station x, op_app x, op_version x, op_action x,
     op_key x, op_hash x, op_expected_uid x, op_installation x)"

definition op_evolves :: "op_row \<Rightarrow> op_row \<Rightarrow> bool" where
  "op_evolves x x' \<longleftrightarrow> x' = x \<or> (active_op x \<and> op_immutable x' = op_immutable x)"

text \<open>Rows keep their place and new rows are appended.\<close>

definition rows_evolve :: "('a \<Rightarrow> 'a \<Rightarrow> bool) \<Rightarrow> 'a list \<Rightarrow> 'a list \<Rightarrow> bool" where
  "rows_evolve R xs ys \<longleftrightarrow> (\<exists>zs ws. ys = zs @ ws \<and> list_all2 R xs zs)"

definition evolves :: "station_db \<Rightarrow> station_db \<Rightarrow> bool" where
  "evolves db db' \<longleftrightarrow>
     rows_evolve inst_evolves (d_installations db) (d_installations db') \<and>
     rows_evolve trans_evolves (d_transitions db) (d_transitions db') \<and>
     rows_evolve op_evolves (d_operations db) (d_operations db') \<and>
     prefix (d_audit db) (d_audit db')"

lemma rows_evolve_refl: "(\<And>x. R x x) \<Longrightarrow> rows_evolve R xs xs"
  unfolding rows_evolve_def by (rule exI [of _ xs]) (simp add: list.rel_refl)

lemma rows_evolve_trans:
  assumes "rows_evolve R xs ys" and "rows_evolve R ys zs" and "\<And>x y z. R x y \<Longrightarrow> R y z \<Longrightarrow> R x z"
  shows "rows_evolve R xs zs"
proof -
  obtain y1 y2 where y: "ys = y1 @ y2" "list_all2 R xs y1" using assms(1) by (auto simp: rows_evolve_def)
  obtain z1 z2 where z: "zs = z1 @ z2" "list_all2 R ys z1" using assms(2) by (auto simp: rows_evolve_def)
  obtain a b where ab: "z1 = a @ b" "list_all2 R y1 a" using z(2) y(1) by (auto simp: list_all2_append1)
  have "list_all2 R xs a" using list_all2_trans [of R R R xs y1 a] assms(3) y(2) ab(2) by blast
  then show ?thesis using z(1) ab(1) unfolding rows_evolve_def by (intro exI [of _ a] exI [of _ "b @ z2"]) simp
qed

lemma rows_evolve_append: "(\<And>x. R x x) \<Longrightarrow> rows_evolve R xs (xs @ ys)"
  unfolding rows_evolve_def by (rule exI [of _ xs]) (simp add: list.rel_refl)

lemma rows_evolve_update:
  assumes "\<And>x. x \<in> set xs \<Longrightarrow> \<not> P x \<Longrightarrow> R x x" and "\<And>x. x \<in> set xs \<Longrightarrow> P x \<Longrightarrow> R x (f x)"
  shows "rows_evolve R xs (update_rows P f xs)"
  unfolding rows_evolve_def update_rows_def
  by (rule exI [of _ "map (\<lambda>r. if P r then f r else r) xs"]) (use assms in \<open>auto simp: list_all2_map2 intro: list.rel_refl_strong\<close>)

lemma list_all2_member: "list_all2 R xs ys \<Longrightarrow> x \<in> set xs \<Longrightarrow> \<exists>y \<in> set ys. R x y"
  by (induction rule: list_all2_induct) auto

lemma rows_evolve_member:
  "rows_evolve R xs ys \<Longrightarrow> x \<in> set xs \<Longrightarrow> \<exists>y \<in> set ys. R x y"
  unfolding rows_evolve_def using list_all2_member by fastforce

lemma inst_evolves_trans: "inst_evolves i j \<Longrightarrow> inst_evolves j k \<Longrightarrow> inst_evolves i k"
  by (auto simp: inst_evolves_def same_identity_def)

lemma trans_evolves_trans: "trans_evolves t t' \<Longrightarrow> trans_evolves t' t'' \<Longrightarrow> trans_evolves t t''"
  by (auto simp: trans_evolves_def) (rule exI, rule exI, rule exI, rule refl)

lemma op_evolves_trans: "op_evolves x y \<Longrightarrow> op_evolves y z \<Longrightarrow> op_evolves x z"
  by (auto simp: op_evolves_def)

lemma evolve_refls [simp]: "inst_evolves i i" "trans_evolves t t" "op_evolves x x"
  by (auto simp: inst_evolves_def trans_evolves_def op_evolves_def)

lemma evolves_refl [simp]: "evolves db db"
  by (simp add: evolves_def rows_evolve_refl)

lemma evolves_trans: "evolves a b \<Longrightarrow> evolves b c \<Longrightarrow> evolves a c"
  unfolding evolves_def
  by (meson rows_evolve_trans inst_evolves_trans trans_evolves_trans op_evolves_trans prefix_order.trans)

section \<open>Claims\<close>

lemma distinct_filter_update:
  assumes "distinct (map k (filter A xs) @ ys)" and "\<And>r. r \<in> set xs \<Longrightarrow> P r \<Longrightarrow> k (f r) = k r"
    and "\<And>r. r \<in> set xs \<Longrightarrow> P r \<Longrightarrow> A (f r) \<Longrightarrow> A r"
  shows "distinct (map k (filter A (update_rows P f xs)) @ ys)"
    and "set (map k (filter A (update_rows P f xs))) \<subseteq> set (map k (filter A xs))"
proof -
  show sub: "set (map k (filter A (update_rows P f xs))) \<subseteq> set (map k (filter A xs))"
    using assms(2,3) by (auto simp: set_update_rows split: if_splits intro: rev_image_eqI)
  show "distinct (map k (filter A (update_rows P f xs)) @ ys)"
    using assms
  proof (induction xs)
    case (Cons r xs)
    have "set (map k (filter A (update_rows P f xs))) \<subseteq> set (map k (filter A xs))"
      using Cons.prems(2,3) by (auto simp: set_update_rows split: if_splits intro: rev_image_eqI)
    with Cons show ?case by (auto split: if_splits)
  qed simp
qed

lemma claims_swap: "distinct (xs @ ys) = distinct (ys @ xs)"
  by auto

lemma active_transition_claim:
  "t \<in> set ts \<Longrightarrow> active_row t \<Longrightarrow> (tw_station t, tw_app t) \<in> set (transition_claims ts)"
  by (auto simp: transition_claims_def)

lemma active_op_claim:
  "x \<in> set ops \<Longrightarrow> active_op x \<Longrightarrow> (op_station x, op_app x) \<in> set (op_claims ops)"
  by (auto simp: op_claims_def)

section \<open>Frame lemmas\<close>

lemma ops_audit_sel [simp]:
  "d_installations (ops_audit r u g x a db) = d_installations db" "d_operations (ops_audit r u g x a db) = d_operations db"
  "d_transitions (ops_audit r u g x a db) = d_transitions db" "d_forwards (ops_audit r u g x a db) = d_forwards db"
  "d_proofs (ops_audit r u g x a db) = d_proofs db" "prefix (d_audit db) (d_audit (ops_audit r u g x a db))"
  by (simp_all add: ops_audit_def)

lemma transitionAudit_sel [simp]:
  "d_installations (transitionAudit r a db) = d_installations db" "d_operations (transitionAudit r a db) = d_operations db"
  "d_transitions (transitionAudit r a db) = d_transitions db" "d_forwards (transitionAudit r a db) = d_forwards db"
  "d_proofs (transitionAudit r a db) = d_proofs db" "prefix (d_audit db) (d_audit (transitionAudit r a db))"
  by (simp_all add: transitionAudit_def)

lemma inst_evolves_identity: "inst_evolves i i' \<Longrightarrow> same_identity i i'"
  by (auto simp: inst_evolves_def same_identity_def)

lemma op_ok_evolve:
  assumes "rows_evolve inst_evolves insts insts'" and "op_ok insts x"
  shows "op_ok insts' x"
  using assms rows_evolve_member [OF assms(1)] inst_evolves_identity
  unfolding op_ok_def same_identity_def by metis

lemma trans_ok_evolve:
  assumes "rows_evolve inst_evolves insts insts'" and "trans_ok insts t"
    and "\<And>i. active_row t \<Longrightarrow> i \<in> set insts \<Longrightarrow> matches t i \<Longrightarrow> i \<in> set insts'"
  shows "trans_ok insts' t"
proof -
  obtain i where i: "i \<in> set insts" "matches t i" "active_row t \<longrightarrow> position_ok t i" and ok: "row_ok t"
    using assms(2) by (auto simp: trans_ok_def)
  show ?thesis
  proof (cases "active_row t")
    case True
    then show ?thesis using assms(3) i ok by (auto simp: trans_ok_def)
  next
    case False
    obtain i' where "i' \<in> set insts'" "inst_evolves i i'" using rows_evolve_member [OF assms(1) i(1)] by blast
    then show ?thesis using False ok i(2) inst_evolves_identity [of i i']
      by (auto simp: trans_ok_def matches_def same_identity_def)
  qed
qed

lemma insts_ok_update:
  assumes "insts_ok insts"
    and "\<And>i. i \<in> set insts \<Longrightarrow> P i \<Longrightarrow> inst_evolves i (f i)"
  shows "insts_ok (update_rows P f insts)"
proof -
  have id: "map in_InstallationID (update_rows P f insts) = map in_InstallationID insts"
    using assms(2) inst_evolves_identity by (auto simp: update_rows_def same_identity_def)
  have ev: "inst_key (f i) = inst_key i" "in_State (f i) \<noteq> ''removed'' \<Longrightarrow> in_State i \<noteq> ''removed''"
    "in_Revision i \<le> in_Revision (f i)" "in_InstallationID (f i) = in_InstallationID i" if "i \<in> set insts" "P i" for i
    using assms(2) [OF that] by (auto simp: inst_evolves_def same_identity_def inst_key_def)
  have "distinct (map inst_key (filter (\<lambda>i. in_State i \<noteq> ''removed'') (update_rows P f insts)) @ [])"
    by (rule distinct_filter_update) (use assms(1) ev in \<open>auto simp: insts_ok_def\<close>)
  moreover have "list_all (\<lambda>i. in_Revision i \<ge> 1 \<and> in_InstallationID i \<noteq> []) (update_rows P f insts)"
    using assms(1) ev(3,4) by (fastforce simp: insts_ok_def list_all_iff set_update_rows)
  ultimately show ?thesis using assms(1) id by (simp add: insts_ok_def)
qed

lemma inst_by_id:
  assumes "insts_ok insts" and "i \<in> set insts" and "j \<in> set insts" and "in_InstallationID i = in_InstallationID j"
  shows "i = j"
  using assms by (auto simp: insts_ok_def distinct_map inj_on_def)

lemma current_by_key:
  assumes "insts_ok insts" and "i \<in> set insts" and "j \<in> set insts" and "inst_key i = inst_key j"
    and "in_State i \<noteq> ''removed''" and "in_State j \<noteq> ''removed''"
  shows "i = j"
  using assms by (auto simp: insts_ok_def distinct_map inj_on_def)

lemma find_installation_member:
  "find_installation db i station org = Some x \<Longrightarrow>
     x \<in> set (d_installations db) \<and> in_InstallationID x = i \<and> in_StationID x = station \<and> in_OrganizationID x = org"
  unfolding find_installation_def using find_Some_iff_set by fastforce

section \<open>Acceptance of a transition\<close>

lemma compatible_facts:
  assumes "compatibleTransition c i source target"
  shows "TransitionSnapshot_valid source" "TransitionSnapshot_valid target" "ts_AppID source = in_AppID i"
    "ts_AppID target = in_AppID i" "ts_AppVersion source = in_AppVersion i" "ts_AppVersion source = tc_SourceVersion c"
    "ts_ReleaseRef target = tc_TargetReleaseRef c"
  using assms by (auto simp: compatibleTransition_def split: if_splits)

lemma snapshot_version: "TransitionSnapshot_valid s \<Longrightarrow> validTransitionVersion (ts_AppVersion s)"
  by (auto simp: TransitionSnapshot_valid_def split: if_splits)

lemma compatible_versions_differ:
  assumes "compatibleTransition c i source target" and "tc_Action c = ''upgrade'' \<or> tc_Action c = ''rollback''"
  shows "ts_AppVersion source \<noteq> ts_AppVersion target"
proof
  assume eq: "ts_AppVersion source = ts_AppVersion target"
  have v: "validTransitionVersion (ts_AppVersion target)" using snapshot_version compatible_facts(2) [OF assms(1)] by blast
  have "compare_parts xs xs = Some 0" for xs by (induction xs) auto
  then have "compareTransitionVersions (ts_AppVersion target) (ts_AppVersion source) = Some 0"
    by (simp add: compareTransitionVersions_def eq)
  then show False using assms by (auto simp: compatibleTransition_def split: if_splits)
qed

lemma accept_effect:
  assumes "accept_transition s now newID actor c reader db = Commit r db'"
  obtains i source target where
    "find_installation db (tc_InstallationID c) (os_StationID s) (ic_OrganizationID actor) = Some i"
    "in_State i = ''installed''" "in_Revision i = tc_ExpectedRevision c" "in_AppVersion i = tc_SourceVersion c"
    "\<not> transition_busy db (os_StationID s) (in_AppID i) (tc_InstallationID c)"
    "compatibleTransition c i source target" "retainTransitionReferences db source target = None"
    "newID \<notin> tr_OperationID ` set (d_transitions db)"
    "db' = ops_audit (tc_RequestID c) (ic_UserID actor) (ic_OrganizationID actor) (Some (ic_SessionID actor))
       (''app.'' @ tc_Action c @ ''.accepted'')
       (db\<lparr>d_transitions := d_transitions db @ [accepted_row s now newID actor c (in_AppID i) source target]\<rparr>)"
proof -
  from assms obtain i where i: "find_installation db (tc_InstallationID c) (os_StationID s) (ic_OrganizationID actor) = Some i"
    by (simp add: accept_transition_def split: option.split_asm)
  note step1 = assms [unfolded accept_transition_def i option.case]
  have c: "in_State i = ''installed''" "in_Revision i = tc_ExpectedRevision c" "in_AppVersion i = tc_SourceVersion c"
    "\<not> transition_busy db (os_StationID s) (in_AppID i) (tc_InstallationID c)"
    using step1 by (simp_all split: if_split_asm)
  from step1 c obtain rd where rd: "(if reader = None then os_TransitionReleases s else reader) = Some rd"
    by (simp split: option.split_asm)
  from step1 c rd obtain source target where st: "rd actor i (tc_TargetReleaseRef c) = Inr (source, target)"
    by (simp split: sum.split_asm prod.split_asm)
  have d: "compatibleTransition c i source target" "retainTransitionReferences db source target = None"
    "\<not> list_ex (\<lambda>t. tr_OperationID t = newID) (d_transitions db)"
    using step1 c rd st by (simp_all split: if_split_asm option.split_asm)
  have "db' = ops_audit (tc_RequestID c) (ic_UserID actor) (ic_OrganizationID actor) (Some (ic_SessionID actor))
       (''app.'' @ tc_Action c @ ''.accepted'')
       (db\<lparr>d_transitions := d_transitions db @ [accepted_row s now newID actor c (in_AppID i) source target]\<rparr>)"
    using step1 c rd st d by (simp add: Let_def split: sum.split_asm)
  then show ?thesis using that i c d by (auto simp: list_ex_iff)
qed

lemma no_claim:
  assumes inv: "ops_inv db" and i: "i \<in> set (d_installations db)" "in_State i = ''installed''"
    and t: "t \<in> set (d_transitions db)" "active_row t" and key: "(tw_station t, tw_app t) = inst_key i"
  shows "tr_InstallationID t = in_InstallationID i"
proof -
  obtain j where j: "j \<in> set (d_installations db)" "matches t j" "position_ok t j"
    using inv t by (auto simp: ops_inv_def list_all_iff trans_ok_def)
  have "inst_key j = inst_key i" using key j(2) by (simp add: matches_def inst_key_def)
  then have "j = i" using inv i j by (intro current_by_key [of "d_installations db"]) (auto simp: ops_inv_def position_ok_def)
  then show ?thesis using j(2) by (simp add: matches_def)
qed

lemma accept_preserves:
  assumes "accept_transition s now newID actor c reader db = Commit r db'" and inv: "ops_inv db"
    and valid: "TransitionCommand_valid (os_uuid s) c"
    and key: "find_by_key db (ic_UserID actor) (ic_OrganizationID actor) (os_StationID s) (tc_IdempotencyKey c) = None"
  shows "ops_inv db' \<and> evolves db db'"
proof -
  from assms(1) obtain i source target where
    i: "find_installation db (tc_InstallationID c) (os_StationID s) (ic_OrganizationID actor) = Some i"
    "in_State i = ''installed''" "in_Revision i = tc_ExpectedRevision c" "in_AppVersion i = tc_SourceVersion c"
    and busy: "\<not> transition_busy db (os_StationID s) (in_AppID i) (tc_InstallationID c)"
    and comp: "compatibleTransition c i source target"
    and new: "newID \<notin> tr_OperationID ` set (d_transitions db)"
    and db': "db' = ops_audit (tc_RequestID c) (ic_UserID actor) (ic_OrganizationID actor) (Some (ic_SessionID actor))
       (''app.'' @ tc_Action c @ ''.accepted'')
       (db\<lparr>d_transitions := d_transitions db @ [accepted_row s now newID actor c (in_AppID i) source target]\<rparr>)"
    by (rule accept_effect)
  let ?row = "accepted_row s now newID actor c (in_AppID i) source target"
  note im = find_installation_member [OF i(1)]
  note cf = compatible_facts [OF comp]
  have act: "tc_Action c = ''upgrade'' \<or> tc_Action c = ''rollback''" "tc_ExpectedRevision c \<ge> 1"
    using valid by (auto simp: TransitionCommand_valid_def)
  have ok: "trans_ok (d_installations db) ?row"
    using im i(2-4) cf act compatible_versions_differ [OF comp act(1)]
    by (auto simp: trans_ok_def row_ok_def accepted_row_def status_phase_ok_def matches_def position_ok_def at_source_def)
  have "(os_StationID s, in_AppID i) \<notin> set (op_claims (d_operations db))"
    using busy by (auto simp: transition_busy_def op_claims_def list_ex_iff)
  moreover have "(os_StationID s, in_AppID i) \<notin> set (transition_claims (d_transitions db))"
  proof
    assume "(os_StationID s, in_AppID i) \<in> set (transition_claims (d_transitions db))"
    then obtain t where t: "t \<in> set (d_transitions db)" "active_row t" "(tw_station t, tw_app t) = inst_key i"
      using im by (auto simp: transition_claims_def inst_key_def)
    from no_claim [OF inv _ i(2) t] im have "tr_InstallationID t = tc_InstallationID c" by simp
    with t busy show False by (auto simp: transition_busy_def list_ex_iff)
  qed
  ultimately have claims: "distinct (op_claims (d_operations db) @ transition_claims (d_transitions db @ [?row]))"
    using inv by (auto simp: ops_inv_def transition_claims_def accepted_row_def active_row_def)
  have "tr_key4 ?row \<notin> tr_key4 ` set (d_transitions db)"
    using key by (auto simp: find_by_key_def find_None_set tr_key4_def accepted_row_def)
  then have "ops_inv db'"
    using inv ok claims new by (simp add: ops_inv_def db') (simp add: accepted_row_def)
  moreover have "evolves db db'"
    using db' by (auto simp: evolves_def rows_evolve_refl rows_evolve_append ops_audit_def)
  ultimately show ?thesis by blast
qed

lemma SubmitTransition_preserves:
  assumes "ops_inv db"
  shows "ops_inv (snd (SubmitTransition s f now newID actor c reader db)) \<and>
    evolves db (snd (SubmitTransition s f now newID actor c reader db))"
  using assms accept_preserves [of s now newID actor c reader db]
  by (auto simp: SubmitTransition_def SubmitTransition_body_def split: tx.splits option.splits sum.splits if_splits)

section \<open>Dispatch of a transition\<close>

lemma dispatch_sel [simp]:
  "tr_OperationID (with_installed t u g i) = tr_OperationID t" "tr_InstallationID (with_installed t u g i) = tr_InstallationID t"
  "tr_RequestID (with_installed t u g i) = tr_RequestID t" "tr_Action (with_installed t u g i) = tr_Action t"
  "tr_ExpectedRevision (with_installed t u g i) = tr_ExpectedRevision t" "tr_Source (with_installed t u g i) = tr_Source t"
  "tr_Target (with_installed t u g i) = tr_Target t" "tr_Status (with_installed t u g i) = tr_Status t"
  "tr_Phase (with_installed t u g i) = tr_Phase t" "dt_UserID (with_installed t u g i) = u"
  "dt_OrganizationID (with_installed t u g i) = g" "dt_Installed (with_installed t u g i) = i"
  "tr_CreatedAt (with_installed t u g i) = tr_CreatedAt t" "tr_UpdatedAt (with_installed t u g i) = tr_UpdatedAt t"
  by (simp_all add: with_installed_def Transition.extend_def)

lemma truncate_sel [simp]:
  "tr_OperationID (Transition.truncate t) = tr_OperationID t" "tr_InstallationID (Transition.truncate t) = tr_InstallationID t"
  "tr_RequestID (Transition.truncate t) = tr_RequestID t" "tr_Action (Transition.truncate t) = tr_Action t"
  "tr_ExpectedRevision (Transition.truncate t) = tr_ExpectedRevision t" "tr_Source (Transition.truncate t) = tr_Source t"
  "tr_Target (Transition.truncate t) = tr_Target t" "tr_Status (Transition.truncate t) = tr_Status t"
  "tr_Phase (Transition.truncate t) = tr_Phase t"
  by (simp_all add: Transition.truncate_def)

lemma trans_by_id:
  assumes "ops_inv db" and "t \<in> set (d_transitions db)" and "t' \<in> set (d_transitions db)" and "tr_OperationID t = tr_OperationID t'"
  shows "t = t'"
  using assms by (auto simp: ops_inv_def distinct_map inj_on_def)

text \<open>What a dispatch reads is one row and its installation.\<close>

lemma readDispatch_row:
  assumes "readDispatchTransition db station operation = Inr r" and inv: "ops_inv db"
  obtains t i where "t \<in> set (d_transitions db)" "i \<in> set (d_installations db)" "tr_OperationID t = operation"
    "tw_station t = station" "matches t i" "r = with_installed (Transition.truncate t) (tw_user t) (tw_org t) i"
    "active_row t \<longrightarrow> position_ok t i" "row_ok t" "TransitionSnapshot_valid (tr_Source t)" "TransitionSnapshot_valid (tr_Target t)"
    "tr_ExpectedRevision t \<le> MaxInt64 - 2"
proof -
  obtain t where t: "find (\<lambda>t. tr_OperationID t = operation \<and> tw_station t = station) (d_transitions db) = Some t"
    using assms(1) by (simp add: readDispatchTransition_def split: option.split_asm)
  note step1 = assms(1) [unfolded readDispatchTransition_def t option.case]
  have tm: "t \<in> set (d_transitions db)" "tr_OperationID t = operation" "tw_station t = station"
    using find_Some_iff_set [OF t] by auto
  obtain u where u: "readTransition db (tw_user t) (tw_org t) station operation = Inr u"
    using step1 by (simp split: sum.split_asm)
  obtain t2 where f: "find (\<lambda>x. tr_OperationID x = operation \<and> tw_user x = tw_user t \<and> tw_org x = tw_org t \<and> tw_station x = station)
      (d_transitions db) = Some t2" and t2: "u = Transition.truncate t2"
    "TransitionSnapshot_valid (tr_Source t2)" "TransitionSnapshot_valid (tr_Target t2)"
    using u by (auto simp: readTransition_def split: option.split_asm if_split_asm)
  have t2m: "t2 \<in> set (d_transitions db)" "tr_OperationID t2 = operation" using find_Some_iff_set [OF f] by auto
  have "t2 = t" using trans_by_id [OF inv t2m(1) tm(1)] t2m(2) tm(2) by simp
  note t2 = t2 [unfolded this]
  obtain i where i: "find_installation db (tr_InstallationID t) station (tw_org t) = Some i"
    using step1 u t2 by (simp split: option.split_asm)
  note im = find_installation_member [OF i]
  have r: "r = with_installed u (tw_user t) (tw_org t) i" "tr_ExpectedRevision t \<le> MaxInt64 - 2"
    using step1 u i t2 by (simp_all split: if_split_asm)
  have ok: "trans_ok (d_installations db) t" using inv tm(1) by (auto simp: ops_inv_def list_all_iff)
  then obtain j where j: "j \<in> set (d_installations db)" "matches t j" "active_row t \<longrightarrow> position_ok t j" "row_ok t"
    by (auto simp: trans_ok_def)
  have "insts_ok (d_installations db)" using inv by (simp add: ops_inv_def)
  then have "j = i" by (rule inst_by_id) (use j im in \<open>auto simp: matches_def\<close>)
  with that tm im j r t2 show ?thesis by blast
qed

text \<open>
  The rows of a commit: the transition changes its status and phase, and a published
  version changes the installation that was read.
\<close>

lemma commit_effect:
  assumes "commit_body s now prior status phase version db = Commit r db'"
  obtains current where
    "readDispatchTransition db (os_StationID s) (tr_OperationID prior) = Inr current"
    "tr_Status current = tr_Status prior" "tr_Phase current = tr_Phase prior" "inputDigest s current = inputDigest s prior"
    "dt_Installed current = dt_Installed prior"
    "d_transitions db' = update_rows (\<lambda>t. tr_OperationID t = tr_OperationID current)
       (\<lambda>t. t\<lparr>tr_Status := status, tr_Phase := phase, tr_UpdatedAt := pg_time now\<rparr>) (d_transitions db)"
    "d_installations db' = (if version = [] then d_installations db else
       update_rows (\<lambda>x. in_InstallationID x = tr_InstallationID current \<and> in_AppVersion x = in_AppVersion (dt_Installed current) \<and>
           in_Revision x = in_Revision (dt_Installed current) \<and> in_State x = ''installed'')
         (\<lambda>x. x\<lparr>in_AppVersion := version, in_Revision := in_Revision (dt_Installed current) + 1, in_UpdatedAt := pg_time now\<rparr>)
         (d_installations db))"
    "d_operations db' = d_operations db" "d_forwards db' = d_forwards db" "d_proofs db' = d_proofs db"
    "prefix (d_audit db) (d_audit db')"
proof -
  obtain current where cur: "readDispatchTransition db (os_StationID s) (tr_OperationID prior) = Inr current"
    using assms by (simp add: commit_body_def split: sum.split_asm)
  note step1 = assms [unfolded commit_body_def cur sum.case]
  have same: "tr_Status current = tr_Status prior" "tr_Phase current = tr_Phase prior" "inputDigest s current = inputDigest s prior"
    "dt_Installed current = dt_Installed prior"
    using step1 by (simp_all split: if_split_asm)
  let ?pub = "publish_version now (tr_InstallationID current) version
     (in_AppVersion (dt_Installed current)) (in_Revision (dt_Installed current)) db"
  let ?inst = "if version = [] then d_installations db else
       update_rows (\<lambda>x. in_InstallationID x = tr_InstallationID current \<and> in_AppVersion x = in_AppVersion (dt_Installed current) \<and>
           in_Revision x = in_Revision (dt_Installed current) \<and> in_State x = ''installed'')
         (\<lambda>x. x\<lparr>in_AppVersion := version, in_Revision := in_Revision (dt_Installed current) + 1, in_UpdatedAt := pg_time now\<rparr>)
         (d_installations db)"
  obtain db1 where db1: "(if version = [] then Inr db else map_sum id (transitionAudit current
       (if version = ts_AppVersion (tr_Source current) then ''restored'' else ''published'')) ?pub) = Inr db1"
    using step1 same by (simp split: sum.split_asm)
  have p1: "d_installations db1 = ?inst" "d_transitions db1 = d_transitions db" "d_operations db1 = d_operations db"
    "d_forwards db1 = d_forwards db" "d_proofs db1 = d_proofs db" "prefix (d_audit db) (d_audit db1)"
    using db1 by (cases "version = []"; cases ?pub; auto simp: publish_version_def bump_def transitionAudit_def ops_audit_def Let_def
        split: if_split_asm option.split_asm)+
  define db2 where "db2 = (if phase = ''completed'' then transitionAudit current status db1 else db1)"
  have p2: "d_installations db2 = ?inst" "d_transitions db2 = d_transitions db" "d_operations db2 = d_operations db"
    "d_forwards db2 = d_forwards db" "d_proofs db2 = d_proofs db" "prefix (d_audit db) (d_audit db2)"
    using p1 by (auto simp: db2_def transitionAudit_def ops_audit_def prefix_def)
  have "db' = set_transition now (tr_OperationID current) status phase db2"
    using step1 same db1 by (auto simp: Let_def db2_def split: sum.split_asm)
  then show ?thesis using that cur same p2 by (simp add: set_transition_def)
qed

definition legal_commit :: "dispatchTransition \<Rightarrow> string \<Rightarrow> string \<Rightarrow> string \<Rightarrow> bool" where
  "legal_commit r status phase version \<longleftrightarrow> status_phase_ok status phase \<and>
     (version = [] \<and> (status = ''succeeded'' \<or> status = ''failed'' \<or> phase = ''releasing'' \<or> dispatch_installationState r = Original) \<or>
      version = ts_AppVersion (tr_Target r) \<and> version \<noteq> [] \<and> dispatch_installationState r = Original \<and>
      phase = ''releasing'' \<and> status = ''running'')"

text \<open>An active transition of a consistent database finds its installation at the source or at the target.\<close>

lemma position_state:
  assumes "position_ok t i" and "row_ok t" and "matches t i"
  shows "dispatch_installationState (with_installed (Transition.truncate t) u g i) = (if at_source t i then Original else AtTarget)"
    and "at_source t i \<Longrightarrow> \<not> at_target t i" and "at_source t i \<or> (at_target t i \<and> tr_Phase t = ''releasing'')"
  using assms
  by (auto simp: position_ok_def dispatch_installationState_def row_ok_def matches_def at_source_def at_target_def Let_def
      split: if_splits)

lemma index_of_member: "0 \<le> index_of xs x \<longleftrightarrow> x \<in> set xs"
  by (induction xs) (auto simp: Let_def)

lemma decision_legal:
  assumes "transition_decision (Transition.truncate r) inst (dispatch_mode (tr_Phase r) inst) p = Some (status, phase, version)"
    and "inst = dispatch_installationState r" and "inst = Original \<or> (inst = AtTarget \<and> tr_Phase r = ''releasing'')"
    and "status_phase_ok (tr_Status r) (tr_Phase r)" and "tr_Status r \<noteq> ''succeeded''" and "tr_Status r \<noteq> ''failed''"
    and "tr_Phase r \<noteq> ''accepted''" and "tr_Phase r \<noteq> ''recovery_required''" and "ts_AppVersion (tr_Target r) \<noteq> []"
  shows "legal_commit r status phase version"
proof -
  have run: "tr_Status r = ''running''" "tr_Phase r \<in> set stages \<or> tr_Phase r = ''releasing'' \<or> tr_Phase r = ''restoring''"
    using assms(4-8) by (auto simp: status_phase_ok_def stages_def)
  show ?thesis
  proof (cases "dispatch_mode (tr_Phase r) inst = ''prepare''")
    case False
    then show ?thesis using assms(1-3) run
      by (auto simp: transition_decision_def dispatch_mode_def legal_commit_def status_phase_ok_def split: if_splits)
  next
    case True
    then have st: "tr_Phase r \<in> set stages" "inst = Original" using run assms(3) by (auto simp: dispatch_mode_def split: if_splits)
    have "index_of (take 4 stages) p \<ge> 0 \<Longrightarrow> p \<in> set (take 4 stages)" by (simp add: index_of_member)
    with st True assms(1,2,9) show ?thesis
      by (auto simp: transition_decision_def legal_commit_def status_phase_ok_def stages_def Let_def split: if_splits)
  qed
qed

lemma valid_version_nonempty: "validTransitionVersion v \<Longrightarrow> v \<noteq> []"
  by (auto simp: validTransitionVersion_def transitionVersion_def)

lemma trans_evolves_set: "active_row t \<Longrightarrow> trans_evolves t (t\<lparr>tr_Status := a, tr_Phase := b, tr_UpdatedAt := u\<rparr>)"
  unfolding trans_evolves_def by (rule disjI2, rule conjI, assumption, rule exI, rule exI, rule exI, rule refl)

text \<open>
  The general step of a transition row: the row \<open>t\<close> with its installation \<open>i\<close> gets a new
  status and phase, and the installation either stays or changes as \<open>f\<close> says.
\<close>

lemma claimed_installation:
  assumes inv: "ops_inv db" and t: "t \<in> set (d_transitions db)" "active_row t" and i: "matches t i"
    and t2: "t2 \<in> set (d_transitions db)" "active_row t2" "matches t2 i"
  shows "t2 = t"
proof -
  have "(tw_station t2, tw_app t2) = (tw_station t, tw_app t)" using i t2(3) by (simp add: matches_def)
  moreover have "distinct (map (\<lambda>t. (tw_station t, tw_app t)) (filter active_row (d_transitions db)))"
    using inv by (simp add: ops_inv_def transition_claims_def)
  ultimately show ?thesis using t t2 by (auto simp: distinct_map inj_on_def)
qed

lemma step_row_preserves:
  assumes inv: "ops_inv db" and t: "t \<in> set (d_transitions db)" "active_row t" and ok: "row_ok t"
    and i: "i \<in> set (d_installations db)" "matches t i"
    and sp: "status_phase_ok status phase"
    and ts: "d_transitions db' = update_rows (\<lambda>x. tr_OperationID x = tr_OperationID t)
       (\<lambda>x. x\<lparr>tr_Status := status, tr_Phase := phase, tr_UpdatedAt := u\<rparr>) (d_transitions db)"
    and rest: "d_operations db' = d_operations db" "prefix (d_audit db) (d_audit db')"
    and insts: "d_installations db' = update_rows (\<lambda>x. Q \<and> in_InstallationID x = in_InstallationID i) f (d_installations db)"
    and f: "Q \<Longrightarrow> inst_evolves i (f i)"
    and pos: "status \<noteq> ''succeeded'' \<and> status \<noteq> ''failed'' \<Longrightarrow>
       position_ok (t\<lparr>tr_Status := status, tr_Phase := phase, tr_UpdatedAt := u\<rparr>) (if Q then f i else i)"
  shows "ops_inv db' \<and> evolves db db'"
proof -
  let ?t = "t\<lparr>tr_Status := status, tr_Phase := phase, tr_UpdatedAt := u\<rparr>"
  have io: "insts_ok (d_installations db)" using inv by (simp add: ops_inv_def)
  have only: "x = i" if "x \<in> set (d_installations db)" "in_InstallationID x = in_InstallationID i" for x
    using inst_by_id [OF io that(1) i(1) that(2)] .
  have evi: "inst_evolves x (f x)" if "x \<in> set (d_installations db)" "Q \<and> in_InstallationID x = in_InstallationID i" for x
    using only f that by auto
  have rie: "rows_evolve inst_evolves (d_installations db) (d_installations db')"
    unfolding insts by (rule rows_evolve_update) (use evi in auto)
  have io': "insts_ok (d_installations db')" unfolding insts by (rule insts_ok_update [OF io evi])
  have tonly: "x = t" if "x \<in> set (d_transitions db)" "tr_OperationID x = tr_OperationID t" for x
    using trans_by_id [OF inv that(1) t(1) that(2)] .
  have tset: "x = ?t \<or> (x \<in> set (d_transitions db) \<and> x \<noteq> t)" if x: "x \<in> set (d_transitions db')" for x
  proof -
    from x obtain y where y: "y \<in> set (d_transitions db)" and xy: "x = (if tr_OperationID y = tr_OperationID t
        then y\<lparr>tr_Status := status, tr_Phase := phase, tr_UpdatedAt := u\<rparr> else y)"
      unfolding ts set_update_rows by blast
    show ?thesis
    proof (cases "tr_OperationID y = tr_OperationID t")
      case True
      with tonly [OF y] xy show ?thesis by simp
    next
      case False
      with xy y show ?thesis by auto
    qed
  qed
  have i': "(if Q then f i else i) \<in> set (d_installations db')" unfolding insts using i(1) by (auto simp: set_update_rows)
  have idi: "same_identity i (if Q then f i else i)" using inst_evolves_identity [OF f] by (simp add: same_identity_def)
  have m': "matches ?t (if Q then f i else i)" using idi i(2) unfolding matches_def same_identity_def by simp
  have r': "row_ok ?t" using ok sp by (simp add: row_ok_def)
  have "active_row ?t \<longrightarrow> position_ok ?t (if Q then f i else i)" using pos by (simp add: active_row_def)
  with i' m' r' have tok: "trans_ok (d_installations db') ?t" unfolding trans_ok_def by blast
  have others: "trans_ok (d_installations db') x" if x: "x \<in> set (d_transitions db)" "x \<noteq> t" for x
  proof (rule trans_ok_evolve [OF rie])
    show "trans_ok (d_installations db) x" using inv x by (auto simp: ops_inv_def list_all_iff)
    fix j assume j: "active_row x" "j \<in> set (d_installations db)" "matches x j"
    have "in_InstallationID j \<noteq> in_InstallationID i"
    proof
      assume "in_InstallationID j = in_InstallationID i"
      then have "j = i" using only j(2) by simp
      then have "x = t" using claimed_installation [OF inv t i(2) x(1) j(1)] j(3) by simp
      with x(2) show False by simp
    qed
    then show "j \<in> set (d_installations db')" unfolding insts using j(2) by (force simp: set_update_rows)
  qed
  have tr: "list_all (trans_ok (d_installations db')) (d_transitions db')"
    unfolding list_all_iff using tset tok others by blast
  have opsok: "list_all (op_ok (d_installations db')) (d_operations db')"
    using inv op_ok_evolve [OF rie] by (auto simp: ops_inv_def list_all_iff rest)
  have "distinct (transition_claims (d_transitions db') @ op_claims (d_operations db'))"
    unfolding transition_claims_def ts rest
  proof (rule distinct_filter_update)
    show "distinct (map (\<lambda>t. (tw_station t, tw_app t)) (filter active_row (d_transitions db)) @ op_claims (d_operations db))"
      using inv by (auto simp: ops_inv_def transition_claims_def)
    show "active_row r" if "r \<in> set (d_transitions db)" "tr_OperationID r = tr_OperationID t" for r
      using tonly [OF that] t(2) by simp
  qed simp
  then have cl: "distinct (op_claims (d_operations db') @ transition_claims (d_transitions db'))" by (rule claims_swap [THEN iffD1])
  have "map tr_OperationID (d_transitions db') = map tr_OperationID (d_transitions db)"
    "map tr_key4 (d_transitions db') = map tr_key4 (d_transitions db)"
    unfolding ts by (simp_all add: map_update_rows tr_key4_def)
  with io' tr opsok cl inv have "ops_inv db'" by (simp add: ops_inv_def rest)
  moreover have "rows_evolve trans_evolves (d_transitions db) (d_transitions db')"
    unfolding ts by (rule rows_evolve_update) (simp, metis tonly t(2) trans_evolves_set)
  ultimately show ?thesis using rie rest by (simp add: evolves_def rows_evolve_refl)
qed

lemma update_rows_cong:
  "(\<And>x. x \<in> set xs \<Longrightarrow> P x = Q x) \<Longrightarrow> (\<And>x. x \<in> set xs \<Longrightarrow> Q x \<Longrightarrow> f x = g x) \<Longrightarrow> update_rows P f xs = update_rows Q g xs"
  by (simp add: update_rows_def)

lemma update_rows_False [simp]: "update_rows (\<lambda>x. False) f xs = xs"
  by (simp add: update_rows_def)

text \<open>What a dispatch read stays true of the row while others commit.\<close>

lemma prior_row:
  assumes inv0: "ops_inv db0" and rd: "readDispatchTransition db0 station op = Inr prior" and ev: "evolves db0 db"
    and inv: "ops_inv db" and cur: "readDispatchTransition db station op = Inr current"
  shows "tr_Source current = tr_Source prior \<and> tr_Target current = tr_Target prior \<and>
    tr_ExpectedRevision current = tr_ExpectedRevision prior \<and> tr_InstallationID current = tr_InstallationID prior"
proof -
  from readDispatch_row [OF rd inv0] obtain t0 i0 where t0: "t0 \<in> set (d_transitions db0)" "tr_OperationID t0 = op"
    "prior = with_installed (Transition.truncate t0) (tw_user t0) (tw_org t0) i0" by metis
  from readDispatch_row [OF cur inv] obtain t i where t: "t \<in> set (d_transitions db)" "tr_OperationID t = op"
    "current = with_installed (Transition.truncate t) (tw_user t) (tw_org t) i" by metis
  obtain t' where t': "t' \<in> set (d_transitions db)" "trans_evolves t0 t'"
    using ev t0(1) rows_evolve_member by (fastforce simp: evolves_def)
  have "tr_OperationID t' = tr_OperationID t" using t'(2) t0(2) t(2) by (auto simp: trans_evolves_def)
  then have "t' = t" using trans_by_id [OF inv t'(1) t(1)] by simp
  with t'(2) t0(3) t(3) show ?thesis by (auto simp: trans_evolves_def)
qed

lemma commit_preserves:
  assumes inv0: "ops_inv db0" and rd: "readDispatchTransition db0 (os_StationID s) (tr_OperationID prior) = Inr prior"
    and act: "tr_Status prior \<noteq> ''succeeded''" "tr_Status prior \<noteq> ''failed''" and ev: "evolves db0 db" and inv: "ops_inv db"
    and legal: "legal_commit prior status phase version" and c: "commit_body s now prior status phase version db = Commit r db'"
  shows "ops_inv db' \<and> evolves db db'"
proof -
  from c obtain current where cur: "readDispatchTransition db (os_StationID s) (tr_OperationID prior) = Inr current"
    and same: "tr_Status current = tr_Status prior" "dt_Installed current = dt_Installed prior" "tr_Phase current = tr_Phase prior"
    and ts: "d_transitions db' = update_rows (\<lambda>t. tr_OperationID t = tr_OperationID current)
       (\<lambda>t. t\<lparr>tr_Status := status, tr_Phase := phase, tr_UpdatedAt := pg_time now\<rparr>) (d_transitions db)"
    and insts: "d_installations db' = (if version = [] then d_installations db else
       update_rows (\<lambda>x. in_InstallationID x = tr_InstallationID current \<and> in_AppVersion x = in_AppVersion (dt_Installed current) \<and>
           in_Revision x = in_Revision (dt_Installed current) \<and> in_State x = ''installed'')
         (\<lambda>x. x\<lparr>in_AppVersion := version, in_Revision := in_Revision (dt_Installed current) + 1, in_UpdatedAt := pg_time now\<rparr>)
         (d_installations db))"
    and rest: "d_operations db' = d_operations db" "prefix (d_audit db) (d_audit db')"
    by (rule commit_effect)
  from readDispatch_row [OF cur inv] obtain t i where t: "t \<in> set (d_transitions db)" "i \<in> set (d_installations db)"
    "tr_OperationID t = tr_OperationID prior" "matches t i" "active_row t \<longrightarrow> position_ok t i" "row_ok t"
    and eq: "current = with_installed (Transition.truncate t) (tw_user t) (tw_org t) i" by metis
  have imm: "tr_Source t = tr_Source prior" "tr_Target t = tr_Target prior" "tr_ExpectedRevision t = tr_ExpectedRevision prior"
    using prior_row [OF inv0 rd ev inv cur] eq by auto
  have st: "active_row t" using act same eq by (simp add: active_row_def)
  then have pos: "position_ok t i" using t(5) by simp
  have ii: "i = dt_Installed prior" using same eq by simp
  have orig: "at_source t i" if "dispatch_installationState prior = Original"
    using that unfolding ii by (auto simp: dispatch_installationState_def at_source_def imm Let_def split: if_splits)
  have io: "insts_ok (d_installations db)" using inv by (simp add: ops_inv_def)
  let ?Q = "version \<noteq> []"
  let ?f = "\<lambda>x. x\<lparr>in_AppVersion := version, in_Revision := in_Revision i + 1, in_UpdatedAt := pg_time now\<rparr>"
  have insts': "d_installations db' = update_rows (\<lambda>x. ?Q \<and> in_InstallationID x = in_InstallationID i) ?f (d_installations db)"
  proof (cases "version = []")
    case False
    have "in_State i = ''installed''" "tr_InstallationID current = in_InstallationID i"
      using pos t(4) eq by (simp_all add: position_ok_def matches_def)
    then show ?thesis unfolding insts using False eq inst_by_id [OF io _ t(2)]
      by (auto intro!: update_rows_cong)
  qed (simp add: insts)
  show ?thesis
  proof (rule step_row_preserves [OF inv t(1) st t(6) t(2,4) _ _ rest insts'])
    show "status_phase_ok status phase" using legal by (simp add: legal_commit_def)
    show "d_transitions db' = update_rows (\<lambda>x. tr_OperationID x = tr_OperationID t)
       (\<lambda>x. x\<lparr>tr_Status := status, tr_Phase := phase, tr_UpdatedAt := pg_time now\<rparr>) (d_transitions db)"
      using ts eq by simp
    show "inst_evolves i (?f i)" by (simp add: inst_evolves_def same_identity_def)
    show "position_ok (t\<lparr>tr_Status := status, tr_Phase := phase, tr_UpdatedAt := pg_time now\<rparr>) (if ?Q then ?f i else i)"
      if "status \<noteq> ''succeeded'' \<and> status \<noteq> ''failed''"
      using legal that pos orig
      by (auto simp: legal_commit_def position_ok_def at_source_def at_target_def imm split: if_splits)
  qed
qed

lemma readDispatch_id: "readDispatchTransition db station op = Inr r \<Longrightarrow> ops_inv db \<Longrightarrow> tr_OperationID r = op"
  by (erule readDispatch_row) auto

lemma Dispatch_preserves:
  assumes inv: "ops_inv db" and mid: "ops_inv (de_mid v db)" "evolves db (de_mid v db)"
  shows "ops_inv (snd (DispatchTransition s v op runtime db)) \<and> evolves db (snd (DispatchTransition s v op runtime db))"
proof (cases "readDispatchTransition db (os_StationID s) op")
  case (Inl e)
  then show ?thesis using inv by (simp add: DispatchTransition_def)
next
  case (Inr r)
  note rid = readDispatch_id [OF Inr inv]
  have com: "ops_inv (snd (commitTransition s f now r status phase version (de_mid v db))) \<and>
      evolves db (snd (commitTransition s f now r status phase version (de_mid v db)))"
    if "legal_commit r status phase version" "tr_Status r \<noteq> ''succeeded''" "tr_Status r \<noteq> ''failed''" for f now status phase version
    using commit_preserves [OF inv _ that(2,3) mid(2,1) that(1)] Inr rid mid evolves_trans [OF mid(2)]
    by (auto simp: commitTransition_def split: tx.splits)
  from readDispatch_row [OF Inr inv] obtain t i where t: "matches t i" "active_row t \<longrightarrow> position_ok t i" "row_ok t"
    "TransitionSnapshot_valid (tr_Target t)" and eq: "r = with_installed (Transition.truncate t) (tw_user t) (tw_org t) i" by metis
  have sp: "status_phase_ok (tr_Status r) (tr_Phase r)" using t(3) eq by (simp add: row_ok_def)
  have ne: "ts_AppVersion (tr_Target r) \<noteq> []" using valid_version_nonempty snapshot_version t(4) eq by auto
  consider "tr_Status r = ''succeeded'' \<or> tr_Status r = ''failed'' \<or> forward_pending db op"
    | "active_row t" "\<not> forward_pending db op" using eq by (auto simp: active_row_def)
  then show ?thesis
  proof cases
    case 1
    then show ?thesis using Inr inv by (auto simp: DispatchTransition_def)
  next
    case 2
    then have nt: "tr_Status r \<noteq> ''succeeded''" "tr_Status r \<noteq> ''failed''" using eq by (simp_all add: active_row_def)
    have pos: "position_ok t i" using t(2) 2 by simp
    note ps = position_state [OF pos t(3,1)]
    have st: "dispatch_installationState r = Original \<or> (dispatch_installationState r = AtTarget \<and> tr_Phase r = ''releasing'')"
      using ps(1,3) eq by auto
    have acc: "legal_commit r ''running'' ''checking'' []" if "tr_Phase r = ''accepted''"
      using that st by (auto simp: legal_commit_def status_phase_ok_def)
    have rec: "legal_commit r ''running'' ''restoring'' []" if "tr_Phase r = ''recovery_required''"
      using that st by (auto simp: legal_commit_def status_phase_ok_def)
    have run: "ops_inv (snd (dispatch_running s v runtime r (dispatch_installationState r) op db)) \<and>
        evolves db (snd (dispatch_running s v runtime r (dispatch_installationState r) op db))"
      if "tr_Phase r \<noteq> ''accepted''" "tr_Phase r \<noteq> ''recovery_required''"
      using decision_legal [OF _ refl st sp nt that ne] com [OF _ nt] mid
      by (auto simp: dispatch_running_def Let_def split: sum.splits option.splits)
    show ?thesis using Inr inv 2(2) nt com [OF acc nt] com [OF rec nt] run
      by (auto simp: DispatchTransition_def Let_def)
  qed
qed

section \<open>Forward recovery\<close>

lemma ops_inv_frame:
  assumes "d_installations db' = d_installations db" and "d_transitions db' = d_transitions db" and "d_operations db' = d_operations db"
  shows "ops_inv db' = ops_inv db"
  using assms by (simp add: ops_inv_def)

lemma evolves_frame:
  assumes "d_installations db' = d_installations db" and "d_transitions db' = d_transitions db" and "d_operations db' = d_operations db"
    and "prefix (d_audit db) (d_audit db')"
  shows "evolves db db'"
  using assms by (simp add: evolves_def rows_evolve_refl)

lemma acceptForward_effect:
  assumes "acceptForward_body s newID a c db = Commit r db'"
  shows "db' = db \<or> (\<exists>parent f. db' = transitionAudit parent ''forward_recovery.accepted'' (db\<lparr>d_forwards := d_forwards db @ [f]\<rparr>))"
proof -
  have admit: "\<exists>parent f. d2 = transitionAudit parent ''forward_recovery.accepted'' (db\<lparr>d_forwards := d_forwards db @ [f]\<rparr>)"
    if a: "admit_forward s newID a c db = Commit r d2" for d2
  proof -
    obtain parent where p: "readDispatchTransition db (os_StationID s) (fc_OperationID c) = Inr parent"
      using a by (simp add: admit_forward_def split: sum.split_asm)
    note a1 = a [unfolded admit_forward_def p sum.case]
    obtain source target where st: "os_releaseReader s a (dt_Installed parent) (fc_TargetReleaseRef c) = Inr (source, target)"
      using a1 by (simp split: if_split_asm sum.split_asm prod.split_asm)
    have "d2 = transitionAudit parent ''forward_recovery.accepted''
        (db\<lparr>d_forwards := d_forwards db @ [forward_row_of s a c (new_forward s newID c parent target)]\<rparr>)"
      using a1 st by (simp add: Let_def split: if_split_asm option.split_asm)
    then show ?thesis by blast
  qed
  show ?thesis
  proof (cases "find_forward_key db (ic_UserID a) (ic_OrganizationID a) (os_StationID s) (fc_IdempotencyKey c)")
    case None
    then show ?thesis using assms admit by (simp add: acceptForward_body_def)
  next
    case (Some f)
    then show ?thesis using assms by (simp add: acceptForward_body_def split: if_split_asm sum.split_asm)
  qed
qed

lemma acceptForward_preserves:
  assumes "acceptForward_body s newID a c db = Commit r db'" and "ops_inv db"
  shows "ops_inv db' \<and> evolves db db'"
proof -
  have fr: "d_installations db' = d_installations db" "d_transitions db' = d_transitions db"
    "d_operations db' = d_operations db" "prefix (d_audit db) (d_audit db')"
    using acceptForward_effect [OF assms(1)] by (auto simp: transitionAudit_def ops_audit_def)
  show ?thesis using ops_inv_frame [OF fr(1-3)] evolves_frame [OF fr] assms(2) by simp
qed

lemma finishForward_effect:
  assumes "finishForward_body s now a r verified db = Commit x db'"
  obtains parent where "readDispatchTransition db (os_StationID s) (fr_OperationID r) = Inr parent"
    "allowedWorldForward parent (fr_Target r)" "in_Revision (dt_Installed parent) = fr_ExpectedRevision r"
    "inputDigest s parent = fr_ParentInputDigest r"
    "d_operations db' = d_operations db" "prefix (d_audit db) (d_audit db')"
    "d_transitions db' = (if verified then update_rows (\<lambda>t. tr_OperationID t = fr_OperationID r)
        (\<lambda>t. t\<lparr>tr_Status := ''failed'', tr_Phase := ''completed'', tr_UpdatedAt := pg_time now\<rparr>) (d_transitions db) else d_transitions db)"
    "d_installations db' = (if verified then update_rows (\<lambda>x. in_InstallationID x = tr_InstallationID parent \<and>
          in_AppVersion x = fr_InstalledVersion r \<and> in_Revision x = fr_ExpectedRevision r \<and> in_State x = ''installed'')
        (\<lambda>x. x\<lparr>in_AppVersion := ts_AppVersion (fr_Target r), in_Revision := fr_ExpectedRevision r + 1, in_UpdatedAt := pg_time now\<rparr>)
        (d_installations db) else d_installations db)"
    "verified \<longrightarrow> find_proof db (fr_RecoveryID r) (fr_InputDigest r) \<noteq> None"
    "verified \<longrightarrow> (\<exists>i \<in> set (d_installations db). in_InstallationID i = tr_InstallationID parent \<and>
          in_AppVersion i = fr_InstalledVersion r \<and> in_Revision i = fr_ExpectedRevision r \<and> in_State i = ''installed'')"
proof -
  obtain parent where parent: "readDispatchTransition db (os_StationID s) (fr_OperationID r) = Inr parent"
    using assms by (simp add: finishForward_body_def split: sum.split_asm)
  note step1 = assms [unfolded finishForward_body_def parent sum.case]
  obtain current where cur: "readForward s db (ic_UserID a) (ic_OrganizationID a) (fr_RecoveryID r) = Inr current"
    using step1 by (simp split: sum.split_asm)
  note step2 = step1 [unfolded cur sum.case]
  have c: "allowedWorldForward parent (fr_Target r)" "in_Revision (dt_Installed parent) = fr_ExpectedRevision r"
    "inputDigest s parent = fr_ParentInputDigest r"
    using step2 by (simp_all split: if_split_asm)
  obtain db1 where db1: "(if verified then forward_publish now parent r db else Inr db) = Inr db1"
    using step2 by (simp split: if_split_asm sum.split_asm)
  define state where "state = (if verified then ''succeeded'' else ''failed'')"
  have db': "db' = transitionAudit parent (''forward_recovery.'' @ state) (set_forward (fr_RecoveryID r) state db1)"
    using step2 db1 by (simp add: Let_def state_def split: if_split_asm sum.split_asm)
  have pub: "d_operations db1 = d_operations db" "d_audit db1 = d_audit db"
    "d_transitions db1 = (if verified then update_rows (\<lambda>t. tr_OperationID t = fr_OperationID r)
        (\<lambda>t. t\<lparr>tr_Status := ''failed'', tr_Phase := ''completed'', tr_UpdatedAt := pg_time now\<rparr>) (d_transitions db) else d_transitions db)"
    "d_installations db1 = (if verified then update_rows (\<lambda>x. in_InstallationID x = tr_InstallationID parent \<and>
          in_AppVersion x = fr_InstalledVersion r \<and> in_Revision x = fr_ExpectedRevision r \<and> in_State x = ''installed'')
        (\<lambda>x. x\<lparr>in_AppVersion := ts_AppVersion (fr_Target r), in_Revision := fr_ExpectedRevision r + 1, in_UpdatedAt := pg_time now\<rparr>)
        (d_installations db) else d_installations db)"
    "verified \<longrightarrow> find_proof db (fr_RecoveryID r) (fr_InputDigest r) \<noteq> None"
    "verified \<longrightarrow> (\<exists>i \<in> set (d_installations db). in_InstallationID i = tr_InstallationID parent \<and>
          in_AppVersion i = fr_InstalledVersion r \<and> in_Revision i = fr_ExpectedRevision r \<and> in_State i = ''installed'')"
    using db1 by (auto simp: forward_publish_def publish_version_def bump_def set_transition_def Let_def list_ex_iff
        split: if_split_asm option.split_asm)
  have "d_operations db' = d_operations db1" "prefix (d_audit db1) (d_audit db')" "d_transitions db' = d_transitions db1"
    "d_installations db' = d_installations db1"
    unfolding db' by (simp_all add: set_forward_def transitionAudit_def ops_audit_def)
  then show ?thesis using that [OF parent c] pub by simp
qed

lemma finishForward_preserves:
  assumes "finishForward_body s now a r verified db = Commit x db'" and inv: "ops_inv db"
  shows "ops_inv db' \<and> evolves db db'"
proof -
  from assms(1) obtain parent where parent: "readDispatchTransition db (os_StationID s) (fr_OperationID r) = Inr parent"
    and c: "allowedWorldForward parent (fr_Target r)" "in_Revision (dt_Installed parent) = fr_ExpectedRevision r"
    and rest: "d_operations db' = d_operations db" "prefix (d_audit db) (d_audit db')"
    and ts: "d_transitions db' = (if verified then update_rows (\<lambda>t. tr_OperationID t = fr_OperationID r)
        (\<lambda>t. t\<lparr>tr_Status := ''failed'', tr_Phase := ''completed'', tr_UpdatedAt := pg_time now\<rparr>) (d_transitions db) else d_transitions db)"
    and insts: "d_installations db' = (if verified then update_rows (\<lambda>x. in_InstallationID x = tr_InstallationID parent \<and>
          in_AppVersion x = fr_InstalledVersion r \<and> in_Revision x = fr_ExpectedRevision r \<and> in_State x = ''installed'')
        (\<lambda>x. x\<lparr>in_AppVersion := ts_AppVersion (fr_Target r), in_Revision := fr_ExpectedRevision r + 1, in_UpdatedAt := pg_time now\<rparr>)
        (d_installations db) else d_installations db)"
    and hit: "verified \<longrightarrow> (\<exists>i \<in> set (d_installations db). in_InstallationID i = tr_InstallationID parent \<and>
          in_AppVersion i = fr_InstalledVersion r \<and> in_Revision i = fr_ExpectedRevision r \<and> in_State i = ''installed'')"
    by (rule finishForward_effect)
  show ?thesis
  proof (cases verified)
    case False
    then show ?thesis using inv ts insts rest by (simp add: ops_inv_frame [of db' db] evolves_frame)
  next
    case True
    from readDispatch_row [OF parent inv] obtain t i where t: "t \<in> set (d_transitions db)" "i \<in> set (d_installations db)"
      "tr_OperationID t = fr_OperationID r" "matches t i" "row_ok t"
      and eq: "parent = with_installed (Transition.truncate t) (tw_user t) (tw_org t) i" by metis
    have act: "active_row t" using c(1) eq by (auto simp: allowedWorldForward_def active_row_def)
    have io: "insts_ok (d_installations db)" using inv by (simp add: ops_inv_def)
    have idi: "tr_InstallationID parent = in_InstallationID i" using t(4) eq by (simp add: matches_def)
    obtain j where j: "j \<in> set (d_installations db)" "in_InstallationID j = in_InstallationID i"
      "in_AppVersion j = fr_InstalledVersion r" "in_State j = ''installed''" using hit True idi by auto
    have "j = i" by (rule inst_by_id [OF io j(1) t(2) j(2)])
    note j = j [unfolded this]
    let ?f = "\<lambda>x. x\<lparr>in_AppVersion := ts_AppVersion (fr_Target r), in_Revision := fr_ExpectedRevision r + 1, in_UpdatedAt := pg_time now\<rparr>"
    have rev: "in_Revision i = fr_ExpectedRevision r" using c(2) eq by simp
    have insts': "d_installations db' = update_rows (\<lambda>x. True \<and> in_InstallationID x = in_InstallationID i) ?f (d_installations db)"
      unfolding insts using True idi j rev inst_by_id [OF io _ t(2)] by (auto intro!: update_rows_cong)
    show ?thesis
    proof (rule step_row_preserves [OF inv t(1) act t(5) t(2,4) _ _ rest insts'])
      show "status_phase_ok ''failed'' ''completed''" by (simp add: status_phase_ok_def)
      show "d_transitions db' = update_rows (\<lambda>x. tr_OperationID x = tr_OperationID t)
         (\<lambda>x. x\<lparr>tr_Status := ''failed'', tr_Phase := ''completed'', tr_UpdatedAt := pg_time now\<rparr>) (d_transitions db)"
        using ts True t(3) by simp
      show "inst_evolves i (?f i)" using rev by (simp add: inst_evolves_def same_identity_def)
    qed simp
  qed
qed

section \<open>Submission of an operation\<close>

lemma add_installation_preserves:
  assumes inv: "ops_inv db" and none: "current_installation db (in_StationID i) (in_AppID i) = None"
    and fresh: "\<forall>x \<in> set (d_installations db). in_InstallationID x \<noteq> in_InstallationID i"
    and i: "in_InstallationID i \<noteq> []" "in_Revision i \<ge> 1"
  shows "ops_inv (db\<lparr>d_installations := d_installations db @ [i]\<rparr>) \<and> evolves db (db\<lparr>d_installations := d_installations db @ [i]\<rparr>)"
proof -
  let ?insts = "d_installations db @ [i]"
  have ev: "rows_evolve inst_evolves (d_installations db) ?insts" by (rule rows_evolve_append) simp
  have "inst_key i \<notin> inst_key ` set (filter (\<lambda>x. in_State x \<noteq> ''removed'') (d_installations db))"
    using none by (auto simp: current_installation_def find_None_set inst_key_def)
  then have "insts_ok ?insts" using inv fresh i by (fastforce simp: ops_inv_def insts_ok_def)
  moreover have "list_all (trans_ok ?insts) (d_transitions db)"
    using inv by (auto simp: ops_inv_def list_all_iff intro: trans_ok_evolve [OF ev])
  moreover have "list_all (op_ok ?insts) (d_operations db)"
    using inv by (auto simp: ops_inv_def list_all_iff intro: op_ok_evolve [OF ev])
  ultimately show ?thesis using inv ev by (simp add: ops_inv_def evolves_def rows_evolve_refl)
qed

text \<open>A change of one installation that no active transition claims.\<close>

lemma revise_frame:
  assumes inv: "ops_inv db" and i: "i \<in> set (d_installations db)" and free: "inst_key i \<notin> set (transition_claims (d_transitions db))"
    and f: "inst_evolves i (f i)"
    and insts: "insts' = update_rows (\<lambda>x. in_InstallationID x = in_InstallationID i) f (d_installations db)"
  shows "insts_ok insts'" "list_all (trans_ok insts') (d_transitions db)"
    "rows_evolve inst_evolves (d_installations db) insts'"
proof -
  have io: "insts_ok (d_installations db)" using inv by (simp add: ops_inv_def)
  have ev: "inst_evolves x (f x)" if "x \<in> set (d_installations db)" "in_InstallationID x = in_InstallationID i" for x
    using inst_by_id [OF io that(1) i that(2)] f by simp
  show "insts_ok insts'" unfolding insts by (rule insts_ok_update [OF io ev])
  show rie: "rows_evolve inst_evolves (d_installations db) insts'"
    unfolding insts by (rule rows_evolve_update) (use ev in auto)
  show "list_all (trans_ok insts') (d_transitions db)"
    unfolding list_all_iff
  proof
    fix t assume t: "t \<in> set (d_transitions db)"
    show "trans_ok insts' t"
    proof (rule trans_ok_evolve [OF rie])
      show "trans_ok (d_installations db) t" using inv t by (auto simp: ops_inv_def list_all_iff)
      fix j assume j: "active_row t" "j \<in> set (d_installations db)" "matches t j"
      have "in_InstallationID j \<noteq> in_InstallationID i"
      proof
        assume "in_InstallationID j = in_InstallationID i"
        then have "j = i" by (rule inst_by_id [OF io j(2) i])
        with active_transition_claim [OF t j(1)] j(3) free show False by (simp add: matches_def inst_key_def)
      qed
      then show "j \<in> set insts'" unfolding insts using j(2) by (force simp: set_update_rows)
    qed
  qed
qed

lemma record_effect:
  assumes "record_submission s v u c x inst db = Inr db'"
  shows "sb_operation v \<notin> op_ID ` set (d_operations db)" "d_transitions db' = d_transitions db" "prefix (d_audit db) (d_audit db')"
    "d_operations db' = d_operations db @ [(new_op_row s v u c)\<lparr>op_installation := inst\<rparr>]"
    "d_installations db' = (if inst = [] then d_installations db else update_rows (\<lambda>i. in_InstallationID i = inst)
        (\<lambda>i. i\<lparr>in_LastOperationID := sb_operation v, in_Revision := in_Revision i + 1, in_UpdatedAt := pg_time (sb_now v)\<rparr>)
        (d_installations db))"
proof -
  show fresh: "sb_operation v \<notin> op_ID ` set (d_operations db)"
    using assms by (auto simp: record_submission_def list_ex_iff split: if_split_asm)
  let ?db = "db\<lparr>d_operations := d_operations db @ [new_op_row s v u c]\<rparr>"
  obtain db1 where db1: "bindInstallationOperation (sb_now v) inst (sb_operation v) ?db = Inr db1"
    using assms by (simp add: record_submission_def split: if_split_asm sum.split_asm)
  note step1 = assms [unfolded record_submission_def db1 sum.case]
  obtain db2 where db2: "(case (sb_constrained v, x) of (Some inp, Some e) \<Rightarrow> bindAppCenterInput (sb_operation v) inp e db1 | _ \<Rightarrow> Inr db1) = Inr db2"
    using step1 by (simp split: if_split_asm sum.split_asm)
  have t2: "d_transitions db2 = d_transitions db1" "d_operations db2 = d_operations db1" "d_audit db2 = d_audit db1"
    "d_installations db2 = d_installations db1"
    using db2 by (auto simp: bindAppCenterInput_def split: option.split_asm if_split_asm)
  obtain db3 where db3: "(case sb_preinstalled v of Some p \<Rightarrow> bindPreinstalled (sb_operation v) inst (pc_Release p) db2 | None \<Rightarrow> Inr db2) = Inr db3"
    using step1 db2 by (simp split: if_split_asm sum.split_asm)
  have t3: "d_transitions db3 = d_transitions db2" "d_operations db3 = d_operations db2" "d_audit db3 = d_audit db2"
    "d_installations db3 = d_installations db2"
    using db3 by (auto simp: bindPreinstalled_def Let_def split: option.split_asm if_split_asm)
  have db': "db' = ops_audit (cm_RequestID c) (ic_UserID u) (ic_OrganizationID u) (Some (ic_SessionID u)) (''app.'' @ cm_Action c @ ''.accepted'') db3"
    using step1 db2 db3 by (simp split: if_split_asm)
  have up: "update_rows (\<lambda>y. op_ID y = sb_operation v) g (d_operations db) = d_operations db" for g
    using fresh by (auto simp: update_rows_def image_iff intro!: map_idI)
  have new: "op_ID (new_op_row s v u c) = sb_operation v" "op_installation (new_op_row s v u c) = []" by (simp_all add: new_op_row_def)
  have row: "(new_op_row s v u c)\<lparr>op_installation := []\<rparr> = new_op_row s v u c" by (simp add: new_op_row_def)
  have t1: "d_transitions db1 = d_transitions db" "d_audit db1 = d_audit db"
    "d_operations db1 = d_operations db @ [(new_op_row s v u c)\<lparr>op_installation := inst\<rparr>]"
    "d_installations db1 = (if inst = [] then d_installations db else update_rows (\<lambda>i. in_InstallationID i = inst)
        (\<lambda>i. i\<lparr>in_LastOperationID := sb_operation v, in_Revision := in_Revision i + 1, in_UpdatedAt := pg_time (sb_now v)\<rparr>)
        (d_installations db))"
    using db1 by (auto simp: bindInstallationOperation_def revise_installation_def up [unfolded update_rows_def] update_rows_def row new split: if_split_asm)
  show "d_transitions db' = d_transitions db" "prefix (d_audit db) (d_audit db')"
    "d_operations db' = d_operations db @ [(new_op_row s v u c)\<lparr>op_installation := inst\<rparr>]"
    "d_installations db' = (if inst = [] then d_installations db else update_rows (\<lambda>i. in_InstallationID i = inst)
        (\<lambda>i. i\<lparr>in_LastOperationID := sb_operation v, in_Revision := in_Revision i + 1, in_UpdatedAt := pg_time (sb_now v)\<rparr>)
        (d_installations db))"
    unfolding db' using t1 t2 t3 by (simp_all add: ops_audit_def)
qed

lemma record_preserves:
  assumes rec: "record_submission s v u c x inst db = Inr db'" and inv: "ops_inv db"
    and free: "(os_StationID s, cm_AppID c) \<notin> set (op_claims (d_operations db))" "(os_StationID s, cm_AppID c) \<notin> set (transition_claims (d_transitions db))"
    and key: "find_operation_key db (ic_UserID u) (ic_OrganizationID u) (os_StationID s) (cm_IdempotencyKey c) = None"
    and inst: "inst = [] \<or> (\<exists>i \<in> set (d_installations db). in_InstallationID i = inst \<and> inst_key i = (os_StationID s, cm_AppID c))"
  shows "ops_inv db' \<and> evolves db db'"
proof -
  note e = record_effect [OF rec]
  let ?row = "(new_op_row s v u c)\<lparr>op_installation := inst\<rparr>"
  have keyn: "op_key4 ?row \<notin> op_key4 ` set (d_operations db)"
    using key by (auto simp: find_operation_key_def find_None_set op_key4_def new_op_row_def)
  have inst': "insts_ok (d_installations db') \<and> list_all (trans_ok (d_installations db')) (d_transitions db) \<and>
      rows_evolve inst_evolves (d_installations db) (d_installations db')"
  proof (cases "inst = []")
    case True
    then show ?thesis using e(5) inv by (simp add: ops_inv_def rows_evolve_refl)
  next
    case False
    then obtain i where i: "i \<in> set (d_installations db)" "in_InstallationID i = inst" "inst_key i = (os_StationID s, cm_AppID c)"
      using inst by blast
    let ?f = "\<lambda>i. i\<lparr>in_LastOperationID := sb_operation v, in_Revision := in_Revision i + 1, in_UpdatedAt := pg_time (sb_now v)\<rparr>"
    have "inst_evolves i (?f i)" by (simp add: inst_evolves_def same_identity_def)
    moreover have "d_installations db' = update_rows (\<lambda>x. in_InstallationID x = in_InstallationID i) ?f (d_installations db)"
      using e(5) False i(2) by simp
    ultimately show ?thesis using revise_frame [OF inv i(1), of ?f "d_installations db'"] i(3) free(2) by simp
  qed
  then have rie: "rows_evolve inst_evolves (d_installations db) (d_installations db')" by simp
  have newok: "op_ok (d_installations db') ?row"
  proof (cases "inst = []")
    case False
    then obtain i where i: "i \<in> set (d_installations db)" "in_InstallationID i = inst" "inst_key i = (os_StationID s, cm_AppID c)"
      using inst by blast
    obtain j where "j \<in> set (d_installations db')" "inst_evolves i j" using rows_evolve_member [OF rie i(1)] by blast
    then show ?thesis using i inst_evolves_identity [of i j] by (auto simp: op_ok_def new_op_row_def same_identity_def inst_key_def)
  qed (simp add: op_ok_def)
  have oldok: "list_all (op_ok (d_installations db')) (d_operations db)"
    using inv op_ok_evolve [OF rie] by (auto simp: ops_inv_def list_all_iff)
  have act: "active_op ?row" by (simp add: active_op_def new_op_row_def)
  have "distinct (op_claims (d_operations db @ [?row]) @ transition_claims (d_transitions db))"
    using inv free act by (auto simp: ops_inv_def op_claims_def new_op_row_def)
  then have "ops_inv db'"
    using inv inst' newok oldok keyn e(1) by (simp add: ops_inv_def e(2,4)) (simp add: new_op_row_def)
  moreover have "evolves db db'" using inst' e(2-4) by (simp add: evolves_def rows_evolve_refl rows_evolve_append)
  ultimately show ?thesis by blast
qed

lemma current_member:
  "current_installation db station app = Some i \<Longrightarrow>
     i \<in> set (d_installations db) \<and> inst_key i = (station, app) \<and> in_State i \<noteq> ''removed''"
  unfolding current_installation_def inst_key_def using find_Some_iff_set by fastforce

lemma reserve_preserves:
  assumes r: "reserveInstallation now newID u c p db = Inr (inst, db1)" and inv: "ops_inv db"
  shows "ops_inv db1 \<and> evolves db db1 \<and> d_operations db1 = d_operations db \<and> d_transitions db1 = d_transitions db \<and>
    (inst = [] \<or> (\<exists>i \<in> set (d_installations db1). in_InstallationID i = inst \<and> inst_key i = (cm_StationID c, cm_AppID c)))"
proof (cases "current_installation db (cm_StationID c) (cm_AppID c)")
  case (Some i)
  then have "inst = in_InstallationID i" "db1 = db" using r by (simp_all add: reserveInstallation_def split: if_split_asm)
  then show ?thesis using current_member [OF Some] inv by auto
next
  case None
  show ?thesis
  proof (cases "cm_Action c \<in> set [''install'', ''start'', ''adopt'']")
    case False
    then show ?thesis using r None inv by (simp add: reserveInstallation_def)
  next
    case True
    define i where "i = \<lparr>in_InstallationID = newID, in_AppID = cm_AppID c, in_AppVersion = cm_AppVersion c, in_StationID = cm_StationID c,
               in_OrganizationID = ic_OrganizationID u, in_State = ''pending'', in_Revision = 1, in_LastOperationID = [],
               in_CreatedAt = pg_time now, in_UpdatedAt = pg_time now\<rparr>"
    have ne: "newID \<noteq> []" "\<not> list_ex (\<lambda>i. in_InstallationID i = newID) (d_installations db)"
      "inst = newID" "db1 = db\<lparr>d_installations := d_installations db @ [i]\<rparr>"
      using r None True by (auto simp: reserveInstallation_def i_def split: if_split_asm)
    have "ops_inv db1 \<and> evolves db db1"
      unfolding ne(4) using None ne(1,2) by (intro add_installation_preserves [OF inv]) (auto simp: i_def list_ex_iff)
    then show ?thesis using ne by (simp add: i_def inst_key_def)
  qed
qed

lemma submit_new_effect:
  assumes "submit_new s v u c db = Commit r db'"
  obtains inst db1 x where "\<not> submit_busy db (os_StationID s) (cm_AppID c)"
    "reserveInstallation (sb_now v) (sb_installation v) u c (sb_preinstalled v) db = Inr (inst, db1)"
    "record_submission s v u c x inst db1 = Inr db'" "r = Inr (accepted_operation s v u c)" "submit_release s v u c db = Inr x"
proof -
  obtain x where x: "submit_release s v u c db = Inr x" using assms by (simp add: submit_new_def split: sum.split_asm)
  note step1 = assms [unfolded submit_new_def x sum.case]
  obtain p where p: "reserveInstallation (sb_now v) (sb_installation v) u c (sb_preinstalled v) db = Inr p"
    and busy: "\<not> submit_busy db (os_StationID s) (cm_AppID c)"
    using step1 by (simp split: option.split_asm if_split_asm sum.split_asm)
  obtain inst db1 where p': "p = (inst, db1)" by (cases p)
  have "record_submission s v u c x inst db1 = Inr db' \<and> r = Inr (accepted_operation s v u c)"
    using step1 p p' busy by (simp split: option.split_asm sum.split_asm)
  then show ?thesis using that busy p p' x by blast
qed

lemma submit_preserves:
  assumes "ops_inv db"
  shows "ops_inv (snd (submit s f v u c db)) \<and> evolves db (snd (submit s f v u c db))"
proof -
  have body: "ops_inv db' \<and> evolves db db'" if b: "submit_body s v u c db = Commit r db'" and st: "cm_StationID c = os_StationID s" for r db'
  proof (cases "find_operation_key db (ic_UserID u) (ic_OrganizationID u) (os_StationID s) (cm_IdempotencyKey c)")
    case (Some x)
    then have "db' = db" using b by (simp add: submit_body_def Let_def split: if_split_asm sum.split_asm)
    then show ?thesis using assms by simp
  next
    case None
    then have "submit_new s v u c db = Commit r db'" using b by (simp add: submit_body_def)
    then obtain inst db1 x where n: "\<not> submit_busy db (os_StationID s) (cm_AppID c)"
      "reserveInstallation (sb_now v) (sb_installation v) u c (sb_preinstalled v) db = Inr (inst, db1)"
      "record_submission s v u c x inst db1 = Inr db'" by (rule submit_new_effect)
    note rp = reserve_preserves [OF n(2) assms]
    have "ops_inv db1" "inst = [] \<or> (\<exists>i \<in> set (d_installations db1). in_InstallationID i = inst \<and> inst_key i = (os_StationID s, cm_AppID c))"
      using rp st by simp_all
    note pre = this
    have "ops_inv db' \<and> evolves db1 db'"
    proof (rule record_preserves [OF n(3) pre(1) _ _ _ pre(2)])
      show "(os_StationID s, cm_AppID c) \<notin> set (op_claims (d_operations db1))"
        "(os_StationID s, cm_AppID c) \<notin> set (transition_claims (d_transitions db1))"
        using n(1) rp by (auto simp: submit_busy_def op_claims_def transition_claims_def list_ex_iff)
      show "find_operation_key db1 (ic_UserID u) (ic_OrganizationID u) (os_StationID s) (cm_IdempotencyKey c) = None"
        using None rp by (simp add: find_operation_key_def)
    qed
    then show ?thesis using rp evolves_trans [of db db1 db'] by simp
  qed
  have "cm_StationID c = os_StationID s" if "submit_guard s u c = None"
    using that by (simp add: submit_guard_def split: if_split_asm)
  with body assms show ?thesis by (auto simp: submit_def split: option.splits tx.splits)
qed

section \<open>Dispatch of an operation\<close>

lemma op_by_id:
  assumes "ops_inv db" and "x \<in> set (d_operations db)" and "y \<in> set (d_operations db)" and "op_ID x = op_ID y"
  shows "x = y"
  using assms by (auto simp: ops_inv_def distinct_map inj_on_def)

lemma step_op_preserves:
  assumes inv: "ops_inv db" and x: "x \<in> set (d_operations db)" "active_op x"
    and ops: "d_operations db' = update_rows (\<lambda>y. op_ID y = op_ID x) g (d_operations db)"
    and g: "\<And>y. op_immutable (g y) = op_immutable y"
    and rest: "d_transitions db' = d_transitions db" "prefix (d_audit db) (d_audit db')"
    and insts: "d_installations db' = d_installations db \<or>
      (\<exists>i f. i \<in> set (d_installations db) \<and> inst_key i = (op_station x, op_app x) \<and> inst_evolves i (f i) \<and>
         d_installations db' = update_rows (\<lambda>y. in_InstallationID y = in_InstallationID i) f (d_installations db))"
  shows "ops_inv db' \<and> evolves db db'"
proof -
  have free: "(op_station x, op_app x) \<notin> set (transition_claims (d_transitions db))"
    using inv active_op_claim [OF x] by (auto simp: ops_inv_def)
  have inst': "insts_ok (d_installations db') \<and> list_all (trans_ok (d_installations db')) (d_transitions db) \<and>
      rows_evolve inst_evolves (d_installations db) (d_installations db')"
    using insts
  proof
    assume "d_installations db' = d_installations db"
    then show ?thesis using inv by (simp add: ops_inv_def rows_evolve_refl)
  next
    assume "\<exists>i f. i \<in> set (d_installations db) \<and> inst_key i = (op_station x, op_app x) \<and> inst_evolves i (f i) \<and>
         d_installations db' = update_rows (\<lambda>y. in_InstallationID y = in_InstallationID i) f (d_installations db)"
    then obtain i f where i: "i \<in> set (d_installations db)" "inst_key i = (op_station x, op_app x)" "inst_evolves i (f i)"
      "d_installations db' = update_rows (\<lambda>y. in_InstallationID y = in_InstallationID i) f (d_installations db)" by blast
    from revise_frame [OF inv i(1), of f "d_installations db'"] i free show ?thesis by simp
  qed
  then have rie: "rows_evolve inst_evolves (d_installations db) (d_installations db')" by simp
  have only: "y = x" if "y \<in> set (d_operations db)" "op_ID y = op_ID x" for y using op_by_id [OF inv that(1) x(1) that(2)] .
  have im: "op_ID (g y) = op_ID y" "op_key4 (g y) = op_key4 y" "op_station (g y) = op_station y" "op_app (g y) = op_app y"
    "op_installation (g y) = op_installation y" for y
    using g [of y] by (simp_all add: op_immutable_def op_key4_def)
  have "list_all (op_ok (d_installations db)) (d_operations db')"
    using inv im unfolding ops by (auto simp: ops_inv_def list_all_iff set_update_rows op_ok_def)
  then have ok: "list_all (op_ok (d_installations db')) (d_operations db')" using op_ok_evolve [OF rie] by (auto simp: list_all_iff)
  have cl: "distinct (op_claims (d_operations db') @ transition_claims (d_transitions db))"
    unfolding op_claims_def ops
  proof (rule distinct_filter_update)
    show "distinct (map (\<lambda>x. (op_station x, op_app x)) (filter active_op (d_operations db)) @ transition_claims (d_transitions db))"
      using inv by (simp add: ops_inv_def op_claims_def)
    show "active_op r" if "r \<in> set (d_operations db)" "op_ID r = op_ID x" for r using only [OF that] x(2) by simp
  qed (simp add: im)
  have "map op_ID (d_operations db') = map op_ID (d_operations db)" "map op_key4 (d_operations db') = map op_key4 (d_operations db)"
    unfolding ops by (simp_all add: map_update_rows im)
  with inst' ok cl inv have "ops_inv db'" by (simp add: ops_inv_def rest)
  moreover have "rows_evolve op_evolves (d_operations db) (d_operations db')"
    unfolding ops
  proof (rule rows_evolve_update)
    show "op_evolves y (g y)" if "y \<in> set (d_operations db)" "op_ID y = op_ID x" for y
      using only [OF that] x(2) g by (simp add: op_evolves_def)
  qed simp
  ultimately show ?thesis using rie rest by (simp add: evolves_def rows_evolve_refl)
qed

lemma revise_effect:
  assumes "revise_installation now i f db = Inr db'"
  shows "d_operations db' = d_operations db" "d_transitions db' = d_transitions db" "d_audit db' = d_audit db"
    "d_installations db' = update_rows (\<lambda>x. in_InstallationID x = i)
       (\<lambda>x. (f x)\<lparr>in_Revision := in_Revision x + 1, in_UpdatedAt := pg_time now\<rparr>) (d_installations db)"
  using assms by (auto simp: revise_installation_def split: if_split_asm)

lemma installationState_removed: "installationState ''removed'' a r = ''removed''"
  by (simp add: installationState_def)

lemma bind_adoption_effect:
  assumes "bind_adoption op i a v db = Inr db'"
  shows "d_operations db' = d_operations db" "d_transitions db' = d_transitions db" "d_audit db' = d_audit db"
    "d_installations db' = d_installations db"
  using assms by (auto simp: bind_adoption_def split: option.split_asm if_split_asm)

text \<open>The effect of a progress on the installation an operation is bound to.\<close>

lemma progress_effect:
  assumes r: "recordInstallationProgress now op action result db = Inr db'"
    and x: "find (\<lambda>x. op_ID x = op) (d_operations db) = Some x"
  shows "d_operations db' = d_operations db \<and> d_transitions db' = d_transitions db \<and> d_audit db' = d_audit db \<and>
    (d_installations db' = d_installations db \<or>
     (\<exists>i f. bound_installation db x = Some i \<and> inst_evolves i (f i) \<and>
        d_installations db' = update_rows (\<lambda>y. in_InstallationID y = in_InstallationID i) f (d_installations db)))"
proof (cases "bound_installation db x")
  case None
  then show ?thesis using r x by (simp add: recordInstallationProgress_def)
next
  case (Some i)
  note r1 = r [unfolded recordInstallationProgress_def x Some option.case Let_def]
  have rev: ?thesis if "revise_installation now (in_InstallationID i) f d = Inr db'" "same_identity i (f i)"
    "in_State i = ''removed'' \<longrightarrow> in_State (f i) = ''removed''" "d_operations d = d_operations db" "d_transitions d = d_transitions db"
    "d_audit d = d_audit db" "d_installations d = d_installations db" for f d
    using revise_effect [OF that(1)] that(2-) Some
    by (auto simp: inst_evolves_def same_identity_def intro!: exI [of _ "\<lambda>x. (f x)\<lparr>in_Revision := in_Revision x + 1, in_UpdatedAt := pg_time now\<rparr>"])
  show ?thesis
  proof (cases "in_AppVersion i \<noteq> op_version x \<and> result = ''succeeded''")
    case False
    show ?thesis
    proof (cases "installationState (in_State i) action result = in_State i")
      case True
      with False r1 have "db = db'" by (simp only: if_False if_True simp_thms sum.inject)
      then show ?thesis by simp
    next
      case False2: False
      with False r1 have "revise_installation now (in_InstallationID i) (\<lambda>y. y\<lparr>in_State := installationState (in_State i) action result\<rparr>) db = Inr db'"
        by (simp only: if_False if_True)
      then show ?thesis by (rule rev) (auto simp: same_identity_def installationState_removed)
    qed
  next
    case True
    show ?thesis
    proof (cases "action = ''upgrade'' \<and> in_State i = ''installed'' \<and> \<not> map_of (d_op_bindings db) op \<noteq> None")
      case True2: True
      with True r1 have up: "revise_installation now (in_InstallationID i) (\<lambda>y. y\<lparr>in_AppVersion := op_version x, in_State := ''installed''\<rparr>) db = Inr db'"
        by (simp only: if_True simp_thms)
      show ?thesis using True2 by (intro rev [OF up]) (auto simp: same_identity_def)
    next
      case False
      obtain d where d: "bind_adoption op i action (op_version x) db = Inr d"
        "revise_installation now (in_InstallationID i) (\<lambda>y. y\<lparr>in_AppVersion := op_version x\<rparr>) d = Inr db'"
        using r1 True False by (simp only: if_True if_False split: if_split_asm sum.split_asm) blast+
      then show ?thesis using bind_adoption_effect [OF d(1)] by (intro rev [OF d(2)]) (auto simp: same_identity_def)
    qed
  qed
qed

lemma postpone_preserves:
  assumes "postponeDispatch now (op_ID x) e db = Commit r db'" and "ops_inv db" and "x \<in> set (d_operations db)" and "active_op x"
  shows "ops_inv db' \<and> evolves db db'"
  using assms by (intro step_op_preserves [OF assms(2-4), where g = "\<lambda>x. x\<lparr>op_updated := pg_time now\<rparr>"]) (auto simp: postponeDispatch_def op_immutable_def)

lemma settle_progress_preserves:
  assumes s: "settle_progress now x p db = Commit r db'" and inv: "ops_inv db" and x: "x \<in> set (d_operations db)" "active_op x"
  shows "ops_inv db' \<and> evolves db db'"
proof -
  obtain q where q: "recordInstallationProgress now (op_ID x) (op_action x) (ap_Status q) (record_progress now q (op_ID x) db) = Inr db'"
    using s by (simp add: settle_progress_def split: option.split_asm if_split_asm sum.split_asm)
  let ?g = "\<lambda>x. x\<lparr>op_status := ap_Status q, op_phase := ap_Phase q, op_downloaded := ap_DownloadedBytes q,
                 op_total := ap_TotalBytes q, op_error_code := NULLIF (ap_ErrorCode q),
                 op_error_message := NULLIF (ap_ErrorMessage q), op_updated := pg_time now\<rparr>"
  let ?db = "record_progress now q (op_ID x) db"
  have "find (\<lambda>y. op_ID y = op_ID x) (d_operations db) = Some x"
    using find_unique [of op_ID "d_operations db" x] inv x(1) by (simp add: ops_inv_def)
  then have f: "find (\<lambda>y. op_ID y = op_ID x) (d_operations ?db) = Some (?g x)"
    by (simp add: record_progress_def find_update_rows)
  note e = progress_effect [OF q f]
  have bound: "i \<in> set (d_installations db) \<and> inst_key i = (op_station x, op_app x)"
    if b: "bound_installation ?db (?g x) = Some i" for i
  proof -
    have i: "i \<in> set (d_installations db)" "in_InstallationID i = op_installation x"
      using b find_Some_iff_set by (fastforce simp: bound_installation_def record_progress_def)+
    have io: "insts_ok (d_installations db)" "op_ok (d_installations db) x" using inv x(1) by (auto simp: ops_inv_def list_all_iff)
    have "op_installation x \<noteq> []" using i io(1) by (auto simp: insts_ok_def list_all_iff)
    then obtain j where j: "j \<in> set (d_installations db)" "in_InstallationID j = in_InstallationID i" "inst_key j = (op_station x, op_app x)"
      using io(2) i(2) by (auto simp: op_ok_def inst_key_def)
    have "j = i" by (rule inst_by_id [OF io(1) j(1) i(1) j(2)])
    with i j show ?thesis by simp
  qed
  show ?thesis
  proof (rule step_op_preserves [OF inv x, where g = ?g])
    show "d_installations db' = d_installations db \<or>
      (\<exists>i f. i \<in> set (d_installations db) \<and> inst_key i = (op_station x, op_app x) \<and> inst_evolves i (f i) \<and>
         d_installations db' = update_rows (\<lambda>y. in_InstallationID y = in_InstallationID i) f (d_installations db))"
      using e bound by (simp add: record_progress_def) blast
  qed (use e in \<open>simp_all add: record_progress_def op_immutable_def\<close>)
qed

lemma settle_call_preserves:
  assumes "settle_call now x res db = Commit r db'" and "ops_inv db" and "x \<in> set (d_operations db)" and "active_op x"
  shows "ops_inv db' \<and> evolves db db'"
  using assms postpone_preserves [OF _ assms(2-4)] settle_progress_preserves [OF _ assms(2-4)]
  by (auto simp: settle_call_def split: sum.split_asm grpc_code.split_asm)

lemma DispatchOne_body_preserves:
  assumes "DispatchOne_body s now locked client bound db = Commit r db'" and inv: "ops_inv db"
  shows "ops_inv db' \<and> evolves db db'"
proof (cases "next_operation db (os_StationID s) locked")
  case None
  then show ?thesis using assms by (simp add: DispatchOne_body_def)
next
  case (Some x)
  have x: "x \<in> set (d_operations db)" "active_op x"
    using min_by_in [OF Some [unfolded next_operation_def]] by auto
  note set = settle_call_preserves [OF _ inv x] postpone_preserves [OF _ inv x]
  show ?thesis using assms(1) set
    by (simp add: DispatchOne_body_def Some Let_def split: option.split_asm if_split_asm prod.split_asm)
qed

lemma DispatchOne_preserves:
  assumes "ops_inv db"
  shows "ops_inv (snd (DispatchOne s f now locked client bound db)) \<and> evolves db (snd (DispatchOne s f now locked client bound db))"
  using assms DispatchOne_body_preserves [of s now locked client bound db] by (auto simp: DispatchOne_def split: tx.splits)

end
