(* ===== verification/Ops_Properties.thy ===== *)
theory Ops_Properties
  imports Ops_Invariants
begin

text \<open>
  The handlers of the operations package as one step relation, in which the transactions of
  other requests run between the reads of a dispatch and its commit, and the properties of
  transitions and operations that follow.
\<close>

section \<open>Interleaved handlers\<close>

inductive ops_step :: "ops_service \<Rightarrow> station_db \<Rightarrow> station_db \<Rightarrow> bool" for s where
  submit_transition: "ops_step s db (snd (SubmitTransition s f now newID actor c reader db))"
| dispatch_transition: "(ops_step s)\<^sup>*\<^sup>* db (de_mid v db) \<Longrightarrow> ops_step s db (snd (DispatchTransition s v op runtime db))"
| forward_recovery:
    "(ops_step s)\<^sup>*\<^sup>* db1 (de_mid v db1) \<Longrightarrow> db1 = snd (transact (de_read_fault v) DbError (acceptForward_body s newID a c) db) \<Longrightarrow>
     ops_step s db (snd (SubmitForwardRecovery s v newID a c runtime db))"
| submit_operation: "ops_step s db (snd (submit s f sv u cmd db))"
| dispatch_operation: "ops_step s db (snd (DispatchOne s f now locked client bound db))"
| runtime_proof: "ops_step s db (db\<lparr>d_proofs := p # d_proofs db\<rparr>)"

lemma steps_guarantee:
  assumes "(\<lambda>x y. R x y \<and> (ops_inv x \<longrightarrow> ops_inv y \<and> evolves x y))\<^sup>*\<^sup>* a b" and "ops_inv a"
  shows "ops_inv b \<and> evolves a b"
  using assms by (induction rule: rtranclp_induct) (auto intro: evolves_trans)

lemma forward_preserves:
  assumes inv: "ops_inv db" and db1: "db1 = snd (transact (de_read_fault v) DbError (acceptForward_body s newID a c) db)"
    and mid: "ops_inv db1 \<Longrightarrow> ops_inv (de_mid v db1) \<and> evolves db1 (de_mid v db1)"
  shows "ops_inv (snd (SubmitForwardRecovery s v newID a c runtime db)) \<and> evolves db (snd (SubmitForwardRecovery s v newID a c runtime db))"
proof -
  obtain res where res: "transact (de_read_fault v) DbError (acceptForward_body s newID a c) db = (res, db1)"
    using db1 by (cases "transact (de_read_fault v) DbError (acceptForward_body s newID a c) db") auto
  have 1: "ops_inv db1 \<and> evolves db db1"
    unfolding db1 using inv acceptForward_preserves [of s newID a c db] by (auto split: tx.splits)
  have 2: "ops_inv (de_mid v db1) \<and> evolves db (de_mid v db1)" using mid 1 evolves_trans by blast
  have 3: "ops_inv (snd (transact f DbError (finishForward_body s now a r b) (de_mid v db1))) \<and>
      evolves db (snd (transact f DbError (finishForward_body s now a r b) (de_mid v db1)))" for f now r b
    using 2 finishForward_preserves [of s now a r b "de_mid v db1"] evolves_trans [of db "de_mid v db1"] by (auto split: tx.splits)
  have "snd (SubmitForwardRecovery s v newID a c runtime db) \<in> {db, db1, de_mid v db1} \<or>
    (\<exists>f now r b. snd (SubmitForwardRecovery s v newID a c runtime db) =
       snd (transact f DbError (finishForward_body s now a r b) (de_mid v db1)))"
    unfolding SubmitForwardRecovery_def res
    by (simp add: Let_def split: sum.split option.split) blast
  with inv 1 2 3 show ?thesis by (elim disjE exE) auto
qed

lemma ops_step_ok: "ops_step s db db' \<Longrightarrow> ops_inv db \<longrightarrow> ops_inv db' \<and> evolves db db'"
proof (induction rule: ops_step.induct)
  case (submit_transition db f now newID actor c reader)
  then show ?case using SubmitTransition_preserves by blast
next
  case (dispatch_transition db v op runtime)
  show ?case
  proof
    assume inv: "ops_inv db"
    from steps_guarantee [OF dispatch_transition(1) inv] show "ops_inv (snd (DispatchTransition s v op runtime db)) \<and>
        evolves db (snd (DispatchTransition s v op runtime db))" by (intro Dispatch_preserves [OF inv]) auto
  qed
next
  case (forward_recovery db1 v newID a c db runtime)
  show ?case
  proof
    assume inv: "ops_inv db"
    show "ops_inv (snd (SubmitForwardRecovery s v newID a c runtime db)) \<and>
        evolves db (snd (SubmitForwardRecovery s v newID a c runtime db))"
      by (rule forward_preserves [OF inv forward_recovery(2) steps_guarantee [OF forward_recovery(1)]])
  qed
next
  case (submit_operation db f sv u cmd)
  then show ?case using submit_preserves by blast
next
  case (dispatch_operation db f now locked client bound)
  then show ?case using DispatchOne_preserves by blast
next
  case (runtime_proof db p)
  show ?case using ops_inv_frame [of "db\<lparr>d_proofs := p # d_proofs db\<rparr>" db]
      evolves_frame [of "db\<lparr>d_proofs := p # d_proofs db\<rparr>" db] by simp
qed

interpretation ops: rely_guarantee ops_inv evolves "ops_step s" for s
  by unfold_locales (use evolves_trans ops_step_ok in \<open>auto\<close>)

definition empty_db :: station_db where
  "empty_db = \<lparr>d_installations = [], d_operations = [], d_transitions = [], d_forwards = [], d_proofs = [],
     d_inst_bindings = [], d_op_bindings = [], d_inputs = [], d_audit = []\<rparr>"

lemma empty_inv: "ops_inv empty_db"
  by (simp add: ops_inv_def empty_db_def insts_ok_def op_claims_def transition_claims_def)

text \<open>
  C4. However submissions, dispatches and recoveries interleave, an application of a station
  is claimed by at most one active operation or transition, an application has at most one
  installation that is not removed, idempotency keys are unique, and the status and phase of
  every transition satisfy the constraints of its table.
\<close>

theorem operations_exclusive:
  assumes "(ops_step s)\<^sup>*\<^sup>* empty_db db"
  shows "distinct (op_claims (d_operations db) @ transition_claims (d_transitions db)) \<and>
    distinct (map inst_key (filter (\<lambda>i. in_State i \<noteq> ''removed'') (d_installations db))) \<and>
    distinct (map op_key4 (d_operations db)) \<and> distinct (map tr_key4 (d_transitions db)) \<and>
    list_all (\<lambda>t. status_phase_ok (tr_Status t) (tr_Phase t)) (d_transitions db)"
  using ops.steps_ok [OF assms empty_inv] by (auto simp: ops_inv_def insts_ok_def list_all_iff trans_ok_def row_ok_def)

text \<open>
  C18. While a transition is active its installation stays where the transition's phase says
  it is: installed, at the source version and the expected revision, or, once the transition
  is releasing, possibly at the target version one revision later. No other request moves it.
\<close>

theorem active_transition_position:
  assumes "(ops_step s)\<^sup>*\<^sup>* empty_db db" and "t \<in> set (d_transitions db)" and "active_row t"
  shows "\<exists>!i. i \<in> set (d_installations db) \<and> in_InstallationID i = tr_InstallationID t \<and> in_State i = ''installed'' \<and>
    (at_source t i \<or> at_target t i \<and> tr_Phase t = ''releasing'')"
proof -
  have inv: "ops_inv db" using ops.steps_ok [OF assms(1) empty_inv] by blast
  then obtain i where i: "i \<in> set (d_installations db)" "matches t i" "position_ok t i"
    using assms(2,3) by (auto simp: ops_inv_def list_all_iff trans_ok_def)
  show ?thesis
  proof (rule ex1I [of _ i])
    show "i \<in> set (d_installations db) \<and> in_InstallationID i = tr_InstallationID t \<and> in_State i = ''installed'' \<and>
      (at_source t i \<or> at_target t i \<and> tr_Phase t = ''releasing'')"
      using i by (auto simp: matches_def position_ok_def split: if_splits)
    fix j assume "j \<in> set (d_installations db) \<and> in_InstallationID j = tr_InstallationID t \<and> in_State j = ''installed'' \<and>
      (at_source t j \<or> at_target t j \<and> tr_Phase t = ''releasing'')"
    then show "j = i" using inst_by_id [of "d_installations db" j i] inv i by (simp add: ops_inv_def matches_def)
  qed
qed

section \<open>One dispatch\<close>

text \<open>A dispatch that returns a transition either found it finished or committed a decision.\<close>

definition reports :: "ops_service \<Rightarrow> dispatch_env \<Rightarrow> transition_runtime \<Rightarrow> dispatchTransition \<Rightarrow> string \<Rightarrow> bool" where
  "reports s v runtime r phase \<longleftrightarrow>
     (\<exists>p. runtime \<lparr>st_OperationID = tr_OperationID r, st_RequestID = de_request v, st_InputDigest = inputDigest s r,
             st_Mode = dispatch_mode (tr_Phase r) (dispatch_installationState r)\<rparr> = Inr p \<and>
          TransitionStep.truncate p = \<lparr>st_OperationID = tr_OperationID r, st_RequestID = de_request v, st_InputDigest = inputDigest s r,
             st_Mode = dispatch_mode (tr_Phase r) (dispatch_installationState r)\<rparr> \<and> tp_Phase p = phase)"

definition decided :: "ops_service \<Rightarrow> dispatch_env \<Rightarrow> transition_runtime \<Rightarrow> dispatchTransition \<Rightarrow> string \<Rightarrow> string \<Rightarrow> string \<Rightarrow> bool" where
  "decided s v runtime r status phase version \<longleftrightarrow>
     (tr_Phase r = ''accepted'' \<and> (status, phase, version) = (''running'', ''checking'', [])) \<or>
     (tr_Phase r = ''recovery_required'' \<and> (status, phase, version) = (''running'', ''restoring'', [])) \<or>
     (tr_Phase r \<noteq> ''accepted'' \<and> tr_Phase r \<noteq> ''recovery_required'' \<and>
      (\<exists>p. reports s v runtime r p \<and> transition_decision (Transition.truncate r) (dispatch_installationState r)
         (dispatch_mode (tr_Phase r) (dispatch_installationState r)) p = Some (status, phase, version)))"

lemma dispatch_committed:
  assumes d: "DispatchTransition s v op runtime db = (Inr out, db')" and inv: "ops_inv db"
  obtains (finished) r where "readDispatchTransition db (os_StationID s) op = Inr r" "tr_Status r = ''succeeded'' \<or> tr_Status r = ''failed''"
      "db' = db" "out = Transition.truncate r"
  | (committed) r status phase version where "readDispatchTransition db (os_StationID s) op = Inr r" "tr_OperationID r = op"
      "tr_Status r \<noteq> ''succeeded''" "tr_Status r \<noteq> ''failed''" "\<not> forward_pending db op"
      "decided s v runtime r status phase version"
      "commit_body s (de_now v) r status phase version (de_mid v db) = Commit (Inr out) db'"
proof -
  obtain r where r: "readDispatchTransition db (os_StationID s) op = Inr r"
    using d by (simp add: DispatchTransition_def split: if_split_asm sum.split_asm)
  note rid = readDispatch_id [OF r inv]
  note d1 = d [unfolded DispatchTransition_def r sum.case]
  have com: "commit_body s (de_now v) r a b c (de_mid v db) = Commit (Inr out) db'"
    if "commitTransition s (de_commit_fault v) (de_now v) r a b c (de_mid v db) = (Inr out, db')" for a b c
    using that by (simp add: commitTransition_def split: if_split_asm tx.split_asm)
  show ?thesis
  proof (cases "tr_Status r = ''succeeded'' \<or> tr_Status r = ''failed''")
    case True
    then show ?thesis using d1 finished [OF r True] by (simp split: if_split_asm)
  next
    case False
    have fp: "\<not> forward_pending db op" using d1 False by (simp split: if_split_asm)
    let ?i = "dispatch_installationState r"
    have main: "(if tr_Phase r = ''accepted'' then commitTransition s (de_commit_fault v) (de_now v) r ''running'' ''checking'' [] (de_mid v db)
        else if tr_Phase r = ''recovery_required'' then commitTransition s (de_commit_fault v) (de_now v) r ''running'' ''restoring'' [] (de_mid v db)
        else dispatch_running s v runtime r ?i op db) = (Inr out, db')"
      using d1 False fp unfolding Let_def by (simp only: if_False if_True split: if_split_asm) simp_all
    consider "tr_Phase r = ''accepted''" | "tr_Phase r = ''recovery_required''"
      | "tr_Phase r \<noteq> ''accepted''" "tr_Phase r \<noteq> ''recovery_required''" by blast
    then show ?thesis
    proof cases
      case 1
      then show ?thesis using main com committed [OF r rid] False fp by (simp add: decided_def)
    next
      case 2
      then show ?thesis using main com committed [OF r rid] False fp by (simp add: decided_def)
    next
      case 3
      then have run: "dispatch_running s v runtime r ?i op db = (Inr out, db')" using main by simp
      obtain p where p: "runtime \<lparr>st_OperationID = op, st_RequestID = de_request v, st_InputDigest = inputDigest s r,
          st_Mode = dispatch_mode (tr_Phase r) ?i\<rparr> = Inr p"
        using run by (simp add: dispatch_running_def Let_def split: sum.split_asm)
      note run1 = run [unfolded dispatch_running_def Let_def p sum.case]
      obtain status phase version where dec: "transition_decision (Transition.truncate r) ?i (dispatch_mode (tr_Phase r) ?i) (tp_Phase p)
          = Some (status, phase, version)"
        using run1 by (simp split: if_split_asm option.split_asm prod.split_asm)
      have "reports s v runtime r (tp_Phase p)" using p run1 rid by (auto simp: reports_def split: if_split_asm)
      then have "decided s v runtime r status phase version" using 3 dec by (auto simp: decided_def)
      moreover have "commit_body s (de_now v) r status phase version (de_mid v db) = Commit (Inr out) db'"
        using run1 dec com by (simp split: if_split_asm)
      ultimately show ?thesis using committed [OF r rid] False fp by blast
    qed
  qed
qed

text \<open>The row a dispatch commits from, and the installation it finds there.\<close>

lemma dispatch_position:
  assumes r: "readDispatchTransition db station op = Inr r" and inv: "ops_inv db"
    and act: "tr_Status r \<noteq> ''succeeded''" "tr_Status r \<noteq> ''failed''"
  shows "dispatch_installationState r = Original \<or> (dispatch_installationState r = AtTarget \<and> tr_Phase r = ''releasing'')"
    and "in_State (dt_Installed r) = ''installed''" and "in_InstallationID (dt_Installed r) = tr_InstallationID r"
    and "ts_AppVersion (tr_Source r) \<noteq> ts_AppVersion (tr_Target r)" and "status_phase_ok (tr_Status r) (tr_Phase r)"
    and "ts_AppVersion (tr_Target r) \<noteq> []"
proof -
  from readDispatch_row [OF r inv] obtain t i where t: "matches t i" "active_row t \<longrightarrow> position_ok t i" "row_ok t"
    "TransitionSnapshot_valid (tr_Target t)" and eq: "r = with_installed (Transition.truncate t) (tw_user t) (tw_org t) i" by metis
  have pos: "position_ok t i" using act eq t(2) by (auto simp: active_row_def)
  note ps = position_state [OF pos t(3,1)]
  show "dispatch_installationState r = Original \<or> (dispatch_installationState r = AtTarget \<and> tr_Phase r = ''releasing'')"
    using ps(1,3) eq by auto
  show "in_State (dt_Installed r) = ''installed''" "in_InstallationID (dt_Installed r) = tr_InstallationID r"
    "ts_AppVersion (tr_Source r) \<noteq> ts_AppVersion (tr_Target r)" "status_phase_ok (tr_Status r) (tr_Phase r)"
    using pos t eq by (simp_all add: position_ok_def matches_def row_ok_def)
  show "ts_AppVersion (tr_Target r) \<noteq> []" using valid_version_nonempty snapshot_version t(4) eq by auto
qed

end
