(* ===== verification/Ops_Refinement.thy ===== *)
theory Ops_Refinement
  imports Ops_Properties
begin

text \<open>
  The life of a version transition as an abstract state machine, and the proof that the
  interleaved handlers of the operations package implement it.
\<close>

section \<open>The abstract transition\<close>

datatype tstate = Accepted | Preparing nat | Publishing | Restoring | Recovery | ReleasingSource | ReleasingTarget | Succeeded | Failed

text \<open>
  What a transition promises: preparation only moves forward, only the first two stages may be
  rejected, the version is published once, between \<open>Publishing\<close> and \<open>ReleasingTarget\<close>, and a
  transition that has published can no longer be restored or fail.
\<close>

inductive tstep :: "tstate \<Rightarrow> tstate \<Rightarrow> bool" where
  start: "tstep Accepted (Preparing 0)"
| prepare: "i \<le> j \<Longrightarrow> j \<le> 3 \<Longrightarrow> tstep (Preparing i) (Preparing j)"
| reject: "i \<le> 1 \<Longrightarrow> tstep (Preparing i) Failed"
| prepared: "i \<le> 3 \<Longrightarrow> tstep (Preparing i) Publishing"
| prepare_lost: "tstep (Preparing i) Recovery"
| publish: "tstep Publishing ReleasingTarget"
| publish_lost: "tstep Publishing Recovery"
| recover: "tstep Recovery Restoring"
| restore_lost: "tstep Restoring Recovery"
| restored: "tstep Restoring ReleasingSource"
| release_source: "tstep ReleasingSource Failed"
| release_target: "tstep ReleasingTarget Succeeded"
| forward: "x = Restoring \<or> x = Recovery \<Longrightarrow> tstep x Failed"

lemmas tstep_simps = tstep.simps

definition state_of :: "string \<Rightarrow> string \<Rightarrow> bool \<Rightarrow> tstate" where
  "state_of status phase target =
     (if status = ''succeeded'' then Succeeded else if status = ''failed'' then Failed
      else if phase = ''accepted'' then Accepted else if phase = ''publishing'' then Publishing
      else if phase = ''restoring'' then Restoring else if phase = ''recovery_required'' then Recovery
      else if phase = ''releasing'' then if target then ReleasingTarget else ReleasingSource
      else Preparing (nat (index_of stages phase)))"

definition published :: "Installation list \<Rightarrow> transition_row \<Rightarrow> bool" where
  "published insts t = list_ex (\<lambda>i. matches t i \<and> at_target t i) insts"

definition abs_state :: "Installation list \<Rightarrow> transition_row \<Rightarrow> tstate" where
  "abs_state insts t = state_of (tr_Status t) (tr_Phase t) (published insts t)"

lemma published_iff:
  assumes "insts_ok insts" and "i \<in> set insts" and "matches t i"
  shows "published insts t \<longleftrightarrow> at_target t i"
proof -
  have "j = i" if "j \<in> set insts" "matches t j" for j
    by (rule inst_by_id [OF assms(1) that(1) assms(2)]) (use that(2) assms(3) in \<open>simp add: matches_def\<close>)
  then show ?thesis using assms(2,3) unfolding published_def list_ex_iff by blast
qed

text \<open>The decision table takes one abstract step, or none.\<close>

lemma stage_index: "p \<in> set (take 4 stages) \<Longrightarrow> state_of ''running'' p b = Preparing (nat (index_of stages p)) \<and>
    0 \<le> index_of stages p \<and> index_of stages p \<le> 3 \<and> index_of (take 4 stages) p = index_of stages p"
  by (auto simp: stages_def state_of_def)

lemma state_of_stage: "p \<in> set stages \<Longrightarrow> p = ''publishing'' \<and> state_of ''running'' p b = Publishing \<or> p \<in> set (take 4 stages)"
  by (auto simp: stages_def state_of_def)

lemma state_of_terminal [simp]:
  "state_of ''failed'' p b = Failed" "state_of ''succeeded'' p b = Succeeded" "state_of ''recovery_required'' ''recovery_required'' b = Recovery"
  "state_of ''running'' ''releasing'' b = (if b then ReleasingTarget else ReleasingSource)" "state_of ''running'' ''publishing'' b = Publishing"
  by (simp_all add: state_of_def)

lemma prepare_decision:
  assumes dec: "transition_decision r Original ''prepare'' p = Some (status, phase, version)" and ph: "tr_Phase r \<in> set stages"
    and p: "p = ''recovery_required'' \<or> p = ''rejected'' \<or> p = ''prepared''"
  shows "(status, phase, version) = (''recovery_required'', ''recovery_required'', []) \<or>
    (p = ''rejected'' \<and> tr_Phase r \<in> set [''checking'', ''sealing''] \<and> (status, phase, version) = (''failed'', ''completed'', [])) \<or>
    (p = ''prepared'' \<and> (if tr_Phase r = ''publishing'' then (status, phase, version) = (''running'', ''releasing'', ts_AppVersion (tr_Target r))
       else (status, phase, version) = (''running'', ''publishing'', [])))"
  using p dec by (elim disjE) (auto simp: transition_decision_def split: if_split_asm)

lemma decision_step:
  assumes dec: "transition_decision r inst (dispatch_mode (tr_Phase r) inst) p = Some (status, phase, version)"
    and inst: "inst = Original \<or> (inst = AtTarget \<and> tr_Phase r = ''releasing'')"
    and run: "tr_Status r = ''running''" "tr_Phase r \<in> set stages \<or> tr_Phase r = ''releasing'' \<or> tr_Phase r = ''restoring''"
    and ne: "ts_AppVersion (tr_Target r) \<noteq> []"
  shows "tstep\<^sup>=\<^sup>= (state_of (tr_Status r) (tr_Phase r) (inst = AtTarget)) (state_of status phase (inst = AtTarget \<or> version \<noteq> []))"
    and "version \<noteq> [] \<Longrightarrow> tr_Phase r = ''publishing'' \<and> p = ''prepared'' \<and> version = ts_AppVersion (tr_Target r) \<and>
      inst = Original \<and> status = ''running'' \<and> phase = ''releasing''"
    and "status = ''succeeded'' \<Longrightarrow> inst = AtTarget \<and> tr_Phase r = ''releasing'' \<and> p = ''released'' \<and> version = []"
    and "status = ''failed'' \<Longrightarrow> inst = Original \<and> version = [] \<and>
      (tr_Phase r = ''releasing'' \<and> p = ''released'' \<or> tr_Phase r \<in> set [''checking'', ''sealing''] \<and> p = ''rejected'')"
proof -
  let ?G = "tstep\<^sup>=\<^sup>= (state_of (tr_Status r) (tr_Phase r) (inst = AtTarget)) (state_of status phase (inst = AtTarget \<or> version \<noteq> [])) \<and>
    (version \<noteq> [] \<longrightarrow> tr_Phase r = ''publishing'' \<and> p = ''prepared'' \<and> version = ts_AppVersion (tr_Target r) \<and>
      inst = Original \<and> status = ''running'' \<and> phase = ''releasing'') \<and>
    (status = ''succeeded'' \<longrightarrow> inst = AtTarget \<and> tr_Phase r = ''releasing'' \<and> p = ''released'' \<and> version = []) \<and>
    (status = ''failed'' \<longrightarrow> inst = Original \<and> version = [] \<and>
      (tr_Phase r = ''releasing'' \<and> p = ''released'' \<or> tr_Phase r \<in> set [''checking'', ''sealing''] \<and> p = ''rejected''))"
  have ?G
  proof (cases "tr_Phase r \<in> set stages")
    case False
    then consider "tr_Phase r = ''releasing''" "inst = AtTarget" | "tr_Phase r = ''releasing''" "inst = Original"
      | "tr_Phase r = ''restoring''" "inst = Original" using inst run(2) by auto
    then show ?thesis
    proof cases
      case 1
      then show ?thesis using dec run(1) by (simp add: transition_decision_def dispatch_mode_def state_of_def tstep_simps split: if_split_asm) auto
    next
      case 2
      then show ?thesis using dec run(1) by (simp add: transition_decision_def dispatch_mode_def state_of_def tstep_simps split: if_split_asm) auto
    next
      case 3
      then show ?thesis using dec run(1) by (simp add: transition_decision_def dispatch_mode_def state_of_def tstep_simps split: if_split_asm) auto
    qed
  next
    case True
    then have st: "dispatch_mode (tr_Phase r) inst = ''prepare''" "inst = Original" using inst by (auto simp: dispatch_mode_def stages_def)
    have dec1: "transition_decision r Original ''prepare'' p = Some (status, phase, version)" using dec st by metis
    show ?thesis
    proof (cases "p = ''recovery_required'' \<or> p = ''rejected'' \<or> p = ''prepared''")
      case True
      note pd = prepare_decision [OF dec1 \<open>tr_Phase r \<in> set stages\<close> True]
      show ?thesis
      proof (cases "tr_Phase r = ''publishing''")
        case True
        then show ?thesis using pd st run(1) ne by (auto intro: tstep.intros)
      next
        case False
        then have "tr_Phase r \<in> set (take 4 stages)" using \<open>tr_Phase r \<in> set stages\<close> state_of_stage by blast
        note sr = stage_index [OF this]
        have "tr_Phase r \<in> set [''checking'', ''sealing''] \<Longrightarrow> index_of stages (tr_Phase r) \<le> 1" by (auto simp: stages_def)
        then show ?thesis using pd st run(1) sr False
          by (auto intro!: tstep.reject tstep.prepared tstep.prepare_lost simp: nat_le_iff)
      qed
    next
      case False
      then have d: "(status, phase, version) = (''running'', p, [])" "index_of stages (tr_Phase r) \<le> index_of (take 4 stages) p"
        using dec1 by (auto simp: transition_decision_def Let_def split: if_splits)
      have "0 \<le> index_of stages (tr_Phase r)" using True by (simp add: index_of_member)
      then have p: "p \<in> set (take 4 stages)" using d(2) index_of_member [of "take 4 stages" p] by linarith
      note si = stage_index [OF p]
      have "tr_Phase r \<in> set (take 4 stages)" using True d(2) si by (auto simp: stages_def split: if_splits)
      note sr = stage_index [OF this]
      show ?thesis using d si sr run(1) st by (auto intro!: tstep.prepare simp: nat_le_iff)
    qed
  qed
  then show "tstep\<^sup>=\<^sup>= (state_of (tr_Status r) (tr_Phase r) (inst = AtTarget)) (state_of status phase (inst = AtTarget \<or> version \<noteq> []))"
    and "version \<noteq> [] \<Longrightarrow> tr_Phase r = ''publishing'' \<and> p = ''prepared'' \<and> version = ts_AppVersion (tr_Target r) \<and>
      inst = Original \<and> status = ''running'' \<and> phase = ''releasing''"
    and "status = ''succeeded'' \<Longrightarrow> inst = AtTarget \<and> tr_Phase r = ''releasing'' \<and> p = ''released'' \<and> version = []"
    and "status = ''failed'' \<Longrightarrow> inst = Original \<and> version = [] \<and>
      (tr_Phase r = ''releasing'' \<and> p = ''released'' \<or> tr_Phase r \<in> set [''checking'', ''sealing''] \<and> p = ''rejected'')"
    by blast+
qed

section \<open>Simulation\<close>

text \<open>The abstract state a transition had in an earlier database; a transition it does not have starts as accepted.\<close>

definition origin :: "station_db \<Rightarrow> transition_row \<Rightarrow> tstate" where
  "origin db t' = (case find (\<lambda>t. tr_OperationID t = tr_OperationID t') (d_transitions db) of
     None \<Rightarrow> Accepted | Some t \<Rightarrow> abs_state (d_installations db) t)"

definition sim :: "station_db \<Rightarrow> station_db \<Rightarrow> bool" where
  "sim db db' \<longleftrightarrow> tr_OperationID ` set (d_transitions db) \<subseteq> tr_OperationID ` set (d_transitions db') \<and>
     (\<forall>t' \<in> set (d_transitions db'). tstep\<^sup>*\<^sup>* (origin db t') (abs_state (d_installations db') t'))"

lemma origin_row:
  assumes "ops_inv db" and "t \<in> set (d_transitions db)" and "tr_OperationID t' = tr_OperationID t"
  shows "origin db t' = abs_state (d_installations db) t"
  using find_unique [of tr_OperationID "d_transitions db" t] assms by (simp add: origin_def ops_inv_def)

lemma origin_new: "tr_OperationID t' \<notin> tr_OperationID ` set (d_transitions db) \<Longrightarrow> origin db t' = Accepted"
proof -
  assume "tr_OperationID t' \<notin> tr_OperationID ` set (d_transitions db)"
  then have "find (\<lambda>t. tr_OperationID t = tr_OperationID t') (d_transitions db) = None"
    unfolding find_None_set by (metis image_eqI)
  then show ?thesis by (simp add: origin_def)
qed

lemma sim_trans:
  assumes "sim db db'" and "sim db' db''" and "ops_inv db'"
  shows "sim db db''"
  unfolding sim_def
proof (intro conjI ballI)
  show "tr_OperationID ` set (d_transitions db) \<subseteq> tr_OperationID ` set (d_transitions db'')"
    using assms(1,2) unfolding sim_def by (meson order_trans)
next
  fix t'' assume t'': "t'' \<in> set (d_transitions db'')"
  then have s: "tstep\<^sup>*\<^sup>* (origin db' t'') (abs_state (d_installations db'') t'')" using assms(2) by (simp add: sim_def)
  show "tstep\<^sup>*\<^sup>* (origin db t'') (abs_state (d_installations db'') t'')"
  proof (cases "tr_OperationID t'' \<in> tr_OperationID ` set (d_transitions db')")
    case True
    then obtain t' where t': "t' \<in> set (d_transitions db')" "tr_OperationID t'' = tr_OperationID t'" by auto
    have "tstep\<^sup>*\<^sup>* (origin db t'') (abs_state (d_installations db') t')" using assms(1) t' by (simp add: sim_def origin_def)
    then show ?thesis using s origin_row [OF assms(3) t'] by simp
  next
    case False
    then have "tr_OperationID t'' \<notin> tr_OperationID ` set (d_transitions db)" using assms(1) by (auto simp: sim_def)
    then show ?thesis using s origin_new False by metis
  qed
qed

text \<open>A step that keeps the rows and the installations that active rows claim.\<close>

definition keeps :: "station_db \<Rightarrow> Installation list \<Rightarrow> bool" where
  "keeps db insts' \<longleftrightarrow> (\<forall>t \<in> set (d_transitions db). \<forall>i \<in> set (d_installations db). active_row t \<and> matches t i \<longrightarrow> i \<in> set insts')"

lemma abs_kept:
  assumes inv: "ops_inv db" and ok: "insts_ok insts'" and t: "t \<in> set (d_transitions db)"
    and k: "\<And>i. active_row t \<Longrightarrow> i \<in> set (d_installations db) \<Longrightarrow> matches t i \<Longrightarrow> i \<in> set insts'"
  shows "abs_state insts' t = abs_state (d_installations db) t"
proof (cases "active_row t")
  case True
  have io: "insts_ok (d_installations db)" using inv by (simp add: ops_inv_def)
  obtain i where i: "i \<in> set (d_installations db)" "matches t i" using inv t by (auto simp: ops_inv_def list_all_iff trans_ok_def)
  then show ?thesis using published_iff [OF io i] published_iff [OF ok k [OF True i] i(2)] by (simp add: abs_state_def)
next
  case False
  then show ?thesis by (auto simp: abs_state_def state_of_def active_row_def)
qed

lemma sim_keeps:
  assumes inv: "ops_inv db" "ops_inv db'" and ts: "d_transitions db' = d_transitions db @ new" and k: "keeps db (d_installations db')"
    and new: "\<And>t. t \<in> set new \<Longrightarrow> abs_state (d_installations db') t = Accepted \<and> tr_OperationID t \<notin> tr_OperationID ` set (d_transitions db)"
  shows "sim db db'"
  unfolding sim_def
proof (intro conjI ballI)
  fix t' assume "t' \<in> set (d_transitions db')"
  then consider "t' \<in> set (d_transitions db)" | "t' \<in> set new" using ts by auto
  then show "tstep\<^sup>*\<^sup>* (origin db t') (abs_state (d_installations db') t')"
  proof cases
    case 1
    have "abs_state (d_installations db') t' = abs_state (d_installations db) t'"
      by (rule abs_kept [OF inv(1) _ 1]) (use inv(2) k 1 in \<open>auto simp: ops_inv_def keeps_def\<close>)
    then show ?thesis using origin_row [OF inv(1) 1 refl] by simp
  next
    case 2
    then show ?thesis using new [OF 2] origin_new [of t' db] by simp
  qed
qed (use ts in auto)

lemma keeps_same: "keeps db (d_installations db)"
  by (simp add: keeps_def)

lemma sim_refl: "ops_inv db \<Longrightarrow> sim db db"
  by (rule sim_keeps [where new = "[]"]) (auto simp: keeps_same)

lemma keeps_update:
  assumes free: "\<And>j. j \<in> set (d_installations db) \<Longrightarrow> P j \<Longrightarrow> inst_key j \<notin> set (transition_claims (d_transitions db))"
  shows "keeps db (update_rows P f (d_installations db) @ new)"
proof -
  have "i \<in> set (update_rows P f (d_installations db))"
    if "t \<in> set (d_transitions db)" "active_row t" "i \<in> set (d_installations db)" "matches t i" for t i
  proof -
    have "inst_key i \<in> set (transition_claims (d_transitions db))"
      using that by (auto simp: transition_claims_def inst_key_def matches_def)
    then have "\<not> P i" using free that(3) by blast
    then show ?thesis using that(3) by (auto simp: update_rows_def image_iff intro: bexI [of _ i])
  qed
  then show ?thesis by (auto simp: keeps_def)
qed

lemma submit_sim:
  assumes inv: "ops_inv db"
  shows "sim db (snd (submit s f v u c db))"
proof -
  have body: "sim db db'" if b: "submit_body s v u c db = Commit r db'" and st: "cm_StationID c = os_StationID s" and inv': "ops_inv db'" for r db'
  proof (cases "find_operation_key db (ic_UserID u) (ic_OrganizationID u) (os_StationID s) (cm_IdempotencyKey c)")
    case (Some x)
    then have "db' = db" using b by (simp add: submit_body_def Let_def split: if_split_asm sum.split_asm)
    then show ?thesis using sim_refl inv by simp
  next
    case None
    then have "submit_new s v u c db = Commit r db'" using b by (simp add: submit_body_def)
    then obtain inst db1 x where n: "\<not> submit_busy db (os_StationID s) (cm_AppID c)"
      "reserveInstallation (sb_now v) (sb_installation v) u c (sb_preinstalled v) db = Inr (inst, db1)"
      "record_submission s v u c x inst db1 = Inr db'" by (rule submit_new_effect)
    note rp = reserve_preserves [OF n(2) inv]
    note re = record_effect [OF n(3)]
    obtain add where add: "d_installations db1 = d_installations db @ add"
      using n(2) by (auto simp: reserveInstallation_def split: option.split_asm if_split_asm)
    have free: "(os_StationID s, cm_AppID c) \<notin> set (transition_claims (d_transitions db))"
      using n(1) by (auto simp: submit_busy_def transition_claims_def list_ex_iff)
    have key: "inst_key j = (os_StationID s, cm_AppID c)" if ne: "inst \<noteq> []" and j: "j \<in> set (d_installations db)" "in_InstallationID j = inst" for j
    proof -
      have io: "insts_ok (d_installations db1)" using rp by (simp add: ops_inv_def)
      obtain i where i: "i \<in> set (d_installations db1)" "in_InstallationID i = inst" "inst_key i = (os_StationID s, cm_AppID c)"
        using rp ne st by auto
      have "j = i" by (rule inst_by_id [OF io _ i(1)]) (use j i(2) add in simp_all)
      then show ?thesis using i(3) by simp
    qed
    have "\<exists>new. d_installations db' = update_rows (\<lambda>i. inst \<noteq> [] \<and> in_InstallationID i = inst)
        (\<lambda>i. i\<lparr>in_LastOperationID := sb_operation v, in_Revision := in_Revision i + 1, in_UpdatedAt := pg_time (sb_now v)\<rparr>)
        (d_installations db) @ new"
      using re(5) add by (cases "inst = []") (auto simp: update_rows_def)
    then obtain new where new: "d_installations db' = update_rows (\<lambda>i. inst \<noteq> [] \<and> in_InstallationID i = inst)
        (\<lambda>i. i\<lparr>in_LastOperationID := sb_operation v, in_Revision := in_Revision i + 1, in_UpdatedAt := pg_time (sb_now v)\<rparr>)
        (d_installations db) @ new" ..
    have "keeps db (d_installations db')" unfolding new using free key by (intro keeps_update) auto
    then show ?thesis using re(2) rp by (intro sim_keeps [OF inv inv', where new = "[]"]) auto
  qed
  have "cm_StationID c = os_StationID s" if "submit_guard s u c = None"
    using that by (simp add: submit_guard_def split: if_split_asm)
  then show ?thesis using body sim_refl [OF inv] submit_preserves [OF inv, of s f v u c]
    by (auto simp: submit_def split: option.splits tx.splits)
qed

lemma accept_sim:
  assumes inv: "ops_inv db"
  shows "sim db (snd (SubmitTransition s f now newID actor c reader db))"
proof -
  have body: "sim db db'" if b: "SubmitTransition_body s now newID actor c reader db = Commit r db'" and inv': "ops_inv db'" for r db'
  proof (cases "find_by_key db (ic_UserID actor) (ic_OrganizationID actor) (os_StationID s) (tc_IdempotencyKey c)")
    case (Some t)
    then have "db' = db" using b by (simp add: SubmitTransition_body_def split: if_split_asm sum.split_asm)
    then show ?thesis using sim_refl inv by simp
  next
    case None
    then have "accept_transition s now newID actor c reader db = Commit r db'" using b by (simp add: SubmitTransition_body_def)
    then obtain app source target where "newID \<notin> tr_OperationID ` set (d_transitions db)"
      "db' = ops_audit (tc_RequestID c) (ic_UserID actor) (ic_OrganizationID actor) (Some (ic_SessionID actor))
         (''app.'' @ tc_Action c @ ''.accepted'')
         (db\<lparr>d_transitions := d_transitions db @ [accepted_row s now newID actor c app source target]\<rparr>)"
      by (rule accept_effect) blast
    then show ?thesis by (intro sim_keeps [OF inv inv']) (auto simp: keeps_same abs_state_def state_of_def accepted_row_def)
  qed
  then show ?thesis using sim_refl [OF inv] SubmitTransition_preserves [OF inv, of s f now newID actor c reader]
    by (auto simp: SubmitTransition_def split: tx.splits)
qed

lemma postponed_sim:
  assumes inv: "ops_inv db" "ops_inv db'" and same: "d_transitions db' = d_transitions db" "d_installations db' = d_installations db"
  shows "sim db db'"
  using same by (intro sim_keeps [OF inv, where new = "[]"]) (auto simp: keeps_def)

lemma settle_sim:
  assumes st: "settle_progress now x p db = Commit r db'" and inv: "ops_inv db" "ops_inv db'" and x: "x \<in> set (d_operations db)" "active_op x"
  shows "sim db db'"
proof -
  obtain q where q: "recordInstallationProgress now (op_ID x) (op_action x) (ap_Status q) (record_progress now q (op_ID x) db) = Inr db'"
    using st by (simp add: settle_progress_def split: option.split_asm if_split_asm sum.split_asm)
  obtain y where y: "find (\<lambda>y. op_ID y = op_ID x) (d_operations (record_progress now q (op_ID x) db)) = Some y"
    "op_installation y = op_installation x" "op_ID y = op_ID x"
    using find_unique [of op_ID "d_operations db" x] inv(1) x(1) by (simp add: ops_inv_def record_progress_def find_update_rows)
  note e = progress_effect [OF q y(1)]
  have claim: "(op_station x, op_app x) \<notin> set (transition_claims (d_transitions db))"
    using inv(1) x by (auto simp: ops_inv_def op_claims_def)
  have free: "inst_key j \<notin> set (transition_claims (d_transitions db))" if j: "j \<in> set (d_installations db)" "in_InstallationID j = op_installation x" for j
  proof -
    have io: "insts_ok (d_installations db)" "op_ok (d_installations db) x" using inv(1) x(1) by (auto simp: ops_inv_def list_all_iff)
    have "op_installation x \<noteq> []" using j io(1) by (auto simp: insts_ok_def list_all_iff)
    then obtain i where i: "i \<in> set (d_installations db)" "in_InstallationID i = op_installation x" "inst_key i = (op_station x, op_app x)"
      using io(2) by (auto simp: op_ok_def inst_key_def)
    have "j = i" by (rule inst_by_id [OF io(1) j(1) i(1)]) (use i j in simp)
    then show ?thesis using i claim by simp
  qed
  have ts: "d_transitions db' = d_transitions db @ []" using e by (simp add: record_progress_def)
  have "keeps db (d_installations db')"
  proof (cases "d_installations db' = d_installations db")
    case False
    then obtain i f where i: "bound_installation (record_progress now q (op_ID x) db) y = Some i"
      "d_installations db' = update_rows (\<lambda>j. in_InstallationID j = in_InstallationID i) f (d_installations db)"
      using e by (auto simp: record_progress_def)
    have "in_InstallationID i = op_installation x"
      using find_Some_iff_set [OF i(1) [unfolded bound_installation_def]] y(2) by simp
    then have "keeps db (update_rows (\<lambda>j. in_InstallationID j = in_InstallationID i) f (d_installations db) @ [])"
      using free by (intro keeps_update) simp
    then show ?thesis using i(2) by simp
  qed (simp add: keeps_same)
  then show ?thesis by (intro sim_keeps [OF inv ts]) auto
qed

lemma DispatchOne_sim:
  assumes inv: "ops_inv db"
  shows "sim db (snd (DispatchOne s f now locked client bound db))"
proof -
  have sc: "sim db db'" if c: "settle_call now x res db = Commit r db'" "ops_inv db'" "x \<in> set (d_operations db)" "active_op x" for x res r db'
    using c settle_sim [OF _ inv c(2-4)] postponed_sim [OF inv c(2)]
    by (cases res) (auto simp: settle_call_def postponeDispatch_def split: grpc_code.split_asm)
  have body: "sim db db'" if b: "DispatchOne_body s now locked client bound db = Commit r db'" and inv': "ops_inv db'" for r db'
  proof (cases "next_operation db (os_StationID s) locked")
    case None
    then show ?thesis using b sim_refl [OF inv] by (simp add: DispatchOne_body_def)
  next
    case (Some x)
    then have x: "x \<in> set (d_operations db)" "active_op x" using min_by_in by (fastforce simp: next_operation_def)+
    have pp: "sim db db'" if "postponeDispatch now i e db = Commit r db'" for i e
      using that by (intro postponed_sim [OF inv inv']) (auto simp: postponeDispatch_def)
    show ?thesis using b Some sc [OF _ inv' x] pp
      by (simp add: DispatchOne_body_def Let_def split: option.split_asm prod.split_asm if_split_asm)
  qed
  have "ops_inv (snd (DispatchOne s f now locked client bound db))" using DispatchOne_preserves [OF inv] by blast
  then show ?thesis using body sim_refl [OF inv] by (auto simp: DispatchOne_def split: tx.splits)
qed

text \<open>The step of one transition row, with its installation moved to the target when \<open>Q\<close> holds.\<close>

lemma row_sim:
  assumes inv: "ops_inv db" "ops_inv db'" and t: "t \<in> set (d_transitions db)" "active_row t"
    and i: "i \<in> set (d_installations db)" "matches t i"
    and ts: "d_transitions db' = update_rows (\<lambda>x. tr_OperationID x = tr_OperationID t) g (d_transitions db)"
    and g: "\<And>x. tr_OperationID (g x) = tr_OperationID x"
    and insts: "d_installations db' = update_rows (\<lambda>x. Q \<and> in_InstallationID x = in_InstallationID i) f (d_installations db)"
    and step: "tstep\<^sup>=\<^sup>= (abs_state (d_installations db) t) (abs_state (d_installations db') (g t))"
  shows "sim db db'"
  unfolding sim_def
proof (intro conjI ballI)
  have "map tr_OperationID (d_transitions db') = map tr_OperationID (d_transitions db)"
    unfolding ts by (rule map_update_rows) (simp add: g)
  then show "tr_OperationID ` set (d_transitions db) \<subseteq> tr_OperationID ` set (d_transitions db')"
    by (metis list.set_map order_refl)
next
  fix t' assume "t' \<in> set (d_transitions db')"
  then obtain x where x: "x \<in> set (d_transitions db)" "t' = (if tr_OperationID x = tr_OperationID t then g x else x)"
    unfolding ts by (auto simp: update_rows_def)
  have o: "origin db t' = abs_state (d_installations db) x" using origin_row [OF inv(1) x(1)] x(2) g by simp
  show "tstep\<^sup>*\<^sup>* (origin db t') (abs_state (d_installations db') t')"
  proof (cases "tr_OperationID x = tr_OperationID t")
    case True
    have "x = t" by (rule trans_by_id [OF inv(1) x(1) t(1) True])
    then show ?thesis using o x True step by auto
  next
    case False
    then have [simp]: "t' = x" using x by simp
    have "abs_state (d_installations db') x = abs_state (d_installations db) x"
    proof (rule abs_kept [OF inv(1) _ x(1)])
      show "insts_ok (d_installations db')" using inv(2) by (simp add: ops_inv_def)
      fix j assume j: "active_row x" "j \<in> set (d_installations db)" "matches x j"
      have "in_InstallationID j \<noteq> in_InstallationID i"
      proof
        assume "in_InstallationID j = in_InstallationID i"
        then have "j = i" using inst_by_id [OF _ j(2) i(1)] inv(1) by (simp add: ops_inv_def)
        then show False using claimed_installation [OF inv(1) t i(2) x(1) j(1)] j(3) False by blast
      qed
      then show "j \<in> set (d_installations db')" unfolding insts using j(2) by (auto simp: update_rows_def image_iff)
    qed
    then show ?thesis using o by simp
  qed
qed

lemma decided_step:
  assumes dec: "decided s v runtime r status phase version" and rd: "readDispatchTransition db station op = Inr r" and inv: "ops_inv db"
    and act: "tr_Status r \<noteq> ''succeeded''" "tr_Status r \<noteq> ''failed''"
  shows "tstep\<^sup>=\<^sup>= (state_of (tr_Status r) (tr_Phase r) (dispatch_installationState r = AtTarget))
      (state_of status phase (dispatch_installationState r = AtTarget \<or> version \<noteq> []))"
    and "version \<noteq> [] \<Longrightarrow> tr_Phase r = ''publishing'' \<and> reports s v runtime r ''prepared'' \<and> version = ts_AppVersion (tr_Target r) \<and>
      dispatch_installationState r = Original \<and> status = ''running'' \<and> phase = ''releasing''"
    and "status = ''succeeded'' \<Longrightarrow> dispatch_installationState r = AtTarget \<and> tr_Phase r = ''releasing'' \<and>
      reports s v runtime r ''released'' \<and> version = []"
    and "status = ''failed'' \<Longrightarrow> dispatch_installationState r = Original \<and> version = [] \<and>
      (tr_Phase r = ''releasing'' \<and> reports s v runtime r ''released'' \<or>
       tr_Phase r \<in> set [''checking'', ''sealing''] \<and> reports s v runtime r ''rejected'')"
proof -
  note dp = dispatch_position [OF rd inv act]
  let ?i = "dispatch_installationState r"
  let ?G = "tstep\<^sup>=\<^sup>= (state_of (tr_Status r) (tr_Phase r) (?i = AtTarget)) (state_of status phase (?i = AtTarget \<or> version \<noteq> [])) \<and>
    (version \<noteq> [] \<longrightarrow> tr_Phase r = ''publishing'' \<and> reports s v runtime r ''prepared'' \<and> version = ts_AppVersion (tr_Target r) \<and>
      ?i = Original \<and> status = ''running'' \<and> phase = ''releasing'') \<and>
    (status = ''succeeded'' \<longrightarrow> ?i = AtTarget \<and> tr_Phase r = ''releasing'' \<and> reports s v runtime r ''released'' \<and> version = []) \<and>
    (status = ''failed'' \<longrightarrow> ?i = Original \<and> version = [] \<and>
      (tr_Phase r = ''releasing'' \<and> reports s v runtime r ''released'' \<or>
       tr_Phase r \<in> set [''checking'', ''sealing''] \<and> reports s v runtime r ''rejected''))"
  consider (a) "tr_Phase r = ''accepted''" "status = ''running''" "phase = ''checking''" "version = []"
    | (b) "tr_Phase r = ''recovery_required''" "status = ''running''" "phase = ''restoring''" "version = []"
    | (c) p where "tr_Phase r \<noteq> ''accepted''" "tr_Phase r \<noteq> ''recovery_required''" "reports s v runtime r p"
      "transition_decision (Transition.truncate r) ?i (dispatch_mode (tr_Phase r) ?i) p = Some (status, phase, version)"
    using dec unfolding decided_def by auto
  then have ?G
  proof cases
    case a
    then show ?thesis using act by (simp add: state_of_def stages_def tstep.start)
  next
    case b
    then show ?thesis using act by (simp add: state_of_def tstep.recover)
  next
    case c
    have run: "tr_Status r = ''running''" "tr_Phase r \<in> set stages \<or> tr_Phase r = ''releasing'' \<or> tr_Phase r = ''restoring''"
      using dp(5) c(1,2) act by (auto simp: status_phase_ok_def stages_def)
    have ds: "tr_Phase (Transition.truncate r) = tr_Phase r" "tr_Status (Transition.truncate r) = tr_Status r"
      "tr_Target (Transition.truncate r) = tr_Target r" by (simp_all add: Transition.truncate_def)
    note step = decision_step [of "Transition.truncate r" ?i p status phase version, unfolded ds, OF c(4) dp(1) run dp(6)]
    show ?thesis using step c(3) by blast
  qed
  then show "tstep\<^sup>=\<^sup>= (state_of (tr_Status r) (tr_Phase r) (?i = AtTarget)) (state_of status phase (?i = AtTarget \<or> version \<noteq> []))"
    and "version \<noteq> [] \<Longrightarrow> tr_Phase r = ''publishing'' \<and> reports s v runtime r ''prepared'' \<and> version = ts_AppVersion (tr_Target r) \<and>
      ?i = Original \<and> status = ''running'' \<and> phase = ''releasing''"
    and "status = ''succeeded'' \<Longrightarrow> ?i = AtTarget \<and> tr_Phase r = ''releasing'' \<and> reports s v runtime r ''released'' \<and> version = []"
    and "status = ''failed'' \<Longrightarrow> ?i = Original \<and> version = [] \<and>
      (tr_Phase r = ''releasing'' \<and> reports s v runtime r ''released'' \<or>
       tr_Phase r \<in> set [''checking'', ''sealing''] \<and> reports s v runtime r ''rejected'')"
    by blast+
qed

text \<open>What a committed decision does to its row and to the installation.\<close>

lemma commit_sim:
  assumes inv0: "ops_inv db0" and rd: "readDispatchTransition db0 (os_StationID s) (tr_OperationID prior) = Inr prior"
    and act: "tr_Status prior \<noteq> ''succeeded''" "tr_Status prior \<noteq> ''failed''" and ev: "evolves db0 db" and inv: "ops_inv db" "ops_inv db'"
    and dec: "decided s v runtime prior status phase version" and c: "commit_body s now prior status phase version db = Commit r db'"
  shows "sim db db'"
proof -
  from c obtain current where cur: "readDispatchTransition db (os_StationID s) (tr_OperationID prior) = Inr current"
    and same: "tr_Status current = tr_Status prior" "dt_Installed current = dt_Installed prior" "tr_Phase current = tr_Phase prior"
    and ts: "d_transitions db' = update_rows (\<lambda>t. tr_OperationID t = tr_OperationID current)
       (\<lambda>t. t\<lparr>tr_Status := status, tr_Phase := phase, tr_UpdatedAt := pg_time now\<rparr>) (d_transitions db)"
    and insts: "d_installations db' = (if version = [] then d_installations db else
       update_rows (\<lambda>x. in_InstallationID x = tr_InstallationID current \<and> in_AppVersion x = in_AppVersion (dt_Installed current) \<and>
           in_Revision x = in_Revision (dt_Installed current) \<and> in_State x = ''installed'')
         (\<lambda>x. x\<lparr>in_AppVersion := version, in_Revision := in_Revision (dt_Installed current) + 1, in_UpdatedAt := pg_time now\<rparr>)
         (d_installations db))"
    by (rule commit_effect)
  from readDispatch_row [OF cur inv(1)] obtain t i where t: "t \<in> set (d_transitions db)" "i \<in> set (d_installations db)"
    "tr_OperationID t = tr_OperationID prior" "matches t i" "active_row t \<longrightarrow> position_ok t i" "row_ok t"
    and eq: "current = with_installed (Transition.truncate t) (tw_user t) (tw_org t) i" by metis
  have imm: "tr_Source t = tr_Source prior" "tr_Target t = tr_Target prior" "tr_ExpectedRevision t = tr_ExpectedRevision prior"
    using prior_row [OF inv0 rd ev inv(1) cur] eq by auto
  have st: "active_row t" using act same eq by (simp add: active_row_def)
  then have pos: "position_ok t i" using t(5) by simp
  have ii: "dt_Installed prior = i" using same eq by simp
  have io: "insts_ok (d_installations db)" "insts_ok (d_installations db')" using inv by (simp_all add: ops_inv_def)
  note ds = decided_step [OF dec rd inv0 act]
  have "dispatch_installationState prior = dispatch_installationState current"
    using imm ii eq by (simp add: dispatch_installationState_def)
  then have at: "dispatch_installationState prior = AtTarget \<longleftrightarrow> at_target t i"
    using position_state [OF pos t(6,4)] eq by auto
  let ?Q = "version \<noteq> []"
  let ?f = "\<lambda>x. x\<lparr>in_AppVersion := version, in_Revision := in_Revision i + 1, in_UpdatedAt := pg_time now\<rparr>"
  have insts': "d_installations db' = update_rows (\<lambda>x. ?Q \<and> in_InstallationID x = in_InstallationID i) ?f (d_installations db)"
  proof (cases "version = []")
    case False
    have "in_State i = ''installed''" "tr_InstallationID current = in_InstallationID i"
      using pos t(4) eq by (simp_all add: position_ok_def matches_def)
    then show ?thesis unfolding insts using False eq inst_by_id [OF io(1) _ t(2)]
      by (auto intro!: update_rows_cong)
  qed (simp add: insts)
  let ?t = "t\<lparr>tr_Status := status, tr_Phase := phase, tr_UpdatedAt := pg_time now\<rparr>"
  let ?i = "if ?Q then ?f i else i"
  have "?i \<in> set (d_installations db')" unfolding insts' using t(2) by (auto simp: update_rows_def image_iff)
  moreover have "matches ?t ?i" using t(4) by (simp add: matches_def)
  ultimately have "published (d_installations db') ?t \<longleftrightarrow> at_target ?t ?i" by (rule published_iff [OF io(2)])
  also have "\<dots> \<longleftrightarrow> at_target t i \<or> ?Q"
  proof (cases ?Q)
    case True
    then have "at_source t i" using ds(2) at position_state(3) [OF pos t(6,4)] by auto
    then show ?thesis using True ds(2) imm by (simp add: at_target_def at_source_def)
  qed (simp add: at_target_def)
  finally have after: "abs_state (d_installations db') ?t = state_of status phase (at_target t i \<or> ?Q)" by (simp add: abs_state_def)
  have before: "abs_state (d_installations db) t = state_of (tr_Status prior) (tr_Phase prior) (at_target t i)"
    using published_iff [OF io(1) t(2,4)] same eq by (simp add: abs_state_def)
  show ?thesis
  proof (rule row_sim [OF inv t(1) st t(2,4) _ _ insts'])
    show "d_transitions db' = update_rows (\<lambda>x. tr_OperationID x = tr_OperationID t)
       (\<lambda>x. x\<lparr>tr_Status := status, tr_Phase := phase, tr_UpdatedAt := pg_time now\<rparr>) (d_transitions db)" using ts eq by simp
    show "tstep\<^sup>=\<^sup>= (abs_state (d_installations db) t) (abs_state (d_installations db') ?t)"
      unfolding before after using ds(1) at by simp
  qed simp
qed

lemma commit_refused: "commitTransition s f now r a b c db = (Inl e, db') \<Longrightarrow> db' = db"
  by (auto simp: commitTransition_def commit_body_def Let_def split: if_split_asm sum.split_asm)

lemma dispatch_refused:
  assumes "DispatchTransition s v op runtime db = (Inl e, db')"
  shows "db' = db \<or> db' = de_mid v db"
proof (cases "readDispatchTransition db (os_StationID s) op")
  case (Inl x)
  then show ?thesis using assms by (auto simp: DispatchTransition_def split: if_split_asm)
next
  case (Inr r)
  have run: "db' = de_mid v db" if "dispatch_running s v runtime r i op db = (Inl e, db')" for i
    using that commit_refused by (auto simp: dispatch_running_def Let_def split: sum.split_asm if_split_asm option.split_asm)
  show ?thesis using assms Inr run commit_refused
    by (auto simp: DispatchTransition_def Let_def split: if_split_asm)
qed

lemma dispatch_sim:
  assumes inv: "ops_inv db" and mid: "ops_inv (de_mid v db)" "evolves db (de_mid v db)" "sim db (de_mid v db)"
  shows "sim db (snd (DispatchTransition s v op runtime db))"
proof (cases "DispatchTransition s v op runtime db")
  case (Pair res db')
  have inv': "ops_inv db'" using Dispatch_preserves [OF inv mid(1,2), of s op runtime] Pair by simp
  show ?thesis
  proof (cases res)
    case (Inl e)
    then show ?thesis using dispatch_refused Pair sim_refl [OF inv] mid(3) by fastforce
  next
    case (Inr out)
    have d: "DispatchTransition s v op runtime db = (Inr out, db')" using Pair Inr by simp
    from d inv show ?thesis
    proof (cases rule: dispatch_committed)
      case finished
      then show ?thesis using Pair sim_refl [OF inv] by simp
    next
      case (committed r status phase version)
      have "sim (de_mid v db) db'"
        by (rule commit_sim [OF inv _ committed(3,4) mid(2,1) inv' committed(6,7)]) (use committed(1,2) in simp)
      then show ?thesis using sim_trans [OF mid(3) _ mid(1)] Pair by simp
    qed
  qed
qed

lemma finish_sim:
  assumes f: "finishForward_body s now a r verified db = Commit x db'" and inv: "ops_inv db" "ops_inv db'"
  shows "sim db db'"
proof -
  from f obtain parent where rd: "readDispatchTransition db (os_StationID s) (fr_OperationID r) = Inr parent"
    and al: "allowedWorldForward parent (fr_Target r)"
    and ts: "d_transitions db' = (if verified then update_rows (\<lambda>t. tr_OperationID t = fr_OperationID r)
        (\<lambda>t. t\<lparr>tr_Status := ''failed'', tr_Phase := ''completed'', tr_UpdatedAt := pg_time now\<rparr>) (d_transitions db) else d_transitions db)"
    and insts: "d_installations db' = (if verified then update_rows (\<lambda>x. in_InstallationID x = tr_InstallationID parent \<and>
          in_AppVersion x = fr_InstalledVersion r \<and> in_Revision x = fr_ExpectedRevision r \<and> in_State x = ''installed'')
        (\<lambda>x. x\<lparr>in_AppVersion := ts_AppVersion (fr_Target r), in_Revision := fr_ExpectedRevision r + 1, in_UpdatedAt := pg_time now\<rparr>)
        (d_installations db) else d_installations db)"
    by (rule finishForward_effect)
  show ?thesis
  proof (cases verified)
    case False
    then show ?thesis using ts insts by (intro postponed_sim [OF inv]) simp_all
  next
    case True
    from readDispatch_row [OF rd inv(1)] obtain t i where t: "t \<in> set (d_transitions db)" "i \<in> set (d_installations db)"
      "tr_OperationID t = fr_OperationID r" "matches t i"
      and eq: "parent = with_installed (Transition.truncate t) (tw_user t) (tw_org t) i" by metis
    have ph: "tr_Phase t = ''restoring'' \<or> tr_Phase t = ''recovery_required''" "tr_Status t = ''running'' \<or> tr_Status t = ''recovery_required''"
      using al eq by (auto simp: allowedWorldForward_def)
    have io: "insts_ok (d_installations db)" using inv(1) by (simp add: ops_inv_def)
    have id: "tr_InstallationID parent = in_InstallationID i" using eq t(4) by (simp add: matches_def)
    let ?f = "\<lambda>x. if in_AppVersion x = fr_InstalledVersion r \<and> in_Revision x = fr_ExpectedRevision r \<and> in_State x = ''installed''
        then x\<lparr>in_AppVersion := ts_AppVersion (fr_Target r), in_Revision := fr_ExpectedRevision r + 1, in_UpdatedAt := pg_time now\<rparr> else x"
    have insts': "d_installations db' = update_rows (\<lambda>x. True \<and> in_InstallationID x = in_InstallationID i) ?f (d_installations db)"
      unfolding insts using True id by (simp add: update_rows_def)
    show ?thesis
    proof (rule row_sim [OF inv t(1) _ t(2,4) _ _ insts'])
      show "active_row t" using ph by (auto simp: active_row_def)
      show "d_transitions db' = update_rows (\<lambda>x. tr_OperationID x = tr_OperationID t)
         (\<lambda>t. t\<lparr>tr_Status := ''failed'', tr_Phase := ''completed'', tr_UpdatedAt := pg_time now\<rparr>) (d_transitions db)"
        using ts True t(3) by simp
      have "abs_state (d_installations db) t = Restoring \<or> abs_state (d_installations db) t = Recovery"
        using ph by (auto simp: abs_state_def state_of_def)
      then show "tstep\<^sup>=\<^sup>= (abs_state (d_installations db) t) (abs_state (d_installations db')
          (t\<lparr>tr_Status := ''failed'', tr_Phase := ''completed'', tr_UpdatedAt := pg_time now\<rparr>))"
        by (auto simp: abs_state_def intro: tstep.forward)
    qed simp
  qed
qed

definition refines :: "station_db \<Rightarrow> station_db \<Rightarrow> bool" where
  "refines db db' \<longleftrightarrow> (ops_inv db \<longrightarrow> ops_inv db' \<and> evolves db db' \<and> sim db db')"

lemma refines_trans: "refines db db' \<Longrightarrow> refines db' db'' \<Longrightarrow> refines db db''"
  unfolding refines_def using evolves_trans sim_trans by blast

lemma refines_refl: "refines db db"
  by (simp add: refines_def sim_refl)

lemma refines_steps: "(\<lambda>x y. R x y \<and> refines x y)\<^sup>*\<^sup>* a b \<Longrightarrow> refines a b"
  by (induction rule: rtranclp_induct) (auto intro: refines_refl refines_trans)

lemma refines_frame:
  assumes "d_installations db' = d_installations db" and "d_transitions db' = d_transitions db" and "ops_inv db \<Longrightarrow> ops_inv db' \<and> evolves db db'"
  shows "refines db db'"
  unfolding refines_def using assms postponed_sim by blast

lemma forward_refines:
  assumes db1: "db1 = snd (transact (de_read_fault v) DbError (acceptForward_body s newID a c) db)"
    and mid: "refines db1 (de_mid v db1)"
  shows "refines db (snd (SubmitForwardRecovery s v newID a c runtime db))"
proof -
  obtain res where res: "transact (de_read_fault v) DbError (acceptForward_body s newID a c) db = (res, db1)"
    using db1 by (cases "transact (de_read_fault v) DbError (acceptForward_body s newID a c) db") auto
  have "d_installations db1 = d_installations db" "d_transitions db1 = d_transitions db"
    unfolding db1 using acceptForward_effect [of s newID a c db] by (auto split: tx.splits)
  then have 1: "refines db db1"
    by (rule refines_frame) (use acceptForward_preserves [of s newID a c db] in \<open>auto simp: db1 split: tx.splits\<close>)
  have 2: "refines db (de_mid v db1)" using mid 1 refines_trans by blast
  have fin: "refines (de_mid v db1) (snd (transact f DbError (finishForward_body s now a r b) (de_mid v db1)))" for f now r b
    using finishForward_preserves [of s now a r b "de_mid v db1"] finish_sim [of s now a r b "de_mid v db1"] refines_refl
    by (auto simp: refines_def split: tx.splits)
  have "snd (SubmitForwardRecovery s v newID a c runtime db) \<in> {db, db1, de_mid v db1} \<or>
    (\<exists>f now r b. snd (SubmitForwardRecovery s v newID a c runtime db) =
       snd (transact f DbError (finishForward_body s now a r b) (de_mid v db1)))"
    unfolding SubmitForwardRecovery_def res
    by (simp add: Let_def split: sum.split option.split) blast
  with refines_refl 1 2 refines_trans [OF 2 fin] show ?thesis by (elim disjE exE) auto
qed

lemma ops_step_refines: "ops_step s db db' \<Longrightarrow> refines db db'"
proof (induction rule: ops_step.induct)
  case (submit_transition db f now newID actor c reader)
  then show ?case using SubmitTransition_preserves accept_sim by (auto simp: refines_def)
next
  case (dispatch_transition db v op runtime)
  have "refines db (de_mid v db)" by (rule refines_steps [OF dispatch_transition(1)])
  then show ?case unfolding refines_def using Dispatch_preserves dispatch_sim by blast
next
  case (forward_recovery db1 v newID a c db runtime)
  show ?case by (rule forward_refines [OF forward_recovery(2) refines_steps [OF forward_recovery(1)]])
next
  case (submit_operation db f sv u cmd)
  then show ?case using submit_preserves submit_sim by (auto simp: refines_def)
next
  case (dispatch_operation db f now locked client bound)
  then show ?case using DispatchOne_preserves DispatchOne_sim by (auto simp: refines_def)
next
  case (runtime_proof db p)
  show ?case by (rule refines_frame) (use ops_inv_frame [of "db\<lparr>d_proofs := p # d_proofs db\<rparr>" db]
      evolves_frame [of "db\<lparr>d_proofs := p # d_proofs db\<rparr>" db] in simp_all)
qed

interpretation refinement: rely_guarantee ops_inv refines "ops_step s" for s
proof (unfold_locales, goal_cases)
  case (3 db db')
  then show ?case using ops_step_refines [OF 3(2)] by (simp add: refines_def)
qed (use refines_refl refines_trans in blast)+

text \<open>
  C1. Refinement. Whatever the interleaving of requests, every stored transition moves only
  along the abstract machine: a transition that the earlier database already had continues
  from its state there, and a new one starts as accepted. So preparation never moves back, a
  transition is rejected only in its first two stages, the version is published exactly once,
  and after the publication it can neither be restored nor fail.
\<close>

theorem transitions_refine:
  assumes "ops_inv db" and "(ops_step s)\<^sup>*\<^sup>* db db'" and "t' \<in> set (d_transitions db')"
  shows "tstep\<^sup>*\<^sup>* (origin db t') (abs_state (d_installations db') t')"
  using refinement.steps_ok [OF assms(2,1)] assms(1,3) by (simp add: refines_def sim_def)

end
