(* ===== verification/Ops_Progress.thy ===== *)
theory Ops_Progress
  imports Ops_Refinement
begin

text \<open>
  What one dispatch of a transition does: it commits in an undisturbed database, a Runtime that
  completes its steps finishes every transition, and the exact effect of a committed decision on
  the installation.
\<close>

section \<open>Progress\<close>

text \<open>Reading a transition for dispatch by its row.\<close>

lemma find_by_id:
  assumes "distinct (map k xs)" and "x \<in> set xs" and "k x = a" and "Q x"
  shows "find (\<lambda>y. k y = a \<and> Q y) xs = Some x"
  using assms by (induction xs) auto

lemma readDispatch_intro:
  assumes inv: "ops_inv db" and t: "t \<in> set (d_transitions db)" and i: "i \<in> set (d_installations db)" "matches t i"
    and ok: "TransitionSnapshot_valid (tr_Source t)" "TransitionSnapshot_valid (tr_Target t)" "tr_ExpectedRevision t \<le> MaxInt64 - 2"
    "compatibleTransition (dispatch_command (Transition.truncate t)) (i\<lparr>in_AppVersion := ts_AppVersion (tr_Source t)\<rparr>) (tr_Source t) (tr_Target t)"
  shows "readDispatchTransition db (tw_station t) (tr_OperationID t) = Inr (with_installed (Transition.truncate t) (tw_user t) (tw_org t) i)"
    and "readTransition db (tw_user t) (tw_org t) (tw_station t) (tr_OperationID t) = Inr (Transition.truncate t)"
proof -
  have d: "distinct (map tr_OperationID (d_transitions db))" "distinct (map in_InstallationID (d_installations db))"
    using inv by (simp_all add: ops_inv_def insts_ok_def)
  note f1 = find_by_id [OF d(1) t refl, of "\<lambda>x. tw_station x = tw_station t"]
  note f2 = find_by_id [OF d(1) t refl, of "\<lambda>x. tw_user x = tw_user t \<and> tw_org x = tw_org t \<and> tw_station x = tw_station t"]
  have f3: "find (\<lambda>x. in_InstallationID x = tr_InstallationID t \<and> in_StationID x = tw_station t \<and> in_OrganizationID x = tw_org t)
      (d_installations db) = Some i"
    using i by (intro find_by_id [OF d(2)]) (auto simp: matches_def)
  show rt: "readTransition db (tw_user t) (tw_org t) (tw_station t) (tr_OperationID t) = Inr (Transition.truncate t)"
    using f2 ok by (simp add: readTransition_def)
  have "find_installation db (tr_InstallationID (Transition.truncate t)) (tw_station t) (tw_org t) = Some i"
    using f3 by (simp add: find_installation_def Transition.truncate_def)
  then show "readDispatchTransition db (tw_station t) (tr_OperationID t) = Inr (with_installed (Transition.truncate t) (tw_user t) (tw_org t) i)"
    using f1 rt ok by (simp add: readDispatchTransition_def Transition.truncate_def)
qed

lemma readDispatch_compatible:
  assumes "readDispatchTransition db station op = Inr r"
  shows "compatibleTransition (dispatch_command (Transition.truncate r)) ((dt_Installed r)\<lparr>in_AppVersion := ts_AppVersion (tr_Source r)\<rparr>)
    (tr_Source r) (tr_Target r)"
  using assms by (auto simp: readDispatchTransition_def with_installed_def Transition.defs dispatch_command_def split: option.split_asm sum.split_asm if_split_asm)

lemma compatible_installed: "in_AppID i' = in_AppID i \<Longrightarrow> in_AppVersion i' = in_AppVersion i \<Longrightarrow>
    compatibleTransition c i' source target = compatibleTransition c i source target"
  by (simp add: compatibleTransition_def)

text \<open>A decision commits when nothing else has changed the transition or its installation.\<close>

lemma quiet_commit:
  assumes inv: "ops_inv db" and rd: "readDispatchTransition db (os_StationID s) op = Inr r"
    and act: "tr_Status r \<noteq> ''succeeded''" "tr_Status r \<noteq> ''failed''" and legal: "legal_commit r status phase version"
  obtains out db' r' where "commit_body s now r status phase version db = Commit (Inr out) db'" "ops_inv db'" "evolves db db'"
    "readDispatchTransition db' (os_StationID s) op = Inr r'" "d_forwards db' = d_forwards db"
    "tr_Status out = status" "tr_Phase out = phase" "tr_Status r' = status" "tr_Phase r' = phase" "tr_Target r' = tr_Target r"
    "dispatch_installationState r' = (if version = [] then dispatch_installationState r else AtTarget)"
proof -
  from readDispatch_row [OF rd inv] obtain t i where t: "t \<in> set (d_transitions db)" "i \<in> set (d_installations db)"
    "tr_OperationID t = op" "tw_station t = os_StationID s" "matches t i" "active_row t \<longrightarrow> position_ok t i" "row_ok t"
    "TransitionSnapshot_valid (tr_Source t)" "TransitionSnapshot_valid (tr_Target t)" "tr_ExpectedRevision t \<le> MaxInt64 - 2"
    and eq: "r = with_installed (Transition.truncate t) (tw_user t) (tw_org t) i" by metis
  have pos: "position_ok t i" using act t(6) eq by (simp add: active_row_def)
  note ps = position_state [OF pos t(7,5)]
  let ?P = "\<lambda>x. in_InstallationID x = tr_InstallationID r \<and> in_AppVersion x = in_AppVersion (dt_Installed r) \<and>
    in_Revision x = in_Revision (dt_Installed r) \<and> in_State x = ''installed''"
  have P: "list_ex ?P (d_installations db)"
    using t(2,5) pos eq by (auto simp: list_ex_iff matches_def position_ok_def intro!: bexI [of _ i])
  have "in_Revision i \<le> MaxInt64 - 1" using ps(3) t(10) by (auto simp: at_source_def at_target_def)
  then have b: "bump (in_Revision (dt_Installed r)) = Some (in_Revision i + 1)" using eq by (simp add: bump_def)
  let ?g = "\<lambda>t. t\<lparr>tr_Status := status, tr_Phase := phase, tr_UpdatedAt := pg_time now\<rparr>"
  define db1 where "db1 = (if version = [] then db else transitionAudit r (if version = ts_AppVersion (tr_Source r) then ''restored'' else ''published'')
    (db\<lparr>d_installations := update_rows ?P (\<lambda>x. x\<lparr>in_AppVersion := version, in_Revision := in_Revision i + 1, in_UpdatedAt := pg_time now\<rparr>) (d_installations db)\<rparr>))"
  define db2 where "db2 = set_transition now op status phase (if phase = ''completed'' then transitionAudit r status db1 else db1)"
  have d2: "d_transitions db2 = update_rows (\<lambda>t. tr_OperationID t = op) ?g (d_transitions db)" "d_forwards db2 = d_forwards db"
    by (simp_all add: db2_def db1_def set_transition_def transitionAudit_def ops_audit_def)
  have "find (\<lambda>x. tr_OperationID x = op \<and> tw_user x = tw_user t \<and> tw_org x = tw_org t \<and> tw_station x = os_StationID s) (d_transitions db) = Some t"
    using inv t(1,3,4) by (intro find_by_id) (auto simp: ops_inv_def)
  then have "readTransition db2 (tw_user t) (tw_org t) (os_StationID s) op = Inr (Transition.truncate (?g t))"
    unfolding readTransition_def d2 using t by (subst find_update_rows) auto
  then have read: "readTransition db2 (dt_UserID r) (dt_OrganizationID r) (os_StationID s) (tr_OperationID r) = Inr (Transition.truncate (?g t))"
    using eq t(3) by simp
  have pub: "(if version = [] then Inr db
      else map_sum id (transitionAudit r (if version = ts_AppVersion (tr_Source r) then ''restored'' else ''published''))
        (publish_version now (tr_InstallationID r) version (in_AppVersion (dt_Installed r)) (in_Revision (dt_Installed r)) db)) = Inr db1"
    using P b by (simp add: publish_version_def Let_def db1_def)
  have rid: "tr_OperationID r = op" using eq t(3) by simp
  have com: "commit_body s now r status phase version db = Commit (Inr (Transition.truncate (?g t))) db2"
    unfolding commit_body_def rid rd sum.case pub Let_def db2_def [symmetric]
    using read rid by simp
  have inv': "ops_inv db2 \<and> evolves db db2"
    by (rule commit_preserves [OF inv _ act _ inv legal com]) (use rd readDispatch_id [OF rd inv] in simp_all)
  let ?i = "if version = [] then i else i\<lparr>in_AppVersion := version, in_Revision := in_Revision i + 1, in_UpdatedAt := pg_time now\<rparr>"
  have i': "?i \<in> set (d_installations db2)"
    using t(2,5) pos eq by (auto simp: db2_def db1_def set_transition_def update_rows_def image_iff matches_def position_ok_def intro!: bexI [of _ i])
  have t': "?g t \<in> set (d_transitions db2)" unfolding d2 using t(1,3) by (auto simp: update_rows_def image_iff intro!: bexI [of _ t])
  have comp0: "compatibleTransition (dispatch_command (Transition.truncate (?g t))) (i\<lparr>in_AppVersion := ts_AppVersion (tr_Source t)\<rparr>)
      (tr_Source t) (tr_Target t)"
    using readDispatch_compatible [OF rd] eq by (simp add: dispatch_command_def Transition.defs with_installed_def)
  have "compatibleTransition (dispatch_command (Transition.truncate (?g t))) (?i\<lparr>in_AppVersion := ts_AppVersion (tr_Source t)\<rparr>)
      (tr_Source t) (tr_Target t)"
    by (subst compatible_installed [of _ "i\<lparr>in_AppVersion := ts_AppVersion (tr_Source t)\<rparr>"]) (simp_all add: comp0)
  then have comp: "compatibleTransition (dispatch_command (Transition.truncate (?g t))) (?i\<lparr>in_AppVersion := ts_AppVersion (tr_Source (?g t))\<rparr>)
      (tr_Source (?g t)) (tr_Target (?g t))" by simp
  have "readDispatchTransition db2 (tw_station (?g t)) (tr_OperationID (?g t)) =
      Inr (with_installed (Transition.truncate (?g t)) (tw_user (?g t)) (tw_org (?g t)) ?i)"
    by (rule readDispatch_intro [OF _ t' i' _ _ _ _ comp]) (use inv' t in \<open>simp_all add: matches_def\<close>)
  then have rd': "readDispatchTransition db2 (os_StationID s) op = Inr (with_installed (Transition.truncate (?g t)) (tw_user t) (tw_org t) ?i)"
    using t(3,4) by simp
  show ?thesis
  proof (rule that [OF com _ _ rd' d2(2)])
    show "dispatch_installationState (with_installed (Transition.truncate (?g t)) (tw_user t) (tw_org t) ?i) =
        (if version = [] then dispatch_installationState r else AtTarget)"
    proof (cases "version = []")
      case True
      then show ?thesis using eq by (simp add: dispatch_installationState_def)
    next
      case False
      then have "version = ts_AppVersion (tr_Target t)" "at_source t i" using legal eq ps by (auto simp: legal_commit_def split: if_splits)
      then show ?thesis using False pos t(5,7)
        by (auto simp: dispatch_installationState_def Let_def position_ok_def matches_def row_ok_def at_source_def)
    qed
  qed (use inv' eq in simp_all)
qed

text \<open>A Runtime that completes every step it is asked for, and a dispatch that nothing disturbs.\<close>

definition answer :: "string \<Rightarrow> string" where
  "answer mode = (if mode = ''prepare'' then ''prepared'' else if mode = ''restore'' then ''restored'' else ''released'')"

definition cooperative :: transition_runtime where
  "cooperative step = Inr (TransitionStep.extend step \<lparr>tp_Phase = answer (st_Mode step)\<rparr>)"

definition quiet :: "dispatch_env \<Rightarrow> bool" where
  "quiet v \<longleftrightarrow> de_locked v \<and> \<not> de_read_fault v \<and> \<not> de_commit_fault v \<and> de_mid v = id"

definition dispatches_left :: "dispatchTransition \<Rightarrow> nat" where
  "dispatches_left r =
     (if tr_Status r = ''succeeded'' \<or> tr_Status r = ''failed'' then 0 else if tr_Phase r = ''releasing'' then 1
      else if tr_Phase r = ''publishing'' \<or> tr_Phase r = ''restoring'' then 2 else if tr_Phase r = ''accepted'' then 4 else 3)"

definition will_succeed :: "dispatchTransition \<Rightarrow> bool" where
  "will_succeed r \<longleftrightarrow> tr_Status r = ''succeeded'' \<or> (tr_Status r \<noteq> ''failed'' \<and>
     (tr_Phase r \<in> set early_phases \<or> (tr_Phase r = ''releasing'' \<and> dispatch_installationState r = AtTarget)))"

lemma cooperative_decides:
  assumes act: "tr_Status r = ''running''" and ph: "tr_Phase r \<in> set stages \<or> tr_Phase r = ''releasing'' \<or> tr_Phase r = ''restoring''"
    and st: "inst = Original \<or> (inst = AtTarget \<and> tr_Phase r = ''releasing'')"
  shows "transition_decision (Transition.truncate r) inst (dispatch_mode (tr_Phase r) inst)
      (answer (dispatch_mode (tr_Phase r) inst)) =
    Some (if tr_Phase r = ''releasing'' then (if inst = AtTarget then ''succeeded'' else ''failed'', ''completed'', [])
      else if tr_Phase r = ''restoring'' then (''running'', ''releasing'', [])
      else if tr_Phase r = ''publishing'' then (''running'', ''releasing'', ts_AppVersion (tr_Target r)) else (''running'', ''publishing'', []))"
proof -
  consider "tr_Phase r = ''releasing''" | "tr_Phase r = ''restoring''" "inst = Original" | "tr_Phase r \<in> set stages" using ph st by auto
  then show ?thesis
  proof cases
    case 1
    then show ?thesis using st by (auto simp: transition_decision_def dispatch_mode_def answer_def)
  next
    case 2
    then show ?thesis by (simp add: transition_decision_def dispatch_mode_def answer_def)
  next
    case 3
    then have "tr_Phase r \<noteq> ''releasing''" "tr_Phase r \<noteq> ''restoring''" by (auto simp: stages_def)
    then show ?thesis by (simp add: transition_decision_def dispatch_mode_def answer_def Transition.truncate_def)
  qed
qed

text \<open>What a dispatch commits when the Runtime completes the step.\<close>

definition next_commit :: "dispatchTransition \<Rightarrow> string \<times> string \<times> string" where
  "next_commit r =
     (if tr_Phase r = ''accepted'' then (''running'', ''checking'', [])
      else if tr_Phase r = ''recovery_required'' then (''running'', ''restoring'', [])
      else if tr_Phase r = ''releasing'' then (if dispatch_installationState r = AtTarget then ''succeeded'' else ''failed'', ''completed'', [])
      else if tr_Phase r = ''restoring'' then (''running'', ''releasing'', [])
      else if tr_Phase r = ''publishing'' then (''running'', ''releasing'', ts_AppVersion (tr_Target r)) else (''running'', ''publishing'', []))"

lemma next_commit_facts:
  assumes act: "tr_Status r \<noteq> ''succeeded''" "tr_Status r \<noteq> ''failed''" and sp: "status_phase_ok (tr_Status r) (tr_Phase r)"
    and st: "dispatch_installationState r = Original \<or> (dispatch_installationState r = AtTarget \<and> tr_Phase r = ''releasing'')"
    and ne: "ts_AppVersion (tr_Target r) \<noteq> []" and n: "next_commit r = (status, phase, version)"
  shows "legal_commit r status phase version \<and> (\<forall>r'. tr_Status r' = status \<and> tr_Phase r' = phase \<and>
      dispatch_installationState r' = (if version = [] then dispatch_installationState r else AtTarget) \<longrightarrow>
      dispatches_left r' < dispatches_left r \<and> will_succeed r' = will_succeed r)"
proof -
  have "tr_Phase r \<in> set [''accepted'', ''checking'', ''sealing'', ''applying'', ''verifying'', ''publishing'', ''releasing'', ''restoring'', ''recovery_required'']"
    using sp act unfolding status_phase_ok_def by auto
  then consider "tr_Phase r = ''accepted''" | "tr_Phase r = ''checking''" | "tr_Phase r = ''sealing''" | "tr_Phase r = ''applying''"
    | "tr_Phase r = ''verifying''" | "tr_Phase r = ''publishing''" | "tr_Phase r = ''releasing''" | "tr_Phase r = ''restoring''"
    | "tr_Phase r = ''recovery_required''" by auto
  moreover have "status = fst (next_commit r)" "phase = fst (snd (next_commit r))" "version = snd (snd (next_commit r))" using n by simp_all
  ultimately show ?thesis using act st ne
    by cases (auto simp: next_commit_def legal_commit_def status_phase_ok_def dispatches_left_def will_succeed_def early_phases_def)
qed

lemma quiet_dispatch:
  assumes inv: "ops_inv db" and rd: "readDispatchTransition db (os_StationID s) op = Inr r" and q: "quiet v"
    and fp: "\<not> forward_pending db op"
    and can: "canonicalInstallation (os_uuid s) op" "canonicalInstallation (os_uuid s) (os_StationID s)"
    and act: "tr_Status r \<noteq> ''succeeded''" "tr_Status r \<noteq> ''failed''"
  obtains r' out where "ops_inv (snd (DispatchTransition s v op cooperative db))"
    "readDispatchTransition (snd (DispatchTransition s v op cooperative db)) (os_StationID s) op = Inr r'"
    "\<not> forward_pending (snd (DispatchTransition s v op cooperative db)) op"
    "dispatches_left r' < dispatches_left r" "will_succeed r' = will_succeed r"
    "fst (DispatchTransition s v op cooperative db) = Inr out" "tr_Status out = fst (next_commit r)"
proof -
  note dp = dispatch_position [OF rd inv act]
  let ?i = "dispatch_installationState r"
  obtain status phase version where dd: "next_commit r = (status, phase, version)" by (cases "next_commit r")
  note facts = next_commit_facts [OF act dp(5,1,6) dd]
  have ph: "tr_Phase r = ''accepted'' \<or> tr_Phase r = ''recovery_required'' \<or>
      tr_Status r = ''running'' \<and> (tr_Phase r \<in> set stages \<or> tr_Phase r = ''releasing'' \<or> tr_Phase r = ''restoring'')"
    using dp(5) act by (auto simp: status_phase_ok_def stages_def)
  have legal: "legal_commit r status phase version" using facts by blast
  have dispatch: "DispatchTransition s v op cooperative db = commitTransition s False (de_now v) r status phase version db"
  proof -
    have guard: "(?i = Unrelated \<or> (tr_Phase r \<in> set early_phases \<and> ?i \<noteq> Original)) = False"
      using dp(1) by (auto simp: early_phases_def)
    have run: "dispatch_running s v cooperative r ?i op db = commitTransition s False (de_now v) r status phase version db"
      if ne: "tr_Phase r \<noteq> ''accepted''" "tr_Phase r \<noteq> ''recovery_required''"
    proof -
      have run: "tr_Status r = ''running''" "tr_Phase r \<in> set stages \<or> tr_Phase r = ''releasing'' \<or> tr_Phase r = ''restoring''"
        using ph ne by blast+
      have "next_commit r = (if tr_Phase r = ''releasing'' then (if ?i = AtTarget then ''succeeded'' else ''failed'', ''completed'', [])
        else if tr_Phase r = ''restoring'' then (''running'', ''releasing'', [])
        else if tr_Phase r = ''publishing'' then (''running'', ''releasing'', ts_AppVersion (tr_Target r)) else (''running'', ''publishing'', []))"
        using ne by (simp add: next_commit_def)
      then have "transition_decision (Transition.truncate r) ?i (dispatch_mode (tr_Phase r) ?i)
          (answer (dispatch_mode (tr_Phase r) ?i)) = Some (status, phase, version)"
        using dd unfolding cooperative_decides [OF run dp(1)] by (simp only: option.inject)
      then show ?thesis using q by (simp add: dispatch_running_def cooperative_def Let_def quiet_def TransitionStep.defs)
    qed
    have acc: "tr_Phase r = ''accepted'' \<Longrightarrow> status = ''running'' \<and> phase = ''checking'' \<and> version = []"
      and rec: "tr_Phase r = ''recovery_required'' \<Longrightarrow> status = ''running'' \<and> phase = ''restoring'' \<and> version = []"
      using dd by (simp_all add: next_commit_def)
    show ?thesis unfolding DispatchTransition_def rd sum.case Let_def guard if_False
      using can act fp q run acc rec by (simp add: quiet_def)
  qed
  obtain out db' r' where c: "commit_body s (de_now v) r status phase version db = Commit (Inr out) db'" "ops_inv db'"
    "readDispatchTransition db' (os_StationID s) op = Inr r'" "d_forwards db' = d_forwards db" "tr_Status r' = status" "tr_Phase r' = phase"
    "dispatch_installationState r' = (if version = [] then ?i else AtTarget)" "tr_Status out = status"
    by (rule quiet_commit [OF inv rd act legal]) (rule that, assumption+)
  have db': "snd (DispatchTransition s v op cooperative db) = db'" and out: "fst (DispatchTransition s v op cooperative db) = Inr out"
    unfolding dispatch using c(1) by (simp_all add: commitTransition_def)
  have "dispatches_left r' < dispatches_left r" "will_succeed r' = will_succeed r"
    using facts c(5-7) by blast+
  moreover have "tr_Status out = fst (next_commit r)" using c(8) dd by simp
  ultimately show ?thesis using that [of r' out] c(2-4) fp out unfolding db' by (simp add: forward_pending_def)
qed

lemma quiet_finished:
  assumes "readDispatchTransition db (os_StationID s) op = Inr r" and "tr_Status r = ''succeeded'' \<or> tr_Status r = ''failed''"
  shows "snd (DispatchTransition s v op runtime db) = db"
  using assms by (simp add: DispatchTransition_def)

lemma quiet_dispatches:
  assumes "ops_inv db" and "readDispatchTransition db (os_StationID s) op = Inr r" and "quiet v" and "\<not> forward_pending db op"
    and "canonicalInstallation (os_uuid s) op" and "canonicalInstallation (os_uuid s) (os_StationID s)" and "dispatches_left r \<le> n"
  shows "\<exists>r'. readDispatchTransition (((\<lambda>db. snd (DispatchTransition s v op cooperative db)) ^^ n) db) (os_StationID s) op = Inr r' \<and>
    tr_Status r' = (if will_succeed r then ''succeeded'' else ''failed'')"
  using assms
proof (induction n arbitrary: db r)
  case 0
  then show ?case by (auto simp: dispatches_left_def will_succeed_def split: if_splits)
next
  case (Suc n)
  show ?case
  proof (cases "tr_Status r = ''succeeded'' \<or> tr_Status r = ''failed''")
    case True
    then have "dispatches_left r \<le> n" by (auto simp: dispatches_left_def)
    then show ?thesis using Suc.IH [OF Suc.prems(1-6)] quiet_finished [OF Suc.prems(2) True] by (simp add: funpow_Suc_right del: funpow.simps(2))
  next
    case False
    then obtain r' where r': "ops_inv (snd (DispatchTransition s v op cooperative db))"
      "readDispatchTransition (snd (DispatchTransition s v op cooperative db)) (os_StationID s) op = Inr r'"
      "\<not> forward_pending (snd (DispatchTransition s v op cooperative db)) op"
      "dispatches_left r' < dispatches_left r" "will_succeed r' = will_succeed r"
      using quiet_dispatch [OF Suc.prems(1-6)] by blast
    have "dispatches_left r' \<le> n" using r'(4) Suc.prems(7) by simp
    then show ?thesis using Suc.IH [OF r'(1,2) Suc.prems(3) r'(3) Suc.prems(5,6)] r'(5) by (simp add: funpow_Suc_right del: funpow.simps(2))
  qed
qed

text \<open>
  C3. Liveness. With a Runtime that completes every step it is asked for and no disturbance,
  four dispatches finish any active transition of a consistent database that has no pending
  forward recovery: it succeeds if it had not yet left the forward path, and ends as failed at
  its source if it was being restored.
\<close>

theorem transition_completes:
  assumes "ops_inv db" and "readDispatchTransition db (os_StationID s) op = Inr r" and "quiet v" and "\<not> forward_pending db op"
    and "canonicalInstallation (os_uuid s) op" and "canonicalInstallation (os_uuid s) (os_StationID s)"
  shows "\<exists>r'. readDispatchTransition (((\<lambda>db. snd (DispatchTransition s v op cooperative db)) ^^ 4) db) (os_StationID s) op = Inr r' \<and>
    tr_Status r' = (if will_succeed r then ''succeeded'' else ''failed'')"
  by (rule quiet_dispatches [OF assms]) (simp add: dispatches_left_def)

section \<open>The effect of one dispatch\<close>

text \<open>The row and the installation a commit finds, in terms of the transition that was read before.\<close>

lemma commit_out:
  assumes "commit_body s now prior status phase version db = Commit (Inr out) db'"
    and "d_transitions db' = update_rows (\<lambda>t. tr_OperationID t = op)
       (\<lambda>t. t\<lparr>tr_Status := status, tr_Phase := phase, tr_UpdatedAt := pg_time now\<rparr>) (d_transitions db)"
    and "readDispatchTransition db (os_StationID s) (tr_OperationID prior) = Inr current" and "tr_OperationID current = op"
  shows "tr_Status out = status" "tr_Phase out = phase"
proof -
  have "readTransition db' (dt_UserID current) (dt_OrganizationID current) (os_StationID s) op = Inr out"
    using assms(1,4) unfolding commit_body_def assms(3) by (auto simp: Let_def split: if_split_asm sum.split_asm)
  then obtain t where f: "find (\<lambda>t. tr_OperationID t = op \<and> tw_user t = dt_UserID current \<and> tw_org t = dt_OrganizationID current \<and>
      tw_station t = os_StationID s) (d_transitions db') = Some t" and out: "out = Transition.truncate t"
    by (auto simp: readTransition_def split: option.split_asm if_split_asm)
  have t: "t \<in> set (d_transitions db')" "tr_OperationID t = op" using find_Some_iff_set [OF f] by blast+
  obtain x where x: "t = (if tr_OperationID x = op then x\<lparr>tr_Status := status, tr_Phase := phase, tr_UpdatedAt := pg_time now\<rparr> else x)"
    using t(1) unfolding assms(2) update_rows_def set_map by blast
  then have "tr_OperationID x = op" using t(2) by (simp split: if_split_asm)
  then show "tr_Status out = status" "tr_Phase out = phase" using x out by simp_all
qed

lemma commit_position:
  assumes inv0: "ops_inv db0" and rd: "readDispatchTransition db0 (os_StationID s) (tr_OperationID prior) = Inr prior"
    and act: "tr_Status prior \<noteq> ''succeeded''" "tr_Status prior \<noteq> ''failed''" and ev: "evolves db0 db" and inv: "ops_inv db"
    and c: "commit_body s now prior status phase version db = Commit (Inr out) db'"
  shows "dt_Installed prior \<in> set (d_installations db)" "in_InstallationID (dt_Installed prior) = tr_InstallationID prior"
    "in_State (dt_Installed prior) = ''installed''" "tr_Status out = status" "tr_Phase out = phase"
    "d_installations db' = update_rows (\<lambda>x. version \<noteq> [] \<and> in_InstallationID x = tr_InstallationID prior)
       (\<lambda>x. x\<lparr>in_AppVersion := version, in_Revision := in_Revision (dt_Installed prior) + 1, in_UpdatedAt := pg_time now\<rparr>) (d_installations db)"
proof -
  from c obtain current where cur: "readDispatchTransition db (os_StationID s) (tr_OperationID prior) = Inr current"
    and same: "tr_Status current = tr_Status prior" "dt_Installed current = dt_Installed prior" "tr_Phase current = tr_Phase prior"
    and ts: "d_transitions db' = update_rows (\<lambda>t. tr_OperationID t = tr_OperationID current)
       (\<lambda>t. t\<lparr>tr_Status := status, tr_Phase := phase, tr_UpdatedAt := pg_time now\<rparr>) (d_transitions db)"
    and insts: "d_installations db' = (if version = [] then d_installations db else
       update_rows (\<lambda>x. in_InstallationID x = tr_InstallationID current \<and> in_AppVersion x = in_AppVersion (dt_Installed current) \<and>
           in_Revision x = in_Revision (dt_Installed current) \<and> in_State x = ''installed'')
         (\<lambda>x. x\<lparr>in_AppVersion := version, in_Revision := in_Revision (dt_Installed current) + 1, in_UpdatedAt := pg_time now\<rparr>)
         (d_installations db))"
    by (rule commit_effect)
  from readDispatch_row [OF cur inv] obtain t i where t: "t \<in> set (d_transitions db)" "i \<in> set (d_installations db)"
    "tr_OperationID t = tr_OperationID prior" "matches t i" "active_row t \<longrightarrow> position_ok t i"
    and eq: "current = with_installed (Transition.truncate t) (tw_user t) (tw_org t) i" by metis
  have pos: "position_ok t i" using act same eq t(5) by (simp add: active_row_def)
  have ii: "dt_Installed prior = i" using same eq by simp
  have idp: "tr_InstallationID current = tr_InstallationID prior" using prior_row [OF inv0 rd ev inv cur] by simp
  then have idi: "in_InstallationID i = tr_InstallationID prior" using t(4) eq by (simp add: matches_def)
  show "dt_Installed prior \<in> set (d_installations db)" "in_InstallationID (dt_Installed prior) = tr_InstallationID prior"
    "in_State (dt_Installed prior) = ''installed''" using ii t(2) idi pos by (simp_all add: position_ok_def)
  have "tr_OperationID current = tr_OperationID prior" using eq t(3) by simp
  then show "tr_Status out = status" "tr_Phase out = phase" using commit_out [OF c ts cur refl] by simp_all
  have io: "insts_ok (d_installations db)" using inv by (simp add: ops_inv_def)
  have same_id: "in_InstallationID x = tr_InstallationID prior \<longleftrightarrow> x = i" if x: "x \<in> set (d_installations db)" for x
    using inst_by_id [OF io x t(2)] idi by metis
  show "d_installations db' = update_rows (\<lambda>x. version \<noteq> [] \<and> in_InstallationID x = tr_InstallationID prior)
       (\<lambda>x. x\<lparr>in_AppVersion := version, in_Revision := in_Revision (dt_Installed prior) + 1, in_UpdatedAt := pg_time now\<rparr>) (d_installations db)"
  proof (cases "version = []")
    case False
    then show ?thesis unfolding insts same(2) idp ii using same_id pos
      by (auto simp: update_rows_def position_ok_def)
  qed (simp add: insts update_rows_False)
qed

text \<open>
  C2. Publication. A dispatch that returns a transition changes an installation in one case
  only: the transition was publishing, the Runtime confirmed the prepared target for exactly this
  operation and input, and then exactly the transition's installation moves from the source
  version at the expected revision to the target version at the next revision, in the same
  transaction that moves the transition to releasing.
\<close>

theorem dispatch_publication:
  assumes "DispatchTransition s v op runtime db = (Inr out, db')" and "ops_inv db"
    and "ops_inv (de_mid v db)" and "evolves db (de_mid v db)"
  shows "d_installations db' = d_installations db \<or> d_installations db' = d_installations (de_mid v db) \<or>
    (\<exists>r i. readDispatchTransition db (os_StationID s) op = Inr r \<and> tr_Phase r = ''publishing'' \<and> reports s v runtime r ''prepared'' \<and>
       i \<in> set (d_installations (de_mid v db)) \<and> in_InstallationID i = tr_InstallationID r \<and>
       in_AppVersion i = ts_AppVersion (tr_Source r) \<and> in_Revision i = tr_ExpectedRevision r \<and> in_State i = ''installed'' \<and>
       d_installations db' = update_rows (\<lambda>x. in_InstallationID x = tr_InstallationID r)
         (\<lambda>x. x\<lparr>in_AppVersion := ts_AppVersion (tr_Target r), in_Revision := tr_ExpectedRevision r + 1, in_UpdatedAt := pg_time (de_now v)\<rparr>)
         (d_installations (de_mid v db)) \<and>
       tr_Status out = ''running'' \<and> tr_Phase out = ''releasing'')"
  using assms(1,2)
proof (cases rule: dispatch_committed)
  case finished
  then show ?thesis by simp
next
  case (committed r status phase version)
  have rd: "readDispatchTransition db (os_StationID s) (tr_OperationID r) = Inr r" using committed(1,2) by simp
  note cp = commit_position [OF assms(2) rd committed(3,4) assms(4,3) committed(7)]
  note ds = decided_step [OF committed(6,1) assms(2) committed(3,4)]
  show ?thesis
  proof (cases "version = []")
    case True
    then show ?thesis using cp(6) by (simp add: update_rows_False)
  next
    case False
    note pub = ds(2) [OF False]
    then have "in_AppVersion (dt_Installed r) = ts_AppVersion (tr_Source r)" "in_Revision (dt_Installed r) = tr_ExpectedRevision r"
      by (auto simp: dispatch_installationState_def Let_def split: if_splits)
    then show ?thesis using cp pub committed(1) False by auto
  qed
qed

text \<open>
  C20. Outcome. A dispatch that returns a transition found its stored row. If the row was
  already finished, by an earlier dispatch or by a forward recovery, the dispatch returns it
  and changes nothing. Otherwise it reports success only when the Runtime released the target
  and the installation is at the target version, one revision after the expected one; it
  reports failure only when the installation is still at its source version and revision,
  after the Runtime released the source or rejected the transition before replacing anything.
\<close>

theorem dispatch_outcome:
  assumes "DispatchTransition s v op runtime db = (Inr out, db')" and "ops_inv db"
    and "ops_inv (de_mid v db)" and "evolves db (de_mid v db)"
  shows "\<exists>r. readDispatchTransition db (os_StationID s) op = Inr r \<and>
    (if tr_Status r = ''succeeded'' \<or> tr_Status r = ''failed'' then out = Transition.truncate r \<and> db' = db
     else
       (tr_Status out = ''succeeded'' \<longrightarrow> reports s v runtime r ''released'' \<and>
         (\<exists>i \<in> set (d_installations db'). in_InstallationID i = tr_InstallationID r \<and> in_State i = ''installed'' \<and>
            in_AppVersion i = ts_AppVersion (tr_Target r) \<and> in_Revision i = tr_ExpectedRevision r + 1)) \<and>
       (tr_Status out = ''failed'' \<longrightarrow> (reports s v runtime r ''released'' \<or> reports s v runtime r ''rejected'' \<and> tr_Phase r \<in> set [''checking'', ''sealing'']) \<and>
         (\<exists>i \<in> set (d_installations db'). in_InstallationID i = tr_InstallationID r \<and> in_State i = ''installed'' \<and>
            in_AppVersion i = ts_AppVersion (tr_Source r) \<and> in_Revision i = tr_ExpectedRevision r)))"
  using assms(1,2)
proof (cases rule: dispatch_committed)
  case (finished r)
  then show ?thesis by auto
next
  case (committed r status phase version)
  have rd: "readDispatchTransition db (os_StationID s) (tr_OperationID r) = Inr r" using committed(1,2) by simp
  note cp = commit_position [OF assms(2) rd committed(3,4) assms(4,3) committed(7)]
  note ds = decided_step [OF committed(6,1) assms(2) committed(3,4)]
  have stay: "dt_Installed r \<in> set (d_installations db')" if "version = []" using cp(1,6) that by (simp add: update_rows_False)
  have tgt: "in_AppVersion (dt_Installed r) = ts_AppVersion (tr_Target r) \<and> in_Revision (dt_Installed r) = tr_ExpectedRevision r + 1"
    if "dispatch_installationState r = AtTarget" using that by (auto simp: dispatch_installationState_def Let_def split: if_splits)
  have src: "in_AppVersion (dt_Installed r) = ts_AppVersion (tr_Source r) \<and> in_Revision (dt_Installed r) = tr_ExpectedRevision r"
    if "dispatch_installationState r = Original" using that by (auto simp: dispatch_installationState_def Let_def split: if_splits)
  have unfin: "\<not> (tr_Status r = ''succeeded'' \<or> tr_Status r = ''failed'')" using committed(3,4) by blast
  show ?thesis
  proof (rule exI [of _ r], unfold if_not_P [OF unfin], intro conjI impI committed(1))
  qed (use ds(3,4) stay tgt src cp(2-4) in blast)+
qed

section \<open>Idempotent submission\<close>

lemma readTransition_row:
  assumes "readTransition db user org station op = Inr out"
  obtains t where "t \<in> set (d_transitions db)" "tr_OperationID t = op" "tw_user t = user" "tw_org t = org" "tw_station t = station"
    "TransitionSnapshot_valid (tr_Source t)" "TransitionSnapshot_valid (tr_Target t)" "out = Transition.truncate t"
proof -
  from assms obtain t where f: "find (\<lambda>t. tr_OperationID t = op \<and> tw_user t = user \<and> tw_org t = org \<and> tw_station t = station)
      (d_transitions db) = Some t" and v: "TransitionSnapshot_valid (tr_Source t)" "TransitionSnapshot_valid (tr_Target t)" "out = Transition.truncate t"
    by (auto simp: readTransition_def split: option.split_asm if_split_asm)
  show ?thesis using find_Some_iff_set [OF f] v that by blast
qed

text \<open>The stored row of a submission that succeeded.\<close>

lemma submitted_row:
  assumes sub: "SubmitTransition s f now newID actor c reader db = (Inr out, db')" and inv: "ops_inv db"
  obtains t where "t \<in> set (d_transitions db')" "out = Transition.truncate t"
    "tw_user t = ic_UserID actor" "tw_org t = ic_OrganizationID actor" "tw_station t = os_StationID s" "tw_key t = tc_IdempotencyKey c"
    "tw_hash t = transitionHash s c" "TransitionSnapshot_valid (tr_Source t)" "TransitionSnapshot_valid (tr_Target t)"
proof -
  let ?rt = "\<lambda>db. readTransition db (ic_UserID actor) (ic_OrganizationID actor) (os_StationID s)"
  have inv': "ops_inv db'" using SubmitTransition_preserves [OF inv, of s f now newID actor c reader] sub by simp
  have b: "SubmitTransition_body s now newID actor c reader db = Commit (Inr out) db'"
    using sub by (auto simp: SubmitTransition_def split: if_split_asm tx.split_asm)
  show ?thesis
  proof (cases "find_by_key db (ic_UserID actor) (ic_OrganizationID actor) (os_StationID s) (tc_IdempotencyKey c)")
    case (Some t)
    then have t: "?rt db (tr_OperationID t) = Inr out" "db' = db" "tw_hash t = transitionHash s c"
      using b by (auto simp: SubmitTransition_body_def split: if_split_asm sum.split_asm)
    have t0: "t \<in> set (d_transitions db)" "tw_key t = tc_IdempotencyKey c"
      using find_Some_iff_set [OF Some [unfolded find_by_key_def]] by auto
    from readTransition_row [OF t(1)] obtain x where x: "x \<in> set (d_transitions db)" "tr_OperationID x = tr_OperationID t"
      "tw_user x = ic_UserID actor" "tw_org x = ic_OrganizationID actor" "tw_station x = os_StationID s"
      "TransitionSnapshot_valid (tr_Source x)" "TransitionSnapshot_valid (tr_Target x)" "out = Transition.truncate x" .
    have "x = t" by (rule trans_by_id [OF inv x(1) t0(1) x(2)])
    then show ?thesis using that x t t0 by simp
  next
    case None
    then have a: "accept_transition s now newID actor c reader db = Commit (Inr out) db'" using b by (simp add: SubmitTransition_body_def)
    then obtain app source target where "db' = ops_audit (tc_RequestID c) (ic_UserID actor) (ic_OrganizationID actor)
        (Some (ic_SessionID actor)) (''app.'' @ tc_Action c @ ''.accepted'')
        (db\<lparr>d_transitions := d_transitions db @ [accepted_row s now newID actor c app source target]\<rparr>)"
      by (rule accept_effect) blast
    then have row: "accepted_row s now newID actor c app source target \<in> set (d_transitions db')" by simp
    have "?rt db' newID = Inr out"
      using a by (auto simp: accept_transition_def Let_def split: option.split_asm sum.split_asm if_split_asm prod.split_asm)
    from readTransition_row [OF this] obtain x where x: "x \<in> set (d_transitions db')" "tr_OperationID x = newID"
      "tw_user x = ic_UserID actor" "tw_org x = ic_OrganizationID actor" "tw_station x = os_StationID s"
      "TransitionSnapshot_valid (tr_Source x)" "TransitionSnapshot_valid (tr_Target x)" "out = Transition.truncate x" .
    have "x = accepted_row s now newID actor c app source target"
      by (rule trans_by_id [OF inv' x(1) row]) (simp add: x(2) accepted_row_def)
    then show ?thesis using that x by (simp add: accepted_row_def)
  qed
qed

text \<open>
  C21. A successful submission of a transition is idempotent for good: after any further requests,
  submitting under the same key finds the stored transition. The same command, whatever its
  tracing identifier, returns it with its accepted source and target; another command is a
  conflict. Neither changes anything.
\<close>

theorem submit_transition_idempotent:
  assumes "ops_inv db" and "SubmitTransition s f now newID actor c reader db = (Inr out, db')" and "(ops_step s)\<^sup>*\<^sup>* db' db''"
    and "TransitionCommand_valid (os_uuid s) c2" and "tc_IdempotencyKey c2 = tc_IdempotencyKey c"
  shows "snd (SubmitTransition s False now2 newID2 actor c2 reader2 db'') = db'' \<and>
    (if transitionHash s c2 = transitionHash s c
     then \<exists>out2. fst (SubmitTransition s False now2 newID2 actor c2 reader2 db'') = Inr out2 \<and> tr_OperationID out2 = tr_OperationID out \<and>
       tr_Source out2 = tr_Source out \<and> tr_Target out2 = tr_Target out \<and> tr_ExpectedRevision out2 = tr_ExpectedRevision out
     else fst (SubmitTransition s False now2 newID2 actor c2 reader2 db'') = Inl (Fault Conflict))"
proof -
  from submitted_row [OF assms(2,1)] obtain t where t: "t \<in> set (d_transitions db')" "out = Transition.truncate t"
    "tw_user t = ic_UserID actor" "tw_org t = ic_OrganizationID actor" "tw_station t = os_StationID s" "tw_key t = tc_IdempotencyKey c"
    "tw_hash t = transitionHash s c" "TransitionSnapshot_valid (tr_Source t)" "TransitionSnapshot_valid (tr_Target t)" .
  have inv': "ops_inv db'" using SubmitTransition_preserves [OF assms(1), of s f now newID actor c reader] assms(2) by simp
  have st: "ops_inv db''" "evolves db' db''" using ops.steps_ok [OF assms(3) inv'] by blast+
  obtain x where x: "x \<in> set (d_transitions db'')" "trans_evolves t x"
    using st(2) t(1) rows_evolve_member by (fastforce simp: evolves_def)
  have same: "tr_OperationID x = tr_OperationID t" "tr_Source x = tr_Source t" "tr_Target x = tr_Target t" "tr_ExpectedRevision x = tr_ExpectedRevision t"
    "tw_user x = tw_user t" "tw_org x = tw_org t" "tw_station x = tw_station t" "tw_key x = tw_key t" "tw_hash x = tw_hash t"
    using x(2) by (auto simp: trans_evolves_def)
  have key: "find_by_key db'' (ic_UserID actor) (ic_OrganizationID actor) (os_StationID s) (tc_IdempotencyKey c2) = Some x"
    using find_unique [of tr_key4 "d_transitions db''" x] st(1) x(1) same t assms(5)
    by (simp add: ops_inv_def tr_key4_def find_by_key_def)
  have "find (\<lambda>y. tr_OperationID y = tr_OperationID x \<and> tw_user y = ic_UserID actor \<and> tw_org y = ic_OrganizationID actor \<and>
      tw_station y = os_StationID s) (d_transitions db'') = Some x"
    using st(1) x(1) same t by (intro find_by_id) (auto simp: ops_inv_def)
  then have read: "readTransition db'' (ic_UserID actor) (ic_OrganizationID actor) (os_StationID s) (tr_OperationID x) = Inr (Transition.truncate x)"
    using t same by (simp add: readTransition_def)
  have allowed: "\<not> (ic_StationID actor \<noteq> os_StationID s \<or> ''admin'' \<notin> set (ic_Roles actor) \<or> ''app:manage'' \<notin> set (ic_Scopes actor))"
    using assms(2) by (auto simp: SubmitTransition_def split: if_split_asm)
  have "SubmitTransition s False now2 newID2 actor c2 reader2 db'' =
      (if transitionHash s c2 = transitionHash s c then (Inr (Transition.truncate x), db'') else (Inl (Fault Conflict), db''))"
    using allowed assms(4) key read same(9) t(7)
    by (simp add: SubmitTransition_def SubmitTransition_body_def)
  then show ?thesis using t(2) same by simp
qed

section \<open>Completion of a forward recovery\<close>

lemma readForward_row:
  assumes "readForward s db user org i = Inr out"
  shows "\<exists>f \<in> set (d_forwards db). fr_RecoveryID f = i \<and> fr_State out = fr_State f"
proof -
  from assms obtain f where f: "find (\<lambda>f. fr_RecoveryID f = i \<and> fw_user f = user \<and> fw_org f = org \<and> fw_station f = os_StationID s) (d_forwards db) = Some f"
    and "fr_State out = fr_State f"
    by (auto simp: readForward_def Let_def ForwardRecovery.truncate_def split: option.split_asm if_split_asm)
  then show ?thesis using find_Some_iff_set [OF f] by blast
qed

text \<open>
  C22. A forward recovery that the Runtime verified, and for which it stored its proof, moves the
  installation from the version and revision the recovery was bound to, to the target of the
  recovery at the next revision, and ends the parent transition as failed; every other
  installation and transition stays. One that was rejected only records its failure.
\<close>

theorem forward_recovery_effect:
  assumes "ops_inv db" and "finishForward_body s now a r verified db = Commit (Inr out) db'"
  shows "if verified then
      fr_State out = ''succeeded'' \<and> find_proof db (fr_RecoveryID r) (fr_InputDigest r) \<noteq> None \<and>
      (\<exists>t \<in> set (d_transitions db). \<exists>i \<in> set (d_installations db). tr_OperationID t = fr_OperationID r \<and>
         in_InstallationID i = tr_InstallationID t \<and> in_State i = ''installed'' \<and> in_Revision i = fr_ExpectedRevision r \<and>
         in_AppVersion i = ts_AppVersion (tr_Source t) \<and> tr_Phase t \<in> set [''restoring'', ''recovery_required''] \<and>
         d_installations db' = update_rows (\<lambda>x. in_InstallationID x = tr_InstallationID t)
           (\<lambda>x. x\<lparr>in_AppVersion := ts_AppVersion (fr_Target r), in_Revision := fr_ExpectedRevision r + 1, in_UpdatedAt := pg_time now\<rparr>)
           (d_installations db)) \<and>
      d_transitions db' = update_rows (\<lambda>t. tr_OperationID t = fr_OperationID r)
        (\<lambda>t. t\<lparr>tr_Status := ''failed'', tr_Phase := ''completed'', tr_UpdatedAt := pg_time now\<rparr>) (d_transitions db)
    else fr_State out = ''failed'' \<and> d_installations db' = d_installations db \<and> d_transitions db' = d_transitions db"
proof -
  from assms(2) obtain parent where rd: "readDispatchTransition db (os_StationID s) (fr_OperationID r) = Inr parent"
    and al: "allowedWorldForward parent (fr_Target r)" "in_Revision (dt_Installed parent) = fr_ExpectedRevision r"
    and ts: "d_transitions db' = (if verified then update_rows (\<lambda>t. tr_OperationID t = fr_OperationID r)
        (\<lambda>t. t\<lparr>tr_Status := ''failed'', tr_Phase := ''completed'', tr_UpdatedAt := pg_time now\<rparr>) (d_transitions db) else d_transitions db)"
    and insts: "d_installations db' = (if verified then update_rows (\<lambda>x. in_InstallationID x = tr_InstallationID parent \<and>
          in_AppVersion x = fr_InstalledVersion r \<and> in_Revision x = fr_ExpectedRevision r \<and> in_State x = ''installed'')
        (\<lambda>x. x\<lparr>in_AppVersion := ts_AppVersion (fr_Target r), in_Revision := fr_ExpectedRevision r + 1, in_UpdatedAt := pg_time now\<rparr>)
        (d_installations db) else d_installations db)"
    and pf: "verified \<longrightarrow> find_proof db (fr_RecoveryID r) (fr_InputDigest r) \<noteq> None"
    and found: "verified \<longrightarrow> (\<exists>i \<in> set (d_installations db). in_InstallationID i = tr_InstallationID parent \<and>
          in_AppVersion i = fr_InstalledVersion r \<and> in_Revision i = fr_ExpectedRevision r \<and> in_State i = ''installed'')"
    by (rule finishForward_effect)
  let ?state = "if verified then ''succeeded'' else ''failed''"
  have "\<exists>db1. db' = transitionAudit parent (''forward_recovery.'' @ ?state) (set_forward (fr_RecoveryID r) ?state db1) \<and>
      readForward s db' (ic_UserID a) (ic_OrganizationID a) (fr_RecoveryID r) = Inr out"
    using assms(2) unfolding finishForward_body_def rd sum.case Let_def
    by (auto split: sum.split_asm if_split_asm)
  then have state: "fr_State out = ?state"
    using readForward_row [of s db' "ic_UserID a" "ic_OrganizationID a" "fr_RecoveryID r" out]
    by (auto simp: set_forward_def transitionAudit_def ops_audit_def update_rows_def split: if_split_asm)
  show ?thesis
  proof (cases verified)
    case True
    from readDispatch_row [OF rd assms(1)] obtain t i where t: "t \<in> set (d_transitions db)" "i \<in> set (d_installations db)"
      "tr_OperationID t = fr_OperationID r" "matches t i"
      and eq: "parent = with_installed (Transition.truncate t) (tw_user t) (tw_org t) i" by metis
    obtain j where j: "j \<in> set (d_installations db)" "in_InstallationID j = tr_InstallationID parent"
        "in_AppVersion j = fr_InstalledVersion r" "in_Revision j = fr_ExpectedRevision r" "in_State j = ''installed''" using found True by blast
    have io: "insts_ok (d_installations db)" using assms(1) by (simp add: ops_inv_def)
    have idi: "in_InstallationID i = tr_InstallationID t" "tr_InstallationID parent = tr_InstallationID t" using t(4) eq by (simp_all add: matches_def)
    have ji: "j = i" by (rule inst_by_id [OF io j(1) t(2)]) (use j(2) idi in simp)
    have only: "x = i" if "x \<in> set (d_installations db)" "in_InstallationID x = tr_InstallationID t" for x
      by (rule inst_by_id [OF io that(1) t(2)]) (use that(2) idi in simp)
    have upd: "d_installations db' = update_rows (\<lambda>x. in_InstallationID x = tr_InstallationID t)
        (\<lambda>x. x\<lparr>in_AppVersion := ts_AppVersion (fr_Target r), in_Revision := fr_ExpectedRevision r + 1, in_UpdatedAt := pg_time now\<rparr>) (d_installations db)"
    proof -
      have "(in_InstallationID x = tr_InstallationID t \<and> in_AppVersion x = fr_InstalledVersion r \<and> in_Revision x = fr_ExpectedRevision r \<and>
          in_State x = ''installed'') = (in_InstallationID x = tr_InstallationID t)" if "x \<in> set (d_installations db)" for x
        using only [OF that] j(3-5) unfolding ji by blast
      then show ?thesis unfolding insts idi(2) using True by (auto intro!: update_rows_cong)
    qed
    have "in_AppVersion i = ts_AppVersion (tr_Source t)" "tr_Phase t \<in> set [''restoring'', ''recovery_required'']"
      using al(1) eq by (auto simp: allowedWorldForward_def dispatch_installationState_def Let_def split: if_splits)
    then have ex: "\<exists>t \<in> set (d_transitions db). \<exists>i \<in> set (d_installations db). tr_OperationID t = fr_OperationID r \<and>
         in_InstallationID i = tr_InstallationID t \<and> in_State i = ''installed'' \<and> in_Revision i = fr_ExpectedRevision r \<and>
         in_AppVersion i = ts_AppVersion (tr_Source t) \<and> tr_Phase t \<in> set [''restoring'', ''recovery_required''] \<and>
         d_installations db' = update_rows (\<lambda>x. in_InstallationID x = tr_InstallationID t)
           (\<lambda>x. x\<lparr>in_AppVersion := ts_AppVersion (fr_Target r), in_Revision := fr_ExpectedRevision r + 1, in_UpdatedAt := pg_time now\<rparr>)
           (d_installations db)"
      using t(1-3) upd j(4,5) ji idi(1) by blast
    show ?thesis unfolding if_P [OF True] using True state pf ts ex by simp
  qed (use state ts insts in simp)
qed

end
