(* ===== verification/Ops_Records.thy ===== *)
theory Ops_Records
  imports Ops_Properties
begin

text \<open>
  The tables that record what was decided: forward recoveries, the release an operation is
  bound to and the input an AppCenter operation was accepted with. A recovery leaves the
  pending state once and then stays as it is; the bindings and inputs of operations are
  only added. With the rows of transitions, operations and installations this is what the
  history of the station consists of.
\<close>

section \<open>What the recording tables guarantee\<close>

definition forwards_ok :: "station_db \<Rightarrow> bool" where
  "forwards_ok db \<longleftrightarrow> distinct (map fr_RecoveryID (d_forwards db))"

definition forward_evolves :: "forward_row \<Rightarrow> forward_row \<Rightarrow> bool" where
  "forward_evolves f f' \<longleftrightarrow>
     f' = f \<or> fr_State f = ''pending'' \<and> (\<exists>st \<in> {''succeeded'', ''failed''}. f' = f\<lparr>fr_State := st\<rparr>)"

definition records_evolve :: "station_db \<Rightarrow> station_db \<Rightarrow> bool" where
  "records_evolve db db' \<longleftrightarrow>
     rows_evolve forward_evolves (d_forwards db) (d_forwards db') \<and>
     map_of (d_op_bindings db) \<subseteq>\<^sub>m map_of (d_op_bindings db') \<and>
     map_of (d_inputs db) \<subseteq>\<^sub>m map_of (d_inputs db')"

lemma forward_evolves_refl [simp]: "forward_evolves f f"
  by (simp add: forward_evolves_def)

lemma forward_evolves_trans: "forward_evolves f g \<Longrightarrow> forward_evolves g h \<Longrightarrow> forward_evolves f h"
  by (auto simp: forward_evolves_def)

lemma records_refl: "records_evolve db db"
  by (simp add: records_evolve_def rows_evolve_refl)

lemma records_trans: "records_evolve a b \<Longrightarrow> records_evolve b c \<Longrightarrow> records_evolve a c"
  unfolding records_evolve_def by (meson rows_evolve_trans forward_evolves_trans map_le_trans)

definition records :: "station_db \<Rightarrow> forward_row list \<times> (string \<times> Binding) list \<times> (string \<times> AppCenterCommand \<times> AppCenterExecution) list" where
  "records db = (d_forwards db, d_op_bindings db, d_inputs db)"

lemma records_frame: "records db' = records db \<Longrightarrow> forwards_ok db \<Longrightarrow> forwards_ok db' \<and> records_evolve db db'"
  by (auto simp: records_def forwards_ok_def records_evolve_def rows_evolve_refl)

lemma records_audit [simp]: "records (ops_audit r u org x act db) = records db" "records (transitionAudit p m db) = records db"
  by (simp_all add: records_def ops_audit_def transitionAudit_def)

lemma records_installations [simp]:
  "records (db\<lparr>d_installations := i\<rparr>) = records db" "records (db\<lparr>d_operations := x\<rparr>) = records db"
  "records (db\<lparr>d_transitions := t\<rparr>) = records db" "records (db\<lparr>d_inst_bindings := b\<rparr>) = records db"
  "records (db\<lparr>d_proofs := p\<rparr>) = records db"
  by (simp_all add: records_def)

section \<open>Transactions that leave them alone\<close>

text \<open>A transaction body with the database it may commit, split along the cases of its code.\<close>

definition commits :: "('s \<Rightarrow> bool) \<Rightarrow> ('e, 'a, 's) tx \<Rightarrow> bool" where
  "commits P t \<longleftrightarrow> (case t of Commit r db \<Rightarrow> P db | Rollback e \<Rightarrow> True)"

lemma commits_simps [simp]: "commits P (Rollback e)" "commits P (Commit r db) = P db"
  by (simp_all add: commits_def)

lemma commits_RollbackI: "commits P (Rollback e)"
  by simp

lemma commits_CommitI: "P db \<Longrightarrow> commits P (Commit r db)"
  by simp

lemma commits_if: "(b \<Longrightarrow> commits P t) \<Longrightarrow> (\<not> b \<Longrightarrow> commits P u) \<Longrightarrow> commits P (if b then t else u)"
  by simp

lemma commits_option:
  "(x = None \<Longrightarrow> commits P t) \<Longrightarrow> (\<And>y. x = Some y \<Longrightarrow> commits P (f y)) \<Longrightarrow> commits P (case x of None \<Rightarrow> t | Some y \<Rightarrow> f y)"
  by (cases x) auto

lemma commits_sum:
  "(\<And>e. x = Inl e \<Longrightarrow> commits P (f e)) \<Longrightarrow> (\<And>y. x = Inr y \<Longrightarrow> commits P (g y)) \<Longrightarrow> commits P (case x of Inl e \<Rightarrow> f e | Inr y \<Rightarrow> g y)"
  by (cases x) auto

lemma commits_prod: "(\<And>a b. x = (a, b) \<Longrightarrow> commits P (f a b)) \<Longrightarrow> commits P (case x of (a, b) \<Rightarrow> f a b)"
  by (cases x) auto

lemma commits_Let: "(\<And>y. y = x \<Longrightarrow> commits P (f y)) \<Longrightarrow> commits P (let y = x in f y)"
  by (simp add: Let_def)

lemmas commits_rules = commits_if commits_option commits_sum commits_prod commits_Let

lemma commits_transact: "commits P (body db) \<Longrightarrow> P db \<Longrightarrow> P (snd (transact f e body db))"
  by (auto simp: commits_def split: tx.splits)

abbreviation same_records :: "station_db \<Rightarrow> station_db \<Rightarrow> bool" where
  "same_records db db' \<equiv> records db' = records db"

lemma records_publish: "publish_version now i v ov orv db = Inr db' \<Longrightarrow> records db' = records db"
  by (auto simp: publish_version_def Let_def split: if_split_asm option.split_asm)

lemma records_set_transition [simp]: "records (set_transition now i a b db) = records db"
  by (simp add: set_transition_def)

lemma records_accept: "commits (same_records db) (accept_transition s now newID actor c reader db)"
  unfolding accept_transition_def by (intro commits_rules) simp_all

lemma records_SubmitTransition: "records (snd (SubmitTransition s f now newID actor c reader db)) = records db"
proof -
  have "commits (same_records db) (SubmitTransition_body s now newID actor c reader db)"
    unfolding SubmitTransition_body_def by (intro commits_rules records_accept) simp_all
  then show ?thesis unfolding SubmitTransition_def
    using commits_transact [of "same_records db" "SubmitTransition_body s now newID actor c reader" db] by (simp del: transact.simps)
qed

lemma records_audited_publish:
  "(if v = [] then Inr db else map_sum id (transitionAudit p m) (publish_version now i v ov orv db)) = Inr db' \<Longrightarrow> records db' = records db"
  by (cases "publish_version now i v ov orv db") (auto dest: records_publish split: if_split_asm)

lemma records_commit: "commits (same_records db) (commit_body s now prior a b v db)"
proof -
  have done_records: "records (set_transition now i a b (if b = ''completed'' then transitionAudit p a db1 else db1)) = records db"
    if "records db1 = records db" for i p db1
    using that by simp
  show ?thesis unfolding commit_body_def Let_def
    by (intro commits_rules commits_RollbackI commits_CommitI; rule done_records; erule records_audited_publish)
qed

lemma records_commitTransition: "records (snd (commitTransition s f now prior a b v db)) = records db"
  using commits_transact [of "same_records db" "commit_body s now prior a b v" db] records_commit
  by (simp add: commitTransition_def del: transact.simps)

lemma records_Dispatch:
  "records (snd (DispatchTransition s v op runtime db)) \<in> {records db, records (de_mid v db)}"
  by (auto simp: DispatchTransition_def dispatch_running_def Let_def records_commitTransition
      split: sum.split option.split prod.split)

lemma records_revise: "revise_installation now i f db = Inr db' \<Longrightarrow> records db' = records db"
  by (auto simp: revise_installation_def split: if_split_asm)

lemma records_progress: "recordInstallationProgress now op act res db = Inr db' \<Longrightarrow> records db' = records db"
  by (auto simp: recordInstallationProgress_def bind_adoption_def Let_def dest!: records_revise
      split: option.split_asm if_split_asm sum.split_asm)

lemma records_postpone: "commits (same_records db) (postponeDispatch now i e db)"
  by (simp add: postponeDispatch_def)

lemma records_settle_progress: "commits (same_records db) (settle_progress now x p db)"
  unfolding settle_progress_def by (intro commits_rules) (auto simp: record_progress_def dest!: records_progress)

lemma records_settle: "commits (same_records db) (settle_call now x res db)"
  by (simp add: settle_call_def records_postpone records_settle_progress split: sum.split grpc_code.split)

lemma records_DispatchOne: "records (snd (DispatchOne s f now locked client bound db)) = records db"
  unfolding DispatchOne_def
proof (rule commits_transact)
  show "commits (same_records db) (DispatchOne_body s now locked client bound db)"
    unfolding DispatchOne_body_def by (intro commits_rules records_postpone records_settle) simp_all
qed simp

section \<open>Transactions that write them\<close>

lemma accept_forward_records:
  assumes "forwards_ok db"
  shows "commits (\<lambda>db'. forwards_ok db' \<and> records_evolve db db') (acceptForward_body s newID a c db)"
proof -
  have new: "forwards_ok db' \<and> records_evolve db db'"
    if "\<not> list_ex (\<lambda>f. fr_RecoveryID f = newID) (d_forwards db)" "fr_RecoveryID row = newID"
      "db' = transitionAudit p m (db\<lparr>d_forwards := d_forwards db @ [row]\<rparr>)" for db' row p m
    using assms that
    by (auto simp: forwards_ok_def records_evolve_def transitionAudit_def ops_audit_def rows_evolve_append list_ex_iff)
  have "commits (\<lambda>db'. forwards_ok db' \<and> records_evolve db db') (admit_forward s newID a c db)"
    unfolding admit_forward_def Let_def
    by (intro commits_rules commits_RollbackI commits_CommitI; rule new; simp add: forward_row_of_def new_forward_def ForwardRecovery.extend_def)
  then show ?thesis unfolding acceptForward_body_def
    by (intro commits_rules) (simp_all add: assms records_refl)
qed

lemma forward_publish_records: "(if verified then forward_publish now parent r db else Inr db) = Inr db' \<Longrightarrow> records db' = records db"
  by (cases "publish_version now (tr_InstallationID parent) (ts_AppVersion (fr_Target r)) (fr_InstalledVersion r) (fr_ExpectedRevision r) db")
    (auto simp: forward_publish_def dest: records_publish split: if_split_asm option.split_asm)

lemma readForward_pending:
  assumes "readForward s db user org i = Inr r" and "fr_State r = ''pending''" and "forwards_ok db"
    and "f \<in> set (d_forwards db)" and "fr_RecoveryID f = i"
  shows "fr_State f = ''pending''"
proof -
  obtain row where row: "find (\<lambda>f. fr_RecoveryID f = i \<and> fw_user f = user \<and> fw_org f = org \<and> fw_station f = os_StationID s) (d_forwards db) = Some row"
    using assms(1) by (auto simp: readForward_def split: option.split_asm)
  have "fr_State row = ''pending''"
    using assms(1,2) row by (auto simp: readForward_def Let_def ForwardRecovery.truncate_def split: if_split_asm option.split_asm)
  moreover have "row = f" using find_Some_iff_set [OF row] assms(3-5) by (auto simp: forwards_ok_def distinct_map inj_on_def)
  ultimately show ?thesis by simp
qed

lemma finish_forward_records:
  assumes "forwards_ok db"
  shows "commits (\<lambda>db'. forwards_ok db' \<and> records_evolve db db') (finishForward_body s now a r verified db)"
proof -
  have set_ok: "forwards_ok db' \<and> records_evolve db db'"
    if cur: "readForward s db (ic_UserID a) (ic_OrganizationID a) (fr_RecoveryID r) = Inr current" "fr_State current = ''pending''"
      and db1: "(if verified then forward_publish now parent r db else Inr db) = Inr db1"
      and db': "db' = transitionAudit parent m (set_forward (fr_RecoveryID r) (if verified then ''succeeded'' else ''failed'') db1)"
    for current parent db1 db' m
  proof -
    have rec: "d_forwards db1 = d_forwards db" "d_op_bindings db' = d_op_bindings db" "d_inputs db' = d_inputs db"
      "d_forwards db' = update_rows (\<lambda>f. fr_RecoveryID f = fr_RecoveryID r)
         (\<lambda>f. f\<lparr>fr_State := if verified then ''succeeded'' else ''failed''\<rparr>) (d_forwards db)"
      using forward_publish_records [OF db1] unfolding db' by (auto simp: records_def set_forward_def transitionAudit_def ops_audit_def)
    have "map fr_RecoveryID (d_forwards db') = map fr_RecoveryID (d_forwards db)"
      unfolding rec(4) by (simp add: update_rows_def)
    then have "forwards_ok db'" using assms by (simp add: forwards_ok_def)
    moreover have "rows_evolve forward_evolves (d_forwards db) (d_forwards db')"
      unfolding rec(4) by (rule rows_evolve_update) (use readForward_pending [OF cur assms] in \<open>auto simp: forward_evolves_def\<close>)
    ultimately show ?thesis by (simp add: records_evolve_def rec(2,3))
  qed
  show ?thesis unfolding finishForward_body_def Let_def
    by (intro commits_rules commits_RollbackI commits_CommitI; erule set_ok; (assumption | rule refl | blast))
qed

lemma map_le_update_fresh: "map_of m k = None \<Longrightarrow> map_of m \<subseteq>\<^sub>m map_of (AList.update k v m)"
  by (auto simp: map_le_def update_conv')

lemma submission_records:
  assumes "record_submission s v u c x inst db = Inr db'"
  shows "d_forwards db' = d_forwards db \<and> map_of (d_op_bindings db) \<subseteq>\<^sub>m map_of (d_op_bindings db') \<and>
    map_of (d_inputs db) \<subseteq>\<^sub>m map_of (d_inputs db')"
proof -
  let ?db = "db\<lparr>d_operations := d_operations db @ [new_op_row s v u c]\<rparr>"
  obtain db1 where db1: "bindInstallationOperation (sb_now v) inst (sb_operation v) ?db = Inr db1"
    using assms by (simp add: record_submission_def split: if_split_asm sum.split_asm)
  note step1 = assms [unfolded record_submission_def db1 sum.case]
  obtain db2 where db2: "(case (sb_constrained v, x) of (Some inp, Some e) \<Rightarrow> bindAppCenterInput (sb_operation v) inp e db1 | _ \<Rightarrow> Inr db1) = Inr db2"
    using step1 by (simp split: if_split_asm sum.split_asm)
  obtain db3 where db3: "(case sb_preinstalled v of Some p \<Rightarrow> bindPreinstalled (sb_operation v) inst (pc_Release p) db2 | None \<Rightarrow> Inr db2) = Inr db3"
    using step1 db2 by (simp split: if_split_asm sum.split_asm)
  have "records db1 = records db"
    using db1 by (auto simp: bindInstallationOperation_def dest!: records_revise split: if_split_asm)
  moreover have "d_forwards db2 = d_forwards db1 \<and> d_op_bindings db2 = d_op_bindings db1 \<and> map_of (d_inputs db1) \<subseteq>\<^sub>m map_of (d_inputs db2)"
    using db2 by (cases "map_of (d_inputs db1) (sb_operation v)")
      (auto simp: bindAppCenterInput_def map_le_update_fresh split: option.split_asm if_split_asm)
  moreover have "d_forwards db3 = d_forwards db2 \<and> d_inputs db3 = d_inputs db2 \<and> map_of (d_op_bindings db2) \<subseteq>\<^sub>m map_of (d_op_bindings db3)"
    using db3 by (auto simp: bindPreinstalled_def Let_def map_le_update_fresh split: option.split_asm if_split_asm)
  moreover have "records db' = records db3" using step1 db2 db3 by (auto split: if_split_asm)
  ultimately show ?thesis by (auto simp: records_def intro: map_le_trans)
qed

lemma submit_records:
  assumes "forwards_ok db"
  shows "forwards_ok (snd (submit s f v u c db)) \<and> records_evolve db (snd (submit s f v u c db))"
proof -
  let ?P = "\<lambda>db'. forwards_ok db' \<and> records_evolve db db'"
  have rec: "?P db'" if "records db1 = records db" "record_submission s v u c x inst db1 = Inr db'" for db1 db' x inst
    using submission_records [OF that(2)] that(1) assms
    by (auto simp: records_def forwards_ok_def records_evolve_def rows_evolve_refl)
  have res: "records db1 = records db" if "reserveInstallation now newID u c p db = Inr (inst, db1)" for now newID p inst db1
    using that by (auto simp: reserveInstallation_def split: option.split_asm if_split_asm)
  have "commits ?P (submit_new s v u c db)"
    unfolding submit_new_def
    by (intro commits_rules commits_RollbackI commits_CommitI; rule rec [OF res]; assumption?; blast?)
  then have "commits ?P (submit_body s v u c db)"
    unfolding submit_body_def by (intro commits_rules) (simp_all add: assms records_refl)
  then show ?thesis unfolding submit_def using commits_transact [of ?P "submit_body s v u c" db] assms
    by (simp add: records_refl del: transact.simps split: option.split)
qed

section \<open>Interleaved handlers\<close>

lemma records_guarantee:
  assumes "(\<lambda>x y. R x y \<and> (forwards_ok x \<longrightarrow> forwards_ok y \<and> records_evolve x y))\<^sup>*\<^sup>* a b" and "forwards_ok a"
  shows "forwards_ok b \<and> records_evolve a b"
  using assms by (induction rule: rtranclp_induct) (auto intro: records_refl records_trans)

lemma forward_recovery_records:
  assumes ok: "forwards_ok db" and db1: "db1 = snd (transact (de_read_fault v) DbError (acceptForward_body s newID a c) db)"
    and mid: "forwards_ok db1 \<Longrightarrow> forwards_ok (de_mid v db1) \<and> records_evolve db1 (de_mid v db1)"
  shows "forwards_ok (snd (SubmitForwardRecovery s v newID a c runtime db)) \<and>
    records_evolve db (snd (SubmitForwardRecovery s v newID a c runtime db))"
proof -
  obtain res where res: "transact (de_read_fault v) DbError (acceptForward_body s newID a c) db = (res, db1)"
    using db1 by (metis prod.collapse)
  let ?P = "\<lambda>db'. forwards_ok db' \<and> records_evolve db db'"
  have 1: "?P db1" unfolding db1 by (rule commits_transact [of ?P "acceptForward_body s newID a c" db])
      (use ok records_refl accept_forward_records in blast)+
  then have 2: "?P (de_mid v db1)" using mid records_trans by blast
  have 3: "?P (snd (transact f DbError (finishForward_body s now a r b) (de_mid v db1)))" for f now r b
  proof -
    let ?Q = "\<lambda>db'. forwards_ok db' \<and> records_evolve (de_mid v db1) db'"
    have "?Q (snd (transact f DbError (finishForward_body s now a r b) (de_mid v db1)))"
      by (rule commits_transact [of ?Q "finishForward_body s now a r b" "de_mid v db1"])
        (use 2 records_refl finish_forward_records in blast)+
    then show ?thesis using 2 records_trans by blast
  qed
  have "snd (SubmitForwardRecovery s v newID a c runtime db) \<in> {db, db1, de_mid v db1} \<or>
    (\<exists>f now r b. snd (SubmitForwardRecovery s v newID a c runtime db) =
       snd (transact f DbError (finishForward_body s now a r b) (de_mid v db1)))"
    unfolding SubmitForwardRecovery_def res
    by (simp add: Let_def split: sum.split option.split) blast
  with ok records_refl 1 2 3 show ?thesis by (elim disjE exE) auto
qed

lemma records_step: "ops_step s db db' \<Longrightarrow> forwards_ok db \<longrightarrow> forwards_ok db' \<and> records_evolve db db'"
proof (induction rule: ops_step.induct)
  case (submit_transition db f now newID actor c reader)
  then show ?case using records_frame [OF records_SubmitTransition] by blast
next
  case (dispatch_transition db v op runtime)
  show ?case
  proof
    assume ok: "forwards_ok db"
    note mid = records_guarantee [OF dispatch_transition(1) ok]
    from records_Dispatch [of s v op runtime db]
    show "forwards_ok (snd (DispatchTransition s v op runtime db)) \<and> records_evolve db (snd (DispatchTransition s v op runtime db))"
      using records_frame [OF _ ok] records_frame [of _ "de_mid v db"] mid records_trans by blast
  qed
next
  case (forward_recovery db1 v newID a c db runtime)
  show ?case using forward_recovery_records [OF _ forward_recovery(2) records_guarantee [OF forward_recovery(1)]] by blast
next
  case (submit_operation db f sv u cmd)
  then show ?case using submit_records by blast
next
  case (dispatch_operation db f now locked client bound)
  then show ?case using records_frame [OF records_DispatchOne] by blast
next
  case (runtime_proof db p)
  then show ?case using records_frame [of "db\<lparr>d_proofs := p # d_proofs db\<rparr>" db] by simp
qed

interpretation recording: rely_guarantee forwards_ok records_evolve "ops_step s" for s
  by unfold_locales (use records_refl records_trans records_step in blast)+

text \<open>The identifiers of recoveries stay distinct in every state the requests reach.\<close>

lemma reachable_forwards_ok: "(ops_step s)\<^sup>*\<^sup>* empty_db db \<Longrightarrow> forwards_ok db"
  using recording.steps_ok by (auto simp: forwards_ok_def empty_db_def)

text \<open>
  C19. History is final. From any database that satisfies the invariants, and over any
  sequence of requests with their transactions interleaved, rows are never removed; a finished
  transition, operation or forward recovery never changes again, and an unfinished one keeps
  what it was accepted with; the release an operation is bound to and the input an AppCenter
  operation was accepted with never change; an installation changes only together with an
  increase of its revision and never returns from removal; the audit trail only grows.
\<close>

theorem history_is_final:
  assumes "ops_inv db" and "distinct (map fr_RecoveryID (d_forwards db))" and "(ops_step s)\<^sup>*\<^sup>* db db'"
  shows "rows_evolve (\<lambda>i i'. i' = i \<or> in_Revision i < in_Revision i' \<and> same_identity i i' \<and>
           (in_State i = ''removed'' \<longrightarrow> in_State i' = ''removed'')) (d_installations db) (d_installations db') \<and>
    rows_evolve (\<lambda>t t'. t' = t \<or> active_row t \<and> (\<exists>a b u. t' = t\<lparr>tr_Status := a, tr_Phase := b, tr_UpdatedAt := u\<rparr>))
      (d_transitions db) (d_transitions db') \<and>
    rows_evolve (\<lambda>x x'. x' = x \<or> active_op x \<and> op_immutable x' = op_immutable x) (d_operations db) (d_operations db') \<and>
    rows_evolve (\<lambda>f f'. f' = f \<or> fr_State f = ''pending'' \<and> (\<exists>st \<in> {''succeeded'', ''failed''}. f' = f\<lparr>fr_State := st\<rparr>))
      (d_forwards db) (d_forwards db') \<and>
    (\<forall>k b. map_of (d_op_bindings db) k = Some b \<longrightarrow> map_of (d_op_bindings db') k = Some b) \<and>
    (\<forall>k x. map_of (d_inputs db) k = Some x \<longrightarrow> map_of (d_inputs db') k = Some x) \<and>
    prefix (d_audit db) (d_audit db')"
proof -
  have "evolves db db'" using ops.steps_ok [OF assms(3,1)] by blast
  moreover have "records_evolve db db'" using recording.steps_ok [OF assms(3)] assms(2) by (simp add: forwards_ok_def)
  moreover have "inst_evolves = (\<lambda>i i'. i' = i \<or> in_Revision i < in_Revision i' \<and> same_identity i i' \<and>
      (in_State i = ''removed'' \<longrightarrow> in_State i' = ''removed''))" by (auto simp: fun_eq_iff inst_evolves_def)
  moreover have "trans_evolves = (\<lambda>t t'. t' = t \<or> active_row t \<and> (\<exists>a b u. t' = t\<lparr>tr_Status := a, tr_Phase := b, tr_UpdatedAt := u\<rparr>))"
    by (simp add: fun_eq_iff trans_evolves_def)
  moreover have "op_evolves = (\<lambda>x x'. x' = x \<or> active_op x \<and> op_immutable x' = op_immutable x)" by (simp add: fun_eq_iff op_evolves_def)
  moreover have "forward_evolves = (\<lambda>f f'. f' = f \<or> fr_State f = ''pending'' \<and> (\<exists>st \<in> {''succeeded'', ''failed''}. f' = f\<lparr>fr_State := st\<rparr>))"
    by (simp add: fun_eq_iff forward_evolves_def)
  ultimately show ?thesis by (auto simp: evolves_def records_evolve_def map_le_def dom_def)
qed

end
