(* ===== verification/Ops_Witnesses.thy ===== *)
theory Ops_Witnesses
  imports Ops_Progress Ops_Records
begin

text \<open>
  A concrete station: one application, its installation, an upgrade and the runs of the
  handlers on them. Every property of the operations package with hypotheses is applied here to
  a state in which they hold.
\<close>

definition demo_digest :: string where
  "demo_digest = ''sha256:'' @ replicate 64 CHR ''0''"

definition demo_snapshot :: "string \<Rightarrow> TransitionSnapshot" where
  "demo_snapshot version =
     \<lparr>ts_AppID = ''world'', ts_AppVersion = version, ts_ReleaseRef = ''world-'' @ version, ts_ReleaseDigest = demo_digest,
      ts_ManifestDigest = demo_digest, ts_TemplateDigest = demo_digest, ts_DashboardDigest = demo_digest, ts_DataContract = [],
      ts_DefaultWorkerVersion = [], ts_CompatibleWorkerVersions = Some [], ts_ReleaseKind = ''dashboard-release'',
      ts_AppImageDigest = demo_digest\<rparr>"

definition demo_service :: ops_service where
  "demo_service =
     \<lparr>os_StationID = ''st'', os_uuid = (\<lambda>x. Some \<lparr>uuid_String = x, uuid_Version = 7, uuid_RFC4122 = True, uuid_Nil = False\<rparr>),
      os_sum = (\<lambda>p. replicate 32 (case p of JTransitionCommand c \<Rightarrow> if tc_Action c = ''upgrade'' then CHR ''u'' else CHR ''r'' | _ \<Rightarrow> CHR ''x'')),
      os_Catalog = Some (\<lambda>_. Some ''0.1.4''), os_Releases = None, os_TransitionReleases = None, os_hasTransitionReleases = True,
      os_releaseReader = (\<lambda>_ _ _. Inr (demo_snapshot ''0.1.4'', demo_snapshot ''0.1.5'')), os_transitionAdmissionEnabled = True, os_schema = (\<lambda>_. True)\<rparr>"

definition demo_installation :: Installation where
  "demo_installation = \<lparr>in_InstallationID = ''i'', in_AppID = ''world'', in_AppVersion = ''0.1.4'', in_StationID = ''st'', in_OrganizationID = ''g'',
     in_State = ''installed'', in_Revision = 3, in_LastOperationID = [], in_CreatedAt = 0, in_UpdatedAt = 0\<rparr>"

definition demo_row :: "string \<Rightarrow> string \<Rightarrow> transition_row" where
  "demo_row status phase =
     \<lparr>tr_OperationID = ''o'', tr_InstallationID = ''i'', tr_RequestID = ''r'', tr_Action = ''upgrade'', tr_ExpectedRevision = 3,
      tr_Source = demo_snapshot ''0.1.4'', tr_Target = demo_snapshot ''0.1.5'', tr_Status = status, tr_Phase = phase,
      tr_CreatedAt = 0, tr_UpdatedAt = 0, tw_user = ''u'', tw_org = ''g'', tw_station = ''st'', tw_app = ''world'', tw_key = ''key-0001'',
      tw_hash = replicate 32 CHR ''u'', tw_source_version = ''0.1.4'', tw_target_version = ''0.1.5''\<rparr>"

definition demo_db :: "string \<Rightarrow> string \<Rightarrow> station_db" where
  "demo_db status phase = empty_db\<lparr>d_installations := [demo_installation], d_transitions := [demo_row status phase]\<rparr>"

definition demo_env :: dispatch_env where
  "demo_env = \<lparr>de_locked = True, de_read_fault = False, de_commit_fault = False, de_request = ''q'', de_now = 5, de_mid = id\<rparr>"

definition demo_dispatch :: "string \<Rightarrow> string \<Rightarrow> (op_error + Transition) \<times> station_db" where
  "demo_dispatch status phase = DispatchTransition demo_service demo_env ''o'' cooperative (demo_db status phase)"

definition demo_actor :: IdentityContext where
  "demo_actor = \<lparr>ic_RequestID = ''r'', ic_StationID = ''st'', ic_SessionID = ''s'', ic_UserID = ''u'', ic_Username = ''root'', ic_OrganizationID = ''g'',
     ic_OrganizationName = ''G'', ic_Roles = [''admin''], ic_Scopes = [''app:read'', ''app:manage''], ic_IssuedAt = 0, ic_ExpiresAt = 100,
     ic_RevocationVersion = 0, ic_PolicyVersion = 0\<rparr>"

definition demo_install :: Command where
  "demo_install = \<lparr>cm_ExpectedWorkloadUID = [], cm_RequestID = ''r1'', cm_IdempotencyKey = ''key-0000'', cm_OrganizationID = ''g'', cm_StationID = ''st'',
     cm_AppID = ''world'', cm_AppVersion = ''0.1.4'', cm_Action = ''install''\<rparr>"

definition demo_upgrade :: TransitionCommand where
  "demo_upgrade = \<lparr>tc_RequestID = ''r2'', tc_IdempotencyKey = ''key-0001'', tc_InstallationID = ''i'', tc_ExpectedRevision = 3,
     tc_SourceVersion = ''0.1.4'', tc_TargetReleaseRef = ''world-0.1.5'', tc_Action = ''upgrade''\<rparr>"

definition demo_submitted :: station_db where
  "demo_submitted = snd (submit demo_service False \<lparr>sb_preinstalled = None, sb_constrained = None, sb_admission = None, sb_now = 1,
     sb_installation = ''i'', sb_operation = ''p''\<rparr> demo_actor demo_install empty_db)"

definition demo_client :: app_client where
  "demo_client r = Inr (Some \<lparr>ap_OperationId = ar_OperationId r, ap_Status = ''succeeded'', ap_Phase = ''completed'', ap_DownloadedBytes = 0,
     ap_TotalBytes = None, ap_ErrorCode = [], ap_ErrorMessage = []\<rparr>)"

definition demo_installed :: station_db where
  "demo_installed = snd (DispatchOne demo_service False 2 [] demo_client None demo_submitted)"

definition demo_accepted :: "(op_error + Transition) \<times> station_db" where
  "demo_accepted = SubmitManagedTransition demo_service False 3 ''o'' demo_actor demo_upgrade demo_installed"

definition demo_read :: "string \<Rightarrow> string \<Rightarrow> dispatchTransition" where
  "demo_read status phase = with_installed (Transition.truncate (demo_row status phase)) ''u'' ''g'' demo_installation"

definition demo_recovery :: ForwardRecovery where
  "demo_recovery =
     (let r = \<lparr>fr_RecoveryID = ''f'', fr_OperationID = ''o'', fr_ExpectedRevision = 3, fr_InstalledVersion = ''0.1.4'',
        fr_ParentInputDigest = inputDigest demo_service (demo_read ''running'' ''restoring''), fr_Target = demo_snapshot ''0.1.6'',
        fr_InputDigest = [], fr_State = ''pending'', fr_Proof = None\<rparr>
      in r\<lparr>fr_InputDigest := ForwardRecovery_digest demo_service r\<rparr>)"

definition demo_forward_db :: station_db where
  "demo_forward_db = (demo_db ''running'' ''restoring'')
     \<lparr>d_forwards := [ForwardRecovery.extend demo_recovery \<lparr>fw_user = ''u'', fw_org = ''g'', fw_station = ''st'', fw_request = ''r3'',
        fw_key = ''key-0002'', fw_hash = []\<rparr>], d_proofs := [(''f'', fr_InputDigest demo_recovery, ''{}'')]\<rparr>"

definition demo_forward :: "(op_error, ForwardRecovery, station_db) tx" where
  "demo_forward = finishForward_body demo_service 5 demo_actor demo_recovery True demo_forward_db"

text \<open>What the witnesses evaluate.\<close>

lemma demo_evaluated:
  "(TransitionSnapshot_valid (demo_snapshot ''0.1.4'') \<and> TransitionSnapshot_valid (demo_snapshot ''0.1.5'') \<and>
    compatibleTransition (dispatch_command (Transition.truncate (demo_row [] [])))
      (demo_installation\<lparr>in_AppVersion := ''0.1.4''\<rparr>) (demo_snapshot ''0.1.4'') (demo_snapshot ''0.1.5'')) \<and>
   op_claims (d_operations demo_submitted) = [(''st'', ''world'')] \<and>
   (list_ex active_row (d_transitions (snd demo_accepted)) \<and> \<not> isl (fst demo_accepted))"
  by code_simp

lemmas demo_valid = demo_evaluated [THEN conjunct1]
  and demo_claims = demo_evaluated [THEN conjunct2, THEN conjunct1]
  and demo_active = demo_evaluated [THEN conjunct2, THEN conjunct2, THEN conjunct1] demo_evaluated [THEN conjunct2, THEN conjunct2, THEN conjunct2]

lemma demo_ops_inv: "status_phase_ok status phase \<Longrightarrow> ops_inv (demo_db status phase)"
  by (simp add: ops_inv_def demo_db_def empty_db_def insts_ok_def demo_installation_def demo_row_def trans_ok_def row_ok_def matches_def
      position_ok_def at_source_def demo_snapshot_def op_claims_def transition_claims_def)

lemma demo_quiet: "quiet demo_env"
  by (simp add: quiet_def demo_env_def)

lemma demo_compatible:
  "compatibleTransition (dispatch_command (Transition.truncate (demo_row status phase)))
    (demo_installation\<lparr>in_AppVersion := ''0.1.4''\<rparr>) (demo_snapshot ''0.1.4'') (demo_snapshot ''0.1.5'')"
proof -
  have "dispatch_command (Transition.truncate (demo_row status phase)) = dispatch_command (Transition.truncate (demo_row [] []))"
    by (simp add: dispatch_command_def demo_row_def Transition.truncate_def)
  then show ?thesis using demo_valid by (elim conjE) (simp only:)
qed

lemma demo_reads:
  assumes "status_phase_ok status phase"
  shows "readDispatchTransition (demo_db status phase) (os_StationID demo_service) ''o'' = Inr (demo_read status phase)"
proof -
  have "readDispatchTransition (demo_db status phase) (tw_station (demo_row status phase)) (tr_OperationID (demo_row status phase)) =
      Inr (with_installed (Transition.truncate (demo_row status phase)) (tw_user (demo_row status phase)) (tw_org (demo_row status phase)) demo_installation)"
    by (rule readDispatch_intro [OF demo_ops_inv [OF assms]])
      (use demo_compatible demo_valid in \<open>simp_all add: demo_db_def demo_row_def demo_installation_def matches_def demo_snapshot_def MaxInt64_def\<close>)
  then show ?thesis by (simp add: demo_row_def demo_service_def demo_read_def)
qed

lemma demo_canonical: "canonicalInstallation (os_uuid demo_service) x"
  by (simp add: canonicalInstallation_def demo_service_def)

theorem transition_completes_witness:
  "\<exists>r'. readDispatchTransition (((\<lambda>db. snd (DispatchTransition demo_service demo_env ''o'' cooperative db)) ^^ 4) (demo_db ''accepted'' ''accepted''))
    (os_StationID demo_service) ''o'' = Inr r' \<and> tr_Status r' = ''succeeded''"
proof -
  have ok: "status_phase_ok ''accepted'' ''accepted''" by (simp add: status_phase_ok_def)
  have "will_succeed (demo_read ''accepted'' ''accepted'')" by (simp add: will_succeed_def demo_read_def demo_row_def early_phases_def)
  then show ?thesis
    using transition_completes [OF demo_ops_inv [OF ok] demo_reads [OF ok] demo_quiet _ demo_canonical demo_canonical]
    by (simp add: forward_pending_def demo_db_def empty_db_def)
qed

lemma demo_step:
  "(ops_step demo_service)\<^sup>*\<^sup>* (demo_db status phase) (snd (demo_dispatch status phase))"
  unfolding demo_dispatch_def by (rule r_into_rtranclp, rule ops_step.dispatch_transition) (simp add: demo_env_def)

lemma demo_submitted_steps: "(ops_step demo_service)\<^sup>*\<^sup>* empty_db demo_submitted"
  unfolding demo_submitted_def by (intro r_into_rtranclp ops_step.submit_operation)

lemma demo_accepted_steps: "(ops_step demo_service)\<^sup>*\<^sup>* empty_db (snd demo_accepted)"
proof -
  have "ops_step demo_service demo_submitted demo_installed"
    unfolding demo_installed_def by (rule ops_step.dispatch_operation)
  moreover have "ops_step demo_service demo_installed (snd demo_accepted)"
    unfolding demo_accepted_def SubmitManagedTransition_def by (rule ops_step.submit_transition)
  ultimately show ?thesis using demo_submitted_steps by (meson rtranclp.rtrancl_into_rtrancl)
qed

lemma demo_ok: "status_phase_ok ''running'' ''publishing''" "status_phase_ok ''running'' ''releasing''" "status_phase_ok ''accepted'' ''accepted''"
  by (simp_all add: status_phase_ok_def)

text \<open>The Runtime completes every step: the dispatch of a publishing row succeeds, that of a releasing row ends it.\<close>

lemma demo_dispatched:
  assumes "status_phase_ok ''running'' phase"
  shows "\<exists>out. fst (demo_dispatch ''running'' phase) = Inr out \<and> tr_Status out = fst (next_commit (demo_read ''running'' phase))"
proof -
  have "\<not> forward_pending (demo_db ''running'' phase) ''o''" by (simp add: forward_pending_def demo_db_def empty_db_def)
  moreover have "tr_Status (demo_read ''running'' phase) \<noteq> ''succeeded''" "tr_Status (demo_read ''running'' phase) \<noteq> ''failed''"
    by (simp_all add: demo_read_def demo_row_def)
  ultimately show ?thesis unfolding demo_dispatch_def
    using quiet_dispatch [OF demo_ops_inv [OF assms] demo_reads [OF assms] demo_quiet _ demo_canonical demo_canonical] by metis
qed

lemma demo_publishes: "\<not> isl (fst (demo_dispatch ''running'' ''publishing''))"
  using demo_dispatched [OF demo_ok(1)] by auto

lemma demo_released: "case fst (demo_dispatch ''running'' ''releasing'') of Inl e \<Rightarrow> False | Inr out \<Rightarrow> tr_Status out = ''failed''"
proof -
  have "fst (next_commit (demo_read ''running'' ''releasing'')) = ''failed''"
    by (simp add: next_commit_def demo_read_def demo_row_def dispatch_installationState_def demo_installation_def demo_snapshot_def Let_def)
  then show ?thesis using demo_dispatched [OF demo_ok(2)] by auto
qed

theorem operations_exclusive_witness:
  "op_claims (d_operations demo_submitted) = [(''st'', ''world'')] \<and>
   distinct (op_claims (d_operations demo_submitted) @ transition_claims (d_transitions demo_submitted))"
  using operations_exclusive [OF demo_submitted_steps] demo_claims by blast

theorem active_transition_position_witness:
  "\<exists>t \<in> set (d_transitions (snd demo_accepted)). active_row t \<and>
     (\<exists>!i. i \<in> set (d_installations (snd demo_accepted)) \<and> in_InstallationID i = tr_InstallationID t \<and> in_State i = ''installed'' \<and>
        (at_source t i \<or> at_target t i \<and> tr_Phase t = ''releasing''))"
proof -
  obtain t where "t \<in> set (d_transitions (snd demo_accepted))" "active_row t" using demo_active(1) by (auto simp: list_ex_iff)
  then show ?thesis using active_transition_position [OF demo_accepted_steps] by blast
qed

theorem history_is_final_witness:
  "prefix (d_audit (demo_db ''running'' ''publishing'')) (d_audit (snd (demo_dispatch ''running'' ''publishing'')))"
proof -
  have "distinct (map fr_RecoveryID (d_forwards (demo_db ''running'' ''publishing'')))" by (simp add: demo_db_def empty_db_def)
  from history_is_final [OF demo_ops_inv [OF demo_ok(1)] this demo_step] show ?thesis by blast
qed

theorem transitions_refine_witness:
  "\<exists>t' \<in> set (d_transitions (snd demo_accepted)).
     tstep\<^sup>*\<^sup>* (origin empty_db t') (abs_state (d_installations (snd demo_accepted)) t')"
proof -
  obtain t where "t \<in> set (d_transitions (snd demo_accepted))" using demo_active(1) by (auto simp: list_ex_iff)
  then show ?thesis using transitions_refine [OF empty_inv demo_accepted_steps] by blast
qed

lemma demo_mid: "de_mid demo_env db = db"
  by (simp add: demo_env_def)

theorem dispatch_publication_witness:
  "d_installations (snd (demo_dispatch ''running'' ''publishing'')) = d_installations (demo_db ''running'' ''publishing'') \<or>
   (\<exists>r. tr_Phase r = ''publishing'' \<and> reports demo_service demo_env cooperative r ''prepared'' \<and>
      d_installations (snd (demo_dispatch ''running'' ''publishing'')) = update_rows (\<lambda>x. in_InstallationID x = tr_InstallationID r)
         (\<lambda>x. x\<lparr>in_AppVersion := ts_AppVersion (tr_Target r), in_Revision := tr_ExpectedRevision r + 1, in_UpdatedAt := pg_time (de_now demo_env)\<rparr>)
         (d_installations (demo_db ''running'' ''publishing'')))"
proof -
  obtain out where "DispatchTransition demo_service demo_env ''o'' cooperative (demo_db ''running'' ''publishing'') =
      (Inr out, snd (demo_dispatch ''running'' ''publishing''))"
    using demo_publishes unfolding demo_dispatch_def by (metis isl_def prod.collapse sum.exhaust_sel)
  from dispatch_publication [OF this demo_ops_inv [OF demo_ok(1)]] show ?thesis
    using demo_ops_inv [OF demo_ok(1)] by (simp only: demo_mid evolves_refl) blast
qed

theorem dispatch_outcome_witness:
  "\<exists>i \<in> set (d_installations (snd (demo_dispatch ''running'' ''releasing''))). in_State i = ''installed'' \<and> in_AppVersion i = ''0.1.4'' \<and> in_Revision i = 3"
proof -
  obtain out where o: "DispatchTransition demo_service demo_env ''o'' cooperative (demo_db ''running'' ''releasing'') =
      (Inr out, snd (demo_dispatch ''running'' ''releasing''))" "tr_Status out = ''failed''"
  proof (cases "fst (demo_dispatch ''running'' ''releasing'')")
    case (Inr out)
    then show ?thesis using demo_released that [of out] by (simp add: demo_dispatch_def prod_eq_iff)
  qed (use demo_released in simp)
  have inv: "ops_inv (demo_db ''running'' ''releasing'')" by (rule demo_ops_inv [OF demo_ok(2)])
  have r: "tr_Status (demo_read ''running'' ''releasing'') \<noteq> ''succeeded''" "tr_Status (demo_read ''running'' ''releasing'') \<noteq> ''failed''"
    "ts_AppVersion (tr_Source (demo_read ''running'' ''releasing'')) = ''0.1.4''" "tr_ExpectedRevision (demo_read ''running'' ''releasing'') = 3"
    by (simp_all add: demo_read_def demo_row_def demo_snapshot_def)
  show ?thesis using dispatch_outcome [OF o(1) inv] inv o(2) r demo_reads [OF demo_ok(2)]
    by (simp only: demo_mid evolves_refl) auto
qed

theorem submit_transition_idempotent_witness:
  "SubmitTransition demo_service False 9 ''o2'' demo_actor (demo_upgrade\<lparr>tc_RequestID := ''again''\<rparr>) None (snd demo_accepted) =
     (fst (SubmitTransition demo_service False 9 ''o2'' demo_actor (demo_upgrade\<lparr>tc_RequestID := ''again''\<rparr>) None (snd demo_accepted)), snd demo_accepted)"
proof -
  obtain out where o: "SubmitTransition demo_service False 3 ''o'' demo_actor demo_upgrade (Some (managed_reader demo_service)) demo_installed =
      (Inr out, snd demo_accepted)"
    using demo_active(2) unfolding demo_accepted_def SubmitManagedTransition_def by (metis isl_def prod.collapse sum.exhaust_sel)
  have inv: "ops_inv demo_installed"
    using ops.steps_ok [OF demo_submitted_steps empty_inv] DispatchOne_preserves unfolding demo_installed_def by blast
  have v: "TransitionCommand_valid (os_uuid demo_service) (demo_upgrade\<lparr>tc_RequestID := ''again''\<rparr>)" by code_simp
  show ?thesis using submit_transition_idempotent [OF inv o rtranclp.rtrancl_refl v, of 9 "''o2''" None]
    by (simp add: demo_upgrade_def prod_eq_iff)
qed

lemma demo_forward_commits: "case demo_forward of Commit (Inr out) _ \<Rightarrow> True | _ \<Rightarrow> False"
  by code_simp

theorem forward_recovery_effect_witness:
  "\<exists>out db'. demo_forward = Commit (Inr out) db' \<and> fr_State out = ''succeeded'' \<and>
     d_transitions db' = update_rows (\<lambda>t. tr_OperationID t = ''o'')
       (\<lambda>t. t\<lparr>tr_Status := ''failed'', tr_Phase := ''completed'', tr_UpdatedAt := pg_time 5\<rparr>) (d_transitions demo_forward_db)"
proof -
  obtain out db' where c: "demo_forward = Commit (Inr out) db'"
    using demo_forward_commits by (auto split: tx.split_asm sum.split_asm)
  have "ops_inv (demo_db ''running'' ''restoring'')" by (rule demo_ops_inv) (simp add: status_phase_ok_def)
  then have inv: "ops_inv demo_forward_db" by (simp add: demo_forward_db_def ops_inv_def)
  have "fr_OperationID demo_recovery = ''o''" by (simp add: demo_recovery_def Let_def)
  then have "fr_State out = ''succeeded'' \<and> d_transitions db' = update_rows (\<lambda>t. tr_OperationID t = ''o'')
       (\<lambda>t. t\<lparr>tr_Status := ''failed'', tr_Phase := ''completed'', tr_UpdatedAt := pg_time 5\<rparr>) (d_transitions demo_forward_db)"
    using forward_recovery_effect [OF inv c [unfolded demo_forward_def]] by simp
  then show ?thesis using c by blast
qed

end
