(* ===== verification/Strict_JSON.thy ===== *)
theory Strict_JSON
  imports Complex_Main Station_Prelude
begin

text \<open>
  The strict JSON reader (\<^verbatim>\<open>internal/strictjson/decode.go\<close>). The tokeniser, the typed decoder
  and the encoder of Go's \<^verbatim>\<open>encoding/json\<close> are parameters; what the package adds to them, the
  scan of the token stream and the comparison of shapes, is modelled.

  A token stream is the list of the tokens \<open>Token\<close> returns before its first error, with a flag
  whether that error is \<open>io.EOF\<close>. \<open>More\<close> looks at the next token; where the next token is an
  error its answer does not matter, since the following call of \<open>Token\<close> fails.
\<close>

datatype token = Delim char | Str string | Num string | Bool_tok bool | Null_tok

datatype json = JObj "(string \<times> json) list" | JArr "json list" | JStr string | JNum rat | JBool bool | JNull

text \<open>The result of a loop that has only so much fuel.\<close>

datatype 'a run = OutOfFuel | Failed | Done 'a

section \<open>The scan\<close>

definition hasMore :: "token list \<Rightarrow> bool" where
  "hasMore ts = (case ts of [] \<Rightarrow> False | t # _ \<Rightarrow> t \<noteq> Delim CHR ''}'' \<and> t \<noteq> Delim CHR '']'')"

definition expect :: "char \<Rightarrow> token list \<Rightarrow> token list run" where
  "expect c ts = (case ts of [] \<Rightarrow> Failed | t # rest \<Rightarrow> if t = Delim c then Done rest else Failed)"

text \<open>
  \<open>scanValue\<close> and the two loops in it. \<open>float\<close> is the acceptance of a numeral by
  \<open>strconv.ParseFloat\<close>.
\<close>

fun scanValue :: "nat \<Rightarrow> (string \<Rightarrow> bool) \<Rightarrow> nat \<Rightarrow> bool \<Rightarrow> token list \<Rightarrow> token list run"
  and scanFields :: "nat \<Rightarrow> (string \<Rightarrow> bool) \<Rightarrow> nat \<Rightarrow> bool \<Rightarrow> string list \<Rightarrow> token list \<Rightarrow> token list run"
  and scanItems :: "nat \<Rightarrow> (string \<Rightarrow> bool) \<Rightarrow> nat \<Rightarrow> bool \<Rightarrow> token list \<Rightarrow> token list run" where
  "scanValue 0 float depth allowNull ts = OutOfFuel"
| "scanValue (Suc n) float depth allowNull ts =
     (if depth > 32 then Failed
      else case ts of
             [] \<Rightarrow> Failed
           | t # rest \<Rightarrow>
               if t = Null_tok \<and> \<not> allowNull then Failed
               else if t = Delim CHR ''{'' then scanFields n float depth allowNull [] rest
               else if t = Delim CHR ''['' then scanItems n float depth allowNull rest
               else (case t of
                       Num s \<Rightarrow> if allowNull \<and> \<not> float s then Failed else Done rest
                     | Delim _ \<Rightarrow> Failed
                     | _ \<Rightarrow> Done rest))"
| "scanFields 0 float depth allowNull seen ts = OutOfFuel"
| "scanFields (Suc n) float depth allowNull seen ts =
     (if hasMore ts then
        (case ts of
           Str name # rest \<Rightarrow>
             if name \<in> set seen then Failed
             else (case scanValue n float (depth + 1) allowNull rest of
                     Done rest' \<Rightarrow> scanFields n float depth allowNull (name # seen) rest'
                   | r \<Rightarrow> r)
         | _ \<Rightarrow> Failed)
      else expect CHR ''}'' ts)"
| "scanItems 0 float depth allowNull ts = OutOfFuel"
| "scanItems (Suc n) float depth allowNull ts =
     (if hasMore ts then
        (case scanValue n float (depth + 1) allowNull ts of
           Done rest \<Rightarrow> scanItems n float depth allowNull rest
         | r \<Rightarrow> r)
      else expect CHR '']'' ts)"

section \<open>Shapes\<close>

lemma json_field_size [termination_simp]: "(k, v) \<in> set fs \<Longrightarrow> size v < Suc (size_list (size_prod (\<lambda>_. 0) size) fs)"
  by (induction fs) auto

lemma json_item_size [termination_simp]: "v \<in> set items \<Longrightarrow> size v < Suc (size_list size items)"
  by (induction items) auto

function shape :: "json \<Rightarrow> json \<Rightarrow> bool" where
  "shape (JObj x) b = (case b of
     JObj y \<Rightarrow> length x = length y \<and> list_all (\<lambda>(k, v). case map_of y k of None \<Rightarrow> False | Some w \<Rightarrow> shape v w) x
   | _ \<Rightarrow> False)"
| "shape (JArr x) b = (case b of JArr y \<Rightarrow> length x = length y \<and> list_all (\<lambda>(v, w). shape v w) (zip x y) | _ \<Rightarrow> False)"
| "shape (JStr s) b = (case b of JStr _ \<Rightarrow> True | _ \<Rightarrow> False)"
| "shape (JBool s) b = (case b of JBool _ \<Rightarrow> True | _ \<Rightarrow> False)"
| "shape (JNum s) b = (case b of JNum _ \<Rightarrow> True | _ \<Rightarrow> False)"
| "shape JNull b = False"
  by pat_completeness auto

termination
  by (relation "measure (\<lambda>(a, _). size a)") (auto simp: json_field_size dest!: set_zip_leftD intro: json_item_size)

section \<open>The readers\<close>

record 'a json_lib =
  jl_utf8 :: "string \<Rightarrow> bool"
  jl_tokens :: "string \<Rightarrow> token list \<times> bool"
  jl_float :: "string \<Rightarrow> bool"
  jl_decode :: "string \<Rightarrow> 'a option"
  jl_marshal :: "'a \<Rightarrow> string option"
  jl_unmarshal :: "string \<Rightarrow> json option"

definition scanFuel :: "token list \<Rightarrow> nat" where
  "scanFuel ts = 2 * length ts + 1"

text \<open>One value and then the end of the input.\<close>

definition scanDocument :: "'a json_lib \<Rightarrow> bool \<Rightarrow> string \<Rightarrow> bool" where
  "scanDocument lib allowNull b =
     (case jl_tokens lib b of
        (ts, eof) \<Rightarrow> scanValue (scanFuel ts) (jl_float lib) 0 allowNull ts = Done [] \<and> eof)"

text \<open>
  \<open>io.ReadAll(io.LimitReader(r, limit+1))\<close>, where the sum is an \<open>int64\<close> and wraps; a failing reader
  is \<open>None\<close>.
\<close>

definition wrap64 :: "int \<Rightarrow> int" where
  "wrap64 n = (n + 2 ^ 63) mod 2 ^ 64 - 2 ^ 63"

definition readLimited :: "string option \<Rightarrow> int \<Rightarrow> string option" where
  "readLimited r limit = map_option (take (nat (wrap64 (limit + 1)))) r"

lemma readLimited_code [code]: "readLimited r limit = map_option (limited (wrap64 (limit + 1))) r"
  by (cases r) (simp_all add: readLimited_def limited_take)

definition Decode :: "'a json_lib \<Rightarrow> string option \<Rightarrow> int \<Rightarrow> 'a option" where
  "Decode lib r limit =
     (if limit \<le> 0 then None
      else case readLimited r limit of
             None \<Rightarrow> None
           | Some b \<Rightarrow>
               if int (length b) > limit \<or> \<not> jl_utf8 lib b then None
               else if \<not> scanDocument lib False b then None
               else (case jl_decode lib b of
                       None \<Rightarrow> None
                     | Some dst \<Rightarrow>
                         (case jl_marshal lib dst of
                            None \<Rightarrow> None
                          | Some canonical \<Rightarrow>
                              (case (jl_unmarshal lib b, jl_unmarshal lib canonical) of
                                 (Some original, Some normalized) \<Rightarrow> if shape original normalized then Some dst else None
                               | _ \<Rightarrow> None))))"

definition ReadValue :: "'a json_lib \<Rightarrow> string option \<Rightarrow> int \<Rightarrow> string option" where
  "ReadValue lib r limit =
     (if limit \<le> 0 then None
      else case readLimited r limit of
             None \<Rightarrow> None
           | Some b \<Rightarrow>
               if int (length b) > limit \<or> \<not> jl_utf8 lib b then None
               else if scanDocument lib True b then Some b else None)"

section \<open>The scan always ends\<close>

lemma expect_length: "expect c ts = Done rest \<Longrightarrow> length rest < length ts"
  by (auto simp: expect_def split: list.split_asm if_split_asm)

lemma expect_fuel [simp]: "expect c ts \<noteq> OutOfFuel"
  by (auto simp: expect_def split: list.split)

lemma scan_shorter:
  "scanValue n float depth nul ts = Done rest \<Longrightarrow> length rest < length ts"
  "scanFields n float depth nul seen ts = Done rest \<Longrightarrow> length rest < length ts"
  "scanItems n float depth nul ts = Done rest \<Longrightarrow> length rest < length ts"
proof (induction n float depth nul ts and n float depth nul seen ts and n float depth nul ts
    arbitrary: rest and rest and rest rule: scanValue_scanFields_scanItems.induct)
  case (2 n float depth nul ts)
  then show ?case by (fastforce split: if_split_asm list.split_asm token.split_asm)
next
  case (4 n float depth nul seen ts)
  show ?case
  proof (cases "hasMore ts")
    case True
    with 4(3) obtain name r1 r2 where r: "ts = Str name # r1" "name \<notin> set seen" "scanValue n float (depth + 1) nul r1 = Done r2"
      "scanFields n float depth nul (name # seen) r2 = Done rest"
      by (auto split: if_split_asm list.split_asm token.split_asm run.split_asm)
    show ?thesis using 4(1) [OF True r(1) refl r(2,3)] 4(2) [OF True r(1) refl r(2,3,4)] r(1) by simp
  qed (use 4(3) in \<open>auto dest: expect_length\<close>)
next
  case (6 n float depth nul ts)
  show ?case
  proof (cases "hasMore ts")
    case True
    with 6(3) obtain r where r: "scanValue n float (depth + 1) nul ts = Done r" "scanItems n float depth nul r = Done rest"
      by (auto split: run.split_asm)
    show ?thesis using 6(1) [OF True r(1)] 6(2) [OF True r] by simp
  qed (use 6(3) in \<open>auto dest: expect_length\<close>)
qed auto

lemma scan_fuel:
  "n \<ge> 2 * length ts + 1 \<Longrightarrow> scanValue n float depth nul ts \<noteq> OutOfFuel"
  "n \<ge> 2 * length ts + 2 \<Longrightarrow> scanFields n float depth nul seen ts \<noteq> OutOfFuel"
  "n \<ge> 2 * length ts + 2 \<Longrightarrow> scanItems n float depth nul ts \<noteq> OutOfFuel"
proof (induction n float depth nul ts and n float depth nul seen ts and n float depth nul ts rule: scanValue_scanFields_scanItems.induct)
  case (2 n float depth nul ts)
  then show ?case by (auto split: list.split token.split)
next
  case (4 n float depth nul seen ts)
  show ?case
  proof (cases ts)
    case (Cons t rest)
    show ?thesis
    proof (cases t)
      case (Str name)
      have sub: "scanFields n float depth nul (name # seen) rest' \<noteq> OutOfFuel" if v: "scanValue n float (depth + 1) nul rest = Done rest'"
        "name \<notin> set seen" "hasMore ts" for rest'
        using 4(2) [OF v(3) Cons [unfolded Str] refl v(2) v(1)] scan_shorter(1) [OF v(1)] 4(3) Cons by simp
      show ?thesis using 4(1) [OF _ Cons [unfolded Str] refl] 4(3) Cons Str sub by (auto split: run.split)
    qed (use Cons in \<open>auto simp: expect_def\<close>)
  qed (auto simp: hasMore_def)
next
  case (6 n float depth nul ts)
  have sub: "scanItems n float depth nul rest \<noteq> OutOfFuel" if v: "scanValue n float (depth + 1) nul ts = Done rest" "hasMore ts" for rest
    using 6(2) [OF v(2) v(1)] scan_shorter(1) [OF v(1)] 6(3) by simp
  show ?case using 6(1,3) sub by (auto simp: expect_def split: run.split list.split)
qed auto

section \<open>What the scan accepts\<close>

text \<open>The JSON texts by their structure: objects, arrays and single tokens.\<close>

datatype tree = Obj "(string \<times> tree) list" | Arr "tree list" | Leaf token

fun tokens_of :: "tree \<Rightarrow> token list" where
  "tokens_of (Obj fs) = Delim CHR ''{'' # concat (map (\<lambda>(k, v). Str k # tokens_of v) fs) @ [Delim CHR ''}'']"
| "tokens_of (Arr items) = Delim CHR ''['' # concat (map tokens_of items) @ [Delim CHR '']'']"
| "tokens_of (Leaf t) = [t]"

fun acceptable :: "(string \<Rightarrow> bool) \<Rightarrow> bool \<Rightarrow> nat \<Rightarrow> tree \<Rightarrow> bool" where
  "acceptable float nul depth (Obj fs) \<longleftrightarrow> depth \<le> 32 \<and> distinct (map fst fs) \<and> (\<forall>(k, v) \<in> set fs. acceptable float nul (depth + 1) v)"
| "acceptable float nul depth (Arr items) \<longleftrightarrow> depth \<le> 32 \<and> (\<forall>v \<in> set items. acceptable float nul (depth + 1) v)"
| "acceptable float nul depth (Leaf t) \<longleftrightarrow> depth \<le> 32 \<and>
     (case t of Delim _ \<Rightarrow> False | Null_tok \<Rightarrow> nul | Num s \<Rightarrow> nul \<longrightarrow> float s | _ \<Rightarrow> True)"

abbreviation field_tokens :: "(string \<times> tree) list \<Rightarrow> token list" where
  "field_tokens fs \<equiv> concat (map (\<lambda>(k, v). Str k # tokens_of v) fs)"

lemma expect_Done: "expect c ts = Done rest \<longleftrightarrow> ts = Delim c # rest"
  by (auto simp: expect_def split: list.split)

lemma scan_sound:
  "scanValue n float depth nul ts = Done rest \<Longrightarrow> \<exists>v. acceptable float nul depth v \<and> ts = tokens_of v @ rest"
  "scanFields n float depth nul seen ts = Done rest \<Longrightarrow> \<exists>fs. distinct (map fst fs) \<and> set (map fst fs) \<inter> set seen = {} \<and>
     (\<forall>(k, v) \<in> set fs. acceptable float nul (depth + 1) v) \<and> ts = field_tokens fs @ Delim CHR ''}'' # rest"
  "scanItems n float depth nul ts = Done rest \<Longrightarrow> \<exists>items. (\<forall>v \<in> set items. acceptable float nul (depth + 1) v) \<and>
     ts = concat (map tokens_of items) @ Delim CHR '']'' # rest"
proof (induction n float depth nul ts and n float depth nul seen ts and n float depth nul ts
    arbitrary: rest and rest and rest rule: scanValue_scanFields_scanItems.induct)
  case (2 n float depth nul ts)
  obtain t r where ts: "ts = t # r" and d: "\<not> depth > 32" and nl: "\<not> (t = Null_tok \<and> \<not> nul)"
    using 2(3) by (auto split: if_split_asm list.split_asm)
  consider (object) "t = Delim CHR ''{''" | (array) "t = Delim CHR ''[''" | (leaf) "t \<noteq> Delim CHR ''{''" "t \<noteq> Delim CHR ''[''" by blast
  then show ?case
  proof cases
    case object
    then have "scanFields n float depth nul [] r = Done rest" using 2(3) ts d by simp
    from 2(1) [OF d ts nl object this] obtain fs where f: "distinct (map fst fs)"
      "\<forall>(k, v) \<in> set fs. acceptable float nul (depth + 1) v" "r = field_tokens fs @ Delim CHR ''}'' # rest" by blast
    then show ?thesis using ts object d by (intro exI [of _ "Obj fs"]) simp
  next
    case array
    then have "scanItems n float depth nul r = Done rest" using 2(3) ts d by simp
    from 2(2) [OF d ts nl _ array this] array obtain items where "\<forall>v \<in> set items. acceptable float nul (depth + 1) v"
      "r = concat (map tokens_of items) @ Delim CHR '']'' # rest" by auto
    then show ?thesis using ts array d by (intro exI [of _ "Arr items"]) simp
  next
    case leaf
    then have "acceptable float nul depth (Leaf t) \<and> r = rest"
      using 2(3) ts d nl by (auto split: token.split_asm if_split_asm)
    then show ?thesis using ts by (intro exI [of _ "Leaf t"]) simp
  qed
next
  case (4 n float depth nul seen ts)
  show ?case
  proof (cases "hasMore ts")
    case True
    with 4(3) obtain name r1 r2 where r: "ts = Str name # r1" "name \<notin> set seen" "scanValue n float (depth + 1) nul r1 = Done r2"
      "scanFields n float depth nul (name # seen) r2 = Done rest"
      by (auto split: if_split_asm list.split_asm token.split_asm run.split_asm)
    obtain v where v: "acceptable float nul (depth + 1) v" "r1 = tokens_of v @ r2" using 4(1) [OF True r(1) refl r(2,3)] by blast
    obtain fs where f: "distinct (map fst fs)" "set (map fst fs) \<inter> set (name # seen) = {}"
      "\<forall>(k, v) \<in> set fs. acceptable float nul (depth + 1) v" "r2 = field_tokens fs @ Delim CHR ''}'' # rest"
      using 4(2) [OF True r(1) refl r(2,3,4)] by blast
    show ?thesis using r(1,2) v f by (intro exI [of _ "(name, v) # fs"]) auto
  next
    case False
    then have "ts = Delim CHR ''}'' # rest" using 4(3) by (simp add: expect_Done)
    then show ?thesis by (intro exI [of _ "[]"]) simp
  qed
next
  case (6 n float depth nul ts)
  show ?case
  proof (cases "hasMore ts")
    case True
    with 6(3) obtain r where r: "scanValue n float (depth + 1) nul ts = Done r" "scanItems n float depth nul r = Done rest"
      by (auto split: run.split_asm)
    obtain v where v: "acceptable float nul (depth + 1) v" "ts = tokens_of v @ r" using 6(1) [OF True r(1)] by blast
    obtain items where i: "\<forall>v \<in> set items. acceptable float nul (depth + 1) v" "r = concat (map tokens_of items) @ Delim CHR '']'' # rest"
      using 6(2) [OF True r] by blast
    show ?thesis using v i by (intro exI [of _ "v # items"]) simp
  next
    case False
    then have "ts = Delim CHR '']'' # rest" using 6(3) by (simp add: expect_Done)
    then show ?thesis by (intro exI [of _ "[]"]) simp
  qed
qed auto


lemma acceptable_more: "acceptable float nul depth v \<Longrightarrow> hasMore (tokens_of v @ rest)"
  by (cases v) (auto simp: hasMore_def split: token.split_asm)

lemma tokens_of_pos: "length (tokens_of v) > 0"
  by (cases v) auto

lemma scan_fields_complete:
  assumes "\<And>k v n' r. (k, v) \<in> set fs \<Longrightarrow> n' \<ge> 2 * length (tokens_of v) \<Longrightarrow> scanValue n' float (depth + 1) nul (tokens_of v @ r) = Done r"
    and "distinct (map fst fs)" "set (map fst fs) \<inter> set seen = {}" "n \<ge> 2 * length (field_tokens fs) + 1"
  shows "scanFields n float depth nul seen (field_tokens fs @ Delim CHR ''}'' # rest) = Done rest"
  using assms
proof (induction fs arbitrary: n seen)
  case Nil
  then show ?case by (cases n) (auto simp: hasMore_def expect_def)
next
  case (Cons f fs)
  obtain k v where f: "f = (k, v)" by (cases f)
  obtain m where n: "n = Suc m" using Cons(5) by (cases n) auto
  have v: "scanValue m float (depth + 1) nul (tokens_of v @ r) = Done r" for r
    using Cons(2) [of k v] Cons(5) f n by simp
  have "scanFields m float depth nul (k # seen) (field_tokens fs @ Delim CHR ''}'' # rest) = Done rest"
    using Cons(2-5) f n by (intro Cons(1)) auto
  then show ?case using v Cons(4) f n by (simp add: hasMore_def)
qed

lemma scan_items_complete:
  assumes "\<And>v n' r. v \<in> set items \<Longrightarrow> n' \<ge> 2 * length (tokens_of v) \<Longrightarrow> scanValue n' float (depth + 1) nul (tokens_of v @ r) = Done r"
    and "\<And>v. v \<in> set items \<Longrightarrow> acceptable float nul (depth + 1) v" "n \<ge> 2 * length (concat (map tokens_of items)) + 1"
  shows "scanItems n float depth nul (concat (map tokens_of items) @ Delim CHR '']'' # rest) = Done rest"
  using assms
proof (induction items arbitrary: n)
  case Nil
  then show ?case by (cases n) (auto simp: hasMore_def expect_def)
next
  case (Cons v items)
  obtain m where n: "n = Suc m" using Cons(4) by (cases n) auto
  have "length (concat (map tokens_of (v # items))) = length (tokens_of v) + length (concat (map tokens_of items))" by simp
  then have fuel: "2 * length (concat (map tokens_of items)) + 1 \<le> m" "2 * length (tokens_of v) \<le> m"
    using Cons(4) n tokens_of_pos [of v] by linarith+
  have v: "scanValue m float (depth + 1) nul (tokens_of v @ r) = Done r" for r
    using Cons(2) [of v m] fuel by simp
  have "scanItems m float depth nul (concat (map tokens_of items) @ Delim CHR '']'' # rest) = Done rest"
    using Cons(2,3) fuel by (intro Cons(1)) auto
  moreover have "hasMore (tokens_of v @ r)" for r using acceptable_more Cons(3) by (metis list.set_intros(1))
  ultimately show ?case using v n by simp
qed

lemma scan_complete:
  "acceptable float nul depth v \<Longrightarrow> n \<ge> 2 * length (tokens_of v) \<Longrightarrow> scanValue n float depth nul (tokens_of v @ rest) = Done rest"
proof (induction v arbitrary: n depth rest)
  case (Obj fs)
  obtain m where n: "n = Suc m" using Obj(3) by (cases n) auto
  have "scanFields m float depth nul [] (field_tokens fs @ Delim CHR ''}'' # rest) = Done rest"
    using Obj n by (intro scan_fields_complete) fastforce+
  then show ?case using Obj(2) n by simp
next
  case (Arr items)
  obtain m where n: "n = Suc m" using Arr(3) by (cases n) auto
  have "scanItems m float depth nul (concat (map tokens_of items) @ Delim CHR '']'' # rest) = Done rest"
    using Arr n by (intro scan_items_complete) auto
  then show ?case using Arr(2) n by simp
next
  case (Leaf t)
  then show ?case by (cases n) (auto split: token.split)
qed

section \<open>Properties\<close>

text \<open>
  C39. The scan of a token stream ends for every stream: with fuel linear in the number of tokens it
  accepts or refuses, at every nesting, whatever the stream holds.
\<close>

theorem scan_terminates: "scanValue (scanFuel ts) float 0 nul ts \<noteq> OutOfFuel"
  by (rule scan_fuel(1)) (simp add: scanFuel_def)

text \<open>
  C38. The scan accepts exactly the prefixes that are one JSON value nested at most 32 deep
  below its outermost value, in which no object repeats a name, no null occurs unless nulls are allowed and, for an
  untyped value, every numeral is a float; it leaves the rest of the stream unread.
\<close>

theorem scan_accepts_iff:
  "scanValue (scanFuel ts) float 0 nul ts = Done rest \<longleftrightarrow> (\<exists>v. acceptable float nul 0 v \<and> ts = tokens_of v @ rest)"
proof
  assume "\<exists>v. acceptable float nul 0 v \<and> ts = tokens_of v @ rest"
  then show "scanValue (scanFuel ts) float 0 nul ts = Done rest"
    by (elim exE conjE) (simp only: scanFuel_def length_append, rule scan_complete, auto)
qed (rule scan_sound(1))

lemma readLimited_within:
  assumes "0 < limit" "limit < 2 ^ 63 - 1"
  shows "(\<exists>b'. readLimited r limit = Some b' \<and> \<not> int (length b') > limit \<and> b' = b) \<longleftrightarrow> r = Some b \<and> int (length b) \<le> limit"
proof -
  have "wrap64 (limit + 1) = limit + 1" using assms by (simp add: wrap64_def)
  moreover have "take (nat (limit + 1)) x = x" if "\<not> int (length (take (nat (limit + 1)) x)) > limit" for x :: string
    using that assms by (simp add: min_def split: if_split_asm)
  ultimately show ?thesis by (cases r) (auto simp: readLimited_def)
qed

lemma scanDocument_iff:
  "scanDocument lib nul b \<longleftrightarrow> (\<exists>v. acceptable (jl_float lib) nul 0 v \<and> jl_tokens lib b = (tokens_of v, True))"
proof -
  have "scanValue (scanFuel ts) (jl_float lib) 0 nul ts = Done [] \<longleftrightarrow> (\<exists>v. acceptable (jl_float lib) nul 0 v \<and> ts = tokens_of v)" for ts
    using scan_sound(1) [of "scanFuel ts" "jl_float lib" 0 nul ts "[]"] scan_complete [of "jl_float lib" nul 0 _ "scanFuel ts" "[]"]
    by (auto simp: scanFuel_def simp del: scanValue.simps)
  then show ?thesis by (cases "jl_tokens lib b") (auto simp: scanDocument_def simp del: scanValue.simps)
qed

text \<open>
  C40. \<open>ReadValue\<close> returns a text exactly when the reader holds it unchanged, it is at most \<open>limit\<close>
  bytes of valid UTF-8 and its tokens are one acceptable JSON value followed by the end of the
  input: nothing is truncated, and nothing longer than the limit or nested deeper than 32 passes.
\<close>

theorem ReadValue_bounded:
  assumes "0 < limit" "limit < 2 ^ 63 - 1"
  shows "ReadValue lib r limit = Some b \<longleftrightarrow>
    r = Some b \<and> int (length b) \<le> limit \<and> jl_utf8 lib b \<and>
    (\<exists>v. acceptable (jl_float lib) True 0 v \<and> jl_tokens lib b = (tokens_of v, True))"
proof -
  have "ReadValue lib r limit = Some b \<longleftrightarrow>
      (\<exists>b'. readLimited r limit = Some b' \<and> \<not> int (length b') > limit \<and> b' = b) \<and> jl_utf8 lib b \<and> scanDocument lib True b"
    using assms(1) by (auto simp: ReadValue_def split: option.split_asm if_split_asm)
  then show ?thesis unfolding readLimited_within [OF assms] scanDocument_iff by blast
qed

definition demo_json_lib :: "string json_lib" where
  "demo_json_lib = \<lparr>jl_utf8 = (\<lambda>_. True),
     jl_tokens = (\<lambda>b. if b = ''[1]'' then ([Delim CHR ''['', Num ''1'', Delim CHR '']''], True) else ([], False)),
     jl_float = (\<lambda>_. True), jl_decode = Some, jl_marshal = Some, jl_unmarshal = (\<lambda>_. Some (JArr [JNum 1]))\<rparr>"

theorem ReadValue_bounded_witness:
  "ReadValue demo_json_lib (Some ''[1]'') 3 = Some ''[1]'' \<and> ReadValue demo_json_lib (Some ''[1]'') 2 \<noteq> Some ''[1]''"
  using ReadValue_bounded [of 3 demo_json_lib "Some ''[1]''" "''[1]''"] ReadValue_bounded [of 2 demo_json_lib "Some ''[1]''" "''[1]''"]
  by (auto simp: demo_json_lib_def intro!: exI [of _ "Arr [Leaf (Num ''1'')]"])

end
