(* ===== verification/Release_Registry.thy ===== *)
theory Release_Registry
  imports Ops_Types Strict_JSON
begin

text \<open>
  The trusted release registry (\<^verbatim>\<open>internal/releasebinding/source.go\<close>): one JSON file and the
  package and chart files beside it. The file system is a parameter: the directory
  \<open>os.OpenRoot(filepath.Dir(path))\<close> opens, as a function from a relative name to what \<open>Open\<close>,
  \<open>Stat\<close> and \<open>ReadAll\<close> give there; the JSON library is the parameter of \<open>Strict_JSON\<close> and
  SHA-256 a function on byte strings. The only error of the package is \<open>ErrUntrusted\<close>, here
  \<open>None\<close> or \<open>False\<close>.
\<close>

section \<open>Data\<close>

record Entry = Binding +
  en_PackageRef :: string
  en_ChartRef :: string

text \<open>The embedded \<open>Binding\<close> of an entry.\<close>

abbreviation binding_of :: "Entry \<Rightarrow> Binding" where
  "binding_of e \<equiv> Binding.truncate e"

record Registry =
  rg_SchemaVersion :: int
  rg_Releases :: "Entry list option"

text \<open>
  What \<open>Stat\<close> says of an opened file (\<open>None\<close>: it fails; else whether it is regular, and its
  size) and the bytes a complete read gives (\<open>None\<close>: the read fails).
\<close>

record opened =
  of_Stat :: "(bool \<times> int) option"
  of_Bytes :: "string option"

type_synonym dir = "string \<Rightarrow> opened option"

record registry_env =
  rv_OpenRoot :: "string \<Rightarrow> dir option"
  rv_json :: "Registry json_lib"
  rv_sha256 :: "string \<Rightarrow> string"

definition SchemaVersion :: int where
  "SchemaVersion = 2"

section \<open>Reading\<close>

text \<open>\<open>fs.ValidPath\<close>.\<close>

definition ValidPath :: "string \<Rightarrow> bool" where
  "ValidPath name \<longleftrightarrow> utf8_Valid name \<and>
     (name = ''.'' \<or> list_all (\<lambda>elem. elem \<noteq> [] \<and> elem \<noteq> ''.'' \<and> elem \<noteq> ''..'') (split_on CHR ''/'' name))"

text \<open>\<open>filepath.Base\<close> on Unix.\<close>

definition path_Base :: "string \<Rightarrow> string" where
  "path_Base path =
     (if path = [] then ''.''
      else let trimmed = rev (dropWhile (\<lambda>c. c = CHR ''/'') (rev path));
               base = rev (takeWhile (\<lambda>c. c \<noteq> CHR ''/'') (rev trimmed))
           in if base = [] then ''/'' else base)"

definition read :: "dir \<Rightarrow> string \<Rightarrow> int \<Rightarrow> string option" where
  "read dir ref maximum =
     (if \<not> ValidPath ref \<or> ref = ''.'' \<or> CHR 0x5C \<in> set ref \<or> CHR '':'' \<in> set ref then None
      else case dir ref of
             None \<Rightarrow> None
           | Some f \<Rightarrow>
               (case of_Stat f of
                  None \<Rightarrow> None
                | Some (regular, sz) \<Rightarrow>
                    if \<not> regular \<or> sz > maximum then None
                    else case map_option (take (nat (maximum + 1))) (of_Bytes f) of
                           None \<Rightarrow> None
                         | Some b \<Rightarrow> if int (length b) > maximum then None else Some b))"

lemma read_code [code]:
  "read dir ref maximum =
     (if \<not> ValidPath ref \<or> ref = ''.'' \<or> CHR 0x5C \<in> set ref \<or> CHR '':'' \<in> set ref then None
      else case dir ref of
             None \<Rightarrow> None
           | Some f \<Rightarrow>
               (case of_Stat f of
                  None \<Rightarrow> None
                | Some (regular, sz) \<Rightarrow>
                    if \<not> regular \<or> sz > maximum then None
                    else case map_option (limited (maximum + 1)) (of_Bytes f) of
                           None \<Rightarrow> None
                         | Some b \<Rightarrow> if int (length b) > maximum then None else Some b))"
  unfolding read_def limited_take ..

definition Sum :: "(string \<Rightarrow> string) \<Rightarrow> string \<Rightarrow> string" where
  "Sum sha256 raw = ''sha256:'' @ hex_EncodeToString (sha256 raw)"

text \<open>A nil \<open>*Source\<close> is \<open>None\<close>, else its path.\<close>

definition load :: "registry_env \<Rightarrow> string option \<Rightarrow> (dir \<times> Entry list) option" where
  "load env source =
     (case source of
        None \<Rightarrow> None
      | Some path \<Rightarrow>
          if path = [] then None
          else case rv_OpenRoot env path of
                 None \<Rightarrow> None
               | Some dir \<Rightarrow>
                   (case read dir (path_Base path) (2 * 2 ^ 20) of
                      None \<Rightarrow> None
                    | Some raw \<Rightarrow>
                        (case Decode (rv_json env) (Some raw) (2 * 2 ^ 20) of
                           None \<Rightarrow> None
                         | Some cfg \<Rightarrow>
                             if rg_SchemaVersion cfg \<noteq> SchemaVersion then None
                             else (case rg_Releases cfg of
                                     None \<Rightarrow> None
                                   | Some releases \<Rightarrow> if length releases > 128 then None else Some (dir, releases)))))"

section \<open>Finding an entry\<close>

text \<open>The loop over the releases: the references seen so far and the candidate.\<close>

fun find_candidate :: "string \<Rightarrow> string list \<Rightarrow> Entry option \<Rightarrow> Entry list \<Rightarrow> Entry option option" where
  "find_candidate ref seen candidate [] = Some candidate"
| "find_candidate ref seen candidate (r # rs) =
     (if \<not> Binding_Valid (binding_of r) \<or> bd_ReleaseRef r \<in> set seen then None
      else find_candidate ref (bd_ReleaseRef r # seen) (if bd_ReleaseRef r = ref then Some r else candidate) rs)"

definition find_release :: "registry_env \<Rightarrow> dir \<Rightarrow> Entry list \<Rightarrow> string \<Rightarrow> Entry option" where
  "find_release env dir releases ref =
     (case find_candidate ref [] None releases of
        Some (Some candidate) \<Rightarrow>
          (case (read dir (en_PackageRef candidate) (4 * 2 ^ 20), read dir (en_ChartRef candidate) (32 * 2 ^ 20)) of
             (Some manifest, Some chart) \<Rightarrow>
               if Sum (rv_sha256 env) manifest \<noteq> bd_PackageDigest candidate \<or> Sum (rv_sha256 env) chart \<noteq> bd_ChartDigest candidate
               then None else Some candidate
           | _ \<Rightarrow> None)
      | _ \<Rightarrow> None)"

section \<open>The two operations\<close>

definition Resolve :: "registry_env \<Rightarrow> string option \<Rightarrow> string \<Rightarrow> Binding option" where
  "Resolve env source ref =
     (if \<not> name_pattern 62 ref then None
      else case load env source of
             None \<Rightarrow> None
           | Some (dir, releases) \<Rightarrow> map_option binding_of (find_release env dir releases ref))"

definition Verify :: "registry_env \<Rightarrow> string option \<Rightarrow> Binding \<Rightarrow> bool" where
  "Verify env source want =
     (if \<not> Binding_Valid want then False
      else case load env source of
             None \<Rightarrow> False
           | Some (dir, releases) \<Rightarrow>
               (case find_release env dir releases (bd_ReleaseRef want) of
                  None \<Rightarrow> False
                | Some entry \<Rightarrow> binding_of entry = want))"

section \<open>What is found\<close>

lemma find_candidate_iff:
  "find_candidate ref seen c rs = Some (Some e) \<longleftrightarrow>
     list_all (\<lambda>r. Binding_Valid (binding_of r)) rs \<and> distinct (map bd_ReleaseRef rs) \<and> bd_ReleaseRef ` set rs \<inter> set seen = {} \<and>
     (e \<in> set rs \<and> bd_ReleaseRef e = ref \<or> c = Some e \<and> ref \<notin> bd_ReleaseRef ` set rs)"
  by (induction rs arbitrary: seen c) (auto simp: image_iff)

text \<open>
  The trusted entries of a registry: the list is well formed as a whole, the entry is one of it
  and the mounted bytes have the recorded digests.
\<close>

definition trusted :: "registry_env \<Rightarrow> dir \<Rightarrow> Entry list \<Rightarrow> Entry \<Rightarrow> bool" where
  "trusted env dir releases e \<longleftrightarrow>
     list_all (\<lambda>r. Binding_Valid (binding_of r)) releases \<and> distinct (map bd_ReleaseRef releases) \<and> e \<in> set releases \<and>
     map_option (Sum (rv_sha256 env)) (read dir (en_PackageRef e) (4 * 2 ^ 20)) = Some (bd_PackageDigest e) \<and>
     map_option (Sum (rv_sha256 env)) (read dir (en_ChartRef e) (32 * 2 ^ 20)) = Some (bd_ChartDigest e)"

lemma find_release_iff: "find_release env dir releases ref = Some e \<longleftrightarrow> trusted env dir releases e \<and> bd_ReleaseRef e = ref"
proof -
  have "find_release env dir releases ref = Some e \<longleftrightarrow> find_candidate ref [] None releases = Some (Some e) \<and>
      map_option (Sum (rv_sha256 env)) (read dir (en_PackageRef e) (4 * 2 ^ 20)) = Some (bd_PackageDigest e) \<and>
      map_option (Sum (rv_sha256 env)) (read dir (en_ChartRef e) (32 * 2 ^ 20)) = Some (bd_ChartDigest e)"
    by (auto simp: find_release_def split: option.split_asm if_split_asm option.split)
  then show ?thesis unfolding find_candidate_iff trusted_def by auto
qed

lemma binding_of_sel: "bd_ReleaseRef (binding_of e) = bd_ReleaseRef e"
  by (cases e) (simp add: Binding.truncate_def)

lemma trusted_valid: "trusted env dir releases e \<Longrightarrow> Binding_Valid (binding_of e)"
  by (auto simp: trusted_def list_all_iff)

lemma Verify_release:
  "Verify env source want \<longleftrightarrow>
     (\<exists>dir releases e. load env source = Some (dir, releases) \<and> find_release env dir releases (bd_ReleaseRef want) = Some e \<and> binding_of e = want)"
proof -
  have "Binding_Valid (binding_of e)" if "find_release env dir releases r = Some e" for dir releases e r
    using that by (auto simp: find_release_iff dest: trusted_valid)
  then show ?thesis unfolding Verify_def by (auto split: option.split)
qed

lemma Resolve_release:
  "Resolve env source ref = Some b \<longleftrightarrow>
     (\<exists>dir releases e. load env source = Some (dir, releases) \<and> find_release env dir releases ref = Some e \<and> binding_of e = b)"
proof -
  have "name_pattern 62 r" if "find_release env dir releases r = Some e" for dir releases e r
  proof -
    have "Binding_Valid (binding_of e)" "bd_ReleaseRef e = r" using that by (auto simp: find_release_iff dest: trusted_valid)
    then show ?thesis by (simp add: Binding_Valid_def binding_of_sel)
  qed
  then show ?thesis unfolding Resolve_def by (auto split: option.split)
qed

section \<open>Properties\<close>

text \<open>
  A release is verified exactly when the current registry, read afresh and well formed as a
  whole (every entry valid, no reference twice), has an entry with precisely the wanted binding
  whose mounted package and chart have the recorded digests. One malformed or duplicate entry
  withdraws every release of the registry.
\<close>

theorem Verify_iff:
  "Verify env source want \<longleftrightarrow>
     (\<exists>dir releases e. load env source = Some (dir, releases) \<and> trusted env dir releases e \<and> binding_of e = want)"
  unfolding Verify_release find_release_iff by (metis binding_of_sel)

text \<open>
  A reference resolves to a binding exactly when that binding carries the reference and is
  verified by the same registry: what a command is given by reference is what every later check of
  the binding accepts, until the registry changes.
\<close>

theorem Resolve_verifies:
  "Resolve env source ref = Some b \<longleftrightarrow> Verify env source b \<and> bd_ReleaseRef b = ref"
  unfolding Verify_release Resolve_release find_release_iff by (metis binding_of_sel)

end
