(* ===== verification/Migrations.thy ===== *)
theory Migrations
  imports Ops_Types "HOL-Library.Multiset"
begin

text \<open>
  The schema migrations (\<^verbatim>\<open>migrations/migrate.go\<close>). The embedded scripts are a list of names with
  their contents, in the order of \<open>fs.Glob\<close>. What PostgreSQL does with a script is the parameter
  \<open>exec\<close>, and its reading and printing of a \<open>uuid\<close> column is \<open>uuid_text\<close>; the two tables the Go code
  itself reads and writes, \<open>schema_migrations\<close> and \<open>configuration\<close>, are modelled. A transaction
  that ends with an error leaves the database as it was. The advisory lock only makes concurrent
  runs wait for each other.
\<close>

record migration =
  mi_version :: int
  mi_name :: string
  mi_sql :: string
  mi_checksum :: string

text \<open>
  A table that does not exist is \<open>None\<close>. A row of the history is its version, name and checksum;
  the configuration has at most one row, the station and the contracts version.
\<close>

record 'd mig_db =
  mg_history :: "(int \<times> string \<times> string) list option"
  mg_config :: "(string \<times> int) option option"
  mg_rest :: 'd

datatype mig_error =
  NonsequentialMigration | MigrationVersionMismatch | FileUnreadable
| HistoryMismatch | PendingMigrations | StationMismatch | MigrationFailed int | SqlFailure

record 'd mig_env =
  me_files :: "(string \<times> string option) list"
  me_sha256 :: "string \<Rightarrow> string"
  me_exec :: "string \<Rightarrow> 'd mig_db \<Rightarrow> 'd mig_db option"
  me_uuid_text :: "string \<Rightarrow> string option"

definition ContractsMajor :: int where
  "ContractsMajor = 1"

definition Version :: nat where
  "Version = 22"

section \<open>The embedded scripts\<close>

fun load_files :: "(string \<Rightarrow> string) \<Rightarrow> int \<Rightarrow> (string \<times> string option) list \<Rightarrow> mig_error + migration list" where
  "load_files sha i [] = Inr []"
| "load_files sha i ((name, content) # files) =
     (if Atoi (fst (cut_on CHR ''_'' name)) \<noteq> Some (i + 1) then Inl NonsequentialMigration
      else case content of
             None \<Rightarrow> Inl FileUnreadable
           | Some sql \<Rightarrow>
               (case load_files sha (i + 1) files of
                  Inl e \<Rightarrow> Inl e
                | Inr out \<Rightarrow> Inr (\<lparr>mi_version = i + 1, mi_name = name, mi_sql = sql,
                    mi_checksum = hex_EncodeToString (sha sql)\<rparr> # out)))"

definition load_migrations :: "'d mig_env \<Rightarrow> mig_error + migration list" where
  "load_migrations env =
     (case load_files (me_sha256 env) 0 (me_files env) of
        Inl e \<Rightarrow> Inl e
      | Inr out \<Rightarrow> if length out \<noteq> Version then Inl MigrationVersionMismatch else Inr out)"

section \<open>The recorded history\<close>

definition row_of :: "migration \<Rightarrow> int \<times> string \<times> string" where
  "row_of m = (mi_version m, mi_name m, mi_checksum m)"

text \<open>The loop of \<open>history\<close> over the rows in the order of their versions.\<close>

fun history_loop :: "migration list \<Rightarrow> nat \<Rightarrow> (int \<times> string \<times> string) list \<Rightarrow> mig_error + nat" where
  "history_loop all n [] = Inr n"
| "history_loop all n ((v, name, checksum) # rows) =
     (if n \<ge> length all \<or> v \<noteq> mi_version (all ! n) \<or> name \<noteq> mi_name (all ! n) \<or> checksum \<noteq> mi_checksum (all ! n)
      then Inl HistoryMismatch else history_loop all (n + 1) rows)"

definition history :: "'d mig_db \<Rightarrow> migration list \<Rightarrow> mig_error + nat" where
  "history db all = (case mg_history db of
     None \<Rightarrow> Inl SqlFailure
   | Some rows \<Rightarrow> history_loop all 0 (sort_key fst rows))"

definition checkStation :: "'d mig_db \<Rightarrow> string \<Rightarrow> mig_error + unit" where
  "checkStation db stationID = (case mg_config db of
     Some (Some (i, major)) \<Rightarrow> if i \<noteq> stationID \<or> major \<noteq> ContractsMajor then Inl StationMismatch else Inr ()
   | _ \<Rightarrow> Inl SqlFailure)"

section \<open>Apply and Check\<close>

definition create_history :: "'d mig_db \<Rightarrow> 'd mig_db" where
  "create_history db = (case mg_history db of None \<Rightarrow> db\<lparr>mg_history := Some []\<rparr> | Some _ \<Rightarrow> db)"

text \<open>The version is the primary key of the history.\<close>

definition record_migration :: "migration \<Rightarrow> 'd mig_db \<Rightarrow> 'd mig_db option" where
  "record_migration m db = (case mg_history db of
     None \<Rightarrow> None
   | Some rows \<Rightarrow> if mi_version m \<in> fst ` set rows then None else Some (db\<lparr>mg_history := Some (rows @ [row_of m])\<rparr>))"

fun apply_pending :: "'d mig_env \<Rightarrow> migration list \<Rightarrow> 'd mig_db \<Rightarrow> mig_error + 'd mig_db" where
  "apply_pending env [] db = Inr db"
| "apply_pending env (m # ms) db =
     (case me_exec env (mi_sql m) db of
        None \<Rightarrow> Inl (MigrationFailed (mi_version m))
      | Some db1 \<Rightarrow>
          (case record_migration m db1 of
             None \<Rightarrow> Inl SqlFailure
           | Some db2 \<Rightarrow> apply_pending env ms db2))"

text \<open>\<open>INSERT INTO station.configuration ... ON CONFLICT(singleton) DO NOTHING\<close>.\<close>

definition configure :: "'d mig_env \<Rightarrow> string \<Rightarrow> 'd mig_db \<Rightarrow> 'd mig_db option" where
  "configure env stationID db = (case (mg_config db, me_uuid_text env stationID) of
     (Some None, Some i) \<Rightarrow> Some (db\<lparr>mg_config := Some (Some (i, ContractsMajor))\<rparr>)
   | (Some (Some _), Some _) \<Rightarrow> Some db
   | _ \<Rightarrow> None)"

definition Apply_body :: "'d mig_env \<Rightarrow> migration list \<Rightarrow> string \<Rightarrow> 'd mig_db \<Rightarrow> mig_error + 'd mig_db" where
  "Apply_body env all stationID db =
     (let db1 = create_history db
      in case history db1 all of
           Inl e \<Rightarrow> Inl e
         | Inr n \<Rightarrow>
             (case apply_pending env (drop n all) db1 of
                Inl e \<Rightarrow> Inl e
              | Inr db2 \<Rightarrow>
                  (case configure env stationID db2 of
                     None \<Rightarrow> Inl SqlFailure
                   | Some db3 \<Rightarrow>
                       (case checkStation db3 stationID of
                          Inl e \<Rightarrow> Inl e
                        | Inr _ \<Rightarrow> Inr db3))))"

text \<open>\<open>up\<close> is whether the database answers: begin, lock and commit succeed.\<close>

definition Apply :: "'d mig_env \<Rightarrow> bool \<Rightarrow> string \<Rightarrow> 'd mig_db \<Rightarrow> (mig_error + unit) \<times> 'd mig_db" where
  "Apply env up stationID db =
     (case load_migrations env of
        Inl e \<Rightarrow> (Inl e, db)
      | Inr all \<Rightarrow>
          if \<not> up then (Inl SqlFailure, db)
          else case Apply_body env all stationID db of
                 Inl e \<Rightarrow> (Inl e, db)
               | Inr db' \<Rightarrow> (Inr (), db'))"

definition Check :: "'d mig_env \<Rightarrow> bool \<Rightarrow> string \<Rightarrow> 'd mig_db \<Rightarrow> mig_error + unit" where
  "Check env up stationID db =
     (case load_migrations env of
        Inl e \<Rightarrow> Inl e
      | Inr all \<Rightarrow>
          if \<not> up then Inl SqlFailure
          else case history db all of
                 Inl e \<Rightarrow> Inl e
               | Inr n \<Rightarrow> if n \<noteq> length all then Inl PendingMigrations else checkStation db stationID)"

section \<open>The history is a prefix\<close>

lemma load_files_versions:
  "load_files sha i files = Inr out \<Longrightarrow> map mi_version out = map (\<lambda>k. i + 1 + int k) [0..<length out]"
proof (induction files arbitrary: i out)
  case (Cons f files)
  obtain name content where f: "f = (name, content)" by (cases f)
  obtain m out' where o: "out = m # out'" "mi_version m = i + 1" "load_files sha (i + 1) files = Inr out'"
    using Cons(2) f by (auto split: if_split_asm option.split_asm sum.split_asm)
  have "map mi_version out' = map (\<lambda>k. i + 1 + int k) (map Suc [0..<length out'])"
    using Cons(1) [OF o(3)] by (simp add: comp_def algebra_simps)
  then show ?case unfolding map_Suc_upt using o by (simp add: upt_conv_Cons del: upt_Suc)
qed simp

lemma load_migrations_sorted:
  assumes "load_migrations env = Inr all"
  shows "length all = Version" "sorted (map mi_version all)" "distinct (map mi_version all)"
proof -
  have l: "load_files (me_sha256 env) 0 (me_files env) = Inr all" "length all = Version"
    using assms by (auto simp: load_migrations_def split: sum.split_asm if_split_asm)
  show "length all = Version" by (rule l(2))
  show "sorted (map mi_version all)" "distinct (map mi_version all)"
    unfolding load_files_versions [OF l(1)] by (simp_all add: sorted_map distinct_map inj_on_def sorted_wrt_upt)
qed

lemma history_loop_iff:
  "n \<le> length all \<Longrightarrow> history_loop all n rows = Inr k \<longleftrightarrow> n \<le> k \<and> k \<le> length all \<and> rows = map row_of (take (k - n) (drop n all))"
proof (induction rows arbitrary: n)
  case (Cons r rows)
  obtain v name checksum where r: "r = (v, name, checksum)" by (cases r)
  show ?case
  proof (cases "n < length all \<and> r = row_of (all ! n)")
    case True
    then have "history_loop all n (r # rows) = history_loop all (n + 1) rows" using r by (simp add: row_of_def)
    moreover have "take (k - n) (drop n all) = all ! n # take (k - (n + 1)) (drop (n + 1) all)" if "n + 1 \<le> k"
      using that True by (metis Cons_nth_drop_Suc Suc_diff_le Suc_eq_plus1 diff_Suc_Suc take_Suc_Cons)
    moreover have "take (k - n) (drop n all) = []" if "\<not> n + 1 \<le> k" using that by simp
    ultimately show ?thesis using Cons(1) [of "n + 1"] True by (cases "n + 1 \<le> k") auto
  next
    case False
    have "map row_of (take (k - n) (drop n all)) \<noteq> r # rows" if "n \<le> k"
      using False that by (cases "n < length all"; cases "n = k") (auto simp: Cons_nth_drop_Suc [symmetric] take_Cons')
    with False r Cons(2) show ?thesis by (auto simp: row_of_def)
  qed
qed auto

lemma history_iff:
  "history db all = Inr k \<longleftrightarrow> (\<exists>rows. mg_history db = Some rows \<and> k \<le> length all \<and> sort_key fst rows = map row_of (take k all))"
  using history_loop_iff [of 0 all] by (auto simp: history_def split: option.split)


text \<open>What \<open>Apply\<close> relies on: no embedded script touches the history table.\<close>

definition keeps_history :: "'d mig_env \<Rightarrow> bool" where
  "keeps_history env \<longleftrightarrow> (\<forall>sql db db'. me_exec env sql db = Some db' \<longrightarrow> mg_history db' = mg_history db)"

lemma apply_pending_history:
  assumes keeps: "keeps_history env"
  shows "apply_pending env ms db = Inr db' \<Longrightarrow> mg_history db = Some rows \<Longrightarrow> mg_history db' = Some (rows @ map row_of ms)"
proof (induction ms arbitrary: db rows)
  case (Cons m ms)
  obtain db1 db2 where d: "me_exec env (mi_sql m) db = Some db1" "record_migration m db1 = Some db2" "apply_pending env ms db2 = Inr db'"
    using Cons(2) by (auto split: option.split_asm)
  have "mg_history db2 = Some (rows @ [row_of m])"
    using d(1,2) keeps Cons(3) by (auto simp: record_migration_def keeps_history_def split: if_split_asm)
  from Cons(1) [OF d(3) this] show ?case by simp
qed simp

lemma configure_history: "configure env stationID db = Some db' \<Longrightarrow> mg_history db' = mg_history db"
  by (auto simp: configure_def split: option.split_asm)

lemma recorded_sorted:
  assumes "load_migrations env = Inr all" "sort_key fst rows = map row_of (take n all)"
  shows "sort_key fst (rows @ map row_of (drop n all)) = map row_of all"
proof (rule sort_key_inj_key_eq)
  have "mset rows = mset (map row_of (take n all))" using arg_cong [OF assms(2), of mset] by simp
  then show m: "mset (rows @ map row_of (drop n all)) = mset (map row_of all)"
    by (metis append_take_drop_id map_append mset_append)
  have f: "map fst (map row_of all) = map mi_version all" by (simp add: row_of_def comp_def)
  then show "sorted (map fst (map row_of all))" using load_migrations_sorted(2) [OF assms(1)] by (simp only:)
  have "inj_on fst (set (map row_of all))"
    using load_migrations_sorted(3) [OF assms(1)] unfolding f [symmetric] distinct_map by blast
  then show "inj_on fst (set (rows @ map row_of (drop n all)))" using mset_eq_setD [OF m] by simp
qed

lemma Apply_body_history:
  assumes keeps: "keeps_history env"
    and all: "load_migrations env = Inr all" and ok: "Apply_body env all stationID db = Inr db'"
  shows "history db' all = Inr (length all)" "checkStation db' stationID = Inr ()"
    "mg_config db' \<noteq> Some None" "me_uuid_text env stationID \<noteq> None"
proof -
  obtain n db2 where d: "history (create_history db) all = Inr n" "apply_pending env (drop n all) (create_history db) = Inr db2"
    "configure env stationID db2 = Some db'" "checkStation db' stationID = Inr ()"
    using ok by (auto simp: Apply_body_def Let_def split: sum.split_asm option.split_asm)
  obtain rows where r: "mg_history (create_history db) = Some rows" "sort_key fst rows = map row_of (take n all)"
    using d(1) unfolding history_iff by blast
  have "mg_history db' = Some (rows @ map row_of (drop n all))"
    using configure_history [OF d(3)] apply_pending_history [OF keeps d(2) r(1)] by simp
  then show "history db' all = Inr (length all)" unfolding history_iff using recorded_sorted [OF all r(2)] by simp
  show "checkStation db' stationID = Inr ()" by (rule d(4))
  show "mg_config db' \<noteq> Some None" "me_uuid_text env stationID \<noteq> None"
    using d(3,4) by (auto simp: configure_def checkStation_def split: option.split_asm)
qed

section \<open>Properties\<close>

text \<open>
  A successful \<open>Apply\<close> brings the schema to the embedded version: \<open>Check\<close> then succeeds, and
  running \<open>Apply\<close> again succeeds and changes nothing, whatever the history was before. The
  hypothesis is that no script touches the history table.
\<close>

theorem Apply_establishes_Check:
  assumes "keeps_history env"
    and "Apply env True stationID db = (Inr (), db')"
  shows "Check env True stationID db' = Inr () \<and> Apply env True stationID db' = (Inr (), db')"
proof
  obtain all where all: "load_migrations env = Inr all" "Apply_body env all stationID db = Inr db'"
    using assms(2) by (auto simp: Apply_def split: sum.split_asm)
  note h = Apply_body_history [OF assms(1) all]
  show "Check env True stationID db' = Inr ()" using all(1) h by (simp add: Check_def)
  have c: "create_history db' = db'" using h(1) by (auto simp: history_def create_history_def split: option.split_asm)
  have "configure env stationID db' = Some db'"
    using h(2-4) by (auto simp: configure_def checkStation_def split: option.split_asm option.split)
  then show "Apply env True stationID db' = (Inr (), db')"
    using all(1) h(1,2) c by (simp add: Apply_def Apply_body_def)
qed

text \<open>
  A database whose recorded history is not the beginning of the embedded migrations, name by
  name and checksum by checksum, is refused with the history mismatch and left untouched.
\<close>

theorem foreign_history_refused:
  assumes "load_migrations env = Inr all" "mg_history db = Some rows"
    and "\<And>n. sort_key fst rows \<noteq> map row_of (take n all)"
  shows "Apply env True stationID db = (Inl HistoryMismatch, db) \<and> Check env True stationID db = Inl HistoryMismatch"
proof -
  have e: "history_loop all n rows' = Inl HistoryMismatch \<or> (\<exists>k. history_loop all n rows' = Inr k)" for n rows'
    by (induction all n rows' rule: history_loop.induct) auto
  have "history db all \<noteq> Inr k" for k unfolding history_iff using assms(2,3) by auto
  then have h: "history db all = Inl HistoryMismatch" using e assms(2) by (auto simp: history_def)
  moreover have "create_history db = db" using assms(2) by (simp add: create_history_def)
  ultimately show ?thesis using assms(1) by (simp add: Apply_def Apply_body_def Check_def)
qed

section \<open>An instance of the effect of the scripts\<close>

definition demo_files :: "(string \<times> string option) list" where
  "demo_files = map (\<lambda>name. (name, Some name))
     [''0001_a'', ''0002_a'', ''0003_a'', ''0004_a'', ''0005_a'', ''0006_a'', ''0007_a'', ''0008_a'', ''0009_a'', ''0010_a'', ''0011_a'',
      ''0012_a'', ''0013_a'', ''0014_a'', ''0015_a'', ''0016_a'', ''0017_a'', ''0018_a'', ''0019_a'', ''0020_a'', ''0021_a'', ''0022_a'']"

definition demo_mig_env :: "unit mig_env" where
  "demo_mig_env = \<lparr>me_files = demo_files, me_sha256 = (\<lambda>_. ''h''),
     me_exec = (\<lambda>sql db. if mg_config db = None then Some (db\<lparr>mg_config := Some None\<rparr>) else Some db), me_uuid_text = Some\<rparr>"

lemma demo_keeps_history: "keeps_history demo_mig_env"
  by (auto simp: keeps_history_def demo_mig_env_def)

end
