(* ===== verification/Egress.thy ===== *)
theory Egress
  imports Complex_Main Ops_Types
begin

text \<open>
  Egress proxies (\<^verbatim>\<open>internal/egress/model.go\<close>, \<^verbatim>\<open>internal/egress/service.go\<close>): the table of proxy
  endpoints of a station, their optimistic revisions, their sealed credentials and the claims
  of the diagnostic probe. AES-GCM, JSON, SHA-256, the time and address parsers, Unicode case
  mapping and the two readers of UUIDs (the Go package and PostgreSQL's column type) are
  parameters, collected in \<open>egress_env\<close>. A flag \<open>down\<close> stands for a database error at a statement.

  A test of a proxy is three statements, \<open>Test_begin\<close>, \<open>Test_claim\<close> and, after the probe,
  \<open>Test_record\<close>; other requests may run between them.
\<close>

section \<open>Data\<close>

record Input =
  ip_Name :: string
  ip_Protocol :: string
  ip_Host :: string
  ip_Port :: int
  ip_Username :: "string option"
  ip_Password :: "string option"
  ip_ClearAuth :: bool
  ip_Status :: string
  ip_Tag :: string
  ip_Note :: string
  ip_ExpiresAt :: string
  ip_Revision :: int

record Credentials =
  cr_Username :: string
  cr_Password :: string

record Sample =
  sa_At :: gotime
  sa_LatencyMS :: int
  sa_IP :: string
  sa_Error :: string

record Observation =
  ob_Source :: string
  ob_URL :: string
  ob_At :: gotime
  ob_Status :: string
  ob_IP :: string
  ob_Country :: string
  ob_CountryCode :: string
  ob_Region :: string
  ob_City :: string
  ob_ASN :: string
  ob_ISP :: string
  ob_Organization :: string
  ob_ASNType :: string
  ob_Company :: string
  ob_CompanyType :: string
  ob_Datacenter :: "bool option"
  ob_Proxy :: "bool option"
  ob_VPN :: "bool option"
  ob_Tor :: "bool option"
  ob_Mobile :: "bool option"
  ob_RiskScore :: "int option"
  ob_Error :: string

text \<open>The success rate, a \<open>float64\<close>, is the rational number it stands for.\<close>

record Result =
  re_Status :: string
  re_Target :: string
  re_StartedAt :: gotime
  re_FinishedAt :: gotime
  re_Samples :: "Sample list"
  re_Successes :: int
  re_Attempts :: int
  re_SuccessRate :: rat
  re_MeanLatencyMS :: int
  re_JitterMS :: int
  re_ExitIP :: string
  re_ExitChanged :: bool
  re_Observations :: "Observation list"
  re_LocationConflict :: bool
  re_BlacklistStatus :: string

record Endpoint =
  ep_ID :: string
  ep_Name :: string
  ep_Protocol :: string
  ep_Host :: string
  ep_Port :: int
  ep_Status :: string
  ep_Tag :: string
  ep_Note :: string
  ep_ExpiresAt :: "gotime option"
  ep_AuthConfigured :: bool
  ep_AssignedApps :: "string list"
  ep_Revision :: int
  ep_Probe :: "Result option"
  ep_Testing :: bool
  ep_UpdatedAt :: gotime
  ep_credentials :: string

datatype egress_error =
  EFault fault | ENotFound | EConflict | EBusy | EDisabled | ECredentials | EJson | ECanceled

text \<open>A row of \<open>station.egress_proxies\<close>.\<close>

record proxy_row =
  px_id :: string
  px_station :: string
  px_org :: string
  px_name :: string
  px_protocol :: string
  px_host :: string
  px_port :: int
  px_credentials :: string
  px_key :: string
  px_status :: string
  px_tag :: string
  px_note :: string
  px_expires :: "gotime option"
  px_assigned :: "string list"
  px_revision :: int
  px_probe :: "string option"
  px_token :: "string option"
  px_until :: "gotime option"
  px_created :: gotime
  px_updated :: gotime

text \<open>The table and the audit trail, with the slots of the channel that are taken.\<close>

record egress_db =
  eg_proxies :: "proxy_row list"
  eg_audit :: "audit_row list"
  eg_slots :: nat

record aead =
  ae_NonceSize :: nat
  ae_Seal :: "string \<Rightarrow> string \<Rightarrow> string \<Rightarrow> string"
  ae_Open :: "string \<Rightarrow> string \<Rightarrow> string \<Rightarrow> string option"

record egress_env =
  ev_StationID :: string
  ev_cipher :: aead
  ev_uuid :: uuid_parser
  ev_pg_uuid :: "string \<Rightarrow> string option"
  ev_lower :: "string \<Rightarrow> string"
  ev_isIP :: "string \<Rightarrow> bool"
  ev_parseTime :: "string \<Rightarrow> gotime option"
  ev_credentialsJSON :: "Credentials \<Rightarrow> string option"
  ev_parseCredentials :: "string \<Rightarrow> Credentials option"
  ev_keyJSON :: "string \<times> string \<times> int \<times> string \<Rightarrow> string"
  ev_sha256 :: "string \<Rightarrow> string"
  ev_resultJSON :: "Result \<Rightarrow> string option"
  ev_parseResult :: "string \<Rightarrow> Result option"

section \<open>Input\<close>

text \<open>\<open>strings.ToLower\<close>: bytes of ASCII strings by rule, other strings by the Unicode tables.\<close>

definition go_lower :: "egress_env \<Rightarrow> string \<Rightarrow> string" where
  "go_lower env s = (if list_all (in_range 0 127) s then ToLower s else ev_lower env s)"

definition TrimSuffix_dot :: "string \<Rightarrow> string" where
  "TrimSuffix_dot s = (if s \<noteq> [] \<and> last s = CHR ''.'' then butlast s else s)"

text \<open>\<^verbatim>\<open>^[a-z0-9](?:[a-z0-9.-]{0,251}[a-z0-9])?$\<close>.\<close>

definition hostname :: "string \<Rightarrow> bool" where
  "hostname s \<longleftrightarrow> s \<noteq> [] \<and> length s \<le> 253 \<and> is_lower_digit (hd s) \<and> is_lower_digit (last s) \<and>
     list_all (\<lambda>c. is_lower_digit c \<or> c = CHR ''.'' \<or> c = CHR ''-'') s"

definition breaks_line :: "char \<Rightarrow> bool" where
  "breaks_line c \<longleftrightarrow> c = CHR 0x00 \<or> c = CHR 0x0D \<or> c = CHR 0x0A"

text \<open>The normalised input, or the only error of \<open>normalize\<close>; with it the expiry.\<close>

definition normalize :: "egress_env \<Rightarrow> Input \<Rightarrow> (Input \<times> gotime option) option" where
  "normalize env i =
     (let inp = i\<lparr>ip_Name := TrimSpace (ip_Name i), ip_Protocol := go_lower env (ip_Protocol i),
                 ip_Host := TrimSuffix_dot (go_lower env (TrimSpace (ip_Host i)))\<rparr>
      in if rune_count (ip_Name inp) < 1 \<or> rune_count (ip_Name inp) > 120 \<or> length (ip_Note inp) > 4000 \<or>
            length (ip_Tag inp) > 256 \<or> ip_Port inp < 1 \<or> ip_Port inp > 65535 \<or>
            ip_Protocol inp \<notin> {''http'', ''https'', ''socks5'', ''socks5h''} then None
         else if \<not> ev_isIP env (ip_Host inp) \<and> (\<not> hostname (ip_Host inp) \<or> has_dot_dot (ip_Host inp)) then None
         else if list_ex breaks_line (ip_Name inp @ ip_Tag inp) \<or> CHR 0x00 \<in> set (ip_Note inp) then None
         else if ip_Status inp \<noteq> [] \<and> ip_Status inp \<noteq> ''pending'' \<and> ip_Status inp \<noteq> ''off'' then None
         else if ip_ClearAuth inp \<and> (ip_Username inp \<noteq> None \<or> ip_Password inp \<noteq> None) then None
         else if ip_ExpiresAt inp = [] then Some (inp, None)
         else case ev_parseTime env (ip_ExpiresAt inp) of
                None \<Rightarrow> None
              | Some t \<Rightarrow> Some (inp, Some t))"

definition validCredentials :: "Credentials \<Rightarrow> bool" where
  "validCredentials c \<longleftrightarrow> length (cr_Username c) \<le> 255 \<and> length (cr_Password c) \<le> 255 \<and>
     \<not> list_ex breaks_line (cr_Username c @ cr_Password c) \<and> (cr_Username c \<noteq> [] \<or> cr_Password c = [])"

definition authorize :: "egress_env \<Rightarrow> IdentityContext \<Rightarrow> bool" where
  "authorize env u \<longleftrightarrow> ic_StationID u = ev_StationID env \<and> ''admin'' \<in> set (ic_Roles u) \<and>
     ''app:manage'' \<in> set (ic_Scopes u) \<and> ev_uuid env (ic_OrganizationID u) \<noteq> None"

section \<open>Credentials at rest\<close>

definition seal :: "egress_env \<Rightarrow> string \<Rightarrow> Credentials \<Rightarrow> string \<Rightarrow> string option" where
  "seal env nonce c aad = (case ev_credentialsJSON env c of
     None \<Rightarrow> None
   | Some data \<Rightarrow> Some (nonce @ ae_Seal (ev_cipher env) nonce data aad))"

definition unseal :: "egress_env \<Rightarrow> string \<Rightarrow> string \<Rightarrow> Credentials option" where
  "unseal env b aad =
     (let n = ae_NonceSize (ev_cipher env)
      in if length b < n then None
         else case ae_Open (ev_cipher env) (take n b) (drop n b) aad of
                None \<Rightarrow> None
              | Some data \<Rightarrow> ev_parseCredentials env data)"

definition endpointKey :: "egress_env \<Rightarrow> Input \<Rightarrow> Credentials \<Rightarrow> string" where
  "endpointKey env i c =
     hex_EncodeToString (ev_sha256 env (ev_keyJSON env (ip_Protocol i, ip_Host i, ip_Port i, cr_Username c)))"

definition aad :: "egress_env \<Rightarrow> string \<Rightarrow> string \<Rightarrow> string" where
  "aad env org pid = ev_StationID env @ '':'' @ org @ '':'' @ pid"

section \<open>Reading\<close>

definition scan :: "egress_env \<Rightarrow> gotime \<Rightarrow> string \<Rightarrow> proxy_row option \<Rightarrow> egress_error + Endpoint" where
  "scan env now org row = (case row of
     None \<Rightarrow> Inl ENotFound
   | Some r \<Rightarrow>
       (case unseal env (px_credentials r) (aad env org (px_id r)) of
          None \<Rightarrow> Inl ECredentials
        | Some c \<Rightarrow>
            (let p = \<lparr>ep_ID = px_id r, ep_Name = px_name r, ep_Protocol = px_protocol r, ep_Host = px_host r, ep_Port = px_port r,
                      ep_Status = px_status r, ep_Tag = px_tag r, ep_Note = px_note r, ep_ExpiresAt = px_expires r,
                      ep_AuthConfigured = (cr_Username c \<noteq> []), ep_AssignedApps = px_assigned r, ep_Revision = px_revision r,
                      ep_Probe = None, ep_Testing = (case px_until r of None \<Rightarrow> False | Some t \<Rightarrow> t > now),
                      ep_UpdatedAt = px_updated r, ep_credentials = px_credentials r\<rparr>
             in case px_probe r of
                  None \<Rightarrow> Inr p
                | Some raw \<Rightarrow>
                    (case ev_parseResult env raw of
                       None \<Rightarrow> Inl EJson
                     | Some result \<Rightarrow> Inr (p\<lparr>ep_Probe := Some result\<rparr>)))))"

text \<open>The columns are of type \<open>uuid\<close>: a parameter that is none is an error of the database.\<close>

definition owned :: "egress_env \<Rightarrow> IdentityContext \<Rightarrow> proxy_row \<Rightarrow> bool" where
  "owned env u r \<longleftrightarrow> ev_pg_uuid env (ev_StationID env) = Some (px_station r) \<and> ev_pg_uuid env (ic_OrganizationID u) = Some (px_org r)"

definition selected :: "egress_env \<Rightarrow> IdentityContext \<Rightarrow> string \<Rightarrow> proxy_row \<Rightarrow> bool" where
  "selected env u pid r \<longleftrightarrow> ev_pg_uuid env pid = Some (px_id r) \<and> owned env u r"

definition uuid_params :: "egress_env \<Rightarrow> IdentityContext \<Rightarrow> bool" where
  "uuid_params env u \<longleftrightarrow> ev_pg_uuid env (ev_StationID env) \<noteq> None \<and> ev_pg_uuid env (ic_OrganizationID u) \<noteq> None"

fun scan_rows :: "egress_env \<Rightarrow> gotime \<Rightarrow> string \<Rightarrow> proxy_row list \<Rightarrow> egress_error + Endpoint list" where
  "scan_rows env now org [] = Inr []"
| "scan_rows env now org (r # rs) =
     (case scan env now org (Some r) of
        Inl e \<Rightarrow> Inl e
      | Inr p \<Rightarrow> (case scan_rows env now org rs of Inl e \<Rightarrow> Inl e | Inr out \<Rightarrow> Inr (p # out)))"

definition egress_List :: "egress_env \<Rightarrow> bool \<Rightarrow> gotime \<Rightarrow> IdentityContext \<Rightarrow> egress_db \<Rightarrow> egress_error + Endpoint list" where
  "egress_List env down now u db =
     (if \<not> authorize env u then Inl (EFault Denied)
      else if down \<or> \<not> uuid_params env u then Inl (EFault Database)
      else scan_rows env now (ic_OrganizationID u)
             (sort_key (\<lambda>r. - px_created r) (filter (owned env u) (eg_proxies db))))"

text \<open>The row a statement with the three parameters selects.\<close>

definition select_proxy :: "egress_env \<Rightarrow> bool \<Rightarrow> gotime \<Rightarrow> IdentityContext \<Rightarrow> string \<Rightarrow> egress_db \<Rightarrow> egress_error + Endpoint" where
  "select_proxy env down now u pid db =
     (if down \<or> \<not> uuid_params env u \<or> ev_pg_uuid env pid = None then Inl (EFault Database)
      else scan env now (ic_OrganizationID u) (find (selected env u pid) (eg_proxies db)))"

definition Get :: "egress_env \<Rightarrow> bool \<Rightarrow> gotime \<Rightarrow> IdentityContext \<Rightarrow> string \<Rightarrow> egress_db \<Rightarrow> egress_error + Endpoint" where
  "Get env down now u pid db =
     (if \<not> authorize env u then Inl (EFault Denied)
      else if ev_uuid env pid = None then Inl ENotFound
      else select_proxy env down now u pid db)"

section \<open>Writing\<close>

definition egress_audit :: "IdentityContext \<Rightarrow> string \<Rightarrow> egress_db \<Rightarrow> egress_db" where
  "egress_audit u action db =
     db\<lparr>eg_audit := eg_audit db @ [\<lparr>au_request = ic_RequestID u, au_user = Some (ic_UserID u), au_org = Some (ic_OrganizationID u),
          au_session = Some (ic_SessionID u), au_action = ''egress.'' @ action, au_outcome = ''succeeded''\<rparr>]\<rparr>"

text \<open>What the first half of \<open>Save\<close> finds out: id, credentials, status, old revision and action.\<close>

record save_plan =
  sp_id :: string
  sp_credentials :: Credentials
  sp_status :: string
  sp_oldRevision :: int
  sp_action :: string

definition Save_plan :: "egress_env \<Rightarrow> bool \<Rightarrow> gotime \<Rightarrow> IdentityContext \<Rightarrow> string \<Rightarrow> string \<Rightarrow> Input \<Rightarrow> egress_db \<Rightarrow> egress_error + save_plan" where
  "Save_plan env down now u pid newID i db =
     (if pid \<noteq> [] then
        (if ev_uuid env pid = None then Inl ENotFound
         else case select_proxy env down now u pid db of
                Inl e \<Rightarrow> Inl e
              | Inr old \<Rightarrow>
                  if ip_Revision i \<noteq> ep_Revision old then Inl EConflict
                  else case unseal env (ep_credentials old) (aad env (ic_OrganizationID u) pid) of
                         None \<Rightarrow> Inl ECredentials
                       | Some c \<Rightarrow> Inr \<lparr>sp_id = pid, sp_credentials = c,
                           sp_status = (if ep_Status old = ''off'' then ''off'' else ''pending''),
                           sp_oldRevision = ep_Revision old, sp_action = ''update''\<rparr>)
      else if ip_Revision i \<noteq> 0 then Inl (EFault Invalid)
      else Inr \<lparr>sp_id = newID, sp_credentials = \<lparr>cr_Username = [], cr_Password = []\<rparr>, sp_status = ''pending'',
             sp_oldRevision = 0, sp_action = ''create''\<rparr>)"

definition new_credentials :: "Input \<Rightarrow> Credentials \<Rightarrow> Credentials" where
  "new_credentials i c =
     (let c1 = (if ip_ClearAuth i then \<lparr>cr_Username = [], cr_Password = []\<rparr> else c);
          c2 = (case ip_Username i of None \<Rightarrow> c1 | Some n \<Rightarrow> c1\<lparr>cr_Username := n\<rparr>)
      in case ip_Password i of None \<Rightarrow> c2 | Some p \<Rightarrow> c2\<lparr>cr_Password := p\<rparr>)"

text \<open>The configured columns of a row, as both statements write them.\<close>

definition configured :: "egress_env \<Rightarrow> Input \<Rightarrow> gotime option \<Rightarrow> Credentials \<Rightarrow> string \<Rightarrow> string \<Rightarrow> proxy_row \<Rightarrow> proxy_row" where
  "configured env i expiry c encrypted status r =
     r\<lparr>px_name := ip_Name i, px_protocol := ip_Protocol i, px_host := ip_Host i, px_port := ip_Port i,
       px_credentials := encrypted, px_key := endpointKey env i c, px_status := status, px_tag := ip_Tag i, px_note := ip_Note i,
       px_expires := map_option pg_time expiry\<rparr>"

definition blank_row :: "string \<Rightarrow> string \<Rightarrow> string \<Rightarrow> gotime \<Rightarrow> proxy_row" where
  "blank_row i station org now =
     \<lparr>px_id = i, px_station = station, px_org = org, px_name = [], px_protocol = [], px_host = [], px_port = 0, px_credentials = [],
      px_key = [], px_status = ''pending'', px_tag = [], px_note = [], px_expires = None, px_assigned = [], px_revision = 1,
      px_probe = None, px_token = None, px_until = None, px_created = pg_time now, px_updated = pg_time now\<rparr>"

definition same_endpoint :: "proxy_row \<Rightarrow> proxy_row \<Rightarrow> bool" where
  "same_endpoint r q \<longleftrightarrow> px_station r = px_station q \<and> px_org r = px_org q \<and> px_key r = px_key q"

text \<open>
  \<open>INSERT\<close> and \<open>UPDATE\<close> under the primary key and the unique endpoint of an organization; a
  violation is PostgreSQL's 23505, which \<open>translate\<close> makes a conflict.
\<close>

definition insert_proxy :: "proxy_row \<Rightarrow> egress_db \<Rightarrow> egress_error + egress_db" where
  "insert_proxy r db =
     (if list_ex (\<lambda>q. px_id q = px_id r \<or> same_endpoint q r) (eg_proxies db) then Inl EConflict
      else Inr (db\<lparr>eg_proxies := eg_proxies db @ [r]\<rparr>))"

definition update_proxy :: "(proxy_row \<Rightarrow> bool) \<Rightarrow> gotime \<Rightarrow> (proxy_row \<Rightarrow> proxy_row) \<Rightarrow> egress_db \<Rightarrow> egress_error + egress_db" where
  "update_proxy sel now f db = (case find sel (eg_proxies db) of
     None \<Rightarrow> Inr db
   | Some r \<Rightarrow>
       (case bump (px_revision r) of
          None \<Rightarrow> Inl (EFault Database)
        | Some n \<Rightarrow>
            (let r' = (f r)\<lparr>px_revision := n, px_probe := None, px_token := None, px_until := None, px_updated := pg_time now\<rparr>
             in if list_ex (\<lambda>q. px_id q \<noteq> px_id r \<and> same_endpoint q r') (eg_proxies db) then Inl EConflict
                else Inr (db\<lparr>eg_proxies := update_rows (\<lambda>q. px_id q = px_id r) (\<lambda>_. r') (eg_proxies db)\<rparr>))))"

definition Save_write ::
  "egress_env \<Rightarrow> gotime \<Rightarrow> IdentityContext \<Rightarrow> Input \<Rightarrow> gotime option \<Rightarrow> save_plan \<Rightarrow> Credentials \<Rightarrow> string \<Rightarrow> string \<Rightarrow> egress_db
     \<Rightarrow> egress_error + egress_db" where
  "Save_write env now u i expiry sp c encrypted status db =
     (if sp_oldRevision sp = 0 then
        (case (ev_pg_uuid env (sp_id sp), ev_pg_uuid env (ev_StationID env), ev_pg_uuid env (ic_OrganizationID u)) of
           (Some n, Some station, Some org) \<Rightarrow>
             insert_proxy (configured env i expiry c encrypted status (blank_row n station org now)) db
         | _ \<Rightarrow> Inl (EFault Database))
      else update_proxy (selected env u (sp_id sp)) now (configured env i expiry c encrypted status) db)"

definition Save_body ::
  "egress_env \<Rightarrow> bool \<Rightarrow> gotime \<Rightarrow> IdentityContext \<Rightarrow> string \<Rightarrow> string \<Rightarrow> string \<Rightarrow> Input \<Rightarrow> gotime option \<Rightarrow> egress_db
     \<Rightarrow> egress_error + (string \<times> egress_db)" where
  "Save_body env down now u pid newID nonce i expiry db =
     (case Save_plan env down now u pid newID i db of
        Inl e \<Rightarrow> Inl e
      | Inr sp \<Rightarrow>
          (let c = new_credentials i (sp_credentials sp);
               status = (if ip_Status i \<noteq> [] then ip_Status i else sp_status sp)
           in if \<not> validCredentials c then Inl (EFault Invalid)
              else case seal env nonce c (aad env (ic_OrganizationID u) (sp_id sp)) of
                     None \<Rightarrow> Inl EJson
                   | Some encrypted \<Rightarrow>
                       if down then Inl (EFault Database)
                       else (case Save_write env now u i expiry sp c encrypted status db of
                               Inl e \<Rightarrow> Inl e
                             | Inr db' \<Rightarrow> Inr (sp_id sp, egress_audit u (sp_action sp) db'))))"

definition Save ::
  "egress_env \<Rightarrow> bool \<Rightarrow> gotime \<Rightarrow> IdentityContext \<Rightarrow> string \<Rightarrow> string \<Rightarrow> string \<Rightarrow> Input \<Rightarrow> egress_db
     \<Rightarrow> (egress_error + Endpoint) \<times> egress_db" where
  "Save env down now u pid newID nonce inp db =
     (if \<not> authorize env u then (Inl (EFault Denied), db)
      else case normalize env inp of
             None \<Rightarrow> (Inl (EFault Invalid), db)
           | Some (i, expiry) \<Rightarrow>
               (case Save_body env down now u pid newID nonce i expiry db of
                  Inl e \<Rightarrow> (Inl e, db)
                | Inr (saved, db') \<Rightarrow> (Get env False now u saved db', db')))"

definition Delete :: "egress_env \<Rightarrow> bool \<Rightarrow> gotime \<Rightarrow> IdentityContext \<Rightarrow> string \<Rightarrow> egress_db \<Rightarrow> (egress_error + unit) \<times> egress_db" where
  "Delete env down now u pid db =
     (if \<not> authorize env u then (Inl (EFault Denied), db)
      else if ev_uuid env pid = None then (Inl ENotFound, db)
      else case select_proxy env down now u pid db of
             Inl e \<Rightarrow> (Inl e, db)
           | Inr p \<Rightarrow>
               if ep_AssignedApps p \<noteq> [] \<or> ep_Testing p then (Inl EConflict, db)
               else (Inr (), egress_audit u ''delete''
                       (db\<lparr>eg_proxies := filter (\<lambda>r. px_id r \<noteq> ep_ID p) (eg_proxies db)\<rparr>)))"

section \<open>Testing\<close>

definition probe_lease :: duration where
  "probe_lease = 65 * Second"

definition claimable :: "egress_env \<Rightarrow> gotime \<Rightarrow> IdentityContext \<Rightarrow> string \<Rightarrow> Endpoint \<Rightarrow> proxy_row \<Rightarrow> bool" where
  "claimable env now u pid p r \<longleftrightarrow> selected env u pid r \<and> px_revision r = ep_Revision p \<and> px_status r \<noteq> ''off'' \<and>
     (case px_until r of None \<Rightarrow> True | Some t \<Rightarrow> t < now)"

text \<open>The deferred cleanup and the release of the slot.\<close>

definition Test_cleanup :: "bool \<Rightarrow> string \<Rightarrow> string \<Rightarrow> egress_env \<Rightarrow> egress_db \<Rightarrow> egress_db" where
  "Test_cleanup down pid token env db =
     db\<lparr>eg_proxies := (if down then eg_proxies db
          else update_rows (\<lambda>r. ev_pg_uuid env pid = Some (px_id r) \<and> px_token r = Some token)
                 (\<lambda>r. r\<lparr>px_token := None, px_until := None\<rparr>) (eg_proxies db)),
        eg_slots := eg_slots db - 1\<rparr>"

text \<open>
  \<open>Test\<close> up to its claim: the endpoint as it is read, and a slot of the channel. \<open>db_now\<close> is the
  time of the statement, \<open>now\<close> the time the handler reads.
\<close>

definition Test_begin ::
  "egress_env \<Rightarrow> bool \<Rightarrow> gotime \<Rightarrow> gotime \<Rightarrow> IdentityContext \<Rightarrow> string \<Rightarrow> egress_db \<Rightarrow> (egress_error + Endpoint) \<times> egress_db" where
  "Test_begin env down now db_now u pid db =
     (case Get env down db_now u pid db of
        Inl e \<Rightarrow> (Inl e, db)
      | Inr p \<Rightarrow>
          if ep_Status p = ''off'' \<or> (case ep_ExpiresAt p of None \<Rightarrow> False | Some t \<Rightarrow> \<not> t > now) then (Inl EDisabled, db)
          else if eg_slots db \<ge> 4 then (Inl EBusy, db)
          else (Inr p, db\<lparr>eg_slots := eg_slots db + 1\<rparr>))"

text \<open>The claim of the probe: the credentials it runs with, or the error with which \<open>Test\<close> ends.\<close>

definition Test_claim ::
  "egress_env \<Rightarrow> bool \<Rightarrow> gotime \<Rightarrow> IdentityContext \<Rightarrow> string \<Rightarrow> string \<Rightarrow> Endpoint \<Rightarrow> egress_db \<Rightarrow> (egress_error + Credentials) \<times> egress_db" where
  "Test_claim env down now u pid token p db =
     (if down then (Inl (EFault Database), db\<lparr>eg_slots := eg_slots db - 1\<rparr>)
      else if \<not> list_ex (claimable env now u pid p) (eg_proxies db) then (Inl EBusy, db\<lparr>eg_slots := eg_slots db - 1\<rparr>)
      else (let db1 = db\<lparr>eg_proxies := update_rows (claimable env now u pid p)
                       (\<lambda>r. r\<lparr>px_token := Some token, px_until := Some (pg_time now + probe_lease)\<rparr>) (eg_proxies db)\<rparr>
            in case unseal env (ep_credentials p) (aad env (ic_OrganizationID u) pid) of
                 None \<Rightarrow> (Inl ECredentials, Test_cleanup False pid token env db1)
               | Some c \<Rightarrow> (Inr c, db1)))"

definition recordable :: "egress_env \<Rightarrow> IdentityContext \<Rightarrow> string \<Rightarrow> string \<Rightarrow> Endpoint \<Rightarrow> proxy_row \<Rightarrow> bool" where
  "recordable env u pid token p r \<longleftrightarrow> selected env u pid r \<and> px_token r = Some token \<and> px_revision r = ep_Revision p \<and> px_status r \<noteq> ''off''"

text \<open>The end of \<open>Test\<close>, with the result of the probe.\<close>

definition Test_record ::
  "egress_env \<Rightarrow> bool \<Rightarrow> bool \<Rightarrow> gotime \<Rightarrow> IdentityContext \<Rightarrow> string \<Rightarrow> string \<Rightarrow> Endpoint \<Rightarrow> Result \<Rightarrow> egress_db
     \<Rightarrow> (egress_error + Endpoint) \<times> egress_db" where
  "Test_record env canceled down now u pid token p result db =
     (if canceled then (Inl ECanceled, Test_cleanup down pid token env db)
      else case ev_resultJSON env result of
             None \<Rightarrow> (Inl EJson, Test_cleanup down pid token env db)
           | Some raw \<Rightarrow>
               if down then (Inl (EFault Database), Test_cleanup down pid token env db)
               else if \<not> list_ex (recordable env u pid token p) (eg_proxies db) then (Inl EConflict, Test_cleanup down pid token env db)
               else (let status = (if re_Status result = ''passed'' then ''active'' else ''pending'');
                         db1 = db\<lparr>eg_proxies := update_rows (recordable env u pid token p)
                                 (\<lambda>r. r\<lparr>px_probe := Some raw, px_status := status, px_token := None, px_until := None, px_updated := pg_time now\<rparr>)
                                 (eg_proxies db)\<rparr>
                     in (Get env False now u pid db1, Test_cleanup down pid token env db1)))"

section \<open>Requests\<close>

datatype egress_event =
  Save_ev bool gotime IdentityContext string string string Input
| Delete_ev bool gotime IdentityContext string
| Begin_ev bool gotime gotime IdentityContext string
| Claim_ev bool gotime IdentityContext string string Endpoint
| Record_ev bool bool gotime IdentityContext string string Endpoint Result

fun egress_step :: "egress_env \<Rightarrow> egress_event \<Rightarrow> egress_db \<Rightarrow> egress_db" where
  "egress_step env (Save_ev down now u pid newID nonce inp) db = snd (Save env down now u pid newID nonce inp db)"
| "egress_step env (Delete_ev down now u pid) db = snd (Delete env down now u pid db)"
| "egress_step env (Begin_ev down now db_now u pid) db = snd (Test_begin env down now db_now u pid db)"
| "egress_step env (Claim_ev down now u pid token p) db = snd (Test_claim env down now u pid token p db)"
| "egress_step env (Record_ev canceled down now u pid token p result) db = snd (Test_record env canceled down now u pid token p result db)"

end
