(* ===== verification/Egress_Properties.thy ===== *)
theory Egress_Properties
  imports Egress
begin

text \<open>
  Correctness of the egress proxies: every request changes the table in one of four ways, the
  relation \<open>change\<close>; from it follow the invariant of the reachable tables, the monotonicity of
  revisions, and with it that no stale update and no stale probe result is ever recorded.
\<close>

section \<open>How requests change the table\<close>

definition protocols :: "string set" where
  "protocols = {''http'', ''https'', ''socks5'', ''socks5h''}"

definition saved_statuses :: "string set" where
  "saved_statuses = {''pending'', ''off''}"

definition probed_statuses :: "string set" where
  "probed_statuses = {''pending'', ''active''}"

definition wf_row :: "proxy_row \<Rightarrow> bool" where
  "wf_row r \<longleftrightarrow> 1 \<le> px_port r \<and> px_port r \<le> 65535 \<and> px_protocol r \<in> protocols \<and>
     px_status r \<in> saved_statuses \<union> probed_statuses \<and> 1 \<le> px_revision r \<and> px_revision r \<le> MaxInt64 \<and>
     (px_token r = None \<longleftrightarrow> px_until r = None)"

text \<open>The part of a row a probe depends on, and the rows that agree on all but the probe's columns.\<close>

definition configuration :: "proxy_row \<Rightarrow> string \<times> string \<times> string \<times> int \<times> string \<times> gotime option" where
  "configuration r = (px_name r, px_protocol r, px_host r, px_port r, px_credentials r, px_expires r)"

definition touches :: "proxy_row \<Rightarrow> proxy_row \<Rightarrow> bool" where
  "touches r r' \<longleftrightarrow> px_id r' = px_id r \<and> same_endpoint r r' \<and> px_revision r' = px_revision r \<and> configuration r' = configuration r \<and>
     (px_status r' = px_status r \<or> px_status r \<noteq> ''off'' \<and> px_status r' \<in> probed_statuses) \<and>
     (px_token r' = None \<longleftrightarrow> px_until r' = None)"

inductive change :: "(string \<Rightarrow> bool) \<Rightarrow> proxy_row list \<Rightarrow> proxy_row list \<Rightarrow> bool" for new where
  create: "wf_row r \<Longrightarrow> new (px_id r) \<Longrightarrow> \<forall>q \<in> set rows. px_id q \<noteq> px_id r \<and> \<not> same_endpoint q r \<Longrightarrow> change new rows (rows @ [r])"
| configure: "r \<in> set rows \<Longrightarrow> wf_row r' \<Longrightarrow> px_id r' = px_id r \<Longrightarrow> px_revision r' = px_revision r + 1 \<Longrightarrow>
    \<forall>q \<in> set rows. px_id q \<noteq> px_id r \<longrightarrow> \<not> same_endpoint q r' \<Longrightarrow>
    change new rows (update_rows (\<lambda>q. px_id q = px_id r) (\<lambda>_. r') rows)"
| remove: "change new rows (filter P rows)"
| touch: "(\<And>r. r \<in> set rows \<Longrightarrow> P r \<Longrightarrow> wf_row r \<Longrightarrow> touches r (f r)) \<Longrightarrow> change new rows (update_rows P f rows)"

abbreviation changes :: "(string \<Rightarrow> bool) \<Rightarrow> proxy_row list \<Rightarrow> proxy_row list \<Rightarrow> bool" where
  "changes new \<equiv> (change new)\<^sup>*\<^sup>*"

lemma change_refl: "change new rows rows"
  using change.remove [of new rows "\<lambda>_. True"] by simp

lemma touches_status: "touches r r' \<Longrightarrow> wf_row r \<Longrightarrow> wf_row r'"
  by (auto simp: touches_def wf_row_def configuration_def)

text \<open>The ids a request may create.\<close>

definition creates :: "egress_env \<Rightarrow> egress_event \<Rightarrow> string \<Rightarrow> bool" where
  "creates env e i = (case e of Save_ev _ _ _ pid newID _ _ \<Rightarrow> pid = [] \<and> ev_pg_uuid env newID = Some i | _ \<Rightarrow> False)"

lemma normalize_wf:
  assumes "normalize env inp = Some (i, expiry)"
  shows "1 \<le> ip_Port i" "ip_Port i \<le> 65535" "ip_Protocol i \<in> protocols" "ip_Status i \<noteq> [] \<longrightarrow> ip_Status i \<in> saved_statuses"
proof -
  define j where "j = inp\<lparr>ip_Name := TrimSpace (ip_Name inp), ip_Protocol := go_lower env (ip_Protocol inp),
                 ip_Host := TrimSuffix_dot (go_lower env (TrimSpace (ip_Host inp)))\<rparr>"
  note n = assms [unfolded normalize_def, folded j_def, unfolded Let_def]
  have "\<not> (rune_count (ip_Name j) < 1 \<or> rune_count (ip_Name j) > 120 \<or> length (ip_Note j) > 4000 \<or>
            length (ip_Tag j) > 256 \<or> ip_Port j < 1 \<or> ip_Port j > 65535 \<or>
            ip_Protocol j \<notin> {''http'', ''https'', ''socks5'', ''socks5h''})"
    "\<not> (ip_Status j \<noteq> [] \<and> ip_Status j \<noteq> ''pending'' \<and> ip_Status j \<noteq> ''off'')" "i = j"
    using n by (simp_all only: split: if_split_asm option.split_asm) (simp_all only: option.simps prod.inject simp_thms)
  then show "1 \<le> ip_Port i" "ip_Port i \<le> 65535" "ip_Protocol i \<in> protocols"
    "ip_Status i \<noteq> [] \<longrightarrow> ip_Status i \<in> saved_statuses"
    by (simp_all only: protocols_def saved_statuses_def imp_conv_disj de_Morgan_disj de_Morgan_conj not_not not_less insert_iff empty_iff simp_thms)
qed

lemma cleanup_changes: "changes new (eg_proxies db) (eg_proxies (Test_cleanup down pid token env db))"
proof (cases down)
  case False
  have "change new (eg_proxies db) (eg_proxies (Test_cleanup down pid token env db))"
    unfolding Test_cleanup_def using False by (auto simp: touches_def same_endpoint_def configuration_def intro!: change.touch)
  then show ?thesis by blast
qed (simp add: Test_cleanup_def)

lemma update_proxy_change:
  assumes "update_proxy sel now (configured env i expiry c enc status) db = Inr db'" "status \<in> saved_statuses"
    "normalize env inp = Some (i, expiry)" "\<forall>r \<in> set (eg_proxies db). wf_row r"
  shows "change new (eg_proxies db) (eg_proxies db')"
proof (cases "find sel (eg_proxies db)")
  case (Some r)
  let ?r = "\<lambda>n. (configured env i expiry c enc status r)\<lparr>px_revision := n, px_probe := None, px_token := None, px_until := None, px_updated := pg_time now\<rparr>"
  have r: "r \<in> set (eg_proxies db)" using find_Some_iff_set [OF Some] by blast
  obtain n where n: "bump (px_revision r) = Some n" "\<not> list_ex (\<lambda>q. px_id q \<noteq> px_id r \<and> same_endpoint q (?r n)) (eg_proxies db)"
    "eg_proxies db' = update_rows (\<lambda>q. px_id q = px_id r) (\<lambda>_. ?r n) (eg_proxies db)"
    using assms(1) Some by (auto simp: update_proxy_def Let_def split: option.split_asm if_split_asm)
  have v: "n = px_revision r + 1" "n \<le> MaxInt64" using n(1) by (auto simp: bump_def split: if_split_asm)
  have "wf_row (?r n)"
    using normalize_wf [OF assms(3)] assms(2,4) r v by (auto simp: wf_row_def configured_def)
  with n(2,3) r v show ?thesis by (auto simp: list_ex_iff configured_def intro!: change.configure)
qed (use assms(1) in \<open>simp add: update_proxy_def change_refl\<close>)

text \<open>What an endpoint says of the row it was read from.\<close>

definition read_from :: "Endpoint \<Rightarrow> proxy_row \<Rightarrow> bool" where
  "read_from p r \<longleftrightarrow> ep_ID p = px_id r \<and> ep_Revision p = px_revision r \<and> ep_Status p = px_status r \<and> ep_AssignedApps p = px_assigned r \<and>
     configuration r = (ep_Name p, ep_Protocol p, ep_Host p, ep_Port p, ep_credentials p, ep_ExpiresAt p)"

lemma scan_read_from: "scan env now org row = Inr p \<Longrightarrow> \<exists>r. row = Some r \<and> read_from p r"
  by (auto simp: scan_def read_from_def configuration_def Let_def split: option.split_asm)

lemma select_proxy_row:
  assumes "select_proxy env down now u pid db = Inr p"
  obtains r where "find (selected env u pid) (eg_proxies db) = Some r" "r \<in> set (eg_proxies db)" "read_from p r" "\<not> down" "selected env u pid r"
proof -
  have "\<not> down" "scan env now (ic_OrganizationID u) (find (selected env u pid) (eg_proxies db)) = Inr p"
    using assms by (auto simp: select_proxy_def split: if_split_asm)
  then show ?thesis using that scan_read_from find_Some_iff_set by metis
qed

lemma Save_plan_cases:
  assumes "Save_plan env down now u pid newID i db = Inr sp" "\<forall>r \<in> set (eg_proxies db). wf_row r"
  shows "sp_status sp \<in> saved_statuses" "sp_oldRevision sp = 0 \<longleftrightarrow> pid = []" "sp_id sp = (if pid = [] then newID else pid)"
proof -
  have "sp_status sp \<in> saved_statuses \<and> (sp_oldRevision sp = 0 \<longleftrightarrow> pid = []) \<and> sp_id sp = (if pid = [] then newID else pid)"
  proof (cases "pid = []")
    case False
    then obtain old where o: "select_proxy env down now u pid db = Inr old"
      "sp_status sp \<in> saved_statuses" "sp_oldRevision sp = ep_Revision old" "sp_id sp = pid"
      using assms(1) unfolding Save_plan_def by (auto simp: saved_statuses_def split: if_split_asm sum.split_asm option.split_asm)
    obtain r where "r \<in> set (eg_proxies db)" "read_from old r" using select_proxy_row [OF o(1)] by blast
    then have "ep_Revision old \<noteq> 0" using assms(2) by (auto simp: read_from_def wf_row_def)
    then show ?thesis using False o(2-4) by simp
  qed (use assms(1) in \<open>auto simp: Save_plan_def saved_statuses_def split: if_split_asm\<close>)
  then show "sp_status sp \<in> saved_statuses" "sp_oldRevision sp = 0 \<longleftrightarrow> pid = []" "sp_id sp = (if pid = [] then newID else pid)" by blast+
qed

lemma Save_write_change:
  assumes w: "Save_write env now u i expiry sp c enc status db = Inr db'" and plan: "Save_plan env down now u pid newID i db = Inr sp"
    and st: "status \<in> saved_statuses" and n: "normalize env inp = Some (i, expiry)" and wf: "\<forall>r \<in> set (eg_proxies db). wf_row r"
  shows "change (\<lambda>k. pid = [] \<and> ev_pg_uuid env newID = Some k) (eg_proxies db) (eg_proxies db')"
proof (cases "pid = []")
  case True
  then obtain k station org where k: "ev_pg_uuid env newID = Some k"
    "insert_proxy (configured env i expiry c enc status (blank_row k station org now)) db = Inr db'"
    using w Save_plan_cases(2,3) [OF plan wf] by (auto simp: Save_write_def split: option.split_asm)
  have "wf_row (configured env i expiry c enc status (blank_row k station org now))"
    using normalize_wf [OF n] st by (simp add: wf_row_def configured_def blank_row_def MaxInt64_def)
  with k True show ?thesis
    by (auto simp: insert_proxy_def configured_def blank_row_def list_ex_iff split: if_split_asm intro!: change.create)
next
  case False
  then have "update_proxy (selected env u (sp_id sp)) now (configured env i expiry c enc status) db = Inr db'"
    using w Save_plan_cases(2) [OF plan wf] by (simp add: Save_write_def)
  from update_proxy_change [OF this st n wf] show ?thesis .
qed

lemma Save_body_change:
  assumes "Save_body env down now u pid newID nonce i expiry db = Inr (saved, db')" "normalize env inp = Some (i, expiry)"
    "\<forall>r \<in> set (eg_proxies db). wf_row r"
  shows "change (\<lambda>k. pid = [] \<and> ev_pg_uuid env newID = Some k) (eg_proxies db) (eg_proxies db')" "eg_slots db' = eg_slots db"
proof -
  obtain sp enc db1 where s: "Save_plan env down now u pid newID i db = Inr sp" "db' = egress_audit u (sp_action sp) db1"
    "Save_write env now u i expiry sp (new_credentials i (sp_credentials sp)) enc (if ip_Status i \<noteq> [] then ip_Status i else sp_status sp) db = Inr db1"
    using assms(1) by (auto simp: Save_body_def Let_def split: sum.split_asm if_split_asm option.split_asm)
  have st: "(if ip_Status i \<noteq> [] then ip_Status i else sp_status sp) \<in> saved_statuses"
    using normalize_wf(4) [OF assms(2)] Save_plan_cases(1) [OF s(1) assms(3)] by simp
  show "change (\<lambda>k. pid = [] \<and> ev_pg_uuid env newID = Some k) (eg_proxies db) (eg_proxies db')"
    using Save_write_change [OF s(3,1) st assms(2,3)] s(2) by (simp add: egress_audit_def)
  show "eg_slots db' = eg_slots db"
    using s(2,3) by (auto simp: egress_audit_def Save_write_def insert_proxy_def update_proxy_def Let_def split: if_split_asm option.split_asm)
qed

lemma claim_changes: "changes new (eg_proxies db) (eg_proxies (snd (Test_claim env down now u pid token p db)))"
proof -
  let ?db1 = "db\<lparr>eg_proxies := update_rows (claimable env now u pid p)
    (\<lambda>r. r\<lparr>px_token := Some token, px_until := Some (pg_time now + probe_lease)\<rparr>) (eg_proxies db)\<rparr>"
  have t: "change new (eg_proxies db) (eg_proxies ?db1)"
    by (auto simp: touches_def same_endpoint_def configuration_def intro!: change.touch)
  have "snd (Test_claim env down now u pid token p db) =
      (if down \<or> \<not> list_ex (claimable env now u pid p) (eg_proxies db) then db\<lparr>eg_slots := eg_slots db - 1\<rparr>
       else if unseal env (ep_credentials p) (aad env (ic_OrganizationID u) pid) = None then Test_cleanup False pid token env ?db1 else ?db1)"
    by (auto simp: Test_claim_def Let_def split: option.split)
  moreover have "changes new (eg_proxies db) (eg_proxies (Test_cleanup False pid token env ?db1))"
    by (rule rtranclp_trans [OF r_into_rtranclp [of "change new", OF t] cleanup_changes])
  ultimately show ?thesis using t by (simp add: r_into_rtranclp)
qed

lemma record_changes:
  "changes new (eg_proxies db) (eg_proxies (snd (Test_record env canceled down now u pid token p result db)))"
proof -
  let ?f = "\<lambda>raw status r. r\<lparr>px_probe := Some raw, px_status := status, px_token := None, px_until := None, px_updated := pg_time now\<rparr>"
  let ?db1 = "\<lambda>raw status. db\<lparr>eg_proxies := update_rows (recordable env u pid token p) (?f raw status) (eg_proxies db)\<rparr>"
  consider "snd (Test_record env canceled down now u pid token p result db) = Test_cleanup down pid token env db"
    | raw status where "status \<in> probed_statuses"
      "snd (Test_record env canceled down now u pid token p result db) = Test_cleanup down pid token env (?db1 raw status)"
  proof (cases "ev_resultJSON env result")
    case (Some raw)
    let ?status = "if re_Status result = ''passed'' then ''active'' else ''pending''"
    have "snd (Test_record env canceled down now u pid token p result db) =
        (if canceled \<or> down \<or> \<not> list_ex (recordable env u pid token p) (eg_proxies db) then Test_cleanup down pid token env db
         else Test_cleanup down pid token env (?db1 raw ?status))"
      using Some by (simp add: Test_record_def Let_def)
    moreover have "?status \<in> probed_statuses" by (simp add: probed_statuses_def)
    ultimately show ?thesis using that(1) that(2) [of ?status raw] by metis
  qed (use that(1) in \<open>simp add: Test_record_def\<close>)
  then show ?thesis
  proof cases
    case (2 raw status)
    have t: "change new (eg_proxies db) (eg_proxies (?db1 raw status))"
      using 2(1) by (auto simp: touches_def same_endpoint_def configuration_def recordable_def intro!: change.touch)
    show ?thesis unfolding 2(2) by (rule rtranclp_trans [OF r_into_rtranclp [of "change new", OF t] cleanup_changes])
  qed (simp only: cleanup_changes)
qed

lemma step_changes:
  assumes "\<forall>r \<in> set (eg_proxies db). wf_row r"
  shows "changes (creates env e) (eg_proxies db) (eg_proxies (egress_step env e db))"
proof (cases e)
  case (Save_ev down now u pid newID nonce inp)
  show ?thesis
  proof (cases "snd (Save env down now u pid newID nonce inp db) = db")
    case False
    then obtain i expiry saved where n: "normalize env inp = Some (i, expiry)"
      "Save_body env down now u pid newID nonce i expiry db = Inr (saved, snd (Save env down now u pid newID nonce inp db))"
      by (auto simp: Save_def split: if_split_asm option.split_asm sum.split_asm)
    have "creates env e = (\<lambda>k. pid = [] \<and> ev_pg_uuid env newID = Some k)" by (auto simp: Save_ev creates_def)
    then show ?thesis using Save_body_change(1) [OF n(2,1) assms] by (simp add: Save_ev r_into_rtranclp)
  qed (simp add: Save_ev)
next
  case (Delete_ev down now u pid)
  have "change new (eg_proxies db) (eg_proxies (snd (Delete env down now u pid db)))" for new
    by (auto simp: Delete_def egress_audit_def change_refl change.remove split: sum.split)
  then show ?thesis by (auto simp: Delete_ev)
next
  case (Begin_ev down now db_now u pid)
  then show ?thesis by (auto simp: Test_begin_def split: sum.split)
qed (simp_all add: claim_changes record_changes)

section \<open>The invariant\<close>

definition endpoint_of :: "proxy_row \<Rightarrow> string \<times> string \<times> string" where
  "endpoint_of r = (px_station r, px_org r, px_key r)"

lemma same_endpoint_iff: "same_endpoint r q \<longleftrightarrow> endpoint_of r = endpoint_of q"
  by (auto simp: same_endpoint_def endpoint_of_def)

definition egress_table :: "proxy_row list \<Rightarrow> bool" where
  "egress_table rows \<longleftrightarrow> (\<forall>r \<in> set rows. wf_row r) \<and> distinct (map px_id rows) \<and> distinct (map endpoint_of rows)"

definition egress_inv :: "egress_db \<Rightarrow> bool" where
  "egress_inv db \<longleftrightarrow> egress_table (eg_proxies db) \<and> eg_slots db \<le> 4"

lemma distinct_replace:
  assumes "distinct (map k rows)" "distinct (map key rows)" "\<forall>q \<in> set rows. key q \<noteq> key r \<longrightarrow> k q \<noteq> k r'"
  shows "distinct (map k (update_rows (\<lambda>q. key q = key r) (\<lambda>_. r') rows))"
proof -
  have "inj_on (\<lambda>q. k (if key q = key r then r' else q)) (set rows)"
  proof (rule inj_onI)
    fix x y
    assume xy: "x \<in> set rows" "y \<in> set rows" "k (if key x = key r then r' else x) = k (if key y = key r then r' else y)"
    show "x = y"
    proof (rule ccontr)
      assume "x \<noteq> y"
      then have "key x \<noteq> key y" "k x \<noteq> k y" using assms(1,2) xy(1,2) by (auto simp: distinct_map dest: inj_onD)
      then show False using xy assms(3) by (cases "key x = key r"; cases "key y = key r") force+
    qed
  qed
  then show ?thesis using assms(1) by (simp add: update_rows_def distinct_map comp_def)
qed

lemma change_table: "change new rows rows' \<Longrightarrow> egress_table rows \<Longrightarrow> egress_table rows'"
proof (induction rule: change.induct)
  case (create r rows)
  then show ?case by (auto simp: egress_table_def same_endpoint_iff)
next
  case (configure r rows r')
  have "map px_id (update_rows (\<lambda>q. px_id q = px_id r) (\<lambda>_. r') rows) = map px_id rows"
    using configure(3) by (simp add: update_rows_def)
  moreover have "distinct (map endpoint_of (update_rows (\<lambda>q. px_id q = px_id r) (\<lambda>_. r') rows))"
    using configure(5,6) by (intro distinct_replace) (auto simp: egress_table_def same_endpoint_iff)
  ultimately show ?case using configure(2,6) by (auto simp: egress_table_def set_update_rows)
next
  case (remove rows P)
  then show ?case by (simp add: egress_table_def distinct_map_filter)
next
  case (touch rows P f)
  let ?g = "\<lambda>r. if P r then f r else r"
  have t: "touches r (?g r)" if "r \<in> set rows" for r
    using touch that by (auto simp: egress_table_def touches_def same_endpoint_def wf_row_def)
  have "map px_id (update_rows P f rows) = map px_id rows" "map endpoint_of (update_rows P f rows) = map endpoint_of rows"
    using t by (auto simp: update_rows_def touches_def same_endpoint_iff)
  moreover have "\<forall>r \<in> set rows. wf_row (?g r)" using t touch(2) touches_status unfolding egress_table_def by blast
  then have "\<forall>r \<in> set (update_rows P f rows). wf_row r" unfolding set_update_rows by blast
  ultimately show ?case using touch(2) unfolding egress_table_def by simp
qed

lemma changes_table: "changes new rows rows' \<Longrightarrow> egress_table rows \<Longrightarrow> egress_table rows'"
  by (induction rule: rtranclp_induct) (auto intro: change_table)

lemma step_slots: "eg_slots db \<le> 4 \<Longrightarrow> eg_slots (egress_step env e db) \<le> 4"
proof (cases e)
  case (Save_ev down now u pid newID nonce inp)
  have "eg_slots (snd (Save env down now u pid newID nonce inp db)) = eg_slots db"
    by (auto simp: Save_def Save_body_def Save_write_def insert_proxy_def update_proxy_def egress_audit_def Let_def
        split: option.split sum.split if_split)
  then show "eg_slots db \<le> 4 \<Longrightarrow> ?thesis" by (simp add: Save_ev)
next
  case (Claim_ev down now u pid token p)
  have "eg_slots (snd (Test_claim env down now u pid token p db)) \<le> eg_slots db"
    by (auto simp: Test_claim_def Test_cleanup_def Let_def split: option.split)
  then show "eg_slots db \<le> 4 \<Longrightarrow> ?thesis" by (simp add: Claim_ev)
next
  case (Record_ev canceled down now u pid token p result)
  have "eg_slots (snd (Test_record env canceled down now u pid token p result db)) \<le> eg_slots db"
    by (simp add: Test_record_def Test_cleanup_def Let_def split: option.split)
  then show "eg_slots db \<le> 4 \<Longrightarrow> ?thesis" by (simp add: Record_ev)
qed (auto simp: Delete_def Test_begin_def egress_audit_def split: sum.split)

lemma egress_step_inv: "egress_inv db \<Longrightarrow> egress_inv (egress_step env e db)"
  using step_changes [of db env e] changes_table step_slots [of db env e] by (auto simp: egress_inv_def egress_table_def)

definition empty_egress :: "egress_db \<Rightarrow> bool" where
  "empty_egress db \<longleftrightarrow> eg_proxies db = [] \<and> eg_slots db = 0"

interpretation egress: invariant_handler empty_egress "egress_step env" egress_inv for env
  by unfold_locales (simp add: empty_egress_def egress_inv_def egress_table_def, rule egress_step_inv)

section \<open>Revisions\<close>

text \<open>
  The row with id \<open>i\<close>, if there is one, has moved beyond revision \<open>n\<close> or still is at \<open>n\<close> with the
  configuration \<open>cfg\<close>; \<open>None\<close> excludes the latter.
\<close>

definition beyond where
  "beyond i n cfg rows \<longleftrightarrow> (\<forall>r \<in> set rows. px_id r = i \<longrightarrow> n < px_revision r \<or> px_revision r = n \<and> cfg = Some (configuration r))"

lemma change_beyond:
  assumes "change new rows rows'" "\<not> new i" "\<forall>r \<in> set rows. wf_row r" "beyond i n cfg rows"
  shows "beyond i n cfg rows'"
  using assms
proof (induction rule: change.induct)
  case (configure r rows r')
  then show ?case by (fastforce simp: beyond_def set_update_rows)
next
  case (touch rows P f)
  then have "touches r (if P r then f r else r) \<or> \<not> P r" if "r \<in> set rows" for r using that by simp
  then show ?case using touch(4) by (fastforce simp: beyond_def set_update_rows touches_def)
qed (auto simp: beyond_def)

lemma changes_beyond:
  "changes new rows rows' \<Longrightarrow> \<not> new i \<Longrightarrow> egress_table rows \<Longrightarrow> beyond i n cfg rows \<Longrightarrow> egress_table rows' \<and> beyond i n cfg rows'"
proof (induction rule: rtranclp_induct)
  case (step rows1 rows2)
  then show ?case using change_beyond change_table unfolding egress_table_def by blast
qed simp

lemma run_beyond:
  "egress_inv db \<Longrightarrow> beyond i n cfg (eg_proxies db) \<Longrightarrow> list_all (\<lambda>e. \<not> creates env e i) es \<Longrightarrow>
     egress_inv (fold (egress_step env) es db) \<and> beyond i n cfg (eg_proxies (fold (egress_step env) es db))"
proof (induction es arbitrary: db)
  case (Cons e es)
  have "changes (creates env e) (eg_proxies db) (eg_proxies (egress_step env e db))"
    using Cons(2) by (intro step_changes) (simp add: egress_inv_def egress_table_def)
  then have "beyond i n cfg (eg_proxies (egress_step env e db))"
    using changes_beyond Cons(2-4) by (simp add: egress_inv_def)
  with Cons egress_step_inv show ?case by simp
qed simp

section \<open>Properties\<close>

lemma Get_row:
  assumes "Get env down now u pid db = Inr p"
  obtains r where "r \<in> set (eg_proxies db)" "read_from p r" "selected env u pid r"
  using assms select_proxy_row by (metis (no_types, lifting) Get_def sum.distinct(1))

lemma Test_begin_read:
  assumes "egress_inv db" "Test_begin env down now db_now u pid db = (Inr p, db1)"
  shows "egress_inv db1" "beyond (ep_ID p) (ep_Revision p) (Some (ep_Name p, ep_Protocol p, ep_Host p, ep_Port p, ep_credentials p, ep_ExpiresAt p)) (eg_proxies db1)"
    "ev_pg_uuid env pid = Some (ep_ID p)"
proof -
  have g: "Get env down db_now u pid db = Inr p" "eg_proxies db1 = eg_proxies db"
    using assms(2) by (auto simp: Test_begin_def split: sum.split_asm if_split_asm)
  obtain r where r: "r \<in> set (eg_proxies db)" "read_from p r" "selected env u pid r" using Get_row [OF g(1)] by blast
  show "egress_inv db1" using egress_step_inv [OF assms(1), of env "Begin_ev down now db_now u pid"] assms(2) by simp
  have "q = r" if "q \<in> set (eg_proxies db)" "px_id q = ep_ID p" for q
    using that r assms(1) by (auto simp: egress_inv_def egress_table_def distinct_map read_from_def dest: inj_onD)
  then show "beyond (ep_ID p) (ep_Revision p) (Some (ep_Name p, ep_Protocol p, ep_Host p, ep_Port p, ep_credentials p, ep_ExpiresAt p)) (eg_proxies db1)"
    using r(2) unfolding beyond_def read_from_def g(2) by metis
  show "ev_pg_uuid env pid = Some (ep_ID p)" using r(2,3) by (simp add: selected_def read_from_def)
qed

lemma Test_record_Inr:
  assumes "egress_inv db" "Test_record env canceled down now u pid token p result db = (Inr q, db')"
  obtains r where "r \<in> set (eg_proxies db)" "recordable env u pid token p r" "ep_Revision q = px_revision r"
    "ep_Status q = (if re_Status result = ''passed'' then ''active'' else ''pending'')"
proof -
  obtain raw where raw: "ev_resultJSON env result = Some raw" "list_ex (recordable env u pid token p) (eg_proxies db)"
    using assms(2) by (auto simp: Test_record_def split: option.split_asm if_split_asm)
  let ?f = "\<lambda>r. r\<lparr>px_probe := Some raw, px_status := (if re_Status result = ''passed'' then ''active'' else ''pending''),
    px_token := None, px_until := None, px_updated := pg_time now\<rparr>"
  obtain r where r: "r \<in> set (eg_proxies db)" "recordable env u pid token p r" using raw(2) by (auto simp: list_ex_iff)
  have "Get env False now u pid (db\<lparr>eg_proxies := update_rows (recordable env u pid token p) ?f (eg_proxies db)\<rparr>) = Inr q"
    using assms(2) raw by (auto simp: Test_record_def Let_def split: if_split_asm)
  from Get_row [OF this] obtain r' where r': "r' \<in> set (eg_proxies (db\<lparr>eg_proxies := update_rows (recordable env u pid token p) ?f (eg_proxies db)\<rparr>))"
    "read_from q r'" "selected env u pid r'" by blast
  obtain x where x: "x \<in> set (eg_proxies db)" "r' = (if recordable env u pid token p x then ?f x else x)"
    using r'(1) by (auto simp: update_rows_def)
  have "px_id x = px_id r" using x(2) r(2) r'(3) by (auto simp: recordable_def selected_def split: if_split_asm)
  then have "x = r" using x(1) r(1) assms(1) by (auto simp: egress_inv_def egress_table_def distinct_map dest: inj_onD)
  then have "r' = ?f r" using x(2) r(2) by simp
  then show ?thesis using that [OF r] r'(2) by (simp add: read_from_def)
qed

text \<open>
  C36. Every table the requests reach from an empty one has unique ids and unique endpoints per
  organization, ports between 1 and 65535, known protocols and statuses, revisions within
  \<open>1 .. 2^63 - 1\<close> and a lease exactly when it has a claim; at most four probes run at once.
\<close>

theorem egress_reachable_inv:
  assumes "empty_egress db"
  shows "egress_inv (fold (egress_step env) es db)"
  using egress.reach_inv [OF egress.run_reach [OF egress.reach_init [OF assms]], of env es] by (simp add: egress.run_def)

text \<open>
  C9. A probe result is only recorded for the configuration it was made with: whatever requests
  run between the moment a test reads the proxy and the moment its result is accepted, the row
  the result is written to still has the address and credentials the test read, carries the
  test's own claim and is not switched off. Ids are not used twice.
\<close>

theorem recorded_probe_is_current:
  assumes "egress_inv db" "Test_begin env down now db_now u pid db = (Inr p, db1)"
    and "list_all (\<lambda>e. \<not> creates env e (ep_ID p)) es"
    and "Test_record env canceled down' now' u pid token p result (fold (egress_step env) es db1) = (Inr q, db2)"
  shows "\<exists>r \<in> set (eg_proxies (fold (egress_step env) es db1)). px_id r = ep_ID p \<and> px_token r = Some token \<and> px_status r \<noteq> ''off'' \<and>
      configuration r = (ep_Name p, ep_Protocol p, ep_Host p, ep_Port p, ep_credentials p, ep_ExpiresAt p) \<and>
      ep_Revision q = ep_Revision p \<and> ep_Status q = (if re_Status result = ''passed'' then ''active'' else ''pending'')"
proof -
  let ?db = "fold (egress_step env) es db1"
  note b = Test_begin_read [OF assms(1,2)]
  note run = run_beyond [OF b(1,2) assms(3)]
  obtain r where r: "r \<in> set (eg_proxies ?db)" "recordable env u pid token p r" "ep_Revision q = px_revision r"
    "ep_Status q = (if re_Status result = ''passed'' then ''active'' else ''pending'')"
    using Test_record_Inr [OF conjunct1 [OF run] assms(4)] by blast
  have i: "px_id r = ep_ID p" using r(2) b(3) by (simp add: recordable_def selected_def)
  then have "configuration r = (ep_Name p, ep_Protocol p, ep_Host p, ep_Port p, ep_credentials p, ep_ExpiresAt p)"
    using conjunct2 [OF run] r(1,2) by (auto simp: beyond_def recordable_def)
  with r i show ?thesis by (auto simp: recordable_def intro!: bexI [OF _ r(1)])
qed

lemma normalize_keeps:
  assumes "normalize env inp = Some (i, expiry)"
  shows "ip_Revision i = ip_Revision inp" "ip_Username i = ip_Username inp" "ip_Password i = ip_Password inp" "ip_ClearAuth i = ip_ClearAuth inp"
proof -
  define j where "j = inp\<lparr>ip_Name := TrimSpace (ip_Name inp), ip_Protocol := go_lower env (ip_Protocol inp),
                 ip_Host := TrimSuffix_dot (go_lower env (TrimSpace (ip_Host inp)))\<rparr>"
  have "i = j" using assms [unfolded normalize_def, folded j_def, unfolded Let_def]
    by (simp_all only: split: if_split_asm option.split_asm) (simp_all only: option.simps prod.inject simp_thms)
  then show "ip_Revision i = ip_Revision inp" "ip_Username i = ip_Username inp" "ip_Password i = ip_Password inp" "ip_ClearAuth i = ip_ClearAuth inp"
    by (simp_all add: j_def)
qed

lemma Save_Inr:
  assumes "Save env down now u pid newID nonce inp db = (Inr q, db')"
  obtains i expiry saved where "normalize env inp = Some (i, expiry)" "Save_body env down now u pid newID nonce i expiry db = Inr (saved, db')"
    "Get env False now u saved db' = Inr q"
  using assms by (auto simp: Save_def split: if_split_asm option.split_asm sum.split_asm)

lemma Save_body_update:
  assumes "egress_inv db" "pid \<noteq> []" "Save_body env down now u pid newID nonce i expiry db = Inr (saved, db')"
  shows "\<exists>k. ev_pg_uuid env pid = Some k \<and> beyond k (ip_Revision i) None (eg_proxies db') \<and> saved = pid"
proof -
  have wf: "\<forall>r \<in> set (eg_proxies db). wf_row r" using assms(1) by (simp add: egress_inv_def egress_table_def)
  obtain sp enc db1 where s: "Save_plan env down now u pid newID i db = Inr sp" "saved = sp_id sp" "eg_proxies db' = eg_proxies db1"
    "Save_write env now u i expiry sp (new_credentials i (sp_credentials sp)) enc (if ip_Status i \<noteq> [] then ip_Status i else sp_status sp) db = Inr db1"
    using assms(3) by (auto simp: Save_body_def Let_def egress_audit_def split: sum.split_asm if_split_asm option.split_asm)
  note plan = Save_plan_cases [OF s(1) wf]
  obtain old where old: "select_proxy env down now u pid db = Inr old" "ip_Revision i = ep_Revision old"
    using s(1) assms(2) by (auto simp: Save_plan_def split: if_split_asm sum.split_asm option.split_asm)
  obtain r where r: "find (selected env u pid) (eg_proxies db) = Some r" "r \<in> set (eg_proxies db)" "read_from old r" "selected env u pid r"
    using select_proxy_row [OF old(1)] by blast
  obtain r' where w: "px_revision r' = px_revision r + 1" "eg_proxies db1 = update_rows (\<lambda>q. px_id q = px_id r) (\<lambda>_. r') (eg_proxies db)"
  proof -
    let ?c = "configured env i expiry (new_credentials i (sp_credentials sp)) enc (if ip_Status i \<noteq> [] then ip_Status i else sp_status sp)"
    have "update_proxy (selected env u pid) now ?c db = Inr db1" using s(4) plan(2,3) assms(2) by (simp add: Save_write_def)
    then show ?thesis
      using that [of "(?c r)\<lparr>px_revision := px_revision r + 1, px_probe := None, px_token := None, px_until := None, px_updated := pg_time now\<rparr>"] r(1)
      by (auto simp: update_proxy_def bump_def Let_def split: option.split_asm if_split_asm)
  qed
  have "beyond (px_id r) (ip_Revision i) None (eg_proxies db1)"
    using w r(3) old(2) by (auto simp: beyond_def set_update_rows read_from_def split: if_split_asm)
  with s(2,3) r(4) plan(3) assms(2) show ?thesis by (auto simp: selected_def)
qed

text \<open>
  Updates cannot be lost: once an update based on a revision has been accepted, every other
  update of that proxy based on the same revision, by anyone, in any spelling of the id and at any
  later time, is refused and changes nothing.
\<close>

theorem stale_save_refused:
  assumes "egress_inv db" "pid \<noteq> []" "Save env down now u pid newID nonce inp db = (Inr q, db1)"
    and "list_all (\<lambda>e. \<not> creates env e (ep_ID q)) es"
    and "pid' \<noteq> []" "ev_pg_uuid env pid' = ev_pg_uuid env pid" "ip_Revision inp' = ip_Revision inp"
  shows "\<exists>err. Save env down' now' u' pid' newID' nonce' inp' (fold (egress_step env) es db1) = (Inl err, fold (egress_step env) es db1)"
proof -
  let ?db = "fold (egress_step env) es db1"
  obtain i expiry saved where s: "normalize env inp = Some (i, expiry)" "Save_body env down now u pid newID nonce i expiry db = Inr (saved, db1)"
    "Get env False now u saved db1 = Inr q" using Save_Inr [OF assms(3)] by blast
  obtain k where k: "ev_pg_uuid env pid = Some k" "beyond k (ip_Revision inp) None (eg_proxies db1)" "saved = pid"
    using Save_body_update [OF assms(1,2) s(2)] normalize_keeps(1) [OF s(1)] by auto
  have "ep_ID q = k" using Get_row [OF s(3)] k(1,3) by (auto simp: selected_def read_from_def)
  moreover have "egress_inv db1" using egress_step_inv [OF assms(1), of env "Save_ev down now u pid newID nonce inp"] assms(3) by simp
  ultimately have b: "beyond k (ip_Revision inp) None (eg_proxies ?db)" using run_beyond k(2) assms(4) by blast
  have "Save_plan env down' now' u' pid' newID' i' ?db \<noteq> Inr sp" if "ip_Revision i' = ip_Revision inp" for i' sp
  proof
    assume "Save_plan env down' now' u' pid' newID' i' ?db = Inr sp"
    then obtain old where old: "select_proxy env down' now' u' pid' ?db = Inr old" "ip_Revision i' = ep_Revision old"
      using assms(5) by (auto simp: Save_plan_def split: if_split_asm sum.split_asm option.split_asm)
    obtain r where "r \<in> set (eg_proxies ?db)" "read_from old r" "selected env u' pid' r" using select_proxy_row [OF old(1)] by blast
    then show False using b old(2) that assms(6) k(1) by (auto simp: beyond_def selected_def read_from_def)
  qed
  then have "Save_body env down' now' u' pid' newID' nonce' i' expiry' ?db \<noteq> Inr x" if "ip_Revision i' = ip_Revision inp" for i' expiry' x
    using that by (auto simp: Save_body_def split: sum.split_asm)
  then show ?thesis using assms(7) normalize_keeps(1) [of env inp']
    by (cases "normalize env inp'") (auto simp: Save_def split: sum.split)
qed

section \<open>Credentials\<close>

text \<open>
  What the service relies on: an AEAD opens what it sealed with the same nonce and additional data,
  it opens a ciphertext under one additional data only, and JSON reads back credentials that are
  valid UTF-8.
\<close>

definition opens_sealed :: "egress_env \<Rightarrow> bool" where
  "opens_sealed env \<longleftrightarrow> (\<forall>nonce data a. length nonce = ae_NonceSize (ev_cipher env) \<longrightarrow>
     ae_Open (ev_cipher env) nonce (ae_Seal (ev_cipher env) nonce data a) a = Some data)"

definition authenticates :: "egress_env \<Rightarrow> bool" where
  "authenticates env \<longleftrightarrow> (\<forall>nonce b a a' d d'. ae_Open (ev_cipher env) nonce b a = Some d \<longrightarrow> ae_Open (ev_cipher env) nonce b a' = Some d' \<longrightarrow> a = a')"

definition reads_back :: "egress_env \<Rightarrow> bool" where
  "reads_back env \<longleftrightarrow> (\<forall>c d. utf8_Valid (cr_Username c) \<longrightarrow> utf8_Valid (cr_Password c) \<longrightarrow>
     ev_credentialsJSON env c = Some d \<longrightarrow> ev_parseCredentials env d = Some c)"

lemma unseal_seal:
  assumes "opens_sealed env" "reads_back env" "length nonce = ae_NonceSize (ev_cipher env)"
    and "utf8_Valid (cr_Username c)" "utf8_Valid (cr_Password c)" "seal env nonce c a = Some b"
  shows "unseal env b a = Some c"
  using assms by (auto simp: seal_def unseal_def opens_sealed_def reads_back_def split: option.split_asm)

lemma unseal_one_aad: "authenticates env \<Longrightarrow> unseal env b a = Some c \<Longrightarrow> a \<noteq> a' \<Longrightarrow> unseal env b a' = None"
  unfolding unseal_def authenticates_def Let_def by (auto split: if_split_asm option.split_asm option.split) blast

lemma Get_auth:
  assumes "Get env down now u pid db = Inr p"
  obtains r c where "r \<in> set (eg_proxies db)" "read_from p r" "selected env u pid r"
    "unseal env (px_credentials r) (aad env (ic_OrganizationID u) (px_id r)) = Some c" "ep_AuthConfigured p = (cr_Username c \<noteq> [])"
proof -
  have s: "scan env now (ic_OrganizationID u) (find (selected env u pid) (eg_proxies db)) = Inr p"
    using assms by (auto simp: Get_def select_proxy_def split: if_split_asm)
  then obtain r where r: "find (selected env u pid) (eg_proxies db) = Some r" "read_from p r" using scan_read_from by blast
  then obtain c where "unseal env (px_credentials r) (aad env (ic_OrganizationID u) (px_id r)) = Some c" "ep_AuthConfigured p = (cr_Username c \<noteq> [])"
    using s by (auto simp: scan_def Let_def split: option.split_asm)
  then show ?thesis using that r find_Some_iff_set by metis
qed

definition given_credentials :: "Input \<Rightarrow> Credentials" where
  "given_credentials i = \<lparr>cr_Username = (case ip_Username i of None \<Rightarrow> [] | Some n \<Rightarrow> n), cr_Password = (case ip_Password i of None \<Rightarrow> [] | Some p \<Rightarrow> p)\<rparr>"

lemma created_row:
  assumes "Save_body env down now u [] newID nonce i expiry db = Inr (saved, db')" "ev_pg_uuid env newID = Some newID"
    and "r \<in> set (eg_proxies db')" "px_id r = newID"
  shows "saved = newID" "seal env nonce (given_credentials i) (aad env (ic_OrganizationID u) newID) = Some (px_credentials r)"
proof -
  let ?c = "given_credentials i"
  have nc: "new_credentials i \<lparr>cr_Username = [], cr_Password = []\<rparr> = ?c"
    by (auto simp: new_credentials_def given_credentials_def Let_def split: option.split)
  let ?sp = "\<lparr>sp_id = newID, sp_credentials = \<lparr>cr_Username = [], cr_Password = []\<rparr>, sp_status = ''pending'', sp_oldRevision = 0, sp_action = ''create''\<rparr>"
  let ?status = "if ip_Status i \<noteq> [] then ip_Status i else ''pending''"
  have "Save_plan env down now u [] newID i db = (if ip_Revision i \<noteq> 0 then Inl (EFault Invalid) else Inr ?sp)"
    by (simp add: Save_plan_def)
  then obtain enc db1 where e: "seal env nonce ?c (aad env (ic_OrganizationID u) newID) = Some enc" "saved = newID" "eg_proxies db' = eg_proxies db1"
    "Save_write env now u i expiry ?sp ?c enc ?status db = Inr db1"
    using assms(1) nc by (auto simp: Save_body_def egress_audit_def Let_def split: sum.split_asm if_split_asm option.split_asm)
  then obtain station org where "insert_proxy (configured env i expiry ?c enc ?status (blank_row newID station org now)) db = Inr db1"
    using assms(2) by (auto simp: Save_write_def split: option.split_asm)
  then have "eg_proxies db1 = eg_proxies db @ [configured env i expiry ?c enc ?status (blank_row newID station org now)]"
    "\<forall>q \<in> set (eg_proxies db). px_id q \<noteq> newID"
    by (auto simp: insert_proxy_def list_ex_iff configured_def blank_row_def split: if_split_asm)
  then have "r = configured env i expiry ?c enc ?status (blank_row newID station org now)" using assms(3,4) e(3) by auto
  then have "px_credentials r = enc" by (simp add: configured_def)
  with e(1,2) show "saved = newID" "seal env nonce ?c (aad env (ic_OrganizationID u) newID) = Some (px_credentials r)" by simp_all
qed

text \<open>
  C37. What a client stores is what a probe later uses: the credentials of a created proxy unseal,
  under the additional data of its organization and id, to exactly the given user name and
  password, and the returned endpoint only tells whether there is a user name.
\<close>

theorem created_credentials_unseal:
  assumes "opens_sealed env" "reads_back env" "length nonce = ae_NonceSize (ev_cipher env)" "ev_pg_uuid env newID = Some newID"
    and "utf8_Valid (cr_Username (given_credentials inp))" "utf8_Valid (cr_Password (given_credentials inp))"
    and "Save env down now u [] newID nonce inp db = (Inr q, db')"
  shows "unseal env (ep_credentials q) (aad env (ic_OrganizationID u) newID) = Some (given_credentials inp) \<and>
    ep_AuthConfigured q = (cr_Username (given_credentials inp) \<noteq> [])"
proof -
  obtain i expiry saved where s: "normalize env inp = Some (i, expiry)" "Save_body env down now u [] newID nonce i expiry db = Inr (saved, db')"
    "Get env False now u saved db' = Inr q" using Save_Inr [OF assms(7)] by blast
  have g: "given_credentials i = given_credentials inp" using normalize_keeps [OF s(1)] by (simp add: given_credentials_def)
  have saved: "saved = newID" using s(2) by (auto simp: Save_body_def Save_plan_def Let_def split: sum.split_asm if_split_asm option.split_asm)
  obtain r c where r: "r \<in> set (eg_proxies db')" "read_from q r" "selected env u saved r"
    "unseal env (px_credentials r) (aad env (ic_OrganizationID u) (px_id r)) = Some c" "ep_AuthConfigured q = (cr_Username c \<noteq> [])"
    using Get_auth [OF s(3)] by blast
  have i: "px_id r = newID" "ep_credentials q = px_credentials r"
    using r(2,3) assms(4) saved by (simp_all add: selected_def read_from_def configuration_def)
  have "unseal env (px_credentials r) (aad env (ic_OrganizationID u) newID) = Some (given_credentials inp)"
    using unseal_seal [OF assms(1-3,5,6)] created_row(2) [OF s(2) assms(4) r(1) i(1)] g by simp
  with r(4,5) i show ?thesis by simp
qed

text \<open>
  An id that is spelled differently from the stored one (in capitals, say) is found by \<open>Get\<close>,
  but cannot be updated: \<open>Save\<close> unseals the credentials under the spelling of the request, not
  under the stored id, and fails.
\<close>

theorem respelled_id_cannot_be_saved:
  assumes "authenticates env" "Get env False now u pid db = Inr p" "ep_ID p \<noteq> pid" "pid \<noteq> []"
    and "normalize env inp = Some (i, expiry)" "ip_Revision inp = ep_Revision p"
  shows "Save env False now u pid newID nonce inp db = (Inl ECredentials, db)"
proof -
  obtain r c where r: "read_from p r" "unseal env (px_credentials r) (aad env (ic_OrganizationID u) (px_id r)) = Some c"
    using Get_auth [OF assms(2)] by blast
  have "aad env (ic_OrganizationID u) (px_id r) \<noteq> aad env (ic_OrganizationID u) pid"
    using r(1) assms(3) by (simp add: aad_def read_from_def)
  then have "unseal env (ep_credentials p) (aad env (ic_OrganizationID u) pid) = None"
    using unseal_one_aad [OF assms(1) r(2)] r(1) by (simp add: read_from_def configuration_def)
  moreover have "authorize env u" "ev_uuid env pid \<noteq> None" "select_proxy env False now u pid db = Inr p"
    using assms(2) by (auto simp: Get_def split: if_split_asm)
  ultimately show ?thesis
    using assms(4-6) normalize_keeps(1) [OF assms(5)] by (simp add: Save_def Save_body_def Save_plan_def)
qed

section \<open>Witnesses\<close>

text \<open>A cipher that writes the additional data in front of the text, and pairs of strings likewise.\<close>

definition tag :: "string \<Rightarrow> string \<Rightarrow> string" where
  "tag a d = replicate (length a) CHR ''x'' @ CHR ''y'' # a @ d"

definition untag :: "string \<Rightarrow> string \<times> string" where
  "untag s = (let k = length (takeWhile (\<lambda>c. c = CHR ''x'') s); rest = drop (k + 1) s in (take k rest, drop k rest))"

lemma untag_tag [simp]: "untag (tag a d) = (a, d)"
proof -
  have "takeWhile (\<lambda>c. c = CHR ''x'') (replicate n CHR ''x'' @ CHR ''y'' # s) = replicate n CHR ''x''" for n s
    by (induction n) auto
  then show ?thesis by (simp add: untag_def tag_def Let_def)
qed

definition demo_result :: Result where
  "demo_result = \<lparr>re_Status = ''passed'', re_Target = [], re_StartedAt = 0, re_FinishedAt = 0, re_Samples = [], re_Successes = 3, re_Attempts = 3,
     re_SuccessRate = 0, re_MeanLatencyMS = 1, re_JitterMS = 0, re_ExitIP = [], re_ExitChanged = False, re_Observations = [],
     re_LocationConflict = False, re_BlacklistStatus = []\<rparr>"

definition demo_egress_env :: egress_env where
  "demo_egress_env = \<lparr>ev_StationID = ''s'',
     ev_cipher = \<lparr>ae_NonceSize = 1, ae_Seal = (\<lambda>_ d a. tag a d), ae_Open = (\<lambda>_ b a. if fst (untag b) = a then Some (snd (untag b)) else None)\<rparr>,
     ev_uuid = (\<lambda>x. Some \<lparr>uuid_String = x, uuid_Version = 7, uuid_RFC4122 = True, uuid_Nil = False\<rparr>),
     ev_pg_uuid = (\<lambda>x. Some (if x = ''A'' then ''a'' else x)), ev_lower = (\<lambda>x. x), ev_isIP = (\<lambda>_. False), ev_parseTime = (\<lambda>_. None),
     ev_credentialsJSON = (\<lambda>c. Some (tag (cr_Username c) (cr_Password c))),
     ev_parseCredentials = (\<lambda>d. Some \<lparr>cr_Username = fst (untag d), cr_Password = snd (untag d)\<rparr>),
     ev_keyJSON = (\<lambda>(p, h, n, c). p @ h @ c), ev_sha256 = (\<lambda>b. b),
     ev_resultJSON = (\<lambda>_. Some ''r''), ev_parseResult = (\<lambda>_. Some demo_result)\<rparr>"

definition demo_admin :: IdentityContext where
  "demo_admin = \<lparr>ic_RequestID = ''q'', ic_StationID = ''s'', ic_SessionID = ''e'', ic_UserID = ''u'', ic_Username = ''n'', ic_OrganizationID = ''o'',
     ic_OrganizationName = ''o'', ic_Roles = [''admin''], ic_Scopes = [''app:manage''], ic_IssuedAt = 0, ic_ExpiresAt = 0,
     ic_RevocationVersion = 0, ic_PolicyVersion = 0\<rparr>"

definition demo_input :: Input where
  "demo_input = \<lparr>ip_Name = ''p'', ip_Protocol = ''HTTP'', ip_Host = ''h.'', ip_Port = 80, ip_Username = Some ''u'', ip_Password = Some ''w'',
     ip_ClearAuth = False, ip_Status = [], ip_Tag = [], ip_Note = [], ip_ExpiresAt = [], ip_Revision = 0\<rparr>"

definition demo_egress_empty :: egress_db where
  "demo_egress_empty = \<lparr>eg_proxies = [], eg_audit = [], eg_slots = 0\<rparr>"

definition demo_egress_db :: egress_db where
  "demo_egress_db = egress_step demo_egress_env (Save_ev False 1000 demo_admin [] ''a'' ''n'' demo_input) demo_egress_empty"

definition demo_endpoint :: Endpoint where
  "demo_endpoint = projr (fst (Test_begin demo_egress_env False 2000 2000 demo_admin ''a'' demo_egress_db))"

definition demo_tested :: egress_db where
  "demo_tested = fold (egress_step demo_egress_env) [Claim_ev False 3000 demo_admin ''a'' ''t'' demo_endpoint]
     (snd (Test_begin demo_egress_env False 2000 2000 demo_admin ''a'' demo_egress_db))"

lemma demo_egress_inv: "egress_inv demo_egress_db"
  unfolding demo_egress_db_def by (rule egress_step_inv) (simp add: demo_egress_empty_def egress_inv_def egress_table_def)

lemma Inr_fst: "isl (fst x) = False \<Longrightarrow> x = (Inr (projr (fst x)), snd x)"
  by (cases x; cases "fst x") auto

lemma not_isl_projr: "isl x = False \<Longrightarrow> x = Inr (projr x)"
  by (cases x) auto

lemma demo_egress_evaluated:
  "length (eg_proxies (fold (egress_step demo_egress_env) [Save_ev False 1000 demo_admin [] ''a'' ''n'' demo_input] demo_egress_empty)) = 1 \<and>
   isl (fst (Save demo_egress_env False 1000 demo_admin [] ''a'' ''n'' demo_input demo_egress_empty)) = False \<and>
   isl (fst (Test_begin demo_egress_env False 2000 2000 demo_admin ''a'' demo_egress_db)) = False \<and>
   isl (fst (Test_record demo_egress_env False False 4000 demo_admin ''a'' ''t'' demo_endpoint demo_result demo_tested)) = False \<and>
   utf8_Valid (cr_Username (given_credentials demo_input)) \<and> utf8_Valid (cr_Password (given_credentials demo_input)) \<and>
   isl (Get demo_egress_env False 2000 demo_admin ''A'' demo_egress_db) = False \<and>
   ep_ID (projr (Get demo_egress_env False 2000 demo_admin ''A'' demo_egress_db)) \<noteq> ''A'' \<and>
   ip_Revision (demo_input\<lparr>ip_Revision := 1\<rparr>) = ep_Revision (projr (Get demo_egress_env False 2000 demo_admin ''A'' demo_egress_db)) \<and>
   normalize demo_egress_env (demo_input\<lparr>ip_Revision := 1\<rparr>) \<noteq> None"
  by code_simp

theorem egress_reachable_inv_witness:
  "length (eg_proxies (fold (egress_step demo_egress_env) [Save_ev False 1000 demo_admin [] ''a'' ''n'' demo_input] demo_egress_empty)) = 1 \<and>
   egress_inv (fold (egress_step demo_egress_env) [Save_ev False 1000 demo_admin [] ''a'' ''n'' demo_input] demo_egress_empty)"
proof
  show "length (eg_proxies (fold (egress_step demo_egress_env) [Save_ev False 1000 demo_admin [] ''a'' ''n'' demo_input] demo_egress_empty)) = 1"
    using demo_egress_evaluated by (elim conjE)
  show "egress_inv (fold (egress_step demo_egress_env) [Save_ev False 1000 demo_admin [] ''a'' ''n'' demo_input] demo_egress_empty)"
    by (rule egress_reachable_inv) (simp add: empty_egress_def demo_egress_empty_def)
qed

theorem recorded_probe_is_current_witness:
  "\<exists>r \<in> set (eg_proxies demo_tested). px_id r = ep_ID demo_endpoint \<and> px_token r = Some ''t'' \<and>
     configuration r = (ep_Name demo_endpoint, ep_Protocol demo_endpoint, ep_Host demo_endpoint, ep_Port demo_endpoint,
       ep_credentials demo_endpoint, ep_ExpiresAt demo_endpoint)"
proof -
  have b: "Test_begin demo_egress_env False 2000 2000 demo_admin ''a'' demo_egress_db =
      (Inr demo_endpoint, snd (Test_begin demo_egress_env False 2000 2000 demo_admin ''a'' demo_egress_db))"
    unfolding demo_endpoint_def by (rule Inr_fst) (use demo_egress_evaluated in blast)
  have r: "Test_record demo_egress_env False False 4000 demo_admin ''a'' ''t'' demo_endpoint demo_result demo_tested =
      (Inr (projr (fst (Test_record demo_egress_env False False 4000 demo_admin ''a'' ''t'' demo_endpoint demo_result demo_tested))),
       snd (Test_record demo_egress_env False False 4000 demo_admin ''a'' ''t'' demo_endpoint demo_result demo_tested))"
    by (rule Inr_fst) (use demo_egress_evaluated in blast)
  have c: "list_all (\<lambda>e. \<not> creates demo_egress_env e (ep_ID demo_endpoint)) [Claim_ev False 3000 demo_admin ''a'' ''t'' demo_endpoint]"
    by (simp add: creates_def)
  from recorded_probe_is_current [OF demo_egress_inv b c r [unfolded demo_tested_def]] show ?thesis
    unfolding demo_tested_def by blast
qed

lemma demo_laws: "opens_sealed demo_egress_env" "reads_back demo_egress_env" "authenticates demo_egress_env"
  by (auto simp: opens_sealed_def reads_back_def authenticates_def demo_egress_env_def split: if_split_asm)

theorem created_credentials_unseal_witness:
  "unseal demo_egress_env (ep_credentials (projr (fst (Save demo_egress_env False 1000 demo_admin [] ''a'' ''n'' demo_input demo_egress_empty))))
     (aad demo_egress_env ''o'' ''a'') = Some \<lparr>cr_Username = ''u'', cr_Password = ''w''\<rparr>"
proof -
  have "isl (fst (Save demo_egress_env False 1000 demo_admin [] ''a'' ''n'' demo_input demo_egress_empty)) = False" using demo_egress_evaluated by blast
  note s = Inr_fst [OF this]
  have u: "utf8_Valid (cr_Username (given_credentials demo_input))" "utf8_Valid (cr_Password (given_credentials demo_input))"
    using demo_egress_evaluated by blast+
  from created_credentials_unseal [OF demo_laws(1,2) _ _ u s] show ?thesis
    by (simp add: demo_egress_env_def demo_admin_def given_credentials_def demo_input_def)
qed

theorem respelled_id_cannot_be_saved_witness:
  "Save demo_egress_env False 2000 demo_admin ''A'' ''b'' ''n'' (demo_input\<lparr>ip_Revision := 1\<rparr>) demo_egress_db = (Inl ECredentials, demo_egress_db)"
proof -
  have g: "Get demo_egress_env False 2000 demo_admin ''A'' demo_egress_db = Inr (projr (Get demo_egress_env False 2000 demo_admin ''A'' demo_egress_db))"
    by (rule not_isl_projr) (use demo_egress_evaluated in blast)
  have p: "ep_ID (projr (Get demo_egress_env False 2000 demo_admin ''A'' demo_egress_db)) \<noteq> ''A''"
    "ip_Revision (demo_input\<lparr>ip_Revision := 1\<rparr>) = ep_Revision (projr (Get demo_egress_env False 2000 demo_admin ''A'' demo_egress_db))"
    using demo_egress_evaluated by blast+
  obtain i expiry where n: "normalize demo_egress_env (demo_input\<lparr>ip_Revision := 1\<rparr>) = Some (i, expiry)"
  proof -
    have "normalize demo_egress_env (demo_input\<lparr>ip_Revision := 1\<rparr>) \<noteq> None" using demo_egress_evaluated by blast
    then show ?thesis using that by auto
  qed
  show ?thesis by (rule respelled_id_cannot_be_saved [OF demo_laws(3) g p(1) _ n p(2)]) simp
qed

end
