(* ===== verification/Catalog.thy ===== *)
theory Catalog
  imports Versions Go_Strings
begin

text \<open>
  The application catalog (\<^verbatim>\<open>internal/catalog\<close>: \<^verbatim>\<open>catalog.go\<close>, \<^verbatim>\<open>snapshot.go\<close>, \<^verbatim>\<open>discovery.go\<close> and the
  observation part of \<^verbatim>\<open>kubernetes.go\<close>): the registered entries, what a Deployment of the cluster
  says of an application, the discovery of workloads and the two readers, the historical \<open>List\<close>
  and the strict \<open>Snapshot\<close>. The Kubernetes API is a parameter: what a request returns. The
  workers that observe entries concurrently write disjoint elements, so that their result is the
  list of the observations. A Go map is an association list, a nil map the empty one.
\<close>

section \<open>Data\<close>

record Image =
  im_Component :: string
  im_Image :: string

record Helm =
  he_OCIRef :: string
  he_ChartName :: string
  he_ChartVersion :: string
  he_ManifestDigest :: string
  he_PackageDigest :: string
  he_PackageSizeBytes :: int
  he_TargetNamespace :: string
  he_ReleaseName :: string
  he_ValuesSource :: string

record Entry =
  e_AppID :: string
  e_DisplayName :: string
  e_GroupID :: string
  e_Brand :: string
  e_SortOrder :: int
  e_IconRef :: string
  e_Description :: string
  e_Capabilities :: "string list"
  e_DisabledReason :: string
  e_Helm :: "Helm option"
  e_Models :: "string list option"
  e_Source :: string
  e_Namespace :: string
  e_WorkloadName :: string
  e_Version :: string
  e_Images :: "Image list"

record Observation =
  o_UID :: string
  o_ManagementStatus :: string
  o_Ownership :: "(string \<times> string) list"
  o_State :: string
  o_Reason :: string
  o_ObservedAt :: gotime
  o_Desired :: "int option"
  o_Ready :: "int option"
  o_Images :: "Image list"

record Item = Entry +
  i_ModelStatus :: string
  i_Deployment :: Observation

record SnapshotItem = Item +
  si_Registered :: bool

definition item_of :: "Entry \<Rightarrow> string \<Rightarrow> Observation \<Rightarrow> Item" where
  "item_of e model obs = Entry.extend e (Item.fields model obs)"

definition snapshot_of :: "Item \<Rightarrow> bool \<Rightarrow> SnapshotItem" where
  "snapshot_of i registered = Item.extend i (SnapshotItem.fields registered)"

declare Entry.defs [code] Item.defs [code] SnapshotItem.defs [code]

text \<open>The parts of a Kubernetes Deployment the code reads.\<close>

record condition =
  cn_Type :: string
  cn_Status :: string
  cn_Reason :: string

record deployment =
  d_Name :: string
  d_Namespace :: string
  d_Generation :: int
  d_UID :: string
  d_Labels :: "(string \<times> string) list"
  d_Annotations :: "(string \<times> string) list"
  d_Replicas :: "int option"
  d_Containers :: "(string \<times> string) list"
  d_ObservedGeneration :: int
  d_StatusReplicas :: int
  d_StatusReady :: int
  d_StatusAvailable :: int
  d_StatusUpdated :: int
  d_Conditions :: "condition list"

abbreviation at_key :: "(string \<times> string) list \<Rightarrow> string \<Rightarrow> string" where
  "at_key m k \<equiv> lookup_default [] m k"

section \<open>Registered entries\<close>

text \<open>\<^verbatim>\<open>^[a-z0-9]([-a-z0-9]*[a-z0-9])?$\<close>.\<close>

definition dnsName :: "string \<Rightarrow> bool" where
  "dnsName s \<longleftrightarrow> s \<noteq> [] \<and> is_lower_digit (hd s) \<and> is_lower_digit (last s) \<and> list_all (\<lambda>c. is_lower_digit c \<or> c = CHR ''-'') s"

definition ValidGroup :: "string \<Rightarrow> bool" where
  "ValidGroup grp \<longleftrightarrow> grp \<in> {''image'', ''music'', ''video'', ''channel'', ''system'', ''desktop'', ''blender''}"

definition ValidBrand :: "string \<Rightarrow> bool" where
  "ValidBrand brand \<longleftrightarrow> brand \<in> {''vf'', ''minimax'', ''github'', ''blender'', ''comfyui''}"

definition target_of :: "('a) Entry_scheme \<Rightarrow> string" where
  "target_of e = e_Namespace e @ ''/'' @ e_WorkloadName e"

definition valid_entry :: "Entry \<Rightarrow> bool" where
  "valid_entry e \<longleftrightarrow> dnsName (e_AppID e) \<and> length (e_AppID e) \<le> 63 \<and> dnsName (e_Namespace e) \<and> length (e_Namespace e) \<le> 63 \<and>
     dnsName (e_WorkloadName e) \<and> length (e_WorkloadName e) \<le> 63 \<and> e_DisplayName e \<noteq> [] \<and> ValidGroup (e_GroupID e) \<and>
     (e_Version e = [] \<or> transitionVersion (e_Version e)) \<and> \<not> (e_Version e = [] \<and> e_DisabledReason e = []) \<and>
     ValidBrand (e_Brand e) \<and> e_Models e \<noteq> None \<and> e_Images e \<noteq> [] \<and>
     strip_prefix ''deploys/'' (e_Source e) \<noteq> None \<and> \<not> has_dot_dot (e_Source e)"

definition valid_images :: "Entry \<Rightarrow> bool" where
  "valid_images e = list_all (\<lambda>im. im_Component im \<noteq> [] \<and> im_Image im \<noteq> []) (e_Images e)"

text \<open>The loop of \<open>Load\<close> with the ids and targets seen so far.\<close>

datatype load_error = FileUnavailable | InvalidCatalog | TrailingData | InvalidEntry | InvalidImage

fun load_entries :: "string list \<Rightarrow> string list \<Rightarrow> Entry list \<Rightarrow> load_error option" where
  "load_entries ids targets [] = None"
| "load_entries ids targets (e # es) =
     (if \<not> valid_entry e \<or> e_AppID e \<in> set ids \<or> target_of e \<in> set targets then Some InvalidEntry
      else if \<not> valid_images e then Some InvalidImage
      else load_entries (e_AppID e # ids) (target_of e # targets) es)"

text \<open>The file as a typed decoder reads it (\<open>None\<close>: it cannot be opened), and whether it ends there.\<close>

definition Load :: "(Entry list option \<times> bool) option \<Rightarrow> load_error + Entry list" where
  "Load file = (case file of
     None \<Rightarrow> Inl FileUnavailable
   | Some (decoded, eof) \<Rightarrow>
       (case decoded of
          None \<Rightarrow> Inl InvalidCatalog
        | Some entries \<Rightarrow>
            if entries = [] \<or> length entries > 100 then Inl InvalidCatalog
            else if \<not> eof then Inl TrailingData
            else (case load_entries [] [] entries of None \<Rightarrow> Inr entries | Some e \<Rightarrow> Inl e)))"

definition find_entry :: "Entry list \<Rightarrow> string \<Rightarrow> Entry option" where
  "find_entry entries i = find (\<lambda>e. e_AppID e = i) entries"

definition RegisteredAppIDs :: "Entry list \<Rightarrow> string list" where
  "RegisteredAppIDs entries = map e_AppID entries"

section \<open>Observation\<close>

definition unavailable :: "gotime \<Rightarrow> Observation" where
  "unavailable now = \<lparr>o_UID = [], o_ManagementStatus = [], o_Ownership = [], o_State = ''unknown'', o_Reason = ''unavailable'',
     o_ObservedAt = now, o_Desired = None, o_Ready = None, o_Images = []\<rparr>"

definition failed_condition :: "condition \<Rightarrow> bool" where
  "failed_condition c \<longleftrightarrow> cn_Type c = ''Progressing'' \<and> cn_Status c = ''False'' \<and> cn_Reason c = ''ProgressDeadlineExceeded'' \<or>
     cn_Type c = ''ReplicaFailure'' \<and> cn_Status c = ''True''"

definition observationFromDeployment :: "gotime \<Rightarrow> deployment \<Rightarrow> Observation" where
  "observationFromDeployment now d =
     (let out = unavailable now;
          desired = (case d_Replicas d of None \<Rightarrow> 1 | Some n \<Rightarrow> n)
      in if d_Generation d < 1 \<or> d_Containers d = [] then out\<lparr>o_Reason := ''invalid_response''\<rparr>
         else if desired < 0 then out\<lparr>o_Reason := ''invalid_response''\<rparr>
         else let out = out\<lparr>o_UID := d_UID d, o_Ownership := d_Annotations d, o_Desired := Some desired, o_Ready := Some (d_StatusReady d),
                    o_Images := map (\<lambda>(n, i). \<lparr>im_Component = n, im_Image = i\<rparr>) (d_Containers d),
                    o_State := ''starting'', o_Reason := ''reconciling''\<rparr>
              in if d_ObservedGeneration d < d_Generation d then out
                 else if desired = 0 then
                   (if d_StatusReplicas d = 0 then out\<lparr>o_State := ''stopped'', o_Reason := ''scaled_to_zero''\<rparr>
                    else out\<lparr>o_State := ''stopping'', o_Reason := ''scaling_down''\<rparr>)
                 else if list_ex failed_condition (d_Conditions d) then out\<lparr>o_State := ''degraded'', o_Reason := ''deployment_failed''\<rparr>
                 else if d_StatusReplicas d = desired \<and> d_StatusUpdated d = desired \<and> d_StatusReady d = desired \<and> d_StatusAvailable d = desired
                      then out\<lparr>o_State := ''ready'', o_Reason := ''replicas_ready''\<rparr>
                 else out)"

text \<open>
  The answers of the API: the status of a response with the document it decodes to. A request
  that fails is \<open>None\<close>. Of a list the code also looks at the continuation token, and the strict
  reader at whether the response was one complete document within its limit.
\<close>

record list_reply =
  lp_Status :: int
  lp_Decodes :: bool
  lp_Complete :: bool
  lp_Items :: "deployment list option"
  lp_Continue :: string

record kube =
  k_get :: "string \<Rightarrow> string \<Rightarrow> (int \<times> deployment option) option"
  k_list :: "string option \<Rightarrow> list_reply option"

definition Observe :: "kube \<Rightarrow> gotime \<Rightarrow> ('a) Entry_scheme \<Rightarrow> Observation" where
  "Observe k now e =
     (let out = unavailable now
      in case k_get k (e_Namespace e) (e_WorkloadName e) of
           None \<Rightarrow> out
         | Some (status, doc) \<Rightarrow>
             if status = 404 then out\<lparr>o_State := ''not_installed'', o_Reason := ''not_found''\<rparr>
             else if status = 401 \<or> status = 403 then out\<lparr>o_Reason := ''forbidden''\<rparr>
             else if status \<noteq> 200 then out
             else (case doc of
                     None \<Rightarrow> out\<lparr>o_Reason := ''invalid_response''\<rparr>
                   | Some d \<Rightarrow> observationFromDeployment now d))"

section \<open>Discovery\<close>

definition models_of :: "string \<Rightarrow> string list" where
  "models_of raw = (if raw = [] then [] else filter (\<lambda>p. p \<noteq> []) (map TrimSpace (split_on CHR '','' raw)))"

definition itemFromDeployment :: "gotime \<Rightarrow> deployment \<Rightarrow> Item option" where
  "itemFromDeployment now d =
     (if at_key (d_Labels d) ''apps.verdantflare.com/managed'' \<noteq> ''true'' then None
      else let name = at_key (d_Labels d) ''app.kubernetes.io/name'';
               appID = (if name = [] then d_Name d else name);
               groupID = at_key (d_Labels d) ''apps.verdantflare.com/group'';
               b = at_key (d_Labels d) ''apps.verdantflare.com/brand'';
               brand = (if b \<noteq> ''vf'' \<and> b \<noteq> ''minimax'' \<and> b \<noteq> ''github'' then ''github'' else b);
               v = at_key (d_Labels d) ''app.kubernetes.io/version'';
               ver = (if transitionVersion v then v else ''0.1.0'');
               dn = at_key (d_Annotations d) ''apps.verdantflare.com/display-name'';
               displayName = (if dn = [] then appID else dn);
               models = models_of (at_key (d_Annotations d) ''apps.verdantflare.com/models'');
               src = at_key (d_Annotations d) ''apps.verdantflare.com/source'';
               source = (if src = [] \<or> has_dot_dot src \<or> strip_prefix ''deploys/'' src = None then ''deploys/k8s/discovered.yaml'' else src);
               images = map (\<lambda>(n, i). \<lparr>im_Component = n, im_Image = i\<rparr>) (filter (\<lambda>(n, i). n \<noteq> [] \<and> i \<noteq> []) (d_Containers d))
           in if \<not> dnsName appID \<or> length appID > 63 then None
              else if \<not> ValidGroup groupID then None
              else if \<not> dnsName (d_Namespace d) \<or> length (d_Namespace d) > 63 \<or> \<not> dnsName (d_Name d) \<or> length (d_Name d) > 63 then None
              else if images = [] then None
              else Some (item_of
                     \<lparr>e_AppID = appID, e_DisplayName = displayName, e_GroupID = groupID, e_Brand = brand, e_SortOrder = 0, e_IconRef = [],
                      e_Description = [], e_Capabilities = [], e_DisabledReason = [], e_Helm = None, e_Models = Some models, e_Source = source,
                      e_Namespace = d_Namespace d, e_WorkloadName = d_Name d, e_Version = ver, e_Images = images\<rparr>
                     (if models = [] then ''not_required'' else ''unknown'') (observationFromDeployment now d)))"

definition defaultDiscoveryNamespaces :: "string list" where
  "defaultDiscoveryNamespaces = [''verdantflare-app'', ''verdantflare-station'', ''verdantflare-video'', ''verdantflare-image'',
     ''verdantflare-music'', ''verdantflare-speech'', ''verdantflare-comfyui'', ''verdantflare-blender'', ''verdantflare-google'',
     ''verdantflare-chatgpt'', ''verdantflare-grok'']"

fun namespaces_loop :: "string list \<Rightarrow> string list \<Rightarrow> string list" where
  "namespaces_loop seen [] = []"
| "namespaces_loop seen (part # parts) =
     (let ns = TrimSpace part
      in if ns = [] \<or> \<not> dnsName ns \<or> length ns > 63 \<or> ns \<in> set seen then namespaces_loop seen parts
         else ns # namespaces_loop (ns # seen) parts)"

definition DiscoveryNamespaces :: "string \<Rightarrow> string list" where
  "DiscoveryNamespaces raw =
     (let out = namespaces_loop [] (split_on CHR '','' raw) in if out \<noteq> [] then out else defaultDiscoveryNamespaces)"

text \<open>Append the items whose application has not been seen.\<close>

fun unseen_apps :: "string list \<Rightarrow> Item list \<Rightarrow> string list \<times> Item list" where
  "unseen_apps seen [] = (seen, [])"
| "unseen_apps seen (it # items) =
     (if e_AppID it \<in> set seen then unseen_apps seen items
      else let (seen', out) = unseen_apps (e_AppID it # seen) items in (seen', it # out))"

definition decodeDeploymentList :: "gotime \<Rightarrow> list_reply \<Rightarrow> Item list option" where
  "decodeDeploymentList now r =
     (if \<not> lp_Decodes r then None
      else Some (snd (unseen_apps [] (List.map_filter (itemFromDeployment now) (case lp_Items r of None \<Rightarrow> [] | Some ds \<Rightarrow> ds)))))"

fun discover_in :: "kube \<Rightarrow> gotime \<Rightarrow> string list \<Rightarrow> string list \<Rightarrow> Item list" where
  "discover_in k now seen [] = []"
| "discover_in k now seen (ns # nss) =
     (case k_list k (Some ns) of
        None \<Rightarrow> discover_in k now seen nss
      | Some r \<Rightarrow>
          if lp_Status r \<noteq> 200 then discover_in k now seen nss
          else (case decodeDeploymentList now r of
                  None \<Rightarrow> discover_in k now seen nss
                | Some items \<Rightarrow> let (seen', out) = unseen_apps seen items in out @ discover_in k now seen' nss))"

definition Discover :: "kube \<Rightarrow> string \<Rightarrow> gotime \<Rightarrow> Item list option" where
  "Discover k env_namespaces now =
     (case k_list k None of
        Some r \<Rightarrow> if lp_Status r = 200 then decodeDeploymentList now r
                  else Some (discover_in k now [] (DiscoveryNamespaces env_namespaces))
      | None \<Rightarrow> Some (discover_in k now [] (DiscoveryNamespaces env_namespaces)))"

fun snapshot_items :: "gotime \<Rightarrow> string list \<Rightarrow> deployment list \<Rightarrow> Item list option" where
  "snapshot_items now seen [] = Some []"
| "snapshot_items now seen (d # ds) =
     (case itemFromDeployment now d of
        None \<Rightarrow> snapshot_items now seen ds
      | Some item \<Rightarrow>
          if target_of item \<in> set seen then None
          else let v = at_key (d_Labels d) ''app.kubernetes.io/version'';
                   item' = item\<lparr>e_Version := (if transitionVersion v then v else [])\<rparr>
               in map_option (\<lambda>items. item' # items) (snapshot_items now (target_of item # seen) ds))"

definition DiscoverSnapshot :: "kube \<Rightarrow> gotime \<Rightarrow> Item list option" where
  "DiscoverSnapshot k now =
     (case k_list k None of
        None \<Rightarrow> None
      | Some r \<Rightarrow>
          if lp_Status r \<noteq> 200 then None
          else if \<not> lp_Decodes r then None
          else (case lp_Items r of
                  None \<Rightarrow> None
                | Some ds \<Rightarrow> if \<not> lp_Complete r \<or> lp_Continue r \<noteq> [] \<or> length ds > 1000 then None
                             else snapshot_items now [] ds))"

section \<open>The readers\<close>

text \<open>
  A service: its entries and its reader, which for the Kubernetes reader also discovers. The
  historical discovery and the strict one are two functions of it; \<open>None\<close> is a service without
  discovery.
\<close>

record catalog_service =
  cs_entries :: "Entry list"
  cs_reader :: "(Entry \<Rightarrow> Observation) option"
  cs_discover :: "Item list option option"
  cs_strict :: "Item list option option"

definition observe :: "catalog_service \<Rightarrow> gotime \<Rightarrow> Entry \<Rightarrow> Item" where
  "observe s now e =
     item_of e (if e_Models e = None \<or> e_Models e = Some [] then ''not_required'' else ''unknown'')
       (case cs_reader s of None \<Rightarrow> unavailable now | Some read_entry \<Rightarrow> read_entry e)"

fun index_of :: "string \<Rightarrow> Item list \<Rightarrow> nat option" where
  "index_of app [] = None"
| "index_of app (it # items) = (if e_AppID it = app then Some 0 else map_option Suc (index_of app items))"

text \<open>\<open>seen\<close> keeps the last index of an application, which is its only one in the registered entries.\<close>

definition last_index_of :: "string \<Rightarrow> Item list \<Rightarrow> nat option" where
  "last_index_of app items = map_option (\<lambda>j. length items - 1 - j) (index_of app (rev items))"

fun merge_discovered :: "string \<Rightarrow> Item list \<Rightarrow> Item list \<Rightarrow> Item list" where
  "merge_discovered grp out [] = out"
| "merge_discovered grp out (dyn # dyns) =
     merge_discovered grp
       (case last_index_of (e_AppID dyn) out of
          Some idx \<Rightarrow>
            if o_State (i_Deployment (out ! idx)) = ''not_installed'' \<or> o_State (i_Deployment (out ! idx)) = ''unknown''
            then out[idx := (out ! idx)\<lparr>i_Deployment := i_Deployment dyn\<rparr>] else out
        | None \<Rightarrow> if grp = [] \<or> e_GroupID dyn = grp then out @ [dyn] else out) dyns"

definition catalog_List :: "catalog_service \<Rightarrow> gotime \<Rightarrow> string \<Rightarrow> Item list" where
  "catalog_List s now grp =
     (let out = map (observe s now) (filter (\<lambda>e. grp = [] \<or> e_GroupID e = grp) (cs_entries s))
      in case cs_discover s of
           Some (Some dyns) \<Rightarrow> merge_discovered grp out dyns
         | _ \<Rightarrow> out)"

definition discovered :: "catalog_service \<Rightarrow> string \<Rightarrow> Item option" where
  "discovered s i = (case cs_discover s of Some (Some dyns) \<Rightarrow> find (\<lambda>d. e_AppID d = i) dyns | _ \<Rightarrow> None)"

definition catalog_Get :: "catalog_service \<Rightarrow> gotime \<Rightarrow> string \<Rightarrow> Item option" where
  "catalog_Get s now i =
     (case find_entry (cs_entries s) i of
        Some e \<Rightarrow>
          (let it = observe s now e
           in if o_State (i_Deployment it) = ''not_installed'' \<or> o_State (i_Deployment it) = ''unknown''
              then case discovered s i of None \<Rightarrow> Some it | Some d \<Rightarrow> Some (it\<lparr>i_Deployment := i_Deployment d\<rparr>)
              else Some it)
      | None \<Rightarrow> discovered s i)"

text \<open>The merge of \<open>Snapshot\<close>: \<open>known\<close> maps the target of every item to its application.\<close>

fun merge_snapshot :: "(string \<times> string) list \<Rightarrow> Item list \<Rightarrow> SnapshotItem list option" where
  "merge_snapshot known [] = Some []"
| "merge_snapshot known (item # items) =
     (case map_of known (target_of item) of
        Some app \<Rightarrow> if app \<noteq> e_AppID item then None else merge_snapshot known items
      | None \<Rightarrow> map_option (\<lambda>out. snapshot_of item False # out) (merge_snapshot ((target_of item, e_AppID item) # known) items))"

definition snapshot_key :: "SnapshotItem \<Rightarrow> string" where
  "snapshot_key i = e_AppID i @ ''/'' @ e_Namespace i @ ''/'' @ e_WorkloadName i"

text \<open>
  \<open>canceled\<close> is the state of the context. \<open>sort.Slice\<close> leaves the order of equal keys open; the keys
  are distinct.
\<close>

definition Snapshot :: "catalog_service option \<Rightarrow> bool \<Rightarrow> gotime \<Rightarrow> SnapshotItem list option" where
  "Snapshot service canceled now =
     (case service of
        None \<Rightarrow> None
      | Some s \<Rightarrow>
          if canceled then None
          else (let items = map (\<lambda>e. snapshot_of (observe s now e) True) (cs_entries s);
                    merged = (case (case cs_strict s of None \<Rightarrow> cs_discover s | strict \<Rightarrow> strict) of
                                None \<Rightarrow> Some items
                              | Some None \<Rightarrow> None
                              | Some (Some found) \<Rightarrow>
                                  map_option (\<lambda>out. items @ out) (merge_snapshot (rev (map (\<lambda>i. (target_of i, e_AppID i)) items)) found))
                in case merged of
                     None \<Rightarrow> None
                   | Some all \<Rightarrow> if length all > 1000 then None else Some (sort_key snapshot_key all)))"

section \<open>Management\<close>

definition ProjectManagement :: "string \<Rightarrow> string \<Rightarrow> ('a) Item_scheme \<Rightarrow> ('a) Item_scheme" where
  "ProjectManagement station org i =
     (let d = i_Deployment i
      in i\<lparr>i_Deployment := d\<lparr>o_ManagementStatus :=
           (if o_UID d = [] then ''unknown''
            else if at_key (o_Ownership d) ''station.verdantflare.com/station-id'' = station \<and>
                    at_key (o_Ownership d) ''station.verdantflare.com/organization-id'' = org \<and>
                    at_key (o_Ownership d) ''station.verdantflare.com/app-id'' = e_AppID i \<and>
                    at_key (o_Ownership d) ''station.verdantflare.com/template-hash'' \<noteq> [] then ''managed''
            else if list_ex (\<lambda>(key, _). strip_prefix ''station.verdantflare.com/'' key \<noteq> None) (o_Ownership d) then ''foreign''
            else ''unmanaged'')\<rparr>\<rparr>)"

section \<open>Registered entries are unique\<close>

lemma item_of_sel [simp]:
  "target_of (item_of e m obs) = target_of e" "e_AppID (item_of e m obs) = e_AppID e" "i_Deployment (item_of e m obs) = obs"
  by (cases e; simp add: item_of_def Entry.defs Item.defs target_of_def)+

lemma snapshot_of_sel [simp]:
  "target_of (snapshot_of i b) = target_of i" "e_AppID (snapshot_of i b) = e_AppID i" "si_Registered (snapshot_of i b) = b"
  "i_Deployment (snapshot_of i b) = i_Deployment i"
  by (cases i; simp add: snapshot_of_def Item.defs SnapshotItem.defs target_of_def)+

lemma load_entries_iff:
  "load_entries ids targets es = None \<longleftrightarrow> list_all valid_entry es \<and> list_all valid_images es \<and> distinct (map e_AppID es) \<and> distinct (map target_of es) \<and>
     e_AppID ` set es \<inter> set ids = {} \<and> target_of ` set es \<inter> set targets = {}"
  by (induction es arbitrary: ids targets) auto

lemma Load_registered:
  assumes "Load file = Inr es"
  shows "list_all valid_entry es" "distinct (map e_AppID es)" "distinct (map target_of es)" "es \<noteq> []" "length es \<le> 100"
  using assms by (auto simp: Load_def load_entries_iff split: option.split_asm prod.split_asm if_split_asm)

section \<open>The strict snapshot\<close>

lemma merge_snapshot_new:
  "merge_snapshot known items = Some out \<Longrightarrow>
     list_all (\<lambda>i. \<not> si_Registered i) out \<and> distinct (map target_of out) \<and> target_of ` set out \<inter> fst ` set known = {}"
proof (induction items arbitrary: known out)
  case (Cons item items)
  show ?case
  proof (cases "map_of known (target_of item)")
    case None
    then obtain out' where o: "out = snapshot_of item False # out'" "merge_snapshot ((target_of item, e_AppID item) # known) items = Some out'"
      using Cons(2) by auto
    moreover have "target_of item \<notin> fst ` set known" using None by (simp add: map_of_eq_None_iff)
    ultimately show ?thesis using Cons(1) [OF o(2)] by auto
  qed (use Cons in \<open>auto split: if_split_asm\<close>)
qed simp

lemma merge_snapshot_all:
  "merge_snapshot known items = Some out \<Longrightarrow> item \<in> set items \<Longrightarrow>
     map_of known (target_of item) = Some (e_AppID item) \<or> (\<exists>i \<in> set out. target_of i = target_of item \<and> e_AppID i = e_AppID item)"
proof (induction items arbitrary: known out)
  case (Cons x items)
  show ?case
  proof (cases "map_of known (target_of x)")
    case None
    then obtain out' where o: "out = snapshot_of x False # out'" "merge_snapshot ((target_of x, e_AppID x) # known) items = Some out'"
      using Cons(2) by auto
    show ?thesis using Cons(1) [OF o(2)] Cons(3) o(1) by (cases "item = x"; cases "target_of item = target_of x") auto
  qed (use Cons in \<open>auto split: if_split_asm\<close>)
qed simp

text \<open>
  A strict snapshot loses and invents nothing: it has at most 1,000 items in the order of their
  keys, no workload twice, exactly the registered entries as registered items with the
  observation of their own workload, and every discovered workload under its application, as an
  unregistered item unless it is the workload of a registered one.
\<close>

theorem Snapshot_lossless:
  assumes "Load file = Inr (cs_entries s)" "Snapshot (Some s) canceled now = Some out"
  shows "length out \<le> 1000 \<and> sorted (map snapshot_key out) \<and> distinct (map target_of out) \<and>
    {i \<in> set out. si_Registered i} = (\<lambda>e. snapshot_of (observe s now e) True) ` set (cs_entries s) \<and>
    (\<forall>found item. cs_strict s = Some (Some found) \<and> item \<in> set found \<longrightarrow>
       (\<exists>i \<in> set out. target_of i = target_of item \<and> e_AppID i = e_AppID item))"
proof -
  let ?items = "map (\<lambda>e. snapshot_of (observe s now e) True) (cs_entries s)"
  let ?known = "rev (map (\<lambda>i. (target_of i, e_AppID i)) ?items)"
  have t: "map target_of ?items = map target_of (cs_entries s)" by (simp add: observe_def comp_def)
  let ?src = "case cs_strict s of None \<Rightarrow> cs_discover s | strict \<Rightarrow> strict"
  let ?merged = "case ?src of None \<Rightarrow> Some ?items | Some None \<Rightarrow> None
    | Some (Some found) \<Rightarrow> map_option (\<lambda>out. ?items @ out) (merge_snapshot ?known found)"
  obtain all where all: "?merged = Some all" "length all \<le> 1000" "out = sort_key snapshot_key all"
  proof -
    have "(case ?merged of None \<Rightarrow> None | Some all \<Rightarrow> if length all > 1000 then None else Some (sort_key snapshot_key all)) = Some out"
      using assms(2) by (simp add: Snapshot_def Let_def split: if_split_asm)
    then show ?thesis using that by (cases ?merged) (simp_all split: if_split_asm)
  qed
  obtain new where new: "all = ?items @ new"
    "new = [] \<and> ?src = None \<or> (\<exists>found. ?src = Some (Some found) \<and> merge_snapshot ?known found = Some new)"
  proof (cases ?src)
    case (Some m)
    then obtain found where found: "m = Some found" using all(1) by (cases m) simp_all
    then obtain new where "merge_snapshot ?known found = Some new" "all = ?items @ new"
      using all(1) Some by (cases "merge_snapshot ?known found") simp_all
    then show ?thesis using that Some found by blast
  qed (use that all(1) in simp)
  have k: "fst ` set ?known = target_of ` set ?items" by force
  have n: "list_all (\<lambda>i. \<not> si_Registered i) new" "distinct (map target_of new)" "target_of ` set new \<inter> target_of ` set ?items = {}"
    using new(2) merge_snapshot_new [of ?known _ new] unfolding k by auto
  have s: "set out = set ?items \<union> set new" using all(3) new(1) by simp
  have d: "distinct (map target_of (?items @ new))"
    using n Load_registered(3) [OF assms(1)] unfolding map_append distinct_append t [symmetric] set_map by blast
  then have "distinct (map target_of out)" unfolding all(3) new(1) distinct_map by (simp add: distinct_map)
  moreover have "{i \<in> set out. si_Registered i} = set ?items" using n(1) unfolding s by (auto simp: list_all_iff)
  moreover have "\<exists>i \<in> set out. target_of i = target_of item \<and> e_AppID i = e_AppID item"
    if f: "cs_strict s = Some (Some found)" "item \<in> set found" for found item
  proof -
    have m: "merge_snapshot ?known found = Some new" using new(2) f(1) by simp
    have "\<exists>i \<in> set ?items. target_of i = target_of item \<and> e_AppID i = e_AppID item"
      if "map_of ?known (target_of item) = Some (e_AppID item)"
      using map_of_SomeD [OF that] by auto
    then show ?thesis using merge_snapshot_all [OF m f(2)] unfolding s by blast
  qed
  ultimately show ?thesis using all by auto
qed

end
