(* ===== verification/App_Facts.thy ===== *)
theory App_Facts
  imports Catalog Identity
begin

text \<open>
  The AppCenter facts (\<^verbatim>\<open>internal/appcenter/facts.go\<close>): one card per installation, registered
  application and observed workload, projected for one user from a scope-filtered snapshot of the
  database and of the catalog. The SHA-256 digests of JSON texts are parameters, one function per
  type of value that is digested; each returns the text \<open>sha256:\<close> with its hexadecimal digits.
\<close>

section \<open>Data\<close>

record Scope =
  sc_UserID :: string
  sc_OrganizationID :: string
  sc_StationID :: string
  sc_AuthorizationEpoch :: string

record SourceStatus =
  ss_Source :: string
  ss_Quality :: string
  ss_Revision :: "string option"
  ss_ObservedAt :: "gotime option"
  ss_ReasonCode :: "string option"

record Installation =
  fi_InstallationID :: string
  fi_Revision :: int
  fi_AppVersion :: string
  fi_State :: string
  fi_LastOperationID :: "string option"

record Record = Installation +
  rc_AppID :: string

record Service =
  sv_Quality :: string
  sv_State :: string
  sv_ObservedAt :: "gotime option"
  sv_ReasonCode :: "string option"
  sv_ObservationKey :: "string option"
  sv_WorkloadUID :: "string option"

record Operation =
  fo_Quality :: string
  fo_Blocking :: bool
  fo_OperationID :: "string option"
  fo_Protocol :: "string option"
  fo_Status :: "string option"
  fo_Phase :: "string option"
  fo_CanRead :: bool
  fo_UpdatedAt :: "gotime option"

record OperationRecord =
  or_AppID :: string
  or_OperationID :: string
  or_UserID :: string
  or_OrganizationID :: string
  or_Protocol :: string
  or_Status :: string
  or_Phase :: string
  or_UpdatedAt :: gotime

record Candidate =
  ca_Kind :: string
  ca_Enabled :: bool
  ca_ReasonCode :: "string option"
  ca_AppVersion :: string
  ca_ReleaseDigest :: "string option"
  ca_ExpectedWorkloadUID :: "string option"

record Lifecycle =
  li_PolicyRevision :: string
  li_Candidates :: "Candidate list"

record Fact =
  fa_CardKey :: string
  fa_AppID :: string
  fa_Origin :: string
  fa_Catalog :: "Item option"
  fa_Installation :: "Installation option"
  fa_InstallationQuality :: string
  fa_Service :: Service
  fa_Operation :: Operation
  fa_Lifecycle :: Lifecycle

record Facts =
  fs_SchemaVersion :: int
  fs_RequestID :: string
  fs_Scope :: Scope
  fs_Revision :: string
  fs_GeneratedAt :: gotime
  fs_Sources :: "SourceStatus list"
  fs_Items :: "Fact list"

record digests =
  dg_epoch :: "string \<times> int \<times> int \<times> string list \<times> string list \<Rightarrow> string"
  dg_strings :: "string list \<Rightarrow> string"
  dg_text :: "string \<Rightarrow> string"
  dg_facts :: "Facts \<Rightarrow> string"

datatype facts_error = FDenied | FLimit | FUnavailable | FConflict

section \<open>Projections\<close>

definition Text :: "string \<Rightarrow> string option" where
  "Text value = (if value = [] then None else Some value)"

definition ActorScope :: "digests \<Rightarrow> IdentityContext \<Rightarrow> Scope" where
  "ActorScope dg user =
     \<lparr>sc_UserID = ic_UserID user, sc_OrganizationID = ic_OrganizationID user, sc_StationID = ic_StationID user,
      sc_AuthorizationEpoch = drop 7 (dg_epoch dg (ic_SessionID user, ic_RevocationVersion user, ic_PolicyVersion user,
        remdups_adj (sort (ic_Roles user)), remdups_adj (sort (ic_Scopes user))))\<rparr>"

definition canRead :: "IdentityContext \<Rightarrow> bool" where
  "canRead user \<longleftrightarrow> ic_UserID user \<noteq> [] \<and> ic_OrganizationID user \<noteq> [] \<and> ic_StationID user \<noteq> [] \<and>
     ''admin'' \<in> set (ic_Roles user) \<and> ''app:read'' \<in> set (ic_Scopes user)"

definition noService :: "string \<Rightarrow> Service" where
  "noService reason = \<lparr>sv_Quality = ''unknown'', sv_State = ''unknown'', sv_ObservedAt = None, sv_ReasonCode = Text reason,
     sv_ObservationKey = None, sv_WorkloadUID = None\<rparr>"

definition conflict_service :: "string \<Rightarrow> Service" where
  "conflict_service reason = (noService reason)\<lparr>sv_Quality := ''conflict''\<rparr>"

definition idle :: Operation where
  "idle = \<lparr>fo_Quality = ''known'', fo_Blocking = False, fo_OperationID = None, fo_Protocol = None, fo_Status = None, fo_Phase = None,
     fo_CanRead = False, fo_UpdatedAt = None\<rparr>"

definition observationKey :: "digests \<Rightarrow> Item \<Rightarrow> string" where
  "observationKey dg item = (if o_UID (i_Deployment item) = [] then []
     else ''obs:'' @ drop 7 (dg_strings dg [e_Namespace item, e_WorkloadName item, o_UID (i_Deployment item)]))"

definition observation :: "digests \<Rightarrow> Item \<Rightarrow> Service" where
  "observation dg item =
     (let d = i_Deployment item;
          state = (if o_State d = ''not_installed'' then ''absent'' else o_State d);
          known = state \<noteq> ''unknown'' \<and> state \<in> {''absent'', ''ready'', ''stopped'', ''starting'', ''stopping'', ''degraded''} \<and> o_ObservedAt d \<noteq> 0
      in \<lparr>sv_Quality = (if known then ''known'' else ''unknown''), sv_State = (if known then state else ''unknown''),
          sv_ObservedAt = (if o_ObservedAt d \<noteq> 0 then Some (o_ObservedAt d) else None),
          sv_ReasonCode = Text (o_Reason d), sv_ObservationKey = Text (observationKey dg item), sv_WorkloadUID = Text (o_UID d)\<rparr>)"

definition scopedItem :: "IdentityContext \<Rightarrow> Item \<Rightarrow> Item" where
  "scopedItem user item = ProjectManagement (ic_StationID user) (ic_OrganizationID user) item"

definition own :: "IdentityContext \<Rightarrow> OperationRecord \<Rightarrow> bool" where
  "own user r \<longleftrightarrow> or_UserID r = ic_UserID user \<and> or_OrganizationID r = ic_OrganizationID user"

text \<open>The loop of \<open>opFor\<close>: \<open>None\<close> when a second active operation ends it.\<close>

fun op_loop :: "string \<Rightarrow> IdentityContext \<Rightarrow> OperationRecord option \<Rightarrow> OperationRecord option \<Rightarrow> OperationRecord list
    \<Rightarrow> (OperationRecord option \<times> OperationRecord option) option" where
  "op_loop app user active terminal [] = Some (active, terminal)"
| "op_loop app user active terminal (r # rs) =
     (if or_AppID r \<noteq> app then op_loop app user active terminal rs
      else if or_Status r \<noteq> ''succeeded'' \<and> or_Status r \<noteq> ''failed'' then
        (if active \<noteq> None then None else op_loop app user (Some r) terminal rs)
      else if own user r \<and> (case terminal of None \<Rightarrow> True
             | Some t \<Rightarrow> or_UpdatedAt r > or_UpdatedAt t \<or> or_UpdatedAt r = or_UpdatedAt t \<and> or_OperationID r < or_OperationID t)
           then op_loop app user active (Some r) rs
      else op_loop app user active terminal rs)"

definition opFor :: "string \<Rightarrow> OperationRecord list \<Rightarrow> IdentityContext \<Rightarrow> Operation" where
  "opFor app records user =
     (case op_loop app user None None records of
        None \<Rightarrow> idle\<lparr>fo_Quality := ''conflict'', fo_Blocking := True\<rparr>
      | Some (active, terminal) \<Rightarrow>
          (let result = (if active \<noteq> None then idle\<lparr>fo_Blocking := True\<rparr> else idle);
               chosen = (if active \<noteq> None then active else terminal)
           in case chosen of
                None \<Rightarrow> result
              | Some r \<Rightarrow>
                  if own user r then
                    result\<lparr>fo_OperationID := Text (or_OperationID r), fo_Protocol := Text (or_Protocol r), fo_Status := Text (or_Status r),
                      fo_Phase := Text (or_Phase r), fo_CanRead := True, fo_UpdatedAt := Some (or_UpdatedAt r)\<rparr>
                  else result))"

definition hidden :: Observation where
  "hidden = \<lparr>o_UID = [], o_ManagementStatus = ''foreign'', o_Ownership = [], o_State = ''unknown'', o_Reason = ''forbidden'',
     o_ObservedAt = 0, o_Desired = None, o_Ready = None, o_Images = []\<rparr>"

abbreviation managed :: "Item \<Rightarrow> string" where
  "managed item \<equiv> o_ManagementStatus (i_Deployment item)"

definition publicCatalog :: "Item \<Rightarrow> Item" where
  "publicCatalog item = (if managed item = ''foreign'' then item\<lparr>i_Deployment := hidden\<rparr> else item)"

section \<open>Installations\<close>

text \<open>The first loop: the installations that count are well formed and have distinct ids.\<close>

definition present :: "Record list \<Rightarrow> Record list" where
  "present installations = filter (\<lambda>r. fi_State r \<noteq> ''removed'') installations"

definition valid_record :: "Record \<Rightarrow> bool" where
  "valid_record r \<longleftrightarrow> fi_InstallationID r \<noteq> [] \<and> rc_AppID r \<noteq> [] \<and> \<not> fi_Revision r < 1 \<and> fi_State r \<in> {''pending'', ''installed'', ''failed''}"

definition installedApps :: "Record list \<Rightarrow> string \<Rightarrow> nat" where
  "installedApps installations app = length (filter (\<lambda>r. rc_AppID r = app) (present installations))"

text \<open>The loop over the catalog for one installation: catalog metadata, service, matches and used indexes.\<close>

record workload_match =
  wm_Catalog :: "Item option"
  wm_Service :: Service
  wm_matches :: nat
  wm_used :: "nat list"

fun bind_workloads :: "digests \<Rightarrow> IdentityContext \<Rightarrow> Record \<Rightarrow> nat \<Rightarrow> SnapshotItem list \<Rightarrow> workload_match \<Rightarrow> workload_match" where
  "bind_workloads dg user r index [] m = m"
| "bind_workloads dg user r index (source # rest) m =
     bind_workloads dg user r (index + 1) rest
       (if e_AppID source \<noteq> rc_AppID r then m
        else let candidate = scopedItem user (Item.truncate source);
                 m1 = (if si_Registered source \<and> wm_Catalog m = None then m\<lparr>wm_Catalog := Some (publicCatalog candidate)\<rparr> else m)
             in if at_key (o_Ownership (i_Deployment candidate)) ''station.verdantflare.com/installation-id'' \<noteq> fi_InstallationID r then m1
                else m1\<lparr>wm_used := index # wm_used m1, wm_matches := wm_matches m1 + 1,
                       wm_Service := (if managed candidate \<noteq> ''managed'' then conflict_service ''WORKLOAD_BINDING_CONFLICT''
                                      else observation dg candidate)\<rparr>)"

text \<open>\<open>states\<close> is the runtime projection, a nil map being \<open>None\<close>.\<close>

definition installation_service ::
  "(string \<rightharpoonup> Service) option \<Rightarrow> nat \<Rightarrow> Record \<Rightarrow> workload_match \<Rightarrow> Service" where
  "installation_service states installed r m =
     (let s1 = (if wm_matches m > 1 then conflict_service ''MULTIPLE_WORKLOAD_BINDINGS'' else wm_Service m);
          s2 = (case states of None \<Rightarrow> s1
                | Some f \<Rightarrow> (case f (fi_InstallationID r) of None \<Rightarrow> noService ''NOT_SYNCED'' | Some state \<Rightarrow> state))
      in if installed > 1 then s2\<lparr>sv_Quality := ''conflict'', sv_ReasonCode := Text ''MULTIPLE_INSTALLATIONS''\<rparr> else s2)"

definition no_lifecycle :: Lifecycle where
  "no_lifecycle = \<lparr>li_PolicyRevision = [], li_Candidates = []\<rparr>"

definition LastOperationIDValue :: "Record \<Rightarrow> string" where
  "LastOperationIDValue r = (case fi_LastOperationID r of None \<Rightarrow> [] | Some i \<Rightarrow> i)"

definition installation_fact ::
  "digests \<Rightarrow> IdentityContext \<Rightarrow> SnapshotItem list \<Rightarrow> OperationRecord list \<Rightarrow> (string \<rightharpoonup> Service) option \<Rightarrow> nat \<Rightarrow> Record \<Rightarrow> Fact \<times> nat list" where
  "installation_fact dg user catalogItems operations states installed r =
     (let m = bind_workloads dg user r 0 catalogItems
                \<lparr>wm_Catalog = None, wm_Service = noService ''WORKLOAD_BINDING_MISSING'', wm_matches = 0, wm_used = []\<rparr>;
          op = opFor (rc_AppID r) operations user;
          last = (if fo_CanRead op \<and> fo_OperationID op \<noteq> None \<and> fo_OperationID op = Some (LastOperationIDValue r) then fo_OperationID op else None)
      in (\<lparr>fa_CardKey = ''installation:'' @ fi_InstallationID r, fa_AppID = rc_AppID r, fa_Origin = ''installation'', fa_Catalog = wm_Catalog m,
           fa_Installation = Some ((Installation.truncate r)\<lparr>fi_LastOperationID := last\<rparr>),
           fa_InstallationQuality = (if installed > 1 then ''conflict'' else ''known''),
           fa_Service = installation_service states installed r m, fa_Operation = op, fa_Lifecycle = no_lifecycle\<rparr>, wm_used m))"

section \<open>Catalog cards\<close>

definition catalog_fact :: "digests \<Rightarrow> IdentityContext \<Rightarrow> OperationRecord list \<Rightarrow> bool \<Rightarrow> Item \<Rightarrow> Fact" where
  "catalog_fact dg user operations registered item =
     (let base = \<lparr>fa_CardKey = ''catalog:'' @ e_AppID item, fa_AppID = e_AppID item, fa_Origin = ''catalog'',
                  fa_Catalog = (if registered then Some item else None), fa_Installation = None, fa_InstallationQuality = ''known'',
                  fa_Service = observation dg item, fa_Operation = opFor (e_AppID item) operations user, fa_Lifecycle = no_lifecycle\<rparr>
      in if managed item = ''foreign'' then
           base\<lparr>fa_Catalog := map_option publicCatalog (fa_Catalog base), fa_Service := conflict_service ''FOREIGN_WORKLOAD''\<rparr>
         else if o_UID (i_Deployment item) \<noteq> [] then base\<lparr>fa_CardKey := observationKey dg item, fa_Origin := ''observation''\<rparr>
         else base)"

text \<open>The loop over the items no installation uses; \<open>seen\<close> are the applications that have a catalog card.\<close>

fun catalog_facts ::
  "digests \<Rightarrow> IdentityContext \<Rightarrow> OperationRecord list \<Rightarrow> (string \<Rightarrow> nat) \<Rightarrow> nat list \<Rightarrow> nat \<Rightarrow> string list \<Rightarrow> SnapshotItem list \<Rightarrow> Fact list option" where
  "catalog_facts dg user operations installed used index seen [] = Some []"
| "catalog_facts dg user operations installed used index seen (source # rest) =
     (let item = scopedItem user (Item.truncate source);
          fact = catalog_fact dg user operations (si_Registered source) item;
          continue = (\<lambda>seen. catalog_facts dg user operations installed used (index + 1) seen rest)
      in if index \<in> set used then continue seen
         else if \<not> si_Registered source \<and> managed item = ''foreign'' then continue seen
         else if installed (e_AppID item) > 0 \<and> (o_UID (i_Deployment item) = [] \<or> managed item = ''foreign'') then continue seen
         else if managed item = ''foreign'' \<or> o_UID (i_Deployment item) \<noteq> [] then map_option (\<lambda>fs. fact # fs) (continue seen)
         else if \<not> si_Registered source then continue seen
         else if e_AppID item \<in> set seen then None
         else map_option (\<lambda>fs. fact # fs) (continue (e_AppID item # seen)))"

section \<open>The snapshot\<close>

definition lifecycle_of :: "digests \<Rightarrow> IdentityContext \<Rightarrow> Fact \<Rightarrow> Lifecycle" where
  "lifecycle_of dg user item =
     (let v = (case fa_Installation item of Some i \<Rightarrow> fi_AppVersion i
               | None \<Rightarrow> (case fa_Catalog item of Some c \<Rightarrow> e_Version c | None \<Rightarrow> []));
          reason = (if fo_Blocking (fa_Operation item) then ''OPERATION_IN_PROGRESS''
                    else if ''app:manage'' \<notin> set (ic_Scopes user) then ''PERMISSION_DENIED'' else ''ACTION_UNSUPPORTED'');
          candidate = (\<lambda>kind v. \<lparr>ca_Kind = kind, ca_Enabled = False, ca_ReasonCode = Text reason, ca_AppVersion = v, ca_ReleaseDigest = None,
                         ca_ExpectedWorkloadUID = None\<rparr>);
          upgrades = (case (fa_Installation item, fa_Catalog item) of
                        (Some i, Some c) \<Rightarrow> if fi_State i = ''installed'' \<and> e_Helm c \<noteq> None \<and> VersionNewer (e_Version c) (fi_AppVersion i)
                                             then [candidate ''upgrade'' (e_Version c)] else []
                      | _ \<Rightarrow> [])
      in \<lparr>li_PolicyRevision = dg_text dg ''appcenter-constrained-commands-pending-v1'',
          li_Candidates = (if v = [] \<or> fa_Origin item = ''observation'' then []
            else map (\<lambda>kind. candidate kind v) [''install'', ''start'', ''stop'', ''restart'', ''delete''] @ upgrades)\<rparr>)"

definition source_of :: "gotime \<Rightarrow> Fact list \<Rightarrow> string \<Rightarrow> SourceStatus" where
  "source_of now items name =
     (let partial = name = ''observations'' \<and> list_ex (\<lambda>i. sv_Quality (fa_Service i) \<noteq> ''known'') items
      in \<lparr>ss_Source = name, ss_Quality = (if partial then ''unknown'' else ''known''), ss_Revision = None, ss_ObservedAt = Some now,
          ss_ReasonCode = (if partial then Text ''OBSERVATIONS_PARTIAL'' else None)\<rparr>)"

text \<open>
  What is digested: a copy without request, clock and observation times. The copy is a JSON round
  trip, which drops the ownership annotations.
\<close>

definition timeless :: "Fact \<Rightarrow> Fact" where
  "timeless i = i\<lparr>fa_Service := (fa_Service i)\<lparr>sv_ObservedAt := None\<rparr>, fa_Operation := (fa_Operation i)\<lparr>fo_UpdatedAt := None\<rparr>,
     fa_Catalog := map_option (\<lambda>c. c\<lparr>i_Deployment := (i_Deployment c)\<lparr>o_ObservedAt := 0, o_Ownership := []\<rparr>\<rparr>) (fa_Catalog i)\<rparr>"

definition semanticRevision :: "digests \<Rightarrow> Facts \<Rightarrow> string" where
  "semanticRevision dg f =
     dg_facts dg (f\<lparr>fs_RequestID := [], fs_GeneratedAt := 0, fs_Revision := [],
       fs_Sources := map (\<lambda>s. s\<lparr>ss_ObservedAt := None, ss_Revision := None\<rparr>) (fs_Sources f), fs_Items := map timeless (fs_Items f)\<rparr>)"

definition RecomputeRevision :: "digests \<Rightarrow> Facts \<Rightarrow> Facts" where
  "RecomputeRevision dg f =
     (let rev = semanticRevision dg f
      in f\<lparr>fs_Revision := rev, fs_Sources := map (\<lambda>s. s\<lparr>ss_Revision := Text rev\<rparr>) (fs_Sources f)\<rparr>)"

definition base_items ::
  "digests \<Rightarrow> IdentityContext \<Rightarrow> SnapshotItem list \<Rightarrow> Record list \<Rightarrow> OperationRecord list \<Rightarrow> (string \<rightharpoonup> Service) option \<Rightarrow> Fact list option" where
  "base_items dg user catalogItems installations operations states =
     (let installed = installedApps installations;
          pairs = map (\<lambda>r. installation_fact dg user catalogItems operations states (installed (rc_AppID r)) r) (present installations)
      in map_option (\<lambda>fs. map fst pairs @ fs)
           (catalog_facts dg user operations installed (concat (map snd pairs)) 0 [] catalogItems))"

definition finish_facts :: "digests \<Rightarrow> IdentityContext \<Rightarrow> string \<Rightarrow> gotime \<Rightarrow> Fact list \<Rightarrow> Facts" where
  "finish_facts dg user request now items =
     (let done = sort_key fa_CardKey (map (\<lambda>i. i\<lparr>fa_Lifecycle := lifecycle_of dg user i\<rparr>) items)
      in RecomputeRevision dg
           \<lparr>fs_SchemaVersion = 1, fs_RequestID = request, fs_Scope = ActorScope dg user, fs_Revision = [], fs_GeneratedAt = now,
            fs_Sources = map (source_of now done) [''catalog'', ''installations'', ''observations'', ''operations''], fs_Items = done\<rparr>)"

definition buildFacts ::
  "digests \<Rightarrow> IdentityContext \<Rightarrow> string \<Rightarrow> gotime \<Rightarrow> SnapshotItem list \<Rightarrow> Record list \<Rightarrow> OperationRecord list \<Rightarrow> (string \<rightharpoonup> Service) option
     \<Rightarrow> facts_error + Facts" where
  "buildFacts dg user request now catalogItems installations operations states =
     (if \<not> canRead user then Inl FDenied
      else if length catalogItems > 1000 \<or> length installations > 1000 \<or> length operations > 1000 then Inl FLimit
      else if now = 0 then Inl FUnavailable
      else if \<not> seen_loop valid_record fi_InstallationID [] (present installations) then Inl FConflict
      else case base_items dg user catalogItems installations operations states of
             None \<Rightarrow> Inl FConflict
           | Some items \<Rightarrow> if length items > 1000 then Inl FLimit else Inr (finish_facts dg user request now items))"

definition Build where
  "Build dg user request now catalogItems installations operations =
     buildFacts dg user request now catalogItems installations operations None"

definition BuildState where
  "BuildState dg user request now catalogItems installations operations states =
     buildFacts dg user request now catalogItems installations operations (Some states)"

end
