(* ===== verification/App_Facts_Properties.thy ===== *)
theory App_Facts_Properties
  imports App_Facts
begin

text \<open>
  What the AppCenter facts disclose: where every card comes from, that neither foreign workloads nor
  operations of other users are visible in them, their bounds and the stability of their revision.
\<close>

section \<open>Where facts come from\<close>

lemma op_loop_from:
  "op_loop app user a t rs = Some (a', t') \<Longrightarrow>
     (a' = a \<or> (\<exists>r \<in> set rs. a' = Some r \<and> or_AppID r = app)) \<and> (t' = t \<or> (\<exists>r \<in> set rs. t' = Some r \<and> or_AppID r = app))"
  by (induction app user a t rs rule: op_loop.induct) (auto split: if_split_asm)

lemma opFor_private:
  assumes "fo_OperationID (opFor app rs user) = Some i"
  shows "\<exists>r \<in> set rs. own user r \<and> or_AppID r = app \<and> or_OperationID r = i"
proof -
  obtain a t where l: "op_loop app user None None rs = Some (a, t)"
    using assms by (cases "op_loop app user None None rs") (auto simp: opFor_def idle_def)
  then obtain r where r: "(if a \<noteq> None then a else t) = Some r" "own user r" "Text (or_OperationID r) = Some i"
    using assms by (cases "if a \<noteq> None then a else t") (auto simp: opFor_def idle_def Let_def split: if_split_asm)
  have "r \<in> set rs \<and> or_AppID r = app" using op_loop_from [OF l] r(1) by (auto split: if_split_asm)
  with r show ?thesis by (auto simp: Text_def split: if_split_asm)
qed

lemma item_truncate_sel [simp]: "i_Deployment (Item.truncate s) = i_Deployment s" "e_AppID (Item.truncate s) = e_AppID s"
  by (cases s; simp add: Item.defs)+

lemma scopedItem_sel [simp]: "o_UID (i_Deployment (scopedItem user i)) = o_UID (i_Deployment i)" "e_AppID (scopedItem user i) = e_AppID i"
  by (simp_all add: scopedItem_def ProjectManagement_def Let_def)

lemma service_uid [simp]:
  "sv_WorkloadUID (noService x) = None" "sv_WorkloadUID (conflict_service x) = None"
  "sv_WorkloadUID (observation dg it) = Text (o_UID (i_Deployment it))"
  by (simp_all add: noService_def conflict_service_def observation_def Let_def)

lemma catalog_facts_from:
  "catalog_facts dg user ops installed used n seen sources = Some fs \<Longrightarrow> x \<in> set fs \<Longrightarrow>
     \<exists>source \<in> set sources. x = catalog_fact dg user ops (si_Registered source) (scopedItem user (Item.truncate source))"
proof (induction sources arbitrary: n seen fs)
  case (Cons source sources)
  let ?x = "catalog_fact dg user ops (si_Registered source) (scopedItem user (Item.truncate source))"
  obtain fs' seen' where f: "fs = fs' \<or> fs = ?x # fs'" "catalog_facts dg user ops installed used (n + 1) seen' sources = Some fs'"
    using Cons(2) by (auto simp: Let_def split: if_split_asm)
  then show ?case using Cons(1) [OF f(2)] Cons(3) by auto
qed simp

lemma base_items_from:
  assumes "base_items dg user sources installations ops states = Some items" "x \<in> set items"
  shows "(\<exists>r. x = fst (installation_fact dg user sources ops states (installedApps installations (rc_AppID r)) r)) \<or>
    (\<exists>source \<in> set sources. x = catalog_fact dg user ops (si_Registered source) (scopedItem user (Item.truncate source)))"
  using assms by (auto simp: base_items_def Let_def dest!: catalog_facts_from)

lemma buildFacts_items:
  assumes "buildFacts dg user request now sources installations ops states = Inr f"
  obtains items where "base_items dg user sources installations ops states = Some items" "length items \<le> 1000"
    "f = finish_facts dg user request now items"
  using assms by (auto simp: buildFacts_def not_less split: if_split_asm option.split_asm)

lemma finish_facts_items:
  "fs_Items (finish_facts dg user request now items) = sort_key fa_CardKey (map (\<lambda>i. i\<lparr>fa_Lifecycle := lifecycle_of dg user i\<rparr>) items)"
  by (simp add: finish_facts_def RecomputeRevision_def Let_def)

lemma buildFacts_item:
  assumes "buildFacts dg user request now sources installations ops states = Inr f" "x \<in> set (fs_Items f)"
  obtains y where "x = y\<lparr>fa_Lifecycle := lifecycle_of dg user y\<rparr>"
    "(\<exists>r. y = fst (installation_fact dg user sources ops states (installedApps installations (rc_AppID r)) r)) \<or>
     (\<exists>source \<in> set sources. y = catalog_fact dg user ops (si_Registered source) (scopedItem user (Item.truncate source)))"
proof -
  obtain items where i: "base_items dg user sources installations ops states = Some items" "f = finish_facts dg user request now items"
    using buildFacts_items [OF assms(1)] by blast
  then obtain y where "y \<in> set items" "x = y\<lparr>fa_Lifecycle := lifecycle_of dg user y\<rparr>"
    using assms(2) by (auto simp: finish_facts_items)
  then show ?thesis using that base_items_from [OF i(1)] by blast
qed

section \<open>What a foreign workload contributes\<close>

text \<open>
  A source is foreign to a user when its workload carries marks of another owner, and it binds an
  installation when it claims its application and id. It concerns the user when it is registered,
  not foreign, or binds one of the user's installations.
\<close>

definition foreign_to :: "IdentityContext \<Rightarrow> SnapshotItem \<Rightarrow> bool" where
  "foreign_to user s \<longleftrightarrow> managed (scopedItem user (Item.truncate s)) = ''foreign''"

definition binds :: "SnapshotItem \<Rightarrow> Record \<Rightarrow> bool" where
  "binds s r \<longleftrightarrow> e_AppID s = rc_AppID r \<and>
     at_key (o_Ownership (i_Deployment s)) ''station.verdantflare.com/installation-id'' = fi_InstallationID r"

definition binds_any :: "Record list \<Rightarrow> SnapshotItem \<Rightarrow> bool" where
  "binds_any installations s \<longleftrightarrow> list_ex (binds s) (present installations)"

definition concerns :: "IdentityContext \<Rightarrow> Record list \<Rightarrow> SnapshotItem \<Rightarrow> bool" where
  "concerns user installations s \<longleftrightarrow> si_Registered s \<or> \<not> foreign_to user s \<or> binds_any installations s"

text \<open>
  Two sources that must look alike to the user: the same one, or two foreign ones with the same
  bindings, which if registered are the same application with any deployment.
\<close>

definition alike :: "IdentityContext \<Rightarrow> Record list \<Rightarrow> SnapshotItem \<Rightarrow> SnapshotItem \<Rightarrow> bool" where
  "alike user installations s s' \<longleftrightarrow> s' = s \<or>
     foreign_to user s \<and> foreign_to user s' \<and> si_Registered s' = si_Registered s \<and>
     list_all (\<lambda>r. binds s' r = binds s r) (present installations) \<and>
     (si_Registered s \<longrightarrow> s' = s\<lparr>i_Deployment := i_Deployment s'\<rparr>)"

lemma scopedItem_ownership [simp]: "o_Ownership (i_Deployment (scopedItem user i)) = o_Ownership (i_Deployment i)"
  by (simp add: scopedItem_def ProjectManagement_def Let_def)

lemma public_deployment:
  assumes "foreign_to user s" "foreign_to user s'" "s' = s\<lparr>i_Deployment := d\<rparr>"
  shows "publicCatalog (scopedItem user (Item.truncate s')) = publicCatalog (scopedItem user (Item.truncate s))"
  using assms by (cases s) (simp add: foreign_to_def publicCatalog_def scopedItem_def ProjectManagement_def Item.defs Let_def)

subsection \<open>Binding the workloads\<close>

text \<open>One source of the loop over the catalog, without the index.\<close>

definition bind_step where
  "bind_step dg user r source = (\<lambda>(c, sv, n).
     if e_AppID source \<noteq> rc_AppID r then (c, sv, n)
     else let candidate = scopedItem user (Item.truncate source);
              c1 = (if si_Registered source \<and> c = None then Some (publicCatalog candidate) else c)
          in if \<not> binds source r then (c1, sv, n)
             else (c1, if managed candidate \<noteq> ''managed'' then conflict_service ''WORKLOAD_BINDING_CONFLICT'' else observation dg candidate, n + 1))"

definition core :: "workload_match \<Rightarrow> Item option \<times> Service \<times> nat" where
  "core m = (wm_Catalog m, wm_Service m, wm_matches m)"

lemma bind_workloads_core: "core (bind_workloads dg user r n sources m) = fold (bind_step dg user r) sources (core m)"
proof (induction sources arbitrary: n m)
  case (Cons source sources)
  show ?case
    unfolding bind_workloads.simps fold_Cons comp_apply Cons.IH
    by (rule arg_cong [where f = "fold (bind_step dg user r) sources"])
      (simp add: bind_step_def core_def binds_def Let_def)
qed simp

lemma bind_workloads_used:
  "set (wm_used (bind_workloads dg user r n sources m)) = set (wm_used m) \<union> {n + i |i. i < length sources \<and> binds (sources ! i) r}"
proof (induction sources arbitrary: n m)
  case (Cons source sources)
  have split: "{n + i |i. i < length (source # sources) \<and> binds ((source # sources) ! i) r} =
      (if binds source r then {n} else {}) \<union> {n + 1 + i |i. i < length sources \<and> binds (sources ! i) r}"
    by (force simp: less_Suc_eq_0_disj)
  show ?case unfolding bind_workloads.simps Cons.IH split
    by (simp add: binds_def Let_def)
qed simp

lemma bind_step_unconcerned:
  "\<not> si_Registered s \<Longrightarrow> \<not> binds s r \<Longrightarrow> bind_step dg user r s x = x"
  by (cases x) (simp add: bind_step_def Let_def)

lemma bind_step_alike:
  assumes "alike user installations s s'" "r \<in> set (present installations)"
  shows "bind_step dg user r s' x = bind_step dg user r s x"
proof (cases "s' = s")
  case False
  then have f: "foreign_to user s" "foreign_to user s'" "si_Registered s' = si_Registered s" "binds s' r = binds s r"
    "si_Registered s \<longrightarrow> s' = s\<lparr>i_Deployment := i_Deployment s'\<rparr>"
    using assms by (auto simp: alike_def list_all_iff)
  obtain c sv n where x: "x = (c, sv, n)" by (cases x)
  show ?thesis
  proof (cases "si_Registered s")
    case True
    have "e_AppID s' = e_AppID s" using f(5) True by (metis Entry.select_convs(1) Item.surjective Item.update_convs(2) SnapshotItem.surjective)
    moreover have "publicCatalog (scopedItem user (Item.truncate s')) = publicCatalog (scopedItem user (Item.truncate s))"
      using public_deployment f True by blast
    ultimately show ?thesis using f unfolding x bind_step_def by (simp add: foreign_to_def Let_def)
  next
    case no: False
    have "bind_step dg user r z x = (if binds z r then (c, conflict_service ''WORKLOAD_BINDING_CONFLICT'', n + 1) else x)"
      if "foreign_to user z" "\<not> si_Registered z" for z
      using that unfolding x bind_step_def by (auto simp: foreign_to_def binds_def Let_def)
    then show ?thesis using f no by simp
  qed
qed simp

lemma fold_filter_neutral: "(\<And>x a. x \<in> set xs \<Longrightarrow> \<not> P x \<Longrightarrow> f x a = a) \<Longrightarrow> fold f (filter P xs) a = fold f xs a"
  by (induction xs arbitrary: a) auto

lemma fold_list_all2: "list_all2 R xs ys \<Longrightarrow> (\<And>x y a. R x y \<Longrightarrow> f y a = f x a) \<Longrightarrow> fold f ys a = fold f xs a"
  by (induction xs ys arbitrary: a rule: list_all2_induct) auto

text \<open>Two catalogs that agree on what concerns the user.\<close>

definition same_for_user :: "IdentityContext \<Rightarrow> Record list \<Rightarrow> SnapshotItem list \<Rightarrow> SnapshotItem list \<Rightarrow> bool" where
  "same_for_user user installations sources sources' \<longleftrightarrow>
     list_all2 (alike user installations) (filter (concerns user installations) sources) (filter (concerns user installations) sources')"

lemma bind_fold_same:
  assumes "same_for_user user installations sources sources'" "r \<in> set (present installations)"
  shows "fold (bind_step dg user r) sources' x = fold (bind_step dg user r) sources x"
proof -
  have "fold (bind_step dg user r) (filter (concerns user installations) zs) x = fold (bind_step dg user r) zs x" for zs
    using assms(2) bind_step_unconcerned by (intro fold_filter_neutral) (fastforce simp: concerns_def binds_any_def list_ex_iff)
  then show ?thesis using fold_list_all2 [OF assms(1) [unfolded same_for_user_def]] bind_step_alike [OF _ assms(2)] by metis
qed

lemma installation_fact_same:
  assumes "same_for_user user installations sources sources'" "r \<in> set (present installations)"
  shows "fst (installation_fact dg user sources' ops states n r) = fst (installation_fact dg user sources ops states n r)"
proof -
  define m0 where "m0 = \<lparr>wm_Catalog = None, wm_Service = noService ''WORKLOAD_BINDING_MISSING'', wm_matches = 0, wm_used = []\<rparr>"
  have "core (bind_workloads dg user r 0 sources' m0) = core (bind_workloads dg user r 0 sources m0)"
    unfolding bind_workloads_core by (rule bind_fold_same [OF assms])
  then show ?thesis
    unfolding installation_fact_def m0_def [symmetric] by (simp add: core_def installation_service_def Let_def split: option.split)
qed

subsection \<open>The cards of the catalog\<close>

text \<open>The loop over the items no installation uses, with the use of an item in place of its index.\<close>

fun cards :: "digests \<Rightarrow> IdentityContext \<Rightarrow> OperationRecord list \<Rightarrow> (string \<Rightarrow> nat) \<Rightarrow> (SnapshotItem \<Rightarrow> bool) \<Rightarrow> string list \<Rightarrow> SnapshotItem list
    \<Rightarrow> Fact list option" where
  "cards dg user ops installed used seen [] = Some []"
| "cards dg user ops installed used seen (source # rest) =
     (let item = scopedItem user (Item.truncate source);
          fact = catalog_fact dg user ops (si_Registered source) item
      in if used source then cards dg user ops installed used seen rest
         else if \<not> si_Registered source \<and> managed item = ''foreign'' then cards dg user ops installed used seen rest
         else if installed (e_AppID item) > 0 \<and> (o_UID (i_Deployment item) = [] \<or> managed item = ''foreign'') then cards dg user ops installed used seen rest
         else if managed item = ''foreign'' \<or> o_UID (i_Deployment item) \<noteq> [] then map_option (\<lambda>fs. fact # fs) (cards dg user ops installed used seen rest)
         else if \<not> si_Registered source then cards dg user ops installed used seen rest
         else if e_AppID item \<in> set seen then None
         else map_option (\<lambda>fs. fact # fs) (cards dg user ops installed used (e_AppID item # seen) rest))"

lemma catalog_facts_cards:
  "(\<And>i. i < length sources \<Longrightarrow> n + i \<in> set used \<longleftrightarrow> P (sources ! i)) \<Longrightarrow>
     catalog_facts dg user ops installed used n seen sources = cards dg user ops installed P seen sources"
proof (induction sources arbitrary: n seen)
  case (Cons source sources)
  have u: "n \<in> set used \<longleftrightarrow> P source" using Cons.prems [of 0] by simp
  have "catalog_facts dg user ops installed used (n + 1) seen' sources = cards dg user ops installed P seen' sources" for seen'
    by (rule Cons.IH) (use Cons.prems [of "Suc _"] in simp)
  then show ?case by (simp only: catalog_facts.simps cards.simps Let_def u)
qed simp

lemma cards_concerned:
  "cards dg user ops installed (binds_any installations) seen (filter (concerns user installations) sources) =
   cards dg user ops installed (binds_any installations) seen sources"
proof (induction sources arbitrary: seen)
  case (Cons source sources)
  show ?case
  proof (cases "concerns user installations source")
    case True
    then show ?thesis by (simp only: filter.simps if_True cards.simps Let_def Cons.IH)
  next
    case False
    then have "\<not> si_Registered source" "managed (scopedItem user (Item.truncate source)) = ''foreign''" by (simp_all add: concerns_def foreign_to_def)
    then show ?thesis using False Cons.IH by (simp only: filter.simps if_False cards.simps Let_def) simp
  qed
qed simp

lemma catalog_fact_foreign:
  assumes "foreign_to user s" "foreign_to user s'" "s' = s\<lparr>i_Deployment := d\<rparr>" "si_Registered s"
  shows "catalog_fact dg user ops True (scopedItem user (Item.truncate s')) = catalog_fact dg user ops True (scopedItem user (Item.truncate s))"
  using assms public_deployment [OF assms(1-3)] by (cases s) (simp add: catalog_fact_def foreign_to_def Item.defs Let_def)

lemma cards_alike:
  assumes "list_all2 (alike user installations) xs ys"
  shows "cards dg user ops installed (binds_any installations) seen ys = cards dg user ops installed (binds_any installations) seen xs"
  using assms
proof (induction xs ys arbitrary: seen rule: list_all2_induct)
  case (Cons x xs y ys)
  show ?case
  proof (cases "y = x")
    case True
    then show ?thesis by (simp only: cards.simps Let_def Cons.IH)
  next
    case False
    then have f: "foreign_to user x" "foreign_to user y" "si_Registered y = si_Registered x" "si_Registered x \<longrightarrow> y = x\<lparr>i_Deployment := i_Deployment y\<rparr>"
      and b: "binds_any installations y = binds_any installations x"
      using Cons(1) by (auto simp: alike_def binds_any_def list_all_iff list_ex_iff)
    note m = f(1,2) [unfolded foreign_to_def]
    show ?thesis
    proof (cases "si_Registered x")
      case True
      then have y: "y = x\<lparr>i_Deployment := i_Deployment y\<rparr>" using f(4) by blast
      have app: "e_AppID y = e_AppID x" by (subst y) simp
      have same: "catalog_fact dg user ops True (scopedItem user (Item.truncate y)) = catalog_fact dg user ops True (scopedItem user (Item.truncate x))"
        by (rule catalog_fact_foreign [OF f(1,2) y True])
      show ?thesis using True f(3) by (simp add: m b app same Cons.IH Let_def)
    next
      case no: False
      then show ?thesis using f(3) by (simp add: m b Cons.IH Let_def)
    qed
  qed
qed simp

lemma base_items_cards:
  "base_items dg user sources installations ops states =
     map_option (\<lambda>fs. map (\<lambda>r. fst (installation_fact dg user sources ops states (installedApps installations (rc_AppID r)) r)) (present installations) @ fs)
       (cards dg user ops (installedApps installations) (binds_any installations) [] sources)"
proof -
  define used where "used = concat (map (\<lambda>r. snd (installation_fact dg user sources ops states (installedApps installations (rc_AppID r)) r)) (present installations))"
  have "0 + i \<in> set used \<longleftrightarrow> binds_any installations (sources ! i)" if "i < length sources" for i
    using that by (auto simp: used_def installation_fact_def bind_workloads_used binds_any_def list_ex_iff Let_def)
  then have "catalog_facts dg user ops (installedApps installations) used 0 [] sources = cards dg user ops (installedApps installations) (binds_any installations) [] sources"
    by (rule catalog_facts_cards)
  then show ?thesis unfolding base_items_def Let_def used_def by (simp add: comp_def)
qed

text \<open>
  C10. The facts a user is shown say nothing of workloads of another owner. Take two catalogs that
  agree on what concerns the user: they may differ in any number of unregistered foreign workloads,
  present in one and not in the other, as long as these claim none of the user's installations, and
  at a registered application, or at a claim on such an installation, in everything about the
  foreign workload. The answers are the same, cards, revision and sources included. That a foreign
  workload stands at a registered application, or claims an installation of the user, is shown as
  a conflict; nothing else about it is.
\<close>

theorem facts_hide_foreign:
  assumes "same_for_user user installations sources sources'" and "length sources \<le> 1000" and "length sources' \<le> 1000"
  shows "buildFacts dg user request now sources' installations ops states = buildFacts dg user request now sources installations ops states"
proof -
  have "map (\<lambda>r. fst (installation_fact dg user sources' ops states (installedApps installations (rc_AppID r)) r)) (present installations) =
      map (\<lambda>r. fst (installation_fact dg user sources ops states (installedApps installations (rc_AppID r)) r)) (present installations)"
    using installation_fact_same [OF assms(1)] by simp
  moreover have "cards dg user ops (installedApps installations) (binds_any installations) [] sources' =
      cards dg user ops (installedApps installations) (binds_any installations) [] sources"
    using cards_alike [OF assms(1) [unfolded same_for_user_def]] by (simp only: cards_concerned)
  ultimately have "base_items dg user sources' installations ops states = base_items dg user sources installations ops states"
    by (simp only: base_items_cards)
  then show ?thesis using assms(2,3) by (simp add: buildFacts_def)
qed

text \<open>
  An operation is only named to the user who submitted it: every operation id in a card, as the
  current operation or as the last operation of an installation, is that of an operation of the
  same user in the same organization; others at most learn that changes are blocked.
\<close>

theorem facts_operations_private:
  assumes "buildFacts dg user request now sources installations ops states = Inr f" "x \<in> set (fs_Items f)"
    and "fo_OperationID (fa_Operation x) = Some i \<or> (\<exists>inst. fa_Installation x = Some inst \<and> fi_LastOperationID inst = Some i)"
  shows "\<exists>r \<in> set ops. own user r \<and> or_OperationID r = i"
proof -
  obtain y where y: "x = y\<lparr>fa_Lifecycle := lifecycle_of dg user y\<rparr>"
    "(\<exists>r. y = fst (installation_fact dg user sources ops states (installedApps installations (rc_AppID r)) r)) \<or>
     (\<exists>source \<in> set sources. y = catalog_fact dg user ops (si_Registered source) (scopedItem user (Item.truncate source)))"
    using buildFacts_item [OF assms(1,2)] by blast
  have "\<exists>app. fo_OperationID (opFor app ops user) = Some i"
  proof (cases "\<exists>r. y = fst (installation_fact dg user sources ops states (installedApps installations (rc_AppID r)) r)")
    case True
    then obtain r where r: "y = fst (installation_fact dg user sources ops states (installedApps installations (rc_AppID r)) r)" by blast
    have "fa_Operation y = opFor (rc_AppID r) ops user" unfolding r by (simp add: installation_fact_def Let_def)
    moreover have "fi_LastOperationID (the (fa_Installation y)) = Some i \<Longrightarrow> fo_OperationID (opFor (rc_AppID r) ops user) = Some i"
      unfolding r by (simp add: installation_fact_def Let_def split: if_split_asm)
    ultimately show ?thesis using assms(3) unfolding y(1) by (intro exI [of _ "rc_AppID r"]) auto
  next
    case False
    then obtain source :: SnapshotItem where "y = catalog_fact dg user ops (si_Registered source) (scopedItem user (Item.truncate source))" using y(2) by blast
    then have "fa_Installation y = None" "\<exists>app. fa_Operation y = opFor app ops user" by (auto simp: catalog_fact_def Let_def)
    then show ?thesis using assms(3) unfolding y(1) by auto
  qed
  then show ?thesis using opFor_private by blast
qed

text \<open>
  A snapshot has at most 1,000 cards, ordered by their keys, and is conservative: no command it
  offers is enabled, and a command that is offered while an operation blocks the application gives
  that as the reason.
\<close>

theorem facts_bounded:
  assumes "buildFacts dg user request now sources installations ops states = Inr f"
  shows "length (fs_Items f) \<le> 1000 \<and> sorted (map fa_CardKey (fs_Items f)) \<and>
    (\<forall>x \<in> set (fs_Items f). \<forall>c \<in> set (li_Candidates (fa_Lifecycle x)). \<not> ca_Enabled c \<and>
       (fo_Blocking (fa_Operation x) \<longrightarrow> ca_ReasonCode c = Some ''OPERATION_IN_PROGRESS''))"
proof -
  obtain items where i: "length items \<le> 1000" "f = finish_facts dg user request now items" using buildFacts_items [OF assms] by blast
  have "\<not> ca_Enabled c \<and> (fo_Blocking (fa_Operation y) \<longrightarrow> ca_ReasonCode c = Some ''OPERATION_IN_PROGRESS'')"
    if "c \<in> set (li_Candidates (lifecycle_of dg user y))" for c y
    using that by (auto simp: lifecycle_of_def Text_def Let_def split: option.split_asm if_split_asm)
  then show ?thesis using i by (auto simp: finish_facts_items)
qed

text \<open>
  The revision of a snapshot depends on its content only: built again later, for another request,
  from the same rows it has the same revision, so that a client that sees an unchanged revision
  has seen the same cards.
\<close>

theorem facts_revision_timeless:
  assumes "buildFacts dg user request now sources installations ops states = Inr f"
    and "buildFacts dg user request' now' sources installations ops states = Inr f'"
  shows "fs_Revision f' = fs_Revision f \<and> fs_Items f' = fs_Items f"
proof -
  obtain items where i: "base_items dg user sources installations ops states = Some items" "f = finish_facts dg user request now items"
    using buildFacts_items [OF assms(1)] by blast
  then have f': "f' = finish_facts dg user request' now' items" using buildFacts_items [OF assms(2)] by auto
  show ?thesis unfolding i(2) f'
    by (simp add: finish_facts_def RecomputeRevision_def semanticRevision_def source_of_def Let_def)
qed

section \<open>Witnesses\<close>

definition demo_entry :: Entry where
  "demo_entry = \<lparr>e_AppID = ''a'', e_DisplayName = ''A'', e_GroupID = ''video'', e_Brand = ''vf'', e_SortOrder = 0, e_IconRef = [], e_Description = [],
     e_Capabilities = [], e_DisabledReason = ''soon'', e_Helm = None, e_Models = Some [], e_Source = ''deploys/a'', e_Namespace = ''n'',
     e_WorkloadName = ''w'', e_Version = [], e_Images = [\<lparr>im_Component = ''c'', im_Image = ''i''\<rparr>]\<rparr>"

definition demo_foreign :: Observation where
  "demo_foreign = \<lparr>o_UID = ''uid'', o_ManagementStatus = [], o_Ownership = [(''station.verdantflare.com/station-id'', ''other'')], o_State = ''ready'',
     o_Reason = ''replicas_ready'', o_ObservedAt = 5, o_Desired = Some 1, o_Ready = Some 1, o_Images = []\<rparr>"

definition demo_catalog :: catalog_service where
  "demo_catalog = \<lparr>cs_entries = [demo_entry], cs_reader = Some (\<lambda>_. demo_foreign), cs_discover = None,
     cs_strict = Some (Some [item_of (demo_entry\<lparr>e_WorkloadName := ''v''\<rparr>) ''unknown'' demo_foreign])\<rparr>"

definition demo_user :: IdentityContext where
  "demo_user = \<lparr>ic_RequestID = ''q'', ic_StationID = ''s'', ic_SessionID = ''e'', ic_UserID = ''u'', ic_Username = ''n'', ic_OrganizationID = ''o'',
     ic_OrganizationName = ''o'', ic_Roles = [''admin''], ic_Scopes = [''app:read''], ic_IssuedAt = 0, ic_ExpiresAt = 0,
     ic_RevocationVersion = 0, ic_PolicyVersion = 0\<rparr>"

definition demo_digests :: digests where
  "demo_digests = \<lparr>dg_epoch = (\<lambda>_. ''sha256:e''), dg_strings = (\<lambda>_. ''sha256:s''), dg_text = (\<lambda>_. ''sha256:t''), dg_facts = (\<lambda>_. ''sha256:f'')\<rparr>"

definition demo_record :: Record where
  "demo_record = \<lparr>fi_InstallationID = ''i'', fi_Revision = 1, fi_AppVersion = ''1.0.0'', fi_State = ''installed'', fi_LastOperationID = Some ''x'', rc_AppID = ''b''\<rparr>"

definition demo_operation :: OperationRecord where
  "demo_operation = \<lparr>or_AppID = ''b'', or_OperationID = ''x'', or_UserID = ''u'', or_OrganizationID = ''o'', or_Protocol = ''p'', or_Status = ''running'',
     or_Phase = ''f'', or_UpdatedAt = 1\<rparr>"

definition demo_sources :: "SnapshotItem list" where
  "demo_sources = [snapshot_of (observe demo_catalog 5 demo_entry) True]"

text \<open>
  Another station's workload at a registered application, next to an unregistered one, and the same
  catalog with another deployment and no unregistered workload.
\<close>

definition demo_hidden :: "SnapshotItem list" where
  "demo_hidden = [snapshot_of (item_of (demo_entry\<lparr>e_AppID := ''secret''\<rparr>) ''unknown'' demo_foreign) False]"

definition demo_redacted :: "SnapshotItem list" where
  "demo_redacted = map (\<lambda>s. s\<lparr>i_Deployment := (i_Deployment s)\<lparr>o_UID := ''elsewhere'', o_State := ''stopped''\<rparr>\<rparr>) demo_sources"

declare Installation.defs [code]

lemma demo_same_for_user:
  "same_for_user demo_user [demo_record] (demo_sources @ demo_hidden) demo_redacted \<and>
   list_all (foreign_to demo_user) (demo_sources @ demo_hidden) \<and> demo_hidden \<noteq> [] \<and>
   \<not> isl (Build demo_digests demo_user ''r'' 7 demo_redacted [demo_record] [demo_operation])"
  by code_simp

theorem facts_hide_foreign_witness:
  "Build demo_digests demo_user ''r'' 7 demo_redacted [demo_record] [demo_operation] =
     Build demo_digests demo_user ''r'' 7 (demo_sources @ demo_hidden) [demo_record] [demo_operation]"
  unfolding Build_def by (rule facts_hide_foreign) (use demo_same_for_user in \<open>simp_all add: demo_sources_def demo_hidden_def demo_redacted_def\<close>)

end
