(* ===== verification/Market.thy ===== *)
theory Market
  imports Catalog
begin

text \<open>
  The application market (\<^verbatim>\<open>internal/catalog/market.go\<close>): the catalog service that takes its entries
  from Control, the cache of the versions it has looked up, the cache file and the fallback file,
  and the install grant. The transport is a parameter: what the HTTP client returns for a request
  (\<open>None\<close>: the request cannot be built or sent), and the YAML and JSON decoders on the bytes that
  were read. The clock of a lookup is a parameter too, by the key that is looked up; a refresh
  looks every key up at most once. The operations hold the service's lock when they read or write
  a field; they are modelled one at a time.
\<close>

section \<open>Data\<close>

record MarketConfig =
  mg_BaseURL :: string
  mg_Token :: string
  mg_CacheFile :: string
  mg_FallbackFile :: string

record marketYAMLItem =
  my_AppID :: string
  my_DisplayName :: string
  my_SortOrder :: "int option"
  my_GroupID :: string
  my_Brand :: string
  my_IconRef :: string
  my_Version :: string
  my_Description :: string
  my_Models :: "string list option"
  my_Capabilities :: "string list option"
  my_Images :: "Image list"
  my_Chart :: string
  my_ChartVersion :: string
  my_DisabledReason :: string

record marketAppsYAML =
  ma_SchemaVersion :: int
  ma_GeneratedAt :: string
  ma_Revision :: string
  ma_Apps :: "marketYAMLItem list"
  ma_Items :: "marketYAMLItem list"

record marketChart =
  ch_OCIRef :: string
  ch_Name :: string
  ch_Version :: string
  ch_AppVersion :: "string option"
  ch_ManifestDigest :: string
  ch_PackageDigest :: string
  ch_PackageSizeBytes :: int

record marketAppVersion =
  mv_AppID :: string
  mv_Version :: string
  mv_Chart :: "marketChart option"
  mv_Images :: "Image list"
  mv_Models :: "string list"
  mv_Capabilities :: "string list"

record grant =
  gr_AppID :: string
  gr_Version :: string
  gr_Allowed :: bool

datatype version_error = VTransport | VNotFound | VStatus int | VDecode | VMissCached

datatype market_error =
  BaseURLRequired
| NotConfigured
| MTransport
| MStatus int
| MRead
| InvalidYAML
| InvalidSchema
| InvalidAppID string
| UnsupportedGroup string string
| UnsupportedBrand string string
| DuplicateTarget string
| InvalidVersion string string
| FetchVersion string string version_error

text \<open>
  A request: the address and the headers \<open>Authorization\<close>, \<open>Accept\<close> and \<open>If-None-Match\<close>. A
  response: its status, the bytes its body gives, whether the body ended without an error, and its
  entity tag.
\<close>

record http_request =
  rq_URL :: string
  rq_Authorization :: "string option"
  rq_Accept :: string
  rq_IfNoneMatch :: "string option"

record http_reply =
  rp_Status :: int
  rp_Body :: string
  rp_Complete :: bool
  rp_ETag :: string

record market_env =
  me_Do :: "http_request \<Rightarrow> http_reply option"
  me_yaml :: "string \<Rightarrow> marketAppsYAML option"
  me_version :: "string \<Rightarrow> bool \<Rightarrow> marketAppVersion option"
  me_grant :: "string \<Rightarrow> bool \<Rightarrow> grant option"
  me_clock :: "string \<Rightarrow> gotime \<times> gotime"
  me_canceled :: "string \<Rightarrow> bool"
  me_marshal :: "Entry list \<Rightarrow> string option"
  me_unmarshal :: "string \<Rightarrow> Entry list option"
  me_mkdir :: bool
  me_write :: "string option option"
  me_rename :: bool
  me_fallback :: "(Entry list option \<times> bool) option"

text \<open>The service, with the contents of the cache file and of the file it is written through.\<close>

record market =
  mk_entries :: "Entry list"
  mk_cfg :: "MarketConfig option"
  mk_ETag :: string
  mk_versionCache :: "(string \<times> marketAppVersion) list"
  mk_versionMiss :: "(string \<times> gotime) list"
  mk_cacheFile :: "string option"
  mk_tmpFile :: "string option"

section \<open>Names\<close>

definition defaultWorkloadName :: "string \<Rightarrow> string" where
  "defaultWorkloadName appID =
     (if appID = ''tryon'' then ''tryon-mcp-server''
      else if appID \<in> {''image-mcp'', ''video-mcp'', ''music-mcp'', ''speech-mcp''} then appID @ ''-server''
      else if appID \<in> {''blender'', ''comfyui''} then appID @ ''-manager''
      else if appID \<in> {''project'', ''world'', ''resources'', ''network''} then ''app-'' @ appID
      else if appID \<in> {''higgsfield'', ''fal'', ''google'', ''chatgpt'', ''grok''} then appID @ ''-channel''
      else appID)"

definition defaultValuesSource :: "string \<Rightarrow> string" where
  "defaultValuesSource appID = ''deploys/k8s.dev.verdantflarehub.com/verdantflare-app/'' @ appID @ ''.yaml''"

text \<open>\<open>strings.TrimRight(s, "/")\<close>.\<close>

definition TrimRight_slash :: "string \<Rightarrow> string" where
  "TrimRight_slash s = rev (dropWhile (\<lambda>c. c = CHR ''/'') (rev s))"

text \<open>What follows the last \<^verbatim>\<open>-v\<close> of a string (\<open>strings.LastIndex\<close> and the slice after it).\<close>

fun after_last_v :: "string \<Rightarrow> string option" where
  "after_last_v (a # b # cs) =
     (case after_last_v (b # cs) of
        Some r \<Rightarrow> Some r
      | None \<Rightarrow> if a = CHR ''-'' \<and> b = CHR ''v'' then Some cs else None)"
| "after_last_v _ = None"

text \<open>\<open>url.PathEscape\<close>.\<close>

definition upper_hex :: "char \<Rightarrow> string" where
  "upper_hex c = (let n = of_char c :: nat in map (\<lambda>d. ''0123456789ABCDEF'' ! d) [n div 16, n mod 16])"

definition path_safe :: "char \<Rightarrow> bool" where
  "path_safe c \<longleftrightarrow> is_alnum c \<or> c \<in> set ''-_.~$&+=:@''"

definition PathEscape :: "string \<Rightarrow> string" where
  "PathEscape s = concat (map (\<lambda>c. if path_safe c then [c] else CHR ''%'' # upper_hex c) s)"

definition bearer :: "MarketConfig \<Rightarrow> string option" where
  "bearer cfg = (if mg_Token cfg = [] then None else Some (''Bearer '' @ mg_Token cfg))"

text \<open>Whether a body, read through \<open>io.LimitReader\<close>, ends without an error.\<close>

definition ends_well :: "int \<Rightarrow> http_reply \<Rightarrow> bool" where
  "ends_well n resp \<longleftrightarrow> rp_Complete resp \<or> int (length (rp_Body resp)) \<ge> n"

section \<open>Versions\<close>

definition marketVersionMissTTL :: duration where
  "marketVersionMissTTL = 10 * Minute"

definition marketVersionErrorTTL :: duration where
  "marketVersionErrorTTL = 30 * Second"

definition requestMarketVersion :: "market_env \<Rightarrow> MarketConfig \<Rightarrow> string \<Rightarrow> string \<Rightarrow> version_error + marketAppVersion" where
  "requestMarketVersion env cfg appID ver =
     (case me_Do env \<lparr>rq_URL = mg_BaseURL cfg @ ''/api/control/station/v2/apps/'' @ appID @ ''/versions/'' @ ver,
                      rq_Authorization = bearer cfg, rq_Accept = ''application/json'', rq_IfNoneMatch = None\<rparr> of
        None \<Rightarrow> Inl VTransport
      | Some resp \<Rightarrow>
          if rp_Status resp = 404 then Inl VNotFound
          else if rp_Status resp \<noteq> 200 then Inl (VStatus (rp_Status resp))
          else (case me_version env (limited (2 ^ 20) (rp_Body resp)) (ends_well (2 ^ 20) resp) of
                  None \<Rightarrow> Inl VDecode
                | Some out \<Rightarrow> Inr out))"

definition version_key_of :: "string \<Rightarrow> string \<Rightarrow> string" where
  "version_key_of appID ver = appID @ ''@'' @ ver"

definition remember_miss :: "string \<Rightarrow> gotime \<Rightarrow> market \<Rightarrow> market" where
  "remember_miss key until s =
     s\<lparr>mk_versionMiss := AList.update key until (if length (mk_versionMiss s) \<ge> 4096 then [] else mk_versionMiss s)\<rparr>"

text \<open>
  A lookup reads the caches under the read lock, makes its request without a lock, and stores the
  outcome under the write lock, whatever was stored in between. The two locked sections:
\<close>

definition cached_version :: "market_env \<Rightarrow> string \<Rightarrow> market \<Rightarrow> (version_error + marketAppVersion) option" where
  "cached_version env key s =
     (case map_of (mk_versionCache s) key of
        Some cached \<Rightarrow> Some (Inr cached)
      | None \<Rightarrow>
          if (case map_of (mk_versionMiss s) key of Some until \<Rightarrow> fst (me_clock env key) < until | None \<Rightarrow> False)
          then Some (Inl VMissCached) else None)"

definition store_version :: "market_env \<Rightarrow> string \<Rightarrow> version_error + marketAppVersion \<Rightarrow> market \<Rightarrow> market" where
  "store_version env key res s =
     (case res of
        Inl err \<Rightarrow>
          if me_canceled env key then s
          else remember_miss key (snd (me_clock env key) + (if err = VNotFound then marketVersionMissTTL else marketVersionErrorTTL)) s
      | Inr out \<Rightarrow>
          s\<lparr>mk_versionCache := AList.update key out (mk_versionCache s), mk_versionMiss := AList.delete key (mk_versionMiss s)\<rparr>)"

text \<open>
  The lookup as a whole, when no other request of the service runs between its sections; \<open>market_step\<close>
  below has the sections as steps of their own.
\<close>

definition fetchMarketVersion ::
  "market_env \<Rightarrow> MarketConfig \<Rightarrow> string \<Rightarrow> string \<Rightarrow> market \<Rightarrow> (version_error + marketAppVersion) \<times> market" where
  "fetchMarketVersion env cfg appID ver s =
     (let key = version_key_of appID ver
      in case cached_version env key s of
           Some res \<Rightarrow> (res, s)
         | None \<Rightarrow> (let res = requestMarketVersion env cfg appID ver in (res, store_version env key res s)))"

text \<open>The Helm release of a version, when its chart is complete and has both digests.\<close>

definition verified_chart :: "marketAppVersion \<Rightarrow> marketChart option" where
  "verified_chart v =
     (case mv_Chart v of
        None \<Rightarrow> None
      | Some c \<Rightarrow> if ch_OCIRef c \<noteq> [] \<and> ch_Version c \<noteq> [] \<and> sha256_pattern (ch_ManifestDigest c) \<and> sha256_pattern (ch_PackageDigest c)
                  then Some c else None)"

definition helm_of :: "string \<Rightarrow> marketAppVersion \<Rightarrow> Helm option" where
  "helm_of appID v =
     map_option (\<lambda>c. \<lparr>he_OCIRef = ch_OCIRef c, he_ChartName = (if ch_Name c = [] then appID else ch_Name c), he_ChartVersion = ch_Version c,
         he_ManifestDigest = ch_ManifestDigest c, he_PackageDigest = ch_PackageDigest c, he_PackageSizeBytes = ch_PackageSizeBytes c,
         he_TargetNamespace = ''verdantflare-app'', he_ReleaseName = appID, he_ValuesSource = defaultValuesSource appID\<rparr>)
       (verified_chart v)"

definition verified_helm :: "Helm \<Rightarrow> bool" where
  "verified_helm h \<longleftrightarrow> sha256_pattern (he_ManifestDigest h) \<and> sha256_pattern (he_PackageDigest h)"

text \<open>A nil service has no answer; the caller of this model tests for it.\<close>

definition ResolveHelm :: "market_env \<Rightarrow> string \<Rightarrow> string \<Rightarrow> market \<Rightarrow> Helm option \<times> market" where
  "ResolveHelm env appID appVersion s =
     (if appID = [] \<or> appVersion = [] then (None, s)
      else case find (\<lambda>e. e_AppID e = appID \<and> e_Version e = appVersion \<and> (case e_Helm e of None \<Rightarrow> False | Some h \<Rightarrow> verified_helm h)) (mk_entries s) of
             Some e \<Rightarrow> (e_Helm e, s)
           | None \<Rightarrow>
               (case mk_cfg s of
                  None \<Rightarrow> (None, s)
                | Some cfg \<Rightarrow>
                    (case fetchMarketVersion env cfg appID appVersion s of
                       (Inl _, s') \<Rightarrow> (None, s')
                     | (Inr v, s') \<Rightarrow> (helm_of appID v, s'))))"

section \<open>The refresh\<close>

text \<open>The reason the code gives an entry without a released chart, in UTF-8.\<close>

definition unreleased_reason :: string where
  "unreleased_reason = bytes [229, 176, 154, 230, 156, 170, 229, 143, 145, 229, 184, 131, 229, 143, 175, 229, 174, 137, 232, 163, 133, 231, 154, 132]
     @ '' Chart OCI '' @ bytes [231, 137, 136, 230, 156, 172]"

text \<open>The version and the reason of an item that is not looked up.\<close>

definition unreleased :: "string \<Rightarrow> string \<Rightarrow> Image list \<Rightarrow> string \<times> string" where
  "unreleased ver reason images =
     (let v1 = (if ver \<noteq> [] \<and> \<not> transitionVersion ver then [] else ver);
          v2 = (if v1 = [] \<and> images \<noteq> [] then
                  (case after_last_v (im_Image (hd images)) of
                     None \<Rightarrow> v1
                   | Some r \<Rightarrow> if transitionVersion (TrimSpace r) then TrimSpace r else v1)
                else v1)
      in (v2, if reason = [] then unreleased_reason else reason))"

definition item_images :: "string \<Rightarrow> marketYAMLItem \<Rightarrow> Image list" where
  "item_images appID item =
     (if my_Images item = [] then [\<lparr>im_Component = ''app'', im_Image = ''registry.verdantflare.ai/verdantflare/'' @ appID @ '':unreleased''\<rparr>]
      else my_Images item)"

definition item_order :: "nat \<Rightarrow> marketYAMLItem \<Rightarrow> int" where
  "item_order idx item =
     (case my_SortOrder item of Some n \<Rightarrow> if n \<ge> 0 \<and> n \<le> 1000000 then n else 100 + int idx | None \<Rightarrow> 100 + int idx)"

definition market_entry :: "nat \<Rightarrow> marketYAMLItem \<Rightarrow> string \<Rightarrow> string \<Rightarrow> Helm option \<Rightarrow> Entry" where
  "market_entry idx item ver reason helm =
     (let appID = TrimSpace (my_AppID item); name = TrimSpace (my_DisplayName item)
      in \<lparr>e_AppID = appID, e_DisplayName = (if name = [] then appID else name), e_GroupID = TrimSpace (my_GroupID item),
          e_Brand = TrimSpace (my_Brand item), e_SortOrder = item_order idx item, e_IconRef = TrimSpace (my_IconRef item),
          e_Description = TrimSpace (my_Description item),
          e_Capabilities = (case my_Capabilities item of None \<Rightarrow> [] | Some cs \<Rightarrow> cs), e_DisabledReason = reason, e_Helm = helm,
          e_Models = Some (case my_Models item of None \<Rightarrow> [] | Some ms \<Rightarrow> ms), e_Source = defaultValuesSource appID,
          e_Namespace = ''verdantflare-app'', e_WorkloadName = defaultWorkloadName appID, e_Version = ver, e_Images = item_images appID item\<rparr>)"

text \<open>The checks of an item before its version, with the ids and targets seen so far.\<close>

definition item_error :: "string list \<Rightarrow> string list \<Rightarrow> marketYAMLItem \<Rightarrow> market_error option" where
  "item_error ids targets item =
     (let appID = TrimSpace (my_AppID item); groupID = TrimSpace (my_GroupID item); brand = TrimSpace (my_Brand item);
          target = ''verdantflare-app/'' @ defaultWorkloadName appID
      in if \<not> dnsName appID \<or> length appID > 63 \<or> appID \<in> set ids then Some (InvalidAppID appID)
         else if \<not> ValidGroup groupID then Some (UnsupportedGroup groupID appID)
         else if \<not> ValidBrand brand then Some (UnsupportedBrand brand appID)
         else if target \<in> set targets then Some (DuplicateTarget target)
         else None)"

definition item_release ::
  "market_env \<Rightarrow> MarketConfig \<Rightarrow> marketYAMLItem \<Rightarrow> market \<Rightarrow> (market_error + string \<times> string \<times> Helm option) \<times> market" where
  "item_release env cfg item s =
     (let appID = TrimSpace (my_AppID item); ver = TrimSpace (my_Version item); reason = TrimSpace (my_DisabledReason item)
      in if ver \<noteq> [] \<and> reason = [] then
           if \<not> transitionVersion ver then (Inl (InvalidVersion ver appID), s)
           else (case fetchMarketVersion env cfg appID ver s of
                   (Inl err, s') \<Rightarrow> (Inl (FetchVersion appID ver err), s')
                 | (Inr v, s') \<Rightarrow> (Inr (ver, reason, helm_of appID v), s'))
         else let (ver', reason') = unreleased ver reason (item_images appID item) in (Inr (ver', reason', None), s))"

fun market_entries ::
  "market_env \<Rightarrow> MarketConfig \<Rightarrow> nat \<Rightarrow> string list \<Rightarrow> string list \<Rightarrow> marketYAMLItem list \<Rightarrow> market
     \<Rightarrow> (market_error + Entry list) \<times> market" where
  "market_entries env cfg idx ids targets [] s = (Inr [], s)"
| "market_entries env cfg idx ids targets (item # items) s =
     (case item_error ids targets item of
        Some err \<Rightarrow> (Inl err, s)
      | None \<Rightarrow>
          (case item_release env cfg item s of
             (Inl err, s') \<Rightarrow> (Inl err, s')
           | (Inr (ver, reason, helm), s') \<Rightarrow>
               (let entry = market_entry idx item ver reason helm
                in case market_entries env cfg (idx + 1) (e_AppID entry # ids) (target_of entry # targets) items s' of
                     (Inl err, s'') \<Rightarrow> (Inl err, s'')
                   | (Inr entries, s'') \<Rightarrow> (Inr (if helm = None \<or> reason \<noteq> [] then entries else entry # entries), s''))))"

text \<open>The cache is written to a file beside it that then replaces it.\<close>

definition saveEntriesFile :: "market_env \<Rightarrow> Entry list \<Rightarrow> market \<Rightarrow> market" where
  "saveEntriesFile env entries s =
     (if \<not> me_mkdir env then s
      else case me_marshal env entries of
             None \<Rightarrow> s
           | Some raw \<Rightarrow>
               (case me_write env of
                  Some left \<Rightarrow> s\<lparr>mk_tmpFile := left\<rparr>
                | None \<Rightarrow> if me_rename env then s\<lparr>mk_cacheFile := Some raw, mk_tmpFile := None\<rparr> else s\<lparr>mk_tmpFile := Some raw\<rparr>))"

definition market_order :: "Entry \<Rightarrow> int \<times> string" where
  "market_order e = (e_SortOrder e, e_AppID e)"

definition market_items :: "market_env \<Rightarrow> http_reply \<Rightarrow> market_error + marketYAMLItem list" where
  "market_items env resp =
     (if \<not> ends_well (2 * 2 ^ 20) resp then Inl MRead
      else case me_yaml env (limited (2 * 2 ^ 20) (rp_Body resp)) of
             None \<Rightarrow> Inl InvalidYAML
           | Some doc \<Rightarrow>
               (let items = (if ma_Apps doc = [] then ma_Items doc else ma_Apps doc)
                in if ma_SchemaVersion doc \<noteq> 2 \<or> items = [] \<or> length items > 200 then Inl InvalidSchema else Inr items))"

definition publish_market :: "market_env \<Rightarrow> MarketConfig \<Rightarrow> http_reply \<Rightarrow> Entry list \<Rightarrow> market \<Rightarrow> market" where
  "publish_market env cfg resp entries s =
     (let sorted = sort_key market_order entries; tag = TrimSpace (rp_ETag resp);
          s1 = s\<lparr>mk_entries := sorted, mk_ETag := (if tag = [] then mk_ETag s else tag)\<rparr>
      in if mg_CacheFile cfg = [] then s1 else saveEntriesFile env sorted s1)"

definition RefreshMarket :: "market_env \<Rightarrow> market \<Rightarrow> market_error option \<times> market" where
  "RefreshMarket env s =
     (case mk_cfg s of
        None \<Rightarrow> (Some NotConfigured, s)
      | Some cfg \<Rightarrow>
          (case me_Do env \<lparr>rq_URL = mg_BaseURL cfg @ ''/api/control/station/v2/apps.yaml'', rq_Authorization = bearer cfg,
                           rq_Accept = ''application/yaml'',
                           rq_IfNoneMatch = (if mk_ETag s \<noteq> [] \<and> mk_entries s \<noteq> [] then Some (mk_ETag s) else None)\<rparr> of
             None \<Rightarrow> (Some MTransport, s)
           | Some resp \<Rightarrow>
               if rp_Status resp = 304 \<and> mk_entries s \<noteq> [] then (None, s)
               else if rp_Status resp \<noteq> 200 then (Some (MStatus (rp_Status resp)), s)
               else (case market_items env resp of
                       Inl err \<Rightarrow> (Some err, s)
                     | Inr items \<Rightarrow>
                         (case market_entries env cfg 0 [] [] items s of
                            (Inl err, s') \<Rightarrow> (Some err, s')
                          | (Inr entries, s') \<Rightarrow> (None, publish_market env cfg resp entries s')))))"

definition verifiedCatalogEntries :: "Entry list \<Rightarrow> Entry list" where
  "verifiedCatalogEntries entries = filter (\<lambda>e. e_Helm e \<noteq> None \<and> TrimSpace (e_DisabledReason e) = []) entries"

definition loadEntriesFile :: "market_env \<Rightarrow> string option \<Rightarrow> Entry list option" where
  "loadEntriesFile env file =
     (case file of
        None \<Rightarrow> None
      | Some raw \<Rightarrow> (case me_unmarshal env raw of Some (e # es) \<Rightarrow> Some (e # es) | _ \<Rightarrow> None))"

text \<open>
  At the start, with the contents of the cache file: a refresh, else the cache, else the fallback
  file, which \<open>Load\<close> of the catalog reads.
\<close>

definition LoadMarket :: "market_env \<Rightarrow> MarketConfig \<Rightarrow> string option \<Rightarrow> market_error + market" where
  "LoadMarket env cfg cached =
     (let baseURL = TrimRight_slash (TrimSpace (mg_BaseURL cfg));
          svc = \<lparr>mk_entries = [], mk_cfg = Some (cfg\<lparr>mg_BaseURL := baseURL\<rparr>), mk_ETag = [], mk_versionCache = [], mk_versionMiss = [],
                 mk_cacheFile = cached, mk_tmpFile = None\<rparr>
      in if baseURL = [] then Inl BaseURLRequired
         else case RefreshMarket env svc of
                (None, s) \<Rightarrow> Inr s
              | (Some err, s) \<Rightarrow>
                  (case (if mg_CacheFile cfg = [] then None else loadEntriesFile env (mk_cacheFile s)) of
                     Some es \<Rightarrow> Inr (s\<lparr>mk_entries := verifiedCatalogEntries es\<rparr>)
                   | None \<Rightarrow>
                       (case (if mg_FallbackFile cfg = [] then Inl FileUnavailable else Load (me_fallback env)) of
                          Inr es \<Rightarrow> Inr (s\<lparr>mk_entries := verifiedCatalogEntries es\<rparr>)
                        | Inl _ \<Rightarrow> Inl err)))"

section \<open>Overlapping requests\<close>

text \<open>
  The locked sections of all requests to the service, in any order: the state is the service with
  the keys of the lookups whose request is under way. A lookup whose key is not cached begins; a
  lookup under way ends with whatever its request returned; a refresh, whose lookups are such
  steps too, publishes the entries it built. A lookup answered from the caches changes nothing.
\<close>

inductive market_step :: "market \<times> string list \<Rightarrow> market \<times> string list \<Rightarrow> bool" where
  lookup_begins: "cached_version env key s = None \<Longrightarrow> market_step (s, P) (s, key # P)"
| lookup_ends: "key \<in> set P \<Longrightarrow> market_step (s, P) (store_version env key res s, remove1 key P)"
| refresh_publishes: "market_step (s, P) (publish_market env cfg resp entries s, P)"

inductive_cases market_stepE: "market_step (s, P) x"

section \<open>The install grant\<close>

datatype grant_error = GrantUnavailable | GTransport | GStatus int | GDecode | GMismatch

definition CheckInstallGrant :: "market_env \<Rightarrow> market \<Rightarrow> string \<Rightarrow> string \<Rightarrow> string \<Rightarrow> grant_error + bool" where
  "CheckInstallGrant env s appID version org =
     (case mk_cfg s of
        None \<Rightarrow> Inl GrantUnavailable
      | Some cfg \<Rightarrow>
          if mg_Token cfg = [] \<or> appID = [] \<or> version = [] \<or> org = [] then Inl GrantUnavailable
          else (case me_Do env \<lparr>rq_URL = mg_BaseURL cfg @ ''/api/control/station/v2/apps/'' @ PathEscape appID @ ''/versions/'' @ PathEscape version
                                  @ ''/install-grant/'' @ PathEscape org,
                                rq_Authorization = Some (''Bearer '' @ mg_Token cfg), rq_Accept = ''application/json'', rq_IfNoneMatch = None\<rparr> of
                  None \<Rightarrow> Inl GTransport
                | Some resp \<Rightarrow>
                    if rp_Status resp = 403 then Inr False
                    else if rp_Status resp \<noteq> 200 then Inl (GStatus (rp_Status resp))
                    else (case me_grant env (limited 4096 (rp_Body resp)) (ends_well 4096 resp) of
                            None \<Rightarrow> Inl GDecode
                          | Some g \<Rightarrow> if gr_AppID g \<noteq> appID \<or> gr_Version g \<noteq> version then Inl GMismatch else Inr (gr_Allowed g))))"

end
