(* ===== verification/Market_Properties.thy ===== *)
theory Market_Properties
  imports Market
begin

text \<open>
  What the market promises: a refresh publishes a verified catalog or nothing, a version that was
  looked up does not change unless another lookup of it was under way at the time, the negative
  cache stays bounded, and a grant is what Control answered for exactly the application and
  version asked for.
\<close>

section \<open>Lookups\<close>

text \<open>What a lookup leaves alone: everything but the two version caches.\<close>

definition same_catalog :: "market \<Rightarrow> market \<Rightarrow> bool" where
  "same_catalog s s' \<longleftrightarrow> s' = s\<lparr>mk_versionCache := mk_versionCache s', mk_versionMiss := mk_versionMiss s'\<rparr>"

text \<open>The version caches of a later state extend those of an earlier one.\<close>

definition extends :: "market \<Rightarrow> market \<Rightarrow> bool" where
  "extends s s' \<longleftrightarrow> (\<forall>key v. map_of (mk_versionCache s) key = Some v \<longrightarrow> map_of (mk_versionCache s') key = Some v)"

definition caches_ok :: "market \<Rightarrow> bool" where
  "caches_ok s \<longleftrightarrow> distinct_keys (mk_versionCache s) \<and> distinct_keys (mk_versionMiss s) \<and> length (mk_versionMiss s) \<le> 4096 \<and>
     fst ` set (mk_versionCache s) \<inter> fst ` set (mk_versionMiss s) = {}"

lemma same_catalog_refl [simp]: "same_catalog s s"
  by (simp add: same_catalog_def)

lemma same_catalog_trans: "same_catalog s s1 \<Longrightarrow> same_catalog s1 s2 \<Longrightarrow> same_catalog s s2"
  by (cases s; cases s1; cases s2) (simp add: same_catalog_def)

lemma same_catalogD:
  "same_catalog s s' \<Longrightarrow> mk_entries s' = mk_entries s \<and> mk_cfg s' = mk_cfg s \<and> mk_ETag s' = mk_ETag s \<and>
     mk_cacheFile s' = mk_cacheFile s \<and> mk_tmpFile s' = mk_tmpFile s"
  by (cases s; cases s') (simp add: same_catalog_def)

lemma extends_refl [simp]: "extends s s"
  by (simp add: extends_def)

lemma extends_trans: "extends s s1 \<Longrightarrow> extends s1 s2 \<Longrightarrow> extends s s2"
  by (simp add: extends_def)

lemma fetch_effect:
  assumes "fetchMarketVersion env cfg appID ver s = (r, s')"
  shows "same_catalog s s' \<and> extends s s' \<and> (\<forall>v. r = Inr v \<longrightarrow> map_of (mk_versionCache s') (version_key_of appID ver) = Some v)"
  using assms
  by (auto simp: fetchMarketVersion_def cached_version_def store_version_def same_catalog_def extends_def remember_miss_def update_conv Let_def
      split: option.split_asm sum.split_asm if_split_asm)

lemma keys_update: "fst ` set (AList.update k v al) = insert k (fst ` set al)"
  by (simp add: dom_map_of_conv_image_fst [symmetric] update_conv' )

lemma caches_ok_miss:
  assumes "caches_ok s" "map_of (mk_versionCache s) key = None"
  shows "caches_ok (remember_miss key t s)"
proof -
  have "key \<notin> fst ` set (mk_versionCache s)" using assms(2) by (simp add: map_of_eq_None_iff)
  moreover have "length (AList.update key t (mk_versionMiss s)) \<le> 4096" if "length (mk_versionMiss s) < 4096"
    using length_update_le [of key t "mk_versionMiss s"] that by simp
  ultimately show ?thesis using assms(1) by (auto simp: caches_ok_def remember_miss_def keys_update)
qed

lemma caches_ok_hit:
  assumes "caches_ok s"
  shows "caches_ok (s\<lparr>mk_versionCache := AList.update key v (mk_versionCache s), mk_versionMiss := AList.delete key (mk_versionMiss s)\<rparr>)"
  using assms le_trans [OF length_delete_le [of key "mk_versionMiss s"]] by (auto simp: caches_ok_def keys_update dest: in_set_delete)

lemma fetch_caches:
  assumes "fetchMarketVersion env cfg appID ver s = (r, s')" "caches_ok s"
  shows "caches_ok s'"
  using assms
  by (auto simp: fetchMarketVersion_def cached_version_def store_version_def caches_ok_miss caches_ok_hit Let_def
      split: option.split_asm sum.split_asm if_split_asm)

lemma item_release_effect:
  assumes "item_release env cfg item s = (r, s')"
  shows "same_catalog s s' \<and> extends s s' \<and> (caches_ok s \<longrightarrow> caches_ok s')"
  using assms fetch_effect fetch_caches
  by (fastforce simp: item_release_def Let_def split: if_split_asm prod.split_asm sum.split_asm)

lemma item_release_helm:
  assumes "item_release env cfg item s = (Inr (ver, reason, Some h), s')" "reason = []"
  shows "transitionVersion ver \<and>
    (\<exists>v. map_of (mk_versionCache s') (version_key_of (TrimSpace (my_AppID item)) ver) = Some v \<and> helm_of (TrimSpace (my_AppID item)) v = Some h)"
  using assms fetch_effect
  by (fastforce simp: item_release_def Let_def split: if_split_asm prod.split_asm sum.split_asm)

section \<open>The entries of a refresh\<close>

text \<open>An entry the station may offer: its release is the one the market returned for its version.\<close>

definition offered :: "market \<Rightarrow> Entry \<Rightarrow> bool" where
  "offered s e \<longleftrightarrow> dnsName (e_AppID e) \<and> length (e_AppID e) \<le> 63 \<and> ValidGroup (e_GroupID e) \<and> ValidBrand (e_Brand e) \<and>
     e_DisabledReason e = [] \<and> transitionVersion (e_Version e) \<and> e_Namespace e = ''verdantflare-app'' \<and>
     (\<exists>h v. e_Helm e = Some h \<and> verified_helm h \<and> he_ReleaseName h = e_AppID e \<and>
        map_of (mk_versionCache s) (version_key_of (e_AppID e) (e_Version e)) = Some v \<and> helm_of (e_AppID e) v = Some h)"

lemma offered_extends: "offered s e \<Longrightarrow> extends s s' \<Longrightarrow> offered s' e"
  unfolding offered_def extends_def by blast

lemma helm_of_verified: "helm_of app v = Some h \<Longrightarrow> verified_helm h \<and> he_ReleaseName h = app"
  by (auto simp: helm_of_def verified_chart_def verified_helm_def split: option.split_asm if_split_asm)

lemma market_entry_sel [simp]:
  "e_AppID (market_entry idx item ver reason helm) = TrimSpace (my_AppID item)"
  "e_GroupID (market_entry idx item ver reason helm) = TrimSpace (my_GroupID item)"
  "e_Brand (market_entry idx item ver reason helm) = TrimSpace (my_Brand item)"
  "e_DisabledReason (market_entry idx item ver reason helm) = reason"
  "e_Helm (market_entry idx item ver reason helm) = helm"
  "e_Version (market_entry idx item ver reason helm) = ver"
  "e_Namespace (market_entry idx item ver reason helm) = ''verdantflare-app''"
  "e_WorkloadName (market_entry idx item ver reason helm) = defaultWorkloadName (TrimSpace (my_AppID item))"
  by (simp_all add: market_entry_def Let_def)

lemma market_entry_offered:
  assumes "item_error ids targets item = None" "item_release env cfg item s = (Inr (ver, reason, helm), s')" "helm \<noteq> None" "reason = []"
  shows "offered s' (market_entry idx item ver reason helm)"
proof -
  obtain h where h: "helm = Some h" using assms(3) by auto
  have ok: "dnsName (TrimSpace (my_AppID item)) \<and> length (TrimSpace (my_AppID item)) \<le> 63 \<and> ValidGroup (TrimSpace (my_GroupID item)) \<and>
      ValidBrand (TrimSpace (my_Brand item))"
    using assms(1) by (auto simp: item_error_def Let_def split: if_split_asm)
  obtain v where v: "map_of (mk_versionCache s') (version_key_of (TrimSpace (my_AppID item)) ver) = Some v"
      "helm_of (TrimSpace (my_AppID item)) v = Some h" "transitionVersion ver"
    using item_release_helm [OF assms(2) [unfolded h] assms(4)] by blast
  with ok h assms(4) helm_of_verified [OF v(2)] show ?thesis by (simp add: offered_def)
qed

lemma item_error_new:
  "item_error ids targets item = None \<Longrightarrow> TrimSpace (my_AppID item) \<notin> set ids \<and>
     target_of (market_entry idx item ver reason helm) \<notin> set targets"
  by (auto simp: item_error_def target_of_def Let_def split: if_split_asm)

lemma market_entries_effect:
  assumes "market_entries env cfg idx ids targets items s = (r, s')"
  shows "same_catalog s s' \<and> extends s s' \<and> (caches_ok s \<longrightarrow> caches_ok s')"
  using assms
proof (induction items arbitrary: idx ids targets s r s')
  case (Cons item items)
  show ?case
  proof (cases "item_error ids targets item")
    case None
    obtain r1 s1 where r1: "item_release env cfg item s = (r1, s1)" by fastforce
    note eff = item_release_effect [OF r1]
    show ?thesis
    proof (cases r1)
      case (Inr x)
      then obtain ver reason helm where x: "r1 = Inr (ver, reason, helm)" by (cases x) auto
      define e where "e = market_entry idx item ver reason helm"
      obtain r2 s2 where r2: "market_entries env cfg (idx + 1) (e_AppID e # ids) (target_of e # targets) items s1 = (r2, s2)" by fastforce
      have "s' = s2" using Cons.prems None r1 x r2 by (auto simp: e_def Let_def split: sum.split_asm)
      with Cons.IH [OF r2] eff same_catalog_trans extends_trans show ?thesis by blast
    qed (use Cons.prems None r1 eff in auto)
  qed (use Cons.prems in auto)
qed auto

lemma market_entries_offered:
  assumes "market_entries env cfg idx ids targets items s = (Inr entries, s')"
  shows "list_all (offered s') entries \<and> distinct (map e_AppID entries) \<and> distinct (map target_of entries) \<and>
    e_AppID ` set entries \<inter> set ids = {} \<and> target_of ` set entries \<inter> set targets = {}"
  using assms
proof (induction items arbitrary: idx ids targets s entries s')
  case (Cons item items)
  have None: "item_error ids targets item = None" using Cons.prems by (auto split: option.split_asm)
  then obtain ver reason helm s1 where r1: "item_release env cfg item s = (Inr (ver, reason, helm), s1)"
    using Cons.prems by (auto split: prod.split_asm sum.split_asm)
  define e where "e = market_entry idx item ver reason helm"
  obtain es where r2: "market_entries env cfg (idx + 1) (e_AppID e # ids) (target_of e # targets) items s1 = (Inr es, s')"
      and es: "entries = (if helm = None \<or> reason \<noteq> [] then es else e # es)"
    using Cons.prems None r1 by (auto simp: e_def Let_def split: sum.split_asm prod.split_asm)
  have new: "e_AppID e \<notin> set ids" "target_of e \<notin> set targets" using item_error_new [OF None] by (simp_all add: e_def)
  have "offered s' e" if "helm \<noteq> None" "reason = []"
    using offered_extends [OF market_entry_offered [OF None r1 that, of idx]] market_entries_effect [OF r2] by (simp add: e_def)
  with Cons.IH [OF r2] new es show ?case by auto
qed auto

section \<open>A refresh\<close>

lemma save_effect:
  "mk_entries (saveEntriesFile env es s) = mk_entries s \<and> mk_cfg (saveEntriesFile env es s) = mk_cfg s \<and>
   mk_versionCache (saveEntriesFile env es s) = mk_versionCache s \<and> mk_versionMiss (saveEntriesFile env es s) = mk_versionMiss s \<and>
   (mk_cacheFile (saveEntriesFile env es s) = mk_cacheFile s \<or> (\<exists>raw. me_marshal env es = Some raw \<and> mk_cacheFile (saveEntriesFile env es s) = Some raw))"
  by (auto simp: saveEntriesFile_def split: option.split)

lemma publish_effect:
  "mk_entries (publish_market env cfg resp es s) = sort_key market_order es \<and> mk_cfg (publish_market env cfg resp es s) = mk_cfg s \<and>
   mk_versionCache (publish_market env cfg resp es s) = mk_versionCache s \<and> mk_versionMiss (publish_market env cfg resp es s) = mk_versionMiss s \<and>
   (mk_cacheFile (publish_market env cfg resp es s) = mk_cacheFile s \<or>
    me_marshal env (sort_key market_order es) = mk_cacheFile (publish_market env cfg resp es s))"
proof -
  define s1 where "s1 = s\<lparr>mk_entries := sort_key market_order es, mk_ETag := (if TrimSpace (rp_ETag resp) = [] then mk_ETag s else TrimSpace (rp_ETag resp))\<rparr>"
  have "publish_market env cfg resp es s = (if mg_CacheFile cfg = [] then s1 else saveEntriesFile env (sort_key market_order es) s1)"
    by (simp add: publish_market_def s1_def Let_def)
  moreover have "mk_entries s1 = sort_key market_order es" "mk_cfg s1 = mk_cfg s" "mk_versionCache s1 = mk_versionCache s"
      "mk_versionMiss s1 = mk_versionMiss s" "mk_cacheFile s1 = mk_cacheFile s"
    by (simp_all add: s1_def)
  ultimately show ?thesis using save_effect [of env "sort_key market_order es" s1] by auto
qed

lemma refresh_cases:
  assumes "RefreshMarket env s = (r, s')"
  obtains (refused) "r \<noteq> None" "same_catalog s s'" "extends s s'" "caches_ok s \<longrightarrow> caches_ok s'"
  | (unmodified) "r = None" "s' = s" "mk_entries s \<noteq> []"
  | (published) cfg resp items entries s1 where "r = None" "mk_cfg s = Some cfg" "market_items env resp = Inr items"
      "market_entries env cfg 0 [] [] items s = (Inr entries, s1)" "s' = publish_market env cfg resp entries s1"
proof -
  show thesis
  proof (cases "r = None")
    case True
    with assms that(2,3) show thesis
      by (auto simp: RefreshMarket_def Let_def split: option.split_asm if_split_asm sum.split_asm prod.split_asm)
  next
    case False
    have "same_catalog s s' \<and> extends s s' \<and> (caches_ok s \<longrightarrow> caches_ok s')"
      using assms False market_entries_effect
      by (fastforce simp: RefreshMarket_def Let_def split: option.split_asm if_split_asm sum.split_asm prod.split_asm)
    with False that(1) show thesis by blast
  qed
qed

lemma refresh_caches:
  assumes "RefreshMarket env s = (r, s')"
  shows "mk_cfg s' = mk_cfg s \<and> extends s s' \<and> (caches_ok s \<longrightarrow> caches_ok s')"
  using assms
proof (cases rule: refresh_cases)
  case (published cfg resp items entries s1)
  with market_entries_effect [OF published(4)] same_catalogD [of s s1] publish_effect [of env cfg resp entries s1] show ?thesis
    by (simp add: extends_def caches_ok_def)
qed (use same_catalogD [of s s'] in auto)

lemma resolve_effect:
  assumes "ResolveHelm env appID ver s = (r, s')"
  shows "same_catalog s s' \<and> extends s s' \<and> (caches_ok s \<longrightarrow> caches_ok s')"
  using assms fetch_effect fetch_caches
  by (fastforce simp: ResolveHelm_def split: if_split_asm option.split_asm prod.split_asm sum.split_asm)

section \<open>The service over time\<close>

text \<open>
  The service after a start and any refreshes and lookups one after another, each with whatever
  the network, the clock and the file system do at the time.
\<close>

inductive market_reachable :: "market \<Rightarrow> bool" where
  start: "LoadMarket env cfg cached = Inr s \<Longrightarrow> market_reachable s"
| refresh: "market_reachable s \<Longrightarrow> RefreshMarket env s = (r, s') \<Longrightarrow> market_reachable s'"
| lookup: "market_reachable s \<Longrightarrow> ResolveHelm env appID ver s = (h, s') \<Longrightarrow> market_reachable s'"

text \<open>An entry that is in the catalog has a release and no reason against it.\<close>

definition available :: "Entry \<Rightarrow> bool" where
  "available e \<longleftrightarrow> e_Helm e \<noteq> None \<and> TrimSpace (e_DisabledReason e) = []"

definition market_inv :: "market \<Rightarrow> bool" where
  "market_inv s \<longleftrightarrow> caches_ok s \<and> list_all available (mk_entries s)"

lemma TrimSpace_Nil [simp]: "TrimSpace [] = []"
  by (simp add: TrimSpace_def)

lemma offered_available: "offered s e \<Longrightarrow> available e"
  by (auto simp: offered_def available_def)

lemma verified_available: "list_all available (verifiedCatalogEntries es)"
  by (auto simp: verifiedCatalogEntries_def available_def list_all_iff)

lemma refresh_inv:
  assumes "RefreshMarket env s = (r, s')" "market_inv s"
  shows "market_inv s'"
proof -
  have "list_all available (mk_entries s')"
    using assms(1)
  proof (cases rule: refresh_cases)
    case (published cfg resp items entries s1)
    with market_entries_offered [OF published(4)] offered_available publish_effect [of env cfg resp entries s1] show ?thesis
      by (auto simp: list_all_iff)
  qed (use assms(2) same_catalogD [of s s'] in \<open>auto simp: market_inv_def\<close>)
  with refresh_caches [OF assms(1)] assms(2) show ?thesis by (simp add: market_inv_def)
qed

lemma LoadMarket_cases:
  assumes "LoadMarket env cfg cached = Inr s"
  obtains s0 r where "caches_ok s0" "mk_entries s0 = []" "RefreshMarket env s0 = (r, s)"
  | s0 r s1 es where "caches_ok s0" "mk_entries s0 = []" "RefreshMarket env s0 = (r, s1)" "s = s1\<lparr>mk_entries := verifiedCatalogEntries es\<rparr>"
proof -
  define s0 where "s0 = \<lparr>mk_entries = [], mk_cfg = Some (cfg\<lparr>mg_BaseURL := TrimRight_slash (TrimSpace (mg_BaseURL cfg))\<rparr>), mk_ETag = [],
     mk_versionCache = [], mk_versionMiss = [], mk_cacheFile = cached, mk_tmpFile = None\<rparr>"
  obtain r s1 where r: "RefreshMarket env s0 = (r, s1)" by fastforce
  have ok: "caches_ok s0" "mk_entries s0 = []" by (simp_all add: s0_def caches_ok_def)
  have "s = s1 \<or> (\<exists>es. s = s1\<lparr>mk_entries := verifiedCatalogEntries es\<rparr>)"
    using assms unfolding LoadMarket_def s0_def [symmetric] Let_def r
    by (auto split: if_split_asm option.split_asm sum.split_asm)
  with that ok r show thesis by blast
qed

lemma start_inv:
  assumes "LoadMarket env cfg cached = Inr s"
  shows "market_inv s"
  using assms
proof (cases rule: LoadMarket_cases)
  case (1 s0 r)
  then show ?thesis using refresh_inv [of env s0 r s] by (simp add: market_inv_def)
next
  case (2 s0 r s1 es)
  then show ?thesis using refresh_caches [OF 2(3)] verified_available by (simp add: market_inv_def caches_ok_def)
qed

subsection \<open>Overlapping requests\<close>

lemma store_effect:
  "mk_cfg (store_version env key res s) = mk_cfg s \<and> mk_entries (store_version env key res s) = mk_entries s \<and>
   (k \<noteq> key \<longrightarrow> map_of (mk_versionCache (store_version env key res s)) k = map_of (mk_versionCache s) k)"
  by (auto simp: store_version_def remember_miss_def update_conv split: sum.split)

text \<open>A cached version with no lookup of it under way stays, and no lookup of it begins.\<close>

definition settled :: "string \<Rightarrow> marketAppVersion \<Rightarrow> market \<times> string list \<Rightarrow> bool" where
  "settled key v x \<longleftrightarrow> map_of (mk_versionCache (fst x)) key = Some v \<and> key \<notin> set (snd x)"

lemma settled_step: "market_step x y \<Longrightarrow> settled key v x \<Longrightarrow> settled key v y \<and> mk_cfg (fst y) = mk_cfg (fst x)"
proof (induction rule: market_step.induct)
  case (lookup_begins env k s P)
  then show ?case by (auto simp: settled_def cached_version_def)
next
  case (lookup_ends k P s env res)
  then show ?case using store_effect [of env k res s key] by (auto simp: settled_def dest: in_set_remove1 set_remove1_subset [THEN subsetD])
next
  case (refresh_publishes s P env cfg resp entries)
  then show ?case using publish_effect [of env cfg resp entries s] by (simp add: settled_def)
qed

lemma settled_run: "market_step\<^sup>*\<^sup>* x y \<Longrightarrow> settled key v x \<Longrightarrow> settled key v y"
  by (induction rule: rtranclp_induct) (auto dest: settled_step)

lemma step_cfg: "market_step x y \<Longrightarrow> mk_cfg (fst y) = mk_cfg (fst x)"
  by (induction rule: market_step.induct) (use store_effect publish_effect in auto)

lemma run_cfg: "market_step\<^sup>*\<^sup>* x y \<Longrightarrow> mk_cfg (fst y) = mk_cfg (fst x)"
  by (induction rule: rtranclp_induct) (auto dest: step_cfg)

text \<open>The handlers as a whole are runs of these steps, also while other lookups are under way.\<close>

lemma fetch_run:
  assumes "fetchMarketVersion env cfg appID ver s = (r, s')"
  shows "market_step\<^sup>*\<^sup>* (s, P) (s', P)"
proof (cases "cached_version env (version_key_of appID ver) s")
  case None
  have "market_step (s, P) (s, version_key_of appID ver # P)" by (rule lookup_begins [OF None])
  moreover have "market_step (s, version_key_of appID ver # P) (s', P)"
    using lookup_ends [of "version_key_of appID ver" "version_key_of appID ver # P" s env r] assms None by (auto simp: fetchMarketVersion_def Let_def)
  ultimately show ?thesis by (meson converse_rtranclp_into_rtranclp r_into_rtranclp)
qed (use assms in \<open>simp add: fetchMarketVersion_def\<close>)

lemma item_release_run: "item_release env cfg item s = (r, s') \<Longrightarrow> market_step\<^sup>*\<^sup>* (s, P) (s', P)"
  using fetch_run by (fastforce simp: item_release_def Let_def split: if_split_asm prod.split_asm sum.split_asm)

lemma market_entries_run: "market_entries env cfg idx ids targets items s = (r, s') \<Longrightarrow> market_step\<^sup>*\<^sup>* (s, P) (s', P)"
proof (induction items arbitrary: idx ids targets s r s')
  case (Cons item items)
  show ?case
  proof (cases "item_error ids targets item")
    case None
    obtain r1 s1 where r1: "item_release env cfg item s = (r1, s1)" by fastforce
    note run = item_release_run [OF r1, of P]
    show ?thesis
    proof (cases r1)
      case (Inr x)
      then obtain ver reason helm where x: "r1 = Inr (ver, reason, helm)" by (cases x) auto
      define e where "e = market_entry idx item ver reason helm"
      obtain r2 s2 where r2: "market_entries env cfg (idx + 1) (e_AppID e # ids) (target_of e # targets) items s1 = (r2, s2)" by fastforce
      have "s' = s2" using Cons.prems None r1 x r2 by (auto simp: e_def Let_def split: sum.split_asm)
      with Cons.IH [OF r2] run show ?thesis by simp
    qed (use Cons.prems None r1 run in auto)
  qed (use Cons.prems in auto)
qed auto

lemma refresh_run:
  assumes "RefreshMarket env s = (r, s')"
  shows "market_step\<^sup>*\<^sup>* (s, P) (s', P)"
proof (cases r)
  case None
  have "RefreshMarket env s = (None, s')" using assms None by simp
  then show ?thesis
  proof (cases rule: refresh_cases)
    case (published cfg resp items entries s1)
    then show ?thesis using market_entries_run [OF published(4), of P] refresh_publishes by (metis rtranclp.rtrancl_into_rtrancl)
  qed simp_all
next
  case (Some err)
  then have "s' = s \<or> (\<exists>cfg items r1. market_entries env cfg 0 [] [] items s = (r1, s'))"
    using assms by (auto simp: RefreshMarket_def Let_def split: option.split_asm if_split_asm sum.split_asm prod.split_asm)
  then show ?thesis using market_entries_run by auto
qed

lemma resolve_run: "ResolveHelm env appID ver s = (h, s') \<Longrightarrow> market_step\<^sup>*\<^sup>* (s, P) (s', P)"
  using fetch_run by (fastforce simp: ResolveHelm_def split: if_split_asm option.split_asm prod.split_asm sum.split_asm)

text \<open>
  Two lookups of a version that overlap may both store: whatever the first returned, and the caller
  was given, is then replaced by what the second returned.
\<close>

lemma overlapping_lookups_replace:
  assumes "cached_version env key s = None"
  shows "\<exists>s1 s2. market_step\<^sup>*\<^sup>* (s, []) (s1, [key]) \<and> map_of (mk_versionCache s1) key = Some v \<and>
    market_step\<^sup>*\<^sup>* (s1, [key]) (s2, []) \<and> map_of (mk_versionCache s2) key = Some w"
proof -
  define s1 where "s1 = store_version env key (Inr v) s"
  define s2 where "s2 = store_version env key (Inr w) s1"
  have a: "market_step (s, []) (s, [key])" "market_step (s, [key]) (s, [key, key])" using lookup_begins [OF assms] by auto
  have b: "market_step (s, [key, key]) (s1, [key])" "market_step (s1, [key]) (s2, [])"
    using lookup_ends [of key "[key, key]" s env "Inr v"] lookup_ends [of key "[key]" s1 env "Inr w"] by (simp_all add: s1_def s2_def)
  have "market_step\<^sup>*\<^sup>* (s, []) (s1, [key])" using a b(1) by (meson converse_rtranclp_into_rtranclp r_into_rtranclp)
  moreover have "market_step\<^sup>*\<^sup>* (s1, [key]) (s2, [])" using b(2) by blast
  moreover have "map_of (mk_versionCache s1) key = Some v" "map_of (mk_versionCache s2) key = Some w"
    by (simp_all add: s1_def s2_def store_version_def update_conv)
  ultimately show ?thesis by blast
qed

section \<open>Properties\<close>

text \<open>
  C25. A refresh that reports success either was told that nothing changed or publishes a catalog
  in which application ids and workloads are unique, the entries are in the market's order, and
  every entry is installable: a valid name and version, no reason against it, and a Helm release
  with both digests that is the one the market returned for exactly this version. The cache file
  then holds its old contents or the whole new catalog.
\<close>

theorem refresh_publishes_verified:
  assumes "RefreshMarket env s = (None, s')" "s' \<noteq> s"
  shows "list_all (offered s') (mk_entries s') \<and> distinct (map e_AppID (mk_entries s')) \<and> distinct (map target_of (mk_entries s')) \<and>
    sorted (map market_order (mk_entries s')) \<and> (mk_cacheFile s' = mk_cacheFile s \<or> mk_cacheFile s' = me_marshal env (mk_entries s'))"
  using assms(1)
proof (cases rule: refresh_cases)
  case (published cfg resp items entries s1)
  define s2 where "s2 = publish_market env cfg resp entries s1"
  note all = market_entries_offered [OF published(4)]
  note eff = publish_effect [of env cfg resp entries s1, folded s2_def]
  have "list_all (offered s2) entries" using all eff offered_extends [of s1 _ s2] by (auto simp: list_all_iff extends_def)
  moreover have "distinct (map f (sort_key market_order entries)) = distinct (map f entries)" for f :: "Entry \<Rightarrow> string"
    by (simp add: distinct_map)
  ultimately show ?thesis
    using all eff same_catalogD [of s s1] market_entries_effect [OF published(4)] published(5)
    by (auto simp: s2_def [symmetric] list_all_iff)
qed (use assms in auto)

text \<open>
  A refresh that fails at any point, after whatever it had already looked up, leaves the catalog,
  its entity tag, the cache file and its temporary file as they were.
\<close>

theorem refused_refresh_keeps_catalog:
  assumes "RefreshMarket env s = (Some err, s')"
  shows "mk_entries s' = mk_entries s \<and> mk_ETag s' = mk_ETag s \<and> mk_cacheFile s' = mk_cacheFile s \<and> mk_tmpFile s' = mk_tmpFile s"
  using assms by (cases rule: refresh_cases) (auto dest: same_catalogD)

text \<open>
  C26. A version that was looked up successfully, with no other lookup of it under way, is
  immutable: over any later interleaving of lookups and refreshes, each with whatever the network,
  the clock and the file system do, it stays in the cache, no request for it is ever under way
  again, and every lookup of it answers the same version without a request. (Lookups that overlap
  the first one may still replace what it returned.)
\<close>

theorem version_is_immutable:
  assumes "map_of (mk_versionCache s) (version_key_of appID ver) = Some v" and "version_key_of appID ver \<notin> set P"
    and "market_step\<^sup>*\<^sup>* (s, P) (s', P')"
  shows "map_of (mk_versionCache s') (version_key_of appID ver) = Some v \<and> version_key_of appID ver \<notin> set P' \<and>
    fetchMarketVersion env cfg appID ver s' = (Inr v, s')"
proof -
  have "settled (version_key_of appID ver) v (s', P')"
    using settled_run [OF assms(3)] assms(1,2) by (simp add: settled_def)
  then show ?thesis by (simp add: settled_def fetchMarketVersion_def cached_version_def Let_def)
qed

text \<open>
  In every state the service reaches by requests one after another, however it was started, the negative cache has at most
  4096 keys, no version is both known and remembered as missing, and every entry on offer has a
  Helm release and no reason against it, also when the catalog came from the cache or the fallback
  file.
\<close>

theorem market_reachable_inv: "market_reachable s \<Longrightarrow> market_inv s"
proof (induction rule: market_reachable.induct)
  case (start env cfg cached s)
  then show ?case by (rule start_inv)
next
  case (refresh s env r s')
  then show ?case using refresh_inv by blast
next
  case (lookup s env appID ver h s')
  then show ?case using resolve_effect [of env appID ver s h s'] same_catalogD [of s s'] by (simp add: market_inv_def)
qed

text \<open>
  An installation is granted exactly when the market is configured with a token and answers the
  request for this application, version and organization with a grant that names both.
\<close>

theorem CheckInstallGrant_iff:
  "CheckInstallGrant env s appID version org = Inr True \<longleftrightarrow>
     (\<exists>cfg resp g. mk_cfg s = Some cfg \<and> mg_Token cfg \<noteq> [] \<and> appID \<noteq> [] \<and> version \<noteq> [] \<and> org \<noteq> [] \<and>
        me_Do env \<lparr>rq_URL = mg_BaseURL cfg @ ''/api/control/station/v2/apps/'' @ PathEscape appID @ ''/versions/'' @ PathEscape version
            @ ''/install-grant/'' @ PathEscape org,
          rq_Authorization = Some (''Bearer '' @ mg_Token cfg), rq_Accept = ''application/json'', rq_IfNoneMatch = None\<rparr> = Some resp \<and>
        rp_Status resp = 200 \<and>
        me_grant env (limited 4096 (rp_Body resp)) (ends_well 4096 resp) = Some g \<and>
        gr_AppID g = appID \<and> gr_Version g = version \<and> gr_Allowed g)"
  by (auto simp: CheckInstallGrant_def split: option.split)

section \<open>A market with one application\<close>

definition demo_digest :: string where
  "demo_digest = ''sha256:'' @ replicate 64 CHR ''a''"

definition demo_version :: marketAppVersion where
  "demo_version = \<lparr>mv_AppID = ''world'', mv_Version = ''1.2.0'',
     mv_Chart = Some \<lparr>ch_OCIRef = ''oci://charts/world'', ch_Name = [], ch_Version = ''1.2.0'', ch_AppVersion = None,
       ch_ManifestDigest = demo_digest, ch_PackageDigest = demo_digest, ch_PackageSizeBytes = 10\<rparr>,
     mv_Images = [], mv_Models = [], mv_Capabilities = []\<rparr>"

definition demo_item :: marketYAMLItem where
  "demo_item = \<lparr>my_AppID = '' world'', my_DisplayName = ''World'', my_SortOrder = None, my_GroupID = ''system'', my_Brand = ''vf'', my_IconRef = [],
     my_Version = ''1.2.0'', my_Description = [], my_Models = None, my_Capabilities = None, my_Images = [], my_Chart = [], my_ChartVersion = [],
     my_DisabledReason = []\<rparr>"

definition demo_market_env :: market_env where
  "demo_market_env = \<lparr>me_Do = (\<lambda>_. Some \<lparr>rp_Status = 200, rp_Body = [], rp_Complete = True, rp_ETag = ''v1''\<rparr>),
     me_yaml = (\<lambda>_. Some \<lparr>ma_SchemaVersion = 2, ma_GeneratedAt = [], ma_Revision = [], ma_Apps = [demo_item], ma_Items = []\<rparr>),
     me_version = (\<lambda>_ _. Some demo_version), me_grant = (\<lambda>_ _. None), me_clock = (\<lambda>_. (5, 6)), me_canceled = (\<lambda>_. False),
     me_marshal = (\<lambda>_. Some ''catalog''), me_unmarshal = (\<lambda>_. None), me_mkdir = True, me_write = None, me_rename = True, me_fallback = None\<rparr>"

definition demo_market_cfg :: MarketConfig where
  "demo_market_cfg = \<lparr>mg_BaseURL = ''https://control/'', mg_Token = [], mg_CacheFile = ''/cache'', mg_FallbackFile = []\<rparr>"

definition demo_market :: market where
  "demo_market = \<lparr>mk_entries = [], mk_cfg = Some demo_market_cfg, mk_ETag = [], mk_versionCache = [], mk_versionMiss = [], mk_cacheFile = None,
     mk_tmpFile = None\<rparr>"

theorem refresh_publishes_verified_witness:
  "fst (RefreshMarket demo_market_env demo_market) = None \<and> map e_AppID (mk_entries (snd (RefreshMarket demo_market_env demo_market))) = [''world''] \<and>
   list_all (offered (snd (RefreshMarket demo_market_env demo_market))) (mk_entries (snd (RefreshMarket demo_market_env demo_market)))"
proof -
  define s' where "s' = snd (RefreshMarket demo_market_env demo_market)"
  have ok: "fst (RefreshMarket demo_market_env demo_market) = None" by code_simp
  have ids: "map e_AppID (mk_entries s') = [''world'']" unfolding s'_def by code_simp
  have "RefreshMarket demo_market_env demo_market = (None, s')" using ok by (simp add: s'_def prod_eq_iff)
  moreover have "s' \<noteq> demo_market" using ids by (auto simp: demo_market_def)
  ultimately show ?thesis using refresh_publishes_verified [of demo_market_env demo_market s'] ok ids by (simp add: s'_def)
qed

theorem version_is_immutable_witness:
  "fetchMarketVersion (demo_market_env\<lparr>me_Do := \<lambda>_. None\<rparr>) demo_market_cfg ''world'' ''1.2.0''
     (snd (RefreshMarket demo_market_env (snd (fetchMarketVersion demo_market_env demo_market_cfg ''world'' ''1.2.0'' demo_market)))) =
   (Inr demo_version, snd (RefreshMarket demo_market_env (snd (fetchMarketVersion demo_market_env demo_market_cfg ''world'' ''1.2.0'' demo_market))))"
proof -
  define s where "s = snd (fetchMarketVersion demo_market_env demo_market_cfg ''world'' ''1.2.0'' demo_market)"
  have cached: "map_of (mk_versionCache s) (version_key_of ''world'' ''1.2.0'') = Some demo_version" unfolding s_def by code_simp
  have "market_step\<^sup>*\<^sup>* (s, [''other'']) (snd (RefreshMarket demo_market_env s), [''other''])"
    using refresh_run [of demo_market_env s] by (metis prod.collapse)
  moreover have "version_key_of ''world'' ''1.2.0'' \<notin> set [''other'']" by (simp add: version_key_of_def)
  ultimately show ?thesis using version_is_immutable [OF cached] unfolding s_def [symmetric] by blast
qed

end
