(* ===== verification/Transition_Releases.thy ===== *)
theory Transition_Releases
  imports Release_Registry
begin

text \<open>
  The readers of release material (\<^verbatim>\<open>internal/operations\<close>: \<^verbatim>\<open>transition_releases.go\<close>,
  \<^verbatim>\<open>dashboard_releases.go\<close>, \<^verbatim>\<open>dashboard_transition.go\<close>, \<^verbatim>\<open>dashboard_video_components.go\<close>): two
  registries of releases, one for applications with workers and one for those with a dashboard
  only, and the check of the original bytes a release names. The directory, SHA-256 and the JSON
  library are parameters as in \<open>Release_Registry\<close>, with one decoder per type that is decoded; the
  directory does not change during a call. A context is a flag for the entry of a call and, by the
  reference that is read, two flags for before and after that read.
\<close>

section \<open>Data\<close>

record transitionReleaseEntry =
  te_Snapshot :: TransitionSnapshot
  te_ManifestRef :: string
  te_ReleaseIndexRef :: string

record transitionRegistry =
  tg_SchemaVersion :: int
  tg_Releases :: "transitionReleaseEntry list"

record dashboardReleaseComponent =
  dc_Name :: string
  dc_Image :: string
  dc_ImageDigest :: string

text \<open>\<open>Files\<close> is a map: an association list with distinct keys, nil the empty one.\<close>

record transitionReleaseIndex =
  ix_SchemaVersion :: int
  ix_AppID :: string
  ix_AppVersion :: string
  ix_SourceCommit :: string
  ix_ActionsRunID :: string
  ix_ActionsRunAttempt :: string
  ix_AppImage :: string
  ix_AppImageDigest :: string
  ix_Components :: "dashboardReleaseComponent list"
  ix_Files :: "(string \<times> string) list"

record dashboardReleaseEntry =
  de_AppID :: string
  de_AppVersion :: string
  de_ReleaseRef :: string
  de_ReleaseIndexRef :: string
  de_ReleaseDigest :: string
  de_ManifestRef :: string
  de_ManifestDigest :: string
  de_TemplateDigest :: string

record dashboardRegistry =
  dr_SchemaVersion :: int
  dr_Releases :: "dashboardReleaseEntry list"

record dashboardManifestImage =
  mi_Component :: string
  mi_Image :: string

text \<open>The anonymous structs the material is decoded into.\<close>

record manifestIdentity =
  mf_AppID :: string
  mf_Version :: string

record dashboardIdentity = manifestIdentity +
  mf_Images :: "dashboardManifestImage list"

record management =
  mm_SchemaVersion :: int
  mm_AppID :: string
  mm_AppVersion :: string
  mm_DataContract :: string
  mm_DefaultWorkerVersion :: string
  mm_CompatibleWorkerVersions :: "string list"

record dashboardDeclaration =
  dl_SchemaVersion :: int
  dl_AppID :: string
  dl_AppVersion :: string
  dl_Dashboard :: "(string \<times> json) list"

record assets =
  as_SchemaVersion :: int
  as_Files :: "(string \<times> string) list"

text \<open>
  \<open>appcenter.Decode\<close>: a value is read strictly, validated by a schema of the generated bundle and
  decoded. Validation by the schema library and \<open>json.Unmarshal\<close> are parameters.
\<close>

record 'a schema_lib =
  sl_json :: "'a json_lib"
  sl_valid :: "string \<Rightarrow> string \<Rightarrow> bool"
  sl_unmarshal :: "string \<Rightarrow> 'a option"

definition appcenter_Decode :: "'a schema_lib \<Rightarrow> string \<Rightarrow> string \<Rightarrow> int \<Rightarrow> 'a option" where
  "appcenter_Decode lib raw name limit =
     (case ReadValue (sl_json lib) (Some raw) limit of
        None \<Rightarrow> None
      | Some b \<Rightarrow> if sl_valid lib name b then sl_unmarshal lib b else None)"

record material_env =
  rm_OpenRoot :: "string \<Rightarrow> dir option"
  rm_sha256 :: "string \<Rightarrow> string"
  rm_ctx :: bool
  rm_canceled :: "string \<Rightarrow> bool \<times> bool"
  rm_registry :: "transitionRegistry json_lib"
  rm_dashboards :: "dashboardRegistry schema_lib"
  rm_index :: "transitionReleaseIndex json_lib"
  rm_manifest :: "string \<Rightarrow> manifestIdentity option"
  rm_identity :: "string \<Rightarrow> dashboardIdentity option"
  rm_management :: "management json_lib"
  rm_declaration :: "dashboardDeclaration json_lib"
  rm_assets :: "assets json_lib"

section \<open>Material\<close>

definition materialPath :: "string \<Rightarrow> bool" where
  "materialPath ref \<longleftrightarrow> length ref \<le> 512 \<and> ValidPath ref \<and> ref \<noteq> ''.'' \<and> CHR 0x5C \<notin> set ref \<and> CHR '':'' \<notin> set ref"

definition materialRead :: "material_env \<Rightarrow> dir \<Rightarrow> string \<Rightarrow> int \<Rightarrow> string option" where
  "materialRead env dir ref maximum =
     (if fst (rm_canceled env ref) \<or> \<not> materialPath ref then None
      else case read dir ref maximum of
             None \<Rightarrow> None
           | Some raw \<Rightarrow> if snd (rm_canceled env ref) then None else Some raw)"

definition materialDigest :: "material_env \<Rightarrow> string \<Rightarrow> string" where
  "materialDigest env raw = ''sha256:'' @ hex_EncodeToString (rm_sha256 env raw)"

definition materialDecode :: "'a json_lib \<Rightarrow> string \<Rightarrow> 'a option" where
  "materialDecode lib raw = Decode lib (Some raw) (4 * 2 ^ 20)"

text \<open>
  \<open>path.Join(path.Dir(ref), name)\<close> for two paths that are valid and so clean: the name in the
  directory of the reference.
\<close>

definition beside :: "string \<Rightarrow> string \<Rightarrow> string" where
  "beside ref name =
     (let base = rev (takeWhile (\<lambda>c. c \<noteq> CHR ''/'') (rev ref)) in take (length ref - length base) ref @ name)"

text \<open>\<^verbatim>\<open>^[a-f0-9]{40}$\<close> and \<^verbatim>\<open>^[1-9][0-9]{0,n}$\<close>.\<close>

definition commit_pattern :: "string \<Rightarrow> bool" where
  "commit_pattern s \<longleftrightarrow> length s = 40 \<and> list_all is_hex_lower s"

definition run_pattern :: "nat \<Rightarrow> string \<Rightarrow> bool" where
  "run_pattern n s = (case s of [] \<Rightarrow> False | c # cs \<Rightarrow> is_digit c \<and> c \<noteq> CHR ''0'' \<and> length cs \<le> n \<and> list_all is_digit cs)"

text \<open>
  \<^verbatim>\<open>^[a-z0-9][a-z0-9./:_-]*:[a-z0-9][a-z0-9._-]*-v<version>$\<close>: a repository, a colon and a tag
  that ends in the version.
\<close>

definition starts_lower_digit :: "string \<Rightarrow> bool" where
  "starts_lower_digit s = (case s of [] \<Rightarrow> False | c # _ \<Rightarrow> is_lower_digit c)"

definition repository_pattern :: "string \<Rightarrow> bool" where
  "repository_pattern s \<longleftrightarrow> starts_lower_digit s \<and> list_all (\<lambda>c. is_name_char c \<or> c = CHR ''/'' \<or> c = CHR '':'') s"

definition tag_pattern :: "string \<Rightarrow> bool" where
  "tag_pattern s \<longleftrightarrow> starts_lower_digit s \<and> list_all is_name_char s"

definition image_pattern :: "string \<Rightarrow> string \<Rightarrow> bool" where
  "image_pattern version s =
     (case strip_prefix (rev (''-v'' @ version)) (rev s) of
        None \<Rightarrow> False
      | Some r \<Rightarrow> let pre = rev r
                  in list_ex (\<lambda>i. pre ! i = CHR '':'' \<and> repository_pattern (take i pre) \<and> tag_pattern (drop (i + 1) pre)) [0..<length pre])"

text \<open>
  The loop over the files of a release index: every name is allowed and every digest well formed,
  the files beside the index have these digests, and they are at most 32 MiB together.
\<close>

fun read_materials ::
  "material_env \<Rightarrow> dir \<Rightarrow> (string \<Rightarrow> bool) \<Rightarrow> string \<Rightarrow> int \<Rightarrow> (string \<times> string) list \<Rightarrow> (string \<times> string) list option" where
  "read_materials env dir allowed ref sofar [] = Some []"
| "read_materials env dir allowed ref sofar ((name, digest) # files) =
     (if \<not> materialPath name \<or> \<not> transitionDigest (''sha256:'' @ digest) \<or> \<not> allowed name then None
      else case materialRead env dir (beside ref name) (4 * 2 ^ 20) of
             None \<Rightarrow> None
           | Some content \<Rightarrow>
               if sofar + int (length content) > 32 * 2 ^ 20 \<or> materialDigest env content \<noteq> ''sha256:'' @ digest then None
               else map_option (\<lambda>ms. (name, content) # ms)
                      (read_materials env dir allowed ref (sofar + int (length content)) files))"

text \<open>The identity both kinds of release index carry.\<close>

definition index_identity :: "string \<Rightarrow> string \<Rightarrow> transitionReleaseIndex \<Rightarrow> bool" where
  "index_identity app version ix \<longleftrightarrow>
     ix_SchemaVersion ix = 1 \<and> ix_AppID ix = app \<and> ix_AppVersion ix = version \<and> commit_pattern (ix_SourceCommit ix) \<and>
     transitionDigest (ix_AppImageDigest ix) \<and> run_pattern 19 (ix_ActionsRunID ix) \<and> run_pattern 9 (ix_ActionsRunAttempt ix) \<and>
     image_pattern version (ix_AppImage ix)"

text \<open>The manifest of a release: its bytes, strictly read.\<close>

definition read_manifest :: "material_env \<Rightarrow> dir \<Rightarrow> string \<Rightarrow> string \<Rightarrow> string option" where
  "read_manifest env dir ref digest =
     (case materialRead env dir ref (4 * 2 ^ 20) of
        None \<Rightarrow> None
      | Some manifest \<Rightarrow>
          if materialDigest env manifest \<noteq> digest then None else ReadValue (rm_index env) (Some manifest) (4 * 2 ^ 20))"

definition read_index :: "material_env \<Rightarrow> dir \<Rightarrow> string \<Rightarrow> string \<Rightarrow> transitionReleaseIndex option" where
  "read_index env dir ref digest =
     (case materialRead env dir ref (2 ^ 20) of
        None \<Rightarrow> None
      | Some raw \<Rightarrow> if materialDigest env raw \<noteq> digest then None else materialDecode (rm_index env) raw)"

text \<open>A missing material is read as the nil slice, the empty string.\<close>

abbreviation material :: "(string \<times> string) list \<Rightarrow> string \<Rightarrow> string" where
  "material ms name \<equiv> lookup_default [] ms name"

definition asset_ok :: "material_env \<Rightarrow> (string \<times> string) list \<Rightarrow> string \<times> string \<Rightarrow> bool" where
  "asset_ok env ms = (\<lambda>(name, digest).
     materialPath name \<and> map_of ms (''dashboard/'' @ name) \<noteq> None \<and> transitionDigest (''sha256:'' @ digest) \<and>
     materialDigest env (material ms (''dashboard/'' @ name)) = ''sha256:'' @ digest)"

section \<open>Releases with workers\<close>

definition worker_file :: "string \<Rightarrow> bool" where
  "worker_file name \<longleftrightarrow> name \<in> set [''VERSION'', ''management-release.json'', ''workspace-index.json''] \<or> strip_prefix ''dashboard/'' name \<noteq> None"

definition required_files :: "string list" where
  "required_files = [''VERSION'', ''management-release.json'', ''workspace-index.json'', ''dashboard/dashboard-declaration.json'',
     ''dashboard/asset-index.json'']"

definition management_ok :: "material_env \<Rightarrow> TransitionSnapshot \<Rightarrow> (string \<times> string) list \<Rightarrow> bool" where
  "management_ok env sn ms =
     (case materialDecode (rm_management env) (material ms ''management-release.json'') of
        None \<Rightarrow> False
      | Some m \<Rightarrow> mm_SchemaVersion m = 1 \<and> mm_AppID m = ts_AppID sn \<and> mm_AppVersion m = ts_AppVersion sn \<and> mm_DataContract m = ts_DataContract sn \<and>
          mm_DefaultWorkerVersion m = ts_DefaultWorkerVersion sn \<and> mm_CompatibleWorkerVersions m = worker_versions sn)"

definition worker_dashboard_ok :: "material_env \<Rightarrow> TransitionSnapshot \<Rightarrow> (string \<times> string) list \<Rightarrow> bool" where
  "worker_dashboard_ok env sn ms =
     (case materialDecode (rm_declaration env) (material ms ''dashboard/dashboard-declaration.json'') of
        None \<Rightarrow> False
      | Some d \<Rightarrow> dl_SchemaVersion d = 1 \<and> dl_AppID d = ts_AppID sn \<and> dl_AppVersion d = ts_AppVersion sn \<and>
          map_of (dl_Dashboard d) ''artifactDigest'' = Some (JStr (ts_DashboardDigest sn)) \<and>
          materialDigest env (material ms ''dashboard/asset-index.json'') = ts_DashboardDigest sn \<and>
          (case materialDecode (rm_assets env) (material ms ''dashboard/asset-index.json'') of
             None \<Rightarrow> False
           | Some a \<Rightarrow> as_SchemaVersion a = 1 \<and> as_Files a \<noteq> [] \<and> length (as_Files a) \<le> 256 \<and> material (as_Files a) ''index.html'' \<noteq> [] \<and>
               length ms = length (as_Files a) + 5 \<and> list_all (asset_ok env ms) (as_Files a)))"

definition verifyTransitionMaterial :: "material_env \<Rightarrow> dir \<Rightarrow> transitionReleaseEntry \<Rightarrow> bool" where
  "verifyTransitionMaterial env dir e =
     (let sn = te_Snapshot e
      in case read_manifest env dir (te_ManifestRef e) (ts_ManifestDigest sn) of
           None \<Rightarrow> False
         | Some valid \<Rightarrow>
             (case rm_manifest env valid of
                None \<Rightarrow> False
              | Some i \<Rightarrow>
                  if mf_AppID i \<noteq> ts_AppID sn \<or> mf_Version i \<noteq> ts_AppVersion sn then False
                  else (case read_index env dir (te_ReleaseIndexRef e) (ts_ReleaseDigest sn) of
                          None \<Rightarrow> False
                        | Some ix \<Rightarrow>
                            if \<not> index_identity (ts_AppID sn) (ts_AppVersion sn) ix \<or> ix_Components ix \<noteq> [] \<or> length (ix_Files ix) < 5
                               \<or> length (ix_Files ix) > 260 then False
                            else (case read_materials env dir worker_file (te_ReleaseIndexRef e) 0 (ix_Files ix) of
                                    None \<Rightarrow> False
                                  | Some ms \<Rightarrow>
                                      list_all (\<lambda>name. map_of ms name \<noteq> None) required_files \<and>
                                      TrimSpace (material ms ''VERSION'') = ts_AppVersion sn \<and>
                                      management_ok env sn ms \<and> worker_dashboard_ok env sn ms))))"

text \<open>The loop of \<open>load\<close> with the references and versions seen so far.\<close>

definition version_of :: "string \<Rightarrow> string \<Rightarrow> string" where
  "version_of app version = app @ ''@'' @ version"

fun transition_entries_ok :: "string list \<Rightarrow> string list \<Rightarrow> transitionReleaseEntry list \<Rightarrow> bool" where
  "transition_entries_ok refs versions [] = True"
| "transition_entries_ok refs versions (e # es) =
     (let sn = te_Snapshot e; version = version_of (ts_AppID sn) (ts_AppVersion sn)
      in if \<not> TransitionSnapshot_valid sn \<or> ts_ReleaseRef sn \<in> set refs \<or> version \<in> set versions \<or>
            \<not> materialPath (te_ManifestRef e) \<or> \<not> materialPath (te_ReleaseIndexRef e) then False
         else transition_entries_ok (ts_ReleaseRef sn # refs) (version # versions) es)"

text \<open>A nil \<open>*TransitionReleases\<close> is \<open>None\<close>, else its path.\<close>

definition transition_load :: "material_env \<Rightarrow> string option \<Rightarrow> (dir \<times> transitionReleaseEntry list) option" where
  "transition_load env source =
     (case source of
        None \<Rightarrow> None
      | Some path \<Rightarrow>
          if path = [] \<or> rm_ctx env then None
          else (case rm_OpenRoot env path of
                  None \<Rightarrow> None
                | Some dir \<Rightarrow>
                    (case materialRead env dir (path_Base path) (2 * 2 ^ 20) of
                       None \<Rightarrow> None
                     | Some raw \<Rightarrow>
                         (case materialDecode (rm_registry env) raw of
                            None \<Rightarrow> None
                          | Some registry \<Rightarrow>
                              if tg_SchemaVersion registry \<noteq> 1 \<or> tg_Releases registry = [] \<or> length (tg_Releases registry) > 128 then None
                              else if transition_entries_ok [] [] (tg_Releases registry) then Some (dir, tg_Releases registry) else None))))"

text \<open>The last entry of a list with a property, as a loop that keeps overwriting a pointer leaves it.\<close>

definition find_last :: "('a \<Rightarrow> bool) \<Rightarrow> 'a list \<Rightarrow> 'a option" where
  "find_last P xs = find P (rev xs)"

definition transition_Read ::
  "material_env \<Rightarrow> string option \<Rightarrow> IdentityContext \<Rightarrow> Installation \<Rightarrow> string \<Rightarrow> op_error + TransitionSnapshot \<times> TransitionSnapshot" where
  "transition_Read env source actor installed targetRef =
     (if source = None \<or> source = Some [] \<or> rm_ctx env \<or> \<not> transitionName targetRef \<or> ic_StationID actor \<noteq> in_StationID installed \<or>
         ic_OrganizationID actor \<noteq> in_OrganizationID installed \<or> in_State installed \<noteq> ''installed'' then Inl TransitionRelease
      else case transition_load env source of
             None \<Rightarrow> Inl TransitionRelease
           | Some (dir, entries) \<Rightarrow>
               (case (find_last (\<lambda>e. ts_AppID (te_Snapshot e) = in_AppID installed \<and> ts_AppVersion (te_Snapshot e) = in_AppVersion installed) entries,
                      find_last (\<lambda>e. ts_ReleaseRef (te_Snapshot e) = targetRef \<and> ts_AppID (te_Snapshot e) = in_AppID installed) entries) of
                  (Some s, Some t) \<Rightarrow>
                    if verifyTransitionMaterial env dir s \<and> verifyTransitionMaterial env dir t then Inr (te_Snapshot s, te_Snapshot t)
                    else Inl TransitionRelease
                | _ \<Rightarrow> Inl TransitionRelease))"

definition transition_Resolve :: "material_env \<Rightarrow> string option \<Rightarrow> string \<Rightarrow> string \<Rightarrow> string \<Rightarrow> op_error + TransitionSnapshot" where
  "transition_Resolve env source appID version ref =
     (case transition_load env source of
        None \<Rightarrow> Inl TransitionRelease
      | Some (dir, entries) \<Rightarrow>
          (case find (\<lambda>e. ts_AppID (te_Snapshot e) = appID \<and> ts_AppVersion (te_Snapshot e) = version \<and> ts_ReleaseRef (te_Snapshot e) = ref) entries of
             None \<Rightarrow> Inl TransitionRelease
           | Some e \<Rightarrow> if verifyTransitionMaterial env dir e then Inr (te_Snapshot e) else Inl TransitionRelease))"

section \<open>Releases with a dashboard only\<close>

fun dashboard_entries_ok :: "string list \<Rightarrow> string list \<Rightarrow> dashboardReleaseEntry list \<Rightarrow> bool" where
  "dashboard_entries_ok versions refs [] = True"
| "dashboard_entries_ok versions refs (e # es) =
     (let key = version_of (de_AppID e) (de_AppVersion e)
      in if key \<in> set versions \<or> de_ReleaseRef e \<in> set refs \<or> \<not> materialPath (de_ReleaseIndexRef e) \<or> \<not> materialPath (de_ManifestRef e) \<or>
            de_ReleaseIndexRef e = de_ManifestRef e \<and> de_ReleaseDigest e \<noteq> de_ManifestDigest e then False
         else dashboard_entries_ok (key # versions) (de_ReleaseRef e # refs) es)"

definition dashboard_load :: "material_env \<Rightarrow> string option \<Rightarrow> (dir \<times> dashboardReleaseEntry list) option" where
  "dashboard_load env source =
     (case source of
        None \<Rightarrow> None
      | Some path \<Rightarrow>
          if path = [] \<or> rm_ctx env then None
          else (case rm_OpenRoot env path of
                  None \<Rightarrow> None
                | Some dir \<Rightarrow>
                    (case materialRead env dir (path_Base path) (2 * 2 ^ 20) of
                       None \<Rightarrow> None
                     | Some raw \<Rightarrow>
                         (case appcenter_Decode (rm_dashboards env) raw ''dashboard-release-registry'' (2 * 2 ^ 20) of
                            None \<Rightarrow> None
                          | Some registry \<Rightarrow>
                              if dashboard_entries_ok [] [] (dr_Releases registry) then Some (dir, dr_Releases registry) else None))))"

definition video_versions :: "string list" where
  "video_versions = [''0.17.28'', ''0.17.29'', ''0.17.30'', ''0.17.31'', ''0.17.32'', ''0.17.35'', ''0.17.37'', ''0.17.38'', ''0.17.39'']"

definition dashboardImagesMatch :: "dashboardManifestImage list \<Rightarrow> transitionReleaseIndex \<Rightarrow> bool" where
  "dashboardImagesMatch images release =
     (if ix_AppID release \<noteq> ''video-mcp'' then
        (case images of [im] \<Rightarrow> ix_Components release = [] \<and> mi_Image im = ix_AppImage release | _ \<Rightarrow> False)
      else case (images, ix_Components release) of
             ([i0, i1], [c0, c1]) \<Rightarrow>
               ix_AppVersion release \<in> set video_versions \<and> mi_Component i0 = ''api'' \<and> mi_Component i1 = ''artifact-authority'' \<and>
               list_all (\<lambda>(i, c). mi_Component i = dc_Name c \<and> mi_Image i = dc_Image c \<and> transitionDigest (dc_ImageDigest c)) [(i0, c0), (i1, c1)] \<and>
               dc_Image c0 = ix_AppImage release \<and> dc_ImageDigest c0 = ix_AppImageDigest release \<and>
               dc_Image c1 = ''registry.cn-qingdao.aliyuncs.com/wod/verdantflare-app:video-mcp-server-v0.17.12'' \<and>
               dc_ImageDigest c1 = ''sha256:b4a6eed372cca5ede2a3722a45de210b3bac223050e3e478e89943f997b0a4a4''
           | _ \<Rightarrow> False)"

text \<open>A release whose index is its manifest has no index of its own.\<close>

definition manifest_only :: "dashboardReleaseEntry \<Rightarrow> bool" where
  "manifest_only e \<longleftrightarrow> de_ReleaseIndexRef e = de_ManifestRef e \<and> de_ReleaseDigest e = de_ManifestDigest e"

definition manifest_images_ok :: "dashboardReleaseEntry \<Rightarrow> dashboardManifestImage list \<Rightarrow> bool" where
  "manifest_images_ok e images \<longleftrightarrow> images \<noteq> [] \<and> transitionDigest (de_TemplateDigest e) \<and>
     list_all (\<lambda>i. TrimSpace (mi_Component i) \<noteq> [] \<and> TrimSpace (mi_Image i) \<noteq> []) images"

definition dashboard_file :: "string \<Rightarrow> bool" where
  "dashboard_file name \<longleftrightarrow> strip_prefix ''dashboard/'' name \<noteq> None"

definition dashboard_material_ok :: "material_env \<Rightarrow> dashboardReleaseEntry \<Rightarrow> (string \<times> string) list \<Rightarrow> bool" where
  "dashboard_material_ok env e ms =
     (case (materialDecode (rm_declaration env) (material ms ''dashboard/dashboard-declaration.json''),
            materialDecode (rm_assets env) (material ms ''dashboard/asset-index.json'')) of
        (Some d, Some a) \<Rightarrow>
          dl_SchemaVersion d = 1 \<and> dl_AppID d = de_AppID e \<and> dl_AppVersion d = de_AppVersion e \<and>
          map_of (dl_Dashboard d) ''artifactDigest'' = Some (JStr (materialDigest env (material ms ''dashboard/asset-index.json''))) \<and>
          map_of (dl_Dashboard d) ''entryRef'' = Some (JStr ''dashboard/index.html'') \<and>
          as_SchemaVersion a = 1 \<and> length (as_Files a) \<ge> 1 \<and> length (as_Files a) \<le> 256 \<and> material (as_Files a) ''index.html'' \<noteq> [] \<and>
          length ms = length (as_Files a) + 2 \<and>
          list_all (\<lambda>f. fst f \<noteq> ''asset-index.json'' \<and> fst f \<noteq> ''dashboard-declaration.json'' \<and> asset_ok env ms f) (as_Files a)
      | _ \<Rightarrow> False)"

definition verifyDashboardRelease :: "material_env \<Rightarrow> dir \<Rightarrow> dashboardReleaseEntry \<Rightarrow> bool" where
  "verifyDashboardRelease env dir e =
     (case read_manifest env dir (de_ManifestRef e) (de_ManifestDigest e) of
        None \<Rightarrow> False
      | Some validated \<Rightarrow>
          (case rm_identity env validated of
             None \<Rightarrow> False
           | Some i \<Rightarrow>
               if mf_AppID i \<noteq> de_AppID e \<or> mf_Version i \<noteq> de_AppVersion e then False
               else if manifest_only e then manifest_images_ok e (mf_Images i)
               else (case read_index env dir (de_ReleaseIndexRef e) (de_ReleaseDigest e) of
                       None \<Rightarrow> False
                     | Some ix \<Rightarrow>
                         if \<not> index_identity (de_AppID e) (de_AppVersion e) ix \<or> \<not> dashboardImagesMatch (mf_Images i) ix \<or>
                            length (ix_Files ix) < 3 \<or> length (ix_Files ix) > 258 then False
                         else (case read_materials env dir dashboard_file (de_ReleaseIndexRef e) 0 (ix_Files ix) of
                                 None \<Rightarrow> False
                               | Some ms \<Rightarrow> dashboard_material_ok env e ms))))"

definition dashboard_Resolve :: "material_env \<Rightarrow> string option \<Rightarrow> string \<Rightarrow> string \<Rightarrow> string \<Rightarrow> op_error + dashboardReleaseEntry" where
  "dashboard_Resolve env source appID version ref =
     (case dashboard_load env source of
        None \<Rightarrow> Inl AppCenterRelease
      | Some (dir, entries) \<Rightarrow>
          (case find (\<lambda>e. de_AppID e = appID \<and> de_AppVersion e = version \<and> de_ReleaseRef e = ref) entries of
             None \<Rightarrow> Inl AppCenterRelease
           | Some e \<Rightarrow> if verifyDashboardRelease env dir e then Inr e else Inl AppCenterRelease))"

text \<open>The snapshot of a release with no workers.\<close>

definition dashboard_snapshot :: "dashboardReleaseEntry \<Rightarrow> string \<Rightarrow> string \<Rightarrow> TransitionSnapshot" where
  "dashboard_snapshot e dashboard appImage =
     \<lparr>ts_AppID = de_AppID e, ts_AppVersion = de_AppVersion e, ts_ReleaseRef = de_ReleaseRef e, ts_ReleaseDigest = de_ReleaseDigest e,
      ts_ManifestDigest = de_ManifestDigest e, ts_TemplateDigest = de_TemplateDigest e, ts_DashboardDigest = dashboard, ts_DataContract = [],
      ts_DefaultWorkerVersion = [], ts_CompatibleWorkerVersions = Some [], ts_ReleaseKind = ''dashboard-release'', ts_AppImageDigest = appImage\<rparr>"

definition checked_snapshot :: "TransitionSnapshot \<Rightarrow> op_error + TransitionSnapshot" where
  "checked_snapshot s = (if TransitionSnapshot_valid s then Inr s else Inl AppCenterRelease)"

definition dashboardTransitionSnapshot :: "material_env \<Rightarrow> dir \<Rightarrow> dashboardReleaseEntry \<Rightarrow> op_error + TransitionSnapshot" where
  "dashboardTransitionSnapshot env dir e =
     (if \<not> verifyDashboardRelease env dir e then Inl AppCenterRelease
      else if manifest_only e then checked_snapshot (dashboard_snapshot e (de_ManifestDigest e) (de_ManifestDigest e))
      else case materialRead env dir (de_ReleaseIndexRef e) (2 ^ 20) of
             None \<Rightarrow> Inl AppCenterRelease
           | Some raw \<Rightarrow>
               (case materialDecode (rm_index env) raw of
                  None \<Rightarrow> Inl AppCenterRelease
                | Some release \<Rightarrow>
                    if materialDigest env raw \<noteq> de_ReleaseDigest e then Inl AppCenterRelease
                    else (case materialRead env dir (beside (de_ReleaseIndexRef e) ''dashboard/asset-index.json'') (4 * 2 ^ 20) of
                            None \<Rightarrow> Inl AppCenterRelease
                          | Some index \<Rightarrow>
                              if materialDigest env index \<noteq> ''sha256:'' @ material (ix_Files release) ''dashboard/asset-index.json''
                              then Inl AppCenterRelease
                              else checked_snapshot (dashboard_snapshot e (materialDigest env index) (ix_AppImageDigest release)))))"

definition ReadTransition ::
  "material_env \<Rightarrow> string option \<Rightarrow> IdentityContext \<Rightarrow> Installation \<Rightarrow> string \<Rightarrow> op_error + TransitionSnapshot \<times> TransitionSnapshot" where
  "ReadTransition env source actor installed targetRef =
     (if ic_StationID actor \<noteq> in_StationID installed \<or> ic_OrganizationID actor \<noteq> in_OrganizationID installed \<or>
         in_State installed \<noteq> ''installed'' then Inl AppCenterRelease
      else case dashboard_load env source of
             None \<Rightarrow> Inl AppCenterRelease
           | Some (dir, entries) \<Rightarrow>
               (case (find_last (\<lambda>e. de_AppID e = in_AppID installed \<and> de_AppVersion e = in_AppVersion installed) entries,
                      find_last (\<lambda>e. de_AppID e = in_AppID installed \<and> de_ReleaseRef e = targetRef) entries) of
                  (Some s, Some t) \<Rightarrow>
                    (case dashboardTransitionSnapshot env dir s of
                       Inl err \<Rightarrow> Inl err
                     | Inr a \<Rightarrow> (case dashboardTransitionSnapshot env dir t of Inl err \<Rightarrow> Inl err | Inr b \<Rightarrow> Inr (a, b)))
                | _ \<Rightarrow> Inl AppCenterRelease))"

end
