(* ===== verification/Transition_Releases_Properties.thy ===== *)
theory Transition_Releases_Properties
  imports Transition_Releases
begin

text \<open>
  What the release readers promise: a snapshot they return is the one registered for its version
  and reference, and every byte it stands for was read with the digest that is recorded for it.
\<close>

section \<open>The registries\<close>

definition entry_wf :: "transitionReleaseEntry \<Rightarrow> bool" where
  "entry_wf e \<longleftrightarrow> TransitionSnapshot_valid (te_Snapshot e) \<and> materialPath (te_ManifestRef e) \<and> materialPath (te_ReleaseIndexRef e)"

definition entry_version :: "transitionReleaseEntry \<Rightarrow> string" where
  "entry_version e = version_of (ts_AppID (te_Snapshot e)) (ts_AppVersion (te_Snapshot e))"

definition entry_ref :: "transitionReleaseEntry \<Rightarrow> string" where
  "entry_ref e = ts_ReleaseRef (te_Snapshot e)"

lemma transition_entries_gen:
  "transition_entries_ok refs versions es \<longleftrightarrow>
     list_all entry_wf es \<and> distinct (map entry_ref es) \<and> distinct (map entry_version es) \<and>
     entry_ref ` set es \<inter> set refs = {} \<and> entry_version ` set es \<inter> set versions = {}"
  by (induction es arbitrary: refs versions) (auto simp: entry_wf_def entry_ref_def entry_version_def Let_def)

lemma transition_load_entries:
  "transition_load env source = Some (dir, es) \<Longrightarrow> list_all entry_wf es \<and> distinct (map entry_ref es) \<and> distinct (map entry_version es)"
  by (auto simp: transition_load_def transition_entries_gen split: option.split_asm if_split_asm)

lemma find_last_Some: "find_last P xs = Some x \<Longrightarrow> x \<in> set xs \<and> P x"
  by (auto simp: find_last_def find_Some_iff in_set_conv_nth) (metis in_set_conv_nth length_rev set_rev)

lemma find_only:
  assumes "x \<in> set xs" "P x" "\<And>y. y \<in> set xs \<Longrightarrow> P y \<Longrightarrow> y = x"
  shows "find P xs = Some x"
  using assms
proof (induction xs)
  case (Cons y ys)
  show ?case
  proof (cases "P y")
    case True
    then have "y = x" using Cons.prems(3) [of y] by simp
    with True show ?thesis by simp
  next
    case False
    then have "x \<in> set ys" using Cons.prems(1,2) by auto
    with False Cons.IH [OF this Cons.prems(2)] Cons.prems(3) show ?thesis by simp
  qed
qed simp

section \<open>Material\<close>

definition bound_bytes :: "material_env \<Rightarrow> dir \<Rightarrow> string \<Rightarrow> string \<Rightarrow> bool" where
  "bound_bytes env dir ref digest \<longleftrightarrow>
     (\<exists>raw. materialRead env dir ref (4 * 2 ^ 20) = Some raw \<and> materialDigest env raw = digest)"

lemma take_within: "int (length (take (nat (n + 1)) b)) \<le> n \<Longrightarrow> n \<le> m \<Longrightarrow> take (nat (m + 1)) b = take (nat (n + 1)) b"
proof -
  assume le: "int (length (take (nat (n + 1)) b)) \<le> n" "n \<le> m"
  then have "0 \<le> n" by linarith
  with le(1) have "int (length b) \<le> n" by (simp add: min_def split: if_split_asm)
  with le(2) show "take (nat (m + 1)) b = take (nat (n + 1)) b" by simp
qed

lemma read_limit_mono:
  assumes "read dir ref n = Some raw" "n \<le> m"
  shows "read dir ref m = Some raw"
proof -
  obtain f sz b where f: "dir ref = Some f" "of_Stat f = Some (True, sz)" "sz \<le> n" "of_Bytes f = Some b"
      "int (length (take (nat (n + 1)) b)) \<le> n" "raw = take (nat (n + 1)) b"
      "ValidPath ref" "ref \<noteq> ''.''" "CHR 0x5C \<notin> set ref" "CHR '':'' \<notin> set ref"
    using assms(1) unfolding read_def by (auto split: if_split_asm option.split_asm)
  with take_within [OF f(5) assms(2)] assms(2) show ?thesis unfolding read_def by simp
qed

lemma materialRead_mono:
  assumes "materialRead env dir ref n = Some raw" "n \<le> m"
  shows "materialRead env dir ref m = Some raw"
proof -
  have "read dir ref n = Some raw" using assms(1) by (auto simp: materialRead_def split: if_split_asm option.split_asm)
  from read_limit_mono [OF this assms(2)] assms(1) show ?thesis by (auto simp: materialRead_def split: if_split_asm option.split_asm)
qed

lemma read_manifest_bound: "read_manifest env dir ref digest = Some valid \<Longrightarrow> bound_bytes env dir ref digest"
  by (auto simp: read_manifest_def bound_bytes_def split: option.split_asm if_split_asm)

lemma read_index_bound:
  assumes "read_index env dir ref digest = Some ix"
  shows "bound_bytes env dir ref digest"
proof -
  obtain raw where "materialRead env dir ref (2 ^ 20) = Some raw" "materialDigest env raw = digest"
    using assms unfolding read_index_def by (auto split: option.split_asm if_split_asm)
  with materialRead_mono [of env dir ref "2 ^ 20" raw "4 * 2 ^ 20"] show ?thesis unfolding bound_bytes_def by auto
qed

lemma read_materials_Cons:
  assumes "read_materials env dir allowed ref n ((name, digest) # files) = Some ms"
  obtains content rest where "allowed name" "materialRead env dir (beside ref name) (4 * 2 ^ 20) = Some content"
    "materialDigest env content = ''sha256:'' @ digest" "n + int (length content) \<le> 32 * 2 ^ 20"
    "read_materials env dir allowed ref (n + int (length content)) files = Some rest" "ms = (name, content) # rest"
  using assms that by (simp split: if_split_asm option.split_asm) fastforce

lemma read_materials_bound:
  assumes "read_materials env dir allowed ref n files = Some ms"
  shows "map fst ms = map fst files \<and>
    (\<forall>name digest. (name, digest) \<in> set files \<longrightarrow> allowed name \<and> bound_bytes env dir (beside ref name) (''sha256:'' @ digest)) \<and>
    (\<forall>name content. (name, content) \<in> set ms \<longrightarrow> materialRead env dir (beside ref name) (4 * 2 ^ 20) = Some content)"
  using assms
proof (induction files arbitrary: n ms)
  case (Cons f files)
  obtain name digest where f: "f = (name, digest)" by (cases f)
  from Cons.prems [unfolded f] show ?case
  proof (cases rule: read_materials_Cons)
    case (1 content rest)
    with Cons.IH [OF 1(5)] f show ?thesis by (auto simp: bound_bytes_def)
  qed
qed simp

lemma read_materials_total:
  assumes "read_materials env dir allowed ref n files = Some ms" "n \<le> 32 * 2 ^ 20"
  shows "n + int (sum_list (map (length \<circ> snd) ms)) \<le> 32 * 2 ^ 20"
  using assms
proof (induction files arbitrary: n ms)
  case (Cons f files)
  obtain name digest where f: "f = (name, digest)" by (cases f)
  from Cons.prems(1) [unfolded f] show ?case
  proof (cases rule: read_materials_Cons)
    case (1 content rest)
    with Cons.IH [OF 1(5) 1(4)] show ?thesis by simp
  qed
qed simp

text \<open>
  A genuine release of a registry entry: the manifest and the release index have the recorded
  digests, the index names exactly this application and version, every file it lists is there with
  the digest it lists, and the asset index is the one the snapshot's dashboard digest stands for.
\<close>

definition genuine :: "material_env \<Rightarrow> dir \<Rightarrow> transitionReleaseEntry \<Rightarrow> bool" where
  "genuine env dir e \<longleftrightarrow>
     bound_bytes env dir (te_ManifestRef e) (ts_ManifestDigest (te_Snapshot e)) \<and>
     bound_bytes env dir (te_ReleaseIndexRef e) (ts_ReleaseDigest (te_Snapshot e)) \<and>
     bound_bytes env dir (beside (te_ReleaseIndexRef e) ''dashboard/asset-index.json'') (ts_DashboardDigest (te_Snapshot e)) \<and>
     (\<exists>ix. read_index env dir (te_ReleaseIndexRef e) (ts_ReleaseDigest (te_Snapshot e)) = Some ix \<and>
        index_identity (ts_AppID (te_Snapshot e)) (ts_AppVersion (te_Snapshot e)) ix \<and> set required_files \<subseteq> fst ` set (ix_Files ix) \<and>
        (\<forall>name digest. (name, digest) \<in> set (ix_Files ix) \<longrightarrow>
           bound_bytes env dir (beside (te_ReleaseIndexRef e) name) (''sha256:'' @ digest)))"

lemma material_read:
  assumes "read_materials env dir allowed ref n files = Some ms" "map_of ms name \<noteq> None"
  shows "materialRead env dir (beside ref name) (4 * 2 ^ 20) = Some (material ms name)"
proof -
  obtain content where c: "map_of ms name = Some content" using assms(2) by blast
  then have "(name, content) \<in> set ms" by (rule map_of_SomeD)
  with read_materials_bound [OF assms(1)] c show ?thesis by (auto simp: lookup_default_def)
qed

lemma verify_cases:
  assumes "verifyTransitionMaterial env dir e"
  obtains valid ix ms where
    "read_manifest env dir (te_ManifestRef e) (ts_ManifestDigest (te_Snapshot e)) = Some valid"
    "read_index env dir (te_ReleaseIndexRef e) (ts_ReleaseDigest (te_Snapshot e)) = Some ix"
    "index_identity (ts_AppID (te_Snapshot e)) (ts_AppVersion (te_Snapshot e)) ix"
    "read_materials env dir worker_file (te_ReleaseIndexRef e) 0 (ix_Files ix) = Some ms"
    "list_all (\<lambda>name. map_of ms name \<noteq> None) required_files" "worker_dashboard_ok env (te_Snapshot e) ms"
  using assms that unfolding verifyTransitionMaterial_def Let_def
  by (simp split: option.split_asm if_split_asm)

lemma verified_genuine:
  assumes "verifyTransitionMaterial env dir e"
  shows "genuine env dir e"
  using assms
proof (cases rule: verify_cases)
  case (1 valid ix ms)
  have req: "map_of ms ''dashboard/asset-index.json'' \<noteq> None" using 1(5) by (simp add: required_files_def)
  have "bound_bytes env dir (beside (te_ReleaseIndexRef e) ''dashboard/asset-index.json'') (ts_DashboardDigest (te_Snapshot e))"
    using material_read [OF 1(4) req] 1(6) by (auto simp: worker_dashboard_ok_def bound_bytes_def split: option.split_asm)
  moreover have "set required_files \<subseteq> fst ` set ms" using 1(5) by (force simp: list_all_iff map_of_eq_None_iff)
  moreover have "fst ` set ms = fst ` set (ix_Files ix)" using read_materials_bound [OF 1(4)] by (metis list.set_map)
  ultimately show ?thesis
    using 1(2,3) read_manifest_bound [OF 1(1)] read_index_bound [OF 1(2)] read_materials_bound [OF 1(4)] unfolding genuine_def by simp
qed

section \<open>Resolution\<close>

lemma same_ref: "transition_load env source = Some (dir, es) \<Longrightarrow> x \<in> set es \<Longrightarrow> y \<in> set es \<Longrightarrow> entry_ref x = entry_ref y \<Longrightarrow> x = y"
  using transition_load_entries [of env source dir es] by (auto simp: distinct_map dest: inj_onD)

lemma resolve_entry:
  assumes "transition_load env source = Some (dir, es)" "e \<in> set es" "verifyTransitionMaterial env dir e"
  shows "transition_Resolve env source (ts_AppID (te_Snapshot e)) (ts_AppVersion (te_Snapshot e)) (ts_ReleaseRef (te_Snapshot e)) = Inr (te_Snapshot e)"
proof -
  have "find (\<lambda>x. ts_AppID (te_Snapshot x) = ts_AppID (te_Snapshot e) \<and> ts_AppVersion (te_Snapshot x) = ts_AppVersion (te_Snapshot e) \<and>
      ts_ReleaseRef (te_Snapshot x) = ts_ReleaseRef (te_Snapshot e)) es = Some e"
    by (rule find_only) (use assms same_ref [OF assms(1)] in \<open>auto simp: entry_ref_def\<close>)
  with assms show ?thesis by (simp add: transition_Resolve_def)
qed

text \<open>A snapshot is published by a registry: an entry of it carries it and its material is genuine.\<close>

definition published_release :: "material_env \<Rightarrow> string option \<Rightarrow> TransitionSnapshot \<Rightarrow> bool" where
  "published_release env source sn \<longleftrightarrow>
     (\<exists>dir es e. transition_load env source = Some (dir, es) \<and> e \<in> set es \<and> te_Snapshot e = sn \<and> genuine env dir e)"

text \<open>
  C27. The pair of snapshots a transition starts from is genuine: each is valid and registered, its
  manifest, release index, dashboard and every listed file were read with the recorded digests, the
  first is the release of the installed version, the second the one with the requested reference,
  both of the installed application, and each is also what the lifecycle admission resolves for
  its version and reference. Nothing is read for an installation of another station or
  organization or one that is not installed.
\<close>

theorem transition_read_genuine:
  assumes "transition_Read env source actor installed ref = Inr (s, t)"
  shows "published_release env source s \<and> published_release env source t \<and> TransitionSnapshot_valid s \<and> TransitionSnapshot_valid t \<and>
    ts_AppID s = in_AppID installed \<and> ts_AppVersion s = in_AppVersion installed \<and> ts_AppID t = in_AppID installed \<and> ts_ReleaseRef t = ref \<and>
    ic_StationID actor = in_StationID installed \<and> ic_OrganizationID actor = in_OrganizationID installed \<and> in_State installed = ''installed'' \<and>
    transition_Resolve env source (ts_AppID s) (ts_AppVersion s) (ts_ReleaseRef s) = Inr s \<and>
    transition_Resolve env source (ts_AppID t) (ts_AppVersion t) (ts_ReleaseRef t) = Inr t"
proof -
  obtain dir es a b where load: "transition_load env source = Some (dir, es)"
      and a: "find_last (\<lambda>e. ts_AppID (te_Snapshot e) = in_AppID installed \<and> ts_AppVersion (te_Snapshot e) = in_AppVersion installed) es = Some a"
      and b: "find_last (\<lambda>e. ts_ReleaseRef (te_Snapshot e) = ref \<and> ts_AppID (te_Snapshot e) = in_AppID installed) es = Some b"
      and ver: "verifyTransitionMaterial env dir a" "verifyTransitionMaterial env dir b" and st: "s = te_Snapshot a" "t = te_Snapshot b"
      and guards: "ic_StationID actor = in_StationID installed" "ic_OrganizationID actor = in_OrganizationID installed" "in_State installed = ''installed''"
    using assms unfolding transition_Read_def by (auto split: if_split_asm option.split_asm)
  note ia = find_last_Some [OF a] and ib = find_last_Some [OF b]
  have "TransitionSnapshot_valid s" "TransitionSnapshot_valid t"
    using transition_load_entries [OF load] ia ib st by (auto simp: list_all_iff entry_wf_def)
  moreover have "published_release env source s" "published_release env source t"
    unfolding published_release_def using load ia ib st verified_genuine ver by blast+
  ultimately show ?thesis using ia ib st guards resolve_entry [OF load _ ver(1)] resolve_entry [OF load _ ver(2)] by simp
qed

section \<open>Dashboard releases\<close>

lemma dashboard_verify_cases:
  assumes "verifyDashboardRelease env dir e"
  obtains valid i where "read_manifest env dir (de_ManifestRef e) (de_ManifestDigest e) = Some valid"
    "rm_identity env valid = Some i" "mf_AppID i = de_AppID e" "mf_Version i = de_AppVersion e"
    "manifest_only e" "manifest_images_ok e (mf_Images i)"
  | valid i ix ms where "read_manifest env dir (de_ManifestRef e) (de_ManifestDigest e) = Some valid"
    "rm_identity env valid = Some i" "mf_AppID i = de_AppID e" "mf_Version i = de_AppVersion e" "\<not> manifest_only e"
    "read_index env dir (de_ReleaseIndexRef e) (de_ReleaseDigest e) = Some ix" "index_identity (de_AppID e) (de_AppVersion e) ix"
    "dashboardImagesMatch (mf_Images i) ix"
    "read_materials env dir dashboard_file (de_ReleaseIndexRef e) 0 (ix_Files ix) = Some ms" "dashboard_material_ok env e ms"
  using assms that unfolding verifyDashboardRelease_def by (auto split: option.split_asm if_split_asm)

lemma append_inj_image: "inj_on (\<lambda>name. p @ name) A"
  by (simp add: inj_on_def)

text \<open>
  Counting: a list of \<open>n + 2\<close> distinct names that has two names and \<open>n\<close> others besides them has no
  further name.
\<close>

lemma names_exact:
  assumes "distinct names" "distinct assets" "length names = length assets + 2" "{x, y} \<subseteq> set names" "x \<noteq> y"
    "(\<lambda>n. p @ n) ` set assets \<subseteq> set names" "x \<notin> (\<lambda>n. p @ n) ` set assets" "y \<notin> (\<lambda>n. p @ n) ` set assets"
  shows "set names = {x, y} \<union> (\<lambda>n. p @ n) ` set assets"
proof (rule sym, rule card_subset_eq)
  have "card ({x, y} \<union> (\<lambda>n. p @ n) ` set assets) = card {x, y} + card ((\<lambda>n. p @ n) ` set assets)"
    by (rule card_Un_disjoint) (use assms in auto)
  also have "\<dots> = 2 + length assets"
    using assms(2,5) by (simp add: card_image append_inj_image distinct_card)
  finally show "card ({x, y} \<union> (\<lambda>n. p @ n) ` set assets) = card (set names)"
    using assms(1,3) by (simp add: distinct_card)
qed (use assms in auto)

text \<open>
  What is relied on of the JSON library: the tokeniser finds nothing in the empty input, and a
  decoded object is a map, with every key once.
\<close>

definition json_maps :: "material_env \<Rightarrow> bool" where
  "json_maps env \<longleftrightarrow> fst (jl_tokens (rm_declaration env) []) = [] \<and> fst (jl_tokens (rm_assets env) []) = [] \<and>
     (\<forall>raw ix. jl_decode (rm_index env) raw = Some ix \<longrightarrow> distinct_keys (ix_Files ix)) \<and>
     (\<forall>raw a. jl_decode (rm_assets env) raw = Some a \<longrightarrow> distinct_keys (as_Files a))"

lemma Decode_decodes: "Decode lib r limit = Some x \<Longrightarrow> \<exists>b. jl_decode lib b = Some x"
  by (auto simp: Decode_def split: if_split_asm option.split_asm)

lemma Decode_empty:
  assumes "fst (jl_tokens lib []) = []"
  shows "materialDecode lib [] = None"
proof -
  obtain eof where "jl_tokens lib [] = ([], eof)" using assms by (cases "jl_tokens lib []") auto
  then have "\<not> scanDocument lib False []" by (simp add: scanDocument_def scanFuel_def)
  then show ?thesis by (simp add: materialDecode_def Decode_def readLimited_def)
qed

lemma material_present:
  assumes "materialDecode lib (material ms name) = Some x" "fst (jl_tokens lib []) = []"
  shows "map_of ms name \<noteq> None"
  using assms Decode_empty [OF assms(2)] by (auto simp: lookup_default_def split: option.split_asm)

definition declaration_name :: string where
  "declaration_name = ''dashboard/dashboard-declaration.json''"

definition asset_index_name :: string where
  "asset_index_name = ''dashboard/asset-index.json''"

text \<open>The files a dashboard release may have: the declaration, the asset index and its assets.\<close>

definition release_files :: "assets \<Rightarrow> string set" where
  "release_files a = {declaration_name, asset_index_name} \<union> (\<lambda>n. ''dashboard/'' @ n) ` fst ` set (as_Files a)"

lemma dashboard_files:
  assumes "dashboard_material_ok env e ms" "distinct_keys ms" "json_maps env"
  obtains a where "materialDecode (rm_assets env) (material ms asset_index_name) = Some a" "fst ` set ms = release_files a"
proof -
  obtain d a where d: "materialDecode (rm_declaration env) (material ms declaration_name) = Some d"
      and a: "materialDecode (rm_assets env) (material ms asset_index_name) = Some a" and len: "length ms = length (as_Files a) + 2"
      and all: "list_all (\<lambda>f. fst f \<noteq> ''asset-index.json'' \<and> fst f \<noteq> ''dashboard-declaration.json'' \<and> asset_ok env ms f) (as_Files a)"
    using assms(1) unfolding dashboard_material_ok_def declaration_name_def asset_index_name_def
    by (simp split: option.split_asm prod.split_asm)
  have present: "map_of ms declaration_name \<noteq> None" "map_of ms asset_index_name \<noteq> None"
    using material_present [OF d] material_present [OF a] assms(3) by (simp_all add: json_maps_def)
  have "\<exists>raw. jl_decode (rm_assets env) raw = Some a" using a unfolding materialDecode_def by (rule Decode_decodes)
  then have dist: "distinct (map fst (as_Files a))" using assms(3) by (auto simp: json_maps_def distinct_keys_def)
  have img: "(\<lambda>n. ''dashboard/'' @ n) ` set (map fst (as_Files a)) \<subseteq> set (map fst ms)"
    using all by (force simp: list_all_iff asset_ok_def map_of_eq_None_iff)
  have new: "declaration_name \<notin> (\<lambda>n. ''dashboard/'' @ n) ` set (map fst (as_Files a))"
      "asset_index_name \<notin> (\<lambda>n. ''dashboard/'' @ n) ` set (map fst (as_Files a))"
    using all by (auto simp: list_all_iff declaration_name_def asset_index_name_def)
  have two: "{declaration_name, asset_index_name} \<subseteq> set (map fst ms)" "declaration_name \<noteq> asset_index_name"
    using present by (auto simp: map_of_eq_None_iff) (simp add: declaration_name_def asset_index_name_def)
  have count: "distinct (map fst ms)" "length (map fst ms) = length (map fst (as_Files a)) + 2"
    using assms(2) len by (simp_all add: distinct_keys_def)
  note names_exact [OF count(1) dist count(2) two img new]
  then have "fst ` set ms = release_files a" by (simp add: release_files_def)
  with a that show thesis by blast
qed

lemma find_Some_D: "find P xs = Some x \<Longrightarrow> x \<in> set xs \<and> P x"
  by (auto simp: find_Some_iff)

text \<open>
  C28. A dashboard release that resolves is the registered one with the application, version
  and reference asked for, and its manifest has the digest of the registry and names that
  application and version. A release without an index of its own (its index is the manifest)
  consists of the manifest alone, which names its images. Every other release is complete and
  closed: its index has the digest of the registry and the manifest's images, the files it
  lists are exactly the declaration, the asset index and the assets that index names, and each
  was read with the digest listed for it, so that no file the asset index does not name is
  part of the release.
\<close>

theorem dashboard_release_closed:
  assumes "dashboard_Resolve env source app version ref = Inr e" and "json_maps env"
  shows "de_AppID e = app \<and> de_AppVersion e = version \<and> de_ReleaseRef e = ref \<and>
    (\<exists>dir es valid i. dashboard_load env source = Some (dir, es) \<and> e \<in> set es \<and>
       bound_bytes env dir (de_ManifestRef e) (de_ManifestDigest e) \<and>
       read_manifest env dir (de_ManifestRef e) (de_ManifestDigest e) = Some valid \<and>
       rm_identity env valid = Some i \<and> mf_AppID i = app \<and> mf_Version i = version \<and>
       (if manifest_only e then manifest_images_ok e (mf_Images i)
        else \<exists>ix raw a.
          read_index env dir (de_ReleaseIndexRef e) (de_ReleaseDigest e) = Some ix \<and>
          bound_bytes env dir (de_ReleaseIndexRef e) (de_ReleaseDigest e) \<and>
          index_identity app version ix \<and> dashboardImagesMatch (mf_Images i) ix \<and>
          (\<forall>name digest. (name, digest) \<in> set (ix_Files ix) \<longrightarrow> bound_bytes env dir (beside (de_ReleaseIndexRef e) name) (''sha256:'' @ digest)) \<and>
          materialRead env dir (beside (de_ReleaseIndexRef e) asset_index_name) (4 * 2 ^ 20) = Some raw \<and>
          materialDecode (rm_assets env) raw = Some a \<and> fst ` set (ix_Files ix) = release_files a))"
proof -
  obtain dir es where load: "dashboard_load env source = Some (dir, es)"
      and e: "find (\<lambda>e. de_AppID e = app \<and> de_AppVersion e = version \<and> de_ReleaseRef e = ref) es = Some e"
      and ver: "verifyDashboardRelease env dir e"
    using assms(1) unfolding dashboard_Resolve_def by (auto split: option.split_asm if_split_asm)
  note found = find_Some_D [OF e] load
  from ver show ?thesis
  proof (cases rule: dashboard_verify_cases)
    case (1 valid i)
    with found read_manifest_bound [OF 1(1)] show ?thesis unfolding if_P [OF 1(5)] by blast
  next
    case (2 valid i ix ms)
    note bound = read_materials_bound [OF 2(9)]
    have "\<exists>raw. jl_decode (rm_index env) raw = Some ix"
      using 2(6) unfolding read_index_def materialDecode_def by (auto split: option.split_asm if_split_asm dest: Decode_decodes)
    then have keys: "distinct_keys ms" using bound assms(2) by (auto simp: json_maps_def distinct_keys_def)
    obtain a where a: "materialDecode (rm_assets env) (material ms asset_index_name) = Some a" "fst ` set ms = release_files a"
      using dashboard_files [OF 2(10) keys assms(2)] by blast
    have "map_of ms asset_index_name \<noteq> None" using a(2) by (auto simp: release_files_def map_of_eq_None_iff)
    note raw = material_read [OF 2(9) this]
    have "fst ` set (ix_Files ix) = release_files a" using bound a(2) by (metis list.set_map)
    with found read_manifest_bound [OF 2(1)] read_index_bound [OF 2(6)] 2 bound raw a(1)
    show ?thesis unfolding if_not_P [OF 2(5)] by blast
  qed
qed

section \<open>A registry with two releases\<close>

text \<open>A JSON library that decodes by a function, and files whose contents are the version of their release.\<close>

definition demo_lib :: "(string \<Rightarrow> 'a) \<Rightarrow> 'a json_lib" where
  "demo_lib f = \<lparr>jl_utf8 = (\<lambda>_. True), jl_tokens = (\<lambda>b. (if b = [] then [] else [Num ''1''], True)), jl_float = (\<lambda>_. True),
     jl_decode = (\<lambda>b. Some (f b)), jl_marshal = (\<lambda>_. Some []), jl_unmarshal = (\<lambda>_. Some (JStr []))\<rparr>"

definition demo_hex :: string where
  "demo_hex = replicate 64 CHR ''0''"

definition demo_snapshot :: "string \<Rightarrow> string \<Rightarrow> TransitionSnapshot" where
  "demo_snapshot ref version =
     \<lparr>ts_AppID = ''world'', ts_AppVersion = version, ts_ReleaseRef = ref, ts_ReleaseDigest = ''sha256:'' @ demo_hex, ts_ManifestDigest = ''sha256:'' @ demo_hex,
      ts_TemplateDigest = ''sha256:'' @ demo_hex, ts_DashboardDigest = ''sha256:'' @ demo_hex, ts_DataContract = ''d1'', ts_DefaultWorkerVersion = ''1.0.0'',
      ts_CompatibleWorkerVersions = Some [''1.0.0''], ts_ReleaseKind = [], ts_AppImageDigest = []\<rparr>"

definition demo_entry :: "string \<Rightarrow> string \<Rightarrow> string \<Rightarrow> transitionReleaseEntry" where
  "demo_entry place ref version =
     \<lparr>te_Snapshot = demo_snapshot ref version, te_ManifestRef = place @ ''/app.json'', te_ReleaseIndexRef = place @ ''/index.json''\<rparr>"

definition demo_index :: "string list \<Rightarrow> string \<Rightarrow> transitionReleaseIndex" where
  "demo_index files version =
     \<lparr>ix_SchemaVersion = 1, ix_AppID = ''world'', ix_AppVersion = version, ix_SourceCommit = replicate 40 CHR ''a'', ix_ActionsRunID = ''7'',
      ix_ActionsRunAttempt = ''1'', ix_AppImage = ''registry/world:world-v'' @ version, ix_AppImageDigest = ''sha256:'' @ demo_hex, ix_Components = [],
      ix_Files = map (\<lambda>name. (name, demo_hex)) files\<rparr>"

definition demo_material_env :: material_env where
  "demo_material_env =
     \<lparr>rm_OpenRoot = (\<lambda>_. Some (\<lambda>ref. Some \<lparr>of_Stat = Some (True, 5),
        of_Bytes = Some (if strip_prefix ''one/'' ref = None then ''1.1.0'' else ''1.0.0'')\<rparr>)),
      rm_sha256 = (\<lambda>_. replicate 32 (CHR 0x00)), rm_ctx = False, rm_canceled = (\<lambda>_. (False, False)),
      rm_registry = demo_lib (\<lambda>_. \<lparr>tg_SchemaVersion = 1, tg_Releases = [demo_entry ''one'' ''r1'' ''1.0.0'', demo_entry ''two'' ''r2'' ''1.1.0'']\<rparr>),
      rm_dashboards = \<lparr>sl_json = demo_lib (\<lambda>_. \<lparr>dr_SchemaVersion = 1, dr_Releases = []\<rparr>), sl_valid = (\<lambda>_ _. True),
        sl_unmarshal = (\<lambda>_. Some \<lparr>dr_SchemaVersion = 1, dr_Releases =
          [\<lparr>de_AppID = ''world'', de_AppVersion = ''1.0.0'', de_ReleaseRef = ''r1'', de_ReleaseIndexRef = ''one/index.json'',
            de_ReleaseDigest = ''sha256:'' @ demo_hex, de_ManifestRef = ''one/app.json'', de_ManifestDigest = ''sha256:'' @ demo_hex,
            de_TemplateDigest = ''sha256:'' @ demo_hex\<rparr>]\<rparr>)\<rparr>,
      rm_index = demo_lib (demo_index (required_files @ [''dashboard/index.html''])),
      rm_manifest = (\<lambda>b. Some \<lparr>mf_AppID = ''world'', mf_Version = b\<rparr>),
      rm_identity = (\<lambda>b. Some \<lparr>mf_AppID = ''world'', mf_Version = b, mf_Images = [\<lparr>mi_Component = ''app'', mi_Image = ''registry/world:world-v'' @ b\<rparr>]\<rparr>),
      rm_management = demo_lib (\<lambda>b. \<lparr>mm_SchemaVersion = 1, mm_AppID = ''world'', mm_AppVersion = b, mm_DataContract = ''d1'',
        mm_DefaultWorkerVersion = ''1.0.0'', mm_CompatibleWorkerVersions = [''1.0.0'']\<rparr>),
      rm_declaration = demo_lib (\<lambda>b. \<lparr>dl_SchemaVersion = 1, dl_AppID = ''world'', dl_AppVersion = b,
        dl_Dashboard = [(''artifactDigest'', JStr (''sha256:'' @ demo_hex)), (''entryRef'', JStr ''dashboard/index.html'')]\<rparr>),
      rm_assets = demo_lib (\<lambda>_. \<lparr>as_SchemaVersion = 1, as_Files = [(''index.html'', demo_hex)]\<rparr>)\<rparr>"

definition demo_actor :: IdentityContext where
  "demo_actor = \<lparr>ic_RequestID = ''q'', ic_StationID = ''s'', ic_SessionID = ''n'', ic_UserID = ''u'', ic_Username = ''n'', ic_OrganizationID = ''o'',
     ic_OrganizationName = ''o'', ic_Roles = [''admin''], ic_Scopes = [''app:read'', ''app:manage''], ic_IssuedAt = 0, ic_ExpiresAt = 9,
     ic_RevocationVersion = 1, ic_PolicyVersion = 1\<rparr>"

definition demo_installed :: Installation where
  "demo_installed = \<lparr>in_InstallationID = ''i'', in_AppID = ''world'', in_AppVersion = ''1.0.0'', in_StationID = ''s'', in_OrganizationID = ''o'',
     in_State = ''installed'', in_Revision = 1, in_LastOperationID = [], in_CreatedAt = 0, in_UpdatedAt = 0\<rparr>"

theorem transition_read_genuine_witness:
  "published_release demo_material_env (Some ''/etc/releases.json'') (demo_snapshot ''r2'' ''1.1.0'')"
proof -
  have "transition_Read demo_material_env (Some ''/etc/releases.json'') demo_actor demo_installed ''r2'' =
      Inr (demo_snapshot ''r1'' ''1.0.0'', demo_snapshot ''r2'' ''1.1.0'')"
    by code_simp
  from transition_read_genuine [OF this] show ?thesis by blast
qed

definition demo_dashboard_env :: material_env where
  "demo_dashboard_env = demo_material_env\<lparr>rm_index := demo_lib (demo_index [declaration_name, asset_index_name, ''dashboard/index.html''])\<rparr>"

theorem dashboard_release_closed_witness:
  "\<exists>e. dashboard_Resolve demo_dashboard_env (Some ''/etc/dashboards.json'') ''world'' ''1.0.0'' ''r1'' = Inr e \<and> \<not> manifest_only e \<and>
    (\<exists>dir ix. read_index demo_dashboard_env dir (de_ReleaseIndexRef e) (de_ReleaseDigest e) = Some ix)"
proof -
  have ok: "case dashboard_Resolve demo_dashboard_env (Some ''/etc/dashboards.json'') ''world'' ''1.0.0'' ''r1'' of
      Inl _ \<Rightarrow> False | Inr e \<Rightarrow> \<not> manifest_only e"
    by code_simp
  obtain e where e: "dashboard_Resolve demo_dashboard_env (Some ''/etc/dashboards.json'') ''world'' ''1.0.0'' ''r1'' = Inr e" "\<not> manifest_only e"
    using ok by (auto split: sum.split_asm)
  have maps: "json_maps demo_dashboard_env"
    by (auto simp: json_maps_def demo_dashboard_env_def demo_material_env_def demo_lib_def demo_index_def declaration_name_def asset_index_name_def)
  from dashboard_release_closed [OF e(1) maps, unfolded if_not_P [OF e(2)]] e show ?thesis by blast
qed

end
