(* ===== verification/App_Admission.thy ===== *)
theory App_Admission
  imports Transition_Releases Market App_Facts App_Operations
begin

text \<open>
  The admission of application commands (\<^verbatim>\<open>internal/operations\<close>: \<^verbatim>\<open>appcenter_admission.go\<close>,
  \<^verbatim>\<open>appcenter_candidates.go\<close>, and the choice of a release reader in \<^verbatim>\<open>dashboard_transition.go\<close> and
  \<^verbatim>\<open>transition_releases.go\<close>): the operator's release policies, the resolution of a command to one
  verified release, the live preflight by the Runtime, and the candidates of the AppCenter cards.
  The catalog is the market service of \<open>Market\<close>, whose lookups change its caches; the Runtime call
  and the digests of JSON texts are parameters.
\<close>

section \<open>Data\<close>

record AppCenterReleasePolicy =
  pl_AppID :: string
  pl_AppVersion :: string
  pl_ReleaseKind :: string
  pl_ReleaseRef :: string
  pl_Actions :: "string list"

record policy_config =
  pf_SchemaVersion :: int
  pf_Enabled :: "bool option"
  pf_Releases :: "AppCenterReleasePolicy list option"

record AppCenterInspection =
  sp_SchemaVersion :: int
  sp_UserId :: string
  sp_OrganizationId :: string
  sp_StationId :: string
  sp_AppId :: string
  sp_AppVersion :: string
  sp_Action :: string
  sp_InstallationId :: string
  sp_TemplateDigest :: string

record AppCenterObservation =
  bo_SchemaVersion :: int
  bo_Unknown :: bool
  bo_TemplateDigest :: string
  bo_Namespace :: string
  bo_WorkloadName :: string
  bo_WorkloadUid :: string
  bo_State :: string

text \<open>The status codes of a failed inspection the code distinguishes.\<close>

datatype inspect_error = InspectUnimplemented | InspectFailedPrecondition | InspectPermissionDenied | InspectOther

type_synonym runtime_client = "AppCenterInspection \<Rightarrow> inspect_error + AppCenterObservation option"

text \<open>The source without its catalog, which is state: \<open>None\<close> where a pointer is nil.\<close>

record AppCenterAdmissionSource =
  ad_Path :: string
  ad_Management :: "string option"
  ad_Dashboard :: "string option"
  ad_Runtime :: "runtime_client option"

record admission_env =
  av_material :: material_env
  av_policies :: "policy_config schema_lib"
  av_market :: market_env
  av_admission :: "AppCenterReleasePolicy \<times> string \<times> string \<Rightarrow> string"
  av_dashboard :: "dashboardReleaseEntry \<Rightarrow> string"
  av_strings :: "string list \<Rightarrow> string"
  av_uuid :: uuid_parser

section \<open>Policies\<close>

text \<open>\<^verbatim>\<open>^[a-z0-9][a-z0-9-]{0,62}$\<close>.\<close>

definition appCenterAppName :: "string \<Rightarrow> bool" where
  "appCenterAppName s = (case s of [] \<Rightarrow> False
     | c # cs \<Rightarrow> is_lower_digit c \<and> length cs \<le> 62 \<and> list_all (\<lambda>c. is_lower_digit c \<or> c = CHR ''-'') cs)"

definition policy_key :: "AppCenterReleasePolicy \<Rightarrow> string" where
  "policy_key p = pl_AppID p @ ''@'' @ pl_AppVersion p"

definition policy_ok :: "AppCenterReleasePolicy \<Rightarrow> bool" where
  "policy_ok p \<longleftrightarrow> appCenterAppName (pl_AppID p) \<and> length (pl_AppVersion p) \<le> 64 \<and> transitionVersion (pl_AppVersion p) \<and>
     pl_ReleaseKind p \<in> set [''management-release'', ''dashboard-release''] \<and> transitionName (pl_ReleaseRef p) \<and>
     pl_Actions p \<noteq> [] \<and> length (pl_Actions p) \<le> 5 \<and>
     seen_loop (\<lambda>a. a \<in> set [''install'', ''start'', ''stop'', ''restart'', ''delete'']) id [] (pl_Actions p)"

definition policies :: "admission_env \<Rightarrow> AppCenterAdmissionSource option \<Rightarrow> op_error + AppCenterReleasePolicy list" where
  "policies env source =
     (case source of
        None \<Rightarrow> Inl AppCenterUnsupported
      | Some s \<Rightarrow>
          if ad_Path s = [] \<or> rm_ctx (av_material env) then Inl AppCenterUnsupported
          else (case rm_OpenRoot (av_material env) (ad_Path s) of
                  None \<Rightarrow> Inl AppCenterRelease
                | Some dir \<Rightarrow>
                    (case materialRead (av_material env) dir (path_Base (ad_Path s)) (2 * 2 ^ 20) of
                       None \<Rightarrow> Inl AppCenterRelease
                     | Some raw \<Rightarrow>
                         (case appcenter_Decode (av_policies env) raw ''command-registry'' (2 * 2 ^ 20) of
                            None \<Rightarrow> Inl AppCenterRelease
                          | Some cfg \<Rightarrow>
                              (case (pf_Enabled cfg, pf_Releases cfg) of
                                 (Some enabled, Some releases) \<Rightarrow>
                                   if pf_SchemaVersion cfg \<noteq> 1 \<or> length releases > 128 \<or> \<not> seen_loop policy_ok policy_key [] releases
                                   then Inl AppCenterRelease
                                   else if \<not> enabled then Inl AppCenterUnsupported
                                   else Inr releases
                               | _ \<Rightarrow> Inl AppCenterRelease)))))"

section \<open>Resolution\<close>

text \<open>The state of the installation a command needs, by its action.\<close>

definition same_installation :: "IdentityContext \<Rightarrow> Command \<Rightarrow> Ops_Types.Installation option \<Rightarrow> (Ops_Types.Installation \<Rightarrow> bool) \<Rightarrow> bool" where
  "same_installation actor c installed version_ok =
     (case installed of
        None \<Rightarrow> False
      | Some i \<Rightarrow> in_StationID i = ic_StationID actor \<and> in_OrganizationID i = ic_OrganizationID actor \<and> in_AppID i = cm_AppID c \<and>
          version_ok i \<and> in_State i = ''installed'')"

definition action_error :: "market option \<Rightarrow> IdentityContext \<Rightarrow> Command \<Rightarrow> Ops_Types.Installation option \<Rightarrow> op_error option" where
  "action_error catalog actor c installed =
     (if cm_Action c = ''install'' then (if installed \<noteq> None then Some AppCenterBinding else None)
      else if cm_Action c = ''upgrade'' then
        if \<not> same_installation actor c installed (\<lambda>i. VersionNewer (cm_AppVersion c) (in_AppVersion i)) then Some AppCenterBinding
        else (case catalog of
                None \<Rightarrow> Some AppCenterUnsupported
              | Some m \<Rightarrow>
                  (case find_entry (mk_entries m) (cm_AppID c) of
                     None \<Rightarrow> Some AppCenterBinding
                   | Some e \<Rightarrow> if e_Version e \<noteq> cm_AppVersion c then Some AppCenterBinding else None))
      else if cm_Action c \<in> set [''start'', ''stop'', ''restart'', ''delete''] then
        (if same_installation actor c installed (\<lambda>i. in_AppVersion i = cm_AppVersion c) then None else Some AppCenterBinding)
      else Some AppCenterUnsupported)"

definition may_admit :: "IdentityContext \<Rightarrow> Command \<Rightarrow> bool" where
  "may_admit actor c \<longleftrightarrow> ''admin'' \<in> set (ic_Roles actor) \<and> ''app:manage'' \<in> set (ic_Scopes actor) \<and> ''app:read'' \<in> set (ic_Scopes actor) \<and>
     ic_StationID actor = cm_StationID c \<and> ic_OrganizationID actor = cm_OrganizationID c"

definition execution_of :: "Command \<Rightarrow> string \<Rightarrow> string \<Rightarrow> string \<Rightarrow> AppCenterExecution" where
  "execution_of c release template revision =
     \<lparr>ax_AppID = cm_AppID c, ax_AppVersion = cm_AppVersion c, ax_Action = cm_Action c, ax_SchemaVersion = 1, ax_ReleaseDigest = release,
      ax_TemplateDigest = template, ax_PolicyRevision = revision, ax_WorkloadUID = []\<rparr>"

text \<open>
  A release of the market. The policy revision stands for the catalog's version and digests, not
  for those of the command, so that all the actions on an installed application share it.
\<close>

definition market_execution :: "admission_env \<Rightarrow> market \<Rightarrow> Command \<Rightarrow> Ops_Types.Installation option \<Rightarrow> Helm \<Rightarrow> AppCenterExecution" where
  "market_execution env m c installed helm =
     (let installedVer = (case installed of None \<Rightarrow> [] | Some i \<Rightarrow> in_AppVersion i);
          (catalogVer, manifest, package) =
            (case find_entry (mk_entries m) (cm_AppID c) of
               Some e \<Rightarrow>
                 if e_Version e \<noteq> [] then
                   (case e_Helm e of
                      Some h \<Rightarrow> if he_ManifestDigest h \<noteq> [] \<and> he_PackageDigest h \<noteq> [] then (e_Version e, he_ManifestDigest h, he_PackageDigest h)
                                else (e_Version e, he_ManifestDigest helm, he_PackageDigest helm)
                    | None \<Rightarrow> (e_Version e, he_ManifestDigest helm, he_PackageDigest helm))
                 else (cm_AppVersion c, he_ManifestDigest helm, he_PackageDigest helm)
             | None \<Rightarrow> (cm_AppVersion c, he_ManifestDigest helm, he_PackageDigest helm));
          policy = \<lparr>pl_AppID = cm_AppID c, pl_AppVersion = catalogVer, pl_ReleaseKind = ''oci-chart'', pl_ReleaseRef = installedVer,
                    pl_Actions = [''delete'', ''install'', ''restart'', ''start'', ''stop'', ''upgrade'']\<rparr>
      in execution_of c (he_ManifestDigest helm) (he_PackageDigest helm) (av_admission env (policy, manifest, package)))"

text \<open>The digests of the release a policy names.\<close>

definition policy_release ::
  "admission_env \<Rightarrow> AppCenterAdmissionSource \<Rightarrow> AppCenterReleasePolicy \<Rightarrow> (string \<times> string) option" where
  "policy_release env s p =
     (if pl_ReleaseKind p = ''management-release'' then
        (case transition_Resolve (av_material env) (ad_Management s) (pl_AppID p) (pl_AppVersion p) (pl_ReleaseRef p) of
           Inl _ \<Rightarrow> None
         | Inr sn \<Rightarrow> Some (ts_ReleaseDigest sn, ts_TemplateDigest sn))
      else if pl_ReleaseKind p = ''dashboard-release'' then
        (case dashboard_Resolve (av_material env) (ad_Dashboard s) (pl_AppID p) (pl_AppVersion p) (pl_ReleaseRef p) of
           Inl _ \<Rightarrow> None
         | Inr e \<Rightarrow> Some (av_dashboard env e, de_TemplateDigest e))
      else Some ([], []))"

definition policy_execution ::
  "admission_env \<Rightarrow> AppCenterAdmissionSource option \<Rightarrow> Command \<Rightarrow> op_error + AppCenterExecution" where
  "policy_execution env source c =
     (case (source, policies env source) of
        (_, Inl e) \<Rightarrow> Inl e
      | (None, _) \<Rightarrow> Inl AppCenterUnsupported
      | (Some s, Inr ps) \<Rightarrow>
          (case find_last (\<lambda>p. pl_AppID p = cm_AppID c \<and> pl_AppVersion p = cm_AppVersion c) ps of
             None \<Rightarrow> Inl AppCenterRelease
           | Some p \<Rightarrow>
               if cm_Action c \<notin> set (pl_Actions p) then Inl AppCenterUnsupported
               else (case policy_release env s p of
                       None \<Rightarrow> Inl AppCenterRelease
                     | Some (release, template) \<Rightarrow>
                         Inr (execution_of c release template (av_admission env (p\<lparr>pl_Actions := sort (pl_Actions p)\<rparr>, release, template))))))"

text \<open>The execution with the flag \<open>marketRelease\<close>, and the catalog after the lookup.\<close>

definition resolve ::
  "admission_env \<Rightarrow> AppCenterAdmissionSource option \<Rightarrow> IdentityContext \<Rightarrow> Command \<Rightarrow> Ops_Types.Installation option \<Rightarrow> market option
     \<Rightarrow> (op_error + AppCenterExecution \<times> bool) \<times> market option" where
  "resolve env source actor c installed catalog =
     (if \<not> may_admit actor c then (Inl (Fault Denied), catalog)
      else case action_error (if source = None then None else catalog) actor c installed of
             Some e \<Rightarrow> (Inl e, catalog)
           | None \<Rightarrow>
               (let by_policy = (\<lambda>catalog. (map_sum id (\<lambda>x. (x, False)) (policy_execution env source c), catalog))
                in case (source, catalog) of
                     (Some s, Some m) \<Rightarrow>
                       (case ResolveHelm (av_market env) (cm_AppID c) (cm_AppVersion c) m of
                          (Some helm, m') \<Rightarrow> (Inr (market_execution env m' c installed helm, True), Some m')
                        | (None, m') \<Rightarrow> by_policy (Some m'))
                   | _ \<Rightarrow> by_policy catalog))"

section \<open>The live preflight\<close>

definition inspection :: "IdentityContext \<Rightarrow> Command \<Rightarrow> Ops_Types.Installation option \<Rightarrow> AppCenterExecution \<Rightarrow> AppCenterInspection" where
  "inspection actor c installed x =
     \<lparr>sp_SchemaVersion = 1, sp_UserId = ic_UserID actor, sp_OrganizationId = ic_OrganizationID actor, sp_StationId = ic_StationID actor,
      sp_AppId = cm_AppID c, sp_AppVersion = cm_AppVersion c, sp_Action = cm_Action c,
      sp_InstallationId = (case installed of None \<Rightarrow> [] | Some i \<Rightarrow> in_InstallationID i), sp_TemplateDigest = ax_TemplateDigest x\<rparr>"

definition kubernetes_name :: "string \<Rightarrow> bool" where
  "kubernetes_name s \<longleftrightarrow> length s \<le> 63 \<and> dnsName s"

definition observation_error :: "admission_env \<Rightarrow> Command \<Rightarrow> AppCenterExecution \<Rightarrow> AppCenterObservation \<Rightarrow> op_error option" where
  "observation_error env c x ob =
     (if bo_SchemaVersion ob \<noteq> 1 \<or> bo_Unknown ob \<or> bo_TemplateDigest ob \<noteq> ax_TemplateDigest x \<or> \<not> kubernetes_name (bo_Namespace ob) \<or>
         \<not> kubernetes_name (bo_WorkloadName ob) then Some AppCenterBinding
      else if cm_Action c = ''install'' then
        (if bo_State ob \<noteq> ''absent'' \<or> bo_WorkloadUid ob \<noteq> [] then Some AppCenterBinding else None)
      else if (case av_uuid env (bo_WorkloadUid ob) of None \<Rightarrow> True | Some u \<Rightarrow> uuid_Nil u \<or> uuid_String u \<noteq> bo_WorkloadUid ob) then Some AppCenterBinding
      else if cm_Action c = ''start'' then (if bo_State ob \<noteq> ''stopped'' then Some AppCenterBinding else None)
      else if cm_Action c = ''stop'' then (if bo_State ob \<noteq> ''running'' then Some AppCenterBinding else None)
      else if cm_Action c \<in> set [''restart'', ''delete'', ''upgrade''] then
        (if bo_State ob \<noteq> ''running'' \<and> bo_State ob \<noteq> ''stopped'' then Some AppCenterBinding else None)
      else Some AppCenterUnsupported)"

text \<open>The grant of a market release that is installed or upgraded.\<close>

definition grant_failure :: "admission_env \<Rightarrow> IdentityContext \<Rightarrow> Command \<Rightarrow> bool \<Rightarrow> market option \<Rightarrow> op_error option" where
  "grant_failure env actor c market_release catalog =
     (if (cm_Action c = ''install'' \<or> cm_Action c = ''upgrade'') \<and> market_release then
        (case catalog of
           None \<Rightarrow> Some AppCenterUnavailable
         | Some m \<Rightarrow>
             (case CheckInstallGrant (av_market env) m (cm_AppID c) (cm_AppVersion c) (ic_OrganizationID actor) of
                Inl _ \<Rightarrow> Some AppCenterUnavailable
              | Inr allowed \<Rightarrow> if allowed then None else Some (Fault Denied)))
      else None)"

definition inspect :: "admission_env \<Rightarrow> AppCenterAdmissionSource \<Rightarrow> IdentityContext \<Rightarrow> Command \<Rightarrow> Ops_Types.Installation option
    \<Rightarrow> AppCenterExecution \<Rightarrow> op_error + AppCenterExecution \<times> AppCenterObservation" where
  "inspect env s actor c installed x =
     (case ad_Runtime s of
        None \<Rightarrow> Inl AppCenterDispatch
      | Some inspectBound \<Rightarrow>
          (case inspectBound (inspection actor c installed x) of
             Inl InspectUnimplemented \<Rightarrow> Inl AppCenterDispatch
           | Inl InspectFailedPrecondition \<Rightarrow> Inl AppCenterBinding
           | Inl InspectPermissionDenied \<Rightarrow> Inl (Fault Denied)
           | Inl InspectOther \<Rightarrow> Inl AppCenterUnavailable
           | Inr None \<Rightarrow> Inl AppCenterBinding
           | Inr (Some ob) \<Rightarrow>
               (case observation_error env c x ob of
                  Some e \<Rightarrow> Inl e
                | None \<Rightarrow> Inr (x\<lparr>ax_WorkloadUID := bo_WorkloadUid ob\<rparr>, ob))))"

text \<open>With a nil source the resolution always fails, so that the preflight has a source.\<close>

definition admission_Read ::
  "admission_env \<Rightarrow> AppCenterAdmissionSource option \<Rightarrow> IdentityContext \<Rightarrow> Command \<Rightarrow> Ops_Types.Installation option \<Rightarrow> market option
     \<Rightarrow> (op_error + AppCenterExecution \<times> AppCenterObservation) \<times> market option" where
  "admission_Read env source actor c installed catalog =
     (case resolve env source actor c installed catalog of
        (Inl e, catalog') \<Rightarrow> (Inl e, catalog')
      | (Inr (x, market_release), catalog') \<Rightarrow>
          (case source of
             None \<Rightarrow> (Inl AppCenterUnsupported, catalog')
           | Some s \<Rightarrow>
               (case grant_failure env actor c market_release catalog' of
                  Some e \<Rightarrow> (Inl e, catalog')
                | None \<Rightarrow> (inspect env s actor c installed x, catalog'))))"

definition Admit ::
  "admission_env \<Rightarrow> AppCenterAdmissionSource option \<Rightarrow> IdentityContext \<Rightarrow> Command \<Rightarrow> Ops_Types.Installation option \<Rightarrow> market option
     \<Rightarrow> (op_error + AppCenterExecution) \<times> market option" where
  "Admit env source actor c installed catalog = apfst (map_sum id fst) (admission_Read env source actor c installed catalog)"

section \<open>Choosing a release reader\<close>

text \<open>The service's own fields: its admission source and the path of its worker releases.\<close>

definition transitionReleaseReader ::
  "admission_env \<Rightarrow> AppCenterAdmissionSource option \<Rightarrow> string option \<Rightarrow> IdentityContext \<Rightarrow> Ops_Types.Installation \<Rightarrow> string
     \<Rightarrow> op_error + TransitionSnapshot \<times> TransitionSnapshot" where
  "transitionReleaseReader env source releases actor installed ref =
     (case source of
        None \<Rightarrow> transition_Read (av_material env) releases actor installed ref
      | Some s \<Rightarrow>
          (case policies env source of
             Inl e \<Rightarrow> Inl e
           | Inr ps \<Rightarrow>
               (case find (\<lambda>p. pl_AppID p = in_AppID installed \<and> pl_ReleaseRef p = ref \<and> pl_ReleaseKind p = ''dashboard-release'') ps of
                  None \<Rightarrow> transition_Read (av_material env) releases actor installed ref
                | Some p \<Rightarrow>
                    (case ReadTransition (av_material env) (ad_Dashboard s) actor installed ref of
                       Inl _ \<Rightarrow> Inl AppCenterRelease
                     | Inr (a, b) \<Rightarrow> if ts_AppVersion b \<noteq> pl_AppVersion p then Inl AppCenterRelease else Inr (a, b)))))"

text \<open>The versions a worker may have, for an installed application.\<close>

definition AuthorizeWorkerVersion ::
  "admission_env \<Rightarrow> AppCenterAdmissionSource option \<Rightarrow> string option \<Rightarrow> market option \<Rightarrow> string \<Rightarrow> Ops_Types.Installation \<Rightarrow> string
     \<Rightarrow> op_error option" where
  "AuthorizeWorkerVersion env source releases catalog stationID installed version =
     (if in_State installed \<noteq> ''installed'' \<or> in_StationID installed \<noteq> stationID \<or> in_Revision installed < 1 then Some (Fault Denied)
      else let dashboard = (case source of None \<Rightarrow> None | Some s \<Rightarrow> (case ad_Dashboard s of Some (c # cs) \<Rightarrow> Some (c # cs) | _ \<Rightarrow> None));
               refused = (case dashboard of
                            None \<Rightarrow> None
                          | Some path \<Rightarrow>
                              (case dashboard_load (av_material env) (Some path) of
                                 None \<Rightarrow> Some TransitionRelease
                               | Some (_, entries) \<Rightarrow> if list_ex (\<lambda>e. de_AppID e = in_AppID installed) entries then Some (Fault Denied) else None))
           in if refused \<noteq> None then refused
              else if in_AppVersion installed = version then None
              else if (case catalog of None \<Rightarrow> False
                       | Some m \<Rightarrow> (case find_entry (mk_entries m) (in_AppID installed) of None \<Rightarrow> False | Some e \<Rightarrow> e_Helm e \<noteq> None)) then None
              else (case transition_load (av_material env) releases of
                      None \<Rightarrow> Some TransitionRelease
                    | Some (dir, entries) \<Rightarrow>
                        (case find (\<lambda>e. ts_AppID (te_Snapshot e) = in_AppID installed \<and> ts_AppVersion (te_Snapshot e) = in_AppVersion installed) entries of
                           None \<Rightarrow> Some TransitionRelease
                         | Some e \<Rightarrow> if \<not> verifyTransitionMaterial (av_material env) dir e then Some TransitionRelease
                                     else if version \<in> set (worker_versions (te_Snapshot e)) then None else Some (Fault Denied))))"

section \<open>Candidates\<close>

definition appCenterAdmissionReason :: "op_error \<Rightarrow> string" where
  "appCenterAdmissionReason e =
     (if e = Fault Denied then ''PERMISSION_DENIED''
      else if e = AppCenterUnsupported then ''ACTION_UNSUPPORTED''
      else if e = AppCenterRelease then ''RELEASE_UNVERIFIED''
      else if e = AppCenterDispatch then ''APPCENTER_EXECUTION_BINDING_UNSUPPORTED''
      else if e = AppCenterBinding then ''APPCENTER_BINDING_CHANGED''
      else ''APPCENTER_DEPENDENCY_UNAVAILABLE'')"

text \<open>The installation a card stands for, the kinds of action it may offer and the version they are for.\<close>

definition fact_installation :: "IdentityContext \<Rightarrow> Fact \<Rightarrow> Ops_Types.Installation option" where
  "fact_installation actor ft =
     (case fa_Installation ft of
        None \<Rightarrow> None
      | Some v \<Rightarrow>
          if fi_State v = ''installed'' then
            Some \<lparr>in_InstallationID = fi_InstallationID v, in_AppID = fa_AppID ft, in_AppVersion = fi_AppVersion v, in_StationID = ic_StationID actor,
                  in_OrganizationID = ic_OrganizationID actor, in_State = fi_State v, in_Revision = fi_Revision v, in_LastOperationID = [],
                  in_CreatedAt = 0, in_UpdatedAt = 0\<rparr>
          else None)"

definition running_state :: "string \<Rightarrow> bool" where
  "running_state state \<longleftrightarrow> state = ''ready'' \<or> state = ''degraded'' \<or> state = ''running'' \<or> state = ''starting''"

definition candidate_kinds :: "Fact \<Rightarrow> string list \<times> string" where
  "candidate_kinds ft =
     (case fa_Installation ft of
        Some v \<Rightarrow>
          if fi_State v = ''installed'' then
            (let kinds = (if sv_State (fa_Service ft) = ''stopped'' then [''start'', ''delete'']
                          else if running_state (sv_State (fa_Service ft)) then [''stop'', ''restart'', ''delete''] else []);
                 upgrade = (case fa_Catalog ft of None \<Rightarrow> False
                            | Some c \<Rightarrow> kinds \<noteq> [] \<and> e_Helm c \<noteq> None \<and> VersionNewer (e_Version c) (fi_AppVersion v))
             in (if upgrade then kinds @ [''upgrade''] else kinds, fi_AppVersion v))
          else ([], [])
      | None \<Rightarrow>
          (case fa_Catalog ft of
             Some c \<Rightarrow> if fa_Origin ft = ''catalog'' \<and> sv_State (fa_Service ft) = ''absent'' then ([''install''], e_Version c) else ([], [])
           | None \<Rightarrow> ([], [])))"

text \<open>The actions on a workload that exists.\<close>

definition binds_workload :: "string \<Rightarrow> bool" where
  "binds_workload kind \<longleftrightarrow> kind \<in> set [''start'', ''stop'', ''restart'', ''delete'', ''upgrade'']"

text \<open>The evidence of a workload against the release: the reason against it, and the workload it is bound to.\<close>

definition candidate_binding :: "Fact \<Rightarrow> string \<Rightarrow> AppCenterExecution \<Rightarrow> string \<times> AppCenterExecution" where
  "candidate_binding ft kind x =
     (if binds_workload kind then
        (let templateHash = (case fa_Catalog ft of None \<Rightarrow> [] | Some c \<Rightarrow> at_key (o_Ownership (i_Deployment c)) ''station.verdantflare.com/template-hash'');
             expectedHash = TrimPrefix (ax_TemplateDigest x) ''sha256:''
         in case (sv_WorkloadUID (fa_Service ft), fa_Catalog ft) of
              (Some uid, Some c) \<Rightarrow>
                if o_UID (i_Deployment c) \<noteq> uid \<or> \<not> (templateHash = expectedHash \<or> e_Helm c \<noteq> None \<and> length templateHash = 64)
                then (''APPCENTER_BINDING_CHANGED'', x)
                else ([], x\<lparr>ax_WorkloadUID := uid\<rparr>)
            | _ \<Rightarrow> (''APPCENTER_BINDING_CHANGED'', x))
      else if sv_WorkloadUID (fa_Service ft) \<noteq> None then (''APPCENTER_BINDING_CHANGED'', x)
      else ([], x))"

definition candidate_command :: "IdentityContext \<Rightarrow> Fact \<Rightarrow> string \<Rightarrow> string \<Rightarrow> Command" where
  "candidate_command actor ft version kind =
     \<lparr>cm_ExpectedWorkloadUID = [], cm_RequestID = [], cm_IdempotencyKey = [], cm_OrganizationID = ic_OrganizationID actor,
      cm_StationID = ic_StationID actor, cm_AppID = fa_AppID ft,
      cm_AppVersion = (case fa_Catalog ft of Some c \<Rightarrow> if kind = ''upgrade'' then e_Version c else version | None \<Rightarrow> version), cm_Action = kind\<rparr>"

definition set_candidate :: "string \<Rightarrow> string \<Rightarrow> AppCenterExecution option \<Rightarrow> Candidate \<Rightarrow> Candidate" where
  "set_candidate kind reason x c =
     (if ca_Kind c \<noteq> kind then c
      else let c1 = c\<lparr>ca_Enabled := (reason = []), ca_ReasonCode := Text reason\<rparr>
           in case x of
                None \<Rightarrow> c1
              | Some y \<Rightarrow> if reason = [] then c1\<lparr>ca_ReleaseDigest := Text (ax_ReleaseDigest y), ca_ExpectedWorkloadUID := Text (ax_WorkloadUID y)\<rparr>
                          else c1)"

text \<open>The step for one kind: the result of the resolution, then the lifecycle of the card.\<close>

definition candidate_outcome ::
  "admission_env \<Rightarrow> AppCenterAdmissionSource \<Rightarrow> op_error + AppCenterExecution \<times> bool \<Rightarrow> op_error + AppCenterExecution" where
  "candidate_outcome env s r =
     (case r of Inl e \<Rightarrow> Inl e | Inr (x, _) \<Rightarrow> if ad_Runtime s = None then Inl AppCenterDispatch else Inr x)"

definition candidate_lifecycle ::
  "admission_env \<Rightarrow> Fact \<Rightarrow> string \<Rightarrow> string \<Rightarrow> op_error + AppCenterExecution \<Rightarrow> Lifecycle \<Rightarrow> Lifecycle" where
  "candidate_lifecycle env ft version kind r l =
     (case r of
        Inl e \<Rightarrow>
          (let reason = appCenterAdmissionReason e
           in l\<lparr>li_PolicyRevision := (if li_PolicyRevision l = [] then av_strings env [''studio.appcenter.admission-unavailable.v1'', fa_AppID ft, version, reason]
                                       else li_PolicyRevision l),
                li_Candidates := map (set_candidate kind reason None) (li_Candidates l)\<rparr>)
      | Inr x \<Rightarrow>
          (let (reason, y) = candidate_binding ft kind x
           in l\<lparr>li_PolicyRevision := ax_PolicyRevision x, li_Candidates := map (set_candidate kind reason (Some y)) (li_Candidates l)\<rparr>))"

fun candidate_loop ::
  "admission_env \<Rightarrow> AppCenterAdmissionSource \<Rightarrow> IdentityContext \<Rightarrow> Fact \<Rightarrow> string \<Rightarrow> string list \<Rightarrow> Lifecycle \<Rightarrow> market option
     \<Rightarrow> Lifecycle \<times> market option" where
  "candidate_loop env s actor ft version [] l catalog = (l, catalog)"
| "candidate_loop env s actor ft version (kind # kinds) l catalog =
     (let (r, catalog') = resolve env (Some s) actor (candidate_command actor ft version kind) (fact_installation actor ft) catalog
      in candidate_loop env s actor ft version kinds (candidate_lifecycle env ft version kind (candidate_outcome env s r) l) catalog')"

definition fresh_service :: "gotime \<Rightarrow> Service \<Rightarrow> bool" where
  "fresh_service now sv \<longleftrightarrow> sv_Quality sv = ''known'' \<and>
     (case sv_ObservedAt sv of None \<Rightarrow> False | Some t \<Rightarrow> \<not> t > now + 2 * Second \<and> now < t + 15 * Second)"

definition may_offer :: "IdentityContext \<Rightarrow> Fact \<Rightarrow> bool" where
  "may_offer actor ft \<longleftrightarrow> ''app:manage'' \<in> set (ic_Scopes actor) \<and> \<not> fo_Blocking (fa_Operation ft) \<and> fo_Quality (fa_Operation ft) = ''known'' \<and>
     fa_InstallationQuality ft = ''known'' \<and> fa_Origin ft \<noteq> ''observation''"

definition projectCandidate ::
  "admission_env \<Rightarrow> AppCenterAdmissionSource \<Rightarrow> IdentityContext \<Rightarrow> bool \<Rightarrow> gotime \<Rightarrow> Fact \<Rightarrow> market option \<Rightarrow> Fact \<times> market option" where
  "projectCandidate env s actor foreign now ft catalog =
     (if \<not> may_offer actor ft then (ft, catalog)
      else if foreign then
        (ft\<lparr>fa_Lifecycle := (fa_Lifecycle ft)\<lparr>li_Candidates :=
            map (\<lambda>c. c\<lparr>ca_Enabled := False, ca_ReasonCode := Text ''INSTALLATION_STATE_CONFLICT''\<rparr>) (li_Candidates (fa_Lifecycle ft))\<rparr>\<rparr>, catalog)
      else if \<not> fresh_service now (fa_Service ft) then (ft, catalog)
      else let (kinds, version) = candidate_kinds ft;
               (l, catalog') = candidate_loop env s actor ft version kinds (fa_Lifecycle ft) catalog
           in (ft\<lparr>fa_Lifecycle := l\<rparr>, catalog'))"

text \<open>
  The four workers of \<open>project\<close> write disjoint cards; they are projected in order here. Every card
  is projected at a time of its own.
\<close>

fun project_items ::
  "admission_env \<Rightarrow> AppCenterAdmissionSource \<Rightarrow> IdentityContext \<Rightarrow> string list \<Rightarrow> (Fact \<times> gotime) list \<Rightarrow> market option \<Rightarrow> Fact list \<times> market option" where
  "project_items env s actor foreign [] catalog = ([], catalog)"
| "project_items env s actor foreign ((ft, now) # rest) catalog =
     (let (ft', catalog') = projectCandidate env s actor (fa_AppID ft \<in> set foreign) now ft catalog;
          (facts, catalog'') = project_items env s actor foreign rest catalog'
      in (ft' # facts, catalog''))"

definition project_facts ::
  "admission_env \<Rightarrow> digests \<Rightarrow> AppCenterAdmissionSource option \<Rightarrow> IdentityContext \<Rightarrow> string list \<Rightarrow> (nat \<Rightarrow> gotime) \<Rightarrow> Facts \<Rightarrow> market option
     \<Rightarrow> Facts \<times> market option" where
  "project_facts env dg source actor foreign clock facts catalog =
     (case source of
        None \<Rightarrow> (facts, catalog)
      | Some s \<Rightarrow>
          (let (items, catalog') = project_items env s actor foreign (zip (fs_Items facts) (map clock [0..<length (fs_Items facts)])) catalog
           in (RecomputeRevision dg (facts\<lparr>fs_Items := items\<rparr>), catalog')))"

end
