(* ===== verification/App_Admission_Properties.thy ===== *)
theory App_Admission_Properties
  imports App_Admission Market_Properties Transition_Releases_Properties
begin

text \<open>
  What admission promises: an admitted command is bound to one verified release and to the
  workload the Runtime has just seen, an offered action rests on fresh evidence about the user's
  own installation, and what was offered is what is admitted.
\<close>

section \<open>Releases\<close>

lemma ResolveHelm_verified:
  assumes "ResolveHelm env app ver m = (Some h, m')"
  shows "verified_helm h"
proof -
  let ?P = "\<lambda>e. e_AppID e = app \<and> e_Version e = ver \<and> (case e_Helm e of None \<Rightarrow> False | Some h \<Rightarrow> verified_helm h)"
  show ?thesis
  proof (cases "find ?P (mk_entries m)")
    case (Some e)
    with find_Some_D [OF Some] assms show ?thesis by (auto simp: ResolveHelm_def split: if_split_asm option.split_asm)
  next
    case None
    with assms show ?thesis
      by (auto simp: ResolveHelm_def split: if_split_asm option.split_asm prod.split_asm sum.split_asm dest: helm_of_verified)
  qed
qed

text \<open>A release the market resolved stays resolved, whatever the network does later.\<close>

lemma ResolveHelm_stable:
  assumes "ResolveHelm env app ver m = (Some h, m1)" "mk_entries m2 = mk_entries m1" "market_step\<^sup>*\<^sup>* (m1, P) (m2, P')" "version_key_of app ver \<notin> set P"
  shows "ResolveHelm env' app ver m2 = (Some h, m2)"
proof -
  let ?P = "\<lambda>e. e_AppID e = app \<and> e_Version e = ver \<and> (case e_Helm e of None \<Rightarrow> False | Some h \<Rightarrow> verified_helm h)"
  have same: "mk_entries m2 = mk_entries m" "mk_cfg m2 = mk_cfg m"
    using same_catalogD [of m m1] resolve_effect [OF assms(1)] assms(2) run_cfg [OF assms(3)] by simp_all
  have ne: "app \<noteq> []" "ver \<noteq> []" using assms(1) by (auto simp: ResolveHelm_def split: if_split_asm)
  show ?thesis
  proof (cases "find ?P (mk_entries m)")
    case (Some e)
    with assms(1) same ne show ?thesis by (simp add: ResolveHelm_def)
  next
    case None
    then obtain cfg v where v: "mk_cfg m = Some cfg" "fetchMarketVersion env cfg app ver m = (Inr v, m1)" "helm_of app v = Some h"
      using assms(1) ne by (auto simp: ResolveHelm_def split: option.split_asm prod.split_asm sum.split_asm)
    have "settled (version_key_of app ver) v (m2, P')"
      using settled_run [OF assms(3)] fetch_effect [OF v(2)] assms(4) by (simp add: settled_def)
    then have "fetchMarketVersion env' cfg app ver m2 = (Inr v, m2)" by (simp add: settled_def fetchMarketVersion_def cached_version_def Let_def)
    with None same ne v show ?thesis by (simp add: ResolveHelm_def)
  qed
qed

lemma execution_of_sel [simp]:
  "ax_AppID (execution_of c r t p) = cm_AppID c" "ax_AppVersion (execution_of c r t p) = cm_AppVersion c"
  "ax_Action (execution_of c r t p) = cm_Action c" "ax_SchemaVersion (execution_of c r t p) = 1"
  "ax_ReleaseDigest (execution_of c r t p) = r" "ax_TemplateDigest (execution_of c r t p) = t"
  "ax_PolicyRevision (execution_of c r t p) = p" "ax_WorkloadUID (execution_of c r t p) = []"
  by (simp_all add: execution_of_def)

lemma market_execution_of:
  "\<exists>p. market_execution env m c installed h = execution_of c (he_ManifestDigest h) (he_PackageDigest h) p"
  by (simp add: market_execution_def Let_def split: prod.split) blast

text \<open>
  The authority for a release: the market's own digests, or an operator policy that allows the
  action and names a release whose material is genuine.
\<close>

definition market_authority :: "admission_env \<Rightarrow> Command \<Rightarrow> market option \<Rightarrow> AppCenterExecution \<Rightarrow> bool" where
  "market_authority env c catalog x \<longleftrightarrow>
     (\<exists>m h m'. catalog = Some m \<and> ResolveHelm (av_market env) (cm_AppID c) (cm_AppVersion c) m = (Some h, m') \<and>
        sha256_pattern (ax_ReleaseDigest x) \<and> sha256_pattern (ax_TemplateDigest x) \<and>
        ax_ReleaseDigest x = he_ManifestDigest h \<and> ax_TemplateDigest x = he_PackageDigest h)"

definition policy_authority :: "admission_env \<Rightarrow> AppCenterAdmissionSource option \<Rightarrow> Command \<Rightarrow> AppCenterExecution \<Rightarrow> bool" where
  "policy_authority env source c x \<longleftrightarrow>
     (\<exists>s ps p. source = Some s \<and> policies env source = Inr ps \<and> p \<in> set ps \<and> policy_ok p \<and> pl_AppID p = cm_AppID c \<and>
        pl_AppVersion p = cm_AppVersion c \<and> cm_Action c \<in> set (pl_Actions p) \<and>
        policy_release env s p = Some (ax_ReleaseDigest x, ax_TemplateDigest x) \<and>
        ax_PolicyRevision x = av_admission env (p\<lparr>pl_Actions := sort (pl_Actions p)\<rparr>, ax_ReleaseDigest x, ax_TemplateDigest x))"

lemma policies_ok: "policies env source = Inr ps \<Longrightarrow> list_all policy_ok ps \<and> distinct (map policy_key ps)"
  by (auto simp: policies_def split: option.split_asm if_split_asm)

lemma policy_execution_authority:
  assumes "policy_execution env source c = Inr x"
  shows "policy_authority env source c x \<and> (\<exists>r t p. x = execution_of c r t p)"
proof -
  obtain s ps where s: "source = Some s" "policies env source = Inr ps"
    using assms unfolding policy_execution_def by (cases source; cases "policies env source") auto
  define P where "P = (\<lambda>p :: AppCenterReleasePolicy. pl_AppID p = cm_AppID c \<and> pl_AppVersion p = cm_AppVersion c)"
  obtain p r t where p: "find_last P ps = Some p" "cm_Action c \<in> set (pl_Actions p)" "policy_release env s p = Some (r, t)"
      "x = execution_of c r t (av_admission env (p\<lparr>pl_Actions := sort (pl_Actions p)\<rparr>, r, t))"
    using assms s unfolding policy_execution_def P_def [symmetric] by (auto split: option.split_asm if_split_asm)
  with find_last_Some [OF p(1)] policies_ok [OF s(2)] s show ?thesis
    unfolding policy_authority_def by (auto simp: P_def list_all_iff)
qed

lemma resolve_cases:
  assumes "resolve env source actor c installed catalog = (Inr (x, market_release), catalog')"
  obtains (market) s m h m' where "source = Some s" "catalog = Some m" "market_release"
      "ResolveHelm (av_market env) (cm_AppID c) (cm_AppVersion c) m = (Some h, m')" "catalog' = Some m'"
      "x = market_execution env m' c installed h"
  | (policy) "\<not> market_release" "policy_execution env source c = Inr x"
proof -
  have "map_sum id (\<lambda>x. (x, False)) r = Inr (x, b) \<Longrightarrow> \<not> b \<and> r = Inr x" for r :: "op_error + AppCenterExecution" and b
    by (cases r) auto
  then show thesis
    using assms that unfolding resolve_def Let_def
    by (fastforce split: if_split_asm option.split_asm prod.split_asm)
qed

lemma resolve_guards:
  assumes "resolve env source actor c installed catalog = (Inr r, catalog')"
  shows "may_admit actor c \<and> action_error (if source = None then None else catalog) actor c installed = None"
  using assms unfolding resolve_def by (auto split: if_split_asm option.split_asm)

lemma resolve_sound:
  assumes "resolve env source actor c installed catalog = (Inr (x, market_release), catalog')"
  shows "(if market_release then market_authority env c catalog x else policy_authority env source c x) \<and>
    ax_AppID x = cm_AppID c \<and> ax_AppVersion x = cm_AppVersion c \<and> ax_Action x = cm_Action c \<and> ax_SchemaVersion x = 1 \<and> ax_WorkloadUID x = []"
  using assms
proof (cases rule: resolve_cases)
  case (market s m h m')
  obtain p where "x = execution_of c (he_ManifestDigest h) (he_PackageDigest h) p" using market(6) market_execution_of by blast
  with market(2-5) ResolveHelm_verified [OF market(4)] show ?thesis by (auto simp: market_authority_def verified_helm_def)
next
  case policy
  with policy_execution_authority [OF policy(2)] show ?thesis by auto
qed

section \<open>The preflight\<close>

lemma admission_cases:
  assumes "admission_Read env source actor c installed catalog = (Inr (y, ob), catalog')"
  obtains s x market_release inspectBound where "source = Some s"
    "resolve env source actor c installed catalog = (Inr (x, market_release), catalog')"
    "grant_failure env actor c market_release catalog' = None" "ad_Runtime s = Some inspectBound"
    "inspectBound (inspection actor c installed x) = Inr (Some ob)" "observation_error env c x ob = None" "y = x\<lparr>ax_WorkloadUID := bo_WorkloadUid ob\<rparr>"
  using assms that unfolding admission_Read_def inspect_def
  by (auto split: prod.split_asm sum.split_asm option.split_asm inspect_error.split_asm)

text \<open>The state of the workload an action needs.\<close>

definition state_allows :: "string \<Rightarrow> string \<Rightarrow> bool" where
  "state_allows action state \<longleftrightarrow>
     (if action = ''install'' then state = ''absent'' else if action = ''start'' then state = ''stopped''
      else if action = ''stop'' then state = ''running'' else state = ''running'' \<or> state = ''stopped'')"

definition canonical_workload :: "uuid_parser \<Rightarrow> string \<Rightarrow> bool" where
  "canonical_workload parse uid \<longleftrightarrow> (\<exists>u. parse uid = Some u \<and> \<not> uuid_Nil u \<and> uuid_String u = uid)"

lemma observation_ok:
  assumes "observation_error env c x ob = None"
  shows "bo_TemplateDigest ob = ax_TemplateDigest x \<and> state_allows (cm_Action c) (bo_State ob) \<and>
    (if cm_Action c = ''install'' then bo_WorkloadUid ob = [] else canonical_workload (av_uuid env) (bo_WorkloadUid ob))"
proof (cases "cm_Action c = ''install''")
  case True
  with assms show ?thesis by (auto simp: observation_error_def state_allows_def split: if_split_asm)
next
  case False
  have "canonical_workload (av_uuid env) (bo_WorkloadUid ob)"
    using assms False unfolding observation_error_def canonical_workload_def by (auto split: if_split_asm option.split_asm)
  moreover have "state_allows (cm_Action c) (bo_State ob)"
    using assms False unfolding observation_error_def state_allows_def by (auto split: if_split_asm)
  moreover have "bo_TemplateDigest ob = ax_TemplateDigest x" using assms unfolding observation_error_def by (auto split: if_split_asm)
  ultimately show ?thesis using False by simp
qed

text \<open>The installation an action is for: none before an installation, else one of the actor's own.\<close>

definition own_installation :: "IdentityContext \<Rightarrow> Command \<Rightarrow> Ops_Types.Installation option \<Rightarrow> bool" where
  "own_installation actor c installed \<longleftrightarrow>
     (if cm_Action c = ''install'' then installed = None
      else \<exists>i. installed = Some i \<and> in_State i = ''installed'' \<and> in_StationID i = ic_StationID actor \<and> in_OrganizationID i = ic_OrganizationID actor \<and>
             in_AppID i = cm_AppID c \<and>
             (if cm_Action c = ''upgrade'' then VersionNewer (cm_AppVersion c) (in_AppVersion i) else in_AppVersion i = cm_AppVersion c))"

lemma action_own: "action_error m actor c installed = None \<Longrightarrow> own_installation actor c installed"
  unfolding action_error_def own_installation_def same_installation_def by (auto split: if_split_asm option.split_asm)

lemma grant_given:
  "grant_failure env actor c True catalog = None \<Longrightarrow> cm_Action c = ''install'' \<or> cm_Action c = ''upgrade'' \<Longrightarrow>
     \<exists>m. catalog = Some m \<and> CheckInstallGrant (av_market env) m (cm_AppID c) (cm_AppVersion c) (ic_OrganizationID actor) = Inr True"
  by (auto simp: grant_failure_def split: option.split_asm sum.split_asm if_split_asm)

text \<open>
  C23. A command is admitted only for an administrator with both scopes on an installation of the
  actor's own organization in the right state and version (none for an installation), with a
  release that is verified by the market's digests or by an operator policy that allows the
  action, and only when the Runtime reports the workload of exactly that release in a state the
  action applies to; the execution carries the identity of that workload. A market release is
  installed or upgraded only with a grant of Control for this application, version and
  organization.
\<close>

theorem admitted_execution_bound:
  assumes "admission_Read env source actor c installed catalog = (Inr (x, ob), catalog')"
  shows "may_admit actor c \<and> own_installation actor c installed \<and>
    ax_AppID x = cm_AppID c \<and> ax_AppVersion x = cm_AppVersion c \<and> ax_Action x = cm_Action c \<and> ax_SchemaVersion x = 1 \<and>
    bo_TemplateDigest ob = ax_TemplateDigest x \<and> ax_WorkloadUID x = bo_WorkloadUid ob \<and> state_allows (cm_Action c) (bo_State ob) \<and>
    (if cm_Action c = ''install'' then ax_WorkloadUID x = [] else canonical_workload (av_uuid env) (ax_WorkloadUID x)) \<and>
    (policy_authority env source c x \<or>
     market_authority env c catalog x \<and>
       (cm_Action c = ''install'' \<or> cm_Action c = ''upgrade'' \<longrightarrow>
          (\<exists>m. catalog' = Some m \<and> CheckInstallGrant (av_market env) m (cm_AppID c) (cm_AppVersion c) (ic_OrganizationID actor) = Inr True)))"
  using assms
proof (cases rule: admission_cases)
  case (1 s x0 market_release inspectBound)
  note guards = resolve_guards [OF 1(2)] and sound = resolve_sound [OF 1(2)] and obs = observation_ok [OF 1(6)]
  have auth: "policy_authority env source c x \<or> market_authority env c catalog x \<and> market_release"
    using sound 1(7) by (auto simp: policy_authority_def market_authority_def split: if_split_asm)
  have grant: "cm_Action c = ''install'' \<or> cm_Action c = ''upgrade'' \<longrightarrow>
      (\<exists>m. catalog' = Some m \<and> CheckInstallGrant (av_market env) m (cm_AppID c) (cm_AppVersion c) (ic_OrganizationID actor) = Inr True)"
    if "market_release"
    using grant_given [of env actor c catalog'] 1(3) that by simp
  show ?thesis using guards action_own sound obs auth grant 1(7) by auto
qed

section \<open>Candidates\<close>

text \<open>
  The evidence behind an enabled candidate: a resolved release, and for every action but an
  installation the workload that the service and the catalog's deployment agree on.
\<close>

definition workload_evidence :: "Fact \<Rightarrow> Candidate \<Rightarrow> bool" where
  "workload_evidence ft cd \<longleftrightarrow>
     (if binds_workload (ca_Kind cd) then
        \<exists>uid item. sv_WorkloadUID (fa_Service ft) = Some uid \<and> fa_Catalog ft = Some item \<and> o_UID (i_Deployment item) = uid \<and>
          ca_ExpectedWorkloadUID cd = Text uid
      else sv_WorkloadUID (fa_Service ft) = None \<and> ca_ExpectedWorkloadUID cd = None)"

definition release_evidence :: "admission_env \<Rightarrow> AppCenterAdmissionSource \<Rightarrow> IdentityContext \<Rightarrow> Fact \<Rightarrow> string \<Rightarrow> Candidate \<Rightarrow> bool" where
  "release_evidence env s actor ft version cd \<longleftrightarrow>
     (\<exists>x market_release before after.
        resolve env (Some s) actor (candidate_command actor ft version (ca_Kind cd)) (fact_installation actor ft) before = (Inr (x, market_release), after) \<and>
        ca_ReleaseDigest cd = Text (ax_ReleaseDigest x))"

definition backed :: "admission_env \<Rightarrow> AppCenterAdmissionSource \<Rightarrow> IdentityContext \<Rightarrow> Fact \<Rightarrow> string \<Rightarrow> string set \<Rightarrow> Candidate \<Rightarrow> bool" where
  "backed env s actor ft version kinds cd \<longleftrightarrow>
     (ca_Enabled cd \<longrightarrow> ca_Kind cd \<in> kinds \<and> ad_Runtime s \<noteq> None \<and> workload_evidence ft cd \<and> release_evidence env s actor ft version cd)"

lemma reason_nonempty: "appCenterAdmissionReason e \<noteq> []"
  by (simp add: appCenterAdmissionReason_def)

lemma set_candidate_other: "ca_Kind cd \<noteq> kind \<Longrightarrow> set_candidate kind reason x cd = cd"
  by (simp add: set_candidate_def)

lemma set_candidate_disabled: "reason \<noteq> [] \<Longrightarrow> ca_Kind cd = kind \<Longrightarrow> \<not> ca_Enabled (set_candidate kind reason x cd)"
  by (simp add: set_candidate_def Let_def split: option.split)

lemma set_candidate_enabled:
  "ca_Kind cd = kind \<Longrightarrow> ca_Kind (set_candidate kind [] (Some y) cd) = kind \<and>
     ca_ReleaseDigest (set_candidate kind [] (Some y) cd) = Text (ax_ReleaseDigest y) \<and>
     ca_ExpectedWorkloadUID (set_candidate kind [] (Some y) cd) = Text (ax_WorkloadUID y)"
  by (simp add: set_candidate_def Let_def)

lemma candidate_binding_ok:
  assumes "candidate_binding ft kind x = ([], y)" "ax_WorkloadUID x = []" "ca_Kind cd = kind" "ca_ExpectedWorkloadUID cd = Text (ax_WorkloadUID y)"
  shows "workload_evidence ft cd \<and> ax_ReleaseDigest y = ax_ReleaseDigest x"
proof (cases "binds_workload kind")
  case True
  then obtain uid item where "sv_WorkloadUID (fa_Service ft) = Some uid" "fa_Catalog ft = Some item" "o_UID (i_Deployment item) = uid"
      "y = x\<lparr>ax_WorkloadUID := uid\<rparr>"
    using assms(1) unfolding candidate_binding_def by (simp add: Let_def split: if_split_asm option.split_asm)
  with True assms(3,4) show ?thesis by (simp add: workload_evidence_def)
next
  case False
  then have "sv_WorkloadUID (fa_Service ft) = None" "y = x"
    using assms(1) unfolding candidate_binding_def by (simp_all split: if_split_asm)
  with False assms(2-4) show ?thesis by (simp add: workload_evidence_def Text_def)
qed

lemma candidate_lifecycle_backed:
  assumes r: "resolve env (Some s) actor (candidate_command actor ft version kind) (fact_installation actor ft) before = (r, after)"
    and old: "list_all (backed env s actor ft version K) (li_Candidates l)" and k: "kind \<in> K"
  shows "list_all (backed env s actor ft version K) (li_Candidates (candidate_lifecycle env ft version kind (candidate_outcome env s r) l))"
proof -
  have "backed env s actor ft version K (set_candidate kind reason x cd)" if "cd \<in> set (li_Candidates l)" "reason \<noteq> []" for reason x cd
  proof (cases "ca_Kind cd = kind")
    case True
    with set_candidate_disabled [OF that(2)] show ?thesis by (simp add: backed_def)
  next
    case False
    with old that(1) show ?thesis by (simp add: set_candidate_other list_all_iff)
  qed
  note refused = this
  show ?thesis
  proof (cases "candidate_outcome env s r")
    case (Inl e)
    with refused reason_nonempty [of e] show ?thesis by (simp add: candidate_lifecycle_def Let_def list_all_iff)
  next
    case (Inr x)
    then obtain market_release where x: "r = Inr (x, market_release)" "ad_Runtime s \<noteq> None"
      by (auto simp: candidate_outcome_def split: sum.split_asm prod.split_asm if_split_asm)
    note sound = resolve_sound [OF r [unfolded x(1)]]
    obtain reason y where y: "candidate_binding ft kind x = (reason, y)" by fastforce
    have "backed env s actor ft version K (set_candidate kind reason (Some y) cd)" if "cd \<in> set (li_Candidates l)" for cd
    proof (cases "reason = [] \<and> ca_Kind cd = kind")
      case True
      note set = set_candidate_enabled [OF conjunct2 [OF True], of y]
      have bind: "candidate_binding ft kind x = ([], y)" using y True by simp
      have "workload_evidence ft (set_candidate kind [] (Some y) cd) \<and> ax_ReleaseDigest y = ax_ReleaseDigest x"
        by (rule candidate_binding_ok [OF bind]) (use sound set in auto)
      with True set k x r show ?thesis unfolding backed_def release_evidence_def by auto
    next
      case False
      then consider "reason \<noteq> []" | "ca_Kind cd \<noteq> kind" by blast
      then show ?thesis
        by cases (use refused [OF that] old that in \<open>simp_all add: set_candidate_other list_all_iff\<close>)
    qed
    with Inr y show ?thesis by (simp add: candidate_lifecycle_def list_all_iff)
  qed
qed

lemma candidate_loop_backed:
  assumes "candidate_loop env s actor ft version kinds l catalog = (l', catalog')" "list_all (backed env s actor ft version K) (li_Candidates l)"
    "set kinds \<subseteq> K"
  shows "list_all (backed env s actor ft version K) (li_Candidates l')"
  using assms
proof (induction kinds arbitrary: l catalog)
  case (Cons kind kinds)
  obtain r c1 where r: "resolve env (Some s) actor (candidate_command actor ft version kind) (fact_installation actor ft) catalog = (r, c1)"
    by fastforce
  from Cons.prems(1) r have "candidate_loop env s actor ft version kinds (candidate_lifecycle env ft version kind (candidate_outcome env s r) l) c1 = (l', catalog')"
    by simp
  from Cons.IH [OF this candidate_lifecycle_backed [OF r Cons.prems(2)]] Cons.prems(3) show ?case by simp
qed simp

text \<open>
  An action a card offers as enabled rests on evidence: the user manages applications, no
  operation blocks the card and no other owner has the application, the service was observed less
  than 15 seconds ago, a release was resolved for exactly this user, application and action, and
  for every action but an installation the observed workload is the one of the catalog's
  deployment, whose identity the command must carry.
\<close>

theorem enabled_candidate_sound:
  assumes "projectCandidate env s actor foreign now ft catalog = (ft', catalog')"
    and "list_all (\<lambda>cd. \<not> ca_Enabled cd) (li_Candidates (fa_Lifecycle ft))"
    and "cd \<in> set (li_Candidates (fa_Lifecycle ft'))" and "ca_Enabled cd"
  shows "may_offer actor ft \<and> \<not> foreign \<and> fresh_service now (fa_Service ft) \<and> ad_Runtime s \<noteq> None \<and>
    ca_Kind cd \<in> set (fst (candidate_kinds ft)) \<and> workload_evidence ft cd \<and>
    release_evidence env s actor ft (snd (candidate_kinds ft)) cd"
proof -
  obtain kinds version where kv: "candidate_kinds ft = (kinds, version)" by fastforce
  obtain l c1 where loop: "candidate_loop env s actor ft version kinds (fa_Lifecycle ft) catalog = (l, c1)" by fastforce
  have ok: "may_offer actor ft" "\<not> foreign" "fresh_service now (fa_Service ft)" "ft' = ft\<lparr>fa_Lifecycle := l\<rparr>"
    using assms unfolding projectCandidate_def kv Let_def case_prod_conv loop
    by (auto simp: list_all_iff split: if_split_asm)
  have "list_all (backed env s actor ft version (set kinds)) (li_Candidates (fa_Lifecycle ft))"
    using assms(2) by (simp add: list_all_iff backed_def)
  from candidate_loop_backed [OF loop this] assms(3,4) ok(4) have "backed env s actor ft version (set kinds) cd" by (simp add: list_all_iff)
  with ok kv assms(4) show ?thesis by (simp add: backed_def)
qed

section \<open>From the listing to the admission\<close>

text \<open>A command as the listing resolved it, up to the fields of the request.\<close>

definition same_command :: "Command \<Rightarrow> Command \<Rightarrow> bool" where
  "same_command c c' \<longleftrightarrow> cm_AppID c' = cm_AppID c \<and> cm_AppVersion c' = cm_AppVersion c \<and> cm_Action c' = cm_Action c \<and>
     cm_StationID c' = cm_StationID c \<and> cm_OrganizationID c' = cm_OrganizationID c"

definition same_release :: "Ops_Types.Installation option \<Rightarrow> Ops_Types.Installation option \<Rightarrow> bool" where
  "same_release i j \<longleftrightarrow>
     map_option (\<lambda>x. (in_StationID x, in_OrganizationID x, in_AppID x, in_AppVersion x, in_State x)) i =
     map_option (\<lambda>x. (in_StationID x, in_OrganizationID x, in_AppID x, in_AppVersion x, in_State x)) j"

lemma action_error_same:
  assumes "same_command c c'" "same_release i j" "mk_entries m' = mk_entries m"
  shows "action_error (Some m') actor c' j = action_error (Some m) actor c i"
  using assms unfolding same_command_def same_release_def action_error_def same_installation_def
  by (cases i; cases j) (auto split: option.split)

lemma market_execution_same:
  assumes "same_command c c'" "same_release i j" "mk_entries m' = mk_entries m" "av_admission env' = av_admission env"
  shows "market_execution env' m' c' j h = market_execution env m c i h"
proof -
  have c: "cm_AppID c' = cm_AppID c" "cm_AppVersion c' = cm_AppVersion c" "cm_Action c' = cm_Action c"
    using assms(1) by (simp_all add: same_command_def)
  have i: "(case j of None \<Rightarrow> [] | Some y \<Rightarrow> in_AppVersion y) = (case i of None \<Rightarrow> [] | Some y \<Rightarrow> in_AppVersion y)"
    using assms(2) by (cases i; cases j) (simp_all add: same_release_def)
  show ?thesis unfolding market_execution_def execution_of_def c i assms(3,4) ..
qed

lemma resolve_again:
  assumes "resolve env (Some s) actor c i (Some m) = (Inr (x, True), Some m1)" "same_command c c'" "same_release i j"
    "mk_entries m2 = mk_entries m1" "market_step\<^sup>*\<^sup>* (m1, P) (m2, P')" "version_key_of (cm_AppID c) (cm_AppVersion c) \<notin> set P"
    "av_admission env' = av_admission env"
  shows "resolve env' (Some s') actor c' j (Some m2) = (Inr (x, True), Some m2)"
  using assms(1)
proof (cases rule: resolve_cases)
  case (market s0 m0 h m')
  then have h: "ResolveHelm (av_market env) (cm_AppID c) (cm_AppVersion c) m = (Some h, m1)" and x: "x = market_execution env m1 c i h" by auto
  have entries: "mk_entries m1 = mk_entries m" using resolve_effect [OF h] same_catalogD [of m m1] by simp
  have again: "ResolveHelm (av_market env') (cm_AppID c') (cm_AppVersion c') m2 = (Some h, m2)"
    using ResolveHelm_stable [OF h assms(4-6)] assms(2) by (simp add: same_command_def)
  have guards: "may_admit actor c'" "action_error (Some m2) actor c' j = None"
    using resolve_guards [OF assms(1)] assms(2) action_error_same [OF assms(2,3), of m2 m actor] entries assms(4)
    by (auto simp: may_admit_def same_command_def)
  show ?thesis
    using guards again x market_execution_same [OF assms(2,3,4,7), of h] by (simp add: resolve_def)
qed simp

text \<open>
  C24. What was listed is what is admitted, while the catalog stays as it was listed. When the
  listing resolved a market release for a command and no lookup of that version was left under
  way, then after any interleaving of other lookups and refreshes at whose end the catalog has
  the same entries, on another day and under another network, the admission of the command
  resolves the very same release and policy revision: with the grant and a matching workload it
  returns that execution bound to the workload, so that a command prepared from the listing
  passes the comparison with what its user expected. (A catalog with other entries has another
  policy revision, and the comparison then refuses the command.)
\<close>

theorem listed_release_is_admitted:
  assumes listed: "resolve env (Some s) actor c i (Some m) = (Inr (x, True), Some m1)"
    and later: "market_step\<^sup>*\<^sup>* (m1, P) (m2, P')" "version_key_of (cm_AppID c) (cm_AppVersion c) \<notin> set P" "mk_entries m2 = mk_entries m1"
      "av_admission env' = av_admission env"
    and command: "same_command c (ac_Command inp)" "same_release i j"
    and live: "grant_failure env' actor (ac_Command inp) True (Some m2) = None" "ad_Runtime s' = Some inspectBound"
      "inspectBound (inspection actor (ac_Command inp) j x) = Inr (Some ob)" "observation_error env' (ac_Command inp) x ob = None"
    and expected: "ae_ReleaseDigest (ac_Expected inp) = Some (ax_ReleaseDigest x)" "ae_PolicyRevision (ac_Expected inp) = ax_PolicyRevision x"
      "(case ae_WorkloadUID (ac_Expected inp) of None \<Rightarrow> [] | Some u \<Rightarrow> u) = bo_WorkloadUid ob" "transitionDigest (ax_PolicyRevision x)"
  shows "Admit env' (Some s') actor (ac_Command inp) j (Some m2) = (Inr (x\<lparr>ax_WorkloadUID := bo_WorkloadUid ob\<rparr>), Some m2) \<and>
    validateAppCenterExecution inp (x\<lparr>ax_WorkloadUID := bo_WorkloadUid ob\<rparr>) = None"
proof -
  have "resolve env' (Some s') actor (ac_Command inp) j (Some m2) = (Inr (x, True), Some m2)"
    by (rule resolve_again [OF listed command later(3,1,2,4)])
  then have "Admit env' (Some s') actor (ac_Command inp) j (Some m2) = (Inr (x\<lparr>ax_WorkloadUID := bo_WorkloadUid ob\<rparr>), Some m2)"
    using live by (simp add: Admit_def admission_Read_def inspect_def)
  moreover have "transitionDigest (ax_ReleaseDigest x)" "transitionDigest (ax_TemplateDigest x)"
    using resolve_sound [OF listed] by (auto simp: market_authority_def transitionDigest_def)
  moreover have "ax_AppID x = cm_AppID (ac_Command inp)" "ax_AppVersion x = cm_AppVersion (ac_Command inp)" "ax_Action x = cm_Action (ac_Command inp)"
      "ax_SchemaVersion x = 1"
    using resolve_sound [OF listed] command(1) by (simp_all add: same_command_def)
  ultimately show ?thesis using expected by (simp add: validateAppCenterExecution_def Let_def)
qed

section \<open>One running application\<close>

definition demo_helm :: Helm where
  "demo_helm = \<lparr>he_OCIRef = ''oci://charts/world'', he_ChartName = ''world'', he_ChartVersion = ''1.0.0'', he_ManifestDigest = demo_digest,
     he_PackageDigest = demo_digest, he_PackageSizeBytes = 10, he_TargetNamespace = ''verdantflare-app'', he_ReleaseName = ''world'', he_ValuesSource = []\<rparr>"

definition demo_catalog_item :: Item where
  "demo_catalog_item = \<lparr>e_AppID = ''world'', e_DisplayName = ''World'', e_GroupID = ''system'', e_Brand = ''vf'', e_SortOrder = 0, e_IconRef = [],
     e_Description = [], e_Capabilities = [], e_DisabledReason = [], e_Helm = Some demo_helm, e_Models = Some [], e_Source = [],
     e_Namespace = ''verdantflare-app'', e_WorkloadName = ''app-world'', e_Version = ''1.0.0'', e_Images = [],
     i_ModelStatus = ''not_required'', i_Deployment = \<lparr>o_UID = ''w1'', o_ManagementStatus = ''managed'',
       o_Ownership = [(''station.verdantflare.com/template-hash'', replicate 64 CHR ''a'')], o_State = ''ready'', o_Reason = [], o_ObservedAt = 5,
       o_Desired = None, o_Ready = None, o_Images = []\<rparr>\<rparr>"

definition demo_stocked :: market where
  "demo_stocked = demo_market\<lparr>mk_entries := [Entry.truncate demo_catalog_item]\<rparr>"

definition demo_seen :: AppCenterObservation where
  "demo_seen = \<lparr>bo_SchemaVersion = 1, bo_Unknown = False, bo_TemplateDigest = demo_digest, bo_Namespace = ''ns'', bo_WorkloadName = ''world'',
     bo_WorkloadUid = ''w1'', bo_State = ''running''\<rparr>"

definition demo_source :: AppCenterAdmissionSource where
  "demo_source = \<lparr>ad_Path = [], ad_Management = None, ad_Dashboard = None, ad_Runtime = Some (\<lambda>_. Inr (Some demo_seen))\<rparr>"

definition demo_admission_env :: admission_env where
  "demo_admission_env = \<lparr>av_material = demo_material_env,
     av_policies = \<lparr>sl_json = demo_lib (\<lambda>_. \<lparr>pf_SchemaVersion = 1, pf_Enabled = None, pf_Releases = None\<rparr>), sl_valid = (\<lambda>_ _. False), sl_unmarshal = (\<lambda>_. None)\<rparr>,
     av_market = demo_market_env, av_admission = (\<lambda>_. demo_digest), av_dashboard = (\<lambda>_. demo_digest), av_strings = (\<lambda>_. demo_digest),
     av_uuid = (\<lambda>v. Some \<lparr>uuid_String = v, uuid_Version = 4, uuid_RFC4122 = True, uuid_Nil = False\<rparr>)\<rparr>"

definition demo_stop :: Command where
  "demo_stop = \<lparr>cm_ExpectedWorkloadUID = ''w1'', cm_RequestID = ''q'', cm_IdempotencyKey = ''key-12345'', cm_OrganizationID = ''o'', cm_StationID = ''s'',
     cm_AppID = ''world'', cm_AppVersion = ''1.0.0'', cm_Action = ''stop''\<rparr>"

definition demo_execution :: AppCenterExecution where
  "demo_execution = execution_of demo_stop demo_digest demo_digest demo_digest"

definition demo_prepared :: AppCenterCommand where
  "demo_prepared = \<lparr>ac_SchemaVersion = 1, ac_Command = demo_stop, ac_Expected = \<lparr>ae_InstallationID = Some ''i'', ae_InstallationRevision = Some 1,
     ae_AppVersion = ''1.0.0'', ae_ReleaseDigest = Some demo_digest, ae_WorkloadUID = Some ''w1'', ae_PolicyRevision = demo_digest\<rparr>\<rparr>"

lemma demo_admission_evaluated:
  "resolve demo_admission_env (Some demo_source) demo_actor demo_stop (Some demo_installed) (Some demo_stocked) =
     (Inr (demo_execution, True), Some demo_stocked) \<and>
   grant_failure demo_admission_env demo_actor demo_stop True (Some demo_stocked) = None \<and>
   observation_error demo_admission_env demo_stop demo_execution demo_seen = None \<and>
   ae_ReleaseDigest (ac_Expected demo_prepared) = Some (ax_ReleaseDigest demo_execution) \<and>
   ae_PolicyRevision (ac_Expected demo_prepared) = ax_PolicyRevision demo_execution \<and>
   (case ae_WorkloadUID (ac_Expected demo_prepared) of None \<Rightarrow> [] | Some u \<Rightarrow> u) = bo_WorkloadUid demo_seen \<and>
   transitionDigest (ax_PolicyRevision demo_execution)"
  by code_simp

lemmas demo_resolved = demo_admission_evaluated [THEN conjunct1]

lemma demo_runtime: "ad_Runtime demo_source = Some (\<lambda>_. Inr (Some demo_seen))"
  by (simp add: demo_source_def)

theorem admitted_execution_bound_witness:
  "fst (admission_Read demo_admission_env (Some demo_source) demo_actor demo_stop (Some demo_installed) (Some demo_stocked)) =
     Inr (demo_execution\<lparr>ax_WorkloadUID := ''w1''\<rparr>, demo_seen) \<and>
   own_installation demo_actor demo_stop (Some demo_installed) \<and> canonical_workload (av_uuid demo_admission_env) ''w1''"
proof -
  have "grant_failure demo_admission_env demo_actor demo_stop True (Some demo_stocked) = None \<and>
      observation_error demo_admission_env demo_stop demo_execution demo_seen = None"
    using demo_admission_evaluated by blast
  then have "admission_Read demo_admission_env (Some demo_source) demo_actor demo_stop (Some demo_installed) (Some demo_stocked) =
      (Inr (demo_execution\<lparr>ax_WorkloadUID := ''w1''\<rparr>, demo_seen), Some demo_stocked)"
    using demo_runtime by (simp add: admission_Read_def demo_resolved inspect_def) (simp add: demo_seen_def)
  from admitted_execution_bound [OF this] this show ?thesis by (auto simp: demo_stop_def)
qed

theorem listed_release_is_admitted_witness:
  "validateAppCenterExecution demo_prepared (demo_execution\<lparr>ax_WorkloadUID := bo_WorkloadUid demo_seen\<rparr>) = None"
proof -
  have cmd: "ac_Command demo_prepared = demo_stop" by (simp add: demo_prepared_def)
  have live: "grant_failure demo_admission_env demo_actor (ac_Command demo_prepared) True (Some demo_stocked) = None"
      "observation_error demo_admission_env (ac_Command demo_prepared) demo_execution demo_seen = None"
    unfolding cmd using demo_admission_evaluated by blast+
  have exp: "ae_ReleaseDigest (ac_Expected demo_prepared) = Some (ax_ReleaseDigest demo_execution)"
      "ae_PolicyRevision (ac_Expected demo_prepared) = ax_PolicyRevision demo_execution"
      "(case ae_WorkloadUID (ac_Expected demo_prepared) of None \<Rightarrow> [] | Some u \<Rightarrow> u) = bo_WorkloadUid demo_seen"
      "transitionDigest (ax_PolicyRevision demo_execution)"
    using demo_admission_evaluated by blast+
  have same: "same_command demo_stop (ac_Command demo_prepared)" "same_release (Some demo_installed) (Some demo_installed)"
    by (simp_all add: cmd same_command_def same_release_def)
  have idle: "version_key_of (cm_AppID demo_stop) (cm_AppVersion demo_stop) \<notin> set [''other'']" by (simp add: demo_stop_def version_key_of_def)
  from listed_release_is_admitted [OF demo_resolved rtranclp.rtrancl_refl [of market_step "(demo_stocked, [''other''])"] idle refl refl same live(1) demo_runtime refl live(2) exp] show ?thesis by (rule conjunct2)
qed

end
