(* ===== verification/State_Catalog.thy ===== *)
theory State_Catalog
  imports Memory Catalog Ops_Types
begin

text \<open>
  The projections of the observation memory (\<^verbatim>\<open>internal/appstate\<close>: \<^verbatim>\<open>legacy.go\<close>, \<^verbatim>\<open>catalog.go\<close>,
  \<^verbatim>\<open>preinstalled.go\<close> and \<open>readBindings\<close> of \<^verbatim>\<open>store.go\<close>): the legacy bindings the operator registers,
  the snapshot of all views under one lock, and the catalog of an organization joined with it.
  The clock does not advance within a call. A Go map that is iterated over is an association list;
  where the order of the iteration is open the code sorts the result.
\<close>

section \<open>Legacy bindings\<close>

text \<open>\<open>"obs:" + appcenter.Digest(...)[7:]\<close>, with the hexadecimal digest of a list of strings as a parameter.\<close>

definition obs_digest :: "memory_ext \<Rightarrow> string \<Rightarrow> string \<Rightarrow> string \<Rightarrow> string" where
  "obs_digest E ns name uid = ''obs:'' @ me_digest E [ns, name, uid]"

definition legacyCandidates :: "string \<Rightarrow> (string \<times> string) list" where
  "legacyCandidates app =
     (if app = ''image-mcp'' then [(''verdantflare-app'', ''image-mcp-server''), (''verdantflare-image'', ''image-mcp-server'')]
      else if app = ''video-mcp'' then [(''verdantflare-app'', ''video-mcp-server''), (''verdantflare-video'', ''video-mcp-server'')]
      else if app = ''blender'' then [(''verdantflare-app'', ''blender-manager''), (''verdantflare-app'', ''blender''), (''verdantflare-blender'', ''blender'')]
      else [])"

text \<open>The position of the workload a binding names: the catalog's, or a historical one its key stands for.\<close>

definition legacy_position :: "memory_ext \<Rightarrow> Entry \<Rightarrow> legacyBinding \<Rightarrow> string \<times> string" where
  "legacy_position E e b =
     (if lb_ObservationKey b \<noteq> obs_digest E (e_Namespace e) (e_WorkloadName e) (lb_WorkloadUID b) then
        (case find (\<lambda>(ns, name). lb_ObservationKey b = obs_digest E ns name (lb_WorkloadUID b)) (legacyCandidates (e_AppID e)) of
           Some position \<Rightarrow> position
         | None \<Rightarrow> (e_Namespace e, e_WorkloadName e))
      else (e_Namespace e, e_WorkloadName e))"

definition legacy_valid :: "memory_ext \<Rightarrow> string \<Rightarrow> string \<times> string \<Rightarrow> legacyBinding \<Rightarrow> bool" where
  "legacy_valid E station position b \<longleftrightarrow>
     lb_BindingID b \<noteq> [] \<and> lb_StationID b = station \<and> validID (me_uuid E) (lb_OrganizationID b) \<and> validID (me_uuid E) (lb_WorkloadUID b) \<and>
     dns (fst position) \<and> dns (snd position) \<and> lb_ObservationKey b = obs_digest E (fst position) (snd position) (lb_WorkloadUID b)"

text \<open>The loop with the ids, applications, positions and workloads seen so far.\<close>

fun legacy_loop ::
  "memory_ext \<Rightarrow> string \<Rightarrow> Entry list \<Rightarrow> string list \<Rightarrow> string list \<Rightarrow> string list \<Rightarrow> string list \<Rightarrow> legacyBinding list
     \<Rightarrow> legacyBinding list option" where
  "legacy_loop E station entries ids apps positions uids [] = Some []"
| "legacy_loop E station entries ids apps positions uids (b # bs) =
     (case find_entry entries (lb_AppID b) of
        None \<Rightarrow> None
      | Some e \<Rightarrow>
          (let position = legacy_position E e b; key = fst position @ ''/'' @ snd position
           in if lb_BindingID b \<in> set ids \<or> lb_AppID b \<in> set apps \<or> key \<in> set positions \<or> lb_WorkloadUID b \<in> set uids \<or>
                 \<not> legacy_valid E station position b then None
              else map_option (\<lambda>rest. b\<lparr>lb_namespace := fst position, lb_name := snd position\<rparr> # rest)
                     (legacy_loop E station entries (lb_BindingID b # ids) (lb_AppID b # apps) (key # positions) (lb_WorkloadUID b # uids) bs)))"

definition validateLegacy :: "memory_ext \<Rightarrow> string \<Rightarrow> legacyBinding list \<Rightarrow> Entry list \<Rightarrow> legacyBinding list option" where
  "validateLegacy E station bindings entries =
     (if \<not> validID (me_uuid E) station \<or> length bindings > 128 \<or> length entries > 1000 \<or> \<not> distinct (map e_AppID entries) then None
      else map_option (sort_key lb_AppID) (legacy_loop E station entries [] [] [] [] bindings))"

datatype state_error = SUnavailable | SStream stream_error | SDenied | SInvalid | SNotFound | SDatabase | SCancelled

text \<open>
  \<open>file\<close> is \<open>None\<close> for an empty path; else what opening, inspecting and decoding the file gives:
  \<open>None\<close> when it cannot be opened, whether it is a regular file within the limit, and the records
  of a file that the closed contract accepts. \<open>orgs\<close> is the table of organizations, \<open>None\<close> without
  a database.
\<close>

definition LoadLegacy ::
  "memory_ext \<Rightarrow> string \<Rightarrow> bool \<Rightarrow> (bool \<times> legacyBinding list option) option option \<Rightarrow> Entry list \<Rightarrow> string list option \<Rightarrow> Memory
     \<Rightarrow> state_error option \<times> Memory" where
  "LoadLegacy E station canceled file entries orgs m =
     (if \<not> validID (me_uuid E) station \<or> canceled then (Some SUnavailable, m)
      else case file of
             None \<Rightarrow> (None, m\<lparr>m_legacy := []\<rparr>)
           | Some opened \<Rightarrow>
               (case (orgs, opened) of
                  (None, _) \<Rightarrow> (Some SUnavailable, m)
                | (_, None) \<Rightarrow> (Some SUnavailable, m)
                | (Some organizations, Some (regular, decoded)) \<Rightarrow>
                    if \<not> regular then (Some (SStream ErrStreamFrame), m)
                    else (case decoded of
                            None \<Rightarrow> (Some (SStream ErrStreamFrame), m)
                          | Some records \<Rightarrow>
                              (case validateLegacy E station records entries of
                                 None \<Rightarrow> (Some (SStream ErrStreamFrame), m)
                               | Some bindings \<Rightarrow>
                                   if list_all (\<lambda>b. lb_OrganizationID b \<in> set organizations) bindings then (None, m\<lparr>m_legacy := bindings\<rparr>)
                                   else (Some (SStream ErrStreamFrame), m)))))"

section \<open>The snapshot\<close>

record memorySnapshot =
  sn_installations :: "(string \<times> MemoryView) list"
  sn_legacy :: "(string \<times> (string \<times> MemoryView) list) list"
  sn_revisions :: "(string \<times> string) list"

text \<open>The collector of a namespace; the namespaces of two collectors are disjoint.\<close>

definition collector_for :: "Memory \<Rightarrow> string \<Rightarrow> memoryCollector option" where
  "collector_for m ns = map_option snd (find (\<lambda>(_, c). ns \<in> set (col_Namespaces (mc_config c))) (m_collectors m))"

text \<open>An object nothing claims: no owner, no installation, no instance and no mark of ownership.\<close>

definition unclaimed :: "ResourceObservation \<Rightarrow> bool" where
  "unclaimed ob \<longleftrightarrow> ro_StationID ob = [] \<and> ro_OrganizationID ob = [] \<and> ro_InstallationID ob = [] \<and> ro_InstanceID ob = [] \<and> ro_AppID ob = [] \<and>
     (case ro_Metadata ob of None \<Rightarrow> False | Some md \<Rightarrow> \<not> rm_OwnershipMarked md)"

definition legacy_runtime :: "Memory \<Rightarrow> legacyBinding \<Rightarrow> gotime \<Rightarrow> Runtime \<times> ResourceObservation option \<times> string" where
  "legacy_runtime m b now =
     (case collector_for m (lb_namespace b) of
        None \<Rightarrow> (unknown_Runtime ''NOT_SYNCED'', None, [])
      | Some c \<Rightarrow>
          (case map_of (mc_objects c) (resource_key (lb_namespace b) (lb_name b)) of
             Some r \<Rightarrow>
               if ro_UID (mr_obs r) \<noteq> lb_WorkloadUID b \<or> \<not> unclaimed (mr_obs r) then (unknown_Runtime ''IDENTITY_CONFLICT'', None, [])
               else let (state, reason) = evaluate (effective_fact r now) (lb_AppID b \<in> set (col_HealthRequiredApps (mc_config c)))
                    in (RuntimeView now (Some state) (Some reason) (Some (mr_received r)) (Some (mr_expires r)) False, Some (mr_obs r), mr_metadataDigest r)
           | None \<Rightarrow>
               if mc_inventoryAt c \<noteq> 0
               then (RuntimeView now (Some ''absent'') (Some ''RESOURCE_ABSENT'') (Some (mc_inventoryAt c)) (Some (mc_inventoryExpires c)) False, None, [])
               else (unknown_Runtime ''NOT_SYNCED'', None, [])))"

definition legacyView :: "memory_ext \<Rightarrow> Memory \<Rightarrow> legacyBinding \<Rightarrow> gotime \<Rightarrow> MemoryView" where
  "legacyView E m b now =
     (let (runtime, resource, metadata) = legacy_runtime m b now;
          last = (case rt_LastKnownState runtime of None \<Rightarrow> [] | Some x \<Rightarrow> x)
      in \<lparr>mv_Runtime = runtime,
          mv_Revision = m_boot m @ '':'' @ me_digest E [lb_ObservationKey b, rt_State runtime, rt_Quality runtime, rt_ReasonCode runtime, last, metadata],
          mv_Resource = resource\<rparr>)"

text \<open>The views of the legacy bindings whose application has no installation, by organization.\<close>

definition add_legacy :: "string \<Rightarrow> string \<Rightarrow> MemoryView \<Rightarrow> (string \<times> (string \<times> MemoryView) list) list \<Rightarrow> (string \<times> (string \<times> MemoryView) list) list" where
  "add_legacy org app view acc = AList.update org (AList.update app view (lookup_default [] acc org)) acc"

definition legacy_views :: "memory_ext \<Rightarrow> Memory \<Rightarrow> Memory.Binding list \<Rightarrow> gotime \<Rightarrow> (string \<times> (string \<times> MemoryView) list) list" where
  "legacy_views E m bindings now =
     fold (\<lambda>b acc. if lb_AppID b \<in> set (map b_AppID bindings) then acc
                    else add_legacy (lb_OrganizationID b) (lb_AppID b) (legacyView E m b now) acc) (m_legacy m) []"

text \<open>
  The digest of the base token and the tokens of the legacy views is a parameter; JSON sorts the
  keys of a map.
\<close>

type_synonym scope_digest = "string \<Rightarrow> (string \<times> string) list \<Rightarrow> string"

definition snapshotLocked ::
  "memory_ext \<Rightarrow> scope_digest \<Rightarrow> Memory.Binding list \<Rightarrow> gotime \<Rightarrow> Memory \<Rightarrow> (stream_error + memorySnapshot) \<times> Memory" where
  "snapshotLocked E dg bindings now m =
     (case viewsLocked E bindings now m of
        (Inl e, m') \<Rightarrow> (Inl e, m')
      | (Inr (views, revisions), m') \<Rightarrow>
          (let legacy = legacy_views E m' bindings now;
               scope = (\<lambda>(org, apps). (org, m_boot m' @ '':'' @ dg (let base = lookup_default [] revisions org in if base = [] then Memory_token m' 0 else base)
                         (sort_key fst (map_vals mv_Revision apps))))
           in (Inr \<lparr>sn_installations = views, sn_legacy = legacy,
                    sn_revisions = fold (\<lambda>p. AList.update (fst (scope p)) (snd (scope p))) legacy revisions\<rparr>, m')))"

section \<open>The catalog of an organization\<close>

definition catalogState :: "Runtime \<Rightarrow> string \<times> string" where
  "catalogState r =
     (if rt_State r = ''absent'' then (''not_installed'', ''not_found'')
      else if rt_State r = ''ready'' then (''ready'', ''replicas_ready'')
      else if rt_State r = ''starting'' then (''starting'', ''reconciling'')
      else if rt_State r = ''stopping'' then (''stopping'', ''scaling_down'')
      else if rt_State r = ''stopped'' then (''stopped'', ''scaled_to_zero'')
      else if rt_State r = ''degraded'' then (''degraded'', ''deployment_failed'')
      else (''unknown'', ''unavailable''))"

definition resource_ownership :: "ResourceObservation \<Rightarrow> (string \<times> string) list" where
  "resource_ownership r =
     [(''station.verdantflare.com/station-id'', ro_StationID r), (''station.verdantflare.com/organization-id'', ro_OrganizationID r),
      (''station.verdantflare.com/app-id'', ro_AppID r), (''station.verdantflare.com/installation-id'', ro_InstallationID r)]
     @ (case ro_Metadata r of None \<Rightarrow> [] | Some md \<Rightarrow> [(''station.verdantflare.com/template-hash'', rm_TemplateHash md)])"

definition resource_images :: "ResourceObservation \<Rightarrow> Image list" where
  "resource_images r =
     (case ro_Metadata r of
        None \<Rightarrow> []
      | Some md \<Rightarrow> if rm_ImagesComplete md then
                     map (\<lambda>i. \<lparr>im_Component = ri_Component i, im_Image = ri_Image i\<rparr>) (case rm_Images md of None \<Rightarrow> [] | Some is \<Rightarrow> is)
                   else [])"

definition catalogObservation :: "MemoryView \<Rightarrow> Observation" where
  "catalogObservation v =
     (let (state, reason) = catalogState (mv_Runtime v);
          ob = \<lparr>o_UID = [], o_ManagementStatus = [], o_Ownership = [], o_State = state, o_Reason = reason,
               o_ObservedAt = (case rt_ObservedAt (mv_Runtime v) of None \<Rightarrow> 0 | Some t \<Rightarrow> t), o_Desired = None, o_Ready = None, o_Images = []\<rparr>
      in case mv_Resource v of
           None \<Rightarrow> ob
         | Some r \<Rightarrow> ob\<lparr>o_UID := ro_UID r, o_Desired := Some (ro_Desired r), o_Ready := Some (ro_Ready r), o_Ownership := resource_ownership r,
                       o_Images := resource_images r\<rparr>)"

text \<open>The loop over the collectors: a later collector of the namespace would overwrite an earlier one.\<close>

definition catalogPosition :: "Memory \<Rightarrow> ('a) Entry_scheme \<Rightarrow> gotime \<Rightarrow> Observation" where
  "catalogPosition m e now =
     (let ob = \<lparr>o_UID = [], o_ManagementStatus = [], o_Ownership = [], o_State = ''unknown'', o_Reason = ''unavailable'', o_ObservedAt = 0,
               o_Desired = None, o_Ready = None, o_Images = []\<rparr>
      in fold (\<lambda>(_, c) ob.
           if e_Namespace e \<notin> set (col_Namespaces (mc_config c)) then ob
           else if map_of (mc_objects c) (resource_key (e_Namespace e) (e_WorkloadName e)) \<noteq> None then ob\<lparr>o_Reason := ''unavailable''\<rparr>
           else if mc_inventoryAt c \<noteq> 0 \<and> now < mc_inventoryExpires c
                then ob\<lparr>o_State := ''not_installed'', o_Reason := ''not_found'', o_ObservedAt := mc_inventoryAt c\<rparr>
           else ob) (m_collectors m) ob)"

text \<open>The views of an organization's installations, and those with a resource by its position.\<close>

definition org_views :: "string \<Rightarrow> Memory.Binding list \<Rightarrow> memorySnapshot \<Rightarrow> (string \<times> MemoryView) list" where
  "org_views org bindings sn =
     fold (\<lambda>b. AList.update (b_InstallationID b) (the (map_of (sn_installations sn) (b_InstallationID b))))
       (filter (\<lambda>b. b_OrganizationID b = org) bindings) []"

definition view_locations :: "string \<Rightarrow> Memory.Binding list \<Rightarrow> memorySnapshot \<Rightarrow> (string \<times> MemoryView) list" where
  "view_locations org bindings sn =
     fold (\<lambda>b acc. let v = the (map_of (sn_installations sn) (b_InstallationID b))
                    in case mv_Resource v of None \<Rightarrow> acc | Some r \<Rightarrow> AList.update (resource_key (ro_Namespace r) (ro_Name r)) v acc)
       (filter (\<lambda>b. b_OrganizationID b = org) bindings) []"

definition is_at :: "Entry \<Rightarrow> MemoryView \<Rightarrow> bool" where
  "is_at e v = (case mv_Resource v of None \<Rightarrow> False | Some r \<Rightarrow> ro_AppID r = e_AppID e)"

definition entry_observation ::
  "Memory \<Rightarrow> string \<Rightarrow> memorySnapshot \<Rightarrow> (string \<times> MemoryView) list \<Rightarrow> gotime \<Rightarrow> Entry \<Rightarrow> Observation \<times> bool" where
  "entry_observation m org sn locations now e =
     (case map_of locations (resource_key (e_Namespace e) (e_WorkloadName e)) of
        Some v \<Rightarrow>
          if is_at e v then (catalogObservation v, True)
          else (case map_of (lookup_default [] (sn_legacy sn) org) (e_AppID e) of
                  Some v \<Rightarrow> ((catalogObservation v)\<lparr>o_Ownership := []\<rparr>, False)
                | None \<Rightarrow> (catalogPosition m e now, False))
      | None \<Rightarrow>
          (case map_of (lookup_default [] (sn_legacy sn) org) (e_AppID e) of
             Some v \<Rightarrow> ((catalogObservation v)\<lparr>o_Ownership := []\<rparr>, False)
           | None \<Rightarrow> (catalogPosition m e now, False)))"

definition registered_item :: "Entry \<Rightarrow> Observation \<Rightarrow> SnapshotItem" where
  "registered_item e ob =
     snapshot_of (item_of e (if e_Models e = None \<or> e_Models e = Some [] then ''not_required'' else ''unknown'') ob) True"

definition bare_entry :: "ResourceObservation \<Rightarrow> Entry" where
  "bare_entry r = \<lparr>e_AppID = ro_AppID r, e_DisplayName = [], e_GroupID = [], e_Brand = [], e_SortOrder = 0, e_IconRef = [], e_Description = [],
     e_Capabilities = [], e_DisabledReason = [], e_Helm = None, e_Models = None, e_Source = [], e_Namespace = ro_Namespace r, e_WorkloadName = ro_Name r,
     e_Version = [], e_Images = []\<rparr>"

definition unregistered_item :: "MemoryView \<Rightarrow> SnapshotItem list" where
  "unregistered_item v =
     (case mv_Resource v of None \<Rightarrow> [] | Some r \<Rightarrow> [snapshot_of (item_of (bare_entry r) ''unknown'' (catalogObservation v)) False])"

definition catalogSnapshotLocked ::
  "string \<Rightarrow> Entry list \<Rightarrow> Memory.Binding list \<Rightarrow> memorySnapshot \<Rightarrow> gotime \<Rightarrow> Memory
     \<Rightarrow> stream_error + SnapshotItem list \<times> (string \<times> MemoryView) list" where
  "catalogSnapshotLocked org entries bindings sn now m =
     (let locations = view_locations org bindings sn;
          observed = map (\<lambda>e. (e, entry_observation m org sn locations now e)) entries;
          used = map (\<lambda>(e, _). resource_key (e_Namespace e) (e_WorkloadName e)) (filter (\<lambda>(_, _, u). u) observed);
          items = map (\<lambda>(e, ob, _). registered_item e ob) observed @
                  concat (map (\<lambda>(key, v). if key \<in> set used then [] else unregistered_item v) locations)
      in if length items > 1000 then Inl ErrLimit else Inr (sort_key snapshot_key items, org_views org bindings sn))"

definition catalogSnapshot ::
  "memory_ext \<Rightarrow> scope_digest \<Rightarrow> string \<Rightarrow> Entry list \<Rightarrow> Memory.Binding list \<Rightarrow> gotime \<Rightarrow> Memory
     \<Rightarrow> (stream_error + SnapshotItem list \<times> (string \<times> MemoryView) list) \<times> Memory" where
  "catalogSnapshot E dg org entries bindings now m =
     (if \<not> validID (me_uuid E) org \<or> length entries > 1000 then (Inl ErrLimit, m)
      else case snapshotLocked E dg bindings now m of
             (Inl e, m') \<Rightarrow> (Inl e, m')
           | (Inr sn, m') \<Rightarrow> (catalogSnapshotLocked org entries bindings sn now m', m'))"

text \<open>The historical catalog: the registered items, by the only installation of their application.\<close>

definition no_view :: MemoryView where
  "no_view = \<lparr>mv_Runtime = empty_Runtime, mv_Revision = [], mv_Resource = None\<rparr>"

definition registeredCatalog ::
  "memory_ext \<Rightarrow> scope_digest \<Rightarrow> string \<Rightarrow> Entry list \<Rightarrow> Memory.Binding list \<Rightarrow> gotime \<Rightarrow> Memory \<Rightarrow> (stream_error + Item list) \<times> Memory" where
  "registeredCatalog E dg org entries bindings now m =
     (if \<not> validID (me_uuid E) org \<or> length entries > 1000 then (Inl ErrLimit, m)
      else case snapshotLocked E dg bindings now m of
             (Inl e, m') \<Rightarrow> (Inl e, m')
           | (Inr sn, m') \<Rightarrow>
               (case catalogSnapshotLocked org entries bindings sn now m' of
                  Inl e \<Rightarrow> (Inl e, m')
                | Inr (items, _) \<Rightarrow>
                    (Inr (map (\<lambda>item.
                       let ids = map b_InstallationID (filter (\<lambda>b. b_OrganizationID b = org \<and> b_AppID b = e_AppID item) bindings);
                           item' = (case ids of
                                      [] \<Rightarrow> item
                                    | [i] \<Rightarrow> item\<lparr>i_Deployment := catalogObservation (the (map_of (sn_installations sn) i))\<rparr>
                                    | _ \<Rightarrow> item\<lparr>i_Deployment := catalogObservation no_view\<rparr>)
                       in ProjectManagement (m_station m') org (Item.truncate item')) (filter si_Registered items)), m')))"

section \<open>Candidates for preinstalled releases\<close>

definition unknownPreinstalled :: Observation where
  "unknownPreinstalled = \<lparr>o_UID = [], o_ManagementStatus = ''unknown'', o_Ownership = [], o_State = ''unknown'', o_Reason = ''unavailable'',
     o_ObservedAt = 0, o_Desired = None, o_Ready = None, o_Images = []\<rparr>"

definition project_view :: "string \<Rightarrow> string \<Rightarrow> Entry \<Rightarrow> MemoryView \<Rightarrow> Observation" where
  "project_view station org e v =
     (if rt_Quality (mv_Runtime v) \<noteq> ''known'' then unknownPreinstalled
      else i_Deployment (ProjectManagement station org (item_of e [] (catalogObservation v))))"

definition unmanaged_object :: "memoryCollector \<Rightarrow> Entry \<Rightarrow> memoryResource \<Rightarrow> gotime \<Rightarrow> Observation" where
  "unmanaged_object c e r now =
     (let ft = (if now < mr_healthExpires r then mr_obs r else (mr_obs r)\<lparr>ro_Health := ''not_checked''\<rparr>);
          (state, reason) = evaluate ft (e_AppID e \<in> set (col_HealthRequiredApps (mc_config c)));
          view = RuntimeView now (Some state) (Some reason) (Some (mr_received r)) (Some (mr_expires r)) False
      in if rt_Quality view \<noteq> ''known'' then unknownPreinstalled
         else (catalogObservation \<lparr>mv_Runtime = view, mv_Revision = [], mv_Resource = Some ft\<rparr>)\<lparr>o_Ownership := [], o_ManagementStatus := ''unmanaged''\<rparr>)"

definition preinstalled_position :: "Memory \<Rightarrow> Entry \<Rightarrow> bool \<Rightarrow> gotime \<Rightarrow> Observation" where
  "preinstalled_position m e canManage now =
     (case collector_for m (e_Namespace e) of
        None \<Rightarrow> unknownPreinstalled
      | Some c \<Rightarrow>
          (case map_of (mc_objects c) (resource_key (e_Namespace e) (e_WorkloadName e)) of
             None \<Rightarrow> (catalogPosition m e now)\<lparr>o_ManagementStatus := ''unknown''\<rparr>
           | Some r \<Rightarrow> if \<not> canManage \<or> \<not> unclaimed (mr_obs r) then unknownPreinstalled else unmanaged_object c e r now))"

definition preinstalledObservation ::
  "memory_ext \<Rightarrow> scope_digest \<Rightarrow> string \<Rightarrow> Entry \<Rightarrow> Memory.Binding list \<Rightarrow> bool \<Rightarrow> gotime \<Rightarrow> Memory \<Rightarrow> (stream_error + Observation) \<times> Memory" where
  "preinstalledObservation E dg org e bindings canManage now m =
     (case snapshotLocked E dg bindings now m of
        (Inl err, m') \<Rightarrow> (Inl err, m')
      | (Inr sn, m') \<Rightarrow>
          (let own = filter (\<lambda>b. b_AppID b = e_AppID e) bindings
           in if list_ex (\<lambda>b. b_OrganizationID b \<noteq> org) own \<or> length own > 1 then (Inr unknownPreinstalled, m')
              else case own of
                     [b] \<Rightarrow>
                       (let view = the (map_of (sn_installations sn) (b_InstallationID b))
                        in if mv_Resource view \<noteq> None then (Inr (project_view (m_station m') org e view), m')
                           else if rt_ReasonCode (mv_Runtime view) = ''IDENTITY_CONFLICT'' then (Inr unknownPreinstalled, m')
                           else (Inr (preinstalled_position m' e canManage now), m'))
                   | _ \<Rightarrow> (Inr (preinstalled_position m' e canManage now), m')))"

section \<open>The service\<close>

text \<open>\<open>readBindings\<close>: the installations of the station that are not removed, and one more by its id.\<close>

definition readBindings :: "string \<Rightarrow> string \<Rightarrow> station_db \<Rightarrow> state_error + Memory.Binding list" where
  "readBindings station extra db =
     (let rows = sort_key in_InstallationID
            (filter (\<lambda>i. in_StationID i = station \<and> (in_State i \<noteq> ''removed'' \<or> in_InstallationID i = extra)) (d_installations db))
      in if length rows > maxBindings then Inl (SStream ErrLimit)
         else Inr (map (\<lambda>i. \<lparr>b_InstallationID = in_InstallationID i, b_OrganizationID = in_OrganizationID i, b_AppID = in_AppID i\<rparr>) rows))"

definition may_read_state :: "memory_ext \<Rightarrow> string \<Rightarrow> IdentityContext \<Rightarrow> bool" where
  "may_read_state E station u \<longleftrightarrow> ic_StationID u = station \<and> validID (me_uuid E) (ic_StationID u) \<and> validID (me_uuid E) (ic_OrganizationID u) \<and>
     validID (me_uuid E) (ic_UserID u) \<and> ''admin'' \<in> set (ic_Roles u) \<and> ''app:read'' \<in> set (ic_Scopes u)"

definition CatalogSnapshot ::
  "memory_ext \<Rightarrow> scope_digest \<Rightarrow> string \<Rightarrow> string \<Rightarrow> Entry list \<Rightarrow> station_db \<Rightarrow> gotime \<Rightarrow> Memory
     \<Rightarrow> (state_error + SnapshotItem list \<times> (string \<times> MemoryView) list) \<times> Memory" where
  "CatalogSnapshot E dg station org entries db now m =
     (if \<not> validID (me_uuid E) station \<or> \<not> validID (me_uuid E) org then (Inl SUnavailable, m)
      else case readBindings station [] db of
             Inl e \<Rightarrow> (Inl e, m)
           | Inr bindings \<Rightarrow> apfst (map_sum SStream id) (catalogSnapshot E dg org entries bindings now m))"

text \<open>\<open>entries\<close> is \<open>None\<close> for a service without a catalog; \<open>down\<close> says whether the database fails.\<close>

definition RegisteredCatalog ::
  "memory_ext \<Rightarrow> scope_digest \<Rightarrow> string \<Rightarrow> bool \<Rightarrow> IdentityContext \<Rightarrow> Entry list option \<Rightarrow> station_db \<Rightarrow> gotime \<Rightarrow> Memory
     \<Rightarrow> (state_error + Item list) \<times> Memory" where
  "RegisteredCatalog E dg station down u entries db now m =
     (if \<not> may_read_state E station u then (Inl SDenied, m)
      else case entries of
             None \<Rightarrow> (Inl SUnavailable, m)
           | Some es \<Rightarrow>
               if down then (Inl SUnavailable, m)
               else (case readBindings station [] db of
                       Inl e \<Rightarrow> (Inl e, m)
                     | Inr bindings \<Rightarrow> apfst (map_sum SStream id) (registeredCatalog E dg (ic_OrganizationID u) es bindings now m)))"

definition PreinstalledObservation ::
  "memory_ext \<Rightarrow> scope_digest \<Rightarrow> string \<Rightarrow> IdentityContext \<Rightarrow> string \<Rightarrow> Entry list option \<Rightarrow> station_db \<Rightarrow> gotime \<Rightarrow> Memory
     \<Rightarrow> (state_error + Observation) \<times> Memory" where
  "PreinstalledObservation E dg station u app entries db now m =
     (case entries of
        None \<Rightarrow> (Inl SUnavailable, m)
      | Some es \<Rightarrow>
          if \<not> validID (me_uuid E) station \<or> \<not> may_read_state E station u then (Inl SDenied, m)
          else (case find_entry es app of
                  None \<Rightarrow> (Inr unknownPreinstalled, m)
                | Some e \<Rightarrow>
                    (case readBindings station [] db of
                       Inl err \<Rightarrow> (Inl err, m)
                     | Inr bindings \<Rightarrow>
                         apfst (map_sum SStream id)
                           (preinstalledObservation E dg (ic_OrganizationID u) e bindings (''app:manage'' \<in> set (ic_Scopes u)) now m))))"

end
