(* ===== verification/State_Catalog_Properties.thy ===== *)
theory State_Catalog_Properties
  imports State_Catalog Memory_Properties
begin

text \<open>
  What the projections of the observation memory promise: a catalog shows an organization its own
  workloads and the legacy ones registered for it, and nothing of another owner.
\<close>

section \<open>Views answer for the requested bindings\<close>

lemma views_admit_identity:
  assumes "views_admit E old bs add wanted = Some (add', wanted')"
  shows "(\<forall>k x. map_of add k = Some x \<longrightarrow> map_of add' k = Some x) \<and>
    (\<forall>k ob. map_of old k = Some ob \<longrightarrow> map_of add' k = map_of add k) \<and>
    (\<forall>b \<in> set bs. case map_of old (b_InstallationID b) of Some ob \<Rightarrow> mb_Binding ob = b | None \<Rightarrow> map_of add' (b_InstallationID b) = Some b)"
  using assms
proof (induction bs arbitrary: add wanted)
  case (Cons b bs)
  define w where "w = List.insert (b_InstallationID b) wanted"
  have same: "map_of add (b_InstallationID b) = None \<or> map_of add (b_InstallationID b) = Some b"
    using Cons.prems by (auto simp: Let_def split: if_split_asm option.split_asm)
  show ?case
  proof (cases "map_of old (b_InstallationID b)")
    case None
    define a where "a = AList.update (b_InstallationID b) b add"
    have r: "views_admit E old bs a w = Some (add', wanted')" using Cons.prems None by (auto simp: a_def w_def Let_def split: if_split_asm)
    have "map_of a k = Some x" if "map_of add k = Some x" for k x using that same by (auto simp: a_def update_conv)
    moreover have "map_of a k = map_of add k" if "map_of old k = Some ob" for k ob using that None by (auto simp: a_def update_conv)
    moreover have "map_of a (b_InstallationID b) = Some b" by (simp add: a_def update_conv)
    ultimately show ?thesis using Cons.IH [OF r] None by auto
  next
    case (Some ob)
    have "views_admit E old bs add w = Some (add', wanted')" "mb_Binding ob = b"
      using Cons.prems Some by (auto simp: w_def Let_def split: if_split_asm)
    with Cons.IH [of add w] Some show ?thesis by auto
  qed
qed simp

lemma registered_identity:
  assumes "mem_inv E m" "viewsLocked E bs now m = (Inr (views, revs), m')" "b \<in> set bs"
    and "map_of (m_bindings m') (b_InstallationID b) = Some stored"
  shows "mb_Binding stored = b"
proof -
  let ?k = "b_InstallationID b"
  obtain add wanted where adm: "views_admit E (m_bindings m) bs [] [] = Some (add, wanted)" and m': "m' = projectAll now (views_register add wanted m)"
    using assms(2) by (rule viewsLocked_ok)
  note id = views_admit_identity [OF adm]
  have "(?k, stored) \<in> set (m_bindings m')" using assms(4) by (rule map_of_SomeD)
  then obtain b0 where b0: "(?k, b0) \<in> set (m_bindings (views_register add wanted m))" "mb_Binding stored = mb_Binding b0"
    using project_bindings_set unfolding m' m_bindings_projectAll by blast
  have keys: "distinct_keys (m_bindings m)" using assms(1) by (simp add: mem_inv_def bindings_ok_def)
  have "set (kept_bindings add wanted m) \<subseteq> set (m_bindings m)" by (auto simp: kept_bindings_def)
  with fold_update_set [OF b0(1) [unfolded m_bindings_register]] consider "(?k, b0) \<in> set (m_bindings m)" | x where "(?k, x) \<in> set add" "b0 = new_binding x"
    by blast
  then show ?thesis
  proof cases
    case 1
    then have "map_of (m_bindings m) ?k = Some b0" using keys by (simp add: in_set_iff_map_of)
    with id assms(3) b0(2) show ?thesis by fastforce
  next
    case (2 x)
    have "distinct_keys add" using views_admit_props [OF adm] by simp
    then have x: "map_of add ?k = Some x" using 2 by (simp add: in_set_iff_map_of)
    then have "map_of (m_bindings m) ?k = None" using id by (cases "map_of (m_bindings m) ?k") force+
    with id assms(3) x have "x = b" by fastforce
    with 2 b0(2) show ?thesis by (simp add: new_binding_def)
  qed
qed

text \<open>
  The resource in a view is the one of the binding it was requested for: an object a collector
  of the memory reported, with the identity of the binding.
\<close>

definition observed :: "Memory \<Rightarrow> ResourceObservation \<Rightarrow> bool" where
  "observed m r \<longleftrightarrow>
     (\<exists>cid c key x. map_of (m_collectors m) cid = Some c \<and> map_of (mc_objects c) key = Some x \<and> mr_obs x = r)"

definition owned_by :: "Memory \<Rightarrow> Memory.Binding \<Rightarrow> ResourceObservation \<Rightarrow> bool" where
  "owned_by m b r \<longleftrightarrow> observed m r \<and> ro_StationID r = m_station m \<and> ro_OrganizationID r = b_OrganizationID b \<and> ro_AppID r = b_AppID b \<and>
     ro_InstallationID r = b_InstallationID b"

lemma bound_resource_owned:
  assumes "bound_resource (m_station m) (m_collectors m) b = Some x"
  shows "owned_by m (mb_Binding b) (mr_obs x)"
proof -
  obtain c where c: "map_of (m_collectors m) (mb_collector b) = Some c" "map_of (mc_objects c) (resource_key (mb_namespace b) (mb_name b)) = Some x"
    using assms by (auto simp: bound_resource_def Let_def split: option.split_asm if_split_asm)
  then have "observed m (mr_obs x)" unfolding observed_def by blast
  with assms c show ?thesis by (simp add: bound_resource_def owned_by_def Let_def split: if_split_asm)
qed

lemma snapshot_cases:
  assumes "snapshotLocked E dg bs now m = (Inr sn, m')"
  obtains views revs where "viewsLocked E bs now m = (Inr (views, revs), m')" "sn_installations sn = views"
    "sn_legacy sn = legacy_views E m' bs now"
  using assms that unfolding snapshotLocked_def by (auto simp: Let_def split: prod.split_asm sum.split_asm)

lemma view_owned:
  assumes "mem_inv E m" "snapshotLocked E dg bs now m = (Inr sn, m')" "b \<in> set bs"
    and "mv_Resource (the (map_of (sn_installations sn) (b_InstallationID b))) = Some r"
  shows "owned_by m' b r"
proof -
  obtain views revs where v: "viewsLocked E bs now m = (Inr (views, revs), m')" "sn_installations sn = views"
    using assms(2) by (rule snapshot_cases)
  obtain add wanted where views: "views = fold (\<lambda>b. AList.update (b_InstallationID b)
      (view_of m' (the (map_of (m_bindings m') (b_InstallationID b))))) bs []"
    using v(1) by (rule viewsLocked_ok)
  obtain w where w: "map_of views (b_InstallationID b) = Some w"
    unfolding views using fold_update_some [where key = b_InstallationID and bs = bs and b = b and al = "[]"] assms(3) by fast
  obtain b1 stored where st: "map_of (m_bindings m') (b_InstallationID b) = Some stored" "w = view_of m' stored"
    using views_lookup [OF v(1) w] by metis
  have same: "mb_Binding stored = b" by (rule registered_identity [OF assms(1) v(1) assms(3) st(1)])
  have "mv_Resource w = Some r" using assms(4) v(2) w by simp
  then show ?thesis
    using st(2) same by (auto simp: view_of_def split: if_split_asm dest: bound_resource_owned)
qed

section \<open>Observations in the catalog\<close>

lemma catalogObservation_none: "mv_Resource v = None \<Longrightarrow> o_UID (catalogObservation v) = []"
  by (simp add: catalogObservation_def split: prod.split)

lemma catalogObservation_some:
  "mv_Resource v = Some r \<Longrightarrow> o_UID (catalogObservation v) = ro_UID r \<and> o_Ownership (catalogObservation v) = resource_ownership r"
  by (simp add: catalogObservation_def split: prod.split)

lemma catalogPosition_anonymous: "o_UID (catalogPosition m e now) = [] \<and> o_Ownership (catalogPosition m e now) = []"
proof -
  define f where "f = (\<lambda>(k :: string, c :: memoryCollector) (ob :: Observation).
      if e_Namespace e \<notin> set (col_Namespaces (mc_config c)) then ob
      else if map_of (mc_objects c) (resource_key (e_Namespace e) (e_WorkloadName e)) \<noteq> None then ob\<lparr>o_Reason := ''unavailable''\<rparr>
      else if mc_inventoryAt c \<noteq> 0 \<and> now < mc_inventoryExpires c
           then ob\<lparr>o_State := ''not_installed'', o_Reason := ''not_found'', o_ObservedAt := mc_inventoryAt c\<rparr>
      else ob)"
  have "o_UID (f x ob) = o_UID ob \<and> o_Ownership (f x ob) = o_Ownership ob" for x :: "string \<times> memoryCollector" and ob :: Observation
    by (auto simp: f_def split: prod.split)
  then have "o_UID (fold f xs ob) = o_UID ob \<and> o_Ownership (fold f xs ob) = o_Ownership ob" for xs :: "(string \<times> memoryCollector) list" and ob :: Observation
    by (induction xs arbitrary: ob) simp_all
  then show ?thesis unfolding catalogPosition_def f_def [symmetric] Let_def by simp
qed

text \<open>The object reported at the position of a legacy binding: the registered workload, claimed by nobody.\<close>

definition legacy_object :: "Memory \<Rightarrow> legacyBinding \<Rightarrow> ResourceObservation \<Rightarrow> bool" where
  "legacy_object m l r \<longleftrightarrow>
     (\<exists>c x. collector_for m (lb_namespace l) = Some c \<and> map_of (mc_objects c) (resource_key (lb_namespace l) (lb_name l)) = Some x \<and>
        mr_obs x = r \<and> ro_UID r = lb_WorkloadUID l \<and> unclaimed r)"

lemma legacyView_resource: "mv_Resource (legacyView E m b now) = Some r \<Longrightarrow> legacy_object m b r"
  by (auto simp: legacyView_def legacy_runtime_def legacy_object_def Let_def split: option.split_asm if_split_asm prod.split_asm)

lemma legacy_views_from:
  assumes "map_of (lookup_default [] (legacy_views E m bs now) org) app = Some v"
  shows "\<exists>l \<in> set (m_legacy m). lb_OrganizationID l = org \<and> lb_AppID l = app \<and> v = legacyView E m l now"
proof -
  define f where "f = (\<lambda>b acc. if lb_AppID b \<in> set (map b_AppID bs) then acc
      else add_legacy (lb_OrganizationID b) (lb_AppID b) (legacyView E m b now) acc)"
  have "map_of (lookup_default [] (fold f ls acc) org) app = Some v \<Longrightarrow>
      map_of (lookup_default [] acc org) app = Some v \<or>
      (\<exists>l \<in> set ls. lb_OrganizationID l = org \<and> lb_AppID l = app \<and> v = legacyView E m l now)" for ls acc
  proof (induction ls arbitrary: acc)
    case (Cons l ls)
    have "map_of (lookup_default [] (f l acc) org) app = Some v \<Longrightarrow>
        map_of (lookup_default [] acc org) app = Some v \<or> lb_OrganizationID l = org \<and> lb_AppID l = app \<and> v = legacyView E m l now"
      by (auto simp: f_def add_legacy_def update_conv split: if_split_asm)
    with Cons.IH [of "f l acc"] Cons.prems show ?case by auto
  qed simp
  from this [of "m_legacy m" "[]"] assms show ?thesis unfolding legacy_views_def f_def by simp
qed

lemma view_locations_from:
  assumes "(key, v) \<in> set (view_locations org bs sn)"
  shows "\<exists>b r. b \<in> set bs \<and> b_OrganizationID b = org \<and> v = the (map_of (sn_installations sn) (b_InstallationID b)) \<and> mv_Resource v = Some r"
proof -
  define f where "f = (\<lambda>b :: Memory.Binding. \<lambda>acc. let v = the (map_of (sn_installations sn) (b_InstallationID b))
      in case mv_Resource v of None \<Rightarrow> acc | Some r \<Rightarrow> AList.update (resource_key (ro_Namespace r) (ro_Name r)) v acc)"
  have "(key, v) \<in> set (fold f xs acc) \<Longrightarrow> (key, v) \<in> set acc \<or>
      (\<exists>b r. b \<in> set xs \<and> v = the (map_of (sn_installations sn) (b_InstallationID b)) \<and> mv_Resource v = Some r)" for xs acc
  proof (induction xs arbitrary: acc)
    case (Cons b xs)
    have "(key, v) \<in> set (f b acc) \<Longrightarrow> (key, v) \<in> set acc \<or>
        (\<exists>r. v = the (map_of (sn_installations sn) (b_InstallationID b)) \<and> mv_Resource v = Some r)"
      by (auto simp: f_def Let_def split: option.split_asm dest: in_set_update)
    with Cons.IH [of "f b acc"] Cons.prems show ?case by auto
  qed simp
  from this [of "filter (\<lambda>b. b_OrganizationID b = org) bs" "[]"] assms show ?thesis unfolding view_locations_def f_def by auto
qed

section \<open>What an organization is shown\<close>

text \<open>
  The grounds on which a workload may appear in the catalog of an organization: an installation of
  that organization, whose identity an observation in the memory carries, or a legacy binding the
  operator registered for it, at whose position the memory has the registered workload with no
  claim on it; it is then shown with no ownership.
\<close>

definition own_workload :: "Memory \<Rightarrow> string \<Rightarrow> Memory.Binding list \<Rightarrow> Observation \<Rightarrow> bool" where
  "own_workload m org bs d \<longleftrightarrow>
     (\<exists>b r. b \<in> set bs \<and> b_OrganizationID b = org \<and> owned_by m b r \<and> o_UID d = ro_UID r \<and> o_Ownership d = resource_ownership r)"

definition legacy_workload :: "Memory \<Rightarrow> string \<Rightarrow> string \<Rightarrow> Observation \<Rightarrow> bool" where
  "legacy_workload m org app d \<longleftrightarrow>
     (\<exists>l \<in> set (m_legacy m). \<exists>r. lb_OrganizationID l = org \<and> lb_AppID l = app \<and> legacy_object m l r \<and> o_UID d = ro_UID r \<and> o_Ownership d = [])"

definition grounds :: "Memory \<Rightarrow> string \<Rightarrow> Memory.Binding list \<Rightarrow> string \<Rightarrow> Observation \<Rightarrow> bool" where
  "grounds m org bs app d \<longleftrightarrow> o_UID d = [] \<or> own_workload m org bs d \<or> legacy_workload m org app d"

lemma item_sel [simp]:
  "i_Deployment (registered_item e ob) = ob" "e_AppID (registered_item e ob) = e_AppID e"
  by (simp_all add: registered_item_def snapshot_of_def item_of_def Entry.defs Item.defs SnapshotItem.defs)

lemma snapshot_item_sel [simp]: "i_Deployment (snapshot_of (item_of e model ob) registered) = ob"
  by (simp add: snapshot_of_def item_of_def Entry.defs Item.defs SnapshotItem.defs)

lemma location_grounds:
  assumes "mem_inv E m" "snapshotLocked E dg bs now m = (Inr sn, m')" "(key, v) \<in> set (view_locations org bs sn)"
  shows "own_workload m' org bs (catalogObservation v)"
proof -
  obtain b r where b: "b \<in> set bs" "b_OrganizationID b = org" "v = the (map_of (sn_installations sn) (b_InstallationID b))" "mv_Resource v = Some r"
    using view_locations_from [OF assms(3)] by blast
  have "owned_by m' b r" by (rule view_owned [OF assms(1,2) b(1)]) (use b in simp)
  with b catalogObservation_some [OF b(4)] show ?thesis unfolding own_workload_def by blast
qed

lemma legacy_grounds:
  assumes "map_of (lookup_default [] (legacy_views E m bs now) org) app = Some v"
  shows "grounds m org bs app ((catalogObservation v)\<lparr>o_Ownership := []\<rparr>)"
proof -
  obtain l where l: "l \<in> set (m_legacy m)" "lb_OrganizationID l = org" "lb_AppID l = app" "v = legacyView E m l now"
    using legacy_views_from [OF assms] by blast
  show ?thesis
  proof (cases "mv_Resource v")
    case None
    then show ?thesis by (simp add: grounds_def catalogObservation_none)
  next
    case (Some r)
    with legacyView_resource [of E m l now r] l catalogObservation_some [OF Some] show ?thesis
      by (auto simp: grounds_def legacy_workload_def)
  qed
qed

lemma entry_grounds:
  assumes "mem_inv E m" "snapshotLocked E dg bs now m = (Inr sn, m')"
  shows "grounds m' org bs (e_AppID e) (fst (entry_observation m' org sn (view_locations org bs sn) now e))"
proof -
  have legacy: "sn_legacy sn = legacy_views E m' bs now" using assms(2) by (rule snapshot_cases)
  have pos: "grounds m' org bs (e_AppID e) (catalogPosition m' e now)" using catalogPosition_anonymous [of m' e now] by (simp add: grounds_def)
  have leg: "grounds m' org bs (e_AppID e) ((catalogObservation v)\<lparr>o_Ownership := []\<rparr>)"
    if "map_of (lookup_default [] (sn_legacy sn) org) (e_AppID e) = Some v" for v
    using legacy_grounds that legacy by simp
  have own: "grounds m' org bs (e_AppID e) (catalogObservation v)"
    if "map_of (view_locations org bs sn) (resource_key (e_Namespace e) (e_WorkloadName e)) = Some v" for v
    using location_grounds [OF assms map_of_SomeD [OF that]] by (simp add: grounds_def)
  show ?thesis unfolding entry_observation_def using pos leg own by (simp split: option.split)
qed

lemma catalogSnapshot_cases:
  assumes "catalogSnapshot E dg org entries bs now m = (Inr (items, views), m')"
  obtains sn where "snapshotLocked E dg bs now m = (Inr sn, m')" "catalogSnapshotLocked org entries bs sn now m' = Inr (items, views)"
  using assms that unfolding catalogSnapshot_def by (auto split: if_split_asm prod.split_asm sum.split_asm)

lemma catalog_items_grounded:
  assumes "mem_inv E m" "catalogSnapshot E dg org entries bs now m = (Inr (items, views), m')" "item \<in> set items"
  shows "grounds m' org bs (e_AppID item) (i_Deployment item)"
  using assms(2)
proof (cases rule: catalogSnapshot_cases)
  case (1 sn)
  define locs where "locs = view_locations org bs sn"
  have "(\<exists>e. item = registered_item e (fst (entry_observation m' org sn locs now e))) \<or>
      (\<exists>key v. (key, v) \<in> set locs \<and> item \<in> set (unregistered_item v))"
    using 1(2) assms(3) unfolding catalogSnapshotLocked_def locs_def [symmetric] Let_def by (auto simp: split_beta split: if_split_asm)
  then show ?thesis
  proof (elim disjE exE conjE)
    fix e assume "item = registered_item e (fst (entry_observation m' org sn locs now e))"
    then show ?thesis using entry_grounds [OF assms(1) 1(1), of org e] by (simp add: locs_def)
  next
    fix key v assume v: "(key, v) \<in> set locs" "item \<in> set (unregistered_item v)"
    then have "i_Deployment item = catalogObservation v" by (auto simp: unregistered_item_def split: option.split_asm)
    with location_grounds [OF assms(1) 1(1) v(1) [unfolded locs_def]] show ?thesis by (simp add: grounds_def)
  qed
qed

lemma catalog_views_owned:
  assumes "mem_inv E m" "catalogSnapshot E dg org entries bs now m = (Inr (items, views), m')" "map_of views i = Some v"
  shows "\<exists>b \<in> set bs. b_InstallationID b = i \<and> b_OrganizationID b = org \<and> (\<forall>r. mv_Resource v = Some r \<longrightarrow> owned_by m' b r)"
  using assms(2)
proof (cases rule: catalogSnapshot_cases)
  case (1 sn)
  have "views = org_views org bs sn" using 1(2) by (auto simp: catalogSnapshotLocked_def Let_def split: if_split_asm)
  with assms(3) fold_update_lookup [where key = b_InstallationID and al = "[]" and bs = "filter (\<lambda>b. b_OrganizationID b = org) bs"]
  obtain b where "b \<in> set bs" "b_OrganizationID b = org" "b_InstallationID b = i" "v = the (map_of (sn_installations sn) (b_InstallationID b))"
    unfolding org_views_def by fastforce
  with view_owned [OF assms(1) 1(1), of b] show ?thesis by auto
qed

text \<open>
  The catalog an organization is shown never discloses a workload of another owner: an item
  that carries the identity of a workload rests on an installation of that organization, and then
  carries exactly the ownership of that installation on this station, or on a legacy binding the
  operator registered for that organization and application, and then carries no ownership. The
  views that come with it are those of the organization's own installations, and a resource in one
  is owned by that installation.
\<close>

theorem catalog_shows_own_workloads:
  assumes "mem_inv E m" "catalogSnapshot E dg org entries bs now m = (Inr (items, views), m')"
  shows "(\<forall>item \<in> set items. grounds m' org bs (e_AppID item) (i_Deployment item)) \<and>
    (\<forall>i v. map_of views i = Some v \<longrightarrow>
       (\<exists>b \<in> set bs. b_InstallationID b = i \<and> b_OrganizationID b = org \<and> (\<forall>r. mv_Resource v = Some r \<longrightarrow> owned_by m' b r)))"
  using catalog_items_grounded [OF assms] catalog_views_owned [OF assms] by blast

section \<open>Candidates for adoption\<close>

lemma ProjectManagement_keeps:
  "o_UID (i_Deployment (ProjectManagement st org i)) = o_UID (i_Deployment i) \<and>
   o_Ownership (i_Deployment (ProjectManagement st org i)) = o_Ownership (i_Deployment i)"
  by (simp add: ProjectManagement_def Let_def)

lemma item_of_deployment [simp]: "i_Deployment (item_of e model ob) = ob"
  by (simp add: item_of_def Entry.defs Item.defs)

lemma project_view_shown:
  "o_UID (project_view st org e v) \<noteq> [] \<Longrightarrow> \<exists>r. mv_Resource v = Some r \<and> o_UID (project_view st org e v) = ro_UID r \<and>
     o_Ownership (project_view st org e v) = resource_ownership r"
  using ProjectManagement_keeps [of st org "item_of e [] (catalogObservation v)"] catalogObservation_none [of v] catalogObservation_some [of v]
  by (cases "mv_Resource v") (auto simp: project_view_def unknownPreinstalled_def split: if_split_asm)

text \<open>A workload nobody claims at the position the catalog gives the application.\<close>

definition adoptable :: "Memory \<Rightarrow> Entry \<Rightarrow> Observation \<Rightarrow> bool" where
  "adoptable m e d \<longleftrightarrow>
     (\<exists>c r. collector_for m (e_Namespace e) = Some c \<and> map_of (mc_objects c) (resource_key (e_Namespace e) (e_WorkloadName e)) = Some r \<and>
        unclaimed (mr_obs r) \<and> o_UID d = ro_UID (mr_obs r) \<and> o_Ownership d = [] \<and> o_ManagementStatus d = ''unmanaged'')"

lemma unmanaged_shown:
  assumes "o_UID (unmanaged_object c e r now) \<noteq> []"
  shows "o_UID (unmanaged_object c e r now) = ro_UID (mr_obs r) \<and> o_Ownership (unmanaged_object c e r now) = [] \<and>
    o_ManagementStatus (unmanaged_object c e r now) = ''unmanaged''"
  using assms
  by (auto simp: unmanaged_object_def unknownPreinstalled_def catalogObservation_def Let_def split: prod.split_asm if_split_asm prod.split)

lemma position_shown:
  assumes "o_UID (preinstalled_position m e canManage now) \<noteq> []"
  shows "canManage \<and> adoptable m e (preinstalled_position m e canManage now)"
proof -
  have "o_UID ((catalogPosition m e now)\<lparr>o_ManagementStatus := ''unknown''\<rparr>) = []" using catalogPosition_anonymous [of m e now] by simp
  with assms obtain c r where c: "collector_for m (e_Namespace e) = Some c"
      "map_of (mc_objects c) (resource_key (e_Namespace e) (e_WorkloadName e)) = Some r" "canManage" "unclaimed (mr_obs r)"
      "preinstalled_position m e canManage now = unmanaged_object c e r now"
    by (auto simp: preinstalled_position_def unknownPreinstalled_def split: option.split_asm if_split_asm)
  with unmanaged_shown [of c e r now] assms show ?thesis unfolding adoptable_def by auto
qed

text \<open>
  C32. A workload is offered for a preinstalled release only in two cases: it is the workload of
  the organization's single installation of the application, or a workload at the trusted position
  that nobody claims, and then only to a user who may manage applications and marked as unmanaged.
  As soon as another organization has the application nothing is disclosed.
\<close>

theorem preinstalled_candidate_safe:
  assumes "mem_inv E m" "preinstalledObservation E dg org e bs canManage now m = (Inr d, m')" "o_UID d \<noteq> []"
  shows "(\<forall>b \<in> set bs. b_AppID b = e_AppID e \<longrightarrow> b_OrganizationID b = org) \<and>
    (own_workload m' org bs d \<or> canManage \<and> adoptable m' e d)"
proof -
  define own where "own = filter (\<lambda>b. b_AppID b = e_AppID e) bs"
  obtain sn where sn: "snapshotLocked E dg bs now m = (Inr sn, m')"
    using assms(2) unfolding preinstalledObservation_def
    by (auto simp: Let_def split: prod.split_asm sum.split_asm if_split_asm list.split_asm)
  have unknown: "d \<noteq> unknownPreinstalled" using assms(3) by (auto simp: unknownPreinstalled_def)
  have none: "\<not> list_ex (\<lambda>b. b_OrganizationID b \<noteq> org) own"
    using assms(2) unknown unfolding preinstalledObservation_def sn own_def [symmetric] by (auto simp: Let_def split: if_split_asm)
  consider (view) b where "own = [b]" "d = project_view (m_station m') org e (the (map_of (sn_installations sn) (b_InstallationID b)))"
    | (position) "d = preinstalled_position m' e canManage now"
    using assms(2) unknown unfolding preinstalledObservation_def sn own_def [symmetric]
    by (auto simp: Let_def split: if_split_asm list.split_asm)
  then have "own_workload m' org bs d \<or> canManage \<and> adoptable m' e d"
  proof cases
    case (view b)
    have b: "b \<in> set bs" "b_OrganizationID b = org" using view(1) none by (auto simp: own_def filter_eq_Cons_iff)
    obtain r where r: "mv_Resource (the (map_of (sn_installations sn) (b_InstallationID b))) = Some r" "o_UID d = ro_UID r" "o_Ownership d = resource_ownership r"
      using project_view_shown assms(3) view(2) by blast
    with b view_owned [OF assms(1) sn b(1) r(1)] show ?thesis unfolding own_workload_def by blast
  next
    case position
    with position_shown [of m' e canManage now] assms(3) show ?thesis by blast
  qed
  with none show ?thesis by (auto simp: own_def list_ex_iff)
qed

section \<open>Legacy bindings\<close>

definition position_of :: "legacyBinding \<Rightarrow> string" where
  "position_of b = lb_namespace b @ ''/'' @ lb_name b"

text \<open>A registered legacy binding: its key stands for the position and the workload it was given.\<close>

definition anchored :: "memory_ext \<Rightarrow> string \<Rightarrow> Entry list \<Rightarrow> legacyBinding \<Rightarrow> bool" where
  "anchored E station entries b \<longleftrightarrow> lb_BindingID b \<noteq> [] \<and> lb_StationID b = station \<and> validID (me_uuid E) (lb_OrganizationID b) \<and>
     validID (me_uuid E) (lb_WorkloadUID b) \<and> dns (lb_namespace b) \<and> dns (lb_name b) \<and>
     lb_ObservationKey b = obs_digest E (lb_namespace b) (lb_name b) (lb_WorkloadUID b) \<and> (\<exists>e. find_entry entries (lb_AppID b) = Some e)"

lemma legacy_loop_anchored:
  assumes "legacy_loop E station entries ids apps positions uids bs = Some out"
  shows "list_all (anchored E station entries) out \<and>
    distinct (map lb_AppID out) \<and> distinct (map lb_BindingID out) \<and> distinct (map position_of out) \<and> distinct (map lb_WorkloadUID out) \<and>
    lb_BindingID ` set out \<inter> set ids = {} \<and> lb_AppID ` set out \<inter> set apps = {} \<and> position_of ` set out \<inter> set positions = {} \<and>
    lb_WorkloadUID ` set out \<inter> set uids = {}"
  using assms
proof (induction bs arbitrary: ids apps positions uids out)
  case (Cons b bs)
  obtain e where e: "find_entry entries (lb_AppID b) = Some e" using Cons.prems by (auto split: option.split_asm)
  define pos where "pos = legacy_position E e b"
  define c where "c = b\<lparr>lb_namespace := fst pos, lb_name := snd pos\<rparr>"
  obtain rest where new: "lb_BindingID b \<notin> set ids" "lb_AppID b \<notin> set apps" "fst pos @ ''/'' @ snd pos \<notin> set positions" "lb_WorkloadUID b \<notin> set uids"
      "legacy_valid E station pos b" and out: "out = c # rest"
      and rest: "legacy_loop E station entries (lb_BindingID b # ids) (lb_AppID b # apps) ((fst pos @ ''/'' @ snd pos) # positions) (lb_WorkloadUID b # uids) bs = Some rest"
    using Cons.prems e by (auto simp: Let_def pos_def [symmetric] c_def split: if_split_asm)
  have c: "lb_BindingID c = lb_BindingID b" "lb_AppID c = lb_AppID b" "position_of c = fst pos @ ''/'' @ snd pos" "lb_WorkloadUID c = lb_WorkloadUID b"
    by (simp_all add: c_def position_of_def)
  have "anchored E station entries c" using new(5) e by (simp add: anchored_def legacy_valid_def c_def)
  with Cons.IH [OF rest] new(1-4) c show ?case by (auto simp: out)
qed simp

lemma legacy_loop_apps: "legacy_loop E station entries ids apps positions uids bs = Some out \<Longrightarrow> map lb_AppID out = map lb_AppID bs"
  by (induction bs arbitrary: ids apps positions uids out) (auto simp: Let_def split: option.split_asm if_split_asm)

text \<open>
  The legacy registry the operator supplies is accepted as a whole or not at all, and an
  accepted one is unambiguous: no two bindings share an id, an application, a position or a
  workload, every binding is for this station and a registered application, and its key is the
  digest of exactly the position and the workload it will be matched against.
\<close>

theorem legacy_registry_unambiguous:
  assumes "validateLegacy E station bs entries = Some out"
  shows "list_all (anchored E station entries) out \<and> distinct (map lb_AppID out) \<and> distinct (map lb_BindingID out) \<and> distinct (map position_of out) \<and>
    distinct (map lb_WorkloadUID out) \<and> sorted (map lb_AppID out) \<and> lb_AppID ` set out = lb_AppID ` set bs"
proof -
  obtain xs where loop: "legacy_loop E station entries [] [] [] [] bs = Some xs" and out: "out = sort_key lb_AppID xs"
    using assms by (auto simp: validateLegacy_def split: if_split_asm)
  note all = legacy_loop_anchored [OF loop]
  have "distinct (map f out) = distinct (map f xs)" for f :: "legacyBinding \<Rightarrow> string" by (simp add: out distinct_map)
  moreover have "lb_AppID ` set out = lb_AppID ` set bs" using legacy_loop_apps [OF loop] out by (metis list.set_map set_sort)
  ultimately show ?thesis using all by (simp only: out) (simp add: list_all_iff)
qed

section \<open>Concrete inputs\<close>

definition demo_app_entry :: Entry where
  "demo_app_entry = (bare_entry demo_obs)\<lparr>e_DisplayName := ''A''\<rparr>"

lemma Inr_result: "(case fst r of Inl _ \<Rightarrow> False | Inr x \<Rightarrow> P x) \<Longrightarrow> \<exists>x. r = (Inr x, snd r) \<and> P x"
  by (cases r) (auto split: sum.split_asm)

theorem preinstalled_candidate_safe_witness:
  "\<exists>d m'. preinstalledObservation demo_ext (\<lambda>_ _. ''d'') ''o'' demo_app_entry [demo_binding] True 5 demo_synced = (Inr d, m') \<and> o_UID d = ''u'' \<and>
     (own_workload m' ''o'' [demo_binding] d \<or> adoptable m' demo_app_entry d)"
proof -
  define r where "r = preinstalledObservation demo_ext (\<lambda>_ _. ''d'') ''o'' demo_app_entry [demo_binding] True 5 demo_synced"
  have "case fst r of Inl _ \<Rightarrow> False | Inr d \<Rightarrow> o_UID d = ''u''" unfolding r_def by code_simp
  from Inr_result [OF this] obtain d where d: "r = (Inr d, snd r)" "o_UID d = ''u''" by blast
  from preinstalled_candidate_safe [OF demo_inv(3) d(1) [unfolded r_def]] d show ?thesis unfolding r_def by auto
qed

end
