(* ===== verification/App_Center.thy ===== *)
theory App_Center
  imports App_Admission State_Catalog App_Operations
begin

text \<open>
  The AppCenter listing (\<open>AppCenterFacts\<close> of \<^verbatim>\<open>internal/operations/appcenter.go\<close>): installations,
  operations and foreign owners read from one snapshot of the database, joined with the catalog of
  the observation memory, projected to cards and completed by the candidates of the admission.
  With it the inventory of a preinstalled application (\<open>PreinstalledInventory\<close> of
  \<^verbatim>\<open>internal/operations/preinstalled.go\<close>), which joins the history of installations with what the
  memory observes.
\<close>

section \<open>What is read from the database\<close>

definition installation_records :: "string \<Rightarrow> string \<Rightarrow> station_db \<Rightarrow> Record list" where
  "installation_records station org db =
     map (\<lambda>i. \<lparr>fi_InstallationID = in_InstallationID i, fi_Revision = in_Revision i, fi_AppVersion = in_AppVersion i, fi_State = in_State i,
                fi_LastOperationID = Text (in_LastOperationID i), rc_AppID = in_AppID i\<rparr>)
       (take 1001 (sort_key in_InstallationID
          (filter (\<lambda>i. in_StationID i = station \<and> in_OrganizationID i = org \<and> in_State i \<noteq> ''removed'') (d_installations db))))"

definition last_operations :: "string \<Rightarrow> string \<Rightarrow> station_db \<Rightarrow> string list" where
  "last_operations station org db =
     map in_LastOperationID (filter (\<lambda>i. in_StationID i = station \<and> in_OrganizationID i = org \<and> in_State i \<noteq> ''removed'') (d_installations db))"

definition operation_records :: "string \<Rightarrow> string \<Rightarrow> string \<Rightarrow> station_db \<Rightarrow> OperationRecord list" where
  "operation_records station user org db =
     (let lifecycle = map (\<lambda>x. \<lparr>or_AppID = op_app x, or_OperationID = op_ID x, or_UserID = op_user x, or_OrganizationID = op_org x,
              or_Protocol = ''lifecycle'', or_Status = op_status x, or_Phase = op_phase x, or_UpdatedAt = op_updated x\<rparr>)
            (filter (\<lambda>x. op_station x = station \<and> (active_op x \<or> op_user x = user \<and> op_org x = org \<and> op_ID x \<in> set (last_operations station org db)))
               (d_operations db));
          transitions = map (\<lambda>t. \<lparr>or_AppID = tw_app t, or_OperationID = tr_OperationID t, or_UserID = tw_user t, or_OrganizationID = tw_org t,
              or_Protocol = ''transition'', or_Status = tr_Status t, or_Phase = tr_Phase t, or_UpdatedAt = tr_UpdatedAt t\<rparr>)
            (filter (\<lambda>t. tw_station t = station \<and> active_row t) (d_transitions db))
      in take 1001 (sort_key (\<lambda>r. (or_AppID r, or_OperationID r)) (lifecycle @ transitions)))"

definition foreign_apps :: "string \<Rightarrow> string \<Rightarrow> station_db \<Rightarrow> string list" where
  "foreign_apps station org db =
     remdups (map in_AppID (take 1001
       (filter (\<lambda>i. in_StationID i = station \<and> in_OrganizationID i \<noteq> org \<and> in_State i \<noteq> ''removed'') (d_installations db))))"

section \<open>The listing\<close>

definition view_service :: "digests \<Rightarrow> MemoryView \<Rightarrow> Service" where
  "view_service dg v =
     (let r = mv_Runtime v;
          base = \<lparr>sv_Quality = rt_Quality r, sv_State = rt_State r, sv_ObservedAt = rt_ObservedAt r, sv_ReasonCode = Text (rt_ReasonCode r),
                  sv_ObservationKey = None, sv_WorkloadUID = None\<rparr>
      in case mv_Resource v of
           None \<Rightarrow> base
         | Some ob \<Rightarrow> base\<lparr>sv_WorkloadUID := Text (ro_UID ob),
                        sv_ObservationKey := Text (''obs:'' @ drop 7 (dg_strings dg [ro_Namespace ob, ro_Name ob, ro_UID ob]))\<rparr>)"

text \<open>
  The environment of a listing: the libraries of the memory, the digests, the admission with its
  source, the catalog, whether the database fails at the start or at the end, and the clocks.
  The station of the observation service may differ from the service's own.
\<close>

record listing_env =
  le_ext :: memory_ext
  le_scope :: scope_digest
  le_digests :: digests
  le_admission :: admission_env
  le_source :: "AppCenterAdmissionSource option"
  le_stateStation :: string
  le_down :: bool
  le_commitFails :: bool
  le_now :: gotime
  le_clock :: "nat \<Rightarrow> gotime"

definition AppCenterFacts ::
  "listing_env \<Rightarrow> ops_service \<Rightarrow> IdentityContext \<Rightarrow> string \<Rightarrow> station_db \<Rightarrow> market option \<Rightarrow> Memory
     \<Rightarrow> (facts_error + Facts) \<times> market option \<times> Memory" where
  "AppCenterFacts env s user requestID db catalog m =
     (if \<not> canReadInstallations s user then (Inl FDenied, catalog, m)
      else case catalog of
             None \<Rightarrow> (Inl FUnavailable, catalog, m)
           | Some mk \<Rightarrow>
               if le_down env then (Inl FUnavailable, catalog, m)
               else (let station = os_StationID s; org = ic_OrganizationID user;
                         installations = installation_records station org db;
                         operations = operation_records station (ic_UserID user) org db;
                         foreign = (if le_source env = None then [] else foreign_apps station org db)
                     in if length installations > 1000 then (Inl FLimit, catalog, m)
                        else if length operations > 1000 then (Inl FLimit, catalog, m)
                        else if length foreign > 1000 then (Inl FLimit, catalog, m)
                        else if le_stateStation env \<noteq> station then (Inl FUnavailable, catalog, m)
                        else (case CatalogSnapshot (le_ext env) (le_scope env) station org (mk_entries mk) db (le_now env) m of
                                (Inl _, m') \<Rightarrow> (Inl FUnavailable, catalog, m')
                              | (Inr (items, views), m') \<Rightarrow>
                                  if le_commitFails env then (Inl FUnavailable, catalog, m')
                                  else (case BuildState (le_digests env) user requestID (le_now env) items installations operations
                                               (map_of (map_vals (view_service (le_digests env)) views)) of
                                          Inl e \<Rightarrow> (Inl e, catalog, m')
                                        | Inr facts \<Rightarrow>
                                            (case project_facts (le_admission env) (le_digests env) (le_source env) user foreign (le_clock env) facts catalog of
                                               (facts', catalog') \<Rightarrow> (Inr facts', catalog', m'))))))"

section \<open>The inventory of a preinstalled application\<close>

record PreinstalledInventory =
  pi_AppID :: string
  pi_Revision :: string
  pi_Complete :: bool
  pi_WorkloadUID :: string
  pi_ManagementStatus :: string
  pi_ObservedAt :: gotime
  pi_History :: "InstallationHistory list"

text \<open>\<^verbatim>\<open>^[a-z0-9][a-z0-9-]{0,62}$\<close>.\<close>

definition preinstalledApp :: "string \<Rightarrow> bool" where
  "preinstalledApp s = (case s of [] \<Rightarrow> False
     | c # cs \<Rightarrow> is_lower_digit c \<and> length cs \<le> 62 \<and> list_all (\<lambda>c. is_lower_digit c \<or> c = CHR ''-'') cs)"

datatype inventory_error = IDenied | IInvalid | IUnavailable | IHistory op_error | IState state_error | ICommit

text \<open>\<open>entries\<close> are those of the catalog of the observation service; the end of the read-only transaction may fail.\<close>

definition Service_PreinstalledInventory ::
  "listing_env \<Rightarrow> ops_service \<Rightarrow> IdentityContext \<Rightarrow> string \<Rightarrow> Entry list option \<Rightarrow> station_db \<Rightarrow> Memory
     \<Rightarrow> (inventory_error + PreinstalledInventory) \<times> Memory" where
  "Service_PreinstalledInventory env s u app entries db m =
     (if \<not> canReadInstallations s u then (Inl IDenied, m)
      else if \<not> preinstalledApp app then (Inl IInvalid, m)
      else if le_down env then (Inl IUnavailable, m)
      else (case readPreinstalledHistory db (os_StationID s) (ic_OrganizationID u) app of
              Inl e \<Rightarrow> (Inl (IHistory e), m)
            | Inr items \<Rightarrow>
                (case PreinstalledObservation (le_ext env) (le_scope env) (le_stateStation env) u app entries db (le_now env) m of
                   (Inl e, m') \<Rightarrow> (Inl (IState e), m')
                 | (Inr ob, m') \<Rightarrow>
                     if le_commitFails env then (Inl ICommit, m')
                     else (Inr \<lparr>pi_AppID = app, pi_Revision = inventoryRevision s items,
                                pi_Complete = (o_State ob \<noteq> ''unknown'' \<and> (o_State ob = ''not_installed'' \<or> o_UID ob \<noteq> [])),
                                pi_WorkloadUID = o_UID ob, pi_ManagementStatus = o_ManagementStatus ob, pi_ObservedAt = o_ObservedAt ob,
                                pi_History = items\<rparr>, m'))))"

end
