(* ===== verification/App_Center_Properties.thy ===== *)
theory App_Center_Properties
  imports App_Center State_Catalog_Properties App_Facts_Properties App_Admission_Properties
begin

text \<open>
  The listing as a whole: what the database, the observation memory, the catalog and the admission
  contribute to the cards of a user.
\<close>

section \<open>The candidates change nothing but the lifecycle\<close>

lemma projectCandidate_service: "fa_Service (fst (projectCandidate env s actor foreign now ft catalog)) = fa_Service ft"
  by (auto simp: projectCandidate_def Let_def split: prod.split)

lemma project_items_services:
  "map fa_Service (fst (project_items env s actor foreign zs catalog)) = map (\<lambda>z. fa_Service (fst z)) zs"
proof (induction zs arbitrary: catalog)
  case (Cons z zs)
  obtain ft now where z: "z = (ft, now)" by fastforce
  obtain ft' c1 where p: "projectCandidate env s actor (fa_AppID ft \<in> set foreign) now ft catalog = (ft', c1)" by fastforce
  have "fa_Service ft' = fa_Service ft" using projectCandidate_service [of env s actor _ now ft catalog] p by (metis fst_conv)
  moreover obtain fs c2 where q: "project_items env s actor foreign zs c1 = (fs, c2)" by fastforce
  ultimately show ?case using Cons.IH [of c1] p z by simp
qed simp

lemma project_facts_services: "map fa_Service (fs_Items (fst (project_facts env dg source actor foreign clock f catalog))) = map fa_Service (fs_Items f)"
proof (cases source)
  case (Some s)
  define zs where "zs = zip (fs_Items f) (map clock [0..<length (fs_Items f)])"
  have "map (\<lambda>z. fa_Service (fst z)) zs = map fa_Service (map fst zs)" by simp
  also have "map fst zs = fs_Items f" by (simp add: zs_def)
  finally have "map fa_Service (fst (project_items env s actor foreign zs catalog)) = map fa_Service (fs_Items f)"
    by (simp only: project_items_services)
  moreover obtain fs c where "project_items env s actor foreign zs catalog = (fs, c)" by fastforce
  ultimately show ?thesis using Some by (simp add: project_facts_def zs_def [symmetric] RecomputeRevision_def Let_def)
qed (simp add: project_facts_def)

section \<open>The services of the cards\<close>

text \<open>The identity of a workload on a card is that of a view or of a catalog item.\<close>

lemma card_workload:
  assumes "buildFacts dg user request now sources installations ops (Some f) = Inr facts" "ft \<in> set (fs_Items facts)"
    "sv_WorkloadUID (fa_Service ft) = Some uid"
  shows "(\<exists>i sv. f i = Some sv \<and> sv_WorkloadUID sv = Some uid) \<or> (\<exists>source \<in> set sources. o_UID (i_Deployment source) = uid \<and> uid \<noteq> [])"
proof -
  obtain y where y: "ft = y\<lparr>fa_Lifecycle := lifecycle_of dg user y\<rparr>"
      "(\<exists>r. y = fst (installation_fact dg user sources ops (Some f) (installedApps installations (rc_AppID r)) r)) \<or>
       (\<exists>source \<in> set sources. y = catalog_fact dg user ops (si_Registered source) (scopedItem user (Item.truncate source)))"
    using assms(1,2) by (rule buildFacts_item)
  have uid: "sv_WorkloadUID (fa_Service y) = Some uid" using assms(3) y(1) by simp
  from y(2) show ?thesis
  proof (elim disjE exE bexE)
    fix r assume r: "y = fst (installation_fact dg user sources ops (Some f) (installedApps installations (rc_AppID r)) r)"
    then show ?thesis using uid
      by (auto simp: installation_fact_def installation_service_def Let_def split: if_split_asm option.split_asm)
  next
    fix source assume source: "source \<in> set sources" "y = catalog_fact dg user ops (si_Registered source) (scopedItem user (Item.truncate source))"
    then show ?thesis using uid by (auto simp: catalog_fact_def Text_def Let_def split: if_split_asm)
  qed
qed

lemma view_service_workload: "sv_WorkloadUID (view_service dg v) = Some uid \<Longrightarrow> \<exists>r. mv_Resource v = Some r \<and> ro_UID r = uid"
  by (auto simp: view_service_def Text_def Let_def split: option.split_asm if_split_asm)

section \<open>The listing\<close>

text \<open>
  An installation of the user's organization on this station whose workload is in the memory, and a
  legacy binding of the organization with its workload in the memory.
\<close>

definition own_row :: "ops_service \<Rightarrow> IdentityContext \<Rightarrow> station_db \<Rightarrow> Memory \<Rightarrow> string \<Rightarrow> bool" where
  "own_row s user db m uid \<longleftrightarrow>
     (\<exists>(i :: Ops_Types.Installation) \<in> set (d_installations db). \<exists>r :: ResourceObservation. observed m r \<and> in_StationID i = os_StationID s \<and> in_OrganizationID i = ic_OrganizationID user \<and>
        ro_UID r = uid \<and> ro_StationID r = m_station m \<and> ro_OrganizationID r = ic_OrganizationID user \<and> ro_AppID r = in_AppID i \<and>
        ro_InstallationID r = in_InstallationID i)"

definition own_legacy :: "IdentityContext \<Rightarrow> Memory \<Rightarrow> string \<Rightarrow> bool" where
  "own_legacy user m uid \<longleftrightarrow> (\<exists>l \<in> set (m_legacy m). \<exists>r. lb_OrganizationID l = ic_OrganizationID user \<and> legacy_object m l r \<and> ro_UID r = uid)"

lemma readBindings_rows:
  assumes "readBindings station extra db = Inr bs" "b \<in> set bs"
  shows "\<exists>i \<in> set (d_installations db). in_StationID i = station \<and> in_OrganizationID i = b_OrganizationID b \<and> in_AppID i = b_AppID b \<and>
    in_InstallationID i = b_InstallationID b"
proof -
  have "b \<in> (\<lambda>i. \<lparr>b_InstallationID = in_InstallationID i, b_OrganizationID = in_OrganizationID i, b_AppID = in_AppID i\<rparr>) `
      {i \<in> set (d_installations db). in_StationID i = station}"
    using assms by (auto simp: readBindings_def Let_def split: if_split_asm)
  then show ?thesis by auto
qed

lemma map_sum_Inr: "map_sum f id x = Inr y \<Longrightarrow> x = Inr y"
  by (cases x) simp_all

lemma owned_row:
  assumes "readBindings (os_StationID s) extra db = Inr bs" "b \<in> set bs" "b_OrganizationID b = ic_OrganizationID user" "owned_by m b r" "ro_UID r = uid"
  shows "own_row s user db m uid"
proof -
  obtain i where i: "i \<in> set (d_installations db)" "in_StationID i = os_StationID s" "in_OrganizationID i = b_OrganizationID b" "in_AppID i = b_AppID b"
      "in_InstallationID i = b_InstallationID b"
    using readBindings_rows [OF assms(1,2)] by blast
  show ?thesis unfolding own_row_def
    by (rule bexI [OF _ i(1)], rule exI [of _ r]) (use i assms in \<open>simp add: owned_by_def\<close>)
qed

lemma AppCenterFacts_cases:
  assumes "AppCenterFacts env s user request db catalog m = (Inr facts, catalog', m')"
  obtains mk items views base foreign bs where "catalog = Some mk" "readBindings (os_StationID s) [] db = Inr bs"
    "catalogSnapshot (le_ext env) (le_scope env) (ic_OrganizationID user) (mk_entries mk) bs (le_now env) m = (Inr (items, views), m')"
    "buildFacts (le_digests env) user request (le_now env) items (installation_records (os_StationID s) (ic_OrganizationID user) db)
       (operation_records (os_StationID s) (ic_UserID user) (ic_OrganizationID user) db) (Some (map_of (map_vals (view_service (le_digests env)) views))) = Inr base"
    "facts = fst (project_facts (le_admission env) (le_digests env) (le_source env) user foreign (le_clock env) base catalog)"
    "canReadInstallations s user"
proof -
  have ok: "canReadInstallations s user" using assms by (auto simp: AppCenterFacts_def split: if_split_asm)
  define st where "st = os_StationID s" define og where "og = ic_OrganizationID user"
  define foreign where "foreign = (if le_source env = None then [] else foreign_apps st og db)"
  obtain mk where mk: "catalog = Some mk" using assms ok by (auto simp: AppCenterFacts_def split: if_split_asm option.split_asm)
  obtain items views where snap: "CatalogSnapshot (le_ext env) (le_scope env) st og (mk_entries mk) db (le_now env) m = (Inr (items, views), m')"
      and rest: "(case BuildState (le_digests env) user request (le_now env) items (installation_records st og db)
          (operation_records st (ic_UserID user) og db) (map_of (map_vals (view_service (le_digests env)) views)) of
            Inl e \<Rightarrow> (Inl e, catalog, m')
          | Inr f \<Rightarrow> (case project_facts (le_admission env) (le_digests env) (le_source env) user foreign (le_clock env) f catalog of
                         (f', c') \<Rightarrow> (Inr f', c', m'))) = (Inr facts, catalog', m')"
    using assms ok unfolding AppCenterFacts_def mk Let_def st_def [symmetric] og_def [symmetric] foreign_def [symmetric]
    by (auto split: if_split_asm prod.split_asm sum.split_asm)
  obtain base where base: "BuildState (le_digests env) user request (le_now env) items (installation_records st og db)
      (operation_records st (ic_UserID user) og db) (map_of (map_vals (view_service (le_digests env)) views)) = Inr base"
      "facts = fst (project_facts (le_admission env) (le_digests env) (le_source env) user foreign (le_clock env) base catalog)"
    using rest by (auto split: sum.split_asm prod.split_asm)
  obtain bs where "readBindings st [] db = Inr bs" "catalogSnapshot (le_ext env) (le_scope env) og (mk_entries mk) bs (le_now env) m = (Inr (items, views), m')"
    using snap unfolding CatalogSnapshot_def
    by (auto simp: apfst_def map_prod_def split: if_split_asm sum.split_asm prod.split_asm dest!: map_sum_Inr)
  with that ok mk base show thesis unfolding BuildState_def st_def og_def by blast
qed

text \<open>
  C17. Whatever card of the listing shows the identity of a workload, the user has a right to it:
  the memory holds an observation of the workload with that identity which carries the station,
  organization, application and installation of an installation row of the user's own
  organization, or the operator registered the workload for the organization as a legacy workload
  and the memory holds it, unclaimed, at the registered position. The database, the memory, the
  catalog and the admission together disclose no workload of another owner.
\<close>

theorem listing_shows_own_workloads:
  assumes "mem_inv (le_ext env) m" "AppCenterFacts env s user request db catalog m = (Inr facts, catalog', m')"
    and "ft \<in> set (fs_Items facts)" "sv_WorkloadUID (fa_Service ft) = Some uid"
  shows "canReadInstallations s user \<and> (own_row s user db m' uid \<or> own_legacy user m' uid)"
  using assms(2)
proof (cases rule: AppCenterFacts_cases)
  case (1 mk items views base foreign bs)
  have "map fa_Service (fs_Items facts) = map fa_Service (fs_Items base)" using project_facts_services 1(5) by simp
  then obtain ft0 where ft0: "ft0 \<in> set (fs_Items base)" "fa_Service ft0 = fa_Service ft"
    using assms(3) by (metis (no_types, lifting) image_iff list.set_map)
  from card_workload [OF 1(4) ft0(1)] assms(4) ft0(2)
  consider (view) i sv where "map_of (map_vals (view_service (le_digests env)) views) i = Some sv" "sv_WorkloadUID sv = Some uid"
    | (item) source where "source \<in> set items" "o_UID (i_Deployment source) = uid" "uid \<noteq> []"
    by auto
  then have "own_row s user db m' uid \<or> own_legacy user m' uid"
  proof cases
    case (view i sv)
    then obtain v where v: "map_of views i = Some v" "sv = view_service (le_digests env) v" by auto
    obtain r where r: "mv_Resource v = Some r" "ro_UID r = uid" using view_service_workload view(2) v(2) by blast
    obtain b where "b \<in> set bs" "b_OrganizationID b = ic_OrganizationID user" "owned_by m' b r"
      using catalog_views_owned [OF assms(1) 1(3) v(1)] r(1) by blast
    with owned_row [OF 1(2)] r(2) show ?thesis by blast
  next
    case (item source)
    define d where "d = i_Deployment source"
    have "own_workload m' (ic_OrganizationID user) bs d \<or> legacy_workload m' (ic_OrganizationID user) (e_AppID source) d" and uid: "o_UID d = uid"
      using catalog_items_grounded [OF assms(1) 1(3) item(1)] item(2,3) by (auto simp: grounds_def d_def)
    then show ?thesis
    proof (elim disjE)
      assume "own_workload m' (ic_OrganizationID user) bs d"
      then obtain b r where b: "b \<in> set bs" "b_OrganizationID b = ic_OrganizationID user" "owned_by m' b r" "ro_UID r = uid"
        using uid unfolding own_workload_def by metis
      from owned_row [OF 1(2) this] show ?thesis ..
    next
      assume "legacy_workload m' (ic_OrganizationID user) (e_AppID source) d"
      then obtain l r where "l \<in> set (m_legacy m')" "lb_OrganizationID l = ic_OrganizationID user" "legacy_object m' l r" "ro_UID r = uid"
        using uid unfolding legacy_workload_def by metis
      then show ?thesis unfolding own_legacy_def by blast
    qed
  qed
  with 1(6) show ?thesis by blast
qed

section \<open>Witness\<close>

definition demo_listing :: listing_env where
  "demo_listing = \<lparr>le_ext = demo_ext, le_scope = (\<lambda>_ _. ''x''), le_digests = demo_digests, le_admission = demo_admission_env, le_source = None,
     le_stateStation = ''s'', le_down = False, le_commitFails = False, le_now = 5, le_clock = (\<lambda>_. 5)\<rparr>"

definition demo_lister :: ops_service where
  "demo_lister = \<lparr>os_StationID = ''s'', os_uuid = me_uuid demo_ext, os_sum = (\<lambda>_. []), os_Catalog = None, os_Releases = None,
     os_TransitionReleases = None, os_hasTransitionReleases = False, os_releaseReader = (\<lambda>_ _ _. Inl NoRows),
     os_transitionAdmissionEnabled = False, os_schema = (\<lambda>_. True)\<rparr>"

definition demo_rows :: station_db where
  "demo_rows = \<lparr>d_installations = [\<lparr>in_InstallationID = ''i'', in_AppID = ''a'', in_AppVersion = ''1.0.0'', in_StationID = ''s'', in_OrganizationID = ''o'',
       in_State = ''installed'', in_Revision = 1, in_LastOperationID = [], in_CreatedAt = 0, in_UpdatedAt = 0\<rparr>],
     d_operations = [], d_transitions = [], d_forwards = [], d_proofs = [], d_inst_bindings = [], d_op_bindings = [], d_inputs = [], d_audit = []\<rparr>"

definition demo_listed :: "(facts_error + Facts) \<times> market option \<times> Memory" where
  "demo_listed = AppCenterFacts demo_listing demo_lister demo_actor ''q'' demo_rows (Some demo_market) demo_synced"

text \<open>Without a source of admissions the listing is what the snapshot and the facts give.\<close>

definition demo_built_facts :: "facts_error + Facts" where
  "demo_built_facts =
     (case fst (CatalogSnapshot demo_ext (\<lambda>_ _. ''x'') ''s'' ''o'' (mk_entries demo_market) demo_rows 5 demo_synced) of
        Inl _ \<Rightarrow> Inl FUnavailable
      | Inr (items, views) \<Rightarrow>
          BuildState demo_digests demo_actor ''q'' 5 items (installation_records ''s'' ''o'' demo_rows) (operation_records ''s'' ''u'' ''o'' demo_rows)
            (map_of (map_vals (view_service demo_digests) views)))"

lemma demo_built_facts:
  "(case demo_built_facts of Inl _ \<Rightarrow> False | Inr f \<Rightarrow> map (\<lambda>x. sv_WorkloadUID (fa_Service x)) (fs_Items f) = [Some ''u'']) \<and>
   canReadInstallations demo_lister demo_actor"
  by code_simp

lemma demo_listed_facts: "fst demo_listed = demo_built_facts"
proof -
  have small: "length (installation_records ''s'' ''o'' demo_rows) \<le> 1" "length (operation_records ''s'' ''u'' ''o'' demo_rows) = 0"
    by (simp_all add: installation_records_def operation_records_def demo_rows_def Let_def)
  have args: "le_ext demo_listing = demo_ext" "le_scope demo_listing = (\<lambda>_ _. ''x'')" "le_digests demo_listing = demo_digests" "le_source demo_listing = None"
    "le_stateStation demo_listing = ''s''" "\<not> le_down demo_listing" "\<not> le_commitFails demo_listing" "le_now demo_listing = 5"
    "os_StationID demo_lister = ''s''" "ic_OrganizationID demo_actor = ''o''" "ic_UserID demo_actor = ''u''"
    by (simp_all add: demo_listing_def demo_lister_def demo_actor_def)
  show ?thesis using small demo_built_facts
    by (auto simp: demo_listed_def AppCenterFacts_def demo_built_facts_def args project_facts_def Let_def split: prod.splits sum.splits)
qed

theorem listing_shows_own_workloads_witness:
  "canReadInstallations demo_lister demo_actor \<and>
   (own_row demo_lister demo_actor demo_rows (snd (snd demo_listed)) ''u'' \<or> own_legacy demo_actor (snd (snd demo_listed)) ''u'')"
proof -
  obtain z c m' where z: "demo_listed = (z, c, m')" by (cases demo_listed)
  obtain f where "demo_built_facts = Inr f"
  proof (cases demo_built_facts)
    case (Inl e)
    show ?thesis using demo_built_facts unfolding Inl by simp
  qed
  then have "z = Inr f" using demo_listed_facts unfolding z fst_conv by (rule trans [rotated])
  with z have l: "demo_listed = (Inr f, c, m')" by simp
  have "map (\<lambda>x. sv_WorkloadUID (fa_Service x)) (fs_Items f) = [Some ''u'']"
    using demo_built_facts unfolding demo_listed_facts [symmetric] l by simp
  then obtain x where x: "x \<in> set (fs_Items f)" "sv_WorkloadUID (fa_Service x) = Some ''u''" by fastforce
  have "mem_inv (le_ext demo_listing) demo_synced" using demo_inv(3) by (simp add: demo_listing_def)
  from listing_shows_own_workloads [OF this l [unfolded demo_listed_def] x] show ?thesis by (simp add: l)
qed

end
