(* ===== verification/State_Store.thy ===== *)
theory State_Store
  imports State_Catalog
begin

text \<open>
  The persistent side of the application state (\<^verbatim>\<open>internal/appstate/store.go\<close>, with the tables and
  \<open>mark_app_state\<close> of \<^verbatim>\<open>migrations/0018_app_state.sql\<close>) and the change hints built from it
  (\<^verbatim>\<open>internal/appstate/notifications.go\<close>). A query reads the tables of \<^typ>\<open>station_db\<close> and
  \<open>state_tables\<close>; a transaction that fails leaves them as they were. Text is ordered bytewise. An
  absent installation or operation id of a row is the empty string, as in the other tables.
\<close>

section \<open>Tables\<close>

record state_tables =
  sx_organizations :: "string list"
  sx_scopes :: "((string \<times> string) \<times> int) list"
  sx_items :: "((string \<times> string \<times> string) \<times> int) list"
  sx_catalog :: "(string \<times> string) list"

text \<open>\<open>None\<close> is the error PostgreSQL raises when the revision leaves the range of \<open>bigint\<close>.\<close>

definition mark_app_state :: "string \<Rightarrow> string \<Rightarrow> string \<Rightarrow> state_tables \<Rightarrow> state_tables option" where
  "mark_app_state station org app t =
     (let v = (case map_of (sx_scopes t) (station, org) of None \<Rightarrow> 1 | Some r \<Rightarrow> r + 1)
      in if v > MaxInt64 then None
         else Some (t\<lparr>sx_scopes := AList.update (station, org) v (sx_scopes t),
                      sx_items := AList.update (station, org, app) v (sx_items t)\<rparr>))"

fun mark_all :: "string \<Rightarrow> (string \<times> string) list \<Rightarrow> state_tables \<Rightarrow> state_tables option" where
  "mark_all station [] t = Some t"
| "mark_all station ((org, app) # rest) t = Option.bind (mark_app_state station org app t) (mark_all station rest)"

section \<open>The catalog of trusted identities\<close>

fun sync_check :: "string list \<Rightarrow> string list \<Rightarrow> bool" where
  "sync_check seen [] = True"
| "sync_check seen (app # apps) \<longleftrightarrow> \<not> (length app > 63 \<or> \<not> appIDPattern app \<or> app \<in> set seen) \<and> sync_check (app # seen) apps"

definition catalog_rows :: "string \<Rightarrow> state_tables \<Rightarrow> string list" where
  "catalog_rows station t = sort (map snd (filter (\<lambda>(s, _). s = station) (sx_catalog t)))"

definition catalog_changed :: "string list \<Rightarrow> string list \<Rightarrow> string list" where
  "catalog_changed old apps = sort (filter (\<lambda>a. a \<notin> set apps) old @ filter (\<lambda>a. a \<notin> set old) apps)"

definition replace_catalog :: "string \<Rightarrow> string list \<Rightarrow> state_tables \<Rightarrow> state_tables" where
  "replace_catalog station apps t =
     (let kept = filter (\<lambda>(s, a). \<not> (s = station \<and> a \<notin> set apps)) (sx_catalog t)
      in t\<lparr>sx_catalog := kept @ map (Pair station) (filter (\<lambda>a. (station, a) \<notin> set kept) apps)\<rparr>)"

text \<open>
  \<open>apps\<close> is \<open>slices.Clone\<close> of the argument; \<open>down\<close> says that a statement fails, \<open>refused\<close> that the
  commit does.
\<close>

definition SyncCatalog :: "memory_ext \<Rightarrow> string \<Rightarrow> bool \<Rightarrow> bool \<Rightarrow> string list \<Rightarrow> state_tables \<Rightarrow> state_error option \<times> state_tables" where
  "SyncCatalog E station down refused argument t =
     (if \<not> validID (me_uuid E) station then (Some SUnavailable, t)
      else if length argument > 1000 then (Some (SStream ErrLimit), t)
      else if \<not> sync_check [] argument then (Some SInvalid, t)
      else (let apps = sort argument; old = catalog_rows station t
            in if down then (Some SUnavailable, t)
               else if old = apps then (if refused then Some SDatabase else None, t)
               else (let changed = catalog_changed old apps
                     in case mark_all station (List.product (sort (sx_organizations t)) changed) (replace_catalog station apps t) of
                          None \<Rightarrow> (Some SUnavailable, t)
                        | Some t' \<Rightarrow> if refused then (Some SDatabase, t) else (None, t'))))"

section \<open>The snapshot of the state\<close>

record StateInstallation =
  sti_Revision :: int
  sti_AppVersion :: string
  sti_State :: string
  sti_LastOperationID :: "string option"

record StateOperation =
  sto_OperationID :: string
  sto_Protocol :: string
  sto_Status :: string
  sto_Phase :: string
  sto_Blocking :: bool

record StateItem =
  stm_AppID :: string
  stm_InstallationID :: "string option"
  stm_StateRevision :: string
  stm_Installation :: "StateInstallation option"
  stm_Runtime :: Runtime
  stm_Operation :: "StateOperation option"

record StateSnapshot =
  sts_SchemaVersion :: int
  sts_StationID :: string
  sts_OrganizationID :: string
  sts_Revision :: string
  sts_GeneratedAt :: gotime
  sts_Items :: "StateItem list"

text \<open>The rows of \<open>visible\<close>: an installation, or the application of the catalog that has none.\<close>

definition no_installation :: "string \<Rightarrow> Ops_Types.Installation" where
  "no_installation app = \<lparr>in_InstallationID = [], in_AppID = app, in_AppVersion = [], in_StationID = [], in_OrganizationID = [],
     in_State = [], in_Revision = 0, in_LastOperationID = [], in_CreatedAt = 0, in_UpdatedAt = 0\<rparr>"

definition own_active :: "string \<Rightarrow> string \<Rightarrow> Ops_Types.Installation \<Rightarrow> bool" where
  "own_active station org i \<longleftrightarrow> in_StationID i = station \<and> in_OrganizationID i = org \<and> in_State i \<noteq> ''removed''"

definition visible_rows :: "string \<Rightarrow> string \<Rightarrow> string \<Rightarrow> state_tables \<Rightarrow> station_db \<Rightarrow> Ops_Types.Installation list" where
  "visible_rows station org wanted t db =
     filter (\<lambda>i. in_StationID i = station \<and> in_OrganizationID i = org \<and>
              (wanted = [] \<and> in_State i \<noteq> ''removed'' \<or> in_InstallationID i = wanted)) (d_installations db) @
     (if wanted = [] then
        map no_installation
          (filter (\<lambda>a. \<not> list_ex (\<lambda>i. own_active station org i \<and> in_AppID i = a) (d_installations db))
             (map snd (filter (\<lambda>(s, _). s = station) (sx_catalog t))))
      else [])"

text \<open>The operations of the user that the row may show, and the one chosen: blocking ones first, then the latest.\<close>

definition blocking_status :: "string \<Rightarrow> bool" where
  "blocking_status s \<longleftrightarrow> s \<noteq> ''succeeded'' \<and> s \<noteq> ''failed''"

definition row_operations ::
  "string \<Rightarrow> string \<Rightarrow> string \<Rightarrow> station_db \<Rightarrow> Ops_Types.Installation \<Rightarrow> (gotime \<times> StateOperation) list" where
  "row_operations station org user db v =
     map (\<lambda>x. (op_updated x, \<lparr>sto_OperationID = op_ID x, sto_Protocol = ''lifecycle'', sto_Status = op_status x, sto_Phase = op_phase x,
                               sto_Blocking = blocking_status (op_status x)\<rparr>))
       (filter (\<lambda>x. op_station x = station \<and> op_org x = org \<and> op_user x = user \<and> op_app x = in_AppID v \<and>
                 op_installation x = in_InstallationID v \<and> (active_op x \<or> op_ID x = in_LastOperationID v)) (d_operations db)) @
     map (\<lambda>x. (tr_UpdatedAt x, \<lparr>sto_OperationID = tr_OperationID x, sto_Protocol = ''transition'', sto_Status = tr_Status x, sto_Phase = tr_Phase x,
                                 sto_Blocking = blocking_status (tr_Status x)\<rparr>))
       (filter (\<lambda>x. tw_station x = station \<and> tw_org x = org \<and> tw_user x = user \<and> in_InstallationID v \<noteq> [] \<and>
                 tr_InstallationID x = in_InstallationID v) (d_transitions db))"

definition row_operation :: "string \<Rightarrow> string \<Rightarrow> string \<Rightarrow> station_db \<Rightarrow> Ops_Types.Installation \<Rightarrow> StateOperation option" where
  "row_operation station org user db v =
     (case sort_key (\<lambda>(at, x). (sto_Blocking x, at, sto_OperationID x)) (row_operations station org user db v) of
        [] \<Rightarrow> None
      | q # qs \<Rightarrow> Some (snd (last (q # qs))))"

definition own_last_operation :: "string \<Rightarrow> string \<Rightarrow> station_db \<Rightarrow> Ops_Types.Installation \<Rightarrow> string option" where
  "own_last_operation org user db v =
     (if list_ex (\<lambda>x. op_ID x = in_LastOperationID v \<and> op_user x = user \<and> op_org x = org) (d_operations db) \<and> in_LastOperationID v \<noteq> []
      then Some (in_LastOperationID v) else None)"

definition state_row :: "string \<Rightarrow> string \<Rightarrow> string \<Rightarrow> state_tables \<Rightarrow> station_db \<Rightarrow> Ops_Types.Installation \<Rightarrow> StateItem" where
  "state_row station org user t db v =
     \<lparr>stm_AppID = in_AppID v,
      stm_InstallationID = (if in_InstallationID v = [] then None else Some (in_InstallationID v)),
      stm_StateRevision = digits_of (nat (lookup_default 0 (sx_items t) (station, org, in_AppID v))),
      stm_Installation = (if in_InstallationID v = [] then None
                          else Some \<lparr>sti_Revision = in_Revision v, sti_AppVersion = in_AppVersion v, sti_State = in_State v,
                                     sti_LastOperationID = own_last_operation org user db v\<rparr>),
      stm_Runtime = \<lparr>rt_State = [], rt_Quality = [], rt_ReasonCode = [], rt_ObservedAt = None, rt_ExpiresAt = None, rt_LastKnownState = None\<rparr>,
      stm_Operation = row_operation station org user db v\<rparr>"

definition state_rows :: "string \<Rightarrow> string \<Rightarrow> string \<Rightarrow> string \<Rightarrow> state_tables \<Rightarrow> station_db \<Rightarrow> StateItem list" where
  "state_rows station org user wanted t db =
     map (state_row station org user t db)
       (take 1001 (sort_key (\<lambda>v. (in_AppID v, in_InstallationID v)) (visible_rows station org wanted t db)))"

text \<open>The view of an item in the observation memory: unknown where it has none.\<close>

definition not_synced :: "Memory \<Rightarrow> MemoryView" where
  "not_synced m = \<lparr>mv_Runtime = \<lparr>rt_State = ''unknown'', rt_Quality = ''unknown'', rt_ReasonCode = ''NOT_SYNCED'', rt_ObservedAt = None,
     rt_ExpiresAt = None, rt_LastKnownState = None\<rparr>, mv_Revision = Memory_token m 0, mv_Resource = None\<rparr>"

definition item_view :: "Memory \<Rightarrow> memorySnapshot \<Rightarrow> string \<Rightarrow> StateItem \<Rightarrow> MemoryView" where
  "item_view m sn org x =
     (case (case stm_InstallationID x of
              Some i \<Rightarrow> map_of (sn_installations sn) i
            | None \<Rightarrow> map_of (lookup_default [] (sn_legacy sn) org) (stm_AppID x)) of
        Some v \<Rightarrow> v
      | None \<Rightarrow> not_synced m)"

definition with_view :: "MemoryView \<Rightarrow> StateItem \<Rightarrow> StateItem" where
  "with_view v x = x\<lparr>stm_Runtime := mv_Runtime v, stm_StateRevision := stm_StateRevision x @ '':'' @ mv_Revision v\<rparr>"

text \<open>
  The environment: the libraries, the digest of a scope, the size of the encoded snapshot, whether
  the service has a database, whether it fails at the start or at the commit, and the clock.
\<close>

record state_env =
  se_ext :: memory_ext
  se_scope :: scope_digest
  se_size :: "StateSnapshot \<Rightarrow> int"
  se_pool :: bool
  se_down :: bool
  se_refused :: bool
  se_now :: gotime

definition state_Snapshot ::
  "state_env \<Rightarrow> string \<Rightarrow> IdentityContext \<Rightarrow> string \<Rightarrow> state_tables \<Rightarrow> station_db \<Rightarrow> Memory \<Rightarrow> (state_error + StateSnapshot) \<times> Memory" where
  "state_Snapshot env station u wanted t db m =
     (if \<not> may_read_state (se_ext env) station u then (Inl SDenied, m)
      else if wanted \<noteq> [] \<and> \<not> validID (me_uuid (se_ext env)) wanted then (Inl SInvalid, m)
      else if \<not> se_pool env \<or> se_down env then (Inl SUnavailable, m)
      else (let org = ic_OrganizationID u;
                items = state_rows station org (ic_UserID u) wanted t db
            in if length items > 1000 then (Inl (SStream ErrLimit), m)
               else if wanted \<noteq> [] \<and> items = [] then (Inl SNotFound, m)
               else (case readBindings station wanted db of
                       Inl e \<Rightarrow> (Inl e, m)
                     | Inr bindings \<Rightarrow>
                         (case snapshotLocked (se_ext env) (se_scope env) bindings (se_now env) m of
                            (Inl e, m') \<Rightarrow> (Inl (SStream e), m')
                          | (Inr sn, m') \<Rightarrow>
                              (let tok = lookup_default [] (sn_revisions sn) org;
                                   out = \<lparr>sts_SchemaVersion = 1, sts_StationID = station, sts_OrganizationID = org,
                                          sts_Revision = digits_of (nat (lookup_default 0 (sx_scopes t) (station, org))) @ '':'' @
                                            (if tok = [] then Memory_token m' 0 else tok),
                                          sts_GeneratedAt = se_now env,
                                          sts_Items = map (\<lambda>x. with_view (item_view m' sn org x) x) items\<rparr>
                               in if se_size env out > 4 * 1024 * 1024 then (Inl (SStream ErrLimit), m')
                                  else if se_refused env then (Inl SUnavailable, m')
                                  else (Inr out, m'))))))"

definition Service_Expire :: "memory_ext \<Rightarrow> string \<Rightarrow> bool \<Rightarrow> gotime \<Rightarrow> Memory \<Rightarrow> state_error option \<times> Memory" where
  "Service_Expire E station cancelled now m =
     (if \<not> validID (me_uuid E) station then (Some SUnavailable, m)
      else if cancelled then (Some SCancelled, m)
      else (None, Memory_Expire now m))"

section \<open>Change hints\<close>

record notificationPosition =
  np_AppID :: string
  np_State :: string
  np_Reason :: string

record notificationAvailability =
  na_AppID :: string
  na_ForeignInstallation :: bool
  na_Blocking :: nat

type_synonym hint_digest = "string \<times> notificationPosition list \<times> notificationAvailability list \<Rightarrow> string"

definition notificationDigest :: "hint_digest \<Rightarrow> hint_digest" where
  "notificationDigest dg x = ''hint:'' @ dg x"

definition notificationViews ::
  "memory_ext \<Rightarrow> scope_digest \<Rightarrow> Memory.Binding list \<Rightarrow> Entry list \<Rightarrow> gotime \<Rightarrow> Memory
     \<Rightarrow> (stream_error + (string \<times> string) list \<times> notificationPosition list) \<times> Memory" where
  "notificationViews E dg bindings entries now m =
     (if length entries > 1000 then (Inl ErrLimit, m)
      else case snapshotLocked E dg bindings now m of
             (Inl e, m') \<Rightarrow> (Inl e, m')
           | (Inr sn, m') \<Rightarrow>
               (Inr (sn_revisions sn,
                     sort_key np_AppID
                       (map (\<lambda>e. let ob = catalogPosition m' e now
                                 in \<lparr>np_AppID = e_AppID e, np_State = o_State ob, np_Reason = o_Reason ob\<rparr>) entries)), m'))"

definition active_apps :: "string \<Rightarrow> station_db \<Rightarrow> string list" where
  "active_apps station db =
     map op_app (filter (\<lambda>x. op_station x = station \<and> active_op x) (d_operations db)) @
     map tw_app (filter (\<lambda>t. tw_station t = station \<and> active_row t) (d_transitions db))"

definition notificationBlockers :: "string \<Rightarrow> station_db \<Rightarrow> state_error + (string \<times> nat) list" where
  "notificationBlockers station db =
     (let apps = active_apps station db;
          out = map (\<lambda>a. (a, min (count_list apps a) 2)) (take 1001 (sort (remdups apps)))
      in if length out > 1000 then Inl (SStream ErrLimit) else Inr out)"

definition visible_apps :: "Entry list \<Rightarrow> Memory.Binding list \<Rightarrow> string \<Rightarrow> string list" where
  "visible_apps entries bindings org =
     remdups (map e_AppID entries @ map b_AppID (filter (\<lambda>b. b_OrganizationID b = org) bindings))"

definition availability ::
  "Entry list \<Rightarrow> Memory.Binding list \<Rightarrow> (string \<times> nat) list \<Rightarrow> string \<Rightarrow> notificationAvailability list" where
  "availability entries bindings blockers org =
     sort_key na_AppID
       (map (\<lambda>a. \<lparr>na_AppID = a,
                  na_ForeignInstallation = list_ex (\<lambda>b. b_OrganizationID b \<noteq> org \<and> b_AppID b = a) bindings,
                  na_Blocking = lookup_default 0 blockers a\<rparr>)
         (visible_apps entries bindings org))"

text \<open>\<open>hint\<close> is the digest of the JSON encoding; \<open>entries\<close> are those of the service's catalog.\<close>

definition NotificationRevisions ::
  "state_env \<Rightarrow> hint_digest \<Rightarrow> string \<Rightarrow> Entry list \<Rightarrow> state_tables \<Rightarrow> station_db \<Rightarrow> Memory
     \<Rightarrow> (state_error + (string \<times> string) list) \<times> Memory" where
  "NotificationRevisions env hint station entries t db m =
     (if \<not> se_pool env \<or> \<not> validID (me_uuid (se_ext env)) station \<or> se_down env then (Inl SUnavailable, m)
      else (let orgs = take 1001 (sort (sx_organizations t))
            in if length orgs > 1000 then (Inl (SStream ErrLimit), m)
               else (case readBindings station [] db of
                       Inl e \<Rightarrow> (Inl e, m)
                     | Inr bindings \<Rightarrow>
                         (case notificationBlockers station db of
                            Inl e \<Rightarrow> (Inl e, m)
                          | Inr blockers \<Rightarrow>
                              (case notificationViews (se_ext env) (se_scope env) bindings entries (se_now env) m of
                                 (Inl e, m') \<Rightarrow> (Inl (SStream e), m')
                               | (Inr (scopes, positions), m') \<Rightarrow>
                                   if se_refused env then (Inl SUnavailable, m')
                                   else (Inr (map (\<lambda>org.
                                           let tok = lookup_default [] scopes org;
                                               state = digits_of (nat (lookup_default 0 (sx_scopes t) (station, org))) @ '':'' @
                                                 (if tok = [] then Memory_token m' 0 else tok)
                                           in (org, notificationDigest hint (state, positions, availability entries bindings blockers org))) orgs), m'))))))"

section \<open>The publisher\<close>

definition NotificationPrefix :: string where
  "NotificationPrefix = ''/station/app-state-notifications/v1/''"

record Publisher =
  pb_station :: string
  pb_last :: "(string \<times> string) list"

text \<open>
  The loop over the organizations: \<open>sink\<close> says whether the write of a key and revision succeeds.
  The attempts are returned in their order with their outcomes.
\<close>

fun publish_loop ::
  "(string \<Rightarrow> string \<Rightarrow> bool) \<Rightarrow> string \<Rightarrow> (string \<times> string) list \<Rightarrow> (string \<times> string) list
     \<Rightarrow> bool \<times> (string \<times> string) list \<times> (string \<times> string \<times> bool) list" where
  "publish_loop sink station [] previous = (True, previous, [])"
| "publish_loop sink station ((org, revision) # rest) previous =
     (if lookup_default [] previous org = revision then publish_loop sink station rest previous
      else let ok = sink (NotificationPrefix @ station @ ''/'' @ org) revision;
               (all, delivered, log) = publish_loop sink station rest (if ok then AList.update org revision previous else previous)
           in (ok \<and> all, delivered, (org, revision, ok) # log))"

definition Publisher_step ::
  "(string \<Rightarrow> string \<Rightarrow> bool) \<Rightarrow> state_error + (string \<times> string) list \<Rightarrow> Publisher
     \<Rightarrow> state_error option \<times> Publisher \<times> (string \<times> string \<times> bool) list" where
  "Publisher_step sink source p =
     (case source of
        Inl e \<Rightarrow> (Some e, p, [])
      | Inr revisions \<Rightarrow>
          (case publish_loop sink (pb_station p) (sort_key fst revisions) (pb_last p) of
             (all, previous, log) \<Rightarrow>
               (if all then None else Some SUnavailable,
                p\<lparr>pb_last := filter (\<lambda>(org, _). org \<in> fst ` set revisions) previous\<rparr>, log)))"

text \<open>\<open>net/url\<close>: the parts of a parsed URL that are looked at.\<close>

record URL =
  url_Scheme :: string
  url_Hostname :: string
  url_User :: bool
  url_Path :: string
  url_RawQuery :: string
  url_ForceQuery :: bool
  url_Fragment :: string
  url_RawPath :: string

definition endpoint_ok :: "URL \<Rightarrow> bool" where
  "endpoint_ok u \<longleftrightarrow> (url_Scheme u = ''http'' \<or> url_Scheme u = ''https'') \<and> url_Hostname u \<noteq> [] \<and> \<not> url_User u \<and>
     (url_Path u = [] \<or> url_Path u = ''/'') \<and> url_RawQuery u = [] \<and> \<not> url_ForceQuery u \<and> url_Fragment u = [] \<and> url_RawPath u = []"

fun endpoints_loop :: "(string \<Rightarrow> URL option) \<Rightarrow> string list \<Rightarrow> string list \<Rightarrow> string list option" where
  "endpoints_loop parse seen [] = Some []"
| "endpoints_loop parse seen (raw # rest) =
     (let endpoint = TrimSpace raw
      in case parse endpoint of
           None \<Rightarrow> None
         | Some u \<Rightarrow>
             if \<not> endpoint_ok u \<or> endpoint \<in> set seen then None
             else map_option (Cons endpoint) (endpoints_loop parse (endpoint # seen) rest))"

text \<open>
  \<open>client\<close> is the constructor of the etcd client, given the endpoints and the credentials. The result
  is an error, no publisher, or one together with what its client was built from.
\<close>

definition NewPublisher ::
  "memory_ext \<Rightarrow> (string \<Rightarrow> URL option) \<Rightarrow> (string list \<Rightarrow> string \<Rightarrow> string \<Rightarrow> bool) \<Rightarrow> string \<Rightarrow> (string \<Rightarrow> string)
     \<Rightarrow> state_error + (Publisher \<times> string list) option" where
  "NewPublisher E parse client station lookup =
     (if \<not> validID (me_uuid E) station then Inl SUnavailable
      else (let raw = lookup ''STATION_APP_STATE_ETCD_ENDPOINTS'';
                username = lookup ''STATION_APP_STATE_ETCD_USERNAME'';
                password = lookup ''STATION_APP_STATE_ETCD_PASSWORD''
            in if raw = [] then (if username \<noteq> [] \<or> password \<noteq> [] then Inl (SStream ErrStreamFrame) else Inr None)
               else (let endpoints = split_on (CHR '','') raw
                     in if length endpoints > 8 \<or> (username = []) \<noteq> (password = []) then Inl (SStream ErrStreamFrame)
                        else (case endpoints_loop parse [] endpoints of
                                None \<Rightarrow> Inl (SStream ErrStreamFrame)
                              | Some es \<Rightarrow>
                                  if client es username password then Inr (Some (\<lparr>pb_station = station, pb_last = []\<rparr>, es))
                                  else Inl SUnavailable))))"

end
