(* ===== verification/State_Store_Properties.thy ===== *)
theory State_Store_Properties
  imports State_Store
begin

text \<open>
  What the persistent state promises: revisions that move exactly with what they stand for, a
  snapshot that is complete and private, and hints that are delivered until they are current.
\<close>

section \<open>Revisions\<close>

definition scope_rev :: "state_tables \<Rightarrow> string \<times> string \<Rightarrow> int" where
  "scope_rev t k = lookup_default 0 (sx_scopes t) k"

definition item_rev :: "state_tables \<Rightarrow> string \<times> string \<times> string \<Rightarrow> int" where
  "item_rev t k = lookup_default 0 (sx_items t) k"

text \<open>
  The revisions of the applications of a scope never exceed its own, and no two of them are the
  same unless both are still zero.
\<close>

definition tables_inv :: "state_tables \<Rightarrow> bool" where
  "tables_inv t \<longleftrightarrow> (\<forall>k. 0 \<le> scope_rev t k) \<and>
     (\<forall>st org a. 0 \<le> item_rev t (st, org, a) \<and> item_rev t (st, org, a) \<le> scope_rev t (st, org)) \<and>
     (\<forall>st org a b. a \<noteq> b \<longrightarrow> item_rev t (st, org, a) = item_rev t (st, org, b) \<longrightarrow> item_rev t (st, org, a) = 0)"

lemma mark_spec:
  assumes "mark_app_state st org app t = Some t'"
  shows "scope_rev t' k = (if k = (st, org) then scope_rev t k + 1 else scope_rev t k)"
    and "item_rev t' j = (if j = (st, org, app) then scope_rev t (st, org) + 1 else item_rev t j)"
    and "sx_catalog t' = sx_catalog t" "sx_organizations t' = sx_organizations t"
  using assms
  by (auto simp: mark_app_state_def scope_rev_def item_rev_def lookup_default_def update_conv Let_def split: if_split_asm option.splits)

lemma mark_inv:
  assumes "tables_inv t" "mark_app_state st org app t = Some t'"
  shows "tables_inv t'"
proof -
  have le: "item_rev t (st, org, a) < scope_rev t (st, org) + 1" "0 \<le> scope_rev t (st, org)" for a using assms(1) unfolding tables_inv_def by smt+
  show ?thesis using assms(1) le unfolding tables_inv_def mark_spec [OF assms(2)] by (smt (verit) prod.inject)
qed

lemma mark_all_inv: "tables_inv t \<Longrightarrow> mark_all st ps t = Some t' \<Longrightarrow> tables_inv t'"
  by (induction st ps t rule: mark_all.induct) (auto simp: bind_eq_Some_conv intro: mark_inv)

text \<open>Marking a list of pairs moves the scopes by their number, the pairs past the old scope and nothing else.\<close>

lemma mark_all_scope:
  "mark_all st ps t = Some t' \<Longrightarrow>
     scope_rev t' (s, o') = scope_rev t (s, o') + (if s = st then int (length (filter (\<lambda>p. fst p = o') ps)) else 0) \<and>
     sx_catalog t' = sx_catalog t \<and> sx_organizations t' = sx_organizations t"
proof (induction st ps t rule: mark_all.induct)
  case (2 st org app rest t)
  then obtain t1 where t1: "mark_app_state st org app t = Some t1" "mark_all st rest t1 = Some t'" by (auto simp: bind_eq_Some_conv)
  from 2(1) [OF t1] mark_spec [OF t1(1)] show ?case by simp
qed simp

lemma mark_all_item:
  "mark_all st ps t = Some t' \<Longrightarrow>
     (if s = st \<and> (o', a) \<in> set ps then scope_rev t (s, o') < item_rev t' (s, o', a) else item_rev t' (s, o', a) = item_rev t (s, o', a))"
proof (induction st ps t rule: mark_all.induct)
  case (2 st org app rest t)
  then obtain t1 where t1: "mark_app_state st org app t = Some t1" "mark_all st rest t1 = Some t'" by (auto simp: bind_eq_Some_conv)
  from 2(1) [OF t1] mark_spec(1,2) [OF t1(1)] show ?case by (auto split: if_split_asm)
qed simp

section \<open>Synchronising the catalog\<close>

lemma sync_check_spec: "sync_check seen apps \<longleftrightarrow> distinct apps \<and> set apps \<inter> set seen = {} \<and> (\<forall>a \<in> set apps. length a \<le> 63 \<and> appIDPattern a)"
  by (induction seen apps rule: sync_check.induct) (auto simp: not_less)

lemma catalog_rows_set: "set (catalog_rows st t) = {a. (st, a) \<in> set (sx_catalog t)}"
  by (auto simp: catalog_rows_def) force

lemma replace_catalog_set:
  "set (sx_catalog (replace_catalog st apps t)) = {(s, a). if s = st then a \<in> set apps else (s, a) \<in> set (sx_catalog t)}"
  by (auto simp: replace_catalog_def Let_def)

lemma catalog_changed_set: "set (catalog_changed old apps) = {a. (a \<in> set apps) \<noteq> (a \<in> set old)}"
  by (auto simp: catalog_changed_def)

lemma replace_rev [simp]: "scope_rev (replace_catalog st apps t) = scope_rev t" "item_rev (replace_catalog st apps t) = item_rev t"
  by (simp_all add: fun_eq_iff replace_catalog_def scope_rev_def item_rev_def Let_def)

lemma replace_inv [simp]: "tables_inv (replace_catalog st apps t) \<longleftrightarrow> tables_inv t"
  by (simp add: tables_inv_def)

lemma product_filter_length: "length (filter (\<lambda>p. fst p = x) (List.product xs ys)) = count_list xs x * length ys"
  by (induction xs) (auto simp: filter_map comp_def length_filter_conv_card)

lemma count_list_one: "distinct xs \<Longrightarrow> x \<in> set xs \<Longrightarrow> count_list xs x = 1"
  by (induction xs) (auto simp: count_list_0_iff)

lemma SyncCatalog_cases:
  assumes "SyncCatalog E st down refused apps t = (None, t')"
  obtains (same) "t' = t" "catalog_rows st t = sort apps"
  | (changed) "mark_all st (List.product (sort (sx_organizations t)) (catalog_changed (catalog_rows st t) (sort apps)))
      (replace_catalog st (sort apps) t) = Some t'"
  using assms by (auto simp: SyncCatalog_def Let_def split: if_split_asm option.split_asm)

text \<open>
  Synchronising the trusted catalog establishes exactly the given applications for this station,
  touches the rows of no other station, and moves the revisions exactly with the change: for every
  organization the revision of an application that was added or removed becomes newer than
  everything its scope had, that of any other application stays, and the scope moves once per
  changed application. The order of revisions within a scope is kept.
\<close>

theorem sync_marks_changes:
  assumes "tables_inv t" "distinct (sx_organizations t)" "SyncCatalog E st down refused apps t = (None, t')"
  shows "tables_inv t' \<and> set (catalog_rows st t') = set apps \<and>
    (\<forall>s. s \<noteq> st \<longrightarrow> set (catalog_rows s t') = set (catalog_rows s t)) \<and>
    (\<forall>org a. if org \<in> set (sx_organizations t) \<and> (a \<in> set apps) \<noteq> (a \<in> set (catalog_rows st t))
       then scope_rev t (st, org) < item_rev t' (st, org, a) else item_rev t' (st, org, a) = item_rev t (st, org, a)) \<and>
    (\<forall>org \<in> set (sx_organizations t).
       scope_rev t' (st, org) = scope_rev t (st, org) + int (length (catalog_changed (catalog_rows st t) (sort apps))))"
  using assms(3)
proof (cases rule: SyncCatalog_cases)
  case same
  then have "set (catalog_rows st t) = set apps" "catalog_changed (catalog_rows st t) (sort apps) = []"
    by (simp_all add: catalog_changed_def)
  with same assms show ?thesis by auto
next
  case changed
  define ps where "ps = List.product (sort (sx_organizations t)) (catalog_changed (catalog_rows st t) (sort apps))"
  define t1 where "t1 = replace_catalog st (sort apps) t"
  have m: "mark_all st ps t1 = Some t'" using changed by (simp add: ps_def t1_def)
  have cat: "set (sx_catalog t') = {(s, a). if s = st then a \<in> set apps else (s, a) \<in> set (sx_catalog t)}"
    using mark_all_scope [OF m] replace_catalog_set [of st "sort apps" t] by (simp add: t1_def)
  have ps: "(org, a) \<in> set ps \<longleftrightarrow> org \<in> set (sx_organizations t) \<and> (a \<in> set apps) \<noteq> (a \<in> set (catalog_rows st t))" for org a
    by (simp add: ps_def catalog_changed_set)
  have "tables_inv t'" using mark_all_inv [OF _ m] assms(1) by (simp add: t1_def)
  moreover have "set (catalog_rows st t') = set apps" "s \<noteq> st \<Longrightarrow> set (catalog_rows s t') = set (catalog_rows s t)" for s
    by (simp_all add: catalog_rows_set cat)
  moreover have "if org \<in> set (sx_organizations t) \<and> (a \<in> set apps) \<noteq> (a \<in> set (catalog_rows st t))
      then scope_rev t (st, org) < item_rev t' (st, org, a) else item_rev t' (st, org, a) = item_rev t (st, org, a)" for org a
    using mark_all_item [OF m, of st org a] unfolding ps t1_def replace_rev by simp
  moreover have "scope_rev t' (st, org) = scope_rev t (st, org) + int (length (catalog_changed (catalog_rows st t) (sort apps)))"
    if "org \<in> set (sx_organizations t)" for org
    using mark_all_scope [OF m, of st org] that assms(2) unfolding ps_def product_filter_length
    by (simp add: t1_def count_list_one)
  ultimately show ?thesis by blast
qed

section \<open>The snapshot\<close>

lemma state_Snapshot_cases:
  assumes "state_Snapshot env st u wanted t db m = (Inr out, m')"
  obtains sn where "may_read_state (se_ext env) st u" "sts_OrganizationID out = ic_OrganizationID u"
    "sts_Items out = map (\<lambda>x. with_view (item_view m' sn (ic_OrganizationID u) x) x) (state_rows st (ic_OrganizationID u) (ic_UserID u) wanted t db)"
    "length (state_rows st (ic_OrganizationID u) (ic_UserID u) wanted t db) \<le> 1000"
    "\<exists>bs. readBindings st wanted db = Inr bs \<and> snapshotLocked (se_ext env) (se_scope env) bs (se_now env) m = (Inr sn, m')"
  using assms that unfolding state_Snapshot_def Let_def
  by (auto simp: not_less split: if_split_asm sum.split_asm prod.split_asm)

lemma with_view_sel [simp]:
  "stm_AppID (with_view v x) = stm_AppID x" "stm_InstallationID (with_view v x) = stm_InstallationID x"
  "stm_Installation (with_view v x) = stm_Installation x" "stm_Operation (with_view v x) = stm_Operation x"
  by (simp_all add: with_view_def)

lemma state_rows_all:
  assumes "length (state_rows st org user wanted t db) \<le> 1000"
  shows "state_rows st org user wanted t db =
    map (state_row st org user t db) (sort_key (\<lambda>v. (in_AppID v, in_InstallationID v)) (visible_rows st org wanted t db))"
  using assms by (simp add: state_rows_def min_def split: if_split_asm)

text \<open>What a row may be: an installation of the organization, or an application without one.\<close>

definition installed_row :: "string \<Rightarrow> string \<Rightarrow> station_db \<Rightarrow> string \<Rightarrow> string \<Rightarrow> bool" where
  "installed_row st org db app i \<longleftrightarrow> (\<exists>v \<in> set (d_installations db). own_active st org v \<and> in_AppID v = app \<and> in_InstallationID v = i)"

definition vacant_row :: "string \<Rightarrow> string \<Rightarrow> state_tables \<Rightarrow> station_db \<Rightarrow> string \<Rightarrow> bool" where
  "vacant_row st org t db app \<longleftrightarrow> (st, app) \<in> set (sx_catalog t) \<and> \<not> (\<exists>i. installed_row st org db app i)"

lemma visible_catalog:
  "set (map snd (filter (\<lambda>(s, _). s = st) (sx_catalog t))) = {a. (st, a) \<in> set (sx_catalog t)}"
  by (auto simp: image_iff)

lemma visible_rows_set:
  "set (visible_rows st org [] t db) =
     {v \<in> set (d_installations db). in_StationID v = st \<and> in_OrganizationID v = org \<and> (in_State v \<noteq> ''removed'' \<or> in_InstallationID v = [])} \<union>
     no_installation ` {app. vacant_row st org t db app}"
  unfolding visible_rows_def vacant_row_def installed_row_def set_append set_filter set_map [of no_installation] visible_catalog if_True simp_thms
  by (auto simp: list_ex_iff)

lemma visible_keys:
  assumes "\<forall>v \<in> set (d_installations db). in_InstallationID v \<noteq> []"
  shows "(\<lambda>v. (in_AppID v, if in_InstallationID v = [] then None else Some (in_InstallationID v))) ` set (visible_rows st org [] t db) =
    {(app, Some i) | app i. installed_row st org db app i} \<union> {(app, None) | app. vacant_row st org t db app}"
    (is "?key ` _ = _")
proof -
  have "?key ` (no_installation ` {app. vacant_row st org t db app}) = {(app, None) | app. vacant_row st org t db app}"
    by (auto simp: no_installation_def image_image)
  moreover have "?key ` {v \<in> set (d_installations db). in_StationID v = st \<and> in_OrganizationID v = org \<and> (in_State v \<noteq> ''removed'' \<or> in_InstallationID v = [])} =
      {(app, Some i) | app i. installed_row st org db app i}"
    using assms unfolding installed_row_def own_active_def by fastforce
  ultimately show ?thesis unfolding visible_rows_set image_Un by simp
qed

lemma state_row_key:
  "stm_AppID (state_row st org user t db v) = in_AppID v"
  "stm_InstallationID (state_row st org user t db v) = (if in_InstallationID v = [] then None else Some (in_InstallationID v))"
  by (simp_all add: state_row_def)

text \<open>
  C31. The snapshot of an organization is exact: its items are precisely the organization's own
  installations on this station that are not removed, and the applications of the trusted catalog
  for which it has none. Nothing of another organization appears, and nothing of its own is left
  out; a snapshot too large for that is refused.
\<close>

theorem state_snapshot_exact:
  assumes "state_Snapshot env st u [] t db m = (Inr out, m')" "\<forall>v \<in> set (d_installations db). in_InstallationID v \<noteq> []"
  shows "(\<forall>app i. (\<exists>x \<in> set (sts_Items out). stm_AppID x = app \<and> stm_InstallationID x = Some i) \<longleftrightarrow> installed_row st (ic_OrganizationID u) db app i) \<and>
    (\<forall>app. (\<exists>x \<in> set (sts_Items out). stm_AppID x = app \<and> stm_InstallationID x = None) \<longleftrightarrow> vacant_row st (ic_OrganizationID u) t db app)"
  using assms(1)
proof (cases rule: state_Snapshot_cases)
  case (1 sn)
  define org where "org = ic_OrganizationID u"
  define key :: "StateItem \<Rightarrow> string \<times> string option" where "key x = (stm_AppID x, stm_InstallationID x)" for x
  define rows where "rows = visible_rows st org [] t db"
  have "map key (sts_Items out) = map (key \<circ> state_row st org (ic_UserID u) t db) (sort_key (\<lambda>v. (in_AppID v, in_InstallationID v)) rows)"
    unfolding 1(3) state_rows_all [OF 1(4)] by (simp add: key_def comp_def rows_def org_def)
  from arg_cong [OF this, of set] have "key ` set (sts_Items out) = (key \<circ> state_row st org (ic_UserID u) t db) ` set rows"
    by (simp only: set_map set_sort)
  also have "\<dots> = (\<lambda>v. (in_AppID v, if in_InstallationID v = [] then None else Some (in_InstallationID v))) ` set rows"
    by (simp add: key_def comp_def state_row_key)
  also have "\<dots> = {(app, Some i) | app i. installed_row st org db app i} \<union> {(app, None) | app. vacant_row st org t db app}"
    unfolding rows_def by (rule visible_keys [OF assms(2)])
  finally have keys: "key ` set (sts_Items out) = {(app, Some i) | app i. installed_row st org db app i} \<union> {(app, None) | app. vacant_row st org t db app}" .
  have "(\<exists>x \<in> set (sts_Items out). stm_AppID x = app \<and> stm_InstallationID x = y) \<longleftrightarrow> (app, y) \<in> key ` set (sts_Items out)" for app y
    by (auto simp: key_def image_iff)
  then show ?thesis unfolding keys by (simp add: org_def)
qed

section \<open>Operations in the snapshot\<close>

text \<open>An operation of the user: one of the database with that id and owner.\<close>

definition own_operation :: "string \<Rightarrow> string \<Rightarrow> string \<Rightarrow> station_db \<Rightarrow> string \<Rightarrow> bool" where
  "own_operation st org user db i \<longleftrightarrow>
     (\<exists>x \<in> set (d_operations db). op_ID x = i \<and> op_org x = org \<and> op_user x = user) \<or>
     (\<exists>x \<in> set (d_transitions db). tr_OperationID x = i \<and> tw_station x = st \<and> tw_org x = org \<and> tw_user x = user)"

lemma row_operations_own: "q \<in> set (row_operations st org user db v) \<Longrightarrow> own_operation st org user db (sto_OperationID (snd q))"
  by (auto simp: row_operations_def own_operation_def)

lemma row_operation_max:
  assumes "row_operation st org user db v = Some c"
  shows "\<exists>at. (at, c) \<in> set (row_operations st org user db v) \<and>
    (\<forall>(at', q) \<in> set (row_operations st org user db v). (sto_Blocking q, at', sto_OperationID q) \<le> (sto_Blocking c, at, sto_OperationID c))"
proof -
  define k :: "gotime \<times> StateOperation \<Rightarrow> bool \<times> gotime \<times> string" where "k = (\<lambda>(at, x). (sto_Blocking x, at, sto_OperationID x))"
  define qs where "qs = row_operations st org user db v"
  obtain rest z where z: "sort_key k qs = rest @ [z]"
    using assms by (cases "sort_key k qs" rule: rev_cases) (auto simp: row_operation_def qs_def k_def)
  then have c: "c = snd z" using assms unfolding row_operation_def k_def [symmetric] qs_def [symmetric] by (cases rest) auto
  have "sorted (map k (rest @ [z]))" using z sorted_sort_key [of k qs] by simp
  then have "\<forall>q \<in> set (rest @ [z]). k q \<le> k z" by (auto simp: sorted_append)
  moreover have "set (rest @ [z]) = set qs" using z by (metis set_sort)
  ultimately show ?thesis unfolding qs_def [symmetric] c by (intro exI [of _ "fst z"]) (auto simp: k_def split_beta)
qed

text \<open>
  The snapshot names an operation only to the user who submitted it, and never hides one that
  blocks: the operation of an item, and the last operation of its installation, are the user's own
  in this organization, and whenever one of the candidates for an item still runs the item shows a
  running one.
\<close>

theorem state_operations_private:
  assumes "state_Snapshot env st u wanted t db m = (Inr out, m')" "x \<in> set (sts_Items out)"
  shows "(\<forall>c. stm_Operation x = Some c \<longrightarrow> own_operation st (ic_OrganizationID u) (ic_UserID u) db (sto_OperationID c)) \<and>
    (\<forall>i l. stm_Installation x = Some i \<longrightarrow> sti_LastOperationID i = Some l \<longrightarrow> own_operation st (ic_OrganizationID u) (ic_UserID u) db l) \<and>
    (\<exists>v \<in> set (visible_rows st (ic_OrganizationID u) wanted t db). in_AppID v = stm_AppID x \<and>
       stm_InstallationID x = (if in_InstallationID v = [] then None else Some (in_InstallationID v)) \<and>
       (\<forall>(at, q) \<in> set (row_operations st (ic_OrganizationID u) (ic_UserID u) db v). sto_Blocking q \<longrightarrow> (\<exists>c. stm_Operation x = Some c \<and> sto_Blocking c)))"
  using assms(1)
proof (cases rule: state_Snapshot_cases)
  case (1 sn)
  define org where "org = ic_OrganizationID u" define user where "user = ic_UserID u"
  obtain v where row: "v \<in> set (visible_rows st org wanted t db)"
      and x: "\<exists>view. x = with_view view (state_row st org user t db v)"
    using assms(2) unfolding 1(3) state_rows_def org_def user_def by (auto dest!: in_set_takeD) blast
  then have v: "stm_Operation x = row_operation st org user db v" "stm_AppID x = in_AppID v"
      "stm_Installation x = stm_Installation (state_row st org user t db v)"
      "stm_InstallationID x = (if in_InstallationID v = [] then None else Some (in_InstallationID v))"
    by (auto simp: state_row_def)
  have "own_operation st org user db (sto_OperationID c)" if "stm_Operation x = Some c" for c
    using row_operation_max [of st org user db v c] that row_operations_own v(1) by fastforce
  moreover have "own_operation st org user db l" if "stm_Installation x = Some i" "sti_LastOperationID i = Some l" for i l
    using that unfolding v(3) by (auto simp: state_row_def own_last_operation_def own_operation_def list_ex_iff split: if_split_asm)
  moreover have "\<exists>c. stm_Operation x = Some c \<and> sto_Blocking c" if q: "(at, q) \<in> set (row_operations st org user db v)" "sto_Blocking q" for at q
  proof (cases "row_operation st org user db v")
    case None
    then have "row_operations st org user db v = []"
      unfolding row_operation_def by (metis (no_types, lifting) list.case_eq_if option.distinct(1) set_empty2 set_sort)
    with q show ?thesis by simp
  next
    case (Some c)
    with row_operation_max [OF Some] q show ?thesis unfolding v(1) by fastforce
  qed
  ultimately show ?thesis unfolding org_def [symmetric] user_def [symmetric] using v(2,4) row by (intro conjI bexI [of _ v]) auto
qed

section \<open>The publisher\<close>

text \<open>What the loop attempts and leaves, for any sink.\<close>

lemma map_of_filter_key: "map_of (filter (\<lambda>(k, _). P k) al) k = (if P k then map_of al k else None)"
  by (induction al) auto

definition hint_key :: "string \<Rightarrow> string \<Rightarrow> string" where
  "hint_key station org = NotificationPrefix @ station @ ''/'' @ org"

definition outdated :: "(string \<times> string) list \<Rightarrow> string \<times> string \<Rightarrow> bool" where
  "outdated previous p \<longleftrightarrow> lookup_default [] previous (fst p) \<noteq> snd p"

lemma publish_loop_spec:
  assumes "distinct (map fst rs)"
  shows "publish_loop sink st rs previous =
    (list_all (\<lambda>p. sink (hint_key st (fst p)) (snd p)) (filter (outdated previous) rs),
     fold (\<lambda>p. AList.update (fst p) (snd p)) (filter (\<lambda>p. outdated previous p \<and> sink (hint_key st (fst p)) (snd p)) rs) previous,
     map (\<lambda>p. (fst p, snd p, sink (hint_key st (fst p)) (snd p))) (filter (outdated previous) rs))"
  using assms
proof (induction rs arbitrary: previous)
  case (Cons p rs)
  obtain org r where p: "p = (org, r)" by fastforce
  have same: "outdated (AList.update org r previous) q = outdated previous q" if "q \<in> set rs" for q
    using Cons.prems that p by (auto simp: outdated_def lookup_default_def update_conv)
  have upd: "filter (outdated (AList.update org r previous)) rs = filter (outdated previous) rs"
    "filter (\<lambda>q. outdated (AList.update org r previous) q \<and> sink (hint_key st (fst q)) (snd q)) rs =
       filter (\<lambda>q. outdated previous q \<and> sink (hint_key st (fst q)) (snd q)) rs"
    using same by (auto cong: filter_cong)
  have key: "NotificationPrefix @ st @ ''/'' @ org = hint_key st org" by (simp add: hint_key_def)
  have d: "distinct (map fst rs)" using Cons.prems by simp
  have out: "lookup_default [] previous org = r \<longleftrightarrow> \<not> outdated previous (org, r)" by (simp add: outdated_def)
  show ?case unfolding p publish_loop.simps key out Let_def using Cons.IH [OF d] upd
    by (cases "outdated previous (org, r)"; cases "sink (hint_key st org) r") simp_all
qed simp

lemma fold_update_map_of:
  assumes "distinct (map fst ps)"
  shows "map_of (fold (\<lambda>p. AList.update (fst p) (snd p)) ps al) k = (case map_of ps k of None \<Rightarrow> map_of al k | Some v \<Rightarrow> Some v)"
  using assms by (induction ps arbitrary: al) (auto simp: update_conv map_of_eq_None_iff image_iff split: option.split)

text \<open>
  One pass of the publisher attempts exactly the outdated organizations, once each, in their
  order; it reports success only when every write succeeded; afterwards it remembers, for each
  organization of the source, its current revision where that was written or remembered already,
  and what it remembered before where the write failed, so that the next pass attempts it again;
  organizations that vanished are forgotten.
\<close>

theorem publisher_step_exact:
  assumes "distinct (map fst rs)" "Publisher_step sink (Inr rs) p = (err, p', log)"
  shows "log = map (\<lambda>q. (fst q, snd q, sink (hint_key (pb_station p) (fst q)) (snd q))) (filter (outdated (pb_last p)) (sort_key fst rs)) \<and>
    (err = None \<longleftrightarrow> (\<forall>e \<in> set log. snd (snd e))) \<and> pb_station p' = pb_station p \<and>
    (\<forall>org. lookup_default [] (pb_last p') org =
       (case map_of rs org of
          None \<Rightarrow> []
        | Some r \<Rightarrow> if sink (hint_key (pb_station p) org) r then r else lookup_default [] (pb_last p) org))"
proof -
  define todo where "todo = filter (outdated (pb_last p)) (sort_key fst rs)"
  define sent where "sent = filter (\<lambda>q. outdated (pb_last p) q \<and> sink (hint_key (pb_station p) (fst q)) (snd q)) (sort_key fst rs)"
  define kept where "kept = fold (\<lambda>q. AList.update (fst q) (snd q)) sent (pb_last p)"
  have d: "distinct (map fst (sort_key fst rs))"
    using assms(1) by (metis distinct_map distinct_sort set_sort)
  have r: "err = (if list_all (\<lambda>q. sink (hint_key (pb_station p) (fst q)) (snd q)) todo then None else Some SUnavailable)"
      "p' = p\<lparr>pb_last := filter (\<lambda>(org, _). org \<in> fst ` set rs) kept\<rparr>"
      "log = map (\<lambda>q. (fst q, snd q, sink (hint_key (pb_station p) (fst q)) (snd q))) todo"
    using assms(2) unfolding Publisher_step_def sum.case publish_loop_spec [OF d] prod.case todo_def sent_def kept_def by simp_all
  have look: "map_of sent org = Some x \<longleftrightarrow> map_of rs org = Some x \<and> outdated (pb_last p) (org, x) \<and> sink (hint_key (pb_station p) org) x" for org x
  proof -
    have "distinct (map fst sent)" using d unfolding sent_def by (simp add: distinct_map_filter)
    then show ?thesis using assms(1) by (simp add: sent_def map_of_eq_Some_iff)
  qed
  have "lookup_default [] (pb_last p') org =
      (case map_of rs org of None \<Rightarrow> [] | Some x \<Rightarrow> if sink (hint_key (pb_station p) org) x then x else lookup_default [] (pb_last p) org)" for org
  proof (cases "map_of rs org")
    case None
    moreover have "org \<notin> fst ` set rs" using None by (simp add: map_of_eq_None_iff)
    ultimately show ?thesis using r(2) by (simp add: lookup_default_def map_of_filter_key)
  next
    case (Some x)
    have "distinct (map fst sent)" using d unfolding sent_def by (simp add: distinct_map_filter)
    from fold_update_map_of [OF this, of "pb_last p" org]
    have "map_of kept org = (case map_of sent org of None \<Rightarrow> map_of (pb_last p) org | Some v \<Rightarrow> Some v)" by (simp add: kept_def)
    moreover have "map_of (pb_last p') org = map_of kept org" using r(2) Some by (simp add: map_of_filter_key) (metis map_of_SomeD image_eqI fst_conv)
    ultimately have l: "map_of (pb_last p') org = (case map_of sent org of None \<Rightarrow> map_of (pb_last p) org | Some v \<Rightarrow> Some v)" by simp
    show ?thesis
    proof (cases "outdated (pb_last p) (org, x) \<and> sink (hint_key (pb_station p) org) x")
      case True
      then have "map_of sent org = Some x" using look Some by blast
      with l True Some show ?thesis by (simp add: lookup_default_def)
    next
      case False
      then have "map_of sent org = None" using look Some by (metis option.exhaust option.inject)
      with l False Some show ?thesis unfolding outdated_def by (auto simp: lookup_default_def)
    qed
  qed
  then show ?thesis using r by (auto simp: todo_def list_all_iff split: if_split_asm)
qed

section \<open>Witnesses\<close>

definition demo_tables :: state_tables where
  "demo_tables = \<lparr>sx_organizations = [''o'', ''p''], sx_scopes = [((''s'', ''o''), 4)], sx_items = [((''s'', ''o'', ''a''), 4)],
     sx_catalog = [(''s'', ''a''), (''s'', ''b''), (''t'', ''a'')]\<rparr>"

definition demo_libs :: memory_ext where
  "demo_libs = \<lparr>me_uuid = (\<lambda>v. Some \<lparr>uuid_String = v, uuid_Version = 7, uuid_RFC4122 = True, uuid_Nil = False\<rparr>),
     me_dns1123 = (\<lambda>v. v \<noteq> []), me_metadata_digest = (\<lambda>_. ''d''), me_digest = (\<lambda>_. ''sha256:0'')\<rparr>"

lemma demo_tables_inv: "tables_inv demo_tables"
  by (auto simp: tables_inv_def scope_rev_def item_rev_def demo_tables_def lookup_default_def)

theorem sync_marks_changes_witness:
  "catalog_rows ''s'' (snd (SyncCatalog demo_libs ''s'' False False [''c'', ''a''] demo_tables)) = [''a'', ''c''] \<and>
   4 < item_rev (snd (SyncCatalog demo_libs ''s'' False False [''c'', ''a''] demo_tables)) (''s'', ''o'', ''c'') \<and>
   item_rev (snd (SyncCatalog demo_libs ''s'' False False [''c'', ''a''] demo_tables)) (''s'', ''o'', ''a'') = 4"
proof -
  obtain t' where t': "SyncCatalog demo_libs ''s'' False False [''c'', ''a''] demo_tables = (None, t')" "catalog_rows ''s'' t' = [''a'', ''c'']"
  proof (cases "SyncCatalog demo_libs ''s'' False False [''c'', ''a''] demo_tables")
    case (Pair e t')
    have "fst (SyncCatalog demo_libs ''s'' False False [''c'', ''a''] demo_tables) = None \<and>
        catalog_rows ''s'' (snd (SyncCatalog demo_libs ''s'' False False [''c'', ''a''] demo_tables)) = [''a'', ''c'']" by code_simp
    with Pair that show ?thesis by simp
  qed
  have d: "distinct (sx_organizations demo_tables)" by code_simp
  have old: "''c'' \<notin> set (catalog_rows ''s'' demo_tables)" "''a'' \<in> set (catalog_rows ''s'' demo_tables)" "''o'' \<in> set (sx_organizations demo_tables)"
      "scope_rev demo_tables (''s'', ''o'') = 4" "item_rev demo_tables (''s'', ''o'', ''a'') = 4"
    by code_simp+
  note marks = sync_marks_changes [OF demo_tables_inv d t'(1), THEN conjunct2, THEN conjunct2, THEN conjunct2, THEN conjunct1, THEN spec, THEN spec]
  have "4 < item_rev t' (''s'', ''o'', ''c'')" "item_rev t' (''s'', ''o'', ''a'') = 4"
    using marks [of "''o''" "''c''"] marks [of "''o''" "''a''"] old by simp_all
  with t' show ?thesis by simp
qed

definition demo_reader :: IdentityContext where
  "demo_reader = \<lparr>ic_RequestID = ''q'', ic_StationID = ''s'', ic_SessionID = ''n'', ic_UserID = ''u'', ic_Username = ''n'', ic_OrganizationID = ''o'',
     ic_OrganizationName = ''o'', ic_Roles = [''admin''], ic_Scopes = [''app:read''], ic_IssuedAt = 0, ic_ExpiresAt = 9,
     ic_RevocationVersion = 1, ic_PolicyVersion = 1\<rparr>"

definition demo_row :: "string \<Rightarrow> string \<Rightarrow> string \<Rightarrow> string \<Rightarrow> Ops_Types.Installation" where
  "demo_row i app org st = \<lparr>in_InstallationID = i, in_AppID = app, in_AppVersion = ''1.0.0'', in_StationID = ''s'', in_OrganizationID = org,
     in_State = st, in_Revision = 1, in_LastOperationID = ''x'', in_CreatedAt = 0, in_UpdatedAt = 0\<rparr>"

definition demo_submitted :: op_row where
  "demo_submitted = \<lparr>op_ID = ''x'', op_RequestID = ''q'', op_user = ''u'', op_org = ''o'', op_station = ''s'', op_app = ''a'', op_version = ''1.0.0'',
     op_action = ''stop'', op_status = ''running'', op_phase = ''stopping'', op_downloaded = 0, op_total = None, op_error_code = None,
     op_error_message = None, op_key = ''k'', op_hash = [], op_updated = 1, op_expected_uid = [], op_installation = ''i''\<rparr>"

definition demo_state_db :: station_db where
  "demo_state_db = \<lparr>d_installations = [demo_row ''i'' ''a'' ''o'' ''installed'', demo_row ''j'' ''b'' ''o'' ''removed'', demo_row ''k'' ''b'' ''p'' ''installed''],
     d_operations = [demo_submitted], d_transitions = [], d_forwards = [], d_proofs = [], d_inst_bindings = [], d_op_bindings = [], d_inputs = [], d_audit = []\<rparr>"

definition demo_state_env :: state_env where
  "demo_state_env = \<lparr>se_ext = demo_libs, se_scope = (\<lambda>_ _. ''x''), se_size = (\<lambda>_. 1000), se_pool = True, se_down = False, se_refused = False, se_now = 5\<rparr>"

definition demo_empty_memory :: Memory where
  "demo_empty_memory = \<lparr>m_station = ''s'', m_boot = ''b'', m_collectors = [], m_bindings = [], m_scopeRevision = [], m_legacy = [], m_sessions = []\<rparr>"

definition demo_state :: "(state_error + StateSnapshot) \<times> Memory" where
  "demo_state = state_Snapshot demo_state_env ''s'' demo_reader [] demo_tables demo_state_db demo_empty_memory"

lemma demo_state:
  obtains out m' where "demo_state = (Inr out, m')"
    "map (\<lambda>x. (stm_AppID x, stm_InstallationID x, map_option sto_OperationID (stm_Operation x))) (sts_Items out) =
       [(''a'', Some ''i'', Some ''x''), (''b'', None, None)]"
proof -
  define f where "f = (\<lambda>out :: StateSnapshot. map (\<lambda>x. (stm_AppID x, stm_InstallationID x, map_option sto_OperationID (stm_Operation x))) (sts_Items out))"
  have "(case fst demo_state of Inl _ \<Rightarrow> None | Inr out \<Rightarrow> Some (f out)) = Some [(''a'', Some ''i'', Some ''x''), (''b'', None, None)]"
    unfolding f_def by code_simp
  moreover obtain z m' where z: "demo_state = (z, m')" by (cases demo_state)
  ultimately show ?thesis using that unfolding f_def z fst_conv by (cases z) auto
qed

theorem state_snapshot_exact_witness:
  "installed_row ''s'' ''o'' demo_state_db ''a'' ''i'' \<and> vacant_row ''s'' ''o'' demo_tables demo_state_db ''b'' \<and>
   \<not> installed_row ''s'' ''o'' demo_state_db ''b'' ''k''"
proof -
  obtain out m' where o: "demo_state = (Inr out, m')" and items: "map (\<lambda>x. (stm_AppID x, stm_InstallationID x, map_option sto_OperationID (stm_Operation x))) (sts_Items out) =
       [(''a'', Some ''i'', Some ''x''), (''b'', None, None)]" by (rule demo_state)
  have ids: "\<forall>v \<in> set (d_installations demo_state_db). in_InstallationID v \<noteq> []" by code_simp
  have org: "ic_OrganizationID demo_reader = ''o''" by (simp add: demo_reader_def)
  from items obtain x y where xy: "sts_Items out = [x, y]" "stm_AppID x = ''a''" "stm_InstallationID x = Some ''i''" "stm_AppID y = ''b''" "stm_InstallationID y = None"
    by auto
  note exact = state_snapshot_exact [OF o [unfolded demo_state_def] ids, unfolded org]
  show ?thesis
    using exact [THEN conjunct1, THEN spec, THEN spec, of "''a''" "''i''"] exact [THEN conjunct1, THEN spec, THEN spec, of "''b''" "''k''"]
      exact [THEN conjunct2, THEN spec, of "''b''"] xy by simp
qed

theorem state_operations_private_witness:
  "own_operation ''s'' ''o'' ''u'' demo_state_db ''x''"
proof -
  obtain out m' where o: "demo_state = (Inr out, m')" and items: "map (\<lambda>x. (stm_AppID x, stm_InstallationID x, map_option sto_OperationID (stm_Operation x))) (sts_Items out) =
       [(''a'', Some ''i'', Some ''x''), (''b'', None, None)]" by (rule demo_state)
  from items obtain x y c where "sts_Items out = [x, y]" and x: "stm_Operation x = Some c" "sto_OperationID c = ''x''" by auto
  then have i: "x \<in> set (sts_Items out)" by simp
  have user: "ic_OrganizationID demo_reader = ''o''" "ic_UserID demo_reader = ''u''" by (simp_all add: demo_reader_def)
  from state_operations_private [OF o [unfolded demo_state_def] i, unfolded user] x show ?thesis by auto
qed

theorem publisher_step_exact_witness:
  "pb_last (fst (snd (Publisher_step (\<lambda>k _. k \<noteq> hint_key ''s'' ''p'') (Inr [(''p'', ''2''), (''o'', ''1'')]) \<lparr>pb_station = ''s'', pb_last = [(''z'', ''0'')]\<rparr>))) =
     [(''o'', ''1'')] \<and>
   lookup_default [] (pb_last (fst (snd (Publisher_step (\<lambda>k _. k \<noteq> hint_key ''s'' ''p'') (Inr [(''p'', ''2''), (''o'', ''1'')])
     \<lparr>pb_station = ''s'', pb_last = [(''z'', ''0'')]\<rparr>)))) ''p'' = []"
proof -
  let ?r = "Publisher_step (\<lambda>k _. k \<noteq> hint_key ''s'' ''p'') (Inr [(''p'', ''2''), (''o'', ''1'')]) \<lparr>pb_station = ''s'', pb_last = [(''z'', ''0'')]\<rparr>"
  obtain err p' log where r: "?r = (err, p', log)" by (cases ?r)
  have "pb_last (fst (snd ?r)) = [(''o'', ''1'')]" by code_simp
  moreover have "distinct (map fst [(''p'', ''2''), (''o'', ''1'')])" by code_simp
  ultimately show ?thesis using publisher_step_exact [OF _ r] r by (simp add: lookup_default_def)
qed

end
