(* ===== verification/Namespace_Migration.thy ===== *)
theory Namespace_Migration
  imports State_Store "HOL-Library.Sublist"
begin

text \<open>
  The migration of an application to another namespace (\<^verbatim>\<open>internal/operations/namespace_migration.go\<close>):
  the validation of the request, the rewriting of JSON states, and the transaction over the tables
  of workspaces, starts and executions (\<^verbatim>\<open>migrations/0007\<close>, \<^verbatim>\<open>0008\<close> and \<^verbatim>\<open>0012\<close>). A \<open>jsonb\<close> column is the
  value it holds; its numbers are their literals. A failed transaction changes nothing.
\<close>

section \<open>JSON values\<close>

datatype value_json = VObj "(string \<times> value_json) list" | VArr "value_json list" | VStr string | VNum string | VBool bool | VNull

text \<open>\<open>strings.Contains\<close> and \<open>strings.ReplaceAll\<close> for a pattern that is not empty.\<close>

fun strings_Contains :: "string \<Rightarrow> string \<Rightarrow> bool" where
  "strings_Contains [] p \<longleftrightarrow> p = []"
| "strings_Contains (c # cs) p \<longleftrightarrow> prefix p (c # cs) \<or> strings_Contains cs p"

function ReplaceAll :: "string \<Rightarrow> string \<Rightarrow> string \<Rightarrow> string" where
  "ReplaceAll p q [] = []"
| "ReplaceAll p q (c # cs) =
     (if p \<noteq> [] \<and> prefix p (c # cs) then q @ ReplaceAll p q (drop (length p) (c # cs)) else c # ReplaceAll p q cs)"
  by pat_completeness auto
termination by (relation "measure (\<lambda>(p, q, s). length s)") (auto simp: Suc_le_eq)

definition cluster_suffix :: "string \<Rightarrow> string" where
  "cluster_suffix ns = ''.'' @ ns @ ''.svc.cluster.local''"

text \<open>What the loop over the members of an object does with one of them, given its rewritten child.\<close>

definition rewrite_member :: "string \<Rightarrow> string \<Rightarrow> string \<Rightarrow> string \<Rightarrow> value_json \<Rightarrow> value_json \<times> bool \<Rightarrow> value_json \<times> bool" where
  "rewrite_member source target secret key child inner =
     (case child of
        VStr text \<Rightarrow>
          if key = ''namespace'' \<and> text = source \<and> source \<noteq> target then (VStr target, True)
          else if key = ''secret_uid'' \<and> secret \<noteq> [] \<and> text \<noteq> secret then (VStr secret, True)
          else if source \<noteq> target \<and> strings_Contains text (cluster_suffix source)
               then (VStr (ReplaceAll (cluster_suffix source) (cluster_suffix target) text), True)
          else inner
      | _ \<Rightarrow> inner)"

text \<open>The value after the rewriting in place, and whether anything was changed.\<close>

fun rewriteMigratedValue :: "string \<Rightarrow> string \<Rightarrow> string \<Rightarrow> value_json \<Rightarrow> value_json \<times> bool" where
  "rewriteMigratedValue source target secret (VObj ms) =
     (let rs = map (\<lambda>m. (fst m, rewrite_member source target secret (fst m) (snd m) (rewriteMigratedValue source target secret (snd m)))) ms
      in (VObj (map (\<lambda>(k, v, _). (k, v)) rs), list_ex (\<lambda>(_, _, changed). changed) rs))"
| "rewriteMigratedValue source target secret (VArr vs) =
     (let rs = map (rewriteMigratedValue source target secret) vs in (VArr (map fst rs), list_ex snd rs))"
| "rewriteMigratedValue source target secret v = (v, False)"

datatype migration_error = MInvalid | MConflict | MDatabase | MState | MHex | MPanic

text \<open>
  \<open>None\<close> is a null column. A JSON text that is no object, other than \<^verbatim>\<open>null\<close>, does not decode into a
  map. The result is the text to be written and whether it was changed.
\<close>

definition rewriteExecutionState :: "value_json option \<Rightarrow> string \<Rightarrow> string \<Rightarrow> string \<Rightarrow> migration_error + value_json \<times> bool" where
  "rewriteExecutionState raw source target secret =
     (case raw of
        None \<Rightarrow> Inr (VObj [], False)
      | Some (VObj ms) \<Rightarrow> Inr (rewriteMigratedValue source target secret (VObj ms))
      | Some VNull \<Rightarrow> Inr (VNull, False)
      | _ \<Rightarrow> Inl MState)"

section \<open>Requests\<close>

record NamespaceMigrationWorkspace =
  nw_PVCName :: string
  nw_NewPVCUID :: string
  nw_NewProfileHash :: string
  nw_NewSecretUID :: string

record NamespaceMigrationRequest =
  nr_AppID :: string
  nr_InstallationID :: string
  nr_SourceNamespace :: string
  nr_TargetNamespace :: string
  nr_Workspaces :: "NamespaceMigrationWorkspace list"

record MigratedWorkspaceSummary =
  mw_Table :: string
  mw_InstanceID :: string
  mw_Namespace :: string
  mw_PVCName :: string
  mw_PVCUID :: string
  mw_PVName :: string
  mw_PVUID :: string
  mw_ProfileHash :: string

record NamespaceMigrationResult =
  nm_AppID :: string
  nm_InstallationID :: string
  nm_InstallationState :: string
  nm_InstallationRevision :: int
  nm_SourceNamespace :: string
  nm_TargetNamespace :: string
  nm_UpdatedAppInstanceWorkspaces :: nat
  nm_UpdatedAppInstanceStarts :: nat
  nm_UpdatedRuntimeInstanceWorkspaces :: nat
  nm_UpdatedRuntimeInstanceExecutions :: nat
  nm_Workspaces :: "MigratedWorkspaceSummary list"

definition validDNSLabel :: "string \<Rightarrow> bool" where
  "validDNSLabel v \<longleftrightarrow> length v > 0 \<and> length v \<le> 63 \<and> appIDPattern v"

definition hexHashPattern :: "string \<Rightarrow> bool" where
  "hexHashPattern s \<longleftrightarrow> length s = 64 \<and> list_all is_hex_lower s"

definition normalizeHexProfileHash :: "string \<Rightarrow> string option" where
  "normalizeHexProfileHash raw =
     (if raw = [] then Some []
      else let trimmed = ToLower (TrimPrefix (TrimSpace raw) ''sha256:'')
           in if hexHashPattern trimmed then Some trimmed else None)"

fun workspaces_valid :: "uuid_parser \<Rightarrow> string list \<Rightarrow> NamespaceMigrationWorkspace list \<Rightarrow> bool" where
  "workspaces_valid parse seen [] = True"
| "workspaces_valid parse seen (w # ws) =
     (if \<not> validDNSLabel (nw_PVCName w) \<or> nw_PVCName w \<in> set seen then False
      else if nw_NewPVCUID w \<noteq> [] \<and> \<not> validID parse (nw_NewPVCUID w) then False
      else if nw_NewSecretUID w \<noteq> [] \<and> \<not> validID parse (nw_NewSecretUID w) then False
      else if normalizeHexProfileHash (nw_NewProfileHash w) = None then False
      else workspaces_valid parse (nw_PVCName w # seen) ws)"

definition ValidateNamespaceMigrationRequest :: "uuid_parser \<Rightarrow> NamespaceMigrationRequest \<Rightarrow> bool" where
  "ValidateNamespaceMigrationRequest parse req =
     (if \<not> validDNSLabel (nr_AppID req) \<or> \<not> validDNSLabel (nr_SourceNamespace req) \<or> \<not> validDNSLabel (nr_TargetNamespace req) then False
      else if nr_InstallationID req \<noteq> [] \<and> \<not> validID parse (nr_InstallationID req) then False
      else if length (nr_Workspaces req) > 128 then False
      else workspaces_valid parse [] (nr_Workspaces req))"

section \<open>Tables\<close>

record app_workspace =
  aw_instance :: string
  aw_station :: string
  aw_installation :: string
  aw_profile_hash :: string
  aw_namespace :: string
  aw_pvc_name :: string
  aw_pvc_uid :: string
  aw_pv_name :: string
  aw_pv_uid :: string
  aw_binding :: "value_json option"
  aw_updated :: gotime

record app_start =
  as_operation :: string
  as_instance :: string
  as_profile_hash :: string
  as_observation :: "(string \<times> value_json) list"
  as_updated :: gotime

record runtime_workspace =
  rw_instance :: string
  rw_station :: string
  rw_profile_hash :: string
  rw_namespace :: string
  rw_pvc_name :: string
  rw_pvc_uid :: string
  rw_pv_name :: string
  rw_pv_uid :: string

record runtime_execution =
  rx_operation :: string
  rx_instance :: string
  rx_profile_hash :: string
  rx_state :: "value_json option"
  rx_created :: gotime
  rx_updated :: gotime

record migration_tables =
  mt_app :: "app_workspace list"
  mt_starts :: "app_start list"
  mt_runtime :: "runtime_workspace list"
  mt_executions :: "runtime_execution list"

text \<open>
  The environment: which tables, constraints and functions the database has, the constraint
  \<^verbatim>\<open>app_instance_workspace_binding_match\<close> that no migration of this repository defines, the literal
  of a number that passes through a \<open>float64\<close> (\<open>VNull\<close> when it is out of range), whether the
  database fails, the time \<open>now()\<close> of the transaction, and the clock of the process that resets the
  memory afterwards. Whether the table of workspaces has a column \<open>updated_at\<close> is looked up too; where
  it has none, \<open>aw_updated\<close> stands for nothing and no statement writes it. The two \<open>HexCheck\<close> flags tell whether the columns \<open>profile_hash\<close> have
  the checks of the migration \<^verbatim>\<open>0012\<close>.
\<close>

record migration_env =
  me_parse :: uuid_parser
  me_station :: string
  me_pool :: bool
  me_fails :: bool
  me_hasInstallations :: bool
  me_hasMark :: bool
  me_hasAppWorkspaces :: bool
  me_hasAppStarts :: bool
  me_hasRuntimeWorkspaces :: bool
  me_hasRuntimeExecutions :: bool
  me_hasBindingMatch :: bool
  me_bindingMatch :: "app_workspace \<Rightarrow> bool"
  me_hasWorkspaceUpdatedAt :: bool
  me_hasWorkspaceHexCheck :: bool
  me_hasStartsHexCheck :: bool
  me_float :: "string \<Rightarrow> value_json"
  me_hasStates :: bool
  me_txnow :: gotime
  me_now :: gotime

definition app_table_ok :: "migration_env \<Rightarrow> app_workspace list \<Rightarrow> bool" where
  "app_table_ok env rows \<longleftrightarrow> distinct (map aw_pvc_uid rows) \<and> distinct (map (\<lambda>r. (aw_station r, aw_namespace r, aw_pvc_name r)) rows) \<and>
     (me_hasWorkspaceHexCheck env \<longrightarrow> list_all (\<lambda>r. hexHashPattern (aw_profile_hash r)) rows) \<and>
     (me_hasBindingMatch env \<longrightarrow> list_all (me_bindingMatch env) rows)"

definition starts_table_ok :: "migration_env \<Rightarrow> app_start list \<Rightarrow> bool" where
  "starts_table_ok env rows \<longleftrightarrow> (me_hasStartsHexCheck env \<longrightarrow> list_all (\<lambda>r. hexHashPattern (as_profile_hash r)) rows)"

definition runtime_table_ok :: "runtime_workspace list \<Rightarrow> bool" where
  "runtime_table_ok rows \<longleftrightarrow> distinct (map rw_pvc_uid rows) \<and> distinct (map (\<lambda>r. (rw_station r, rw_namespace r, rw_pvc_name r)) rows) \<and>
     list_all (\<lambda>r. length (rw_profile_hash r) = 32) rows"

section \<open>Workspaces of applications\<close>

definition app_matches :: "migration_env \<Rightarrow> NamespaceMigrationRequest \<Rightarrow> NamespaceMigrationWorkspace \<Rightarrow> app_workspace \<Rightarrow> bool" where
  "app_matches env req w r \<longleftrightarrow> (me_station env = [] \<or> aw_station r = me_station env) \<and> aw_pvc_name r = nw_PVCName w \<and>
     (aw_namespace r = nr_SourceNamespace req \<or> aw_namespace r = nr_TargetNamespace req) \<and>
     (nr_InstallationID req = [] \<or> aw_installation r = nr_InstallationID req)"

definition HasPrefix_sha256 :: "string \<Rightarrow> bool" where
  "HasPrefix_sha256 s = prefix ''sha256:'' s"

definition effective_uid :: "NamespaceMigrationWorkspace \<Rightarrow> string \<Rightarrow> string" where
  "effective_uid w uid = (if nw_NewPVCUID w \<noteq> [] then nw_NewPVCUID w else uid)"

definition effective_hash :: "migration_env \<Rightarrow> NamespaceMigrationWorkspace \<Rightarrow> string \<Rightarrow> string \<Rightarrow> string" where
  "effective_hash env w hexHash hash =
     (if hexHash \<noteq> [] then
        if \<not> me_hasWorkspaceHexCheck env \<and> HasPrefix_sha256 (nw_NewProfileHash w) \<and> (me_hasBindingMatch env \<or> HasPrefix_sha256 hash)
        then nw_NewProfileHash w else hexHash
      else hash)"

text \<open>\<open>json.Unmarshal\<close> turns every number into a \<open>float64\<close>.\<close>

fun through_float :: "(string \<Rightarrow> value_json) \<Rightarrow> value_json \<Rightarrow> value_json" where
  "through_float f (VObj ms) = VObj (map (\<lambda>m. (fst m, through_float f (snd m))) ms)"
| "through_float f (VArr vs) = VArr (map (through_float f) vs)"
| "through_float f (VNum n) = f n"
| "through_float f v = v"

text \<open>
  The members of the binding; \<open>None\<close> is the panic of an assignment to the nil map that \<^verbatim>\<open>null\<close> decodes
  to. A text that is no object leaves the map empty.
\<close>

definition binding_members :: "migration_env \<Rightarrow> value_json option \<Rightarrow> (string \<times> value_json) list option" where
  "binding_members env binding =
     (case binding of
        None \<Rightarrow> Some []
      | Some b \<Rightarrow> (case through_float (me_float env) b of VObj ms \<Rightarrow> Some ms | VNull \<Rightarrow> None | _ \<Rightarrow> Some []))"

definition new_binding_members ::
  "migration_env \<Rightarrow> string \<Rightarrow> string \<Rightarrow> string \<Rightarrow> string \<Rightarrow> string \<Rightarrow> (string \<times> value_json) list \<Rightarrow> (string \<times> value_json) list" where
  "new_binding_members env uid hash target pvc pv ms =
     (let b1 = AList.update ''profile_hash'' (VStr hash) (AList.update ''pvc_uid'' (VStr uid) ms);
          b2 = (if map_of b1 ''namespace'' \<noteq> None \<or> me_hasBindingMatch env then AList.update ''namespace'' (VStr target) b1 else b1)
      in if me_hasBindingMatch env then AList.update ''pv_name'' (VStr pv) (AList.update ''pvc_name'' (VStr pvc) b2) else b2)"

text \<open>The row after the update.\<close>

definition migrated_app :: "migration_env \<Rightarrow> NamespaceMigrationRequest \<Rightarrow> NamespaceMigrationWorkspace \<Rightarrow> string \<Rightarrow> app_workspace \<Rightarrow> app_workspace option" where
  "migrated_app env req w hexHash r =
     (let uid = effective_uid w (aw_pvc_uid r); hash = effective_hash env w hexHash (aw_profile_hash r)
      in map_option (\<lambda>ms. r\<lparr>aw_namespace := nr_TargetNamespace req, aw_pvc_uid := uid, aw_profile_hash := hash,
                           aw_binding := Some (VObj (new_binding_members env uid hash (nr_TargetNamespace req) (nw_PVCName w) (aw_pv_name r) ms)),
                           aw_updated := (if me_hasWorkspaceUpdatedAt env then me_txnow env else aw_updated r)\<rparr>)
           (binding_members env (aw_binding r)))"

definition start_hash :: "migration_env \<Rightarrow> NamespaceMigrationWorkspace \<Rightarrow> string \<Rightarrow> string" where
  "start_hash env w hexHash =
     (if hexHash \<noteq> [] \<and> \<not> me_hasStartsHexCheck env \<and> HasPrefix_sha256 (nw_NewProfileHash w) \<and> me_hasBindingMatch env
      then nw_NewProfileHash w else hexHash)"

definition migrated_start :: "gotime \<Rightarrow> string \<Rightarrow> string \<Rightarrow> app_start \<Rightarrow> app_start" where
  "migrated_start now hash secret r =
     r\<lparr>as_profile_hash := (if hash \<noteq> [] then hash else as_profile_hash r),
       as_observation := (if secret \<noteq> [] \<and> map_of (as_observation r) ''secret_uid'' \<noteq> None
                          then AList.update ''secret_uid'' (VStr secret) (as_observation r) else as_observation r),
       as_updated := now\<rparr>"

definition update_starts ::
  "migration_env \<Rightarrow> NamespaceMigrationWorkspace \<Rightarrow> string \<Rightarrow> string \<Rightarrow> migration_tables \<times> NamespaceMigrationResult
     \<Rightarrow> migration_error + migration_tables \<times> NamespaceMigrationResult" where
  "update_starts env w hexHash instance x =
     (case x of (t, out) \<Rightarrow>
        if me_hasAppStarts env \<and> (hexHash \<noteq> [] \<or> nw_NewSecretUID w \<noteq> []) then
          (let hash = start_hash env w hexHash;
               rows = map (\<lambda>s. if as_instance s = instance then migrated_start (me_txnow env) hash (nw_NewSecretUID w) s else s) (mt_starts t)
           in if starts_table_ok env rows
              then Inr (t\<lparr>mt_starts := rows\<rparr>,
                        out\<lparr>nm_UpdatedAppInstanceStarts := nm_UpdatedAppInstanceStarts out + length (filter (\<lambda>s. as_instance s = instance) (mt_starts t))\<rparr>)
              else Inl MDatabase)
        else Inr (t, out))"

definition migrate_app_row ::
  "migration_env \<Rightarrow> NamespaceMigrationRequest \<Rightarrow> NamespaceMigrationWorkspace \<Rightarrow> string \<Rightarrow> app_workspace \<Rightarrow> migration_tables \<times> NamespaceMigrationResult
     \<Rightarrow> migration_error + migration_tables \<times> NamespaceMigrationResult" where
  "migrate_app_row env req w hexHash r x =
     (case x of (t, out) \<Rightarrow>
        case migrated_app env req w hexHash r of
          None \<Rightarrow> Inl MPanic
        | Some r' \<Rightarrow>
            (let rows = map (\<lambda>q. if aw_instance q = aw_instance r then q\<lparr>aw_namespace := aw_namespace r', aw_pvc_uid := aw_pvc_uid r',
                                   aw_profile_hash := aw_profile_hash r', aw_binding := aw_binding r', aw_updated := aw_updated r'\<rparr> else q) (mt_app t);
                 count = length (filter (\<lambda>q. aw_instance q = aw_instance r) (mt_app t));
                 summary = \<lparr>mw_Table = ''station.app_instance_workspaces'', mw_InstanceID = aw_instance r, mw_Namespace = nr_TargetNamespace req,
                            mw_PVCName = nw_PVCName w, mw_PVCUID = aw_pvc_uid r', mw_PVName = aw_pv_name r, mw_PVUID = aw_pv_uid r,
                            mw_ProfileHash = aw_profile_hash r'\<rparr>
             in if \<not> app_table_ok env rows then Inl MDatabase
                else update_starts env w hexHash (aw_instance r)
                       (t\<lparr>mt_app := rows\<rparr>,
                        out\<lparr>nm_UpdatedAppInstanceWorkspaces := nm_UpdatedAppInstanceWorkspaces out + count, nm_Workspaces := nm_Workspaces out @ [summary]\<rparr>)))"

text \<open>A loop over rows that stops at the first error.\<close>

fun each :: "('a \<Rightarrow> 's \<Rightarrow> 'e + 's) \<Rightarrow> 'a list \<Rightarrow> 's \<Rightarrow> 'e + 's" where
  "each f [] s = Inr s"
| "each f (x # xs) s = (case f x s of Inl e \<Rightarrow> Inl e | Inr s' \<Rightarrow> each f xs s')"

section \<open>Workspaces of the runtime\<close>

definition runtime_matches :: "migration_env \<Rightarrow> NamespaceMigrationRequest \<Rightarrow> NamespaceMigrationWorkspace \<Rightarrow> runtime_workspace \<Rightarrow> bool" where
  "runtime_matches env req w r \<longleftrightarrow> (me_station env = [] \<or> rw_station r = me_station env) \<and> rw_pvc_name r = nw_PVCName w \<and>
     (rw_namespace r = nr_SourceNamespace req \<or> rw_namespace r = nr_TargetNamespace req)"

fun hex_value :: "char \<Rightarrow> int option" where
  "hex_value c =
     (if is_digit c then Some (of_char c - 48)
      else if char_between CHR ''a'' CHR ''f'' c then Some (of_char c - 87)
      else if char_between CHR ''A'' CHR ''F'' c then Some (of_char c - 55) else None)"

fun hex_DecodeString :: "string \<Rightarrow> string option" where
  "hex_DecodeString [] = Some []"
| "hex_DecodeString [c] = None"
| "hex_DecodeString (a # b # cs) =
     (case (hex_value a, hex_value b, hex_DecodeString cs) of
        (Some x, Some y, Some rest) \<Rightarrow> Some (char_of (16 * x + y) # rest)
      | _ \<Rightarrow> None)"

text \<open>The executions of an instance, in the order of their creation.\<close>

definition migrate_execution ::
  "gotime \<Rightarrow> string \<Rightarrow> string \<Rightarrow> string option \<Rightarrow> string \<Rightarrow> runtime_execution \<Rightarrow> runtime_execution list \<times> nat \<Rightarrow> migration_error + runtime_execution list \<times> nat" where
  "migrate_execution now source target hash secret r x =
     (case x of (rows, n) \<Rightarrow>
        case rewriteExecutionState (rx_state r) source target secret of
          Inl e \<Rightarrow> Inl e
        | Inr (state, changed) \<Rightarrow>
            if changed \<or> (case hash of None \<Rightarrow> False | Some h \<Rightarrow> h \<noteq> []) then
              Inr (map (\<lambda>q. if rx_operation q = rx_operation r
                            then q\<lparr>rx_profile_hash := (case hash of None \<Rightarrow> rx_profile_hash q | Some h \<Rightarrow> h), rx_state := Some state, rx_updated := now\<rparr> else q) rows,
                   n + length (filter (\<lambda>q. rx_operation q = rx_operation r) rows))
            else Inr (rows, n))"

definition migrateRuntimeExecutions ::
  "gotime \<Rightarrow> string \<Rightarrow> string \<Rightarrow> string \<Rightarrow> string option \<Rightarrow> string \<Rightarrow> runtime_execution list \<Rightarrow> migration_error + runtime_execution list \<times> nat" where
  "migrateRuntimeExecutions now instance source target hash secret rows =
     each (migrate_execution now source target hash secret)
       (sort_key (\<lambda>r. (rx_created r, rx_operation r)) (filter (\<lambda>r. rx_instance r = instance) rows)) (rows, 0)"

definition migrate_runtime_row ::
  "migration_env \<Rightarrow> NamespaceMigrationRequest \<Rightarrow> NamespaceMigrationWorkspace \<Rightarrow> string \<Rightarrow> runtime_workspace \<Rightarrow> migration_tables \<times> NamespaceMigrationResult
     \<Rightarrow> migration_error + migration_tables \<times> NamespaceMigrationResult" where
  "migrate_runtime_row env req w hexHash r x =
     (case x of (t, out) \<Rightarrow>
        (let uid = effective_uid w (rw_pvc_uid r); hex = (if hexHash \<noteq> [] then hexHash else hex_EncodeToString (rw_profile_hash r))
         in case hex_DecodeString hex of
              None \<Rightarrow> Inl MHex
            | Some hash \<Rightarrow>
                (let rows = map (\<lambda>q. if rw_instance q = rw_instance r
                                     then q\<lparr>rw_namespace := nr_TargetNamespace req, rw_pvc_uid := uid, rw_profile_hash := hash\<rparr> else q) (mt_runtime t);
                     count = length (filter (\<lambda>q. rw_instance q = rw_instance r) (mt_runtime t));
                     summary = \<lparr>mw_Table = ''station.runtime_instance_workspaces'', mw_InstanceID = rw_instance r, mw_Namespace = nr_TargetNamespace req,
                                mw_PVCName = nw_PVCName w, mw_PVCUID = uid, mw_PVName = rw_pv_name r, mw_PVUID = rw_pv_uid r, mw_ProfileHash = hex\<rparr>;
                     t1 = t\<lparr>mt_runtime := rows\<rparr>;
                     out1 = out\<lparr>nm_UpdatedRuntimeInstanceWorkspaces := nm_UpdatedRuntimeInstanceWorkspaces out + count,
                                nm_Workspaces := nm_Workspaces out @ [summary]\<rparr>
                 in if \<not> runtime_table_ok rows then Inl MDatabase
                    else if me_hasRuntimeExecutions env then
                      (case migrateRuntimeExecutions (me_txnow env) (rw_instance r) (nr_SourceNamespace req) (nr_TargetNamespace req)
                              (if hexHash \<noteq> [] then Some hash else None) (nw_NewSecretUID w) (mt_executions t) of
                         Inl e \<Rightarrow> Inl e
                       | Inr (execs, n) \<Rightarrow>
                           Inr (t1\<lparr>mt_executions := execs\<rparr>,
                                out1\<lparr>nm_UpdatedRuntimeInstanceExecutions := nm_UpdatedRuntimeInstanceExecutions out1 + n\<rparr>))
                    else Inr (t1, out1))))"

section \<open>The migration\<close>

definition migrate_workspace ::
  "migration_env \<Rightarrow> NamespaceMigrationRequest \<Rightarrow> NamespaceMigrationWorkspace \<Rightarrow> migration_tables \<times> NamespaceMigrationResult
     \<Rightarrow> migration_error + migration_tables \<times> NamespaceMigrationResult" where
  "migrate_workspace env req w x =
     (case normalizeHexProfileHash (nw_NewProfileHash w) of
        None \<Rightarrow> Inl MInvalid
      | Some hexHash \<Rightarrow>
          (case (if me_hasAppWorkspaces env
                 then each (migrate_app_row env req w hexHash) (sort_key aw_instance (filter (app_matches env req w) (mt_app (fst x)))) x
                 else Inr x) of
             Inl e \<Rightarrow> Inl e
           | Inr y \<Rightarrow>
               if me_hasRuntimeWorkspaces env
               then each (migrate_runtime_row env req w hexHash) (sort_key rw_instance (filter (runtime_matches env req w) (mt_runtime (fst y)))) y
               else Inr y))"

text \<open>The installation the request is about, and its mark; a mark that fails aborts the transaction.\<close>

definition active_installation :: "string \<Rightarrow> string \<Rightarrow> station_db \<Rightarrow> Ops_Types.Installation option" where
  "active_installation station app db =
     find (\<lambda>i. in_StationID i = station \<and> in_AppID i = app \<and> in_State i \<noteq> ''removed'') (d_installations db)"

definition inspect_installation ::
  "migration_env \<Rightarrow> NamespaceMigrationRequest \<Rightarrow> station_db \<Rightarrow> state_tables \<times> NamespaceMigrationResult
     \<Rightarrow> migration_error + state_tables \<times> NamespaceMigrationResult" where
  "inspect_installation env req db x =
     (case x of (t, out) \<Rightarrow>
        if \<not> me_hasInstallations env then Inr (t, out)
        else (case active_installation (me_station env) (nr_AppID req) db of
                None \<Rightarrow> Inr (t, out)
              | Some i \<Rightarrow>
                  if nr_InstallationID req \<noteq> [] \<and> nr_InstallationID req \<noteq> in_InstallationID i then Inl MConflict
                  else (let out' = out\<lparr>nm_InstallationID := in_InstallationID i, nm_InstallationState := in_State i, nm_InstallationRevision := in_Revision i\<rparr>
                        in if me_hasMark env then
                             (case mark_app_state (me_station env) (in_OrganizationID i) (nr_AppID req) t of
                                None \<Rightarrow> Inl MDatabase
                              | Some t' \<Rightarrow> Inr (t', out'))
                           else Inr (t, out'))))"

definition migration_start :: "NamespaceMigrationRequest \<Rightarrow> NamespaceMigrationResult" where
  "migration_start req =
     \<lparr>nm_AppID = nr_AppID req, nm_InstallationID = nr_InstallationID req, nm_InstallationState = [], nm_InstallationRevision = 0,
      nm_SourceNamespace = nr_SourceNamespace req, nm_TargetNamespace = nr_TargetNamespace req, nm_UpdatedAppInstanceWorkspaces = 0,
      nm_UpdatedAppInstanceStarts = 0, nm_UpdatedRuntimeInstanceWorkspaces = 0, nm_UpdatedRuntimeInstanceExecutions = 0, nm_Workspaces = []\<rparr>"

definition reset_states :: "migration_env \<Rightarrow> NamespaceMigrationRequest \<Rightarrow> Memory \<Rightarrow> Memory" where
  "reset_states env req m =
     (if me_hasStates env \<and> nr_AppID req \<noteq> [] \<and> nr_TargetNamespace req \<noteq> []
      then ResetAppBindings (nr_AppID req) (nr_TargetNamespace req) (me_now env) m else m)"

definition MigrateNamespace ::
  "migration_env \<Rightarrow> NamespaceMigrationRequest \<Rightarrow> station_db \<Rightarrow> state_tables \<times> migration_tables \<times> Memory
     \<Rightarrow> (migration_error + NamespaceMigrationResult) \<times> state_tables \<times> migration_tables \<times> Memory" where
  "MigrateNamespace env req db s =
     (case s of (st, t, m) \<Rightarrow>
        if \<not> ValidateNamespaceMigrationRequest (me_parse env) req then (Inl MInvalid, s)
        else if \<not> me_pool env then (Inr (migration_start req), st, t, reset_states env req m)
        else if me_fails env then (Inl MDatabase, s)
        else (case inspect_installation env req db (st, migration_start req) of
                Inl e \<Rightarrow> (Inl e, s)
              | Inr (st', out) \<Rightarrow>
                  (case each (migrate_workspace env req) (nr_Workspaces req) (t, out) of
                     Inl e \<Rightarrow> (Inl e, s)
                   | Inr (t', out') \<Rightarrow> (Inr out', st', t', reset_states env req m))))"

end
