(* ===== verification/Migration_Rewriting.thy ===== *)
theory Migration_Rewriting
  imports Namespace_Migration
begin

text \<open>
  The rewriting of stored states in the migration of a namespace: it reports a change exactly when
  there is one, and has nothing left to do afterwards.
\<close>

section \<open>Replacing the service suffix\<close>

lemma strings_Contains_sublist: "p \<noteq> [] \<Longrightarrow> strings_Contains s p \<longleftrightarrow> sublist p s"
  by (induction s) (auto simp: sublist_Cons_right)

text \<open>A prefix of the result comes from the text, or reaches into a replacement.\<close>

lemma ReplaceAll_prefix:
  "prefix y (ReplaceAll p q s) \<Longrightarrow> prefix y s \<or> (\<exists>y1 y2. y = y1 @ y2 \<and> y2 \<noteq> [] \<and> (prefix y2 q \<or> prefix q y2))"
proof (induction p q s arbitrary: y rule: ReplaceAll.induct)
  case (2 p q c cs)
  show ?case
  proof (cases "p \<noteq> [] \<and> prefix p (c # cs)")
    case True
    then have "prefix y (q @ ReplaceAll p q (drop (length p) (c # cs)))" using 2(3) by simp
    then have "y = [] \<or> prefix y q \<or> prefix q y" by (metis prefix_append prefixI)
    then show ?thesis by (cases "y = []") auto
  next
    case False
    then have "prefix y (c # ReplaceAll p q cs)" using 2(3) by auto
    then consider (empty) "y = []" | (next_char) y' where "y = c # y'" "prefix y' (ReplaceAll p q cs)" by (cases y) auto
    then show ?thesis
    proof cases
      case next_char
      from 2(2) [OF False next_char(2)] show ?thesis
      proof (elim disjE exE conjE)
        assume "prefix y' cs"
        then show ?thesis using next_char(1) by simp
      next
        fix y1 y2 assume "y' = y1 @ y2" "y2 \<noteq> []" "prefix y2 q"
        then show ?thesis using next_char(1) by (metis append_Cons)
      next
        fix y1 y2 assume "y' = y1 @ y2" "y2 \<noteq> []" "prefix q y2"
        then show ?thesis using next_char(1) by (metis append_Cons)
      qed
    qed simp
  qed
qed simp

text \<open>Patterns that leave no new occurrence behind, inside or across a replacement.\<close>

definition fresh_replacement :: "string \<Rightarrow> string \<Rightarrow> bool" where
  "fresh_replacement p q \<longleftrightarrow> p \<noteq> [] \<and>
     (\<forall>z. suffix z p \<longrightarrow> z \<noteq> [] \<longrightarrow> z \<noteq> p \<longrightarrow> \<not> prefix z q \<and> \<not> prefix q z) \<and>
     (\<forall>z. suffix z q \<longrightarrow> z \<noteq> [] \<longrightarrow> \<not> prefix p z \<and> \<not> prefix z p)"

lemma ReplaceAll_fresh:
  assumes "fresh_replacement p q"
  shows "\<not> sublist p (ReplaceAll p q s)"
  using assms
proof (induction p q s rule: ReplaceAll.induct)
  case (2 p q c cs)
  show ?case
  proof (cases "p \<noteq> [] \<and> prefix p (c # cs)")
    case True
    define rest where "rest = ReplaceAll p q (drop (length p) (c # cs))"
    have no: "\<not> sublist p rest" using 2(1) [OF True 2(3)] by (simp add: rest_def)
    have "\<not> sublist p (z @ rest)" if "suffix z q" for z
      using that
    proof (induction z)
      case Nil
      then show ?case using no by simp
    next
      case (Cons d z)
      have z: "suffix z q" using Cons.prems by (metis suffix_ConsD)
      have "\<not> prefix p (d # z) \<and> \<not> prefix (d # z) p" using 2(3) Cons.prems unfolding fresh_replacement_def by blast
      then have "\<not> prefix p ((d # z) @ rest)" by (metis prefix_append prefixI)
      then show ?case using Cons.IH [OF z] by (simp add: sublist_Cons_right)
    qed
    from this [of q] show ?thesis using True by (simp add: rest_def)
  next
    case False
    have no: "\<not> sublist p (ReplaceAll p q cs)" using 2(2) [OF False 2(3)] .
    have "\<not> prefix p (c # ReplaceAll p q cs)"
    proof
      assume "prefix p (c # ReplaceAll p q cs)"
      then obtain p' where p': "p = c # p'" "prefix p' (ReplaceAll p q cs)" using 2(3) by (cases p) (auto simp: fresh_replacement_def)
      from ReplaceAll_prefix [OF p'(2)] show False
      proof (elim disjE exE conjE)
        assume "prefix p' cs"
        then show False using False p'(1) by simp
      next
        fix y1 y2 assume "p' = y1 @ y2" "y2 \<noteq> []" "prefix y2 q"
        then show False using 2(3) p'(1) unfolding fresh_replacement_def by (metis append_Cons append_self_conv2 list.discI suffixI)
      next
        fix y1 y2 assume "p' = y1 @ y2" "y2 \<noteq> []" "prefix q y2"
        then show False using 2(3) p'(1) unfolding fresh_replacement_def by (metis append_Cons append_self_conv2 list.discI suffixI)
      qed
    qed
    with no False show ?thesis by (auto simp: sublist_Cons_right)
  qed
qed (auto simp: fresh_replacement_def)

lemma ReplaceAll_changes:
  assumes "p \<noteq> []" "\<not> prefix p q" "\<not> prefix q p"
  shows "sublist p s \<Longrightarrow> ReplaceAll p q s \<noteq> s"
  using assms
proof (induction p q s rule: ReplaceAll.induct)
  case (2 p q c cs)
  show ?case
  proof (cases "prefix p (c # cs)")
    case True
    then obtain rest where "c # cs = p @ rest" by (auto elim: prefixE)
    moreover have "q @ x \<noteq> p @ rest" for x using 2(5,6) by (metis prefixI prefix_same_cases)
    ultimately show ?thesis using 2(4) True by (metis ReplaceAll.simps(2))
  next
    case False
    then show ?thesis using 2 by (auto simp: sublist_Cons_right)
  qed
qed auto

lemma ReplaceAll_inserts: "p \<noteq> [] \<Longrightarrow> sublist p s \<Longrightarrow> set q \<subseteq> set (ReplaceAll p q s)"
  by (induction p q s rule: ReplaceAll.induct) (auto simp: sublist_Cons_right)

section \<open>Labels of a host name\<close>

definition dotless :: "string \<Rightarrow> bool" where
  "dotless s \<longleftrightarrow> CHR ''.'' \<notin> set s"

definition tail_labels :: string where
  "tail_labels = ''.svc.cluster.local''"

lemma cluster_suffix_tail: "cluster_suffix ns = CHR ''.'' # ns @ tail_labels"
  by (simp add: cluster_suffix_def tail_labels_def)

lemma tail_suffixes: "suffix z tail_labels \<Longrightarrow> z \<noteq> [] \<Longrightarrow> hd z = CHR ''.'' \<Longrightarrow> z \<in> {tail_labels, ''.cluster.local'', ''.local''}"
proof -
  have "list_all (\<lambda>z. z = [] \<or> hd z \<noteq> CHR ''.'' \<or> z = tail_labels \<or> z = ''.cluster.local'' \<or> z = ''.local'') (suffixes tail_labels)" by code_simp
  then show "suffix z tail_labels \<Longrightarrow> z \<noteq> [] \<Longrightarrow> hd z = CHR ''.'' \<Longrightarrow> z \<in> {tail_labels, ''.cluster.local'', ''.local''}"
    unfolding list_all_iff set_suffixes_eq by blast
qed

lemma cluster_suffixes:
  assumes "dotless ns" "suffix z (cluster_suffix ns)" "z \<noteq> []" "hd z = CHR ''.''"
  shows "z = cluster_suffix ns \<or> z \<in> {tail_labels, ''.cluster.local'', ''.local''}"
proof (cases "z = cluster_suffix ns")
  case False
  then have "suffix z (ns @ tail_labels)" using assms(2) unfolding cluster_suffix_tail suffix_Cons by blast
  then consider z' where "suffix z' ns" "z = z' @ tail_labels" "z' \<noteq> []" | "suffix z tail_labels"
    by (metis append_self_conv2 suffix_append suffix_order.refl)
  then show ?thesis
  proof cases
    case 1
    then have "hd z \<in> set ns" by (metis hd_append2 hd_in_set set_mono_suffix subsetD)
    with assms(1,4) show ?thesis by (simp add: dotless_def)
  qed (use tail_suffixes assms(3,4) in blast)
qed simp

lemma label_prefix:
  "dotless l \<Longrightarrow> dotless t \<Longrightarrow> prefix (l @ CHR ''.'' # u) (t @ CHR ''.'' # v) \<Longrightarrow> l = t \<and> prefix u v"
proof (induction l arbitrary: t)
  case Nil
  then show ?case by (cases t) (auto simp: dotless_def)
next
  case (Cons c l)
  then show ?case by (cases t) (auto simp: dotless_def)
qed

lemma label_prefix_open: "dotless l \<Longrightarrow> prefix l (t @ CHR ''.'' # v) \<Longrightarrow> prefix l t"
proof (induction l arbitrary: t)
  case (Cons c l)
  have d: "dotless l" "c \<noteq> CHR ''.''" using Cons.prems(1) by (auto simp: dotless_def)
  show ?case
  proof (cases t)
    case Nil
    then show ?thesis using Cons.prems(2) d(2) by simp
  next
    case (Cons e t')
    then show ?thesis using Cons.prems(2) Cons.IH [OF d(1), of t'] by simp
  qed
qed simp

text \<open>No proper tail of a service suffix begins another one, unless a label begins with \<^verbatim>\<open>local\<close>.\<close>

lemma tail_no_prefix:
  assumes "dotless ns" "\<not> prefix ''local'' ns" "z \<in> {tail_labels, ''.cluster.local'', ''.local''}"
  shows "\<not> prefix z (cluster_suffix ns)"
proof -
  have d: "dotless ''svc''" "dotless ''cluster''" "dotless ''local''" by (simp_all add: dotless_def)
  have v: "tail_labels = CHR ''.'' # ''svc.cluster.local''" by (simp add: tail_labels_def)
  have "\<not> prefix (''svc'' @ CHR ''.'' # ''cluster.local'') (ns @ CHR ''.'' # ''svc.cluster.local'')"
    using label_prefix [OF d(1) assms(1), of "''cluster.local''" "''svc.cluster.local''"] by auto
  moreover have "\<not> prefix (''cluster'' @ CHR ''.'' # ''local'') (ns @ CHR ''.'' # ''svc.cluster.local'')"
    using label_prefix [OF d(2) assms(1), of "''local''" "''svc.cluster.local''"] by auto
  moreover have "\<not> prefix ''local'' (ns @ CHR ''.'' # ''svc.cluster.local'')" using label_prefix_open [OF d(3)] assms(2) by blast
  ultimately show ?thesis using assms(3) unfolding cluster_suffix_tail v by auto
qed

lemma tail_length: "z \<in> {tail_labels, ''.cluster.local'', ''.local''} \<Longrightarrow> length z \<le> 18"
  by (auto simp: tail_labels_def)

lemma cluster_suffix_length: "length (cluster_suffix ns) = 19 + length ns"
  by (simp add: cluster_suffix_def)

lemma cluster_suffix_inj: "dotless a \<Longrightarrow> dotless b \<Longrightarrow> prefix (cluster_suffix a) (cluster_suffix b) \<Longrightarrow> a = b"
  using label_prefix [of a b "''svc.cluster.local''" "''svc.cluster.local''"] by (simp add: cluster_suffix_def)

lemma cluster_fresh:
  assumes "dotless a" "dotless b" "a \<noteq> b" "\<not> prefix ''local'' a" "\<not> prefix ''local'' b"
  shows "fresh_replacement (cluster_suffix a) (cluster_suffix b)"
proof -
  have dot: "hd z = CHR ''.''" if "z \<noteq> []" "prefix z (cluster_suffix ns) \<or> prefix (cluster_suffix ns) z" for z ns
    using that by (cases z) (auto simp: cluster_suffix_def)
  have short: "\<not> prefix (cluster_suffix ns) z" if "z \<in> {tail_labels, ''.cluster.local'', ''.local''}" for z ns
    using tail_length [OF that] cluster_suffix_length [of ns] by (auto dest: prefix_length_le)
  have "\<not> prefix z (cluster_suffix b) \<and> \<not> prefix (cluster_suffix b) z" if "suffix z (cluster_suffix a)" "z \<noteq> []" "z \<noteq> cluster_suffix a" for z
    using cluster_suffixes [OF assms(1) that(1,2)] dot [OF that(2)] short tail_no_prefix [OF assms(2,5)] that(3) by blast
  moreover have "\<not> prefix (cluster_suffix a) z \<and> \<not> prefix z (cluster_suffix a)" if "suffix z (cluster_suffix b)" "z \<noteq> []" for z
    using cluster_suffixes [OF assms(2) that] dot [OF that(2)] short tail_no_prefix [OF assms(1,4)]
      cluster_suffix_inj [OF assms(1,2)] cluster_suffix_inj [OF assms(2,1)] assms(3) by blast
  ultimately show ?thesis unfolding fresh_replacement_def by (auto simp: cluster_suffix_def)
qed

section \<open>Rewriting states\<close>

lemma map_changed: "(\<And>x. x \<in> set xs \<Longrightarrow> P x \<longleftrightarrow> h x \<noteq> x) \<Longrightarrow> list_ex P xs \<longleftrightarrow> map h xs \<noteq> xs"
  by (induction xs) auto

lemma rewrite_member_changed:
  assumes "dotless source" "dotless target" "snd inner \<longleftrightarrow> fst inner \<noteq> child"
  shows "snd (rewrite_member source target secret key child inner) \<longleftrightarrow> fst (rewrite_member source target secret key child inner) \<noteq> child"
proof (cases child)
  case (VStr s)
  have "ReplaceAll (cluster_suffix source) (cluster_suffix target) s \<noteq> s"
    if "source \<noteq> target" "strings_Contains s (cluster_suffix source)"
  proof (rule ReplaceAll_changes)
    have ne: "cluster_suffix source \<noteq> []" by (simp add: cluster_suffix_def)
    then show "sublist (cluster_suffix source) s" using that(2) strings_Contains_sublist by blast
    show "cluster_suffix source \<noteq> []" by (rule ne)
    show "\<not> prefix (cluster_suffix source) (cluster_suffix target)" using cluster_suffix_inj [OF assms(1,2)] that(1) by blast
    show "\<not> prefix (cluster_suffix target) (cluster_suffix source)" using cluster_suffix_inj [OF assms(2,1)] that(1) by blast
  qed
  then show ?thesis using assms(3) VStr by (auto simp: rewrite_member_def)
qed (use assms(3) in \<open>simp_all add: rewrite_member_def\<close>)

lemma rewrite_VObj:
  "rewriteMigratedValue source target secret (VObj ms) =
     (let f = (\<lambda>m. rewrite_member source target secret (fst m) (snd m) (rewriteMigratedValue source target secret (snd m)))
      in (VObj (map (\<lambda>m. (fst m, fst (f m))) ms), list_ex (\<lambda>m. snd (f m)) ms))"
  by (simp add: Let_def comp_def split_beta list_ex_iff)

lemma rewrite_changed:
  assumes "dotless source" "dotless target"
  shows "snd (rewriteMigratedValue source target secret v) \<longleftrightarrow> fst (rewriteMigratedValue source target secret v) \<noteq> v"
proof (induction v)
  case (VObj ms)
  define f where "f m = rewrite_member source target secret (fst m) (snd m) (rewriteMigratedValue source target secret (snd m))" for m :: "string \<times> value_json"
  have "snd (f m) \<longleftrightarrow> (fst m, fst (f m)) \<noteq> m" if "m \<in> set ms" for m
    using rewrite_member_changed [OF assms, of "rewriteMigratedValue source target secret (snd m)" "snd m" secret "fst m"]
      VObj [of m "snd m"] that by (cases m) (auto simp: f_def)
  then have "list_ex (\<lambda>m. snd (f m)) ms \<longleftrightarrow> map (\<lambda>m. (fst m, fst (f m))) ms \<noteq> ms" by (rule map_changed)
  then show ?case unfolding rewrite_VObj f_def [symmetric] Let_def by simp
next
  case (VArr vs)
  then have "list_ex (\<lambda>v. snd (rewriteMigratedValue source target secret v)) vs \<longleftrightarrow> map (\<lambda>v. fst (rewriteMigratedValue source target secret v)) vs \<noteq> vs"
    by (rule map_changed)
  then show ?case by (simp add: Let_def comp_def list_ex_iff)
qed simp_all

lemma label_dotless: "validDNSLabel v \<Longrightarrow> dotless v"
  by (auto simp: validDNSLabel_def appIDPattern_def dotless_def list_all_iff is_lower_digit_def is_lower_def is_digit_def char_between_def)

text \<open>
  The rewriting of a stored state reports a change exactly when the state is another one
  afterwards, whatever the nesting: an execution is written if and only if it has to be.
\<close>

theorem rewrite_changed_iff:
  assumes "validDNSLabel source" "validDNSLabel target"
  shows "snd (rewriteMigratedValue source target secret v) \<longleftrightarrow> fst (rewriteMigratedValue source target secret v) \<noteq> v"
  using rewrite_changed label_dotless assms by blast

text \<open>
  Stability: with labels that do not begin with \<^verbatim>\<open>local\<close> and a secret without dots, a rewritten value
  has nothing left to rewrite.
\<close>

lemma dotless_contains: "dotless s \<Longrightarrow> \<not> strings_Contains s (cluster_suffix ns)"
proof -
  assume d: "dotless s"
  have "CHR ''.'' \<in> set (cluster_suffix ns)" by (simp add: cluster_suffix_def)
  then have "\<not> sublist (cluster_suffix ns) s" using d unfolding dotless_def by (meson set_mono_sublist subsetD)
  then show ?thesis using strings_Contains_sublist [of "cluster_suffix ns"] by (auto simp: cluster_suffix_def)
qed

lemma rewrite_member_stable:
  assumes "dotless source" "dotless target" "dotless secret" "source \<noteq> target \<longrightarrow> \<not> prefix ''local'' source \<and> \<not> prefix ''local'' target"
    and "(\<And>s. child = VStr s \<Longrightarrow> inner = (child, False))" "\<not> snd (g (fst inner))" "\<And>s. g (VStr s) = (VStr s, False)"
    and inner: "(\<exists>s. fst inner = VStr s) \<Longrightarrow> (\<exists>s. child = VStr s)"
  shows "\<not> snd (rewrite_member source target secret key (fst (rewrite_member source target secret key child inner))
      (g (fst (rewrite_member source target secret key child inner))))"
proof (cases child)
  case (VStr s)
  define p where "p = cluster_suffix source" define q where "q = cluster_suffix target"
  have sub: "strings_Contains x p \<longleftrightarrow> sublist p x" for x by (rule strings_Contains_sublist) (simp add: p_def cluster_suffix_def)
  have free: "\<not> strings_Contains target p" "\<not> strings_Contains secret p" using dotless_contains assms(2,3) by (simp_all add: p_def)
  have r: "inner = (VStr s, False)" using assms(5) VStr by simp
  consider (ns) "key = ''namespace'' \<and> s = source \<and> source \<noteq> target"
    | (secret) "\<not> (key = ''namespace'' \<and> s = source \<and> source \<noteq> target)" "key = ''secret_uid''" "secret \<noteq> []" "s \<noteq> secret"
    | (host) "\<not> (key = ''secret_uid'' \<and> secret \<noteq> [] \<and> s \<noteq> secret)" "\<not> (key = ''namespace'' \<and> s = source)" "source \<noteq> target" "strings_Contains s p"
    | (same) "\<not> (key = ''secret_uid'' \<and> secret \<noteq> [] \<and> s \<noteq> secret)" "\<not> (key = ''namespace'' \<and> s = source \<and> source \<noteq> target)"
      "\<not> (source \<noteq> target \<and> strings_Contains s p)"
    by blast
  then show ?thesis
  proof cases
    case ns
    then have "target \<noteq> source" by blast
    with ns show ?thesis using free(1) assms(7) by (simp add: VStr rewrite_member_def p_def)
  next
    case secret
    then show ?thesis using free(2) assms(7) by (simp add: VStr rewrite_member_def p_def)
  next
    case same
    have "rewrite_member source target secret key (VStr s) (VStr s, False) = (VStr s, False)"
      using same unfolding p_def rewrite_member_def value_json.case by presburger
    then show ?thesis using assms(7) by (simp add: VStr r)
  next
    case host
    have "CHR ''.'' \<in> set (ReplaceAll p q s)"
      using ReplaceAll_inserts [of p s q] host(4) sub by (auto simp: p_def q_def cluster_suffix_def)
    then have "ReplaceAll p q s \<noteq> source" using assms(1) by (auto simp: dotless_def)
    moreover have "\<not> strings_Contains (ReplaceAll p q s) p"
      using ReplaceAll_fresh [OF cluster_fresh [OF assms(1,2) host(3)], of s] assms(4) host(3) sub by (simp add: p_def q_def)
    moreover have "key = ''secret_uid'' \<longrightarrow> secret = []" using host(1,4) free(2) by auto
    moreover have "rewrite_member source target secret key child inner = (VStr (ReplaceAll p q s), True)"
      using host unfolding VStr by (auto simp: rewrite_member_def p_def q_def)
    ultimately show ?thesis using assms(7) by (simp add: rewrite_member_def p_def)
  qed
next
  case (VObj ms)
  then show ?thesis using assms(6) inner by (auto simp: rewrite_member_def split: value_json.split)
qed (use assms(6) inner in \<open>auto simp: rewrite_member_def split: value_json.split\<close>)

lemma rewrite_shape: "fst (rewriteMigratedValue source target secret v) = VStr s \<Longrightarrow> v = VStr s"
  by (cases v) (auto simp: Let_def)

lemma rewrite_stable:
  assumes "dotless source" "dotless target" "dotless secret" "source \<noteq> target \<longrightarrow> \<not> prefix ''local'' source \<and> \<not> prefix ''local'' target"
  shows "\<not> snd (rewriteMigratedValue source target secret (fst (rewriteMigratedValue source target secret v)))"
proof (induction v)
  case (VObj ms)
  define rw where "rw = rewriteMigratedValue source target secret"
  define f where "f m = rewrite_member source target secret (fst m) (snd m) (rw (snd m))" for m :: "string \<times> value_json"
  have "\<not> snd (f (fst m, fst (f m)))" if "m \<in> set ms" for m
    unfolding f_def fst_conv snd_conv
  proof (rule rewrite_member_stable [OF assms])
    show "\<not> snd (rw (fst (rw (snd m))))" using VObj [of m "snd m"] that by (cases m) (auto simp: rw_def)
    show "\<exists>s. fst (rw (snd m)) = VStr s \<Longrightarrow> \<exists>s. snd m = VStr s" using rewrite_shape unfolding rw_def by blast
  qed (simp_all add: rw_def)
  moreover have "rw (VObj xs) = (VObj (map (\<lambda>m. (fst m, fst (f m))) xs), list_ex (\<lambda>m. snd (f m)) xs)" for xs
    unfolding rw_def rewrite_VObj by (simp add: f_def rw_def Let_def)
  ultimately show ?case unfolding rw_def [symmetric] by (simp add: list_ex_iff)
next
  case (VArr vs)
  then show ?case by (auto simp: Let_def list_ex_iff)
qed simp_all

lemma rewrite_idem:
  assumes "dotless source" "dotless target" "dotless secret" "source \<noteq> target \<longrightarrow> \<not> prefix ''local'' source \<and> \<not> prefix ''local'' target"
  shows "rewriteMigratedValue source target secret (fst (rewriteMigratedValue source target secret v)) =
    (fst (rewriteMigratedValue source target secret v), False)"
  using rewrite_stable [OF assms, of v] rewrite_changed [OF assms(1,2)] by (metis prod.collapse)

text \<open>
  The rewriting is idempotent: a state that was rewritten once is left alone by the same request,
  and is reported unchanged. Namespaces that begin with \<^verbatim>\<open>local\<close> are excepted, since the suffix
  \<^verbatim>\<open>.svc.cluster.local\<close> of one name may then run into the next.
\<close>

theorem rewrite_idempotent:
  assumes "validDNSLabel source" "validDNSLabel target" "dotless secret" "\<not> prefix ''local'' source" "\<not> prefix ''local'' target"
  shows "rewriteMigratedValue source target secret (fst (rewriteMigratedValue source target secret v)) =
    (fst (rewriteMigratedValue source target secret v), False)"
  using rewrite_idem [OF label_dotless [OF assms(1)] label_dotless [OF assms(2)] assms(3)] assms(4,5) by blast

text \<open>The exception is needed, and hosts in an array are not rewritten.\<close>

lemma local_rewritten_again:
  "fst (rewriteMigratedValue ''local'' ''new'' [] (VObj [(''u'', VStr ''a.local.svc.cluster.local.svc.cluster.local'')])) =
     VObj [(''u'', VStr ''a.new.svc.cluster.local.svc.cluster.local'')] \<and>
   rewriteMigratedValue ''local'' ''new'' [] (VObj [(''u'', VStr ''a.new.svc.cluster.local.svc.cluster.local'')]) =
     (VObj [(''u'', VStr ''a.new.svc.cluster.new.svc.cluster.local'')], True)"
  by code_simp

lemma array_hosts_kept:
  "rewriteMigratedValue ''old'' ''new'' [] (VObj [(''endpoints'', VArr [VStr ''http://a.old.svc.cluster.local:8080''])]) =
     (VObj [(''endpoints'', VArr [VStr ''http://a.old.svc.cluster.local:8080''])], False)"
  by code_simp

end
