(* ===== verification/Migration_Tables.thy ===== *)
theory Migration_Tables
  imports Migration_Rewriting
begin

text \<open>
  The migration of a namespace as a whole: which rows of the four tables it changes and how, and
  that a repeated migration finds every row settled.
\<close>

section \<open>Updating rows by their keys\<close>

text \<open>
  A loop that replaces one row after the other, each by a function of that row, replaces them all
  at once when the rows are told apart by a key that the function keeps.
\<close>

definition replace_row :: "('r \<Rightarrow> 'k) \<Rightarrow> ('r \<Rightarrow> 'r) \<Rightarrow> 'r \<Rightarrow> 'r list \<Rightarrow> 'r list" where
  "replace_row key f r rows = map (\<lambda>q. if key q = key r then f q else q) rows"

definition replace_all :: "('r \<Rightarrow> 'r) \<Rightarrow> 'r set \<Rightarrow> 'r list \<Rightarrow> 'r list" where
  "replace_all f M rows = map (\<lambda>q. if q \<in> M then f q else q) rows"

lemma key_in_distinct: "distinct (map key rows) \<Longrightarrow> a \<in> set rows \<Longrightarrow> b \<in> set rows \<Longrightarrow> key a = key b \<Longrightarrow> a = b"
  by (metis distinct_map inj_onD)

lemma replace_row_keys: "(\<And>q. key (f q) = key q) \<Longrightarrow> map key (replace_row key f r rows) = map key rows"
  by (simp add: replace_row_def)

lemma replace_rowI:
  assumes "distinct (map key rows)" "r \<in> set rows" "f r = g r"
  shows "map (\<lambda>q. if key q = key r then f q else q) rows = replace_row key g r rows"
  unfolding replace_row_def
proof (rule map_cong [OF refl])
  fix q assume "q \<in> set rows"
  then show "(if key q = key r then f q else q) = (if key q = key r then g q else q)"
    using key_in_distinct [OF assms(1) _ assms(2), of q] assms(3) by auto
qed

lemma replace_row_id:
  assumes "distinct (map key rows)" "r \<in> set rows" "f r = r"
  shows "replace_row key f r rows = rows"
  unfolding replace_rowI [OF assms(1,2), of "\<lambda>q. q" f, symmetric, OF assms(3) [symmetric]] by simp

lemma replace_row_step:
  assumes "distinct (map key rows)" "\<And>q. key (f q) = key q" "distinct (map key (r # xs))" "set (r # xs) \<subseteq> set rows"
  shows "replace_all f (set xs) (replace_row key f r rows) = replace_all f (set (r # xs)) rows"
    and "set xs \<subseteq> set (replace_row key f r rows)"
proof -
  have "key r \<notin> key ` set xs" using assms(3) by simp
  then have other: "key q \<noteq> key r" if "q \<in> set xs" for q using that by (metis image_eqI)
  have "(if (if key q = key r then f q else q) \<in> set xs then f (if key q = key r then f q else q) else if key q = key r then f q else q) =
      (if q \<in> set (r # xs) then f q else q)" if "q \<in> set rows" for q
  proof (cases "key q = key r")
    case True
    then have "q = r" using key_in_distinct [OF assms(1) that] assms(4) by simp
    moreover have "f r \<notin> set xs" using other assms(2) by metis
    ultimately show ?thesis by simp
  qed auto
  then show "replace_all f (set xs) (replace_row key f r rows) = replace_all f (set (r # xs)) rows"
    by (simp add: replace_all_def replace_row_def comp_def cong: map_cong)
  show "set xs \<subseteq> set (replace_row key f r rows)"
    using assms(4) other by (force simp: replace_row_def image_iff)
qed

section \<open>One workspace of an application\<close>

definition settled_app :: "migration_env \<Rightarrow> NamespaceMigrationRequest \<Rightarrow> NamespaceMigrationWorkspace \<Rightarrow> string \<Rightarrow> app_workspace \<Rightarrow> app_workspace" where
  "settled_app env req w hexHash r = (case migrated_app env req w hexHash r of None \<Rightarrow> r | Some r' \<Rightarrow> r')"

lemma migrated_keeps:
  assumes "migrated_app env req w h r = Some r'"
  shows "aw_instance r' = aw_instance r" "aw_station r' = aw_station r" "aw_installation r' = aw_installation r" "aw_pvc_name r' = aw_pvc_name r"
    "aw_pv_name r' = aw_pv_name r" "aw_pv_uid r' = aw_pv_uid r" "aw_namespace r' = nr_TargetNamespace req"
    "aw_pvc_uid r' = effective_uid w (aw_pvc_uid r)" "aw_profile_hash r' = effective_hash env w h (aw_profile_hash r)"
    "r' = r\<lparr>aw_namespace := aw_namespace r', aw_pvc_uid := aw_pvc_uid r', aw_profile_hash := aw_profile_hash r', aw_binding := aw_binding r', aw_updated := aw_updated r'\<rparr>"
  using assms by (auto simp: migrated_app_def Let_def)

lemma settled_keeps [simp]:
  "aw_instance (settled_app env req w h r) = aw_instance r" "aw_pvc_name (settled_app env req w h r) = aw_pvc_name r"
  "aw_station (settled_app env req w h r) = aw_station r" "aw_installation (settled_app env req w h r) = aw_installation r"
  "aw_pv_name (settled_app env req w h r) = aw_pv_name r" "aw_pv_uid (settled_app env req w h r) = aw_pv_uid r"
  by (auto simp: settled_app_def migrated_keeps split: option.split)

text \<open>The instances whose starts are rewritten.\<close>

definition starts_due :: "migration_env \<Rightarrow> NamespaceMigrationWorkspace \<Rightarrow> string \<Rightarrow> bool" where
  "starts_due env w h \<longleftrightarrow> me_hasAppStarts env \<and> (h \<noteq> [] \<or> nw_NewSecretUID w \<noteq> [])"

definition settled_starts :: "migration_env \<Rightarrow> NamespaceMigrationWorkspace \<Rightarrow> string \<Rightarrow> string set \<Rightarrow> app_start list \<Rightarrow> app_start list" where
  "settled_starts env w h I rows =
     map (\<lambda>s. if starts_due env w h \<and> as_instance s \<in> I then migrated_start (me_txnow env) (start_hash env w h) (nw_NewSecretUID w) s else s) rows"

lemma migrated_start_sel [simp]: "as_instance (migrated_start now hash secret s) = as_instance s"
  by (simp add: migrated_start_def)

lemma migrated_start_idem: "migrated_start now hash secret (migrated_start now hash secret s) = migrated_start now hash secret s"
proof -
  have "AList.update k v (AList.update k v al) = AList.update k v al" for k :: string and v :: value_json and al
    by (rule update_same) (simp add: update_conv)
  then show ?thesis by (simp add: migrated_start_def update_conv)
qed

lemma settled_starts_Un: "settled_starts env w h (insert i I) rows = settled_starts env w h I (settled_starts env w h {i} rows)"
  by (auto simp: settled_starts_def migrated_start_idem)

lemma update_starts_spec:
  "update_starts env w h i (t, out) = Inr (t', out') \<Longrightarrow> t' = t\<lparr>mt_starts := settled_starts env w h {i} (mt_starts t)\<rparr> \<and>
     (starts_table_ok env (mt_starts t) \<longrightarrow> starts_table_ok env (mt_starts t'))"
  by (auto simp: update_starts_def settled_starts_def starts_due_def Let_def split: if_split_asm)

lemma migrate_app_row_spec:
  assumes "migrate_app_row env req w h r (t, out) = Inr (t', out')" "distinct (map aw_instance (mt_app t))" "r \<in> set (mt_app t)"
  shows "t' = t\<lparr>mt_app := replace_row aw_instance (settled_app env req w h) r (mt_app t),
      mt_starts := settled_starts env w h {aw_instance r} (mt_starts t)\<rparr> \<and> migrated_app env req w h r \<noteq> None \<and>
    app_table_ok env (mt_app t') \<and> (starts_table_ok env (mt_starts t) \<longrightarrow> starts_table_ok env (mt_starts t'))"
proof -
  obtain r' where r': "migrated_app env req w h r = Some r'" using assms(1) by (cases "migrated_app env req w h r") (simp_all add: migrate_app_row_def)
  define rows where "rows = map (\<lambda>q. if aw_instance q = aw_instance r then q\<lparr>aw_namespace := aw_namespace r', aw_pvc_uid := aw_pvc_uid r',
      aw_profile_hash := aw_profile_hash r', aw_binding := aw_binding r', aw_updated := aw_updated r'\<rparr> else q) (mt_app t)"
  have "rows = replace_row aw_instance (settled_app env req w h) r (mt_app t)"
    unfolding rows_def by (rule replace_rowI [OF assms(2,3)]) (use migrated_keeps(10) [OF r'] r' in \<open>simp add: settled_app_def\<close>)
  moreover have "app_table_ok env rows" and "\<exists>out1. update_starts env w h (aw_instance r) (t\<lparr>mt_app := rows\<rparr>, out1) = Inr (t', out')"
    using assms(1) unfolding migrate_app_row_def prod.case r' option.case Let_def rows_def [symmetric] by (auto split: if_split_asm)
  ultimately show ?thesis using update_starts_spec r' by fastforce
qed

lemma app_loop_spec:
  assumes "each (migrate_app_row env req w h) xs (t, out) = Inr (t', out')"
    and "distinct (map aw_instance (mt_app t))" "distinct (map aw_instance xs)" "set xs \<subseteq> set (mt_app t)"
    and "app_table_ok env (mt_app t)" "starts_table_ok env (mt_starts t)"
  shows "t' = t\<lparr>mt_app := replace_all (settled_app env req w h) (set xs) (mt_app t),
      mt_starts := settled_starts env w h (aw_instance ` set xs) (mt_starts t)\<rparr> \<and> (\<forall>r \<in> set xs. migrated_app env req w h r \<noteq> None) \<and>
    app_table_ok env (mt_app t') \<and> starts_table_ok env (mt_starts t')"
  using assms
proof (induction xs arbitrary: t out)
  case Nil
  then show ?case by (simp add: replace_all_def settled_starts_def)
next
  case (Cons r xs)
  obtain t1 out1 where s: "migrate_app_row env req w h r (t, out) = Inr (t1, out1)" "each (migrate_app_row env req w h) xs (t1, out1) = Inr (t', out')"
    using Cons.prems(1) by (auto split: sum.split_asm)
  have r: "r \<in> set (mt_app t)" using Cons.prems(4) by simp
  note one = migrate_app_row_spec [OF s(1) Cons.prems(2) r]
  define f where "f = settled_app env req w h"
  have keep: "aw_instance (f q) = aw_instance q" for q by (simp add: f_def)
  note step = replace_row_step [OF Cons.prems(2) keep Cons.prems(3,4)]
  have t1: "mt_app t1 = replace_row aw_instance f r (mt_app t)" "mt_starts t1 = settled_starts env w h {aw_instance r} (mt_starts t)"
      "t1\<lparr>mt_app := a, mt_starts := b\<rparr> = t\<lparr>mt_app := a, mt_starts := b\<rparr>" for a b
    using one by (simp_all add: f_def)
  have "distinct (map aw_instance (mt_app t1))" using Cons.prems(2) t1(1) replace_row_keys [of aw_instance f] keep by simp
  moreover have "distinct (map aw_instance xs)" "set xs \<subseteq> set (mt_app t1)" using Cons.prems(3) step(2) t1(1) by simp_all
  moreover have "app_table_ok env (mt_app t1)" "starts_table_ok env (mt_starts t1)" using one Cons.prems(6) by blast+
  ultimately have "t' = t1\<lparr>mt_app := replace_all f (set xs) (mt_app t1), mt_starts := settled_starts env w h (aw_instance ` set xs) (mt_starts t1)\<rparr> \<and>
      (\<forall>r \<in> set xs. migrated_app env req w h r \<noteq> None) \<and> app_table_ok env (mt_app t') \<and> starts_table_ok env (mt_starts t')"
    using Cons.IH [OF s(2)] unfolding f_def by blast
  moreover have "settled_starts env w h (aw_instance ` set (r # xs)) (mt_starts t) =
      settled_starts env w h (aw_instance ` set xs) (settled_starts env w h {aw_instance r} (mt_starts t))"
    by (simp add: settled_starts_Un [where I = "aw_instance ` set xs"])
  ultimately show ?case using one step(1) unfolding t1 f_def by (elim conjE) simp
qed

section \<open>One workspace of the runtime\<close>

definition exec_hash :: "string \<Rightarrow> string option" where
  "exec_hash h = (if h \<noteq> [] then hex_DecodeString h else None)"

definition profile_hex :: "string \<Rightarrow> string \<Rightarrow> string" where
  "profile_hex h hash = (if h \<noteq> [] then h else hex_EncodeToString hash)"

definition settled_runtime :: "NamespaceMigrationRequest \<Rightarrow> NamespaceMigrationWorkspace \<Rightarrow> string \<Rightarrow> runtime_workspace \<Rightarrow> runtime_workspace" where
  "settled_runtime req w h r =
     r\<lparr>rw_namespace := nr_TargetNamespace req, rw_pvc_uid := effective_uid w (rw_pvc_uid r),
       rw_profile_hash := (case hex_DecodeString (profile_hex h (rw_profile_hash r)) of None \<Rightarrow> rw_profile_hash r | Some b \<Rightarrow> b)\<rparr>"

definition settled_execution :: "migration_env \<Rightarrow> NamespaceMigrationRequest \<Rightarrow> NamespaceMigrationWorkspace \<Rightarrow> string \<Rightarrow> runtime_execution \<Rightarrow> runtime_execution" where
  "settled_execution env req w h x =
     (case rewriteExecutionState (rx_state x) (nr_SourceNamespace req) (nr_TargetNamespace req) (nw_NewSecretUID w) of
        Inl _ \<Rightarrow> x
      | Inr (state, changed) \<Rightarrow>
          if changed \<or> (case exec_hash h of None \<Rightarrow> False | Some b \<Rightarrow> b \<noteq> [])
          then x\<lparr>rx_profile_hash := (case exec_hash h of None \<Rightarrow> rx_profile_hash x | Some b \<Rightarrow> b), rx_state := Some state, rx_updated := me_txnow env\<rparr> else x)"

definition good_state :: "value_json option \<Rightarrow> bool" where
  "good_state st \<longleftrightarrow> (case st of None \<Rightarrow> True | Some (VObj _) \<Rightarrow> True | Some VNull \<Rightarrow> True | _ \<Rightarrow> False)"

lemma rewrite_state_good: "(\<exists>y. rewriteExecutionState st a b c = Inr y) \<longleftrightarrow> good_state st"
  by (auto simp: rewriteExecutionState_def good_state_def split: option.split value_json.split)

lemma rewrite_state_written: "rewriteExecutionState st a b c = Inr (v, ch) \<Longrightarrow> good_state (Some v)"
  by (auto simp: rewriteExecutionState_def good_state_def Let_def split: option.split_asm value_json.split_asm)

lemma settled_execution_sel [simp]:
  "rx_operation (settled_execution env req w h x) = rx_operation x" "rx_instance (settled_execution env req w h x) = rx_instance x"
  by (auto simp: settled_execution_def split: sum.split prod.split)

lemma settled_execution_good: "good_state (rx_state x) \<Longrightarrow> good_state (rx_state (settled_execution env req w h x))"
  using rewrite_state_written by (fastforce simp: settled_execution_def split: sum.split prod.split)

lemma migrate_execution_spec:
  assumes "migrate_execution (me_txnow env) (nr_SourceNamespace req) (nr_TargetNamespace req) (exec_hash h) (nw_NewSecretUID w) r (rows, n) = Inr (rows', n')"
    and "distinct (map rx_operation rows)" "r \<in> set rows"
  shows "rows' = replace_row rx_operation (settled_execution env req w h) r rows \<and> good_state (rx_state r)"
proof -
  obtain st ch where e: "rewriteExecutionState (rx_state r) (nr_SourceNamespace req) (nr_TargetNamespace req) (nw_NewSecretUID w) = Inr (st, ch)"
    using assms(1) by (auto simp: migrate_execution_def split: sum.split_asm)
  have "rows' = replace_row rx_operation (settled_execution env req w h) r rows"
  proof (cases "ch \<or> (case exec_hash h of None \<Rightarrow> False | Some b \<Rightarrow> b \<noteq> [])")
    case True
    then have rows': "rows' = map (\<lambda>q. if rx_operation q = rx_operation r
        then q\<lparr>rx_profile_hash := (case exec_hash h of None \<Rightarrow> rx_profile_hash q | Some b \<Rightarrow> b), rx_state := Some st, rx_updated := me_txnow env\<rparr> else q) rows"
      using assms(1) unfolding migrate_execution_def prod.case e sum.case by simp
    have "settled_execution env req w h r = r\<lparr>rx_profile_hash := (case exec_hash h of None \<Rightarrow> rx_profile_hash r | Some b \<Rightarrow> b), rx_state := Some st, rx_updated := me_txnow env\<rparr>"
      using True unfolding settled_execution_def e sum.case prod.case by presburger
    then show ?thesis unfolding rows' by (intro replace_rowI [OF assms(2,3)]) simp
  next
    case False
    then have "rows' = rows" using assms(1) unfolding migrate_execution_def prod.case e sum.case by simp
    moreover have "settled_execution env req w h r = r" using False unfolding settled_execution_def e sum.case prod.case by presburger
    ultimately show ?thesis using replace_row_id [OF assms(2,3)] by simp
  qed
  with e rewrite_state_good show ?thesis by blast
qed

lemma each_replace:
  assumes "each f xs (rows, n) = Inr (rows', n')" "distinct (map key rows)" "distinct (map key xs)" "set xs \<subseteq> set rows" "\<And>q. key (g q) = key q"
    and "\<And>r rows n rows' n'. f r (rows, n) = Inr (rows', n') \<Longrightarrow> distinct (map key rows) \<Longrightarrow> r \<in> set rows \<Longrightarrow> rows' = replace_row key g r rows \<and> P r"
  shows "rows' = replace_all g (set xs) rows \<and> (\<forall>r \<in> set xs. P r)"
  using assms(1-4)
proof (induction xs arbitrary: rows n)
  case Nil
  then show ?case by (simp add: replace_all_def)
next
  case (Cons r xs)
  obtain rows1 n1 where s: "f r (rows, n) = Inr (rows1, n1)" "each f xs (rows1, n1) = Inr (rows', n')"
    using Cons.prems(1) by (auto split: sum.split_asm)
  have one: "rows1 = replace_row key g r rows" "P r" using assms(6) [OF s(1) Cons.prems(2)] Cons.prems(4) by auto
  note step = replace_row_step [OF Cons.prems(2) assms(5) Cons.prems(3,4)]
  have "distinct (map key rows1)" using Cons.prems(2) one(1) replace_row_keys [of key g] assms(5) by simp
  with Cons.IH [OF s(2)] Cons.prems(3) step one show ?case by auto
qed

definition settled_executions ::
  "migration_env \<Rightarrow> NamespaceMigrationRequest \<Rightarrow> NamespaceMigrationWorkspace \<Rightarrow> string \<Rightarrow> string set \<Rightarrow> runtime_execution list \<Rightarrow> runtime_execution list" where
  "settled_executions env req w h I rows = map (\<lambda>x. if me_hasRuntimeExecutions env \<and> rx_instance x \<in> I then settled_execution env req w h x else x) rows"

lemma sorted_filter_distinct: "distinct (map key rows) \<Longrightarrow> distinct (map key (sort_key k (filter P rows)))"
  by (metis distinct_map distinct_map_filter distinct_sort set_sort)

lemma migrateRuntimeExecutions_spec:
  assumes "migrateRuntimeExecutions (me_txnow env) i (nr_SourceNamespace req) (nr_TargetNamespace req) (exec_hash h) (nw_NewSecretUID w) rows = Inr (rows', n)"
    and "distinct (map rx_operation rows)" "me_hasRuntimeExecutions env"
  shows "rows' = settled_executions env req w h {i} rows \<and> (\<forall>x \<in> set rows. rx_instance x = i \<longrightarrow> good_state (rx_state x))"
proof -
  have "rows' = replace_all (settled_execution env req w h) (set (sort_key (\<lambda>r. (rx_created r, rx_operation r)) (filter (\<lambda>r. rx_instance r = i) rows))) rows \<and>
      (\<forall>r \<in> set (sort_key (\<lambda>r. (rx_created r, rx_operation r)) (filter (\<lambda>r. rx_instance r = i) rows)). good_state (rx_state r))"
    by (rule each_replace [OF assms(1) [unfolded migrateRuntimeExecutions_def] assms(2) sorted_filter_distinct [OF assms(2)]])
      (auto dest: migrate_execution_spec)
  then show ?thesis using assms(3) by (auto simp: replace_all_def settled_executions_def)
qed

lemma settled_executions_Un:
  "i \<notin> I \<Longrightarrow> settled_executions env req w h (insert i I) rows = settled_executions env req w h I (settled_executions env req w h {i} rows)"
  by (auto simp: settled_executions_def)

lemma migrate_runtime_row_spec:
  assumes "migrate_runtime_row env req w h r (t, out) = Inr (t', out')" "distinct (map rw_instance (mt_runtime t))" "r \<in> set (mt_runtime t)"
    and "distinct (map rx_operation (mt_executions t))"
  shows "t' = t\<lparr>mt_runtime := replace_row rw_instance (settled_runtime req w h) r (mt_runtime t),
      mt_executions := settled_executions env req w h {rw_instance r} (mt_executions t)\<rparr> \<and> runtime_table_ok (mt_runtime t') \<and>
    hex_DecodeString (profile_hex h (rw_profile_hash r)) \<noteq> None \<and>
    (me_hasRuntimeExecutions env \<longrightarrow> (\<forall>x \<in> set (mt_executions t). rx_instance x = rw_instance r \<longrightarrow> good_state (rx_state x)))"
proof -
  obtain b where b: "hex_DecodeString (profile_hex h (rw_profile_hash r)) = Some b"
    using assms(1) by (auto simp: migrate_runtime_row_def profile_hex_def Let_def split: option.split_asm)
  define rows where "rows = map (\<lambda>q. if rw_instance q = rw_instance r then q\<lparr>rw_namespace := nr_TargetNamespace req,
      rw_pvc_uid := effective_uid w (rw_pvc_uid r), rw_profile_hash := b\<rparr> else q) (mt_runtime t)"
  have rows: "rows = replace_row rw_instance (settled_runtime req w h) r (mt_runtime t)"
    unfolding rows_def by (rule replace_rowI [OF assms(2,3)]) (simp add: settled_runtime_def b)
  have hash: "(if h \<noteq> [] then Some b else None) = exec_hash h" using b by (auto simp: exec_hash_def profile_hex_def)
  note run = assms(1) [unfolded migrate_runtime_row_def prod.case profile_hex_def [symmetric] Let_def b option.case rows_def [symmetric] hash]
  have ok: "runtime_table_ok rows" using run by (auto split: if_split_asm)
  show ?thesis
  proof (cases "me_hasRuntimeExecutions env")
    case True
    then obtain execs n where e: "migrateRuntimeExecutions (me_txnow env) (rw_instance r) (nr_SourceNamespace req) (nr_TargetNamespace req) (exec_hash h) (nw_NewSecretUID w)
        (mt_executions t) = Inr (execs, n)" and t': "t' = t\<lparr>mt_runtime := rows, mt_executions := execs\<rparr>"
      using run ok by (auto split: if_split_asm sum.split_asm)
    from migrateRuntimeExecutions_spec [OF e assms(4) True] t' ok rows b show ?thesis by simp
  next
    case False
    then have "t' = t\<lparr>mt_runtime := rows\<rparr>" using run ok by (auto split: if_split_asm)
    moreover have "settled_executions env req w h {rw_instance r} (mt_executions t) = mt_executions t"
      using False by (simp add: settled_executions_def)
    ultimately show ?thesis using ok rows b False by simp
  qed
qed

lemma runtime_loop_spec:
  assumes "each (migrate_runtime_row env req w h) xs (t, out) = Inr (t', out')"
    and "distinct (map rw_instance (mt_runtime t))" "distinct (map rw_instance xs)" "set xs \<subseteq> set (mt_runtime t)"
    and "distinct (map rx_operation (mt_executions t))" "runtime_table_ok (mt_runtime t)"
  shows "t' = t\<lparr>mt_runtime := replace_all (settled_runtime req w h) (set xs) (mt_runtime t),
      mt_executions := settled_executions env req w h (rw_instance ` set xs) (mt_executions t)\<rparr> \<and> runtime_table_ok (mt_runtime t') \<and>
    (\<forall>r \<in> set xs. hex_DecodeString (profile_hex h (rw_profile_hash r)) \<noteq> None \<and>
      (me_hasRuntimeExecutions env \<longrightarrow> (\<forall>x \<in> set (mt_executions t). rx_instance x = rw_instance r \<longrightarrow> good_state (rx_state x))))"
  using assms
proof (induction xs arbitrary: t out)
  case Nil
  then show ?case by (simp add: replace_all_def settled_executions_def)
next
  case (Cons r xs)
  obtain t1 out1 where s: "migrate_runtime_row env req w h r (t, out) = Inr (t1, out1)" "each (migrate_runtime_row env req w h) xs (t1, out1) = Inr (t', out')"
    using Cons.prems(1) by (auto split: sum.split_asm)
  have r: "r \<in> set (mt_runtime t)" using Cons.prems(4) by simp
  note one = migrate_runtime_row_spec [OF s(1) Cons.prems(2) r Cons.prems(5)]
  define f where "f = settled_runtime req w h"
  define g where "g I = settled_executions env req w h I" for I
  have keep: "rw_instance (f q) = rw_instance q" for q by (simp add: f_def settled_runtime_def)
  note step = replace_row_step [OF Cons.prems(2) keep Cons.prems(3,4)]
  have t1: "mt_runtime t1 = replace_row rw_instance f r (mt_runtime t)" "mt_executions t1 = g {rw_instance r} (mt_executions t)"
      "t1\<lparr>mt_runtime := a, mt_executions := b\<rparr> = t\<lparr>mt_runtime := a, mt_executions := b\<rparr>" for a b
    using one by (simp_all add: f_def g_def)
  have fresh: "rw_instance r \<notin> rw_instance ` set xs" using Cons.prems(3) by simp
  have kept: "x \<in> set (mt_executions t1)" if "x \<in> set (mt_executions t)" "rx_instance x \<in> rw_instance ` set xs" for x
    using that fresh by (force simp: t1(2) g_def settled_executions_def image_iff)
  have ops: "map rx_operation (mt_executions t1) = map rx_operation (mt_executions t)" by (auto simp: t1(2) g_def settled_executions_def)
  have "distinct (map rw_instance (mt_runtime t1))" using Cons.prems(2) t1(1) replace_row_keys [of rw_instance f] keep by simp
  then have ih: "t' = t1\<lparr>mt_runtime := replace_all f (set xs) (mt_runtime t1), mt_executions := g (rw_instance ` set xs) (mt_executions t1)\<rparr> \<and>
      runtime_table_ok (mt_runtime t') \<and>
      (\<forall>r \<in> set xs. hex_DecodeString (profile_hex h (rw_profile_hash r)) \<noteq> None \<and>
        (me_hasRuntimeExecutions env \<longrightarrow> (\<forall>x \<in> set (mt_executions t1). rx_instance x = rw_instance r \<longrightarrow> good_state (rx_state x))))"
    using Cons.IH [OF s(2)] Cons.prems(3,5) step(2) t1(1) one unfolding f_def g_def ops by auto
  have "t' = t\<lparr>mt_runtime := replace_all f (set (r # xs)) (mt_runtime t), mt_executions := g (rw_instance ` set (r # xs)) (mt_executions t)\<rparr>"
    using ih step(1) settled_executions_Un [OF fresh, of env req w h "mt_executions t"] unfolding t1 g_def by simp
  moreover have "\<forall>r \<in> set xs. me_hasRuntimeExecutions env \<longrightarrow> (\<forall>x \<in> set (mt_executions t). rx_instance x = rw_instance r \<longrightarrow> good_state (rx_state x))"
    using ih kept by auto
  ultimately show ?case using one ih unfolding f_def g_def by (simp only: list.set ball_simps) blast
qed

end
