(* ===== verification/Migration_Properties.thy ===== *)
theory Migration_Properties
  imports Migration_Tables
begin

text \<open>
  What a migration does to the tables, stated without its loops and statements, and the theorems
  that follow: which rows change and how, and that a repeated migration changes nothing but the
  times of the updates.
\<close>

section \<open>The effect of one workspace\<close>

definition hash_of :: "NamespaceMigrationWorkspace \<Rightarrow> string" where
  "hash_of w = (case normalizeHexProfileHash (nw_NewProfileHash w) of None \<Rightarrow> [] | Some h \<Rightarrow> h)"

definition app_hit :: "migration_env \<Rightarrow> NamespaceMigrationRequest \<Rightarrow> NamespaceMigrationWorkspace \<Rightarrow> app_workspace \<Rightarrow> bool" where
  "app_hit env req w r \<longleftrightarrow> me_hasAppWorkspaces env \<and> app_matches env req w r"

definition runtime_hit :: "migration_env \<Rightarrow> NamespaceMigrationRequest \<Rightarrow> NamespaceMigrationWorkspace \<Rightarrow> runtime_workspace \<Rightarrow> bool" where
  "runtime_hit env req w r \<longleftrightarrow> me_hasRuntimeWorkspaces env \<and> runtime_matches env req w r"

definition app_instances :: "migration_env \<Rightarrow> NamespaceMigrationRequest \<Rightarrow> NamespaceMigrationWorkspace \<Rightarrow> migration_tables \<Rightarrow> string set" where
  "app_instances env req w t = aw_instance ` {r \<in> set (mt_app t). app_hit env req w r}"

definition runtime_instances :: "migration_env \<Rightarrow> NamespaceMigrationRequest \<Rightarrow> NamespaceMigrationWorkspace \<Rightarrow> migration_tables \<Rightarrow> string set" where
  "runtime_instances env req w t = rw_instance ` {r \<in> set (mt_runtime t). runtime_hit env req w r}"

definition workspace_tables :: "migration_env \<Rightarrow> NamespaceMigrationRequest \<Rightarrow> NamespaceMigrationWorkspace \<Rightarrow> migration_tables \<Rightarrow> migration_tables" where
  "workspace_tables env req w t =
     \<lparr>mt_app = map (\<lambda>r. if app_hit env req w r then settled_app env req w (hash_of w) r else r) (mt_app t),
      mt_starts = settled_starts env w (hash_of w) (app_instances env req w t) (mt_starts t),
      mt_runtime = map (\<lambda>r. if runtime_hit env req w r then settled_runtime req w (hash_of w) r else r) (mt_runtime t),
      mt_executions = settled_executions env req w (hash_of w) (runtime_instances env req w t) (mt_executions t)\<rparr>"

text \<open>The constraints of the four tables, and the rows of a workspace that can be worked on.\<close>

definition tables_ok :: "migration_env \<Rightarrow> migration_tables \<Rightarrow> bool" where
  "tables_ok env t \<longleftrightarrow> distinct (map aw_instance (mt_app t)) \<and> distinct (map rw_instance (mt_runtime t)) \<and> distinct (map rx_operation (mt_executions t)) \<and>
     app_table_ok env (mt_app t) \<and> starts_table_ok env (mt_starts t) \<and> runtime_table_ok (mt_runtime t)"

definition workable :: "migration_env \<Rightarrow> NamespaceMigrationRequest \<Rightarrow> NamespaceMigrationWorkspace \<Rightarrow> migration_tables \<Rightarrow> bool" where
  "workable env req w t \<longleftrightarrow> (\<forall>r \<in> set (mt_app t). app_hit env req w r \<longrightarrow> migrated_app env req w (hash_of w) r \<noteq> None) \<and>
     (\<forall>r \<in> set (mt_runtime t). runtime_hit env req w r \<longrightarrow> hex_DecodeString (profile_hex (hash_of w) (rw_profile_hash r)) \<noteq> None) \<and>
     (me_hasRuntimeExecutions env \<longrightarrow> (\<forall>x \<in> set (mt_executions t). rx_instance x \<in> runtime_instances env req w t \<longrightarrow> good_state (rx_state x)))"

lemma app_phase:
  assumes "(if me_hasAppWorkspaces env then each (migrate_app_row env req w h) (sort_key aw_instance (filter (app_matches env req w) (mt_app t))) (t, out)
      else Inr (t, out)) = Inr (t', out')" "tables_ok env t"
  shows "t' = t\<lparr>mt_app := map (\<lambda>r. if app_hit env req w r then settled_app env req w h r else r) (mt_app t),
      mt_starts := settled_starts env w h (app_instances env req w t) (mt_starts t)\<rparr> \<and> tables_ok env t' \<and>
    (\<forall>r \<in> set (mt_app t). app_hit env req w r \<longrightarrow> migrated_app env req w h r \<noteq> None)"
proof (cases "me_hasAppWorkspaces env")
  case True
  define xs where "xs = sort_key aw_instance (filter (app_matches env req w) (mt_app t))"
  have xs: "set xs = {r \<in> set (mt_app t). app_hit env req w r}" using True by (auto simp: xs_def app_hit_def)
  have d: "distinct (map aw_instance (mt_app t))" "distinct (map aw_instance xs)" using assms(2) sorted_filter_distinct by (auto simp: tables_ok_def xs_def)
  have e: "each (migrate_app_row env req w h) xs (t, out) = Inr (t', out')" using assms(1) True by (simp add: xs_def)
  have "set xs \<subseteq> set (mt_app t)" "app_table_ok env (mt_app t)" "starts_table_ok env (mt_starts t)" using assms(2) xs by (auto simp: tables_ok_def)
  note s = app_loop_spec [OF e d this]
  have "replace_all (settled_app env req w h) (set xs) (mt_app t) = map (\<lambda>r. if app_hit env req w r then settled_app env req w h r else r) (mt_app t)"
    unfolding replace_all_def xs by (rule map_cong) auto
  then have t': "t' = t\<lparr>mt_app := map (\<lambda>r. if app_hit env req w r then settled_app env req w h r else r) (mt_app t),
      mt_starts := settled_starts env w h (app_instances env req w t) (mt_starts t)\<rparr>"
    using s xs by (simp add: app_instances_def)
  have "map aw_instance (mt_app t') = map aw_instance (mt_app t)" "mt_runtime t' = mt_runtime t" "mt_executions t' = mt_executions t"
    unfolding t' by (auto simp: comp_def)
  then have "tables_ok env t'" using s assms(2) unfolding tables_ok_def by metis
  with t' show ?thesis using s xs by blast
next
  case False
  then have "t' = t" using assms(1) by simp
  with False assms(2) show ?thesis by (simp add: app_hit_def app_instances_def settled_starts_def)
qed

lemma runtime_phase:
  assumes "(if me_hasRuntimeWorkspaces env then each (migrate_runtime_row env req w h) (sort_key rw_instance (filter (runtime_matches env req w) (mt_runtime t))) (t, out)
      else Inr (t, out)) = Inr (t', out')" "tables_ok env t"
  shows "t' = t\<lparr>mt_runtime := map (\<lambda>r. if runtime_hit env req w r then settled_runtime req w h r else r) (mt_runtime t),
      mt_executions := settled_executions env req w h (runtime_instances env req w t) (mt_executions t)\<rparr> \<and> tables_ok env t' \<and>
    (\<forall>r \<in> set (mt_runtime t). runtime_hit env req w r \<longrightarrow> hex_DecodeString (profile_hex h (rw_profile_hash r)) \<noteq> None) \<and>
    (me_hasRuntimeExecutions env \<longrightarrow> (\<forall>x \<in> set (mt_executions t). rx_instance x \<in> runtime_instances env req w t \<longrightarrow> good_state (rx_state x)))"
proof (cases "me_hasRuntimeWorkspaces env")
  case True
  define xs where "xs = sort_key rw_instance (filter (runtime_matches env req w) (mt_runtime t))"
  have xs: "set xs = {r \<in> set (mt_runtime t). runtime_hit env req w r}" using True by (auto simp: xs_def runtime_hit_def)
  have d: "distinct (map rw_instance (mt_runtime t))" "distinct (map rw_instance xs)" using assms(2) sorted_filter_distinct by (auto simp: tables_ok_def xs_def)
  have e: "each (migrate_runtime_row env req w h) xs (t, out) = Inr (t', out')" using assms(1) True by (simp add: xs_def)
  have "set xs \<subseteq> set (mt_runtime t)" "distinct (map rx_operation (mt_executions t))" "runtime_table_ok (mt_runtime t)"
    using assms(2) xs by (auto simp: tables_ok_def)
  note s = runtime_loop_spec [OF e d this]
  have "replace_all (settled_runtime req w h) (set xs) (mt_runtime t) = map (\<lambda>r. if runtime_hit env req w r then settled_runtime req w h r else r) (mt_runtime t)"
    unfolding replace_all_def xs by (rule map_cong) auto
  then have t': "t' = t\<lparr>mt_runtime := map (\<lambda>r. if runtime_hit env req w r then settled_runtime req w h r else r) (mt_runtime t),
      mt_executions := settled_executions env req w h (runtime_instances env req w t) (mt_executions t)\<rparr>"
    using s xs by (simp add: runtime_instances_def)
  have "map rw_instance (mt_runtime t') = map rw_instance (mt_runtime t)" "map rx_operation (mt_executions t') = map rx_operation (mt_executions t)"
      "mt_app t' = mt_app t" "mt_starts t' = mt_starts t"
    unfolding t' by (auto simp: comp_def settled_runtime_def settled_executions_def)
  then have "tables_ok env t'" using s assms(2) unfolding tables_ok_def by metis
  moreover have "\<forall>x \<in> set (mt_executions t). rx_instance x \<in> runtime_instances env req w t \<longrightarrow> good_state (rx_state x)" if "me_hasRuntimeExecutions env"
    using s xs that unfolding runtime_instances_def by blast
  ultimately show ?thesis using t' s xs by blast
next
  case False
  then have "t' = t" using assms(1) by simp
  with False assms(2) show ?thesis by (simp add: runtime_hit_def runtime_instances_def settled_executions_def)
qed

lemma migrate_workspace_spec:
  assumes "migrate_workspace env req w (t, out) = Inr (t', out')" "tables_ok env t"
  shows "t' = workspace_tables env req w t \<and> tables_ok env t' \<and> workable env req w t"
proof -
  obtain h where h: "normalizeHexProfileHash (nw_NewProfileHash w) = Some h" using assms(1) by (auto simp: migrate_workspace_def split: option.split_asm)
  then have hash: "hash_of w = h" by (simp add: hash_of_def)
  obtain t1 out1 where a: "(if me_hasAppWorkspaces env then each (migrate_app_row env req w h) (sort_key aw_instance (filter (app_matches env req w) (mt_app t))) (t, out)
      else Inr (t, out)) = Inr (t1, out1)"
    and r: "(if me_hasRuntimeWorkspaces env then each (migrate_runtime_row env req w h) (sort_key rw_instance (filter (runtime_matches env req w) (mt_runtime t1))) (t1, out1)
      else Inr (t1, out1)) = Inr (t', out')"
    using assms(1) unfolding migrate_workspace_def h option.case by (auto split: sum.split_asm if_split_asm)
  note A = app_phase [OF a assms(2)]
  note R = runtime_phase [OF r conjunct1 [OF conjunct2 [OF A]]]
  have same: "mt_runtime t1 = mt_runtime t" "mt_executions t1 = mt_executions t" using A by simp_all
  have inst: "runtime_instances env req w t1 = runtime_instances env req w t" by (simp add: runtime_instances_def same)
  have "t' = workspace_tables env req w t" using A R unfolding workspace_tables_def hash same inst by simp
  moreover have "workable env req w t" using A R unfolding workable_def hash same inst by blast
  ultimately show ?thesis using R by blast
qed

section \<open>Which rows change\<close>

definition app_moved :: "migration_env \<Rightarrow> NamespaceMigrationRequest \<Rightarrow> NamespaceMigrationWorkspace list \<Rightarrow> app_workspace \<Rightarrow> app_workspace \<Rightarrow> bool" where
  "app_moved env req ws r r' \<longleftrightarrow> aw_instance r' = aw_instance r \<and> aw_station r' = aw_station r \<and> aw_installation r' = aw_installation r \<and>
     aw_pvc_name r' = aw_pvc_name r \<and> aw_pv_name r' = aw_pv_name r \<and> aw_pv_uid r' = aw_pv_uid r \<and>
     (if \<exists>w \<in> set ws. app_hit env req w r then aw_namespace r' = nr_TargetNamespace req else r' = r)"

definition runtime_moved :: "migration_env \<Rightarrow> NamespaceMigrationRequest \<Rightarrow> NamespaceMigrationWorkspace list \<Rightarrow> runtime_workspace \<Rightarrow> runtime_workspace \<Rightarrow> bool" where
  "runtime_moved env req ws r r' \<longleftrightarrow> rw_instance r' = rw_instance r \<and> rw_station r' = rw_station r \<and> rw_pvc_name r' = rw_pvc_name r \<and>
     rw_pv_name r' = rw_pv_name r \<and> rw_pv_uid r' = rw_pv_uid r \<and>
     (if \<exists>w \<in> set ws. runtime_hit env req w r then rw_namespace r' = nr_TargetNamespace req else r' = r)"

definition start_moved :: "migration_env \<Rightarrow> NamespaceMigrationRequest \<Rightarrow> NamespaceMigrationWorkspace list \<Rightarrow> migration_tables \<Rightarrow> app_start \<Rightarrow> app_start \<Rightarrow> bool" where
  "start_moved env req ws t s s' \<longleftrightarrow> as_operation s' = as_operation s \<and> as_instance s' = as_instance s \<and>
     ((\<forall>w \<in> set ws. as_instance s \<notin> app_instances env req w t) \<longrightarrow> s' = s)"

definition execution_moved :: "migration_env \<Rightarrow> NamespaceMigrationRequest \<Rightarrow> NamespaceMigrationWorkspace list \<Rightarrow> migration_tables \<Rightarrow> runtime_execution \<Rightarrow> runtime_execution \<Rightarrow> bool" where
  "execution_moved env req ws t x x' \<longleftrightarrow> rx_operation x' = rx_operation x \<and> rx_instance x' = rx_instance x \<and> rx_created x' = rx_created x \<and>
     ((\<forall>w \<in> set ws. rx_instance x \<notin> runtime_instances env req w t) \<longrightarrow> x' = x)"

definition tables_moved :: "migration_env \<Rightarrow> NamespaceMigrationRequest \<Rightarrow> NamespaceMigrationWorkspace list \<Rightarrow> migration_tables \<Rightarrow> migration_tables \<Rightarrow> bool" where
  "tables_moved env req ws t t' \<longleftrightarrow> list_all2 (app_moved env req ws) (mt_app t) (mt_app t') \<and> list_all2 (start_moved env req ws t) (mt_starts t) (mt_starts t') \<and>
     list_all2 (runtime_moved env req ws) (mt_runtime t) (mt_runtime t') \<and> list_all2 (execution_moved env req ws t) (mt_executions t) (mt_executions t')"

lemma hit_stable:
  "app_moved env req ws r r' \<Longrightarrow> app_hit env req w r' \<longleftrightarrow> app_hit env req w r"
  "runtime_moved env req ws q q' \<Longrightarrow> runtime_hit env req w q' \<longleftrightarrow> runtime_hit env req w q"
  by (auto simp: app_moved_def app_hit_def app_matches_def runtime_moved_def runtime_hit_def runtime_matches_def split: if_split_asm)

lemma list_all2_map_eq: "list_all2 R xs ys \<Longrightarrow> (\<And>x y. R x y \<Longrightarrow> f y = f x) \<Longrightarrow> map f ys = map f xs"
  by (induction rule: list_all2_induct) auto

lemma instances_pairs:
  "app_instances env req w t = fst ` {p \<in> set (map (\<lambda>r. (aw_instance r, app_hit env req w r)) (mt_app t)). snd p}"
  "runtime_instances env req w t = fst ` {p \<in> set (map (\<lambda>r. (rw_instance r, runtime_hit env req w r)) (mt_runtime t)). snd p}"
  unfolding app_instances_def runtime_instances_def by force+

lemma moved_instances:
  assumes "tables_moved env req ws t t'"
  shows "app_instances env req w t' = app_instances env req w t" "runtime_instances env req w t' = runtime_instances env req w t"
proof -
  have "map (\<lambda>r. (aw_instance r, app_hit env req w r)) (mt_app t') = map (\<lambda>r. (aw_instance r, app_hit env req w r)) (mt_app t)"
  proof (rule list_all2_map_eq)
    show "list_all2 (app_moved env req ws) (mt_app t) (mt_app t')" using assms by (simp add: tables_moved_def)
  next
    fix x y assume m: "app_moved env req ws x y"
    then show "(aw_instance y, app_hit env req w y) = (aw_instance x, app_hit env req w x)"
      unfolding hit_stable(1) [OF m] by (simp add: app_moved_def)
  qed
  then show "app_instances env req w t' = app_instances env req w t" unfolding instances_pairs by simp
  have "map (\<lambda>r. (rw_instance r, runtime_hit env req w r)) (mt_runtime t') = map (\<lambda>r. (rw_instance r, runtime_hit env req w r)) (mt_runtime t)"
  proof (rule list_all2_map_eq)
    show "list_all2 (runtime_moved env req ws) (mt_runtime t) (mt_runtime t')" using assms by (simp add: tables_moved_def)
  next
    fix x y assume m: "runtime_moved env req ws x y"
    then show "(rw_instance y, runtime_hit env req w y) = (rw_instance x, runtime_hit env req w x)"
      unfolding hit_stable(2) [OF m] by (simp add: runtime_moved_def)
  qed
  then show "runtime_instances env req w t' = runtime_instances env req w t" unfolding instances_pairs by simp
qed

lemma workspace_moved:
  assumes "workable env req w t"
  shows "tables_moved env req [w] t (workspace_tables env req w t)"
proof -
  have "app_moved env req [w] r (if app_hit env req w r then settled_app env req w (hash_of w) r else r)" if r: "r \<in> set (mt_app t)" for r
  proof (cases "app_hit env req w r")
    case True
    then obtain r' where "migrated_app env req w (hash_of w) r = Some r'" using assms r unfolding workable_def by blast
    then have "aw_namespace (settled_app env req w (hash_of w) r) = nr_TargetNamespace req" by (simp add: settled_app_def migrated_keeps(7))
    with True show ?thesis by (simp add: app_moved_def)
  qed (simp add: app_moved_def)
  moreover have "runtime_moved env req [w] r (if runtime_hit env req w r then settled_runtime req w (hash_of w) r else r)" for r
    by (simp add: runtime_moved_def settled_runtime_def)
  moreover have "rx_created (settled_execution env req w h x) = rx_created x" for h x
    by (auto simp: settled_execution_def split: sum.split prod.split)
  moreover have "as_operation (migrated_start now h u x) = as_operation x" for now h u x by (simp add: migrated_start_def)
  ultimately show ?thesis
    by (simp add: tables_moved_def workspace_tables_def list_all2_map2 list_all2_same settled_starts_def settled_executions_def start_moved_def execution_moved_def)
qed

lemma app_moved_join:
  assumes "app_moved env req [w] x y" "app_moved env req ws y z"
  shows "app_moved env req (w # ws) x z"
proof (cases "app_hit env req w x")
  case True
  with assms show ?thesis by (simp add: app_moved_def split: if_split_asm)
next
  case False
  then have "y = x" using assms(1) by (simp add: app_moved_def)
  with assms(2) False show ?thesis by (simp add: app_moved_def)
qed

lemma runtime_moved_join:
  assumes "runtime_moved env req [w] x y" "runtime_moved env req ws y z"
  shows "runtime_moved env req (w # ws) x z"
proof (cases "runtime_hit env req w x")
  case True
  with assms show ?thesis by (simp add: runtime_moved_def split: if_split_asm)
next
  case False
  then have "y = x" using assms(1) by (simp add: runtime_moved_def)
  with assms(2) False show ?thesis by (simp add: runtime_moved_def)
qed

lemma tables_moved_join:
  assumes "tables_moved env req [w] t t1" "tables_moved env req ws t1 t'"
  shows "tables_moved env req (w # ws) t t'"
proof -
  have start: "start_moved env req (w # ws) t x z" if "start_moved env req [w] t x y" "start_moved env req ws t1 y z" for x y z
    using that moved_instances(1) [OF assms(1)] by (auto simp: start_moved_def)
  have execution: "execution_moved env req (w # ws) t x z" if "execution_moved env req [w] t x y" "execution_moved env req ws t1 y z" for x y z
    using that moved_instances(2) [OF assms(1)] by (auto simp: execution_moved_def)
  have "list_all2 (app_moved env req (w # ws)) (mt_app t) (mt_app t')"
    by (rule list_all2_trans [of "app_moved env req [w]" "app_moved env req ws" _ _ "mt_app t1"])
      (use assms in \<open>simp_all add: tables_moved_def app_moved_join\<close>)
  moreover have "list_all2 (runtime_moved env req (w # ws)) (mt_runtime t) (mt_runtime t')"
    by (rule list_all2_trans [of "runtime_moved env req [w]" "runtime_moved env req ws" _ _ "mt_runtime t1"])
      (use assms in \<open>simp_all add: tables_moved_def runtime_moved_join\<close>)
  moreover have "list_all2 (start_moved env req (w # ws) t) (mt_starts t) (mt_starts t')"
    by (rule list_all2_trans [of "start_moved env req [w] t" "start_moved env req ws t1" _ _ "mt_starts t1"])
      (use assms start in \<open>simp_all add: tables_moved_def\<close>)
  moreover have "list_all2 (execution_moved env req (w # ws) t) (mt_executions t) (mt_executions t')"
    by (rule list_all2_trans [of "execution_moved env req [w] t" "execution_moved env req ws t1" _ _ "mt_executions t1"])
      (use assms execution in \<open>simp_all add: tables_moved_def\<close>)
  ultimately show ?thesis by (simp add: tables_moved_def)
qed

lemma each_workspace_spec:
  assumes "each (migrate_workspace env req) ws (t, out) = Inr (t', out')" "tables_ok env t"
  shows "t' = fold (workspace_tables env req) ws t \<and> tables_ok env t' \<and> tables_moved env req ws t t'"
  using assms
proof (induction ws arbitrary: t out)
  case Nil
  then show ?case by (simp add: tables_moved_def list_all2_same app_moved_def runtime_moved_def start_moved_def execution_moved_def)
next
  case (Cons w ws)
  obtain t1 out1 where s: "migrate_workspace env req w (t, out) = Inr (t1, out1)" "each (migrate_workspace env req) ws (t1, out1) = Inr (t', out')"
    using Cons.prems(1) by (auto split: sum.split_asm)
  note one = migrate_workspace_spec [OF s(1) Cons.prems(2)]
  have "tables_moved env req [w] t t1" using one workspace_moved by blast
  with Cons.IH [OF s(2)] one tables_moved_join show ?case by auto
qed

text \<open>
  C29. A successful migration is exactly the set-oriented update it stands for, workspace by
  workspace, and it is confined: every row keeps its instance, station, installation and volume;
  the rows of a requested volume claim in the source or target namespace end up in the target
  namespace, and all other rows of all four tables are left as they were. The constraints of the
  tables hold afterwards. A migration that fails changes nothing.
\<close>

theorem migration_confined:
  assumes "tables_ok env t" "MigrateNamespace env req db (st, t, m) = (res, st', t', m')"
  shows "(case res of
      Inl e \<Rightarrow> st' = st \<and> t' = t \<and> m' = m
    | Inr out \<Rightarrow> ValidateNamespaceMigrationRequest (me_parse env) req \<and> m' = reset_states env req m \<and>
        (if me_pool env then t' = fold (workspace_tables env req) (nr_Workspaces req) t \<and> tables_moved env req (nr_Workspaces req) t t' else t' = t)) \<and>
    tables_ok env t'"
proof -
  consider (bad) e where "res = Inl e" "(st', t', m') = (st, t, m)" | (nopool) "\<not> me_pool env" "t' = t" "m' = reset_states env req m"
      "ValidateNamespaceMigrationRequest (me_parse env) req" "\<exists>out. res = Inr out"
    | (run) out0 out where "me_pool env" "ValidateNamespaceMigrationRequest (me_parse env) req" "res = Inr out" "m' = reset_states env req m"
      "each (migrate_workspace env req) (nr_Workspaces req) (t, out0) = Inr (t', out)"
    using assms(2) by (auto simp: MigrateNamespace_def split: if_split_asm sum.split_asm prod.split_asm)
  then show ?thesis
  proof cases
    case (run out0 out)
    from each_workspace_spec [OF run(5) assms(1)] run(1-4) show ?thesis unfolding run(3) sum.case by auto
  qed (use assms(1) in auto)
qed

section \<open>A repeated migration\<close>

text \<open>
  What the repetition relies on: a number that went through a \<open>float64\<close> once keeps its literal, the
  text of a UUID has no dots, and the namespaces do not begin with \<^verbatim>\<open>local\<close>.
\<close>

definition float_idem :: "migration_env \<Rightarrow> bool" where
  "float_idem env \<longleftrightarrow> (\<forall>n. through_float (me_float env) (me_float env n) = me_float env n)"

definition plain_uuids :: "migration_env \<Rightarrow> bool" where
  "plain_uuids env \<longleftrightarrow> (\<forall>v. validID (me_parse env) v \<longrightarrow> dotless v)"

lemma through_float_idem:
  assumes "\<And>n. through_float f (f n) = f n"
  shows "through_float f (through_float f v) = through_float f v"
  by (induction v) (auto simp: assms)

lemma update_twice [simp]: "AList.update k v (AList.update k v al) = AList.update k v al"
  by (rule update_same) (simp add: update_conv)

lemma new_binding_idem:
  "new_binding_members env uid hash target pvc pv (new_binding_members env uid hash target pvc pv ms) = new_binding_members env uid hash target pvc pv ms"
  unfolding new_binding_members_def Let_def by (auto simp: update_same update_conv)

lemma update_map_vals: "AList.update k (f v) (map (\<lambda>m. (fst m, f (snd m))) ms) = map (\<lambda>m. (fst m, f (snd m))) (AList.update k v ms)"
  by (induction ms) auto

lemma new_binding_float:
  assumes "map (\<lambda>m. (fst m, through_float f (snd m))) ms = ms"
  shows "map (\<lambda>m. (fst m, through_float f (snd m))) (new_binding_members env uid hash target pvc pv ms) = new_binding_members env uid hash target pvc pv ms"
proof -
  define P where "P ms \<longleftrightarrow> map (\<lambda>m. (fst m, through_float f (snd m))) ms = ms" for ms :: "(string \<times> value_json) list"
  have "P (AList.update k (VStr s) ms)" if "P ms" for k s ms
    using update_map_vals [of k "through_float f" "VStr s" ms] that by (simp add: P_def)
  moreover have "P ms" using assms by (simp add: P_def)
  ultimately have "P (new_binding_members env uid hash target pvc pv ms)" unfolding new_binding_members_def Let_def by simp
  then show ?thesis by (simp add: P_def)
qed

lemma binding_members_float:
  assumes "float_idem env" "binding_members env b = Some ms"
  shows "map (\<lambda>m. (fst m, through_float (me_float env) (snd m))) ms = ms"
proof -
  have idem: "through_float (me_float env) (through_float (me_float env) v) = through_float (me_float env) v" for v
    using through_float_idem assms(1) by (simp add: float_idem_def)
  show ?thesis
  proof (cases b)
    case None
    then show ?thesis using assms(2) by (simp add: binding_members_def)
  next
    case (Some v)
    then show ?thesis using assms(2) idem [of v]
      by (cases "through_float (me_float env) v") (auto simp: binding_members_def)
  qed
qed

lemma effective_idem: "effective_uid w (effective_uid w u) = effective_uid w u"
  by (simp add: effective_uid_def)

lemma hash_of_no_prefix: "hash_of w \<noteq> [] \<Longrightarrow> \<not> HasPrefix_sha256 (hash_of w)"
proof
  assume h: "hash_of w \<noteq> []" "HasPrefix_sha256 (hash_of w)"
  then have "hexHashPattern (hash_of w)"
    by (auto simp: hash_of_def normalizeHexProfileHash_def Let_def split: if_split_asm option.split_asm)
  moreover have "CHR ''s'' \<in> set (hash_of w)" using h(2) unfolding HasPrefix_sha256_def by (auto elim!: prefixE)
  moreover have "\<not> is_hex_lower (CHR ''s'')" by code_simp
  ultimately show False unfolding hexHashPattern_def list_all_iff by blast
qed

lemma effective_hash_idem: "effective_hash env w (hash_of w) (effective_hash env w (hash_of w) x) = effective_hash env w (hash_of w) x"
  using hash_of_no_prefix [of w] by (simp add: effective_hash_def)

lemma migrated_app_idem:
  assumes "float_idem env" "migrated_app env req w (hash_of w) r = Some r'"
  shows "migrated_app env req w (hash_of w) r' = Some r'"
proof -
  define uid where "uid = effective_uid w (aw_pvc_uid r)" define hash where "hash = effective_hash env w (hash_of w) (aw_profile_hash r)"
  obtain ms where ms: "binding_members env (aw_binding r) = Some ms" using assms(2) by (auto simp: migrated_app_def Let_def)
  define nb where "nb = new_binding_members env uid hash (nr_TargetNamespace req) (nw_PVCName w) (aw_pv_name r) ms"
  have r': "r' = r\<lparr>aw_namespace := nr_TargetNamespace req, aw_pvc_uid := uid, aw_profile_hash := hash, aw_binding := Some (VObj nb),
      aw_updated := (if me_hasWorkspaceUpdatedAt env then me_txnow env else aw_updated r)\<rparr>"
    using assms(2) ms by (simp add: migrated_app_def Let_def uid_def hash_def nb_def)
  have "map (\<lambda>m. (fst m, through_float (me_float env) (snd m))) nb = nb"
    unfolding nb_def by (rule new_binding_float [OF binding_members_float [OF assms(1) ms]])
  then have "binding_members env (Some (VObj nb)) = Some nb" by (simp add: binding_members_def)
  moreover have "effective_uid w uid = uid" "effective_hash env w (hash_of w) hash = hash"
    by (simp_all add: uid_def hash_def effective_idem effective_hash_idem)
  moreover have "new_binding_members env uid hash (nr_TargetNamespace req) (nw_PVCName w) (aw_pv_name r) nb = nb"
    unfolding nb_def by (rule new_binding_idem)
  ultimately show ?thesis by (simp add: migrated_app_def Let_def r')
qed

lemma hex_value_nibble: "hex_value (nibble b0 b1 b2 b3) = Some (of_bool b0 + 2 * (of_bool b1 + 2 * (of_bool b2 + 2 * of_bool b3)))"
  by (induct b0; induct b1; induct b2; induct b3; code_simp)

lemma hex_pair: "hex_value a = Some x \<Longrightarrow> hex_value b = Some y \<Longrightarrow> char_of (16 * x + y) = c \<Longrightarrow> hex_DecodeString (a # b # s) = map_option (Cons c) (hex_DecodeString s)"
  by (simp del: hex_value.simps split: option.split)

lemma hex_byte_round: "hex_DecodeString (hex_byte c @ s) = map_option (Cons c) (hex_DecodeString s)"
proof (cases c)
  case (Char b0 b1 b2 b3 b4 b5 b6 b7)
  have "16 * (of_bool b4 + 2 * (of_bool b5 + 2 * (of_bool b6 + 2 * of_bool b7))) + (of_bool b0 + 2 * (of_bool b1 + 2 * (of_bool b2 + 2 * of_bool b3))) = (of_char c :: int)"
    unfolding Char by simp
  then have "char_of (16 * (of_bool b4 + 2 * (of_bool b5 + 2 * (of_bool b6 + 2 * of_bool b7))) + (of_bool b0 + 2 * (of_bool b1 + 2 * (of_bool b2 + 2 * of_bool b3))) :: int) = c"
    by (simp only: char_of_char)
  from hex_pair [OF hex_value_nibble hex_value_nibble this] show ?thesis unfolding Char hex_byte.simps append.simps .
qed

lemma hex_round: "hex_DecodeString (hex_EncodeToString s) = Some s"
  unfolding hex_EncodeToString_code by (induction s) (simp_all add: hex_byte_round)

lemma settled_runtime_idem: "settled_runtime req w h (settled_runtime req w h r) = settled_runtime req w h r"
  using hex_round by (auto simp: settled_runtime_def effective_idem profile_hex_def split: option.split)

lemma rewrite_state_again:
  assumes "rewriteExecutionState s a b c = Inr (st, ch)" "\<And>v. rewriteMigratedValue a b c (fst (rewriteMigratedValue a b c v)) = (fst (rewriteMigratedValue a b c v), False)"
  shows "rewriteExecutionState (Some st) a b c = Inr (st, False)"
proof (cases s)
  case None
  then have "st = VObj []" using assms(1) by (simp add: rewriteExecutionState_def)
  then show ?thesis by (simp add: rewriteExecutionState_def)
next
  case (Some v)
  then consider (obj) ms where "v = VObj ms" | (null) "v = VNull" using assms(1) by (cases v) (simp_all add: rewriteExecutionState_def)
  then show ?thesis
  proof cases
    case obj
    then have "rewriteMigratedValue a b c v = (st, ch)" using assms(1) Some by (simp add: rewriteExecutionState_def)
    moreover from this obj obtain ms' where "st = VObj ms'" by (auto simp: Let_def)
    ultimately show ?thesis using assms(2) [of v] by (simp add: rewriteExecutionState_def del: rewriteMigratedValue.simps)
  next
    case null
    then show ?thesis using assms(1) Some by (simp add: rewriteExecutionState_def)
  qed
qed

lemma settled_execution_idem:
  assumes "dotless source" "dotless target" "dotless (nw_NewSecretUID w)" "source \<noteq> target \<longrightarrow> \<not> prefix ''local'' source \<and> \<not> prefix ''local'' target"
    and "source = nr_SourceNamespace req" "target = nr_TargetNamespace req"
  shows "settled_execution env req w h (settled_execution env req w h x) = settled_execution env req w h x"
proof (cases "rewriteExecutionState (rx_state x) source target (nw_NewSecretUID w)")
  case (Inl e)
  then show ?thesis by (simp add: settled_execution_def assms(5,6) [symmetric])
next
  case (Inr y)
  obtain st ch where y: "y = (st, ch)" by fastforce
  have again: "rewriteExecutionState (Some st) source target (nw_NewSecretUID w) = Inr (st, False)"
    using rewrite_state_again [OF Inr [unfolded y]] rewrite_idem [OF assms(1-4)] by blast
  show ?thesis
  proof (cases "ch \<or> (case exec_hash h of None \<Rightarrow> False | Some b \<Rightarrow> b \<noteq> [])")
    case True
    then have "settled_execution env req w h x = x\<lparr>rx_profile_hash := (case exec_hash h of None \<Rightarrow> rx_profile_hash x | Some b \<Rightarrow> b), rx_state := Some st, rx_updated := me_txnow env\<rparr>"
      using Inr y by (auto simp: settled_execution_def assms(5,6) [symmetric])
    then show ?thesis using again by (auto simp: settled_execution_def assms(5,6) [symmetric] split: option.split)
  next
    case False
    then show ?thesis using Inr y by (auto simp: settled_execution_def assms(5,6) [symmetric])
  qed
qed

section \<open>Settled workspaces\<close>

lemma map_fixed: "map f xs = xs \<longleftrightarrow> (\<forall>x \<in> set xs. f x = x)"
  by (induction xs) auto

text \<open>A workspace whose rows are where the request wants them.\<close>

definition settled :: "migration_env \<Rightarrow> NamespaceMigrationRequest \<Rightarrow> NamespaceMigrationWorkspace \<Rightarrow> migration_tables \<Rightarrow> bool" where
  "settled env req w t \<longleftrightarrow>
     (\<forall>r \<in> set (mt_app t). app_hit env req w r \<longrightarrow> migrated_app env req w (hash_of w) r = Some r) \<and>
     (\<forall>s \<in> set (mt_starts t). starts_due env w (hash_of w) \<longrightarrow> as_instance s \<in> app_instances env req w t \<longrightarrow>
        migrated_start (me_txnow env) (start_hash env w (hash_of w)) (nw_NewSecretUID w) s = s) \<and>
     (\<forall>r \<in> set (mt_runtime t). runtime_hit env req w r \<longrightarrow>
        settled_runtime req w (hash_of w) r = r \<and> hex_DecodeString (profile_hex (hash_of w) (rw_profile_hash r)) \<noteq> None) \<and>
     (\<forall>x \<in> set (mt_executions t). me_hasRuntimeExecutions env \<longrightarrow> rx_instance x \<in> runtime_instances env req w t \<longrightarrow>
        settled_execution env req w (hash_of w) x = x \<and> good_state (rx_state x))"

definition repeatable :: "migration_env \<Rightarrow> NamespaceMigrationRequest \<Rightarrow> bool" where
  "repeatable env req \<longleftrightarrow> float_idem env \<and> plain_uuids env \<and>
     (nr_SourceNamespace req \<noteq> nr_TargetNamespace req \<longrightarrow> \<not> prefix ''local'' (nr_SourceNamespace req) \<and> \<not> prefix ''local'' (nr_TargetNamespace req))"

lemma workspace_settles:
  assumes "repeatable env req" "dotless (nr_SourceNamespace req)" "dotless (nr_TargetNamespace req)" "dotless (nw_NewSecretUID w)" "workable env req w t"
  shows "settled env req w (workspace_tables env req w t)"
proof -
  define t' where "t' = workspace_tables env req w t"
  have inst: "app_instances env req w t' = app_instances env req w t" "runtime_instances env req w t' = runtime_instances env req w t"
    using moved_instances [OF workspace_moved [OF assms(5)]] by (simp_all add: t'_def)
  have app: "migrated_app env req w (hash_of w) r = Some r" if r: "r \<in> set (mt_app t')" "app_hit env req w r" for r
  proof -
    from r obtain q where q: "q \<in> set (mt_app t)" "app_hit env req w q" "r = settled_app env req w (hash_of w) q"
      by (auto simp: t'_def workspace_tables_def split: if_split_asm)
    obtain r' where "migrated_app env req w (hash_of w) q = Some r'" using assms(5) q(1,2) unfolding workable_def by blast
    with migrated_app_idem q(3) assms(1) show ?thesis by (simp add: settled_app_def repeatable_def)
  qed
  have starts: "migrated_start (me_txnow env) (start_hash env w (hash_of w)) (nw_NewSecretUID w) s = s"
    if "s \<in> set (mt_starts t')" "starts_due env w (hash_of w)" "as_instance s \<in> app_instances env req w t'" for s
    using that unfolding inst by (auto simp: t'_def workspace_tables_def settled_starts_def migrated_start_idem split: if_split_asm)
  have runtime: "settled_runtime req w (hash_of w) r = r \<and> hex_DecodeString (profile_hex (hash_of w) (rw_profile_hash r)) \<noteq> None"
    if r: "r \<in> set (mt_runtime t')" "runtime_hit env req w r" for r
  proof -
    from r obtain q where q: "q \<in> set (mt_runtime t)" "runtime_hit env req w q" "r = settled_runtime req w (hash_of w) q"
      by (auto simp: t'_def workspace_tables_def split: if_split_asm)
    then have "hex_DecodeString (profile_hex (hash_of w) (rw_profile_hash q)) \<noteq> None" using assms(5) unfolding workable_def by blast
    then have "hex_DecodeString (profile_hex (hash_of w) (rw_profile_hash r)) \<noteq> None"
      unfolding q(3) using hex_round by (auto simp: profile_hex_def settled_runtime_def)
    with q(3) settled_runtime_idem show ?thesis by simp
  qed
  have exec: "settled_execution env req w (hash_of w) x = x \<and> good_state (rx_state x)"
    if x: "x \<in> set (mt_executions t')" "me_hasRuntimeExecutions env" "rx_instance x \<in> runtime_instances env req w t'" for x
  proof -
    from x obtain y where y: "y \<in> set (mt_executions t)" "x = settled_execution env req w (hash_of w) y" "rx_instance y \<in> runtime_instances env req w t"
      unfolding inst by (auto simp: t'_def workspace_tables_def settled_executions_def split: if_split_asm)
    then have "good_state (rx_state y)" using assms(5) x(2) unfolding workable_def by blast
    with y(2) settled_execution_good settled_execution_idem [OF assms(2-4) _ refl refl] assms(1) show ?thesis by (simp add: repeatable_def)
  qed
  show ?thesis unfolding settled_def t'_def [symmetric] using app starts runtime exec by blast
qed

text \<open>The rows of two claims are disjoint, so that working on one leaves the other settled.\<close>

lemma instances_disjoint:
  assumes "tables_ok env t" "nw_PVCName w \<noteq> nw_PVCName w2"
  shows "app_instances env req w t \<inter> app_instances env req w2 t = {}" "runtime_instances env req w t \<inter> runtime_instances env req w2 t = {}"
proof -
  have d: "distinct (map aw_instance (mt_app t))" "distinct (map rw_instance (mt_runtime t))" using assms(1) by (simp_all add: tables_ok_def)
  show "app_instances env req w t \<inter> app_instances env req w2 t = {}"
  proof (rule equals0I)
    fix i assume "i \<in> app_instances env req w t \<inter> app_instances env req w2 t"
    then obtain a b where ab: "a \<in> set (mt_app t)" "app_hit env req w a" "b \<in> set (mt_app t)" "app_hit env req w2 b" "aw_instance a = aw_instance b"
      unfolding app_instances_def by auto
    then have "a = b" using key_in_distinct [OF d(1)] by blast
    with ab assms(2) show False by (simp add: app_hit_def app_matches_def)
  qed
  show "runtime_instances env req w t \<inter> runtime_instances env req w2 t = {}"
  proof (rule equals0I)
    fix i assume "i \<in> runtime_instances env req w t \<inter> runtime_instances env req w2 t"
    then obtain a b where ab: "a \<in> set (mt_runtime t)" "runtime_hit env req w a" "b \<in> set (mt_runtime t)" "runtime_hit env req w2 b" "rw_instance a = rw_instance b"
      unfolding runtime_instances_def by auto
    then have "a = b" using key_in_distinct [OF d(2)] by blast
    with ab assms(2) show False by (simp add: runtime_hit_def runtime_matches_def)
  qed
qed

lemma workspace_keeps_settled:
  assumes "tables_ok env t" "nw_PVCName w \<noteq> nw_PVCName w2" "settled env req w t" "workable env req w2 t"
  shows "settled env req w (workspace_tables env req w2 t)"
proof -
  define t' where "t' = workspace_tables env req w2 t"
  have inst: "app_instances env req w t' = app_instances env req w t" "runtime_instances env req w t' = runtime_instances env req w t"
    using moved_instances [OF workspace_moved [OF assms(4)]] by (simp_all add: t'_def)
  note dis = instances_disjoint [OF assms(1,2), of req]
  have app: "r \<in> set (mt_app t)" if "r \<in> set (mt_app t')" "app_hit env req w r" for r
    using that assms(2) by (auto simp: t'_def workspace_tables_def app_hit_def app_matches_def split: if_split_asm)
  have starts: "s \<in> set (mt_starts t)" if "s \<in> set (mt_starts t')" "as_instance s \<in> app_instances env req w t" for s
    using that dis(1) by (auto simp: t'_def workspace_tables_def settled_starts_def split: if_split_asm)
  have runtime: "r \<in> set (mt_runtime t)" if "r \<in> set (mt_runtime t')" "runtime_hit env req w r" for r
    using that assms(2) by (auto simp: t'_def workspace_tables_def runtime_hit_def runtime_matches_def settled_runtime_def split: if_split_asm)
  have exec: "x \<in> set (mt_executions t)" if "x \<in> set (mt_executions t')" "rx_instance x \<in> runtime_instances env req w t" for x
    using that dis(2) by (auto simp: t'_def workspace_tables_def settled_executions_def split: if_split_asm)
  show ?thesis using assms(3) app starts runtime exec unfolding settled_def t'_def [symmetric] inst by blast
qed

text \<open>A settled workspace is worked on again without effect and without error.\<close>

lemma each_noop: "(\<And>x out. x \<in> set xs \<Longrightarrow> \<exists>out'. f x (t, out) = Inr (t, out')) \<Longrightarrow> \<exists>out'. each f xs (t, out) = Inr (t, out')"
proof (induction xs arbitrary: out)
  case (Cons x xs)
  obtain out1 where "f x (t, out) = Inr (t, out1)" using Cons.prems [of x out] by auto
  then show ?case using Cons.IH [of out1] Cons.prems by auto
qed simp

lemma app_row_noop:
  assumes "tables_ok env t" "settled env req w t" "r \<in> set (mt_app t)" "app_hit env req w r"
  shows "\<exists>out'. migrate_app_row env req w (hash_of w) r (t, out) = Inr (t, out')"
proof -
  have m: "migrated_app env req w (hash_of w) r = Some r" using assms(2-4) unfolding settled_def by blast
  have d: "distinct (map aw_instance (mt_app t))" using assms(1) by (simp add: tables_ok_def)
  have "map (\<lambda>q. if aw_instance q = aw_instance r then q\<lparr>aw_namespace := aw_namespace r, aw_pvc_uid := aw_pvc_uid r, aw_profile_hash := aw_profile_hash r,
      aw_binding := aw_binding r, aw_updated := aw_updated r\<rparr> else q) (mt_app t) = replace_row aw_instance (\<lambda>q. q) r (mt_app t)"
    by (rule replace_rowI [OF d assms(3)]) simp
  also have "\<dots> = mt_app t" by (simp add: replace_row_def)
  finally have "map (\<lambda>q. if aw_instance q = aw_instance r then q\<lparr>aw_namespace := aw_namespace r, aw_pvc_uid := aw_pvc_uid r, aw_profile_hash := aw_profile_hash r,
      aw_binding := aw_binding r, aw_updated := aw_updated r\<rparr> else q) (mt_app t) = mt_app t" .
  moreover have "aw_instance r \<in> app_instances env req w t" using assms(3,4) unfolding app_instances_def by blast
  then have "starts_due env w (hash_of w) \<Longrightarrow> map (\<lambda>s. if as_instance s = aw_instance r
      then migrated_start (me_txnow env) (start_hash env w (hash_of w)) (nw_NewSecretUID w) s else s) (mt_starts t) = mt_starts t"
    using assms(2) unfolding map_fixed settled_def by auto
  then have "\<exists>out'. update_starts env w (hash_of w) (aw_instance r) (t, out1) = Inr (t, out')" for out1
    using assms(1) by (auto simp: update_starts_def starts_due_def tables_ok_def Let_def)
  ultimately show ?thesis using assms(1) by (simp add: migrate_app_row_def m Let_def tables_ok_def)
qed

lemma runtime_row_noop:
  assumes "tables_ok env t" "settled env req w t" "r \<in> set (mt_runtime t)" "runtime_hit env req w r"
  shows "\<exists>out'. migrate_runtime_row env req w (hash_of w) r (t, out) = Inr (t, out')"
proof -
  define h where "h = hash_of w"
  have fixed: "settled_runtime req w h r = r" and "hex_DecodeString (profile_hex h (rw_profile_hash r)) \<noteq> None"
    using assms(2-4) unfolding settled_def h_def by blast+
  then obtain b where b: "hex_DecodeString (profile_hex h (rw_profile_hash r)) = Some b" by blast
  have d: "distinct (map rw_instance (mt_runtime t))" "distinct (map rx_operation (mt_executions t))" using assms(1) by (simp_all add: tables_ok_def)
  have "map (\<lambda>q. if rw_instance q = rw_instance r then q\<lparr>rw_namespace := nr_TargetNamespace req, rw_pvc_uid := effective_uid w (rw_pvc_uid r), rw_profile_hash := b\<rparr>
      else q) (mt_runtime t) = replace_row rw_instance (settled_runtime req w h) r (mt_runtime t)"
    by (rule replace_rowI [OF d(1) assms(3)]) (simp add: settled_runtime_def b)
  also have "\<dots> = mt_runtime t" by (rule replace_row_id [where f = "settled_runtime req w h", OF d(1) assms(3) fixed])
  finally have rows: "map (\<lambda>q. if rw_instance q = rw_instance r then q\<lparr>rw_namespace := nr_TargetNamespace req, rw_pvc_uid := effective_uid w (rw_pvc_uid r),
      rw_profile_hash := b\<rparr> else q) (mt_runtime t) = mt_runtime t" .
  have hash: "(if h \<noteq> [] then Some b else None) = exec_hash h" using b by (auto simp: exec_hash_def profile_hex_def)
  have execs: "\<exists>n. migrateRuntimeExecutions (me_txnow env) (rw_instance r) (nr_SourceNamespace req) (nr_TargetNamespace req) (exec_hash h) (nw_NewSecretUID w) (mt_executions t) =
      Inr (mt_executions t, n)" if has: "me_hasRuntimeExecutions env"
    unfolding migrateRuntimeExecutions_def
  proof (rule each_noop)
    fix x n assume "x \<in> set (sort_key (\<lambda>r. (rx_created r, rx_operation r)) (filter (\<lambda>x. rx_instance x = rw_instance r) (mt_executions t)))"
    then have x: "x \<in> set (mt_executions t)" "rx_instance x \<in> runtime_instances env req w t"
      using assms(3,4) unfolding runtime_instances_def by auto
    then have s: "settled_execution env req w h x = x" "good_state (rx_state x)" using assms(2) has unfolding settled_def h_def by blast+
    then obtain st ch where "rewriteExecutionState (rx_state x) (nr_SourceNamespace req) (nr_TargetNamespace req) (nw_NewSecretUID w) = Inr (st, ch)"
      using rewrite_state_good [of "rx_state x" "nr_SourceNamespace req" "nr_TargetNamespace req" "nw_NewSecretUID w"] by auto
    then have "\<exists>y. migrate_execution (me_txnow env) (nr_SourceNamespace req) (nr_TargetNamespace req) (exec_hash h) (nw_NewSecretUID w) x (mt_executions t, n) = Inr y"
      unfolding migrate_execution_def by simp
    then obtain rows' n' where e: "migrate_execution (me_txnow env) (nr_SourceNamespace req) (nr_TargetNamespace req) (exec_hash h) (nw_NewSecretUID w) x (mt_executions t, n) = Inr (rows', n')"
      by auto
    have "rows' = mt_executions t" using migrate_execution_spec [OF e d(2) x(1)] replace_row_id [where f = "settled_execution env req w h", OF d(2) x(1) s(1)] by simp
    with e show "\<exists>out'. migrate_execution (me_txnow env) (nr_SourceNamespace req) (nr_TargetNamespace req) (exec_hash h) (nw_NewSecretUID w) x (mt_executions t, n) =
        Inr (mt_executions t, out')" by blast
  qed
  have ok: "runtime_table_ok (mt_runtime t)" using assms(1) by (simp add: tables_ok_def)
  show ?thesis
    unfolding h_def [symmetric] migrate_runtime_row_def prod.case profile_hex_def [symmetric] Let_def b option.case rows hash
    using ok execs by (cases "me_hasRuntimeExecutions env") auto
qed

lemma workspace_noop:
  assumes "tables_ok env t" "settled env req w t" "normalizeHexProfileHash (nw_NewProfileHash w) \<noteq> None"
  shows "\<exists>out'. migrate_workspace env req w (t, out) = Inr (t, out')"
proof -
  obtain h where h: "normalizeHexProfileHash (nw_NewProfileHash w) = Some h" using assms(3) by blast
  then have hash: "hash_of w = h" by (simp add: hash_of_def)
  have "\<exists>out'. (if me_hasAppWorkspaces env then each (migrate_app_row env req w h) (sort_key aw_instance (filter (app_matches env req w) (mt_app t))) (t, out)
      else Inr (t, out)) = Inr (t, out')" for out
  proof (cases "me_hasAppWorkspaces env")
    case True
    have "\<exists>out'. each (migrate_app_row env req w h) (sort_key aw_instance (filter (app_matches env req w) (mt_app t))) (t, out) = Inr (t, out')"
      by (rule each_noop) (use app_row_noop [OF assms(1,2)] hash True in \<open>simp add: app_hit_def\<close>)
    with True show ?thesis by simp
  qed simp
  then obtain out1 where a: "(if me_hasAppWorkspaces env then each (migrate_app_row env req w h) (sort_key aw_instance (filter (app_matches env req w) (mt_app t))) (t, out)
      else Inr (t, out)) = Inr (t, out1)" by blast
  have "\<exists>out'. (if me_hasRuntimeWorkspaces env then each (migrate_runtime_row env req w h) (sort_key rw_instance (filter (runtime_matches env req w) (mt_runtime t))) (t, out1)
      else Inr (t, out1)) = Inr (t, out')"
  proof (cases "me_hasRuntimeWorkspaces env")
    case True
    have "\<exists>out'. each (migrate_runtime_row env req w h) (sort_key rw_instance (filter (runtime_matches env req w) (mt_runtime t))) (t, out1) = Inr (t, out')"
      by (rule each_noop) (use runtime_row_noop [OF assms(1,2)] hash True in \<open>simp add: runtime_hit_def\<close>)
    with True show ?thesis by simp
  qed simp
  then show ?thesis unfolding migrate_workspace_def h option.case fst_conv a sum.case .
qed

lemma each_settles:
  assumes "each (migrate_workspace env req) ws (t, out) = Inr (t', out')" "tables_ok env t" "repeatable env req"
    and "dotless (nr_SourceNamespace req)" "dotless (nr_TargetNamespace req)" "\<forall>w \<in> set ws. dotless (nw_NewSecretUID w)"
    and "distinct (map nw_PVCName ws)" "\<forall>w \<in> P. settled env req w t \<and> nw_PVCName w \<notin> nw_PVCName ` set ws"
  shows "\<forall>w \<in> P \<union> set ws. settled env req w t'"
  using assms
proof (induction ws arbitrary: t out P)
  case (Cons w ws)
  obtain t1 out1 where s: "migrate_workspace env req w (t, out) = Inr (t1, out1)" "each (migrate_workspace env req) ws (t1, out1) = Inr (t', out')"
    using Cons.prems(1) by (auto split: sum.split_asm)
  have one: "t1 = workspace_tables env req w t" "tables_ok env t1" "workable env req w t" using migrate_workspace_spec [OF s(1) Cons.prems(2)] by blast+
  have "settled env req w t1" unfolding one(1) by (rule workspace_settles [OF Cons.prems(3-5) _ one(3)]) (use Cons.prems(6) in simp)
  moreover have "settled env req v t1" if "v \<in> P" for v
    unfolding one(1) by (rule workspace_keeps_settled [OF Cons.prems(2) _ _ one(3)]) (use Cons.prems(8) that in auto)
  ultimately have "\<forall>v \<in> insert w P. settled env req v t1 \<and> nw_PVCName v \<notin> nw_PVCName ` set ws" using Cons.prems(7,8) by auto
  from Cons.IH [OF s(2) one(2) Cons.prems(3-5) _ _ this] Cons.prems(6,7) show ?case by auto
qed simp

lemma workspaces_valid_spec:
  "workspaces_valid parse seen ws \<Longrightarrow> distinct (map nw_PVCName ws) \<and> set (map nw_PVCName ws) \<inter> set seen = {} \<and>
     (\<forall>w \<in> set ws. normalizeHexProfileHash (nw_NewProfileHash w) \<noteq> None \<and> (nw_NewSecretUID w = [] \<or> validID parse (nw_NewSecretUID w)))"
  by (induction parse seen ws rule: workspaces_valid.induct) (auto split: if_split_asm)

lemma ValidateD:
  assumes "ValidateNamespaceMigrationRequest parse req"
  shows "dotless (nr_SourceNamespace req)" "dotless (nr_TargetNamespace req)" "workspaces_valid parse [] (nr_Workspaces req)"
  using assms label_dotless by (auto simp: ValidateNamespaceMigrationRequest_def split: if_split_asm)

section \<open>The times of the updates\<close>

text \<open>
  Every statement of the migration also writes \<open>updated_at\<close>, so a repetition at another time does
  change rows. Without these columns a migration is the same function at every time: it commutes
  with their removal.
\<close>

definition unstamp_app :: "app_workspace \<Rightarrow> app_workspace" where
  "unstamp_app r = r\<lparr>aw_updated := 0\<rparr>"

definition unstamp_start :: "app_start \<Rightarrow> app_start" where
  "unstamp_start r = r\<lparr>as_updated := 0\<rparr>"

definition unstamp_execution :: "runtime_execution \<Rightarrow> runtime_execution" where
  "unstamp_execution r = r\<lparr>rx_updated := 0\<rparr>"

definition unstamp :: "migration_tables \<Rightarrow> migration_tables" where
  "unstamp t = t\<lparr>mt_app := map unstamp_app (mt_app t), mt_starts := map unstamp_start (mt_starts t),
     mt_executions := map unstamp_execution (mt_executions t)\<rparr>"

definition untimed :: "migration_env \<Rightarrow> migration_env" where
  "untimed env = env\<lparr>me_txnow := 0, me_now := 0\<rparr>"

definition match_ignores_time :: "migration_env \<Rightarrow> bool" where
  "match_ignores_time env \<longleftrightarrow> (\<forall>r. me_bindingMatch env (unstamp_app r) = me_bindingMatch env r)"

lemmas unstamp_defs = unstamp_app_def unstamp_start_def unstamp_execution_def

lemma untimed_sel [simp]:
  "me_parse (untimed env) = me_parse env" "me_station (untimed env) = me_station env" "me_pool (untimed env) = me_pool env"
  "me_fails (untimed env) = me_fails env" "me_hasInstallations (untimed env) = me_hasInstallations env" "me_hasMark (untimed env) = me_hasMark env"
  "me_hasAppWorkspaces (untimed env) = me_hasAppWorkspaces env" "me_hasAppStarts (untimed env) = me_hasAppStarts env"
  "me_hasRuntimeWorkspaces (untimed env) = me_hasRuntimeWorkspaces env" "me_hasRuntimeExecutions (untimed env) = me_hasRuntimeExecutions env"
  "me_hasBindingMatch (untimed env) = me_hasBindingMatch env" "me_bindingMatch (untimed env) = me_bindingMatch env"
  "me_hasWorkspaceUpdatedAt (untimed env) = me_hasWorkspaceUpdatedAt env" "me_hasWorkspaceHexCheck (untimed env) = me_hasWorkspaceHexCheck env"
  "me_hasStartsHexCheck (untimed env) = me_hasStartsHexCheck env" "me_float (untimed env) = me_float env" "me_txnow (untimed env) = 0"
  by (simp_all add: untimed_def)

lemma unstamp_app_sel [simp]:
  "aw_instance (unstamp_app r) = aw_instance r" "aw_station (unstamp_app r) = aw_station r" "aw_installation (unstamp_app r) = aw_installation r"
  "aw_profile_hash (unstamp_app r) = aw_profile_hash r" "aw_namespace (unstamp_app r) = aw_namespace r" "aw_pvc_name (unstamp_app r) = aw_pvc_name r"
  "aw_pvc_uid (unstamp_app r) = aw_pvc_uid r" "aw_pv_name (unstamp_app r) = aw_pv_name r" "aw_pv_uid (unstamp_app r) = aw_pv_uid r"
  "aw_binding (unstamp_app r) = aw_binding r"
  by (simp_all add: unstamp_app_def)

lemma unstamp_row_sel [simp]:
  "as_instance (unstamp_start s) = as_instance s" "as_profile_hash (unstamp_start s) = as_profile_hash s"
  "rx_operation (unstamp_execution x) = rx_operation x" "rx_instance (unstamp_execution x) = rx_instance x"
  "rx_state (unstamp_execution x) = rx_state x" "rx_created (unstamp_execution x) = rx_created x"
  by (simp_all add: unstamp_defs)

lemma unstamp_sel [simp]:
  "mt_app (unstamp t) = map unstamp_app (mt_app t)" "mt_starts (unstamp t) = map unstamp_start (mt_starts t)"
  "mt_executions (unstamp t) = map unstamp_execution (mt_executions t)" "mt_runtime (unstamp t) = mt_runtime t"
  by (simp_all add: unstamp_def)

lemma sort_key_map_comp: "sort_key k (map f xs) = map f (sort_key (\<lambda>x. k (f x)) xs)"
proof -
  have "insort_key k (f x) (map f ys) = map f (insort_key (\<lambda>x. k (f x)) x ys)" for x ys by (induction ys) auto
  then show ?thesis by (induction xs) auto
qed

lemma each_commutes:
  assumes "\<And>x s. g (e x) (E s) = map_sum id E (f x s)"
  shows "each g (map e xs) (E s) = map_sum id E (each f xs s)"
proof (induction xs arbitrary: s)
  case (Cons x xs)
  show ?case by (cases "f x s") (simp_all add: assms Cons.IH)
qed simp

lemma migrated_app_untimed:
  "migrated_app (untimed env) req w h (unstamp_app r) = map_option unstamp_app (migrated_app env req w h r)"
proof -
  have same: "binding_members (untimed env) = binding_members env" "new_binding_members (untimed env) = new_binding_members env"
      "effective_hash (untimed env) = effective_hash env"
    unfolding fun_eq_iff binding_members_def new_binding_members_def effective_hash_def untimed_sel by simp_all
  show ?thesis unfolding migrated_app_def Let_def same unstamp_app_sel untimed_sel option.map_comp comp_def by (simp add: unstamp_app_def)
qed

lemma app_table_untimed: "match_ignores_time env \<Longrightarrow> app_table_ok (untimed env) (map unstamp_app rows) \<longleftrightarrow> app_table_ok env rows"
  by (simp add: app_table_ok_def match_ignores_time_def comp_def list.pred_map)

lemma starts_table_untimed: "starts_table_ok (untimed env) (map unstamp_start rows) \<longleftrightarrow> starts_table_ok env rows"
  by (simp add: starts_table_ok_def comp_def list.pred_map)

lemma update_starts_untimed:
  "update_starts (untimed env) w h i (apfst unstamp x) = map_sum id (apfst unstamp) (update_starts env w h i x)"
proof (cases x)
  case (Pair t out)
  have rows: "map (\<lambda>s. if as_instance s = i then migrated_start 0 hash secret s else s) (map unstamp_start rows) =
      map unstamp_start (map (\<lambda>s. if as_instance s = i then migrated_start now hash secret s else s) rows)" for now hash secret rows
    by (auto simp: migrated_start_def unstamp_start_def)
  have hash: "start_hash (untimed env) w h = start_hash env w h" by (simp add: start_hash_def)
  have upd: "unstamp t\<lparr>mt_starts := map unstamp_start a\<rparr> = unstamp (t\<lparr>mt_starts := a\<rparr>)" for a by (simp add: unstamp_def)
  show ?thesis
    unfolding Pair update_starts_def Let_def hash untimed_sel apfst_conv prod.case unstamp_sel rows [where now = "me_txnow env"] starts_table_untimed upd
    by (auto simp: filter_map comp_def)
qed

lemma app_row_untimed:
  assumes "match_ignores_time env"
  shows "migrate_app_row (untimed env) req w h (unstamp_app r) (apfst unstamp x) = map_sum id (apfst unstamp) (migrate_app_row env req w h r x)"
proof (cases x)
  case (Pair t out)
  have rows: "map (\<lambda>q. if aw_instance q = i then q\<lparr>aw_namespace := a, aw_pvc_uid := b, aw_profile_hash := c, aw_binding := d, aw_updated := 0\<rparr> else q)
        (map unstamp_app rows) =
      map unstamp_app (map (\<lambda>q. if aw_instance q = i then q\<lparr>aw_namespace := a, aw_pvc_uid := b, aw_profile_hash := c, aw_binding := d, aw_updated := z\<rparr> else q) rows)"
    for i a b c d z rows by (auto simp: unstamp_app_def)
  have upd: "unstamp t\<lparr>mt_app := map unstamp_app a\<rparr> = unstamp (t\<lparr>mt_app := a\<rparr>)" for a by (simp add: unstamp_def)
  have zero: "aw_updated (unstamp_app q) = 0" for q by (simp add: unstamp_app_def)
  show ?thesis
  proof (cases "migrated_app env req w h r")
    case (Some r')
    have starts: "update_starts (untimed env) w h i (unstamp t, out) = map_sum id (apfst unstamp) (update_starts env w h i (t, out))" for i t out
      using update_starts_untimed [of env w h i "(t, out)"] by simp
    have count: "length (filter (\<lambda>q. aw_instance q = i) (map unstamp_app xs)) = length (filter (\<lambda>q. aw_instance q = i) xs)" for i xs
      by (simp add: filter_map comp_def)
    show ?thesis
      unfolding Pair migrate_app_row_def migrated_app_untimed Some option.map option.case apfst_conv prod.case Let_def zero unstamp_app_sel unstamp_sel
        rows [where z = "aw_updated r'"] app_table_untimed [OF assms] upd count starts by simp
  qed (simp add: Pair migrate_app_row_def migrated_app_untimed)
qed

lemma execution_untimed:
  "migrate_execution 0 a b hash secret (unstamp_execution r) (apfst (map unstamp_execution) x) =
     map_sum id (apfst (map unstamp_execution)) (migrate_execution now a b hash secret r x)"
proof (cases x)
  case (Pair rows n)
  have rows: "map (\<lambda>q. if rx_operation q = i then q\<lparr>rx_profile_hash := (case hash of None \<Rightarrow> rx_profile_hash q | Some h \<Rightarrow> h), rx_state := st, rx_updated := 0\<rparr> else q)
        (map unstamp_execution rows) =
      map unstamp_execution (map (\<lambda>q. if rx_operation q = i
        then q\<lparr>rx_profile_hash := (case hash of None \<Rightarrow> rx_profile_hash q | Some h \<Rightarrow> h), rx_state := st, rx_updated := now\<rparr> else q) rows)" for i st
    by (auto simp: unstamp_execution_def split: option.split)
  show ?thesis unfolding Pair migrate_execution_def apfst_conv prod.case unstamp_row_sel rows
    by (simp add: filter_map comp_def split: sum.split prod.split del: map_map)
qed

lemma executions_untimed:
  "migrateRuntimeExecutions 0 i a b hash secret (map unstamp_execution rows) =
     map_sum id (apfst (map unstamp_execution)) (migrateRuntimeExecutions now i a b hash secret rows)"
  using each_commutes [of "migrate_execution 0 a b hash secret" unstamp_execution "apfst (map unstamp_execution)" "migrate_execution now a b hash secret",
      OF execution_untimed, of _ "(rows, 0)"]
  by (simp add: migrateRuntimeExecutions_def filter_map sort_key_map_comp comp_def)

lemma runtime_row_untimed:
  "migrate_runtime_row (untimed env) req w h r (apfst unstamp x) = map_sum id (apfst unstamp) (migrate_runtime_row env req w h r x)"
proof (cases x)
  case (Pair t out)
  have upd: "unstamp t\<lparr>mt_runtime := a\<rparr> = unstamp (t\<lparr>mt_runtime := a\<rparr>)" "unstamp t\<lparr>mt_runtime := a, mt_executions := map unstamp_execution b\<rparr> =
      unstamp (t\<lparr>mt_runtime := a, mt_executions := b\<rparr>)" for a b by (simp_all add: unstamp_def)
  show ?thesis
    by (simp add: Pair migrate_runtime_row_def Let_def executions_untimed [where now = "me_txnow env"] upd split: option.split sum.split prod.split)
qed

lemma workspace_untimed:
  assumes "match_ignores_time env"
  shows "migrate_workspace (untimed env) req w (apfst unstamp x) = map_sum id (apfst unstamp) (migrate_workspace env req w x)"
proof (cases "normalizeHexProfileHash (nw_NewProfileHash w)")
  case (Some h)
  have app: "each (migrate_app_row (untimed env) req w h) (map unstamp_app xs) (apfst unstamp y) = map_sum id (apfst unstamp) (each (migrate_app_row env req w h) xs y)" for xs y
    by (rule each_commutes) (rule app_row_untimed [OF assms])
  have runtime: "each (migrate_runtime_row (untimed env) req w h) xs (apfst unstamp y) = map_sum id (apfst unstamp) (each (migrate_runtime_row env req w h) xs y)" for xs y
    using each_commutes [of "migrate_runtime_row (untimed env) req w h" "\<lambda>r. r" "apfst unstamp" "migrate_runtime_row env req w h" xs y, OF runtime_row_untimed] by simp
  have m: "app_matches (untimed env) req w (unstamp_app r) = app_matches env req w r" "runtime_matches (untimed env) req w = runtime_matches env req w" for r
    by (simp_all add: fun_eq_iff app_matches_def runtime_matches_def)
  have rows: "sort_key aw_instance (filter (app_matches (untimed env) req w) (mt_app (fst (apfst unstamp x)))) =
      map unstamp_app (sort_key aw_instance (filter (app_matches env req w) (mt_app (fst x))))"
    "sort_key rw_instance (filter (runtime_matches (untimed env) req w) (mt_runtime (fst (apfst unstamp y)))) =
      sort_key rw_instance (filter (runtime_matches env req w) (mt_runtime (fst y)))" for y
    by (simp_all add: filter_map sort_key_map_comp comp_def m)
  define A where "A = (if me_hasAppWorkspaces env then each (migrate_app_row env req w h) (sort_key aw_instance (filter (app_matches env req w) (mt_app (fst x)))) x else Inr x)"
  have "(if me_hasAppWorkspaces env then map_sum id (apfst unstamp) (each (migrate_app_row env req w h) (sort_key aw_instance (filter (app_matches env req w) (mt_app (fst x)))) x)
      else Inr (apfst unstamp x)) = map_sum id (apfst unstamp) A" by (simp add: A_def)
  then show ?thesis
    unfolding migrate_workspace_def Some option.case untimed_sel rows app runtime A_def [symmetric] by (cases A) (simp_all add: rows runtime m)
qed (simp add: migrate_workspace_def)

lemma workspaces_untimed:
  assumes "match_ignores_time env"
  shows "each (migrate_workspace (untimed env) req) ws (unstamp t, out) = map_sum id (apfst unstamp) (each (migrate_workspace env req) ws (t, out))"
  using each_commutes [of "migrate_workspace (untimed env) req" "\<lambda>w. w" "apfst unstamp" "migrate_workspace env req" ws "(t, out)", OF workspace_untimed [OF assms]] by simp

text \<open>The mark of the installation can be set once more.\<close>

definition markable :: "migration_env \<Rightarrow> NamespaceMigrationRequest \<Rightarrow> station_db \<Rightarrow> state_tables \<Rightarrow> bool" where
  "markable env req db st \<longleftrightarrow> (\<forall>i. active_installation (me_station env) (nr_AppID req) db = Some i \<longrightarrow>
     mark_app_state (me_station env) (in_OrganizationID i) (nr_AppID req) st \<noteq> None)"

lemma inspect_again:
  assumes "inspect_installation env req db (st, out) = Inr y" "markable env req db st'"
  shows "\<exists>y. inspect_installation env req db (st', out') = Inr y"
  using assms by (auto simp: inspect_installation_def markable_def Let_def split: if_split_asm option.split_asm option.split)

lemma migration_repeats:
  assumes "tables_ok env t" "repeatable env req" "MigrateNamespace env req db (st, t, m) = (Inr out, st', t', m')" "markable env req db st'"
  shows "\<exists>out' st''. MigrateNamespace env req db (st', t', m') = (Inr out', st'', t', reset_states env req m')"
proof (cases "me_pool env")
  case False
  then show ?thesis using assms(3) by (auto simp: MigrateNamespace_def split: if_split_asm)
next
  case True
  then obtain out0 st0 where v: "ValidateNamespaceMigrationRequest (me_parse env) req" and i: "inspect_installation env req db (st, migration_start req) = Inr (st0, out0)"
      and e: "each (migrate_workspace env req) (nr_Workspaces req) (t, out0) = Inr (t', out)" and fine: "\<not> me_fails env"
    using assms(3) by (auto simp: MigrateNamespace_def split: if_split_asm sum.split_asm prod.split_asm)
  note V = ValidateD [OF v]
  note W = workspaces_valid_spec [OF V(3)]
  have secrets: "\<forall>w \<in> set (nr_Workspaces req). dotless (nw_NewSecretUID w)"
    using W assms(2) unfolding repeatable_def plain_uuids_def by (metis dotless_def empty_iff list.set(1))
  have "\<forall>w \<in> {} \<union> set (nr_Workspaces req). settled env req w t'"
    by (rule each_settles [OF e assms(1,2) V(1,2) secrets]) (use W in auto)
  then have noop: "\<exists>out'. migrate_workspace env req w (t', o1) = Inr (t', out')" if "w \<in> set (nr_Workspaces req)" for w o1
    using workspace_noop [of env t' req w o1] each_workspace_spec [OF e assms(1)] W that by blast
  obtain st1 out1 where i': "inspect_installation env req db (st', migration_start req) = Inr (st1, out1)"
    using inspect_again [OF i assms(4)] by fastforce
  obtain out2 where "each (migrate_workspace env req) (nr_Workspaces req) (t', out1) = Inr (t', out2)"
    using each_noop [of "nr_Workspaces req" "migrate_workspace env req" t' out1] noop by blast
  with True v i' fine show ?thesis by (simp add: MigrateNamespace_def)
qed

lemma untimed_keeps:
  "match_ignores_time env \<Longrightarrow> tables_ok env t \<Longrightarrow> tables_ok (untimed env) (unstamp t)"
  "repeatable (untimed env) req = repeatable env req" "markable (untimed env) req db st = markable env req db st"
  "inspect_installation (untimed env) req db x = inspect_installation env req db x"
  unfolding inspect_installation_def untimed_sel
  by (simp_all add: tables_ok_def app_table_untimed starts_table_untimed comp_def repeatable_def float_idem_def plain_uuids_def markable_def)

lemma MigrateNamespace_untimed:
  assumes "match_ignores_time env"
  shows "MigrateNamespace (untimed env) req db (st, unstamp t, m) =
     (case MigrateNamespace env req db (st, t, m') of
        (Inl e, _) \<Rightarrow> (Inl e, st, unstamp t, m)
      | (Inr out, st', t', _) \<Rightarrow> (Inr out, st', unstamp t', reset_states (untimed env) req m))"
  unfolding MigrateNamespace_def prod.case untimed_sel untimed_keeps workspaces_untimed [OF assms]
  by (auto split: sum.split prod.split)

definition at_time :: "gotime \<Rightarrow> gotime \<Rightarrow> migration_env \<Rightarrow> migration_env" where
  "at_time transaction clock env = env\<lparr>me_txnow := transaction, me_now := clock\<rparr>"

lemma untimed_at_time: "untimed (at_time n c env) = untimed env" "match_ignores_time (at_time n c env) = match_ignores_time env"
  by (simp_all add: untimed_def at_time_def match_ignores_time_def)

text \<open>
  C30. A migration that succeeded can be repeated with the same request at any other time: it
  succeeds again, and every column of the four tables but \<open>updated_at\<close> is as the first one left it.
  This holds under the conditions named here: the revision counter of the installation is not exhausted, the source and the target namespace, when
  they differ, do not begin with \<^verbatim>\<open>local\<close>, a number that went through a \<open>float64\<close> once keeps its
  literal, the text of a UUID has no dots, and the constraint on the bindings does not read
  \<open>updated_at\<close>.
\<close>

theorem migration_idempotent:
  assumes "tables_ok env t" "repeatable env req" "match_ignores_time env" "MigrateNamespace env req db (st, t, m) = (Inr out, st', t', m')" "markable env req db st'"
  shows "\<exists>out' st'' t''. MigrateNamespace (at_time transaction clock env) req db (st', t', m') =
      (Inr out', st'', t'', reset_states (at_time transaction clock env) req m') \<and> unstamp t'' = unstamp t'"
proof -
  define later where "later = at_time transaction clock env"
  have first: "MigrateNamespace (untimed env) req db (st, unstamp t, m) = (Inr out, st', unstamp t', reset_states (untimed env) req m)"
    unfolding MigrateNamespace_untimed [OF assms(3), of req db st t m m] assms(4) by simp
  obtain out0 st0 where "MigrateNamespace (untimed env) req db (st', unstamp t', reset_states (untimed env) req m) =
      (Inr out0, st0, unstamp t', reset_states (untimed env) req (reset_states (untimed env) req m))"
    using migration_repeats [OF untimed_keeps(1) [OF assms(3,1)] _ first] assms(2,5) by (auto simp: untimed_keeps)
  moreover have ignores: "match_ignores_time later" "untimed later = untimed env" using assms(3) by (simp_all add: later_def untimed_at_time)
  ultimately obtain st'' t'' mem where again: "MigrateNamespace later req db (st', t', m') = (Inr out0, st'', t'', mem)" and t'': "unstamp t'' = unstamp t'"
    using MigrateNamespace_untimed [OF ignores(1), of req db st' t' "reset_states (untimed env) req m" m'] unfolding ignores(2)
    by (auto split: prod.split_asm sum.split_asm)
  have "mem = reset_states later req m'" using again by (auto simp: MigrateNamespace_def split: if_split_asm sum.split_asm prod.split_asm)
  with again t'' show ?thesis unfolding later_def by blast
qed

section \<open>Witnesses\<close>

definition demo_migration_env :: migration_env where
  "demo_migration_env = \<lparr>me_parse = (\<lambda>v. if CHR ''.'' \<in> set v then None else Some \<lparr>uuid_String = v, uuid_Version = 7, uuid_RFC4122 = True, uuid_Nil = False\<rparr>),
     me_station = ''s'', me_pool = True, me_fails = False, me_hasInstallations = True, me_hasMark = True, me_hasAppWorkspaces = True, me_hasAppStarts = True,
     me_hasRuntimeWorkspaces = True, me_hasRuntimeExecutions = True, me_hasBindingMatch = False, me_bindingMatch = (\<lambda>_. True), me_hasWorkspaceUpdatedAt = True,
     me_hasWorkspaceHexCheck = False, me_hasStartsHexCheck = False, me_float = VNum, me_hasStates = False, me_txnow = 1, me_now = 1\<rparr>"

definition demo_migration :: NamespaceMigrationRequest where
  "demo_migration = \<lparr>nr_AppID = ''blender'', nr_InstallationID = [], nr_SourceNamespace = ''old'', nr_TargetNamespace = ''new'',
     nr_Workspaces = [\<lparr>nw_PVCName = ''pool-1'', nw_NewPVCUID = ''p2'', nw_NewProfileHash = [], nw_NewSecretUID = ''s2''\<rparr>]\<rparr>"

definition demo_execution_state :: value_json where
  "demo_execution_state = VObj [(''namespace'', VStr ''old''), (''pod'', VObj [(''secret_uid'', VStr ''s1''), (''n'', VNum ''3'')]),
     (''urls'', VArr [VObj [(''url'', VStr ''http://a.old.svc.cluster.local/b.old.svc.cluster.local'')]])]"

definition demo_rewritten_state :: value_json where
  "demo_rewritten_state = VObj [(''namespace'', VStr ''new''), (''pod'', VObj [(''secret_uid'', VStr ''s2''), (''n'', VNum ''3'')]),
     (''urls'', VArr [VObj [(''url'', VStr ''http://a.new.svc.cluster.local/b.new.svc.cluster.local'')]])]"

definition demo_migration_tables :: migration_tables where
  "demo_migration_tables = \<lparr>
     mt_app = [\<lparr>aw_instance = ''i1'', aw_station = ''s'', aw_installation = ''x'', aw_profile_hash = ''h'', aw_namespace = ''old'', aw_pvc_name = ''pool-1'',
                aw_pvc_uid = ''p1'', aw_pv_name = ''v'', aw_pv_uid = ''u'', aw_binding = Some (VObj [(''namespace'', VStr ''old'')]), aw_updated = 0\<rparr>],
     mt_starts = [\<lparr>as_operation = ''o1'', as_instance = ''i1'', as_profile_hash = ''h'', as_observation = [(''secret_uid'', VStr ''s1'')], as_updated = 0\<rparr>],
     mt_runtime = [\<lparr>rw_instance = ''r1'', rw_station = ''s'', rw_profile_hash = replicate 32 CHR ''h'', rw_namespace = ''old'', rw_pvc_name = ''pool-1'',
                    rw_pvc_uid = ''p1'', rw_pv_name = ''v'', rw_pv_uid = ''u''\<rparr>,
                   \<lparr>rw_instance = ''r2'', rw_station = ''s'', rw_profile_hash = replicate 32 CHR ''h'', rw_namespace = ''old'', rw_pvc_name = ''pool-2'',
                    rw_pvc_uid = ''p3'', rw_pv_name = ''w'', rw_pv_uid = ''z''\<rparr>],
     mt_executions = [\<lparr>rx_operation = ''e1'', rx_instance = ''r1'', rx_profile_hash = ''h'', rx_state = Some demo_execution_state, rx_created = 0, rx_updated = 0\<rparr>]\<rparr>"

definition demo_station_db :: station_db where
  "demo_station_db = \<lparr>d_installations = [], d_operations = [], d_transitions = [], d_forwards = [], d_proofs = [], d_inst_bindings = [], d_op_bindings = [],
     d_inputs = [], d_audit = []\<rparr>"

definition demo_marks :: state_tables where
  "demo_marks = \<lparr>sx_organizations = [], sx_scopes = [], sx_items = [], sx_catalog = []\<rparr>"

definition demo_no_memory :: Memory where
  "demo_no_memory = \<lparr>m_station = ''s'', m_boot = ''b'', m_collectors = [], m_bindings = [], m_scopeRevision = [], m_legacy = [], m_sessions = []\<rparr>"

definition demo_migrated :: "(migration_error + NamespaceMigrationResult) \<times> state_tables \<times> migration_tables \<times> Memory" where
  "demo_migrated = MigrateNamespace demo_migration_env demo_migration demo_station_db (demo_marks, demo_migration_tables, demo_no_memory)"

lemma demo_tables_ok: "tables_ok demo_migration_env demo_migration_tables"
  by code_simp

lemma demo_migrated:
  obtains out st' t' m' where "demo_migrated = (Inr out, st', t', m')" "map aw_namespace (mt_app t') = [''new'']" "map rw_namespace (mt_runtime t') = [''new'', ''old'']"
    "map rx_state (mt_executions t') = [Some demo_rewritten_state]"
proof -
  have "(case fst demo_migrated of Inl _ \<Rightarrow> False | Inr _ \<Rightarrow> True) \<and> map aw_namespace (mt_app (fst (snd (snd demo_migrated)))) = [''new''] \<and>
      map rw_namespace (mt_runtime (fst (snd (snd demo_migrated)))) = [''new'', ''old''] \<and>
      map rx_state (mt_executions (fst (snd (snd demo_migrated)))) = [Some demo_rewritten_state]"
    by code_simp
  then have r: "(case fst demo_migrated of Inl _ \<Rightarrow> False | Inr _ \<Rightarrow> True)" "map aw_namespace (mt_app (fst (snd (snd demo_migrated)))) = [''new'']"
      "map rw_namespace (mt_runtime (fst (snd (snd demo_migrated)))) = [''new'', ''old'']"
      "map rx_state (mt_executions (fst (snd (snd demo_migrated)))) = [Some demo_rewritten_state]"
    by blast+
  obtain res st' t' m' where d: "demo_migrated = (res, st', t', m')" by (cases demo_migrated)
  obtain out where out: "res = Inr out" using r(1) unfolding d fst_conv by (cases res) simp_all
  show ?thesis by (rule that [of out st' t' m']) (use r(2-4) in \<open>simp_all only: d out fst_conv snd_conv\<close>)
qed

theorem migration_confined_witness:
  "tables_moved demo_migration_env demo_migration (nr_Workspaces demo_migration) demo_migration_tables (fst (snd (snd demo_migrated))) \<and>
   map rw_namespace (mt_runtime (fst (snd (snd demo_migrated)))) = [''new'', ''old'']"
proof -
  obtain out st' t' m' where d: "demo_migrated = (Inr out, st', t', m')" "map rw_namespace (mt_runtime t') = [''new'', ''old'']" by (rule demo_migrated)
  have pool: "me_pool demo_migration_env" by (simp add: demo_migration_env_def)
  have "tables_moved demo_migration_env demo_migration (nr_Workspaces demo_migration) demo_migration_tables t'"
    using migration_confined [OF demo_tables_ok d(1) [unfolded demo_migrated_def]] unfolding sum.case if_P [OF pool] by blast
  with d(2) show ?thesis unfolding d(1) by simp
qed

theorem migration_idempotent_witness:
  "\<exists>out' t''. MigrateNamespace (at_time 7 7 demo_migration_env) demo_migration demo_station_db (snd demo_migrated) =
     (Inr out', fst (snd demo_migrated), t'', snd (snd (snd demo_migrated))) \<and> unstamp t'' = unstamp (fst (snd (snd demo_migrated))) \<and>
     map as_updated (mt_starts t'') = [7] \<and> map as_updated (mt_starts (fst (snd (snd demo_migrated)))) = [1]"
proof -
  obtain out st' t' m' where d: "demo_migrated = (Inr out, st', t', m')" by (rule demo_migrated)
  have "repeatable demo_migration_env demo_migration" "match_ignores_time demo_migration_env"
    by (auto simp: repeatable_def float_idem_def plain_uuids_def match_ignores_time_def demo_migration_env_def demo_migration_def dotless_def validID_def split: if_split_asm)
  moreover have none: "active_installation (me_station demo_migration_env) (nr_AppID demo_migration) demo_station_db = None" by code_simp
  then have "markable demo_migration_env demo_migration demo_station_db st'" by (simp add: markable_def)
  ultimately obtain out' st'' t'' where r: "MigrateNamespace (at_time 7 7 demo_migration_env) demo_migration demo_station_db (st', t', m') =
      (Inr out', st'', t'', reset_states (at_time 7 7 demo_migration_env) demo_migration m')" "unstamp t'' = unstamp t'"
    using migration_idempotent [OF demo_tables_ok _ _ d [unfolded demo_migrated_def], of 7 7] by blast
  have station: "me_station (at_time 7 7 demo_migration_env) = me_station demo_migration_env" by (simp add: at_time_def)
  have "st'' = st'" using r(1) none by (auto simp: MigrateNamespace_def inspect_installation_def station split: if_split_asm sum.split_asm prod.split_asm)
  moreover have "reset_states (at_time 7 7 demo_migration_env) demo_migration m' = m'" by (simp add: reset_states_def demo_migration_env_def at_time_def)
  moreover have "map as_updated (mt_starts (fst (snd (snd (MigrateNamespace (at_time 7 7 demo_migration_env) demo_migration demo_station_db (snd demo_migrated)))))) = [7]"
      "map as_updated (mt_starts (fst (snd (snd demo_migrated)))) = [1]"
    by code_simp+
  ultimately show ?thesis using r by (simp add: d)
qed

end
