(* ===== verification/Egress_Probe.thy ===== *)
theory Egress_Probe
  imports Egress Memory
begin

text \<open>
  The diagnostic probe of an egress proxy (\<^verbatim>\<open>internal/egress/probe.go\<close>): the allow list of internal
  proxies, the check and pinning of addresses, the samples through the proxy and the observations
  of the exit address. Addresses are words with the predicates of \<open>net/netip\<close>; the resolver, the
  parser and printer of addresses, the HTTP exchanges, the JSON decoders and the clock are
  parameters. Every exchange of a run has a number, so that the network may change its mind.
\<close>

unbundle bit_operations_syntax

section \<open>Addresses\<close>

text \<open>An IPv6 address has a zone, which is empty for most.\<close>

datatype netip_Addr = Addr4 "32 word" | Addr6 "128 word" string

definition Is4In6 :: "netip_Addr \<Rightarrow> bool" where
  "Is4In6 ip = (case ip of Addr4 _ \<Rightarrow> False | Addr6 w _ \<Rightarrow> drop_bit 32 w = 0xffff)"

definition Unmap :: "netip_Addr \<Rightarrow> netip_Addr" where
  "Unmap ip = (case ip of Addr4 w \<Rightarrow> Addr4 w | Addr6 w z \<Rightarrow> if drop_bit 32 w = 0xffff then Addr4 (ucast w) else Addr6 w z)"

definition IsLoopback :: "netip_Addr \<Rightarrow> bool" where
  "IsLoopback ip = (case Unmap ip of Addr4 w \<Rightarrow> drop_bit 24 w = 127 | Addr6 w _ \<Rightarrow> w = 1)"

definition IsMulticast :: "netip_Addr \<Rightarrow> bool" where
  "IsMulticast ip = (case Unmap ip of Addr4 w \<Rightarrow> drop_bit 28 w = 0xe | Addr6 w _ \<Rightarrow> drop_bit 120 w = 0xff)"

definition IsLinkLocalUnicast :: "netip_Addr \<Rightarrow> bool" where
  "IsLinkLocalUnicast ip = (case Unmap ip of Addr4 w \<Rightarrow> drop_bit 16 w = 0xa9fe | Addr6 w _ \<Rightarrow> drop_bit 118 w = 0x3fa)"

definition IsPrivate :: "netip_Addr \<Rightarrow> bool" where
  "IsPrivate ip =
     (case Unmap ip of
        Addr4 w \<Rightarrow> drop_bit 24 w = 10 \<or> drop_bit 20 w = 0xac1 \<or> drop_bit 16 w = 0xc0a8
      | Addr6 w _ \<Rightarrow> drop_bit 121 w = 0x7e)"

definition IsGlobalUnicast :: "netip_Addr \<Rightarrow> bool" where
  "IsGlobalUnicast ip =
     (let ip = Unmap ip
      in ip \<noteq> Addr4 0 \<and> ip \<noteq> Addr4 0xffffffff \<and> ip \<noteq> Addr6 0 [] \<and> \<not> IsLoopback ip \<and> \<not> IsMulticast ip \<and> \<not> IsLinkLocalUnicast ip)"

text \<open>\<open>netip.Prefix\<close>; an address with a zone is contained in none.\<close>

datatype netip_Prefix = Prefix4 "32 word" nat | Prefix6 "128 word" nat

definition Prefix_Contains :: "netip_Prefix \<Rightarrow> netip_Addr \<Rightarrow> bool" where
  "Prefix_Contains p ip =
     (case (p, ip) of
        (Prefix4 a n, Addr4 w) \<Rightarrow> drop_bit (32 - n) (w XOR a) = 0
      | (Prefix6 a n, Addr6 w z) \<Rightarrow> z = [] \<and> drop_bit (128 - n) (w XOR a) = 0
      | _ \<Rightarrow> False)"

definition reserved_prefixes :: "netip_Prefix list" where
  "reserved_prefixes =
     [Prefix4 0x00000000 8, Prefix4 0x64400000 10, Prefix4 0xc0000000 24, Prefix4 0xc0000200 24, Prefix4 0xc6120000 15, Prefix4 0xc6336400 24,
      Prefix4 0xcb007100 24, Prefix4 0xf0000000 4, Prefix6 0x20010db8000000000000000000000000 32, Prefix6 0x20010000000000000000000000000000 32,
      Prefix6 0x20020000000000000000000000000000 16, Prefix6 0x0064ff9b000000000000000000000000 96]"

definition publicIP :: "netip_Addr \<Rightarrow> bool" where
  "publicIP ip =
     (let ip = Unmap ip
      in if \<not> IsGlobalUnicast ip \<or> IsPrivate ip \<or> IsLoopback ip \<or> IsLinkLocalUnicast ip then False
         else \<not> list_ex (\<lambda>p. Prefix_Contains p ip) reserved_prefixes)"

section \<open>Hosts and ports\<close>

definition JoinHostPort :: "string \<Rightarrow> string \<Rightarrow> string" where
  "JoinHostPort host port = (if CHR '':'' \<in> set host then ''['' @ host @ '']:'' @ port else host @ '':'' @ port)"

text \<open>The index of the first and of the last occurrence of a byte.\<close>

fun index_of :: "char \<Rightarrow> string \<Rightarrow> nat option" where
  "index_of c [] = None"
| "index_of c (x # xs) = (if x = c then Some 0 else map_option Suc (index_of c xs))"

definition last_index_of :: "char \<Rightarrow> string \<Rightarrow> nat option" where
  "last_index_of c s = map_option (\<lambda>i. length s - 1 - i) (index_of c (rev s))"

definition SplitHostPort :: "string \<Rightarrow> (string \<times> string) option" where
  "SplitHostPort s =
     (case last_index_of (CHR '':'') s of
        None \<Rightarrow> None
      | Some i \<Rightarrow>
          (let finish = (\<lambda>host j k. if CHR ''['' \<in> set (drop j s) \<or> CHR '']'' \<in> set (drop k s) then None else Some (host, drop (i + 1) s))
           in if hd s = CHR ''['' then
                (case index_of (CHR '']'') s of
                   None \<Rightarrow> None
                 | Some e \<Rightarrow> if e + 1 = i then finish (take (e - 1) (drop 1 s)) 1 (e + 1) else None)
              else (let host = take i s in if CHR '':'' \<in> set host then None else finish host 0 0)))"

section \<open>The prober\<close>

record Prober =
  pb_AllowedInternal :: "string list"
  pb_target :: string
  pb_queryURL :: string
  pb_geoURL :: string
  pb_ipinfoURL :: string
  pb_ipinfoTypeURL :: string

text \<open>\<open>errors.Is\<close> and \<open>errors.As\<close> are tests on an error; with them its text.\<close>

record probe_error =
  pe_endpoint :: bool
  pe_deadline :: bool
  pe_timeout :: bool
  pe_certificate :: bool
  pe_text :: string

definition plain_error :: "string \<Rightarrow> probe_error" where
  "plain_error s = \<lparr>pe_endpoint = False, pe_deadline = False, pe_timeout = False, pe_certificate = False, pe_text = s\<rparr>"

definition ErrEndpoint :: probe_error where
  "ErrEndpoint = \<lparr>pe_endpoint = True, pe_deadline = False, pe_timeout = False, pe_certificate = False, pe_text = ''PROXY_ENDPOINT_NOT_ALLOWED''\<rparr>"

text \<open>
  A transport: the proxy it sends requests to, as scheme, user and host, and its dialer, which is
  the library's own (a nil \<open>DialContext\<close>), the function \<open>direct\<close> with its endpoint and pinned
  address, or a SOCKS client with the address of its proxy, its credentials and the dialer it
  forwards to; \<open>socks5\<close> resolves the target before it asks the client.
\<close>

datatype dialer = NetDial | Direct string string | SocksDial bool string "(string \<times> string) option" dialer

record transport =
  tp_Proxy :: "(string \<times> (string \<times> string) option \<times> string) option"
  tp_DialContext :: dialer

text \<open>The answers of the services that observe the exit address.\<close>

record ipify = iy_IP :: string

record ipquery =
  iq_IP :: string
  iq_ASN :: string
  iq_Org :: string
  iq_ISP :: string
  iq_Country :: string
  iq_CountryCode :: string
  iq_State :: string
  iq_City :: string
  iq_Mobile :: "bool option"
  iq_VPN :: "bool option"
  iq_Tor :: "bool option"
  iq_Proxy :: "bool option"
  iq_Datacenter :: "bool option"
  iq_Score :: "int option"

record ipapi =
  ia_IP :: string
  ia_Country :: string
  ia_Region :: string
  ia_City :: string
  ia_ASN :: string
  ia_Company :: string

record ipinfo =
  ii_IP :: string
  ii_Country :: string
  ii_Region :: string
  ii_City :: string
  ii_Org :: string

record ipinfo_demo =
  id_Input :: string
  id_IP :: string
  id_ASN :: string
  id_Name :: string
  id_ASNType :: string
  id_Company :: string
  id_CompanyType :: string
  id_Hosting :: "bool option"
  id_Mobile :: "bool option"
  id_PrivacyHosting :: "bool option"
  id_PrivacyProxy :: "bool option"
  id_PrivacyVPN :: "bool option"
  id_PrivacyTor :: "bool option"

text \<open>
  The environment: the resolver, addresses as text, the error of the constructor of the SOCKS
  client, the address \<open>net/http\<close> dials for a proxy's host and for a target, the \<open>n\<close>-th exchange over
  a connection to an address with its status and the reading of its body, the decoders, the latency that the \<open>n\<close>-th sample measured, whether the context
  has ended after the \<open>n\<close>-th sample, and the clock. \<open>pv_lower\<close>, \<open>pv_upper\<close> and \<open>pv_fold\<close> are the Unicode
  case functions, of which ASCII is spelt out.
\<close>

record probe_env =
  pv_LookupNetIP :: "string \<Rightarrow> probe_error + netip_Addr list"
  pv_ParseAddr :: "string \<Rightarrow> netip_Addr option"
  pv_String :: "netip_Addr \<Rightarrow> string"
  pv_SOCKS5 :: "string \<Rightarrow> (string \<times> string) option \<Rightarrow> probe_error option"
  pv_canonical :: "string \<Rightarrow> string"
  pv_authority :: "string \<Rightarrow> string"
  pv_do :: "transport \<Rightarrow> nat \<Rightarrow> string \<Rightarrow> string \<Rightarrow> probe_error + int \<times> (probe_error + string)"
  pv_ipify :: "string \<Rightarrow> ipify option"
  pv_ipquery :: "string \<Rightarrow> ipquery option"
  pv_ipapi :: "string \<Rightarrow> ipapi option"
  pv_ipinfo :: "string \<Rightarrow> ipinfo option"
  pv_demo :: "string \<Rightarrow> ipinfo_demo option"
  pv_latency :: "nat \<Rightarrow> int"
  pv_ended :: "nat \<Rightarrow> bool"
  pv_now :: "nat \<Rightarrow> gotime"
  pv_lower :: "string \<Rightarrow> string"
  pv_upper :: "string \<Rightarrow> string"
  pv_fold :: "string \<Rightarrow> string \<Rightarrow> bool"
  pv_escape :: "string \<Rightarrow> string"
  pv_query :: "string \<Rightarrow> string"

definition ascii :: "string \<Rightarrow> bool" where
  "ascii s = list_all (in_range 0 127) s"

definition probe_lower :: "probe_env \<Rightarrow> string \<Rightarrow> string" where
  "probe_lower env s = (if ascii s then ToLower s else pv_lower env s)"

definition upper_char :: "char \<Rightarrow> char" where
  "upper_char c = (if is_lower c then char_of (of_char c - 32 :: int) else c)"

definition probe_upper :: "probe_env \<Rightarrow> string \<Rightarrow> string" where
  "probe_upper env s = (if ascii s then map upper_char s else pv_upper env s)"

definition EqualFold :: "probe_env \<Rightarrow> string \<Rightarrow> string \<Rightarrow> bool" where
  "EqualFold env a b = (if ascii a \<and> ascii b then ToLower a = ToLower b else pv_fold env a b)"

fun allow_loop :: "probe_env \<Rightarrow> string list \<Rightarrow> string list option" where
  "allow_loop env [] = Some []"
| "allow_loop env (raw # rest) =
     (let item = TrimSpace raw
      in if item = [] then allow_loop env rest
         else (case SplitHostPort item of
                 None \<Rightarrow> None
               | Some (host, port) \<Rightarrow>
                   (case Atoi port of
                      None \<Rightarrow> None
                    | Some n \<Rightarrow>
                        if n < 1 \<or> n > 65535 \<or> host = [] then None
                        else map_option (Cons (JoinHostPort (probe_lower env host) port)) (allow_loop env rest))))"

definition NewProber :: "probe_env \<Rightarrow> string \<Rightarrow> Prober option" where
  "NewProber env allowed =
     map_option (\<lambda>hosts. \<lparr>pb_AllowedInternal = hosts, pb_target = [], pb_queryURL = [], pb_geoURL = [], pb_ipinfoURL = [], pb_ipinfoTypeURL = []\<rparr>)
       (allow_loop env (split_on (CHR '','') allowed))"

section \<open>The transport\<close>

text \<open>The function \<open>direct\<close>: whatever is asked for, it connects to the pinned address, and only for the endpoint.\<close>

definition direct :: "string \<Rightarrow> string \<Rightarrow> string \<Rightarrow> probe_error + string" where
  "direct endpoint pinned address = (if address \<noteq> endpoint then Inl ErrEndpoint else Inr pinned)"

definition prober_transport :: "probe_env \<Rightarrow> Prober \<Rightarrow> Endpoint \<Rightarrow> Credentials \<Rightarrow> probe_error + transport" where
  "prober_transport env p e c =
     (let port = digits_of (nat (ep_Port e)); endpoint = JoinHostPort (ep_Host e) port
      in case pv_LookupNetIP env (ep_Host e) of
           Inl err \<Rightarrow> Inl err
         | Inr ips \<Rightarrow>
             if ips = [] then Inl ErrEndpoint
             else if list_ex (\<lambda>ip. \<not> publicIP ip \<and> endpoint \<notin> set (pb_AllowedInternal p)) ips then Inl ErrEndpoint
             else
               (let pinned = JoinHostPort (pv_String env (hd ips)) port;
                    auth = (if cr_Username c \<noteq> [] then Some (cr_Username c, cr_Password c) else None)
                in if ep_Protocol e = ''http'' \<or> ep_Protocol e = ''https''
                   then Inr \<lparr>tp_Proxy = Some (ep_Protocol e, auth, endpoint), tp_DialContext = Direct endpoint pinned\<rparr>
                   else (case pv_SOCKS5 env endpoint auth of
                           Some err \<Rightarrow> Inl err
                         | None \<Rightarrow> Inr \<lparr>tp_Proxy = None,
                             tp_DialContext = SocksDial (ep_Protocol e = ''socks5'') endpoint auth (Direct endpoint pinned)\<rparr>)))"

text \<open>The address a SOCKS proxy is asked to connect to: \<open>socks5\<close> resolves it here.\<close>

definition socks_address :: "probe_env \<Rightarrow> bool \<Rightarrow> string \<Rightarrow> probe_error + string" where
  "socks_address env resolve address =
     (if resolve then
        (case SplitHostPort address of
           None \<Rightarrow> Inl (plain_error ''address'')
         | Some (host, port) \<Rightarrow>
             (case pv_LookupNetIP env host of
                Inl err \<Rightarrow> Inl err
              | Inr addrs \<Rightarrow> if addrs = [] then Inl ErrEndpoint else Inr (JoinHostPort (pv_String env (hd addrs)) port)))
      else Inr address)"

text \<open>
  The address a dialer opens a connection to when it is asked for one: the dialer of the library
  takes what it is given, \<open>direct\<close> the pinned address, and a SOCKS client reaches its proxy
  through the dialer it forwards to.
\<close>

fun dial :: "probe_env \<Rightarrow> dialer \<Rightarrow> string \<Rightarrow> probe_error + string" where
  "dial env NetDial address = Inr address"
| "dial env (Direct endpoint pinned) address = direct endpoint pinned address"
| "dial env (SocksDial resolve proxy auth forward) address =
     (case socks_address env resolve address of Inl err \<Rightarrow> Inl err | Inr _ \<Rightarrow> dial env forward proxy)"

text \<open>
  The \<open>n\<close>-th exchange of the client: keep-alives are off, so that every request dials, the proxy of
  the transport if it has one and the target otherwise; redirects are not followed.
\<close>

definition client_Do :: "probe_env \<Rightarrow> transport \<Rightarrow> nat \<Rightarrow> string \<Rightarrow> probe_error + int \<times> (probe_error + string)" where
  "client_Do env tr n target =
     (let address = (case tp_Proxy tr of Some (_, _, host) \<Rightarrow> pv_canonical env host | None \<Rightarrow> pv_authority env target)
      in case dial env (tp_DialContext tr) address of
           Inl err \<Rightarrow> Inl err
         | Inr connection \<Rightarrow> pv_do env tr n connection target)"

section \<open>Errors\<close>

definition contains :: "string \<Rightarrow> string \<Rightarrow> bool" where
  "contains s p = list_ex (\<lambda>i. strip_prefix p (drop i s) \<noteq> None) [0..<length s + 1]"

definition classify :: "probe_env \<Rightarrow> probe_error \<Rightarrow> string" where
  "classify env err =
     (if pe_endpoint err then ''endpoint_not_allowed''
      else if pe_deadline err then ''timeout''
      else if pe_timeout err then ''timeout''
      else if pe_certificate err then ''tls_verification_failed''
      else let t = probe_lower env (pe_text err)
           in if contains t ''authentication'' \<or> contains t ''username/password'' then ''proxy_auth_failed''
              else ''connection_failed'')"

definition infoError :: "probe_env \<Rightarrow> probe_error \<Rightarrow> string" where
  "infoError env err =
     (let v = pe_text err
      in if strip_prefix ''http_status_'' v \<noteq> None \<or> v = ''invalid_response'' \<or> v = ''response_too_large'' \<or> v = ''invalid_exit_ip'' then v
         else classify env err)"

definition fetch :: "probe_env \<Rightarrow> transport \<Rightarrow> nat \<Rightarrow> string \<Rightarrow> (string \<Rightarrow> 'a option) \<Rightarrow> probe_error + 'a" where
  "fetch env tr n target decode =
     (case client_Do env tr n target of
        Inl err \<Rightarrow> Inl err
      | Inr (status, body) \<Rightarrow>
          if status \<noteq> 200 then Inl (plain_error (''http_status_'' @ digits_of (nat status)))
          else (case body of
                  Inl err \<Rightarrow> Inl err
                | Inr stream \<Rightarrow>
                    (let raw = limited (128 * 1024 + 1) stream
                     in if int (length raw) > 128 * 1024 then Inl (plain_error ''response_too_large'')
                        else (case decode raw of None \<Rightarrow> Inl (plain_error ''invalid_response'') | Some v \<Rightarrow> Inr v))))"

section \<open>Samples\<close>

definition ProbeTarget :: string where
  "ProbeTarget = ''https://api.ipify.org?format=json''"

definition take_sample :: "probe_env \<Rightarrow> transport \<Rightarrow> string \<Rightarrow> nat \<Rightarrow> Sample" where
  "take_sample env tr target i =
     (let sample = \<lparr>sa_At = pv_now env i, sa_LatencyMS = pv_latency env i, sa_IP = [], sa_Error = []\<rparr>
      in case fetch env tr i target (pv_ipify env) of
           Inl err \<Rightarrow> sample\<lparr>sa_Error := infoError env err\<rparr>
         | Inr v \<Rightarrow>
             (case pv_ParseAddr env (iy_IP v) of
                None \<Rightarrow> sample\<lparr>sa_Error := infoError env (plain_error ''invalid_exit_ip'')\<rparr>
              | Some ip \<Rightarrow>
                  if \<not> publicIP ip then sample\<lparr>sa_Error := infoError env (plain_error ''invalid_exit_ip'')\<rparr>
                  else sample\<lparr>sa_IP := pv_String env ip\<rparr>))"

text \<open>The variables of the loop; a sample has succeeded when it carries no error.\<close>

record tally =
  ta_sum :: int
  ta_min :: int
  ta_max :: int
  ta_Successes :: int
  ta_ExitIP :: string
  ta_ExitChanged :: bool
  ta_Samples :: "Sample list"

definition tally_sample :: "Sample \<Rightarrow> tally \<Rightarrow> tally" where
  "tally_sample s t =
     (let t' = (if sa_Error s \<noteq> [] then t
                else (let n = ta_Successes t + 1; l = sa_LatencyMS s; lo = (if n = 1 then l else ta_min t)
                      in t\<lparr>ta_Successes := n, ta_sum := ta_sum t + l, ta_min := (if l < lo then l else lo),
                           ta_max := (if l > ta_max t then l else ta_max t),
                           ta_ExitIP := (if ta_ExitIP t = [] then sa_IP s else ta_ExitIP t),
                           ta_ExitChanged := (if ta_ExitIP t \<noteq> [] \<and> ta_ExitIP t \<noteq> sa_IP s then True else ta_ExitChanged t)\<rparr>))
      in t'\<lparr>ta_Samples := ta_Samples t' @ [s]\<rparr>)"

fun sample_loop :: "probe_env \<Rightarrow> transport \<Rightarrow> string \<Rightarrow> nat list \<Rightarrow> tally \<Rightarrow> tally" where
  "sample_loop env tr target [] t = t"
| "sample_loop env tr target (i # is) t =
     (let t' = tally_sample (take_sample env tr target i) t
      in if pv_ended env i then t' else sample_loop env tr target is t')"

section \<open>Observations\<close>

definition blank_observation :: "string \<Rightarrow> string \<Rightarrow> gotime \<Rightarrow> string \<Rightarrow> Egress.Observation" where
  "blank_observation source url time ip =
     \<lparr>ob_Source = source, ob_URL = url, ob_At = time, ob_Status = ''unavailable'', ob_IP = ip, ob_Country = [], ob_CountryCode = [], ob_Region = [], ob_City = [],
      ob_ASN = [], ob_ISP = [], ob_Organization = [], ob_ASNType = [], ob_Company = [], ob_CompanyType = [], ob_Datacenter = None, ob_Proxy = None,
      ob_VPN = None, ob_Tor = None, ob_Mobile = None, ob_RiskScore = None, ob_Error = []\<rparr>"

definition or_else :: "string \<Rightarrow> string \<Rightarrow> string" where
  "or_else override url = (if override \<noteq> [] then override else url)"

definition observe_query :: "probe_env \<Rightarrow> transport \<Rightarrow> Prober \<Rightarrow> string \<Rightarrow> Egress.Observation" where
  "observe_query env tr p ip =
     (let url = or_else (pb_queryURL p) (''https://api.ipquery.io/'' @ pv_escape env ip);
          q = blank_observation ''IPQuery'' url (pv_now env 3) ip
      in case fetch env tr 3 url (pv_ipquery env) of
           Inl err \<Rightarrow> q\<lparr>ob_Error := infoError env err\<rparr>
         | Inr r \<Rightarrow>
             if iq_IP r \<noteq> ip then q\<lparr>ob_Error := ''ip_mismatch''\<rparr>
             else q\<lparr>ob_Status := ''available'', ob_Country := iq_Country r, ob_CountryCode := iq_CountryCode r, ob_Region := iq_State r, ob_City := iq_City r,
                    ob_ASN := iq_ASN r, ob_ISP := iq_ISP r, ob_Organization := iq_Org r, ob_Mobile := iq_Mobile r, ob_VPN := iq_VPN r, ob_Tor := iq_Tor r,
                    ob_Proxy := iq_Proxy r, ob_Datacenter := iq_Datacenter r,
                    ob_RiskScore := (case iq_Score r of Some s \<Rightarrow> if s \<ge> 0 \<and> s \<le> 100 then Some s else None | None \<Rightarrow> None)\<rparr>)"

definition observe_geo :: "probe_env \<Rightarrow> transport \<Rightarrow> Prober \<Rightarrow> string \<Rightarrow> Egress.Observation" where
  "observe_geo env tr p ip =
     (let url = or_else (pb_geoURL p) (''https://api.ipapi.is/?q='' @ pv_query env ip);
          g = blank_observation ''ipapi.is (anonymous)'' url (pv_now env 4) ip
      in case fetch env tr 4 url (pv_ipapi env) of
           Inl err \<Rightarrow> g\<lparr>ob_Error := infoError env err\<rparr>
         | Inr r \<Rightarrow>
             if ia_IP r \<noteq> ip then g\<lparr>ob_Error := ''ip_mismatch''\<rparr>
             else g\<lparr>ob_Status := ''available'', ob_Country := ia_Country r,
                    ob_CountryCode := (if length (ia_Country r) = 2 then probe_upper env (ia_Country r) else []),
                    ob_Region := ia_Region r, ob_City := ia_City r, ob_ASN := ia_ASN r, ob_Organization := ia_Company r\<rparr>)"

definition observe_info :: "probe_env \<Rightarrow> transport \<Rightarrow> Prober \<Rightarrow> string \<Rightarrow> Egress.Observation" where
  "observe_info env tr p ip =
     (let url = or_else (pb_ipinfoURL p) (''https://ipinfo.io/'' @ pv_escape env ip @ ''/json'');
          i = blank_observation ''IPinfo'' url (pv_now env 5) ip
      in case fetch env tr 5 url (pv_ipinfo env) of
           Inl err \<Rightarrow> i\<lparr>ob_Error := infoError env err\<rparr>
         | Inr r \<Rightarrow>
             if ii_IP r \<noteq> ip then i\<lparr>ob_Error := ''ip_mismatch''\<rparr>
             else (let split = CHR '' '' \<in> set (ii_Org r) \<and> strip_prefix ''AS'' (fst (cut_on (CHR '' '') (ii_Org r))) \<noteq> None
                   in i\<lparr>ob_Status := ''available'', ob_CountryCode := ii_Country r, ob_Country := ii_Country r, ob_Region := ii_Region r, ob_City := ii_City r,
                        ob_ASN := (if split then fst (cut_on (CHR '' '') (ii_Org r)) else []),
                        ob_Organization := (if split then snd (cut_on (CHR '' '') (ii_Org r)) else ii_Org r)\<rparr>))"

text \<open>The type observation asks for the exit address again, and may find that it has changed.\<close>

definition ipinfoType :: "probe_env \<Rightarrow> transport \<Rightarrow> Prober \<Rightarrow> string \<Rightarrow> string \<Rightarrow> bool \<Rightarrow> Egress.Observation \<times> bool" where
  "ipinfoType env tr p target ip changed =
     (let url = or_else (pb_ipinfoTypeURL p) (''https://ipinfo.io/widget/demo/'' @ pv_escape env ip);
          ob = blank_observation ''IPinfo (type)'' url (pv_now env 6) ip
      in case fetch env tr 6 url (pv_demo env) of
           Inl err \<Rightarrow> (ob\<lparr>ob_Error := infoError env err\<rparr>, changed)
         | Inr r \<Rightarrow>
             if id_Input r \<noteq> ip \<or> id_IP r \<noteq> ip then (ob\<lparr>ob_Error := ''ip_mismatch''\<rparr>, changed)
             else (case fetch env tr 7 target (pv_ipify env) of
                     Inl err \<Rightarrow> (ob\<lparr>ob_Error := infoError env err\<rparr>, changed)
                   | Inr after \<Rightarrow>
                       if iy_IP after \<noteq> ip \<or> changed then (ob\<lparr>ob_Error := ''exit_changed''\<rparr>, True)
                       else (ob\<lparr>ob_Status := ''available'', ob_ASN := id_ASN r, ob_Organization := id_Name r,
                               ob_ASNType := probe_lower env (TrimSpace (id_ASNType r)), ob_Company := id_Company r,
                               ob_CompanyType := probe_lower env (TrimSpace (id_CompanyType r)),
                               ob_Datacenter := (if id_Hosting r = None \<or> id_PrivacyHosting r = Some True then id_PrivacyHosting r else id_Hosting r),
                               ob_Mobile := id_Mobile r, ob_Proxy := id_PrivacyProxy r, ob_VPN := id_PrivacyVPN r, ob_Tor := id_PrivacyTor r\<rparr>, changed)))"

definition differs :: "probe_env \<Rightarrow> string \<Rightarrow> string \<Rightarrow> bool" where
  "differs env a b \<longleftrightarrow> a \<noteq> [] \<and> b \<noteq> [] \<and> \<not> EqualFold env (TrimSpace a) (TrimSpace b)"

definition pair_conflict :: "probe_env \<Rightarrow> Egress.Observation \<Rightarrow> Egress.Observation \<Rightarrow> bool" where
  "pair_conflict env a b \<longleftrightarrow>
     length (ob_Country a) > 2 \<and> length (ob_Country b) > 2 \<and> \<not> EqualFold env (TrimSpace (ob_Country a)) (TrimSpace (ob_Country b)) \<or>
     list_ex (\<lambda>(x, y). differs env x y) [(ob_CountryCode a, ob_CountryCode b), (ob_Region a, ob_Region b), (ob_City a, ob_City b), (ob_ASN a, ob_ASN b)]"

fun observationsConflict :: "probe_env \<Rightarrow> Egress.Observation list \<Rightarrow> bool" where
  "observationsConflict env [] = False"
| "observationsConflict env (a # rest) =
     (if ob_Status a \<noteq> ''available'' then observationsConflict env rest
      else if list_ex (\<lambda>b. ob_Status b = ''available'' \<and> pair_conflict env a b) rest then True
      else observationsConflict env rest)"

section \<open>A run\<close>

text \<open>The instants: 8 is the begin, 9 a refusal of the transport, 10 the end. The division truncates.\<close>

definition Prober_Run :: "probe_env \<Rightarrow> Prober \<Rightarrow> Endpoint \<Rightarrow> Credentials \<Rightarrow> Result" where
  "Prober_Run env p e c =
     (let target = or_else (pb_target p) ProbeTarget;
          start = \<lparr>re_Status = ''failed'', re_Target = target, re_StartedAt = pv_now env 8, re_FinishedAt = 0, re_Samples = [], re_Successes = 0,
                   re_Attempts = 0, re_SuccessRate = 0, re_MeanLatencyMS = 0, re_JitterMS = 0, re_ExitIP = [], re_ExitChanged = False,
                   re_Observations = [], re_LocationConflict = False, re_BlacklistStatus = ''not_checked''\<rparr>
      in case prober_transport env p e c of
           Inl err \<Rightarrow>
             start\<lparr>re_Samples := [\<lparr>sa_At = pv_now env 9, sa_LatencyMS = 0, sa_IP = [], sa_Error = classify env err\<rparr>], re_Attempts := 1,
                   re_FinishedAt := pv_now env 10\<rparr>
         | Inr tr \<Rightarrow>
             (let t = sample_loop env tr target [0, 1, 2]
                        \<lparr>ta_sum = 0, ta_min = 0, ta_max = 0, ta_Successes = 0, ta_ExitIP = [], ta_ExitChanged = False, ta_Samples = []\<rparr>;
                  n = int (length (ta_Samples t));
                  r = start\<lparr>re_Samples := ta_Samples t, re_Successes := ta_Successes t, re_Attempts := n,
                            re_SuccessRate := rat_of_int (ta_Successes t) * 100 / rat_of_int n,
                            re_MeanLatencyMS := (if ta_Successes t > 0 then ta_sum t div ta_Successes t else 0),
                            re_JitterMS := (if ta_Successes t > 0 then ta_max t - ta_min t else 0),
                            re_Status := (if ta_Successes t = 3 then ''passed'' else ''failed''),
                            re_ExitIP := ta_ExitIP t, re_ExitChanged := ta_ExitChanged t\<rparr>;
                  r' = (if ta_ExitIP t \<noteq> [] \<and> \<not> pv_ended env 3 then
                          (let ip = ta_ExitIP t; (kind, changed) = ipinfoType env tr p target ip (ta_ExitChanged t);
                               obs = [observe_query env tr p ip, observe_geo env tr p ip, observe_info env tr p ip, kind]
                           in r\<lparr>re_Observations := obs, re_ExitChanged := changed, re_LocationConflict := observationsConflict env obs\<rparr>)
                        else r)
              in r'\<lparr>re_FinishedAt := pv_now env 10\<rparr>))"

end
