(* ===== verification/Egress_Probe_Properties.thy ===== *)
theory Egress_Probe_Properties
  imports Egress_Probe
begin

text \<open>
  What the probe promises: which addresses it takes for public, that it dials no other, what the
  numbers of its result mean, and when it reports conflicting observations.
\<close>

section \<open>Public addresses\<close>

lemma drop_bit_word_iff: "drop_bit k (w :: 'a :: len word) = c \<longleftrightarrow> unat w div 2 ^ k = unat c"
  by (metis drop_bit_eq_div unat_drop_bit_eq unsigned_word_eqI)

lemma drop_bit_xor_0: "drop_bit k (w XOR a :: 'a :: len word) = 0 \<longleftrightarrow> unat w div 2 ^ k = unat a div 2 ^ k"
proof -
  have "drop_bit k (w XOR a) = 0 \<longleftrightarrow> drop_bit k w = drop_bit k a"
    unfolding drop_bit_xor by (auto simp: bit_eq_iff bit_simps)
  also have "\<dots> \<longleftrightarrow> unat w div 2 ^ k = unat (drop_bit k a)" by (rule drop_bit_word_iff)
  finally show ?thesis unfolding unat_drop_bit_eq drop_bit_eq_div [of k "unat a"] .
qed

lemma div_range: "0 < (d :: nat) \<Longrightarrow> n div d = c \<longleftrightarrow> c * d \<le> n \<and> n < c * d + d"
  by (metis add.commute div_nat_eqI dividend_less_div_times mult.commute mult_Suc_right times_div_less_eq_dividend)

text \<open>The blocks of IPv4 that are not public, by their first and last addresses.\<close>

definition quad :: "nat \<Rightarrow> nat \<Rightarrow> nat \<Rightarrow> nat \<Rightarrow> nat" where
  "quad a b c d = ((a * 256 + b) * 256 + c) * 256 + d"

definition reserved4 :: "(nat \<times> nat) list" where
  "reserved4 =
     [(quad 0 0 0 0, quad 0 255 255 255), (quad 10 0 0 0, quad 10 255 255 255), (quad 100 64 0 0, quad 100 127 255 255),
      (quad 127 0 0 0, quad 127 255 255 255), (quad 169 254 0 0, quad 169 254 255 255), (quad 172 16 0 0, quad 172 31 255 255),
      (quad 192 0 0 0, quad 192 0 0 255), (quad 192 0 2 0, quad 192 0 2 255), (quad 192 168 0 0, quad 192 168 255 255),
      (quad 198 18 0 0, quad 198 19 255 255), (quad 198 51 100 0, quad 198 51 100 255), (quad 203 0 113 0, quad 203 0 113 255),
      (quad 224 0 0 0, quad 255 255 255 255)]"

lemma public4_words:
  fixes w :: "32 word"
  defines "n \<equiv> unat w"
  shows "publicIP (Addr4 w) \<longleftrightarrow> \<not> (n = 0 \<or> n = 4294967295 \<or> n div 2 ^ 24 = 127 \<or> n div 2 ^ 28 = 14 \<or> n div 2 ^ 16 = 43518 \<or>
    n div 2 ^ 24 = 10 \<or> n div 2 ^ 20 = 2753 \<or> n div 2 ^ 16 = 49320 \<or> n div 2 ^ 24 = 0 \<or> n div 2 ^ 22 = 401 \<or> n div 2 ^ 8 = 12582912 \<or>
    n div 2 ^ 8 = 12582914 \<or> n div 2 ^ 17 = 25353 \<or> n div 2 ^ 8 = 12989284 \<or> n div 2 ^ 8 = 13303921 \<or> n div 2 ^ 28 = 15)"
proof -
  have top: "unat (0xffffffff :: 32 word) = 4294967295" by simp
  have z: "w = 0 \<longleftrightarrow> n = 0" "w = 0xffffffff \<longleftrightarrow> n = 4294967295"
    using word_unat_eq_iff [of w 0] word_unat_eq_iff [of w "0xffffffff"] unfolding n_def top by simp_all
  have "publicIP (Addr4 w) \<longleftrightarrow> \<not> (w = 0 \<or> w = 0xffffffff \<or> drop_bit 24 w = 127 \<or> drop_bit 28 w = 0xe \<or> drop_bit 16 w = 0xa9fe \<or>
      drop_bit 24 w = 10 \<or> drop_bit 20 w = 0xac1 \<or> drop_bit 16 w = 0xc0a8 \<or>
      drop_bit 24 (w XOR 0) = 0 \<or> drop_bit 22 (w XOR 0x64400000) = 0 \<or> drop_bit 8 (w XOR 0xc0000000) = 0 \<or> drop_bit 8 (w XOR 0xc0000200) = 0 \<or>
      drop_bit 17 (w XOR 0xc6120000) = 0 \<or> drop_bit 8 (w XOR 0xc6336400) = 0 \<or> drop_bit 8 (w XOR 0xcb007100) = 0 \<or> drop_bit 28 (w XOR 0xf0000000) = 0)"
    by (auto simp: publicIP_def Let_def Unmap_def IsGlobalUnicast_def IsLoopback_def IsMulticast_def IsLinkLocalUnicast_def IsPrivate_def reserved_prefixes_def
        Prefix_Contains_def)
  then show ?thesis unfolding drop_bit_xor_0 unfolding z drop_bit_word_iff n_def [symmetric] by simp
qed

lemma mapped_word:
  fixes w :: "32 word"
  defines "m \<equiv> 0xffff00000000 OR ucast w :: 128 word"
  shows "drop_bit 32 m = 0xffff" "ucast m = w"
proof -
  have "drop_bit 32 (ucast w :: 128 word) = 0"
    by (rule bit_word_eqI) (auto simp: bit_simps dest: bit_imp_le_length)
  then show "drop_bit 32 m = 0xffff" by (simp add: m_def drop_bit_or)
  have z: "ucast (0xffff00000000 :: 128 word) = (0 :: 32 word)" by code_simp
  have "ucast (ucast w :: 128 word) = w" by (rule bit_word_eqI) (auto simp: bit_simps)
  then show "ucast m = w" unfolding m_def unsigned_or_eq z by simp
qed

lemma publicIP_Unmap: "publicIP (Unmap ip) = publicIP ip"
proof -
  have "Unmap (Unmap ip) = Unmap ip" by (cases ip) (simp_all add: Unmap_def)
  then show ?thesis by (simp only: publicIP_def)
qed

lemma public4_blocks: "publicIP (Addr4 w) \<longleftrightarrow> \<not> list_ex (\<lambda>(lo, hi). lo \<le> unat w \<and> unat w \<le> hi) reserved4"
proof -
  have lt: "unat w < 4294967296" using unsigned_less [of w, where ?'a = nat] by simp
  show ?thesis unfolding public4_words using lt by (simp add: div_range reserved4_def quad_def) presburger
qed

text \<open>
  An IPv4 address is taken for public exactly when it lies outside the blocks that are reserved
  for private use, loopback, link-local, shared, documentation, benchmarking, multicast and future
  use; an IPv6 address that maps an IPv4 address is judged as that address.
\<close>

theorem public4_iff:
  "(publicIP (Addr4 w) \<longleftrightarrow> \<not> list_ex (\<lambda>(lo, hi). lo \<le> unat w \<and> unat w \<le> hi) reserved4) \<and>
   publicIP (Addr6 (0xffff00000000 OR ucast w) zone) = publicIP (Addr4 w)"
proof
  show "publicIP (Addr4 w) \<longleftrightarrow> \<not> list_ex (\<lambda>(lo, hi). lo \<le> unat w \<and> unat w \<le> hi) reserved4" by (rule public4_blocks)
  have "Unmap (Addr6 (0xffff00000000 OR ucast w) zone) = Addr4 w" by (simp only: Unmap_def netip_Addr.case mapped_word refl if_True)
  with publicIP_Unmap [of "Addr6 (0xffff00000000 OR ucast w) zone"] show "publicIP (Addr6 (0xffff00000000 OR ucast w) zone) = publicIP (Addr4 w)" by simp
qed

text \<open>
  An IPv6 address with a zone is contained in no prefix, so that the reserved blocks of IPv6 do not
  exclude it.
\<close>

lemma zone_escapes_prefixes:
  "\<not> publicIP (Addr6 0x20010db8000000000000000000000001 []) \<and> publicIP (Addr6 0x20010db8000000000000000000000001 ''eth0'')"
  by code_simp

subsection \<open>IPv6\<close>

text \<open>The blocks of IPv6 that are not public, by first address and prefix length: with any zone, and without a zone.\<close>

definition in_block :: "nat \<Rightarrow> nat \<times> nat \<Rightarrow> bool" where
  "in_block n = (\<lambda>(first, len). first \<le> n \<and> n < first + 2 ^ (128 - len))"

definition reserved6 :: "(nat \<times> nat) list" where
  "reserved6 = [(0x1, 128), (0xfc000000000000000000000000000000, 7), (0xfe800000000000000000000000000000, 10), (0xff000000000000000000000000000000, 8)]"

definition reserved6_plain :: "(nat \<times> nat) list" where
  "reserved6_plain = [(0x0, 128), (0x20010db8000000000000000000000000, 32), (0x20010000000000000000000000000000, 32),
     (0x20020000000000000000000000000000, 16), (0x0064ff9b000000000000000000000000, 96)]"

definition reserved :: "netip_Addr \<Rightarrow> bool" where
  "reserved ip =
     (case Unmap ip of
        Addr4 w \<Rightarrow> list_ex (\<lambda>(lo, hi). lo \<le> unat w \<and> unat w \<le> hi) reserved4
      | Addr6 w zone \<Rightarrow> list_ex (in_block (unat w)) reserved6 \<or> zone = [] \<and> list_ex (in_block (unat w)) reserved6_plain)"

lemma public6_words:
  fixes w :: "128 word"
  defines "n \<equiv> unat w"
  assumes "drop_bit 32 w \<noteq> 0xffff"
  shows "publicIP (Addr6 w zone) \<longleftrightarrow> \<not> (n = 1 \<or> n div 2 ^ 120 = 0xff \<or> n div 2 ^ 118 = 0x3fa \<or> n div 2 ^ 121 = 0x7e \<or>
    zone = [] \<and> (n = 0 \<or> n div 2 ^ 96 = 0x20010db8 \<or> n div 2 ^ 96 = 0x20010000 \<or> n div 2 ^ 112 = 0x2002 \<or> n div 2 ^ 32 = 0x0064ff9b0000000000000000))"
proof -
  have z: "w = 0 \<longleftrightarrow> n = 0" "w = 1 \<longleftrightarrow> n = 1"
    using word_unat_eq_iff [of w 0] word_unat_eq_iff [of w 1] unfolding n_def by simp_all
  have u: "Unmap (Addr6 w zone) = Addr6 w zone" using assms(2) by (simp add: Unmap_def)
  have "publicIP (Addr6 w zone) \<longleftrightarrow> \<not> (w = 1 \<or> drop_bit 120 w = 0xff \<or> drop_bit 118 w = 0x3fa \<or> drop_bit 121 w = 0x7e \<or>
      zone = [] \<and> (w = 0 \<or> drop_bit 96 (w XOR 0x20010db8000000000000000000000000) = 0 \<or> drop_bit 96 (w XOR 0x20010000000000000000000000000000) = 0 \<or>
        drop_bit 112 (w XOR 0x20020000000000000000000000000000) = 0 \<or> drop_bit 32 (w XOR 0x0064ff9b000000000000000000000000) = 0))"
    unfolding publicIP_def IsGlobalUnicast_def IsLoopback_def IsMulticast_def IsLinkLocalUnicast_def IsPrivate_def Let_def u
    by (auto simp: reserved_prefixes_def Prefix_Contains_def)
  then show ?thesis unfolding drop_bit_xor_0 unfolding z drop_bit_word_iff n_def [symmetric] by simp
qed

lemma public6_iff:
  assumes "drop_bit 32 w \<noteq> (0xffff :: 128 word)"
  shows "publicIP (Addr6 w zone) \<longleftrightarrow> \<not> reserved (Addr6 w zone)"
  unfolding public6_words [OF assms] using assms
  by (simp add: reserved_def Unmap_def in_block_def reserved6_def reserved6_plain_def div_range) linarith

lemma publicIP_reserved: "publicIP ip \<longleftrightarrow> \<not> reserved ip"
proof (cases "Unmap ip")
  case (Addr4 w)
  then show ?thesis using public4_blocks [of w] publicIP_Unmap [of ip] by (simp add: reserved_def)
next
  case (Addr6 w zone)
  then have "drop_bit 32 w \<noteq> (0xffff :: 128 word)" by (auto simp: Unmap_def split: netip_Addr.split_asm if_split_asm)
  from public6_iff [OF this, of zone] show ?thesis
    using Addr6 publicIP_Unmap [of ip] \<open>drop_bit 32 w \<noteq> 0xffff\<close> by (simp add: reserved_def Unmap_def)
qed

section \<open>The transport\<close>

lemma transport_cases:
  assumes "prober_transport env p e c = Inr tr"
  obtains ips endpoint pinned where "pv_LookupNetIP env (ep_Host e) = Inr ips" "ips \<noteq> []"
    "endpoint = JoinHostPort (ep_Host e) (digits_of (nat (ep_Port e)))" "pinned = JoinHostPort (pv_String env (hd ips)) (digits_of (nat (ep_Port e)))"
    "endpoint \<in> set (pb_AllowedInternal p) \<or> (\<forall>ip \<in> set ips. publicIP ip)"
    "tp_DialContext tr = Direct endpoint pinned \<or> (\<exists>resolve auth. tp_DialContext tr = SocksDial resolve endpoint auth (Direct endpoint pinned))"
  using assms that by (fastforce simp: prober_transport_def list_ex_iff Let_def split: sum.split_asm if_split_asm option.split_asm)

lemma dial_pinned:
  assumes "d = Direct endpoint pinned \<or> (\<exists>resolve auth. d = SocksDial resolve endpoint auth (Direct endpoint pinned))" "dial env d address = Inr connection"
  shows "connection = pinned"
  using assms by (auto simp: direct_def split: if_split_asm sum.split_asm)

text \<open>Another network: the same environment with other exchanges.\<close>

lemma network_irrelevant [simp]:
  "classify (env\<lparr>pv_do := g\<rparr>) err = classify env err" "infoError (env\<lparr>pv_do := g\<rparr>) err = infoError env err"
  "probe_upper (env\<lparr>pv_do := g\<rparr>) a = probe_upper env a" "probe_lower (env\<lparr>pv_do := g\<rparr>) a = probe_lower env a"
  "EqualFold (env\<lparr>pv_do := g\<rparr>) a b = EqualFold env a b" "socks_address (env\<lparr>pv_do := g\<rparr>) resolve a = socks_address env resolve a"
  "prober_transport (env\<lparr>pv_do := g\<rparr>) p e c = prober_transport env p e c"
  by (simp_all add: classify_def infoError_def probe_lower_def probe_upper_def EqualFold_def socks_address_def prober_transport_def Let_def
      split: sum.split option.split)

lemma dial_network [simp]: "dial (env\<lparr>pv_do := g\<rparr>) d address = dial env d address"
  by (induction env d address rule: dial.induct) (simp_all split: sum.split)

lemma conflict_network [simp]: "observationsConflict (env\<lparr>pv_do := g\<rparr>) obs = observationsConflict env obs"
proof -
  have "differs (env\<lparr>pv_do := g\<rparr>) = differs env" by (simp add: fun_eq_iff differs_def)
  then have "pair_conflict (env\<lparr>pv_do := g\<rparr>) = pair_conflict env" by (simp add: fun_eq_iff pair_conflict_def)
  then show ?thesis by (induction obs) simp_all
qed

text \<open>A run over two networks that no exchange of its client can tell apart.\<close>

lemma fetch_network:
  assumes "client_Do (env\<lparr>pv_do := g\<rparr>) tr n target = client_Do env tr n target"
  shows "fetch (env\<lparr>pv_do := g\<rparr>) tr n target decode = fetch env tr n target decode"
  by (simp add: fetch_def assms)

lemma run_network:
  assumes "\<And>n target. client_Do (env\<lparr>pv_do := g\<rparr>) tr n target = client_Do env tr n target" and "prober_transport env p e c = Inr tr"
  shows "Prober_Run (env\<lparr>pv_do := g\<rparr>) p e c = Prober_Run env p e c"
proof -
  note f = fetch_network [OF assms(1)]
  have s: "take_sample (env\<lparr>pv_do := g\<rparr>) tr target i = take_sample env tr target i" for target i
    by (simp add: take_sample_def f Let_def split: sum.split option.split)
  have l: "sample_loop (env\<lparr>pv_do := g\<rparr>) tr target is t = sample_loop env tr target is t" for target "is" t
    by (induction "is" arbitrary: t) (simp_all add: s Let_def)
  have o: "observe_query (env\<lparr>pv_do := g\<rparr>) tr p ip = observe_query env tr p ip" "observe_geo (env\<lparr>pv_do := g\<rparr>) tr p ip = observe_geo env tr p ip"
      "observe_info (env\<lparr>pv_do := g\<rparr>) tr p ip = observe_info env tr p ip"
      "ipinfoType (env\<lparr>pv_do := g\<rparr>) tr p target ip changed = ipinfoType env tr p target ip changed" for ip target changed
    by (simp_all add: observe_query_def observe_geo_def observe_info_def ipinfoType_def f Let_def split: sum.split)
  show ?thesis unfolding Prober_Run_def by (simp add: assms(2) l o Let_def del: sample_loop.simps split: prod.split)
qed

text \<open>
  C33. A probe talks to one place only. If the host of the proxy does not resolve, or resolves to an
  address that is not public while the operator has not listed the endpoint, the result does not
  depend on the network at all. Otherwise every exchange of the run, with the service that shows
  the exit address and with those that observe it, over an HTTP proxy or a SOCKS client, goes over
  a connection to the first address the host resolved to: the result is the same over any other
  network that answers the same on connections to that pinned address. All addresses the host
  resolved to then lie outside the reserved blocks of IPv4 and IPv6, unless the operator listed
  this very endpoint. A later resolution cannot move the probe elsewhere.
\<close>

theorem probe_dials_checked_address:
  "case prober_transport env p e c of
     Inl err \<Rightarrow> \<forall>g. Prober_Run (env\<lparr>pv_do := g\<rparr>) p e c = Prober_Run env p e c
   | Inr tr \<Rightarrow> \<exists>ips. pv_LookupNetIP env (ep_Host e) = Inr ips \<and> ips \<noteq> [] \<and>
       (JoinHostPort (ep_Host e) (digits_of (nat (ep_Port e))) \<in> set (pb_AllowedInternal p) \<or> (\<forall>ip \<in> set ips. \<not> reserved ip)) \<and>
       (\<forall>g. (\<forall>n. g tr n (JoinHostPort (pv_String env (hd ips)) (digits_of (nat (ep_Port e)))) =
                pv_do env tr n (JoinHostPort (pv_String env (hd ips)) (digits_of (nat (ep_Port e))))) \<longrightarrow>
            Prober_Run (env\<lparr>pv_do := g\<rparr>) p e c = Prober_Run env p e c)"
proof (cases "prober_transport env p e c")
  case (Inl err)
  then show ?thesis by (simp add: Prober_Run_def Let_def)
next
  case (Inr tr)
  then show ?thesis
  proof (cases rule: transport_cases)
    case (1 ips endpoint pinned)
    have "Prober_Run (env\<lparr>pv_do := g\<rparr>) p e c = Prober_Run env p e c" if g: "\<forall>n. g tr n pinned = pv_do env tr n pinned" for g
    proof (rule run_network [OF _ Inr])
      fix n target
      define address where "address = (case tp_Proxy tr of Some (_, _, host) \<Rightarrow> pv_canonical env host | None \<Rightarrow> pv_authority env target)"
      have same: "(case tp_Proxy tr of Some (_, _, host) \<Rightarrow> pv_canonical (env\<lparr>pv_do := g\<rparr>) host
          | None \<Rightarrow> pv_authority (env\<lparr>pv_do := g\<rparr>) target) = address"
        by (simp add: address_def split: option.split)
      show "client_Do (env\<lparr>pv_do := g\<rparr>) tr n target = client_Do env tr n target"
        using dial_pinned [OF 1(6), of env address] g
        unfolding client_Do_def Let_def same address_def [symmetric] by (auto split: sum.split)
    qed
    then show ?thesis using 1(1,2,5) unfolding Inr sum.case 1(3,4) publicIP_reserved by blast
  qed
qed

section \<open>The samples\<close>

definition good_samples :: "Sample list \<Rightarrow> Sample list" where
  "good_samples ss = filter (\<lambda>s. sa_Error s = []) ss"

definition exit_of :: "Sample list \<Rightarrow> string" where
  "exit_of ss = (case good_samples ss of [] \<Rightarrow> [] | s # _ \<Rightarrow> sa_IP s)"

lemma infoError_text: "infoError env err \<noteq> []"
  by (auto simp: infoError_def classify_def Let_def)

text \<open>A sample without an error carries the text of a public address.\<close>

definition exit_text :: "probe_env \<Rightarrow> string \<Rightarrow> bool" where
  "exit_text env s \<longleftrightarrow> (\<exists>ip. publicIP ip \<and> s = pv_String env ip)"

lemma take_sample_good: "sa_Error (take_sample env tr target i) = [] \<Longrightarrow> exit_text env (sa_IP (take_sample env tr target i))"
  using infoError_text by (auto simp: take_sample_def exit_text_def Let_def split: sum.split_asm option.split_asm if_split_asm)

lemma take_sample_latency: "sa_LatencyMS (take_sample env tr target i) = pv_latency env i"
  by (auto simp: take_sample_def Let_def split: sum.split option.split)

definition tally_inv :: "tally \<Rightarrow> bool" where
  "tally_inv t \<longleftrightarrow>
     (let ss = ta_Samples t; good = good_samples ss; ls = map sa_LatencyMS good
      in ta_Successes t = int (length good) \<and> ta_sum t = sum_list ls \<and> (\<forall>l \<in> set ls. ta_min t \<le> l \<and> l \<le> ta_max t) \<and>
         (good \<noteq> [] \<longrightarrow> ta_min t \<in> set ls \<and> ta_max t \<in> set ls) \<and> (good = [] \<longrightarrow> ta_max t = 0) \<and>
         ta_ExitIP t = exit_of ss \<and> (ta_ExitChanged t \<longleftrightarrow> (\<exists>s \<in> set good. sa_IP s \<noteq> ta_ExitIP t)))"

lemma good_samples_snoc: "good_samples (ss @ [s]) = good_samples ss @ (if sa_Error s = [] then [s] else [])"
  by (simp add: good_samples_def)

lemma exit_of_snoc: "exit_of (ss @ [s]) = (if good_samples ss = [] then if sa_Error s = [] then sa_IP s else [] else exit_of ss)"
  by (auto simp: exit_of_def good_samples_snoc split: list.split)

lemma tally_step:
  assumes "tally_inv t" "0 \<le> sa_LatencyMS s" "\<forall>x \<in> set (good_samples (ta_Samples t @ [s])). sa_IP x \<noteq> []"
  shows "tally_inv (tally_sample s t)"
proof (cases "sa_Error s = []")
  case False
  then have "tally_sample s t = t\<lparr>ta_Samples := ta_Samples t @ [s]\<rparr>" by (simp add: tally_sample_def)
  with False assms(1) show ?thesis by (auto simp: tally_inv_def good_samples_snoc exit_of_snoc Let_def exit_of_def)
next
  case True
  define good where "good = good_samples (ta_Samples t)"
  define l where "l = sa_LatencyMS s"
  have i: "ta_Successes t = int (length good)" "ta_sum t = sum_list (map sa_LatencyMS good)" "\<forall>x \<in> set (map sa_LatencyMS good). ta_min t \<le> x \<and> x \<le> ta_max t"
      "good \<noteq> [] \<longrightarrow> ta_min t \<in> set (map sa_LatencyMS good) \<and> ta_max t \<in> set (map sa_LatencyMS good)" "good = [] \<longrightarrow> ta_max t = 0"
      "ta_ExitIP t = exit_of (ta_Samples t)" "ta_ExitChanged t \<longleftrightarrow> (\<exists>s \<in> set good. sa_IP s \<noteq> ta_ExitIP t)"
    using assms(1) unfolding tally_inv_def good_def Let_def by blast+
  have exit: "ta_ExitIP t = [] \<longleftrightarrow> good = []"
    using assms(3) i(6) by (auto simp: exit_of_def good_def good_samples_snoc split: list.split_asm)
  define t' where "t' = tally_sample s t"
  have n1: "ta_Successes t + 1 = 1 \<longleftrightarrow> good = []" using i(1) by simp
  have t': "ta_Samples t' = ta_Samples t @ [s]" "ta_Successes t' = ta_Successes t + 1" "ta_sum t' = ta_sum t + l"
      "ta_min t' = (if good = [] then l else min l (ta_min t))" "ta_max t' = max l (ta_max t)"
      "ta_ExitIP t' = (if good = [] then sa_IP s else ta_ExitIP t)"
      "ta_ExitChanged t' = (good \<noteq> [] \<and> ta_ExitIP t \<noteq> sa_IP s \<or> ta_ExitChanged t)"
    using True exit n1 by (auto simp: t'_def tally_sample_def l_def Let_def)
  have g: "good_samples (ta_Samples t') = good @ [s]" "exit_of (ta_Samples t') = ta_ExitIP t'"
    unfolding t'(1) using True i(6) t'(6) by (simp_all add: good_samples_snoc exit_of_snoc good_def)
  have "(\<forall>x \<in> set (map sa_LatencyMS (good @ [s])). ta_min t' \<le> x \<and> x \<le> ta_max t') \<and>
      ta_min t' \<in> set (map sa_LatencyMS (good @ [s])) \<and> ta_max t' \<in> set (map sa_LatencyMS (good @ [s]))"
  proof (cases "good = []")
    case True
    then show ?thesis using t'(4,5) i(5) assms(2) by (simp add: l_def)
  next
    case False
    then have m: "ta_min t \<in> sa_LatencyMS ` set good" "ta_max t \<in> sa_LatencyMS ` set good" using i(4) by simp_all
    have "ta_min t' \<le> x \<and> x \<le> ta_max t'" if "x \<in> set (map sa_LatencyMS (good @ [s]))" for x
      using that i(3) False by (auto simp: t'(4,5) l_def min_le_iff_disj le_max_iff_disj)
    moreover have "ta_min t' \<in> insert l (sa_LatencyMS ` set good)" "ta_max t' \<in> insert l (sa_LatencyMS ` set good)"
      using m False by (auto simp: t'(4,5) min_def max_def)
    ultimately show ?thesis by (simp add: l_def)
  qed
  moreover have "ta_ExitChanged t' \<longleftrightarrow> (\<exists>x \<in> set (good @ [s]). sa_IP x \<noteq> ta_ExitIP t')"
    using i(7) by (cases "good = []") (auto simp: t'(6,7))
  ultimately show ?thesis using i(1,2) t'(2,3) g unfolding t'_def [symmetric] tally_inv_def Let_def g by (simp add: l_def)
qed

lemma sample_loop_inv:
  assumes "\<forall>i. 0 \<le> pv_latency env i" "\<forall>ip. pv_String env ip \<noteq> []"
    and "tally_inv t" "\<forall>s \<in> set (good_samples (ta_Samples t)). exit_text env (sa_IP s)"
  shows "let t' = sample_loop env tr target is t
    in tally_inv t' \<and> (\<forall>s \<in> set (good_samples (ta_Samples t')). exit_text env (sa_IP s)) \<and>
      length (ta_Samples t') \<le> length (ta_Samples t) + length is \<and> (is \<noteq> [] \<longrightarrow> length (ta_Samples t) < length (ta_Samples t'))"
  using assms(3,4)
proof (induction "is" arbitrary: t)
  case (Cons i "is")
  define s where "s = take_sample env tr target i"
  define t1 where "t1 = tally_sample s t"
  have samples: "ta_Samples t1 = ta_Samples t @ [s]" by (simp add: t1_def tally_sample_def Let_def)
  have texts: "\<forall>x \<in> set (good_samples (ta_Samples t1)). exit_text env (sa_IP x)"
    unfolding samples good_samples_snoc using Cons.prems(2) take_sample_good [of env tr target i] by (auto simp: s_def)
  then have "\<forall>x \<in> set (good_samples (ta_Samples t @ [s])). sa_IP x \<noteq> []" using assms(2) unfolding samples exit_text_def by metis
  then have inv: "tally_inv t1" unfolding t1_def by (intro tally_step Cons.prems(1)) (simp_all add: s_def take_sample_latency assms(1))
  show ?case
  proof (cases "pv_ended env i")
    case True
    then show ?thesis using inv texts samples by (simp add: Let_def t1_def [symmetric] s_def [symmetric])
  next
    case False
    then show ?thesis using Cons.IH [OF inv texts] samples
      by (cases "is = []") (simp_all add: Let_def t1_def [symmetric] s_def [symmetric])
  qed
qed (simp add: Let_def)

section \<open>The result\<close>

lemma mean_between:
  assumes "xs \<noteq> []" "\<forall>x \<in> set xs. (lo :: int) \<le> x \<and> x \<le> hi"
  shows "lo \<le> sum_list xs div int (length xs) \<and> sum_list xs div int (length xs) \<le> hi"
proof -
  have n: "0 < int (length xs)" using assms(1) by simp
  have "int (length xs) * lo \<le> sum_list xs \<and> sum_list xs \<le> int (length xs) * hi"
    using assms(2) by (induction xs) (auto simp: algebra_simps)
  then have a: "int (length xs) * lo \<le> sum_list xs" and b: "sum_list xs \<le> int (length xs) * hi" by blast+
  from zdiv_mono1 [OF a n] zdiv_mono1 [OF b n] n show ?thesis by simp
qed

definition measured :: "Result \<Rightarrow> bool" where
  "measured r \<longleftrightarrow> (\<exists>lo hi. lo \<in> sa_LatencyMS ` set (good_samples (re_Samples r)) \<and> hi \<in> sa_LatencyMS ` set (good_samples (re_Samples r)) \<and>
     (\<forall>s \<in> set (good_samples (re_Samples r)). lo \<le> sa_LatencyMS s \<and> sa_LatencyMS s \<le> hi) \<and>
     re_JitterMS r = hi - lo \<and> lo \<le> re_MeanLatencyMS r \<and> re_MeanLatencyMS r \<le> hi)"

definition sound_result :: "probe_env \<Rightarrow> Result \<Rightarrow> bool" where
  "sound_result env r \<longleftrightarrow>
     re_Attempts r = int (length (re_Samples r)) \<and> 1 \<le> re_Attempts r \<and> re_Attempts r \<le> 3 \<and>
     re_Successes r = int (length (good_samples (re_Samples r))) \<and> (re_Status r = ''passed'' \<longleftrightarrow> re_Successes r = 3) \<and>
     re_SuccessRate r = rat_of_int (re_Successes r) * 100 / rat_of_int (re_Attempts r) \<and> 0 \<le> re_SuccessRate r \<and> re_SuccessRate r \<le> 100 \<and>
     re_ExitIP r = exit_of (re_Samples r) \<and> (\<forall>s \<in> set (good_samples (re_Samples r)). exit_text env (sa_IP s)) \<and>
     ((\<exists>s \<in> set (good_samples (re_Samples r)). sa_IP s \<noteq> re_ExitIP r) \<longrightarrow> re_ExitChanged r) \<and>
     (re_Successes r > 0 \<longrightarrow> measured r)"

text \<open>The result of the samples, and what the observations add to it.\<close>

lemma Run_cases:
  obtains (refused) err where "prober_transport env p e c = Inl err"
      "re_Samples (Prober_Run env p e c) = [\<lparr>sa_At = pv_now env 9, sa_LatencyMS = 0, sa_IP = [], sa_Error = classify env err\<rparr>]"
      "re_Attempts (Prober_Run env p e c) = 1" "re_Successes (Prober_Run env p e c) = 0" "re_Status (Prober_Run env p e c) = ''failed''"
      "re_SuccessRate (Prober_Run env p e c) = 0" "re_ExitIP (Prober_Run env p e c) = []" "re_Observations (Prober_Run env p e c) = []"
  | (sampled) tr t target where "prober_transport env p e c = Inr tr" "target = or_else (pb_target p) ProbeTarget"
      "t = sample_loop env tr target [0, 1, 2] \<lparr>ta_sum = 0, ta_min = 0, ta_max = 0, ta_Successes = 0, ta_ExitIP = [], ta_ExitChanged = False, ta_Samples = []\<rparr>"
      "re_Samples (Prober_Run env p e c) = ta_Samples t" "re_Attempts (Prober_Run env p e c) = int (length (ta_Samples t))"
      "re_Successes (Prober_Run env p e c) = ta_Successes t" "re_ExitIP (Prober_Run env p e c) = ta_ExitIP t"
      "re_Status (Prober_Run env p e c) = (if ta_Successes t = 3 then ''passed'' else ''failed'')"
      "re_SuccessRate (Prober_Run env p e c) = rat_of_int (ta_Successes t) * 100 / rat_of_int (int (length (ta_Samples t)))"
      "re_MeanLatencyMS (Prober_Run env p e c) = (if ta_Successes t > 0 then ta_sum t div ta_Successes t else 0)"
      "re_JitterMS (Prober_Run env p e c) = (if ta_Successes t > 0 then ta_max t - ta_min t else 0)"
      "if ta_ExitIP t \<noteq> [] \<and> \<not> pv_ended env 3 then
         re_Observations (Prober_Run env p e c) = [observe_query env tr p (ta_ExitIP t), observe_geo env tr p (ta_ExitIP t), observe_info env tr p (ta_ExitIP t),
           fst (ipinfoType env tr p target (ta_ExitIP t) (ta_ExitChanged t))] \<and>
         re_ExitChanged (Prober_Run env p e c) = snd (ipinfoType env tr p target (ta_ExitIP t) (ta_ExitChanged t)) \<and>
         re_LocationConflict (Prober_Run env p e c) = observationsConflict env (re_Observations (Prober_Run env p e c))
       else re_Observations (Prober_Run env p e c) = [] \<and> re_ExitChanged (Prober_Run env p e c) = ta_ExitChanged t \<and>
         re_LocationConflict (Prober_Run env p e c) = False"
proof (cases "prober_transport env p e c")
  case (Inl err)
  then show ?thesis by (intro refused) (simp_all add: Prober_Run_def Let_def)
next
  case (Inr tr)
  define target where "target = or_else (pb_target p) ProbeTarget"
  define t where "t = sample_loop env tr target [0, 1, 2] \<lparr>ta_sum = 0, ta_min = 0, ta_max = 0, ta_Successes = 0, ta_ExitIP = [], ta_ExitChanged = False, ta_Samples = []\<rparr>"
  show ?thesis by (rule sampled [OF Inr target_def t_def]; unfold Prober_Run_def target_def [symmetric] Inr sum.case t_def [symmetric] Let_def)
      (simp_all split: prod.split)
qed

text \<open>
  The result of a probe means what it says: between one and three attempts were made, each is
  recorded; the successes are the samples without an error, and the probe has passed exactly when
  there are three; the exit address is that of the first success, every success showed a public
  address, and two different ones set the mark of a changed exit; the mean lies between the
  smallest and the largest latency, whose difference is the jitter; the rate is the percentage.
\<close>

theorem probe_result_sound:
  assumes "\<forall>i. 0 \<le> pv_latency env i" "\<forall>ip. pv_String env ip \<noteq> []"
  shows "sound_result env (Prober_Run env p e c)"
proof (cases rule: Run_cases [of env p e c])
  case (refused err)
  have "classify env err \<noteq> []" by (simp add: classify_def Let_def)
  with refused show ?thesis by (simp add: sound_result_def good_samples_def exit_of_def)
next
  case (sampled tr t target)
  define r where "r = Prober_Run env p e c"
  define good where "good = good_samples (ta_Samples t)"
  have "tally_inv \<lparr>ta_sum = 0, ta_min = 0, ta_max = 0, ta_Successes = 0, ta_ExitIP = [], ta_ExitChanged = False, ta_Samples = []\<rparr>"
    by (simp add: tally_inv_def good_samples_def exit_of_def Let_def)
  from sample_loop_inv [OF assms this, where tr = tr and target = target and ?is = "[0, 1, 2]"]
  have inv: "tally_inv t" and texts: "\<forall>s \<in> set good. exit_text env (sa_IP s)" and n: "length (ta_Samples t) \<le> 3" "1 \<le> length (ta_Samples t)"
    unfolding sampled(3) [symmetric] Let_def good_def by (simp_all add: good_samples_def Suc_le_eq)
  have i: "ta_Successes t = int (length good)" "ta_sum t = sum_list (map sa_LatencyMS good)" "\<forall>x \<in> set (map sa_LatencyMS good). ta_min t \<le> x \<and> x \<le> ta_max t"
      "good \<noteq> [] \<longrightarrow> ta_min t \<in> set (map sa_LatencyMS good) \<and> ta_max t \<in> set (map sa_LatencyMS good)"
      "ta_ExitIP t = exit_of (ta_Samples t)" "ta_ExitChanged t \<longleftrightarrow> (\<exists>s \<in> set good. sa_IP s \<noteq> ta_ExitIP t)"
    using inv unfolding tally_inv_def good_def Let_def by blast+
  have le: "length good \<le> length (ta_Samples t)" by (simp add: good_def good_samples_def)
  have "0 \<le> re_SuccessRate r \<and> re_SuccessRate r \<le> 100"
    unfolding r_def sampled(9) i(1) using le n by (simp add: divide_le_eq)
  moreover have "re_ExitChanged r" if "\<exists>s \<in> set good. sa_IP s \<noteq> re_ExitIP r"
  proof -
    have "ta_ExitChanged t" using that i(6) sampled(7) by (simp add: r_def)
    then show ?thesis using sampled(12) unfolding r_def by (auto simp: ipinfoType_def Let_def split: if_split_asm sum.split_asm sum.split)
  qed
  moreover have "measured r" if "re_Successes r > 0"
  proof -
    have ne: "map sa_LatencyMS good \<noteq> []" using that i(1) sampled(6) by (simp add: r_def)
    have "re_MeanLatencyMS r = sum_list (map sa_LatencyMS good) div int (length (map sa_LatencyMS good))" "re_JitterMS r = ta_max t - ta_min t"
      using that sampled(6,10,11) i(1,2) by (simp_all add: r_def)
    then show ?thesis unfolding measured_def r_def sampled(4) good_def [symmetric] using mean_between [OF ne i(3)] i(3,4) ne
      by (intro exI [of _ "ta_min t"] exI [of _ "ta_max t"]) (simp add: r_def)
  qed
  ultimately show ?thesis using n texts i(1,5) sampled(4-9) unfolding r_def sound_result_def by (simp add: good_def)
qed

section \<open>Observations\<close>

lemma observationsConflict_iff:
  "observationsConflict env obs \<longleftrightarrow> (\<exists>i j. i < j \<and> j < length obs \<and> ob_Status (obs ! i) = ''available'' \<and> ob_Status (obs ! j) = ''available'' \<and>
     pair_conflict env (obs ! i) (obs ! j))"
proof (induction obs)
  case (Cons a rest)
  define Q where "Q i j \<longleftrightarrow> ob_Status ((a # rest) ! i) = ''available'' \<and> ob_Status ((a # rest) ! j) = ''available'' \<and> pair_conflict env ((a # rest) ! i) ((a # rest) ! j)" for i j
  have split: "(\<exists>i j. i < j \<and> j < length (a # rest) \<and> Q i j) \<longleftrightarrow> (\<exists>j < length rest. Q 0 (Suc j)) \<or> (\<exists>i j. i < j \<and> j < length rest \<and> Q (Suc i) (Suc j))"
  proof
    assume "\<exists>i j. i < j \<and> j < length (a # rest) \<and> Q i j"
    then obtain i j where "i < j" "j < length (a # rest)" "Q i j" by blast
    then show "(\<exists>j < length rest. Q 0 (Suc j)) \<or> (\<exists>i j. i < j \<and> j < length rest \<and> Q (Suc i) (Suc j))" by (cases i; cases j) auto
  qed force
  have head: "list_ex (\<lambda>b. ob_Status b = ''available'' \<and> pair_conflict env a b) rest \<longleftrightarrow>
      (\<exists>j < length rest. ob_Status (rest ! j) = ''available'' \<and> pair_conflict env a (rest ! j))"
    by (auto simp: list_ex_length)
  have zero: "(\<exists>j < length rest. Q 0 (Suc j)) \<longleftrightarrow> ob_Status a = ''available'' \<and> (\<exists>j < length rest. ob_Status (rest ! j) = ''available'' \<and> pair_conflict env a (rest ! j))"
    by (auto simp: Q_def)
  have suc: "observationsConflict env rest \<longleftrightarrow> (\<exists>i j. i < j \<and> j < length rest \<and> Q (Suc i) (Suc j))"
    using Cons.IH by (simp add: Q_def)
  have "(\<exists>i j. i < j \<and> j < length (a # rest) \<and> Q i j) \<longleftrightarrow>
      ob_Status a = ''available'' \<and> list_ex (\<lambda>b. ob_Status b = ''available'' \<and> pair_conflict env a b) rest \<or> observationsConflict env rest"
    unfolding split head zero suc by blast
  then show ?case unfolding Q_def by auto
qed simp

lemma observation_IP:
  "ob_IP (observe_query env tr p ip) = ip" "ob_IP (observe_geo env tr p ip) = ip" "ob_IP (observe_info env tr p ip) = ip" "ob_IP (fst (ipinfoType env tr p target ip changed)) = ip"
  by (auto simp: observe_query_def observe_geo_def observe_info_def ipinfoType_def blank_observation_def Let_def split: sum.split)

lemma type_unchanged: "ob_Status (fst (ipinfoType env tr p target ip changed)) = ''available'' \<Longrightarrow> \<not> snd (ipinfoType env tr p target ip changed)"
  by (auto simp: ipinfoType_def blank_observation_def Let_def split: sum.split_asm if_split_asm)

definition sound_observations :: "probe_env \<Rightarrow> Result \<Rightarrow> bool" where
  "sound_observations env r \<longleftrightarrow> (\<forall>ob \<in> set (re_Observations r). ob_IP ob = re_ExitIP r) \<and>
     \<not> (re_Observations r \<noteq> [] \<and> ob_Status (last (re_Observations r)) = ''available'' \<and> re_ExitChanged r) \<and>
     (re_LocationConflict r \<longleftrightarrow> (\<exists>i j. i < j \<and> j < length (re_Observations r) \<and> ob_Status (re_Observations r ! i) = ''available'' \<and>
        ob_Status (re_Observations r ! j) = ''available'' \<and> pair_conflict env (re_Observations r ! i) (re_Observations r ! j)))"

text \<open>
  Every observation is about the exit address of the run; the type of the address, which comes
  last, is not available when the exit has changed; and the run reports a conflict exactly when two
  available observations contradict each other.
\<close>

theorem observations_sound: "sound_observations env (Prober_Run env p e c)"
  unfolding sound_observations_def observationsConflict_iff [symmetric]
proof (cases rule: Run_cases [of env p e c])
  case (refused err)
  then show "(\<forall>ob \<in> set (re_Observations (Prober_Run env p e c)). ob_IP ob = re_ExitIP (Prober_Run env p e c)) \<and>
    \<not> (re_Observations (Prober_Run env p e c) \<noteq> [] \<and> ob_Status (last (re_Observations (Prober_Run env p e c))) = ''available'' \<and>
      re_ExitChanged (Prober_Run env p e c)) \<and>
    re_LocationConflict (Prober_Run env p e c) = observationsConflict env (re_Observations (Prober_Run env p e c))"
    by (simp add: Prober_Run_def Let_def)
next
  case (sampled tr t target)
  then show "(\<forall>ob \<in> set (re_Observations (Prober_Run env p e c)). ob_IP ob = re_ExitIP (Prober_Run env p e c)) \<and>
    \<not> (re_Observations (Prober_Run env p e c) \<noteq> [] \<and> ob_Status (last (re_Observations (Prober_Run env p e c))) = ''available'' \<and>
      re_ExitChanged (Prober_Run env p e c)) \<and>
    re_LocationConflict (Prober_Run env p e c) = observationsConflict env (re_Observations (Prober_Run env p e c))"
    using type_unchanged [of env tr p target "ta_ExitIP t" "ta_ExitChanged t"]
    by (cases "ta_ExitIP t \<noteq> [] \<and> \<not> pv_ended env 3") (auto simp: observation_IP)
qed

section \<open>Witnesses\<close>

definition demo_probe_env :: probe_env where
  "demo_probe_env = \<lparr>pv_LookupNetIP = (\<lambda>_. Inr [Addr4 0x09090909]), pv_ParseAddr = (\<lambda>_. Some (Addr4 0x08080808)), pv_String = (\<lambda>_. ''8.8.8.8''),
     pv_SOCKS5 = (\<lambda>_ _. None), pv_canonical = (\<lambda>host. host), pv_authority = (\<lambda>_. ''api.ipify.org:443''),
     pv_do = (\<lambda>_ n _ _. if n = 1 then Inl (plain_error ''proxy authentication'') else Inr (200, Inr ''{}'')), pv_ipify = (\<lambda>_. Some \<lparr>iy_IP = ''8.8.8.8''\<rparr>),
     pv_ipquery = (\<lambda>_. None), pv_ipapi = (\<lambda>_. None), pv_ipinfo = (\<lambda>_. None), pv_demo = (\<lambda>_. None), pv_latency = (\<lambda>n. int n + 5),
     pv_ended = (\<lambda>n. n = 3), pv_now = int, pv_lower = (\<lambda>s. s), pv_upper = (\<lambda>s. s), pv_fold = (\<lambda>_ _. False), pv_escape = (\<lambda>s. s), pv_query = (\<lambda>s. s)\<rparr>"

definition demo_prober :: Prober where
  "demo_prober = \<lparr>pb_AllowedInternal = [], pb_target = [], pb_queryURL = [], pb_geoURL = [], pb_ipinfoURL = [], pb_ipinfoTypeURL = []\<rparr>"

definition demo_endpoint :: Endpoint where
  "demo_endpoint = \<lparr>ep_ID = ''p'', ep_Name = ''n'', ep_Protocol = ''http'', ep_Host = ''proxy.example'', ep_Port = 3128, ep_Status = ''pending'', ep_Tag = [],
     ep_Note = [], ep_ExpiresAt = None, ep_AuthConfigured = False, ep_AssignedApps = [], ep_Revision = 1, ep_Probe = None, ep_Testing = False,
     ep_UpdatedAt = 0, ep_credentials = []\<rparr>"

definition no_credentials :: Credentials where
  "no_credentials = \<lparr>cr_Username = [], cr_Password = []\<rparr>"

text \<open>The same exchanges on connections to the pinned address only, and no others.\<close>

definition demo_pinned_do where
  "demo_pinned_do tr n connection target =
     (if connection = ''8.8.8.8:3128'' then pv_do demo_probe_env tr n connection target else Inl (plain_error ''no such connection''))"

lemma demo_probe_evaluated:
  "\<not> isl (prober_transport demo_probe_env demo_prober demo_endpoint no_credentials) \<and>
   JoinHostPort (pv_String demo_probe_env (Addr4 0x09090909)) (digits_of (nat (ep_Port demo_endpoint))) = ''8.8.8.8:3128''"
  by code_simp

theorem probe_dials_checked_address_witness:
  "\<not> reserved (Addr4 0x09090909) \<and>
   Prober_Run (demo_probe_env\<lparr>pv_do := demo_pinned_do\<rparr>) demo_prober demo_endpoint no_credentials =
     Prober_Run demo_probe_env demo_prober demo_endpoint no_credentials"
proof -
  obtain tr where "prober_transport demo_probe_env demo_prober demo_endpoint no_credentials = Inr tr"
    using demo_probe_evaluated by (auto simp: isl_def dest: sum.exhaust_sel) (metis sum.exhaust)
  from probe_dials_checked_address [of demo_probe_env demo_prober demo_endpoint no_credentials, unfolded this sum.case]
  obtain ips where t: "pv_LookupNetIP demo_probe_env (ep_Host demo_endpoint) = Inr ips"
      "JoinHostPort (ep_Host demo_endpoint) (digits_of (nat (ep_Port demo_endpoint))) \<in> set (pb_AllowedInternal demo_prober) \<or> (\<forall>ip \<in> set ips. \<not> reserved ip)"
      "(\<forall>n. demo_pinned_do tr n (JoinHostPort (pv_String demo_probe_env (hd ips)) (digits_of (nat (ep_Port demo_endpoint)))) =
          pv_do demo_probe_env tr n (JoinHostPort (pv_String demo_probe_env (hd ips)) (digits_of (nat (ep_Port demo_endpoint))))) \<longrightarrow>
       Prober_Run (demo_probe_env\<lparr>pv_do := demo_pinned_do\<rparr>) demo_prober demo_endpoint no_credentials =
         Prober_Run demo_probe_env demo_prober demo_endpoint no_credentials"
    by blast
  have ips: "ips = [Addr4 0x09090909]" using t(1) by (simp add: demo_probe_env_def)
  have pin: "JoinHostPort (pv_String demo_probe_env (hd ips)) (digits_of (nat (ep_Port demo_endpoint))) = ''8.8.8.8:3128''"
    using demo_probe_evaluated unfolding ips list.sel by blast
  have same: "\<forall>n. demo_pinned_do tr n ''8.8.8.8:3128'' = pv_do demo_probe_env tr n ''8.8.8.8:3128''" by (simp add: fun_eq_iff demo_pinned_do_def)
  have "Prober_Run (demo_probe_env\<lparr>pv_do := demo_pinned_do\<rparr>) demo_prober demo_endpoint no_credentials =
      Prober_Run demo_probe_env demo_prober demo_endpoint no_credentials"
    using t(3) same unfolding pin by (rule mp)
  moreover have "\<not> reserved (Addr4 0x09090909)" using t(2) unfolding ips by (simp add: demo_prober_def)
  ultimately show ?thesis by blast
qed

end
