(* ===== verification/Http.thy ===== *)
theory Http
  imports Go_Strings
begin

text \<open>
  What the handlers see of an HTTP request: the parts of \<^verbatim>\<open>net/http\<close>'s request the code reads. Header
  names are in their canonical form, as the server stores them, each with the values in the order
  they were sent. \<open>hq_BodyEnds\<close> says whether the body can be read to its end; the server never hands
  out a nil body.
\<close>

record http_req =
  hq_Method :: string
  hq_Path :: string
  hq_RawPath :: string
  hq_RawQuery :: string
  hq_ForceQuery :: bool
  hq_Header :: "(string \<times> string list) list"
  hq_Body :: string
  hq_BodyEnds :: bool
  hq_ContentLength :: int
  hq_TransferEncoding :: "string list"

definition header_Values :: "http_req \<Rightarrow> string \<Rightarrow> string list" where
  "header_Values r name = (case map_of (hq_Header r) name of None \<Rightarrow> [] | Some vs \<Rightarrow> vs)"

definition header_Get :: "http_req \<Rightarrow> string \<Rightarrow> string" where
  "header_Get r name = (case header_Values r name of [] \<Rightarrow> [] | v # _ \<Rightarrow> v)"

text \<open>\<open>strings.HasPrefix\<close>.\<close>

definition HasPrefix :: "string \<Rightarrow> string \<Rightarrow> bool" where
  "HasPrefix s p \<longleftrightarrow> take (length p) s = p"

lemma HasPrefix_append [simp]: "HasPrefix (p @ s) p"
  by (simp add: HasPrefix_def)

lemma HasPrefix_split: "HasPrefix s p \<longleftrightarrow> (\<exists>t. s = p @ t)"
  by (auto simp: HasPrefix_def) (metis append_take_drop_id)

lemma strip_prefix_append [simp]: "strip_prefix p (p @ s) = Some s"
  by (induction p) auto

lemma TrimPrefix_append [simp]: "TrimPrefix (p @ s) p = s"
  by (simp add: TrimPrefix_def)

text \<open>A single value has to be sent exactly once.\<close>

lemma header_single: "length (header_Values r name) = 1 \<Longrightarrow> header_Values r name = [header_Get r name]"
  by (auto simp: header_Get_def length_Suc_conv)

text \<open>Whether the address carries a query or an escaped path.\<close>

definition decorated :: "http_req \<Rightarrow> bool" where
  "decorated r \<longleftrightarrow> hq_RawQuery r \<noteq> [] \<or> hq_ForceQuery r \<or> hq_RawPath r \<noteq> []"

end
