(* ===== verification/Collector_Stream.thy ===== *)
theory Collector_Stream
  imports Memory_Properties Strict_JSON Http
begin

text \<open>
  The internal protocol of the collectors (\<^verbatim>\<open>internal/appstate/collector_http.go\<close>, \<^verbatim>\<open>stream_http.go\<close>):
  the registry of collectors and their credentials, the admission of one stream and its loop over
  frames, pings and timeouts, on top of the observation memory. Parameters are SHA-256, the JSON
  decoders, the media type parser, the environment's tokens, and what the connection does: the
  events the loop selects, whether a write succeeds, and what others do to the memory meanwhile.
\<close>

section \<open>The registry\<close>

record collectorEntry =
  ce_ID :: string
  ce_Namespaces :: "string list"
  ce_HealthRequiredApps :: "string list"
  ce_TokenEnv :: string

record collectorRegistry =
  cg_SchemaVersion :: int
  cg_Collectors :: "collectorEntry list"

record collectorCredential =
  cc_collector :: Collector
  cc_tokenHash :: string

text \<open>\<^verbatim>\<open>^[A-Z][A-Z0-9_]{0,127}$\<close>.\<close>

definition tokenEnvPattern :: "string \<Rightarrow> bool" where
  "tokenEnvPattern s = (case s of [] \<Rightarrow> False
     | c # cs \<Rightarrow> char_between CHR ''A'' CHR ''Z'' c \<and> int (length cs) \<le> 127 \<and>
         list_all (\<lambda>c. char_between CHR ''A'' CHR ''Z'' c \<or> is_digit c \<or> c = CHR ''_'') cs)"

text \<open>
  The characters of a token: the loop ranges over runes, so a byte that is not ASCII gives a rune
  beyond 126.
\<close>

definition token_ok :: "string \<Rightarrow> bool" where
  "token_ok token \<longleftrightarrow> 32 \<le> int (length token) \<and> int (length token) \<le> 4096 \<and> list_all (\<lambda>c. (33::int) \<le> of_char c \<and> of_char c \<le> (126::int)) token"

definition collector_entry :: "collectorEntry \<Rightarrow> Collector" where
  "collector_entry e = \<lparr>col_ID = ce_ID e, col_Namespaces = ce_Namespaces e, col_HealthRequiredApps = ce_HealthRequiredApps e\<rparr>"

fun load_credentials ::
  "(string \<Rightarrow> string) \<Rightarrow> (string \<Rightarrow> string) \<Rightarrow> string list \<Rightarrow> string list \<Rightarrow> string list \<Rightarrow> collectorEntry list
     \<Rightarrow> collectorCredential list option" where
  "load_credentials sha lookup ids nss hashes [] = Some []"
| "load_credentials sha lookup ids nss hashes (e # es) =
     (let c = collector_entry e; token = lookup (ce_TokenEnv e); hash = sha token
      in if \<not> Collector_valid c \<or> col_ID c \<in> set ids \<or> \<not> tokenEnvPattern (ce_TokenEnv e) then None
         else if \<not> seen_loop (\<lambda>_. True) (\<lambda>ns. ns) nss (col_Namespaces c) then None
         else if \<not> token_ok token then None
         else if hash \<in> set hashes then None
         else map_option (Cons \<lparr>cc_collector = c, cc_tokenHash = hash\<rparr>)
                (load_credentials sha lookup (col_ID c # ids) (rev (col_Namespaces c) @ nss) (hash # hashes) es))"

text \<open>
  \<open>file\<close> is the registry as read: \<open>None\<close> for no path, \<open>Some None\<close> for a file that cannot be opened.
  The result is an error, a disabled protocol, or the credentials with the memory of the service.
\<close>

definition LoadCollectors ::
  "memory_ext \<Rightarrow> collectorRegistry json_lib \<Rightarrow> (string \<Rightarrow> string) \<Rightarrow> (string \<Rightarrow> string) \<Rightarrow> string \<Rightarrow> string \<Rightarrow> string list
     \<Rightarrow> string option option \<Rightarrow> unit + (collectorCredential list \<times> Memory) option" where
  "LoadCollectors E lib sha lookup station boot otherTokens file =
     (case file of
        None \<Rightarrow> Inr None
      | Some content \<Rightarrow>
          if \<not> validID (me_uuid E) station \<or> content = None then Inl ()
          else (case Decode lib content (2 ^ 20) of
                  None \<Rightarrow> Inl ()
                | Some registry \<Rightarrow>
                    if cg_SchemaVersion registry \<noteq> 1 \<or> cg_Collectors registry = [] \<or> int (length (cg_Collectors registry)) > 128 then Inl ()
                    else (case load_credentials sha lookup [] [] (map sha (filter (\<lambda>t. t \<noteq> []) otherTokens)) (cg_Collectors registry) of
                            None \<Rightarrow> Inl ()
                          | Some cs \<Rightarrow>
                              (case NewMemory E station boot (map cc_collector cs) of
                                 Inl _ \<Rightarrow> Inl ()
                               | Inr m \<Rightarrow> Inr (Some (cs, m))))))"

section \<open>Frames on the wire\<close>

text \<open>
  The discriminator of a line and the strict decoding into the type its kind names. The decoder of
  each kind gives the frame.
\<close>

record stream_lib =
  sl_discriminator :: "string \<Rightarrow> (int \<times> string) option"
  sl_frame :: "string \<Rightarrow> frame json_lib"

definition frame_kinds :: "string list" where
  "frame_kinds = [''snapshot-begin'', ''snapshot-objects'', ''snapshot-end'', ''upsert'', ''delete'', ''heartbeat'', ''health'']"

definition decode_frame :: "stream_lib \<Rightarrow> string \<Rightarrow> frame option" where
  "decode_frame lib raw =
     (if int (length raw) > 2 ^ 20 then None
      else case sl_discriminator lib raw of
             None \<Rightarrow> None
           | Some (v, kind) \<Rightarrow>
               if v \<noteq> 1 then None
               else if kind \<in> set frame_kinds then Decode (sl_frame lib kind) (Some raw) (2 ^ 20)
               else None)"

section \<open>One stream\<close>

datatype stream_event = FrameIn string | ReadFails | BodyEnds | Tick

text \<open>
  One turn of the loop: the clock, what others did to the memory since the last turn, the event, and
  whether the writes and deadlines of this turn succeed. After the last turn the request ends.
\<close>

record stream_turn =
  tu_now :: gotime
  tu_meanwhile :: "mem_event list"
  tu_event :: stream_event
  tu_written :: bool

datatype stream_message = Hello string string | Ping | Closing string

text \<open>The last message, when it can be written; the request ends either way.\<close>

definition closing :: "stream_turn \<Rightarrow> string \<Rightarrow> stream_message list" where
  "closing t code = (if tu_written t then [Closing code] else [])"

fun stream_loop :: "memory_ext \<Rightarrow> stream_lib \<Rightarrow> nat \<Rightarrow> stream_turn list \<Rightarrow> Memory \<Rightarrow> stream_message list \<times> Memory" where
  "stream_loop E lib p [] m = ([], m)"
| "stream_loop E lib p (t # ts) m =
     (let m1 = fold (mem_step E) (tu_meanwhile t) m
      in case tu_event t of
           Tick \<Rightarrow>
             if \<not> StreamSession_live m1 p (tu_now t) then (closing t ''STREAM_TIMEOUT'', m1)
             else if \<not> tu_written t then ([], m1)
             else (let (out, m') = stream_loop E lib p ts m1 in (Ping # out, m'))
         | BodyEnds \<Rightarrow> ([], m1)
         | ReadFails \<Rightarrow> (closing t ''RESYNC_REQUIRED'', m1)
         | FrameIn raw \<Rightarrow>
             (case StreamSession_Receive E p (decode_frame lib raw) (tu_now t) m1 of
                (Some e, m2) \<Rightarrow> (closing t (if e = ErrInvalid then ''INVALID_ARGUMENT'' else ''RESYNC_REQUIRED''), m2)
              | (None, m2) \<Rightarrow> if tu_written t then stream_loop E lib p ts m2 else ([], m2)))"

text \<open>
  The environment of a request: the credentials, SHA-256, \<open>mime.ParseMediaType\<close>, the fresh session
  id, the clock, whether the connection supports full duplex and deadlines, whether the greeting
  can be written, and the turns of the loop.
\<close>

record stream_env =
  sv_ext :: memory_ext
  sv_lib :: stream_lib
  sv_credentials :: "collectorCredential list option"
  sv_sha :: "string \<Rightarrow> string"
  sv_media :: "string \<Rightarrow> string option"
  sv_sid :: string
  sv_opened :: gotime
  sv_supported :: bool
  sv_greeted :: bool
  sv_turns :: "stream_turn list"

datatype stream_reply = StreamRefused int string | Streamed "stream_message list"

text \<open>The last matching credential wins; the hashes of accepted registries are distinct.\<close>

definition collector_by_token :: "stream_env \<Rightarrow> string \<Rightarrow> string" where
  "collector_by_token env token =
     fold (\<lambda>c found. if sv_sha env token = cc_tokenHash c then col_ID (cc_collector c) else found)
       (case sv_credentials env of None \<Rightarrow> [] | Some cs \<Rightarrow> cs) []"

text \<open>The stream of an authenticated collector: open a session, greet, loop, close.\<close>

definition serve_stream :: "stream_env \<Rightarrow> string \<Rightarrow> Memory \<Rightarrow> stream_reply \<times> Memory" where
  "serve_stream env collector m =
     (case Memory_Open (sv_sid env) collector (sv_opened env) m of
         (Inl ErrCollectorBusy, m1) \<Rightarrow> (StreamRefused 409 ''COLLECTOR_BUSY'', m1)
       | (Inl _, m1) \<Rightarrow> (StreamRefused 503 ''APP_STATE_UNAVAILABLE'', m1)
       | (Inr p, m1) \<Rightarrow>
           if \<not> sv_supported env then (StreamRefused 503 ''STREAM_UNSUPPORTED'', StreamSession_Close p m1)
           else if \<not> sv_greeted env then (Streamed [], StreamSession_Close p m1)
           else (let (out, m2) = stream_loop (sv_ext env) (sv_lib env) p (sv_turns env) m1
                 in (Streamed (Hello (m_boot m1) (sv_sid env) # out), StreamSession_Close p m2)))"

definition CollectorHandler_ServeHTTP :: "stream_env \<Rightarrow> http_req \<Rightarrow> Memory \<Rightarrow> stream_reply \<times> Memory" where
  "CollectorHandler_ServeHTTP env r m =
     (let auth = header_Values r ''Authorization''; collector = collector_by_token env (TrimPrefix (hd auth) ''Bearer '')
      in if hq_Method r \<noteq> ''POST'' then (StreamRefused 405 ''METHOD_NOT_ALLOWED'', m)
         else if hq_Path r \<noteq> ''/internal/app-states/v1/stream'' then (StreamRefused 404 ''NOT_FOUND'', m)
         else if decorated r then (StreamRefused 400 ''INVALID_ARGUMENT'', m)
         else if sv_credentials env = None then (StreamRefused 503 ''APP_STATE_UNAVAILABLE'', m)
         else if length auth \<noteq> 1 \<or> \<not> HasPrefix (hd auth) ''Bearer '' \<or> int (length (hd auth)) > 4103 then (StreamRefused 401 ''UNAUTHENTICATED'', m)
         else if collector = [] then (StreamRefused 401 ''UNAUTHENTICATED'', m)
         else if sv_media env (header_Get r ''Content-Type'') \<noteq> Some ''application/x-ndjson'' \<or> length (header_Values r ''Content-Type'') \<noteq> 1
              then (StreamRefused 400 ''INVALID_ARGUMENT'', m)
         else serve_stream env collector m)"

end
