(* ===== verification/Collector_Stream_Properties.thy ===== *)
theory Collector_Stream_Properties
  imports Collector_Stream
begin

text \<open>
  What the collectors' protocol guarantees: an accepted registry separates its collectors, and a
  stream is one run of the session of the collector its token names.
\<close>

section \<open>The registry\<close>

lemma load_credentials_separate:
  assumes "load_credentials sha lookup ids nss hashes es = Some cs"
  shows "map cc_collector cs = map collector_entry es \<and> map cc_tokenHash cs = map (\<lambda>e. sha (lookup (ce_TokenEnv e))) es
     \<and> (\<forall>c \<in> set cs. Collector_valid (cc_collector c)) \<and> (\<forall>e \<in> set es. token_ok (lookup (ce_TokenEnv e)))
     \<and> distinct (map ce_ID es) \<and> set (map ce_ID es) \<inter> set ids = {}
     \<and> distinct (concat (map ce_Namespaces es)) \<and> set (concat (map ce_Namespaces es)) \<inter> set nss = {}
     \<and> distinct (map (\<lambda>e. sha (lookup (ce_TokenEnv e))) es) \<and> (\<lambda>e. sha (lookup (ce_TokenEnv e))) ` set es \<inter> set hashes = {}"
  using assms
proof (induction es arbitrary: ids nss hashes cs)
  case (Cons e es)
  let ?c = "collector_entry e" and ?hash = "sha (lookup (ce_TokenEnv e))"
  from Cons.prems have ok: "Collector_valid ?c" "ce_ID e \<notin> set ids" "token_ok (lookup (ce_TokenEnv e))" "?hash \<notin> set hashes"
      "distinct (ce_Namespaces e)" "set (ce_Namespaces e) \<inter> set nss = {}"
    by (auto simp: Let_def seen_loop_gen collector_entry_def split: if_split_asm)
  from Cons.prems obtain cs' where
      rest: "load_credentials sha lookup (ce_ID e # ids) (rev (ce_Namespaces e) @ nss) (?hash # hashes) es = Some cs'"
      and cs: "cs = \<lparr>cc_collector = ?c, cc_tokenHash = ?hash\<rparr> # cs'"
    by (auto simp: Let_def collector_entry_def split: if_split_asm)
  from Cons.IH [OF rest] ok cs show ?case by (auto simp: collector_entry_def)
qed simp

lemma LoadCollectors_cases:
  assumes "LoadCollectors E lib sha lookup station boot others file = Inr (Some (cs, m))"
  obtains registry :: collectorRegistry where
    "load_credentials sha lookup [] [] (map sha (filter (\<lambda>t. t \<noteq> []) others)) (cg_Collectors registry) = Some cs"
    "NewMemory E station boot (map cc_collector cs) = Inr m"
proof -
  obtain content where f: "file = Some (Some content)"
    using assms unfolding LoadCollectors_def by (cases "file") (auto split: if_split_asm option.split_asm)
  obtain registry where d: "Decode lib (Some content) (2 ^ 20) = Some registry"
    using assms unfolding LoadCollectors_def f option.case by (cases "Decode lib (Some content) (2 ^ 20)") (auto split: if_split_asm)
  let ?l = "load_credentials sha lookup [] [] (map sha (filter (\<lambda>t. t \<noteq> []) others)) (cg_Collectors registry)"
  obtain cs' where l: "?l = Some cs'"
    using assms unfolding LoadCollectors_def f d option.case by (cases ?l) (simp_all split: if_split_asm)
  have "NewMemory E station boot (map cc_collector cs') = Inr m \<and> cs' = cs"
    using assms unfolding LoadCollectors_def f d l option.case
    by (cases "NewMemory E station boot (map cc_collector cs')") (simp_all split: if_split_asm)
  then show ?thesis using that [of registry] l by blast
qed

section \<open>A session touches its own collector only\<close>

lemma frame_body_confined:
  assumes "frame_body E p f now m = Inr m'" and "p < length (m_sessions m)"
  shows "cid \<noteq> ss_collector (session_at m p) \<Longrightarrow> map_of (m_collectors m') cid = map_of (m_collectors m) cid"
    and "ss_collector (session_at m' p) = ss_collector (session_at m p)"
  using assms
  by (cases f; auto simp: frame_body_defs session_at_def update_conv Let_def split: option.splits if_splits)+

lemma closeLocked_confined:
  assumes "p < length (m_sessions m)"
  shows "cid \<noteq> ss_collector (session_at m p) \<Longrightarrow> map_of (m_collectors (closeLocked p m)) cid = map_of (m_collectors m) cid"
    and "ss_collector (session_at (closeLocked p m) p) = ss_collector (session_at m p)"
  using assms by (auto simp: closeLocked_def Let_def session_at_def update_conv)

lemma Receive_cases:
  assumes "p < length (m_sessions m)"
  obtains "snd (StreamSession_Receive E p d now m) = closeLocked p m"
  | f m' where "d = Some f" "frame_body E p f now m = Inr m'"
      "snd (StreamSession_Receive E p d now m) = projectAll now (set_session p ((session_at m' p)\<lparr>ss_lastFrame := now\<rparr>) m')"
proof (cases "\<exists>f m'. d = Some f \<and> StreamSession_live m p now \<and> frame_body E p f now m = Inr m'")
  case True
  then obtain f m' where "d = Some f" "StreamSession_live m p now" "frame_body E p f now m = Inr m'" by blast
  then show ?thesis by (intro that(2)) (simp_all add: StreamSession_Receive_def StreamSession_apply_def)
next
  case False
  then show ?thesis
    by (intro that(1)) (auto simp: StreamSession_Receive_def StreamSession_Close_def StreamSession_apply_def split: option.splits sum.splits)
qed

lemma Receive_confined:
  assumes p: "p < length (m_sessions m)"
  shows "cid \<noteq> ss_collector (session_at m p) \<Longrightarrow>
      map_of (m_collectors (snd (StreamSession_Receive E p d now m))) cid = map_of (m_collectors m) cid"
    and "ss_collector (session_at (snd (StreamSession_Receive E p d now m)) p) = ss_collector (session_at m p)"
    and "length (m_sessions (snd (StreamSession_Receive E p d now m))) = length (m_sessions m)"
proof -
  let ?m = "snd (StreamSession_Receive E p d now m)"
  have "(cid \<noteq> ss_collector (session_at m p) \<longrightarrow> map_of (m_collectors ?m) cid = map_of (m_collectors m) cid) \<and>
    ss_collector (session_at ?m p) = ss_collector (session_at m p) \<and> length (m_sessions ?m) = length (m_sessions m)"
  proof (cases rule: Receive_cases [OF p, of E d now])
    case 1
    then show ?thesis using closeLocked_confined [OF p] by simp
  next
    case (2 f m')
    have "p < length (m_sessions m')" using frame_body_frame(1) [OF 2(2)] p by simp
    then show ?thesis unfolding 2(3) using frame_body_confined [OF 2(2) p] frame_body_frame(1) [OF 2(2)]
      by (simp add: session_at_def)
  qed
  then show "cid \<noteq> ss_collector (session_at m p) \<Longrightarrow> map_of (m_collectors ?m) cid = map_of (m_collectors m) cid"
    and "ss_collector (session_at ?m p) = ss_collector (session_at m p)" and "length (m_sessions ?m) = length (m_sessions m)"
    by blast+
qed

lemma fold_grows:
  assumes "\<And>x m. length (m_sessions m) \<le> length (m_sessions (f x m))"
  shows "length (m_sessions m) \<le> length (m_sessions (fold f xs m))"
  by (induction xs arbitrary: m) (auto intro: le_trans [OF assms])

lemma mem_step_grows: "length (m_sessions m) \<le> length (m_sessions (mem_step E ev m))"
proof (cases ev)
  case (EvOpen sid cid now)
  then show ?thesis by (auto simp: Memory_Open_def Let_def split: option.splits)
next
  case (EvReceive p d now)
  then show ?thesis using Receive_confined(3) by simp
next
  case (EvViews bs now)
  then show ?thesis by (auto simp: viewsLocked_def Let_def split: option.splits prod.splits if_splits)
next
  case (EvExpire now)
  then show ?thesis unfolding EvExpire Memory_Expire_def expire_sessions_def mem_step.simps projectAll_simps
    by (intro fold_grows) (auto split: option.splits)
qed (auto simp: StreamSession_Close_def ResetAppBindings_def Let_def)

lemma run_grows: "length (m_sessions m) \<le> length (m_sessions (fold (mem_step E) evs m))"
  by (rule fold_grows) (rule mem_step_grows)

section \<open>A stream is a run of its session\<close>

definition own_receive :: "nat \<Rightarrow> mem_event \<Rightarrow> bool" where
  "own_receive p e \<longleftrightarrow> (\<exists>f now. e = EvReceive p f now)"

lemma own_run_confined:
  assumes "list_all (own_receive p) evs" and "p < length (m_sessions m)"
  shows "cid \<noteq> ss_collector (session_at m p) \<Longrightarrow> map_of (m_collectors (fold (mem_step E) evs m)) cid = map_of (m_collectors m) cid"
    and "ss_collector (session_at (fold (mem_step E) evs m) p) = ss_collector (session_at m p)"
  using assms
  by (induction evs arbitrary: m) (auto simp: own_receive_def Receive_confined)

lemma stream_loop_run:
  assumes "p < length (m_sessions m)"
  shows "\<exists>evs. snd (stream_loop E lib p ts m) = fold (mem_step E) evs m
     \<and> (\<forall>e \<in> set evs. own_receive p e \<or> (\<exists>t \<in> set ts. e \<in> set (tu_meanwhile t)))"
  using assms
proof (induction ts arbitrary: m)
  case Nil
  show ?case by (intro exI [of _ "[]"]) simp
next
  case (Cons t ts)
  define m1 where "m1 = fold (mem_step E) (tu_meanwhile t) m"
  have p1: "p < length (m_sessions m1)" using Cons.prems run_grows [of m E "tu_meanwhile t"] by (simp add: m1_def)
  have stop: ?case if "snd (stream_loop E lib p (t # ts) m) = fold (mem_step E) own m1" "list_all (own_receive p) own" for own
    by (rule exI [of _ "tu_meanwhile t @ own"]) (use that in \<open>auto simp: m1_def list_all_iff\<close>)
  have go: ?case if "snd (stream_loop E lib p (t # ts) m) = snd (stream_loop E lib p ts (fold (mem_step E) own m1))"
    "list_all (own_receive p) own" for own
  proof -
    have "p < length (m_sessions (fold (mem_step E) own m1))" using p1 run_grows [of m1 E own] by simp
    from Cons.IH [OF this] obtain evs where "snd (stream_loop E lib p ts (fold (mem_step E) own m1)) = fold (mem_step E) evs (fold (mem_step E) own m1)"
      "\<forall>e \<in> set evs. own_receive p e \<or> (\<exists>t \<in> set ts. e \<in> set (tu_meanwhile t))" by blast
    with that show ?thesis
      by (intro exI [of _ "tu_meanwhile t @ own @ evs"]) (auto simp: m1_def list_all_iff)
  qed
  show ?case
  proof (cases "tu_event t")
    case Tick
    then show ?thesis using stop [of "[]"] go [of "[]"] by (auto simp: m1_def [symmetric] Let_def split: if_splits prod.splits)
  next
    case (FrameIn raw)
    let ?own = "[EvReceive p (decode_frame lib raw) (tu_now t)]"
    obtain r m2 where r: "StreamSession_Receive E p (decode_frame lib raw) (tu_now t) m1 = (r, m2)" by fastforce
    then have "fold (mem_step E) ?own m1 = m2" using p1 by simp
    with r FrameIn show ?thesis using stop [of ?own] go [of ?own]
      by (cases r) (auto simp: m1_def [symmetric] Let_def own_receive_def split: if_splits)
  qed (use stop [of "[]"] in \<open>auto simp: m1_def [symmetric] Let_def\<close>)
qed

lemma Open_session:
  assumes inv: "mem_inv E m" and o: "Memory_Open sid cid now m = (Inr p, m')"
  shows "p = length (m_sessions m)" and "length (m_sessions m') = Suc p" and "ss_collector (session_at m' p) = cid"
    and "k \<noteq> cid \<Longrightarrow> map_of (m_collectors m') k = map_of (m_collectors m) k"
proof -
  obtain c where c: "map_of (m_collectors m) cid = Some c" using o by (auto simp: Memory_Open_def split: option.splits)
  have k: "map_of (m_collectors (closeLocked q m)) k = map_of (m_collectors m) k" if "mc_active c = Some q" "k \<noteq> cid" for q
    using active_session [OF inv c that(1)] that(2) closeLocked_confined(1) [of q m k] by (auto simp: session_at_def)
  show "p = length (m_sessions m)" "length (m_sessions m') = Suc p" "ss_collector (session_at m' p) = cid"
    "k \<noteq> cid \<Longrightarrow> map_of (m_collectors m') k = map_of (m_collectors m) k"
    using o c k by (auto simp: Memory_Open_def Let_def session_at_def update_conv nth_append split: option.splits if_splits)
qed

lemma Open_refused: "Memory_Open sid cid now m = (Inl e, m') \<Longrightarrow> m' = m"
  by (auto simp: Memory_Open_def Let_def split: option.splits if_splits)

lemma collector_by_token_found:
  assumes "collector_by_token env token \<noteq> []"
  shows "\<exists>cs c. sv_credentials env = Some cs \<and> c \<in> set cs \<and> cc_tokenHash c = sv_sha env token \<and>
     collector_by_token env token = col_ID (cc_collector c)"
proof -
  have "fold (\<lambda>c found. if sv_sha env token = cc_tokenHash c then col_ID (cc_collector c) else found) cs start = start \<or>
     (\<exists>c \<in> set cs. cc_tokenHash c = sv_sha env token \<and>
        fold (\<lambda>c found. if sv_sha env token = cc_tokenHash c then col_ID (cc_collector c) else found) cs start = col_ID (cc_collector c))" for cs start
    by (induction cs arbitrary: start) force+
  from this [of "case sv_credentials env of None \<Rightarrow> [] | Some cs \<Rightarrow> cs" "[]"] assms show ?thesis
    unfolding collector_by_token_def by (cases "sv_credentials env") auto
qed

text \<open>The checks of the handler, and what it does to the memory once they pass.\<close>

definition stream_admitted :: "stream_env \<Rightarrow> http_req \<Rightarrow> string \<Rightarrow> collectorCredential \<Rightarrow> bool" where
  "stream_admitted env r token c \<longleftrightarrow>
     hq_Method r = ''POST'' \<and> hq_Path r = ''/internal/app-states/v1/stream'' \<and> \<not> decorated r \<and>
     header_Values r ''Authorization'' = [''Bearer '' @ token] \<and>
     (\<exists>cs. sv_credentials env = Some cs \<and> c \<in> set cs) \<and> cc_tokenHash c = sv_sha env token"

lemma ServeHTTP_cases:
  assumes "snd (CollectorHandler_ServeHTTP env r m) \<noteq> m"
  obtains token c p m1 where "stream_admitted env r token c"
    "Memory_Open (sv_sid env) (col_ID (cc_collector c)) (sv_opened env) m = (Inr p, m1)"
    "snd (CollectorHandler_ServeHTTP env r m) = StreamSession_Close p m1 \<or>
     snd (CollectorHandler_ServeHTTP env r m) = StreamSession_Close p (snd (stream_loop (sv_ext env) (sv_lib env) p (sv_turns env) m1))"
proof -
  let ?auth = "header_Values r ''Authorization''"
  let ?id = "collector_by_token env (TrimPrefix (hd ?auth) ''Bearer '')"
  have adm: "hq_Method r = ''POST'' \<and> hq_Path r = ''/internal/app-states/v1/stream'' \<and> \<not> decorated r \<and> sv_credentials env \<noteq> None \<and>
      length ?auth = 1 \<and> HasPrefix (hd ?auth) ''Bearer '' \<and> ?id \<noteq> []"
    using assms unfolding CollectorHandler_ServeHTTP_def Let_def by (auto simp only: snd_conv split: if_split_asm)
  then obtain token where token: "?auth = [''Bearer '' @ token]" by (auto simp: HasPrefix_split length_Suc_conv)
  have trim: "TrimPrefix (hd ?auth) ''Bearer '' = token" unfolding token list.sel by (rule TrimPrefix_append)
  with adm have "collector_by_token env token \<noteq> []" by metis
  from collector_by_token_found [OF this] obtain cs c where c: "sv_credentials env = Some cs" "c \<in> set cs" "cc_tokenHash c = sv_sha env token"
    "collector_by_token env token = col_ID (cc_collector c)" by blast
  have ok: "stream_admitted env r token c" using adm token c by (auto simp: stream_admitted_def)
  obtain res m1 where o: "Memory_Open (sv_sid env) (col_ID (cc_collector c)) (sv_opened env) m = (res, m1)" by fastforce
  have id: "?id = col_ID (cc_collector c)" unfolding trim by (rule c(4))
  have serve: "snd (CollectorHandler_ServeHTTP env r m) = snd (serve_stream env (col_ID (cc_collector c)) m)"
    using assms unfolding CollectorHandler_ServeHTTP_def Let_def id by (simp split: if_split_asm)
  show ?thesis
  proof (cases res)
    case (Inl e)
    with Open_refused o have "m1 = m" by blast
    with o Inl have "snd (serve_stream env (col_ID (cc_collector c)) m) = m" by (cases e) (simp_all add: serve_stream_def)
    with assms serve show ?thesis by simp
  next
    case (Inr p)
    have "snd (serve_stream env (col_ID (cc_collector c)) m) = StreamSession_Close p m1 \<or>
     snd (serve_stream env (col_ID (cc_collector c)) m) = StreamSession_Close p (snd (stream_loop (sv_ext env) (sv_lib env) p (sv_turns env) m1))"
      using o Inr by (simp add: serve_stream_def Let_def split: prod.splits)
    with that ok o Inr serve show ?thesis by simp
  qed
qed

section \<open>The guarantees\<close>

text \<open>
  C16. An accepted registry keeps its collectors apart: their ids, their namespaces and their tokens
  are pairwise distinct, every token has the required form and none of them hashes like another
  token of the process, and the memory starts in a state that satisfies its invariant.
\<close>

theorem registry_separates_collectors:
  assumes "LoadCollectors E lib sha lookup station boot others file = Inr (Some (cs, m))"
  shows "mem_inv E m \<and> distinct (map (\<lambda>c. col_ID (cc_collector c)) cs) \<and>
     distinct (concat (map (\<lambda>c. col_Namespaces (cc_collector c)) cs)) \<and> distinct (map cc_tokenHash cs) \<and>
     (\<forall>c \<in> set cs. Collector_valid (cc_collector c) \<and> (\<exists>token. token_ok token \<and> cc_tokenHash c = sha token) \<and>
        (\<forall>t \<in> set others. t \<noteq> [] \<longrightarrow> cc_tokenHash c \<noteq> sha t))"
proof -
  obtain registry :: collectorRegistry where l: "load_credentials sha lookup [] [] (map sha (filter (\<lambda>t. t \<noteq> []) others)) (cg_Collectors registry) = Some cs"
    and n: "NewMemory E station boot (map cc_collector cs) = Inr m"
    by (rule LoadCollectors_cases [OF assms])
  let ?es = "cg_Collectors registry"
  note sep = load_credentials_separate [OF l]
  have es: "map cc_collector cs = map collector_entry ?es" and hs: "map cc_tokenHash cs = map (\<lambda>e. sha (lookup (ce_TokenEnv e))) ?es"
    using sep by blast+
  have ids: "map (\<lambda>c. col_ID (cc_collector c)) cs = map ce_ID ?es" and nss: "map (\<lambda>c. col_Namespaces (cc_collector c)) cs = map ce_Namespaces ?es"
    using arg_cong [OF es, of "map col_ID"] arg_cong [OF es, of "map col_Namespaces"] by (simp_all add: collector_entry_def comp_def)
  have h: "Collector_valid (cc_collector c) \<and> (\<exists>token. token_ok token \<and> cc_tokenHash c = sha token) \<and>
      (\<forall>t \<in> set others. t \<noteq> [] \<longrightarrow> cc_tokenHash c \<noteq> sha t)" if c: "c \<in> set cs" for c
  proof -
    have "cc_tokenHash c \<in> set (map cc_tokenHash cs)" using c by simp
    then obtain e where e: "e \<in> set ?es" "cc_tokenHash c = sha (lookup (ce_TokenEnv e))" unfolding hs by auto
    have "(\<lambda>e. sha (lookup (ce_TokenEnv e))) ` set ?es \<inter> set (map sha (filter (\<lambda>t. t \<noteq> []) others)) = {}" using sep by blast
    then have "\<forall>t \<in> set others. t \<noteq> [] \<longrightarrow> cc_tokenHash c \<noteq> sha t" using e by auto
    moreover have "token_ok (lookup (ce_TokenEnv e))" using sep e(1) by blast
    moreover have "Collector_valid (cc_collector c)" using sep c by blast
    ultimately show ?thesis using e(2) by blast
  qed
  have inv: "mem_inv E m" by (rule mem_inv_New [OF n])
  show ?thesis unfolding ids nss hs using sep inv h by (elim conjE) (intro conjI ballI; blast)
qed

text \<open>
  C15. A stream acts only as the session of the collector its token names. When a request changes the
  memory, it carries exactly one Authorization header with a token whose hash is a credential of
  the registry, and the change is a run of memory events: opening a session of that collector,
  frames received on that session, what others did meanwhile, and closing that session at the end.
  When nobody else acts meanwhile, no other collector is changed.
\<close>

theorem stream_acts_as_its_collector:
  assumes inv: "mem_inv (sv_ext env) m" and changed: "snd (CollectorHandler_ServeHTTP env r m) \<noteq> m"
  shows "\<exists>token c evs. stream_admitted env r token c \<and>
     snd (CollectorHandler_ServeHTTP env r m) =
       fold (mem_step (sv_ext env))
         (EvOpen (sv_sid env) (col_ID (cc_collector c)) (sv_opened env) # evs @ [EvClose (length (m_sessions m))]) m \<and>
     (\<forall>e \<in> set evs. own_receive (length (m_sessions m)) e \<or> (\<exists>t \<in> set (sv_turns env). e \<in> set (tu_meanwhile t))) \<and>
     ((\<forall>t \<in> set (sv_turns env). tu_meanwhile t = []) \<longrightarrow>
        (\<forall>k. k \<noteq> col_ID (cc_collector c) \<longrightarrow>
           map_of (m_collectors (snd (CollectorHandler_ServeHTTP env r m))) k = map_of (m_collectors m) k))"
proof -
  obtain token c p m1 where adm: "stream_admitted env r token c"
    and o: "Memory_Open (sv_sid env) (col_ID (cc_collector c)) (sv_opened env) m = (Inr p, m1)"
    and res: "snd (CollectorHandler_ServeHTTP env r m) = StreamSession_Close p m1 \<or>
      snd (CollectorHandler_ServeHTTP env r m) = StreamSession_Close p (snd (stream_loop (sv_ext env) (sv_lib env) p (sv_turns env) m1))"
    by (rule ServeHTTP_cases [OF changed])
  note opened = Open_session [OF inv o]
  have p1: "p < length (m_sessions m1)" using opened(2) by simp
  obtain evs where evs: "snd (CollectorHandler_ServeHTTP env r m) = StreamSession_Close p (fold (mem_step (sv_ext env)) evs m1)"
    "\<forall>e \<in> set evs. own_receive p e \<or> (\<exists>t \<in> set (sv_turns env). e \<in> set (tu_meanwhile t))"
    using res stream_loop_run [OF p1, of "sv_ext env" "sv_lib env" "sv_turns env"] by (metis empty_iff empty_set fold_simps(1))
  let ?m2 = "fold (mem_step (sv_ext env)) evs m1"
  have p2: "p < length (m_sessions ?m2)" using p1 run_grows [of m1 "sv_ext env" evs] by simp
  have run: "snd (CollectorHandler_ServeHTTP env r m) =
      fold (mem_step (sv_ext env)) (EvOpen (sv_sid env) (col_ID (cc_collector c)) (sv_opened env) # evs @ [EvClose p]) m"
    using evs(1) o p2 by simp
  have quiet: "map_of (m_collectors (StreamSession_Close p ?m2)) k = map_of (m_collectors m) k"
    if "\<forall>t \<in> set (sv_turns env). tu_meanwhile t = []" "k \<noteq> col_ID (cc_collector c)" for k
  proof -
    have own: "list_all (own_receive p) evs" using evs(2) that(1) by (auto simp: list_all_iff)
    have k: "k \<noteq> ss_collector (session_at m1 p)" using that(2) opened(3) by simp
    then have "map_of (m_collectors ?m2) k = map_of (m_collectors m1) k" and "k \<noteq> ss_collector (session_at ?m2 p)"
      using own_run_confined [OF own p1] by simp_all
    then show ?thesis using closeLocked_confined(1) [OF p2] opened(4) that(2) by (simp add: StreamSession_Close_def)
  qed
  show ?thesis using adm run evs quiet unfolding opened(1) [symmetric] evs(1) by (intro exI conjI) blast+
qed

section \<open>Witnesses\<close>

definition demo_token :: string where
  "demo_token = replicate 32 CHR ''t''"

definition demo_registry :: collectorRegistry where
  "demo_registry = \<lparr>cg_SchemaVersion = 1,
     cg_Collectors = [\<lparr>ce_ID = ''c'', ce_Namespaces = [''n''], ce_HealthRequiredApps = [], ce_TokenEnv = ''C_TOKEN''\<rparr>]\<rparr>"

definition demo_registry_lib :: "collectorRegistry json_lib" where
  "demo_registry_lib = \<lparr>jl_utf8 = (\<lambda>_. True), jl_tokens = (\<lambda>_. ([Delim CHR ''{'', Delim CHR ''}''], True)), jl_float = (\<lambda>_. True),
     jl_decode = (\<lambda>_. Some demo_registry), jl_marshal = (\<lambda>_. Some ''{}''), jl_unmarshal = (\<lambda>_. Some (JObj []))\<rparr>"

definition demo_credential :: collectorCredential where
  "demo_credential = \<lparr>cc_collector = demo_collector, cc_tokenHash = demo_token\<rparr>"

text \<open>One accepted frame and a malformed one after it, sent by the registered collector.\<close>

definition demo_stream_lib :: stream_lib where
  "demo_stream_lib = \<lparr>sl_discriminator = (\<lambda>raw. if raw = ''begin'' then Some (1, ''snapshot-begin'') else None),
     sl_frame = (\<lambda>_. \<lparr>jl_utf8 = (\<lambda>_. True), jl_tokens = (\<lambda>_. ([Delim CHR ''{'', Delim CHR ''}''], True)), jl_float = (\<lambda>_. True),
       jl_decode = (\<lambda>_. Some (SnapshotBegin ''y'')), jl_marshal = (\<lambda>_. Some ''{}''), jl_unmarshal = (\<lambda>_. Some (JObj []))\<rparr>)\<rparr>"

definition demo_stream :: stream_env where
  "demo_stream = \<lparr>sv_ext = demo_ext, sv_lib = demo_stream_lib, sv_credentials = Some [demo_credential], sv_sha = id, sv_media = Some,
     sv_sid = ''x'', sv_opened = 1, sv_supported = True, sv_greeted = True,
     sv_turns = [\<lparr>tu_now = 2, tu_meanwhile = [], tu_event = FrameIn ''begin'', tu_written = True\<rparr>,
                 \<lparr>tu_now = 3, tu_meanwhile = [], tu_event = FrameIn ''junk'', tu_written = True\<rparr>]\<rparr>"

definition demo_stream_request :: "string \<Rightarrow> http_req" where
  "demo_stream_request token = \<lparr>hq_Method = ''POST'', hq_Path = ''/internal/app-states/v1/stream'', hq_RawPath = [], hq_RawQuery = [], hq_ForceQuery = False,
     hq_Header = [(''Authorization'', [''Bearer '' @ token]), (''Content-Type'', [''application/x-ndjson''])], hq_Body = [], hq_BodyEnds = True,
     hq_ContentLength = -1, hq_TransferEncoding = []\<rparr>"

lemma demo_streamed:
  "LoadCollectors demo_ext demo_registry_lib id (\<lambda>_. demo_token) ''s'' ''b'' [''other''] (Some (Some ''{}'')) = Inr (Some ([demo_credential], demo_start)) \<and>
   fst (CollectorHandler_ServeHTTP demo_stream (demo_stream_request demo_token) demo_start) = Streamed [Hello ''b'' ''x'', Closing ''INVALID_ARGUMENT''] \<and>
   length (m_sessions (snd (CollectorHandler_ServeHTTP demo_stream (demo_stream_request demo_token) demo_start))) = 1 \<and>
   length (m_sessions demo_start) = 0"
  by code_simp

theorem registry_separates_collectors_witness:
  "mem_inv demo_ext demo_start \<and> cc_tokenHash demo_credential \<noteq> ''other''"
proof -
  have "LoadCollectors demo_ext demo_registry_lib id (\<lambda>_. demo_token) ''s'' ''b'' [''other''] (Some (Some ''{}'')) = Inr (Some ([demo_credential], demo_start))"
    using demo_streamed by (elim conjE)
  from registry_separates_collectors [OF this] show ?thesis by simp
qed

theorem stream_acts_as_its_collector_witness:
  "\<exists>token c. stream_admitted demo_stream (demo_stream_request demo_token) token c \<and>
     (\<forall>k. k \<noteq> col_ID (cc_collector c) \<longrightarrow>
        map_of (m_collectors (snd (CollectorHandler_ServeHTTP demo_stream (demo_stream_request demo_token) demo_start))) k =
        map_of (m_collectors demo_start) k)"
proof -
  have inv: "mem_inv (sv_ext demo_stream) demo_start" using demo_inv(1) by (simp add: demo_stream_def)
  have changed: "snd (CollectorHandler_ServeHTTP demo_stream (demo_stream_request demo_token) demo_start) \<noteq> demo_start"
    using demo_streamed by fastforce
  have quiet: "\<forall>t \<in> set (sv_turns demo_stream). tu_meanwhile t = []" by (simp add: demo_stream_def)
  from stream_acts_as_its_collector [OF inv changed] quiet show ?thesis by blast
qed

end
