(* ===== verification/Gateway_Access.thy ===== *)
theory Gateway_Access
  imports App_Center Egress_Probe Forward_Recovery Namespace_Migration Collector_Stream
begin

text \<open>
  The state of a station as the HTTP gateway (\<^verbatim>\<open>internal/gateway\<close>) sees it, the environment of a
  request, and what the handlers share: replies, the reader of bodies, and the credentials other
  than user sessions, which are the tokens of the applications, of the installations, of the
  Blender control and of the bootstrap. Parameters are the media type and query parsers, the JSON
  decoders of the bodies, SHA-256, and the HTTP client of the instance Runtime.
\<close>

section \<open>The station\<close>

record runtime_call =
  rc_method :: string
  rc_url :: string
  rc_authorization :: string
  rc_requestID :: string
  rc_body :: string

record runtime_answer =
  ra_status :: int
  ra_encoding :: string
  ra_body :: "string option"

text \<open>
  The tables of the services, the observation memory, and the calls handed to the HTTP client of the
  instance Runtime (the workspaces and instances below \<^verbatim>\<open>/internal/v1/instances\<close>). The gRPC client of the
  Runtime, which reconciles transitions and inspects workloads, keeps no state here: it is a
  function of the environment.
\<close>

record station =
  st_identity :: identity_db
  st_ops :: station_db
  st_egress :: egress_db
  st_states :: state_tables
  st_tables :: migration_tables
  st_memory :: Memory
  st_calls :: "runtime_call list"

section \<open>Replies\<close>

text \<open>The text of an error message depends on its code and place only and is left out.\<close>

datatype gw_body =
  NoBody
| Failed string
| SessionBody Session
| UserBody IdentityContext
| OperationBody Operation
| TransitionBody Transition
| RecoveryBody ForwardRecovery
| InstallationsBody string "Ops_Types.Installation list"
| InstallationBody Ops_Types.Installation
| FactsBody Facts
| StatesBody StateSnapshot
| CatalogBody string "Item list"
| AppBody string Item
| InventoryBody PreinstalledInventory
| ReleaseBody Ops_Types.Binding
| ProxiesBody "Endpoint list"
| ProxyBody Endpoint
| AccessBody string string
| AuthorizedBody Ops_Types.Installation string string bool
| MigratedBody NamespaceMigrationResult
| RuntimeBody string
| StreamBody "stream_message list"
| ProbeBody string
| HealthBody string string
| TelemetryBody string

type_synonym response = "int \<times> gw_body"

definition fault_code :: "fault \<Rightarrow> string" where
  "fault_code f =
     (case f of
        Invalid \<Rightarrow> ''INVALID_ARGUMENT''
      | Unauthenticated \<Rightarrow> ''UNAUTHENTICATED''
      | Revoked \<Rightarrow> ''SESSION_REVOKED''
      | Denied \<Rightarrow> ''PERMISSION_DENIED''
      | Locked \<Rightarrow> ''ACCOUNT_LOCKED''
      | Conflict \<Rightarrow> ''CONFLICT''
      | Database \<Rightarrow> ''SERVICE_UNAVAILABLE'')"

definition failure :: "fault \<Rightarrow> response" where
  "failure f =
     ((case f of
         Invalid \<Rightarrow> 400 | Unauthenticated \<Rightarrow> 401 | Revoked \<Rightarrow> 401 | Denied \<Rightarrow> 403 | Locked \<Rightarrow> 423 | Conflict \<Rightarrow> 409 | Database \<Rightarrow> 503),
      Failed (fault_code f))"

text \<open>\<open>errors.As\<close>: any error that is no fault counts as a failing database.\<close>

definition op_fault :: "op_error \<Rightarrow> fault" where
  "op_fault e = (case e of Fault f \<Rightarrow> f | _ \<Rightarrow> Database)"

section \<open>Bodies\<close>

text \<open>
  The reader of a request type: the names of its fields, the top level of a body as one object
  with the names and whether each value is null (\<open>None\<close> for anything else than exactly one object),
  and the typed decoding.
\<close>

record 'a decoder =
  dc_allowed :: "string list"
  dc_fields :: "string \<Rightarrow> (string \<times> bool) list option"
  dc_typed :: "string \<Rightarrow> 'a option"

text \<open>\<open>io.ReadAll(http.MaxBytesReader(...))\<close>.\<close>

definition read_body :: "int \<Rightarrow> http_req \<Rightarrow> string option" where
  "read_body limit r = (if hq_BodyEnds r \<and> int (length (hq_Body r)) \<le> limit then Some (hq_Body r) else None)"

definition fields_ok :: "string list \<Rightarrow> (string \<times> bool) list \<Rightarrow> bool" where
  "fields_ok allowed fs \<longleftrightarrow> seen_loop (\<lambda>(name, nul). name \<in> set allowed \<and> \<not> nul) fst [] fs"

text \<open>\<open>None\<close> is an invalid request, \<open>Some None\<close> an allowed empty body.\<close>

definition decode_body :: "(string \<Rightarrow> string option) \<Rightarrow> 'a decoder \<Rightarrow> bool \<Rightarrow> http_req \<Rightarrow> 'a option option" where
  "decode_body media dc allowEmpty r =
     (case read_body 16384 r of
        None \<Rightarrow> None
      | Some data \<Rightarrow>
          if TrimSpace data = [] then (if allowEmpty then Some None else None)
          else if media (header_Get r ''Content-Type'') \<noteq> Some ''application/json'' then None
          else (case dc_fields dc data of
                  None \<Rightarrow> None
                | Some fs \<Rightarrow>
                    if \<not> fields_ok (dc_allowed dc) fs then None
                    else (case dc_typed dc data of None \<Rightarrow> None | Some x \<Rightarrow> Some (Some x))))"

definition decode :: "(string \<Rightarrow> string option) \<Rightarrow> 'a decoder \<Rightarrow> http_req \<Rightarrow> 'a option" where
  "decode media dc r = (case decode_body media dc False r of Some (Some x) \<Rightarrow> Some x | _ \<Rightarrow> None)"

text \<open>\<open>strings.Fields\<close>; one unit of fuel per byte is enough.\<close>

fun fields_loop :: "nat \<Rightarrow> string \<Rightarrow> string \<Rightarrow> string list" where
  "fields_loop 0 w s = (if w = [] then [] else [rev w])"
| "fields_loop (Suc n) w s =
     (case s of
        [] \<Rightarrow> (if w = [] then [] else [rev w])
      | c # cs \<Rightarrow>
          (case strip_any go_spaces s of
             Some rest \<Rightarrow> (if w = [] then fields_loop n [] rest else rev w # fields_loop n [] rest)
           | None \<Rightarrow> fields_loop n (c # w) cs))"

definition Fields :: "string \<Rightarrow> string list" where
  "Fields s = fields_loop (length s) [] s"

definition bearer :: "http_req \<Rightarrow> string" where
  "bearer r =
     (case Fields (header_Get r ''Authorization'') of
        [scheme, token] \<Rightarrow> if ToLower scheme = ''bearer'' then token else []
      | _ \<Rightarrow> [])"

section \<open>Delegation to applications\<close>

record AppAccess =
  aa_network :: string
  aa_resources :: string

definition plain_token :: "string \<Rightarrow> bool" where
  "plain_token t \<longleftrightarrow> 32 \<le> length t \<and> list_all (\<lambda>c. c \<notin> set (bytes [32, 9, 13, 10])) t"

text \<open>\<open>identity\<close> says whether there is an identity service; the error of a refused configuration is \<open>Inl\<close>.\<close>

definition NewAppAccess :: "string \<Rightarrow> string \<Rightarrow> bool \<Rightarrow> unit + AppAccess option" where
  "NewAppAccess network resources identity =
     (if network = [] \<and> resources = [] then Inr None
      else if \<not> list_all (\<lambda>t. t = [] \<or> plain_token t) [network, resources] then Inl ()
      else if \<not> identity \<or> (network \<noteq> [] \<and> network = resources) then Inl ()
      else Inr (Some \<lparr>aa_network = network, aa_resources = resources\<rparr>))"

definition canonicalSubject :: "uuid_parser \<Rightarrow> string \<Rightarrow> bool" where
  "canonicalSubject parse value = (case parse value of None \<Rightarrow> False | Some i \<Rightarrow> \<not> uuid_Nil i \<and> uuid_String i = value)"

definition subject_headers :: "string list" where
  "subject_headers = [''X-User-Id'', ''X-Organization-Id'', ''X-Station-Id'']"

definition subjects_ok :: "uuid_parser \<Rightarrow> http_req \<Rightarrow> bool" where
  "subjects_ok parse r \<longleftrightarrow> list_all (\<lambda>h. length (header_Values r h) = 1 \<and> canonicalSubject parse (header_Get r h)) subject_headers"

text \<open>The user and the organization the application acts for, or the reply that refuses the request.\<close>

definition delegatedApp ::
  "(string \<Rightarrow> string) \<Rightarrow> identity_service \<Rightarrow> AppAccess option \<Rightarrow> string \<Rightarrow> http_req \<Rightarrow> response + string \<times> string" where
  "delegatedApp sha svc access app r =
     (case access of
        None \<Rightarrow> Inl (503, Failed ''SERVICE_UNAVAILABLE'')
      | Some a \<Rightarrow>
          (let token = (if app = ''resources'' then aa_resources a else aa_network a)
           in if token = [] \<or> length (header_Values r ''Authorization'') \<noteq> 1
                 \<or> sha (header_Get r ''Authorization'') \<noteq> sha (''Bearer '' @ token) then Inl (failure Unauthenticated)
              else if \<not> subjects_ok (is_uuid svc) r then Inl (failure Invalid)
              else if decorated r \<or> header_Get r ''Content-Encoding'' \<noteq> [] then Inl (failure Invalid)
              else if header_Get r ''X-Station-Id'' \<noteq> is_StationID svc then Inl (failure Denied)
              else Inr (header_Get r ''X-User-Id'', header_Get r ''X-Organization-Id'')))"

section \<open>Installations\<close>

record installation_entry =
  ie_AppID :: string
  ie_TokenEnv :: string

text \<open>\<^verbatim>\<open>^STATION_APP_INSTALLATION_[A-Z0-9_]+_TOKEN$\<close>.\<close>

definition tokenEnvName :: "string \<Rightarrow> bool" where
  "tokenEnvName s =
     (case strip_prefix ''STATION_APP_INSTALLATION_'' s of
        None \<Rightarrow> False
      | Some rest \<Rightarrow>
          6 < length rest \<and> drop (length rest - 6) rest = ''_TOKEN'' \<and>
          list_all (\<lambda>c. char_between CHR ''A'' CHR ''Z'' c \<or> is_digit c \<or> c = CHR ''_'') (take (length rest - 6) rest))"

definition installation_token :: "string \<Rightarrow> bool" where
  "installation_token t \<longleftrightarrow> 32 \<le> length t \<and> int (length t) \<le> 512 \<and> list_all (\<lambda>c. (33::int) \<le> of_char c \<and> of_char c \<le> (126::int)) t"

text \<open>The callers by the hash of the header they send.\<close>

type_synonym callers = "(string \<times> string) list"

fun load_callers ::
  "(string \<Rightarrow> string) \<Rightarrow> (string \<Rightarrow> string) \<Rightarrow> string list \<Rightarrow> callers \<Rightarrow> installation_entry list \<Rightarrow> callers option" where
  "load_callers sha lookup seen callers [] = Some callers"
| "load_callers sha lookup seen callers (e # es) =
     (if \<not> preinstalledApp (ie_AppID e) \<or> ie_AppID e \<in> set seen \<or> \<not> tokenEnvName (ie_TokenEnv e) then None
      else if \<not> installation_token (lookup (ie_TokenEnv e)) then None
      else (let hash = sha (''Bearer '' @ lookup (ie_TokenEnv e))
            in if map_of callers hash \<noteq> None then None
               else load_callers sha lookup (ie_AppID e # seen) (AList.update hash (ie_AppID e) callers) es))"

text \<open>\<open>file\<close> is \<open>None\<close> for no path, \<open>Some None\<close> for a file that cannot be read; \<open>services\<close> says whether the services are there.\<close>

definition LoadInstallationAccess ::
  "installation_entry list json_lib \<Rightarrow> (string \<Rightarrow> string) \<Rightarrow> (string \<Rightarrow> string) \<Rightarrow> bool \<Rightarrow> string option option
     \<Rightarrow> unit + callers option" where
  "LoadInstallationAccess lib sha lookup services file =
     (case file of
        None \<Rightarrow> Inr None
      | Some content \<Rightarrow>
          if \<not> services \<or> content = None then Inl ()
          else (case Decode lib content 65536 of
                  None \<Rightarrow> Inl ()
                | Some es \<Rightarrow>
                    if es = [] \<or> length es > 128 then Inl ()
                    else (case load_callers sha lookup [] [] es of None \<Rightarrow> Inl () | Some cs \<Rightarrow> Inr (Some cs))))"

text \<open>\<^verbatim>\<open>^(0|[1-9][0-9]*)\.(0|[1-9][0-9]*)\.(0|[1-9][0-9]*)$\<close>.\<close>

definition plain_number :: "string \<Rightarrow> bool" where
  "plain_number s \<longleftrightarrow> s = ''0'' \<or> (s \<noteq> [] \<and> list_all is_digit s \<and> hd s \<noteq> CHR ''0'')"

definition plain_version :: "string \<Rightarrow> bool" where
  "plain_version s \<longleftrightarrow> length (split_on CHR ''.'' s) = 3 \<and> list_all plain_number (split_on CHR ''.'' s)"

section \<open>The control of Blender instances\<close>

record BlenderControl =
  bc_Token :: string
  bc_Endpoint :: string
  bc_RuntimeToken :: string

text \<open>What \<open>url.Parse\<close> gives for the endpoint.\<close>

record parsed_endpoint =
  pe_Scheme :: string
  pe_Host :: string
  pe_bare :: bool

definition NewBlenderControl :: "(string \<Rightarrow> parsed_endpoint option) \<Rightarrow> string \<Rightarrow> string \<Rightarrow> string \<Rightarrow> unit + BlenderControl option" where
  "NewBlenderControl parse token endpoint runtime =
     (if token = [] \<and> endpoint = [] \<and> runtime = [] then Inr None
      else case parse endpoint of
             None \<Rightarrow> Inl ()
           | Some u \<Rightarrow>
               if pe_Host u = [] \<or> \<not> pe_bare u \<or> pe_Scheme u \<notin> {''http'', ''https''} \<or> length token < 32 \<or> length runtime < 32 then Inl ()
               else Inr (Some \<lparr>bc_Token = token, bc_Endpoint = endpoint, bc_RuntimeToken = runtime\<rparr>))"

definition blenderControlCaller :: "(string \<Rightarrow> string) \<Rightarrow> BlenderControl option \<Rightarrow> http_req \<Rightarrow> response + BlenderControl" where
  "blenderControlCaller sha control r =
     (case control of
        None \<Rightarrow> Inl (503, Failed ''SERVICE_UNAVAILABLE'')
      | Some c \<Rightarrow>
          if bc_Token c = [] \<or> length (header_Values r ''Authorization'') \<noteq> 1 \<or> length (header_Values r ''X-User-Id'') \<noteq> 1
             \<or> length (header_Values r ''X-Organization-Id'') \<noteq> 1 \<or> sha (header_Get r ''Authorization'') \<noteq> sha (''Bearer '' @ bc_Token c)
          then Inl (failure Unauthenticated)
          else if hq_RawQuery r \<noteq> [] \<or> hq_RawPath r \<noteq> [] \<or> header_Get r ''Content-Encoding'' \<noteq> [] then Inl (failure Invalid)
          else Inr c)"

text \<open>One call of the Runtime: the request is built and handed to the client; at most \<open>limit\<close> bytes of the answer are read.\<close>

definition runtime_request :: "BlenderControl \<Rightarrow> string \<Rightarrow> string \<Rightarrow> string \<Rightarrow> string \<Rightarrow> runtime_call" where
  "runtime_request c method path requestID body =
     \<lparr>rc_method = method, rc_url = bc_Endpoint c @ path, rc_authorization = ''Bearer '' @ bc_RuntimeToken c, rc_requestID = requestID, rc_body = body\<rparr>"

definition answer_within :: "int \<Rightarrow> runtime_answer \<Rightarrow> string option" where
  "answer_within limit a =
     (case ra_body a of
        None \<Rightarrow> None
      | Some data \<Rightarrow> if int (length data) > limit \<or> ra_encoding a \<noteq> [] then None else Some data)"

section \<open>The bootstrap token\<close>

definition requireBootstrapToken :: "(string \<Rightarrow> string) \<Rightarrow> string \<Rightarrow> http_req \<Rightarrow> bool" where
  "requireBootstrapToken sha expected r =
     (let given = header_Get r ''X-Bootstrap-Token''; token = (if given = [] then bearer r else given)
      in expected \<noteq> [] \<and> token \<noteq> [] \<and> sha expected = sha token)"

end
