(* ===== verification/Gateway_Runtime.thy ===== *)
theory Gateway_Runtime
  imports Gateway_Access
begin

text \<open>
  The environment of a request to the gateway, and the handlers that call the Runtime
  (\<^verbatim>\<open>internal/gateway/blender.go\<close>, \<^verbatim>\<open>workspaces.go\<close>): on behalf of a member whose membership is
  checked under the locks of the identity service. A call is recorded when it is handed to the client.
\<close>

section \<open>The environment of a request\<close>

text \<open>
  A body of the Blender control: the identity it names and the JSON that is forwarded.
\<close>

record blender_input =
  bi_UserID :: string
  bi_OrganizationID :: string
  bi_StationID :: string
  bi_json :: string

record workspaceReleaseInput =
  wi_IdempotencyKey :: string
  wi_Namespace :: string
  wi_PVCName :: string

record gateway_decoders =
  gd_command :: "Command decoder"
  gd_bootstrap :: "BootstrapRequest decoder"
  gd_login :: "LoginRequest decoder"
  gd_empty :: "unit decoder"
  gd_forward :: "ForwardRecoveryCommand decoder"
  gd_transition :: "TransitionCommand decoder"
  gd_proxy :: "Input decoder"
  gd_app :: "string decoder"
  gd_installation :: "(string \<times> string) decoder"
  gd_worker :: "(string \<times> string) decoder"
  gd_blender :: "string \<Rightarrow> blender_input decoder"
  gd_release :: "workspaceReleaseInput decoder"
  gd_preinstalled :: "PreinstalledCommand json_lib"
  gd_appcenter :: "AppCenterCommand schema_lib"
  gd_migration :: "string \<Rightarrow> (NamespaceMigrationRequest \<times> bool) option"

text \<open>
  The configuration of the server, its clocks and fresh identifiers, the failures of the database
  during the request, and the libraries and clients it calls. A service that is not configured is
  \<open>None\<close>; \<open>gv_meanwhile\<close> is what other requests do to the proxies while one is being tested.
\<close>

record gateway_env =
  gv_newRequestID :: "string option"
  gv_id :: "nat \<Rightarrow> string"
  gv_raw :: string
  gv_hash :: "string option"
  gv_now :: gotime
  gv_later :: gotime
  gv_down :: bool
  gv_fault :: bool
  gv_commitFails :: bool
  gv_migrated :: bool
  gv_media :: "string \<Rightarrow> string option"
  gv_query :: "string \<Rightarrow> bool \<times> (string \<times> string list) list"
  gv_sha :: "string \<Rightarrow> string"
  gv_decoders :: gateway_decoders
  gv_identity :: identity_service
  gv_bootstrapToken :: string
  gv_access :: "AppAccess option"
  gv_callers :: "callers option"
  gv_blender :: "BlenderControl option"
  gv_client :: "runtime_call \<Rightarrow> runtime_answer option"
  gv_validJSON :: "string \<Rightarrow> bool"
  gv_profiles :: "string \<Rightarrow> string option"
  gv_workspaces :: "string \<Rightarrow> string option"
  gv_released :: "string \<Rightarrow> string option"
  gv_errorCode :: "string \<Rightarrow> string"
  gv_releaseJSON :: "string \<Rightarrow> string \<Rightarrow> string \<Rightarrow> workspaceReleaseInput \<Rightarrow> string"
  gv_ops :: "ops_service option"
  gv_opsPool :: bool
  gv_dispatch :: dispatch_env
  gv_runtime :: "transition_runtime option"
  gv_listing :: listing_env
  gv_market :: "market option"
  gv_factsSize :: "Facts \<Rightarrow> int option"
  gv_registry :: registry_env
  gv_releases :: "string option"
  gv_transitionReleases :: "string option"
  gv_migration :: migration_env
  gv_egress :: "egress_env option"
  gv_probe :: probe_env
  gv_prober :: Prober
  gv_meanwhile :: "egress_event list"
  gv_canceled :: bool
  gv_states :: "state_env option"
  gv_entries :: "Entry list option"
  gv_telemetry :: "(string \<Rightarrow> string option) option"
  gv_stream :: stream_env

definition unavailable :: response where
  "unavailable = (503, Failed ''SERVICE_UNAVAILABLE'')"

definition not_found :: response where
  "not_found = (404, Failed ''NOT_FOUND'')"

definition is_admin_reader :: "IdentityContext \<Rightarrow> bool" where
  "is_admin_reader u \<longleftrightarrow> ''admin'' \<in> set (ic_Roles u) \<and> ''app:read'' \<in> set (ic_Scopes u)"

definition manages_apps :: "IdentityContext \<Rightarrow> bool" where
  "manages_apps u \<longleftrightarrow> is_admin_reader u \<and> ''app:manage'' \<in> set (ic_Scopes u)"

text \<open>The operations service with a database.\<close>

definition ops_pool :: "gateway_env \<Rightarrow> ops_service option" where
  "ops_pool env = (if gv_opsPool env then gv_ops env else None)"

section \<open>Calls of the Runtime on behalf of a member\<close>

text \<open>The effect under the share locks: the calls made so far and what the last one gave.\<close>

type_synonym runtime_world = "runtime_call list \<times> (int \<times> string) option"

definition runtime_effect ::
  "(runtime_call \<Rightarrow> runtime_answer option) \<Rightarrow> (string \<Rightarrow> bool) \<Rightarrow> int set \<Rightarrow> runtime_call \<Rightarrow> runtime_world \<Rightarrow> fault option \<times> runtime_world" where
  "runtime_effect client valid statuses call w =
     (case client call of
        None \<Rightarrow> (Some Database, fst w @ [call], snd w)
      | Some a \<Rightarrow>
          (case answer_within 32768 a of
             None \<Rightarrow> (Some Database, fst w @ [call], snd w)
           | Some data \<Rightarrow>
               if \<not> valid data \<or> ra_status a \<notin> statuses then (Some Database, fst w @ [call], snd w)
               else (None, fst w @ [call], Some (ra_status a, data))))"

text \<open>\<open>WithManager\<close> or \<open>WithMember\<close> around a call of the Runtime.\<close>

definition delegated_call ::
  "gateway_env \<Rightarrow> bool \<Rightarrow> string \<Rightarrow> string \<Rightarrow> (string \<Rightarrow> bool) \<Rightarrow> int set \<Rightarrow> runtime_call \<Rightarrow> station
     \<Rightarrow> (fault + (int \<times> string)) \<times> station" where
  "delegated_call env manager user org valid statuses call s =
     (case withDelegatedMember (gv_identity env) (gv_down env) (gv_commitFails env) (gv_now env) user org manager
             (runtime_effect (gv_client env) valid statuses call) (st_identity s) (st_calls s, None) of
        (Some e, (calls, _)) \<Rightarrow> (Inl e, s\<lparr>st_calls := calls\<rparr>)
      | (None, (calls, out)) \<Rightarrow> (Inr (the out), s\<lparr>st_calls := calls\<rparr>))"

section \<open>Blender\<close>

definition blenderExecute ::
  "gateway_env \<Rightarrow> BlenderControl \<Rightarrow> string \<Rightarrow> blender_input \<Rightarrow> http_req \<Rightarrow> string \<Rightarrow> station \<Rightarrow> response \<times> station" where
  "blenderExecute env c action inp r requestID s =
     (if bi_UserID inp \<noteq> header_Get r ''X-User-Id'' \<or> bi_OrganizationID inp \<noteq> header_Get r ''X-Organization-Id''
         \<or> bi_StationID inp \<noteq> is_StationID (gv_identity env) then (failure Denied, s)
      else case delegated_call env (action \<noteq> ''access'') (bi_UserID inp) (bi_OrganizationID inp) (gv_validJSON env) {200, 400, 401, 403, 409, 503}
                  (runtime_request c ''POST'' (''/internal/v1/instances/'' @ action) requestID (bi_json inp)) s of
             (Inl e, s') \<Rightarrow> (failure e, s')
           | (Inr (status, data), s') \<Rightarrow> ((status, RuntimeBody data), s'))"

definition blenderAction :: "gateway_env \<Rightarrow> string \<Rightarrow> http_req \<Rightarrow> string \<Rightarrow> station \<Rightarrow> response \<times> station" where
  "blenderAction env action r requestID s =
     (case blenderControlCaller (gv_sha env) (gv_blender env) r of
        Inl reply \<Rightarrow> (reply, s)
      | Inr c \<Rightarrow>
          (case decode (gv_media env) (gd_blender (gv_decoders env) action) r of
             None \<Rightarrow> (failure Invalid, s)
           | Some inp \<Rightarrow> blenderExecute env c action inp r requestID s))"

definition blenderOptions :: "gateway_env \<Rightarrow> http_req \<Rightarrow> string \<Rightarrow> station \<Rightarrow> response \<times> station" where
  "blenderOptions env r requestID s =
     (case blenderControlCaller (gv_sha env) (gv_blender env) r of
        Inl reply \<Rightarrow> (reply, s)
      | Inr c \<Rightarrow>
          (case decode (gv_media env) (gd_empty (gv_decoders env)) r of
             None \<Rightarrow> (failure Invalid, s)
           | Some _ \<Rightarrow>
               (case delegated_call env True (header_Get r ''X-User-Id'') (header_Get r ''X-Organization-Id'')
                       (\<lambda>raw. gv_profiles env raw \<noteq> None) {200}
                       (runtime_request c ''GET'' ''/internal/v1/instances/profiles'' [] []) s of
                  (Inl e, s') \<Rightarrow> (failure e, s')
                | (Inr (_, raw), s') \<Rightarrow> ((200, RuntimeBody (the (gv_profiles env raw))), s'))))"

section \<open>Workspaces\<close>

definition resourcesWorkspaces :: "gateway_env \<Rightarrow> http_req \<Rightarrow> string \<Rightarrow> station \<Rightarrow> response \<times> station" where
  "resourcesWorkspaces env r requestID s =
     (if hq_RawQuery r \<noteq> [] \<or> hq_RawPath r \<noteq> [] then (failure Invalid, s)
      else case gv_blender env of
             None \<Rightarrow> (unavailable, s)
           | Some c \<Rightarrow>
               (let call = runtime_request c ''GET'' ''/internal/v1/instances/workspaces'' requestID []; s' = s\<lparr>st_calls := st_calls s @ [call]\<rparr>
                in case gv_client env call of
                     None \<Rightarrow> ((502, Failed ''BAD_GATEWAY''), s')
                   | Some a \<Rightarrow>
                       (case answer_within 131072 a of
                          None \<Rightarrow> ((502, Failed ''BAD_GATEWAY''), s')
                        | Some raw \<Rightarrow>
                            if ra_status a \<noteq> 200 then ((502, Failed ''BAD_GATEWAY''), s')
                            else (case gv_workspaces env raw of
                                    None \<Rightarrow> ((502, Failed ''BAD_GATEWAY''), s')
                                  | Some ws \<Rightarrow> ((200, RuntimeBody ws), s')))))"

definition resourcesReleaseWorkspaceWithManager ::
  "gateway_env \<Rightarrow> http_req \<Rightarrow> string \<Rightarrow> string \<Rightarrow> string \<Rightarrow> station \<Rightarrow> response \<times> station" where
  "resourcesReleaseWorkspaceWithManager env r requestID user org s =
     (if hq_RawQuery r \<noteq> [] \<or> hq_RawPath r \<noteq> [] \<or> header_Get r ''Content-Encoding'' \<noteq> [] then (failure Invalid, s)
      else case gv_blender env of
             None \<Rightarrow> (unavailable, s)
           | Some c \<Rightarrow>
               (case decode (gv_media env) (gd_release (gv_decoders env)) r of
                  None \<Rightarrow> (failure Invalid, s)
                | Some inp \<Rightarrow>
                    if wi_IdempotencyKey inp = [] \<or> wi_Namespace inp = [] \<or> wi_PVCName inp = [] then (failure Invalid, s)
                    else (case delegated_call env True user org (gv_validJSON env) {200, 400, 401, 403, 404, 409, 503}
                                 (runtime_request c ''POST'' ''/internal/v1/instances/workspaces/release'' requestID
                                    (gv_releaseJSON env (is_StationID (gv_identity env)) org user inp)) s of
                            (Inl e, s') \<Rightarrow> (failure e, s')
                          | (Inr (status, raw), s') \<Rightarrow>
                              if status = 200 then
                                (case gv_released env raw of
                                   None \<Rightarrow> ((502, Failed ''BAD_GATEWAY''), s')
                                 | Some out \<Rightarrow> ((200, RuntimeBody out), s'))
                              else ((status, Failed (let code = gv_errorCode env raw in if code = [] then ''SERVICE_UNAVAILABLE'' else code)), s'))))"

end
