(* ===== verification/Gateway.thy ===== *)
theory Gateway
  imports Gateway_Runtime
begin

text \<open>
  The handlers of the HTTP gateway (\<^verbatim>\<open>internal/gateway\<close>) and their routing. Each handler takes the
  environment of the request, the request and the station, and gives the reply with the station after
  it, through the operations of the services as the other theories model them.
\<close>

section \<open>Delegation to applications\<close>

definition appAccess :: "gateway_env \<Rightarrow> http_req \<Rightarrow> station \<Rightarrow> response \<times> station" where
  "appAccess env r s =
     (case delegatedApp (gv_sha env) (gv_identity env) (gv_access env) ''network'' r of
        Inl reply \<Rightarrow> (reply, s)
      | Inr (user, org) \<Rightarrow>
          if decode (gv_media env) (gd_app (gv_decoders env)) r \<noteq> Some ''network'' then (failure Invalid, s)
          else (case WithManager (gv_identity env) (gv_down env) (gv_commitFails env) (gv_now env) user org (\<lambda>w. (None, w)) (st_identity s) () of
                  (Some e, _) \<Rightarrow> (failure e, s)
                | (None, _) \<Rightarrow> ((200, AccessBody user org), s)))"

definition internalResourcesWorkspaces :: "gateway_env \<Rightarrow> http_req \<Rightarrow> string \<Rightarrow> station \<Rightarrow> response \<times> station" where
  "internalResourcesWorkspaces env r requestID s =
     (case delegatedApp (gv_sha env) (gv_identity env) (gv_access env) ''resources'' r of
        Inl reply \<Rightarrow> (reply, s)
      | Inr (user, org) \<Rightarrow>
          (case WithManager (gv_identity env) (gv_down env) (gv_commitFails env) (gv_now env) user org (\<lambda>w. (None, w)) (st_identity s) () of
             (Some e, _) \<Rightarrow> (failure e, s)
           | (None, _) \<Rightarrow> resourcesWorkspaces env r requestID s))"

definition internalResourcesReleaseWorkspace :: "gateway_env \<Rightarrow> http_req \<Rightarrow> string \<Rightarrow> station \<Rightarrow> response \<times> station" where
  "internalResourcesReleaseWorkspace env r requestID s =
     (case delegatedApp (gv_sha env) (gv_identity env) (gv_access env) ''resources'' r of
        Inl reply \<Rightarrow> (reply, s)
      | Inr (user, org) \<Rightarrow> resourcesReleaseWorkspaceWithManager env r requestID user org s)"

text \<open>The snapshot is read by the effect; without telemetry, or when it fails, the effect fails.\<close>

definition resourcesSnapshot :: "gateway_env \<Rightarrow> http_req \<Rightarrow> station \<Rightarrow> response \<times> station" where
  "resourcesSnapshot env r s =
     (case delegatedApp (gv_sha env) (gv_identity env) (gv_access env) ''resources'' r of
        Inl reply \<Rightarrow> (reply, s)
      | Inr (user, org) \<Rightarrow>
          (case WithManager (gv_identity env) (gv_down env) (gv_commitFails env) (gv_now env) user org
                  (\<lambda>w. case gv_telemetry env of
                         None \<Rightarrow> (Some Database, w)
                       | Some t \<Rightarrow> (case t ''snapshot'' of None \<Rightarrow> (Some Database, w) | Some out \<Rightarrow> (None, out)))
                  (st_identity s) [] of
             (Some e, _) \<Rightarrow> (failure e, s)
           | (None, out) \<Rightarrow> ((200, TelemetryBody out), s)))"

section \<open>Authorization of installations\<close>

text \<open>The identity the application acts with: it is built from the headers, never from a session.\<close>

definition delegated_actor :: "string \<Rightarrow> string \<Rightarrow> string \<Rightarrow> IdentityContext" where
  "delegated_actor station user org =
     \<lparr>ic_RequestID = [], ic_StationID = station, ic_SessionID = [], ic_UserID = user, ic_Username = [], ic_OrganizationID = org,
      ic_OrganizationName = [], ic_Roles = [''admin''], ic_Scopes = [''app:read'', ''app:manage''], ic_IssuedAt = 0, ic_ExpiresAt = 0,
      ic_RevocationVersion = 0, ic_PolicyVersion = 0\<rparr>"

text \<open>
  The effect under the share locks. It leaves the installation it read, and whether it failed
  because the releases could not be read.
\<close>

definition installation_effect ::
  "gateway_env \<Rightarrow> ops_service \<Rightarrow> bool \<Rightarrow> string \<Rightarrow> string \<Rightarrow> string \<Rightarrow> string \<Rightarrow> string \<Rightarrow> station_db
     \<Rightarrow> Ops_Types.Installation option \<times> bool \<Rightarrow> fault option \<times> Ops_Types.Installation option \<times> bool" where
  "installation_effect env ops worker app user org installation version db w =
     (let station = is_StationID (gv_identity env)
      in case (if canReadInstallations ops (delegated_actor station user org) \<and> gv_fault env then Inl DbError
               else GetInstallation ops (delegated_actor station user org) installation db) of
           Inl e \<Rightarrow> (Some (if e = NoRows then Denied else op_fault e), w)
         | Inr item \<Rightarrow>
             if in_InstallationID item \<noteq> installation \<or> in_StationID item \<noteq> station \<or> in_OrganizationID item \<noteq> org \<or> in_AppID item \<noteq> app
                \<or> in_State item \<noteq> ''installed'' \<or> in_Revision item < 1 then (Some Denied, Some item, False)
             else if worker then
               (case AuthorizeWorkerVersion (le_admission (gv_listing env)) (le_source (gv_listing env)) (gv_transitionReleases env)
                       (gv_market env) (os_StationID ops) item version of
                  None \<Rightarrow> (None, Some item, False)
                | Some e \<Rightarrow> (Some (op_fault e), Some item, e = TransitionRelease))
             else if in_AppVersion item \<noteq> version
               \<and> \<not> (case gv_market env of None \<Rightarrow> False
                   | Some m \<Rightarrow> (case find_entry (mk_entries m) app of None \<Rightarrow> False | Some e \<Rightarrow> e_Helm e \<noteq> None))
             then (Some Denied, Some item, False)
             else (None, Some item, False))"

definition installation_request :: "gateway_env \<Rightarrow> http_req \<Rightarrow> (string \<times> string) option" where
  "installation_request env r =
     (case (if hq_Path r = ''/internal/v1/app-installations/authorize-worker''
            then decode (gv_media env) (gd_worker (gv_decoders env)) r else decode (gv_media env) (gd_installation (gv_decoders env)) r) of
        None \<Rightarrow> None
      | Some (installation, version) \<Rightarrow>
          if validUUIDv7 (is_uuid (gv_identity env)) installation \<and> plain_version version then Some (installation, version) else None)"

definition installationAccess :: "gateway_env \<Rightarrow> http_req \<Rightarrow> station \<Rightarrow> response \<times> station" where
  "installationAccess env r s =
     (let worker = (hq_Path r = ''/internal/v1/app-installations/authorize-worker''); svc = gv_identity env
      in case (gv_callers env, gv_ops env) of
           (Some callers, Some ops) \<Rightarrow>
             (case map_of callers (gv_sha env (header_Get r ''Authorization'')) of
                None \<Rightarrow> (failure Unauthenticated, s)
              | Some app \<Rightarrow>
                  if length (header_Values r ''Authorization'') \<noteq> 1 then (failure Unauthenticated, s)
                  else if \<not> subjects_ok (is_uuid svc) r then (failure Invalid, s)
                  else if decorated r \<or> length (header_Values r ''Content-Type'') \<noteq> 1 \<or> header_Get r ''Content-Encoding'' \<noteq> []
                    \<or> hq_TransferEncoding r \<noteq> [] then (failure Invalid, s)
                  else if header_Get r ''X-Station-Id'' \<noteq> is_StationID svc then (failure Denied, s)
                  else (case installation_request env r of
                          None \<Rightarrow> (failure Invalid, s)
                        | Some (installation, version) \<Rightarrow>
                            (let user = header_Get r ''X-User-Id''; org = header_Get r ''X-Organization-Id''
                             in case WithManager svc (gv_down env) (gv_commitFails env) (gv_now env) user org
                                       (installation_effect env ops worker app user org installation version (st_ops s)) (st_identity s) (None, False) of
                                  (Some e, _, releases) \<Rightarrow> (if releases then unavailable else failure e, s)
                                | (None, item, _) \<Rightarrow> ((200, AuthorizedBody (the item) user version worker), s))))
         | _ \<Rightarrow> (unavailable, s))"

section \<open>Migration of a namespace\<close>

definition decodeNamespaceMigrationRequest :: "gateway_env \<Rightarrow> http_req \<Rightarrow> NamespaceMigrationRequest option" where
  "decodeNamespaceMigrationRequest env r =
     (if hq_RawQuery r \<noteq> [] \<or> hq_RawPath r \<noteq> [] \<or> header_Get r ''Content-Encoding'' \<noteq> [] then None
      else if gv_media env (header_Get r ''Content-Type'') \<noteq> Some ''application/json'' then None
      else (case read_body 65536 r of
              None \<Rightarrow> None
            | Some data \<Rightarrow>
                if TrimSpace data = [] then None
                else (case gd_migration (gv_decoders env) data of None \<Rightarrow> None | Some (req, eof) \<Rightarrow> if eof then Some req else None)))"

definition migration_reply :: "migration_error \<Rightarrow> response" where
  "migration_reply e =
     (case e of
        MInvalid \<Rightarrow> failure Invalid | MConflict \<Rightarrow> failure Conflict | MPanic \<Rightarrow> (500, Failed ''INTERNAL'') | _ \<Rightarrow> failure Database)"

text \<open>Without the operations service but with the states, a service without a database migrates.\<close>

definition migrateAppNamespace :: "gateway_env \<Rightarrow> http_req \<Rightarrow> station \<Rightarrow> response \<times> station" where
  "migrateAppNamespace env r s =
     (if \<not> requireBootstrapToken (gv_sha env) (gv_bootstrapToken env) r then (failure Denied, s)
      else case decodeNamespaceMigrationRequest env r of
             None \<Rightarrow> (failure Invalid, s)
           | Some req \<Rightarrow>
               if \<not> ValidateNamespaceMigrationRequest (me_parse (gv_migration env)) req then (failure Invalid, s)
               else if gv_ops env = None \<and> gv_states env = None then (unavailable, s)
               else (let menv = (gv_migration env)\<lparr>me_pool := (ops_pool env \<noteq> None),
                                  me_hasStates := (gv_states env \<noteq> None \<or> (gv_ops env \<noteq> None \<and> me_hasStates (gv_migration env)))\<rparr>
                     in case MigrateNamespace menv req (st_ops s) (st_states s, st_tables s, st_memory s) of
                          (res, states, tables, memory) \<Rightarrow>
                            (let s' = s\<lparr>st_states := states, st_tables := tables, st_memory := memory\<rparr>
                             in case res of Inl e \<Rightarrow> (migration_reply e, s') | Inr out \<Rightarrow> ((200, MigratedBody out), s'))))"

section \<open>Proxies\<close>

text \<open>The route below \<^verbatim>\<open>/api/v1/proxies\<close>: the id and whether it is the test; \<open>None\<close> for no endpoint.\<close>

definition proxy_route :: "string \<Rightarrow> (string \<times> bool) option" where
  "proxy_route path =
     (case split_on CHR ''/'' (TrimPrefix path ''/api/v1/proxies'') of
        [a] \<Rightarrow> if a = [] then Some ([], False) else None
      | [a, b] \<Rightarrow> if a = [] \<and> b \<noteq> [] then Some (b, False) else None
      | [a, b, c] \<Rightarrow> if a = [] \<and> b \<noteq> [] \<and> c = ''test'' then Some (b, True) else None
      | _ \<Rightarrow> None)"

definition proxy_methods :: "string \<Rightarrow> bool \<Rightarrow> string list" where
  "proxy_methods pid test = (if test then [''POST''] else if pid \<noteq> [] then [''GET'', ''PUT'', ''DELETE''] else [''GET'', ''POST''])"

definition egress_failure :: "egress_error \<Rightarrow> response" where
  "egress_failure e =
     (case e of
        ENotFound \<Rightarrow> not_found
      | EConflict \<Rightarrow> (409, Failed ''PROXY_CONFLICT'')
      | EBusy \<Rightarrow> (409, Failed ''PROBE_BUSY'')
      | EDisabled \<Rightarrow> (409, Failed ''PROXY_DISABLED_OR_EXPIRED'')
      | EFault f \<Rightarrow> failure f
      | _ \<Rightarrow> failure Database)"

text \<open>\<open>Test\<close> from its begin over the claim and the probe to the record.\<close>

definition egress_Test :: "gateway_env \<Rightarrow> egress_env \<Rightarrow> IdentityContext \<Rightarrow> string \<Rightarrow> egress_db \<Rightarrow> (egress_error + Endpoint) \<times> egress_db" where
  "egress_Test env ev u pid db =
     (case Test_begin ev (gv_fault env) (gv_now env) (gv_now env) u pid db of
        (Inl e, db1) \<Rightarrow> (Inl e, db1)
      | (Inr p, db1) \<Rightarrow>
          (case Test_claim ev (gv_fault env) (gv_now env) u pid (gv_id env 1) p db1 of
             (Inl e, db2) \<Rightarrow> (Inl e, db2)
           | (Inr c, db2) \<Rightarrow>
               Test_record ev (gv_canceled env) (gv_fault env) (gv_later env) u pid (gv_id env 1) p (Prober_Run (gv_probe env) (gv_prober env) p c)
                 (fold (egress_step ev) (gv_meanwhile env) db2)))"

definition egress_call :: "gateway_env \<Rightarrow> egress_env \<Rightarrow> IdentityContext \<Rightarrow> http_req \<Rightarrow> string \<Rightarrow> bool \<Rightarrow> egress_db \<Rightarrow> response \<times> egress_db" where
  "egress_call env ev u r pid test db =
     (if test then
        (if decode_body (gv_media env) (gd_empty (gv_decoders env)) True r = None then (failure Invalid, db)
         else case egress_Test env ev u pid db of
                (Inl e, db') \<Rightarrow> (egress_failure e, db')
              | (Inr p, db') \<Rightarrow> ((200, ProxyBody p), db'))
      else if hq_Method r = ''GET'' then
        (if pid = [] then
           (case egress_List ev (gv_fault env) (gv_now env) u db of
              Inl e \<Rightarrow> (egress_failure e, db) | Inr items \<Rightarrow> ((200, ProxiesBody items), db))
         else (case Get ev (gv_fault env) (gv_now env) u pid db of
                 Inl e \<Rightarrow> (egress_failure e, db) | Inr item \<Rightarrow> ((200, ProxyBody item), db)))
      else if hq_Method r = ''DELETE'' then
        (case Delete ev (gv_fault env) (gv_now env) u pid db of
           (Inl e, db') \<Rightarrow> (egress_failure e, db') | (Inr _, db') \<Rightarrow> ((204, NoBody), db'))
      else
        (case decode (gv_media env) (gd_proxy (gv_decoders env)) r of
           None \<Rightarrow> (failure Invalid, db)
         | Some inp \<Rightarrow>
             (case Save ev (gv_fault env) (gv_now env) u pid (gv_id env 0) (gv_id env 2) inp db of
                (Inl e, db') \<Rightarrow> (egress_failure e, db')
              | (Inr item, db') \<Rightarrow> ((if pid = [] then 201 else 200, ProxyBody item), db'))))"

definition serveEgress :: "gateway_env \<Rightarrow> http_req \<Rightarrow> string \<Rightarrow> station \<Rightarrow> response \<times> station" where
  "serveEgress env r requestID s =
     (case Me (gv_identity env) (gv_down env) (gv_now env) requestID (bearer r) (st_identity s) of
        (Inl e, idb) \<Rightarrow> (failure e, s\<lparr>st_identity := idb\<rparr>)
      | (Inr u, idb) \<Rightarrow>
          (let s = s\<lparr>st_identity := idb\<rparr>
           in case gv_egress env of
                None \<Rightarrow> ((503, Failed ''EGRESS_NOT_CONFIGURED''), s)
              | Some ev \<Rightarrow>
                  (case proxy_route (hq_Path r) of
                     None \<Rightarrow> (not_found, s)
                   | Some (pid, test) \<Rightarrow>
                       if hq_Method r \<notin> set (proxy_methods pid test) then ((405, Failed ''INVALID_ARGUMENT''), s)
                       else (case egress_call env ev u r pid test (st_egress s) of
                               (reply, db) \<Rightarrow> (reply, s\<lparr>st_egress := db\<rparr>)))))"

section \<open>Requests of a session\<close>

text \<open>No query, no body: \<open>io.ReadAll(io.LimitReader(r.Body, 1))\<close> has to succeed with nothing.\<close>

definition bare_get :: "http_req \<Rightarrow> bool" where
  "bare_get r \<longleftrightarrow> \<not> decorated r \<and> hq_ContentLength r \<le> 0 \<and> hq_TransferEncoding r = [] \<and> hq_Body r = [] \<and> hq_BodyEnds r"

definition serveAppCenter :: "gateway_env \<Rightarrow> http_req \<Rightarrow> string \<Rightarrow> IdentityContext \<Rightarrow> station \<Rightarrow> response \<times> station" where
  "serveAppCenter env r requestID u s =
     (if \<not> is_admin_reader u then (failure Denied, s)
      else if \<not> bare_get r then (failure Invalid, s)
      else case gv_ops env of
             None \<Rightarrow> ((503, Failed ''APPCENTER_DEPENDENCY_UNAVAILABLE''), s)
           | Some ops \<Rightarrow>
               (case AppCenterFacts (gv_listing env) ops u requestID (st_ops s) (gv_market env) (st_memory s) of
                  (res, _, m) \<Rightarrow>
                    (let s = s\<lparr>st_memory := m\<rparr>
                     in case res of
                          Inl FDenied \<Rightarrow> (failure Denied, s)
                        | Inl FLimit \<Rightarrow> ((503, Failed ''APPCENTER_LIMIT_EXCEEDED''), s)
                        | Inl _ \<Rightarrow> ((503, Failed ''APPCENTER_DEPENDENCY_UNAVAILABLE''), s)
                        | Inr facts \<Rightarrow>
                            if (case gv_factsSize env facts of None \<Rightarrow> True | Some n \<Rightarrow> n > 4194304)
                            then ((503, Failed ''APPCENTER_LIMIT_EXCEEDED''), s) else ((200, FactsBody facts), s))))"

definition DecodeAppCenterCommand :: "AppCenterCommand schema_lib \<Rightarrow> string option \<Rightarrow> AppCenterCommand option" where
  "DecodeAppCenterCommand lib content =
     (case content of None \<Rightarrow> None | Some raw \<Rightarrow> appcenter_Decode lib raw ''command-core'' 16384)"

definition whole_body :: "http_req \<Rightarrow> string option" where
  "whole_body r = (if hq_BodyEnds r then Some (hq_Body r) else None)"

definition appcenter_failure :: "op_error \<Rightarrow> response" where
  "appcenter_failure e =
     (case e of
        AppCenterBinding \<Rightarrow> (409, Failed ''APPCENTER_BINDING_CHANGED'')
      | AppCenterRelease \<Rightarrow> (409, Failed ''RELEASE_UNVERIFIED'')
      | AppCenterUnsupported \<Rightarrow> (409, Failed ''ACTION_UNSUPPORTED'')
      | AppCenterDispatch \<Rightarrow> (503, Failed ''APPCENTER_EXECUTION_BINDING_UNSUPPORTED'')
      | AppCenterUnavailable \<Rightarrow> (503, Failed ''APPCENTER_DEPENDENCY_UNAVAILABLE'')
      | _ \<Rightarrow> failure (op_fault e))"

definition serveAppCenterCommand :: "gateway_env \<Rightarrow> http_req \<Rightarrow> IdentityContext \<Rightarrow> station \<Rightarrow> response \<times> station" where
  "serveAppCenterCommand env r u s =
     (if \<not> manages_apps u then (failure Denied, s)
      else if hq_Method r \<noteq> ''POST'' \<or> decorated r \<or> gv_media env (header_Get r ''Content-Type'') \<noteq> Some ''application/json'' then (failure Invalid, s)
      else (case DecodeAppCenterCommand (gd_appcenter (gv_decoders env)) (whole_body r) of
              None \<Rightarrow> (failure Invalid, s)
            | Some inp \<Rightarrow>
                (case ops_pool env of
                   None \<Rightarrow> ((503, Failed ''APPCENTER_DEPENDENCY_UNAVAILABLE''), s)
                 | Some ops \<Rightarrow>
                     (case SubmitAppCenter ops (gv_fault env) (gv_now env) (gv_id env 0) (gv_id env 1) u inp
                             (Some (\<lambda>a c i. fst (Admit (le_admission (gv_listing env)) (le_source (gv_listing env)) a c i (gv_market env)))) (st_ops s) of
                        (Inl e, db) \<Rightarrow> (appcenter_failure e, s\<lparr>st_ops := db\<rparr>)
                      | (Inr operation, db) \<Rightarrow> ((202, OperationBody operation), s\<lparr>st_ops := db\<rparr>)))))"

text \<open>\<open>url.Values\<close> of the query: what can be parsed of it.\<close>

definition serveAppCenterOperations :: "gateway_env \<Rightarrow> http_req \<Rightarrow> IdentityContext \<Rightarrow> station \<Rightarrow> response" where
  "serveAppCenterOperations env r u s =
     (let query = snd (gv_query env (hq_RawQuery r));
          key = (case map_of query ''idempotency_key'' of Some (k # _) \<Rightarrow> k | _ \<Rightarrow> [])
      in if \<not> is_admin_reader u then failure Denied
         else if hq_Method r \<noteq> ''GET'' \<or> hq_RawPath r \<noteq> [] then failure Invalid
         else if key = [] \<or> length key < 8 \<or> length key > 128 \<or> length query \<noteq> 1 then failure Invalid
         else (case ops_pool env of
                 None \<Rightarrow> unavailable
               | Some ops \<Rightarrow>
                   (case (if gv_fault env then Inl DbError else GetByIdempotencyKey ops u key (st_ops s)) of
                      Inl e \<Rightarrow> if e = NoRows then not_found else failure (op_fault e)
                    | Inr operation \<Rightarrow> (200, OperationBody operation))))"

definition inventory_failure :: "inventory_error \<Rightarrow> response" where
  "inventory_failure e =
     (case e of
        IDenied \<Rightarrow> failure Denied | IInvalid \<Rightarrow> failure Invalid | IHistory e \<Rightarrow> failure (op_fault e)
      | IState SDenied \<Rightarrow> failure Denied | IState SInvalid \<Rightarrow> failure Invalid | _ \<Rightarrow> failure Database)"

definition servePreinstalled :: "gateway_env \<Rightarrow> http_req \<Rightarrow> IdentityContext \<Rightarrow> station \<Rightarrow> response \<times> station" where
  "servePreinstalled env r u s =
     (if decorated r then (failure Invalid, s)
      else if \<not> is_admin_reader u then (failure Denied, s)
      else case gv_ops env of
             None \<Rightarrow> (unavailable, s)
           | Some ops \<Rightarrow>
               if hq_Path r = ''/preinstalled/commands'' then
                 (if ''app:manage'' \<notin> set (ic_Scopes u) then (failure Denied, s)
                  else case Decode (gd_preinstalled (gv_decoders env)) (whole_body r) 16384 of
                         None \<Rightarrow> (failure Invalid, s)
                       | Some inp \<Rightarrow>
                           (case SubmitPreinstalled ops (gv_fault env) (gv_now env) (gv_id env 0) (gv_id env 1) u inp (st_ops s) of
                              (Inl e, db) \<Rightarrow> (failure (op_fault e), s\<lparr>st_ops := db\<rparr>)
                            | (Inr operation, db) \<Rightarrow> ((202, OperationBody operation), s\<lparr>st_ops := db\<rparr>)))
               else if HasPrefix (hq_Path r) ''/preinstalled/apps/'' then
                 (case Service_PreinstalledInventory (gv_listing env) ops u (TrimPrefix (hq_Path r) ''/preinstalled/apps/'') (gv_entries env)
                         (st_ops s) (st_memory s) of
                    (Inl e, m) \<Rightarrow> (inventory_failure e, s\<lparr>st_memory := m\<rparr>)
                  | (Inr out, m) \<Rightarrow> ((200, InventoryBody out), s\<lparr>st_memory := m\<rparr>))
               else if HasPrefix (hq_Path r) ''/preinstalled/releases/'' then
                 (case Resolve (gv_registry env) (gv_releases env) (TrimPrefix (hq_Path r) ''/preinstalled/releases/'') of
                    None \<Rightarrow> ((503, Failed ''TRUSTED_RELEASE_UNAVAILABLE''), s)
                  | Some b \<Rightarrow> ((200, ReleaseBody b), s))
               else (not_found, s))"

definition state_failure :: "state_error \<Rightarrow> response" where
  "state_failure e =
     (case e of
        SStream ErrLimit \<Rightarrow> (503, Failed ''APP_STATE_LIMIT_EXCEEDED'')
      | SNotFound \<Rightarrow> not_found | SDenied \<Rightarrow> failure Denied | SInvalid \<Rightarrow> failure Invalid
      | _ \<Rightarrow> (503, Failed ''APP_STATE_UNAVAILABLE''))"

definition serveAppStates :: "gateway_env \<Rightarrow> http_req \<Rightarrow> IdentityContext \<Rightarrow> station \<Rightarrow> response \<times> station" where
  "serveAppStates env r u s =
     (let wanted = (if hq_Path r = ''/app-states/v1'' then [] else TrimPrefix (hq_Path r) ''/app-states/v1/installations/'')
      in if \<not> is_admin_reader u then (failure Denied, s)
         else if \<not> bare_get r then (failure Invalid, s)
         else if hq_Path r \<noteq> ''/app-states/v1'' \<and> \<not> canonicalSubject (is_uuid (gv_identity env)) wanted then (failure Invalid, s)
         else (case gv_states env of
                 None \<Rightarrow> ((503, Failed ''APP_STATE_UNAVAILABLE''), s)
               | Some se \<Rightarrow>
                   (case state_Snapshot se (le_stateStation (gv_listing env)) u wanted (st_states s) (st_ops s) (st_memory s) of
                      (Inl e, m) \<Rightarrow> (state_failure e, s\<lparr>st_memory := m\<rparr>)
                    | (Inr snapshot, m) \<Rightarrow> ((200, StatesBody snapshot), s\<lparr>st_memory := m\<rparr>))))"

text \<open>The checks the two handlers of transitions share.\<close>

definition plain_request :: "http_req \<Rightarrow> bool" where
  "plain_request r \<longleftrightarrow> \<not> decorated r \<and> length (header_Values r ''Authorization'') = 1 \<and> length (header_Values r ''X-Request-ID'') \<le> 1 \<and>
     hq_TransferEncoding r = [] \<and> header_Get r ''Transfer-Encoding'' = [] \<and> header_Get r ''Content-Encoding'' = [] \<and> hq_ContentLength r \<le> 16384"

text \<open>The command of a POST to \<open>path\<close>; \<open>None\<close> is an invalid request.\<close>

definition post_command :: "gateway_env \<Rightarrow> 'a decoder \<Rightarrow> string \<Rightarrow> http_req \<Rightarrow> 'a option" where
  "post_command env dc path r =
     (if hq_Path r \<noteq> path \<or> gv_media env (header_Get r ''Content-Type'') \<noteq> Some ''application/json'' \<or> length (header_Values r ''Content-Type'') \<noteq> 1
      then None else decode (gv_media env) dc r)"

definition get_below :: "string \<Rightarrow> http_req \<Rightarrow> bool" where
  "get_below path r \<longleftrightarrow> hq_Method r = ''GET'' \<and> HasPrefix (hq_Path r) (path @ ''/'') \<and> hq_ContentLength r = 0"

definition forwardRecoveryPath :: string where
  "forwardRecoveryPath = ''/app-installation-forward-recoveries''"

definition transitionPath :: string where
  "transitionPath = ''/app-installation-transitions''"

definition recovery_failure :: "op_error \<Rightarrow> response" where
  "recovery_failure e =
     (case e of
        NoRows \<Rightarrow> not_found
      | TransitionBusy \<Rightarrow> (409, Failed ''TRANSITION_BUSY'')
      | TransitionRelease \<Rightarrow> (503, Failed ''RECOVERY_PROOF_UNAVAILABLE'')
      | TransitionProgressUnavailable \<Rightarrow> (503, Failed ''RECOVERY_PROOF_UNAVAILABLE'')
      | _ \<Rightarrow> failure (op_fault e))"

definition recovery_reply :: "op_error + ForwardRecovery \<Rightarrow> response" where
  "recovery_reply res =
     (case res of
        Inl e \<Rightarrow> recovery_failure e
      | Inr out \<Rightarrow> (if fr_State out = ''pending'' then 202 else 200, RecoveryBody out))"

definition serveForwardRecovery :: "gateway_env \<Rightarrow> http_req \<Rightarrow> IdentityContext \<Rightarrow> station \<Rightarrow> response \<times> station" where
  "serveForwardRecovery env r a s =
     (if \<not> manages_apps a then (failure Denied, s)
      else if \<not> plain_request r then (failure Invalid, s)
      else if hq_Method r = ''POST'' then
        (case post_command env (gd_forward (gv_decoders env)) forwardRecoveryPath r of
           None \<Rightarrow> (failure Invalid, s)
         | Some c \<Rightarrow>
             (case ops_pool env of
                None \<Rightarrow> (unavailable, s)
              | Some ops \<Rightarrow>
                  (case SubmitForwardRecovery ops (gv_dispatch env) (gv_id env 0) a c (gv_runtime env) (st_ops s) of
                     (res, db) \<Rightarrow> (recovery_reply res, s\<lparr>st_ops := db\<rparr>))))
      else if \<not> get_below forwardRecoveryPath r then (failure Invalid, s)
      else (case ops_pool env of
              None \<Rightarrow> (unavailable, s)
            | Some ops \<Rightarrow>
                (recovery_reply (GetForwardRecovery ops a (TrimPrefix (hq_Path r) (forwardRecoveryPath @ ''/'')) (st_ops s)), s)))"

definition transition_failure :: "op_error \<Rightarrow> response" where
  "transition_failure e =
     (case e of
        TransitionAdmissionDisabled \<Rightarrow> (409, Failed ''TRANSITION_ADMISSION_DISABLED'')
      | TransitionRelease \<Rightarrow> (503, Failed ''TRANSITION_RELEASE_UNAVAILABLE'')
      | NoRows \<Rightarrow> not_found
      | _ \<Rightarrow> failure (op_fault e))"

definition serveTransitions :: "gateway_env \<Rightarrow> http_req \<Rightarrow> IdentityContext \<Rightarrow> station \<Rightarrow> response \<times> station" where
  "serveTransitions env r a s =
     (if \<not> is_admin_reader a \<or> (hq_Method r = ''POST'' \<and> ''app:manage'' \<notin> set (ic_Scopes a)) then (failure Denied, s)
      else if \<not> plain_request r then (failure Invalid, s)
      else if hq_Method r = ''POST'' then
        (case post_command env (gd_transition (gv_decoders env)) transitionPath r of
           None \<Rightarrow> (failure Invalid, s)
         | Some c \<Rightarrow>
             (case ops_pool env of
                None \<Rightarrow> (unavailable, s)
              | Some ops \<Rightarrow>
                  (case SubmitManagedTransition ops (gv_fault env) (gv_now env) (gv_id env 0) a c (st_ops s) of
                     (Inl e, db) \<Rightarrow> (transition_failure e, s\<lparr>st_ops := db\<rparr>)
                   | (Inr out, db) \<Rightarrow> ((202, TransitionBody out), s\<lparr>st_ops := db\<rparr>))))
      else if \<not> get_below transitionPath r then (failure Invalid, s)
      else (case ops_pool env of
              None \<Rightarrow> (unavailable, s)
            | Some ops \<Rightarrow>
                (case GetTransition ops a (TrimPrefix (hq_Path r) (transitionPath @ ''/'')) (st_ops s) of
                   Inl e \<Rightarrow> (transition_failure e, s)
                 | Inr out \<Rightarrow> ((200, TransitionBody out), s))))"

definition serveInstallations :: "gateway_env \<Rightarrow> http_req \<Rightarrow> IdentityContext \<Rightarrow> station \<Rightarrow> response" where
  "serveInstallations env r u s =
     (if decorated r then failure Invalid
      else case gv_ops env of
             None \<Rightarrow> unavailable
           | Some ops \<Rightarrow>
               if hq_Path r = ''/app-installations'' then
                 (case ListInstallations ops u (st_ops s) of
                    Inl e \<Rightarrow> failure (op_fault e) | Inr items \<Rightarrow> (200, InstallationsBody (ic_StationID u) items))
               else
                 (case GetInstallation ops u (TrimPrefix (hq_Path r) ''/app-installations/'') (st_ops s) of
                    Inl e \<Rightarrow> if e = NoRows then not_found else failure (op_fault e)
                  | Inr item \<Rightarrow> (200, InstallationBody item)))"

text \<open>The query of the catalog: at most one value of \<open>group_id\<close>, a valid group, on the list only.\<close>

definition catalog_group :: "gateway_env \<Rightarrow> http_req \<Rightarrow> string option" where
  "catalog_group env r =
     (case gv_query env (hq_RawQuery r) of
        (ok, query) \<Rightarrow>
          if \<not> ok then None
          else if list_ex (\<lambda>(key, values). hq_Path r \<noteq> ''/catalog/apps'' \<or> key \<noteq> ''group_id'' \<or> length values \<noteq> 1 \<or> \<not> ValidGroup (hd values)) query then None
          else Some (case query of [] \<Rightarrow> [] | (_, values) # _ \<Rightarrow> hd values))"

definition serveCatalog :: "gateway_env \<Rightarrow> http_req \<Rightarrow> IdentityContext \<Rightarrow> station \<Rightarrow> response \<times> station" where
  "serveCatalog env r u s =
     (if \<not> is_admin_reader u then (failure Denied, s)
      else case catalog_group env r of
             None \<Rightarrow> (failure Invalid, s)
           | Some grp \<Rightarrow>
               (case gv_states env of
                  None \<Rightarrow> (unavailable, s)
                | Some se \<Rightarrow>
                    (case RegisteredCatalog (se_ext se) (se_scope se) (le_stateStation (gv_listing env)) (gv_fault env) u (gv_entries env)
                            (st_ops s) (gv_now env) (st_memory s) of
                       (Inl e, m) \<Rightarrow> (if e = SDenied then failure Denied else unavailable, s\<lparr>st_memory := m\<rparr>)
                     | (Inr items, m) \<Rightarrow>
                         (if hq_Path r = ''/catalog/apps'' then
                            (200, CatalogBody (ic_StationID u) (filter (\<lambda>i. \<not> (grp \<noteq> [] \<and> e_GroupID i \<noteq> grp)) items))
                          else (case find (\<lambda>i. e_AppID i = TrimPrefix (hq_Path r) ''/catalog/apps/'') items of
                                  None \<Rightarrow> not_found | Some i \<Rightarrow> (200, AppBody (ic_StationID u) i)),
                          s\<lparr>st_memory := m\<rparr>))))"

section \<open>Routing\<close>

text \<open>\<^verbatim>\<open>^[a-zA-Z0-9._:-]{1,128}$\<close>.\<close>

definition requestIDPattern :: "string \<Rightarrow> bool" where
  "requestIDPattern s \<longleftrightarrow> s \<noteq> [] \<and> int (length s) \<le> 128 \<and> list_all (\<lambda>c. is_alnum c \<or> c \<in> set ''._:-'') s"

definition fixed_routes :: "(string \<times> string) list" where
  "fixed_routes = [
     (transitionPath, ''POST''), (forwardRecoveryPath, ''POST''), (''/internal/app-states/v1/stream'', ''POST''), (''/app-states/v1'', ''GET''),
     (''/appcenter/v1/facts'', ''GET''), (''/appcenter/v1/commands'', ''POST''), (''/appcenter/v1/operations'', ''GET''),
     (''/internal/v1/app-installations/authorize'', ''POST''), (''/internal/v1/app-installations/authorize-worker'', ''POST''),
     (''/preinstalled/commands'', ''POST''), (''/internal/v1/app-access'', ''POST''), (''/internal/v1/app-namespace/migrate'', ''POST''),
     (''/internal/v1/resources/snapshot'', ''GET''), (''/internal/v1/resources/workspaces'', ''GET''),
     (''/internal/v1/resources/workspaces/release'', ''POST''), (''/internal/v1/blender/create'', ''POST''), (''/internal/v1/blender/start'', ''POST''),
     (''/internal/v1/blender/stop'', ''POST''), (''/internal/v1/blender/destroy'', ''POST''), (''/internal/v1/blender/access'', ''POST''),
     (''/internal/v1/blender/options'', ''POST''), (''/app-commands'', ''POST''), (''/healthz'', ''GET''), (''/readyz'', ''GET''),
     (''/identity/bootstrap'', ''POST''), (''/identity/login'', ''POST''), (''/identity/refresh'', ''POST''), (''/identity/logout'', ''POST''),
     (''/identity/me'', ''GET''), (''/identity/scopes'', ''GET''), (''/station/health'', ''GET''), (''/api/v1/resources/gpu'', ''GET''),
     (''/api/v1/resources/node'', ''GET''), (''/api/v1/resources/summary'', ''GET''), (''/api/v1/resources/workloads'', ''GET''),
     (''/api/v1/resources/workspaces'', ''GET''), (''/api/v1/resources/workspaces/release'', ''POST'')]"

definition read_prefixes :: "string list" where
  "read_prefixes = [''/app-operations/'', ''/catalog/apps/'', ''/app-installations/'', ''/app-states/v1/installations/'', ''/preinstalled/apps/'',
     ''/preinstalled/releases/'', forwardRecoveryPath @ ''/'', transitionPath @ ''/'']"

definition route_method :: "string \<Rightarrow> string option" where
  "route_method path =
     (if path = ''/catalog/apps'' \<or> path = ''/app-installations'' \<or> list_ex (HasPrefix path) read_prefixes then Some ''GET''
      else map_of fixed_routes path)"

definition serveCommand :: "gateway_env \<Rightarrow> http_req \<Rightarrow> string \<Rightarrow> station \<Rightarrow> response \<times> station" where
  "serveCommand env r requestID s =
     (case Me (gv_identity env) (gv_down env) (gv_now env) requestID (bearer r) (st_identity s) of
        (Inl e, idb) \<Rightarrow> (failure e, s\<lparr>st_identity := idb\<rparr>)
      | (Inr u, idb) \<Rightarrow>
          (let s = s\<lparr>st_identity := idb\<rparr>
           in case decode (gv_media env) (gd_command (gv_decoders env)) r of
                None \<Rightarrow> (failure Invalid, s)
              | Some c \<Rightarrow>
                  (case gv_ops env of
                     None \<Rightarrow> (unavailable, s)
                   | Some ops \<Rightarrow>
                       (case ops_Submit ops (gv_fault env) (gv_now env) (gv_id env 0) (gv_id env 1) u c (st_ops s) of
                          (Inl e, db) \<Rightarrow> (failure (op_fault e), s\<lparr>st_ops := db\<rparr>)
                        | (Inr operation, db) \<Rightarrow> ((202, OperationBody operation), s\<lparr>st_ops := db\<rparr>)))))"

definition session_reply :: "int \<Rightarrow> (fault + Session) \<times> identity_db \<Rightarrow> station \<Rightarrow> response \<times> station" where
  "session_reply status out s =
     (case out of
        (Inl e, idb) \<Rightarrow> (failure e, s\<lparr>st_identity := idb\<rparr>)
      | (Inr session, idb) \<Rightarrow> ((status, SessionBody session), s\<lparr>st_identity := idb\<rparr>))"

definition serveIdentity :: "gateway_env \<Rightarrow> http_req \<Rightarrow> string \<Rightarrow> station \<Rightarrow> response \<times> station" where
  "serveIdentity env r requestID s =
     (if hq_Path r = ''/identity/bootstrap'' then
        (if gv_bootstrapToken env = [] \<or> gv_sha env (gv_bootstrapToken env) \<noteq> gv_sha env (header_Get r ''X-Bootstrap-Token'') then (failure Denied, s)
         else case decode (gv_media env) (gd_bootstrap (gv_decoders env)) r of
                None \<Rightarrow> (failure Invalid, s)
              | Some inp \<Rightarrow>
                  session_reply 201 (Bootstrap (gv_identity env) (gv_down env) (gv_now env) (gv_id env 0) (gv_id env 1) (gv_id env 2) (gv_raw env)
                    (gv_hash env) requestID inp (st_identity s)) s)
      else if hq_Path r = ''/identity/login'' then
        (case decode (gv_media env) (gd_login (gv_decoders env)) r of
           None \<Rightarrow> (failure Invalid, s)
         | Some inp \<Rightarrow> session_reply 201 (Login (gv_identity env) (gv_down env) (gv_now env) (gv_id env 2) (gv_raw env) requestID inp (st_identity s)) s)
      else if decode_body (gv_media env) (gd_empty (gv_decoders env)) True r = None then (failure Invalid, s)
      else if hq_Path r = ''/identity/refresh'' then
        session_reply 200 (Refresh (gv_identity env) (gv_down env) (gv_now env) (gv_raw env) requestID (bearer r) (st_identity s)) s
      else (case Logout (gv_identity env) (gv_down env) (gv_now env) requestID (bearer r) (st_identity s) of
              (Inl e, idb) \<Rightarrow> (failure e, s\<lparr>st_identity := idb\<rparr>)
            | (Inr _, idb) \<Rightarrow> ((204, NoBody), s\<lparr>st_identity := idb\<rparr>)))"

definition serveTelemetry :: "gateway_env \<Rightarrow> string \<Rightarrow> response" where
  "serveTelemetry env path =
     (case gv_telemetry env of
        None \<Rightarrow> unavailable
      | Some t \<Rightarrow> (case t (TrimPrefix path ''/api/v1/resources/'') of None \<Rightarrow> (502, Failed ''BAD_GATEWAY'') | Some out \<Rightarrow> (200, TelemetryBody out)))"

text \<open>The routes of an authenticated session.\<close>

definition serveUser :: "gateway_env \<Rightarrow> http_req \<Rightarrow> string \<Rightarrow> IdentityContext \<Rightarrow> station \<Rightarrow> response \<times> station" where
  "serveUser env r requestID u s =
     (let route = hq_Path r
      in if route = ''/appcenter/v1/facts'' then serveAppCenter env r requestID u s
         else if route = ''/appcenter/v1/commands'' then serveAppCenterCommand env r u s
         else if route = ''/appcenter/v1/operations'' then (serveAppCenterOperations env r u s, s)
         else if HasPrefix route ''/preinstalled/'' then servePreinstalled env r u s
         else if route = ''/app-states/v1'' \<or> HasPrefix route ''/app-states/v1/installations/'' then serveAppStates env r u s
         else if route = forwardRecoveryPath \<or> HasPrefix route (forwardRecoveryPath @ ''/'') then serveForwardRecovery env r u s
         else if route = transitionPath \<or> HasPrefix route (transitionPath @ ''/'') then serveTransitions env r u s
         else if route = ''/app-installations'' \<or> HasPrefix route ''/app-installations/'' then (serveInstallations env r u s, s)
         else if HasPrefix route ''/app-operations/'' then
           (case gv_ops env of
              None \<Rightarrow> (unavailable, s)
            | Some ops \<Rightarrow>
                (case ops_Get ops u (TrimPrefix route ''/app-operations/'') (st_ops s) of
                   Inl e \<Rightarrow> (if e = NoRows then not_found else failure (op_fault e), s)
                 | Inr operation \<Rightarrow> ((200, OperationBody operation), s)))
         else if route = ''/api/v1/resources/workspaces'' then resourcesWorkspaces env r requestID s
         else if route = ''/api/v1/resources/workspaces/release'' then
           resourcesReleaseWorkspaceWithManager env r requestID (ic_UserID u) (ic_OrganizationID u) s
         else if HasPrefix route ''/api/v1/resources/'' then (serveTelemetry env route, s)
         else if route = ''/catalog/apps'' \<or> HasPrefix route ''/catalog/apps/'' then serveCatalog env r u s
         else if route = ''/station/health'' then
           ((200, HealthBody (if gv_migrated env then ''Degraded'' else ''Unavailable'') (if gv_migrated env then ''Ready'' else ''NotReady'')), s)
         else ((200, UserBody u), s))"

definition serveInternal :: "gateway_env \<Rightarrow> http_req \<Rightarrow> string \<Rightarrow> station \<Rightarrow> (response \<times> station) option" where
  "serveInternal env r requestID s =
     (let route = hq_Path r
      in if route = ''/internal/v1/app-installations/authorize'' \<or> route = ''/internal/v1/app-installations/authorize-worker''
         then Some (installationAccess env r s)
         else if route = ''/internal/v1/app-access'' then Some (appAccess env r s)
         else if route = ''/internal/v1/app-namespace/migrate'' then Some (migrateAppNamespace env r s)
         else if route = ''/internal/v1/resources/snapshot'' then Some (resourcesSnapshot env r s)
         else if route = ''/internal/v1/resources/workspaces'' then Some (internalResourcesWorkspaces env r requestID s)
         else if route = ''/internal/v1/resources/workspaces/release'' then Some (internalResourcesReleaseWorkspace env r requestID s)
         else if route = ''/internal/v1/blender/options'' then Some (blenderOptions env r requestID s)
         else if route \<in> {''/internal/v1/blender/create'', ''/internal/v1/blender/start'', ''/internal/v1/blender/stop'',
                           ''/internal/v1/blender/destroy'', ''/internal/v1/blender/access''}
         then Some (blenderAction env (TrimPrefix route ''/internal/v1/blender/'') r requestID s)
         else if route = ''/healthz'' then Some ((200, ProbeBody ''Alive''), s)
         else if route = ''/readyz'' then
           Some (if gv_migrated env then (200, ProbeBody ''Ready'') else (503, ProbeBody ''NotReady''), s)
         else if route = ''/app-commands'' then Some (serveCommand env r requestID s)
         else if route \<in> {''/identity/bootstrap'', ''/identity/login'', ''/identity/refresh'', ''/identity/logout''}
         then Some (serveIdentity env r requestID s)
         else None)"

definition serveStream :: "gateway_env \<Rightarrow> http_req \<Rightarrow> station \<Rightarrow> response \<times> station" where
  "serveStream env r s =
     (case CollectorHandler_ServeHTTP (gv_stream env) r (st_memory s) of
        (StreamRefused status code, m) \<Rightarrow> ((status, Failed code), s\<lparr>st_memory := m\<rparr>)
      | (Streamed out, m) \<Rightarrow> ((200, StreamBody out), s\<lparr>st_memory := m\<rparr>))"

definition ServeHTTP :: "gateway_env \<Rightarrow> http_req \<Rightarrow> station \<Rightarrow> response \<times> station" where
  "ServeHTTP env r s =
     (let given = header_Get r ''X-Request-ID''; valid = (given = [] \<or> requestIDPattern given)
      in case (if given = [] \<or> \<not> valid then gv_newRequestID env else Some given) of
           None \<Rightarrow> ((500, NoBody), s)
         | Some requestID \<Rightarrow>
             if \<not> valid then (failure Invalid, s)
             else if hq_Path r = ''/api/v1/proxies'' \<or> HasPrefix (hq_Path r) ''/api/v1/proxies/'' then serveEgress env r requestID s
             else (case route_method (hq_Path r) of
                     None \<Rightarrow> (not_found, s)
                   | Some method \<Rightarrow>
                       if hq_Method r \<noteq> method then ((405, Failed ''INVALID_ARGUMENT''), s)
                       else if hq_Path r = ''/internal/app-states/v1/stream'' then serveStream env r s
                       else (case serveInternal env r requestID s of
                               Some out \<Rightarrow> out
                             | None \<Rightarrow>
                                 (case Me (gv_identity env) (gv_down env) (gv_now env) requestID (bearer r) (st_identity s) of
                                    (Inl e, idb) \<Rightarrow> (failure e, s\<lparr>st_identity := idb\<rparr>)
                                  | (Inr u, idb) \<Rightarrow> serveUser env r requestID u (s\<lparr>st_identity := idb\<rparr>)))))"

end
