(* ===== verification/Gateway_Grpc.thy ===== *)
theory Gateway_Grpc
  imports Gateway
begin

text \<open>
  Which requests the gRPC client of the Runtime can influence. The gateway reaches it in two ways:
  a forward recovery reconciles a transition, and the admission of a command inspects the workload.
  A request that does neither is answered the same whatever this client would have said: two
  environments that differ in its answers only give the same reply and the same station.
\<close>

section \<open>Another Runtime\<close>

definition answering_source :: "runtime_client \<Rightarrow> AppCenterAdmissionSource \<Rightarrow> AppCenterAdmissionSource" where
  "answering_source inspectBound s = s\<lparr>ad_Runtime := map_option (\<lambda>_. inspectBound) (ad_Runtime s)\<rparr>"

definition answering_listing :: "runtime_client \<Rightarrow> listing_env \<Rightarrow> listing_env" where
  "answering_listing inspectBound env = env\<lparr>le_source := map_option (answering_source inspectBound) (le_source env)\<rparr>"

definition answering :: "transition_runtime \<Rightarrow> runtime_client \<Rightarrow> gateway_env \<Rightarrow> gateway_env" where
  "answering reconcile inspectBound env =
     env\<lparr>gv_runtime := map_option (\<lambda>_. reconcile) (gv_runtime env), gv_listing := answering_listing inspectBound (gv_listing env)\<rparr>"

lemma answering_source_sel:
  "ad_Path (answering_source ib s) = ad_Path s" "ad_Management (answering_source ib s) = ad_Management s"
  "ad_Dashboard (answering_source ib s) = ad_Dashboard s" "ad_Runtime (answering_source ib s) = None \<longleftrightarrow> ad_Runtime s = None"
  by (simp_all add: answering_source_def)

lemma answering_listing_sel:
  "le_ext (answering_listing ib v) = le_ext v" "le_scope (answering_listing ib v) = le_scope v" "le_digests (answering_listing ib v) = le_digests v"
  "le_admission (answering_listing ib v) = le_admission v" "le_source (answering_listing ib v) = map_option (answering_source ib) (le_source v)"
  "le_stateStation (answering_listing ib v) = le_stateStation v" "le_down (answering_listing ib v) = le_down v"
  "le_commitFails (answering_listing ib v) = le_commitFails v" "le_now (answering_listing ib v) = le_now v" "le_clock (answering_listing ib v) = le_clock v"
  by (simp_all add: answering_listing_def)

lemma answering_sel:
  "gv_newRequestID (answering rt ib env) = gv_newRequestID env" "gv_id (answering rt ib env) = gv_id env" "gv_raw (answering rt ib env) = gv_raw env"
  "gv_hash (answering rt ib env) = gv_hash env" "gv_now (answering rt ib env) = gv_now env" "gv_later (answering rt ib env) = gv_later env"
  "gv_down (answering rt ib env) = gv_down env" "gv_fault (answering rt ib env) = gv_fault env" "gv_commitFails (answering rt ib env) = gv_commitFails env"
  "gv_migrated (answering rt ib env) = gv_migrated env" "gv_media (answering rt ib env) = gv_media env" "gv_query (answering rt ib env) = gv_query env"
  "gv_sha (answering rt ib env) = gv_sha env" "gv_decoders (answering rt ib env) = gv_decoders env" "gv_identity (answering rt ib env) = gv_identity env"
  "gv_bootstrapToken (answering rt ib env) = gv_bootstrapToken env" "gv_access (answering rt ib env) = gv_access env" "gv_callers (answering rt ib env) = gv_callers env"
  "gv_blender (answering rt ib env) = gv_blender env" "gv_client (answering rt ib env) = gv_client env" "gv_validJSON (answering rt ib env) = gv_validJSON env"
  "gv_profiles (answering rt ib env) = gv_profiles env" "gv_workspaces (answering rt ib env) = gv_workspaces env" "gv_released (answering rt ib env) = gv_released env"
  "gv_errorCode (answering rt ib env) = gv_errorCode env" "gv_releaseJSON (answering rt ib env) = gv_releaseJSON env" "gv_ops (answering rt ib env) = gv_ops env"
  "gv_opsPool (answering rt ib env) = gv_opsPool env" "gv_dispatch (answering rt ib env) = gv_dispatch env" "gv_market (answering rt ib env) = gv_market env"
  "gv_factsSize (answering rt ib env) = gv_factsSize env" "gv_registry (answering rt ib env) = gv_registry env" "gv_releases (answering rt ib env) = gv_releases env"
  "gv_transitionReleases (answering rt ib env) = gv_transitionReleases env" "gv_migration (answering rt ib env) = gv_migration env" "gv_egress (answering rt ib env) = gv_egress env"
  "gv_probe (answering rt ib env) = gv_probe env" "gv_prober (answering rt ib env) = gv_prober env" "gv_meanwhile (answering rt ib env) = gv_meanwhile env"
  "gv_canceled (answering rt ib env) = gv_canceled env" "gv_states (answering rt ib env) = gv_states env" "gv_entries (answering rt ib env) = gv_entries env"
  "gv_telemetry (answering rt ib env) = gv_telemetry env" "gv_stream (answering rt ib env) = gv_stream env"
  "gv_listing (answering rt ib env) = answering_listing ib (gv_listing env)"
  by (simp_all add: answering_def)

section \<open>The listing\<close>

text \<open>The candidates of the listing only ask whether there is a client.\<close>

lemma policies_answering: "policies env (map_option (answering_source ib) source) = policies env source"
proof (cases source)
  case (Some s)
  show ?thesis unfolding Some policies_def option.map option.case answering_source_sel ..
qed simp

lemma policy_release_answering: "policy_release env (answering_source ib s) = policy_release env s"
  unfolding fun_eq_iff policy_release_def answering_source_sel by simp

lemma policy_execution_answering: "policy_execution env (map_option (answering_source ib) source) c = policy_execution env source c"
proof (cases source)
  case (Some s)
  show ?thesis unfolding policy_execution_def policies_answering unfolding Some option.map prod.case option.case policy_release_answering ..
qed simp

lemma resolve_answering: "resolve env (map_option (answering_source ib) source) actor c installed catalog = resolve env source actor c installed catalog"
  unfolding resolve_def policy_execution_answering map_option_is_None Let_def by (cases source) (simp_all split: option.split)

lemma candidate_loop_answering: "candidate_loop env (answering_source ib s) actor ft version kinds l catalog = candidate_loop env s actor ft version kinds l catalog"
proof (induction kinds arbitrary: l catalog)
  case (Cons kind kinds)
  have "candidate_outcome env (answering_source ib s) = candidate_outcome env s"
    unfolding fun_eq_iff candidate_outcome_def answering_source_sel by simp
  with Cons resolve_answering [of env ib "Some s"] show ?case by (simp split: prod.split)
qed simp

lemma project_items_answering: "project_items env (answering_source ib s) actor foreign fts catalog = project_items env s actor foreign fts catalog"
proof -
  have one: "projectCandidate env (answering_source ib s) = projectCandidate env s"
    unfolding fun_eq_iff projectCandidate_def candidate_loop_answering by simp
  show ?thesis by (induction fts arbitrary: catalog) (auto simp: one)
qed

lemma project_facts_answering:
  "project_facts env dg (map_option (answering_source ib) source) actor foreign clock facts catalog = project_facts env dg source actor foreign clock facts catalog"
  by (cases source) (simp_all add: project_facts_def project_items_answering)

lemma AppCenterFacts_answering: "AppCenterFacts (answering_listing ib env) = AppCenterFacts env"
  unfolding fun_eq_iff AppCenterFacts_def answering_listing_sel project_facts_answering map_option_is_None by simp

lemma PreinstalledInventory_answering: "Service_PreinstalledInventory (answering_listing ib env) = Service_PreinstalledInventory env"
  unfolding fun_eq_iff Service_PreinstalledInventory_def answering_listing_sel by simp

lemma AuthorizeWorkerVersion_answering: "AuthorizeWorkerVersion env (map_option (answering_source ib) source) = AuthorizeWorkerVersion env source"
  unfolding fun_eq_iff AuthorizeWorkerVersion_def by (cases source) (simp_all add: answering_source_sel)

section \<open>The handlers\<close>

lemmas listing_answering = AppCenterFacts_answering PreinstalledInventory_answering AuthorizeWorkerVersion_answering

lemma shared_answering:
  "ops_pool (answering rt ib env) = ops_pool env" "delegated_call (answering rt ib env) = delegated_call env"
  "installation_effect (answering rt ib env) = installation_effect env" "installation_request (answering rt ib env) = installation_request env"
  "decodeNamespaceMigrationRequest (answering rt ib env) = decodeNamespaceMigrationRequest env" "catalog_group (answering rt ib env) = catalog_group env"
  "egress_Test (answering rt ib env) = egress_Test env"
  unfolding fun_eq_iff ops_pool_def delegated_call_def installation_effect_def installation_request_def decodeNamespaceMigrationRequest_def
    catalog_group_def egress_Test_def answering_sel answering_listing_sel listing_answering
  by simp_all

lemma post_command_answering: "post_command (answering rt ib env) = post_command env"
  unfolding fun_eq_iff post_command_def answering_sel by simp

lemmas answering_simps = answering_sel answering_listing_sel listing_answering shared_answering post_command_answering

lemma internal_answering:
  "appAccess (answering rt ib env) = appAccess env" "resourcesSnapshot (answering rt ib env) = resourcesSnapshot env"
  "installationAccess (answering rt ib env) = installationAccess env" "migrateAppNamespace (answering rt ib env) = migrateAppNamespace env"
  "resourcesWorkspaces (answering rt ib env) = resourcesWorkspaces env"
  "resourcesReleaseWorkspaceWithManager (answering rt ib env) = resourcesReleaseWorkspaceWithManager env"
  "blenderExecute (answering rt ib env) = blenderExecute env" "blenderOptions (answering rt ib env) = blenderOptions env"
  "serveCommand (answering rt ib env) = serveCommand env" "serveIdentity (answering rt ib env) = serveIdentity env"
  "serveTelemetry (answering rt ib env) = serveTelemetry env" "serveStream (answering rt ib env) = serveStream env"
  "egress_call (answering rt ib env) = egress_call env"
  unfolding fun_eq_iff appAccess_def resourcesSnapshot_def installationAccess_def migrateAppNamespace_def resourcesWorkspaces_def
    resourcesReleaseWorkspaceWithManager_def blenderExecute_def blenderOptions_def serveCommand_def serveIdentity_def serveTelemetry_def serveStream_def
    egress_call_def answering_simps
  by simp_all

lemma wrapped_answering:
  "internalResourcesWorkspaces (answering rt ib env) = internalResourcesWorkspaces env"
  "internalResourcesReleaseWorkspace (answering rt ib env) = internalResourcesReleaseWorkspace env"
  "blenderAction (answering rt ib env) = blenderAction env" "serveEgress (answering rt ib env) = serveEgress env"
  unfolding fun_eq_iff internalResourcesWorkspaces_def internalResourcesReleaseWorkspace_def blenderAction_def serveEgress_def answering_simps internal_answering
  by simp_all

lemma session_answering:
  "serveAppCenter (answering rt ib env) = serveAppCenter env" "serveAppCenterOperations (answering rt ib env) = serveAppCenterOperations env"
  "servePreinstalled (answering rt ib env) = servePreinstalled env" "serveAppStates (answering rt ib env) = serveAppStates env"
  "serveTransitions (answering rt ib env) = serveTransitions env" "serveInstallations (answering rt ib env) = serveInstallations env"
  "serveCatalog (answering rt ib env) = serveCatalog env"
  unfolding fun_eq_iff serveAppCenter_def serveAppCenterOperations_def servePreinstalled_def serveAppStates_def serveTransitions_def serveInstallations_def
    serveCatalog_def answering_simps
  by simp_all

text \<open>
  The two handlers that call the client refuse a user who does not manage applications, and a
  recovery that is only read does not call it.
\<close>

definition grpc_route :: "http_req \<Rightarrow> bool" where
  "grpc_route r \<longleftrightarrow> hq_Path r = ''/appcenter/v1/commands'' \<or> hq_Path r = forwardRecoveryPath"

lemma serveForwardRecovery_answering:
  assumes "\<not> (manages_apps u \<and> grpc_route r)"
  shows "serveForwardRecovery (answering rt ib env) r u s = serveForwardRecovery env r u s"
proof (cases "manages_apps u")
  case True
  then have "post_command env dc forwardRecoveryPath r = None" for dc :: "ForwardRecoveryCommand decoder"
    using assms by (simp add: grpc_route_def post_command_def)
  then show ?thesis unfolding serveForwardRecovery_def answering_simps by simp
qed (simp add: serveForwardRecovery_def)

lemma serveUser_answering:
  assumes "\<not> (manages_apps u \<and> grpc_route r)"
  shows "serveUser (answering rt ib env) r rid u s = serveUser env r rid u s"
proof (cases "hq_Path r = ''/appcenter/v1/commands''")
  case True
  then have "\<not> manages_apps u" using assms by (simp add: grpc_route_def)
  with True show ?thesis by (simp add: serveUser_def serveAppCenterCommand_def)
next
  case False
  show ?thesis
    unfolding serveUser_def Let_def if_not_P [OF False] serveForwardRecovery_answering [OF assms] session_answering internal_answering answering_simps ..
qed

lemma serveInternal_answering: "serveInternal (answering rt ib env) = serveInternal env"
  unfolding fun_eq_iff serveInternal_def internal_answering wrapped_answering answering_simps by simp

lemma ServeHTTP_answering:
  assumes "\<And>rid u. fst (Me (gv_identity env) (gv_down env) (gv_now env) rid (bearer r) (st_identity s)) = Inr u \<Longrightarrow> \<not> (manages_apps u \<and> grpc_route r)"
  shows "ServeHTTP (answering rt ib env) r s = ServeHTTP env r s"
proof -
  have user: "(case out of (Inl e, idb) \<Rightarrow> (failure e, s\<lparr>st_identity := idb\<rparr>) | (Inr u, idb) \<Rightarrow> serveUser (answering rt ib env) r rid u (s\<lparr>st_identity := idb\<rparr>)) =
      (case out of (Inl e, idb) \<Rightarrow> (failure e, s\<lparr>st_identity := idb\<rparr>) | (Inr u, idb) \<Rightarrow> serveUser env r rid u (s\<lparr>st_identity := idb\<rparr>))"
    if "out = Me (gv_identity env) (gv_down env) (gv_now env) rid (bearer r) (st_identity s)" for out rid
    using assms [of rid] that by (auto simp: serveUser_answering split: prod.split sum.split)
  show ?thesis unfolding ServeHTTP_def answering_simps wrapped_answering internal_answering serveInternal_answering user [OF refl] ..
qed

end
