(* ===== verification/Gateway_Properties.thy ===== *)
theory Gateway_Properties
  imports Gateway_Grpc Identity_Properties
begin

text \<open>
  What the gateway guarantees: who may change the tables of the station and call its Runtime, what a
  positive answer to an application means, and what a request without credentials gets.
\<close>

section \<open>The identity tables behind a request\<close>

definition same_members :: "identity_db \<Rightarrow> identity_db \<Rightarrow> bool" where
  "same_members db db' \<longleftrightarrow> db_orgs db' = db_orgs db \<and> db_members db' = db_members db"

lemma same_members_refl [simp]: "same_members db db"
  by (simp add: same_members_def)

lemma session_action_members:
  "session_action s now raw r action se u og db = Commit x db' \<Longrightarrow> same_members db db'"
  by (auto simp: same_members_def session_action_def rotate_session_def newToken_def Let_def update_session_sel split: if_splits option.splits)

lemma withSession_body_members: "withSession_body s now raw r token action db = Commit x db' \<Longrightarrow> same_members db db'"
  by (auto simp: withSession_body_def same_members_def split: option.splits if_splits dest!: session_action_members [unfolded same_members_def])

lemma withSession_members: "same_members db (snd (withSession s f now raw r token action db))"
  using transact_state [of f Database "withSession_body s now raw r token action" db] withSession_body_members
  by (auto simp: withSession_def simp del: transact.simps)

lemma Me_members: "same_members db (snd (Me s f now r token db))"
  using withSession_members [of db s f now "[]" r token "''me''"] by (simp add: Me_def split_beta Let_def)

lemma Logout_members: "same_members db (snd (Logout s f now r token db))"
  using withSession_members [of db s f now "[]" r token "''logout''"] by (simp add: Logout_def split_beta Let_def)

lemma insert_session_members: "insert_session row db = Some db' \<Longrightarrow> db_orgs db' = db_orgs db \<and> db_members db' = db_members db"
  by (auto simp: insert_session_def split: if_splits)

lemma Login_password_members: "Login_password s now sid raw r inp u f db = Commit x db' \<Longrightarrow> same_members db db'"
  by (auto simp: same_members_def Login_password_def Login_deny_def IdentityService_session_def newToken_def Let_def
      split: if_splits option.splits dest!: insert_session_members)

lemma Login_body_members: "Login_body s now sid raw r inp db = Commit x db' \<Longrightarrow> same_members db db'"
  by (auto simp: Login_body_def Login_deny_def same_members_def split: option.splits if_splits dest!: Login_password_members [unfolded same_members_def])

lemma Login_members: "same_members db (snd (Login s f now sid raw r inp db))"
  using transact_state [of f Database "Login_body s now sid raw r inp" db] Login_body_members
  by (auto simp: Login_def simp del: transact.simps)

text \<open>A malformed token reaches no table.\<close>

lemma Me_malformed: "\<not> validBearerToken token \<Longrightarrow> Me s f now r token db = (Inl Unauthenticated, db)"
  by (simp add: Me_def withSession_def)

section \<open>Who may write to the tables of operations\<close>

definition may_manage :: "IdentityContext \<Rightarrow> bool" where
  "may_manage u \<longleftrightarrow> ''admin'' \<in> set (ic_Roles u) \<and> ''app:manage'' \<in> set (ic_Scopes u)"

lemma submit_manages: "snd (submit s f v u c db) \<noteq> db \<Longrightarrow> may_manage u"
  by (auto simp: submit_def submit_guard_def may_manage_def split: if_split_asm option.split_asm)

lemma submissions_manage:
  "snd (ops_Submit s f now i p u c db) \<noteq> db \<Longrightarrow> may_manage u"
  "snd (SubmitPreinstalled s f now i p u inp db) \<noteq> db \<Longrightarrow> may_manage u"
  "snd (SubmitAppCenter s f now i p u cmd adm db) \<noteq> db \<Longrightarrow> may_manage u"
  by (auto simp: ops_Submit_def SubmitPreinstalled_def SubmitAppCenter_def dest: submit_manages split: if_split_asm)

lemma transitions_manage:
  "snd (SubmitManagedTransition s f now i u c db) \<noteq> db \<Longrightarrow> may_manage u"
  "snd (SubmitForwardRecovery s v i u fc rt db) \<noteq> db \<Longrightarrow> may_manage u"
  by (auto simp: SubmitManagedTransition_def SubmitTransition_def SubmitForwardRecovery_def canRecover_def may_manage_def split: if_split_asm)

text \<open>A change of the proxies comes from an authorized user, through every phase of a test.\<close>

lemma Get_authorized: "Get ev f now u pid db = Inr p \<Longrightarrow> authorize ev u"
  by (auto simp: Get_def split: if_split_asm)

lemma egress_Test_authorized: "snd (egress_Test env ev u pid db) \<noteq> db \<Longrightarrow> authorize ev u"
  by (cases "Get ev (gv_fault env) (gv_now env) u pid db")
    (auto simp: egress_Test_def Test_begin_def dest: Get_authorized)

lemma egress_call_authorized: "snd (egress_call env ev u r pid test db) \<noteq> db \<Longrightarrow> authorize ev u"
  using egress_Test_authorized [of env ev u pid db]
  by (auto simp: egress_call_def Delete_def Save_def split: if_split_asm option.split_asm sum.split_asm prod.split_asm)

section \<open>The handlers of a session\<close>

text \<open>A call goes to the configured Runtime with its token.\<close>

definition to_runtime :: "gateway_env \<Rightarrow> runtime_call \<Rightarrow> bool" where
  "to_runtime env call \<longleftrightarrow> (\<exists>c path. gv_blender env = Some c \<and> rc_url call = bc_Endpoint c @ path \<and> rc_authorization call = ''Bearer '' @ bc_RuntimeToken c)"

text \<open>What a handler of a session may change: the memory, the recorded calls, and for a manager the operations.\<close>

definition session_frame :: "gateway_env \<Rightarrow> IdentityContext \<Rightarrow> station \<Rightarrow> station \<Rightarrow> bool" where
  "session_frame env u s s' \<longleftrightarrow> st_identity s' = st_identity s \<and> st_egress s' = st_egress s \<and> st_states s' = st_states s \<and> st_tables s' = st_tables s \<and>
     (st_ops s' \<noteq> st_ops s \<longrightarrow> may_manage u) \<and>
     (st_calls s' = st_calls s \<or> (\<exists>call. st_calls s' = st_calls s @ [call] \<and> to_runtime env call))"

lemma session_frame_refl [simp]: "session_frame env u s s"
  by (simp add: session_frame_def)

lemma session_frame_memory [simp]: "session_frame env u s (s\<lparr>st_memory := m\<rparr>)"
  by (simp add: session_frame_def)

lemma session_frame_ops: "(db \<noteq> st_ops s \<Longrightarrow> may_manage u) \<Longrightarrow> session_frame env u s (s\<lparr>st_ops := db\<rparr>)"
  by (auto simp: session_frame_def)

lemma session_frame_op:
  assumes "snd out \<noteq> st_ops s \<Longrightarrow> may_manage u"
  shows "session_frame env u s (snd (case out of (Inl e, db) \<Rightarrow> (f e, s\<lparr>st_ops := db\<rparr>) | (Inr x, db) \<Rightarrow> (g x, s\<lparr>st_ops := db\<rparr>)))"
  using assms by (cases out; cases "fst out") (auto intro: session_frame_ops)

lemma session_frame_res:
  assumes "snd out \<noteq> st_ops s \<Longrightarrow> may_manage u"
  shows "session_frame env u s (snd (case out of (res, db) \<Rightarrow> (f res, s\<lparr>st_ops := db\<rparr>)))"
  using assms by (cases out) (auto intro: session_frame_ops)

lemmas op_frames = session_frame_op [OF submissions_manage(1)] session_frame_op [OF submissions_manage(2)] session_frame_op [OF submissions_manage(3)]
  session_frame_op [OF transitions_manage(1)] session_frame_res [OF transitions_manage(2)]

lemma session_frame_memory_op:
  "session_frame env u s (snd (case out of (Inl e, m) \<Rightarrow> (f e, s\<lparr>st_memory := m\<rparr>) | (Inr x, m) \<Rightarrow> (g x, s\<lparr>st_memory := m\<rparr>)))"
  by (cases out; cases "fst out") auto

lemma write_frames:
  "session_frame env u s (snd (serveAppCenterCommand env r u s))"
  "session_frame env u s (snd (servePreinstalled env r u s))"
  "session_frame env u s (snd (serveTransitions env r u s))"
  "session_frame env u s (snd (serveForwardRecovery env r u s))"
  unfolding serveAppCenterCommand_def servePreinstalled_def serveTransitions_def serveForwardRecovery_def
  by (simp_all split: option.split sum.split add: op_frames session_frame_memory_op)

lemma read_frames:
  "session_frame env u s (snd (serveAppCenter env r rid u s))"
  "session_frame env u s (snd (serveAppStates env r u s))"
  "session_frame env u s (snd (serveCatalog env r u s))"
  by (auto simp: serveAppCenter_def serveAppStates_def serveCatalog_def Let_def split: option.splits prod.splits sum.splits facts_error.splits)

section \<open>Calls of the Runtime\<close>

text \<open>A current member of an organization, an administrator for a manager.\<close>

definition active_member :: "gateway_env \<Rightarrow> station \<Rightarrow> bool \<Rightarrow> string \<Rightarrow> string \<Rightarrow> bool" where
  "active_member env s manager user org \<longleftrightarrow>
     (\<exists>u og m. member_join (st_identity s) user org = Some (u, og, m) \<and> u_status u = ''active'' \<and> o_status og = ''active'' \<and> mb_active m \<and>
        \<not> locked_at (gv_now env) u \<and> (manager \<longrightarrow> mb_role m = ''admin''))"

definition one_call :: "(runtime_call \<Rightarrow> bool) \<Rightarrow> station \<Rightarrow> station \<Rightarrow> bool" where
  "one_call P s s' \<longleftrightarrow> s' = s\<lparr>st_calls := st_calls s'\<rparr> \<and> (st_calls s' = st_calls s \<or> (\<exists>call. st_calls s' = st_calls s @ [call] \<and> P call))"

lemma one_call_refl [simp]: "one_call P s s"
  by (simp add: one_call_def)

lemma one_call_mono: "one_call P s s' \<Longrightarrow> (\<And>call. P call \<Longrightarrow> Q call) \<Longrightarrow> one_call Q s s'"
  by (auto simp: one_call_def)

lemma runtime_request_to: "gv_blender env = Some c \<Longrightarrow> to_runtime env (runtime_request c method path rid body)"
  by (simp add: to_runtime_def runtime_request_def)

lemma runtime_effect_calls: "fst (snd (runtime_effect client valid statuses call w)) = fst w @ [call]"
  by (auto simp: runtime_effect_def split: option.splits)

lemma withDelegated_effect:
  assumes "snd (withDelegatedMember (gv_identity env) f cf (gv_now env) user org manager effect (st_identity s) w) \<noteq> w"
  shows "active_member env s manager user org \<and>
     snd (withDelegatedMember (gv_identity env) f cf (gv_now env) user org manager effect (st_identity s) w) = snd (effect w)"
  using assms by (auto simp: withDelegatedMember_def active_member_def split: if_split_asm option.split_asm prod.split_asm option.split prod.split)

lemma withDelegated_success:
  assumes "withDelegatedMember (gv_identity env) f cf (gv_now env) user org manager effect (st_identity s) w = (None, w')"
  shows "active_member env s manager user org \<and> effect w = (None, w')"
  using assms by (auto simp: withDelegatedMember_def active_member_def split: if_split_asm option.split_asm prod.split_asm)

lemma delegated_call_once: "one_call (\<lambda>c. c = call \<and> active_member env s manager user org) s (snd (delegated_call env manager user org valid statuses call s))"
proof -
  obtain res calls out where w: "withDelegatedMember (gv_identity env) (gv_down env) (gv_commitFails env) (gv_now env) user org manager
      (runtime_effect (gv_client env) valid statuses call) (st_identity s) (st_calls s, None) = (res, calls, out)"
    by (metis prod.collapse)
  have "calls = st_calls s \<or> calls = st_calls s @ [call] \<and> active_member env s manager user org"
  proof (cases "(calls, out) = (st_calls s, None)")
    case False
    with withDelegated_effect [of env "gv_down env" "gv_commitFails env" user org manager "runtime_effect (gv_client env) valid statuses call" s "(st_calls s, None)"]
    have "active_member env s manager user org" "(calls, out) = snd (runtime_effect (gv_client env) valid statuses call (st_calls s, None))"
      unfolding w by simp_all
    then show ?thesis using runtime_effect_calls [of "gv_client env" valid statuses call "(st_calls s, None)"] by (metis fst_conv)
  qed simp
  then show ?thesis unfolding delegated_call_def w by (cases res) (auto simp: one_call_def)
qed

lemma snd_replies [simp]:
  "snd (case out of (Inl e, s') \<Rightarrow> (f e, s') | (Inr x, s') \<Rightarrow> (g x, s')) = snd out"
  "snd (case out' of (Inl e, s') \<Rightarrow> (f e, s') | (Inr (a, b), s') \<Rightarrow> (h a b, s')) = snd out'"
  by (cases out; cases "fst out"; auto) (cases out'; cases "fst out'"; auto)

text \<open>Who a call is made for: a caller with the control's token, an application with the token of the resources, or a session.\<close>

definition call_permitted :: "gateway_env \<Rightarrow> http_req \<Rightarrow> station \<Rightarrow> bool" where
  "call_permitted env r s \<longleftrightarrow>
     (\<exists>c user org. blenderControlCaller (gv_sha env) (gv_blender env) r = Inr c \<and> user = header_Get r ''X-User-Id'' \<and>
        org = header_Get r ''X-Organization-Id'' \<and> active_member env s (hq_Path r \<noteq> ''/internal/v1/blender/access'') user org) \<or>
     (\<exists>user org. delegatedApp (gv_sha env) (gv_identity env) (gv_access env) ''resources'' r = Inr (user, org) \<and> active_member env s True user org)"

lemma blenderControlCaller_Some: "blenderControlCaller sha control r = Inr c \<Longrightarrow> control = Some c"
  by (auto simp: blenderControlCaller_def split: option.split_asm if_split_asm)

lemma blenderExecute_once:
  assumes "gv_blender env = Some c"
  shows "one_call (\<lambda>call. to_runtime env call \<and> active_member env s (action \<noteq> ''access'') (header_Get r ''X-User-Id'') (header_Get r ''X-Organization-Id''))
      s (snd (blenderExecute env c action inp r rid s))"
  unfolding blenderExecute_def
  by (auto intro!: one_call_mono [OF delegated_call_once] runtime_request_to [OF assms] simp del: append.simps)

lemma blenderAction_once:
  "one_call (\<lambda>call. to_runtime env call \<and> (\<exists>c. blenderControlCaller (gv_sha env) (gv_blender env) r = Inr c) \<and>
      active_member env s (action \<noteq> ''access'') (header_Get r ''X-User-Id'') (header_Get r ''X-Organization-Id''))
    s (snd (blenderAction env action r rid s))"
  unfolding blenderAction_def
  by (auto split: sum.split option.split intro!: one_call_mono [OF blenderExecute_once] dest: blenderControlCaller_Some)

lemma blenderOptions_once:
  "one_call (\<lambda>call. to_runtime env call \<and> (\<exists>c. blenderControlCaller (gv_sha env) (gv_blender env) r = Inr c) \<and>
      active_member env s True (header_Get r ''X-User-Id'') (header_Get r ''X-Organization-Id''))
    s (snd (blenderOptions env r rid s))"
  unfolding blenderOptions_def
  by (auto split: sum.split option.split intro!: one_call_mono [OF delegated_call_once] runtime_request_to dest: blenderControlCaller_Some)

lemma resourcesWorkspaces_once: "one_call (to_runtime env) s (snd (resourcesWorkspaces env r rid s))"
  by (auto simp: resourcesWorkspaces_def Let_def one_call_def split: option.split intro: runtime_request_to)

lemma release_once:
  "one_call (\<lambda>call. to_runtime env call \<and> active_member env s True user org) s (snd (resourcesReleaseWorkspaceWithManager env r rid user org s))"
proof -
  have out: "snd (case out of (Inl e, s') \<Rightarrow> (failure e, s')
      | (Inr (status, raw), s') \<Rightarrow>
          if status = 200 then (case gv_released env raw of None \<Rightarrow> ((502, Failed ''BAD_GATEWAY''), s') | Some x \<Rightarrow> ((200, RuntimeBody x), s'))
          else ((status, Failed (let code = gv_errorCode env raw in if code = [] then ''SERVICE_UNAVAILABLE'' else code)), s')) = snd out"
    for out :: "(fault + int \<times> string) \<times> station"
    by (cases out; cases "fst out") (auto split: option.split)
  show ?thesis unfolding resourcesReleaseWorkspaceWithManager_def
    by (auto simp: out split: option.split intro!: one_call_mono [OF delegated_call_once] runtime_request_to)
qed

lemma session_frame_once: "one_call P s s' \<Longrightarrow> (\<And>call. P call \<Longrightarrow> to_runtime env call) \<Longrightarrow> session_frame env u s s'"
  unfolding one_call_def session_frame_def by (elim conjE ssubst) auto

lemma frame_if:
  "session_frame env u s (snd x) \<Longrightarrow> session_frame env u s (snd y) \<Longrightarrow> session_frame env u s (snd (if b then x else y))"
  by simp

lemma frame_pair: "session_frame env u s (snd (reply, s))"
  by simp

lemma frame_read:
  "session_frame env u s (snd (case o' of None \<Rightarrow> (x, s) | Some ops \<Rightarrow> (case get ops of Inl e \<Rightarrow> (f e, s) | Inr y \<Rightarrow> (g y, s))))"
  by (simp split: option.split sum.split)

lemma workspace_frames:
  "session_frame env u s (snd (resourcesWorkspaces env r rid s))"
  "session_frame env u s (snd (resourcesReleaseWorkspaceWithManager env r rid user org s))"
  by (rule session_frame_once [OF resourcesWorkspaces_once]) (assumption, rule session_frame_once [OF release_once], blast)

lemma serveUser_frame: "session_frame env u s (snd (serveUser env r rid u s))"
  unfolding serveUser_def Let_def
  by (intro frame_if write_frames read_frames workspace_frames frame_pair frame_read)

section \<open>Every route\<close>

definition session_of :: "gateway_env \<Rightarrow> http_req \<Rightarrow> station \<Rightarrow> IdentityContext \<Rightarrow> bool" where
  "session_of env r s u \<longleftrightarrow>
     (\<exists>requestID. fst (Me (gv_identity env) (gv_down env) (gv_now env) requestID (bearer r) (st_identity s)) = Inr u)"

definition table_change_permitted :: "gateway_env \<Rightarrow> http_req \<Rightarrow> station \<Rightarrow> station \<Rightarrow> bool" where
  "table_change_permitted env r s s' \<longleftrightarrow>
     (st_ops s' \<noteq> st_ops s \<longrightarrow> (\<exists>u. session_of env r s u \<and> may_manage u)) \<and>
     (st_egress s' \<noteq> st_egress s \<longrightarrow> (\<exists>u ev. session_of env r s u \<and> gv_egress env = Some ev \<and> authorize ev u)) \<and>
     (st_states s' \<noteq> st_states s \<or> st_tables s' \<noteq> st_tables s \<longrightarrow>
        hq_Path r = ''/internal/v1/app-namespace/migrate'' \<and> requireBootstrapToken (gv_sha env) (gv_bootstrapToken env) r) \<and>
     (\<not> same_members (st_identity s) (st_identity s') \<longrightarrow>
        hq_Path r = ''/identity/bootstrap'' \<and> gv_bootstrapToken env \<noteq> [] \<and> gv_sha env (gv_bootstrapToken env) = gv_sha env (header_Get r ''X-Bootstrap-Token''))"

definition calls_permitted :: "gateway_env \<Rightarrow> http_req \<Rightarrow> station \<Rightarrow> station \<Rightarrow> bool" where
  "calls_permitted env r s s' \<longleftrightarrow>
     st_calls s' = st_calls s \<or>
     (\<exists>call. st_calls s' = st_calls s @ [call] \<and> to_runtime env call \<and> (call_permitted env r s \<or> (\<exists>u. session_of env r s u)))"

definition permitted :: "gateway_env \<Rightarrow> http_req \<Rightarrow> station \<Rightarrow> station \<Rightarrow> bool" where
  "permitted env r s s' \<longleftrightarrow> table_change_permitted env r s s' \<and> calls_permitted env r s s'"

lemmas permitted_defs = permitted_def table_change_permitted_def calls_permitted_def

lemma permitted_refl [simp]: "permitted env r s s"
  by (simp add: permitted_defs)

lemma permitted_memory [simp]: "permitted env r s (s\<lparr>st_memory := m\<rparr>)"
  by (simp add: permitted_defs)

lemma permitted_identity: "same_members (st_identity s) idb \<Longrightarrow> permitted env r s (s\<lparr>st_identity := idb\<rparr>)"
  by (simp add: permitted_defs)

lemma permitted_once:
  "one_call P s s' \<Longrightarrow> (\<And>call. P call \<Longrightarrow> to_runtime env call \<and> call_permitted env r s) \<Longrightarrow> permitted env r s s'"
  unfolding one_call_def permitted_defs by (elim conjE ssubst) auto

text \<open>After a successful \<open>Me\<close> the handler acts in the frame of its session.\<close>

lemma permitted_session:
  assumes me: "Me (gv_identity env) (gv_down env) (gv_now env) rid (bearer r) (st_identity s) = (Inr u, idb)"
    and frame: "session_frame env u (s\<lparr>st_identity := idb\<rparr>) s'"
  shows "permitted env r s s'"
proof -
  have "session_of env r s u" unfolding session_of_def using me by (metis fst_conv)
  moreover have "same_members (st_identity s) idb" using Me_members me by (metis snd_conv)
  ultimately show ?thesis using frame by (auto simp: permitted_defs session_frame_def)
qed

lemma permitted_refused:
  assumes "Me (gv_identity env) (gv_down env) (gv_now env) rid (bearer r) (st_identity s) = (e, idb)"
  shows "permitted env r s (s\<lparr>st_identity := idb\<rparr>)"
  using Me_members [of "st_identity s" "gv_identity env" "gv_down env" "gv_now env" rid "bearer r"] assms by (simp add: permitted_identity)

lemma serveEgress_permitted: "permitted env r s (snd (serveEgress env r rid s))"
proof -
  obtain res idb where me: "Me (gv_identity env) (gv_down env) (gv_now env) rid (bearer r) (st_identity s) = (res, idb)" by fastforce
  show ?thesis
  proof (cases res)
    case (Inl e)
    then show ?thesis using permitted_refused [OF me] by (simp add: serveEgress_def me)
  next
    case (Inr u)
    have call: "permitted env r s (s\<lparr>st_identity := idb, st_egress := snd (egress_call env ev u r pid test (st_egress s))\<rparr>)"
      if "gv_egress env = Some ev" for ev pid test
    proof -
      have "session_of env r s u" unfolding session_of_def using me Inr by (metis fst_conv)
      moreover have "same_members (st_identity s) idb" using Me_members me by (metis snd_conv)
      moreover have "snd (egress_call env ev u r pid test (st_egress s)) \<noteq> st_egress s \<Longrightarrow> authorize ev u" by (rule egress_call_authorized)
      ultimately show ?thesis using that by (auto simp: permitted_defs)
    qed
    show ?thesis using permitted_refused [OF me] call
      by (auto simp: serveEgress_def me Inr Let_def split_beta split: option.split)
  qed
qed

lemma serveCommand_permitted: "permitted env r s (snd (serveCommand env r rid s))"
proof -
  obtain res idb where me: "Me (gv_identity env) (gv_down env) (gv_now env) rid (bearer r) (st_identity s) = (res, idb)" by fastforce
  show ?thesis
  proof (cases res)
    case (Inl e)
    then show ?thesis using permitted_refused [OF me] by (simp add: serveCommand_def me)
  next
    case (Inr u)
    let ?s = "s\<lparr>st_identity := idb\<rparr>"
    have "session_frame env u ?s (snd (serveCommand env r rid s))"
      by (simp add: serveCommand_def me Inr Let_def op_frames [where s = ?s, simplified] split: option.split)
    then show ?thesis using permitted_session [OF me [unfolded Inr]] by blast
  qed
qed

lemma session_reply_identity: "snd (session_reply status out s) = s\<lparr>st_identity := snd out\<rparr>"
  by (cases out; cases "fst out") (auto simp: session_reply_def)

lemma serveIdentity_permitted: "permitted env r s (snd (serveIdentity env r rid s))"
proof (cases "hq_Path r = ''/identity/bootstrap''")
  case True
  then show ?thesis
    by (auto simp: serveIdentity_def permitted_defs session_reply_identity split: option.split)
next
  case False
  have logout: "permitted env r s (snd (case Logout sv f now rid t (st_identity s) of (Inl e, idb) \<Rightarrow> (failure e, s\<lparr>st_identity := idb\<rparr>)
      | (Inr x, idb) \<Rightarrow> ((204, NoBody), s\<lparr>st_identity := idb\<rparr>)))" for sv f now t
    using Logout_members [of "st_identity s" sv f now rid t]
    by (auto simp: permitted_identity split: prod.split sum.split)
  show ?thesis using False
    by (auto simp: serveIdentity_def session_reply_identity Refresh_def logout
        intro!: permitted_identity Login_members withSession_members split: option.split)
qed

lemma migrate_permitted:
  assumes "hq_Path r = ''/internal/v1/app-namespace/migrate''"
  shows "permitted env r s (snd (migrateAppNamespace env r s))"
  using assms by (auto simp: migrateAppNamespace_def permitted_defs Let_def split: option.split prod.split sum.split)

lemma installationAccess_same: "snd (installationAccess env r s) = s"
  by (auto simp: installationAccess_def Let_def split: option.split prod.split)

lemma internal_permitted:
  "permitted env r s (snd (appAccess env r s))"
  "permitted env r s (snd (resourcesSnapshot env r s))"
  "permitted env r s (snd (installationAccess env r s))"
  by (auto simp: appAccess_def resourcesSnapshot_def installationAccess_same split: sum.split prod.split option.split)

lemma internal_workspaces_permitted:
  "permitted env r s (snd (internalResourcesWorkspaces env r rid s))"
  "permitted env r s (snd (internalResourcesReleaseWorkspace env r rid s))"
proof -
  show "permitted env r s (snd (internalResourcesWorkspaces env r rid s))"
  proof (cases "delegatedApp (gv_sha env) (gv_identity env) (gv_access env) ''resources'' r")
    case (Inr p)
    obtain user org where p: "p = (user, org)" by fastforce
    show ?thesis
    proof (cases "WithManager (gv_identity env) (gv_down env) (gv_commitFails env) (gv_now env) user org (\<lambda>w. (None, w)) (st_identity s) ()")
      case (Pair res w)
      show ?thesis
      proof (cases res)
        case None
        have "active_member env s True user org"
          using withDelegated_success [OF Pair [unfolded WithManager_def None]] by blast
        then have "call_permitted env r s" using Inr p unfolding call_permitted_def by blast
        with Pair None Inr p show ?thesis
          by (auto simp: internalResourcesWorkspaces_def intro: permitted_once [OF resourcesWorkspaces_once])
      qed (use Pair Inr p in \<open>simp add: internalResourcesWorkspaces_def\<close>)
    qed
  qed (simp add: internalResourcesWorkspaces_def)
  show "permitted env r s (snd (internalResourcesReleaseWorkspace env r rid s))"
  proof (cases "delegatedApp (gv_sha env) (gv_identity env) (gv_access env) ''resources'' r")
    case (Inr p)
    then show ?thesis
      by (cases p) (auto simp: internalResourcesReleaseWorkspace_def call_permitted_def intro!: permitted_once [OF release_once])
  qed (simp add: internalResourcesReleaseWorkspace_def)
qed

lemma blender_permitted:
  "action \<noteq> ''access'' \<or> hq_Path r = ''/internal/v1/blender/access'' \<Longrightarrow> permitted env r s (snd (blenderAction env action r rid s))"
  "hq_Path r \<noteq> ''/internal/v1/blender/access'' \<Longrightarrow> permitted env r s (snd (blenderOptions env r rid s))"
  unfolding call_permitted_def
  by (rule permitted_once [OF blenderAction_once], auto simp: call_permitted_def active_member_def)
    (rule permitted_once [OF blenderOptions_once], auto simp: call_permitted_def)

lemma serveInternal_permitted: "serveInternal env r rid s = Some out \<Longrightarrow> permitted env r s (snd out)"
  unfolding serveInternal_def Let_def
  by (auto simp: internal_permitted internal_workspaces_permitted serveCommand_permitted serveIdentity_permitted migrate_permitted TrimPrefix_def
      split: if_split_asm intro!: blender_permitted)

lemma serveStream_permitted: "permitted env r s (snd (serveStream env r s))"
  by (auto simp: serveStream_def split: prod.split stream_reply.split)

lemma permitted_if:
  "permitted env r s (snd x) \<Longrightarrow> permitted env r s (snd y) \<Longrightarrow> permitted env r s (snd (if b then x else y))"
  by simp

lemma permitted_option:
  "permitted env r s (snd a) \<Longrightarrow> (\<And>y. x = Some y \<Longrightarrow> permitted env r s (snd (f y))) \<Longrightarrow>
     permitted env r s (snd (case x of None \<Rightarrow> a | Some y \<Rightarrow> f y))"
  by (cases x) auto

lemma permitted_pair: "permitted env r s (snd (reply, s))"
  by simp

lemma ServeHTTP_permitted: "permitted env r s (snd (ServeHTTP env r s))"
proof -
  have user: "permitted env r s (snd (case Me (gv_identity env) (gv_down env) (gv_now env) rid (bearer r) (st_identity s) of
      (Inl e, idb) \<Rightarrow> (failure e, s\<lparr>st_identity := idb\<rparr>)
    | (Inr u, idb) \<Rightarrow> serveUser env r rid u (s\<lparr>st_identity := idb\<rparr>)))" for rid
  proof -
    obtain res idb where me: "Me (gv_identity env) (gv_down env) (gv_now env) rid (bearer r) (st_identity s) = (res, idb)" by fastforce
    show ?thesis
    proof (cases res)
      case (Inr u)
      show ?thesis using permitted_session [OF me [unfolded Inr] serveUser_frame [of env u "s\<lparr>st_identity := idb\<rparr>" r rid]]
        unfolding me Inr by simp
    qed (use permitted_refused [OF me] me in simp)
  qed
  show ?thesis unfolding ServeHTTP_def Let_def
    by (intro permitted_option permitted_if permitted_pair user serveEgress_permitted serveStream_permitted)
      (erule serveInternal_permitted)
qed

section \<open>The guarantees\<close>

text \<open>
  C11. Whatever a request does to the tables of the station, its sender has the right to it. The
  operations change only for a session of an administrator with the scope to manage applications,
  the proxies only for a user the egress service authorizes, the states and the workspaces of
  applications only in a namespace migration with the bootstrap token, and the organizations with
  their members only in a bootstrap with that token. This holds for every route, body and database.
\<close>

theorem table_changes_are_permitted: "table_change_permitted env r s (snd (ServeHTTP env r s))"
  using ServeHTTP_permitted unfolding permitted_def by blast

text \<open>
  C13. The two clients of the Runtime work for someone only. A request makes at most one call over
  the HTTP client of the instance Runtime, at the configured endpoint and with its token, for a
  caller with the control's token or an application with the token of the resources, naming a
  current member of the organization (an administrator, except for the access to an instance), or
  for a session of the station. The gRPC client, which reconciles transitions and inspects
  workloads, can influence a request only when it is a command or a forward recovery in a session
  of an administrator with the scopes to read and to manage applications: every other request has
  the same reply and leaves the same station whatever this client would answer.
\<close>

theorem runtime_calls_are_permitted:
  "calls_permitted env r s (snd (ServeHTTP env r s)) \<and>
   ((\<exists>u. session_of env r s u \<and> manages_apps u \<and> grpc_route r) \<or>
    (\<forall>reconcile inspectBound. ServeHTTP (answering reconcile inspectBound env) r s = ServeHTTP env r s))"
proof -
  have "calls_permitted env r s (snd (ServeHTTP env r s))" using ServeHTTP_permitted unfolding permitted_def by blast
  moreover have "(\<exists>u. session_of env r s u \<and> manages_apps u \<and> grpc_route r) \<or> ServeHTTP (answering reconcile inspectBound env) r s = ServeHTTP env r s"
    for reconcile inspectBound using ServeHTTP_answering [of env r s reconcile inspectBound] unfolding session_of_def by blast
  ultimately show ?thesis by blast
qed

lemma GetInstallation_found:
  "GetInstallation ops u i db = Inr item \<Longrightarrow> item \<in> set (d_installations db)"
  by (auto simp: GetInstallation_def find_installation_def split: if_split_asm option.split_asm dest: find_Some_iff_set)

lemma installation_effect_ok:
  assumes "installation_effect env ops worker app user org installation version db w = (None, out, releases)"
  obtains item where "out = Some item" "item \<in> set (d_installations db)" "in_InstallationID item = installation" "in_StationID item = is_StationID (gv_identity env)"
    "in_OrganizationID item = org" "in_AppID item = app" "in_State item = ''installed''"
    "\<not> worker \<Longrightarrow> in_AppVersion item = version \<or> (\<exists>m e. gv_market env = Some m \<and> find_entry (mk_entries m) app = Some e \<and> e_Helm e \<noteq> None)"
    "worker \<Longrightarrow> AuthorizeWorkerVersion (le_admission (gv_listing env)) (le_source (gv_listing env)) (gv_transitionReleases env) (gv_market env)
       (os_StationID ops) item version = None"
proof -
  obtain item where g: "GetInstallation ops (delegated_actor (is_StationID (gv_identity env)) user org) installation db = Inr item"
    using assms unfolding installation_effect_def Let_def by (auto split: sum.split_asm if_split_asm)
  have "out = Some item \<and> in_InstallationID item = installation \<and> in_StationID item = is_StationID (gv_identity env) \<and>
    in_OrganizationID item = org \<and> in_AppID item = app \<and> in_State item = ''installed'' \<and>
    (\<not> worker \<longrightarrow> in_AppVersion item = version \<or> (\<exists>m e. gv_market env = Some m \<and> find_entry (mk_entries m) app = Some e \<and> e_Helm e \<noteq> None)) \<and>
    (worker \<longrightarrow> AuthorizeWorkerVersion (le_admission (gv_listing env)) (le_source (gv_listing env)) (gv_transitionReleases env) (gv_market env)
       (os_StationID ops) item version = None)"
    using assms unfolding installation_effect_def Let_def g by (auto split: if_split_asm option.split_asm)
  then show ?thesis using that [of item] GetInstallation_found [OF g] by blast
qed

definition authorize_path :: "bool \<Rightarrow> string" where
  "authorize_path worker = (if worker then ''/internal/v1/app-installations/authorize-worker'' else ''/internal/v1/app-installations/authorize'')"

lemma ServeHTTP_authorize:
  assumes "hq_Path r = authorize_path worker"
  shows "ServeHTTP env r s = installationAccess env r s \<or> fst (fst (ServeHTTP env r s)) \<in> {400, 405, 500} \<and> snd (ServeHTTP env r s) = s"
proof -
  have r: "route_method (authorize_path worker) = Some ''POST''" "\<not> HasPrefix (authorize_path worker) ''/api/v1/proxies/''"
    "authorize_path worker \<noteq> ''/api/v1/proxies''" "authorize_path worker \<noteq> ''/internal/app-states/v1/stream''"
    by (cases worker; simp add: authorize_path_def route_method_def read_prefixes_def fixed_routes_def HasPrefix_def forwardRecoveryPath_def transitionPath_def)+
  have i: "serveInternal env r rid s = Some (installationAccess env r s)" for rid
    unfolding serveInternal_def Let_def assms by (cases worker) (simp_all add: authorize_path_def)
  show ?thesis unfolding ServeHTTP_def Let_def assms r i
    by (auto simp: r i failure_def split: option.split)
qed

text \<open>
  C12. A positive answer to an application about an installation is grounded in the current state.
  The sender is the registered application itself, the user is now an administrator of the
  organization, the installation is one of that organization on this station, of that application
  and installed, and its version is the one asked for unless the catalog manages the application by
  Helm (or, for a worker, the releases allow the version). The request changes nothing.
\<close>

theorem authorization_is_current:
  assumes "hq_Path r = authorize_path worker" and "ServeHTTP env r s = ((200, body), s')"
  shows "s' = s \<and> (\<exists>item user version callers ops. body = AuthorizedBody item user version worker \<and>
     gv_callers env = Some callers \<and> gv_ops env = Some ops \<and>
     map_of callers (gv_sha env (header_Get r ''Authorization'')) = Some (in_AppID item) \<and> length (header_Values r ''Authorization'') = 1 \<and>
     user = header_Get r ''X-User-Id'' \<and> in_OrganizationID item = header_Get r ''X-Organization-Id'' \<and>
     in_StationID item = is_StationID (gv_identity env) \<and> active_member env s True user (in_OrganizationID item) \<and>
     item \<in> set (d_installations (st_ops s)) \<and> in_State item = ''installed'' \<and>
     installation_request env r = Some (in_InstallationID item, version) \<and>
     (if worker then AuthorizeWorkerVersion (le_admission (gv_listing env)) (le_source (gv_listing env)) (gv_transitionReleases env) (gv_market env)
          (os_StationID ops) item version = None
      else in_AppVersion item = version \<or> (\<exists>m e. gv_market env = Some m \<and> find_entry (mk_entries m) (in_AppID item) = Some e \<and> e_Helm e \<noteq> None)))"
proof -
  have out: "installationAccess env r s = ((200, body), s')" using ServeHTTP_authorize [OF assms(1), of env s] assms(2) by auto
  have s': "s' = s" using installationAccess_same [of env r s] out by simp
  obtain callers ops app where c: "gv_callers env = Some callers" "gv_ops env = Some ops"
    "map_of callers (gv_sha env (header_Get r ''Authorization'')) = Some app" "length (header_Values r ''Authorization'') = 1"
    using out unfolding installationAccess_def Let_def by (auto simp: failure_def unavailable_def split: option.split_asm if_split_asm)
  obtain installation version where q: "installation_request env r = Some (installation, version)"
    using out unfolding installationAccess_def Let_def c by (auto simp: failure_def split: option.split_asm if_split_asm)
  let ?user = "header_Get r ''X-User-Id''" and ?org = "header_Get r ''X-Organization-Id''"
  let ?effect = "installation_effect env ops worker app ?user ?org installation version (st_ops s)"
  have w: "(hq_Path r = ''/internal/v1/app-installations/authorize-worker'') = worker" using assms(1) by (cases worker) (simp_all add: authorize_path_def)
  have refused: "failure e \<noteq> (200, b)" for e b
    by (cases e) (simp_all add: failure_def)
  obtain res item' releases where m: "WithManager (gv_identity env) (gv_down env) (gv_commitFails env) (gv_now env) ?user ?org ?effect (st_identity s) (None, False)
      = (res, item', releases)" by (metis prod.collapse)
  have answer: "res = None \<and> body = AuthorizedBody (the item') ?user version worker"
    using out unfolding installationAccess_def Let_def c q w m option.case prod.case
    by (cases res) (auto simp: refused unavailable_def split: if_split_asm)
  from withDelegated_success [OF m [unfolded WithManager_def conjunct1 [OF answer]]]
  have member: "active_member env s True ?user ?org" and eff: "?effect (None, False) = (None, item', releases)" by blast+
  from eff show ?thesis
    by (rule installation_effect_ok) (use s' c q member answer in auto)
qed

section \<open>Requests without credentials\<close>

definition anonymous :: "http_req \<Rightarrow> bool" where
  "anonymous r \<longleftrightarrow> header_Values r ''Authorization'' = [] \<and> header_Values r ''X-Bootstrap-Token'' = []"

text \<open>A reply that is an error or the state of a probe, from an unchanged station.\<close>

definition refused :: "station \<Rightarrow> response \<times> station \<Rightarrow> bool" where
  "refused s out \<longleftrightarrow>
     snd out = s \<and> (case snd (fst out) of NoBody \<Rightarrow> 400 \<le> fst (fst out) | Failed code \<Rightarrow> 400 \<le> fst (fst out) | ProbeBody x \<Rightarrow> True | _ \<Rightarrow> False)"

lemma refused_failed [simp]: "refused s (failure f, s)" "refused s (unavailable, s)" "refused s (not_found, s)" "refused s ((status, ProbeBody x), s)"
  "400 \<le> status \<Longrightarrow> refused s ((status, Failed code), s)" "400 \<le> status \<Longrightarrow> refused s ((status, NoBody), s)"
  by (simp_all add: refused_def failure_def unavailable_def not_found_def split: fault.split)

lemma anonymous_bearer: "anonymous r \<Longrightarrow> bearer r = []"
  by (simp add: anonymous_def bearer_def header_Get_def Fields_def)

lemma bearer_empty: "\<not> validBearerToken []"
  by (simp add: validBearerToken_def bearerTokenPattern_def)

lemmas anonymous_session = Me_malformed [OF bearer_empty]

lemma anonymous_delegated: "anonymous r \<Longrightarrow> delegatedApp sha svc access app r = Inl reply \<Longrightarrow> refused s (reply, s)"
  "anonymous r \<Longrightarrow> delegatedApp sha svc access app r \<noteq> Inr x"
  by (auto simp: delegatedApp_def anonymous_def Let_def split: option.split_asm option.split)

lemma anonymous_control: "anonymous r \<Longrightarrow> blenderControlCaller sha control r = Inl reply \<Longrightarrow> refused s (reply, s)"
  "anonymous r \<Longrightarrow> blenderControlCaller sha control r \<noteq> Inr x"
  by (auto simp: blenderControlCaller_def anonymous_def split: option.split_asm option.split)

lemma anonymous_bootstrap:
  "anonymous r \<Longrightarrow> \<not> requireBootstrapToken sha expected r"
  by (simp add: requireBootstrapToken_def anonymous_bearer Let_def) (simp add: anonymous_def header_Get_def)

lemma anonymous_internal:
  assumes "anonymous r"
  shows "refused s (installationAccess env r s)" "refused s (appAccess env r s)" "refused s (resourcesSnapshot env r s)"
    "refused s (internalResourcesWorkspaces env r rid s)" "refused s (internalResourcesReleaseWorkspace env r rid s)"
    "refused s (blenderAction env action r rid s)" "refused s (blenderOptions env r rid s)" "refused s (migrateAppNamespace env r s)"
    "refused s (serveCommand env r rid s)"
  using assms anonymous_delegated [OF assms] anonymous_control [OF assms] anonymous_bootstrap [OF assms]
  by (auto simp: installationAccess_def appAccess_def resourcesSnapshot_def internalResourcesWorkspaces_def internalResourcesReleaseWorkspace_def
      blenderAction_def blenderOptions_def migrateAppNamespace_def serveCommand_def anonymous_bearer anonymous_session Let_def
      split: sum.split option.split) (simp_all add: anonymous_def)

lemma anonymous_identity:
  assumes "anonymous r" "hq_Path r \<noteq> ''/identity/login''" "gv_sha env (gv_bootstrapToken env) = gv_sha env [] \<Longrightarrow> gv_bootstrapToken env = []"
  shows "refused s (serveIdentity env r rid s)"
proof -
  have "header_Get r ''X-Bootstrap-Token'' = []" using assms(1) by (simp add: anonymous_def header_Get_def)
  then show ?thesis using assms
    by (auto simp: serveIdentity_def anonymous_bearer session_reply_def Refresh_def Logout_def withSession_def bearer_empty)
qed

lemma anonymous_stream: "anonymous r \<Longrightarrow> refused s (serveStream env r s)"
  by (auto simp: serveStream_def CollectorHandler_ServeHTTP_def anonymous_def Let_def)

lemma anonymous_serveEgress: "anonymous r \<Longrightarrow> refused s (serveEgress env r rid s)"
  by (simp add: serveEgress_def anonymous_bearer anonymous_session)

lemma anonymous_serveInternal:
  assumes "anonymous r" "hq_Path r \<noteq> ''/identity/login''" "gv_sha env (gv_bootstrapToken env) = gv_sha env [] \<Longrightarrow> gv_bootstrapToken env = []"
    "serveInternal env r rid s = Some out"
  shows "refused s out"
  using assms(4) anonymous_identity [OF assms(1,2,3), where rid = rid and s = s] anonymous_internal [OF assms(1)]
  unfolding serveInternal_def Let_def by (auto split: if_split_asm)

lemma refused_if: "refused s x \<Longrightarrow> refused s y \<Longrightarrow> refused s (if b then x else y)"
  by simp

lemma refused_option: "refused s a \<Longrightarrow> (\<And>y. x = Some y \<Longrightarrow> refused s (f y)) \<Longrightarrow> refused s (case x of None \<Rightarrow> a | Some y \<Rightarrow> f y)"
  by (cases x) auto

text \<open>
  C14. A request without credentials gets nothing: whatever its path, method and body, unless it is a
  login, the station stays as it is and the reply is an error or the state of a probe. The hash of a
  bootstrap token must not be the hash of the empty string.
\<close>

theorem anonymous_gets_nothing:
  assumes "anonymous r" "hq_Path r \<noteq> ''/identity/login''" "gv_sha env (gv_bootstrapToken env) = gv_sha env [] \<Longrightarrow> gv_bootstrapToken env = []"
  shows "refused s (ServeHTTP env r s)"
  unfolding ServeHTTP_def Let_def anonymous_bearer [OF assms(1)] anonymous_session sum.case prod.case
  by (intro refused_option refused_if refused_failed anonymous_stream anonymous_serveEgress assms(1))
    (simp_all add: anonymous_serveInternal [OF assms])

end
