(* ===== verification/Gateway_Witnesses.thy ===== *)
theory Gateway_Witnesses
  imports Gateway_Properties App_Center_Properties Egress_Properties Egress_Probe_Properties Migration_Properties Collector_Stream_Properties
begin

text \<open>
  A concrete station behind the gateway, with one administrator, one installed application and the
  token of that application, on which the guarantees of \<open>Gateway_Properties\<close> apply.
\<close>

section \<open>The station\<close>

definition no_decoder :: "'a decoder" where
  "no_decoder = \<lparr>dc_allowed = [], dc_fields = (\<lambda>_. None), dc_typed = (\<lambda>_. None)\<rparr>"

definition no_json :: "'a json_lib" where
  "no_json = \<lparr>jl_utf8 = (\<lambda>_. True), jl_tokens = (\<lambda>_. ([], True)), jl_float = (\<lambda>_. True), jl_decode = (\<lambda>_. None), jl_marshal = (\<lambda>_. None),
     jl_unmarshal = (\<lambda>_. None)\<rparr>"

definition demo_asks :: "(string \<times> string) decoder" where
  "demo_asks = \<lparr>dc_allowed = [''installation_id'', ''app_version''], dc_fields = (\<lambda>_. Some [(''installation_id'', False), (''app_version'', False)]),
     dc_typed = (\<lambda>_. Some (''i'', ''1.0.0''))\<rparr>"

definition demo_decoders :: gateway_decoders where
  "demo_decoders = \<lparr>gd_command = no_decoder, gd_bootstrap = no_decoder, gd_login = no_decoder, gd_empty = no_decoder, gd_forward = no_decoder,
     gd_transition = no_decoder, gd_proxy = no_decoder, gd_app = no_decoder, gd_installation = demo_asks, gd_worker = no_decoder,
     gd_blender = (\<lambda>_. no_decoder), gd_release = no_decoder, gd_preinstalled = no_json,
     gd_appcenter = \<lparr>sl_json = no_json, sl_valid = (\<lambda>_ _. False), sl_unmarshal = (\<lambda>_. None)\<rparr>, gd_migration = (\<lambda>_. None)\<rparr>"

definition demo_station_service :: identity_service where
  "demo_station_service = demo_svc\<lparr>is_StationID := ''s''\<rparr>"

definition demo_gateway :: gateway_env where
  "demo_gateway = \<lparr>gv_newRequestID = Some ''q'', gv_id = (\<lambda>_. ''n''), gv_raw = [], gv_hash = None, gv_now = 5, gv_later = 6, gv_down = False, gv_fault = False,
     gv_commitFails = False, gv_migrated = True, gv_media = Some, gv_query = (\<lambda>_. (True, [])), gv_sha = id, gv_decoders = demo_decoders,
     gv_identity = demo_station_service, gv_bootstrapToken = ''bootstrap'', gv_access = None, gv_callers = Some [(''Bearer token'', ''a'')], gv_blender = None,
     gv_client = (\<lambda>_. None), gv_validJSON = (\<lambda>_. True), gv_profiles = (\<lambda>_. None), gv_workspaces = (\<lambda>_. None), gv_released = (\<lambda>_. None),
     gv_errorCode = (\<lambda>_. []), gv_releaseJSON = (\<lambda>_ _ _ _. []), gv_ops = Some (demo_lister\<lparr>os_uuid := is_uuid demo_svc\<rparr>), gv_opsPool = True,
     gv_dispatch = \<lparr>de_locked = True, de_read_fault = False, de_commit_fault = False, de_request = ''r'', de_now = 5, de_mid = (\<lambda>db. db)\<rparr>,
     gv_runtime = None, gv_listing = demo_listing, gv_market = None, gv_factsSize = (\<lambda>_. None),
     gv_registry = \<lparr>rv_OpenRoot = (\<lambda>_. None), rv_json = no_json, rv_sha256 = id\<rparr>, gv_releases = None, gv_transitionReleases = None,
     gv_migration = demo_migration_env, gv_egress = None, gv_probe = demo_probe_env, gv_prober = demo_prober, gv_meanwhile = [], gv_canceled = False,
     gv_states = None, gv_entries = None, gv_telemetry = None, gv_stream = demo_stream\<rparr>"

definition demo_installed_rows :: station_db where
  "demo_installed_rows = demo_rows\<lparr>d_installations := [\<lparr>in_InstallationID = ''i'', in_AppID = ''a'', in_AppVersion = ''1.0.0'', in_StationID = ''s'',
       in_OrganizationID = ''g'', in_State = ''installed'', in_Revision = 1, in_LastOperationID = [], in_CreatedAt = 0, in_UpdatedAt = 0\<rparr>]\<rparr>"

definition demo_gateway_station :: station where
  "demo_gateway_station = \<lparr>st_identity = demo_idb, st_ops = demo_installed_rows, st_egress = demo_egress_empty, st_states = demo_marks,
     st_tables = demo_migration_tables, st_memory = demo_no_memory, st_calls = []\<rparr>"

definition demo_post :: "string \<Rightarrow> (string \<times> string list) list \<Rightarrow> http_req" where
  "demo_post path header = \<lparr>hq_Method = ''POST'', hq_Path = path, hq_RawPath = [], hq_RawQuery = [], hq_ForceQuery = False, hq_Header = header,
     hq_Body = ''{}'', hq_BodyEnds = True, hq_ContentLength = 2, hq_TransferEncoding = []\<rparr>"

definition demo_authorize :: http_req where
  "demo_authorize = demo_post ''/internal/v1/app-installations/authorize''
     [(''Authorization'', [''Bearer token'']), (''X-User-Id'', [''u'']), (''X-Organization-Id'', [''g'']), (''X-Station-Id'', [''s'']),
      (''Content-Type'', [''application/json''])]"

section \<open>Witnesses\<close>

lemma demo_gateway_simps [simp]:
  "gv_newRequestID demo_gateway = Some ''q''" "gv_callers demo_gateway = Some [(''Bearer token'', ''a'')]" "gv_sha demo_gateway = id"
  "gv_ops demo_gateway = Some (demo_lister\<lparr>os_uuid := is_uuid demo_svc\<rparr>)" "gv_identity demo_gateway = demo_station_service"
  "gv_down demo_gateway = False" "gv_fault demo_gateway = False" "gv_commitFails demo_gateway = False" "gv_now demo_gateway = 5"
  "gv_media demo_gateway = Some" "gv_decoders demo_gateway = demo_decoders" "gv_bootstrapToken demo_gateway = ''bootstrap''"
  "is_StationID demo_station_service = ''s''" "is_uuid demo_station_service = is_uuid demo_svc" "gd_installation demo_decoders = demo_asks"
  by (simp_all add: demo_gateway_def demo_station_service_def demo_decoders_def)

lemma demo_header:
  "header_Values demo_authorize ''Authorization'' = [''Bearer token'']" "header_Values demo_authorize ''X-User-Id'' = [''u'']"
  "header_Values demo_authorize ''X-Organization-Id'' = [''g'']" "header_Values demo_authorize ''X-Station-Id'' = [''s'']"
  "header_Values demo_authorize ''Content-Type'' = [''application/json'']" "header_Values demo_authorize ''Content-Encoding'' = []"
  "header_Values demo_authorize ''X-Request-ID'' = []" "\<not> decorated demo_authorize" "hq_TransferEncoding demo_authorize = []"
  "hq_Path demo_authorize = ''/internal/v1/app-installations/authorize''" "hq_Method demo_authorize = ''POST''"
  by (simp_all add: header_Values_def decorated_def demo_authorize_def demo_post_def)

lemma demo_subjects: "subjects_ok (is_uuid demo_svc) demo_authorize"
  by (simp add: subjects_ok_def subject_headers_def canonicalSubject_def header_Get_def demo_header demo_svc_def)

lemma demo_asked: "decode Some demo_asks demo_authorize = Some (''i'', ''1.0.0'') \<and> plain_version ''1.0.0'' \<and> validUUIDv7 (is_uuid demo_svc) ''i''"
  by code_simp

lemma demo_effect:
  "installation_effect demo_gateway (demo_lister\<lparr>os_uuid := is_uuid demo_svc\<rparr>) False ''a'' ''u'' ''g'' ''i'' ''1.0.0'' demo_installed_rows w =
     (None, Some (hd (d_installations demo_installed_rows)), False)"
  using demo_asked
  by (simp add: installation_effect_def delegated_actor_def canReadInstallations_def GetInstallation_def find_installation_def demo_lister_def
      demo_installed_rows_def)

lemma demo_with_manager:
  "effect w = (None, w') \<Longrightarrow> WithManager demo_station_service False False 5 ''u'' ''g'' effect demo_idb w = (None, w')"
  by (simp add: WithManager_def withDelegatedMember_def delegation_id_def demo_station_service_def demo_svc_def demo_idb_def Identity_Properties.demo_user_def
      member_join_def locked_at_def)

lemma demo_authorized:
  "installationAccess demo_gateway demo_authorize demo_gateway_station =
     ((200, AuthorizedBody (hd (d_installations demo_installed_rows)) ''u'' ''1.0.0'' False), demo_gateway_station)"
proof -
  have db: "st_identity demo_gateway_station = demo_idb" "st_ops demo_gateway_station = demo_installed_rows"
    by (simp_all add: demo_gateway_station_def)
  have "installation_request demo_gateway demo_authorize = Some (''i'', ''1.0.0'')"
    using demo_asked by (simp add: installation_request_def demo_header)
  then show ?thesis
    by (simp add: installationAccess_def Let_def header_Get_def demo_header demo_subjects db demo_with_manager [OF demo_effect])
qed

lemma demo_routed: "ServeHTTP demo_gateway demo_authorize s = installationAccess demo_gateway demo_authorize s"
proof -
  have "serveInternal demo_gateway demo_authorize ''q'' s = Some (installationAccess demo_gateway demo_authorize s)"
    by (simp add: serveInternal_def Let_def demo_header)
  moreover have "route_method ''/internal/v1/app-installations/authorize'' = Some ''POST''"
    by (simp add: route_method_def read_prefixes_def fixed_routes_def HasPrefix_def forwardRecoveryPath_def transitionPath_def)
  ultimately show ?thesis by (simp add: ServeHTTP_def header_Get_def demo_header HasPrefix_def)
qed

text \<open>The application with the token is told about its installation, and nobody else.\<close>

theorem authorization_is_current_witness:
  "\<exists>item. fst (ServeHTTP demo_gateway demo_authorize demo_gateway_station) = (200, AuthorizedBody item ''u'' ''1.0.0'' False) \<and>
     in_AppID item = ''a'' \<and> active_member demo_gateway demo_gateway_station True ''u'' (in_OrganizationID item)"
proof -
  have out: "ServeHTTP demo_gateway demo_authorize demo_gateway_station =
      ((200, AuthorizedBody (hd (d_installations demo_installed_rows)) ''u'' ''1.0.0'' False), demo_gateway_station)"
    using demo_routed demo_authorized by simp
  have path: "hq_Path demo_authorize = authorize_path False" by (simp add: demo_header authorize_path_def)
  from authorization_is_current [OF path out] show ?thesis
    by (auto simp: out demo_header header_Get_def)
qed

text \<open>The same request without its header.\<close>

theorem anonymous_gets_nothing_witness:
  "refused demo_gateway_station (ServeHTTP demo_gateway (demo_post ''/internal/v1/app-installations/authorize'' []) demo_gateway_station)"
  by (rule anonymous_gets_nothing) (simp_all add: anonymous_def header_Values_def demo_post_def)

end
