(* ===== verification/Spec2Isabelle.thy ===== *)
theory Spec2Isabelle
  imports
    Memory_Properties
    Versions
    Identity_Properties
    App_Dispatch
    Ops_Witnesses
    Strict_JSON
    Release_Registry
    Migrations
    Egress_Properties
    App_Facts_Properties
    Market_Properties
    Transition_Releases_Properties
    App_Admission_Properties
    State_Catalog_Properties
    App_Center_Properties
    State_Store_Properties
    Migration_Properties
    Egress_Probe_Properties
    Collector_Stream_Properties
    Gateway_Properties
    Gateway_Witnesses
begin

text \<open>
  \<^bold>\<open>Station Core.\<close> Station Core is the control plane of one station: it authenticates people and
  agents, accepts and drives changes of installed applications through a Runtime, keeps an
  in-memory picture of what the cluster's collectors report, manages egress proxies and the catalog
  of applications, and serves all of it over one HTTP gateway. The program is Go with a PostgreSQL
  database; this development models its decisions as functions on explicit states, one theory per
  component, and proves what they promise each other.

  \<^bold>\<open>Shared vocabulary.\<close>
  \<^item> \<open>Station_Prelude\<close>: times, durations, Go maps as association lists, loops with a seen set,
    rows of tables, transactions (\<open>transact\<close>: a body that ends in an error leaves the database as
    it was) and the locales \<open>handler\<close> and \<open>invariant_handler\<close>, reachable states and invariants of a
    component that handles one event at a time.
  \<^item> \<open>Go_Strings\<close>: the string functions of Go's library the code uses, byte by byte: splitting,
    trimming, \<open>Atoi\<close>, runes and UTF-8, character patterns, unpadded base64.

  \<^bold>\<open>Observation memory and states\<close> (\<^verbatim>\<open>internal/appstate\<close>).
  \<^item> \<open>AppState_Eval\<close>: the wire types and their validation, the evaluation of a workload and the
    runtime view. \<open>Memory\<close>: sessions, staging, publication, bindings and projections.
  \<^item> \<open>Memory_Steps\<close>, \<open>Memory_Invariants\<close>, \<open>Memory_Properties\<close>: the invariant of every reachable
    memory, exclusive sessions, privacy of staging, freshness and isolation of the views.
  \<^item> \<open>Collector_Stream\<close> (\<^verbatim>\<open>collector_http.go\<close>, \<^verbatim>\<open>stream_http.go\<close>): the registry of collectors, the
    admission of one stream and its loop over frames, pings and timeouts. \<open>Collector_Stream_Properties\<close>:
    collectors are kept apart, and a stream acts as the one collector whose token it carries.
  \<^item> \<open>State_Catalog\<close> (\<^verbatim>\<open>legacy.go\<close>, \<^verbatim>\<open>catalog.go\<close>, \<^verbatim>\<open>preinstalled.go\<close>): workloads of earlier
    installations, the catalog joined with the views, and what may be offered for a preinstalled release.
  \<^item> \<open>State_Store\<close> (\<^verbatim>\<open>store.go\<close>, \<^verbatim>\<open>notifications.go\<close>): the persistent revisions, the snapshot of an
    organization, the synchronisation of the catalog, and the publisher of notifications.

  \<^bold>\<open>Identity\<close> (\<^verbatim>\<open>internal/identity\<close>).
  \<^item> \<open>Identity\<close>: bootstrap, login with lockout, sessions, refresh, logout, MCP credentials and
    delegation over the identity tables. \<open>Identity_Properties\<close>: the invariant of the tables, when a
    token authenticates, finality of logout, lockout, no takeover of credentials.

  \<^bold>\<open>Versions\<close> (\<^verbatim>\<open>internal/appcenter/version.go\<close>, \<^verbatim>\<open>internal/operations/transitions.go\<close>).
  \<^item> \<open>Versions\<close>: the SemVer order of offered upgrades and the comparison of transition versions,
    with their equivalence to numeric orders.

  \<^bold>\<open>Operations\<close> (\<^verbatim>\<open>internal/operations\<close>). One database, the record \<open>station_db\<close>, with installations,
  application operations, version transitions, forward recoveries and the audit trail.
  \<^item> \<open>Ops_Types\<close>: the data and its validation. \<open>App_Operations\<close>: submission of operations in its
    three forms, installations, preinstalled releases. \<open>App_Dispatch\<close>: one dispatch of an operation
    to the Runtime. \<open>Transitions\<close>: acceptance and dispatch of version transitions, the commit
    of one durable barrier, scheduling and the transport checks. \<open>Forward_Recovery\<close>: acceptance
    and completion of forward recoveries.
  \<^item> \<open>Ops_Invariants\<close>: the invariant of the database, that every request keeps it, and how rows
    evolve; the locale \<open>rely_guarantee\<close> turns the steps of single requests, between which others
    may run, into statements about every interleaving. \<open>Ops_Properties\<close>: exclusive claims and the
    position of active transitions. \<open>Ops_Records\<close>: finality of history, from finished rows over
    forward recoveries to the bindings and inputs of operations.
  \<^item> \<open>Ops_Refinement\<close>: the abstract machine of a transition, the relation \<open>tstep\<close>, and the
    simulation of every request by it. \<open>Ops_Progress\<close>: liveness with a cooperative Runtime, the
    effect and the outcome of one dispatch, idempotent submission, forward recovery.
    \<open>Ops_Witnesses\<close>: a concrete station on which these statements apply.
  \<^item> \<open>Transition_Releases\<close> (\<^verbatim>\<open>transition_releases.go\<close>, \<^verbatim>\<open>dashboard_releases.go\<close>,
    \<^verbatim>\<open>dashboard_transition.go\<close>, \<^verbatim>\<open>dashboard_video_components.go\<close>): the registered releases a transition may
    start from. \<open>Transition_Releases_Properties\<close>: what is read is registered, complete and untampered.
  \<^item> \<open>Namespace_Migration\<close> (\<^verbatim>\<open>namespace_migration.go\<close>): one transaction over the workspaces and
    executions of an application. \<open>Migration_Rewriting\<close>, \<open>Migration_Tables\<close> and \<open>Migration_Properties\<close>: it is the set-oriented
    update it stands for, and a repetition, under the conditions stated, changes \<open>updated_at\<close> only.

  \<^bold>\<open>Strict JSON\<close> (\<^verbatim>\<open>internal/strictjson\<close>).
  \<^item> \<open>Strict_JSON\<close>: the scan of a token stream, the comparison of shapes and both readers, with
    termination and an exact description of the accepted texts.

  \<^bold>\<open>Trusted releases\<close> (\<^verbatim>\<open>internal/releasebinding\<close>) and \<^bold>\<open>schema migrations\<close> (\<^verbatim>\<open>migrations\<close>).
  \<^item> \<open>Release_Registry\<close>: loading and checking the mounted registry; when a binding is verified.
  \<^item> \<open>Migrations\<close>: the recorded history as a prefix of the embedded scripts, \<open>Apply\<close> and \<open>Check\<close>.

  \<^bold>\<open>Egress proxies\<close> (\<^verbatim>\<open>internal/egress\<close>).
  \<^item> \<open>Egress\<close>: input normalisation, sealed credentials, optimistic revisions and the three
    statements of a probe. \<open>Egress_Properties\<close>: every request changes the table in one of four ways
    (\<open>change\<close>); from this follow the invariant, that updates are not lost and that no stale probe
    result is recorded, the round trip of credentials, and one defect (ids in another spelling).
  \<^item> \<open>Egress_Probe\<close> (\<^verbatim>\<open>probe.go\<close>): which addresses are public, the dialers behind the transport
    (direct to the pinned address, or SOCKS over it), the samples and observations made over them.
    \<open>Egress_Probe_Properties\<close>: a run depends on the network through connections to the checked
    address only; results are consistent.

  \<^bold>\<open>Catalog and AppCenter\<close> (\<^verbatim>\<open>internal/catalog\<close>, \<^verbatim>\<open>internal/appcenter/facts.go\<close>,
  \<^verbatim>\<open>internal/operations/appcenter*.go\<close>).
  \<^item> \<open>Catalog\<close>: registered entries, what a Deployment says of an application, discovery, the
    readers and the projection of ownership. \<open>App_Facts\<close>: the cards shown to one user.
    \<open>App_Facts_Properties\<close>: the cards do not depend on foreign workloads beyond their presence at
    the user's applications; their bounds, their revision.
  \<^item> \<open>Market\<close>: the refresh from Control, the caches of looked-up versions, the cache file, Helm
    releases and the grant to install. A lookup is two locked sections with a request in between;
    \<open>fetchMarketVersion\<close> is their composition without overlap, and the relation \<open>market_step\<close> has all
    interleavings. \<open>Market_Properties\<close>: what a refresh publishes is verified; a version is
    immutable once no lookup of it is under way, while overlapping lookups may replace it.
  \<^item> \<open>App_Admission\<close>: operator policies, the resolution of a command and its live preflight, the
    candidates of a card. \<open>App_Admission_Properties\<close>: what an admitted command is bound to.
  \<^item> \<open>App_Center\<close>: the whole listing from database, memory and catalog. \<open>App_Center_Properties\<close>: it
    shows only workloads of the user's own organization.

  \<^bold>\<open>HTTP gateway\<close> (\<^verbatim>\<open>internal/gateway\<close>). One state, the record \<open>station\<close>, with the tables of all
  services, the memory and the calls made over the HTTP client of the instance Runtime. The gRPC
  client of the Runtime is a function of the environment.
  \<^item> \<open>Http\<close>: requests. \<open>Gateway_Access\<close>: replies, readers of bodies, and the credentials of
    applications, installations, the Blender control and the bootstrap. \<open>Gateway_Runtime\<close>: the
    environment of a request and the handlers that call the Runtime. \<open>Gateway\<close>: all other handlers and
    the routing, down to \<open>ServeHTTP\<close>.
  \<^item> \<open>Gateway_Grpc\<close>: which requests the answers of the gRPC client can influence.
  \<^item> \<open>Gateway_Properties\<close>: over every route, who may change which tables and use the Runtime, what a
    positive answer to an application means, and that a request without credentials gets nothing.
    \<open>Gateway_Witnesses\<close>: a concrete station behind the gateway.

  \<^bold>\<open>How the parts meet.\<close> A request enters through \<open>ServeHTTP\<close>; the identity context \<open>Me\<close> gives goes
  into every call of operations, egress, states and facts. Bindings of releases are verified by the
  registry before operations store them, commands of the AppCenter are admitted on the cards the
  listing shows, and the facts read the catalog snapshot and the rows of operations. Collectors
  change the memory through their streams; the states and the facts read it.

  \<^bold>\<open>Parameters.\<close> Cryptography (SHA-256, bcrypt, AES-GCM), JSON and YAML decoding and the AppCenter
  schemas, UUID, media type, query and address parsing, clocks, random values, HTTP clients, DNS and
  TLS, the Runtime, Kubernetes, the file system, and errors of the database at any statement are
  arguments. What a statement relies on of them is a named hypothesis (\<open>opens_sealed\<close>,
  \<open>authenticates\<close>, \<open>reads_back\<close>, \<open>keeps_history\<close>, \<open>tables_ok\<close>), with an instance that has it.

  \<^bold>\<open>Fuel and bounds.\<close> The scan of JSON has fuel \<open>2 * n + 1\<close> for \<open>n\<close> tokens, enough by
  \<open>scan_terminates\<close>; all other loops recurse structurally or have a termination proof. Integers keep
  the range of their Go or SQL type where they are incremented (\<open>bump\<close>, \<open>wrap64\<close>, 64-bit revisions
  of the memory).

  \<^bold>\<open>Not modelled.\<close> Telemetry (\<^verbatim>\<open>internal/telemetry\<close>) sums figures of Prometheus, kubelet and
  Kubernetes in floating point for display only; the gateway takes its answers as given. Process
  wiring and configuration (\<^verbatim>\<open>cmd/station-core\<close>, \<^verbatim>\<open>internal/config\<close>), the ticker loops that call the
  modelled steps, generated code and the test database are input and output. Of HTTP, response
  headers, the texts of messages, deadlines and logs are left out. A request to the gateway runs as
  one step: concurrency is modelled inside the components, by the interleavings of
  \<open>Ops_Invariants\<close>, the events of the memory, the phases of a probe and the sections of
  \<open>market_step\<close>. The market of a request is a given value; what a lookup adds to its caches is
  stated in \<open>Market_Properties\<close>.
\<close>

end
